(* ===== verification/OIS_Prelude.thy ===== *)
theory OIS_Prelude
  imports Complex_Main "HOL-Library.AList" "HOL-Library.Char_ord" "HOL-Library.List_Lexorder"
    "HOL-Library.Monad_Syntax"
begin

text \<open>
  Shared vocabulary of the development: Python values, ordered dictionaries, exceptions as
  values, and the exception-state computations in which the kernel's handlers are written.

  \<^item> A Python value that crosses a JSON boundary is a \<open>pyval\<close>. A float is the rational number it
    denotes (every finite binary64 is rational); strings are \<open>char list\<close>.
  \<^item> A Python dict with string keys is an association list in insertion order, updated by
    \<open>AList.update\<close> (in place when the key is present, appended otherwise), which is the
    behaviour of CPython dicts.
  \<^item> An exception is its class and its message.
  \<^item> A handler is a computation \<open>'s \<Rightarrow> (py_exn + 'a) \<times> 's\<close>: the state survives a raise, as the
    mutations made before a Python \<open>raise\<close> do.
  \<^item> \<open>utc_now()\<close> and \<open>uuid4()\<close> read an environment (\<open>clock\<close>, \<open>fresh_uuid\<close>) at a counter.
\<close>

named_theorems em_simps "evaluation of exception-state computations"

section \<open>Python values\<close>

datatype pyval =
    PNone
  | PBool bool
  | PInt int
  | PFloat rat
  | PStr string
  | PList "pyval list"
  | PTuple "pyval list"
  | PDict "(string \<times> pyval) list"

type_synonym pydict = "(string \<times> pyval) list"
type_synonym uuid = string
type_synonym timestamp = int

text \<open>Python's \<open>==\<close>: numbers compare across bool, int and float; dicts ignore order.\<close>

primrec py_norm :: "pyval \<Rightarrow> pyval" where
  "py_norm PNone = PNone"
| "py_norm (PBool b) = PFloat (if b then 1 else 0)"
| "py_norm (PInt i) = PFloat (of_int i)"
| "py_norm (PFloat r) = PFloat r"
| "py_norm (PStr s) = PStr s"
| "py_norm (PList vs) = PList (map py_norm vs)"
| "py_norm (PTuple vs) = PTuple (map py_norm vs)"
| "py_norm (PDict kvs) = PDict (sort_key fst (map (map_prod id py_norm) kvs))"

definition py_eq :: "pyval \<Rightarrow> pyval \<Rightarrow> bool" where
  "py_eq a b \<longleftrightarrow> py_norm a = py_norm b"

lemma py_eq_refl [simp]: "py_eq a a"
  by (simp add: py_eq_def)

lemma py_eq_PStr [simp]: "py_eq (PStr a) (PStr b) \<longleftrightarrow> a = b"
  by (simp add: py_eq_def)

text \<open>\<open>bool(v)\<close>: the truth value Python gives a value in a condition.\<close>

fun py_truthy :: "pyval \<Rightarrow> bool" where
  "py_truthy PNone = False"
| "py_truthy (PBool b) = b"
| "py_truthy (PInt i) = (i \<noteq> 0)"
| "py_truthy (PFloat r) = (r \<noteq> 0)"
| "py_truthy (PStr s) = (s \<noteq> [])"
| "py_truthy (PList vs) = (vs \<noteq> [])"
| "py_truthy (PTuple vs) = (vs \<noteq> [])"
| "py_truthy (PDict kvs) = (kvs \<noteq> [])"

text \<open>\<open>type(v).__name__\<close>.\<close>

fun py_type_name :: "pyval \<Rightarrow> string" where
  "py_type_name PNone = ''NoneType''"
| "py_type_name (PBool b) = ''bool''"
| "py_type_name (PInt i) = ''int''"
| "py_type_name (PFloat r) = ''float''"
| "py_type_name (PStr s) = ''str''"
| "py_type_name (PList vs) = ''list''"
| "py_type_name (PTuple vs) = ''tuple''"
| "py_type_name (PDict kvs) = ''dict''"

text \<open>
  What \<open>json.loads (json.dumps v, sort_keys=True)\<close> gives back: tuples come back as lists and keys
  come back sorted. A JSON text is identified with the canonical value it denotes, so
  \<open>json_dumps\<close> is injective on what it can tell apart and \<open>json_loads\<close> is its inverse.
\<close>

primrec json_canon :: "pyval \<Rightarrow> pyval" where
  "json_canon PNone = PNone"
| "json_canon (PBool b) = PBool b"
| "json_canon (PInt i) = PInt i"
| "json_canon (PFloat r) = PFloat r"
| "json_canon (PStr s) = PStr s"
| "json_canon (PList vs) = PList (map json_canon vs)"
| "json_canon (PTuple vs) = PList (map json_canon vs)"
| "json_canon (PDict kvs) = PDict (sort_key fst (map (map_prod id json_canon) kvs))"

datatype json_text = JsonText pyval

definition json_dumps :: "pyval \<Rightarrow> json_text" where
  "json_dumps v = JsonText (json_canon v)"

fun json_loads :: "json_text \<Rightarrow> pyval" where
  "json_loads (JsonText v) = v"

lemma json_loads_dumps [simp]: "json_loads (json_dumps v) = json_canon v"
  by (simp add: json_dumps_def)

text \<open>White space of \<open>str.strip()\<close> (code points up to 255).\<close>

definition py_space :: "char \<Rightarrow> bool" where
  "py_space c \<longleftrightarrow> (let n = of_char c :: nat in
     n = 32 \<or> (9 \<le> n \<and> n \<le> 13) \<or> (28 \<le> n \<and> n \<le> 31) \<or> n = 133 \<or> n = 160)"

definition py_blank :: "string \<Rightarrow> bool" where
  "py_blank s \<longleftrightarrow> list_all py_space s"

lemma py_blank_Nil [simp]: "py_blank []"
  by (simp add: py_blank_def)

text \<open>\<open>sep.join(parts)\<close>.\<close>

fun py_join :: "string \<Rightarrow> string list \<Rightarrow> string" where
  "py_join sep [] = []"
| "py_join sep [x] = x"
| "py_join sep (x # y # zs) = x @ sep @ py_join sep (y # zs)"

lemma py_join_eq_Nil: "sep \<noteq> [] \<Longrightarrow> py_join sep xs = [] \<longleftrightarrow> xs = [] \<or> xs = [[]]"
  by (induction sep xs rule: py_join.induct) auto

text \<open>\<open>str(n)\<close> of an integer.\<close>

fun nat_str :: "nat \<Rightarrow> string" where
  "nat_str n = (if n < 10 then [char_of (48 + n)] else nat_str (n div 10) @ [char_of (48 + n mod 10)])"

declare nat_str.simps [simp del]

definition int_str :: "int \<Rightarrow> string" where
  "int_str i = (if i < 0 then ''-'' @ nat_str (nat (- i)) else nat_str (nat i))"

section \<open>Dictionaries\<close>

lemma map_of_update [simp]: "map_of (AList.update k v d) = (map_of d)(k \<mapsto> v)"
  by (rule update_conv')

lemma map_of_delete [simp]: "map_of (AList.delete k d) = (map_of d)(k := None)"
  by (rule delete_conv')

lemma distinct_keys_update [simp]:
  "distinct (map fst d) \<Longrightarrow> distinct (map fst (AList.update k v d))"
  by (rule distinct_update)

lemma update_append_new:
  "map_of d k = None \<Longrightarrow> AList.update k v d = d @ [(k, v)]"
  by (induction d) (auto split: if_splits)

lemma map_of_None_iff: "map_of d k = None \<longleftrightarrow> k \<notin> fst ` set d"
  by (rule map_of_eq_None_iff)

lemma map_of_sort_key:
  assumes "distinct (map fst d)"
  shows "map_of (sort_key fst d) = map_of (d :: ('k::linorder \<times> 'v) list)"
proof (rule map_of_eqI)
  have "distinct (map fst (sort_key fst d))"
    using assms by (metis distinct_map distinct_sort set_sort)
  moreover have "set (map fst (sort_key fst d)) = set (map fst d)" by simp
  ultimately show "set (map fst (sort_key fst d)) = set (map fst d)" by simp
  show "\<forall>k\<in>set (map fst (sort_key fst d)). map_of (sort_key fst d) k = map_of d k"
  proof
    fix k assume "k \<in> set (map fst (sort_key fst d))"
    then obtain v where v: "(k, v) \<in> set d" by auto
    then have "map_of d k = Some v" using assms by (rule map_of_is_SomeI [rotated])
    moreover have "map_of (sort_key fst d) k = Some v"
      using v \<open>distinct (map fst (sort_key fst d))\<close> by (intro map_of_is_SomeI) auto
    ultimately show "map_of (sort_key fst d) k = map_of d k" by simp
  qed
qed

lemma map_of_map_value: "map_of (map (\<lambda>(k, v). (k, f k v)) d) x = map_option (f x) (map_of d x)"
  by (induction d) auto

lemma insort_key_map_prod:
  "insort_key fst (map_prod id f x) (map (map_prod id f) xs) = map (map_prod id f) (insort_key fst x xs)"
  by (induction xs) auto

lemma sort_key_map_prod:
  "sort_key fst (map (map_prod id f) xs) = map (map_prod id f) (sort_key fst xs)"
  by (induction xs) (simp_all add: insort_key_map_prod [unfolded id_def] id_def)

lemma sort_key_idem [simp]: "sort_key f (sort_key f xs) = sort_key f xs"
  by (rule sort_key_id_if_sorted) (rule sorted_sort_key)

text \<open>Canonical JSON is canonical: a second trip through JSON changes nothing.\<close>

lemma json_canon_idem [simp]: "json_canon (json_canon v) = json_canon v"
proof (induction v)
  case (PDict kvs)
  then have "map (map_prod id json_canon) (map (map_prod id json_canon) kvs) = map (map_prod id json_canon) kvs"
    by (auto simp: snds.simps)
  then show ?case
    by (simp only: json_canon.simps sort_key_map_prod [symmetric] sort_key_idem)
qed auto

section \<open>Exceptions\<close>

text \<open>
  The exception classes the modelled code raises or catches. \<open>exn_parents\<close> is the part of the
  class hierarchy that an \<open>except\<close> clause or \<open>str(exc)\<close> depends on.
\<close>

datatype exn_class =
    ValueError | KeyError | TypeError | AttributeError | RuntimeError | PermissionError
  | OverflowError
  | AuthorizationDenied | InputValidationError | OutputValidationError
  | DuplicateCapabilityError | CapabilityNotFoundError | RegistryError
  | AgentRoutingError | AmbiguousAgentError | AgentSelectionError | SupervisorError
  | ExecutionCancellation | ExecutionAlreadyCompleted | ExecutionError
  | CheckpointNotFound | CheckpointError | FencingError
  | PlanError | DuplicateTaskError | UnknownDependencyError | CyclicPlanError
  | PlanExecutionError | TenantContextError | PromotionBlocked | ActivationError
  | AuthorizationError
  | OtherException string

datatype py_exn = Exn (exn_class: exn_class) (exn_message: string)

fun exn_name :: "exn_class \<Rightarrow> string" where
  "exn_name ValueError = ''ValueError''"
| "exn_name KeyError = ''KeyError''"
| "exn_name TypeError = ''TypeError''"
| "exn_name AttributeError = ''AttributeError''"
| "exn_name RuntimeError = ''RuntimeError''"
| "exn_name PermissionError = ''PermissionError''"
| "exn_name OverflowError = ''OverflowError''"
| "exn_name AuthorizationDenied = ''AuthorizationDenied''"
| "exn_name InputValidationError = ''InputValidationError''"
| "exn_name OutputValidationError = ''OutputValidationError''"
| "exn_name DuplicateCapabilityError = ''DuplicateCapabilityError''"
| "exn_name CapabilityNotFoundError = ''CapabilityNotFoundError''"
| "exn_name RegistryError = ''RegistryError''"
| "exn_name AgentRoutingError = ''AgentRoutingError''"
| "exn_name AmbiguousAgentError = ''AmbiguousAgentError''"
| "exn_name AgentSelectionError = ''AgentSelectionError''"
| "exn_name SupervisorError = ''SupervisorError''"
| "exn_name ExecutionCancellation = ''ExecutionCancellation''"
| "exn_name ExecutionAlreadyCompleted = ''ExecutionAlreadyCompleted''"
| "exn_name ExecutionError = ''ExecutionError''"
| "exn_name CheckpointNotFound = ''CheckpointNotFound''"
| "exn_name CheckpointError = ''CheckpointError''"
| "exn_name FencingError = ''FencingError''"
| "exn_name PlanError = ''PlanError''"
| "exn_name DuplicateTaskError = ''DuplicateTaskError''"
| "exn_name UnknownDependencyError = ''UnknownDependencyError''"
| "exn_name CyclicPlanError = ''CyclicPlanError''"
| "exn_name PlanExecutionError = ''PlanExecutionError''"
| "exn_name TenantContextError = ''TenantContextError''"
| "exn_name PromotionBlocked = ''PromotionBlocked''"
| "exn_name ActivationError = ''ActivationError''"
| "exn_name AuthorizationError = ''AuthorizationError''"
| "exn_name (OtherException n) = n"

text \<open>\<open>except (AuthorizationDenied, PermissionError)\<close>: \<open>AuthorizationError\<close> is a \<open>PermissionError\<close>.\<close>

definition is_permission_error :: "exn_class \<Rightarrow> bool" where
  "is_permission_error c \<longleftrightarrow> c \<in> {PermissionError, AuthorizationError}"

text \<open>\<open>except AgentRoutingError\<close>: \<open>AmbiguousAgentError\<close> is a subclass.\<close>

definition is_routing_error :: "exn_class \<Rightarrow> bool" where
  "is_routing_error c \<longleftrightarrow> c \<in> {AgentRoutingError, AmbiguousAgentError}"

text \<open>
  \<open>repr\<close> of a string (printable code points up to 255): quotes are chosen and escaped as CPython
  does. \<open>str\<close> of a \<open>KeyError\<close> with one argument is the \<open>repr\<close> of that argument.
\<close>

definition py_repr_char :: "char \<Rightarrow> char \<Rightarrow> string" where
  "py_repr_char q c =
     (if c = q \<or> c = CHR 0x5C then [CHR 0x5C, c]
      else if c = CHR 0x0A then [CHR 0x5C, CHR ''n'']
      else if c = CHR 0x0D then [CHR 0x5C, CHR ''r'']
      else if c = CHR 0x09 then [CHR 0x5C, CHR ''t'']
      else [c])"

definition py_repr_str :: "string \<Rightarrow> string" where
  "py_repr_str s =
     (let q = (if CHR 0x27 \<in> set s \<and> CHR 0x22 \<notin> set s then CHR 0x22 else CHR 0x27)
      in [q] @ concat (map (py_repr_char q) s) @ [q])"

definition exn_str :: "py_exn \<Rightarrow> string" where
  "exn_str e = (if exn_class e \<in> {KeyError, CapabilityNotFoundError}
                then py_repr_str (exn_message e) else exn_message e)"

text \<open>The \<open>AttributeError\<close> of reading a missing attribute.\<close>

definition no_attribute :: "string \<Rightarrow> string \<Rightarrow> py_exn" where
  "no_attribute tname attr =
     Exn AttributeError ([CHR 0x27] @ tname @ [CHR 0x27] @ '' object has no attribute ''
                         @ [CHR 0x27] @ attr @ [CHR 0x27])"

section \<open>Runs of a labelled step relation\<close>

inductive run_of :: "('s \<Rightarrow> 'l \<Rightarrow> 's \<Rightarrow> bool) \<Rightarrow> 's \<Rightarrow> 'l list \<Rightarrow> 's \<Rightarrow> bool" for step where
  run_nil: "run_of step s [] s"
| run_cons: "step s l s1 \<Longrightarrow> run_of step s1 ls s2 \<Longrightarrow> run_of step s (l # ls) s2"

inductive_simps run_of_Nil: "run_of step s [] s'"
inductive_simps run_of_Cons: "run_of step s (l # ls) s'"

text \<open>An invariant of the steps is kept by a run, and every label satisfies what its step guarantees.\<close>

lemma run_of_invariant:
  assumes "run_of step s ls s'" and "I s"
    and "\<And>s l s'. l \<in> set ls \<Longrightarrow> step s l s' \<Longrightarrow> I s \<Longrightarrow> I s' \<and> Q l"
  shows "I s' \<and> (\<forall>l\<in>set ls. Q l)"
  using assms
proof (induction rule: run_of.induct)
  case (run_nil s)
  then show ?case by simp
next
  case (run_cons s l s1 ls s2)
  have "I s1 \<and> Q l" using run_cons.prems run_cons.hyps(1) by (meson list.set_intros(1))
  moreover have "I s2 \<and> (\<forall>l\<in>set ls. Q l)"
    using calculation run_cons.prems(2) by (intro run_cons.IH) auto
  ultimately show ?case by simp
qed

section \<open>Fallible pure code\<close>

text \<open>A pure step that may raise, followed by the rest of the function.\<close>

fun rbind :: "py_exn + 'a \<Rightarrow> ('a \<Rightarrow> py_exn + 'b) \<Rightarrow> py_exn + 'b" where
  "rbind (Inl e) f = Inl e"
| "rbind (Inr x) f = f x"

lemma rbind_Inr: "rbind m f = Inr y \<longleftrightarrow> (\<exists>x. m = Inr x \<and> f x = Inr y)"
  by (cases m) auto

lemma rbind_Inl: "rbind m f = Inl e \<longleftrightarrow> m = Inl e \<or> (\<exists>x. m = Inr x \<and> f x = Inl e)"
  by (cases m) auto

definition check :: "bool \<Rightarrow> exn_class \<Rightarrow> string \<Rightarrow> py_exn + unit" where
  "check ok c m = (if ok then Inr () else Inl (Exn c m))"

lemma check_Inr [simp]: "check ok c m = Inr u \<longleftrightarrow> ok"
  by (simp add: check_def)

lemma check_Inl [simp]: "check ok c m = Inl e \<longleftrightarrow> \<not> ok \<and> e = Exn c m"
  by (auto simp: check_def)

section \<open>Exception-state computations\<close>

type_synonym ('s, 'a) em = "'s \<Rightarrow> (py_exn + 'a) \<times> 's"

definition eret :: "'a \<Rightarrow> ('s, 'a) em" where
  "eret x = (\<lambda>s. (Inr x, s))"

definition eraise :: "py_exn \<Rightarrow> ('s, 'a) em" where
  "eraise e = (\<lambda>s. (Inl e, s))"

definition ebind :: "('s, 'a) em \<Rightarrow> ('a \<Rightarrow> ('s, 'b) em) \<Rightarrow> ('s, 'b) em" where
  "ebind m k = (\<lambda>s. case m s of (Inl e, s') \<Rightarrow> (Inl e, s') | (Inr x, s') \<Rightarrow> k x s')"

definition eseq :: "('s, 'a) em \<Rightarrow> ('s, 'b) em \<Rightarrow> ('s, 'b) em" where
  "eseq m n = ebind m (\<lambda>_. n)"

text \<open>\<open>try: m; except ...: h\<close> where \<open>h\<close> re-raises what its clauses do not name.\<close>

definition etry :: "('s, 'a) em \<Rightarrow> (py_exn \<Rightarrow> ('s, 'a) em) \<Rightarrow> ('s, 'a) em" where
  "etry m h = (\<lambda>s. case m s of (Inl e, s') \<Rightarrow> h e s' | (Inr x, s') \<Rightarrow> (Inr x, s'))"

definition eget :: "('s \<Rightarrow> 'a) \<Rightarrow> ('s, 'a) em" where
  "eget f = (\<lambda>s. (Inr (f s), s))"

definition emod :: "('s \<Rightarrow> 's) \<Rightarrow> ('s, unit) em" where
  "emod f = (\<lambda>s. (Inr (), f s))"

definition elift :: "py_exn + 'a \<Rightarrow> ('s, 'a) em" where
  "elift r = (\<lambda>s. (r, s))"

definition ewhen :: "bool \<Rightarrow> ('s, unit) em \<Rightarrow> ('s, unit) em" where
  "ewhen b m = (if b then m else eret ())"

lemma eret_apply [em_simps]: "eret x s = (Inr x, s)"
  by (simp add: eret_def)

lemma eraise_apply [em_simps]: "eraise e s = (Inl e, s)"
  by (simp add: eraise_def)

lemma ebind_apply [em_simps]:
  "ebind m k s = (case m s of (Inl e, s') \<Rightarrow> (Inl e, s') | (Inr x, s') \<Rightarrow> k x s')"
  by (simp add: ebind_def)

lemma eseq_apply [em_simps]:
  "eseq m n s = (case m s of (Inl e, s') \<Rightarrow> (Inl e, s') | (Inr x, s') \<Rightarrow> n s')"
  by (simp add: eseq_def ebind_def)

lemma etry_apply [em_simps]:
  "etry m h s = (case m s of (Inl e, s') \<Rightarrow> h e s' | (Inr x, s') \<Rightarrow> (Inr x, s'))"
  by (simp add: etry_def)

lemma eget_apply [em_simps]: "eget f s = (Inr (f s), s)"
  by (simp add: eget_def)

lemma emod_apply [em_simps]: "emod f s = (Inr (), f s)"
  by (simp add: emod_def)

lemma elift_apply [em_simps]: "elift r s = (r, s)"
  by (simp add: elift_def)

text \<open>The monad laws, so that handlers can be re-bracketed.\<close>

lemma ebind_eret [simp]: "ebind (eret x) k = k x"
  by (simp add: fun_eq_iff em_simps)

lemma ebind_eraise [simp]: "ebind (eraise e) k = eraise e"
  by (simp add: fun_eq_iff em_simps)

lemma ebind_assoc: "ebind (ebind m k) h = ebind m (\<lambda>x. ebind (k x) h)"
  by (auto simp: fun_eq_iff em_simps split: prod.splits sum.splits)

lemma etry_eret [simp]: "etry (eret x) h = eret x"
  by (simp add: fun_eq_iff em_simps)

lemma etry_eraise [simp]: "etry (eraise e) h = h e"
  by (simp add: fun_eq_iff em_simps)

lemma eseq_okI: "m s = (Inr x, s') \<Longrightarrow> eseq m n s = n s'"
  by (simp add: em_simps)

lemma eseq_errI: "m s = (Inl e, s') \<Longrightarrow> eseq m n s = (Inl e, s')"
  by (simp add: em_simps)

lemma ebind_okI: "m s = (Inr x, s') \<Longrightarrow> ebind m k s = k x s'"
  by (simp add: em_simps)

lemma ebind_errI: "m s = (Inl e, s') \<Longrightarrow> ebind m k s = (Inl e, s')"
  by (simp add: em_simps)

text \<open>Taking a run apart: where a computation returned, each of its parts returned.\<close>

lemma ebind_InrE:
  assumes "ebind m k s = (Inr y, t)"
  obtains x s' where "m s = (Inr x, s')" and "k x s' = (Inr y, t)"
  using assms by (auto simp: em_simps split: prod.splits sum.splits)

lemma eseq_InrE:
  assumes "eseq m n s = (Inr y, t)"
  obtains x s' where "m s = (Inr x, s')" and "n s' = (Inr y, t)"
  using assms by (auto simp: em_simps split: prod.splits sum.splits)

lemma elift_InrE:
  assumes "elift r s = (Inr y, t)"
  obtains "r = Inr y" and "t = s"
  using assms by (auto simp: em_simps)

text \<open>
  \<open>confined R m\<close>: from any state, \<open>m\<close> ends (returning or raising) in an \<open>R\<close>-related state. For a
  reflexive and transitive \<open>R\<close> it composes; with \<open>R s t = (P s \<longrightarrow> P t)\<close> it says that \<open>m\<close> keeps the
  invariant \<open>P\<close>.
\<close>

definition confined :: "('s \<Rightarrow> 's \<Rightarrow> bool) \<Rightarrow> ('s, 'a) em \<Rightarrow> bool" where
  "confined R m \<longleftrightarrow> (\<forall>s. R s (snd (m s)))"

lemma confinedD: "confined R m \<Longrightarrow> R s (snd (m s))"
  by (simp add: confined_def)

lemma confinedD': "confined R m \<Longrightarrow> m s = (r, t) \<Longrightarrow> R s t"
  by (metis confinedD snd_conv)

locale step_order =
  fixes R :: "'s \<Rightarrow> 's \<Rightarrow> bool"
  assumes step_refl: "R s s"
    and step_trans: "R s t \<Longrightarrow> R t u \<Longrightarrow> R s u"
begin

lemma confined_eret: "confined R (eret x)"
  by (simp add: confined_def em_simps step_refl)

lemma confined_eraise: "confined R (eraise e)"
  by (simp add: confined_def em_simps step_refl)

lemma confined_eget: "confined R (eget f)"
  by (simp add: confined_def em_simps step_refl)

lemma confined_elift: "confined R (elift r)"
  by (simp add: confined_def em_simps step_refl)

lemma confined_emod: "(\<And>s. R s (f s)) \<Longrightarrow> confined R (emod f)"
  by (simp add: confined_def em_simps)

lemma confined_ebind_dep:
  assumes "confined R m" and "\<And>x s s'. m s = (Inr x, s') \<Longrightarrow> confined R (k x)"
  shows "confined R (ebind m k)"
  unfolding confined_def
proof
  fix s
  obtain r s' where m: "m s = (r, s')" by fastforce
  have 1: "R s s'" using assms(1) m by (rule confinedD')
  show "R s (snd (ebind m k s))"
  proof (cases r)
    case (Inl e)
    with 1 m show ?thesis by (simp add: em_simps)
  next
    case (Inr x)
    have "R s' (snd (k x s'))" using assms(2) m Inr by (blast intro: confinedD)
    with 1 have "R s (snd (k x s'))" by (rule step_trans)
    with Inr m show ?thesis by (simp add: em_simps)
  qed
qed

lemma confined_ebind: "confined R m \<Longrightarrow> (\<And>x. confined R (k x)) \<Longrightarrow> confined R (ebind m k)"
  by (rule confined_ebind_dep)

lemma confined_eseq: "confined R m \<Longrightarrow> confined R n \<Longrightarrow> confined R (eseq m n)"
  unfolding eseq_def by (rule confined_ebind)

lemma confined_etry:
  assumes "confined R m" and "\<And>e. confined R (h e)"
  shows "confined R (etry m h)"
  unfolding confined_def
proof
  fix s
  obtain r s' where m: "m s = (r, s')" by fastforce
  have 1: "R s s'" using assms(1) m by (rule confinedD')
  show "R s (snd (etry m h s))"
  proof (cases r)
    case (Inl e)
    have "R s' (snd (h e s'))" using assms(2) by (rule confinedD)
    with 1 have "R s (snd (h e s'))" by (rule step_trans)
    with Inl m show ?thesis by (simp add: em_simps)
  next
    case (Inr x)
    with 1 m show ?thesis by (simp add: em_simps)
  qed
qed

lemma confined_if: "(b \<Longrightarrow> confined R m) \<Longrightarrow> (\<not> b \<Longrightarrow> confined R n) \<Longrightarrow> confined R (if b then m else n)"
  by simp

lemma confined_ewhen: "(b \<Longrightarrow> confined R m) \<Longrightarrow> confined R (ewhen b m)"
  by (simp add: ewhen_def confined_eret)

lemma confined_option:
  "confined R m \<Longrightarrow> (\<And>x. confined R (k x)) \<Longrightarrow> confined R (case v of None \<Rightarrow> m | Some x \<Rightarrow> k x)"
  by (cases v) simp_all

lemma confined_sum:
  "(\<And>e. confined R (h e)) \<Longrightarrow> (\<And>x. confined R (k x)) \<Longrightarrow> confined R (case v of Inl e \<Rightarrow> h e | Inr x \<Rightarrow> k x)"
  by (cases v) simp_all

lemmas confined_rules =
  confined_eret confined_eraise confined_eget confined_elift confined_ebind confined_eseq confined_etry
  confined_ewhen confined_option confined_sum confined_if

end

text \<open>What a computation leaves alone: the part \<open>f\<close> of the state.\<close>

definition same :: "('s \<Rightarrow> 'b) \<Rightarrow> 's \<Rightarrow> 's \<Rightarrow> bool" where
  "same f s t \<longleftrightarrow> f t = f s"

interpretation frame: step_order "same f" for f
  by unfold_locales (simp_all add: same_def)

section \<open>Time and identifiers\<close>

text \<open>
  The clock and the UUID generator are read at a counter: the \<open>n\<close>-th read of \<open>utc_now()\<close> or
  \<open>uuid4()\<close> in a run returns \<open>clock env n\<close> or \<open>fresh_uuid env n\<close>.
\<close>

record environ =
  clock :: "nat \<Rightarrow> timestamp"
  fresh_uuid :: "nat \<Rightarrow> uuid"

end
