(* ===== verification/Kernel_Types.thy ===== *)
theory Kernel_Types
  imports OIS_Prelude
begin

text \<open>
  The enumerations of \<^verbatim>\<open>ois/kernel/types.py\<close>. A \<open>StrEnum\<close> member is a constructor;
  \<open>..._value\<close> is its \<open>.value\<close> and \<open>..._of\<close> the call of the enumeration on a string, with
  \<open>None\<close> for the \<open>ValueError\<close>. Members are compared as strings in Python, and the values are
  pairwise different, so constructor equality is that comparison.
\<close>

datatype execution_status =
    ES_RECEIVED | ES_NORMALIZED | ES_UNDERSTOOD | ES_CLASSIFIED | ES_RISK_ASSESSED
  | ES_CONTEXT_RETRIEVED | ES_ROUTED | ES_PLANNED | ES_PLAN_VALIDATED | ES_AUTHORIZED
  | ES_EXECUTING | ES_OBSERVING | ES_VALIDATING | ES_UPDATING_STATE | ES_CHECKPOINTING
  | ES_COMPLETED | ES_FAILED | ES_RECOVERING | ES_REPLANNING | ES_ESCALATED | ES_STOPPED

definition execution_statuses :: "execution_status list" where
  "execution_statuses =
     [ES_RECEIVED, ES_NORMALIZED, ES_UNDERSTOOD, ES_CLASSIFIED, ES_RISK_ASSESSED,
      ES_CONTEXT_RETRIEVED, ES_ROUTED, ES_PLANNED, ES_PLAN_VALIDATED, ES_AUTHORIZED,
      ES_EXECUTING, ES_OBSERVING, ES_VALIDATING, ES_UPDATING_STATE, ES_CHECKPOINTING,
      ES_COMPLETED, ES_FAILED, ES_RECOVERING, ES_REPLANNING, ES_ESCALATED, ES_STOPPED]"

fun execution_status_value :: "execution_status \<Rightarrow> string" where
  "execution_status_value ES_RECEIVED = ''received''"
| "execution_status_value ES_NORMALIZED = ''normalized''"
| "execution_status_value ES_UNDERSTOOD = ''understood''"
| "execution_status_value ES_CLASSIFIED = ''classified''"
| "execution_status_value ES_RISK_ASSESSED = ''risk_assessed''"
| "execution_status_value ES_CONTEXT_RETRIEVED = ''context_retrieved''"
| "execution_status_value ES_ROUTED = ''routed''"
| "execution_status_value ES_PLANNED = ''planned''"
| "execution_status_value ES_PLAN_VALIDATED = ''plan_validated''"
| "execution_status_value ES_AUTHORIZED = ''authorized''"
| "execution_status_value ES_EXECUTING = ''executing''"
| "execution_status_value ES_OBSERVING = ''observing''"
| "execution_status_value ES_VALIDATING = ''validating''"
| "execution_status_value ES_UPDATING_STATE = ''updating_state''"
| "execution_status_value ES_CHECKPOINTING = ''checkpointing''"
| "execution_status_value ES_COMPLETED = ''completed''"
| "execution_status_value ES_FAILED = ''failed''"
| "execution_status_value ES_RECOVERING = ''recovering''"
| "execution_status_value ES_REPLANNING = ''replanning''"
| "execution_status_value ES_ESCALATED = ''escalated''"
| "execution_status_value ES_STOPPED = ''stopped''"

definition execution_status_of :: "string \<Rightarrow> execution_status option" where
  "execution_status_of s = find (\<lambda>m. execution_status_value m = s) execution_statuses"

datatype risk_level = RL_LOW | RL_MEDIUM | RL_HIGH | RL_CRITICAL

fun risk_level_value :: "risk_level \<Rightarrow> string" where
  "risk_level_value RL_LOW = ''low''"
| "risk_level_value RL_MEDIUM = ''medium''"
| "risk_level_value RL_HIGH = ''high''"
| "risk_level_value RL_CRITICAL = ''critical''"

definition risk_level_of :: "string \<Rightarrow> risk_level option" where
  "risk_level_of s =
     find (\<lambda>m. risk_level_value m = s) [RL_LOW, RL_MEDIUM, RL_HIGH, RL_CRITICAL]"

datatype failure_class =
    FC_TRANSIENT | FC_PARAMETER | FC_TOOL | FC_PLAN | FC_STATE | FC_PERMISSION | FC_SAFETY
  | FC_UNKNOWN

fun failure_class_value :: "failure_class \<Rightarrow> string" where
  "failure_class_value FC_TRANSIENT = ''transient''"
| "failure_class_value FC_PARAMETER = ''parameter''"
| "failure_class_value FC_TOOL = ''tool''"
| "failure_class_value FC_PLAN = ''plan''"
| "failure_class_value FC_STATE = ''state''"
| "failure_class_value FC_PERMISSION = ''permission''"
| "failure_class_value FC_SAFETY = ''safety''"
| "failure_class_value FC_UNKNOWN = ''unknown''"

definition failure_class_of :: "string \<Rightarrow> failure_class option" where
  "failure_class_of s =
     find (\<lambda>m. failure_class_value m = s)
       [FC_TRANSIENT, FC_PARAMETER, FC_TOOL, FC_PLAN, FC_STATE, FC_PERMISSION, FC_SAFETY,
        FC_UNKNOWN]"

datatype invocation_status =
    IS_PENDING | IS_RUNNING | IS_SUCCEEDED | IS_FAILED | IS_CANCELLED | IS_TIMED_OUT

fun invocation_status_value :: "invocation_status \<Rightarrow> string" where
  "invocation_status_value IS_PENDING = ''pending''"
| "invocation_status_value IS_RUNNING = ''running''"
| "invocation_status_value IS_SUCCEEDED = ''succeeded''"
| "invocation_status_value IS_FAILED = ''failed''"
| "invocation_status_value IS_CANCELLED = ''cancelled''"
| "invocation_status_value IS_TIMED_OUT = ''timed_out''"

definition invocation_status_of :: "string \<Rightarrow> invocation_status option" where
  "invocation_status_of s =
     find (\<lambda>m. invocation_status_value m = s)
       [IS_PENDING, IS_RUNNING, IS_SUCCEEDED, IS_FAILED, IS_CANCELLED, IS_TIMED_OUT]"

datatype side_effect_level = SE_NONE | SE_REVERSIBLE | SE_IRREVERSIBLE

fun side_effect_level_value :: "side_effect_level \<Rightarrow> string" where
  "side_effect_level_value SE_NONE = ''none''"
| "side_effect_level_value SE_REVERSIBLE = ''reversible''"
| "side_effect_level_value SE_IRREVERSIBLE = ''irreversible''"

section \<open>Round trips through the string values\<close>

lemma execution_status_of_value [simp]: "execution_status_of (execution_status_value m) = Some m"
  by (cases m) (simp_all add: execution_status_of_def execution_statuses_def)

lemma risk_level_of_value [simp]: "risk_level_of (risk_level_value m) = Some m"
  by (cases m) (simp_all add: risk_level_of_def)

lemma failure_class_of_value [simp]: "failure_class_of (failure_class_value m) = Some m"
  by (cases m) (simp_all add: failure_class_of_def)

lemma invocation_status_of_value [simp]: "invocation_status_of (invocation_status_value m) = Some m"
  by (cases m) (simp_all add: invocation_status_of_def)

lemma failure_class_value_nonempty [simp]: "failure_class_value f \<noteq> []"
  by (cases f) simp_all

lemma failure_class_value_inj [simp]: "failure_class_value a = failure_class_value b \<longleftrightarrow> a = b"
  by (metis failure_class_of_value option.inject)

section \<open>The order of risk levels\<close>

text \<open>
  \<open>risk_order\<close> is the dictionary literal of \<open>DefaultPolicyEngine.evaluate\<close> and of
  \<open>PolicyRule.evaluate\<close>; it makes the risk levels a linear order.
\<close>

fun risk_order :: "risk_level \<Rightarrow> int" where
  "risk_order RL_LOW = 0"
| "risk_order RL_MEDIUM = 1"
| "risk_order RL_HIGH = 2"
| "risk_order RL_CRITICAL = 3"

lemma risk_order_inj [simp]: "risk_order a = risk_order b \<longleftrightarrow> a = b"
  by (cases a; cases b) simp_all

instantiation risk_level :: linorder
begin

definition less_eq_risk_level :: "risk_level \<Rightarrow> risk_level \<Rightarrow> bool" where
  "less_eq_risk_level a b \<longleftrightarrow> risk_order a \<le> risk_order b"

definition less_risk_level :: "risk_level \<Rightarrow> risk_level \<Rightarrow> bool" where
  "less_risk_level a b \<longleftrightarrow> risk_order a < risk_order b"

instance
  by standard (auto simp: less_eq_risk_level_def less_risk_level_def)

end

lemma RL_LOW_least [simp]: "RL_LOW \<le> r"
  by (cases r) (simp_all add: less_eq_risk_level_def)

lemma RL_CRITICAL_greatest [simp]: "r \<le> RL_CRITICAL"
  by (cases r) (simp_all add: less_eq_risk_level_def)

end
