(* ===== verification/Kernel_State.thy ===== *)
theory Kernel_State
  imports Kernel_Types
begin

text \<open>
  \<^verbatim>\<open>ois/kernel/state.py\<close>: the execution context, its status transitions and its checkpoint
  representation, and \<^verbatim>\<open>ois/kernel/tenant.py\<close>'s normalisation of tenant identifiers.

  A \<open>UUID\<close> is its canonical text. \<open>datetime.isoformat\<close> and \<open>datetime.fromisoformat\<close> are arguments
  (\<open>isofmt\<close>, \<open>fromiso\<close>); what the code relies on is the hypothesis \<open>fromiso (isofmt t) = Some t\<close>.
  The field \<open>last_failure\<close> holds either a \<open>FailureClass\<close> member or, after
  \<open>from_dict\<close>, whatever the payload held: \<open>failure_ref\<close> keeps the two apart because \<open>to_dict\<close>
  reads \<open>.value\<close> from it.
\<close>

section \<open>UUID texts\<close>

text \<open>
  \<open>UUID(text)\<close>: remove \<open>urn:\<close> and \<open>uuid:\<close>, strip braces, drop hyphens, demand 32 hexadecimal
  digits. \<open>str(UUID)\<close> prints them in lower case as 8-4-4-4-12. (CPython reads the digits with
  \<open>int(hex, 16)\<close>, which also lets underscores, blanks and a sign through; those texts are
  rejected here.)
\<close>

function remove_all :: "string \<Rightarrow> string \<Rightarrow> string" where
  "remove_all p s =
     (case s of [] \<Rightarrow> []
      | c # cs \<Rightarrow> (if p \<noteq> [] \<and> take (length p) s = p then remove_all p (drop (length p) s)
                   else c # remove_all p cs))"
  by pat_completeness auto
termination
  by (relation "measure (\<lambda>(p, s). length s)") auto

declare remove_all.simps [simp del]

definition hex_digit :: "char \<Rightarrow> bool" where
  "hex_digit c \<longleftrightarrow> c \<in> set ''0123456789abcdefABCDEF''"

definition lower_hex :: "char \<Rightarrow> char" where
  "lower_hex c =
     (case map_of (zip ''ABCDEF'' ''abcdef'') c of Some d \<Rightarrow> d | None \<Rightarrow> c)"

definition strip_braces :: "string \<Rightarrow> string" where
  "strip_braces s =
     (let br = (\<lambda>c. c \<in> set ''{}'') in rev (dropWhile br (rev (dropWhile br s))))"

definition uuid_hex :: "string \<Rightarrow> string option" where
  "uuid_hex s =
     (let h = filter (\<lambda>c. c \<noteq> CHR ''-'')
                (strip_braces (remove_all ''uuid:'' (remove_all ''urn:'' s)))
      in if length h = 32 \<and> list_all hex_digit h then Some (map lower_hex h) else None)"

definition uuid_str :: "string \<Rightarrow> string" where
  "uuid_str h = take 8 h @ ''-'' @ take 4 (drop 8 h) @ ''-'' @ take 4 (drop 12 h) @ ''-''
                @ take 4 (drop 16 h) @ ''-'' @ drop 20 h"

definition uuid_parse :: "string \<Rightarrow> uuid option" where
  "uuid_parse s = map_option uuid_str (uuid_hex s)"

definition normalize_tenant_id :: "string \<Rightarrow> py_exn + string" where
  "normalize_tenant_id t =
     (case uuid_parse t of
        Some u \<Rightarrow> Inr u
      | None \<Rightarrow> Inl (Exn TenantContextError ''tenant_id must be a valid UUID''))"

section \<open>The execution context\<close>

record execution_identity =
  eid_execution_id :: uuid
  eid_tenant_id :: string
  eid_workflow_id :: "string option"
  eid_workflow_version :: "string option"

datatype failure_ref = FEnum failure_class | FRaw pyval

record execution_context =
  ctx_identity :: execution_identity
  ctx_objective :: string
  ctx_constraints :: pydict
  ctx_metadata :: pydict
  ctx_status :: execution_status
  ctx_risk_level :: risk_level
  ctx_intent :: "pydict option"
  ctx_plan :: "pydict option"
  ctx_current_node :: "string option"
  ctx_working_memory :: pydict
  ctx_retrieved_context :: "pydict list"
  ctx_artifacts :: "pydict list"
  ctx_approvals :: "pydict list"
  ctx_escalations :: "pydict list"
  ctx_observations :: "pydict list"
  ctx_validation_results :: "pydict list"
  ctx_retry_count :: int
  ctx_recovery_attempts :: int
  ctx_last_failure :: "failure_ref option"
  ctx_error :: "pydict option"
  ctx_created_at :: timestamp
  ctx_updated_at :: timestamp

abbreviation ctx_execution_id :: "execution_context \<Rightarrow> uuid" where
  "ctx_execution_id c \<equiv> eid_execution_id (ctx_identity c)"

abbreviation ctx_tenant_id :: "execution_context \<Rightarrow> string" where
  "ctx_tenant_id c \<equiv> eid_tenant_id (ctx_identity c)"

text \<open>\<open>ExecutionContext(identity=..., objective=...)\<close>: every other field takes its default.\<close>

definition new_context :: "execution_identity \<Rightarrow> string \<Rightarrow> timestamp \<Rightarrow> timestamp \<Rightarrow> execution_context" where
  "new_context ident obj created updated =
     \<lparr>ctx_identity = ident, ctx_objective = obj, ctx_constraints = [], ctx_metadata = [],
      ctx_status = ES_RECEIVED, ctx_risk_level = RL_LOW, ctx_intent = None, ctx_plan = None,
      ctx_current_node = None, ctx_working_memory = [], ctx_retrieved_context = [],
      ctx_artifacts = [], ctx_approvals = [], ctx_escalations = [], ctx_observations = [],
      ctx_validation_results = [], ctx_retry_count = 0, ctx_recovery_attempts = 0,
      ctx_last_failure = None, ctx_error = None, ctx_created_at = created,
      ctx_updated_at = updated\<rparr>"

definition touch :: "timestamp \<Rightarrow> execution_context \<Rightarrow> execution_context" where
  "touch now c = c\<lparr>ctx_updated_at := now\<rparr>"

definition terminal_status :: "execution_status \<Rightarrow> bool" where
  "terminal_status s \<longleftrightarrow> s \<in> {ES_COMPLETED, ES_STOPPED, ES_ESCALATED}"

definition set_status :: "timestamp \<Rightarrow> execution_status \<Rightarrow> execution_context \<Rightarrow> py_exn + execution_context" where
  "set_status now st c =
     (if ctx_status c \<in> {ES_COMPLETED, ES_STOPPED, ES_ESCALATED}
      then Inl (Exn ValueError
             (''Terminal execution status '' @ execution_status_value (ctx_status c)
              @ '' cannot transition to '' @ execution_status_value st @ ''.''))
      else Inr (touch now (c\<lparr>ctx_status := st\<rparr>)))"

section \<open>The checkpoint representation\<close>

definition py_opt_str :: "string option \<Rightarrow> pyval" where
  "py_opt_str v = (case v of None \<Rightarrow> PNone | Some s \<Rightarrow> PStr s)"

definition py_opt_dict :: "pydict option \<Rightarrow> pyval" where
  "py_opt_dict v = (case v of None \<Rightarrow> PNone | Some d \<Rightarrow> PDict d)"

definition py_dicts :: "pydict list \<Rightarrow> pyval" where
  "py_dicts ds = PList (map PDict ds)"

text \<open>\<open>self.last_failure.value if self.last_failure else None\<close>.\<close>

fun last_failure_value :: "failure_ref option \<Rightarrow> py_exn + pyval" where
  "last_failure_value None = Inr PNone"
| "last_failure_value (Some (FEnum f)) = Inr (PStr (failure_class_value f))"
| "last_failure_value (Some (FRaw v)) =
     (if py_truthy v
      then Inl (no_attribute (py_type_name v) ''value'')
      else Inr PNone)"

definition identity_dict :: "execution_identity \<Rightarrow> pydict" where
  "identity_dict i =
     [(''execution_id'', PStr (eid_execution_id i)),
      (''tenant_id'', PStr (eid_tenant_id i)),
      (''workflow_id'', py_opt_str (eid_workflow_id i)),
      (''workflow_version'', py_opt_str (eid_workflow_version i))]"

definition to_dict :: "(timestamp \<Rightarrow> string) \<Rightarrow> execution_context \<Rightarrow> py_exn + pydict" where
  "to_dict isofmt c =
     (case last_failure_value (ctx_last_failure c) of
        Inl e \<Rightarrow> Inl e
      | Inr lf \<Rightarrow> Inr
         [(''identity'', PDict (identity_dict (ctx_identity c))),
          (''objective'', PStr (ctx_objective c)),
          (''constraints'', PDict (ctx_constraints c)),
          (''metadata'', PDict (ctx_metadata c)),
          (''status'', PStr (execution_status_value (ctx_status c))),
          (''risk_level'', PStr (risk_level_value (ctx_risk_level c))),
          (''intent'', py_opt_dict (ctx_intent c)),
          (''plan'', py_opt_dict (ctx_plan c)),
          (''current_node'', py_opt_str (ctx_current_node c)),
          (''working_memory'', PDict (ctx_working_memory c)),
          (''retrieved_context'', py_dicts (ctx_retrieved_context c)),
          (''artifacts'', py_dicts (ctx_artifacts c)),
          (''approvals'', py_dicts (ctx_approvals c)),
          (''escalations'', py_dicts (ctx_escalations c)),
          (''observations'', py_dicts (ctx_observations c)),
          (''validation_results'', py_dicts (ctx_validation_results c)),
          (''retry_count'', PInt (ctx_retry_count c)),
          (''recovery_attempts'', PInt (ctx_recovery_attempts c)),
          (''last_failure'', lf),
          (''error'', py_opt_dict (ctx_error c)),
          (''created_at'', PStr (isofmt (ctx_created_at c))),
          (''updated_at'', PStr (isofmt (ctx_updated_at c)))])"

text \<open>
  Readers of payload values. \<open>from_dict\<close> stores a payload value in a field without checking its
  type; the model's fields are typed, so a value of another type makes the whole result \<open>None\<close>
  (a context the model does not represent). \<open>field_of\<close> is one turn of the loop over \<open>fields\<close>: a
  name that is not in the payload keeps the default.
\<close>

definition field_of :: "pydict \<Rightarrow> string \<Rightarrow> (pyval \<Rightarrow> 'a option) \<Rightarrow> 'a \<Rightarrow> 'a option" where
  "field_of p name rd dflt = (case map_of p name of None \<Rightarrow> Some dflt | Some v \<Rightarrow> rd v)"

fun as_dict :: "pyval \<Rightarrow> pydict option" where
  "as_dict (PDict d) = Some d"
| "as_dict _ = None"

fun as_opt_dict :: "pyval \<Rightarrow> pydict option option" where
  "as_opt_dict PNone = Some None"
| "as_opt_dict (PDict d) = Some (Some d)"
| "as_opt_dict _ = None"

fun as_str :: "pyval \<Rightarrow> string option" where
  "as_str (PStr s) = Some s"
| "as_str _ = None"

fun as_opt_str :: "pyval \<Rightarrow> string option option" where
  "as_opt_str PNone = Some None"
| "as_opt_str (PStr s) = Some (Some s)"
| "as_opt_str _ = None"

fun as_int :: "pyval \<Rightarrow> int option" where
  "as_int (PInt i) = Some i"
| "as_int _ = None"

fun all_some :: "'a option list \<Rightarrow> 'a list option" where
  "all_some [] = Some []"
| "all_some (None # xs) = None"
| "all_some (Some x # xs) = map_option ((#) x) (all_some xs)"

fun as_dicts :: "pyval \<Rightarrow> pydict list option" where
  "as_dicts (PList vs) = all_some (map as_dict vs)"
| "as_dicts _ = None"

text \<open>An enumeration field: an unknown value is skipped and the default stays.\<close>

definition as_enum :: "(string \<Rightarrow> 'a option) \<Rightarrow> 'a \<Rightarrow> pyval \<Rightarrow> 'a option" where
  "as_enum mk dflt v =
     Some (case v of PStr s \<Rightarrow> (case mk s of Some x \<Rightarrow> x | None \<Rightarrow> dflt) | _ \<Rightarrow> dflt)"

text \<open>A date field: a text that \<open>fromisoformat\<close> rejects would stay a text.\<close>

definition as_time :: "(string \<Rightarrow> timestamp option) \<Rightarrow> pyval \<Rightarrow> timestamp option" where
  "as_time fromiso v = (case v of PStr s \<Rightarrow> fromiso s | _ \<Rightarrow> None)"

text \<open>\<open>last_failure\<close>: the default is \<open>None\<close>, no enumeration member, so the raw value is stored.\<close>

definition as_failure :: "pyval \<Rightarrow> failure_ref option option" where
  "as_failure v = Some (case v of PNone \<Rightarrow> None | _ \<Rightarrow> Some (FRaw v))"

text \<open>The identity part; \<open>str(...)\<close> of a tenant that is not a string is not represented.\<close>

definition identity_of :: "uuid \<Rightarrow> pydict \<Rightarrow> execution_identity option" where
  "identity_of fresh p =
     (let ip = (case map_of p ''identity'' of Some (PDict d) \<Rightarrow> d | _ \<Rightarrow> []);
          xid = (case map_of ip ''execution_id'' of
                   Some (PStr s) \<Rightarrow> (case uuid_parse s of Some u \<Rightarrow> u | None \<Rightarrow> fresh)
                 | _ \<Rightarrow> fresh)
      in do {
        ten \<leftarrow> field_of ip ''tenant_id'' as_str ''default'';
        wf \<leftarrow> field_of ip ''workflow_id'' as_opt_str None;
        wv \<leftarrow> field_of ip ''workflow_version'' as_opt_str None;
        Some \<lparr>eid_execution_id = xid, eid_tenant_id = ten, eid_workflow_id = wf,
              eid_workflow_version = wv\<rparr>
      })"

definition from_dict ::
  "(string \<Rightarrow> timestamp option) \<Rightarrow> uuid \<Rightarrow> timestamp \<Rightarrow> timestamp \<Rightarrow> pydict \<Rightarrow> execution_context option" where
  "from_dict fromiso fresh now1 now2 p = do {
     ident \<leftarrow> identity_of fresh p;
     obj \<leftarrow> field_of p ''objective'' as_str [];
     constraints \<leftarrow> field_of p ''constraints'' as_dict [];
     metadata \<leftarrow> field_of p ''metadata'' as_dict [];
     st \<leftarrow> field_of p ''status'' (as_enum execution_status_of ES_RECEIVED) ES_RECEIVED;
     risk \<leftarrow> field_of p ''risk_level'' (as_enum risk_level_of RL_LOW) RL_LOW;
     intent \<leftarrow> field_of p ''intent'' as_opt_dict None;
     plan \<leftarrow> field_of p ''plan'' as_opt_dict None;
     node \<leftarrow> field_of p ''current_node'' as_opt_str None;
     wm \<leftarrow> field_of p ''working_memory'' as_dict [];
     rc \<leftarrow> field_of p ''retrieved_context'' as_dicts [];
     arts \<leftarrow> field_of p ''artifacts'' as_dicts [];
     apps \<leftarrow> field_of p ''approvals'' as_dicts [];
     escs \<leftarrow> field_of p ''escalations'' as_dicts [];
     obss \<leftarrow> field_of p ''observations'' as_dicts [];
     vals \<leftarrow> field_of p ''validation_results'' as_dicts [];
     retries \<leftarrow> field_of p ''retry_count'' as_int 0;
     recs \<leftarrow> field_of p ''recovery_attempts'' as_int 0;
     lf \<leftarrow> field_of p ''last_failure'' as_failure None;
     err \<leftarrow> field_of p ''error'' as_opt_dict None;
     created \<leftarrow> field_of p ''created_at'' (as_time fromiso) now1;
     updated \<leftarrow> field_of p ''updated_at'' (as_time fromiso) now2;
     Some \<lparr>ctx_identity = ident, ctx_objective = obj, ctx_constraints = constraints,
       ctx_metadata = metadata, ctx_status = st, ctx_risk_level = risk, ctx_intent = intent,
       ctx_plan = plan, ctx_current_node = node, ctx_working_memory = wm,
       ctx_retrieved_context = rc, ctx_artifacts = arts, ctx_approvals = apps,
       ctx_escalations = escs, ctx_observations = obss, ctx_validation_results = vals,
       ctx_retry_count = retries, ctx_recovery_attempts = recs, ctx_last_failure = lf,
       ctx_error = err, ctx_created_at = created, ctx_updated_at = updated\<rparr>
   }"

section \<open>UUID texts: normalisation is idempotent\<close>

lemma remove_all_absent:
  assumes "hd p \<notin> set s" and "p \<noteq> []"
  shows "remove_all p s = s"
  using assms(1)
proof (induction s)
  case Nil
  show ?case by (subst remove_all.simps) simp
next
  case (Cons c cs)
  have "take (length p) (c # cs) \<noteq> p"
    using Cons.prems assms(2) by (cases p) auto
  moreover have "remove_all p cs = cs" using Cons by simp
  ultimately show ?case by (subst remove_all.simps) simp
qed

lemma strip_braces_absent:
  assumes "\<forall>c \<in> set s. c \<noteq> CHR ''{'' \<and> c \<noteq> CHR ''}''"
  shows "strip_braces s = s"
proof -
  have "dropWhile (\<lambda>c. c = CHR ''{'' \<or> c = CHR ''}'') xs = xs"
    if "\<forall>c \<in> set xs. c \<noteq> CHR ''{'' \<and> c \<noteq> CHR ''}''" for xs
    using that by (cases xs) auto
  from this [of s] this [of "rev s"] show ?thesis using assms by (simp add: strip_braces_def)
qed

lemma lower_hex_digit: "hex_digit c \<Longrightarrow> lower_hex c \<in> set ''0123456789abcdef''"
  by (auto simp: hex_digit_def lower_hex_def)

definition lower_digits :: "string \<Rightarrow> bool" where
  "lower_digits h \<longleftrightarrow> set h \<subseteq> set ''0123456789abcdef''"

lemma uuid_hex_lower:
  assumes "uuid_hex s = Some h"
  shows "length h = 32" and "lower_digits h"
proof -
  from assms obtain g where g: "h = map lower_hex g" "length g = 32" "list_all hex_digit g"
    by (auto simp: uuid_hex_def Let_def split: if_splits)
  then show "length h = 32" by simp
  show "lower_digits h"
    using g(1,3) lower_hex_digit by (auto simp: lower_digits_def list_all_iff)
qed

lemma set_uuid_str: "set (uuid_str h) \<subseteq> insert (CHR ''-'') (set h)"
  by (auto simp: uuid_str_def dest: in_set_takeD in_set_dropD)

lemma filter_hyphen_uuid_str:
  assumes "lower_digits h"
  shows "filter (\<lambda>c. c \<noteq> CHR ''-'') (uuid_str h) = h"
proof -
  let ?f = "filter (\<lambda>c. c \<noteq> CHR ''-'')"
  have nohy: "CHR ''-'' \<notin> set h" using assms by (auto simp: lower_digits_def)
  have id: "?f xs = xs" if "set xs \<subseteq> set h" for xs
    using that nohy by (auto simp: filter_id_conv)
  have sub: "set (take a (drop b h)) \<subseteq> set h" for a b
    by (meson order_trans set_drop_subset set_take_subset)
  have parts: "?f (take 8 h) = take 8 h" "?f (drop 20 h) = drop 20 h"
    "?f (take 4 (drop b h)) = take 4 (drop b h)" for b
    by (rule id; use sub [of 8 0] sub [of 4 b] set_drop_subset in force)+
  have glue: "take n (drop m h) @ drop (m + n) h = drop m h" for m n
    by (metis append_take_drop_id drop_drop add.commute)
  have "?f (uuid_str h) =
      take 8 h @ take 4 (drop 8 h) @ take 4 (drop 12 h) @ take 4 (drop 16 h) @ drop 20 h"
    by (simp add: uuid_str_def parts)
  also have "\<dots> = h"
    using glue [of 4 16] glue [of 4 12] glue [of 4 8] by simp
  finally show ?thesis .
qed

lemma uuid_hex_uuid_str:
  assumes "length h = 32" and "lower_digits h"
  shows "uuid_hex (uuid_str h) = Some h"
proof -
  have chars: "set (uuid_str h) \<subseteq> insert (CHR ''-'') (set ''0123456789abcdef'')"
    using set_uuid_str [of h] assms(2) unfolding lower_digits_def by blast
  have "CHR ''u'' \<notin> insert (CHR ''-'') (set ''0123456789abcdef'')" by simp
  then have u: "CHR ''u'' \<notin> set (uuid_str h)" using chars by blast
  have "\<forall>c \<in> insert (CHR ''-'') (set ''0123456789abcdef''). c \<noteq> CHR ''{'' \<and> c \<noteq> CHR ''}''"
    by simp
  then have br: "\<forall>c \<in> set (uuid_str h). c \<noteq> CHR ''{'' \<and> c \<noteq> CHR ''}''" using chars by blast
  have 1: "remove_all ''urn:'' (uuid_str h) = uuid_str h"
    by (rule remove_all_absent) (simp_all add: u)
  have 2: "remove_all ''uuid:'' (uuid_str h) = uuid_str h"
    by (rule remove_all_absent) (simp_all add: u)
  have 3: "strip_braces (uuid_str h) = uuid_str h"
    by (rule strip_braces_absent) (rule br)
  have digs: "list_all hex_digit h"
    using assms(2) by (force simp: lower_digits_def list_all_iff hex_digit_def)
  have "map lower_hex h = h"
    using assms(2) by (intro map_idI) (auto simp: lower_digits_def lower_hex_def)
  with 1 2 3 digs assms show ?thesis
    by (simp add: uuid_hex_def filter_hyphen_uuid_str)
qed

lemma uuid_parse_idem: "uuid_parse s = Some u \<Longrightarrow> uuid_parse u = Some u"
  by (auto simp: uuid_parse_def uuid_hex_lower uuid_hex_uuid_str)

section \<open>Status transitions\<close>

lemma set_status_terminal:
  "terminal_status (ctx_status c) \<Longrightarrow> \<exists>m. set_status now st c = Inl (Exn ValueError m)"
  by (auto simp: set_status_def terminal_status_def)

lemma set_status_live:
  "\<not> terminal_status (ctx_status c) \<Longrightarrow>
     set_status now st c = Inr (c\<lparr>ctx_status := st, ctx_updated_at := now\<rparr>)"
  by (auto simp: set_status_def terminal_status_def touch_def)

section \<open>Checkpoint round trip\<close>

fun reload_failure :: "failure_ref option \<Rightarrow> failure_ref option" where
  "reload_failure None = None"
| "reload_failure (Some (FEnum f)) = Some (FRaw (PStr (failure_class_value f)))"
| "reload_failure (Some (FRaw v)) = None"

lemma as_dict_PDict_comp [simp]: "as_dict \<circ> PDict = Some"
  by auto

lemma all_some_map_Some [simp]: "all_some (map Some xs) = Some xs"
  by (induction xs) auto

lemma as_dicts_py_dicts [simp]: "as_dicts (py_dicts ds) = Some ds"
  by (simp add: py_dicts_def)

lemma as_opt_dict_py_opt_dict [simp]: "as_opt_dict (py_opt_dict v) = Some v"
  by (cases v) (auto simp: py_opt_dict_def)

lemma as_opt_str_py_opt_str [simp]: "as_opt_str (py_opt_str v) = Some v"
  by (cases v) (auto simp: py_opt_str_def)

lemma last_failure_reload:
  "last_failure_value lf = Inr v \<Longrightarrow> as_failure v = Some (reload_failure lf)"
  by (cases lf rule: last_failure_value.cases) (auto simp: as_failure_def split: if_splits)

lemma from_dict_cong:
  "map_of p = map_of q \<Longrightarrow> from_dict fi fr n1 n2 p = from_dict fi fr n1 n2 q"
  by (simp add: from_dict_def field_of_def identity_of_def)

lemma from_dict_to_dict:
  assumes "to_dict isofmt c = Inr d"
    and "\<And>t. fromiso (isofmt t) = Some t"
    and "uuid_parse (ctx_execution_id c) = Some (ctx_execution_id c)"
  shows "from_dict fromiso fresh n1 n2 d =
           Some (c\<lparr>ctx_last_failure := reload_failure (ctx_last_failure c)\<rparr>)"
proof -
  from assms(1) obtain lf where lf: "last_failure_value (ctx_last_failure c) = Inr lf"
    by (auto simp: to_dict_def split: sum.splits)
  note d = assms(1) [unfolded to_dict_def lf, simplified, symmetric]
  show ?thesis
    using assms(2,3) last_failure_reload [OF lf]
    by (simp add: d from_dict_def field_of_def identity_of_def identity_dict_def as_enum_def
        as_time_def)
qed

end
