(* ===== verification/Kernel_Planning.thy ===== *)
theory Kernel_Planning
  imports Kernel_State
begin

text \<open>
  \<^verbatim>\<open>ois/kernel/planning.py\<close> and \<^verbatim>\<open>ois/kernel/planner.py\<close>: plans as dependency graphs of tasks.
  \<open>plan.tasks\<close> is a dict from task id to node, in insertion order. The depth-first cycle check
  is shown to accept exactly the acyclic plans; plans survive their dict representation.

  \<open>_validate_cycles\<close> recurses once per task of a dependency chain; CPython's recursion limit is
  not modelled.
\<close>

datatype task_status =
    TS_PENDING | TS_READY | TS_RUNNING | TS_SUCCEEDED | TS_FAILED | TS_BLOCKED | TS_SKIPPED

fun task_status_value :: "task_status \<Rightarrow> string" where
  "task_status_value TS_PENDING = ''pending''"
| "task_status_value TS_READY = ''ready''"
| "task_status_value TS_RUNNING = ''running''"
| "task_status_value TS_SUCCEEDED = ''succeeded''"
| "task_status_value TS_FAILED = ''failed''"
| "task_status_value TS_BLOCKED = ''blocked''"
| "task_status_value TS_SKIPPED = ''skipped''"

definition task_status_of :: "string \<Rightarrow> task_status option" where
  "task_status_of s = find (\<lambda>m. task_status_value m = s)
     [TS_PENDING, TS_READY, TS_RUNNING, TS_SUCCEEDED, TS_FAILED, TS_BLOCKED, TS_SKIPPED]"

record task_node =
  tn_task_id :: string
  tn_capability_id :: string
  tn_capability_version :: string
  tn_input_data :: pydict
  tn_dependencies :: "string list"
  tn_status :: task_status
  tn_output :: pyval
  tn_error :: "pydict option"
  tn_metadata :: pydict

type_synonym task_dict = "(string \<times> task_node) list"

record execution_plan =
  pl_plan_id :: string
  pl_version :: string
  pl_objective :: string
  pl_tasks :: task_dict
  pl_metadata :: pydict

definition new_task :: "string \<Rightarrow> string \<Rightarrow> string \<Rightarrow> task_node" where
  "new_task tid cid ver =
     \<lparr>tn_task_id = tid, tn_capability_id = cid, tn_capability_version = ver, tn_input_data = [],
      tn_dependencies = [], tn_status = TS_PENDING, tn_output = PNone, tn_error = None,
      tn_metadata = []\<rparr>"

definition new_plan :: "uuid \<Rightarrow> string \<Rightarrow> execution_plan" where
  "new_plan pid obj =
     \<lparr>pl_plan_id = pid, pl_version = ''1.0.0'', pl_objective = obj, pl_tasks = [], pl_metadata = []\<rparr>"

section \<open>Building and validating\<close>

definition add_task :: "task_node \<Rightarrow> execution_plan \<Rightarrow> py_exn + execution_plan" where
  "add_task t p =
     (if map_of (pl_tasks p) (tn_task_id t) \<noteq> None
      then Inl (Exn DuplicateTaskError (''Task already exists: '' @ tn_task_id t))
      else Inr (p\<lparr>pl_tasks := AList.update (tn_task_id t) t (pl_tasks p)\<rparr>))"

definition unknown_dependencies :: "task_dict \<Rightarrow> (string \<times> string) list" where
  "unknown_dependencies ts =
     concat (map (\<lambda>(k, t). map (\<lambda>d. (tn_task_id t, d))
       (filter (\<lambda>d. map_of ts d = None) (tn_dependencies t))) ts)"

text \<open>The loop raises at the first unknown dependency it meets.\<close>

definition validate_dependencies :: "task_dict \<Rightarrow> py_exn + unit" where
  "validate_dependencies ts =
     (case unknown_dependencies ts of
        [] \<Rightarrow> Inr ()
      | (t, d) # _ \<Rightarrow> Inl (Exn UnknownDependencyError
          (''Task '' @ t @ '' depends on unknown task '' @ d)))"

text \<open>
  \<open>visit\<close>, the closure of \<open>_validate_cycles\<close>: \<open>vg\<close> is the set \<open>visiting\<close> (entered before the
  recursive calls and left after them), \<open>vd\<close> the set \<open>visited\<close>, which the calls thread through.
\<close>

function visit :: "task_dict \<Rightarrow> string list \<Rightarrow> string \<Rightarrow> string list \<Rightarrow> py_exn + string list"
  and visit_all :: "task_dict \<Rightarrow> string list \<Rightarrow> string list \<Rightarrow> string list \<Rightarrow> py_exn + string list" where
  "visit ts vg t vd =
     (if t \<in> set vg then Inl (Exn CyclicPlanError (''Dependency cycle detected at '' @ t))
      else if t \<in> set vd then Inr vd
      else case map_of ts t of
        None \<Rightarrow> Inl (Exn KeyError t)
      | Some n \<Rightarrow>
         (case visit_all ts (t # vg) (tn_dependencies n) vd of
            Inl e \<Rightarrow> Inl e
          | Inr vd' \<Rightarrow> Inr (t # vd')))"
| "visit_all ts vg [] vd = Inr vd"
| "visit_all ts vg (d # ds) vd =
     (case visit ts vg d vd of Inl e \<Rightarrow> Inl e | Inr vd' \<Rightarrow> visit_all ts vg ds vd')"
  by pat_completeness auto
termination
proof (relation "measures
    [\<lambda>x. case x of Inl (ts, vg, t, vd) \<Rightarrow> card (fst ` set ts - set vg)
                 | Inr (ts, vg, ds, vd) \<Rightarrow> card (fst ` set ts - set vg),
     \<lambda>x. case x of Inl _ \<Rightarrow> 0 | Inr (ts, vg, ds, vd) \<Rightarrow> Suc (length ds)]", goal_cases)
  case (2 ts vg t vd n)
  have "fst ` set ts - set (t # vg) \<subset> fst ` set ts - set vg"
    using 2 map_of_SomeD [OF 2(3)] by force
  then show ?case by (simp add: psubset_card_mono)
qed auto

declare visit.simps [simp del]

definition validate_cycles :: "task_dict \<Rightarrow> py_exn + unit" where
  "validate_cycles ts =
     (case visit_all ts [] (map fst ts) [] of Inl e \<Rightarrow> Inl e | Inr _ \<Rightarrow> Inr ())"

definition plan_validate :: "execution_plan \<Rightarrow> py_exn + unit" where
  "plan_validate p =
     (case validate_dependencies (pl_tasks p) of
        Inl e \<Rightarrow> Inl e
      | Inr _ \<Rightarrow> validate_cycles (pl_tasks p))"

section \<open>Progress\<close>

text \<open>
  \<open>ready_tasks\<close> marks tasks ready while it goes through the dict; a task is ready when all its
  dependencies have succeeded, which the marking does not affect. It returns the ids it marked.
\<close>

definition deps_succeeded :: "task_dict \<Rightarrow> task_node \<Rightarrow> bool" where
  "deps_succeeded ts t =
     list_all (\<lambda>d. case map_of ts d of Some n \<Rightarrow> tn_status n = TS_SUCCEEDED | None \<Rightarrow> False)
       (tn_dependencies t)"

definition task_ready :: "task_dict \<Rightarrow> task_node \<Rightarrow> bool" where
  "task_ready ts t \<longleftrightarrow> tn_status t = TS_PENDING \<and> deps_succeeded ts t"

definition ready_tasks :: "execution_plan \<Rightarrow> string list \<times> execution_plan" where
  "ready_tasks p =
     (let ts = pl_tasks p in
      (map fst (filter (\<lambda>(k, t). task_ready ts t) ts),
       p\<lparr>pl_tasks := map (\<lambda>(k, t). (k, if task_ready ts t then t\<lparr>tn_status := TS_READY\<rparr> else t)) ts\<rparr>))"

definition is_complete :: "execution_plan \<Rightarrow> bool" where
  "is_complete p \<longleftrightarrow> list_all (\<lambda>(k, t). tn_status t \<in> {TS_SUCCEEDED, TS_SKIPPED}) (pl_tasks p)"

definition has_failed :: "execution_plan \<Rightarrow> bool" where
  "has_failed p \<longleftrightarrow> list_ex (\<lambda>(k, t). tn_status t = TS_FAILED) (pl_tasks p)"

section \<open>The dict representation\<close>

definition task_to_dict :: "task_node \<Rightarrow> pydict" where
  "task_to_dict t =
     [(''task_id'', PStr (tn_task_id t)),
      (''capability_id'', PStr (tn_capability_id t)),
      (''capability_version'', PStr (tn_capability_version t)),
      (''input_data'', PDict (tn_input_data t)),
      (''dependencies'', PList (map PStr (tn_dependencies t))),
      (''status'', PStr (task_status_value (tn_status t))),
      (''output'', tn_output t),
      (''error'', py_opt_dict (tn_error t)),
      (''metadata'', PDict (tn_metadata t))]"

definition plan_to_dict :: "execution_plan \<Rightarrow> pydict" where
  "plan_to_dict p =
     [(''plan_id'', PStr (pl_plan_id p)),
      (''version'', PStr (pl_version p)),
      (''objective'', PStr (pl_objective p)),
      (''tasks'', PDict (map (\<lambda>(k, t). (k, PDict (task_to_dict t))) (pl_tasks p))),
      (''metadata'', PDict (pl_metadata p))]"

text \<open>
  Reading back. As for contexts, \<open>None\<close> stands for a payload with a value of a type that the
  model's fields do not represent; what the code raises is \<open>Some (Inl e)\<close>.
\<close>

fun as_strs :: "pyval \<Rightarrow> string list option" where
  "as_strs (PList vs) = all_some (map as_str vs)"
| "as_strs (PTuple vs) = all_some (map as_str vs)"
| "as_strs _ = None"

definition required_str :: "pydict \<Rightarrow> string \<Rightarrow> (py_exn + string) option" where
  "required_str d k =
     (case map_of d k of
        None \<Rightarrow> Some (Inl (Exn KeyError k))
      | Some v \<Rightarrow> map_option Inr (as_str v))"

definition obind :: "(py_exn + 'a) option \<Rightarrow> ('a \<Rightarrow> (py_exn + 'b) option) \<Rightarrow> (py_exn + 'b) option" where
  "obind m k = (case m of None \<Rightarrow> None | Some (Inl e) \<Rightarrow> Some (Inl e) | Some (Inr x) \<Rightarrow> k x)"

definition task_of_dict :: "pydict \<Rightarrow> (py_exn + task_node) option" where
  "task_of_dict d =
     obind (required_str d ''task_id'') (\<lambda>tid.
     obind (required_str d ''capability_id'') (\<lambda>cid.
     obind (required_str d ''capability_version'') (\<lambda>ver.
     obind (map_option Inr (field_of d ''input_data'' as_dict [])) (\<lambda>input.
     obind (map_option Inr (field_of d ''dependencies'' as_strs [])) (\<lambda>deps.
     obind (map_option Inr (field_of d ''status'' as_str (task_status_value TS_PENDING))) (\<lambda>sv.
     obind (Some (case task_status_of sv of
              Some st \<Rightarrow> Inr st
            | None \<Rightarrow> Inl (Exn ValueError (py_repr_str sv @ '' is not a valid TaskStatus'')))) (\<lambda>st.
     obind (map_option Inr (field_of d ''error'' as_opt_dict None)) (\<lambda>err.
     obind (map_option Inr (field_of d ''metadata'' as_dict [])) (\<lambda>md.
       Some (Inr \<lparr>tn_task_id = tid, tn_capability_id = cid, tn_capability_version = ver,
                  tn_input_data = input, tn_dependencies = deps, tn_status = st,
                  tn_output = (case map_of d ''output'' of None \<Rightarrow> PNone | Some v \<Rightarrow> v),
                  tn_error = err, tn_metadata = md\<rparr>))))))))))"

fun add_payloads :: "(string \<times> pyval) list \<Rightarrow> execution_plan \<Rightarrow> (py_exn + execution_plan) option" where
  "add_payloads [] p = Some (Inr p)"
| "add_payloads ((k, v) # kvs) p =
     (case v of
        PDict d \<Rightarrow>
          obind (task_of_dict d) (\<lambda>t.
            if tn_task_id t \<noteq> k then Some (Inl (Exn PlanError ''Checkpoint task key does not match task_id''))
            else obind (Some (add_task t p)) (add_payloads kvs))
      | _ \<Rightarrow> None)"

definition plan_of_dict :: "uuid \<Rightarrow> pydict \<Rightarrow> (py_exn + execution_plan) option" where
  "plan_of_dict fresh d =
     obind (map_option Inr (field_of d ''tasks'' as_dict [])) (\<lambda>tasks.
     obind (map_option Inr (field_of d ''plan_id'' as_str fresh)) (\<lambda>pid.
     obind (map_option Inr (field_of d ''version'' as_str ''1.0.0'')) (\<lambda>ver.
     obind (map_option Inr (field_of d ''objective'' as_str [])) (\<lambda>obj.
     obind (map_option Inr (field_of d ''metadata'' as_dict [])) (\<lambda>md.
     obind (add_payloads tasks
              \<lparr>pl_plan_id = pid, pl_version = ver, pl_objective = obj, pl_tasks = [], pl_metadata = md\<rparr>) (\<lambda>p.
       (case plan_validate p of Inl e \<Rightarrow> Some (Inl e) | Inr _ \<Rightarrow> Some (Inr p))))))))"

section \<open>The plan builder\<close>

definition builder_task ::
  "string \<Rightarrow> string \<Rightarrow> string \<Rightarrow> pydict option \<Rightarrow> string list \<Rightarrow> pydict option \<Rightarrow>
     execution_plan \<Rightarrow> py_exn + execution_plan" where
  "builder_task tid cid ver input deps md p =
     add_task ((new_task tid cid ver)\<lparr>tn_input_data := (case input of None \<Rightarrow> [] | Some d \<Rightarrow> d),
                 tn_dependencies := deps, tn_metadata := (case md of None \<Rightarrow> [] | Some d \<Rightarrow> d)\<rparr>) p"

definition builder_build :: "execution_plan \<Rightarrow> py_exn + execution_plan" where
  "builder_build p = (case plan_validate p of Inl e \<Rightarrow> Inl e | Inr _ \<Rightarrow> Inr p)"

section \<open>Validation accepts exactly the acyclic graphs\<close>

definition depends :: "task_dict \<Rightarrow> (string \<times> string) set" where
  "depends ts = {(t, d). \<exists>n. map_of ts t = Some n \<and> d \<in> set (tn_dependencies n)}"

text \<open>A list of tasks in which each comes with its dependencies behind it.\<close>

primrec topo :: "task_dict \<Rightarrow> string list \<Rightarrow> bool" where
  "topo ts [] = True"
| "topo ts (t # vd) \<longleftrightarrow> t \<notin> set vd \<and>
     (\<exists>n. map_of ts t = Some n \<and> set (tn_dependencies n) \<subseteq> set vd) \<and> topo ts vd"

primrec rank :: "string list \<Rightarrow> string \<Rightarrow> nat" where
  "rank [] t = 0"
| "rank (x # xs) t = (if x = t then Suc (length xs) else rank xs t)"

lemma rank_le: "rank xs t \<le> length xs"
  by (induction xs) auto

lemma topo_rank:
  assumes "topo ts vd" and "t \<in> set vd" and "(t, d) \<in> depends ts"
  shows "rank vd d < rank vd t"
  using assms
proof (induction vd)
  case (Cons x vd)
  show ?case
  proof (cases "x = t")
    case True
    with Cons.prems have "d \<in> set vd" "x \<notin> set vd" by (auto simp: depends_def)
    with True have "rank (x # vd) d = rank vd d" by auto
    with True show ?thesis by (simp add: rank_le less_Suc_eq_le)
  next
    case False
    with Cons.prems have t: "t \<in> set vd" and vd: "topo ts vd" by auto
    have "d \<in> set vd"
      using vd t Cons.prems(3) by (induction vd) (auto simp: depends_def)
    with Cons.prems(1) have "x \<noteq> d" by auto
    with False Cons.IH [OF vd t Cons.prems(3)] show ?thesis by simp
  qed
qed simp

lemma visit_sound:
  "visit ts vg t vd = Inr vd' \<Longrightarrow> topo ts vd \<Longrightarrow> set vg \<inter> set vd = {} \<Longrightarrow>
     topo ts vd' \<and> insert t (set vd) \<subseteq> set vd' \<and> set vg \<inter> set vd' = {}"
  "visit_all ts vg ds vd = Inr vd' \<Longrightarrow> topo ts vd \<Longrightarrow> set vg \<inter> set vd = {} \<Longrightarrow>
     topo ts vd' \<and> set ds \<union> set vd \<subseteq> set vd' \<and> set vg \<inter> set vd' = {}"
proof (induction ts vg t vd and ts vg ds vd arbitrary: vd' and vd' rule: visit_visit_all.induct)
  case (1 ts vg t vd)
  show ?case
  proof (cases "t \<in> set vd")
    case True
    with "1.prems" show ?thesis by (auto simp: visit.simps [of ts vg t vd] split: if_splits)
  next
    case False
    with "1.prems"(1) obtain n vd2 where t: "t \<notin> set vg" and n: "map_of ts t = Some n"
      and v: "visit_all ts (t # vg) (tn_dependencies n) vd = Inr vd2" and vd': "vd' = t # vd2"
      by (auto simp: visit.simps [of ts vg t vd] split: if_splits option.splits sum.splits)
    have "topo ts vd2 \<and> set (tn_dependencies n) \<union> set vd \<subseteq> set vd2 \<and> set (t # vg) \<inter> set vd2 = {}"
      using "1.IH" [OF t False n v "1.prems"(2)] "1.prems"(3) False by auto
    with n t show ?thesis unfolding vd' by auto
  qed
next
  case (3 ts vg d ds vd)
  then obtain vd1 where v: "visit ts vg d vd = Inr vd1" and a: "visit_all ts vg ds vd1 = Inr vd'"
    by (auto split: sum.splits)
  have 1: "topo ts vd1 \<and> insert d (set vd) \<subseteq> set vd1 \<and> set vg \<inter> set vd1 = {}"
    using "3.IH"(1) [OF v "3.prems"(2,3)] .
  then show ?case using "3.IH"(2) [OF v a] by auto
qed auto

lemma visit_complete:
  "acyclic (depends ts) \<Longrightarrow> (\<forall>(x, d) \<in> depends ts. map_of ts d \<noteq> None) \<Longrightarrow> map_of ts t \<noteq> None \<Longrightarrow>
     \<forall>v\<in>set vg. (v, t) \<in> (depends ts)\<^sup>+ \<Longrightarrow> \<exists>vd'. visit ts vg t vd = Inr vd'"
  "acyclic (depends ts) \<Longrightarrow> (\<forall>(x, d) \<in> depends ts. map_of ts d \<noteq> None) \<Longrightarrow>
     \<forall>d\<in>set ds. map_of ts d \<noteq> None \<Longrightarrow>
     \<forall>v\<in>set vg. \<forall>d\<in>set ds. (v, d) \<in> (depends ts)\<^sup>+ \<Longrightarrow> \<exists>vd'. visit_all ts vg ds vd = Inr vd'"
proof (induction ts vg t vd and ts vg ds vd rule: visit_visit_all.induct)
  case (1 ts vg t vd)
  obtain n where n: "map_of ts t = Some n" using "1.prems"(3) by auto
  have vg: "t \<notin> set vg" using "1.prems"(1,4) by (auto simp: acyclic_def)
  show ?case
  proof (cases "t \<in> set vd")
    case True
    with vg show ?thesis by (simp add: visit.simps)
  next
    case False
    have dep: "(t, d) \<in> depends ts" if "d \<in> set (tn_dependencies n)" for d
      using n that by (auto simp: depends_def)
    have "\<forall>d\<in>set (tn_dependencies n). map_of ts d \<noteq> None"
      using dep "1.prems"(2) by blast
    moreover have "\<forall>v\<in>set (t # vg). \<forall>d\<in>set (tn_dependencies n). (v, d) \<in> (depends ts)\<^sup>+"
      using dep "1.prems"(4) by (auto intro: trancl_into_trancl)
    ultimately obtain vd2 where "visit_all ts (t # vg) (tn_dependencies n) vd = Inr vd2"
      using "1.IH" [OF vg False n "1.prems"(1,2)] by blast
    with vg False n show ?thesis by (simp add: visit.simps [of ts vg t vd])
  qed
next
  case (3 ts vg d ds vd)
  obtain vd1 where v: "visit ts vg d vd = Inr vd1" using 3 by auto
  obtain vd2 where "visit_all ts vg ds vd1 = Inr vd2" using "3.IH"(2) [OF v] "3.prems" by auto
  with v show ?case by simp
qed auto

lemma validate_dependencies_iff:
  assumes "distinct (map fst ts)"
  shows "validate_dependencies ts = Inr () \<longleftrightarrow> (\<forall>(x, d) \<in> depends ts. map_of ts d \<noteq> None)"
proof -
  have "validate_dependencies ts = Inr () \<longleftrightarrow> unknown_dependencies ts = []"
    by (cases "unknown_dependencies ts") (auto simp: validate_dependencies_def)
  also have "\<dots> \<longleftrightarrow> (\<forall>(k, t) \<in> set ts. \<forall>d\<in>set (tn_dependencies t). map_of ts d \<noteq> None)"
    by (simp add: unknown_dependencies_def filter_empty_conv split_def)
  also have "\<dots> \<longleftrightarrow> (\<forall>(x, d) \<in> depends ts. map_of ts d \<noteq> None)"
    unfolding depends_def map_of_eq_Some_iff [OF assms] by fastforce
  finally show ?thesis .
qed

lemma validate_cycles_iff:
  assumes "\<forall>(x, d) \<in> depends ts. map_of ts d \<noteq> None"
  shows "validate_cycles ts = Inr () \<longleftrightarrow> acyclic (depends ts)"
proof
  assume "validate_cycles ts = Inr ()"
  then obtain vd where "visit_all ts [] (map fst ts) [] = Inr vd"
    by (auto simp: validate_cycles_def split: sum.splits)
  then have vd: "topo ts vd" "set (map fst ts) \<subseteq> set vd" using visit_sound(2) by fastforce+
  have "depends ts \<subseteq> inv_image less_than (\<lambda>t. length vd - rank vd t)" (is "_ \<subseteq> ?R")
  proof (rule subrelI)
    fix t d assume td: "(t, d) \<in> depends ts"
    then have "t \<in> set vd" using vd(2) by (force simp: depends_def dest: map_of_SomeD)
    with vd(1) td have "rank vd d < rank vd t" by (intro topo_rank)
    then show "(t, d) \<in> ?R" using rank_le [of vd t] by simp
  qed
  then show "acyclic (depends ts)"
    by (rule acyclic_subset [OF wf_acyclic [OF wf_inv_image [OF wf_less_than]]])
next
  assume ac: "acyclic (depends ts)"
  have "\<forall>d\<in>set (map fst ts). map_of ts d \<noteq> None" by (auto simp: map_of_None_iff)
  then obtain vd where "visit_all ts [] (map fst ts) [] = Inr vd"
    using visit_complete(2) [OF ac assms, of "map fst ts" "[]" "[]"] by auto
  then show "validate_cycles ts = Inr ()" by (simp add: validate_cycles_def)
qed

lemma plan_validate_iff:
  assumes "distinct (map fst (pl_tasks p))"
  shows "plan_validate p = Inr () \<longleftrightarrow>
     (\<forall>(x, d) \<in> depends (pl_tasks p). map_of (pl_tasks p) d \<noteq> None) \<and> acyclic (depends (pl_tasks p))"
  using validate_dependencies_iff [OF assms] validate_cycles_iff [of "pl_tasks p"]
  by (auto simp: plan_validate_def split: sum.splits)

section \<open>Round trip\<close>

text \<open>The plans that \<open>add_task\<close> builds: keys are unique and are the ids of their tasks.\<close>

definition plan_wf :: "execution_plan \<Rightarrow> bool" where
  "plan_wf p \<longleftrightarrow> distinct (map fst (pl_tasks p)) \<and> (\<forall>(k, t) \<in> set (pl_tasks p). tn_task_id t = k)"

lemma plan_wf_new [simp]: "plan_wf (new_plan pid obj)"
  by (simp add: plan_wf_def new_plan_def)

lemma add_task_wf: "add_task t p = Inr p' \<Longrightarrow> plan_wf p \<Longrightarrow> plan_wf p'"
  by (auto simp: add_task_def plan_wf_def update_append_new map_of_None_iff split: if_splits)

lemma task_status_of_value [simp]: "task_status_of (task_status_value st) = Some st"
  by (cases st) (simp_all add: task_status_of_def)

lemma obind_simps [simp]:
  "obind None k = None" "obind (Some (Inl e)) k = Some (Inl e)" "obind (Some (Inr x)) k = k x"
  by (simp_all add: obind_def)

lemma as_str_PStr_comp [simp]: "as_str \<circ> PStr = Some"
  by (simp add: fun_eq_iff)

lemma task_of_dict_to_dict [simp]: "task_of_dict (task_to_dict t) = Some (Inr t)"
  by (simp add: task_of_dict_def task_to_dict_def required_str_def field_of_def)

lemma add_payloads_tasks:
  assumes "\<forall>(k, t) \<in> set ts. tn_task_id t = k" and "distinct (map fst (pl_tasks p @ ts))"
  shows "add_payloads (map (\<lambda>(k, t). (k, PDict (task_to_dict t))) ts) p =
           Some (Inr (p\<lparr>pl_tasks := pl_tasks p @ ts\<rparr>))"
  using assms
proof (induction ts arbitrary: p)
  case (Cons kt ts)
  obtain k t where kt: "kt = (k, t)" by fastforce
  have "map_of (pl_tasks p) k = None" using Cons.prems kt by (auto simp: map_of_None_iff)
  then have "add_task t p = Inr (p\<lparr>pl_tasks := pl_tasks p @ [(k, t)]\<rparr>)"
    using Cons.prems kt by (simp add: add_task_def update_append_new)
  then show ?case using Cons kt by simp
qed simp

lemma plan_of_dict_to_dict:
  assumes "plan_wf p" and "plan_validate p = Inr ()"
  shows "plan_of_dict fresh (plan_to_dict p) = Some (Inr p)"
  using assms add_payloads_tasks [of "pl_tasks p" "p\<lparr>pl_tasks := []\<rparr>"]
  by (cases p) (simp add: plan_of_dict_def plan_to_dict_def field_of_def plan_wf_def)

end
