(* ===== verification/Kernel_Contracts.thy ===== *)
theory Kernel_Contracts
  imports Kernel_State
begin

text \<open>
  \<^verbatim>\<open>ois/kernel/contracts.py\<close> (contracts, requests, results) and
  \<^verbatim>\<open>ois/kernel/cancellation.py\<close> (the cooperative cancellation token).

  The dataclass hierarchy \<open>CapabilityContract\<close>, \<open>AgentContract\<close>, \<open>ToolContract\<close> is one record with
  a \<open>contract_kind\<close> that carries the fields of the subclass, so \<open>isinstance\<close> is a test of the kind.
  A capability is the pair of its contract attribute and its \<open>invoke\<close> method. \<open>invoke\<close> is code of
  the capability's author: it is a function that sees the request, a call index (so that two calls
  may differ) and the cancellation token, which it or another thread may cancel meanwhile; it
  returns a result or raises. It does not mutate the context it is handed.
\<close>

datatype contract_kind =
    PlainContract
  | AgentContract "string list" pydict int
  | ToolContract pydict "string list" bool

record capability_contract =
  cc_capability_id :: string
  cc_version :: string
  cc_description :: string
  cc_input_schema :: pydict
  cc_output_schema :: pydict
  cc_risk_level :: risk_level
  cc_permissions :: "string list"
  cc_allowed_domains :: "string list"
  cc_timeout_seconds :: rat
  cc_max_retries :: int
  cc_side_effects :: side_effect_level
  cc_idempotent :: bool
  cc_kind :: contract_kind

text \<open>\<open>CapabilityContract(id, version, description)\<close>: every other field takes its default.\<close>

definition new_contract :: "string \<Rightarrow> string \<Rightarrow> string \<Rightarrow> capability_contract" where
  "new_contract cid ver desc =
     \<lparr>cc_capability_id = cid, cc_version = ver, cc_description = desc, cc_input_schema = [],
      cc_output_schema = [], cc_risk_level = RL_LOW, cc_permissions = [], cc_allowed_domains = [],
      cc_timeout_seconds = 30, cc_max_retries = 0, cc_side_effects = SE_NONE,
      cc_idempotent = True, cc_kind = PlainContract\<rparr>"

fun is_agent_contract :: "contract_kind \<Rightarrow> bool" where
  "is_agent_contract (AgentContract _ _ _) = True"
| "is_agent_contract _ = False"

fun is_tool_contract :: "contract_kind \<Rightarrow> bool" where
  "is_tool_contract (ToolContract _ _ _) = True"
| "is_tool_contract _ = False"

record cancellation_token =
  tok_cancelled :: bool
  tok_reason :: "string option"

definition new_token :: cancellation_token where
  "new_token = \<lparr>tok_cancelled = False, tok_reason = None\<rparr>"

definition cancel :: "string option \<Rightarrow> cancellation_token \<Rightarrow> cancellation_token" where
  "cancel reason tok = tok\<lparr>tok_cancelled := True, tok_reason := reason\<rparr>"

definition raise_if_cancelled :: "cancellation_token \<Rightarrow> py_exn + unit" where
  "raise_if_cancelled tok =
     (if tok_cancelled tok
      then Inl (Exn ExecutionCancellation
             (case tok_reason tok of
                Some r \<Rightarrow> (if r = [] then ''Execution cancelled.'' else r)
              | None \<Rightarrow> ''Execution cancelled.''))
      else Inr ())"

record invocation_request =
  ir_invocation_id :: string
  ir_capability_id :: string
  ir_input :: pydict
  ir_execution :: execution_context
  ir_timeout_seconds :: "rat option"
  ir_attempt :: int
  ir_cancellation :: "cancellation_token option"

record invocation_result =
  res_invocation_id :: string
  res_capability_id :: string
  res_status :: invocation_status
  res_output :: pyval
  res_error :: "pydict option"
  res_started_at :: "string option"
  res_completed_at :: "string option"
  res_metadata :: pydict

definition new_result :: "string \<Rightarrow> string \<Rightarrow> invocation_status \<Rightarrow> invocation_result" where
  "new_result iid cid st =
     \<lparr>res_invocation_id = iid, res_capability_id = cid, res_status = st, res_output = PNone,
      res_error = None, res_started_at = None, res_completed_at = None, res_metadata = []\<rparr>"

type_synonym invoke_fn =
  "invocation_request \<Rightarrow> nat \<Rightarrow> cancellation_token \<Rightarrow>
     (py_exn + invocation_result) \<times> cancellation_token"

record capability =
  cap_contract :: "capability_contract option"
  cap_invoke :: invoke_fn

section \<open>Cancellation\<close>

lemma raise_if_cancelled_live: "\<not> tok_cancelled tok \<Longrightarrow> raise_if_cancelled tok = Inr ()"
  by (simp add: raise_if_cancelled_def)

lemma raise_if_cancelled_cancelled:
  "tok_cancelled tok \<Longrightarrow> \<exists>m. raise_if_cancelled tok = Inl (Exn ExecutionCancellation m)"
  by (simp add: raise_if_cancelled_def)

lemma cancel_cancelled [simp]: "tok_cancelled (cancel r tok)"
  by (simp add: cancel_def)

end
