(* ===== verification/Registry_Core.thy ===== *)
theory Registry_Core
  imports Kernel_Contracts
begin

text \<open>
  \<^verbatim>\<open>ois/registries/core.py\<close>: the generic versioned registry and the capability, agent and tool
  registries of the kernel. Entries live in a dict keyed by \<open>(id, version)\<close>, kept in insertion
  order. The lock that guards each method makes it one atomic step.
\<close>

type_synonym reg_key = "string \<times> string"

definition at_version :: "string \<Rightarrow> string \<Rightarrow> string" where
  "at_version i v = i @ ''@'' @ v"

section \<open>The generic registry\<close>

record 'a registry_entry =
  re_id :: string
  re_version :: string
  re_value :: 'a
  re_metadata :: pydict

type_synonym 'a registry = "(reg_key \<times> 'a registry_entry) list"

definition registry_register ::
  "string \<Rightarrow> string \<Rightarrow> 'a \<Rightarrow> pydict option \<Rightarrow> 'a registry \<Rightarrow> py_exn + 'a registry_entry \<times> 'a registry" where
  "registry_register i v x md r =
     (if i = [] \<or> v = [] then Inl (Exn ValueError ''registry id and version are required'')
      else if map_of r (i, v) \<noteq> None
      then Inl (Exn ValueError (''already registered: '' @ at_version i v))
      else let e = \<lparr>re_id = i, re_version = v, re_value = x,
                    re_metadata = (case md of None \<Rightarrow> [] | Some m \<Rightarrow> m)\<rparr>
           in Inr (e, AList.update (i, v) e r))"

definition registry_resolve :: "string \<Rightarrow> string \<Rightarrow> 'a registry \<Rightarrow> py_exn + 'a registry_entry" where
  "registry_resolve i v r =
     (case map_of r (i, v) of
        Some e \<Rightarrow> Inr e
      | None \<Rightarrow> Inl (Exn KeyError (''not registered: '' @ at_version i v)))"

definition registry_contains :: "string \<Rightarrow> string \<Rightarrow> 'a registry \<Rightarrow> bool" where
  "registry_contains i v r \<longleftrightarrow> map_of r (i, v) \<noteq> None"

text \<open>\<open>tuple(self._entries[key] for key in sorted(self._entries))\<close>; pairs sort by id, then version.\<close>

definition registry_snapshot :: "'a registry \<Rightarrow> 'a registry_entry list" where
  "registry_snapshot r =
     map snd (sort_key (\<lambda>kv. fst (fst kv)) (sort_key (\<lambda>kv. snd (fst kv)) r))"

section \<open>The capability registry\<close>

record capability_entry =
  ce_capability :: capability
  ce_contract :: "capability_contract option"
  ce_id :: string
  ce_version :: string

type_synonym capability_registry = "(reg_key \<times> capability_entry) list"

datatype reg_arg = RegId string | RegCapability capability

definition capability_register ::
  "reg_arg \<Rightarrow> string option \<Rightarrow> capability option \<Rightarrow> capability_registry \<Rightarrow> py_exn + capability_registry" where
  "capability_register arg version val r =
     (case
        (case arg of
           RegId i \<Rightarrow>
             (case version of
                Some (c # cs) \<Rightarrow> Inr (i, c # cs, val)
              | _ \<Rightarrow> Inl (Exn ValueError ''registry id and version are required''))
         | RegCapability cap \<Rightarrow>
             (case cap_contract cap of
                Some k \<Rightarrow> Inr (cc_capability_id k, cc_version k, Some cap)
              | None \<Rightarrow> Inl (Exn AttributeError ''contract'')))
      of Inl e \<Rightarrow> Inl e
       | Inr (cid, ver, None) \<Rightarrow> Inl (Exn ValueError ''registry value is required'')
       | Inr (cid, ver, Some cap) \<Rightarrow>
           (if map_of r (cid, ver) \<noteq> None
            then Inl (Exn DuplicateCapabilityError
                   (''Capability already registered: '' @ at_version cid ver))
            else Inr (AList.update (cid, ver)
                   \<lparr>ce_capability = cap, ce_contract = cap_contract cap, ce_id = cid,
                    ce_version = ver\<rparr> r)))"

definition capability_unregister ::
  "string \<Rightarrow> string \<Rightarrow> capability_registry \<Rightarrow> py_exn + capability_registry" where
  "capability_unregister cid ver r =
     (if map_of r (cid, ver) = None
      then Inl (Exn CapabilityNotFoundError (''not registered: '' @ at_version cid ver))
      else Inr (AList.delete (cid, ver) r))"

definition capability_get ::
  "string \<Rightarrow> string \<Rightarrow> capability_registry \<Rightarrow> py_exn + capability_entry" where
  "capability_get cid ver r =
     (case map_of r (cid, ver) of
        Some e \<Rightarrow> Inr e
      | None \<Rightarrow> Inl (Exn CapabilityNotFoundError (''not registered: '' @ at_version cid ver)))"

definition capability_has :: "string \<Rightarrow> string \<Rightarrow> capability_registry \<Rightarrow> bool" where
  "capability_has cid ver r \<longleftrightarrow> map_of r (cid, ver) \<noteq> None"

definition capability_list :: "capability_registry \<Rightarrow> capability_entry list" where
  "capability_list r = map snd r"

section \<open>Agents and tools\<close>

definition agent_register ::
  "reg_arg \<Rightarrow> string option \<Rightarrow> capability option \<Rightarrow> capability_registry \<Rightarrow> py_exn + capability_registry" where
  "agent_register arg version val r =
     (case arg of
        RegCapability cap \<Rightarrow>
          (case cap_contract cap of
             Some k \<Rightarrow> (if is_agent_contract (cc_kind k) then capability_register arg version val r
                        else Inl (Exn RegistryError ''AgentRegistry requires an AgentContract.''))
           | None \<Rightarrow> Inl (Exn RegistryError ''AgentRegistry requires an AgentContract.''))
      | RegId i \<Rightarrow> capability_register arg version val r)"

definition tool_register ::
  "reg_arg \<Rightarrow> string option \<Rightarrow> capability option \<Rightarrow> capability_registry \<Rightarrow> py_exn + capability_registry" where
  "tool_register arg version val r =
     (case arg of
        RegCapability cap \<Rightarrow>
          (case cap_contract cap of
             Some k \<Rightarrow> (if is_tool_contract (cc_kind k) then capability_register arg version val r
                        else Inl (Exn RegistryError ''ToolRegistry requires a ToolContract.''))
           | None \<Rightarrow> Inl (Exn RegistryError ''ToolRegistry requires a ToolContract.''))
      | RegId i \<Rightarrow> capability_register arg version val r)"

record agent_routing_decision =
  ard_capability_id :: string
  ard_version :: string
  ard_selected :: capability_entry
  ard_candidates :: "capability_entry list"
  ard_reason :: string

definition agent_candidates :: "string \<Rightarrow> string \<Rightarrow> capability_registry \<Rightarrow> capability_entry list" where
  "agent_candidates cid ver r =
     filter (\<lambda>e. case ce_contract e of
                   None \<Rightarrow> False
                 | Some k \<Rightarrow> is_agent_contract (cc_kind k) \<and> cc_capability_id k = cid \<and> cc_version k = ver)
       (capability_list r)"

text \<open>
  The loop over the candidates. \<open>authorize\<close> is the policy engine on the request; an exception that
  is not \<open>AuthorizationDenied\<close> ends the loop, and the call, with that exception. The accumulators
  are the lists \<open>eligible\<close> and \<open>rejected\<close>.
\<close>

fun route_loop ::
  "(capability_contract \<Rightarrow> py_exn + bool) \<Rightarrow> (capability_entry \<Rightarrow> bool) option \<Rightarrow> string \<Rightarrow>
     capability_entry list \<Rightarrow> capability_entry list \<Rightarrow> string list \<Rightarrow>
     py_exn + capability_entry list \<times> string list" where
  "route_loop authorize avail key [] eligible rejected = Inr (eligible, rejected)"
| "route_loop authorize avail key (e # es) eligible rejected =
     (case ce_contract e of
        None \<Rightarrow> route_loop authorize avail key es eligible rejected
      | Some k \<Rightarrow>
         (case authorize k of
            Inl x \<Rightarrow> (if exn_class x = AuthorizationDenied
                      then route_loop authorize avail key es eligible (rejected @ [exn_str x])
                      else Inl x)
          | Inr _ \<Rightarrow>
             (if (case avail of None \<Rightarrow> False | Some f \<Rightarrow> \<not> f e)
              then route_loop authorize avail key es eligible
                     (rejected @ [''Agent unavailable: '' @ key])
              else route_loop authorize avail key es (eligible @ [e]) rejected)))"

definition agent_route ::
  "(capability_contract \<Rightarrow> py_exn + bool) \<Rightarrow> (capability_entry \<Rightarrow> bool) option \<Rightarrow> string \<Rightarrow> string \<Rightarrow>
     capability_registry \<Rightarrow> py_exn + agent_routing_decision" where
  "agent_route authorize avail cid ver r =
     (let cands = agent_candidates cid ver r in
      if cands = [] then
        Inl (Exn AgentRoutingError (''No agent registered for '' @ at_version cid ver))
      else
        (case route_loop authorize avail (at_version cid ver) cands [] [] of
           Inl x \<Rightarrow> Inl x
         | Inr (eligible, rejected) \<Rightarrow>
            (case eligible of
               [] \<Rightarrow> Inl (Exn AgentRoutingError
                       (if py_join ''; '' rejected = [] then ''No eligible agent matched routing policy.''
                        else py_join ''; '' rejected))
             | [e] \<Rightarrow> Inr \<lparr>ard_capability_id = cid, ard_version = ver, ard_selected = e,
                           ard_candidates = [e],
                           ard_reason = ''Selected the sole eligible agent after policy and availability filtering.''\<rparr>
             | _ \<Rightarrow> Inl (Exn AmbiguousAgentError
                       (''Ambiguous agent routing for '' @ at_version cid ver @ '': ''
                        @ nat_str (length eligible) @ '' eligible agents'')))))"

section \<open>Invariants and laws\<close>

text \<open>The keys are pairwise different and every entry is filed under its own id and version.\<close>

definition registry_wf :: "capability_registry \<Rightarrow> bool" where
  "registry_wf r \<longleftrightarrow> distinct (map fst r) \<and> (\<forall>(k, e) \<in> set r. k = (ce_id e, ce_version e))"

lemma registry_wf_empty [simp]: "registry_wf []"
  by (simp add: registry_wf_def)

lemma registry_wf_lookup:
  "registry_wf r \<Longrightarrow> map_of r k = Some e \<Longrightarrow> k = (ce_id e, ce_version e)"
  by (auto simp: registry_wf_def dest: map_of_SomeD)

lemma registry_wf_update:
  assumes "registry_wf r" and "map_of r (ce_id e, ce_version e) = None"
  shows "registry_wf (AList.update (ce_id e, ce_version e) e r)"
  using assms distinct_keys_update
  by (auto simp: registry_wf_def update_append_new map_of_None_iff)

lemma registry_wf_delete: "registry_wf r \<Longrightarrow> registry_wf (AList.delete k r)"
  by (auto simp: registry_wf_def AList.delete_eq distinct_map_filter)

lemma capability_register_ok:
  assumes "capability_register arg version val r = Inr r'"
  obtains cid ver e where "r' = AList.update (cid, ver) e r" "map_of r (cid, ver) = None"
    "ce_id e = cid" "ce_version e = ver" "ce_contract e = cap_contract (ce_capability e)"
    "\<And>cap k. arg = RegCapability cap \<Longrightarrow> cap_contract cap = Some k \<Longrightarrow>
        cid = cc_capability_id k \<and> ver = cc_version k \<and> ce_capability e = cap"
proof -
  let ?e = "\<lambda>cid ver cap.
    \<lparr>ce_capability = cap, ce_contract = cap_contract cap, ce_id = cid, ce_version = ver\<rparr>"
  have "\<exists>cid ver cap. r' = AList.update (cid, ver) (?e cid ver cap) r \<and> map_of r (cid, ver) = None \<and>
      (\<forall>c k. arg = RegCapability c \<longrightarrow> cap_contract c = Some k \<longrightarrow>
        cid = cc_capability_id k \<and> ver = cc_version k \<and> cap = c)"
    using assms
    by (auto simp: capability_register_def split: reg_arg.splits option.splits list.splits if_splits)
  then obtain cid ver cap where
    r': "r' = AList.update (cid, ver) (?e cid ver cap) r" "map_of r (cid, ver) = None"
    and arg: "\<And>c k. arg = RegCapability c \<Longrightarrow> cap_contract c = Some k \<Longrightarrow>
        cid = cc_capability_id k \<and> ver = cc_version k \<and> cap = c"
    by blast
  from r' show thesis
    by (rule that) (auto dest: arg)
qed

lemma capability_register_wf:
  "capability_register arg version val r = Inr r' \<Longrightarrow> registry_wf r \<Longrightarrow> registry_wf r'"
  by (elim capability_register_ok) (auto intro: registry_wf_update)

lemma capability_unregister_wf:
  "capability_unregister cid ver r = Inr r' \<Longrightarrow> registry_wf r \<Longrightarrow> registry_wf r'"
  by (auto simp: capability_unregister_def registry_wf_delete split: if_splits)

lemma capability_get_register_other:
  "capability_register arg version val r = Inr r' \<Longrightarrow> capability_get cid ver r = Inr e \<Longrightarrow>
     capability_get cid ver r' = Inr e"
  by (elim capability_register_ok) (auto simp: capability_get_def split: option.splits)

section \<open>Routing\<close>

text \<open>An entry is eligible when the policy lets its contract pass and it is available.\<close>

definition eligible_agent ::
  "(capability_contract \<Rightarrow> py_exn + bool) \<Rightarrow> (capability_entry \<Rightarrow> bool) option \<Rightarrow> capability_entry \<Rightarrow> bool" where
  "eligible_agent authorize avail e \<longleftrightarrow>
     (case ce_contract e of None \<Rightarrow> False | Some k \<Rightarrow> \<not> isl (authorize k)) \<and>
     (case avail of None \<Rightarrow> True | Some f \<Rightarrow> f e)"

lemma route_loop_eligible:
  "route_loop authorize avail key es el rej = Inr (el', rej') \<Longrightarrow>
     el' = el @ filter (eligible_agent authorize avail) es"
proof (induction es arbitrary: el rej)
  case Nil
  then show ?case by simp
next
  case (Cons e es)
  then show ?case
    by (fastforce simp: eligible_agent_def [of authorize avail e]
        split: option.splits sum.splits if_splits)
qed

lemma route_loop_total:
  assumes "\<forall>e \<in> set es. \<forall>k x. ce_contract e = Some k \<longrightarrow> authorize k = Inl x \<longrightarrow>
             exn_class x = AuthorizationDenied"
  shows "\<exists>el' rej'. route_loop authorize avail key es el rej = Inr (el', rej')"
  using assms
  by (induction es arbitrary: el rej) (auto split: option.splits sum.splits)

lemma agent_route_sole:
  assumes "agent_route authorize avail cid ver r = Inr d"
  shows "filter (eligible_agent authorize avail) (agent_candidates cid ver r) = [ard_selected d]"
  using assms
  by (auto simp: agent_route_def Let_def split: if_splits sum.splits list.splits prod.splits
      dest!: route_loop_eligible)

end
