(* ===== verification/Kernel_Policy.thy ===== *)
theory Kernel_Policy
  imports Registry_Core
begin

text \<open>
  \<^verbatim>\<open>ois/kernel/policy.py\<close>: the deny-by-default policy engine that every invocation passes.
\<close>

record policy_decision =
  pd_allowed :: bool
  pd_reasons :: "string list"
  pd_requires_approval :: bool

record policy_engine =
  pe_allowed_permissions :: "string list"
  pe_maximum_risk :: risk_level
  pe_allow_irreversible :: bool

text \<open>\<open>DefaultPolicyEngine()\<close> with every argument at its default.\<close>

definition default_policy_engine :: policy_engine where
  "default_policy_engine =
     \<lparr>pe_allowed_permissions = [], pe_maximum_risk = RL_MEDIUM, pe_allow_irreversible = False\<rparr>"

text \<open>\<open>set(contract.permissions) - self._allowed_permissions\<close>, sorted.\<close>

definition missing_permissions :: "policy_engine \<Rightarrow> capability_contract \<Rightarrow> string list" where
  "missing_permissions pe k =
     sort (remdups (filter (\<lambda>p. p \<notin> set (pe_allowed_permissions pe)) (cc_permissions k)))"

definition policy_evaluate ::
  "policy_engine \<Rightarrow> invocation_request \<Rightarrow> capability_contract \<Rightarrow> policy_decision" where
  "policy_evaluate pe req k =
     (let r1 = (if ctx_tenant_id (ir_execution req) = []
                then [''Execution must have a tenant identity.''] else []);
          r2 = (if risk_order (cc_risk_level k) > risk_order (pe_maximum_risk pe)
                then [''Capability risk exceeds policy limit: '' @ risk_level_value (cc_risk_level k)]
                else []);
          r3 = (if missing_permissions pe k \<noteq> []
                then [''Missing permissions: '' @ py_join '', '' (missing_permissions pe k)] else []);
          r4 = (if cc_side_effects k = SE_IRREVERSIBLE \<and> \<not> pe_allow_irreversible pe
                then [''Irreversible side effects are not permitted.''] else []);
          reasons = r1 @ r2 @ r3 @ r4
      in \<lparr>pd_allowed = (reasons = []), pd_reasons = reasons,
          pd_requires_approval = (cc_risk_level k \<in> {RL_HIGH, RL_CRITICAL}
                                  \<or> cc_side_effects k = SE_IRREVERSIBLE)\<rparr>)"

definition policy_authorize ::
  "policy_engine \<Rightarrow> invocation_request \<Rightarrow> capability_contract \<Rightarrow> py_exn + bool" where
  "policy_authorize pe req k =
     (let d = policy_evaluate pe req k
      in if \<not> pd_allowed d then Inl (Exn AuthorizationDenied (py_join ''; '' (pd_reasons d)))
         else Inr True)"

section \<open>What an authorization means\<close>

lemma missing_permissions_Nil:
  "missing_permissions pe k = [] \<longleftrightarrow> set (cc_permissions k) \<subseteq> set (pe_allowed_permissions pe)"
proof -
  have "missing_permissions pe k = [] \<longleftrightarrow> set (missing_permissions pe k) = {}" by simp
  also have "\<dots> \<longleftrightarrow> set (cc_permissions k) \<subseteq> set (pe_allowed_permissions pe)"
    unfolding missing_permissions_def by auto
  finally show ?thesis .
qed

definition policy_permits :: "policy_engine \<Rightarrow> invocation_request \<Rightarrow> capability_contract \<Rightarrow> bool" where
  "policy_permits pe req k \<longleftrightarrow>
     ctx_tenant_id (ir_execution req) \<noteq> [] \<and>
     cc_risk_level k \<le> pe_maximum_risk pe \<and>
     set (cc_permissions k) \<subseteq> set (pe_allowed_permissions pe) \<and>
     (cc_side_effects k = SE_IRREVERSIBLE \<longrightarrow> pe_allow_irreversible pe)"

lemma policy_evaluate_allowed: "pd_allowed (policy_evaluate pe req k) \<longleftrightarrow> policy_permits pe req k"
  by (auto simp: policy_evaluate_def policy_permits_def missing_permissions_Nil
      less_eq_risk_level_def Let_def)

lemma policy_authorize_permits: "policy_permits pe req k \<Longrightarrow> policy_authorize pe req k = Inr True"
  by (simp add: policy_authorize_def Let_def policy_evaluate_allowed)

lemma policy_authorize_denied:
  "\<not> policy_permits pe req k \<Longrightarrow>
     policy_authorize pe req k =
       Inl (Exn AuthorizationDenied (py_join ''; '' (pd_reasons (policy_evaluate pe req k))))"
  by (simp add: policy_authorize_def Let_def policy_evaluate_allowed)

lemma policy_authorize_raises_denied:
  "policy_authorize pe req k = Inl x \<Longrightarrow> exn_class x = AuthorizationDenied"
  by (auto simp: policy_authorize_def Let_def split: if_splits)

section \<open>The interface the runtime and the router call\<close>

text \<open>
  A policy engine, as its callers see it: \<open>authorize\<close> returns \<open>True\<close> or raises, and what it raises is
  \<open>AuthorizationDenied\<close> or a \<open>PermissionError\<close>. \<open>permits\<close> is the condition it decides.
\<close>

locale policy_contract =
  fixes authorize :: "invocation_request \<Rightarrow> capability_contract \<Rightarrow> py_exn + bool"
    and permits :: "invocation_request \<Rightarrow> capability_contract \<Rightarrow> bool"
  assumes authorize_permits: "permits req k \<Longrightarrow> authorize req k = Inr True"
    and authorize_denies: "\<not> permits req k \<Longrightarrow>
       \<exists>x. authorize req k = Inl x \<and>
           (exn_class x = AuthorizationDenied \<or> is_permission_error (exn_class x))"
begin

lemma authorize_Inr: "authorize req k = Inr b \<longleftrightarrow> permits req k \<and> b"
  using authorize_permits [of req k] authorize_denies [of req k] by (cases "permits req k") auto

lemma authorize_isl: "isl (authorize req k) \<longleftrightarrow> \<not> permits req k"
  using authorize_permits [of req k] authorize_denies [of req k] by (cases "permits req k") auto

lemma authorize_cases:
  obtains "permits req k" "authorize req k = Inr True"
  | x where "\<not> permits req k" "authorize req k = Inl x"
      "exn_class x = AuthorizationDenied \<or> is_permission_error (exn_class x)"
  using authorize_permits [of req k] authorize_denies [of req k] by blast

end

text \<open>An engine that raises nothing but \<open>AuthorizationDenied\<close>: what agent routing relies on.\<close>

locale strict_policy = policy_contract +
  assumes authorize_denied: "authorize req k = Inl x \<Longrightarrow> exn_class x = AuthorizationDenied"
begin

lemma eligible_agent_permits:
  "eligible_agent (authorize req) avail e \<longleftrightarrow>
     (\<exists>k. ce_contract e = Some k \<and> permits req k) \<and> (case avail of None \<Rightarrow> True | Some f \<Rightarrow> f e)"
  by (auto simp: eligible_agent_def authorize_isl split: option.splits)

text \<open>Routing succeeds exactly when one candidate is permitted and available.\<close>

lemma agent_route_iff:
  "(\<exists>d. agent_route (authorize req) avail cid ver r = Inr d \<and> ard_selected d = e) \<longleftrightarrow>
     filter (eligible_agent (authorize req) avail) (agent_candidates cid ver r) = [e]"
  (is "?L \<longleftrightarrow> ?R")
proof
  assume ?L
  then show ?R by (auto dest: agent_route_sole)
next
  assume R: ?R
  then have ne: "agent_candidates cid ver r \<noteq> []" by auto
  obtain el rej where "route_loop (authorize req) avail (at_version cid ver)
      (agent_candidates cid ver r) [] [] = Inr (el, rej)"
    using route_loop_total [of "agent_candidates cid ver r" "authorize req" avail] authorize_denied
    by blast
  moreover from this R have "el = [e]" by (auto dest: route_loop_eligible)
  ultimately show ?L using ne by (simp add: agent_route_def Let_def)
qed

end

interpretation default_policy: strict_policy "policy_authorize pe" "policy_permits pe" for pe
  by unfold_locales
    (auto simp: policy_authorize_permits policy_authorize_denied dest: policy_authorize_raises_denied)

end
