(* ===== verification/Kernel_Validation.thy ===== *)
theory Kernel_Validation
  imports Kernel_Contracts
begin

text \<open>
  \<^verbatim>\<open>ois/kernel/validation.py\<close>: the contract validator. \<open>validate_schema\<close> is
  \<open>ContractValidator._validate_schema\<close>, a list of error messages; \<open>conforms\<close> is the declarative
  meaning of the supported schema vocabulary.
\<close>

record validation_result =
  vr_valid :: bool
  vr_errors :: "string list"

definition validation_success :: validation_result where
  "validation_success = \<lparr>vr_valid = True, vr_errors = []\<rparr>"

definition validation_failure :: "string list \<Rightarrow> validation_result" where
  "validation_failure errs = \<lparr>vr_valid = False, vr_errors = errs\<rparr>"

text \<open>
  \<open>type_validators\<close>: \<open>None\<close> for a type name that is not in the dictionary. A \<open>bool\<close> is an \<open>int\<close> in
  Python, hence the explicit exclusions in the source; the constructors of \<open>pyval\<close> are disjoint.
\<close>

definition type_validator :: "string \<Rightarrow> (pyval \<Rightarrow> bool) option" where
  "type_validator t = map_of
     [(''string'', \<lambda>v. case v of PStr _ \<Rightarrow> True | _ \<Rightarrow> False),
      (''integer'', \<lambda>v. case v of PInt _ \<Rightarrow> True | _ \<Rightarrow> False),
      (''number'', \<lambda>v. case v of PInt _ \<Rightarrow> True | PFloat _ \<Rightarrow> True | _ \<Rightarrow> False),
      (''boolean'', \<lambda>v. case v of PBool _ \<Rightarrow> True | _ \<Rightarrow> False),
      (''object'', \<lambda>v. case v of PDict _ \<Rightarrow> True | _ \<Rightarrow> False),
      (''array'', \<lambda>v. case v of PList _ \<Rightarrow> True | PTuple _ \<Rightarrow> True | _ \<Rightarrow> False)] t"

text \<open>\<open>isinstance(x, list | tuple)\<close> and its elements.\<close>

fun as_seq :: "pyval option \<Rightarrow> pyval list option" where
  "as_seq (Some (PList vs)) = Some vs"
| "as_seq (Some (PTuple vs)) = Some vs"
| "as_seq _ = None"

fun as_mapping :: "pyval option \<Rightarrow> pydict option" where
  "as_mapping (Some (PDict d)) = Some d"
| "as_mapping _ = None"

definition type_ok :: "pydict \<Rightarrow> pyval \<Rightarrow> bool" where
  "type_ok schema v =
     (case map_of schema ''type'' of
        Some (PStr t) \<Rightarrow> (case type_validator t of None \<Rightarrow> True | Some f \<Rightarrow> f v)
      | _ \<Rightarrow> True)"

definition type_name :: "pydict \<Rightarrow> string" where
  "type_name schema = (case map_of schema ''type'' of Some (PStr t) \<Rightarrow> t | _ \<Rightarrow> [])"

definition enum_ok :: "pydict \<Rightarrow> pyval \<Rightarrow> bool" where
  "enum_ok schema v =
     (case as_seq (map_of schema ''enum'') of None \<Rightarrow> True | Some vs \<Rightarrow> list_ex (py_eq v) vs)"

definition missing_fields :: "pydict \<Rightarrow> pyval \<Rightarrow> string list" where
  "missing_fields schema v =
     (case (as_seq (map_of schema ''required''), v) of
        (Some rs, PDict d) \<Rightarrow>
          concat (map (\<lambda>r. case r of PStr f \<Rightarrow> (if map_of d f = None then [f] else []) | _ \<Rightarrow> []) rs)
      | _ \<Rightarrow> [])"

text \<open>The size that decreases from a schema to the schemas of its properties.\<close>

primrec pv_weight :: "pyval \<Rightarrow> nat" where
  "pv_weight PNone = 1"
| "pv_weight (PBool b) = 1"
| "pv_weight (PInt i) = 1"
| "pv_weight (PFloat r) = 1"
| "pv_weight (PStr s) = 1"
| "pv_weight (PList vs) = Suc (sum_list (map pv_weight vs))"
| "pv_weight (PTuple vs) = Suc (sum_list (map pv_weight vs))"
| "pv_weight (PDict kvs) = Suc (sum_list (map (\<lambda>p. Suc (snd p)) (map (map_prod id pv_weight) kvs)))"

definition props_weight :: "(string \<times> pyval) list \<Rightarrow> nat" where
  "props_weight ps = sum_list (map (\<lambda>p. Suc (pv_weight (snd p))) ps)"

lemma pv_weight_PDict: "pv_weight (PDict d) = Suc (props_weight d)"
  by (simp add: props_weight_def comp_def)

lemma props_weight_Cons [simp]: "props_weight (p # ps) = Suc (pv_weight (snd p)) + props_weight ps"
  by (simp add: props_weight_def)

lemma props_weight_lookup: "map_of d k = Some v \<Longrightarrow> pv_weight v < props_weight d"
  by (induction d) (auto split: if_splits)

lemma as_mapping_weight:
  "as_mapping (map_of schema k) = Some props \<Longrightarrow> props_weight props < props_weight schema"
  using props_weight_lookup [of schema k]
  by (cases "map_of schema k" rule: as_mapping.cases) (auto simp: pv_weight_PDict simp del: pv_weight.simps)

function validate_schema :: "pyval \<Rightarrow> pydict \<Rightarrow> string \<Rightarrow> string list"
  and validate_properties :: "pydict \<Rightarrow> (string \<times> pyval) list \<Rightarrow> string \<Rightarrow> string list" where
  "validate_schema v schema path =
     (if \<not> type_ok schema v then [path @ '': expected '' @ type_name schema @ ''.'']
      else
        (if enum_ok schema v then []
         else [path @ '': value is not one of the allowed enum values.''])
        @ map (\<lambda>f. path @ '': missing required field '' @ [CHR 0x27] @ f @ [CHR 0x27] @ ''.'')
            (missing_fields schema v)
        @ (case as_mapping (map_of schema ''properties'') of
             None \<Rightarrow> []
           | Some props \<Rightarrow> (case v of PDict d \<Rightarrow> validate_properties d props path | _ \<Rightarrow> [])))"
| "validate_properties d [] path = []"
| "validate_properties d ((f, fs) # ps) path =
     (case map_of d f of
        None \<Rightarrow> []
      | Some w \<Rightarrow> (case fs of PDict sch \<Rightarrow> validate_schema w sch (path @ ''.'' @ f) | _ \<Rightarrow> []))
     @ validate_properties d ps path"
  by pat_completeness auto

termination
  by (relation "measure (\<lambda>x. case x of
        Inl (v, schema, path) \<Rightarrow> props_weight schema
      | Inr (d, props, path) \<Rightarrow> props_weight props)")
     (auto simp: pv_weight_PDict simp del: pv_weight.simps dest: as_mapping_weight)

declare validate_schema.simps [simp del]

definition validate_input :: "invocation_request \<Rightarrow> capability_contract \<Rightarrow> py_exn + unit" where
  "validate_input req k =
     (let errs = validate_schema (PDict (ir_input req)) (cc_input_schema k) ''input''
      in if errs \<noteq> [] then Inl (Exn InputValidationError (py_join ''; '' errs)) else Inr ())"

definition validate_output :: "invocation_result \<Rightarrow> capability_contract \<Rightarrow> py_exn + unit" where
  "validate_output res k =
     (let errs = validate_schema (res_output res) (cc_output_schema k) ''output''
      in if errs \<noteq> [] then Inl (Exn OutputValidationError (py_join ''; '' errs)) else Inr ())"

section \<open>The meaning of a schema\<close>

text \<open>
  The meaning of a schema, stated on the schema itself and not by the tests of the validator. \<open>has_type\<close> gives the
  values of each type of the vocabulary: an integer is not a boolean, a number is an integer or a float, a list and a
  tuple are arrays; a type outside the vocabulary restricts nothing. A value conforms to a schema when it has the type
  the schema names, equals (\<open>==\<close>) one of the enumerated values, has each required field, and each property it has
  conforms to the schema of that property.
\<close>

inductive has_type :: "string \<Rightarrow> pyval \<Rightarrow> bool" where
  string: "has_type ''string'' (PStr s)"
| integer: "has_type ''integer'' (PInt i)"
| number_int: "has_type ''number'' (PInt i)"
| number_float: "has_type ''number'' (PFloat x)"
| boolean: "has_type ''boolean'' (PBool b)"
| object: "has_type ''object'' (PDict d)"
| array_list: "has_type ''array'' (PList vs)"
| array_tuple: "has_type ''array'' (PTuple vs)"
| open_type: "t \<notin> {''string'', ''integer'', ''number'', ''boolean'', ''object'', ''array''} \<Longrightarrow> has_type t v"

inductive sequence_of :: "pyval \<Rightarrow> pyval list \<Rightarrow> bool" where
  in_list: "sequence_of (PList vs) vs"
| in_tuple: "sequence_of (PTuple vs) vs"

inductive conforms :: "pydict \<Rightarrow> pyval \<Rightarrow> bool" where
  conformsI: "(\<And>t. map_of schema ''type'' = Some (PStr t) \<Longrightarrow> has_type t v) \<Longrightarrow>
    (\<And>e vs. map_of schema ''enum'' = Some e \<Longrightarrow> sequence_of e vs \<Longrightarrow> \<exists>u\<in>set vs. py_eq v u) \<Longrightarrow>
    (\<And>r rs d f. map_of schema ''required'' = Some r \<Longrightarrow> sequence_of r rs \<Longrightarrow> v = PDict d \<Longrightarrow> PStr f \<in> set rs \<Longrightarrow> f \<in> fst ` set d) \<Longrightarrow>
    (\<And>props d f sch w. map_of schema ''properties'' = Some (PDict props) \<Longrightarrow> v = PDict d \<Longrightarrow>
       (f, PDict sch) \<in> set props \<Longrightarrow> map_of d f = Some w \<Longrightarrow> conforms sch w) \<Longrightarrow>
    conforms schema v"

inductive_simps conforms_iff: "conforms schema v"
inductive_simps has_type_iff: "has_type t v"
inductive_simps sequence_of_iff: "sequence_of e vs"

text \<open>The tests of the validator decide the clauses.\<close>

lemma type_ok_iff: "type_ok schema v \<longleftrightarrow> (\<forall>t. map_of schema ''type'' = Some (PStr t) \<longrightarrow> has_type t v)"
  by (auto simp: type_ok_def type_validator_def has_type_iff split: option.splits pyval.splits if_splits)

lemma as_seq_iff: "as_seq x = Some vs \<longleftrightarrow> (\<exists>e. x = Some e \<and> sequence_of e vs)"
  by (cases x rule: as_seq.cases) (auto simp: sequence_of_iff)

lemma enum_ok_iff: "enum_ok schema v \<longleftrightarrow> (\<forall>e vs. map_of schema ''enum'' = Some e \<longrightarrow> sequence_of e vs \<longrightarrow> (\<exists>u\<in>set vs. py_eq v u))"
proof (cases "as_seq (map_of schema ''enum'')")
  case None
  then have "\<not> sequence_of e vs" if "map_of schema ''enum'' = Some e" for e vs using that as_seq_iff by (metis option.distinct(1))
  then show ?thesis using None by (simp add: enum_ok_def)
next
  case (Some vs)
  moreover obtain e where "map_of schema ''enum'' = Some e" "sequence_of e vs" using Some as_seq_iff by blast
  ultimately show ?thesis by (auto simp: enum_ok_def list_ex_iff sequence_of_iff)
qed

lemma absent_field_iff:
  "(case x of PStr f \<Rightarrow> if map_of d f = None then [f] else [] | _ \<Rightarrow> []) = [] \<longleftrightarrow> (\<forall>f. x = PStr f \<longrightarrow> f \<in> fst ` set d)"
  by (cases x) (auto simp: map_of_eq_None_iff)

lemma missing_fields_iff:
  "missing_fields schema v = [] \<longleftrightarrow>
     (\<forall>r rs d f. map_of schema ''required'' = Some r \<longrightarrow> sequence_of r rs \<longrightarrow> v = PDict d \<longrightarrow> PStr f \<in> set rs \<longrightarrow> f \<in> fst ` set d)"
proof (cases "as_seq (map_of schema ''required'')")
  case None
  then have "\<not> sequence_of r rs" if "map_of schema ''required'' = Some r" for r rs using that as_seq_iff by (metis option.distinct(1))
  then show ?thesis using None by (simp add: missing_fields_def)
next
  case (Some rs)
  then obtain r where r: "map_of schema ''required'' = Some r" "sequence_of r rs" using as_seq_iff by blast
  then have "sequence_of r qs \<longleftrightarrow> qs = rs" for qs by (auto simp: sequence_of_iff)
  then show ?thesis using Some r(1) by (cases v) (simp_all add: missing_fields_def absent_field_iff, blast)
qed

lemma as_mapping_iff: "as_mapping x = Some d \<longleftrightarrow> x = Some (PDict d)"
  by (cases x rule: as_mapping.cases) auto

lemma conforms_tests:
  "conforms schema v \<longleftrightarrow> type_ok schema v \<and> enum_ok schema v \<and> missing_fields schema v = [] \<and>
     (\<forall>props d f sch w. as_mapping (map_of schema ''properties'') = Some props \<longrightarrow> v = PDict d \<longrightarrow>
       (f, PDict sch) \<in> set props \<longrightarrow> map_of d f = Some w \<longrightarrow> conforms sch w)"
  unfolding type_ok_iff enum_ok_iff missing_fields_iff as_mapping_iff by (subst conforms_iff) blast

lemma validate_sound_complete:
  "validate_schema v schema path = [] \<longleftrightarrow> conforms schema v"
  "validate_properties d props path = [] \<longleftrightarrow>
     (\<forall>f sch w. (f, PDict sch) \<in> set props \<longrightarrow> map_of d f = Some w \<longrightarrow> conforms sch w)"
proof (induction v schema path and d props path rule: validate_schema_validate_properties.induct)
  case (1 v schema path)
  show ?case
    by (subst validate_schema.simps, subst conforms_tests)
      (use 1 in \<open>auto split: option.splits pyval.splits\<close>)
next
  case (2 d path)
  show ?case by simp
next
  case (3 d f fs ps path)
  then show ?case by (auto split: option.splits pyval.splits)
qed

lemma validate_input_iff:
  "validate_input req k = Inr () \<longleftrightarrow> conforms (cc_input_schema k) (PDict (ir_input req))"
  by (simp add: validate_input_def Let_def validate_sound_complete)

lemma validate_output_iff:
  "validate_output res k = Inr () \<longleftrightarrow> conforms (cc_output_schema k) (res_output res)"
  by (simp add: validate_output_def Let_def validate_sound_complete)

lemma conforms_empty [simp]: "conforms [] v"
  by (subst conforms_iff) simp

lemma validate_input_raises:
  "validate_input req k = Inl x \<Longrightarrow> exn_class x = InputValidationError"
  by (auto simp: validate_input_def Let_def split: if_splits)

lemma validate_output_raises:
  "validate_output res k = Inl x \<Longrightarrow> exn_class x = OutputValidationError"
  by (auto simp: validate_output_def Let_def split: if_splits)

text \<open>
  C15. The validator decides the typing of values by schemas: it reports no error for a value exactly when
  the value conforms to the schema, whatever the path, so an input or an output is accepted exactly when
  it conforms to the schema its contract declares, and is refused with an input or an output validation error otherwise.
\<close>

theorem validator_decides_typing:
  "(validate_schema v schema path = [] \<longleftrightarrow> conforms schema v)
   \<and> (if conforms (cc_input_schema k) (PDict (ir_input req)) then validate_input req k = Inr ()
      else \<exists>m. validate_input req k = Inl (Exn InputValidationError m))
   \<and> (if conforms (cc_output_schema k) (res_output res) then validate_output res k = Inr ()
      else \<exists>m. validate_output res k = Inl (Exn OutputValidationError m))"
  by (simp add: validate_sound_complete validate_input_def validate_output_def Let_def)

text \<open>A schema that a value meets, and one that fails it in a property of a property.\<close>

theorem validator_decides_typing_witness:
  "conforms [(''type'', PStr ''object''), (''required'', PList [PStr ''n'']), (''properties'', PDict [(''n'', PDict [(''type'', PStr ''number'')])])]
     (PDict [(''n'', PFloat (1 / 2))])
   \<and> \<not> conforms [(''properties'', PDict [(''n'', PDict [(''type'', PStr ''integer'')])])] (PDict [(''n'', PBool True)])"
proof -
  have "validate_schema (PDict [(''n'', PFloat (1 / 2))])
     [(''type'', PStr ''object''), (''required'', PList [PStr ''n'']), (''properties'', PDict [(''n'', PDict [(''type'', PStr ''number'')])])] [] = []"
    and "validate_schema (PDict [(''n'', PBool True)]) [(''properties'', PDict [(''n'', PDict [(''type'', PStr ''integer'')])])] [] \<noteq> []"
    by (simp_all add: validate_schema.simps type_ok_def type_validator_def enum_ok_def missing_fields_def)
  then show ?thesis by (simp add: validator_decides_typing)
qed

end
