(* ===== verification/Kernel_Recovery.thy ===== *)
theory Kernel_Recovery
  imports Kernel_Contracts
begin

text \<open>
  \<^verbatim>\<open>ois/kernel/recovery.py\<close>: exponential backoff, the classification of failures and its
  application to the execution context.
\<close>

section \<open>Backoff\<close>

record recovery_backoff =
  rb_base_seconds :: rat
  rb_max_seconds :: rat

definition mk_backoff :: "rat \<Rightarrow> rat \<Rightarrow> py_exn + recovery_backoff" where
  "mk_backoff base mx =
     (if base < 0 then Inl (Exn ValueError ''base_seconds must be >= 0'')
      else if mx < base then Inl (Exn ValueError ''max_seconds must be >= base_seconds'')
      else Inr \<lparr>rb_base_seconds = base, rb_max_seconds = mx\<rparr>)"

text \<open>
  \<open>float(2 ** (n - 1))\<close> raises \<open>OverflowError\<close> once the integer exceeds the range of binary64, that
  is for \<open>n - 1 \<ge> 1024\<close>. Below that the product with a power of two is exact in binary64, or
  overflows to infinity, where \<open>min\<close> picks the finite \<open>max_seconds\<close> as it does here.
\<close>

definition backoff_delay :: "recovery_backoff \<Rightarrow> int \<Rightarrow> py_exn + rat" where
  "backoff_delay b n =
     (if n < 1 then Inl (Exn ValueError ''retry_number must be >= 1'')
      else if n - 1 \<ge> 1024 then Inl (Exn OverflowError ''int too large to convert to float'')
      else Inr (min (rb_max_seconds b) (rb_base_seconds b * 2 ^ nat (n - 1))))"

section \<open>Policy\<close>

record recovery_decision =
  rd_failure :: failure_ref
  rd_action :: string
  rd_retry_allowed :: bool
  rd_terminal :: bool
  rd_reason :: string

record recovery_policy =
  rp_max_retries :: int
  rp_max_recovery_attempts :: int

definition mk_recovery_policy :: "int \<Rightarrow> int \<Rightarrow> py_exn + recovery_policy" where
  "mk_recovery_policy retries recoveries =
     (if retries < 0 then Inl (Exn ValueError ''max_retries must be >= 0'')
      else if recoveries < 0 then Inl (Exn ValueError ''max_recovery_attempts must be >= 0'')
      else Inr \<lparr>rp_max_retries = retries, rp_max_recovery_attempts = recoveries\<rparr>)"

definition default_recovery_policy :: recovery_policy where
  "default_recovery_policy = \<lparr>rp_max_retries = 2, rp_max_recovery_attempts = 3\<rparr>"

text \<open>\<open>failure == FailureClass.X\<close>: a string equal to the member's value is equal to the member.\<close>

fun failure_is :: "failure_ref \<Rightarrow> failure_class \<Rightarrow> bool" where
  "failure_is (FEnum f) g = (f = g)"
| "failure_is (FRaw v) g = py_eq v (PStr (failure_class_value g))"

definition classify :: "recovery_policy \<Rightarrow> failure_ref \<Rightarrow> execution_context \<Rightarrow> recovery_decision" where
  "classify p failure c =
     (if failure_is failure FC_TRANSIENT then
        (let allowed = ctx_retry_count c < rp_max_retries p in
         \<lparr>rd_failure = failure, rd_action = (if allowed then ''retry'' else ''escalate''),
          rd_retry_allowed = allowed, rd_terminal = (\<not> allowed),
          rd_reason = (if allowed then ''Transient failure is retryable.''
                       else ''Transient retry limit exhausted.'')\<rparr>)
      else if failure_is failure FC_PARAMETER then
        \<lparr>rd_failure = failure, rd_action = ''correct'', rd_retry_allowed = False,
         rd_terminal = False, rd_reason = ''Parameters require correction before retry.''\<rparr>
      else if failure_is failure FC_TOOL then
        \<lparr>rd_failure = failure, rd_action = ''fallback'', rd_retry_allowed = False,
         rd_terminal = False, rd_reason = ''Tool failure should use an alternative capability.''\<rparr>
      else if failure_is failure FC_PLAN then
        \<lparr>rd_failure = failure, rd_action = ''replan'', rd_retry_allowed = False,
         rd_terminal = False, rd_reason = ''Plan failure requires replanning.''\<rparr>
      else if failure_is failure FC_STATE then
        (let allowed = ctx_recovery_attempts c < rp_max_recovery_attempts p in
         \<lparr>rd_failure = failure, rd_action = (if allowed then ''recover'' else ''escalate''),
          rd_retry_allowed = False, rd_terminal = (\<not> allowed),
          rd_reason = (if allowed then ''State recovery is permitted.''
                       else ''State recovery limit exhausted.'')\<rparr>)
      else if failure_is failure FC_PERMISSION then
        \<lparr>rd_failure = failure, rd_action = ''escalate'', rd_retry_allowed = False,
         rd_terminal = False, rd_reason = ''Permission failures require escalation.''\<rparr>
      else if failure_is failure FC_SAFETY then
        \<lparr>rd_failure = failure, rd_action = ''stop'', rd_retry_allowed = False,
         rd_terminal = True, rd_reason = ''Safety failures must terminate execution.''\<rparr>
      else
        \<lparr>rd_failure = FEnum FC_UNKNOWN, rd_action = ''escalate'', rd_retry_allowed = False,
         rd_terminal = False, rd_reason = ''Unknown failure requires escalation.''\<rparr>)"

text \<open>
  \<open>RecoveryPolicy.apply\<close>. The context is changed in place before \<open>set_status\<close>, which raises on a
  terminal context: the changes made so far stay, so the state is returned beside the outcome.
\<close>

definition mark_failure ::
  "failure_class \<Rightarrow> recovery_decision \<Rightarrow> execution_context \<Rightarrow> execution_context" where
  "mark_failure failure d c =
     c\<lparr>ctx_last_failure := Some (FEnum failure),
       ctx_error := Some [(''failure_class'', PStr (failure_class_value failure)),
                          (''recovery_action'', PStr (rd_action d)),
                          (''reason'', PStr (rd_reason d))]\<rparr>"

definition with_status ::
  "timestamp \<Rightarrow> execution_status \<Rightarrow> recovery_decision \<Rightarrow> execution_context \<Rightarrow>
     (py_exn + recovery_decision) \<times> execution_context" where
  "with_status now st d c =
     (case set_status now st c of Inl e \<Rightarrow> (Inl e, c) | Inr c' \<Rightarrow> (Inr d, c'))"

definition recovery_apply ::
  "recovery_policy \<Rightarrow> timestamp \<Rightarrow> failure_class \<Rightarrow> execution_context \<Rightarrow>
     (py_exn + recovery_decision) \<times> execution_context" where
  "recovery_apply p now failure c =
     (let d = classify p (FEnum failure) c; c1 = mark_failure failure d c in
      if rd_action d = ''retry'' then
        with_status now ES_RECOVERING d (c1\<lparr>ctx_retry_count := ctx_retry_count c1 + 1\<rparr>)
      else if rd_action d = ''recover'' then
        with_status now ES_RECOVERING d (c1\<lparr>ctx_recovery_attempts := ctx_recovery_attempts c1 + 1\<rparr>)
      else if rd_action d = ''replan'' then
        with_status now ES_REPLANNING d (c1\<lparr>ctx_recovery_attempts := ctx_recovery_attempts c1 + 1\<rparr>)
      else if rd_action d = ''escalate'' then with_status now ES_ESCALATED d c1
      else if rd_action d = ''stop'' then with_status now ES_STOPPED d c1
      else (Inr d, c1))"

section \<open>The decision table\<close>

lemmas recovery_defs = recovery_apply_def classify_def mark_failure_def with_status_def Let_def

lemma classify_table:
  "classify p (FEnum FC_TRANSIENT) c =
     \<lparr>rd_failure = FEnum FC_TRANSIENT,
      rd_action = (if ctx_retry_count c < rp_max_retries p then ''retry'' else ''escalate''),
      rd_retry_allowed = (ctx_retry_count c < rp_max_retries p),
      rd_terminal = (\<not> ctx_retry_count c < rp_max_retries p),
      rd_reason = (if ctx_retry_count c < rp_max_retries p then ''Transient failure is retryable.''
                   else ''Transient retry limit exhausted.'')\<rparr>"
  "rd_action (classify p (FEnum FC_PARAMETER) c) = ''correct''"
  "rd_action (classify p (FEnum FC_TOOL) c) = ''fallback''"
  "rd_action (classify p (FEnum FC_PLAN) c) = ''replan''"
  "rd_action (classify p (FEnum FC_PERMISSION) c) = ''escalate''"
  "rd_action (classify p (FEnum FC_SAFETY) c) = ''stop''"
  "rd_action (classify p (FEnum FC_UNKNOWN) c) = ''escalate''"
  by (simp_all add: classify_def Let_def)

lemma classify_retry_iff:
  "rd_action (classify p f c) = ''retry'' \<longleftrightarrow>
     failure_is f FC_TRANSIENT \<and> ctx_retry_count c < rp_max_retries p"
  by (simp add: classify_def Let_def)

lemma classify_retry_allowed:
  "rd_retry_allowed (classify p f c) \<longleftrightarrow> rd_action (classify p f c) = ''retry''"
  by (simp add: classify_def Let_def)

lemma classify_actions:
  "rd_action (classify p f c) \<in>
     {''retry'', ''escalate'', ''correct'', ''fallback'', ''replan'', ''recover'', ''stop''}"
  by (simp add: classify_def Let_def)

lemma failure_is_raw:
  "failure_is (FRaw (PStr (failure_class_value f))) g \<longleftrightarrow> f = g"
  by simp

lemma classify_reloaded:
  "rd_action (classify p (FRaw (PStr (failure_class_value f))) c) = rd_action (classify p (FEnum f) c)"
  by (cases f) (simp_all add: classify_def Let_def)

section \<open>What apply does to the context\<close>

lemma recovery_apply_retry_count:
  "ctx_retry_count (snd (recovery_apply p now f c)) =
     (if f = FC_TRANSIENT \<and> ctx_retry_count c < rp_max_retries p then ctx_retry_count c + 1
      else ctx_retry_count c)"
  by (cases f) (auto simp: recovery_defs set_status_def touch_def)

lemma recovery_apply_frame:
  "ctx_identity (snd (recovery_apply p now f c)) = ctx_identity c"
  "ctx_plan (snd (recovery_apply p now f c)) = ctx_plan c"
  "ctx_observations (snd (recovery_apply p now f c)) = ctx_observations c"
  "ctx_working_memory (snd (recovery_apply p now f c)) = ctx_working_memory c"
  "ctx_current_node (snd (recovery_apply p now f c)) = ctx_current_node c"
  by (cases f; auto simp: recovery_defs set_status_def touch_def)+

lemma recovery_apply_terminal:
  "terminal_status (ctx_status c) \<Longrightarrow> ctx_status (snd (recovery_apply p now f c)) = ctx_status c"
  by (cases f) (auto simp: recovery_defs set_status_def touch_def terminal_status_def)

text \<open>The context that \<open>apply\<close> leaves, by recovery action.\<close>

fun status_after :: "string \<Rightarrow> execution_status \<Rightarrow> execution_status" where
  "status_after act old =
     (if act = ''retry'' \<or> act = ''recover'' then ES_RECOVERING
      else if act = ''replan'' then ES_REPLANNING
      else if act = ''escalate'' then ES_ESCALATED
      else if act = ''stop'' then ES_STOPPED
      else old)"

declare status_after.simps [simp del]

lemma recovery_apply_live:
  assumes "\<not> terminal_status (ctx_status c)"
  shows "fst (recovery_apply p now f c) = Inr (classify p (FEnum f) c)"
    and "ctx_status (snd (recovery_apply p now f c)) =
           status_after (rd_action (classify p (FEnum f) c)) (ctx_status c)"
    and "ctx_last_failure (snd (recovery_apply p now f c)) = Some (FEnum f)"
  using assms
  by (cases f; auto simp: recovery_defs set_status_def touch_def terminal_status_def status_after.simps)+

end
