(* ===== verification/Kernel_Stores.thy ===== *)
theory Kernel_Stores
  imports Kernel_Contracts "HOL-Library.Sublist"
begin

text \<open>
  \<^verbatim>\<open>ois/kernel/idempotency.py\<close> and \<^verbatim>\<open>ois/kernel/evidence.py\<close>: the completed-invocation stores
  and the evidence ledgers, in memory and in SQLite. A table is an association list from the
  primary key to the row, in row-id order; \<open>INSERT OR IGNORE\<close> keeps an existing row. Each method
  holds the store's lock, so it is one atomic step. What the kernel relies on is stated once per
  interface, as a locale, and proved for both implementations.
\<close>

section \<open>Idempotency stores\<close>

type_synonym memory_idempotency = "(string \<times> invocation_result) list"
type_synonym sqlite_idempotency = "(string \<times> json_text) list"

definition insert_or_ignore :: "'k \<Rightarrow> 'v \<Rightarrow> ('k \<times> 'v) list \<Rightarrow> ('k \<times> 'v) list" where
  "insert_or_ignore k v t = (case map_of t k of None \<Rightarrow> t @ [(k, v)] | Some _ \<Rightarrow> t)"

text \<open>\<open>dict.setdefault\<close> has the same effect on the in-memory dict.\<close>

definition memory_idem_get :: "string \<Rightarrow> memory_idempotency \<Rightarrow> py_exn + invocation_result option" where
  "memory_idem_get iid st = Inr (map_of st iid)"

definition memory_idem_put :: "string \<Rightarrow> invocation_result \<Rightarrow> memory_idempotency \<Rightarrow> memory_idempotency" where
  "memory_idem_put iid res st = insert_or_ignore iid res st"

definition memory_idem_exists :: "string \<Rightarrow> memory_idempotency \<Rightarrow> bool" where
  "memory_idem_exists iid st \<longleftrightarrow> map_of st iid \<noteq> None"

definition result_dict :: "invocation_result \<Rightarrow> pydict" where
  "result_dict r =
     [(''invocation_id'', PStr (res_invocation_id r)),
      (''capability_id'', PStr (res_capability_id r)),
      (''status'', PStr (invocation_status_value (res_status r))),
      (''output'', res_output r),
      (''error'', py_opt_dict (res_error r)),
      (''started_at'', py_opt_str (res_started_at r)),
      (''completed_at'', py_opt_str (res_completed_at r)),
      (''metadata'', PDict (res_metadata r))]"

text \<open>
  Reading a row back. A row that \<open>put\<close> did not write may lack a key or hold a value of another
  type; every such row is a \<open>ValueError\<close> here (CPython raises \<open>KeyError\<close> or \<open>ValueError\<close>).
\<close>

definition bad_row :: "py_exn + 'a" where
  "bad_row = Inl (Exn ValueError ''malformed idempotency row'')"

definition result_of_dict :: "pydict \<Rightarrow> invocation_result option" where
  "result_of_dict d = do {
     iid \<leftarrow> Option.bind (map_of d ''invocation_id'') as_str;
     cid \<leftarrow> Option.bind (map_of d ''capability_id'') as_str;
     sv \<leftarrow> Option.bind (map_of d ''status'') as_str;
     st \<leftarrow> invocation_status_of sv;
     err \<leftarrow> field_of d ''error'' as_opt_dict None;
     sa \<leftarrow> field_of d ''started_at'' as_opt_str None;
     ca \<leftarrow> field_of d ''completed_at'' as_opt_str None;
     md \<leftarrow> field_of d ''metadata'' as_dict [];
     Some \<lparr>res_invocation_id = iid, res_capability_id = cid, res_status = st,
           res_output = (case map_of d ''output'' of None \<Rightarrow> PNone | Some v \<Rightarrow> v),
           res_error = err, res_started_at = sa, res_completed_at = ca, res_metadata = md\<rparr>
   }"

definition sqlite_idem_get :: "string \<Rightarrow> sqlite_idempotency \<Rightarrow> py_exn + invocation_result option" where
  "sqlite_idem_get iid st =
     (case map_of st iid of
        None \<Rightarrow> Inr None
      | Some txt \<Rightarrow>
         (case json_loads txt of
            PDict d \<Rightarrow> (case result_of_dict d of Some r \<Rightarrow> Inr (Some r) | None \<Rightarrow> bad_row)
          | _ \<Rightarrow> bad_row))"

definition terminal_result :: "invocation_result \<Rightarrow> bool" where
  "terminal_result r \<longleftrightarrow> res_status r \<in> {IS_SUCCEEDED, IS_CANCELLED}"

definition sqlite_idem_put :: "string \<Rightarrow> invocation_result \<Rightarrow> sqlite_idempotency \<Rightarrow> sqlite_idempotency" where
  "sqlite_idem_put iid res st =
     (if res_status res \<notin> {IS_SUCCEEDED, IS_CANCELLED} then st
      else insert_or_ignore iid (json_dumps (PDict (result_dict res))) st)"

definition sqlite_idem_exists :: "string \<Rightarrow> sqlite_idempotency \<Rightarrow> py_exn + bool" where
  "sqlite_idem_exists iid st =
     (case sqlite_idem_get iid st of Inl e \<Rightarrow> Inl e | Inr r \<Rightarrow> Inr (r \<noteq> None))"

text \<open>A dict and a result after a trip through JSON.\<close>

definition canon_dict :: "pydict \<Rightarrow> pydict" where
  "canon_dict d = sort_key fst (map (map_prod id json_canon) d)"

definition canon_result :: "invocation_result \<Rightarrow> invocation_result" where
  "canon_result r =
     r\<lparr>res_output := json_canon (res_output r), res_error := map_option canon_dict (res_error r),
       res_metadata := canon_dict (res_metadata r)\<rparr>"

lemma json_canon_PDict: "json_canon (PDict d) = PDict (canon_dict d)"
  by (simp add: canon_dict_def)

lemma map_of_canon_dict:
  "distinct (map fst d) \<Longrightarrow> map_of (canon_dict d) k = map_option json_canon (map_of d k)"
proof -
  assume "distinct (map fst d)"
  then have "distinct (map fst (map (map_prod id json_canon) d))" by (simp add: comp_def)
  then have "map_of (canon_dict d) k = map_of (map (map_prod id json_canon) d) k"
    by (simp add: canon_dict_def map_of_sort_key del: map_map)
  also have "\<dots> = map_option json_canon (map_of d k)"
    by (induction d) auto
  finally show ?thesis .
qed

lemma as_opt_dict_canon [simp]:
  "as_opt_dict (json_canon (py_opt_dict v)) = Some (map_option canon_dict v)"
  by (cases v) (simp_all add: py_opt_dict_def json_canon_PDict del: json_canon.simps(8))

lemma as_opt_str_canon [simp]: "as_opt_str (json_canon (py_opt_str v)) = Some v"
  by (cases v) (simp_all add: py_opt_str_def)

lemma as_dict_canon [simp]: "as_dict (json_canon (PDict d)) = Some (canon_dict d)"
  by (simp add: json_canon_PDict del: json_canon.simps(8))

lemma result_of_dict_canon: "result_of_dict (canon_dict (result_dict r)) = Some (canon_result r)"
proof -
  have "distinct (map fst (result_dict r))" by (simp add: result_dict_def)
  note look = map_of_canon_dict [OF this]
  show ?thesis
    unfolding result_of_dict_def field_of_def look
    by (simp add: result_dict_def canon_result_def del: json_canon.simps(8))
qed

text \<open>
  The interface: \<open>get\<close> after \<open>put\<close>. A store answers every \<open>get\<close> in the states it can be in, keeps the
  first result it was given for a key, and leaves the other keys alone. \<open>stored\<close> says which results
  a \<open>put\<close> records, and \<open>readback\<close> what a recorded result is read as.
\<close>

locale idempotency_contract =
  fixes get :: "string \<Rightarrow> 'i \<Rightarrow> py_exn + invocation_result option"
    and put :: "string \<Rightarrow> invocation_result \<Rightarrow> 'i \<Rightarrow> 'i"
    and invar :: "'i \<Rightarrow> bool"
    and stored :: "invocation_result \<Rightarrow> bool"
    and readback :: "invocation_result \<Rightarrow> invocation_result"
  assumes get_total: "invar s \<Longrightarrow> \<exists>r. get k s = Inr r"
    and put_invar: "invar s \<Longrightarrow> invar (put k r s)"
    and get_put_new: "invar s \<Longrightarrow> stored r \<Longrightarrow> get k s = Inr None \<Longrightarrow>
       get k (put k r s) = Inr (Some (readback r))"
    and get_put_old: "invar s \<Longrightarrow> get k s = Inr (Some r0) \<Longrightarrow> get k (put k r s) = Inr (Some r0)"
    and get_put_other: "invar s \<Longrightarrow> k' \<noteq> k \<Longrightarrow> get k' (put k r s) = get k' s"
begin

text \<open>The first recorded result for a key is authoritative, whatever is put afterwards.\<close>

lemma first_result_authoritative:
  assumes "invar s" and "get k s = Inr (Some r0)"
  shows "get k (fold (\<lambda>(k', r). put k' r) ops s) = Inr (Some r0)"
  using assms
proof (induction ops arbitrary: s)
  case Nil
  then show ?case by simp
next
  case (Cons op ops)
  obtain k' r where op: "op = (k', r)" by fastforce
  have "get k (put k' r s) = Inr (Some r0)"
    using Cons.prems get_put_old get_put_other by (cases "k' = k") auto
  moreover have "invar (put k' r s)" using Cons.prems(1) by (rule put_invar)
  ultimately show ?case using op by (simp add: Cons.IH)
qed

lemma put_then_replay:
  assumes "invar s" and "stored r" and "get k s = Inr None"
  shows "get k (fold (\<lambda>(k', r). put k' r) ops (put k r s)) = Inr (Some (readback r))"
  using assms first_result_authoritative get_put_new put_invar by blast

lemma put_keeps:
  assumes "invar s" and "get k s = Inr (Some r0)"
  shows "get k (put k' r s) = Inr (Some r0)"
  using first_result_authoritative [OF assms, of "[(k', r)]"] by simp

end

lemma map_of_insert_or_ignore [simp]:
  "map_of (insert_or_ignore k v t) =
     (case map_of t k of None \<Rightarrow> (map_of t)(k \<mapsto> v) | Some _ \<Rightarrow> map_of t)"
  by (auto simp: insert_or_ignore_def fun_eq_iff map_add_def split: option.splits)

interpretation memory_idem: idempotency_contract
  memory_idem_get memory_idem_put "\<lambda>_. True" "\<lambda>_. True" "\<lambda>r. r"
  by unfold_locales (auto simp: memory_idem_get_def memory_idem_put_def split: option.splits)

text \<open>Rows of the SQLite table are texts of terminal results.\<close>

definition sqlite_idem_wf :: "sqlite_idempotency \<Rightarrow> bool" where
  "sqlite_idem_wf st \<longleftrightarrow>
     (\<forall>k txt. map_of st k = Some txt \<longrightarrow>
        (\<exists>r. terminal_result r \<and> txt = json_dumps (PDict (result_dict r))))"

lemma json_loads_result:
  "json_loads (json_dumps (PDict (result_dict r))) = PDict (canon_dict (result_dict r))"
  by (simp add: json_canon_PDict del: json_canon.simps(8))

lemma sqlite_idem_get_row:
  "map_of st k = Some (json_dumps (PDict (result_dict r))) \<Longrightarrow>
     sqlite_idem_get k st = Inr (Some (canon_result r))"
  by (simp add: sqlite_idem_get_def json_loads_result result_of_dict_canon del: json_loads_dumps)

lemma sqlite_idem_get_cases:
  assumes "sqlite_idem_wf st"
  obtains "map_of st k = None" "sqlite_idem_get k st = Inr None"
  | r where "map_of st k = Some (json_dumps (PDict (result_dict r)))" "terminal_result r"
      "sqlite_idem_get k st = Inr (Some (canon_result r))"
proof (cases "map_of st k")
  case None
  then show thesis by (intro that(1)) (simp_all add: sqlite_idem_get_def)
next
  case (Some t)
  with assms obtain r where "terminal_result r" "t = json_dumps (PDict (result_dict r))"
    by (auto simp: sqlite_idem_wf_def)
  with Some show thesis by (intro that(2)) (simp_all add: sqlite_idem_get_row)
qed

interpretation sqlite_idem: idempotency_contract
  sqlite_idem_get sqlite_idem_put sqlite_idem_wf terminal_result canon_result
proof unfold_locales
  fix s k r r0 k'
  assume wf: "sqlite_idem_wf s"
  show "\<exists>r. sqlite_idem_get k s = Inr r"
    by (rule sqlite_idem_get_cases [OF wf, of k]) auto
  show "sqlite_idem_wf (sqlite_idem_put k r s)"
    using wf by (auto simp: sqlite_idem_wf_def sqlite_idem_put_def terminal_result_def
        split: option.splits)
  show "sqlite_idem_get k (sqlite_idem_put k r s) = Inr (Some (canon_result r))"
    if "terminal_result r" "sqlite_idem_get k s = Inr None"
  proof -
    have "map_of s k = None"
      using that(2) by (auto intro: sqlite_idem_get_cases [OF wf, of k])
    then show ?thesis
      using that(1) by (intro sqlite_idem_get_row) (auto simp: sqlite_idem_put_def terminal_result_def)
  qed
  show "sqlite_idem_get k (sqlite_idem_put k r s) = Inr (Some r0)"
    if "sqlite_idem_get k s = Inr (Some r0)"
    using that by (cases "map_of s k") (auto simp: sqlite_idem_get_def sqlite_idem_put_def)
  show "sqlite_idem_get k' (sqlite_idem_put k r s) = sqlite_idem_get k' s" if "k' \<noteq> k"
    using that by (simp add: sqlite_idem_get_def sqlite_idem_put_def split: option.splits)
qed

section \<open>Evidence ledgers\<close>

record evidence_event =
  ev_execution_id :: uuid
  ev_event_type :: string
  ev_timestamp :: timestamp
  ev_event_id :: uuid
  ev_actor :: string
  ev_component :: string
  ev_data :: pydict
  ev_correlation_id :: "string option"
  ev_causation_id :: "string option"

type_synonym memory_ledger = "evidence_event list"

text \<open>A row holds the event with its data column as JSON text.\<close>

type_synonym sqlite_ledger = "(uuid \<times> evidence_event \<times> json_text) list"

definition memory_ev_append :: "evidence_event \<Rightarrow> memory_ledger \<Rightarrow> memory_ledger" where
  "memory_ev_append e l = l @ [e]"

definition memory_ev_list :: "uuid option \<Rightarrow> memory_ledger \<Rightarrow> evidence_event list" where
  "memory_ev_list x l = (case x of None \<Rightarrow> l | Some i \<Rightarrow> filter (\<lambda>e. ev_execution_id e = i) l)"

definition memory_ev_count :: "uuid option \<Rightarrow> memory_ledger \<Rightarrow> nat" where
  "memory_ev_count x l = length (memory_ev_list x l)"

definition sqlite_ev_append :: "evidence_event \<Rightarrow> sqlite_ledger \<Rightarrow> sqlite_ledger" where
  "sqlite_ev_append e l =
     insert_or_ignore (ev_event_id e) (e\<lparr>ev_data := []\<rparr>, json_dumps (PDict (ev_data e))) l"

definition sqlite_ev_row :: "uuid \<times> evidence_event \<times> json_text \<Rightarrow> evidence_event" where
  "sqlite_ev_row row =
     (case row of (i, e, txt) \<Rightarrow>
        e\<lparr>ev_event_id := i, ev_data := (case json_loads txt of PDict d \<Rightarrow> d | _ \<Rightarrow> [])\<rparr>)"

definition sqlite_ev_list :: "uuid option \<Rightarrow> sqlite_ledger \<Rightarrow> evidence_event list" where
  "sqlite_ev_list x l =
     (let es = map sqlite_ev_row l
      in case x of None \<Rightarrow> es | Some i \<Rightarrow> filter (\<lambda>e. ev_execution_id e = i) es)"

definition sqlite_ev_count :: "uuid option \<Rightarrow> sqlite_ledger \<Rightarrow> nat" where
  "sqlite_ev_count x l = length (sqlite_ev_list x l)"

text \<open>\<open>EvidenceLedger.record\<close>: the event the kernel builds, with \<open>data or {}\<close>.\<close>

definition make_event ::
  "uuid \<Rightarrow> string \<Rightarrow> pydict \<Rightarrow> timestamp \<Rightarrow> uuid \<Rightarrow> evidence_event" where
  "make_event xid etype data now eid =
     \<lparr>ev_execution_id = xid, ev_event_type = etype, ev_timestamp = now, ev_event_id = eid,
      ev_actor = ''kernel'', ev_component = ''ois.kernel'', ev_data = data,
      ev_correlation_id = None, ev_causation_id = None\<rparr>"

text \<open>
  The interface: a ledger is append-only. Appending never removes or reorders an event, and an
  event the ledger accepts is the new last one, as \<open>readback\<close>.
\<close>

locale evidence_contract =
  fixes append :: "evidence_event \<Rightarrow> 'e \<Rightarrow> 'e"
    and events :: "uuid option \<Rightarrow> 'e \<Rightarrow> evidence_event list"
    and accepts :: "'e \<Rightarrow> evidence_event \<Rightarrow> bool"
    and readback :: "evidence_event \<Rightarrow> evidence_event"
  assumes append_accepted: "accepts l e \<Longrightarrow> events None (append e l) = events None l @ [readback e]"
    and append_refused: "\<not> accepts l e \<Longrightarrow> events None (append e l) = events None l"
    and events_filter: "events (Some i) l = filter (\<lambda>e. ev_execution_id e = i) (events None l)"
    and readback_execution: "ev_execution_id (readback e) = ev_execution_id e"
    and readback_type: "ev_event_type (readback e) = ev_event_type e"
begin

lemma append_prefix: "prefix (events None l) (events None (append e l))"
  using append_accepted [of l e] append_refused [of l e] by (cases "accepts l e") auto

lemma append_prefix_of: "prefix (events (Some i) l) (events (Some i) (append e l))"
  using append_prefix [of l e] by (auto simp: events_filter prefix_def)

text \<open>Whatever is appended, what was recorded before stays, in order and in front.\<close>

lemma fold_append_prefix: "prefix (events None l) (events None (fold append es l))"
proof (induction es arbitrary: l)
  case Nil
  show ?case by simp
next
  case (Cons e es)
  have "prefix (events None (append e l)) (events None (fold append es (append e l)))"
    by (rule Cons.IH)
  with append_prefix show ?case by (auto intro: prefix_order.trans)
qed

lemma append_isolated:
  "ev_execution_id e \<noteq> i \<Longrightarrow> events (Some i) (append e l) = events (Some i) l"
  using append_accepted [of l e] append_refused [of l e]
  by (cases "accepts l e") (simp_all add: events_filter readback_execution)

end

interpretation memory_ev: evidence_contract
  memory_ev_append memory_ev_list "\<lambda>_ _. True" "\<lambda>e. e"
  by unfold_locales (auto simp: memory_ev_append_def memory_ev_list_def)

lemma sqlite_ev_row_new:
  "sqlite_ev_row (ev_event_id e, e\<lparr>ev_data := []\<rparr>, json_dumps (PDict (ev_data e))) =
     e\<lparr>ev_data := canon_dict (ev_data e)\<rparr>"
  by (simp add: sqlite_ev_row_def json_canon_PDict del: json_canon.simps(8))

interpretation sqlite_ev: evidence_contract
  sqlite_ev_append sqlite_ev_list "\<lambda>l e. map_of l (ev_event_id e) = None"
  "\<lambda>e. e\<lparr>ev_data := canon_dict (ev_data e)\<rparr>"
  by unfold_locales
    (auto simp: sqlite_ev_append_def sqlite_ev_list_def insert_or_ignore_def sqlite_ev_row_new
      split: option.splits)

end
