(* ===== verification/Kernel_Checkpoint.thy ===== *)
theory Kernel_Checkpoint
  imports Kernel_Stores Kernel_Recovery
begin

text \<open>
  \<^verbatim>\<open>ois/kernel/checkpoint.py\<close>: the in-memory, file and SQLite checkpoint stores and the manager
  in front of them. \<open>sha256\<close> over the serialized state is an argument \<open>sha\<close>. \<open>load\<close> is \<open>None\<close> when
  the stored payload has a field of a type that \<open>execution_context\<close> does not represent; the fresh
  values that \<open>from_dict\<close> draws are its arguments.
\<close>

record codec =
  cd_iso :: "timestamp \<Rightarrow> string"
  cd_fromiso :: "string \<Rightarrow> timestamp option"
  cd_sha :: "json_text \<Rightarrow> string"

record fresh_values =
  fv_uuid :: uuid
  fv_now1 :: timestamp
  fv_now2 :: timestamp

definition restore :: "codec \<Rightarrow> fresh_values \<Rightarrow> pydict \<Rightarrow> execution_context option" where
  "restore cd fv p = from_dict (cd_fromiso cd) (fv_uuid fv) (fv_now1 fv) (fv_now2 fv) p"

section \<open>The in-memory store\<close>

type_synonym memory_checkpoints = "(uuid \<times> execution_context) list"

definition memory_cp_save ::
  "timestamp \<Rightarrow> execution_context \<Rightarrow> memory_checkpoints \<Rightarrow>
     (py_exn + unit) \<times> execution_context \<times> memory_checkpoints" where
  "memory_cp_save now c st =
     (let c' = touch now c in (Inr (), c', AList.update (ctx_execution_id c') c' st))"

definition memory_cp_load ::
  "fresh_values \<Rightarrow> uuid \<Rightarrow> memory_checkpoints \<Rightarrow> (py_exn + execution_context) option" where
  "memory_cp_load fv xid st =
     Some (case map_of st xid of
             None \<Rightarrow> Inl (Exn CheckpointNotFound (''No checkpoint for execution '' @ xid))
           | Some c \<Rightarrow> Inr c)"

definition memory_cp_delete :: "uuid \<Rightarrow> memory_checkpoints \<Rightarrow> memory_checkpoints" where
  "memory_cp_delete xid st = AList.delete xid st"

definition memory_cp_exists :: "uuid \<Rightarrow> memory_checkpoints \<Rightarrow> bool" where
  "memory_cp_exists xid st \<longleftrightarrow> map_of st xid \<noteq> None"

definition memory_cp_snapshot ::
  "codec \<Rightarrow> fresh_values \<Rightarrow> uuid \<Rightarrow> memory_checkpoints \<Rightarrow> (py_exn + pydict) option" where
  "memory_cp_snapshot cd fv xid st =
     (case memory_cp_load fv xid st of
        None \<Rightarrow> None
      | Some (Inl e) \<Rightarrow> Some (Inl e)
      | Some (Inr c) \<Rightarrow> Some
          (case to_dict (cd_iso cd) c of
             Inl e \<Rightarrow> Inl e
           | Inr d \<Rightarrow> Inr [(''execution_id'', PStr (ctx_execution_id c)),
                           (''status'', PStr (execution_status_value (ctx_status c))),
                           (''created_at'', PStr (cd_iso cd (ctx_created_at c))),
                           (''updated_at'', PStr (cd_iso cd (ctx_updated_at c))),
                           (''state'', PDict d)]))"

section \<open>The file store\<close>

text \<open>
  The directory maps an execution id to the text of its file. The temporary file is renamed over
  the target, so a save either leaves the old text or puts the new one. \<open>save\<close> does not touch the
  context.
\<close>

type_synonym file_checkpoints = "(uuid \<times> json_text) list"

definition file_cp_save ::
  "codec \<Rightarrow> execution_context \<Rightarrow> file_checkpoints \<Rightarrow>
     (py_exn + unit) \<times> execution_context \<times> file_checkpoints" where
  "file_cp_save cd c st =
     (case to_dict (cd_iso cd) c of
        Inl e \<Rightarrow> (Inl e, c, st)
      | Inr payload \<Rightarrow>
         (let envelope = [(''schema_version'', PInt 1),
                          (''state_hash'', PStr (cd_sha cd (json_dumps (PDict payload)))),
                          (''state'', PDict payload)]
          in (Inr (), c, AList.update (ctx_execution_id c) (json_dumps (PDict envelope)) st)))"

definition file_cp_load ::
  "codec \<Rightarrow> fresh_values \<Rightarrow> uuid \<Rightarrow> file_checkpoints \<Rightarrow> (py_exn + execution_context) option" where
  "file_cp_load cd fv xid st =
     (case map_of st xid of
        None \<Rightarrow> Some (Inl (Exn CheckpointNotFound xid))
      | Some txt \<Rightarrow>
         (case json_loads txt of
            PDict envelope \<Rightarrow>
              (if \<not> (case map_of envelope ''schema_version'' of Some v \<Rightarrow> py_eq v (PInt 1) | None \<Rightarrow> False)
               then Some (Inl (Exn CheckpointError ''Unsupported checkpoint schema version''))
               else
                (case map_of envelope ''state'' of
                   None \<Rightarrow> Some (Inl (Exn KeyError ''state''))
                 | Some payload \<Rightarrow>
                    (if map_of envelope ''state_hash'' \<noteq> Some (PStr (cd_sha cd (json_dumps payload)))
                     then Some (Inl (Exn CheckpointError ''Checkpoint integrity hash mismatch''))
                     else (case payload of PDict p \<Rightarrow> map_option Inr (restore cd fv p) | _ \<Rightarrow> None))))
          | _ \<Rightarrow> None))"

definition file_cp_exists :: "uuid \<Rightarrow> file_checkpoints \<Rightarrow> bool" where
  "file_cp_exists xid st \<longleftrightarrow> map_of st xid \<noteq> None"

definition file_cp_delete :: "uuid \<Rightarrow> file_checkpoints \<Rightarrow> file_checkpoints" where
  "file_cp_delete xid st = AList.delete xid st"

definition file_cp_list :: "file_checkpoints \<Rightarrow> uuid list" where
  "file_cp_list st = map fst st"

section \<open>The SQLite store\<close>

record checkpoint_row =
  cr_schema_version :: int
  cr_state_json :: json_text
  cr_state_hash :: string
  cr_updated_at :: string

type_synonym sqlite_checkpoints = "(uuid \<times> checkpoint_row) list"

definition sqlite_cp_save ::
  "codec \<Rightarrow> timestamp \<Rightarrow> execution_context \<Rightarrow> sqlite_checkpoints \<Rightarrow>
     (py_exn + unit) \<times> execution_context \<times> sqlite_checkpoints" where
  "sqlite_cp_save cd now c st =
     (let c' = touch now c in
      case to_dict (cd_iso cd) c' of
        Inl e \<Rightarrow> (Inl e, c', st)
      | Inr payload \<Rightarrow>
         (let txt = json_dumps (PDict payload);
              row = \<lparr>cr_schema_version = 1, cr_state_json = txt, cr_state_hash = cd_sha cd txt,
                     cr_updated_at = cd_iso cd (ctx_updated_at c')\<rparr>
          in (Inr (), c', AList.update (ctx_execution_id c') row st)))"

definition sqlite_cp_load ::
  "codec \<Rightarrow> fresh_values \<Rightarrow> uuid \<Rightarrow> sqlite_checkpoints \<Rightarrow> (py_exn + execution_context) option" where
  "sqlite_cp_load cd fv xid st =
     (case map_of st xid of
        None \<Rightarrow> Some (Inl (Exn CheckpointNotFound xid))
      | Some row \<Rightarrow>
         (if cr_schema_version row \<noteq> 1
          then Some (Inl (Exn CheckpointError ''Unsupported checkpoint schema version''))
          else if cd_sha cd (cr_state_json row) \<noteq> cr_state_hash row
          then Some (Inl (Exn CheckpointError ''Checkpoint integrity hash mismatch''))
          else (case json_loads (cr_state_json row) of
                  PDict p \<Rightarrow> map_option Inr (restore cd fv p)
                | _ \<Rightarrow> None)))"

definition sqlite_cp_delete :: "uuid \<Rightarrow> sqlite_checkpoints \<Rightarrow> sqlite_checkpoints" where
  "sqlite_cp_delete xid st = AList.delete xid st"

definition sqlite_cp_exists :: "uuid \<Rightarrow> sqlite_checkpoints \<Rightarrow> bool" where
  "sqlite_cp_exists xid st \<longleftrightarrow> map_of st xid \<noteq> None"

section \<open>A context after a trip through JSON\<close>

definition canon_context :: "execution_context \<Rightarrow> execution_context" where
  "canon_context c = c\<lparr>
     ctx_constraints := canon_dict (ctx_constraints c),
     ctx_metadata := canon_dict (ctx_metadata c),
     ctx_intent := map_option canon_dict (ctx_intent c),
     ctx_plan := map_option canon_dict (ctx_plan c),
     ctx_working_memory := canon_dict (ctx_working_memory c),
     ctx_retrieved_context := map canon_dict (ctx_retrieved_context c),
     ctx_artifacts := map canon_dict (ctx_artifacts c),
     ctx_approvals := map canon_dict (ctx_approvals c),
     ctx_escalations := map canon_dict (ctx_escalations c),
     ctx_observations := map canon_dict (ctx_observations c),
     ctx_validation_results := map canon_dict (ctx_validation_results c),
     ctx_last_failure := reload_failure (ctx_last_failure c),
     ctx_error := map_option canon_dict (ctx_error c)\<rparr>"

lemma as_dicts_canon [simp]: "as_dicts (json_canon (py_dicts ds)) = Some (map canon_dict ds)"
  by (induction ds) (simp_all add: py_dicts_def del: json_canon.simps(8))

lemma last_failure_canon:
  "last_failure_value lf = Inr v \<Longrightarrow> json_canon v = v"
  by (cases lf rule: last_failure_value.cases) (auto split: if_splits)

text \<open>The two conditions under which a context survives a save and a load.\<close>

definition codec_ok :: "codec \<Rightarrow> bool" where
  "codec_ok cd \<longleftrightarrow> (\<forall>t. cd_fromiso cd (cd_iso cd t) = Some t)"

definition saveable :: "execution_context \<Rightarrow> bool" where
  "saveable c \<longleftrightarrow> \<not> isl (last_failure_value (ctx_last_failure c))
                 \<and> uuid_parse (ctx_execution_id c) = Some (ctx_execution_id c)"

lemma to_dict_saveable: "saveable c \<Longrightarrow> \<exists>d. to_dict isofmt c = Inr d"
  by (auto simp: saveable_def to_dict_def split: sum.splits)

lemma to_dict_distinct: "to_dict isofmt c = Inr d \<Longrightarrow> distinct (map fst d)"
  by (auto simp: to_dict_def split: sum.splits)

lemma restore_canon:
  assumes "to_dict (cd_iso cd) c = Inr d" and "codec_ok cd" and "saveable c"
  shows "restore cd fv (canon_dict d) = Some (canon_context c)"
proof -
  from assms(1) obtain lf where lf: "last_failure_value (ctx_last_failure c) = Inr lf"
    by (auto simp: to_dict_def split: sum.splits)
  note d = assms(1) [unfolded to_dict_def lf, simplified, symmetric]
  note look = map_of_canon_dict [OF to_dict_distinct [OF assms(1)]]
  have "distinct (map fst (identity_dict i))" for i by (simp add: identity_dict_def)
  note look_id = map_of_canon_dict [OF this]
  have id: "identity_of fr (canon_dict d) = Some (ctx_identity c)" for fr
    unfolding identity_of_def field_of_def look
    using assms(3)
    by (simp add: d json_canon_PDict look_id del: json_canon.simps(8))
      (simp add: identity_dict_def saveable_def)
  have iso: "cd_fromiso cd (cd_iso cd t) = Some t" for t using assms(2) by (simp add: codec_ok_def)
  have fail: "as_failure (json_canon lf) = Some (reload_failure (ctx_last_failure c))"
    using last_failure_reload [OF lf] last_failure_canon [OF lf] by simp
  show ?thesis
    unfolding restore_def from_dict_def id field_of_def look
    by (simp add: d iso fail as_enum_def as_time_def canon_context_def del: json_canon.simps(8))
qed

section \<open>The interface the runtime calls\<close>

text \<open>
  A checkpoint store: a save of a saveable context succeeds, leaves the context unchanged but for
  its update time, and what is loaded afterwards is that context as \<open>readback\<close>; other executions
  are not affected; a deleted checkpoint is not found.
\<close>

locale checkpoint_contract =
  fixes save :: "timestamp \<Rightarrow> execution_context \<Rightarrow> 'c \<Rightarrow> (py_exn + unit) \<times> execution_context \<times> 'c"
    and load :: "fresh_values \<Rightarrow> uuid \<Rightarrow> 'c \<Rightarrow> (py_exn + execution_context) option"
    and delete :: "uuid \<Rightarrow> 'c \<Rightarrow> 'c"
    and storable :: "execution_context \<Rightarrow> bool"
    and readback :: "execution_context \<Rightarrow> execution_context"
  assumes save_context: "save now c s = (r, c', s') \<Longrightarrow> \<exists>t. c' = c\<lparr>ctx_updated_at := t\<rparr>"
    and save_ok: "storable c \<Longrightarrow> save now c s = (r, c', s') \<Longrightarrow> r = Inr ()"
    and save_raise: "save now c s = (Inl e, c', s') \<Longrightarrow> s' = s"
    and load_save: "storable c \<Longrightarrow> save now c s = (r, c', s') \<Longrightarrow>
       load fv (ctx_execution_id c) s' = Some (Inr (readback c'))"
    and load_save_other: "save now c s = (r, c', s') \<Longrightarrow> xid \<noteq> ctx_execution_id c \<Longrightarrow>
       load fv xid s' = load fv xid s"
    and load_delete: "\<exists>m. load fv xid (delete xid s) = Some (Inl (Exn CheckpointNotFound m))"
    and load_delete_other: "xid' \<noteq> xid \<Longrightarrow> load fv xid' (delete xid s) = load fv xid' s"
    and storable_touch: "storable (c\<lparr>ctx_updated_at := t\<rparr>) \<longleftrightarrow> storable c"
begin

lemma save_frame:
  assumes "save now c s = (r, c', s')"
  shows "ctx_status c' = ctx_status c" and "ctx_identity c' = ctx_identity c"
  using save_context [OF assms] by auto

text \<open>Saving another execution in between does not disturb a checkpoint.\<close>

lemma load_after_two_saves:
  assumes "storable c" and "save n1 c s = (r1, c1, s1)" and "save n2 d s1 = (r2, d2, s2)"
    and "ctx_execution_id d \<noteq> ctx_execution_id c"
  shows "load fv (ctx_execution_id c) s2 = Some (Inr (readback c1))"
  using load_save [OF assms(1,2)] load_save_other [OF assms(3)] assms(4) by simp

end

lemma to_dict_touch [simp]:
  "isl (to_dict isofmt (c\<lparr>ctx_updated_at := t\<rparr>)) = isl (to_dict isofmt c)"
  by (auto simp: to_dict_def split: sum.splits)

interpretation memory_cp: checkpoint_contract
  memory_cp_save memory_cp_load memory_cp_delete "\<lambda>_. True" "\<lambda>c. c"
  by unfold_locales
    (auto simp: memory_cp_save_def memory_cp_load_def memory_cp_delete_def touch_def Let_def)

lemma json_dumps_canon [simp]: "json_dumps (PDict (canon_dict d)) = json_dumps (PDict d)"
  using json_canon_idem [of "PDict d"] by (simp add: json_dumps_def json_canon_PDict del: json_canon.simps(8))

lemma file_cp_load_saved:
  assumes "to_dict (cd_iso cd) c = Inr d" and "codec_ok cd" and "saveable c"
    and "map_of st xid = Some (json_dumps (PDict
       [(''schema_version'', PInt 1), (''state_hash'', PStr (cd_sha cd (json_dumps (PDict d)))),
        (''state'', PDict d)]))"
  shows "file_cp_load cd fv xid st = Some (Inr (canon_context c))"
proof -
  let ?env = "[(''schema_version'', PInt 1),
     (''state_hash'', PStr (cd_sha cd (json_dumps (PDict d)))), (''state'', PDict d)]"
  have look: "map_of (canon_dict ?env) k = map_option json_canon (map_of ?env k)" for k
    by (rule map_of_canon_dict) simp
  show ?thesis
    unfolding file_cp_load_def assms(4)
    by (simp add: json_canon_PDict look restore_canon [OF assms(1-3)] del: json_canon.simps(8))
qed

interpretation sqlite_cp: checkpoint_contract
  "sqlite_cp_save cd" "sqlite_cp_load cd" sqlite_cp_delete "\<lambda>c. codec_ok cd \<and> saveable c" canon_context
  for cd
proof unfold_locales
  fix now c s r c' s' fv e xid xid' t
  show "codec_ok cd \<and> saveable (c\<lparr>ctx_updated_at := t\<rparr>) \<longleftrightarrow> codec_ok cd \<and> saveable c"
    by (simp add: saveable_def)
  show "\<exists>m. sqlite_cp_load cd fv xid (sqlite_cp_delete xid s) = Some (Inl (Exn CheckpointNotFound m))"
    by (simp add: sqlite_cp_load_def sqlite_cp_delete_def)
  show "sqlite_cp_load cd fv xid' (sqlite_cp_delete xid s) = sqlite_cp_load cd fv xid' s" if "xid' \<noteq> xid"
    using that by (simp add: sqlite_cp_load_def sqlite_cp_delete_def)
  assume sv: "sqlite_cp_save cd now c s = (r, c', s')"
  then show "\<exists>t. c' = c\<lparr>ctx_updated_at := t\<rparr>"
    by (auto simp: sqlite_cp_save_def touch_def Let_def split: sum.splits)
  show "sqlite_cp_load cd fv xid s' = sqlite_cp_load cd fv xid s" if "xid \<noteq> ctx_execution_id c"
    using sv that by (auto simp: sqlite_cp_save_def sqlite_cp_load_def touch_def Let_def split: sum.splits)
  assume ok: "codec_ok cd \<and> saveable c"
  then have ok': "saveable (touch now c)" by (simp add: saveable_def touch_def)
  obtain d where d: "to_dict (cd_iso cd) (touch now c) = Inr d" using to_dict_saveable [OF ok'] by blast
  show "r = Inr ()"
    using sv d by (auto simp: sqlite_cp_save_def Let_def)
  show "sqlite_cp_load cd fv (ctx_execution_id c) s' = Some (Inr (canon_context c'))"
    using sv d restore_canon [OF d _ ok'] ok
    by (auto simp: sqlite_cp_save_def sqlite_cp_load_def Let_def json_canon_PDict touch_def
        simp del: json_canon.simps(8))
qed (auto simp: sqlite_cp_save_def Let_def split: sum.splits)

interpretation file_cp: checkpoint_contract
  "\<lambda>now. file_cp_save cd" "file_cp_load cd" file_cp_delete "\<lambda>c. codec_ok cd \<and> saveable c" canon_context
  for cd
proof unfold_locales
  fix now :: timestamp and c s r c' s' fv e xid xid' t
  show "codec_ok cd \<and> saveable (c\<lparr>ctx_updated_at := t\<rparr>) \<longleftrightarrow> codec_ok cd \<and> saveable c"
    by (simp add: saveable_def)
  show "\<exists>m. file_cp_load cd fv xid (file_cp_delete xid s) = Some (Inl (Exn CheckpointNotFound m))"
    by (simp add: file_cp_load_def file_cp_delete_def)
  show "file_cp_load cd fv xid' (file_cp_delete xid s) = file_cp_load cd fv xid' s" if "xid' \<noteq> xid"
    using that by (simp add: file_cp_load_def file_cp_delete_def)
  assume sv: "file_cp_save cd c s = (r, c', s')"
  then have c': "c' = c" by (auto simp: file_cp_save_def Let_def split: sum.splits)
  show "\<exists>t. c' = c\<lparr>ctx_updated_at := t\<rparr>"
    unfolding c' by (rule exI [of _ "ctx_updated_at c"]) simp
  show "file_cp_load cd fv xid s' = file_cp_load cd fv xid s" if "xid \<noteq> ctx_execution_id c"
    using sv that by (auto simp: file_cp_save_def file_cp_load_def Let_def split: sum.splits)
  assume ok: "codec_ok cd \<and> saveable c"
  then obtain d where d: "to_dict (cd_iso cd) c = Inr d" using to_dict_saveable by blast
  show "r = Inr ()"
    using sv d by (auto simp: file_cp_save_def Let_def)
  show "file_cp_load cd fv (ctx_execution_id c) s' = Some (Inr (canon_context c'))"
    using sv d ok by (intro file_cp_load_saved [THEN trans]) (auto simp: file_cp_save_def Let_def)
qed (auto simp: file_cp_save_def Let_def split: sum.splits)

section \<open>A failed execution cannot be saved again after a durable reload\<close>

lemma reloaded_failure_unsaveable:
  assumes "ctx_last_failure c = Some (FEnum f)"
  shows "\<exists>m. to_dict isofmt (canon_context c) = Inl (Exn AttributeError m)"
  using assms by (simp add: to_dict_def canon_context_def no_attribute_def)

end
