(* ===== verification/Worker_Fencing.thy ===== *)
theory Worker_Fencing
  imports OIS_Prelude
begin

text \<open>
  \<^verbatim>\<open>ois/infrastructure/postgres_fencing.py\<close>, class \<open>PostgresWorkerLeaseStore\<close>: worker leases with
  epoch fencing. The table \<open>ois_worker_leases\<close> is an association list from the primary key. Every
  method is one transaction with the row locked (\<open>FOR UPDATE\<close>), hence one step. Times are
  microseconds. \<open>claim\<close> compares the stored expiry with two reads of the worker's own clock
  (\<open>datetime.now\<close>), while the new expiry and the other methods use the database's \<open>now()\<close>; the
  three readings are separate arguments.
\<close>

record worker_lease =
  wl_execution_id :: uuid
  wl_worker_id :: string
  wl_epoch :: int
  wl_lease_expires_at :: timestamp

record lease_row =
  lr_worker_id :: string
  lr_epoch :: int
  lr_expires_at :: timestamp
  lr_updated_at :: timestamp

type_synonym lease_table = "(uuid \<times> lease_row) list"

definition mk_lease_store :: "rat \<Rightarrow> py_exn + rat" where
  "mk_lease_store ttl_seconds =
     (if ttl_seconds \<le> 0 then Inl (Exn ValueError ''ttl_seconds must be > 0'') else Inr ttl_seconds)"

text \<open>\<open>ttl\<close> is \<open>ttl_seconds\<close> in microseconds.\<close>

definition lease_claim ::
  "int \<Rightarrow> timestamp \<Rightarrow> timestamp \<Rightarrow> timestamp \<Rightarrow> uuid \<Rightarrow> string \<Rightarrow> lease_table \<Rightarrow>
     py_exn + worker_lease option \<times> lease_table" where
  "lease_claim ttl py_now1 py_now2 db_now xid worker t =
     (if worker = [] then Inl (Exn ValueError ''worker_id must not be empty'')
      else Inr
       (case map_of t xid of
          None \<Rightarrow>
            (let row = \<lparr>lr_worker_id = worker, lr_epoch = 1, lr_expires_at = db_now + ttl,
                        lr_updated_at = db_now\<rparr>
             in (Some \<lparr>wl_execution_id = xid, wl_worker_id = worker, wl_epoch = 1,
                       wl_lease_expires_at = db_now + ttl\<rparr>, AList.update xid row t))
        | Some cur \<Rightarrow>
            (if lr_expires_at cur > py_now1 \<and> lr_worker_id cur \<noteq> worker then (None, t)
             else
              (let next_epoch = (if lr_worker_id cur = worker \<and> lr_expires_at cur > py_now2
                                 then lr_epoch cur else lr_epoch cur + 1);
                   row = \<lparr>lr_worker_id = worker, lr_epoch = next_epoch,
                          lr_expires_at = db_now + ttl, lr_updated_at = db_now\<rparr>
               in (Some \<lparr>wl_execution_id = xid, wl_worker_id = worker, wl_epoch = next_epoch,
                         wl_lease_expires_at = db_now + ttl\<rparr>, AList.update xid row t)))))"

definition lease_matches :: "worker_lease \<Rightarrow> lease_row \<Rightarrow> bool" where
  "lease_matches l row \<longleftrightarrow> lr_worker_id row = wl_worker_id l \<and> lr_epoch row = wl_epoch l"

definition lease_current :: "timestamp \<Rightarrow> worker_lease \<Rightarrow> lease_table \<Rightarrow> bool" where
  "lease_current db_now l t \<longleftrightarrow>
     (case map_of t (wl_execution_id l) of
        None \<Rightarrow> False
      | Some row \<Rightarrow> lease_matches l row \<and> lr_expires_at row > db_now)"

definition lease_assert_current :: "timestamp \<Rightarrow> worker_lease \<Rightarrow> lease_table \<Rightarrow> py_exn + unit" where
  "lease_assert_current db_now l t =
     (if lease_current db_now l t then Inr ()
      else Inl (Exn FencingError
             (''stale or expired worker lease: execution='' @ wl_execution_id l @ '' worker=''
              @ wl_worker_id l @ '' epoch='' @ int_str (wl_epoch l))))"

definition lease_renew ::
  "int \<Rightarrow> timestamp \<Rightarrow> worker_lease \<Rightarrow> lease_table \<Rightarrow> py_exn + worker_lease \<times> lease_table" where
  "lease_renew ttl db_now l t =
     (case map_of t (wl_execution_id l) of
        Some row \<Rightarrow>
          (if lease_matches l row \<and> lr_expires_at row > db_now
           then Inr (l\<lparr>wl_epoch := lr_epoch row, wl_lease_expires_at := db_now + ttl\<rparr>,
                     AList.update (wl_execution_id l)
                       (row\<lparr>lr_expires_at := db_now + ttl, lr_updated_at := db_now\<rparr>) t)
           else Inl (Exn FencingError ''cannot renew a stale or expired worker lease''))
      | None \<Rightarrow> Inl (Exn FencingError ''cannot renew a stale or expired worker lease''))"

definition lease_release :: "worker_lease \<Rightarrow> lease_table \<Rightarrow> lease_table" where
  "lease_release l t =
     (case map_of t (wl_execution_id l) of
        Some row \<Rightarrow> (if lease_matches l row then AList.delete (wl_execution_id l) t else t)
      | None \<Rightarrow> t)"

section \<open>Ownership\<close>

lemma lease_current_unique:
  assumes "lease_current n1 l1 t" and "lease_current n2 l2 t"
    and "wl_execution_id l1 = wl_execution_id l2"
  shows "wl_worker_id l1 = wl_worker_id l2 \<and> wl_epoch l1 = wl_epoch l2"
  using assms by (auto simp: lease_current_def lease_matches_def split: option.splits)

lemma lease_claim_current:
  assumes "lease_claim ttl p1 p2 db xid w t = Inr (Some l, t')" and "n < db + ttl"
  shows "lease_current n l t'"
  using assms
  by (auto simp: lease_claim_def lease_current_def lease_matches_def Let_def
      split: if_splits option.splits)

lemma lease_claim_refused:
  assumes "map_of t xid = Some row" and "lr_worker_id row \<noteq> w" and "p1 < lr_expires_at row" and "w \<noteq> []"
  shows "lease_claim ttl p1 p2 db xid w t = Inr (None, t)"
  using assms by (simp add: lease_claim_def)

lemma lease_claim_other:
  "lease_claim ttl p1 p2 db xid w t = Inr (r, t') \<Longrightarrow> x \<noteq> xid \<Longrightarrow> map_of t' x = map_of t x"
  by (auto simp: lease_claim_def Let_def split: if_splits option.splits)

section \<open>Superseded leases\<close>

text \<open>
  One step of any worker: a claim or a renewal, at clock readings of the environment's choice.
  \<open>lease_release\<close> is the third step; \<open>lease_step_any\<close> includes it.
\<close>

inductive lease_step :: "int \<Rightarrow> lease_table \<Rightarrow> lease_table \<Rightarrow> bool" for ttl where
  claim_step: "lease_claim ttl p1 p2 db xid w t = Inr (r, t') \<Longrightarrow> lease_step ttl t t'"
| renew_step: "lease_renew ttl db l t = Inr (l', t') \<Longrightarrow> lease_step ttl t t'"

inductive lease_step_any :: "int \<Rightarrow> lease_table \<Rightarrow> lease_table \<Rightarrow> bool" for ttl where
  live_step: "lease_step ttl t t' \<Longrightarrow> lease_step_any ttl t t'"
| release_step: "lease_step_any ttl t (lease_release l t)"

inductive_cases lease_stepE: "lease_step ttl t t'"

text \<open>A lease is superseded when the row carries a later epoch, or its epoch for another worker.\<close>

definition superseded :: "worker_lease \<Rightarrow> lease_table \<Rightarrow> bool" where
  "superseded l t \<longleftrightarrow>
     (\<exists>row. map_of t (wl_execution_id l) = Some row \<and>
        (wl_epoch l < lr_epoch row \<or> wl_epoch l = lr_epoch row \<and> wl_worker_id l \<noteq> lr_worker_id row))"

lemma superseded_not_current: "superseded l t \<Longrightarrow> \<not> lease_current n l t"
  by (auto simp: superseded_def lease_current_def lease_matches_def)

lemma superseded_claim:
  assumes "lease_claim ttl p1 p2 db xid w t = Inr (r, t')" and "superseded l t"
  shows "superseded l t'"
  using assms
  by (auto simp: lease_claim_def superseded_def Let_def split: if_splits option.splits)

lemma superseded_renew:
  assumes "lease_renew ttl db k t = Inr (k', t')" and "superseded l t"
  shows "superseded l t'"
  using assms
  by (auto simp: lease_renew_def superseded_def split: if_splits option.splits)

lemma superseded_step: "lease_step ttl t t' \<Longrightarrow> superseded l t \<Longrightarrow> superseded l t'"
  by (elim lease_stepE) (auto intro: superseded_claim superseded_renew)

lemma superseded_steps: "(lease_step ttl)\<^sup>*\<^sup>* t t' \<Longrightarrow> superseded l t \<Longrightarrow> superseded l t'"
  by (induction rule: rtranclp_induct) (auto intro: superseded_step)

text \<open>A takeover by another worker supersedes the lease that was current before it.\<close>

lemma takeover_supersedes:
  assumes "lease_claim ttl p1 p2 db (wl_execution_id l) w t = Inr (Some l', t')"
    and "lease_current n l t" and "w \<noteq> wl_worker_id l"
  shows "superseded l t'"
  using assms
  by (auto simp: lease_claim_def superseded_def lease_current_def lease_matches_def Let_def
      split: if_splits option.splits)

end
