(* ===== verification/Kernel_Runtime.thy ===== *)
theory Kernel_Runtime
  imports Kernel_Policy Kernel_Validation Kernel_Recovery Kernel_Stores Kernel_Checkpoint
    Worker_Fencing
begin

text \<open>
  \<^verbatim>\<open>ois/kernel/runtime.py\<close>: one governed capability invocation. The runtime object is a record of
  its collaborators (\<open>runtime\<close>); what they and the context hold while a call runs is the \<open>world\<close>.
  The context and the stores are shared mutable objects in Python, so every method is a
  computation over the world, and what it changed before a raise stays changed.

  The lease table is shared with other workers: \<open>rt_fencing\<close> gives the table and the database time
  that a fence check sees at a given tick, whatever the other workers did in between.
\<close>

record ('c, 'i, 'e) world =
  w_ctx :: execution_context
  w_cp :: 'c
  w_idem :: 'i
  w_ev :: 'e
  w_token :: cancellation_token
  w_tick :: nat

record ('c, 'i, 'e) runtime =
  rt_registry :: capability_registry
  rt_cp_save :: "timestamp \<Rightarrow> execution_context \<Rightarrow> 'c \<Rightarrow> (py_exn + unit) \<times> execution_context \<times> 'c"
  rt_ev_append :: "evidence_event \<Rightarrow> 'e \<Rightarrow> 'e"
  rt_authorize :: "invocation_request \<Rightarrow> capability_contract \<Rightarrow> py_exn + bool"
  rt_recovery :: recovery_policy
  rt_idem_get :: "string \<Rightarrow> 'i \<Rightarrow> py_exn + invocation_result option"
  rt_idem_put :: "string \<Rightarrow> invocation_result \<Rightarrow> 'i \<Rightarrow> 'i"
  rt_fencing :: "(nat \<Rightarrow> lease_table \<times> timestamp) option"
  rt_env :: environ

section \<open>The collaborators as computations\<close>

definition status_m :: "('c, 'i, 'e) runtime \<Rightarrow> execution_status \<Rightarrow> (('c, 'i, 'e) world, unit) em" where
  "status_m rt st = (\<lambda>w.
     case set_status (clock (rt_env rt) (w_tick w)) st (w_ctx w) of
       Inl e \<Rightarrow> (Inl e, w)
     | Inr c \<Rightarrow> (Inr (), w\<lparr>w_ctx := c, w_tick := Suc (w_tick w)\<rparr>))"

definition record_m :: "('c, 'i, 'e) runtime \<Rightarrow> string \<Rightarrow> pydict \<Rightarrow> (('c, 'i, 'e) world, unit) em" where
  "record_m rt etype data = emod (\<lambda>w.
     w\<lparr>w_ev := rt_ev_append rt
          (make_event (ctx_execution_id (w_ctx w)) etype data
             (clock (rt_env rt) (w_tick w)) (fresh_uuid (rt_env rt) (Suc (w_tick w)))) (w_ev w),
       w_tick := Suc (Suc (w_tick w))\<rparr>)"

definition ctx_m :: "(execution_context \<Rightarrow> execution_context) \<Rightarrow> (('c, 'i, 'e) world, unit) em" where
  "ctx_m f = emod (\<lambda>w. w\<lparr>w_ctx := f (w_ctx w)\<rparr>)"

definition token_m :: "(('c, 'i, 'e) world, unit) em" where
  "token_m = (\<lambda>w. (raise_if_cancelled (w_token w), w))"

definition assert_fence :: "('c, 'i, 'e) runtime \<Rightarrow> worker_lease option \<Rightarrow> (('c, 'i, 'e) world, unit) em" where
  "assert_fence rt lease =
     (case rt_fencing rt of
        None \<Rightarrow> eret ()
      | Some seen \<Rightarrow>
         (case lease of
            None \<Rightarrow> eraise (Exn ExecutionError
                      ''PostgreSQL fencing is enabled but no worker lease was supplied'')
          | Some l \<Rightarrow> (\<lambda>w. (case seen (w_tick w) of (t, now) \<Rightarrow> lease_assert_current now l t,
                           w\<lparr>w_tick := Suc (w_tick w)\<rparr>))))"

definition store_save :: "('c, 'i, 'e) runtime \<Rightarrow> (('c, 'i, 'e) world, unit) em" where
  "store_save rt = (\<lambda>w.
     case rt_cp_save rt (clock (rt_env rt) (w_tick w)) (w_ctx w) (w_cp w) of
       (r, c, s) \<Rightarrow> (r, w\<lparr>w_ctx := c, w_cp := s, w_tick := Suc (w_tick w)\<rparr>))"

definition save_checkpoint :: "('c, 'i, 'e) runtime \<Rightarrow> worker_lease option \<Rightarrow> (('c, 'i, 'e) world, unit) em" where
  "save_checkpoint rt lease = eseq (assert_fence rt lease) (store_save rt)"

definition cache_terminal_result ::
  "('c, 'i, 'e) runtime \<Rightarrow> string \<Rightarrow> invocation_result \<Rightarrow> worker_lease option \<Rightarrow> (('c, 'i, 'e) world, unit) em" where
  "cache_terminal_result rt iid res lease =
     ewhen (res_status res \<in> {IS_SUCCEEDED, IS_CANCELLED})
       (eseq (assert_fence rt lease) (emod (\<lambda>w. w\<lparr>w_idem := rt_idem_put rt iid res (w_idem w)\<rparr>)))"

definition invoke_m :: "capability \<Rightarrow> invocation_request \<Rightarrow> (('c, 'i, 'e) world, invocation_result) em" where
  "invoke_m cap req = (\<lambda>w.
     case cap_invoke cap req (w_tick w) (w_token w) of
       (r, tok) \<Rightarrow> (r, w\<lparr>w_token := tok, w_tick := Suc (w_tick w)\<rparr>))"

section \<open>Failure paths\<close>

definition cancellation_error :: "py_exn \<Rightarrow> pydict" where
  "cancellation_error e =
     [(''type'', PStr ''ExecutionCancellation''), (''message'', PStr (exn_str e)),
      (''failure_class'', PStr ''cancellation''), (''recovery_action'', PStr ''stop'')]"

definition handle_cancellation ::
  "('c, 'i, 'e) runtime \<Rightarrow> string \<Rightarrow> py_exn \<Rightarrow> string \<Rightarrow> worker_lease option \<Rightarrow>
     (('c, 'i, 'e) world, invocation_result) em" where
  "handle_cancellation rt cid e iid lease =
     eseq (status_m rt ES_STOPPED)
    (eseq (ctx_m (\<lambda>c. c\<lparr>ctx_error := Some (cancellation_error e), ctx_current_node := Some cid\<rparr>))
    (eseq (record_m rt ''execution.cancelled''
             [(''capability_id'', PStr cid), (''invocation_id'', PStr iid),
              (''reason'', PStr (exn_str e))])
    (eseq (save_checkpoint rt lease)
    (eret ((new_result iid cid IS_CANCELLED)\<lparr>res_error := Some (cancellation_error e)\<rparr>)))))"

definition recovery_m :: "('c, 'i, 'e) runtime \<Rightarrow> failure_class \<Rightarrow> (('c, 'i, 'e) world, recovery_decision) em" where
  "recovery_m rt fc = (\<lambda>w.
     case recovery_apply (rt_recovery rt) (clock (rt_env rt) (w_tick w)) fc (w_ctx w) of
       (r, c) \<Rightarrow> (r, w\<lparr>w_ctx := c, w_tick := Suc (w_tick w)\<rparr>))"

definition handle_failure ::
  "('c, 'i, 'e) runtime \<Rightarrow> string \<Rightarrow> string \<Rightarrow> py_exn \<Rightarrow> worker_lease option \<Rightarrow>
     (('c, 'i, 'e) world, invocation_result) em" where
  "handle_failure rt cid iid e lease =
     ebind (recovery_m rt FC_TOOL) (\<lambda>d.
     eseq (record_m rt ''execution.failure''
             [(''capability_id'', PStr cid), (''error'', PStr (exn_str e)),
              (''failure_class'', PStr (failure_class_value FC_TOOL)),
              (''recovery_action'', PStr (rd_action d)), (''invocation_id'', PStr iid)])
    (eseq (save_checkpoint rt lease)
    (eret ((new_result iid cid IS_FAILED)\<lparr>res_error := Some
             [(''type'', PStr (exn_name (exn_class e))), (''message'', PStr (exn_str e)),
              (''failure_class'', PStr (failure_class_value FC_TOOL)),
              (''recovery_action'', PStr (rd_action d))]\<rparr>))))"

section \<open>Execute\<close>

definition mk_request ::
  "string \<Rightarrow> string \<Rightarrow> pydict \<Rightarrow> capability_contract \<Rightarrow> ('c, 'i, 'e) world \<Rightarrow> invocation_request" where
  "mk_request iid cid input k w =
     \<lparr>ir_invocation_id = iid, ir_capability_id = cid, ir_input = input, ir_execution = w_ctx w,
      ir_timeout_seconds = Some (cc_timeout_seconds k), ir_attempt = 0,
      ir_cancellation = Some (w_token w)\<rparr>"

text \<open>\<open>policy.authorize\<close> with the evidence of a denial; its return value is not looked at.\<close>

definition authorize_m ::
  "('c, 'i, 'e) runtime \<Rightarrow> string \<Rightarrow> invocation_request \<Rightarrow> capability_contract \<Rightarrow>
     (('c, 'i, 'e) world, unit) em" where
  "authorize_m rt cid req k =
     etry (eseq (elift (rt_authorize rt req k)) (eret ()))
       (\<lambda>e. if exn_class e = AuthorizationDenied \<or> is_permission_error (exn_class e) then
              eseq (record_m rt ''execution.input_validated''
                      [(''capability_id'', PStr cid), (''invocation_id'', PStr (ir_invocation_id req))])
             (eseq (record_m rt ''execution.authorization_denied''
                      [(''capability_id'', PStr cid), (''invocation_id'', PStr (ir_invocation_id req)),
                       (''tenant_id'', PStr (ctx_tenant_id (ir_execution req))),
                       (''reason'', PStr (exn_str e))])
             (eraise e))
            else eraise e)"

text \<open>The failure class that a capability reports in its result.\<close>

definition reported_failure :: "invocation_result \<Rightarrow> failure_class option" where
  "reported_failure res =
     (if res_status res = IS_FAILED then
        (case res_error res of
           None \<Rightarrow> None
         | Some err \<Rightarrow>
            (case map_of err ''failure_class'' of
               None \<Rightarrow> None
             | Some v \<Rightarrow> Some (case v of
                  PStr s \<Rightarrow> (case failure_class_of s of Some f \<Rightarrow> f | None \<Rightarrow> FC_UNKNOWN)
                | _ \<Rightarrow> FC_UNKNOWN)))
      else None)"

definition recover_reported ::
  "('c, 'i, 'e) runtime \<Rightarrow> string \<Rightarrow> string \<Rightarrow> worker_lease option \<Rightarrow> invocation_result \<Rightarrow>
     (('c, 'i, 'e) world, invocation_result) em" where
  "recover_reported rt cid iid lease res =
     (case reported_failure res of
        None \<Rightarrow> eret res
      | Some fc \<Rightarrow>
         ebind (recovery_m rt fc) (\<lambda>d.
         eseq (record_m rt ''execution.recovery_decision''
                 [(''capability_id'', PStr cid), (''invocation_id'', PStr iid),
                  (''failure_class'', PStr (failure_class_value fc)),
                  (''recovery_action'', PStr (rd_action d))])
        (eseq (save_checkpoint rt lease)
        (eret (res\<lparr>res_error := map_option
                 (AList.update ''recovery_action'' (PStr (rd_action d))) (res_error res)\<rparr>)))))"

text \<open>
  From the returned result to the end of \<open>execute\<close>: the observation and its validation, the cache
  write, and the closing checkpoint.
\<close>

definition observe_result ::
  "('c, 'i, 'e) runtime \<Rightarrow> string \<Rightarrow> capability_contract \<Rightarrow> invocation_result \<Rightarrow>
     (('c, 'i, 'e) world, unit) em" where
  "observe_result rt cid k res =
     eseq (status_m rt ES_OBSERVING)
    (eseq (ctx_m (\<lambda>c. c\<lparr>ctx_observations := ctx_observations c @
             [[(''invocation_id'', PStr (res_invocation_id res)),
               (''capability_id'', PStr (res_capability_id res)),
               (''status'', PStr (invocation_status_value (res_status res))),
               (''output'', res_output res)]]\<rparr>))
    (eseq (record_m rt ''capability.completed''
             [(''capability_id'', PStr cid), (''invocation_id'', PStr (res_invocation_id res)),
              (''status'', PStr (invocation_status_value (res_status res)))])
    (eseq (status_m rt ES_VALIDATING)
    (eseq (ewhen (res_status res = IS_SUCCEEDED) (elift (validate_output res k)))
    (eseq (ctx_m (\<lambda>c. c\<lparr>ctx_validation_results := ctx_validation_results c @
             [[(''invocation_id'', PStr (res_invocation_id res)),
               (''valid'', PBool (res_status res = IS_SUCCEEDED))]]\<rparr>))
    (eseq (status_m rt ES_UPDATING_STATE)
    (ewhen (res_status res = IS_SUCCEEDED)
       (ctx_m (\<lambda>c. c\<lparr>ctx_working_memory :=
          AList.update (''result:'' @ res_invocation_id res) (res_output res)
            (ctx_working_memory c)\<rparr>)))))))))"

definition seal_result ::
  "('c, 'i, 'e) runtime \<Rightarrow> string \<Rightarrow> string \<Rightarrow> worker_lease option \<Rightarrow> invocation_result \<Rightarrow>
     (('c, 'i, 'e) world, unit) em" where
  "seal_result rt cid iid lease res =
     eseq (record_m rt ''execution.idempotency_recorded''
             [(''capability_id'', PStr cid), (''invocation_id'', PStr iid),
              (''status'', PStr (invocation_status_value (res_status res)))])
    (eseq (status_m rt ES_CHECKPOINTING)
    (eseq (save_checkpoint rt lease)
    (eseq (record_m rt ''execution.checkpointed''
             [(''capability_id'', PStr cid), (''invocation_id'', PStr (res_invocation_id res))])
    (status_m rt ES_ROUTED))))"

definition conclude ::
  "('c, 'i, 'e) runtime \<Rightarrow> string \<Rightarrow> string \<Rightarrow> string \<Rightarrow> worker_lease option \<Rightarrow> capability_contract \<Rightarrow>
     invocation_result \<Rightarrow> (('c, 'i, 'e) world, invocation_result) em" where
  "conclude rt cid iid key lease k res0 =
     ebind (recover_reported rt cid iid lease res0) (\<lambda>res.
     if res_invocation_id res \<noteq> iid then
       eraise (Exn ExecutionError
         ''Capability returned an invocation_id that does not match the requested invocation_id.'')
     else
       eseq (observe_result rt cid k res)
      (eseq (cache_terminal_result rt key res lease)
      (eseq (seal_result rt cid iid lease res)
      (eret res))))"

text \<open>
  \<open>try: raise_if_cancelled(); invoke; raise_if_cancelled()\<close>: \<open>Inr\<close> is a result to go on with,
  \<open>Inl\<close> the result a handler has already concluded with.
\<close>

definition guarded_invoke ::
  "('c, 'i, 'e) runtime \<Rightarrow> string \<Rightarrow> string \<Rightarrow> worker_lease option \<Rightarrow> capability \<Rightarrow> invocation_request \<Rightarrow>
     (('c, 'i, 'e) world, invocation_result + invocation_result) em" where
  "guarded_invoke rt cid iid lease cap req =
     etry (eseq token_m (ebind (invoke_m cap req) (\<lambda>res. eseq token_m (eret (Inr res)))))
       (\<lambda>e. ebind (if exn_class e = ExecutionCancellation then handle_cancellation rt cid e iid lease
                   else handle_failure rt cid iid e lease)
             (\<lambda>res. eret (Inl res)))"

text \<open>From the authorized, uncached request to the call of the capability, and to the end.\<close>

definition start_capability ::
  "('c, 'i, 'e) runtime \<Rightarrow> string \<Rightarrow> string \<Rightarrow> string \<Rightarrow> worker_lease option \<Rightarrow>
     (('c, 'i, 'e) world, unit) em" where
  "start_capability rt cid ver iid lease =
     eseq (record_m rt ''execution.received''
             [(''capability_id'', PStr cid), (''version'', PStr ver), (''invocation_id'', PStr iid)])
    (eseq (record_m rt ''execution.input_validated''
             [(''capability_id'', PStr cid), (''invocation_id'', PStr iid)])
    (eseq (status_m rt ES_AUTHORIZED)
    (eseq (record_m rt ''execution.authorized''
             [(''capability_id'', PStr cid), (''invocation_id'', PStr iid)])
    (eseq (status_m rt ES_EXECUTING)
    (eseq (ctx_m (\<lambda>c. c\<lparr>ctx_current_node := Some cid\<rparr>))
    (eseq (save_checkpoint rt lease)
    (record_m rt ''capability.started''
       [(''capability_id'', PStr cid), (''invocation_id'', PStr iid)])))))))"

definition perform ::
  "('c, 'i, 'e) runtime \<Rightarrow> string \<Rightarrow> string \<Rightarrow> string \<Rightarrow> string \<Rightarrow> worker_lease option \<Rightarrow>
     capability \<Rightarrow> capability_contract \<Rightarrow> invocation_request \<Rightarrow>
     (('c, 'i, 'e) world, invocation_result) em" where
  "perform rt cid ver iid key lease cap k req =
     eseq (start_capability rt cid ver iid lease)
    (ebind (eget w_ctx) (\<lambda>c.
     ebind (guarded_invoke rt cid iid lease cap (req\<lparr>ir_execution := c\<rparr>)) (\<lambda>out.
       case out of Inl res \<Rightarrow> eret res
                 | Inr res \<Rightarrow> conclude rt cid iid key lease k res)))"

text \<open>The cache lookup, then the rest.\<close>

definition replay_or_perform ::
  "('c, 'i, 'e) runtime \<Rightarrow> string \<Rightarrow> string \<Rightarrow> string \<Rightarrow> string \<Rightarrow> worker_lease option \<Rightarrow>
     capability \<Rightarrow> capability_contract \<Rightarrow> invocation_request \<Rightarrow>
     (('c, 'i, 'e) world, invocation_result) em" where
  "replay_or_perform rt cid ver iid key lease cap k req =
     ebind (eget w_idem) (\<lambda>st.
     ebind (elift (rt_idem_get rt key st)) (\<lambda>cached.
       case cached of
         Some res \<Rightarrow>
           eseq (record_m rt ''execution.idempotency_hit''
                   [(''capability_id'', PStr cid), (''version'', PStr ver), (''invocation_id'', PStr iid)])
          (eret res)
       | None \<Rightarrow> perform rt cid ver iid key lease cap k req))"

text \<open>\<open>invocation_id or str(uuid4())\<close>: an empty text is replaced too.\<close>

definition logical_id :: "('c, 'i, 'e) runtime \<Rightarrow> string option \<Rightarrow> (('c, 'i, 'e) world, string) em" where
  "logical_id rt iid =
     (case iid of
        Some (x # xs) \<Rightarrow> eret (x # xs)
      | _ \<Rightarrow> (\<lambda>w. (Inr (fresh_uuid (rt_env rt) (w_tick w)), w\<lparr>w_tick := Suc (w_tick w)\<rparr>)))"

definition storage_key :: "string option \<Rightarrow> string \<Rightarrow> string" where
  "storage_key key iid = (case key of Some (x # xs) \<Rightarrow> x # xs | _ \<Rightarrow> iid)"

text \<open>From the resolved entry to the end.\<close>

definition govern ::
  "('c, 'i, 'e) runtime \<Rightarrow> string \<Rightarrow> string \<Rightarrow> pydict \<Rightarrow> string \<Rightarrow> string \<Rightarrow> worker_lease option \<Rightarrow>
     capability_entry \<Rightarrow> (('c, 'i, 'e) world, invocation_result) em" where
  "govern rt cid ver input iid key lease entry =
     ebind (eget (\<lambda>w. w)) (\<lambda>w.
       case raise_if_cancelled (w_token w) of
         Inl e \<Rightarrow> handle_cancellation rt cid e iid lease
       | Inr _ \<Rightarrow>
          (case ce_contract entry of
             None \<Rightarrow> eraise (no_attribute ''NoneType'' ''timeout_seconds'')
           | Some k \<Rightarrow>
               eseq (elift (validate_input (mk_request iid cid input k w) k))
              (eseq (authorize_m rt cid (mk_request iid cid input k w) k)
              (replay_or_perform rt cid ver iid key lease (ce_capability entry) k
                 (mk_request iid cid input k w)))))"

definition execute ::
  "('c, 'i, 'e) runtime \<Rightarrow> string \<Rightarrow> string \<Rightarrow> pydict \<Rightarrow> string option \<Rightarrow> string option \<Rightarrow>
     worker_lease option \<Rightarrow> (('c, 'i, 'e) world, invocation_result) em" where
  "execute rt cid ver input invocation_id idempotency_key lease =
     ebind (eget w_ctx) (\<lambda>c.
     if ctx_status c \<in> {ES_COMPLETED, ES_STOPPED} then
       eraise (Exn ExecutionAlreadyCompleted
         (''Execution cannot continue from '' @ execution_status_value (ctx_status c) @ ''.''))
     else
     ebind (logical_id rt invocation_id) (\<lambda>iid.
     eseq (assert_fence rt lease)
    (eseq (status_m rt ES_NORMALIZED)
    (ebind (elift (capability_get cid ver (rt_registry rt))) (\<lambda>entry.
     eseq (status_m rt ES_PLAN_VALIDATED)
    (govern rt cid ver input iid (storage_key idempotency_key iid) lease entry))))))"

definition complete ::
  "('c, 'i, 'e) runtime \<Rightarrow> worker_lease option \<Rightarrow> (('c, 'i, 'e) world, unit) em" where
  "complete rt lease =
     eseq (assert_fence rt lease)
    (eseq (status_m rt ES_COMPLETED)
    (eseq (save_checkpoint rt lease)
    (record_m rt ''execution.completed'' [])))"

section \<open>What every runtime operation does to the world\<close>

text \<open>
  The runtime over stores that honour their contracts. \<open>kernel_step\<close> collects what no operation of
  the runtime ever breaks, on any path, returning or raising: the execution identity stays, a
  terminal status is final, the ledger only grows, a recorded result is never replaced, the retry
  counter only grows and not beyond the policy's limit, and time goes on.
\<close>

locale kernel_runtime =
  cp: checkpoint_contract "rt_cp_save rt" cp_load cp_delete cp_storable cp_readback +
  idem: idempotency_contract "rt_idem_get rt" "rt_idem_put rt" idem_invar idem_stored idem_readback +
  ev: evidence_contract "rt_ev_append rt" ev_events ev_accepts ev_readback
  for rt :: "('c, 'i, 'e) runtime"
    and cp_load cp_delete cp_storable cp_readback idem_invar idem_stored idem_readback
    and ev_events ev_accepts ev_readback
begin

definition kernel_step :: "('c, 'i, 'e) world \<Rightarrow> ('c, 'i, 'e) world \<Rightarrow> bool" where
  "kernel_step s t \<longleftrightarrow>
     ctx_identity (w_ctx t) = ctx_identity (w_ctx s) \<and>
     (terminal_status (ctx_status (w_ctx s)) \<longrightarrow> ctx_status (w_ctx t) = ctx_status (w_ctx s)) \<and>
     prefix (ev_events None (w_ev s)) (ev_events None (w_ev t)) \<and>
     (idem_invar (w_idem s) \<longrightarrow> idem_invar (w_idem t) \<and>
        (\<forall>k r. rt_idem_get rt k (w_idem s) = Inr (Some r) \<longrightarrow>
               rt_idem_get rt k (w_idem t) = Inr (Some r))) \<and>
     ctx_retry_count (w_ctx s) \<le> ctx_retry_count (w_ctx t) \<and>
     (ctx_retry_count (w_ctx s) \<le> rp_max_retries (rt_recovery rt) \<longrightarrow>
        ctx_retry_count (w_ctx t) \<le> rp_max_retries (rt_recovery rt)) \<and>
     w_tick s \<le> w_tick t"

sublocale step_order kernel_step
proof
  fix s t u
  show "kernel_step s s" by (simp add: kernel_step_def)
  assume "kernel_step s t" "kernel_step t u"
  then show "kernel_step s u"
    unfolding kernel_step_def by (auto intro: prefix_order.trans order_trans)
qed

lemma kernel_step_ctx:
  assumes "ctx_identity c = ctx_identity (w_ctx w)" and "ctx_status c = ctx_status (w_ctx w)"
    and "ctx_retry_count c = ctx_retry_count (w_ctx w)" and "w_tick w \<le> n"
  shows "kernel_step w (w\<lparr>w_ctx := c, w_tick := n\<rparr>)"
  using assms by (simp add: kernel_step_def)

lemma confined_ctx_m:
  assumes "\<And>c. ctx_identity (f c) = ctx_identity c" and "\<And>c. ctx_status (f c) = ctx_status c"
    and "\<And>c. ctx_retry_count (f c) = ctx_retry_count c"
  shows "confined kernel_step (ctx_m f)"
  using assms by (simp add: ctx_m_def confined_def em_simps kernel_step_def)

lemma confined_status_m: "confined kernel_step (status_m rt st)"
  by (auto simp: confined_def status_m_def set_status_def touch_def terminal_status_def
      kernel_step_def split: sum.splits)

lemma confined_record_m: "confined kernel_step (record_m rt etype data)"
  by (simp add: confined_def record_m_def em_simps kernel_step_def ev.append_prefix)

lemma confined_token_m: "confined kernel_step token_m"
  by (simp add: confined_def token_m_def kernel_step_def)

lemma confined_assert_fence: "confined kernel_step (assert_fence rt lease)"
  by (auto simp: confined_def assert_fence_def em_simps kernel_step_def split: option.splits)

lemma confined_store_save: "confined kernel_step (store_save rt)"
proof -
  have "kernel_step w (w\<lparr>w_ctx := c, w_cp := s, w_tick := Suc (w_tick w)\<rparr>)"
    if "rt_cp_save rt now (w_ctx w) (w_cp w) = (r, c, s)" for w now r c s
    using cp.save_context [OF that] by (auto simp: kernel_step_def)
  then show ?thesis by (auto simp: confined_def store_save_def split: prod.splits)
qed

lemma confined_save_checkpoint: "confined kernel_step (save_checkpoint rt lease)"
  unfolding save_checkpoint_def
  by (intro confined_eseq confined_assert_fence confined_store_save)

lemma confined_cache: "confined kernel_step (cache_terminal_result rt iid res lease)"
proof -
  have "confined kernel_step (emod (\<lambda>w. w\<lparr>w_idem := rt_idem_put rt iid res (w_idem w)\<rparr>))"
    by (rule confined_emod) (auto simp: kernel_step_def idem.put_invar idem.put_keeps)
  then show ?thesis
    unfolding cache_terminal_result_def
    by (intro confined_ewhen confined_eseq confined_assert_fence)
qed

lemma confined_invoke_m: "confined kernel_step (invoke_m cap req)"
  by (auto simp: confined_def invoke_m_def kernel_step_def split: prod.splits)

lemma confined_recovery_m: "confined kernel_step (recovery_m rt fc)"
proof -
  have "kernel_step w (w\<lparr>w_ctx := c, w_tick := Suc (w_tick w)\<rparr>)"
    if "recovery_apply (rt_recovery rt) now fc (w_ctx w) = (r, c)" for w now r c
  proof -
    have c: "c = snd (recovery_apply (rt_recovery rt) now fc (w_ctx w))" by (simp add: that)
    show ?thesis
      unfolding c kernel_step_def
      by (auto simp: recovery_apply_frame recovery_apply_terminal recovery_apply_retry_count)
  qed
  then show ?thesis by (auto simp: confined_def recovery_m_def split: prod.splits)
qed

lemma confined_logical_id: "confined kernel_step (logical_id rt iid)"
  by (auto simp: confined_def logical_id_def em_simps kernel_step_def split: option.splits list.splits)

lemmas confined_primitives =
  confined_status_m confined_record_m confined_token_m confined_assert_fence
  confined_save_checkpoint confined_cache confined_invoke_m confined_recovery_m confined_logical_id

lemma confined_handle_cancellation: "confined kernel_step (handle_cancellation rt cid e iid lease)"
  unfolding handle_cancellation_def
  by (intro confined_rules confined_primitives confined_ctx_m) simp_all

lemma confined_handle_failure: "confined kernel_step (handle_failure rt cid iid e lease)"
  unfolding handle_failure_def
  by (intro confined_rules confined_primitives)

lemma confined_recover_reported: "confined kernel_step (recover_reported rt cid iid lease res)"
  unfolding recover_reported_def
  by (intro confined_rules confined_primitives)

lemma confined_conclude: "confined kernel_step (conclude rt cid iid key lease k res)"
  unfolding conclude_def observe_result_def seal_result_def
  by (intro confined_rules confined_primitives confined_recover_reported confined_ctx_m) simp_all

lemma confined_guarded_invoke: "confined kernel_step (guarded_invoke rt cid iid lease cap req)"
  unfolding guarded_invoke_def
  by (intro confined_rules confined_primitives confined_handle_cancellation confined_handle_failure)

lemma confined_perform: "confined kernel_step (perform rt cid ver iid key lease cap k req)"
  unfolding perform_def start_capability_def
  by (intro confined_rules confined_primitives confined_guarded_invoke confined_conclude
      confined_ctx_m) simp_all

lemma confined_authorize_m: "confined kernel_step (authorize_m rt cid req k)"
  unfolding authorize_m_def
  by (intro confined_rules confined_primitives)

lemma confined_govern: "confined kernel_step (govern rt cid ver input iid key lease entry)"
  unfolding govern_def replay_or_perform_def
  by (intro confined_rules confined_primitives confined_handle_cancellation confined_authorize_m
      confined_perform)

lemma confined_execute: "confined kernel_step (execute rt cid ver input iid key lease)"
  unfolding execute_def
  by (intro confined_rules confined_primitives confined_govern)

lemma confined_complete: "confined kernel_step (complete rt lease)"
  unfolding complete_def
  by (intro confined_rules confined_primitives)

end

end
