(* ===== verification/Kernel_Orchestrator.thy ===== *)
theory Kernel_Orchestrator
  imports Kernel_Planning Kernel_Runtime
begin

text \<open>
  \<^verbatim>\<open>ois/kernel/orchestrator.py\<close>: execution of a plan, batch by batch, with a checkpoint around
  every task, and the resumption of a checkpointed plan.

  The plan object and its tasks are mutated in place; they are threaded beside the runtime's world.
  The retry loop and the batch loop need not end, so both are \<open>partial_function (option)\<close>: \<open>None\<close>
  is a run that does not return, \<open>Some (Inl e, s)\<close> one that raises.
\<close>

type_synonym ('c, 'i, 'e) orch = "execution_plan \<times> ('c, 'i, 'e) world"

definition update_task :: "string \<Rightarrow> (task_node \<Rightarrow> task_node) \<Rightarrow> execution_plan \<Rightarrow> execution_plan" where
  "update_task tid f p = p\<lparr>pl_tasks := map (\<lambda>(k, t). (k, if k = tid then f t else t)) (pl_tasks p)\<rparr>"

text \<open>\<open>context.plan = plan.to_dict(); checkpoint_store.save(context)\<close>, without the runtime's fence.\<close>

definition save_plan ::
  "('c, 'i, 'e) runtime \<Rightarrow> (execution_context \<Rightarrow> execution_context) \<Rightarrow> execution_plan \<Rightarrow>
     (('c, 'i, 'e) world, unit) em" where
  "save_plan rt f p =
     eseq (ctx_m (\<lambda>c. (f c)\<lparr>ctx_plan := Some (plan_to_dict p)\<rparr>)) (store_save rt)"

text \<open>\<open>result.status != SUCCEEDED and isinstance(result.error, dict) and ... == "retry"\<close>.\<close>

definition wants_retry :: "invocation_result \<Rightarrow> bool" where
  "wants_retry res \<longleftrightarrow>
     res_status res \<noteq> IS_SUCCEEDED \<and>
     (case res_error res of
        None \<Rightarrow> False
      | Some err \<Rightarrow>
         (case map_of err ''recovery_action'' of None \<Rightarrow> False | Some v \<Rightarrow> py_eq v (PStr ''retry'')))"

partial_function (option) retry_loop ::
  "('c, 'i, 'e) runtime \<Rightarrow> string \<Rightarrow> string \<Rightarrow> pydict \<Rightarrow> string \<Rightarrow> invocation_result \<Rightarrow>
     ('c, 'i, 'e) world \<Rightarrow> ((py_exn + invocation_result) \<times> ('c, 'i, 'e) world) option" where
  "retry_loop rt cid ver input iid res w =
     (if wants_retry res then
        (case execute rt cid ver input (Some iid) None None w of
           (Inl e, w') \<Rightarrow> Some (Inl e, w')
         | (Inr r, w') \<Rightarrow> retry_loop rt cid ver input iid r w')
      else Some (Inr res, w))"

definition invoke_task ::
  "('c, 'i, 'e) runtime \<Rightarrow> task_node \<Rightarrow> ('c, 'i, 'e) world \<Rightarrow>
     ((py_exn + invocation_result) \<times> ('c, 'i, 'e) world) option" where
  "invoke_task rt t w =
     (let iid = ctx_execution_id (w_ctx w) @ '':'' @ tn_task_id t in
      case execute rt (tn_capability_id t) (tn_capability_version t) (tn_input_data t) (Some iid) None None w of
        (Inl e, w') \<Rightarrow> Some (Inl e, w')
      | (Inr r, w') \<Rightarrow>
          retry_loop rt (tn_capability_id t) (tn_capability_version t) (tn_input_data t) iid r w')"

text \<open>The \<open>except Exception\<close> clause around a task.\<close>

definition fail_task ::
  "('c, 'i, 'e) runtime \<Rightarrow> string \<Rightarrow> py_exn \<Rightarrow> (('c, 'i, 'e) orch, bool) em" where
  "fail_task rt tid e = (\<lambda>(p, w).
     let p' = update_task tid (\<lambda>t. t\<lparr>tn_status := TS_FAILED, tn_error := Some
                 [(''type'', PStr (exn_name (exn_class e))), (''message'', PStr (exn_str e))]\<rparr>) p
     in case save_plan rt (\<lambda>c. c) p' w of
          (Inl e', w') \<Rightarrow> (Inl e', (p', w'))
        | (Inr _, w') \<Rightarrow> (Inr True, (p', w')))"

text \<open>What follows the invocation inside the \<open>try\<close>; the value is \<open>batch_failed\<close>.\<close>

definition settle_task ::
  "('c, 'i, 'e) runtime \<Rightarrow> string \<Rightarrow> invocation_result \<Rightarrow> (('c, 'i, 'e) orch, bool) em" where
  "settle_task rt tid res = (\<lambda>(p, w).
     let failed = (res_status res \<noteq> IS_SUCCEEDED);
         p' = update_task tid (\<lambda>t. if failed then t\<lparr>tn_status := TS_FAILED, tn_error := res_error res\<rparr>
                                   else t\<lparr>tn_output := res_output res, tn_status := TS_SUCCEEDED\<rparr>) p
     in case save_plan rt (\<lambda>c. c) p' w of
          (Inl e, w') \<Rightarrow> fail_task rt tid e (p', w')
        | (Inr _, w') \<Rightarrow> (Inr failed, (p', w')))"

definition run_task ::
  "('c, 'i, 'e) runtime \<Rightarrow> string \<Rightarrow> ('c, 'i, 'e) orch \<Rightarrow> ((py_exn + bool) \<times> ('c, 'i, 'e) orch) option" where
  "run_task rt tid s =
     (case s of (p, w) \<Rightarrow>
       let p1 = update_task tid (\<lambda>t. t\<lparr>tn_status := TS_RUNNING\<rparr>) p in
       case save_plan rt (\<lambda>c. c\<lparr>ctx_current_node := Some tid\<rparr>) p1 w of
         (Inl e, w1) \<Rightarrow> Some (Inl e, (p1, w1))
       | (Inr _, w1) \<Rightarrow>
          (case map_of (pl_tasks p1) tid of
             None \<Rightarrow> Some (Inl (Exn KeyError tid), (p1, w1))
           | Some t \<Rightarrow>
              (case invoke_task rt t w1 of
                 None \<Rightarrow> None
               | Some (Inl e, w2) \<Rightarrow> Some (fail_task rt tid e (p1, w2))
               | Some (Inr res, w2) \<Rightarrow> Some (settle_task rt tid res (p1, w2)))))"

fun run_batch ::
  "('c, 'i, 'e) runtime \<Rightarrow> string list \<Rightarrow> bool \<Rightarrow> ('c, 'i, 'e) orch \<Rightarrow>
     ((py_exn + bool) \<times> ('c, 'i, 'e) orch) option" where
  "run_batch rt [] failed s = Some (Inr failed, s)"
| "run_batch rt (tid # tids) failed s =
     (case run_task rt tid s of
        None \<Rightarrow> None
      | Some (Inl e, s') \<Rightarrow> Some (Inl e, s')
      | Some (Inr f, s') \<Rightarrow> run_batch rt tids (failed \<or> f) s')"

definition blocked :: "execution_plan \<Rightarrow> py_exn" where
  "blocked p = Exn PlanExecutionError
     (if has_failed p then ''Plan contains failed tasks and cannot continue.''
      else ''No executable tasks remain. The plan may be blocked.'')"

partial_function (option) plan_loop ::
  "('c, 'i, 'e) runtime \<Rightarrow> ('c, 'i, 'e) orch \<Rightarrow> ((py_exn + unit) \<times> ('c, 'i, 'e) orch) option" where
  "plan_loop rt s =
     (case s of (p, w) \<Rightarrow>
       if is_complete p then
         (case complete rt None w of (r, w') \<Rightarrow> Some (r, (p, w')))
       else
         (case ready_tasks p of (ready, p') \<Rightarrow>
            if ready = [] then Some (Inl (blocked p'), (p', w))
            else Option.bind (run_batch rt ready False (p', w)) (\<lambda>(r, s').
              case r of
                Inl e \<Rightarrow> Some (Inl e, s')
              | Inr failed \<Rightarrow> if failed then Some (Inr (), s') else plan_loop rt s')))"

definition execute_plan ::
  "('c, 'i, 'e) runtime \<Rightarrow> ('c, 'i, 'e) orch \<Rightarrow> ((py_exn + unit) \<times> ('c, 'i, 'e) orch) option" where
  "execute_plan rt s =
     (case s of (p, w) \<Rightarrow>
       (case plan_validate p of
          Inl e \<Rightarrow> Some (Inl e, (p, w))
        | Inr _ \<Rightarrow>
           (case save_plan rt (\<lambda>c. c) p w of
              (Inl e, w') \<Rightarrow> Some (Inl e, (p, w'))
            | (Inr _, w') \<Rightarrow> plan_loop rt (p, w'))))"

declare retry_loop.simps [code] plan_loop.simps [code]

section \<open>Resumption\<close>

definition normalize_interrupted :: "execution_plan \<Rightarrow> execution_plan" where
  "normalize_interrupted p =
     p\<lparr>pl_tasks := map (\<lambda>(k, t). (k, if tn_status t = TS_RUNNING then t\<lparr>tn_status := TS_PENDING\<rparr> else t))
                    (pl_tasks p)\<rparr>"

text \<open>
  \<open>resume\<close>: \<open>load\<close> is the checkpoint store's. The outer \<open>option\<close> is as for the store and for
  \<open>plan_of_dict\<close>: \<open>None\<close> is a payload the model does not represent. The inner value is the run.
\<close>

definition resume ::
  "('c, 'i, 'e) runtime \<Rightarrow> (uuid \<Rightarrow> 'c \<Rightarrow> (py_exn + execution_context) option) \<Rightarrow> uuid \<Rightarrow> uuid \<Rightarrow>
     ('c, 'i, 'e) world \<Rightarrow> (py_exn + ((py_exn + unit) \<times> ('c, 'i, 'e) orch) option) option" where
  "resume rt load fresh xid w =
     obind (load xid (w_cp w)) (\<lambda>c.
       case ctx_plan c of
         None \<Rightarrow> Some (Inl (Exn PlanExecutionError ''Checkpoint does not contain a resumable execution plan.''))
       | Some d \<Rightarrow>
           obind (plan_of_dict fresh d) (\<lambda>p.
             Some (Inr (execute_plan rt (normalize_interrupted p, w\<lparr>w_ctx := c\<rparr>)))))"

end
