(* ===== verification/Kernel_Runtime_Laws.thy ===== *)
theory Kernel_Runtime_Laws
  imports Kernel_Runtime
begin

text \<open>
  What \<^verbatim>\<open>ExecutionRuntime.execute\<close> guarantees: which stores each path touches, that no durable
  write happens without a current lease, that a recorded result is replayed, and that the recovery
  policy bounds the retries. The locale of \<open>Kernel_Runtime\<close> is interpreted here on the runtimes
  the program assembles: over the in-memory stores and over the SQLite stores.
\<close>

section \<open>The runtimes the program assembles\<close>

type_synonym memory_world = "(memory_checkpoints, memory_idempotency, memory_ledger) world"
type_synonym sqlite_world = "(sqlite_checkpoints, sqlite_idempotency, sqlite_ledger) world"

definition memory_runtime ::
  "capability_registry \<Rightarrow> policy_engine \<Rightarrow> recovery_policy \<Rightarrow> (nat \<Rightarrow> lease_table \<times> timestamp) option \<Rightarrow>
     environ \<Rightarrow> (memory_checkpoints, memory_idempotency, memory_ledger) runtime" where
  "memory_runtime reg pe rp fencing env =
     \<lparr>rt_registry = reg, rt_cp_save = memory_cp_save, rt_ev_append = memory_ev_append,
      rt_authorize = policy_authorize pe, rt_recovery = rp, rt_idem_get = memory_idem_get,
      rt_idem_put = memory_idem_put, rt_fencing = fencing, rt_env = env\<rparr>"

definition sqlite_runtime ::
  "codec \<Rightarrow> capability_registry \<Rightarrow> policy_engine \<Rightarrow> recovery_policy \<Rightarrow>
     (nat \<Rightarrow> lease_table \<times> timestamp) option \<Rightarrow> environ \<Rightarrow>
     (sqlite_checkpoints, sqlite_idempotency, sqlite_ledger) runtime" where
  "sqlite_runtime cd reg pe rp fencing env =
     \<lparr>rt_registry = reg, rt_cp_save = sqlite_cp_save cd, rt_ev_append = sqlite_ev_append,
      rt_authorize = policy_authorize pe, rt_recovery = rp, rt_idem_get = sqlite_idem_get,
      rt_idem_put = sqlite_idem_put, rt_fencing = fencing, rt_env = env\<rparr>"

lemma memory_runtime_sel [simp]:
  "rt_registry (memory_runtime reg pe rp fc env) = reg"
  "rt_cp_save (memory_runtime reg pe rp fc env) = memory_cp_save"
  "rt_ev_append (memory_runtime reg pe rp fc env) = memory_ev_append"
  "rt_authorize (memory_runtime reg pe rp fc env) = policy_authorize pe"
  "rt_recovery (memory_runtime reg pe rp fc env) = rp"
  "rt_idem_get (memory_runtime reg pe rp fc env) = memory_idem_get"
  "rt_idem_put (memory_runtime reg pe rp fc env) = memory_idem_put"
  "rt_fencing (memory_runtime reg pe rp fc env) = fc"
  "rt_env (memory_runtime reg pe rp fc env) = env"
  by (simp_all add: memory_runtime_def)

lemma sqlite_runtime_sel [simp]:
  "rt_registry (sqlite_runtime cd reg pe rp fc env) = reg"
  "rt_cp_save (sqlite_runtime cd reg pe rp fc env) = sqlite_cp_save cd"
  "rt_ev_append (sqlite_runtime cd reg pe rp fc env) = sqlite_ev_append"
  "rt_authorize (sqlite_runtime cd reg pe rp fc env) = policy_authorize pe"
  "rt_recovery (sqlite_runtime cd reg pe rp fc env) = rp"
  "rt_idem_get (sqlite_runtime cd reg pe rp fc env) = sqlite_idem_get"
  "rt_idem_put (sqlite_runtime cd reg pe rp fc env) = sqlite_idem_put"
  "rt_fencing (sqlite_runtime cd reg pe rp fc env) = fc"
  "rt_env (sqlite_runtime cd reg pe rp fc env) = env"
  by (simp_all add: sqlite_runtime_def)

section \<open>What each step leaves alone\<close>

lemma idem_frames:
  "confined (same w_idem) (status_m rt st)"
  "confined (same w_idem) (record_m rt etype data)"
  "confined (same w_idem) (ctx_m f)"
  "confined (same w_idem) token_m"
  "confined (same w_idem) (assert_fence rt lease)"
  "confined (same w_idem) (store_save rt)"
  "confined (same w_idem) (invoke_m cap req)"
  "confined (same w_idem) (recovery_m rt fc)"
  "confined (same w_idem) (logical_id rt iid)"
  by (auto simp: confined_def same_def status_m_def record_m_def ctx_m_def token_m_def assert_fence_def
      store_save_def invoke_m_def recovery_m_def logical_id_def em_simps
      split: sum.splits option.splits prod.splits list.splits)

lemma idem_frame_save: "confined (same w_idem) (save_checkpoint rt lease)"
  unfolding save_checkpoint_def by (intro frame.confined_rules idem_frames)

lemma idem_frame_recover: "confined (same w_idem) (recover_reported rt cid iid lease res)"
  unfolding recover_reported_def by (intro frame.confined_rules idem_frames idem_frame_save)

lemma idem_frame_cancel: "confined (same w_idem) (handle_cancellation rt cid e iid lease)"
  unfolding handle_cancellation_def by (intro frame.confined_rules idem_frames idem_frame_save)

lemma idem_frame_failure: "confined (same w_idem) (handle_failure rt cid iid e lease)"
  unfolding handle_failure_def by (intro frame.confined_rules idem_frames idem_frame_save)

lemma idem_frame_invoke: "confined (same w_idem) (guarded_invoke rt cid iid lease cap req)"
  unfolding guarded_invoke_def
  by (intro frame.confined_rules idem_frames idem_frame_cancel idem_frame_failure)

lemma idem_frame_authorize: "confined (same w_idem) (authorize_m rt cid req k)"
  unfolding authorize_m_def by (intro frame.confined_rules idem_frames)

lemma cp_frames:
  "confined (same w_cp) (status_m rt st)"
  "confined (same w_cp) (record_m rt etype data)"
  "confined (same w_cp) (assert_fence rt lease)"
  "confined (same w_cp) (logical_id rt iid)"
  by (auto simp: confined_def same_def status_m_def record_m_def assert_fence_def logical_id_def em_simps
      split: sum.splits option.splits prod.splits list.splits)

lemma idem_frame_observe: "confined (same w_idem) (observe_result rt cid k res)"
  unfolding observe_result_def by (intro frame.confined_rules idem_frames)

lemma idem_frame_seal: "confined (same w_idem) (seal_result rt cid iid lease res)"
  unfolding seal_result_def by (intro frame.confined_rules idem_frames idem_frame_save)

lemma idem_frame_start: "confined (same w_idem) (start_capability rt cid ver iid lease)"
  unfolding start_capability_def by (intro frame.confined_rules idem_frames idem_frame_save)

lemma idem_frame_token_result: "token_m w = (r, w') \<Longrightarrow> w' = w"
  by (simp add: token_m_def)

text \<open>What the failure handlers conclude with is never a success.\<close>

lemma handler_results:
  "handle_cancellation rt cid e iid lease w = (Inr res, w') \<Longrightarrow>
     res_status res = IS_CANCELLED \<and> res_invocation_id res = iid \<and>
     res_error res = Some (cancellation_error e)"
  "handle_failure rt cid iid e lease w = (Inr res, w') \<Longrightarrow>
     res_status res = IS_FAILED \<and> res_invocation_id res = iid"
  by (auto simp: handle_cancellation_def handle_failure_def new_result_def em_simps
      split: prod.splits sum.splits)

lemma guarded_invoke_handled:
  assumes "guarded_invoke rt cid iid lease cap req w = (Inr (Inl res), w')"
  shows "res_status res \<in> {IS_CANCELLED, IS_FAILED} \<and> res_invocation_id res = iid"
proof -
  obtain e w1 where "(if exn_class e = ExecutionCancellation then handle_cancellation rt cid e iid lease
                      else handle_failure rt cid iid e lease) w1 = (Inr res, w')"
    using assms unfolding guarded_invoke_def etry_apply
    by (auto simp: em_simps split: prod.splits sum.splits if_splits)
  then show ?thesis by (auto dest: handler_results split: if_splits)
qed

text \<open>A run that returns has passed through the cache write with the result it returns.\<close>

lemma conclude_caches:
  assumes "conclude rt cid iid key lease k res0 w = (Inr res, w')"
  obtains w1 w2 u where "w_idem w1 = w_idem w"
    and "cache_terminal_result rt key res lease w1 = (Inr u, w2)" and "w_idem w' = w_idem w2"
proof -
  obtain r wa where a: "recover_reported rt cid iid lease res0 w = (Inr r, wa)"
    and b: "(eseq (observe_result rt cid k r) (eseq (cache_terminal_result rt key r lease)
              (eseq (seal_result rt cid iid lease r) (eret r)))) wa = (Inr res, w')"
    using assms unfolding conclude_def
    by (elim ebind_InrE) (auto simp: em_simps split: if_splits)
  from b obtain u1 w1 u2 w2 u3 where o: "observe_result rt cid k r wa = (Inr u1, w1)"
    and c: "cache_terminal_result rt key r lease w1 = (Inr u2, w2)"
    and s: "seal_result rt cid iid lease r w2 = (Inr u3, w')" and r: "r = res"
    by (elim eseq_InrE) (auto simp: em_simps)
  show thesis
    using that confinedD' [OF idem_frame_recover a] confinedD' [OF idem_frame_observe o] c r
      confinedD' [OF idem_frame_seal s]
    by (auto simp: same_def)
qed

section \<open>Admission\<close>

text \<open>
  Every guard between the call and the cache lookup, in one place: the status is not terminal, the
  fence is open, the capability is registered with a contract, nobody cancelled, the input conforms
  and the policy does not refuse. \<open>admission\<close> gives the capability and contract that were admitted.
\<close>

definition fence_open :: "('c, 'i, 'e) runtime \<Rightarrow> worker_lease option \<Rightarrow> nat \<Rightarrow> bool" where
  "fence_open rt lease n \<longleftrightarrow>
     (case rt_fencing rt of
        None \<Rightarrow> True
      | Some seen \<Rightarrow>
         (case lease of None \<Rightarrow> False | Some l \<Rightarrow> (case seen n of (t, now) \<Rightarrow> lease_current now l t)))"

definition fence_tick :: "('c, 'i, 'e) runtime \<Rightarrow> nat \<Rightarrow> nat" where
  "fence_tick rt n = (case rt_fencing rt of None \<Rightarrow> n | Some _ \<Rightarrow> Suc n)"

definition admitted_world :: "('c, 'i, 'e) runtime \<Rightarrow> ('c, 'i, 'e) world \<Rightarrow> ('c, 'i, 'e) world" where
  "admitted_world rt w =
     (let n = fence_tick rt (w_tick w) in
      w\<lparr>w_ctx := (w_ctx w)\<lparr>ctx_status := ES_PLAN_VALIDATED, ctx_updated_at := clock (rt_env rt) (Suc n)\<rparr>,
        w_tick := Suc (Suc n)\<rparr>)"

definition admission ::
  "('c, 'i, 'e) runtime \<Rightarrow> string \<Rightarrow> string \<Rightarrow> pydict \<Rightarrow> string \<Rightarrow> worker_lease option \<Rightarrow>
     ('c, 'i, 'e) world \<Rightarrow> (capability \<times> capability_contract) option" where
  "admission rt cid ver input iid lease w =
     (if terminal_status (ctx_status (w_ctx w)) \<or> \<not> fence_open rt lease (w_tick w) then None
      else case capability_get cid ver (rt_registry rt) of
        Inl _ \<Rightarrow> None
      | Inr entry \<Rightarrow>
         (case ce_contract entry of
            None \<Rightarrow> None
          | Some k \<Rightarrow>
             (let req = mk_request iid cid input k (admitted_world rt w) in
              if isl (raise_if_cancelled (w_token w)) \<or> isl (validate_input req k) \<or>
                 isl (rt_authorize rt req k)
              then None else Some (ce_capability entry, k))))"

lemma assert_fence_open:
  "fence_open rt lease (w_tick w) \<Longrightarrow>
     assert_fence rt lease w = (Inr (), w\<lparr>w_tick := fence_tick rt (w_tick w)\<rparr>)"
  by (auto simp: fence_open_def fence_tick_def assert_fence_def em_simps lease_assert_current_def
      split: option.splits prod.splits)

lemma assert_fence_closed:
  "\<not> fence_open rt lease (w_tick w) \<Longrightarrow>
     \<exists>e n. assert_fence rt lease w = (Inl e, w\<lparr>w_tick := n\<rparr>) \<and> exn_class e \<in> {FencingError, ExecutionError}"
  by (auto simp: fence_open_def assert_fence_def em_simps lease_assert_current_def
      split: option.splits prod.splits intro: exI [of _ "w_tick w"])

lemma logical_id_given: "iid \<noteq> [] \<Longrightarrow> logical_id rt (Some iid) = eret iid"
  by (auto simp: logical_id_def split: list.splits)

lemma status_m_live:
  "\<not> terminal_status (ctx_status (w_ctx w)) \<Longrightarrow>
     status_m rt st w =
       (Inr (), w\<lparr>w_ctx := (w_ctx w)\<lparr>ctx_status := st, ctx_updated_at := clock (rt_env rt) (w_tick w)\<rparr>,
                  w_tick := Suc (w_tick w)\<rparr>)"
  by (simp add: status_m_def set_status_live)

text \<open>A live execution that passes the fence and names a registered capability gets to \<open>govern\<close>.\<close>

lemma execute_governs:
  assumes "\<not> terminal_status (ctx_status (w_ctx w))" and "iid \<noteq> []" and "fence_open rt lease (w_tick w)"
    and "capability_get cid ver (rt_registry rt) = Inr entry"
  shows "execute rt cid ver input (Some iid) idk lease w =
           govern rt cid ver input iid (storage_key idk iid) lease entry (admitted_world rt w)"
proof -
  have "ctx_status (w_ctx w) \<notin> {ES_COMPLETED, ES_STOPPED}"
    using assms(1) by (auto simp: terminal_status_def)
  then show ?thesis
    using assms
    by (simp add: execute_def eget_apply ebind_apply logical_id_given eseq_apply assert_fence_open
        status_m_live elift_apply admitted_world_def Let_def terminal_status_def)
qed

lemma authorize_passes: "rt_authorize rt req k = Inr b \<Longrightarrow> authorize_m rt cid req k w = (Inr (), w)"
  by (simp add: authorize_m_def em_simps)

lemma not_isl_unit: "\<not> isl (r :: 'a + unit) \<longleftrightarrow> r = Inr ()"
  by (cases r) auto

lemma execute_admitted:
  assumes "admission rt cid ver input iid lease w = Some (cap, k)" and "iid \<noteq> []"
  shows "execute rt cid ver input (Some iid) idk lease w =
           replay_or_perform rt cid ver iid (storage_key idk iid) lease cap k
             (mk_request iid cid input k (admitted_world rt w)) (admitted_world rt w)"
proof -
  let ?req = "mk_request iid cid input k (admitted_world rt w)"
  from assms(1) obtain entry where live: "\<not> terminal_status (ctx_status (w_ctx w))"
    and fence: "fence_open rt lease (w_tick w)"
    and get: "capability_get cid ver (rt_registry rt) = Inr entry"
    and k: "ce_contract entry = Some k" and cap: "cap = ce_capability entry"
    and tok: "raise_if_cancelled (w_token w) = Inr ()"
    and inp: "validate_input ?req k = Inr ()" and auth: "\<not> isl (rt_authorize rt ?req k)"
    by (auto simp: admission_def Let_def not_isl_unit split: if_splits sum.splits option.splits)
  obtain b where "rt_authorize rt ?req k = Inr b" using auth by (cases "rt_authorize rt ?req k") auto
  moreover have "w_token (admitted_world rt w) = w_token w" by (simp add: admitted_world_def Let_def)
  ultimately show ?thesis
    using tok inp k cap
    by (simp add: execute_governs [OF live assms(2) fence get] govern_def em_simps authorize_passes)
qed

text \<open>The two ways on from the lookup.\<close>

lemma execute_hit:
  assumes "admission rt cid ver input iid lease w = Some (cap, k)" and "iid \<noteq> []"
    and "rt_idem_get rt (storage_key idk iid) (w_idem w) = Inr (Some r)"
  shows "execute rt cid ver input (Some iid) idk lease w =
           (Inr r, snd (record_m rt ''execution.idempotency_hit''
              [(''capability_id'', PStr cid), (''version'', PStr ver), (''invocation_id'', PStr iid)]
              (admitted_world rt w)))"
proof -
  have "w_idem (admitted_world rt w) = w_idem w" by (simp add: admitted_world_def Let_def)
  with assms(3) show ?thesis
    by (simp add: execute_admitted [OF assms(1,2)] replay_or_perform_def em_simps record_m_def)
qed

lemma execute_miss:
  assumes "admission rt cid ver input iid lease w = Some (cap, k)" and "iid \<noteq> []"
    and "rt_idem_get rt (storage_key idk iid) (w_idem w) = Inr None"
  shows "execute rt cid ver input (Some iid) idk lease w =
           perform rt cid ver iid (storage_key idk iid) lease cap k
             (mk_request iid cid input k (admitted_world rt w)) (admitted_world rt w)"
proof -
  have "w_idem (admitted_world rt w) = w_idem w" by (simp add: admitted_world_def Let_def)
  with assms(3) show ?thesis
    by (simp add: execute_admitted [OF assms(1,2)] replay_or_perform_def em_simps)
qed

text \<open>Without admission \<open>execute\<close> raises, or returns the cancelled result.\<close>

lemma govern_refused:
  assumes "admission rt cid ver input iid lease w = None"
    and "\<not> terminal_status (ctx_status (w_ctx w))" and "fence_open rt lease (w_tick w)"
    and "capability_get cid ver (rt_registry rt) = Inr entry"
    and "govern rt cid ver input iid key lease entry (admitted_world rt w) = (r, w')"
  shows "(\<exists>e. raise_if_cancelled (w_token w) = Inl e \<and>
              handle_cancellation rt cid e iid lease (admitted_world rt w) = (r, w')) \<or>
         (\<exists>e. r = Inl e) \<and> raise_if_cancelled (w_token w) = Inr () \<and>
           (w' = admitted_world rt w \<or>
            (\<exists>k. w' = snd (authorize_m rt cid (mk_request iid cid input k (admitted_world rt w)) k
                            (admitted_world rt w))))"
proof -
  have tok: "w_token (admitted_world rt w) = w_token w" by (simp add: admitted_world_def Let_def)
  show ?thesis
  proof (cases "raise_if_cancelled (w_token w)")
    case (Inl e)
    with assms(5) tok show ?thesis by (simp add: govern_def em_simps)
  next
    case (Inr u)
    show ?thesis
    proof (cases "ce_contract entry")
      case None
      with assms(5) Inr tok show ?thesis by (auto simp: govern_def em_simps)
    next
      case (Some k)
      let ?req = "mk_request iid cid input k (admitted_world rt w)"
      have no: "isl (validate_input ?req k) \<or> isl (rt_authorize rt ?req k)"
        using assms(1-4) Inr Some by (simp add: admission_def Let_def split: if_splits)
      show ?thesis
      proof (cases "validate_input ?req k")
        case (Inl e)
        with assms(5) Inr Some tok show ?thesis by (auto simp: govern_def em_simps)
      next
        case v: (Inr u')
        with no obtain e where e: "rt_authorize rt ?req k = Inl e"
          by (cases "rt_authorize rt ?req k") auto
        then have "\<exists>e'. fst (authorize_m rt cid ?req k (admitted_world rt w)) = Inl e'"
          by (auto simp: authorize_m_def em_simps record_m_def)
        with assms(5) Inr Some tok v
        have "(\<exists>e. r = Inl e) \<and> w' = snd (authorize_m rt cid ?req k (admitted_world rt w))"
          by (auto simp: govern_def em_simps split: prod.splits sum.splits)
        with Inr show ?thesis by auto
      qed
    qed
  qed
qed

lemma status_m_terminal:
  "terminal_status (ctx_status (w_ctx w)) \<Longrightarrow> \<exists>m. status_m rt st w = (Inl (Exn ValueError m), w)"
  using set_status_terminal [of "w_ctx w" "clock (rt_env rt) (w_tick w)" st] by (auto simp: status_m_def)

lemma execute_terminal:
  assumes "terminal_status (ctx_status (w_ctx w))" and "iid \<noteq> []"
  shows "\<exists>e n. execute rt cid ver input (Some iid) idk lease w = (Inl e, w\<lparr>w_tick := n\<rparr>)"
proof (cases "ctx_status (w_ctx w) \<in> {ES_COMPLETED, ES_STOPPED}")
  case True
  then show ?thesis by (auto simp: execute_def em_simps intro: exI [of _ "w_tick w"])
next
  case False
  obtain u n where "assert_fence rt lease w = (u, w\<lparr>w_tick := n\<rparr>)"
    using assert_fence_open [of rt lease w] assert_fence_closed [of rt lease w] by blast
  moreover obtain m where "status_m rt ES_NORMALIZED (w\<lparr>w_tick := n\<rparr>) = (Inl (Exn ValueError m), w\<lparr>w_tick := n\<rparr>)"
    using status_m_terminal [of "w\<lparr>w_tick := n\<rparr>" rt ES_NORMALIZED] assms(1) by auto
  ultimately show ?thesis
    using False assms(2) by (cases u) (auto simp: execute_def em_simps logical_id_given)
qed

lemma execute_fenced_off:
  assumes "\<not> terminal_status (ctx_status (w_ctx w))" and "iid \<noteq> []"
    and "\<not> fence_open rt lease (w_tick w)"
  shows "\<exists>e n. execute rt cid ver input (Some iid) idk lease w = (Inl e, w\<lparr>w_tick := n\<rparr>) \<and>
               exn_class e \<in> {FencingError, ExecutionError}"
  using assert_fence_closed [OF assms(3)] assms(1,2)
  by (auto simp: execute_def em_simps logical_id_given terminal_status_def)

lemma execute_unadmitted:
  assumes "admission rt cid ver input iid lease w = None" and "iid \<noteq> []"
    and "execute rt cid ver input (Some iid) idk lease w = (Inr res, w')"
  shows "res_status res = IS_CANCELLED \<and> res_invocation_id res = iid \<and>
     (\<exists>e. res_error res = Some (cancellation_error e))"
proof -
  have live: "\<not> terminal_status (ctx_status (w_ctx w))"
    using execute_terminal [OF _ assms(2)] assms(3) by (metis Inl_Inr_False fst_conv)
  have fence: "fence_open rt lease (w_tick w)"
    using execute_fenced_off [OF live assms(2)] assms(3) by (metis Inl_Inr_False fst_conv)
  obtain entry where get: "capability_get cid ver (rt_registry rt) = Inr entry"
    using assms(3)
    by (cases "capability_get cid ver (rt_registry rt)")
      (auto simp: execute_def em_simps logical_id_given assms(2) assert_fence_open [OF fence]
        status_m_live live split: if_splits)
  have "govern rt cid ver input iid (storage_key idk iid) lease entry (admitted_world rt w)
          = (Inr res, w')"
    using assms(3) by (simp add: execute_governs [OF live assms(2) fence get])
  from govern_refused [OF assms(1) live fence get this] show ?thesis
    by (auto dest: handler_results)
qed

section \<open>Complete mediation\<close>

text \<open>
  \<open>silent\<close> relates two worlds when the ledger grew, if at all, by events that do not announce the
  start of a capability.
\<close>

definition starts_capability :: "evidence_event \<Rightarrow> bool" where
  "starts_capability e \<longleftrightarrow> ev_event_type e = ''capability.started''"

definition silent ::
  "(uuid option \<Rightarrow> 'e \<Rightarrow> evidence_event list) \<Rightarrow> ('c, 'i, 'e) world \<Rightarrow> ('c, 'i, 'e) world \<Rightarrow> bool" where
  "silent events s t \<longleftrightarrow>
     (\<exists>es. events None (w_ev t) = events None (w_ev s) @ es \<and> list_all (\<lambda>e. \<not> starts_capability e) es)"

interpretation silent: step_order "silent events" for events
  by unfold_locales (force simp: silent_def)+

lemma silent_frames:
  "confined (silent events) (status_m rt st)"
  "confined (silent events) (ctx_m f)"
  "confined (silent events) (assert_fence rt lease)"
  "confined (silent events) (store_save rt)"
  "confined (silent events) (logical_id rt iid)"
  by (auto simp: confined_def silent_def status_m_def ctx_m_def assert_fence_def
      store_save_def logical_id_def em_simps
      split: sum.splits option.splits prod.splits list.splits)

context kernel_runtime
begin

lemma silent_record:
  assumes "etype \<noteq> ''capability.started''"
  shows "confined (silent ev_events) (record_m rt etype data)"
proof -
  have "\<exists>es. ev_events None (rt_ev_append rt e l) = ev_events None l @ es \<and>
          list_all (\<lambda>e. \<not> starts_capability e) es"
    if "ev_event_type e = etype" for e l
  proof (cases "ev_accepts l e")
    case True
    then show ?thesis
      using that assms by (auto simp: ev.append_accepted starts_capability_def ev.readback_type)
  qed (simp add: ev.append_refused)
  then show ?thesis
    by (simp add: confined_def silent_def record_m_def em_simps make_event_def)
qed

lemma silent_cancellation: "confined (silent ev_events) (handle_cancellation rt cid e iid lease)"
  unfolding handle_cancellation_def save_checkpoint_def
  by (intro silent.confined_rules silent_frames silent_record) simp_all

lemma silent_authorize: "confined (silent ev_events) (authorize_m rt cid req k)"
  unfolding authorize_m_def
  by (intro silent.confined_rules silent_frames silent_record) simp_all

lemma silent_admitted: "silent ev_events w (admitted_world rt w)"
  by (simp add: silent_def admitted_world_def Let_def)

text \<open>No capability starts unless every guard of \<open>admission\<close> let the call through.\<close>

lemma execute_mediated:
  assumes "admission rt cid ver input iid lease w = None" and "iid \<noteq> []"
  shows "silent ev_events w (snd (execute rt cid ver input (Some iid) idk lease w))"
proof -
  consider (terminal) "terminal_status (ctx_status (w_ctx w))"
    | (fence) "\<not> terminal_status (ctx_status (w_ctx w))" "\<not> fence_open rt lease (w_tick w)"
    | (unknown) e where "\<not> terminal_status (ctx_status (w_ctx w))" "fence_open rt lease (w_tick w)"
        "capability_get cid ver (rt_registry rt) = Inl e"
    | (govern) entry where "\<not> terminal_status (ctx_status (w_ctx w))" "fence_open rt lease (w_tick w)"
        "capability_get cid ver (rt_registry rt) = Inr entry"
    by (metis obj_sumE)
  then show ?thesis
  proof cases
    case terminal
    then show ?thesis
      using execute_terminal [OF terminal assms(2), of rt cid ver input idk lease] by (auto simp: silent_def)
  next
    case fence
    then show ?thesis
      using execute_fenced_off [OF fence(1) assms(2) fence(2), of cid ver input idk] by (auto simp: silent_def)
  next
    case unknown
    then show ?thesis
      using assms(2)
      by (auto simp: execute_def em_simps logical_id_given silent_def assert_fence_open status_m_live)
  next
    case govern
    obtain r w' where g: "govern rt cid ver input iid (storage_key idk iid) lease entry
        (admitted_world rt w) = (r, w')" by fastforce
    have "silent ev_events (admitted_world rt w) w'"
      using govern_refused [OF assms(1) govern g] silent.step_refl
        confinedD' [OF silent_cancellation] confinedD [OF silent_authorize] by metis
    then show ?thesis
      using silent.step_trans [OF silent_admitted] g
      by (simp add: execute_governs [OF govern(1) assms(2) govern(2,3)])
  qed
qed

end

section \<open>Runs\<close>

text \<open>
  Any sequence of calls on one runtime: \<open>execute\<close> and \<open>complete\<close> with any arguments, and a change
  of the context and token in hand, which is another execution using the same stores.
\<close>

inductive kernel_run ::
  "('c, 'i, 'e) runtime \<Rightarrow> ('c, 'i, 'e) world \<Rightarrow> ('c, 'i, 'e) world \<Rightarrow> bool" for rt w where
  run_start: "kernel_run rt w w"
| run_execute: "kernel_run rt w w' \<Longrightarrow> kernel_run rt w (snd (execute rt cid ver input iid idk lease w'))"
| run_complete: "kernel_run rt w w' \<Longrightarrow> kernel_run rt w (snd (complete rt lease w'))"
| run_switch: "kernel_run rt w w' \<Longrightarrow> kernel_run rt w (w'\<lparr>w_ctx := c, w_token := tok\<rparr>)"

context kernel_runtime
begin

lemma kernel_run_keeps:
  assumes "kernel_run rt w w'"
  shows "prefix (ev_events None (w_ev w)) (ev_events None (w_ev w'))"
    and "idem_invar (w_idem w) \<Longrightarrow> idem_invar (w_idem w')"
    and "idem_invar (w_idem w) \<Longrightarrow> rt_idem_get rt k (w_idem w) = Inr (Some r) \<Longrightarrow>
           rt_idem_get rt k (w_idem w') = Inr (Some r)"
  using assms
proof (induction rule: kernel_run.induct)
  case (run_execute w' cid ver input iid idk lease)
  note step = confinedD [OF confined_execute [of cid ver input iid idk lease], of w',
      unfolded kernel_step_def]
  { case 1 then show ?case using run_execute step prefix_order.trans by blast }
  { case 2 then show ?case using run_execute step by blast }
  { case 3 then show ?case using run_execute step by blast }
next
  case (run_complete w' lease)
  note step = confinedD [OF confined_complete [of lease], of w', unfolded kernel_step_def]
  { case 1 then show ?case using run_complete step prefix_order.trans by blast }
  { case 2 then show ?case using run_complete step by blast }
  { case 3 then show ?case using run_complete step by blast }
qed simp_all

end

section \<open>Recorded results\<close>

text \<open>Stores that record every terminal result, as both implementations do.\<close>

locale recording_runtime = kernel_runtime +
  assumes stored_terminal: "terminal_result r \<Longrightarrow> idem_stored r"
begin

lemma cache_records:
  assumes "cache_terminal_result rt key res lease w = (Inr u, w')"
    and "terminal_result res" and "idem_invar (w_idem w)" and "rt_idem_get rt key (w_idem w) = Inr None"
  shows "rt_idem_get rt key (w_idem w') = Inr (Some (idem_readback res))"
proof -
  have res: "res_status res \<in> {IS_SUCCEEDED, IS_CANCELLED}" using assms(2) by (simp add: terminal_result_def)
  from assms(1) obtain x w1 where f: "assert_fence rt lease w = (Inr x, w1)"
    and p: "emod (\<lambda>w. w\<lparr>w_idem := rt_idem_put rt key res (w_idem w)\<rparr>) w1 = (Inr u, w')"
    using res by (auto simp: cache_terminal_result_def ewhen_def elim: eseq_InrE)
  have "w_idem w1 = w_idem w"
    using f by (auto simp: assert_fence_def em_simps split: option.splits prod.splits)
  with p show ?thesis
    using idem.get_put_new [OF assms(3) stored_terminal [OF assms(2)] assms(4)]
    by (auto simp: em_simps)
qed

text \<open>
  Once \<open>execute\<close> has returned a terminal result for a key that had none, the key holds it; and a
  \<open>perform\<close> that ends in a handler returns a result that is not recorded.
\<close>

lemma conclude_records:
  assumes "conclude rt cid iid key lease k res0 w = (Inr res, w')"
    and "terminal_result res" and "idem_invar (w_idem w)" and "rt_idem_get rt key (w_idem w) = Inr None"
  shows "rt_idem_get rt key (w_idem w') = Inr (Some (idem_readback res))"
  using assms(1) by (rule conclude_caches) (use assms(2-) cache_records in metis)

lemma perform_records:
  assumes "perform rt cid ver iid key lease cap k req w = (Inr res, w')"
    and "res_status res = IS_SUCCEEDED"
    and "idem_invar (w_idem w)" and "rt_idem_get rt key (w_idem w) = Inr None"
  shows "rt_idem_get rt key (w_idem w') = Inr (Some (idem_readback res))"
proof -
  from assms(1) obtain u w1 c out w2 where s: "start_capability rt cid ver iid lease w = (Inr u, w1)"
    and g: "guarded_invoke rt cid iid lease cap (req\<lparr>ir_execution := c\<rparr>) w1 = (Inr out, w2)"
    and o: "(case out of Inl res \<Rightarrow> eret res | Inr res \<Rightarrow> conclude rt cid iid key lease k res) w2
              = (Inr res, w')"
    unfolding perform_def by (elim eseq_InrE ebind_InrE) (auto simp: em_simps)
  have idem: "w_idem w2 = w_idem w"
    using confinedD' [OF idem_frame_start s] confinedD' [OF idem_frame_invoke g] by (simp add: same_def)
  show ?thesis
  proof (cases out)
    case (Inl r)
    with o have "r = res" by (simp add: em_simps)
    with guarded_invoke_handled [OF g [unfolded Inl]] assms(2) show ?thesis by auto
  next
    case (Inr r)
    with o have "conclude rt cid iid key lease k r w2 = (Inr res, w')" by simp
    then show ?thesis
      by (rule conclude_records) (simp_all add: idem assms(2-) terminal_result_def)
  qed
qed

lemma execute_records:
  assumes run: "execute rt cid ver input (Some iid) idk lease w = (Inr res, w')" and iid: "iid \<noteq> []"
    and ok: "res_status res = IS_SUCCEEDED" and inv: "idem_invar (w_idem w)"
  shows "\<exists>r. rt_idem_get rt (storage_key idk iid) (w_idem w') = Inr (Some r) \<and>
             (r = res \<or> r = idem_readback res)"
proof (cases "admission rt cid ver input iid lease w")
  case None
  with execute_unadmitted [OF None iid run] ok show ?thesis by simp
next
  case (Some ck)
  obtain cap k where ck: "ck = (cap, k)" by fastforce
  note adm = Some [unfolded ck]
  obtain c where c: "rt_idem_get rt (storage_key idk iid) (w_idem w) = Inr c"
    using idem.get_total [OF inv] by blast
  have idem: "w_idem (admitted_world rt w) = w_idem w" by (simp add: admitted_world_def Let_def)
  show ?thesis
  proof (cases c)
    case None
    then have "perform rt cid ver iid (storage_key idk iid) lease cap k
        (mk_request iid cid input k (admitted_world rt w)) (admitted_world rt w) = (Inr res, w')"
      using run c execute_miss [OF adm iid] by simp
    from perform_records [OF this ok] show ?thesis using c None inv idem by auto
  next
    case (Some r)
    with execute_hit [OF adm iid] run c have "r = res" "w_idem w' = w_idem w"
      by (auto simp: record_m_def em_simps idem)
    with c Some show ?thesis by auto
  qed
qed

text \<open>A success is replayed, whatever ran in between.\<close>

lemma success_is_replayed:
  assumes run: "execute rt cid ver input (Some iid) idk lease w = (Inr res, w1)" and "iid \<noteq> []"
    and "res_status res = IS_SUCCEEDED" and inv: "idem_invar (w_idem w)"
    and later: "kernel_run rt w1 w2"
    and adm: "admission rt cid' ver' input' iid' lease' w2 = Some (cap, k)" and "iid' \<noteq> []"
    and key: "storage_key idk' iid' = storage_key idk iid"
  shows "\<exists>r w3. execute rt cid' ver' input' (Some iid') idk' lease' w2 = (Inr r, w3) \<and>
     (r = res \<or> r = idem_readback res) \<and> w_idem w3 = w_idem w2 \<and> w_cp w3 = w_cp w2 \<and>
     silent ev_events w2 w3"
proof -
  obtain r where r: "rt_idem_get rt (storage_key idk iid) (w_idem w1) = Inr (Some r)"
    and res: "r = res \<or> r = idem_readback res"
    using execute_records [OF assms(1-4)] by blast
  have "idem_invar (w_idem w1)"
    using confinedD' [OF confined_execute run] inv by (simp add: kernel_step_def)
  from kernel_run_keeps(3) [OF later this r]
  have "rt_idem_get rt (storage_key idk' iid') (w_idem w2) = Inr (Some r)" by (simp add: key)
  note hit = execute_hit [OF adm \<open>iid' \<noteq> []\<close> this]
  let ?m = "record_m rt ''execution.idempotency_hit''
    [(''capability_id'', PStr cid'), (''version'', PStr ver'), (''invocation_id'', PStr iid')]"
  let ?w3 = "snd (?m (admitted_world rt w2))"
  have "silent ev_events w2 ?w3"
    by (rule silent.step_trans [OF silent_admitted]) (rule confinedD [OF silent_record], simp)
  moreover have "w_idem ?w3 = w_idem w2 \<and> w_cp ?w3 = w_cp w2"
    by (simp add: record_m_def em_simps admitted_world_def Let_def)
  ultimately show ?thesis using hit res by auto
qed

end

interpretation memory_rt: recording_runtime "memory_runtime reg pe rp fc env"
  memory_cp_load memory_cp_delete "\<lambda>_. True" "\<lambda>c. c"
  "\<lambda>_. True" "\<lambda>_. True" "\<lambda>r. r" memory_ev_list "\<lambda>_ _. True" "\<lambda>e. e"
  for reg pe rp fc env
  using memory_cp.checkpoint_contract_axioms memory_idem.idempotency_contract_axioms
    memory_ev.evidence_contract_axioms
  by (simp add: recording_runtime_def kernel_runtime_def recording_runtime_axioms_def)

interpretation sqlite_rt: recording_runtime "sqlite_runtime cd reg pe rp fc env"
  "sqlite_cp_load cd" sqlite_cp_delete "\<lambda>c. codec_ok cd \<and> saveable c" canon_context
  sqlite_idem_wf terminal_result canon_result sqlite_ev_list
  "\<lambda>l e. map_of l (ev_event_id e) = None" "\<lambda>e. e\<lparr>ev_data := canon_dict (ev_data e)\<rparr>"
  for cd reg pe rp fc env
  using sqlite_cp.checkpoint_contract_axioms sqlite_idem.idempotency_contract_axioms
    sqlite_ev.evidence_contract_axioms
  by (simp add: recording_runtime_def kernel_runtime_def recording_runtime_axioms_def)


section \<open>Fenced writes\<close>

text \<open>
  The checkpoint store and the result store change only in a call that saw its lease current:
  \<open>fenced_write\<close> says that a change comes with a tick of the call at which the fence was open.
\<close>

definition fenced_write ::
  "('c, 'i, 'e) runtime \<Rightarrow> worker_lease option \<Rightarrow> ('c, 'i, 'e) world \<Rightarrow> ('c, 'i, 'e) world \<Rightarrow> bool" where
  "fenced_write rt lease s t \<longleftrightarrow>
     w_tick s \<le> w_tick t \<and>
     (w_cp t = w_cp s \<and> w_idem t = w_idem s \<or>
      (\<exists>n. w_tick s \<le> n \<and> n \<le> w_tick t \<and> fence_open rt lease n))"

interpretation fenced: step_order "fenced_write rt lease" for rt lease
  by unfold_locales (auto simp: fenced_write_def intro: order_trans)

lemma fenced_primitives:
  "confined (fenced_write rt lease) (status_m rt st)"
  "confined (fenced_write rt lease) (record_m rt etype data)"
  "confined (fenced_write rt lease) (ctx_m f)"
  "confined (fenced_write rt lease) token_m"
  "confined (fenced_write rt lease) (assert_fence rt lease')"
  "confined (fenced_write rt lease) (invoke_m cap req)"
  "confined (fenced_write rt lease) (recovery_m rt fc)"
  "confined (fenced_write rt lease) (logical_id rt iid)"
  by (auto simp: confined_def fenced_write_def status_m_def record_m_def ctx_m_def token_m_def assert_fence_def
      invoke_m_def recovery_m_def logical_id_def em_simps
      split: sum.splits option.splits prod.splits list.splits)

text \<open>A write behind the fence check.\<close>

lemma fenced_after_check:
  assumes "\<And>s. w_tick s \<le> w_tick (snd (m s))"
  shows "confined (fenced_write rt lease) (eseq (assert_fence rt lease) m)"
  unfolding confined_def
proof
  fix s
  show "fenced_write rt lease s (snd (eseq (assert_fence rt lease) m s))"
  proof (cases "fence_open rt lease (w_tick s)")
    case True
    have "w_tick s \<le> fence_tick rt (w_tick s)" by (simp add: fence_tick_def split: option.split)
    moreover have "fence_tick rt (w_tick s) \<le> w_tick (snd (m (s\<lparr>w_tick := fence_tick rt (w_tick s)\<rparr>)))"
      using assms [of "s\<lparr>w_tick := fence_tick rt (w_tick s)\<rparr>"] by simp
    ultimately show ?thesis
      using True by (auto simp: eseq_apply assert_fence_open fenced_write_def)
  next
    case False
    then show ?thesis
      using assert_fence_closed [OF False] confinedD [OF fenced_primitives(5), of rt lease s lease]
      by (auto simp: eseq_apply)
  qed
qed

lemma fenced_save: "confined (fenced_write rt lease) (save_checkpoint rt lease)"
  unfolding save_checkpoint_def
  by (rule fenced_after_check) (simp add: store_save_def split: prod.split)

lemma fenced_cache: "confined (fenced_write rt lease) (cache_terminal_result rt key res lease)"
  unfolding cache_terminal_result_def
  by (intro fenced.confined_ewhen fenced_after_check) (simp add: em_simps)

lemmas fenced_rules = fenced.confined_rules fenced_primitives fenced_save fenced_cache

lemma fenced_handlers:
  "confined (fenced_write rt lease) (handle_cancellation rt cid e iid lease)"
  "confined (fenced_write rt lease) (handle_failure rt cid iid e lease)"
  unfolding handle_cancellation_def handle_failure_def by (intro fenced_rules)+

lemma fenced_conclude: "confined (fenced_write rt lease) (conclude rt cid iid key lease k res)"
  unfolding conclude_def recover_reported_def observe_result_def seal_result_def
  by (intro fenced_rules)

lemma fenced_perform: "confined (fenced_write rt lease) (perform rt cid ver iid key lease cap k req)"
  unfolding perform_def start_capability_def guarded_invoke_def
  by (intro fenced_rules fenced_handlers fenced_conclude)

lemma fenced_execute: "confined (fenced_write rt lease) (execute rt cid ver input iid idk lease)"
  unfolding execute_def govern_def replay_or_perform_def authorize_m_def
  by (intro fenced_rules fenced_handlers fenced_perform)

lemma fenced_complete: "confined (fenced_write rt lease) (complete rt lease)"
  unfolding complete_def by (intro fenced_rules)

section \<open>The successful path\<close>

text \<open>
  The in-memory runtime without fencing, stage by stage: what each stage leaves in the context, the
  stores and the ledger. \<open>ev_types\<close> reads the ledger as the sequence of its event types.
\<close>

definition ev_types :: "memory_world \<Rightarrow> string list" where
  "ev_types w = map ev_event_type (w_ev w)"

lemma memory_record:
  "record_m (memory_runtime reg pe rp fc env) etype data w =
     (Inr (), w\<lparr>w_ev := w_ev w @ [make_event (ctx_execution_id (w_ctx w)) etype data
         (clock env (w_tick w)) (fresh_uuid env (Suc (w_tick w)))],
       w_tick := Suc (Suc (w_tick w))\<rparr>)"
  by (simp add: record_m_def em_simps memory_ev_append_def)

lemma memory_save:
  "save_checkpoint (memory_runtime reg pe rp None env) lease w =
     (Inr (), w\<lparr>w_ctx := touch (clock env (w_tick w)) (w_ctx w),
        w_cp := AList.update (ctx_execution_id (w_ctx w)) (touch (clock env (w_tick w)) (w_ctx w)) (w_cp w),
        w_tick := Suc (w_tick w)\<rparr>)"
  by (simp add: save_checkpoint_def assert_fence_def em_simps store_save_def memory_cp_save_def
      touch_def Let_def)

lemmas memory_steps = memory_record memory_save status_m_live ctx_m_def em_simps ev_types_def
  make_event_def touch_def terminal_status_def

lemma start_capability_memory:
  assumes "\<not> terminal_status (ctx_status (w_ctx w))"
  shows "\<exists>w' t. start_capability (memory_runtime reg pe rp None env) cid ver iid lease w = (Inr (), w') \<and>
     w_ctx w' = (w_ctx w)\<lparr>ctx_status := ES_EXECUTING, ctx_current_node := Some cid, ctx_updated_at := t\<rparr> \<and>
     w_idem w' = w_idem w \<and> w_token w' = w_token w \<and>
     ev_types w' = ev_types w @ [''execution.received'', ''execution.input_validated'',
       ''execution.authorized'', ''capability.started'']"
  using assms by (simp add: start_capability_def memory_steps) blast

lemma observe_result_memory:
  assumes "\<not> terminal_status (ctx_status (w_ctx w))" and "res_status res = IS_SUCCEEDED"
    and "validate_output res k = Inr ()"
  shows "\<exists>w'. observe_result (memory_runtime reg pe rp None env) cid k res w = (Inr (), w') \<and>
     ctx_status (w_ctx w') = ES_UPDATING_STATE \<and> ctx_identity (w_ctx w') = ctx_identity (w_ctx w) \<and>
     ctx_working_memory (w_ctx w') = AList.update (''result:'' @ res_invocation_id res)
       (res_output res) (ctx_working_memory (w_ctx w)) \<and>
     w_idem w' = w_idem w \<and> ev_types w' = ev_types w @ [''capability.completed'']"
  using assms by (simp add: observe_result_def memory_steps ewhen_def)

lemma seal_result_memory:
  assumes "\<not> terminal_status (ctx_status (w_ctx w))"
  shows "\<exists>w' t. seal_result (memory_runtime reg pe rp None env) cid iid lease res w = (Inr (), w') \<and>
     w_ctx w' = (w_ctx w)\<lparr>ctx_status := ES_ROUTED, ctx_updated_at := t\<rparr> \<and> w_idem w' = w_idem w \<and>
     (\<exists>t. map_of (w_cp w') (ctx_execution_id (w_ctx w)) =
        Some ((w_ctx w)\<lparr>ctx_status := ES_CHECKPOINTING, ctx_updated_at := t\<rparr>)) \<and>
     ev_types w' = ev_types w @ [''execution.idempotency_recorded'', ''execution.checkpointed'']"
  using assms by (simp add: seal_result_def memory_steps) blast

lemma conclude_memory:
  assumes "\<not> terminal_status (ctx_status (w_ctx w))" and "res_status res = IS_SUCCEEDED"
    and "validate_output res k = Inr ()" and "res_invocation_id res = iid"
  shows "\<exists>w'. conclude (memory_runtime reg pe rp None env) cid iid key lease k res w = (Inr res, w') \<and>
     ctx_status (w_ctx w') = ES_ROUTED \<and>
     ctx_working_memory (w_ctx w') = AList.update (''result:'' @ iid)
       (res_output res) (ctx_working_memory (w_ctx w)) \<and>
     w_idem w' = memory_idem_put key res (w_idem w) \<and>
     (\<exists>t. map_of (w_cp w') (ctx_execution_id (w_ctx w)) =
        Some ((w_ctx w')\<lparr>ctx_status := ES_CHECKPOINTING, ctx_updated_at := t\<rparr>)) \<and>
     ev_types w' = ev_types w @ [''capability.completed'', ''execution.idempotency_recorded'',
       ''execution.checkpointed'']"
proof -
  let ?R = "memory_runtime reg pe rp None env"
  have rec: "recover_reported ?R cid iid lease res w = (Inr res, w)"
    using assms(2) by (simp add: recover_reported_def reported_failure_def em_simps)
  obtain w1 where o: "observe_result ?R cid k res w = (Inr (), w1)"
    and w1: "ctx_status (w_ctx w1) = ES_UPDATING_STATE" "ctx_identity (w_ctx w1) = ctx_identity (w_ctx w)"
      "ctx_working_memory (w_ctx w1) = AList.update (''result:'' @ iid)
        (res_output res) (ctx_working_memory (w_ctx w))"
      "w_idem w1 = w_idem w" "ev_types w1 = ev_types w @ [''capability.completed'']"
    using observe_result_memory [OF assms(1-3), of reg pe rp env cid] unfolding assms(4) by (elim exE conjE)
  let ?w2 = "w1\<lparr>w_idem := memory_idem_put key res (w_idem w1)\<rparr>"
  have c: "cache_terminal_result ?R key res lease w1 = (Inr (), ?w2)"
    using assms(2) by (simp add: cache_terminal_result_def ewhen_def em_simps assert_fence_def)
  have "\<not> terminal_status (ctx_status (w_ctx ?w2))" by (simp add: w1 terminal_status_def)
  from seal_result_memory [OF this, of reg pe rp env cid iid lease res]
  obtain w' t u where s: "seal_result ?R cid iid lease res ?w2 = (Inr (), w')"
    and w': "w_ctx w' = (w_ctx ?w2)\<lparr>ctx_status := ES_ROUTED, ctx_updated_at := t\<rparr>"
      "w_idem w' = w_idem ?w2"
      "map_of (w_cp w') (ctx_execution_id (w_ctx ?w2)) =
         Some ((w_ctx ?w2)\<lparr>ctx_status := ES_CHECKPOINTING, ctx_updated_at := u\<rparr>)"
      "ev_types w' = ev_types ?w2 @ [''execution.idempotency_recorded'', ''execution.checkpointed'']"
    by (elim exE conjE) (rule that)
  have "conclude ?R cid iid key lease k res w = (Inr res, w')"
    using assms(4) by (simp add: conclude_def ebind_apply rec eseq_apply o c s eret_apply)
  moreover have "ev_types ?w2 = ev_types w1" by (simp add: ev_types_def)
  moreover have "\<exists>t. map_of (w_cp w') (ctx_execution_id (w_ctx w)) =
      Some ((w_ctx w')\<lparr>ctx_status := ES_CHECKPOINTING, ctx_updated_at := t\<rparr>)"
    using w'(3) by (auto simp: w'(1) w1(2))
  ultimately show ?thesis using w'(2,4) w1(3-5) by (intro exI [of _ w']) (simp add: w'(1))
qed

section \<open>Refused and failing calls\<close>

text \<open>A policy denial: two evidence events, then the exception.\<close>

lemma authorize_denied_memory:
  assumes "policy_authorize pe req k = Inl x"
  shows "\<exists>w'. authorize_m (memory_runtime reg pe rp fc env) cid req k w = (Inl x, w') \<and>
     w_cp w' = w_cp w \<and> w_idem w' = w_idem w \<and> w_ctx w' = w_ctx w \<and>
     ev_types w' = ev_types w @ [''execution.input_validated'', ''execution.authorization_denied'']"
  using assms default_policy.authorize_denied [OF assms]
  by (simp add: authorize_m_def em_simps memory_record ev_types_def make_event_def)

text \<open>
  A result that reports a failure whose recovery action is terminal: the recovery policy has closed
  the context before the observation, and \<open>set_status(OBSERVING)\<close> raises.
\<close>

lemma conclude_terminal_failure:
  assumes live: "\<not> terminal_status (ctx_status (w_ctx w))"
    and fc: "reported_failure res = Some f" and iid: "res_invocation_id res = iid"
    and act: "rd_action (classify rp (FEnum f) (w_ctx w)) \<in> {''escalate'', ''stop''}"
  shows "\<exists>m w'. conclude (memory_runtime reg pe rp None env) cid iid key lease k res w = (Inl (Exn ValueError m), w') \<and>
     terminal_status (ctx_status (w_ctx w')) \<and> w_idem w' = w_idem w \<and>
     ev_types w' = ev_types w @ [''execution.recovery_decision'']"
proof -
  let ?R = "memory_runtime reg pe rp None env"
  let ?d = "classify rp (FEnum f) (w_ctx w)"
  let ?n = "clock env (w_tick w)"
  define c where "c = snd (recovery_apply rp ?n f (w_ctx w))"
  have rec: "recovery_m ?R f w = (Inr ?d, w\<lparr>w_ctx := c, w_tick := Suc (w_tick w)\<rparr>)"
    using recovery_apply_live(1) [OF live, of rp ?n f]
    by (simp add: recovery_m_def c_def prod_eq_iff split: prod.split)
  have closed: "terminal_status (ctx_status c)"
    using recovery_apply_live(2) [OF live, of rp ?n f] act
    by (auto simp: c_def status_after.simps terminal_status_def)
  let ?res = "res\<lparr>res_error := map_option (AList.update ''recovery_action'' (PStr (rd_action ?d))) (res_error res)\<rparr>"
  obtain w1 where r: "recover_reported ?R cid iid lease res w = (Inr ?res, w1)"
    and w1: "ctx_status (w_ctx w1) = ctx_status c" "w_idem w1 = w_idem w"
      "ev_types w1 = ev_types w @ [''execution.recovery_decision'']"
    by (simp add: recover_reported_def fc ebind_apply rec eseq_apply memory_record memory_save eret_apply
        ev_types_def make_event_def touch_def)
  obtain m where "status_m ?R ES_OBSERVING w1 = (Inl (Exn ValueError m), w1)"
    using status_m_terminal [of w1 ?R ES_OBSERVING] closed w1(1) by auto
  then have "conclude ?R cid iid key lease k res w = (Inl (Exn ValueError m), w1)"
    by (simp add: conclude_def ebind_apply r iid eseq_apply observe_result_def)
  with w1 closed show ?thesis by auto
qed

text \<open>An admitted call up to its capability's result, on the in-memory runtime.\<close>

lemma execute_invokes_memory:
  assumes adm: "admission (memory_runtime reg pe rp None env) cid ver input iid lease w = Some (cap, k)"
    and iid: "iid \<noteq> []" and miss: "map_of (w_idem w) (storage_key idk iid) = None"
    and invoke: "\<And>req n. ir_invocation_id req = iid \<Longrightarrow> cap_invoke cap req n (w_token w) = (Inr res, w_token w)"
  obtains w2 t where "execute (memory_runtime reg pe rp None env) cid ver input (Some iid) idk lease w =
       conclude (memory_runtime reg pe rp None env) cid iid (storage_key idk iid) lease k res w2"
    and "w_ctx w2 = (w_ctx w)\<lparr>ctx_status := ES_EXECUTING, ctx_current_node := Some cid, ctx_updated_at := t\<rparr>"
    and "w_idem w2 = w_idem w" and "w_token w2 = w_token w"
    and "ev_types w2 = ev_types w @ [''execution.received'', ''execution.input_validated'',
         ''execution.authorized'', ''capability.started'']"
proof -
  let ?R = "memory_runtime reg pe rp None env"
  let ?key = "storage_key idk iid"
  define wa where "wa = admitted_world ?R w"
  have wa: "w_idem wa = w_idem w" "w_token wa = w_token w" "ev_types wa = ev_types w"
    "w_ctx wa = (w_ctx w)\<lparr>ctx_status := ES_PLAN_VALIDATED, ctx_updated_at := clock env (Suc (w_tick w))\<rparr>"
    by (simp_all add: wa_def admitted_world_def Let_def ev_types_def fence_tick_def)
  have live: "\<not> terminal_status (ctx_status (w_ctx wa))" by (simp add: wa terminal_status_def)
  have tok: "raise_if_cancelled (w_token w) = Inr ()"
    using adm by (auto simp: admission_def Let_def not_isl_unit split: if_splits sum.splits option.splits)
  obtain w1 t where s: "start_capability ?R cid ver iid lease wa = (Inr (), w1)"
    and w1: "w_ctx w1 = (w_ctx wa)\<lparr>ctx_status := ES_EXECUTING, ctx_current_node := Some cid, ctx_updated_at := t\<rparr>"
      "w_idem w1 = w_idem wa" "w_token w1 = w_token wa"
      "ev_types w1 = ev_types wa @ [''execution.received'', ''execution.input_validated'',
         ''execution.authorized'', ''capability.started'']"
    using start_capability_memory [OF live, of reg pe rp env cid ver iid lease] by (elim exE conjE)
  define req where "req = (mk_request iid cid input k wa)\<lparr>ir_execution := w_ctx w1\<rparr>"
  let ?w2 = "w1\<lparr>w_tick := Suc (w_tick w1)\<rparr>"
  have g: "guarded_invoke ?R cid iid lease cap req w1 = (Inr (Inr res), ?w2)"
    using invoke [of req "w_tick w1"] tok
    by (simp add: guarded_invoke_def em_simps token_m_def invoke_m_def w1(3) wa(2) req_def mk_request_def)
  have "execute ?R cid ver input (Some iid) idk lease w = conclude ?R cid iid ?key lease k res ?w2"
    using miss g
    by (simp add: execute_miss [OF adm iid] memory_idem_get_def wa_def [symmetric] perform_def eseq_apply
        s ebind_apply eget_apply req_def)
  moreover have "ev_types ?w2 = ev_types w1" by (simp add: ev_types_def)
  ultimately show thesis by (intro that [of ?w2 t]) (simp_all add: w1 wa)
qed

text \<open>The capability is asked once, in the state its guards left, and its result concludes the call.\<close>

lemma execute_memory_success:
  assumes adm: "admission (memory_runtime reg pe rp None env) cid ver input iid lease w = Some (cap, k)"
    and iid: "iid \<noteq> []" and miss: "map_of (w_idem w) (storage_key idk iid) = None"
    and invoke: "\<And>req n. ir_invocation_id req = iid \<Longrightarrow> cap_invoke cap req n (w_token w) = (Inr res, w_token w)"
    and res: "res_status res = IS_SUCCEEDED" "res_invocation_id res = iid" "validate_output res k = Inr ()"
  shows "\<exists>w'. execute (memory_runtime reg pe rp None env) cid ver input (Some iid) idk lease w = (Inr res, w') \<and>
     ctx_status (w_ctx w') = ES_ROUTED \<and>
     map_of (ctx_working_memory (w_ctx w')) (''result:'' @ iid) = Some (res_output res) \<and>
     map_of (w_idem w') (storage_key idk iid) = Some res \<and>
     (\<exists>t. map_of (w_cp w') (ctx_execution_id (w_ctx w)) =
        Some ((w_ctx w')\<lparr>ctx_status := ES_CHECKPOINTING, ctx_updated_at := t\<rparr>)) \<and>
     ev_types w' = ev_types w @ [''execution.received'', ''execution.input_validated'',
       ''execution.authorized'', ''capability.started'', ''capability.completed'',
       ''execution.idempotency_recorded'', ''execution.checkpointed'']"
proof -
  let ?R = "memory_runtime reg pe rp None env"
  obtain w2 t where run: "execute ?R cid ver input (Some iid) idk lease w =
       conclude ?R cid iid (storage_key idk iid) lease k res w2"
    and w2: "w_ctx w2 = (w_ctx w)\<lparr>ctx_status := ES_EXECUTING, ctx_current_node := Some cid, ctx_updated_at := t\<rparr>"
      "w_idem w2 = w_idem w"
      "ev_types w2 = ev_types w @ [''execution.received'', ''execution.input_validated'',
         ''execution.authorized'', ''capability.started'']"
    using adm iid miss invoke by (rule execute_invokes_memory)
  have live: "\<not> terminal_status (ctx_status (w_ctx w2))" by (simp add: w2(1) terminal_status_def)
  obtain w' u where c: "conclude ?R cid iid (storage_key idk iid) lease k res w2 = (Inr res, w')"
    and w': "ctx_status (w_ctx w') = ES_ROUTED"
      "ctx_working_memory (w_ctx w') = AList.update (''result:'' @ iid)
         (res_output res) (ctx_working_memory (w_ctx w2))"
      "w_idem w' = memory_idem_put (storage_key idk iid) res (w_idem w2)"
      "map_of (w_cp w') (ctx_execution_id (w_ctx w2)) =
         Some ((w_ctx w')\<lparr>ctx_status := ES_CHECKPOINTING, ctx_updated_at := u\<rparr>)"
      "ev_types w' = ev_types w2 @ [''capability.completed'', ''execution.idempotency_recorded'',
         ''execution.checkpointed'']"
    using conclude_memory [OF live res(1,3,2), of reg pe rp env cid "storage_key idk iid" lease]
    by (elim exE conjE)
  show ?thesis
    using w'(4) miss run c
    by (intro exI [of _ w'] conjI) (auto simp: w' w2 memory_idem_put_def)
qed

text \<open>The same call when the capability reports a failure that recovery cannot continue from.\<close>

lemma execute_memory_terminal_failure:
  assumes adm: "admission (memory_runtime reg pe rp None env) cid ver input iid lease w = Some (cap, k)"
    and iid: "iid \<noteq> []" and miss: "map_of (w_idem w) (storage_key idk iid) = None"
    and invoke: "\<And>req n. ir_invocation_id req = iid \<Longrightarrow> cap_invoke cap req n (w_token w) = (Inr res, w_token w)"
    and fc: "reported_failure res = Some f" and rid: "res_invocation_id res = iid"
    and act: "rd_action (classify rp (FEnum f) (w_ctx w)) \<in> {''escalate'', ''stop''}"
  shows "\<exists>m w'. execute (memory_runtime reg pe rp None env) cid ver input (Some iid) idk lease w =
       (Inl (Exn ValueError m), w') \<and>
     terminal_status (ctx_status (w_ctx w')) \<and> w_idem w' = w_idem w"
proof -
  obtain w2 t where run: "execute (memory_runtime reg pe rp None env) cid ver input (Some iid) idk lease w =
       conclude (memory_runtime reg pe rp None env) cid iid (storage_key idk iid) lease k res w2"
    and w2: "w_ctx w2 = (w_ctx w)\<lparr>ctx_status := ES_EXECUTING, ctx_current_node := Some cid, ctx_updated_at := t\<rparr>"
      "w_idem w2 = w_idem w"
    using adm iid miss invoke by (rule execute_invokes_memory)
  have live: "\<not> terminal_status (ctx_status (w_ctx w2))" by (simp add: w2(1) terminal_status_def)
  have "rd_action (classify rp (FEnum f) (w_ctx w2)) = rd_action (classify rp (FEnum f) (w_ctx w))"
    by (simp add: w2(1) classify_def Let_def)
  with act have "rd_action (classify rp (FEnum f) (w_ctx w2)) \<in> {''escalate'', ''stop''}" by simp
  from conclude_terminal_failure [OF live fc rid this, of reg pe env cid "storage_key idk iid" lease k]
  show ?thesis using w2(2) run by auto
qed

end
