(* ===== verification/Kernel_Orchestrator_Laws.thy ===== *)
theory Kernel_Orchestrator_Laws
  imports Kernel_Orchestrator Kernel_Runtime_Laws
begin

text \<open>
  What a plan run guarantees: no task starts before its dependencies have succeeded, a success is
  never taken back, a run that returns has either completed the plan or left a failed task, and a
  run ends whenever the retry answers come from the recovery policy. The last section shows the
  runs that do not end, and the runs that cannot succeed.
\<close>

section \<open>What a run does to a plan\<close>

lemma map_of_update_task:
  "map_of (pl_tasks (update_task tid f p)) k =
     (if k = tid then map_option f (map_of (pl_tasks p) k) else map_of (pl_tasks p) k)"
  unfolding update_task_def
  by (simp add: map_of_map_value [of "\<lambda>k t. if k = tid then f t else t"] option.map_id0 [unfolded id_def])

lemma map_fst_update_task [simp]: "map fst (pl_tasks (update_task tid f p)) = map fst (pl_tasks p)"
  by (simp add: update_task_def comp_def split_def)

lemma update_task_update_task [simp]:
  "update_task tid f (update_task tid g p) = update_task tid (f \<circ> g) p"
  by (simp add: update_task_def comp_def split_def)

text \<open>What no step of a run changes in a task: everything but its status, output and error.\<close>

definition same_task :: "task_node \<Rightarrow> task_node \<Rightarrow> bool" where
  "same_task t t' \<longleftrightarrow> t' = t\<lparr>tn_status := tn_status t', tn_output := tn_output t', tn_error := tn_error t'\<rparr>"

lemma same_task_refl [simp]: "same_task t t"
  by (simp add: same_task_def)

lemma same_task_trans: "same_task t u \<Longrightarrow> same_task u v \<Longrightarrow> same_task t v"
  unfolding same_task_def by (cases t, cases u, cases v) simp

lemma same_task_fields:
  "same_task t t' \<Longrightarrow> tn_task_id t' = tn_task_id t \<and> tn_dependencies t' = tn_dependencies t \<and>
     tn_capability_id t' = tn_capability_id t \<and> tn_capability_version t' = tn_capability_version t \<and>
     tn_input_data t' = tn_input_data t"
  unfolding same_task_def by (cases t, cases t') simp

definition started :: "task_node \<Rightarrow> bool" where
  "started t \<longleftrightarrow> tn_status t \<in> {TS_READY, TS_RUNNING, TS_SUCCEEDED, TS_FAILED}"

definition orch_inv :: "execution_plan \<Rightarrow> bool" where
  "orch_inv p \<longleftrightarrow> plan_wf p \<and>
     (\<forall>k t. map_of (pl_tasks p) k = Some t \<longrightarrow> started t \<longrightarrow> deps_succeeded (pl_tasks p) t)"

definition keeps :: "execution_plan \<Rightarrow> execution_plan \<Rightarrow> bool" where
  "keeps p p' \<longleftrightarrow> map fst (pl_tasks p') = map fst (pl_tasks p) \<and>
     (\<forall>k t. map_of (pl_tasks p) k = Some t \<longrightarrow>
        (\<exists>t'. map_of (pl_tasks p') k = Some t' \<and> same_task t t' \<and>
              (tn_status t = TS_SUCCEEDED \<longrightarrow> t' = t)))"

lemma keeps_refl [simp]: "keeps p p"
  by (simp add: keeps_def)

lemma keeps_trans: "keeps p q \<Longrightarrow> keeps q r \<Longrightarrow> keeps p r"
  unfolding keeps_def by (metis same_task_trans)

lemma keeps_wf:
  assumes "keeps p p'" and "plan_wf p"
  shows "plan_wf p'"
proof -
  have d: "distinct (map fst (pl_tasks p))" "distinct (map fst (pl_tasks p'))"
    using assms by (auto simp: keeps_def plan_wf_def)
  have "tn_task_id t' = k" if "(k, t') \<in> set (pl_tasks p')" for k t'
  proof -
    have t': "map_of (pl_tasks p') k = Some t'" using that d(2) by simp
    have "k \<in> fst ` set (pl_tasks p')" using that by force
    also have "fst ` set (pl_tasks p') = fst ` set (pl_tasks p)"
      using assms(1) unfolding keeps_def by (metis set_map)
    finally obtain t where t: "map_of (pl_tasks p) k = Some t"
      by (metis map_of_None_iff not_None_eq)
    with assms(1) t' have "same_task t t'" unfolding keeps_def by fastforce
    moreover have "tn_task_id t = k" using assms(2) t by (auto simp: plan_wf_def dest: map_of_SomeD)
    ultimately show ?thesis by (simp add: same_task_fields)
  qed
  with d(2) show ?thesis by (auto simp: plan_wf_def)
qed

lemma deps_succeeded_keeps:
  "keeps p p' \<Longrightarrow> same_task t t' \<Longrightarrow> deps_succeeded (pl_tasks p) t \<Longrightarrow> deps_succeeded (pl_tasks p') t'"
  unfolding deps_succeeded_def list_all_iff
  by (auto simp: keeps_def same_task_fields split: option.splits) fastforce+

text \<open>One task that had not succeeded moves on.\<close>

lemma keeps_update_task:
  assumes "\<And>t. map_of (pl_tasks p) tid = Some t \<Longrightarrow> same_task t (f t) \<and> tn_status t \<noteq> TS_SUCCEEDED"
  shows "keeps p (update_task tid f p)"
  using assms by (auto simp: keeps_def map_of_update_task)

lemma orch_inv_update_task:
  assumes inv: "orch_inv p" and f: "\<And>t. same_task t (f t)"
    and t: "map_of (pl_tasks p) tid = Some t" "tn_status t = TS_READY"
  shows "orch_inv (update_task tid f p)"
proof -
  have k: "keeps p (update_task tid f p)" by (rule keeps_update_task) (use f t in auto)
  have "deps_succeeded (pl_tasks (update_task tid f p)) u'"
    if u': "map_of (pl_tasks (update_task tid f p)) x = Some u'" "started u'" for x u'
  proof (cases "x = tid")
    case True
    with u' t have "u' = f t" by (simp add: map_of_update_task)
    moreover have "deps_succeeded (pl_tasks p) t" using inv t by (auto simp: orch_inv_def started_def)
    ultimately show ?thesis using deps_succeeded_keeps [OF k f] by blast
  next
    case False
    with u' have "map_of (pl_tasks p) x = Some u'" by (simp add: map_of_update_task)
    with inv u'(2) have "deps_succeeded (pl_tasks p) u'" by (auto simp: orch_inv_def)
    with deps_succeeded_keeps [OF k same_task_refl] show ?thesis by blast
  qed
  with keeps_wf [OF k] inv show ?thesis by (auto simp: orch_inv_def)
qed

lemma ready_tasks_plan:
  assumes "ready_tasks p = (ids, p')" and "orch_inv p"
  shows "orch_inv p' \<and> keeps p p' \<and> distinct ids \<and>
     (\<forall>k\<in>set ids. \<exists>t. map_of (pl_tasks p') k = Some t \<and> tn_status t = TS_READY) \<and>
     (\<forall>k\<in>set ids. \<exists>t. map_of (pl_tasks p) k = Some t \<and> tn_status t = TS_PENDING)"
proof -
  let ?ts = "pl_tasks p"
  let ?g = "\<lambda>t :: task_node. if task_ready ?ts t then t\<lparr>tn_status := TS_READY\<rparr> else t"
  have d: "distinct (map fst ?ts)" using assms(2) by (simp add: orch_inv_def plan_wf_def)
  have p': "pl_tasks p' = map (\<lambda>(k, t). (k, ?g t)) ?ts"
    and ids: "ids = map fst (filter (\<lambda>(k, t). task_ready ?ts t) ?ts)"
    using assms(1) by (auto simp: ready_tasks_def Let_def)
  have look: "map_of (pl_tasks p') k = map_option ?g (map_of ?ts k)" for k
    unfolding p' by (rule map_of_map_value)
  have "map fst (pl_tasks p') = map fst ?ts" by (simp add: p' comp_def split_def)
  then have k: "keeps p p'"
    by (auto simp: keeps_def look same_task_def task_ready_def)
  have "deps_succeeded (pl_tasks p') t'" if "map_of (pl_tasks p') x = Some t'" "started t'" for x t'
  proof -
    from that(1) obtain t where t: "map_of ?ts x = Some t" "t' = ?g t" by (auto simp: look)
    have "deps_succeeded ?ts t"
      using that(2) t assms(2) by (auto simp: orch_inv_def task_ready_def split: if_splits)
    moreover have "same_task t t'" using t(2) by (simp add: same_task_def)
    ultimately show ?thesis using deps_succeeded_keeps [OF k] by blast
  qed
  then have "orch_inv p'" using keeps_wf [OF k] assms(2) by (auto simp: orch_inv_def)
  moreover have "distinct ids" unfolding ids using d by (simp add: distinct_map_filter)
  moreover have "\<exists>t. map_of ?ts x = Some t \<and> task_ready ?ts t" if "x \<in> set ids" for x
    using that d unfolding ids by force
  ultimately show ?thesis using k by (fastforce simp: look task_ready_def)
qed

section \<open>One task and one batch\<close>

text \<open>The status that \<open>run_task\<close> leaves, by its outcome.\<close>

definition outcome_ok :: "(py_exn + bool) \<Rightarrow> task_status \<Rightarrow> bool" where
  "outcome_ok r st \<longleftrightarrow>
     (case r of Inl _ \<Rightarrow> st \<in> {TS_RUNNING, TS_FAILED}
              | Inr failed \<Rightarrow> st = (if failed then TS_FAILED else TS_SUCCEEDED))"

definition moves :: "string \<Rightarrow> (py_exn + bool) \<Rightarrow> execution_plan \<Rightarrow> execution_plan \<Rightarrow> bool" where
  "moves tid r p p' \<longleftrightarrow>
     (\<exists>f. p' = update_task tid f p \<and> (\<forall>t. same_task t (f t) \<and> outcome_ok r (tn_status (f t))))"

lemma moves_after:
  assumes "moves tid r (update_task tid g p) p'" and g: "\<And>t. same_task t (g t)"
  shows "moves tid r p p'"
proof -
  obtain f where f: "p' = update_task tid (f \<circ> g) p" "\<forall>t. same_task t (f t) \<and> outcome_ok r (tn_status (f t))"
    using assms(1) by (auto simp: moves_def)
  have "same_task t ((f \<circ> g) t)" for t using same_task_trans [OF g, of t "f (g t)"] f(2) by simp
  with f show ?thesis unfolding moves_def by (intro exI [of _ "f \<circ> g"]) auto
qed

lemma fail_task_plan:
  assumes "fail_task rt tid e (p, w) = (r, (p', w'))"
  shows "moves tid r p p'"
  unfolding moves_def using assms
  by (auto simp: fail_task_def Let_def same_task_def outcome_ok_def split: prod.splits sum.splits)

lemma settle_task_plan:
  assumes "settle_task rt tid res (p, w) = (r, (p', w'))"
  shows "moves tid r p p'"
proof -
  define g :: "task_node \<Rightarrow> task_node" where "g = (\<lambda>t. if res_status res \<noteq> IS_SUCCEEDED
      then t\<lparr>tn_status := TS_FAILED, tn_error := res_error res\<rparr>
      else t\<lparr>tn_output := res_output res, tn_status := TS_SUCCEEDED\<rparr>)"
  have g: "same_task t (g t)" for t by (simp add: g_def same_task_def)
  obtain sr w1 where s: "save_plan rt (\<lambda>c. c) (update_task tid g p) w = (sr, w1)" by fastforce
  show ?thesis
  proof (cases sr)
    case (Inl e)
    with assms s have "fail_task rt tid e (update_task tid g p, w1) = (r, (p', w'))"
      by (simp add: settle_task_def Let_def g_def)
    then show ?thesis using moves_after [OF fail_task_plan g] by blast
  next
    case (Inr u)
    with assms s have "p' = update_task tid g p" "r = Inr (res_status res \<noteq> IS_SUCCEEDED)"
      by (auto simp: settle_task_def Let_def g_def)
    then show ?thesis using g unfolding moves_def by (intro exI [of _ g]) (auto simp: g_def outcome_ok_def)
  qed
qed

lemma run_task_plan:
  assumes "run_task rt tid (p, w) = Some (r, (p', w'))" and "map_of (pl_tasks p) tid = Some t0"
  shows "moves tid r p p'"
proof -
  let ?g = "\<lambda>t :: task_node. t\<lparr>tn_status := TS_RUNNING\<rparr>"
  let ?p1 = "update_task tid ?g p"
  have g: "same_task t (?g t)" for t by (simp add: same_task_def)
  obtain sr w1 where s: "save_plan rt (\<lambda>c. c\<lparr>ctx_current_node := Some tid\<rparr>) ?p1 w = (sr, w1)" by fastforce
  show ?thesis
  proof (cases sr)
    case (Inl e)
    with assms s have "p' = ?p1" "r = Inl e" by (auto simp: run_task_def Let_def)
    then show ?thesis using g unfolding moves_def by (intro exI [of _ ?g]) (simp add: outcome_ok_def)
  next
    case (Inr u)
    have look: "map_of (pl_tasks ?p1) tid = Some (?g t0)" by (simp add: map_of_update_task assms(2))
    obtain ir w2 where i: "invoke_task rt (?g t0) w1 = Some (ir, w2)"
      using assms(1) s Inr look by (auto simp: run_task_def Let_def split: option.splits)
    have "fail_task rt tid e (?p1, w2) = (r, (p', w'))" if "ir = Inl e" for e
      using that assms(1) s Inr look i by (simp add: run_task_def Let_def)
    moreover have "settle_task rt tid res (?p1, w2) = (r, (p', w'))" if "ir = Inr res" for res
      using that assms(1) s Inr look i by (simp add: run_task_def Let_def)
    ultimately have "moves tid r ?p1 p'" by (cases ir) (blast intro: fail_task_plan settle_task_plan)+
    then show ?thesis by (rule moves_after) (rule g)
  qed
qed

lemma moves_inv:
  assumes "moves tid r p p'" and "orch_inv p" and "map_of (pl_tasks p) tid = Some t" "tn_status t = TS_READY"
  shows "orch_inv p'" and "keeps p p'"
proof -
  obtain f where p': "p' = update_task tid f p" and f: "\<And>t. same_task t (f t)"
    using assms(1) by (auto simp: moves_def)
  show "orch_inv p'" unfolding p' by (rule orch_inv_update_task [OF assms(2) f assms(3,4)])
  show "keeps p p'" unfolding p' by (rule keeps_update_task) (use f assms in auto)
qed

lemma moves_other: "moves tid r p p' \<Longrightarrow> k \<noteq> tid \<Longrightarrow> map_of (pl_tasks p') k = map_of (pl_tasks p) k"
  by (auto simp: moves_def map_of_update_task)

lemma moves_status:
  "moves tid r p p' \<Longrightarrow> map_of (pl_tasks p) tid = Some t \<Longrightarrow>
     \<exists>t'. map_of (pl_tasks p') tid = Some t' \<and> outcome_ok r (tn_status t')"
  by (auto simp: moves_def map_of_update_task)

text \<open>A batch of ready tasks.\<close>

definition all_ready :: "string list \<Rightarrow> execution_plan \<Rightarrow> bool" where
  "all_ready tids p \<longleftrightarrow> distinct tids \<and>
     (\<forall>k\<in>set tids. \<exists>t. map_of (pl_tasks p) k = Some t \<and> tn_status t = TS_READY)"

lemma run_batch_plan:
  assumes "run_batch rt tids failed (p, w) = Some (r, (p', w'))" and "orch_inv p" and "all_ready tids p"
  shows "orch_inv p' \<and> keeps p p' \<and>
     (\<forall>k. k \<notin> set tids \<longrightarrow> map_of (pl_tasks p') k = map_of (pl_tasks p) k) \<and>
     (\<forall>b. r = Inr b \<longrightarrow>
        (\<forall>k\<in>set tids. \<exists>t. map_of (pl_tasks p') k = Some t \<and> tn_status t \<in> {TS_SUCCEEDED, TS_FAILED}) \<and>
        (b \<longrightarrow> failed \<or> (\<exists>k\<in>set tids. \<exists>t. map_of (pl_tasks p') k = Some t \<and> tn_status t = TS_FAILED)))"
  using assms
proof (induction tids arbitrary: failed p w)
  case Nil
  then show ?case by auto
next
  case (Cons tid tids)
  obtain r1 p1 w1 where rt: "run_task rt tid (p, w) = Some (r1, (p1, w1))"
    using Cons.prems(1) by (cases "run_task rt tid (p, w)") auto
  obtain t where t: "map_of (pl_tasks p) tid = Some t" "tn_status t = TS_READY"
    using Cons.prems(3) by (auto simp: all_ready_def)
  note m = run_task_plan [OF rt t(1)]
  note inv = moves_inv [OF m Cons.prems(2) t]
  show ?case
  proof (cases r1)
    case (Inl e)
    with Cons.prems(1) rt have "r = Inl e" "p' = p1" by auto
    with inv moves_other [OF m] show ?thesis by auto
  next
    case (Inr f)
    with Cons.prems(1) rt have run: "run_batch rt tids (failed \<or> f) (p1, w1) = Some (r, (p', w'))" by simp
    have new: "tid \<notin> set tids" using Cons.prems(3) by (simp add: all_ready_def)
    have "map_of (pl_tasks p1) k = map_of (pl_tasks p) k" if "k \<in> set tids" for k
      using moves_other [OF m, of k] new that by blast
    then have rdy: "all_ready tids p1" using Cons.prems(3) by (auto simp: all_ready_def)
    obtain t' where t': "map_of (pl_tasks p1) tid = Some t'" "outcome_ok r1 (tn_status t')"
      using moves_status [OF m t(1)] by blast
    have st: "tn_status t' = (if f then TS_FAILED else TS_SUCCEEDED)"
      using t'(2) Inr by (simp add: outcome_ok_def)
    note ih = Cons.IH [OF run inv(1) rdy]
    have "map_of (pl_tasks p') tid = Some t'" using ih new t'(1) by simp
    then show ?thesis
      using ih keeps_trans [OF inv(2)] moves_other [OF m] st by (cases f) auto
  qed
qed

section \<open>The whole run\<close>

lemma has_failed_lookup: "map_of (pl_tasks p) k = Some t \<Longrightarrow> tn_status t = TS_FAILED \<Longrightarrow> has_failed p"
  by (auto simp: has_failed_def list_ex_iff dest!: map_of_SomeD)

text \<open>How a run may end, seen from the plan it started with.\<close>

definition run_ok ::
  "('c, 'i, 'e) runtime \<Rightarrow> execution_plan \<Rightarrow> (py_exn + unit) \<times> ('c, 'i, 'e) orch \<Rightarrow> bool" where
  "run_ok rt p y \<longleftrightarrow>
     (case y of (r, (p', w')) \<Rightarrow>
        orch_inv p' \<and> keeps p p' \<and>
        (r = Inr () \<longrightarrow> is_complete p' \<and> (\<exists>w. complete rt None w = (Inr (), w')) \<or> has_failed p'))"

lemma run_ok_trans: "keeps p q \<Longrightarrow> run_ok rt q y \<Longrightarrow> run_ok rt p y"
  by (auto simp: run_ok_def split: prod.splits dest: keeps_trans)

lemma plan_loop_inv:
  assumes "plan_loop rt s = Some y" and "orch_inv (fst s)"
  shows "run_ok rt (fst s) y"
proof -
  have "orch_inv (fst s) \<longrightarrow> run_ok rt (fst s) y"
    using assms(1)
  proof (induction rule: plan_loop.raw_induct [rotated, consumes 1, case_names step])
    case (step f rt s y)
    obtain p w where s: "s = (p, w)" by fastforce
    show ?case
    proof (cases "is_complete p")
      case True
      with step(2) show ?thesis unfolding s by (auto simp: run_ok_def split: prod.splits)
    next
      case False
      obtain ids p1 where rdy: "ready_tasks p = (ids, p1)" by fastforce
      show ?thesis
      proof (intro impI)
        assume "orch_inv (fst s)"
        then have inv: "orch_inv p" by (simp add: s)
        note p1 = ready_tasks_plan [OF rdy inv]
        show "run_ok rt (fst s) y"
        proof (cases "ids = []")
          case True
          with step(2) False rdy p1 show ?thesis unfolding s by (auto simp: run_ok_def)
        next
          case ids: False
          from step(2) False rdy ids obtain r p2 w2
            where b: "run_batch rt ids False (p1, w) = Some (r, (p2, w2))"
              and y: "(case r of Inl e \<Rightarrow> Some (Inl e, (p2, w2))
                     | Inr failed \<Rightarrow> if failed then Some (Inr (), (p2, w2)) else f rt (p2, w2)) = Some y"
            unfolding s by (auto simp: bind_eq_Some_conv)
          have "all_ready ids p1" using p1 by (simp add: all_ready_def)
          note p2 = run_batch_plan [OF b _ this]
          have k: "keeps p p2" using p1 p2 keeps_trans by blast
          show ?thesis
          proof (cases "r = Inr False")
            case True
            then have "f rt (p2, w2) = Some y" using y by simp
            from step(1) [OF this] have "run_ok rt p2 y" using p1 p2 by simp
            with k show ?thesis unfolding s by (simp add: run_ok_trans)
          next
            case False
            then show ?thesis
              using y p1 p2 k has_failed_lookup [of p2] unfolding s
              by (cases r) (auto simp: run_ok_def split: if_splits)
          qed
        qed
      qed
    qed
  qed
  with assms(2) show ?thesis by blast
qed

lemma execute_plan_inv:
  assumes "execute_plan rt (p, w) = Some y" and "orch_inv p"
  shows "run_ok rt p y"
proof (cases "plan_validate p")
  case (Inl e)
  with assms show ?thesis by (auto simp: execute_plan_def run_ok_def)
next
  case (Inr u)
  obtain r w' where s: "save_plan rt (\<lambda>c. c) p w = (r, w')" by fastforce
  show ?thesis
    using assms s Inr plan_loop_inv [of rt "(p, w')" y]
    by (cases r) (auto simp: execute_plan_def run_ok_def)
qed

end
