(* ===== verification/Orchestrator_Termination.thy ===== *)
theory Orchestrator_Termination
  imports Kernel_Orchestrator_Laws
begin

text \<open>
  When a plan run ends. The retry loop repeats a call as long as the result says
  \<open>recovery_action = "retry"\<close>. When that answer comes from the recovery policy, each repetition
  has used up one of its \<open>max_retries\<close>, so the loop ends; a capability that writes the answer into
  its own result, without a failure class, is repeated without bound.
\<close>

section \<open>Retry answers that come from the policy\<close>

definition honest_result :: "invocation_result \<Rightarrow> bool" where
  "honest_result res \<longleftrightarrow> (wants_retry res \<longrightarrow> reported_failure res \<noteq> None)"

definition honest_capability :: "capability \<Rightarrow> bool" where
  "honest_capability cap \<longleftrightarrow>
     (\<forall>req n tok res tok'. cap_invoke cap req n tok = (Inr res, tok') \<longrightarrow> honest_result res)"

definition honest :: "capability_registry \<Rightarrow> bool" where
  "honest reg \<longleftrightarrow> (\<forall>(key, entry) \<in> set reg. honest_capability (ce_capability entry))"

definition settled :: "memory_idempotency \<Rightarrow> bool" where
  "settled st \<longleftrightarrow> (\<forall>k r. map_of st k = Some r \<longrightarrow> \<not> wants_retry r)"

lemma cancellation_no_retry: "res_error res = Some (cancellation_error e) \<Longrightarrow> \<not> wants_retry res"
  by (simp add: wants_retry_def cancellation_error_def)

lemma handlers_no_retry:
  "handle_cancellation rt cid e iid lease w = (Inr res, w') \<Longrightarrow> \<not> wants_retry res"
  "handle_failure rt cid iid e lease w = (Inr res, w') \<Longrightarrow> \<not> wants_retry res"
proof -
  show "\<not> wants_retry res" if "handle_cancellation rt cid e iid lease w = (Inr res, w')"
    using handler_results(1) [OF that] cancellation_no_retry by blast
  have d: "rd_action d = ''fallback''" if "recovery_m rt FC_TOOL w = (Inr d, w1)" for d w1
    using that
    by (auto simp: recovery_m_def recovery_defs failure_is.simps split: prod.splits if_splits sum.splits)
  show "\<not> wants_retry res" if "handle_failure rt cid iid e lease w = (Inr res, w')"
    using that d unfolding handle_failure_def
    by (elim ebind_InrE eseq_InrE) (auto simp: em_simps wants_retry_def new_result_def)
qed

lemma recovery_apply_decision:
  "recovery_apply p now f c = (Inr d, c') \<Longrightarrow> d = classify p (FEnum f) c"
  by (auto simp: recovery_apply_def with_status_def Let_def split: if_splits sum.splits)

lemma recover_reported_retry:
  assumes run: "recover_reported (memory_runtime reg pe rp fc env) cid iid lease res w = (Inr r, w1)"
    and hon: "honest_result res"
  shows "(terminal_result r \<longrightarrow> \<not> wants_retry r) \<and>
     (wants_retry r \<longrightarrow> ctx_retry_count (w_ctx w) < ctx_retry_count (w_ctx w1))"
proof (cases "reported_failure res")
  case None
  with run hon show ?thesis by (auto simp: recover_reported_def em_simps honest_result_def)
next
  case (Some f)
  let ?R = "memory_runtime reg pe rp fc env"
  have st: "res_status res = IS_FAILED" using Some by (auto simp: reported_failure_def split: if_splits)
  from run obtain d wa u1 wb u2 where rec: "recovery_m ?R f w = (Inr d, wa)"
    and e: "record_m ?R ''execution.recovery_decision''
              [(''capability_id'', PStr cid), (''invocation_id'', PStr iid),
               (''failure_class'', PStr (failure_class_value f)),
               (''recovery_action'', PStr (rd_action d))] wa = (Inr u1, wb)"
    and s: "save_checkpoint ?R lease wb = (Inr u2, w1)"
    and r: "r = res\<lparr>res_error := map_option
                 (AList.update ''recovery_action'' (PStr (rd_action d))) (res_error res)\<rparr>"
    unfolding recover_reported_def Some option.case
    by (elim ebind_InrE eseq_InrE) (auto simp: eret_apply)
  have "\<not> terminal_result r" using st r by (simp add: terminal_result_def)
  moreover have "ctx_retry_count (w_ctx w) < ctx_retry_count (w_ctx w1)" if "wants_retry r"
  proof -
    have act: "rd_action d = ''retry''"
      using that r by (auto simp: wants_retry_def split: option.splits)
    from rec obtain c where a: "recovery_apply rp (clock env (w_tick w)) f (w_ctx w) = (Inr d, c)"
      and wa: "w_ctx wa = c" by (auto simp: recovery_m_def split: prod.splits)
    have "d = classify rp (FEnum f) (w_ctx w)" using a by (rule recovery_apply_decision)
    with act have "f = FC_TRANSIENT" "ctx_retry_count (w_ctx w) < rp_max_retries rp"
      using classify_retry_iff [of rp "FEnum f" "w_ctx w"] by (auto simp: failure_is.simps)
    then have "ctx_retry_count c = ctx_retry_count (w_ctx w) + 1"
      using recovery_apply_retry_count [of rp "clock env (w_tick w)" f "w_ctx w"] a by simp
    moreover have "ctx_retry_count (w_ctx wa) \<le> ctx_retry_count (w_ctx w1)"
      using confinedD' [OF memory_rt.confined_record_m e] confinedD' [OF memory_rt.confined_save_checkpoint s]
      by (simp add: memory_rt.kernel_step_def)
    ultimately show ?thesis using wa by simp
  qed
  ultimately show ?thesis by blast
qed

lemma conclude_retry:
  assumes run: "conclude (memory_runtime reg pe rp fc env) cid iid key lease k res w = (Inr r, w')"
    and hon: "honest_result res" and ret: "wants_retry r"
  shows "ctx_retry_count (w_ctx w) < ctx_retry_count (w_ctx w')"
proof -
  let ?R = "memory_runtime reg pe rp fc env"
  from run obtain r1 wa where a: "recover_reported ?R cid iid lease res w = (Inr r1, wa)"
    and b: "eseq (observe_result ?R cid k r1) (eseq (cache_terminal_result ?R key r1 lease)
              (eseq (seal_result ?R cid iid lease r1) (eret r1))) wa = (Inr r, w')"
    unfolding conclude_def by (elim ebind_InrE) (auto simp: em_simps split: if_splits)
  have "r1 = r" using b by (elim eseq_InrE) (simp add: em_simps)
  with recover_reported_retry [OF a hon] ret
  have "ctx_retry_count (w_ctx w) < ctx_retry_count (w_ctx wa)" by blast
  moreover have step: "confined (memory_rt.kernel_step reg pe rp fc env)
      (eseq (observe_result ?R cid k r1) (eseq (cache_terminal_result ?R key r1 lease)
              (eseq (seal_result ?R cid iid lease r1) (eret r1))))"
    unfolding observe_result_def seal_result_def
    by (intro memory_rt.confined_rules memory_rt.confined_primitives memory_rt.confined_ctx_m) simp_all
  ultimately show ?thesis
    using confinedD' [OF step b] by (simp add: memory_rt.kernel_step_def)
qed

text \<open>What a guarded call hands on is a result of the capability; what a handler made is no retry.\<close>

lemma guarded_invoke_result:
  assumes "guarded_invoke rt cid iid lease cap req w = (Inr out, w')"
  shows "case out of Inl res \<Rightarrow> \<not> wants_retry res
                   | Inr res \<Rightarrow> \<exists>rq n tok tok'. cap_invoke cap rq n tok = (Inr res, tok')"
proof -
  let ?body = "eseq token_m (ebind (invoke_m cap req) (\<lambda>res. eseq token_m (eret (Inr res :: invocation_result + invocation_result))))"
  obtain br w1 where b: "?body w = (br, w1)" by fastforce
  show ?thesis
  proof (cases br)
    case (Inl e)
    obtain res where "(if exn_class e = ExecutionCancellation then handle_cancellation rt cid e iid lease
          else handle_failure rt cid iid e lease) w1 = (Inr res, w') \<and> out = Inl res"
      using assms b Inl unfolding guarded_invoke_def etry_apply
      by (auto simp: em_simps split: prod.splits sum.splits if_splits)
    then show ?thesis by (auto split: if_splits dest: handlers_no_retry)
  next
    case (Inr o')
    with assms b have "out = o'" by (simp add: guarded_invoke_def etry_apply)
    with b Inr show ?thesis
      by (auto simp: em_simps token_m_def invoke_m_def split: prod.splits sum.splits)
  qed
qed

lemma honest_get: "honest reg \<Longrightarrow> capability_get cid ver reg = Inr entry \<Longrightarrow> honest_capability (ce_capability entry)"
  by (auto simp: honest_def capability_get_def split: option.splits dest!: map_of_SomeD)

lemma guarded_invoke_honest:
  "guarded_invoke rt cid iid lease cap req w = (Inr (Inr res), w') \<Longrightarrow> honest_capability cap \<Longrightarrow> honest_result res"
  unfolding honest_capability_def by (drule guarded_invoke_result) (simp, blast)

lemma perform_retry:
  assumes run: "perform (memory_runtime reg pe rp fc env) cid ver iid key lease cap k req w = (Inr r, w')"
    and hon: "honest_capability cap" and ret: "wants_retry r"
  shows "ctx_retry_count (w_ctx w) < ctx_retry_count (w_ctx w')"
proof -
  let ?R = "memory_runtime reg pe rp fc env"
  from run obtain u w1 c out w2 where s: "start_capability ?R cid ver iid lease w = (Inr u, w1)"
    and g: "guarded_invoke ?R cid iid lease cap (req\<lparr>ir_execution := c\<rparr>) w1 = (Inr out, w2)"
    and o: "(case out of Inl res \<Rightarrow> eret res | Inr res \<Rightarrow> conclude ?R cid iid key lease k res) w2 = (Inr r, w')"
    unfolding perform_def by (elim eseq_InrE ebind_InrE) (auto simp: em_simps)
  have "confined (memory_rt.kernel_step reg pe rp fc env) (start_capability ?R cid ver iid lease)"
    unfolding start_capability_def
    by (intro memory_rt.confined_rules memory_rt.confined_primitives memory_rt.confined_ctx_m) simp_all
  from confinedD' [OF this s] confinedD' [OF memory_rt.confined_guarded_invoke g]
  have mono: "ctx_retry_count (w_ctx w) \<le> ctx_retry_count (w_ctx w2)"
    by (simp add: memory_rt.kernel_step_def)
  show ?thesis
  proof (cases out)
    case (Inl res)
    with o have "r = res" by (simp add: em_simps)
    with guarded_invoke_result [OF g] Inl ret show ?thesis by simp
  next
    case (Inr res)
    with o have c: "conclude ?R cid iid key lease k res w2 = (Inr r, w')" by simp
    have "honest_result res" using g hon unfolding Inr by (rule guarded_invoke_honest)
    from conclude_retry [OF c this ret] mono show ?thesis by simp
  qed
qed

lemma execute_retry:
  assumes run: "execute (memory_runtime reg pe rp fc env) cid ver input (Some iid) idk lease w = (Inr r, w')"
    and "iid \<noteq> []" and hon: "honest reg" and set: "settled (w_idem w)" and ret: "wants_retry r"
  shows "ctx_retry_count (w_ctx w) < ctx_retry_count (w_ctx w')"
proof (cases "admission (memory_runtime reg pe rp fc env) cid ver input iid lease w")
  case None
  then show ?thesis
    using execute_unadmitted [OF None assms(2) run] cancellation_no_retry ret by blast
next
  case (Some ck)
  let ?R = "memory_runtime reg pe rp fc env"
  obtain cap k where "ck = (cap, k)" by fastforce
  note adm = Some [unfolded this]
  have hc: "honest_capability cap"
    using adm honest_get [OF hon, of cid ver]
    by (auto simp: admission_def Let_def split: if_splits sum.splits option.splits)
  have ctx: "ctx_retry_count (w_ctx (admitted_world ?R w)) = ctx_retry_count (w_ctx w)"
    by (simp add: admitted_world_def Let_def)
  show ?thesis
  proof (cases "map_of (w_idem w) (storage_key idk iid)")
    case None
    then have "perform ?R cid ver iid (storage_key idk iid) lease cap k
        (mk_request iid cid input k (admitted_world ?R w)) (admitted_world ?R w) = (Inr r, w')"
      using run execute_miss [OF adm assms(2)] by (simp add: memory_idem_get_def)
    from perform_retry [OF this hc ret] show ?thesis by (simp add: ctx)
  next
    case (Some c)
    then have "r = c" using run execute_hit [OF adm assms(2)] by (simp add: memory_idem_get_def)
    with Some set ret show ?thesis by (auto simp: settled_def)
  qed
qed

section \<open>The recorded results stay settled\<close>

definition calm ::
  "(memory_checkpoints, memory_idempotency, memory_ledger) world \<Rightarrow>
     (memory_checkpoints, memory_idempotency, memory_ledger) world \<Rightarrow> bool" where
  "calm s t \<longleftrightarrow> (settled (w_idem s) \<longrightarrow> settled (w_idem t))"

interpretation calm: step_order calm
  by unfold_locales (auto simp: calm_def)

lemma calm_same: "confined (same w_idem) m \<Longrightarrow> confined calm m"
  by (auto simp: confined_def same_def calm_def)

lemma calm_cache:
  assumes "terminal_result res \<longrightarrow> \<not> wants_retry res"
  shows "confined calm (cache_terminal_result (memory_runtime reg pe rp fc env) key res lease)"
  unfolding cache_terminal_result_def
proof (intro calm.confined_rules calm_same [OF idem_frames(5)] calm.confined_emod)
  fix s :: memory_world
  assume "res_status res \<in> {IS_SUCCEEDED, IS_CANCELLED}"
  then have "\<not> wants_retry res" using assms by (simp add: terminal_result_def)
  then show "calm s (s\<lparr>w_idem := rt_idem_put (memory_runtime reg pe rp fc env) key res (w_idem s)\<rparr>)"
    by (auto simp: calm_def settled_def memory_idem_put_def split: option.splits if_splits)
qed

lemma calm_conclude:
  assumes "honest_result res"
  shows "confined calm (conclude (memory_runtime reg pe rp fc env) cid iid key lease k res)"
  unfolding conclude_def
proof (rule calm.confined_ebind_dep)
  fix r s s'
  assume "recover_reported (memory_runtime reg pe rp fc env) cid iid lease res s = (Inr r, s')"
  from recover_reported_retry [OF this assms] show "confined calm
      (if res_invocation_id r \<noteq> iid then
         eraise (Exn ExecutionError
           ''Capability returned an invocation_id that does not match the requested invocation_id.'')
       else eseq (observe_result (memory_runtime reg pe rp fc env) cid k r)
             (eseq (cache_terminal_result (memory_runtime reg pe rp fc env) key r lease)
             (eseq (seal_result (memory_runtime reg pe rp fc env) cid iid lease r) (eret r))))"
    by (intro calm.confined_rules calm_same [OF idem_frame_observe] calm_same [OF idem_frame_seal]
        calm_cache) blast
qed (rule calm_same [OF idem_frame_recover])

lemma calm_perform:
  assumes "honest_capability cap"
  shows "confined calm (perform (memory_runtime reg pe rp fc env) cid ver iid key lease cap k req)"
  unfolding perform_def
proof (rule calm.confined_eseq [OF calm_same [OF idem_frame_start]], rule calm.confined_ebind [OF calm.confined_eget])
  fix c
  show "confined calm (ebind (guarded_invoke (memory_runtime reg pe rp fc env) cid iid lease cap (req\<lparr>ir_execution := c\<rparr>))
     (\<lambda>out. case out of Inl res \<Rightarrow> eret res
                     | Inr res \<Rightarrow> conclude (memory_runtime reg pe rp fc env) cid iid key lease k res))"
  proof (rule calm.confined_ebind_dep [OF calm_same [OF idem_frame_invoke]])
    fix out s s'
    assume g: "guarded_invoke (memory_runtime reg pe rp fc env) cid iid lease cap (req\<lparr>ir_execution := c\<rparr>) s = (Inr out, s')"
    show "confined calm (case out of Inl res \<Rightarrow> eret res
        | Inr res \<Rightarrow> conclude (memory_runtime reg pe rp fc env) cid iid key lease k res)"
      using guarded_invoke_honest [of _ cid iid lease cap _ s] g assms
      by (cases out) (auto intro: calm.confined_eret calm_conclude)
  qed
qed

lemma calm_execute:
  assumes "honest reg"
  shows "confined calm (execute (memory_runtime reg pe rp fc env) cid ver input iid idk lease)"
proof -
  let ?R = "memory_runtime reg pe rp fc env"
  have "confined calm (govern ?R cid ver input i key lease entry)" if "honest_capability (ce_capability entry)" for i key entry
    unfolding govern_def replay_or_perform_def
    by (intro calm.confined_rules calm_same [OF idem_frame_cancel] calm_same [OF idem_frame_authorize]
        calm_same [OF idem_frames(2)] calm_perform that)
  then have "confined calm (ebind (elift (capability_get cid ver (rt_registry ?R))) (\<lambda>entry.
     eseq (status_m ?R ES_PLAN_VALIDATED)
    (govern ?R cid ver input i (storage_key idk i) lease entry)))" for i
    using honest_get [OF assms]
    by (intro calm.confined_ebind_dep calm.confined_elift calm.confined_eseq calm_same [OF idem_frames(1)])
      (auto simp: em_simps)
  note rest = this
  show ?thesis
    unfolding execute_def
    by (rule calm.confined_ebind [OF calm.confined_eget], rule calm.confined_if, rule calm.confined_eraise,
        rule calm.confined_ebind [OF calm_same [OF idem_frames(9)]],
        rule calm.confined_eseq [OF calm_same [OF idem_frames(5)]],
        rule calm.confined_eseq [OF calm_same [OF idem_frames(1)]], rule rest)
qed

section \<open>The loops end\<close>

text \<open>What the loops rely on: the store is settled and the retry counter is within the limit.\<close>

definition retry_inv :: "recovery_policy \<Rightarrow> memory_world \<Rightarrow> bool" where
  "retry_inv rp w \<longleftrightarrow> settled (w_idem w) \<and> ctx_retry_count (w_ctx w) \<le> rp_max_retries rp"

lemma execute_retry_inv:
  assumes "execute (memory_runtime reg pe rp fc env) cid ver input iid idk lease w = (r, w')"
    and "honest reg" and "retry_inv rp w"
  shows "retry_inv rp w'"
  using confinedD' [OF calm_execute [OF assms(2)] assms(1)] confinedD' [OF memory_rt.confined_execute assms(1)]
    assms(3)
  by (simp add: retry_inv_def calm_def memory_rt.kernel_step_def)

lemma retry_loop_ends:
  assumes "honest reg" and "iid \<noteq> []" and "retry_inv rp w"
  shows "\<exists>r w'. retry_loop (memory_runtime reg pe rp fc env) cid ver input iid res w = Some (r, w') \<and>
     retry_inv rp w'"
  using assms(3)
proof (induction "nat (rp_max_retries rp - ctx_retry_count (w_ctx w))" arbitrary: res w rule: less_induct)
  case less
  let ?R = "memory_runtime reg pe rp fc env"
  show ?case
  proof (cases "wants_retry res")
    case False
    then show ?thesis using less.prems by (subst retry_loop.simps) simp
  next
    case True
    obtain er w1 where e: "execute ?R cid ver input (Some iid) None None w = (er, w1)" by fastforce
    note inv = execute_retry_inv [OF e assms(1) less.prems]
    show ?thesis
    proof (cases er)
      case (Inl x)
      with True e inv show ?thesis by (subst retry_loop.simps) simp
    next
      case (Inr r1)
      have step: "retry_loop ?R cid ver input iid res w = retry_loop ?R cid ver input iid r1 w1"
        using True e Inr by (subst retry_loop.simps) simp
      show ?thesis
      proof (cases "wants_retry r1")
        case False
        then show ?thesis unfolding step using inv by (subst retry_loop.simps) simp
      next
        case again: True
        have "ctx_retry_count (w_ctx w) < ctx_retry_count (w_ctx w1)"
          using execute_retry [OF e [unfolded Inr] assms(2,1) _ again] less.prems by (simp add: retry_inv_def)
        then have "nat (rp_max_retries rp - ctx_retry_count (w_ctx w1)) < nat (rp_max_retries rp - ctx_retry_count (w_ctx w))"
          using inv by (simp add: retry_inv_def)
        from less.hyps [OF this inv] show ?thesis unfolding step .
      qed
    qed
  qed
qed

lemma save_plan_retry_inv:
  assumes "save_plan (memory_runtime reg pe rp fc env) f p w = (r, w')" and "\<And>c. ctx_retry_count (f c) = ctx_retry_count c"
    and "retry_inv rp w"
  shows "retry_inv rp w'"
  using assms
  by (auto simp: save_plan_def ctx_m_def em_simps store_save_def memory_cp_save_def touch_def Let_def
      retry_inv_def)

lemma invoke_task_ends:
  assumes "honest reg" and "retry_inv rp w"
  shows "\<exists>r w'. invoke_task (memory_runtime reg pe rp fc env) t w = Some (r, w') \<and> retry_inv rp w'"
proof -
  let ?R = "memory_runtime reg pe rp fc env"
  let ?iid = "ctx_execution_id (w_ctx w) @ '':'' @ tn_task_id t"
  obtain er w1 where e: "execute ?R (tn_capability_id t) (tn_capability_version t) (tn_input_data t)
      (Some ?iid) None None w = (er, w1)" by fastforce
  note inv = execute_retry_inv [OF e assms]
  show ?thesis
    using e inv retry_loop_ends [OF assms(1) _ inv, of ?iid pe fc env]
    by (cases er) (auto simp: invoke_task_def Let_def)
qed

lemma fail_task_retry_inv:
  assumes "fail_task (memory_runtime reg pe rp fc env) tid e (p, w) = (r, (p', w'))" and "retry_inv rp w"
  shows "retry_inv rp w'"
  using assms save_plan_retry_inv [where f = "\<lambda>c. c"]
  by (auto simp: fail_task_def Let_def split: prod.splits sum.splits)

lemma run_task_ends:
  assumes "honest reg" and "retry_inv rp w"
  shows "\<exists>r p' w'. run_task (memory_runtime reg pe rp fc env) tid (p, w) = Some (r, (p', w')) \<and> retry_inv rp w'"
proof -
  let ?R = "memory_runtime reg pe rp fc env"
  let ?p1 = "update_task tid (\<lambda>t. t\<lparr>tn_status := TS_RUNNING\<rparr>) p"
  obtain sr w1 where s: "save_plan ?R (\<lambda>c. c\<lparr>ctx_current_node := Some tid\<rparr>) ?p1 w = (sr, w1)" by fastforce
  note inv1 = save_plan_retry_inv [OF s _ assms(2), simplified]
  show ?thesis
  proof (cases sr)
    case (Inl e)
    with s inv1 show ?thesis by (auto simp: run_task_def Let_def)
  next
    case (Inr u)
    show ?thesis
    proof (cases "map_of (pl_tasks ?p1) tid")
      case None
      with s Inr inv1 show ?thesis by (auto simp: run_task_def Let_def)
    next
      case (Some t)
      obtain ir w2 where i: "invoke_task ?R t w1 = Some (ir, w2)" and inv2: "retry_inv rp w2"
        using invoke_task_ends [OF assms(1) inv1] by blast
      show ?thesis
      proof (cases ir)
        case (Inl e)
        obtain r p' w' where f: "fail_task ?R tid e (?p1, w2) = (r, (p', w'))" by (metis prod.exhaust)
        with s Inr Some i Inl fail_task_retry_inv [OF f inv2] show ?thesis
          by (auto simp: run_task_def Let_def)
      next
        case res: (Inr res)
        obtain r p' w' where f: "settle_task ?R tid res (?p1, w2) = (r, (p', w'))" by (metis prod.exhaust)
        then have "retry_inv rp w'"
          using inv2 save_plan_retry_inv [where f = "\<lambda>c. c"] fail_task_retry_inv
          by (auto simp: settle_task_def Let_def split: prod.splits sum.splits)
        with s Inr Some i res f show ?thesis by (auto simp: run_task_def Let_def)
      qed
    qed
  qed
qed

lemma run_batch_ends:
  assumes "honest reg" and "retry_inv rp w"
  shows "\<exists>r p' w'. run_batch (memory_runtime reg pe rp fc env) tids failed (p, w) = Some (r, (p', w')) \<and> retry_inv rp w'"
  using assms(2)
proof (induction tids arbitrary: failed p w)
  case (Cons tid tids)
  obtain r1 p1 w1 where t: "run_task (memory_runtime reg pe rp fc env) tid (p, w) = Some (r1, (p1, w1))"
    and inv: "retry_inv rp w1"
    using run_task_ends [OF assms(1) Cons.prems] by blast
  show ?case using t inv Cons.IH [OF inv] by (cases r1) auto
qed simp

text \<open>Each batch takes tasks out of the pending ones.\<close>

definition pending :: "execution_plan \<Rightarrow> string set" where
  "pending p = {k. \<exists>t. map_of (pl_tasks p) k = Some t \<and> tn_status t = TS_PENDING}"

lemma finite_pending [simp]: "finite (pending p)"
  by (rule finite_subset [OF _ finite_dom_map_of [of "pl_tasks p"]]) (auto simp: pending_def)

lemma pending_ready:
  assumes "ready_tasks p = (ids, p1)"
  shows "pending p1 \<subseteq> pending p"
proof -
  let ?g = "\<lambda>t :: task_node. if task_ready (pl_tasks p) t then t\<lparr>tn_status := TS_READY\<rparr> else t"
  have "pl_tasks p1 = map (\<lambda>(k, t). (k, ?g t)) (pl_tasks p)"
    using assms by (auto simp: ready_tasks_def Let_def)
  then have "map_of (pl_tasks p1) k = map_option ?g (map_of (pl_tasks p) k)" for k
    by (simp only: map_of_map_value)
  then show ?thesis by (auto simp: pending_def split: if_splits)
qed

lemma pending_batch:
  assumes "ready_tasks p = (ids, p1)" and "ids \<noteq> []" and "orch_inv p"
    and "run_batch rt ids False (p1, w) = Some (Inr b, (p2, w2))"
  shows "pending p2 \<subset> pending p"
proof -
  note p1 = ready_tasks_plan [OF assms(1,3)]
  have rdy: "all_ready ids p1" using p1 by (simp add: all_ready_def)
  note p2 = run_batch_plan [OF assms(4) _ rdy]
  have "k \<in> pending p1 - set ids" if k: "k \<in> pending p2" for k
  proof -
    obtain t where t: "map_of (pl_tasks p2) k = Some t" "tn_status t = TS_PENDING"
      using k by (auto simp: pending_def)
    have settled: "\<forall>k\<in>set ids. \<exists>t. map_of (pl_tasks p2) k = Some t \<and> tn_status t \<in> {TS_SUCCEEDED, TS_FAILED}"
      and same: "\<forall>k. k \<notin> set ids \<longrightarrow> map_of (pl_tasks p2) k = map_of (pl_tasks p1) k"
      using p2 p1 by simp_all
    have "k \<notin> set ids"
    proof
      assume "k \<in> set ids"
      then obtain t' where "map_of (pl_tasks p2) k = Some t'" "tn_status t' \<in> {TS_SUCCEEDED, TS_FAILED}"
        using settled by blast
      with t show False by simp
    qed
    with same t show ?thesis by (simp add: pending_def)
  qed
  then have "pending p2 \<subseteq> pending p1 - set ids" by blast
  moreover have "pending p1 \<subseteq> pending p" by (rule pending_ready [OF assms(1)])
  moreover have "hd ids \<in> pending p" "hd ids \<in> set ids" using p1 assms(2) by (auto simp: pending_def)
  ultimately show ?thesis by auto
qed

lemma plan_loop_ends:
  assumes "honest reg" and "retry_inv rp w" and "orch_inv p"
  shows "\<exists>y. plan_loop (memory_runtime reg pe rp fc env) (p, w) = Some y"
  using assms(2,3)
proof (induction "card (pending p)" arbitrary: p w rule: less_induct)
  case less
  let ?R = "memory_runtime reg pe rp fc env"
  obtain ids p1 where rdy: "ready_tasks p = (ids, p1)" by fastforce
  show ?case
  proof (cases "is_complete p \<or> ids = []")
    case True
    then show ?thesis using rdy by (subst plan_loop.simps) (auto split: prod.splits)
  next
    case False
    obtain r p2 w2 where b: "run_batch ?R ids False (p1, w) = Some (r, (p2, w2))" and inv: "retry_inv rp w2"
      using run_batch_ends [OF assms(1) less.prems(1)] by blast
    show ?thesis
    proof (cases "r = Inr False")
      case True
      have "card (pending p2) < card (pending p)"
        using pending_batch [OF rdy _ less.prems(2) b [unfolded True]] False by (intro psubset_card_mono) auto
      moreover have "orch_inv p2"
        using run_batch_plan [OF b] ready_tasks_plan [OF rdy less.prems(2)] by (auto simp: all_ready_def)
      ultimately obtain y where "plan_loop ?R (p2, w2) = Some y" using less.hyps inv by blast
      then show ?thesis using False rdy b True by (subst plan_loop.simps, cases y) auto
    next
      case no: False
      then show ?thesis using False rdy b by (subst plan_loop.simps) (auto split: sum.splits)
    qed
  qed
qed

lemma execute_plan_ends:
  assumes "honest reg" and "retry_inv rp w" and "orch_inv p"
  shows "\<exists>y. execute_plan (memory_runtime reg pe rp fc env) (p, w) = Some y"
proof -
  obtain r w' where s: "save_plan (memory_runtime reg pe rp fc env) (\<lambda>c. c) p w = (r, w')" by fastforce
  from plan_loop_ends [OF assms(1) save_plan_retry_inv [OF s _ assms(2)] assms(3)] s show ?thesis
    by (auto simp: execute_plan_def split: sum.splits)
qed

section \<open>A run that does not end\<close>

text \<open>
  A failed result without a failure class is passed on as it is; the call leaves the context live
  and records nothing, so the next call finds the same situation.
\<close>

lemma conclude_unclassified:
  assumes "\<not> terminal_status (ctx_status (w_ctx w))" and "res_status res = IS_FAILED"
    and "reported_failure res = None" and "res_invocation_id res = iid"
  shows "\<exists>w'. conclude (memory_runtime reg pe rp None env) cid iid key lease k res w = (Inr res, w') \<and>
     ctx_status (w_ctx w') = ES_ROUTED \<and> ctx_identity (w_ctx w') = ctx_identity (w_ctx w) \<and>
     w_idem w' = w_idem w \<and> w_token w' = w_token w"
  using assms
  by (simp add: conclude_def recover_reported_def observe_result_def seal_result_def cache_terminal_result_def
      memory_steps ewhen_def)

text \<open>The situation in which a call is admitted again and again.\<close>

definition stuck ::
  "(memory_checkpoints, memory_idempotency, memory_ledger) runtime \<Rightarrow> string \<Rightarrow> string \<Rightarrow> pydict \<Rightarrow> string \<Rightarrow>
     invocation_result \<Rightarrow> execution_identity \<Rightarrow> cancellation_token \<Rightarrow> memory_idempotency \<Rightarrow> bool" where
  "stuck rt cid ver input iid res ident tok st \<longleftrightarrow>
     (\<forall>w. ctx_identity (w_ctx w) = ident \<longrightarrow> w_token w = tok \<longrightarrow> w_idem w = st \<longrightarrow>
          \<not> terminal_status (ctx_status (w_ctx w)) \<longrightarrow>
        (\<exists>w'. execute rt cid ver input (Some iid) None None w = (Inr res, w') \<and>
              ctx_identity (w_ctx w') = ident \<and> w_token w' = tok \<and> w_idem w' = st \<and>
              \<not> terminal_status (ctx_status (w_ctx w'))))"

lemma stuck_retry_loop:
  assumes "stuck rt cid ver input iid res ident tok st" and "wants_retry res"
    and "ctx_identity (w_ctx w) = ident" "w_token w = tok" "w_idem w = st"
    and "\<not> terminal_status (ctx_status (w_ctx w))"
  shows "retry_loop rt cid ver input iid res w = None"
proof (rule ccontr)
  assume "retry_loop rt cid ver input iid res w \<noteq> None"
  then obtain y where "retry_loop rt cid ver input iid res w = Some y" by blast
  then have "\<not> (stuck rt cid ver input iid res ident tok st \<and> wants_retry res \<and> ctx_identity (w_ctx w) = ident \<and>
       w_token w = tok \<and> w_idem w = st \<and> \<not> terminal_status (ctx_status (w_ctx w)))"
  proof (induction rule: retry_loop.raw_induct [rotated, consumes 1, case_names step])
    case (step f rt cid ver input iid res w y)
    show ?case
    proof
      assume a: "stuck rt cid ver input iid res ident tok st \<and> wants_retry res \<and> ctx_identity (w_ctx w) = ident \<and>
         w_token w = tok \<and> w_idem w = st \<and> \<not> terminal_status (ctx_status (w_ctx w))"
      then obtain w' where w': "execute rt cid ver input (Some iid) None None w = (Inr res, w')"
        "ctx_identity (w_ctx w') = ident" "w_token w' = tok" "w_idem w' = st" "\<not> terminal_status (ctx_status (w_ctx w'))"
        unfolding stuck_def by blast
      with step(2) a have "f rt cid ver input iid res w' = Some y" by simp
      from step(1) [OF this] a w' show False by blast
    qed
  qed
  with assms show False by blast
qed

lemma stuck_unclassified:
  assumes get: "capability_get cid ver reg = Inr entry" "ce_contract entry = Some k"
    and inp: "conforms (cc_input_schema k) (PDict input)"
    and perm: "\<And>req. ctx_tenant_id (ir_execution req) = eid_tenant_id ident \<Longrightarrow> policy_permits pe req k"
    and inv: "\<And>req n. ir_invocation_id req = iid \<Longrightarrow> cap_invoke (ce_capability entry) req n tok = (Inr res, tok)"
    and res: "res_status res = IS_FAILED" "reported_failure res = None" "res_invocation_id res = iid"
    and tok: "\<not> tok_cancelled tok" and iid: "iid \<noteq> []" and st: "map_of st iid = None"
  shows "stuck (memory_runtime reg pe rp None env) cid ver input iid res ident tok st"
  unfolding stuck_def
proof (intro allI impI)
  fix w :: memory_world
  assume w: "ctx_identity (w_ctx w) = ident" "w_token w = tok" "w_idem w = st"
    "\<not> terminal_status (ctx_status (w_ctx w))"
  let ?R = "memory_runtime reg pe rp None env"
  let ?req = "mk_request iid cid input k (admitted_world ?R w)"
  have "ctx_tenant_id (ir_execution ?req) = eid_tenant_id ident"
    using w(1) by (simp add: mk_request_def admitted_world_def Let_def)
  then have "policy_authorize pe ?req k = Inr True" by (intro policy_authorize_permits perm)
  moreover have "validate_input ?req k = Inr ()" using inp by (simp add: validate_input_iff mk_request_def)
  ultimately have adm: "admission ?R cid ver input iid None w = Some (ce_capability entry, k)"
    using get tok w by (simp add: admission_def fence_open_def Let_def raise_if_cancelled_def)
  have miss: "map_of (w_idem w) (storage_key None iid) = None" using st w(3) by (simp add: storage_key_def)
  obtain w2 t where run: "execute ?R cid ver input (Some iid) None None w =
       conclude ?R cid iid (storage_key None iid) None k res w2"
    and w2: "w_ctx w2 = (w_ctx w)\<lparr>ctx_status := ES_EXECUTING, ctx_current_node := Some cid, ctx_updated_at := t\<rparr>"
      "w_idem w2 = w_idem w" "w_token w2 = w_token w"
    using adm iid miss inv [folded w(2)] by (rule execute_invokes_memory)
  have "\<not> terminal_status (ctx_status (w_ctx w2))" by (simp add: w2(1) terminal_status_def)
  from conclude_unclassified [OF this res, of reg pe rp env cid "storage_key None iid" None k]
  show "\<exists>w'. execute ?R cid ver input (Some iid) None None w = (Inr res, w') \<and>
      ctx_identity (w_ctx w') = ident \<and> w_token w' = tok \<and> w_idem w' = st \<and>
      \<not> terminal_status (ctx_status (w_ctx w'))"
    using run w w2 by (auto simp: terminal_status_def)
qed

end
