(* ===== verification/Runtime_Properties.thy ===== *)
theory Runtime_Properties
  imports Kernel_Runtime_Laws
begin

text \<open>
  The properties of \<^verbatim>\<open>ExecutionRuntime\<close>, stated over the runtimes the program assembles, and a
  sample runtime (one capability that echoes its input) on which their hypotheses are seen to hold.
\<close>

section \<open>A sample runtime\<close>

definition sample_env :: environ where
  "sample_env = \<lparr>clock = int, fresh_uuid = (\<lambda>n. replicate n (CHR ''u''))\<rparr>"

definition sample_contract :: capability_contract where
  "sample_contract = new_contract ''echo'' ''1'' ''echoes its input''"

definition echo_invoke :: invoke_fn where
  "echo_invoke req n tok =
     (Inr ((new_result (ir_invocation_id req) ''echo'' IS_SUCCEEDED)\<lparr>res_output := PDict (ir_input req)\<rparr>), tok)"

definition unsafe_result :: "string \<Rightarrow> invocation_result" where
  "unsafe_result iid = (new_result iid ''echo'' IS_FAILED)\<lparr>res_error := Some [(''failure_class'', PStr ''safety'')]\<rparr>"

definition sample_registry :: "invoke_fn \<Rightarrow> capability_registry" where
  "sample_registry f =
     [((''echo'', ''1''),
       \<lparr>ce_capability = \<lparr>cap_contract = Some sample_contract, cap_invoke = f\<rparr>,
        ce_contract = Some sample_contract, ce_id = ''echo'', ce_version = ''1''\<rparr>)]"

definition sample_identity :: execution_identity where
  "sample_identity =
     \<lparr>eid_execution_id = ''00000000-0000-4000-8000-00000000000a'', eid_tenant_id = ''acme'', eid_workflow_id = None,
      eid_workflow_version = None\<rparr>"

definition sample_world :: "'c \<Rightarrow> 'i \<Rightarrow> 'e \<Rightarrow> ('c, 'i, 'e) world" where
  "sample_world c i e =
     \<lparr>w_ctx = new_context sample_identity ''say hello'' 0 0, w_cp = c, w_idem = i, w_ev = e,
      w_token = new_token, w_tick = 0\<rparr>"



text \<open>A codec whose time stamps are in unary, so that they can be read back.\<close>

definition unary :: "int \<Rightarrow> string" where
  "unary t = (if t < 0 then CHR ''-'' else CHR ''+'') # replicate (nat \<bar>t\<bar>) (CHR ''1'')"

fun of_unary :: "string \<Rightarrow> int option" where
  "of_unary [] = None"
| "of_unary (c # ds) = Some (if c = CHR ''-'' then - int (length ds) else int (length ds))"

definition sample_codec :: codec where
  "sample_codec = \<lparr>cd_iso = unary, cd_fromiso = of_unary, cd_sha = (\<lambda>_. ''digest'')\<rparr>"

lemma sample_codec_ok: "codec_ok sample_codec"
  by (simp add: codec_ok_def sample_codec_def unary_def)

abbreviation sample_rt :: "invoke_fn \<Rightarrow> (memory_checkpoints, memory_idempotency, memory_ledger) runtime" where
  "sample_rt f \<equiv> memory_runtime (sample_registry f) default_policy_engine default_recovery_policy None sample_env"

abbreviation sample_db :: "invoke_fn \<Rightarrow> (sqlite_checkpoints, sqlite_idempotency, sqlite_ledger) runtime" where
  "sample_db f \<equiv> sqlite_runtime sample_codec (sample_registry f) default_policy_engine
     default_recovery_policy None sample_env"

abbreviation sample_capability :: "invoke_fn \<Rightarrow> capability" where
  "sample_capability f \<equiv> \<lparr>cap_contract = Some sample_contract, cap_invoke = f\<rparr>"

lemmas sample_defs = sample_world_def sample_identity_def new_context_def new_token_def

lemma sample_admission:
  assumes "rt_registry rt = sample_registry f" and "rt_fencing rt = None"
    and "rt_authorize rt = policy_authorize default_policy_engine"
    and "\<not> terminal_status (ctx_status (w_ctx w))" and "ctx_tenant_id (w_ctx w) \<noteq> []"
    and "\<not> tok_cancelled (w_token w)"
  shows "admission rt ''echo'' ''1'' input iid None w = Some (sample_capability f, sample_contract)"
proof -
  have "capability_get ''echo'' ''1'' (sample_registry f) =
      Inr \<lparr>ce_capability = sample_capability f, ce_contract = Some sample_contract, ce_id = ''echo'',
           ce_version = ''1''\<rparr>"
    by (simp add: capability_get_def sample_registry_def)
  moreover have "validate_input req sample_contract = Inr ()" for req
    by (simp add: validate_input_iff sample_contract_def new_contract_def)
  moreover have "policy_authorize default_policy_engine
      (mk_request iid ''echo'' input sample_contract (admitted_world rt w)) sample_contract = Inr True"
    using assms(5)
    by (intro policy_authorize_permits)
      (simp add: policy_permits_def mk_request_def admitted_world_def Let_def sample_contract_def
        new_contract_def default_policy_engine_def)
  ultimately show ?thesis
    using assms by (simp add: admission_def fence_open_def Let_def raise_if_cancelled_def)
qed

lemma sample_live [simp]:
  "\<not> terminal_status (ctx_status (w_ctx (sample_world c i e)))"
  "ctx_tenant_id (w_ctx (sample_world c i e)) = ''acme''"
  "\<not> tok_cancelled (w_token (sample_world c i e))"
  "w_idem (sample_world c i e) = i"
  by (simp_all add: sample_defs terminal_status_def)

lemma sample_saveable: "saveable (w_ctx (sample_world c i e))"
proof -
  have "uuid_parse ''00000000-0000-4000-8000-00000000000a'' = Some ''00000000-0000-4000-8000-00000000000a''"
    by code_simp
  then show ?thesis by (simp add: saveable_def sample_defs)
qed

section \<open>Safety of every call\<close>

text \<open>
  C1. Whatever a call of \<open>execute\<close> does on the durable (SQLite) runtime, and whether it returns or
  raises: the execution identity is kept, a terminal status is final, the evidence ledger only
  grows at its end, the result recorded for a key is never replaced, and the retry counter never
  decreases and never passes the limit of the recovery policy.
\<close>

theorem execute_safe:
  assumes "execute (sqlite_runtime cd reg pe rp fc env) cid ver input iid idk lease w = (r, w')"
  shows "ctx_identity (w_ctx w') = ctx_identity (w_ctx w) \<and>
     (terminal_status (ctx_status (w_ctx w)) \<longrightarrow> ctx_status (w_ctx w') = ctx_status (w_ctx w)) \<and>
     prefix (sqlite_ev_list None (w_ev w)) (sqlite_ev_list None (w_ev w')) \<and>
     (sqlite_idem_wf (w_idem w) \<longrightarrow> sqlite_idem_wf (w_idem w') \<and>
        (\<forall>k r. sqlite_idem_get k (w_idem w) = Inr (Some r) \<longrightarrow>
               sqlite_idem_get k (w_idem w') = Inr (Some r))) \<and>
     ctx_retry_count (w_ctx w) \<le> ctx_retry_count (w_ctx w') \<and>
     (ctx_retry_count (w_ctx w) \<le> rp_max_retries rp \<longrightarrow> ctx_retry_count (w_ctx w') \<le> rp_max_retries rp)"
  using confinedD' [OF sqlite_rt.confined_execute assms] by (simp add: sqlite_rt.kernel_step_def)

theorem execute_safe_witness:
  "\<exists>r w'. execute (sample_db echo_invoke) ''echo'' ''1'' [] (Some ''i1'') None None
        (sample_world [] [] []) = (r, w') \<and>
     ctx_identity (w_ctx w') = sample_identity \<and> sqlite_idem_wf (w_idem w') \<and>
     0 \<le> ctx_retry_count (w_ctx w') \<and> ctx_retry_count (w_ctx w') \<le> 2"
proof -
  let ?w = "sample_world [] [] [] :: sqlite_world"
  obtain r w' where run: "execute (sample_db echo_invoke) ''echo'' ''1'' [] (Some ''i1'') None None ?w = (r, w')" by fastforce
  have "sqlite_idem_wf (w_idem ?w)" by (simp add: sample_world_def sqlite_idem_wf_def)
  moreover have "ctx_retry_count (w_ctx ?w) = 0" by (simp add: sample_defs)
  moreover have "ctx_identity (w_ctx ?w) = sample_identity" by (simp add: sample_world_def new_context_def)
  ultimately show ?thesis
    using execute_safe [OF run] run by (auto simp: default_recovery_policy_def)
qed

section \<open>The successful path\<close>

text \<open>
  C19. The successful path: an admitted call whose key has no recorded result, to a capability that
  succeeds with conforming output, returns that result; it leaves the context routed with the output
  in working memory, the result recorded under its key, a checkpoint of the final state, and exactly
  the seven evidence events of a complete invocation, in order.
\<close>

theorem execute_success:
  assumes "admission (memory_runtime reg pe rp None env) cid ver input iid lease w = Some (cap, k)"
    and "iid \<noteq> []" and "map_of (w_idem w) (storage_key idk iid) = None"
    and "\<And>req n. ir_invocation_id req = iid \<Longrightarrow> cap_invoke cap req n (w_token w) = (Inr res, w_token w)"
    and "res_status res = IS_SUCCEEDED" and "res_invocation_id res = iid"
    and "conforms (cc_output_schema k) (res_output res)"
  shows "\<exists>w'. execute (memory_runtime reg pe rp None env) cid ver input (Some iid) idk lease w = (Inr res, w') \<and>
     ctx_status (w_ctx w') = ES_ROUTED \<and>
     map_of (ctx_working_memory (w_ctx w')) (''result:'' @ iid) = Some (res_output res) \<and>
     map_of (w_idem w') (storage_key idk iid) = Some res \<and>
     (\<exists>t. map_of (w_cp w') (ctx_execution_id (w_ctx w)) =
        Some ((w_ctx w')\<lparr>ctx_status := ES_CHECKPOINTING, ctx_updated_at := t\<rparr>)) \<and>
     ev_types w' = ev_types w @ [''execution.received'', ''execution.input_validated'',
       ''execution.authorized'', ''capability.started'', ''capability.completed'',
       ''execution.idempotency_recorded'', ''execution.checkpointed'']"
  using assms by (intro execute_memory_success) (simp_all add: validate_output_iff)

definition hello :: invocation_result where
  "hello = (new_result ''i1'' ''echo'' IS_SUCCEEDED)\<lparr>res_output := PStr ''hello''\<rparr>"

lemma hello_conforms [simp]:
  "conforms (cc_output_schema sample_contract) v" "res_status hello = IS_SUCCEEDED"
  "res_invocation_id hello = ''i1''" "res_output hello = PStr ''hello''"
  by (simp_all add: sample_contract_def new_contract_def hello_def new_result_def)

theorem execute_success_witness:
  "\<exists>w'. execute (sample_rt (\<lambda>req n tok. (Inr hello, tok))) ''echo'' ''1'' [] (Some ''i1'') None None
       (sample_world [] [] []) = (Inr hello, w') \<and>
     ctx_status (w_ctx w') = ES_ROUTED \<and>
     map_of (ctx_working_memory (w_ctx w')) ''result:i1'' = Some (PStr ''hello'') \<and>
     map_of (w_idem w') ''i1'' = Some hello \<and> length (w_ev w') = 7"
proof -
  let ?f = "\<lambda>req n tok. (Inr hello, tok)"
  let ?w = "sample_world [] [] [] :: memory_world"
  have adm: "admission (sample_rt ?f) ''echo'' ''1'' [] ''i1'' None ?w =
      Some (sample_capability ?f, sample_contract)"
    by (rule sample_admission) simp_all
  obtain w' where "execute (sample_rt ?f) ''echo'' ''1'' [] (Some ''i1'') None None ?w = (Inr hello, w')"
    and "ctx_status (w_ctx w') = ES_ROUTED"
    and "map_of (ctx_working_memory (w_ctx w')) (''result:'' @ ''i1'') = Some (res_output hello)"
    and "map_of (w_idem w') (storage_key None ''i1'') = Some hello"
    and t: "ev_types w' = ev_types ?w @ [''execution.received'', ''execution.input_validated'',
       ''execution.authorized'', ''capability.started'', ''capability.completed'',
       ''execution.idempotency_recorded'', ''execution.checkpointed'']"
    using execute_success [OF adm, of None hello] by (auto simp: storage_key_def)
  moreover have "length (w_ev w') = 7"
    using arg_cong [OF t, of length] by (simp add: ev_types_def sample_world_def)
  ultimately show ?thesis by (auto simp: storage_key_def)
qed

section \<open>Exactly once\<close>

text \<open>
  C2. Exactly once: after \<open>execute\<close> has returned a success for an idempotency key, and after any further
  calls on the same runtime by this or any other execution, a call with the same key that is admitted
  returns that result, starts no capability and changes neither the checkpoints nor the results.
\<close>

theorem success_executes_once:
  assumes "execute (memory_runtime reg pe rp fc env) cid ver input (Some iid) idk lease w = (Inr res, w1)"
    and "iid \<noteq> []" and "res_status res = IS_SUCCEEDED"
    and "kernel_run (memory_runtime reg pe rp fc env) w1 w2"
    and "admission (memory_runtime reg pe rp fc env) cid' ver' input' iid' lease' w2 = Some (cap, k)"
    and "iid' \<noteq> []" and "storage_key idk' iid' = storage_key idk iid"
  shows "\<exists>w3. execute (memory_runtime reg pe rp fc env) cid' ver' input' (Some iid') idk' lease' w2
       = (Inr res, w3) \<and>
     w_idem w3 = w_idem w2 \<and> w_cp w3 = w_cp w2 \<and> silent memory_ev_list w2 w3"
  using memory_rt.success_is_replayed [OF assms(1-3) _ assms(4-7)] by simp

theorem success_executes_once_witness:
  "\<exists>w1 w2 w3. kernel_run (sample_rt (\<lambda>req n tok. (Inr hello, tok))) w1 w2 \<and>
     execute (sample_rt (\<lambda>req n tok. (Inr hello, tok))) ''echo'' ''1'' [] (Some ''i1'') None None
       (sample_world [] [] []) = (Inr hello, w1) \<and>
     execute (sample_rt (\<lambda>req n tok. (Inr hello, tok))) ''echo'' ''1'' [] (Some ''i2'') (Some ''i1'') None w2
       = (Inr hello, w3) \<and> w_idem w3 = w_idem w2 \<and> silent memory_ev_list w2 w3"
proof -
  let ?f = "\<lambda>req n tok. (Inr hello, tok)"
  let ?w = "sample_world [] [] [] :: memory_world"
  have adm: "admission (sample_rt ?f) ''echo'' ''1'' [] iid None w =
      Some (sample_capability ?f, sample_contract)"
    if "\<not> terminal_status (ctx_status (w_ctx w))" "ctx_tenant_id (w_ctx w) \<noteq> []"
      "\<not> tok_cancelled (w_token w)" for iid w
    by (rule sample_admission) (simp_all add: that)
  obtain w1 where run: "execute (sample_rt ?f) ''echo'' ''1'' [] (Some ''i1'') None None ?w = (Inr hello, w1)"
    using execute_memory_success [OF adm, of ?w "''i1''" None hello] by (auto simp: validate_output_iff)
  let ?w2 = "w1\<lparr>w_ctx := w_ctx ?w, w_token := w_token ?w\<rparr>"
  have later: "kernel_run (sample_rt ?f) w1 ?w2" by (rule run_switch) (rule run_start)
  have "admission (sample_rt ?f) ''echo'' ''1'' [] ''i2'' None ?w2 =
      Some (sample_capability ?f, sample_contract)"
    by (rule adm) simp_all
  note again = this
  show ?thesis
    using success_executes_once [OF run _ _ later again, of "Some ''i1''"] run later
    by (auto simp: storage_key_def)
qed

section \<open>Complete mediation\<close>

text \<open>
  C3. Complete mediation: when a call has announced the start of a capability,
  then the execution was not terminal, the fence was open, the capability was registered with a
  contract, nobody had cancelled, the input conforms to the contract's schema, and the deny-by-default
  policy permits the contract: a tenant is set, the risk is within the limit, every permission is
  granted and irreversible effects are allowed.
\<close>

theorem started_only_when_permitted:
  assumes "execute (memory_runtime reg pe rp fc env) cid ver input (Some iid) idk lease w = (r, w')"
    and "iid \<noteq> []" and "\<not> silent memory_ev_list w w'"
  shows "\<not> terminal_status (ctx_status (w_ctx w)) \<and>
     fence_open (memory_runtime reg pe rp fc env) lease (w_tick w) \<and> \<not> tok_cancelled (w_token w) \<and>
     (\<exists>entry k. capability_get cid ver reg = Inr entry \<and> ce_contract entry = Some k \<and>
        conforms (cc_input_schema k) (PDict input) \<and> ctx_tenant_id (w_ctx w) \<noteq> [] \<and>
        risk_order (cc_risk_level k) \<le> risk_order (pe_maximum_risk pe) \<and>
        set (cc_permissions k) \<subseteq> set (pe_allowed_permissions pe) \<and>
        (cc_side_effects k = SE_IRREVERSIBLE \<longrightarrow> pe_allow_irreversible pe))"
proof -
  let ?R = "memory_runtime reg pe rp fc env"
  obtain cap k where adm: "admission ?R cid ver input iid lease w = Some (cap, k)"
    using memory_rt.execute_mediated [OF _ assms(2), of reg pe rp fc env cid ver input lease w idk]
      assms(1,3) by (cases "admission ?R cid ver input iid lease w") auto
  let ?req = "mk_request iid cid input k (admitted_world ?R w)"
  from adm obtain entry where ent: "capability_get cid ver reg = Inr entry" "ce_contract entry = Some k"
    and live: "\<not> terminal_status (ctx_status (w_ctx w))" "fence_open ?R lease (w_tick w)"
    and tok: "raise_if_cancelled (w_token w) = Inr ()"
    and inp: "validate_input ?req k = Inr ()" and auth: "\<not> isl (policy_authorize pe ?req k)"
    by (auto simp: admission_def Let_def not_isl_unit split: if_splits sum.splits option.splits)
  have "conforms (cc_input_schema k) (PDict input)"
    using inp by (simp add: validate_input_iff mk_request_def)
  moreover have "\<not> tok_cancelled (w_token w)"
    using tok by (auto simp: raise_if_cancelled_def split: if_splits)
  moreover have "policy_permits pe ?req k" using auth default_policy.authorize_isl by blast
  ultimately show ?thesis
    using ent live by (auto simp: policy_permits_def less_eq_risk_level_def mk_request_def admitted_world_def Let_def)
qed

lemma started_not_silent:
  assumes "ev_types w' = ev_types w @ ts" and "''capability.started'' \<in> set ts"
  shows "\<not> silent memory_ev_list w w'"
  using assms
  by (auto simp: silent_def memory_ev_list_def ev_types_def starts_capability_def list_all_iff) blast

theorem started_only_when_permitted_witness:
  "\<exists>r w'. execute (sample_rt (\<lambda>req n tok. (Inr hello, tok))) ''echo'' ''1'' [] (Some ''i1'') None None
       (sample_world [] [] []) = (r, w') \<and> \<not> silent memory_ev_list (sample_world [] [] []) w' \<and>
     (\<exists>entry k. capability_get ''echo'' ''1'' (sample_registry (\<lambda>req n tok. (Inr hello, tok))) = Inr entry \<and>
        ce_contract entry = Some k \<and> conforms (cc_input_schema k) (PDict []))"
proof -
  let ?f = "\<lambda>req n tok. (Inr hello, tok)"
  let ?w = "sample_world [] [] [] :: memory_world"
  have adm: "admission (sample_rt ?f) ''echo'' ''1'' [] ''i1'' None ?w =
      Some (sample_capability ?f, sample_contract)"
    by (rule sample_admission) simp_all
  obtain w' where run: "execute (sample_rt ?f) ''echo'' ''1'' [] (Some ''i1'') None None ?w = (Inr hello, w')"
    and t: "ev_types w' = ev_types ?w @ [''execution.received'', ''execution.input_validated'',
       ''execution.authorized'', ''capability.started'', ''capability.completed'',
       ''execution.idempotency_recorded'', ''execution.checkpointed'']"
    using execute_memory_success [OF adm, of None hello] by (auto simp: storage_key_def validate_output_iff)
  have started: "\<not> silent memory_ev_list ?w w'" by (rule started_not_silent [OF t]) simp
  from started_only_when_permitted [OF run _ started] run started show ?thesis by auto
qed

section \<open>Fencing\<close>

text \<open>
  C10. A worker that has lost its lease writes nothing: if another claim has superseded the lease, and the
  lease table since then has only seen claims and renewals of any workers, then \<open>execute\<close> with the old
  lease changes neither the checkpoint store nor the result store, at whatever moments the table is
  looked at; on a live execution it raises \<open>FencingError\<close> and nothing but the tick changes.
\<close>

theorem superseded_worker_writes_nothing:
  assumes "\<forall>n\<ge>w_tick w. (lease_step ttl)\<^sup>*\<^sup>* t0 (fst (seen n))" and "superseded l t0"
    and "execute (sqlite_runtime cd reg pe rp (Some seen) env) cid ver input (Some iid) idk (Some l) w = (r, w')"
    and "iid \<noteq> []"
  shows "w_cp w' = w_cp w \<and> w_idem w' = w_idem w \<and>
     (\<not> terminal_status (ctx_status (w_ctx w)) \<longrightarrow>
        (\<exists>e. r = Inl e \<and> exn_class e = FencingError \<and> (\<exists>n. w' = w\<lparr>w_tick := n\<rparr>)))"
proof -
  let ?R = "sqlite_runtime cd reg pe rp (Some seen) env"
  have shut: "\<not> fence_open ?R (Some l) n" if "w_tick w \<le> n" for n
    using superseded_not_current [OF superseded_steps [OF _ assms(2), of ttl "fst (seen n)"]] assms(1) that
    by (auto simp: fence_open_def split: prod.splits)
  have "w_cp w' = w_cp w \<and> w_idem w' = w_idem w"
    using confinedD' [OF fenced_execute assms(3)] shut by (auto simp: fenced_write_def)
  moreover have "\<exists>e. r = Inl e \<and> exn_class e = FencingError \<and> (\<exists>n. w' = w\<lparr>w_tick := n\<rparr>)"
    if "\<not> terminal_status (ctx_status (w_ctx w))"
    using execute_fenced_off [OF that assms(4) shut, of cid ver input idk] shut [of "w_tick w"] assms(3,4) that
    by (auto simp: execute_def em_simps logical_id_given terminal_status_def assert_fence_def fence_open_def
        lease_assert_current_def split: prod.splits)
  ultimately show ?thesis by blast
qed

definition old_lease :: worker_lease where
  "old_lease = \<lparr>wl_execution_id = ''x'', wl_worker_id = ''w1'', wl_epoch = 1, wl_lease_expires_at = 10\<rparr>"

definition taken_over :: lease_table where
  "taken_over = [(''x'', \<lparr>lr_worker_id = ''w2'', lr_epoch = 2, lr_expires_at = 30, lr_updated_at = 20\<rparr>)]"

theorem superseded_worker_writes_nothing_witness:
  "\<exists>e n. execute (sqlite_runtime sample_codec (sample_registry echo_invoke) default_policy_engine
        default_recovery_policy (Some (\<lambda>n. (taken_over, 25))) sample_env) ''echo'' ''1'' [] (Some ''i1'') None
        (Some old_lease) (sample_world [] [] []) = (Inl e, (sample_world [] [] [])\<lparr>w_tick := n\<rparr>) \<and>
     exn_class e = FencingError"
proof -
  let ?seen = "\<lambda>n :: nat. (taken_over, 25 :: int)"
  let ?w = "sample_world [] [] [] :: sqlite_world"
  let ?R = "sqlite_runtime sample_codec (sample_registry echo_invoke) default_policy_engine
        default_recovery_policy (Some ?seen) sample_env"
  have sup: "superseded old_lease taken_over" by (simp add: superseded_def old_lease_def taken_over_def)
  have tab: "\<forall>n\<ge>w_tick ?w. (lease_step 10)\<^sup>*\<^sup>* taken_over (fst (?seen n))" by simp
  obtain r w' where run: "execute ?R ''echo'' ''1'' [] (Some ''i1'') None (Some old_lease) ?w = (r, w')"
    by fastforce
  from superseded_worker_writes_nothing [OF tab sup run] show ?thesis using run by auto
qed

section \<open>Denials and failures\<close>

text \<open>
  A denial leaves a trace and nothing else: when the default policy does not permit a validated
  request, \<open>execute\<close> raises \<open>AuthorizationDenied\<close>, the ledger gains the events
  \<open>execution.input_validated\<close> and \<open>execution.authorization_denied\<close>, and neither the checkpoints nor the
  results change.
\<close>

theorem denial_is_recorded:
  assumes "\<not> terminal_status (ctx_status (w_ctx w))" and "iid \<noteq> []"
    and "capability_get cid ver reg = Inr entry" and "ce_contract entry = Some k"
    and "\<not> tok_cancelled (w_token w)" and "conforms (cc_input_schema k) (PDict input)"
    and "\<not> policy_permits pe (mk_request iid cid input k w) k"
  shows "\<exists>x w'. execute (memory_runtime reg pe rp None env) cid ver input (Some iid) idk lease w = (Inl x, w') \<and>
     exn_class x = AuthorizationDenied \<and> w_cp w' = w_cp w \<and> w_idem w' = w_idem w \<and>
     ev_types w' = ev_types w @ [''execution.input_validated'', ''execution.authorization_denied'']"
proof -
  let ?R = "memory_runtime reg pe rp None env"
  let ?wa = "admitted_world ?R w"
  let ?req = "mk_request iid cid input k ?wa"
  have "\<not> policy_permits pe ?req k"
    using assms(7) by (simp add: policy_permits_def mk_request_def admitted_world_def Let_def)
  then obtain x where x: "policy_authorize pe ?req k = Inl x"
    using default_policy.authorize_isl [of pe ?req k] by (cases "policy_authorize pe ?req k") auto
  obtain w' where a: "authorize_m ?R cid ?req k ?wa = (Inl x, w')"
    and w': "w_cp w' = w_cp ?wa" "w_idem w' = w_idem ?wa"
      "ev_types w' = ev_types ?wa @ [''execution.input_validated'', ''execution.authorization_denied'']"
    using authorize_denied_memory [OF x, of reg rp None env cid ?wa] by blast
  have "validate_input ?req k = Inr ()" using assms(6) by (simp add: validate_input_iff mk_request_def)
  moreover have wa: "w_token ?wa = w_token w" "w_cp ?wa = w_cp w" "w_idem ?wa = w_idem w" "ev_types ?wa = ev_types w"
    by (simp_all add: admitted_world_def Let_def ev_types_def)
  moreover have "fence_open ?R lease (w_tick w)" by (simp add: fence_open_def)
  ultimately have "execute ?R cid ver input (Some iid) idk lease w = (Inl x, w')"
    using execute_governs [OF assms(1,2), of ?R lease cid ver entry input idk] assms(3-5) a
    by (simp add: govern_def em_simps raise_if_cancelled_live)
  with w' wa default_policy.authorize_denied [OF x] show ?thesis by auto
qed

definition strict_engine :: policy_engine where
  "strict_engine = default_policy_engine\<lparr>pe_maximum_risk := RL_LOW\<rparr>"

definition risky_entry :: capability_entry where
  "risky_entry =
     \<lparr>ce_capability = sample_capability echo_invoke, ce_contract = Some (sample_contract\<lparr>cc_risk_level := RL_HIGH\<rparr>),
      ce_id = ''echo'', ce_version = ''1''\<rparr>"

theorem denial_is_recorded_witness:
  "\<exists>x w'. execute (memory_runtime [((''echo'', ''1''), risky_entry)] strict_engine default_recovery_policy None
       sample_env) ''echo'' ''1'' [] (Some ''i1'') None None (sample_world [] [] []) = (Inl x, w') \<and>
     exn_class x = AuthorizationDenied \<and> w_cp w' = [] \<and> w_idem w' = [] \<and>
     ev_types w' = [''execution.input_validated'', ''execution.authorization_denied'']"
proof -
  let ?w = "sample_world [] [] [] :: memory_world"
  let ?k = "sample_contract\<lparr>cc_risk_level := RL_HIGH\<rparr>"
  have "\<not> policy_permits strict_engine (mk_request ''i1'' ''echo'' [] ?k ?w) ?k"
    by (simp add: policy_permits_def strict_engine_def less_eq_risk_level_def)
  moreover have "conforms (cc_input_schema ?k) (PDict [])"
    by (simp add: sample_contract_def new_contract_def)
  moreover have "capability_get ''echo'' ''1'' [((''echo'', ''1''), risky_entry)] = Inr risky_entry"
    by (simp add: capability_get_def)
  moreover have "ce_contract risky_entry = Some ?k" by (simp add: risky_entry_def)
  ultimately show ?thesis
    using denial_is_recorded [of ?w "''i1''" "''echo''" "''1''" "[((''echo'', ''1''), risky_entry)]" risky_entry ?k
        "[]" strict_engine default_recovery_policy sample_env None None]
    by (simp add: ev_types_def sample_world_def terminal_status_def new_context_def new_token_def)
qed

text \<open>
  A reported failure that recovery answers with \<open>escalate\<close> or \<open>stop\<close> is never observed: the recovery
  policy has closed the context, so the move to \<open>OBSERVING\<close> raises \<open>ValueError\<close> out of \<open>execute\<close>; the
  capability's result is lost to the caller and nothing is recorded under its key.
\<close>

theorem terminal_failure_raises:
  assumes "admission (memory_runtime reg pe rp None env) cid ver input iid lease w = Some (cap, k)"
    and "iid \<noteq> []" and "map_of (w_idem w) (storage_key idk iid) = None"
    and "\<And>req n. ir_invocation_id req = iid \<Longrightarrow> cap_invoke cap req n (w_token w) = (Inr res, w_token w)"
    and "res_status res = IS_FAILED" and "res_invocation_id res = iid"
    and "res_error res = Some err" and "map_of err ''failure_class'' = Some (PStr (failure_class_value f))"
    and "f \<in> {FC_SAFETY, FC_PERMISSION, FC_UNKNOWN} \<or>
         f = FC_TRANSIENT \<and> rp_max_retries rp \<le> ctx_retry_count (w_ctx w)"
  shows "\<exists>m w'. execute (memory_runtime reg pe rp None env) cid ver input (Some iid) idk lease w =
       (Inl (Exn ValueError m), w') \<and>
     terminal_status (ctx_status (w_ctx w')) \<and> w_idem w' = w_idem w"
proof (rule execute_memory_terminal_failure [OF assms(1-4)])
  show "reported_failure res = Some f" by (simp add: reported_failure_def assms(5,7,8))
  show "rd_action (classify rp (FEnum f) (w_ctx w)) \<in> {''escalate'', ''stop''}"
    using assms(9) by (auto simp: classify_table)
qed (simp_all add: assms(6))

theorem terminal_failure_raises_witness:
  "\<exists>m w'. execute (sample_rt (\<lambda>req n tok. (Inr (unsafe_result ''i1''), tok))) ''echo'' ''1'' [] (Some ''i1'') None None
       (sample_world [] [] []) = (Inl (Exn ValueError m), w') \<and>
     terminal_status (ctx_status (w_ctx w')) \<and> w_idem w' = []"
proof -
  let ?f = "\<lambda>req n tok. (Inr (unsafe_result ''i1''), tok)"
  let ?w = "sample_world [] [] [] :: memory_world"
  have adm: "admission (sample_rt ?f) ''echo'' ''1'' [] ''i1'' None ?w =
      Some (sample_capability ?f, sample_contract)"
    by (rule sample_admission) simp_all
  show ?thesis
    using terminal_failure_raises [OF adm, of None "unsafe_result ''i1''" "[(''failure_class'', PStr ''safety'')]" FC_SAFETY]
    by (simp add: unsafe_result_def new_result_def)
qed

text \<open>
  Completion is final: after \<open>complete\<close> has returned, the context is completed and checkpointed as such,
  and every further \<open>execute\<close> on it raises \<open>ExecutionAlreadyCompleted\<close> and changes nothing at all.
\<close>

theorem completed_is_final:
  assumes "complete (sqlite_runtime cd reg pe rp fc env) lease w = (Inr (), w')" and "codec_ok cd"
    and "saveable (w_ctx w)"
  shows "ctx_status (w_ctx w') = ES_COMPLETED \<and>
     (\<exists>c. sqlite_cp_load cd fv (ctx_execution_id (w_ctx w)) (w_cp w') = Some (Inr c) \<and> ctx_status c = ES_COMPLETED) \<and>
     (\<exists>m. execute (sqlite_runtime cd reg pe rp fc env) cid ver input iid idk lease' w' =
        (Inl (Exn ExecutionAlreadyCompleted m), w'))"
proof -
  let ?R = "sqlite_runtime cd reg pe rp fc env"
  from assms(1) obtain u1 w1 u2 w2 u3 w3 where f: "assert_fence ?R lease w = (Inr u1, w1)"
    and s: "status_m ?R ES_COMPLETED w1 = (Inr u2, w2)" and c: "save_checkpoint ?R lease w2 = (Inr u3, w3)"
    and r: "record_m ?R ''execution.completed'' [] w3 = (Inr (), w')"
    unfolding complete_def by (elim eseq_InrE) (rule that)
  have w1: "w_ctx w1 = w_ctx w"
    using f by (auto simp: assert_fence_def em_simps split: option.splits prod.splits)
  have w2: "ctx_status (w_ctx w2) = ES_COMPLETED" "ctx_identity (w_ctx w2) = ctx_identity (w_ctx w)"
      "saveable (w_ctx w2)"
    using s assms(3)
    by (auto simp: status_m_def set_status_def touch_def w1 saveable_def split: sum.splits if_splits)
  obtain n t where save: "sqlite_cp_save cd n (w_ctx w2) t = (Inr (), w_ctx w3, w_cp w3)"
    using c by (auto simp: save_checkpoint_def assert_fence_def store_save_def em_simps
        split: option.splits prod.splits sum.splits)
  have w3: "ctx_status (w_ctx w3) = ES_COMPLETED"
    using sqlite_cp.save_frame(1) [OF save] w2(1) by simp
  have w': "w_ctx w' = w_ctx w3" "w_cp w' = w_cp w3" using r by (auto simp: record_m_def em_simps)
  have "sqlite_cp_load cd fv (ctx_execution_id (w_ctx w)) (w_cp w') = Some (Inr (canon_context (w_ctx w3)))"
    using sqlite_cp.load_save [OF _ save, of fv] assms(2) w2(2,3) w'(2) by simp
  then show ?thesis
    using w3 w'(1) by (simp add: execute_def em_simps canon_context_def)
qed

theorem completed_is_final_witness:
  "\<exists>w'. complete (sample_db echo_invoke) None (sample_world [] [] []) = (Inr (), w') \<and>
     ctx_status (w_ctx w') = ES_COMPLETED \<and>
     (\<exists>m. execute (sample_db echo_invoke) ''echo'' ''1'' [] None None None w' =
        (Inl (Exn ExecutionAlreadyCompleted m), w'))"
proof -
  let ?w = "sample_world [] [] [] :: sqlite_world"
  let ?R = "sample_db echo_invoke"
  obtain w2 where s: "status_m ?R ES_COMPLETED ?w = (Inr (), w2)" and sav: "saveable (w_ctx w2)"
    using sample_saveable [of "[]" "[]" "[]"]
    by (auto simp: status_m_live saveable_def)
  obtain r c t where v: "sqlite_cp_save sample_codec (clock sample_env (w_tick w2)) (w_ctx w2) (w_cp w2) = (r, c, t)"
    by (cases "sqlite_cp_save sample_codec (clock sample_env (w_tick w2)) (w_ctx w2) (w_cp w2)") auto
  have "r = Inr ()" using sqlite_cp.save_ok [OF _ v] sav sample_codec_ok by simp
  with v s obtain w' where run: "complete ?R None ?w = (Inr (), w')"
    by (simp add: complete_def eseq_apply assert_fence_def em_simps save_checkpoint_def store_save_def record_m_def)
  from completed_is_final [OF run sample_codec_ok sample_saveable] run show ?thesis by blast
qed

end
