(* ===== verification/Plan_Properties.thy ===== *)
theory Plan_Properties
  imports Orchestrator_Termination Runtime_Properties
begin

text \<open>
  The properties of plans and of \<^verbatim>\<open>PlanOrchestrator\<close>, with a sample plan of two tasks.
\<close>

section \<open>A sample plan\<close>

definition task_a :: task_node where
  "task_a = new_task ''a'' ''echo'' ''1''"

definition task_b :: "string list \<Rightarrow> task_node" where
  "task_b deps = (new_task ''b'' ''echo'' ''1'')\<lparr>tn_dependencies := deps\<rparr>"

definition sample_plan :: "string list \<Rightarrow> execution_plan" where
  "sample_plan deps = (new_plan ''p1'' ''two steps'')\<lparr>pl_tasks := [(''a'', task_a), (''b'', task_b deps)]\<rparr>"

lemmas plan_defs = sample_plan_def new_plan_def task_a_def task_b_def new_task_def

lemma sample_plan_inv: "orch_inv (sample_plan deps)"
  by (auto simp: orch_inv_def plan_wf_def plan_defs started_def split: if_splits)

lemma echo_honest: "honest (sample_registry echo_invoke)"
  by (auto simp: honest_def honest_capability_def sample_registry_def echo_invoke_def honest_result_def
      wants_retry_def new_result_def)

lemma sample_retry_inv: "retry_inv default_recovery_policy (sample_world c [] e)"
  by (simp add: retry_inv_def settled_def sample_defs default_recovery_policy_def)

section \<open>Plans\<close>

text \<open>
  C11. Plan validation is exact: \<open>validate\<close> accepts a plan if and only if every dependency names a task of
  the plan and the dependency relation is acyclic.
\<close>

theorem validate_accepts_acyclic:
  assumes "distinct (map fst (pl_tasks p))"
  shows "plan_validate p = Inr () \<longleftrightarrow>
     (\<forall>(x, d) \<in> depends (pl_tasks p). map_of (pl_tasks p) d \<noteq> None) \<and> acyclic (depends (pl_tasks p))"
  using assms by (rule plan_validate_iff)

theorem validate_accepts_acyclic_witness:
  "plan_validate (sample_plan [''a'']) = Inr () \<and> acyclic (depends (pl_tasks (sample_plan [''a''])))"
proof -
  have "plan_validate (sample_plan [''a'']) = Inr ()" by code_simp
  with validate_accepts_acyclic [of "sample_plan [''a'']"] show ?thesis by (simp add: plan_defs)
qed

text \<open>A plan after a trip through JSON.\<close>

definition canon_task :: "task_node \<Rightarrow> task_node" where
  "canon_task t = t\<lparr>tn_input_data := canon_dict (tn_input_data t), tn_output := json_canon (tn_output t),
     tn_error := map_option canon_dict (tn_error t), tn_metadata := canon_dict (tn_metadata t)\<rparr>"

definition canon_plan :: "execution_plan \<Rightarrow> execution_plan" where
  "canon_plan p = p\<lparr>pl_tasks := sort_key fst (map (map_prod id canon_task) (pl_tasks p)),
     pl_metadata := canon_dict (pl_metadata p)\<rparr>"

lemma as_strs_canon: "as_strs (json_canon (PList (map PStr ss))) = Some ss"
  by (simp add: comp_def all_some_map_Some)

lemma task_of_dict_canon: "task_of_dict (canon_dict (task_to_dict t)) = Some (Inr (canon_task t))"
proof -
  have "distinct (map fst (task_to_dict t))" by (simp add: task_to_dict_def)
  note look = map_of_canon_dict [OF this]
  show ?thesis
    unfolding task_of_dict_def required_str_def field_of_def look
    by (simp add: task_to_dict_def canon_task_def as_strs_canon del: json_canon.simps(6,8))
qed

lemma canon_tasks_dict:
  "canon_dict (map (\<lambda>(k, t). (k, PDict (task_to_dict t))) ts) =
     map (\<lambda>(k, t). (k, PDict (canon_dict (task_to_dict t)))) (sort_key fst ts)"
proof -
  have "map (map_prod id json_canon) (map (\<lambda>(k, t). (k, PDict (task_to_dict t))) ts) =
      map (map_prod id (\<lambda>t. PDict (canon_dict (task_to_dict t)))) ts"
    by (auto simp: json_canon_PDict simp del: json_canon.simps(8))
  then have "canon_dict (map (\<lambda>(k, t). (k, PDict (task_to_dict t))) ts) =
      map (map_prod id (\<lambda>t. PDict (canon_dict (task_to_dict t)))) (sort_key fst ts)"
    by (simp only: canon_dict_def sort_key_map_prod)
  then show ?thesis by (simp add: map_prod_def split_def)
qed

lemma add_payloads_canon:
  assumes "\<forall>(k, t) \<in> set ts. tn_task_id t = k" and "distinct (map fst (pl_tasks p) @ map fst ts)"
  shows "add_payloads (map (\<lambda>(k, t). (k, PDict (canon_dict (task_to_dict t)))) ts) p =
           Some (Inr (p\<lparr>pl_tasks := pl_tasks p @ map (map_prod id canon_task) ts\<rparr>))"
  using assms
proof (induction ts arbitrary: p)
  case (Cons kt ts)
  obtain k t where kt: "kt = (k, t)" by fastforce
  have id: "tn_task_id (canon_task t) = k" using Cons.prems(1) kt by (simp add: canon_task_def)
  have "map_of (pl_tasks p) k = None" using Cons.prems kt by (auto simp: map_of_None_iff)
  then have "add_task (canon_task t) p = Inr (p\<lparr>pl_tasks := pl_tasks p @ [(k, canon_task t)]\<rparr>)"
    using id by (simp add: add_task_def update_append_new)
  then show ?case using Cons kt id by (simp add: task_of_dict_canon)
qed simp

lemma map_of_canon_tasks:
  assumes "distinct (map fst (pl_tasks p))"
  shows "map_of (pl_tasks (canon_plan p)) k = map_option canon_task (map_of (pl_tasks p) k)"
proof -
  have "distinct (map fst (map (map_prod id canon_task) (pl_tasks p)))" using assms by (simp add: comp_def)
  then have "map_of (pl_tasks (canon_plan p)) k = map_of (map (map_prod id canon_task) (pl_tasks p)) k"
    by (simp add: canon_plan_def map_of_sort_key del: map_map)
  also have "\<dots> = map_option canon_task (map_of (pl_tasks p) k)"
    using map_of_map_value [of "\<lambda>_. canon_task" "pl_tasks p" k] by (simp add: map_prod_def split_def)
  finally show ?thesis .
qed

lemma canon_plan_valid:
  assumes "plan_wf p" and "plan_validate p = Inr ()"
  shows "plan_validate (canon_plan p) = Inr ()"
proof -
  have d: "distinct (map fst (pl_tasks p))" using assms(1) by (simp add: plan_wf_def)
  have "distinct (map fst (pl_tasks (canon_plan p)))"
    using d by (simp add: canon_plan_def sort_key_map_prod [unfolded id_def] id_def comp_def)
      (simp add: distinct_map)
  moreover have "depends (pl_tasks (canon_plan p)) = depends (pl_tasks p)"
    by (auto simp: depends_def map_of_canon_tasks [OF d] canon_task_def)
  ultimately show ?thesis
    using assms(2) plan_validate_iff [OF d] by (simp add: plan_validate_iff map_of_canon_tasks [OF d])
qed

text \<open>
  C20. Plans survive a durable checkpoint: a valid plan, written as a dict, stored as JSON text and read back,
  is the same plan with its tasks in key order and its payload values in canonical JSON form.
\<close>

theorem plan_survives_checkpoint:
  assumes "plan_wf p" and "plan_validate p = Inr ()"
  shows "plan_of_dict fresh (case json_loads (json_dumps (PDict (plan_to_dict p))) of PDict d \<Rightarrow> d | _ \<Rightarrow> []) =
     Some (Inr (canon_plan p))"
proof -
  have "distinct (map fst (plan_to_dict p))" by (simp add: plan_to_dict_def)
  note look = map_of_canon_dict [OF this]
  let ?p0 = "\<lparr>pl_plan_id = pl_plan_id p, pl_version = pl_version p, pl_objective = pl_objective p, pl_tasks = [],
     pl_metadata = canon_dict (pl_metadata p)\<rparr>"
  have "distinct (map fst (sort_key fst (pl_tasks p)))"
    using assms(1) by (simp add: plan_wf_def distinct_map)
  then have "add_payloads (map (\<lambda>(k, t). (k, PDict (canon_dict (task_to_dict t)))) (sort_key fst (pl_tasks p))) ?p0 =
      Some (Inr (canon_plan p))"
    using add_payloads_canon [of "sort_key fst (pl_tasks p)" ?p0] assms(1)
    by (cases p) (simp add: plan_wf_def canon_plan_def sort_key_map_prod)
  then show ?thesis
    using canon_plan_valid [OF assms]
    by (simp add: json_canon_PDict plan_of_dict_def field_of_def look del: json_canon.simps(8))
      (simp add: plan_to_dict_def canon_tasks_dict json_canon_PDict del: json_canon.simps(8))
qed

theorem plan_survives_checkpoint_witness:
  "plan_of_dict ''x'' (case json_loads (json_dumps (PDict (plan_to_dict (sample_plan [''a''])))) of PDict d \<Rightarrow> d | _ \<Rightarrow> []) =
     Some (Inr (canon_plan (sample_plan [''a''])))"
proof (rule plan_survives_checkpoint)
  show "plan_wf (sample_plan [''a''])" using sample_plan_inv by (simp add: orch_inv_def)
  show "plan_validate (sample_plan [''a'']) = Inr ()" by code_simp
qed

section \<open>Plan runs\<close>

text \<open>
  C6. Dependency order and finality: however the run of a plan ends whose tasks have distinct identifiers
  and, if started before it, succeeded dependencies (\<open>orch_inv\<close>), every task that was ever made ready, run,
  succeeded or failed has only succeeded dependencies; and a task that had succeeded before the run,
  such as one restored from a checkpoint, is left exactly as it was.
\<close>

theorem tasks_wait_for_dependencies:
  assumes "execute_plan rt (p, w) = Some (r, (p', w'))" and "orch_inv p"
  shows "(\<forall>k t d. map_of (pl_tasks p') k = Some t \<longrightarrow>
            tn_status t \<in> {TS_READY, TS_RUNNING, TS_SUCCEEDED, TS_FAILED} \<longrightarrow> d \<in> set (tn_dependencies t) \<longrightarrow>
            (\<exists>u. map_of (pl_tasks p') d = Some u \<and> tn_status u = TS_SUCCEEDED)) \<and>
     (\<forall>k t. map_of (pl_tasks p) k = Some t \<longrightarrow> tn_status t = TS_SUCCEEDED \<longrightarrow> map_of (pl_tasks p') k = Some t)"
proof -
  have ok: "orch_inv p'" "keeps p p'" using execute_plan_inv [OF assms] by (auto simp: run_ok_def)
  have "\<exists>u. map_of (pl_tasks p') d = Some u \<and> tn_status u = TS_SUCCEEDED"
    if "map_of (pl_tasks p') k = Some t" "tn_status t \<in> {TS_READY, TS_RUNNING, TS_SUCCEEDED, TS_FAILED}"
      "d \<in> set (tn_dependencies t)" for k t d
  proof -
    have "started t" using that(2) unfolding started_def .
    then have "deps_succeeded (pl_tasks p') t" using ok(1) that(1) unfolding orch_inv_def by blast
    then show ?thesis using that(3) by (auto simp: deps_succeeded_def list_all_iff split: option.splits)
  qed
  then show ?thesis using ok(2) by (auto simp: keeps_def)
qed

lemma sample_run:
  "\<exists>r p' w'. execute_plan (sample_rt echo_invoke) (sample_plan deps, sample_world [] [] []) = Some (r, (p', w'))"
  using execute_plan_ends [OF echo_honest sample_retry_inv sample_plan_inv, of default_policy_engine None sample_env deps]
  by (metis prod.exhaust)

theorem tasks_wait_for_dependencies_witness:
  "\<exists>r p' w'. execute_plan (sample_rt echo_invoke) (sample_plan [''a''], sample_world [] [] []) = Some (r, (p', w')) \<and>
     (\<forall>t. map_of (pl_tasks p') ''b'' = Some t \<longrightarrow> tn_status t = TS_SUCCEEDED \<longrightarrow> ''a'' \<in> set (tn_dependencies t) \<longrightarrow>
       (\<exists>u. map_of (pl_tasks p') ''a'' = Some u \<and> tn_status u = TS_SUCCEEDED))"
proof -
  obtain r p' w' where run: "execute_plan (sample_rt echo_invoke) (sample_plan [''a''], sample_world [] [] []) = Some (r, (p', w'))"
    using sample_run by blast
  from tasks_wait_for_dependencies [OF run sample_plan_inv] run show ?thesis by blast
qed

lemma complete_memory:
  "complete (memory_runtime reg pe rp fc env) lease w = (Inr (), w') \<Longrightarrow> ctx_status (w_ctx w') = ES_COMPLETED"
  unfolding complete_def
  by (elim eseq_InrE)
    (auto simp: status_m_def set_status_def touch_def save_checkpoint_def assert_fence_def store_save_def
      memory_cp_save_def Let_def record_m_def em_simps split: sum.splits if_splits option.splits prod.splits)

text \<open>
  A plan run that returns has either finished the plan, with every task succeeded or skipped and the
  context completed, or it has left a failed task.
\<close>

theorem plan_run_outcome:
  assumes "execute_plan (memory_runtime reg pe rp fc env) (p, w) = Some (Inr (), (p', w'))" and "orch_inv p"
  shows "(\<forall>k t. map_of (pl_tasks p') k = Some t \<longrightarrow> tn_status t \<in> {TS_SUCCEEDED, TS_SKIPPED}) \<and>
        ctx_status (w_ctx w') = ES_COMPLETED \<or>
     (\<exists>k t. map_of (pl_tasks p') k = Some t \<and> tn_status t = TS_FAILED)"
proof -
  have ok: "run_ok (memory_runtime reg pe rp fc env) p (Inr (), (p', w'))" using execute_plan_inv [OF assms] .
  then have wf: "distinct (map fst (pl_tasks p'))" by (simp add: run_ok_def orch_inv_def plan_wf_def)
  from ok consider "is_complete p'" "\<exists>w. complete (memory_runtime reg pe rp fc env) None w = (Inr (), w')"
    | "has_failed p'"
    by (auto simp: run_ok_def)
  then show ?thesis
  proof cases
    case 1
    then show ?thesis using complete_memory by (auto simp: is_complete_def list_all_iff dest!: map_of_SomeD)
  next
    case 2
    then obtain k t where "(k, t) \<in> set (pl_tasks p')" "tn_status t = TS_FAILED"
      by (auto simp: has_failed_def list_ex_iff)
    with wf have "map_of (pl_tasks p') k = Some t" by simp
    with \<open>tn_status t = TS_FAILED\<close> show ?thesis by blast
  qed
qed

text \<open>A run on a one-task plan, evaluated.\<close>

definition solo_plan :: execution_plan where
  "solo_plan = (new_plan ''p'' ''o'')\<lparr>pl_tasks := [(''a'', task_a)]\<rparr>"

definition quick_world :: memory_world where
  "quick_world = (sample_world [] [] [])\<lparr>w_ctx :=
     new_context (sample_identity\<lparr>eid_execution_id := ''x'', eid_tenant_id := ''t''\<rparr>) ''o'' 0 0\<rparr>"

lemma solo_plan_completes:
  "map_option (\<lambda>(r, (p, w)). (r, map (\<lambda>(k, t). tn_status t) (pl_tasks p), ctx_status (w_ctx w)))
     (execute_plan (sample_rt echo_invoke) (solo_plan, quick_world)) =
   Some (Inr (), [TS_SUCCEEDED], ES_COMPLETED)"
  by code_simp

lemma solo_plan_inv: "orch_inv solo_plan"
  by (auto simp: orch_inv_def plan_wf_def solo_plan_def new_plan_def task_a_def new_task_def started_def split: if_splits)

theorem plan_run_outcome_witness:
  "\<exists>p' w'. execute_plan (sample_rt echo_invoke) (solo_plan, quick_world) = Some (Inr (), (p', w')) \<and>
     ((\<forall>k t. map_of (pl_tasks p') k = Some t \<longrightarrow> tn_status t \<in> {TS_SUCCEEDED, TS_SKIPPED}) \<and>
        ctx_status (w_ctx w') = ES_COMPLETED \<or>
      (\<exists>k t. map_of (pl_tasks p') k = Some t \<and> tn_status t = TS_FAILED))"
proof -
  obtain p' w' where run: "execute_plan (sample_rt echo_invoke) (solo_plan, quick_world) = Some (Inr (), (p', w'))"
    using solo_plan_completes by auto
  from plan_run_outcome [OF run solo_plan_inv] run show ?thesis by blast
qed

text \<open>
  C5. Plan runs end: over the in-memory runtime, when the recovery answers come from the recovery policy (no capability
  writes a retry answer into a result that carries no failure class, and none is recorded), \<open>execute_plan\<close> returns or
  raises, whatever the policies, the fencing and the capabilities' failures. The plan is any whose tasks have distinct
  identifiers and, if started, succeeded dependencies (\<open>orch_inv\<close>, which a new plan has and every run keeps), and the context has not used more
  retries than the policy allows.
\<close>

theorem plan_run_ends:
  assumes "honest reg" and "settled (w_idem w)" and "ctx_retry_count (w_ctx w) \<le> rp_max_retries rp" and "orch_inv p"
  shows "\<exists>r p' w'. execute_plan (memory_runtime reg pe rp fc env) (p, w) = Some (r, (p', w'))"
  using execute_plan_ends [OF assms(1) _ assms(4), of rp w pe fc env] assms(2,3)
  by (auto simp: retry_inv_def)

theorem plan_run_ends_witness:
  "\<exists>r p' w'. execute_plan (sample_rt echo_invoke) (sample_plan [''a''], sample_world [] [] []) = Some (r, (p', w'))"
proof (rule plan_run_ends [OF echo_honest _ _ sample_plan_inv])
  show "settled (w_idem (sample_world [] [] [] :: memory_world))" by (simp add: settled_def)
  show "ctx_retry_count (w_ctx (sample_world [] [] [] :: memory_world)) \<le> rp_max_retries default_recovery_policy"
    by (simp add: sample_defs default_recovery_policy_def)
qed

text \<open>
  The retry loop has no bound of its own: a permitted capability that fails with
  \<open>recovery_action = "retry"\<close> in its own error, without a failure class, is called again and again;
  the task's invocation never returns and the retry counter of the policy is never consulted.
\<close>

theorem retry_can_diverge:
  assumes "capability_get (tn_capability_id t) (tn_capability_version t) reg = Inr entry" and "ce_contract entry = Some k"
    and "conforms (cc_input_schema k) (PDict (tn_input_data t))"
    and "\<And>req. ctx_tenant_id (ir_execution req) = ctx_tenant_id (w_ctx w) \<Longrightarrow> policy_permits pe req k"
    and "\<And>req n tok. cap_invoke (ce_capability entry) req n tok = (Inr ((new_result (ir_invocation_id req) cid IS_FAILED)
           \<lparr>res_error := Some [(''recovery_action'', PStr ''retry'')]\<rparr>), tok)"
    and "\<not> tok_cancelled (w_token w)" and "\<not> terminal_status (ctx_status (w_ctx w))"
    and "map_of (w_idem w) (ctx_execution_id (w_ctx w) @ '':'' @ tn_task_id t) = None"
  shows "invoke_task (memory_runtime reg pe rp None env) t w = None"
proof -
  let ?R = "memory_runtime reg pe rp None env"
  let ?iid = "ctx_execution_id (w_ctx w) @ '':'' @ tn_task_id t"
  let ?res = "(new_result ?iid cid IS_FAILED)\<lparr>res_error := Some [(''recovery_action'', PStr ''retry'')]\<rparr>"
  have st: "stuck ?R (tn_capability_id t) (tn_capability_version t) (tn_input_data t) ?iid ?res
      (ctx_identity (w_ctx w)) (w_token w) (w_idem w)"
    by (rule stuck_unclassified [OF assms(1,2,3)])
      (use assms(4-8) in \<open>simp_all add: new_result_def reported_failure_def\<close>)
  obtain w' where e: "execute ?R (tn_capability_id t) (tn_capability_version t) (tn_input_data t) (Some ?iid) None None w
      = (Inr ?res, w')" and w': "ctx_identity (w_ctx w') = ctx_identity (w_ctx w)" "w_token w' = w_token w"
      "w_idem w' = w_idem w" "\<not> terminal_status (ctx_status (w_ctx w'))"
    using st assms(7) unfolding stuck_def by blast
  have "wants_retry ?res" by (simp add: wants_retry_def new_result_def)
  from stuck_retry_loop [OF st this w'] e show ?thesis by (simp add: invoke_task_def Let_def)
qed

definition stubborn_invoke :: invoke_fn where
  "stubborn_invoke req n tok =
     (Inr ((new_result (ir_invocation_id req) ''echo'' IS_FAILED)
        \<lparr>res_error := Some [(''recovery_action'', PStr ''retry'')]\<rparr>), tok)"

theorem retry_can_diverge_witness:
  "invoke_task (sample_rt stubborn_invoke) task_a (sample_world [] [] []) = None"
proof (rule retry_can_diverge)
  show "capability_get (tn_capability_id task_a) (tn_capability_version task_a) (sample_registry stubborn_invoke) =
      Inr \<lparr>ce_capability = sample_capability stubborn_invoke, ce_contract = Some sample_contract, ce_id = ''echo'',
           ce_version = ''1''\<rparr>"
    by (simp add: capability_get_def sample_registry_def task_a_def new_task_def)
  show "policy_permits default_policy_engine req sample_contract"
    if "ctx_tenant_id (ir_execution req) = ctx_tenant_id (w_ctx (sample_world [] [] [] :: memory_world))" for req
    using that
    by (simp add: policy_permits_def sample_contract_def new_contract_def default_policy_engine_def)
qed (simp_all add: stubborn_invoke_def sample_contract_def new_contract_def)

end
