(* ===== verification/Orchestrator_Limits.thy ===== *)
theory Orchestrator_Limits
  imports Plan_Properties
begin

text \<open>
  What \<^verbatim>\<open>PlanOrchestrator\<close> cannot do: resume a batch that was interrupted with siblings still
  ready, run a task on a fenced runtime, and give the siblings of a terminally failed task a chance.
\<close>

section \<open>Ready tasks are never picked up again\<close>

lemma plan_loop_ready:
  assumes "plan_loop rt s = Some y" and "orch_inv (fst s)"
    and "map_of (pl_tasks (fst s)) k = Some t" and "tn_status t = TS_READY"
  shows "map_of (pl_tasks (fst (snd y))) k = Some t"
proof -
  have "orch_inv (fst s) \<and> map_of (pl_tasks (fst s)) k = Some t \<longrightarrow> map_of (pl_tasks (fst (snd y))) k = Some t"
    using assms(1)
  proof (induction rule: plan_loop.raw_induct [rotated, consumes 1, case_names step])
    case (step f rt s y)
    obtain p w where s: "s = (p, w)" by fastforce
    obtain ids p1 where rdy: "ready_tasks p = (ids, p1)" by fastforce
    show ?case
    proof (intro impI)
      assume "orch_inv (fst s) \<and> map_of (pl_tasks (fst s)) k = Some t"
      then have inv: "orch_inv p" and k: "map_of (pl_tasks p) k = Some t" by (simp_all add: s)
      note p1 = ready_tasks_plan [OF rdy inv]
      have new: "k \<notin> set ids" using p1 k assms(4) by force
      have k1: "map_of (pl_tasks p1) k = Some t"
      proof -
        have "\<not> task_ready (pl_tasks p) t" using assms(4) by (simp add: task_ready_def)
        moreover have "pl_tasks p1 = map (\<lambda>(k, t). (k, if task_ready (pl_tasks p) t then t\<lparr>tn_status := TS_READY\<rparr> else t)) (pl_tasks p)"
          using rdy by (auto simp: ready_tasks_def Let_def)
        ultimately show ?thesis using k by (simp add: map_of_map_value)
      qed
      show "map_of (pl_tasks (fst (snd y))) k = Some t"
      proof (cases "is_complete p \<or> ids = []")
        case True
        then show ?thesis using step(2) rdy k k1 unfolding s by (auto split: prod.splits if_splits)
      next
        case False
        with step(2) rdy obtain r p2 w2
          where b: "run_batch rt ids False (p1, w) = Some (r, (p2, w2))"
            and y: "(case r of Inl e \<Rightarrow> Some (Inl e, (p2, w2))
                   | Inr failed \<Rightarrow> if failed then Some (Inr (), (p2, w2)) else f rt (p2, w2)) = Some y"
          unfolding s by (auto simp: bind_eq_Some_conv)
        have "all_ready ids p1" using p1 by (simp add: all_ready_def)
        note p2 = run_batch_plan [OF b _ this]
        have k2: "map_of (pl_tasks p2) k = Some t" using p2 p1 new k1 by simp
        show ?thesis
        proof (cases "r = Inr False")
          case True
          with y step(1) [of rt "(p2, w2)" y] p1 p2 k2 show ?thesis by simp
        next
          case no: False
          with y k2 show ?thesis by (cases r) (auto split: if_splits)
        qed
      qed
    qed
  qed
  with assms show ?thesis by blast
qed

lemma execute_plan_ready:
  assumes "execute_plan rt (p, w) = Some (r, (p', w'))" and "orch_inv p"
    and "map_of (pl_tasks p) k = Some t" and "tn_status t = TS_READY"
  shows "map_of (pl_tasks p') k = Some t"
  using assms plan_loop_ready [of rt "(p, _)" "(r, (p', w'))" k t]
  by (auto simp: execute_plan_def split: sum.splits prod.splits)

lemma map_of_normalize:
  "map_of (pl_tasks (normalize_interrupted p)) k =
     map_option (\<lambda>t. if tn_status t = TS_RUNNING then t\<lparr>tn_status := TS_PENDING\<rparr> else t) (map_of (pl_tasks p) k)"
  by (simp add: normalize_interrupted_def map_of_map_value)

lemma normalize_inv:
  assumes "orch_inv p"
  shows "orch_inv (normalize_interrupted p)" and "keeps p (normalize_interrupted p)"
proof -
  have "map fst (pl_tasks (normalize_interrupted p)) = map fst (pl_tasks p)"
    by (simp add: normalize_interrupted_def comp_def split_def)
  then show k: "keeps p (normalize_interrupted p)"
    by (auto simp: keeps_def map_of_normalize same_task_def)
  have "deps_succeeded (pl_tasks (normalize_interrupted p)) t'"
    if x: "map_of (pl_tasks (normalize_interrupted p)) x = Some t'" "started t'" for x t'
  proof -
    obtain t where t: "map_of (pl_tasks p) x = Some t"
      and t': "t' = (if tn_status t = TS_RUNNING then t\<lparr>tn_status := TS_PENDING\<rparr> else t)"
      using x(1) by (auto simp: map_of_normalize)
    with x(2) have "t' = t" by (auto simp: started_def split: if_splits)
    with x(2) t assms have "deps_succeeded (pl_tasks p) t" by (simp add: orch_inv_def)
    then show ?thesis using deps_succeeded_keeps [OF k same_task_refl] \<open>t' = t\<close> by blast
  qed
  then show "orch_inv (normalize_interrupted p)" using keeps_wf [OF k] assms by (auto simp: orch_inv_def)
qed

text \<open>The plan that is checkpointed when the first task of a batch starts.\<close>

definition started_batch :: "string \<Rightarrow> execution_plan \<Rightarrow> execution_plan" where
  "started_batch a p = update_task a (\<lambda>t. t\<lparr>tn_status := TS_RUNNING\<rparr>) (snd (ready_tasks p))"

text \<open>
  A batch interrupted at its first task cannot be resumed: \<open>ready_tasks\<close> has marked the siblings ready,
  the checkpoint written as the first task starts says so, and \<open>resume\<close> turns only running tasks
  back into pending ones. Whatever the resumed run does, the sibling stays ready and unexecuted, and
  the plan is never complete.
\<close>

theorem interrupted_batch_never_completes:
  assumes "fst (ready_tasks p) = ids" and "orch_inv p" and "plan_validate (started_batch a p) = Inr ()"
    and "a \<in> set ids" and "b \<in> set ids" and "a \<noteq> b"
    and "load xid (w_cp w) = Some (Inr c)" and "ctx_plan c = Some (plan_to_dict (started_batch a p))"
    and "resume rt load fresh xid w = Some (Inr (Some (r, (p', w'))))"
  shows "\<not> is_complete p' \<and> (\<exists>t. map_of (pl_tasks p') b = Some t \<and> tn_status t = TS_READY)"
proof -
  let ?q = "started_batch a p"
  obtain p1 where rdy: "ready_tasks p = (ids, p1)" using assms(1) by (metis prod.collapse)
  note p1 = ready_tasks_plan [OF rdy assms(2)]
  obtain ta tb where ta: "map_of (pl_tasks p1) a = Some ta" "tn_status ta = TS_READY"
    and tb: "map_of (pl_tasks p1) b = Some tb" "tn_status tb = TS_READY"
    using p1 assms(4,5) by blast
  have q: "?q = update_task a (\<lambda>t. t\<lparr>tn_status := TS_RUNNING\<rparr>) p1" by (simp add: started_batch_def rdy)
  have inv: "orch_inv ?q" unfolding q
    by (rule orch_inv_update_task [OF _ _ ta]) (use p1 in \<open>simp_all add: same_task_def\<close>)
  have "plan_of_dict fresh (plan_to_dict ?q) = Some (Inr ?q)"
    using inv assms(3) by (intro plan_of_dict_to_dict) (simp_all add: orch_inv_def)
  then have run: "execute_plan rt (normalize_interrupted ?q, w\<lparr>w_ctx := c\<rparr>) = Some (r, (p', w'))"
    using assms(7-9) by (simp add: resume_def)
  have b: "map_of (pl_tasks (normalize_interrupted ?q)) b = Some tb"
    using tb assms(6) by (simp add: map_of_normalize q map_of_update_task)
  have b': "map_of (pl_tasks p') b = Some tb"
    by (rule execute_plan_ready [OF run normalize_inv(1) [OF inv] b tb(2)])
  then have "\<not> is_complete p'"
    using tb(2) by (force simp: is_complete_def list_all_iff dest!: map_of_SomeD)
  with b' tb(2) show ?thesis by blast
qed

definition interrupted_context :: execution_context where
  "interrupted_context =
     (new_context sample_identity ''two steps'' 0 0)\<lparr>ctx_plan := Some (plan_to_dict (started_batch ''a'' (sample_plan [])))\<rparr>"

theorem interrupted_batch_never_completes_witness:
  "\<exists>r p' w'. resume (sample_rt echo_invoke) (\<lambda>xid st. Some (Inr interrupted_context)) ''f'' ''x'' (sample_world [] [] []) =
       Some (Inr (Some (r, (p', w')))) \<and>
     \<not> is_complete p' \<and> (\<exists>t. map_of (pl_tasks p') ''b'' = Some t \<and> tn_status t = TS_READY)"
proof -
  let ?q = "started_batch ''a'' (sample_plan [])"
  let ?w = "(sample_world [] [] [] :: memory_world)\<lparr>w_ctx := interrupted_context\<rparr>"
  let ?load = "\<lambda>xid st. Some (Inr interrupted_context)"
  have rdy: "fst (ready_tasks (sample_plan [])) = [''a'', ''b'']" by code_simp
  have val: "plan_validate ?q = Inr ()" by code_simp
  have plan: "ctx_plan interrupted_context = Some (plan_to_dict ?q)" by (simp add: interrupted_context_def)
  have inv: "orch_inv ?q"
    using orch_inv_update_task [of "snd (ready_tasks (sample_plan []))" "\<lambda>t. t\<lparr>tn_status := TS_RUNNING\<rparr>" "''a''"]
      ready_tasks_plan [OF _ sample_plan_inv, of "[]" "[''a'', ''b'']" "snd (ready_tasks (sample_plan []))"] rdy
    by (auto simp: started_batch_def same_task_def prod_eq_iff)
  have "retry_inv default_recovery_policy ?w"
    by (simp add: retry_inv_def settled_def interrupted_context_def new_context_def default_recovery_policy_def)
  from execute_plan_ends [OF echo_honest this normalize_inv(1) [OF inv], of default_policy_engine None sample_env]
  obtain r p' w' where "execute_plan (sample_rt echo_invoke) (normalize_interrupted ?q, ?w) = Some (r, (p', w'))"
    by (metis prod.exhaust)
  moreover have "plan_of_dict ''f'' (plan_to_dict ?q) = Some (Inr ?q)"
    using inv val by (intro plan_of_dict_to_dict) (simp_all add: orch_inv_def)
  ultimately have run: "resume (sample_rt echo_invoke) ?load ''f'' ''x'' (sample_world [] [] []) = Some (Inr (Some (r, (p', w'))))"
    by (simp add: resume_def plan)
  from interrupted_batch_never_completes [OF rdy sample_plan_inv val _ _ _ _ plan run, of "''b''"] run show ?thesis
    by auto
qed

section \<open>A fenced runtime\<close>

lemma invoke_task_fenced:
  assumes "rt_fencing rt = Some seen"
  shows "\<exists>e n. invoke_task rt t w = Some (Inl e, w\<lparr>w_tick := n\<rparr>)"
proof -
  let ?iid = "ctx_execution_id (w_ctx w) @ '':'' @ tn_task_id t"
  have "\<not> fence_open rt None (w_tick w)" using assms by (simp add: fence_open_def)
  then have "\<exists>e n. execute rt (tn_capability_id t) (tn_capability_version t) (tn_input_data t) (Some ?iid) None None w =
      (Inl e, w\<lparr>w_tick := n\<rparr>)"
    using execute_terminal [of w ?iid rt] execute_fenced_off [of w ?iid rt None]
    by (cases "terminal_status (ctx_status (w_ctx w))") fastforce+
  then show ?thesis by (auto simp: invoke_task_def Let_def)
qed

lemma run_task_fenced:
  assumes "rt_fencing rt = Some seen" and "run_task rt tid s = Some (r, s')"
  shows "r \<noteq> Inr False"
proof -
  obtain p w where s: "s = (p, w)" by fastforce
  show ?thesis
    using assms invoke_task_fenced [OF assms(1)] unfolding s
    by (auto simp: run_task_def fail_task_def Let_def split: prod.splits sum.splits option.splits)
      (metis option.inject prod.inject sum.distinct(1))+
qed

definition nothing_new :: "execution_plan \<Rightarrow> execution_plan \<Rightarrow> bool" where
  "nothing_new p p' \<longleftrightarrow>
     (\<forall>k t. map_of (pl_tasks p') k = Some t \<longrightarrow> tn_status t = TS_SUCCEEDED \<longrightarrow> map_of (pl_tasks p) k = Some t)"

lemma moves_nothing_new: "moves tid r p p' \<Longrightarrow> r \<noteq> Inr False \<Longrightarrow> nothing_new p p'"
proof -
  assume "moves tid r p p'" and r: "r \<noteq> Inr False"
  then obtain f where p': "p' = update_task tid f p" and f: "\<And>t. outcome_ok r (tn_status (f t))"
    by (auto simp: moves_def)
  have "tn_status (f t) \<noteq> TS_SUCCEEDED" for t using f [of t] r by (cases r) (auto simp: outcome_ok_def)
  then show ?thesis unfolding p' by (auto simp: nothing_new_def map_of_update_task split: if_splits)
qed

lemma run_batch_fenced:
  assumes "rt_fencing rt = Some seen" and "run_batch rt tids failed (p, w) = Some (r, (p', w'))" and "all_ready tids p"
  shows "nothing_new p p' \<and> (\<forall>b. r = Inr b \<longrightarrow> tids \<noteq> [] \<or> failed \<longrightarrow> b)"
  using assms(2,3)
proof (induction tids arbitrary: failed p w)
  case Nil
  then show ?case by (auto simp: nothing_new_def)
next
  case (Cons tid tids)
  obtain r1 p1 w1 where rt: "run_task rt tid (p, w) = Some (r1, (p1, w1))"
    using Cons.prems(1) by (cases "run_task rt tid (p, w)") auto
  obtain t where t: "map_of (pl_tasks p) tid = Some t" using Cons.prems(2) by (auto simp: all_ready_def)
  note m = run_task_plan [OF rt t]
  have r1: "r1 \<noteq> Inr False" using run_task_fenced [OF assms(1) rt] .
  have n1: "nothing_new p p1" using m r1 by (rule moves_nothing_new)
  show ?case
  proof (cases r1)
    case (Inl e)
    with Cons.prems(1) rt n1 show ?thesis by auto
  next
    case (Inr f)
    with r1 have f by simp
    with Inr Cons.prems(1) rt have run: "run_batch rt tids True (p1, w1) = Some (r, (p', w'))" by simp
    have "map_of (pl_tasks p1) k = map_of (pl_tasks p) k" if "k \<in> set tids" for k
      using moves_other [OF m, of k] Cons.prems(2) that by (auto simp: all_ready_def)
    then have "all_ready tids p1" using Cons.prems(2) by (auto simp: all_ready_def)
    from Cons.IH [OF run this] n1 show ?thesis by (auto simp: nothing_new_def)
  qed
qed

lemma complete_fenced: "rt_fencing rt = Some seen \<Longrightarrow> \<exists>e. fst (complete rt None w) = Inl e"
  by (simp add: complete_def assert_fence_def em_simps)

text \<open>
  The orchestrator cannot work on a fenced runtime: it calls \<open>execute\<close> and \<open>complete\<close> without a worker
  lease, which a runtime with PostgreSQL fencing refuses. No task ever succeeds in such a run, and a
  run that returns leaves a failed task.
\<close>

theorem fenced_plan_never_succeeds:
  assumes "rt_fencing rt = Some seen" and "execute_plan rt (p, w) = Some (r, (p', w'))" and "orch_inv p"
  shows "(\<forall>k t. map_of (pl_tasks p') k = Some t \<longrightarrow> tn_status t = TS_SUCCEEDED \<longrightarrow> map_of (pl_tasks p) k = Some t) \<and>
     (r = Inr () \<longrightarrow> has_failed p')"
proof -
  have ok: "run_ok rt p (r, (p', w'))" by (rule execute_plan_inv [OF assms(2,3)])
  have "nothing_new p p'"
  proof (cases "\<exists>v. plan_loop rt (p, v) = Some (r, (p', w'))")
    case False
    with assms(2) show ?thesis
      by (auto simp: execute_plan_def nothing_new_def split: sum.splits prod.splits)
  next
    case True
    then obtain v where loop: "plan_loop rt (p, v) = Some (r, (p', w'))" by blast
    obtain ids p1 where rdy: "ready_tasks p = (ids, p1)" by fastforce
    note p1 = ready_tasks_plan [OF rdy assms(3)]
    have n1: "nothing_new p p1"
      using rdy by (auto simp: nothing_new_def ready_tasks_def Let_def map_of_map_value split: if_splits)
    have rd: "all_ready ids p1" using p1 by (simp add: all_ready_def)
    show ?thesis
    proof (cases "is_complete p \<or> ids = []")
      case True
      with loop rdy n1 show ?thesis
        by (subst (asm) plan_loop.simps) (auto simp: nothing_new_def split: prod.splits if_splits)
    next
      case False
      with loop rdy obtain br p2 w2 where b: "run_batch rt ids False (p1, v) = Some (br, (p2, w2))"
        and y: "(case br of Inl e \<Rightarrow> Some (Inl e, (p2, w2))
               | Inr failed \<Rightarrow> if failed then Some (Inr (), (p2, w2)) else plan_loop rt (p2, w2)) = Some (r, (p', w'))"
        by (subst (asm) plan_loop.simps) (auto simp: bind_eq_Some_conv)
      note bf = run_batch_fenced [OF assms(1) b rd]
      then have "p' = p2" using y False by (cases br) (auto split: if_splits)
      with bf n1 show ?thesis by (auto simp: nothing_new_def)
    qed
  qed
  moreover have "has_failed p'" if "r = Inr ()"
    using ok that complete_fenced [OF assms(1)] by (auto simp: run_ok_def) (metis Inl_Inr_False fst_conv)
  ultimately show ?thesis by (auto simp: nothing_new_def)
qed

theorem fenced_plan_never_succeeds_witness:
  "\<exists>r p' w'. execute_plan (memory_runtime (sample_registry echo_invoke) default_policy_engine default_recovery_policy
        (Some (\<lambda>n. ([], 0))) sample_env) (sample_plan [''a''], sample_world [] [] []) = Some (r, (p', w')) \<and>
     (\<forall>k t. map_of (pl_tasks p') k = Some t \<longrightarrow> tn_status t \<noteq> TS_SUCCEEDED)"
proof -
  let ?R = "memory_runtime (sample_registry echo_invoke) default_policy_engine default_recovery_policy
        (Some (\<lambda>n. ([], 0))) sample_env"
  obtain r p' w' where run: "execute_plan ?R (sample_plan [''a''], sample_world [] [] []) = Some (r, (p', w'))"
    using execute_plan_ends [OF echo_honest sample_retry_inv sample_plan_inv] by (metis prod.exhaust)
  have fresh: "tn_status t = TS_PENDING" if "map_of (pl_tasks (sample_plan [''a''])) k = Some t" for k t
    using that by (auto simp: plan_defs split: if_splits)
  have "tn_status t \<noteq> TS_SUCCEEDED" if k: "map_of (pl_tasks p') k = Some t" for k t
  proof
    assume s: "tn_status t = TS_SUCCEEDED"
    have "map_of (pl_tasks (sample_plan [''a''])) k = Some t"
      by (rule fenced_plan_never_succeeds [OF _ run sample_plan_inv, THEN conjunct1, rule_format, OF _ k s]) simp
    from fresh [OF this] s show False by simp
  qed
  with run show ?thesis by blast
qed

section \<open>Siblings of a terminal failure\<close>

text \<open>
  After one task has driven the context into a terminal status, its siblings get no chance to run: each
  of them is marked failed, with the exception of the refused status change as its error, without its
  capability being started and without a trace in the evidence ledger.
\<close>

theorem sibling_of_terminal_failure_fails:
  assumes "terminal_status (ctx_status (w_ctx w))" and "map_of (pl_tasks p) tid = Some t0"
    and "run_task (memory_runtime reg pe rp fc env) tid (p, w) = Some (r, (p', w'))"
  shows "r = Inr True \<and> w_ev w' = w_ev w \<and>
     (\<exists>t. map_of (pl_tasks p') tid = Some t \<and> tn_status t = TS_FAILED)"
proof -
  let ?R = "memory_runtime reg pe rp fc env"
  let ?p1 = "update_task tid (\<lambda>t. t\<lparr>tn_status := TS_RUNNING\<rparr>) p"
  have save: "\<exists>v'. save_plan ?R f q v = (Inr (), v') \<and> w_ev v' = w_ev v \<and> ctx_status (w_ctx v') = ctx_status (f (w_ctx v))"
    for f q v
    by (simp add: save_plan_def ctx_m_def em_simps store_save_def memory_cp_save_def touch_def Let_def)
  obtain w1 where s: "save_plan ?R (\<lambda>c. c\<lparr>ctx_current_node := Some tid\<rparr>) ?p1 w = (Inr (), w1)"
    and w1: "w_ev w1 = w_ev w" "ctx_status (w_ctx w1) = ctx_status (w_ctx w)"
    using save [of "\<lambda>c. c\<lparr>ctx_current_node := Some tid\<rparr>" ?p1 w] by auto
  let ?t = "t0\<lparr>tn_status := TS_RUNNING\<rparr>"
  let ?iid = "ctx_execution_id (w_ctx w1) @ '':'' @ tn_task_id ?t"
  obtain e n where "execute ?R (tn_capability_id ?t) (tn_capability_version ?t) (tn_input_data ?t) (Some ?iid) None None w1 =
      (Inl e, w1\<lparr>w_tick := n\<rparr>)"
    using execute_terminal [of w1 ?iid ?R] assms(1) w1(2) by (metis append_is_Nil_conv list.distinct(1))
  then have i: "invoke_task ?R ?t w1 = Some (Inl e, w1\<lparr>w_tick := n\<rparr>)" by (simp add: invoke_task_def Let_def)
  have "map_of (pl_tasks ?p1) tid = Some ?t" by (simp add: map_of_update_task assms(2))
  with assms(3) s i have f: "fail_task ?R tid e (?p1, w1\<lparr>w_tick := n\<rparr>) = (r, (p', w'))"
    by (simp add: run_task_def Let_def)
  let ?p2 = "update_task tid (\<lambda>t. t\<lparr>tn_status := TS_FAILED, tn_error := Some
      [(''type'', PStr (exn_name (exn_class e))), (''message'', PStr (exn_str e))]\<rparr>) ?p1"
  obtain v' where "save_plan ?R (\<lambda>c. c) ?p2 (w1\<lparr>w_tick := n\<rparr>) = (Inr (), v')" "w_ev v' = w_ev w1"
    using save [of "\<lambda>c. c" ?p2 "w1\<lparr>w_tick := n\<rparr>"] by auto
  with f w1(1) have "r = Inr True" "w_ev w' = w_ev w" by (auto simp: fail_task_def Let_def)
  moreover obtain t where "map_of (pl_tasks p') tid = Some t" "outcome_ok r (tn_status t)"
    using moves_status [OF run_task_plan [OF assms(3,2)] assms(2)] by blast
  ultimately show ?thesis by (auto simp: outcome_ok_def)
qed

theorem sibling_of_terminal_failure_fails_witness:
  "\<exists>r p' w'. run_task (sample_rt echo_invoke) ''b'' (sample_plan [],
        (sample_world [] [] [])\<lparr>w_ctx := (new_context sample_identity ''o'' 0 0)\<lparr>ctx_status := ES_STOPPED\<rparr>\<rparr>) =
       Some (r, (p', w')) \<and> w_ev w' = [] \<and>
     (\<exists>t. map_of (pl_tasks p') ''b'' = Some t \<and> tn_status t = TS_FAILED)"
proof -
  let ?w = "(sample_world [] [] [] :: memory_world)\<lparr>w_ctx := (new_context sample_identity ''o'' 0 0)\<lparr>ctx_status := ES_STOPPED\<rparr>\<rparr>"
  have "retry_inv default_recovery_policy ?w"
    by (simp add: retry_inv_def settled_def new_context_def default_recovery_policy_def)
  from run_task_ends [OF echo_honest this, of default_policy_engine None sample_env]
  obtain r p' w' where run: "run_task (sample_rt echo_invoke) ''b'' (sample_plan [], ?w) = Some (r, (p', w'))"
    by blast
  have "terminal_status (ctx_status (w_ctx ?w))" by (simp add: terminal_status_def)
  moreover have "map_of (pl_tasks (sample_plan [])) ''b'' = Some (task_b [])" by (simp add: sample_plan_def)
  ultimately show ?thesis
    using sibling_of_terminal_failure_fails [OF _ _ run] run by (auto simp: sample_world_def)
qed

end
