(* ===== verification/Kernel_Supervisor.thy ===== *)
theory Kernel_Supervisor
  imports Kernel_Orchestrator_Laws Runtime_Properties
begin

text \<open>
  \<^verbatim>\<open>ois/kernel/supervisor.py\<close>: agent selection, delegation of a plan to the orchestrator or of a
  single call to the runtime, and the two decision functions. The telemetry tracker only wraps a
  delegated call in a span; the supervisor is modelled without one.
\<close>

record supervision_request =
  sr_objective :: string
  sr_plan_validated :: bool
  sr_authorized :: bool
  sr_status :: string
  sr_failure :: "failure_ref option"
  sr_retry_allowed :: bool
  sr_recovery_allowed :: bool
  sr_approval_required :: bool
  sr_approval_granted :: bool

record supervision_decision =
  sd_action :: string
  sd_reason :: string
  sd_terminal :: bool

record ('c, 'i, 'e) supervisor =
  sv_runtime :: "('c, 'i, 'e) runtime option"
  sv_agents :: "capability_registry option"
  sv_orchestrator :: "('c, 'i, 'e) runtime option"
  sv_recovery :: recovery_policy
  sv_authorize :: "invocation_request \<Rightarrow> capability_contract \<Rightarrow> py_exn + bool"
  sv_evidence :: bool
  sv_availability :: "(capability_entry \<Rightarrow> bool) option"

section \<open>Decisions\<close>

definition decision :: "string \<Rightarrow> string \<Rightarrow> bool \<Rightarrow> supervision_decision" where
  "decision act reason fin = \<lparr>sd_action = act, sd_reason = reason, sd_terminal = fin\<rparr>"

text \<open>\<open>getattr(failure, "value", failure)\<close>.\<close>

fun failure_value :: "failure_ref option \<Rightarrow> pyval" where
  "failure_value None = PNone"
| "failure_value (Some (FEnum f)) = PStr (failure_class_value f)"
| "failure_value (Some (FRaw v)) = v"

text \<open>\<open>str_of\<close> is \<open>str()\<close> of a value that is not a string.\<close>

definition text_of :: "(pyval \<Rightarrow> string) \<Rightarrow> pyval \<Rightarrow> string" where
  "text_of str_of v = (case v of PStr s \<Rightarrow> s | _ \<Rightarrow> str_of v)"

definition decide :: "(pyval \<Rightarrow> string) \<Rightarrow> supervision_request \<Rightarrow> supervision_decision" where
  "decide str_of r =
     (let fv = failure_value (sr_failure r) in
      if py_blank (sr_objective r) then decision ''stop'' ''objective is required'' True
      else if sr_approval_required r \<and> \<not> sr_approval_granted r
      then decision ''escalate'' ''human approval is required before execution'' False
      else if \<not> sr_authorized r
      then decision ''escalate'' ''authorization is not granted by the execution boundary'' False
      else if \<not> sr_plan_validated r
      then decision ''replan'' ''execution plan has not passed validation'' False
      else if sr_status r \<in> {''completed'', ''success'', ''succeeded''}
      then decision ''complete'' ''execution completed successfully'' True
      else if py_eq fv (PStr ''safety'')
      then decision ''stop'' ''safety failures terminate execution'' True
      else if py_eq fv (PStr ''permission'')
      then decision ''escalate'' ''permission failures require escalation'' False
      else if py_eq fv (PStr ''plan'')
      then decision ''replan'' ''plan failure requires a new executable plan'' False
      else if sr_retry_allowed r
      then decision ''retry'' ''bounded retry is permitted by recovery policy'' False
      else if sr_recovery_allowed r
      then decision ''replan'' ''bounded recovery is permitted; replan before continuing'' False
      else if sr_failure r \<noteq> None
      then decision ''escalate'' (''failure '' @ text_of str_of fv @ '' has no safe automatic action'') False
      else decision ''execute'' ''plan is authorized and ready'' False)"

definition inspect :: "('c, 'i, 'e) supervisor \<Rightarrow> execution_context \<Rightarrow> supervision_decision" where
  "inspect sv c =
     (case ctx_last_failure c of
        None \<Rightarrow> decision ''continue'' ''No failure is recorded.'' False
      | Some f \<Rightarrow>
         (let d = classify (sv_recovery sv) f c in decision (rd_action d) (rd_reason d) (rd_terminal d)))"

section \<open>Agent selection\<close>

definition selection_event ::
  "environ \<Rightarrow> nat \<Rightarrow> execution_context \<Rightarrow> string \<Rightarrow> string \<Rightarrow> string \<Rightarrow> string \<Rightarrow> evidence_event" where
  "selection_event env n c etype cid ver reason =
     make_event (ctx_execution_id c) etype
       [(''capability_id'', PStr cid), (''version'', PStr ver), (''reason'', PStr reason)]
       (clock env n) (fresh_uuid env (Suc n))"

definition record_selection ::
  "('c, 'i, 'e) supervisor \<Rightarrow> evidence_event \<Rightarrow> memory_ledger \<Rightarrow> memory_ledger" where
  "record_selection sv e l = (if sv_evidence sv then memory_ev_append e l else l)"

text \<open>
  \<open>context or ExecutionContext(...)\<close>: without a context, one with a fresh identity is made.
\<close>

definition selection_context :: "environ \<Rightarrow> nat \<Rightarrow> string \<Rightarrow> string \<Rightarrow> execution_context option \<Rightarrow> execution_context" where
  "selection_context env n cid ver c =
     (case c of
        Some x \<Rightarrow> x
      | None \<Rightarrow> new_context
          \<lparr>eid_execution_id = fresh_uuid env n, eid_tenant_id = ''default'', eid_workflow_id = None,
           eid_workflow_version = None\<rparr>
          (''Agent selection for '' @ at_version cid ver) (clock env n) (clock env n))"

definition select_agent ::
  "('c, 'i, 'e) supervisor \<Rightarrow> environ \<Rightarrow> nat \<Rightarrow> string \<Rightarrow> string \<Rightarrow> execution_context option \<Rightarrow> pydict \<Rightarrow> string \<Rightarrow>
     memory_ledger \<Rightarrow> (py_exn + capability_entry) \<times> memory_ledger" where
  "select_agent sv env n cid ver ctx input iid l =
     (case sv_agents sv of
        None \<Rightarrow> (Inl (Exn AgentSelectionError ''agent_registry is required for agent selection''), l)
      | Some reg \<Rightarrow>
         if py_blank cid
         then (Inl (Exn AgentSelectionError ''capability_id is required for agent selection''), l)
         else if py_blank ver
         then (Inl (Exn AgentSelectionError ''version is required for agent selection''), l)
         else
          (let c = selection_context env n cid ver ctx;
               req = \<lparr>ir_invocation_id = iid, ir_capability_id = cid, ir_input = input, ir_execution = c,
                      ir_timeout_seconds = None, ir_attempt = 0, ir_cancellation = None\<rparr>
           in case agent_route (sv_authorize sv req) (sv_availability sv) cid ver reg of
                Inl e \<Rightarrow>
                  (if is_routing_error (exn_class e)
                   then (Inl (Exn AgentSelectionError (exn_str e)),
                         record_selection sv (selection_event env (Suc n) c ''agent.selection.rejected'' cid ver (exn_str e)) l)
                   else (Inl e, l))
              | Inr d \<Rightarrow>
                  (Inr (ard_selected d),
                   record_selection sv (selection_event env (Suc n) c ''agent.selection.selected'' cid ver (ard_reason d)) l)))"

section \<open>Delegation\<close>

datatype supervised = SupervisedPlan execution_plan | SupervisedResult invocation_result

definition rejected_result :: "string \<Rightarrow> string \<Rightarrow> string \<Rightarrow> invocation_result" where
  "rejected_result iid cid msg =
     (new_result iid cid IS_FAILED)\<lparr>res_error := Some
        [(''type'', PStr ''SupervisorValidationError''), (''message'', PStr msg),
         (''failure_class'', PStr ''validation''), (''recovery_action'', PStr ''stop'')]\<rparr>"

text \<open>
  \<open>has_context\<close> says whether a context was passed (it is the world's); the runtime's first line reads
  \<open>context.status\<close>. The text arguments default to the empty text.
\<close>

definition supervise ::
  "('c, 'i, 'e) supervisor \<Rightarrow> execution_plan option \<Rightarrow> bool \<Rightarrow> string \<Rightarrow> string \<Rightarrow> string \<Rightarrow> pydict \<Rightarrow> string \<Rightarrow>
     ('c, 'i, 'e) world \<Rightarrow> ((py_exn + supervised) \<times> ('c, 'i, 'e) world) option" where
  "supervise sv plan has_context objective cid ver input iid w =
     (case plan of
        Some p \<Rightarrow>
          (case sv_orchestrator sv of
             None \<Rightarrow> Some (Inl (Exn SupervisorError ''orchestrator is required for plan execution''), w)
           | Some rt \<Rightarrow>
              if \<not> has_context then Some (Inl (Exn SupervisorError ''context is required for plan execution''), w)
              else map_option (\<lambda>(r, (p', w')).
                     (case r of Inl e \<Rightarrow> Inl e | Inr _ \<Rightarrow> Inr (SupervisedPlan p'), w')) (execute_plan rt (p, w)))
      | None \<Rightarrow>
          (case sv_runtime sv of
             None \<Rightarrow> Some (Inl (Exn SupervisorError ''runtime is required for direct execution''), w)
           | Some rt \<Rightarrow>
              if py_blank objective then
                Some (Inr (SupervisedResult (rejected_result iid cid ''objective is required'')), w)
              else if py_blank cid then
                Some (Inr (SupervisedResult (rejected_result iid cid ''capability_id is required'')), w)
              else if \<not> has_context then Some (Inl (no_attribute ''NoneType'' ''status''), w)
              else Some (case execute rt cid ver input (Some iid) None None w of
                     (r, w') \<Rightarrow> (case r of Inl e \<Rightarrow> Inl e | Inr res \<Rightarrow> Inr (SupervisedResult res), w'))))"

section \<open>What the decisions allow\<close>

lemma decide_goes_on:
  assumes "sd_action (decide str_of r) \<in> {''execute'', ''retry''}"
  shows "\<not> py_blank (sr_objective r)" and "sr_approval_required r \<longrightarrow> sr_approval_granted r"
    and "sr_authorized r" and "sr_plan_validated r"
    and "sr_status r \<notin> {''completed'', ''success'', ''succeeded''}"
    and "\<forall>f\<in>{FC_SAFETY, FC_PERMISSION, FC_PLAN}. sr_failure r \<noteq> Some (FEnum f)"
    and "sd_action (decide str_of r) = ''retry'' \<longleftrightarrow> sr_retry_allowed r"
  using assms by (auto simp: decide_def decision_def Let_def split: if_splits)

text \<open>The decision depends on a failure only through its value, so a reloaded failure counts as itself.\<close>

lemma decide_reloaded:
  assumes "sr_failure r = Some (FEnum f)"
  shows "decide str_of (r\<lparr>sr_failure := Some (FRaw (PStr (failure_class_value f)))\<rparr>) = decide str_of r"
  using assms by (simp add: decide_def Let_def)

lemma select_agent_sound:
  assumes "select_agent sv env n cid ver ctx input iid l = (Inr e, l')"
  obtains reg c where "sv_agents sv = Some reg" and "c = selection_context env n cid ver ctx"
    and "filter (eligible_agent (sv_authorize sv \<lparr>ir_invocation_id = iid, ir_capability_id = cid, ir_input = input,
           ir_execution = c, ir_timeout_seconds = None, ir_attempt = 0, ir_cancellation = None\<rparr>) (sv_availability sv))
           (agent_candidates cid ver reg) = [e]"
    and "sv_evidence sv \<Longrightarrow> \<exists>ev. l' = l @ [ev] \<and> ev_event_type ev = ''agent.selection.selected'' \<and>
           ev_execution_id ev = ctx_execution_id c"
proof -
  obtain reg where reg: "sv_agents sv = Some reg"
    using assms by (auto simp: select_agent_def split: option.splits)
  let ?c = "selection_context env n cid ver ctx"
  let ?req = "\<lparr>ir_invocation_id = iid, ir_capability_id = cid, ir_input = input, ir_execution = ?c,
     ir_timeout_seconds = None, ir_attempt = 0, ir_cancellation = None\<rparr>"
  obtain d where d: "agent_route (sv_authorize sv ?req) (sv_availability sv) cid ver reg = Inr d"
    and e: "e = ard_selected d"
    and l': "l' = record_selection sv (selection_event env (Suc n) ?c ''agent.selection.selected'' cid ver (ard_reason d)) l"
    using assms reg by (auto simp: select_agent_def Let_def split: if_splits sum.splits)
  show thesis
    using reg agent_route_sole [OF d] l' e
    by (intro that [of reg ?c])
      (simp_all add: record_selection_def memory_ev_append_def selection_event_def make_event_def)
qed

section \<open>Properties\<close>

text \<open>
  The supervisor lets an execution go on (\<open>execute\<close> or \<open>retry\<close>) only when it has an objective, a required
  approval is granted, the boundary has authorized it, its plan is validated, it is not already
  finished, and its failure is not one of safety, permission or plan; and it retries only when the
  recovery policy allows a retry.
\<close>

theorem decide_guards:
  assumes "sd_action (decide str_of r) \<in> {''execute'', ''retry''}"
  shows "\<not> py_blank (sr_objective r) \<and> (sr_approval_required r \<longrightarrow> sr_approval_granted r) \<and>
     sr_authorized r \<and> sr_plan_validated r \<and> sr_status r \<notin> {''completed'', ''success'', ''succeeded''} \<and>
     (\<forall>f\<in>{FC_SAFETY, FC_PERMISSION, FC_PLAN}. sr_failure r \<noteq> Some (FEnum f) \<and>
        sr_failure r \<noteq> Some (FRaw (PStr (failure_class_value f)))) \<and>
     (sd_action (decide str_of r) = ''retry'' \<longleftrightarrow> sr_retry_allowed r)"
  using assms by (auto simp: decide_def decision_def Let_def split: if_splits)

definition sample_request :: supervision_request where
  "sample_request =
     \<lparr>sr_objective = ''say hello'', sr_plan_validated = True, sr_authorized = True, sr_status = ''pending'',
      sr_failure = Some (FEnum FC_TRANSIENT), sr_retry_allowed = True, sr_recovery_allowed = False,
      sr_approval_required = True, sr_approval_granted = True\<rparr>"

theorem decide_guards_witness:
  "sd_action (decide (\<lambda>_. []) sample_request) = ''retry'' \<and> sr_approval_granted sample_request"
proof -
  have act: "sd_action (decide (\<lambda>_. []) sample_request) = ''retry''" by code_simp
  then have "sd_action (decide (\<lambda>_. []) sample_request) \<in> {''execute'', ''retry''}" by simp
  from decide_guards [OF this] act show ?thesis by (simp add: sample_request_def)
qed

text \<open>
  Agent selection is sound: the agent that \<open>select_agent\<close> returns is registered under the requested id and
  version with an agent contract, the default policy permits that contract, it is available, and it
  is the only such candidate; the selection is recorded in the ledger.
\<close>

theorem selected_agent_is_permitted:
  assumes "select_agent sv env n cid ver ctx input iid l = (Inr e, l')"
    and "sv_authorize sv = policy_authorize pe" and "sv_evidence sv"
  shows "\<exists>reg k. sv_agents sv = Some reg \<and> e \<in> set (agent_candidates cid ver reg) \<and> ce_contract e = Some k \<and>
     is_agent_contract (cc_kind k) \<and> cc_capability_id k = cid \<and> cc_version k = ver \<and>
     cc_risk_level k \<le> pe_maximum_risk pe \<and> set (cc_permissions k) \<subseteq> set (pe_allowed_permissions pe) \<and>
     (case sv_availability sv of None \<Rightarrow> True | Some avail \<Rightarrow> avail e) \<and>
     (\<exists>ev. l' = l @ [ev] \<and> ev_event_type ev = ''agent.selection.selected'')"
proof -
  obtain reg c where reg: "sv_agents sv = Some reg"
    and sole: "filter (eligible_agent (policy_authorize pe \<lparr>ir_invocation_id = iid, ir_capability_id = cid, ir_input = input,
           ir_execution = c, ir_timeout_seconds = None, ir_attempt = 0, ir_cancellation = None\<rparr>) (sv_availability sv))
           (agent_candidates cid ver reg) = [e]"
    and ev: "\<exists>ev. l' = l @ [ev] \<and> ev_event_type ev = ''agent.selection.selected''"
    using select_agent_sound [OF assms(1)] assms(2,3) by metis
  let ?req = "\<lparr>ir_invocation_id = iid, ir_capability_id = cid, ir_input = input, ir_execution = c,
     ir_timeout_seconds = None, ir_attempt = 0, ir_cancellation = None\<rparr>"
  have mem: "e \<in> set (agent_candidates cid ver reg)"
    and el: "eligible_agent (policy_authorize pe ?req) (sv_availability sv) e"
    using arg_cong [OF sole, of set] by (auto simp: set_eq_iff)
  obtain k where k: "ce_contract e = Some k" "\<not> isl (policy_authorize pe ?req k)"
    and av: "case sv_availability sv of None \<Rightarrow> True | Some avail \<Rightarrow> avail e"
    using el by (auto simp: eligible_agent_def split: option.splits)
  have "policy_permits pe ?req k" using k(2) default_policy.authorize_isl by blast
  with reg mem k(1) av ev show ?thesis by (auto simp: agent_candidates_def policy_permits_def)
qed

definition agent_contract :: capability_contract where
  "agent_contract = sample_contract\<lparr>cc_kind := AgentContract [] [] 1\<rparr>"

definition agent_entry :: capability_entry where
  "agent_entry = \<lparr>ce_capability = \<lparr>cap_contract = Some agent_contract, cap_invoke = echo_invoke\<rparr>,
     ce_contract = Some agent_contract, ce_id = ''echo'', ce_version = ''1''\<rparr>"

definition sample_supervisor :: "(memory_checkpoints, memory_idempotency, memory_ledger) supervisor" where
  "sample_supervisor =
     \<lparr>sv_runtime = Some (sample_rt echo_invoke), sv_agents = Some [((''echo'', ''1''), agent_entry)],
      sv_orchestrator = Some (sample_rt echo_invoke), sv_recovery = default_recovery_policy,
      sv_authorize = policy_authorize default_policy_engine, sv_evidence = True, sv_availability = None\<rparr>"

theorem selected_agent_is_permitted_witness:
  "\<exists>l' k. select_agent sample_supervisor sample_env 0 ''echo'' ''1'' None [] ''agent-selection'' [] = (Inr agent_entry, l') \<and>
     ce_contract agent_entry = Some k \<and> cc_risk_level k \<le> RL_MEDIUM \<and>
     (\<exists>ev. l' = [ev] \<and> ev_event_type ev = ''agent.selection.selected'')"
proof -
  have perm: "policy_authorize default_policy_engine req agent_contract = Inr True"
    if "ctx_tenant_id (ir_execution req) = ''default''" for req
    using that by (intro policy_authorize_permits)
      (simp add: policy_permits_def agent_contract_def sample_contract_def new_contract_def default_policy_engine_def)
  have cand: "agent_candidates ''echo'' ''1'' [((''echo'', ''1''), agent_entry)] = [agent_entry]"
    by (simp add: agent_candidates_def capability_list_def agent_entry_def agent_contract_def sample_contract_def
        new_contract_def)
  have blank: "\<not> py_blank ''echo''" "\<not> py_blank ''1''" by code_simp+
  obtain l' where run: "select_agent sample_supervisor sample_env 0 ''echo'' ''1'' None [] ''agent-selection'' [] = (Inr agent_entry, l')"
    using cand blank
    by (simp add: select_agent_def sample_supervisor_def Let_def agent_route_def perm selection_context_def new_context_def
        agent_entry_def [THEN arg_cong, of ce_contract])
  have "sv_authorize sample_supervisor = policy_authorize default_policy_engine" "sv_evidence sample_supervisor"
    by (simp_all add: sample_supervisor_def)
  from selected_agent_is_permitted [OF run this] run show ?thesis by (auto simp: default_policy_engine_def)
qed

end
