(* ===== verification/Durable_Outbox.thy ===== *)
theory Durable_Outbox
  imports Kernel_Stores Worker_Fencing
begin

text \<open>
  \<^verbatim>\<open>ois/kernel/side_effects.py\<close>: the transactional outbox of consequential external operations.

  A table is a list of rows in insertion order. A transaction is one function: it gives the new
  tables, or the exception with which it rolled back, and then nothing has changed. \<open>now\<close> is the
  transaction's \<open>now()\<close>. Unique columns are those of the schema (\<open>effect_id\<close>, \<open>invocation_id\<close>,
  \<open>idempotency_key\<close>); an insert that violates one raises \<open>UniqueViolation\<close>. Row locks make
  concurrent claims see disjoint rows, which is what a sequence of atomic claims does.
\<close>

section \<open>The outbox\<close>

datatype effect_status = OB_PENDING | OB_PROCESSING | OB_COMPLETED

record side_effect_command =
  se_effect_id :: string
  se_tenant_id :: string
  se_execution_id :: uuid
  se_invocation_id :: string
  se_capability_id :: string
  se_idempotency_key :: string
  se_request :: pydict

record side_effect_result =
  sr_effect_id :: string
  sr_idempotency_key :: string
  sr_output :: pyval
  sr_completed_at :: "timestamp option"

record outbox_row =
  ob_command :: side_effect_command
  ob_status :: effect_status
  ob_attempts :: nat
  ob_locked_at :: "timestamp option"
  ob_completed_at :: "timestamp option"
  ob_result :: "json_text option"
  ob_last_error :: "json_text option"
  ob_created_at :: timestamp
  ob_updated_at :: timestamp

type_synonym outbox = "outbox_row list"

abbreviation ob_effect :: "outbox_row \<Rightarrow> string" where
  "ob_effect r \<equiv> se_effect_id (ob_command r)"

abbreviation ob_invocation :: "outbox_row \<Rightarrow> string" where
  "ob_invocation r \<equiv> se_invocation_id (ob_command r)"

abbreviation ob_key :: "outbox_row \<Rightarrow> string" where
  "ob_key r \<equiv> se_idempotency_key (ob_command r)"

definition unique_violation :: "string \<Rightarrow> py_exn" where
  "unique_violation c = Exn (OtherException ''UniqueViolation'') (''duplicate key value: '' @ c)"

definition new_row :: "timestamp \<Rightarrow> side_effect_command \<Rightarrow> outbox_row" where
  "new_row now cmd =
     \<lparr>ob_command = cmd, ob_status = OB_PENDING, ob_attempts = 0, ob_locked_at = None, ob_completed_at = None,
      ob_result = None, ob_last_error = None, ob_created_at = now, ob_updated_at = now\<rparr>"

text \<open>A plain insert, and \<open>ON CONFLICT (invocation_id) DO NOTHING\<close>.\<close>

definition outbox_insert :: "timestamp \<Rightarrow> side_effect_command \<Rightarrow> outbox \<Rightarrow> py_exn + outbox" where
  "outbox_insert now cmd t =
     (if list_ex (\<lambda>r. ob_effect r = se_effect_id cmd) t then Inl (unique_violation ''effect_id'')
      else if list_ex (\<lambda>r. ob_invocation r = se_invocation_id cmd) t then Inl (unique_violation ''invocation_id'')
      else if list_ex (\<lambda>r. ob_key r = se_idempotency_key cmd) t then Inl (unique_violation ''idempotency_key'')
      else Inr (t @ [new_row now cmd]))"

definition outbox_insert_new :: "timestamp \<Rightarrow> side_effect_command \<Rightarrow> outbox \<Rightarrow> py_exn + outbox" where
  "outbox_insert_new now cmd t =
     (if list_ex (\<lambda>r. ob_invocation r = se_invocation_id cmd) t then Inr t else outbox_insert now cmd t)"

text \<open>\<open>enqueue\<close> returns the command it built, whether or not a row was inserted for it.\<close>

definition enqueue ::
  "timestamp \<Rightarrow> uuid \<Rightarrow> side_effect_command \<Rightarrow> string option \<Rightarrow> outbox \<Rightarrow>
     py_exn + side_effect_command \<times> outbox" where
  "enqueue now fresh cmd effect_id t =
     (let c = cmd\<lparr>se_effect_id := (case effect_id of Some (x # xs) \<Rightarrow> x # xs | _ \<Rightarrow> fresh)\<rparr>
      in case outbox_insert_new now c t of Inl e \<Rightarrow> Inl e | Inr t' \<Rightarrow> Inr (c, t'))"

definition five_minutes :: int where
  "five_minutes = 5 * 60 * 1000000"

definition claimable :: "timestamp \<Rightarrow> outbox_row \<Rightarrow> bool" where
  "claimable now r \<longleftrightarrow>
     ob_status r = OB_PENDING \<or>
     ob_status r = OB_PROCESSING \<and> (case ob_locked_at r of None \<Rightarrow> False | Some l \<Rightarrow> l < now - five_minutes)"

definition update_effect :: "string \<Rightarrow> (outbox_row \<Rightarrow> outbox_row) \<Rightarrow> outbox \<Rightarrow> outbox" where
  "update_effect e f t = map (\<lambda>r. if ob_effect r = e then f r else r) t"

definition lock_row :: "timestamp \<Rightarrow> outbox_row \<Rightarrow> outbox_row" where
  "lock_row now r =
     r\<lparr>ob_status := OB_PROCESSING, ob_attempts := Suc (ob_attempts r), ob_locked_at := Some now, ob_updated_at := now\<rparr>"

text \<open>\<open>ORDER BY created_at LIMIT 1\<close>; rows of the same time in insertion order.\<close>

definition claim_effect :: "timestamp \<Rightarrow> outbox \<Rightarrow> side_effect_command option \<times> outbox" where
  "claim_effect now t =
     (case sort_key ob_created_at (filter (claimable now) t) of
        [] \<Rightarrow> (None, t)
      | r # _ \<Rightarrow>
          (Some ((ob_command r)\<lparr>se_request := canon_dict (se_request (ob_command r))\<rparr>),
           update_effect (ob_effect r) (lock_row now) t))"

text \<open>\<open>if fencing is not None: ...\<close>: the lease table and database time the check sees, if there is one.\<close>

definition effect_fence :: "(lease_table \<times> timestamp) option \<Rightarrow> worker_lease option \<Rightarrow> py_exn + unit" where
  "effect_fence fencing lease =
     (case fencing of
        None \<Rightarrow> Inr ()
      | Some (lt, now) \<Rightarrow>
         (case lease of
            None \<Rightarrow> Inl (Exn ValueError ''fencing requires a worker lease'')
          | Some l \<Rightarrow> lease_assert_current now l lt))"

definition finish_row :: "timestamp \<Rightarrow> side_effect_result \<Rightarrow> outbox_row \<Rightarrow> outbox_row" where
  "finish_row now res r =
     r\<lparr>ob_status := OB_COMPLETED,
       ob_completed_at := Some (case sr_completed_at res of Some t \<Rightarrow> t | None \<Rightarrow> now),
       ob_result := Some (json_dumps (PDict [(''output'', sr_output res)])), ob_locked_at := None, ob_updated_at := now\<rparr>"

definition complete_effect ::
  "timestamp \<Rightarrow> (lease_table \<times> timestamp) option \<Rightarrow> worker_lease option \<Rightarrow> side_effect_command \<Rightarrow>
     side_effect_result \<Rightarrow> outbox \<Rightarrow> py_exn + outbox" where
  "complete_effect now fencing lease cmd res t =
     (case effect_fence fencing lease of
        Inl e \<Rightarrow> Inl e
      | Inr _ \<Rightarrow> Inr (update_effect (se_effect_id cmd) (finish_row now res) t))"

definition reopen_row :: "timestamp \<Rightarrow> pydict \<Rightarrow> outbox_row \<Rightarrow> outbox_row" where
  "reopen_row now err r =
     r\<lparr>ob_status := OB_PENDING, ob_locked_at := None, ob_last_error := Some (json_dumps (PDict err)), ob_updated_at := now\<rparr>"

definition fail_effect ::
  "timestamp \<Rightarrow> (lease_table \<times> timestamp) option \<Rightarrow> worker_lease option \<Rightarrow> side_effect_command \<Rightarrow>
     pydict \<Rightarrow> outbox \<Rightarrow> py_exn + outbox" where
  "fail_effect now fencing lease cmd err t =
     (case effect_fence fencing lease of
        Inl e \<Rightarrow> Inl e
      | Inr _ \<Rightarrow> Inr (update_effect (se_effect_id cmd) (reopen_row now err) t))"

definition stale_row :: "timestamp \<Rightarrow> outbox_row \<Rightarrow> bool" where
  "stale_row now r \<longleftrightarrow>
     ob_status r = OB_PROCESSING \<and> (case ob_locked_at r of None \<Rightarrow> False | Some l \<Rightarrow> l < now - five_minutes)"

definition recover_stale :: "timestamp \<Rightarrow> outbox \<Rightarrow> nat \<times> outbox" where
  "recover_stale now t =
     (length (filter (stale_row now) t),
      map (\<lambda>r. if stale_row now r then r\<lparr>ob_status := OB_PENDING, ob_locked_at := None, ob_updated_at := now\<rparr> else r) t)"

section \<open>The outbox keeps its keys\<close>

definition outbox_wf :: "outbox \<Rightarrow> bool" where
  "outbox_wf t \<longleftrightarrow> distinct (map ob_effect t) \<and> distinct (map ob_invocation t) \<and> distinct (map ob_key t)"

lemma outbox_wf_command:
  assumes "\<And>r. ob_command (f r) = ob_command r"
  shows "outbox_wf (map f t) \<longleftrightarrow> outbox_wf t"
  by (simp add: outbox_wf_def comp_def assms)

lemma outbox_wf_update [simp]:
  "(\<And>r. ob_command (f r) = ob_command r) \<Longrightarrow> outbox_wf (update_effect e f t) \<longleftrightarrow> outbox_wf t"
  unfolding update_effect_def by (rule outbox_wf_command) simp

lemma row_commands [simp]:
  "ob_command (lock_row now r) = ob_command r" "ob_command (finish_row now res r) = ob_command r"
  "ob_command (reopen_row now err r) = ob_command r"
  by (simp_all add: lock_row_def finish_row_def reopen_row_def)

lemma outbox_insert_wf: "outbox_insert now cmd t = Inr t' \<Longrightarrow> outbox_wf t \<Longrightarrow> outbox_wf t'"
  by (auto simp: outbox_insert_def outbox_wf_def new_row_def list_ex_iff image_iff split: if_splits) blast+

lemma outbox_insert_new_wf: "outbox_insert_new now cmd t = Inr t' \<Longrightarrow> outbox_wf t \<Longrightarrow> outbox_wf t'"
  by (auto simp: outbox_insert_new_def outbox_insert_wf split: if_splits)

lemma outbox_ops_wf:
  assumes "outbox_wf t"
  shows "enqueue now fresh cmd eid t = Inr (c, t1) \<Longrightarrow> outbox_wf t1"
    and "claim_effect now t = (r, t2) \<Longrightarrow> outbox_wf t2"
    and "complete_effect now fc l cmd res t = Inr t3 \<Longrightarrow> outbox_wf t3"
    and "fail_effect now fc l cmd err t = Inr t4 \<Longrightarrow> outbox_wf t4"
    and "recover_stale now t = (n, t5) \<Longrightarrow> outbox_wf t5"
proof -
  show "enqueue now fresh cmd eid t = Inr (c, t1) \<Longrightarrow> outbox_wf t1"
    using assms by (auto simp: enqueue_def Let_def outbox_insert_new_wf split: sum.splits)
  show "claim_effect now t = (r, t2) \<Longrightarrow> outbox_wf t2"
    using assms by (auto simp: claim_effect_def split: list.splits)
  show "complete_effect now fc l cmd res t = Inr t3 \<Longrightarrow> outbox_wf t3"
    using assms by (auto simp: complete_effect_def split: sum.splits)
  show "fail_effect now fc l cmd err t = Inr t4 \<Longrightarrow> outbox_wf t4"
    using assms by (auto simp: fail_effect_def split: sum.splits)
  show "recover_stale now t = (n, t5) \<Longrightarrow> outbox_wf t5"
    using assms by (auto simp: recover_stale_def outbox_wf_command)
qed

section \<open>Runs of the outbox\<close>

text \<open>
  What producers, workers and the recovery job may do to the table, in any order and at any times.
  An event carries the effect it is about.
\<close>

datatype outbox_event =
    OE_Enqueue string | OE_Claim string | OE_Idle | OE_Complete string | OE_Fail string | OE_Recover nat

inductive outbox_step :: "outbox \<Rightarrow> timestamp \<times> outbox_event \<Rightarrow> outbox \<Rightarrow> bool" where
  enqueue_step: "enqueue now fresh cmd eid t = Inr (c, t') \<Longrightarrow> outbox_step t (now, OE_Enqueue (se_effect_id c)) t'"
| claim_step: "claim_effect now t = (Some c, t') \<Longrightarrow> outbox_step t (now, OE_Claim (se_effect_id c)) t'"
| idle_step: "claim_effect now t = (None, t') \<Longrightarrow> outbox_step t (now, OE_Idle) t'"
| complete_step: "complete_effect now fc l cmd res t = Inr t' \<Longrightarrow> outbox_step t (now, OE_Complete (se_effect_id cmd)) t'"
| fail_step: "fail_effect now fc l cmd err t = Inr t' \<Longrightarrow> outbox_step t (now, OE_Fail (se_effect_id cmd)) t'"
| recover_step: "recover_stale now t = (n, t') \<Longrightarrow> outbox_step t (now, OE_Recover n) t'"

inductive_cases outbox_stepE: "outbox_step t ev t'"

abbreviation outbox_run :: "outbox \<Rightarrow> (timestamp \<times> outbox_event) list \<Rightarrow> outbox \<Rightarrow> bool" where
  "outbox_run \<equiv> run_of outbox_step"

lemma outbox_step_wf: "outbox_step t ev t' \<Longrightarrow> outbox_wf t \<Longrightarrow> outbox_wf t'"
  by (elim outbox_stepE) (auto dest: outbox_ops_wf)

lemma claim_effect_cases:
  obtains "claim_effect now t = (None, t)" "filter (claimable now) t = []"
  | r rs where "sort_key ob_created_at (filter (claimable now) t) = r # rs" "r \<in> set t" "claimable now r"
      "claim_effect now t = (Some ((ob_command r)\<lparr>se_request := canon_dict (se_request (ob_command r))\<rparr>),
                           update_effect (ob_effect r) (lock_row now) t)"
proof (cases "sort_key ob_created_at (filter (claimable now) t)")
  case Nil
  then have "filter (claimable now) t = []" by (metis length_0_conv length_sort)
  with Nil show thesis by (intro that(1)) (simp_all add: claim_effect_def)
next
  case (Cons r rs)
  then have "r \<in> set (filter (claimable now) t)" by (metis list.set_intros(1) set_sort)
  with Cons show thesis by (intro that(2)) (simp_all add: claim_effect_def)
qed

text \<open>The row of an effect satisfies \<open>P\<close>.\<close>

definition effect_row :: "string \<Rightarrow> (outbox_row \<Rightarrow> bool) \<Rightarrow> outbox \<Rightarrow> bool" where
  "effect_row e P t \<longleftrightarrow> (\<exists>r\<in>set t. ob_effect r = e \<and> P r)"

lemma outbox_wf_unique: "outbox_wf t \<Longrightarrow> r \<in> set t \<Longrightarrow> r' \<in> set t \<Longrightarrow> ob_effect r = ob_effect r' \<Longrightarrow> r = r'"
  by (auto simp: outbox_wf_def distinct_map dest: inj_onD)

lemma effect_row_update:
  assumes "effect_row e P t" and "\<And>r. P r \<Longrightarrow> e' = e \<Longrightarrow> P (f r)" and "\<And>r. ob_command (f r) = ob_command r"
  shows "effect_row e P (update_effect e' f t)"
proof -
  obtain r where "r \<in> set t" "ob_effect r = e" "P r" using assms(1) by (auto simp: effect_row_def)
  then show ?thesis
    using assms(2,3) unfolding effect_row_def update_effect_def
    by (intro bexI [of _ "if e' = e then f r else r"]) auto
qed

text \<open>
  A row that cannot be claimed keeps its property through every step but a completion or a failure
  report for it, and is not handed out by the step.
\<close>

lemma outbox_step_keeps:
  assumes "outbox_step t (now, ev) t'" and "outbox_wf t" and "effect_row e P t"
    and "\<And>r. P r \<Longrightarrow> \<not> claimable now r"
    and "\<And>r res. ev = OE_Complete e \<Longrightarrow> P r \<Longrightarrow> P (finish_row now res r)"
    and "ev \<noteq> OE_Fail e"
  shows "effect_row e P t' \<and> ev \<noteq> OE_Claim e"
  using assms(1)
proof cases
  case (enqueue_step fresh cmd eid c)
  then have "set t \<subseteq> set t'"
    by (auto simp: enqueue_def Let_def outbox_insert_new_def outbox_insert_def split: sum.splits if_splits)
  with assms(3) enqueue_step show ?thesis by (auto simp: effect_row_def)
next
  case (claim_step c)
  then obtain r where r: "r \<in> set t" "claimable now r" "se_effect_id c = ob_effect r"
      "t' = update_effect (ob_effect r) (lock_row now) t"
    by (cases rule: claim_effect_cases [of now t]) auto
  then have ne: "ob_effect r \<noteq> e"
    using assms(2-4) outbox_wf_unique by (fastforce simp: effect_row_def)
  then show ?thesis
    using r claim_step effect_row_update [OF assms(3), of "ob_effect r" "lock_row now"] by simp
next
  case idle_step
  then show ?thesis using assms(3) by (cases rule: claim_effect_cases [of now t]) auto
next
  case (complete_step fc l cmd res)
  then have "t' = update_effect (se_effect_id cmd) (finish_row now res) t"
    by (auto simp: complete_effect_def split: sum.splits)
  then show ?thesis using complete_step assms(5) effect_row_update [OF assms(3)] by auto
next
  case (fail_step fc l cmd err)
  then have "t' = update_effect (se_effect_id cmd) (reopen_row now err) t"
    by (auto simp: fail_effect_def split: sum.splits)
  then show ?thesis using fail_step assms(6) effect_row_update [OF assms(3)] by auto
next
  case (recover_step n)
  obtain r where r: "r \<in> set t" "ob_effect r = e" "P r" using assms(3) by (auto simp: effect_row_def)
  then have "\<not> stale_row now r" using assms(4) by (auto simp: claimable_def stale_row_def)
  with r recover_step show ?thesis by (auto simp: effect_row_def recover_stale_def intro!: bexI [of _ r])
qed

lemma outbox_run_keeps:
  assumes "outbox_run t evs t'" and "outbox_wf t" and "effect_row e P t"
    and "\<And>now ev r. (now, ev) \<in> set evs \<Longrightarrow> P r \<Longrightarrow> \<not> claimable now r"
    and "\<And>now r res. (now, OE_Complete e) \<in> set evs \<Longrightarrow> P r \<Longrightarrow> P (finish_row now res r)"
    and "OE_Fail e \<notin> snd ` set evs"
  shows "effect_row e P t' \<and> OE_Claim e \<notin> snd ` set evs"
proof -
  have "(outbox_wf t' \<and> effect_row e P t') \<and> (\<forall>ev\<in>set evs. snd ev \<noteq> OE_Claim e)"
  proof (rule run_of_invariant [OF assms(1)])
    show "outbox_wf t \<and> effect_row e P t" using assms(2,3) ..
    fix t1 ev t2
    assume ev: "ev \<in> set evs" and st: "outbox_step t1 ev t2" and inv: "outbox_wf t1 \<and> effect_row e P t1"
    obtain now x where x: "ev = (now, x)" by fastforce
    have "effect_row e P t2 \<and> x \<noteq> OE_Claim e"
      using inv ev assms(4-6) x by (intro outbox_step_keeps [OF st [unfolded x]]) force+
    then show "(outbox_wf t2 \<and> effect_row e P t2) \<and> snd ev \<noteq> OE_Claim e"
      using outbox_step_wf [OF st] inv x by simp
  qed
  then show ?thesis by auto
qed

section \<open>Draining\<close>

fun claim_many :: "nat \<Rightarrow> timestamp \<Rightarrow> outbox \<Rightarrow> side_effect_command list \<times> outbox" where
  "claim_many 0 now t = ([], t)"
| "claim_many (Suc n) now t =
     (case claim_effect now t of
        (None, t1) \<Rightarrow> ([], t1)
      | (Some c, t1) \<Rightarrow> (let (cs, t2) = claim_many n now t1 in (c # cs, t2)))"

lemma not_claimable_locked [simp]: "\<not> claimable now (lock_row now r)"
  by (simp add: claimable_def lock_row_def five_minutes_def)

lemma claimable_after_lock:
  "filter (claimable now) (update_effect e (lock_row now) t) = filter (\<lambda>r. ob_effect r \<noteq> e) (filter (claimable now) t)"
  unfolding update_effect_def by (induction t) auto

lemma queue_after_lock:
  assumes "outbox_wf t" and "sort_key ob_created_at (filter (claimable now) t) = r # rs"
  shows "sort_key ob_created_at (filter (claimable now) (update_effect (ob_effect r) (lock_row now) t)) = rs"
proof -
  have "distinct (map ob_effect (filter (claimable now) t))"
    using assms(1) by (simp add: outbox_wf_def distinct_map_filter)
  then have "distinct (map ob_effect (r # rs))"
    unfolding assms(2) [symmetric] by (simp add: distinct_map)
  then have "filter (\<lambda>x. ob_effect x \<noteq> ob_effect r) rs = rs"
    by (simp add: filter_id_conv) (metis image_eqI)
  then show ?thesis
    using filter_sort [of "\<lambda>x. ob_effect x \<noteq> ob_effect r" ob_created_at "filter (claimable now) t"]
    unfolding claimable_after_lock assms(2) by simp
qed

lemma claim_many_drains:
  assumes "outbox_wf t" and "length (filter (claimable now) t) \<le> n" and "claim_many n now t = (cs, t')"
  shows "map se_effect_id cs = map ob_effect (sort_key ob_created_at (filter (claimable now) t))
         \<and> filter (claimable now) t' = []"
  using assms
proof (induction n arbitrary: t cs)
  case 0
  then show ?case by simp
next
  case (Suc n)
  show ?case
  proof (cases rule: claim_effect_cases [of now t])
    case 1
    then show ?thesis using Suc.prems(3) by simp
  next
    case (2 r rs)
    define t1 where "t1 = update_effect (ob_effect r) (lock_row now) t"
    obtain ds where ds: "claim_many n now t1 = (ds, t')" "se_effect_id (hd cs) = ob_effect r" "tl cs = ds" "cs \<noteq> []"
      using Suc.prems(3) 2(4) by (auto simp: t1_def split: prod.splits)
    have q: "sort_key ob_created_at (filter (claimable now) t1) = rs"
      unfolding t1_def by (rule queue_after_lock [OF Suc.prems(1) 2(1)])
    have "length (filter (claimable now) t1) = length rs" by (metis q length_sort)
    moreover have "length (filter (claimable now) t) = Suc (length rs)"
      by (metis 2(1) length_sort length_Cons)
    ultimately have "length (filter (claimable now) t1) \<le> n" using Suc.prems(2) by simp
    moreover have "outbox_wf t1" using Suc.prems(1) by (simp add: t1_def)
    ultimately show ?thesis
      using Suc.IH [OF _ _ ds(1)] ds(2-4) q 2(1) by (cases cs) auto
  qed
qed

end
