(* ===== verification/Outbox_Properties.thy ===== *)
theory Outbox_Properties
  imports Durable_Outbox
begin

text \<open>
  What the outbox of \<^verbatim>\<open>ois/kernel/side_effects.py\<close> promises to the workers that drain it, each with
  an instance at a concrete table.
\<close>

definition sample_command :: "string \<Rightarrow> side_effect_command" where
  "sample_command x =
     \<lparr>se_effect_id = ''e'' @ x, se_tenant_id = ''acme'', se_execution_id = ''x1'', se_invocation_id = ''i'' @ x,
      se_capability_id = ''mail'', se_idempotency_key = ''k'' @ x, se_request = [(''to'', PStr ''bob'')]\<rparr>"

definition sample_outbox :: outbox where
  "sample_outbox = [new_row 20 (sample_command ''b''), new_row 10 (sample_command ''a'')]"

lemmas sample_simps =
  sample_command_def sample_outbox_def new_row_def outbox_wf_def claimable_def claim_effect_def
  update_effect_def lock_row_def canon_dict_def five_minutes_def

text \<open>
  C7. While a worker holds a claimed effect (for five minutes after the claim, and until it is
  reported completed or failed), no sequence of enqueues, claims, reports for other effects and
  recovery passes hands the same effect to anyone else.
\<close>

theorem claim_is_exclusive:
  assumes "outbox_wf t" and "claim_effect now t = (Some c, t1)" and "outbox_run t1 evs t2"
    and "\<forall>(n, ev)\<in>set evs. n \<le> now + five_minutes \<and> ev \<noteq> OE_Complete (se_effect_id c) \<and> ev \<noteq> OE_Fail (se_effect_id c)"
  shows "OE_Claim (se_effect_id c) \<notin> snd ` set evs"
proof -
  define P where "P r \<longleftrightarrow> ob_status r = OB_PROCESSING \<and> ob_locked_at r = Some now" for r :: outbox_row
  obtain r where r: "r \<in> set t" "se_effect_id c = ob_effect r" "t1 = update_effect (ob_effect r) (lock_row now) t"
    using assms(2) by (cases rule: claim_effect_cases [of now t]) auto
  then have "effect_row (se_effect_id c) P t1"
    by (auto simp: effect_row_def update_effect_def P_def lock_row_def intro!: bexI [of _ "lock_row now r"])
  moreover have "outbox_wf t1" using assms(1) r(3) by simp
  ultimately have "effect_row (se_effect_id c) P t2 \<and> OE_Claim (se_effect_id c) \<notin> snd ` set evs"
    using assms(4) by (intro outbox_run_keeps [OF assms(3)]) (auto simp: P_def claimable_def)
  then show ?thesis by simp
qed

theorem claim_is_exclusive_witness:
  "OE_Claim ''ea'' \<notin> snd ` set [(100, OE_Claim ''eb''), (five_minutes, OE_Idle), (five_minutes, OE_Recover 0)]"
proof -
  define t1 where "t1 = update_effect ''ea'' (lock_row 50) sample_outbox"
  define t2 where "t2 = update_effect ''eb'' (lock_row 100) t1"
  note e = t1_def t2_def sample_simps
  have "outbox_step t1 (100, OE_Claim (se_effect_id (sample_command ''b''))) t2"
    by (rule claim_step) (simp add: e)
  moreover have "outbox_step t2 (five_minutes, OE_Idle) t2" by (rule idle_step) (simp add: e)
  moreover have "outbox_step t2 (five_minutes, OE_Recover 0) t2"
    by (rule recover_step) (simp add: e recover_stale_def stale_row_def)
  ultimately have "outbox_run t1 [(100, OE_Claim ''eb''), (five_minutes, OE_Idle), (five_minutes, OE_Recover 0)] t2"
    by (auto simp: run_of_Cons run_of_Nil sample_command_def)
  moreover have "claim_effect 50 sample_outbox = (Some (sample_command ''a''), t1)" by (simp add: e)
  moreover have "outbox_wf sample_outbox" by (simp add: sample_simps)
  ultimately show ?thesis
    using claim_is_exclusive [of sample_outbox 50 "sample_command ''a''" t1 _ t2]
    by (simp add: sample_command_def five_minutes_def)
qed

text \<open>
  C40. Claiming drains the outbox: as many claims at one time as there are claimable rows return exactly those
  rows, oldest first and each once, and leave none claimable.
\<close>

theorem outbox_drains:
  assumes "outbox_wf t" and "length (filter (claimable now) t) \<le> n"
  shows "\<exists>cs t'. claim_many n now t = (cs, t')
           \<and> map se_effect_id cs = map ob_effect (sort_key ob_created_at (filter (claimable now) t))
           \<and> filter (claimable now) t' = []"
  using claim_many_drains [OF assms] by (metis surj_pair)

theorem outbox_drains_witness:
  "\<exists>cs t'. claim_many 2 30 sample_outbox = (cs, t') \<and> map se_effect_id cs = [''ea'', ''eb'']
           \<and> filter (claimable 30) t' = []"
  using outbox_drains [of sample_outbox 30 2] by (simp add: sample_simps)

text \<open>
  A completed effect is never handed out again in any run without a failure report for it.
\<close>

theorem completed_effect_not_redelivered:
  assumes "outbox_wf t" and "complete_effect now fc l cmd res t = Inr t1"
    and "se_effect_id cmd \<in> ob_effect ` set t" and "outbox_run t1 evs t2"
    and "OE_Fail (se_effect_id cmd) \<notin> snd ` set evs"
  shows "effect_row (se_effect_id cmd) (\<lambda>r. ob_status r = OB_COMPLETED) t2
         \<and> OE_Claim (se_effect_id cmd) \<notin> snd ` set evs"
proof -
  have t1: "t1 = update_effect (se_effect_id cmd) (finish_row now res) t"
    using assms(2) by (auto simp: complete_effect_def split: sum.splits)
  obtain r where r: "r \<in> set t" "ob_effect r = se_effect_id cmd" using assms(3) by auto
  then have "effect_row (se_effect_id cmd) (\<lambda>r. ob_status r = OB_COMPLETED) t1"
    unfolding t1 effect_row_def update_effect_def
    by (intro bexI [of _ "finish_row now res r"]) (auto simp: finish_row_def image_iff)
  moreover have "outbox_wf t1" using assms(1) t1 by simp
  ultimately show ?thesis
    using assms(5) by (intro outbox_run_keeps [OF assms(4)]) (auto simp: claimable_def finish_row_def)
qed

definition sample_effect_result :: side_effect_result where
  "sample_effect_result =
     \<lparr>sr_effect_id = ''ea'', sr_idempotency_key = ''ka'', sr_output = PStr ''sent'', sr_completed_at = None\<rparr>"

theorem completed_effect_not_redelivered_witness:
  "effect_row ''ea'' (\<lambda>r. ob_status r = OB_COMPLETED)
     (update_effect ''ea'' (finish_row 60 sample_effect_result) sample_outbox)
   \<and> OE_Claim ''ea'' \<notin> snd ` set ([] :: (timestamp \<times> outbox_event) list)"
  using completed_effect_not_redelivered
    [of sample_outbox 60 None None "sample_command ''a''" sample_effect_result
        "update_effect ''ea'' (finish_row 60 sample_effect_result) sample_outbox" "[]"]
  by (simp add: run_of_Nil complete_effect_def effect_fence_def sample_simps)

text \<open>
  A failure report is applied whatever the row's status: reported for a completed effect without
  a fence, it puts the effect back among the claimable ones at once, and its result stays behind.
\<close>

theorem late_failure_reopens:
  assumes "r \<in> set t" and "ob_effect r = se_effect_id cmd" and "ob_status r = OB_COMPLETED"
  shows "\<exists>t1. fail_effect now None None cmd err t = Inr t1
           \<and> effect_row (se_effect_id cmd) (\<lambda>r'. claimable n r' \<and> ob_result r' = ob_result r) t1"
  using assms
  by (auto simp: fail_effect_def effect_fence_def effect_row_def update_effect_def reopen_row_def claimable_def
      intro!: bexI [of _ "reopen_row now err r"] image_eqI [of _ _ r])

theorem late_failure_reopens_witness:
  "\<exists>t1. fail_effect 70 None None (sample_command ''a'') []
          [finish_row 60 sample_effect_result (new_row 10 (sample_command ''a''))] = Inr t1
        \<and> effect_row ''ea'' (\<lambda>r'. claimable 80 r' \<and> ob_result r' = Some (json_dumps (PDict [(''output'', PStr ''sent'')]))) t1"
  using late_failure_reopens
    [of "finish_row 60 sample_effect_result (new_row 10 (sample_command ''a''))" _ "sample_command ''a''" 70 "[]" 80]
  by (simp add: finish_row_def new_row_def sample_command_def sample_effect_result_def)

text \<open>
  Enqueueing an invocation twice stores one intent: the second call changes nothing, whatever it
  passes; but it returns a command under the effect id it drew, which the table does not hold.
\<close>

theorem enqueue_is_idempotent:
  assumes "outbox_wf t" and "enqueue now f cmd eid t = Inr (c, t1)"
    and "se_invocation_id cmd2 = se_invocation_id cmd" and "u \<noteq> [] \<and> u \<notin> ob_effect ` set t1"
  shows "(\<exists>!r. r \<in> set t1 \<and> ob_invocation r = se_invocation_id cmd)
         \<and> (\<exists>c2. enqueue now2 u cmd2 None t1 = Inr (c2, t1) \<and> se_effect_id c2 \<notin> ob_effect ` set t1)"
proof
  have ex: "\<exists>r\<in>set t1. ob_invocation r = se_invocation_id cmd"
    using assms(2)
    by (auto simp: enqueue_def Let_def outbox_insert_new_def outbox_insert_def list_ex_iff new_row_def
        split: sum.splits if_splits)
  have "inj_on ob_invocation (set t1)"
    using outbox_ops_wf(1) [OF assms(1,2)] by (simp add: outbox_wf_def distinct_map)
  with ex show "\<exists>!r. r \<in> set t1 \<and> ob_invocation r = se_invocation_id cmd" by (auto simp: inj_on_def)
  show "\<exists>c2. enqueue now2 u cmd2 None t1 = Inr (c2, t1) \<and> se_effect_id c2 \<notin> ob_effect ` set t1"
    using ex assms(3,4) by (auto simp: enqueue_def Let_def outbox_insert_new_def list_ex_iff)
qed

theorem enqueue_is_idempotent_witness:
  "\<exists>c2. enqueue 40 ''u2'' (sample_command ''a'') None [new_row 10 (sample_command ''a'')]
         = Inr (c2, [new_row 10 (sample_command ''a'')]) \<and> se_effect_id c2 \<notin> {''ea''}"
  using enqueue_is_idempotent
    [of "[]" 10 "''ea''" "sample_command ''a''" None "sample_command ''a''" "[new_row 10 (sample_command ''a'')]"
        "sample_command ''a''" "''u2''" 40]
  by (simp add: enqueue_def Let_def outbox_insert_new_def outbox_insert_def sample_simps)

end
