(* ===== verification/Execution_Store.thy ===== *)
theory Execution_Store
  imports Durable_Outbox
begin

text \<open>
  \<^verbatim>\<open>ois/application/state.py\<close> and \<^verbatim>\<open>ois/infrastructure/postgres_execution.py\<close>: the application's
  execution states, and the store that claims an invocation and stages its side effect in one
  transaction. \<open>durable_db\<close> holds the tables of the migrations that the durable stores share; the
  checkpoint tables and the leases are used by the stores of \<open>Postgres_Store\<close>. \<open>request_fingerprint\<close>
  is null in the rows that another store wrote.
\<close>

section \<open>The application's execution states\<close>

datatype execution_state =
    XS_PENDING | XS_AUTHORIZED | XS_EXECUTING | XS_VALIDATING | XS_VERIFIED | XS_RETRY_PENDING
  | XS_ROLLBACK_PENDING | XS_ESCALATION_REQUIRED | XS_FAILED

fun execution_state_value :: "execution_state \<Rightarrow> string" where
  "execution_state_value XS_PENDING = ''pending''"
| "execution_state_value XS_AUTHORIZED = ''authorized''"
| "execution_state_value XS_EXECUTING = ''executing''"
| "execution_state_value XS_VALIDATING = ''validating''"
| "execution_state_value XS_VERIFIED = ''verified''"
| "execution_state_value XS_RETRY_PENDING = ''retry_pending''"
| "execution_state_value XS_ROLLBACK_PENDING = ''rollback_pending''"
| "execution_state_value XS_ESCALATION_REQUIRED = ''escalation_required''"
| "execution_state_value XS_FAILED = ''failed''"

fun state_transitions :: "execution_state \<Rightarrow> execution_state list" where
  "state_transitions XS_PENDING = [XS_AUTHORIZED, XS_FAILED]"
| "state_transitions XS_AUTHORIZED = [XS_EXECUTING, XS_FAILED]"
| "state_transitions XS_EXECUTING = [XS_VALIDATING, XS_ROLLBACK_PENDING, XS_FAILED]"
| "state_transitions XS_VALIDATING =
     [XS_VERIFIED, XS_RETRY_PENDING, XS_ROLLBACK_PENDING, XS_ESCALATION_REQUIRED, XS_FAILED]"
| "state_transitions XS_VERIFIED = []"
| "state_transitions XS_RETRY_PENDING = [XS_EXECUTING, XS_ESCALATION_REQUIRED]"
| "state_transitions XS_ROLLBACK_PENDING = [XS_FAILED, XS_VERIFIED]"
| "state_transitions XS_ESCALATION_REQUIRED = []"
| "state_transitions XS_FAILED = []"

definition transition :: "execution_state \<Rightarrow> execution_state \<Rightarrow> py_exn + execution_state" where
  "transition cur tgt =
     (if tgt \<notin> set (state_transitions cur)
      then Inl (Exn ValueError (''invalid execution transition: '' @ execution_state_value cur @ '' -> ''
                                @ execution_state_value tgt))
      else Inr tgt)"

section \<open>The execution store\<close>

record idem_row =
  id_execution_id :: string
  id_tenant_id :: string
  id_capability_id :: string
  id_status :: string
  id_result :: json_text
  id_fingerprint :: "string option"

record pg_checkpoint =
  pc_tenant_id :: string
  pc_workflow_id :: "string option"
  pc_workflow_version :: "string option"
  pc_status :: string
  pc_state :: json_text
  pc_state_hash :: string
  pc_created_at :: timestamp
  pc_updated_at :: timestamp

record pg_history =
  ph_checkpoint_id :: uuid
  ph_execution_id :: uuid
  ph_tenant_id :: string
  ph_workflow_id :: "string option"
  ph_workflow_version :: "string option"
  ph_step_index :: int
  ph_status :: string
  ph_state :: json_text
  ph_state_hash :: string
  ph_created_at :: timestamp

record durable_db =
  db_evidence :: "(string \<times> string \<times> json_text) list"
  db_states :: "(string \<times> execution_state) list"
  db_idem :: "(string \<times> idem_row) list"
  db_outbox :: outbox
  db_leases :: lease_table
  db_checkpoints :: "(uuid \<times> pg_checkpoint) list"
  db_history :: "pg_history list"

definition empty_db :: durable_db where
  "empty_db = \<lparr>db_evidence = [], db_states = [], db_idem = [], db_outbox = [], db_leases = [],
               db_checkpoints = [], db_history = []\<rparr>"

definition append_evidence :: "string \<Rightarrow> string \<Rightarrow> pydict \<Rightarrow> durable_db \<Rightarrow> durable_db" where
  "append_evidence xid cat payload db =
     db\<lparr>db_evidence := db_evidence db @ [(xid, cat, json_dumps (PDict payload))]\<rparr>"

definition get_state :: "string \<Rightarrow> durable_db \<Rightarrow> execution_state option" where
  "get_state xid db = map_of (db_states db) xid"

definition set_state :: "string \<Rightarrow> execution_state \<Rightarrow> durable_db \<Rightarrow> py_exn + durable_db" where
  "set_state xid st db =
     (case map_of (db_states db) xid of
        None \<Rightarrow> Inr (db\<lparr>db_states := AList.update xid st (db_states db)\<rparr>)
      | Some cur \<Rightarrow>
         (case transition cur st of
            Inl e \<Rightarrow> Inl e
          | Inr _ \<Rightarrow> Inr (db\<lparr>db_states := AList.update xid st (db_states db)\<rparr>)))"

definition claim_idempotency ::
  "string \<Rightarrow> string \<Rightarrow> string \<Rightarrow> string \<Rightarrow> string \<Rightarrow> durable_db \<Rightarrow> py_exn + bool \<times> durable_db" where
  "claim_idempotency iid xid tenant cid fp db =
     (case map_of (db_idem db) iid of
        None \<Rightarrow> Inr (True, db\<lparr>db_idem := db_idem db @ [(iid,
                 \<lparr>id_execution_id = xid, id_tenant_id = tenant, id_capability_id = cid, id_status = ''PENDING'',
                  id_result = json_dumps (PDict []), id_fingerprint = Some fp\<rparr>)]\<rparr>)
      | Some row \<Rightarrow>
         (if id_fingerprint row \<noteq> Some fp
          then Inl (Exn ValueError ''idempotency key reused with a different request'')
          else Inr (False, db)))"

definition complete_idempotency :: "string \<Rightarrow> pydict \<Rightarrow> durable_db \<Rightarrow> py_exn + durable_db" where
  "complete_idempotency iid res db =
     (case map_of (db_idem db) iid of
        Some row \<Rightarrow>
          (if id_status row = ''PENDING''
           then Inr (db\<lparr>db_idem := AList.update iid
                  (row\<lparr>id_status := ''COMPLETED'', id_result := json_dumps (PDict res)\<rparr>) (db_idem db)\<rparr>)
           else Inl (Exn KeyError (''unknown or completed invocation: '' @ iid)))
      | None \<Rightarrow> Inl (Exn KeyError (''unknown or completed invocation: '' @ iid)))"

definition get_idempotency_result :: "string \<Rightarrow> durable_db \<Rightarrow> pyval option" where
  "get_idempotency_result iid db =
     (case map_of (db_idem db) iid of
        None \<Rightarrow> None
      | Some row \<Rightarrow> (if id_status row \<noteq> ''COMPLETED'' then None else Some (json_loads (id_result row))))"

definition release_idempotency :: "string \<Rightarrow> durable_db \<Rightarrow> durable_db" where
  "release_idempotency iid db =
     (case map_of (db_idem db) iid of
        Some row \<Rightarrow>
          (if id_status row = ''PENDING'' then db\<lparr>db_idem := AList.delete iid (db_idem db)\<rparr> else db)
      | None \<Rightarrow> db)"

definition stage_side_effect :: "timestamp \<Rightarrow> side_effect_command \<Rightarrow> durable_db \<Rightarrow> py_exn + durable_db" where
  "stage_side_effect now cmd db =
     (case outbox_insert now cmd (db_outbox db) of Inl e \<Rightarrow> Inl e | Inr t \<Rightarrow> Inr (db\<lparr>db_outbox := t\<rparr>))"

definition get_outbox_effect :: "string \<Rightarrow> durable_db \<Rightarrow> (string \<times> effect_status \<times> pyval \<times> pyval option) option" where
  "get_outbox_effect e db =
     map_option (\<lambda>r. (ob_effect r, ob_status r, json_canon (PDict (se_request (ob_command r))),
                     map_option json_loads (ob_result r)))
       (find (\<lambda>r. ob_effect r = e) (db_outbox db))"

definition claim_and_stage_outbox ::
  "timestamp \<Rightarrow> string \<Rightarrow> side_effect_command \<Rightarrow> durable_db \<Rightarrow> py_exn + bool \<times> durable_db" where
  "claim_and_stage_outbox now fp cmd db =
     (case claim_idempotency (se_invocation_id cmd) (se_execution_id cmd) (se_tenant_id cmd) (se_capability_id cmd) fp db of
        Inl e \<Rightarrow> Inl e
      | Inr (claimed, db1) \<Rightarrow>
         (if \<not> claimed then Inr (False, db1)
          else case stage_side_effect now cmd db1 of Inl e \<Rightarrow> Inl e | Inr db2 \<Rightarrow> Inr (True, db2)))"

section \<open>The state machine\<close>

text \<open>States an execution has been through when it is in a given state.\<close>

fun passed :: "execution_state \<Rightarrow> execution_state list" where
  "passed XS_AUTHORIZED = [XS_AUTHORIZED]"
| "passed XS_EXECUTING = [XS_AUTHORIZED, XS_EXECUTING]"
| "passed XS_VALIDATING = [XS_AUTHORIZED, XS_EXECUTING, XS_VALIDATING]"
| "passed XS_VERIFIED = [XS_AUTHORIZED, XS_EXECUTING, XS_VERIFIED]"
| "passed XS_RETRY_PENDING = [XS_AUTHORIZED, XS_EXECUTING, XS_VALIDATING, XS_RETRY_PENDING]"
| "passed XS_ROLLBACK_PENDING = [XS_AUTHORIZED, XS_EXECUTING, XS_ROLLBACK_PENDING]"
| "passed XS_ESCALATION_REQUIRED = [XS_AUTHORIZED, XS_EXECUTING, XS_VALIDATING, XS_ESCALATION_REQUIRED]"
| "passed _ = []"

definition try_state :: "string \<Rightarrow> execution_state \<Rightarrow> durable_db \<Rightarrow> durable_db" where
  "try_state xid st db = (case set_state xid st db of Inl _ \<Rightarrow> db | Inr db' \<Rightarrow> db')"

lemma get_try_state:
  "get_state xid (try_state x st db) =
     (case get_state x db of
        None \<Rightarrow> if xid = x then Some st else get_state xid db
      | Some cur \<Rightarrow> if xid = x \<and> st \<in> set (state_transitions cur) then Some st else get_state xid db)"
  by (auto simp: try_state_def set_state_def get_state_def transition_def update_conv' split: option.splits)

lemma transition_passed:
  assumes "st \<in> set (state_transitions cur)" and "subseq (passed cur) ts"
  shows "subseq (passed st) (ts @ [st])"
proof -
  have "subseq (passed cur @ [st]) (ts @ [st])" using assms(2) by (intro list_emb_append_mono) auto
  moreover have "subseq (passed st) (passed cur @ [st])" using assms(1) by (cases cur) auto
  ultimately show ?thesis by (meson subseq_order.trans)
qed

lemma try_states_passed:
  assumes "get_state xid db = Some cur" and "subseq (passed cur) ts"
    and "get_state xid (fold (\<lambda>(x, st). try_state x st) calls db) = Some end_st"
  shows "subseq (passed end_st) (ts @ map snd (filter (\<lambda>(x, _). x = xid) calls))"
  using assms
proof (induction calls arbitrary: db cur ts)
  case Nil
  then show ?case by simp
next
  case (Cons c calls)
  obtain x st where c: "c = (x, st)" by fastforce
  show ?case
  proof (cases "x = xid \<and> st \<in> set (state_transitions cur)")
    case True
    then have "get_state xid (try_state x st db) = Some st" using Cons.prems(1) by (simp add: get_try_state)
    then show ?thesis
      using Cons.IH [OF _ transition_passed [of st cur ts]] Cons.prems True c by simp
  next
    case False
    then have "get_state xid (try_state x st db) = Some cur"
      using Cons.prems(1) by (auto simp: get_try_state split: option.splits)
    moreover have "subseq (passed cur) (if x = xid then ts @ [st] else ts)"
      using Cons.prems(2) by auto
    ultimately show ?thesis
      using Cons.IH [of "try_state x st db" cur "if x = xid then ts @ [st] else ts"] Cons.prems(3) c by (auto split: if_splits)
  qed
qed

section \<open>Sequences of store calls\<close>

text \<open>The calls that write the idempotency and outbox tables; a call that raises changes nothing.\<close>

datatype store_op =
    SO_Claim timestamp string side_effect_command
  | SO_Complete string pydict
  | SO_Release string
  | SO_Outbox "timestamp \<times> outbox_event"

inductive store_step :: "durable_db \<Rightarrow> store_op \<Rightarrow> (py_exn + bool) \<Rightarrow> durable_db \<Rightarrow> bool" where
  claim_ok: "claim_and_stage_outbox now fp cmd db = Inr (b, db') \<Longrightarrow> store_step db (SO_Claim now fp cmd) (Inr b) db'"
| claim_raise: "claim_and_stage_outbox now fp cmd db = Inl e \<Longrightarrow> store_step db (SO_Claim now fp cmd) (Inl e) db"
| complete_ok: "complete_idempotency iid res db = Inr db' \<Longrightarrow> store_step db (SO_Complete iid res) (Inr True) db'"
| complete_raise: "complete_idempotency iid res db = Inl e \<Longrightarrow> store_step db (SO_Complete iid res) (Inl e) db"
| release_ok: "store_step db (SO_Release iid) (Inr True) (release_idempotency iid db)"
| outbox_ok: "outbox_step (db_outbox db) ev t \<Longrightarrow> store_step db (SO_Outbox ev) (Inr True) (db\<lparr>db_outbox := t\<rparr>)"

inductive_cases store_stepE: "store_step db op r db'"

text \<open>A run records each call with its answer.\<close>

abbreviation store_run :: "durable_db \<Rightarrow> (store_op \<times> (py_exn + bool)) list \<Rightarrow> durable_db \<Rightarrow> bool" where
  "store_run \<equiv> run_of (\<lambda>db x. store_step db (fst x) (snd x))"

lemma store_run_keeps:
  assumes "store_run db ops db'" and "I db"
    and "\<And>d op r d'. (op, r) \<in> set ops \<Longrightarrow> store_step d op r d' \<Longrightarrow> I d \<Longrightarrow> I d' \<and> Q op r"
  shows "I db' \<and> (\<forall>(op, r)\<in>set ops. Q op r)"
  using run_of_invariant [OF assms(1), of I "\<lambda>(op, r). Q op r"] assms(2,3) by auto

text \<open>A claimed invocation: its idempotency row with the fingerprint of the claim.\<close>

definition claimed_by :: "string \<Rightarrow> string \<Rightarrow> durable_db \<Rightarrow> bool" where
  "claimed_by iid fp db \<longleftrightarrow> (\<exists>row. map_of (db_idem db) iid = Some row \<and> id_fingerprint row = Some fp)"

definition staged :: "string \<Rightarrow> durable_db \<Rightarrow> bool" where
  "staged iid db \<longleftrightarrow> iid \<in> ob_invocation ` set (db_outbox db)"

lemma claim_and_stage_claimed:
  assumes "claim_and_stage_outbox now fp cmd db = Inr (True, db')"
  shows "claimed_by (se_invocation_id cmd) fp db'" and "staged (se_invocation_id cmd) db'"
  using assms
  by (auto simp: claim_and_stage_outbox_def claim_idempotency_def stage_side_effect_def outbox_insert_def
      claimed_by_def staged_def new_row_def map_add_def split: option.splits sum.splits if_splits)

lemma claimed_by_step:
  assumes "store_step db op r db'" and "claimed_by iid fp db" and "op \<noteq> SO_Release iid"
  shows "claimed_by iid fp db'"
  using assms(1)
proof cases
  case (claim_ok now f cmd b)
  then show ?thesis
    using assms(2)
    by (auto simp: claim_and_stage_outbox_def claim_idempotency_def stage_side_effect_def claimed_by_def map_add_def
        split: option.splits sum.splits if_splits)
next
  case (complete_ok i res)
  then show ?thesis
    using assms(2) by (auto simp: complete_idempotency_def claimed_by_def update_conv' split: option.splits if_splits)
next
  case (release_ok i)
  then show ?thesis
    using assms(2,3) by (auto simp: release_idempotency_def claimed_by_def delete_conv' split: option.splits)
qed (use assms(2) in \<open>auto simp: claimed_by_def\<close>)

lemma claimed_not_reclaimed:
  assumes "claimed_by iid fp db" and "se_invocation_id cmd = iid"
  shows "claim_and_stage_outbox now fp' cmd db =
     (if fp' = fp then Inr (False, db)
      else Inl (Exn ValueError ''idempotency key reused with a different request''))"
  using assms by (auto simp: claimed_by_def claim_and_stage_outbox_def claim_idempotency_def)

lemma commands_update [simp]:
  assumes "\<And>r. ob_command (f r) = ob_command r"
  shows "ob_command ` set (update_effect e f t) = ob_command ` set t"
proof -
  have "map ob_command (update_effect e f t) = map ob_command t" using assms by (simp add: update_effect_def)
  then show ?thesis by (metis list.set_map)
qed

lemma outbox_step_grows: "outbox_step t ev t' \<Longrightarrow> ob_command ` set t \<subseteq> ob_command ` set t'"
proof (induction rule: outbox_step.induct)
  case (enqueue_step now fresh cmd eid t c t')
  then show ?case
    by (auto simp: enqueue_def Let_def outbox_insert_new_def outbox_insert_def split: sum.splits if_splits)
next
  case (claim_step now t c t')
  then have "t' = t \<or> (\<exists>e. t' = update_effect e (lock_row now) t)"
    by (cases rule: claim_effect_cases [of now t]) auto
  then show ?case by (elim disjE exE) simp_all
next
  case (idle_step now t t')
  then show ?case by (cases rule: claim_effect_cases [of now t]) auto
next
  case (complete_step now fc l cmd res t t')
  then have "t' = update_effect (se_effect_id cmd) (finish_row now res) t"
    by (simp add: complete_effect_def split: sum.splits)
  then show ?case by simp
next
  case (fail_step now fc l cmd err t t')
  then have "t' = update_effect (se_effect_id cmd) (reopen_row now err) t"
    by (simp add: fail_effect_def split: sum.splits)
  then show ?case by simp
next
  case (recover_step now t n t')
  then have "map ob_command t' = map ob_command t" by (auto simp: recover_stale_def)
  then show ?case by (metis list.set_map order_refl)
qed

lemma staged_step:
  assumes "store_step db op r db'" and "staged iid db"
  shows "staged iid db'"
  using assms(1)
proof cases
  case (claim_ok now f cmd b)
  then show ?thesis
    using assms(2)
    by (auto simp: claim_and_stage_outbox_def claim_idempotency_def stage_side_effect_def outbox_insert_def staged_def
        split: option.splits sum.splits if_splits)
next
  case (complete_ok i res)
  then show ?thesis
    using assms(2) by (auto simp: complete_idempotency_def staged_def split: option.splits if_splits)
next
  case (release_ok i)
  then show ?thesis
    using assms(2) by (auto simp: release_idempotency_def staged_def split: option.splits)
next
  case (outbox_ok ev t)
  have "se_invocation_id ` ob_command ` set (db_outbox db) \<subseteq> se_invocation_id ` ob_command ` set t"
    using outbox_step_grows [OF outbox_ok(4)] by (rule image_mono)
  then show ?thesis using assms(2) outbox_ok by (auto simp: staged_def image_image)
qed (use assms(2) in auto)

text \<open>A completed invocation keeps its result, through releases too.\<close>

lemma completed_step:
  assumes "store_step db op r db'" and "get_idempotency_result iid db = Some v"
  shows "get_idempotency_result iid db' = Some v"
  using assms(1)
proof cases
  case (claim_ok now f cmd b)
  then show ?thesis
    using assms(2)
    by (auto simp: claim_and_stage_outbox_def claim_idempotency_def stage_side_effect_def get_idempotency_result_def
        map_add_def split: option.splits sum.splits if_splits)
next
  case (complete_ok i res)
  then show ?thesis
    using assms(2)
    by (auto simp: complete_idempotency_def get_idempotency_result_def update_conv' split: option.splits if_splits)
next
  case (release_ok i)
  then show ?thesis
    using assms(2)
    by (auto simp: release_idempotency_def get_idempotency_result_def delete_conv' split: option.splits if_splits)
qed (use assms(2) in \<open>auto simp: get_idempotency_result_def\<close>)

section \<open>Properties\<close>

text \<open>
  C13. An invocation is staged once. After a claim that staged it, in every run of claims, completions,
  outbox traffic and releases of other invocations, no later claim for it succeeds: one with the same
  request fingerprint answers false, one with another fingerprint raises.
\<close>

theorem invocation_staged_once:
  assumes "claim_and_stage_outbox now fp cmd db = Inr (True, db1)" and "store_run db1 ops db2"
    and "SO_Release (se_invocation_id cmd) \<notin> fst ` set ops"
  shows "staged (se_invocation_id cmd) db2
         \<and> (\<forall>n f c r. (SO_Claim n f c, r) \<in> set ops \<and> se_invocation_id c = se_invocation_id cmd \<longrightarrow>
              r = (if f = fp then Inr False
                   else Inl (Exn ValueError ''idempotency key reused with a different request'')))"
proof -
  let ?i = "se_invocation_id cmd"
  define I where "I d \<longleftrightarrow> claimed_by ?i fp d \<and> staged ?i d" for d
  define Q where "Q op r \<longleftrightarrow> (\<forall>n f c. op = SO_Claim n f c \<and> se_invocation_id c = ?i \<longrightarrow>
      r = (if f = fp then Inr False else Inl (Exn ValueError ''idempotency key reused with a different request'')))"
    for op and r :: "py_exn + bool"
  have "I db2 \<and> (\<forall>(op, r)\<in>set ops. Q op r)"
  proof (rule store_run_keeps [OF assms(2)])
    show "I db1" using claim_and_stage_claimed [OF assms(1)] by (simp add: I_def)
    fix d op r d'
    assume m: "(op, r) \<in> set ops" and st: "store_step d op r d'" and I: "I d"
    have "op \<noteq> SO_Release ?i" using m assms(3) by force
    then have "I d'" using I st claimed_by_step staged_step by (auto simp: I_def)
    moreover have "Q op r"
      using st I by (auto simp: Q_def I_def claimed_not_reclaimed elim!: store_stepE split: if_splits)
    ultimately show "I d' \<and> Q op r" ..
  qed
  then show ?thesis by (fastforce simp: I_def Q_def)
qed

definition staging_command :: side_effect_command where
  "staging_command =
     \<lparr>se_effect_id = ''e1'', se_tenant_id = ''acme'', se_execution_id = ''x1'', se_invocation_id = ''i1'',
      se_capability_id = ''mail'', se_idempotency_key = ''k1'', se_request = []\<rparr>"

definition staged_db :: durable_db where
  "staged_db = empty_db\<lparr>
     db_idem := [(''i1'', \<lparr>id_execution_id = ''x1'', id_tenant_id = ''acme'', id_capability_id = ''mail'',
                          id_status = ''PENDING'', id_result = json_dumps (PDict []), id_fingerprint = Some ''f1''\<rparr>)],
     db_outbox := [new_row 10 staging_command]\<rparr>"

lemma staged_db_claimed: "claim_and_stage_outbox 10 ''f1'' staging_command empty_db = Inr (True, staged_db)"
  by (simp add: staged_db_def empty_db_def claim_and_stage_outbox_def claim_idempotency_def stage_side_effect_def
      outbox_insert_def staging_command_def)

lemma staged_db_reclaim: "claim_and_stage_outbox 20 ''f1'' staging_command staged_db = Inr (False, staged_db)"
  by (simp add: staged_db_def claim_and_stage_outbox_def claim_idempotency_def staging_command_def)

theorem invocation_staged_once_witness:
  "\<exists>r. store_run staged_db [(SO_Claim 20 ''f1'' staging_command, r)] staged_db \<and> staged ''i1'' staged_db \<and> r = Inr False"
proof -
  have run: "store_run staged_db [(SO_Claim 20 ''f1'' staging_command, Inr False)] staged_db"
    by (auto simp: run_of_Cons run_of_Nil intro: store_step.claim_ok [OF staged_db_reclaim])
  from invocation_staged_once [OF staged_db_claimed this] run show ?thesis by (auto simp: staging_command_def)
qed

text \<open>
  A released invocation that had been staged can never be claimed and staged again: its outbox
  row outlives the release, so every later attempt whose claim is free raises.
\<close>

theorem released_invocation_is_stuck:
  assumes "claim_and_stage_outbox now fp cmd db = Inr (True, db1)" and "store_run db1 ops db2"
    and "se_invocation_id c = se_invocation_id cmd"
  shows "claim_and_stage_outbox n f c db2 \<noteq> Inr (True, db3)"
proof -
  have "staged (se_invocation_id cmd) db2"
    using store_run_keeps [OF assms(2), of "staged (se_invocation_id cmd)" "\<lambda>_ _. True"]
      claim_and_stage_claimed(2) [OF assms(1)] staged_step by blast
  then have "list_ex (\<lambda>r. ob_invocation r = se_invocation_id c) (db_outbox db2)"
    using assms(3) by (auto simp: staged_def list_ex_iff)
  then show ?thesis
    by (auto simp: claim_and_stage_outbox_def claim_idempotency_def stage_side_effect_def outbox_insert_def
        split: option.splits if_splits)
qed

theorem released_invocation_is_stuck_witness:
  "claim_and_stage_outbox 30 ''f1'' staging_command (release_idempotency ''i1'' staged_db) \<noteq> Inr (True, staged_db)"
proof -
  have "store_run staged_db [(SO_Release ''i1'', Inr True)] (release_idempotency ''i1'' staged_db)"
    by (auto simp: run_of_Cons run_of_Nil intro: store_step.release_ok)
  from released_invocation_is_stuck [OF staged_db_claimed this refl] show ?thesis .
qed

text \<open>
  The result of a completed invocation is final: whatever the store is asked to do afterwards,
  releases included, the invocation answers the result it was completed with.
\<close>

theorem completed_result_is_final:
  assumes "complete_idempotency iid res db = Inr db1" and "store_run db1 ops db2"
  shows "get_idempotency_result iid db2 = Some (json_canon (PDict res))"
proof -
  have "get_idempotency_result iid db1 = Some (json_canon (PDict res))"
    using assms(1)
    by (auto simp: complete_idempotency_def get_idempotency_result_def update_conv' split: option.splits if_splits)
  then show ?thesis
    using store_run_keeps [OF assms(2), of "\<lambda>d. get_idempotency_result iid d = Some (json_canon (PDict res))" "\<lambda>_ _. True"]
      completed_step by blast
qed

theorem completed_result_is_final_witness:
  "\<exists>db1. complete_idempotency ''i1'' [(''ok'', PBool True)] staged_db = Inr db1
     \<and> get_idempotency_result ''i1'' (release_idempotency ''i1'' db1) = Some (PDict [(''ok'', PBool True)])"
proof -
  obtain db1 where db1: "complete_idempotency ''i1'' [(''ok'', PBool True)] staged_db = Inr db1"
    by (simp add: complete_idempotency_def staged_db_def)
  have "store_run db1 [(SO_Release ''i1'', Inr True)] (release_idempotency ''i1'' db1)"
    by (auto simp: run_of_Cons run_of_Nil intro: store_step.release_ok)
  from completed_result_is_final [OF db1 this] db1 show ?thesis by simp
qed

text \<open>
  An execution whose state row says verified was set to authorized and to executing before it, in
  that order, whatever calls were made and refused in between, once its row exists as pending.
\<close>

theorem verified_was_executed:
  assumes "get_state xid db = Some XS_PENDING"
    and "get_state xid (fold (\<lambda>(x, st). try_state x st) calls db) = Some XS_VERIFIED"
  shows "subseq [XS_AUTHORIZED, XS_EXECUTING, XS_VERIFIED] (map snd (filter (\<lambda>(x, _). x = xid) calls))"
  using try_states_passed [OF assms(1) _ assms(2), of "[]"] by simp

theorem verified_was_executed_witness:
  "subseq [XS_AUTHORIZED, XS_EXECUTING, XS_VERIFIED]
     [XS_VERIFIED, XS_AUTHORIZED, XS_EXECUTING, XS_VALIDATING, XS_VERIFIED]"
proof -
  let ?db = "empty_db\<lparr>db_states := [(''x'', XS_PENDING)]\<rparr>"
  let ?calls = "[(''x'', XS_VERIFIED), (''x'', XS_AUTHORIZED), (''x'', XS_EXECUTING), (''x'', XS_VALIDATING), (''x'', XS_VERIFIED)]"
  have p: "get_state ''x'' ?db = Some XS_PENDING" by (simp add: get_state_def)
  have "get_state ''x'' (fold (\<lambda>(x, st). try_state x st) ?calls ?db) = Some XS_VERIFIED"
    by (simp add: get_try_state p)
  from verified_was_executed [OF p this] show ?thesis by simp
qed

end
