(* ===== verification/Postgres_Store.thy ===== *)
theory Postgres_Store
  imports Execution_Store Kernel_Checkpoint "HOL-Library.Multiset"
begin

text \<open>
  \<^verbatim>\<open>ois/kernel/postgres.py\<close>, \<^verbatim>\<open>ois/kernel/postgres_stores.py\<close> and the class
  \<open>FencedPostgresDurableExecutionStore\<close> of \<^verbatim>\<open>ois/infrastructure/postgres_fencing.py\<close>, over the tables
  of \<open>durable_db\<close>. PostgreSQL is an argument \<open>pg_env\<close>: what a JSONB column gives back for a text it is
  given (it stores the value, not the text, and refuses some values), the hash, and the version-less
  UUID cut from a hash. None of the tables here has a row-level policy in the migrations, so the
  tenant set on a connection does not filter their rows.
\<close>

record pg_env =
  pe_codec :: codec
  pe_jsonb :: "json_text \<Rightarrow> py_exn + json_text"
  pe_uuid_of :: "string \<Rightarrow> uuid"

abbreviation pe_iso :: "pg_env \<Rightarrow> timestamp \<Rightarrow> string" where
  "pe_iso pe \<equiv> cd_iso (pe_codec pe)"

abbreviation pe_sha :: "pg_env \<Rightarrow> json_text \<Rightarrow> string" where
  "pe_sha pe \<equiv> cd_sha (pe_codec pe)"

section \<open>Values in a JSONB column\<close>

text \<open>
  A value without floats and without the zero character comes back from a JSONB column as it was
  given; the documentation promises this for strings, booleans, nulls and integers.
\<close>

primrec jsonb_safe :: "pyval \<Rightarrow> bool" where
  "jsonb_safe PNone \<longleftrightarrow> True"
| "jsonb_safe (PBool b) \<longleftrightarrow> True"
| "jsonb_safe (PInt i) \<longleftrightarrow> True"
| "jsonb_safe (PFloat r) \<longleftrightarrow> False"
| "jsonb_safe (PStr s) \<longleftrightarrow> CHR 0x00 \<notin> set s"
| "jsonb_safe (PList vs) \<longleftrightarrow> list_all id (map jsonb_safe vs)"
| "jsonb_safe (PTuple vs) \<longleftrightarrow> list_all id (map jsonb_safe vs)"
| "jsonb_safe (PDict kvs) \<longleftrightarrow>
     list_all (\<lambda>k. CHR 0x00 \<notin> set k) (map fst kvs) \<and> list_all id (map snd (map (map_prod id jsonb_safe) kvs))"

definition jsonb_ok :: "pg_env \<Rightarrow> bool" where
  "jsonb_ok pe \<longleftrightarrow> (\<forall>v. jsonb_safe v \<longrightarrow> pe_jsonb pe (json_dumps v) = Inr (json_dumps v))"

section \<open>The durable execution store\<close>

definition mk_pg_store :: "string option \<Rightarrow> py_exn + string option" where
  "mk_pg_store tenant =
     (case tenant of
        None \<Rightarrow> Inr None
      | Some t \<Rightarrow> (case normalize_tenant_id t of Inl e \<Rightarrow> Inl e | Inr u \<Rightarrow> Inr (Some u)))"

definition assert_context :: "string option \<Rightarrow> string \<Rightarrow> py_exn + unit" where
  "assert_context scope tenant =
     (case normalize_tenant_id tenant of
        Inl e \<Rightarrow> Inl e
      | Inr normalized \<Rightarrow>
         (if scope \<noteq> None \<and> Some normalized \<noteq> scope
          then Inl (Exn ValueError ''execution tenant does not match store tenant scope'')
          else Inr ()))"

definition state_payload :: "pg_env \<Rightarrow> execution_context \<Rightarrow> py_exn + json_text \<times> string" where
  "state_payload pe c =
     (case to_dict (pe_iso pe) c of
        Inl e \<Rightarrow> Inl e
      | Inr d \<Rightarrow> Inr (json_dumps (PDict d), pe_sha pe (json_dumps (PDict d))))"

definition checkpoint_upsert ::
  "pg_env \<Rightarrow> execution_context \<Rightarrow> json_text \<Rightarrow> string \<Rightarrow> durable_db \<Rightarrow> py_exn + durable_db" where
  "checkpoint_upsert pe c payload digest db =
     (case pe_jsonb pe payload of
        Inl e \<Rightarrow> Inl e
      | Inr state \<Rightarrow>
         (let old = map_of (db_checkpoints db) (ctx_execution_id c);
              row = \<lparr>pc_tenant_id = ctx_tenant_id c, pc_workflow_id = eid_workflow_id (ctx_identity c),
                     pc_workflow_version = eid_workflow_version (ctx_identity c),
                     pc_status = execution_status_value (ctx_status c), pc_state = state, pc_state_hash = digest,
                     pc_created_at = (case old of None \<Rightarrow> ctx_created_at c | Some r \<Rightarrow> pc_created_at r),
                     pc_updated_at = ctx_updated_at c\<rparr>
          in Inr (db\<lparr>db_checkpoints := AList.update (ctx_execution_id c) row (db_checkpoints db)\<rparr>)))"

text \<open>\<open>int(v)\<close>; decimal strings may carry white space, a sign and single underscores between digits.\<close>

definition digit_value :: "char \<Rightarrow> int option" where
  "digit_value ch = (let n = of_char ch :: nat in if 48 \<le> n \<and> n \<le> 57 then Some (int n - 48) else None)"

fun digits_value :: "int \<Rightarrow> string \<Rightarrow> int option" where
  "digits_value acc [] = Some acc"
| "digits_value acc (ch # cs) =
     (case digit_value (if ch = CHR ''_'' then hd (cs @ [ch]) else ch) of
        None \<Rightarrow> None
      | Some d \<Rightarrow> if ch = CHR ''_'' then digits_value acc cs else digits_value (10 * acc + d) cs)"

definition py_int_of_string :: "string \<Rightarrow> int option" where
  "py_int_of_string s =
     (let t = rev (dropWhile py_space (rev (dropWhile py_space s)));
          (neg, u) = (case t of [] \<Rightarrow> (False, []) | ch # cs \<Rightarrow> if ch = CHR ''-'' then (True, cs)
                                                         else if ch = CHR ''+'' then (False, cs) else (False, t))
      in if u = [] \<or> hd u = CHR ''_'' then None else map_option (\<lambda>n. if neg then - n else n) (digits_value 0 u))"

fun py_int :: "pyval \<Rightarrow> py_exn + int" where
  "py_int (PInt i) = Inr i"
| "py_int (PBool b) = Inr (if b then 1 else 0)"
| "py_int (PFloat r) = Inr (if r < 0 then \<lceil>r\<rceil> else \<lfloor>r\<rfloor>)"
| "py_int (PStr s) =
     (case py_int_of_string s of
        Some i \<Rightarrow> Inr i
      | None \<Rightarrow> Inl (Exn ValueError (''invalid literal for int() with base 10: '' @ py_repr_str s)))"
| "py_int v = Inl (Exn TypeError
     (''int() argument must be a string, a bytes-like object or a real number, not ''
      @ py_repr_str (py_type_name v)))"

definition integer_column :: "int \<Rightarrow> py_exn + unit" where
  "integer_column i =
     (if - (2 ^ 31) \<le> i \<and> i < 2 ^ 31 then Inr ()
      else Inl (Exn (OtherException ''NumericValueOutOfRange'') ''integer out of range''))"

definition nil_uuid :: uuid where
  "nil_uuid = ''00000000-0000-0000-0000-000000000000''"

definition step_index_of :: "execution_context \<Rightarrow> py_exn + int" where
  "step_index_of c =
     (case map_of (ctx_metadata c) ''step_index'' of None \<Rightarrow> Inr (ctx_retry_count c) | Some v \<Rightarrow> py_int v)"

text \<open>\<open>INSERT INTO ois_execution_checkpoint_history ... ON CONFLICT (checkpoint_id) DO NOTHING\<close>.\<close>

definition history_insert ::
  "pg_env \<Rightarrow> uuid \<Rightarrow> int \<Rightarrow> execution_context \<Rightarrow> json_text \<Rightarrow> string \<Rightarrow> durable_db \<Rightarrow> py_exn + durable_db" where
  "history_insert pe cp_id step c payload digest db =
     (case (integer_column step, pe_jsonb pe payload) of
        (Inl e, _) \<Rightarrow> Inl e
      | (_, Inl e) \<Rightarrow> Inl e
      | (_, Inr state) \<Rightarrow> Inr
         (if list_ex (\<lambda>h. ph_checkpoint_id h = cp_id) (db_history db) then db
          else db\<lparr>db_history := db_history db @
                   [\<lparr>ph_checkpoint_id = cp_id, ph_execution_id = ctx_execution_id c,
                     ph_tenant_id = ctx_tenant_id c, ph_workflow_id = eid_workflow_id (ctx_identity c),
                     ph_workflow_version = eid_workflow_version (ctx_identity c), ph_step_index = step,
                     ph_status = execution_status_value (ctx_status c), ph_state = state,
                     ph_state_hash = digest, ph_created_at = ctx_updated_at c\<rparr>]\<rparr>))"

text \<open>The checkpoint and its history row, in one transaction.\<close>

definition save_transaction ::
  "pg_env \<Rightarrow> uuid \<Rightarrow> execution_context \<Rightarrow> durable_db \<Rightarrow> py_exn + durable_db" where
  "save_transaction pe cp_id c db =
     rbind (state_payload pe c) (\<lambda>(payload, digest).
     rbind (step_index_of c) (\<lambda>step.
     rbind (checkpoint_upsert pe c payload digest db) (\<lambda>db1.
     history_insert pe
       (if cp_id = nil_uuid
        then pe_uuid_of pe (ctx_execution_id c @ '':'' @ pe_iso pe (ctx_updated_at c)) else cp_id)
       step c payload digest db1)))"

definition save_with_history ::
  "pg_env \<Rightarrow> uuid \<Rightarrow> timestamp \<Rightarrow> execution_context \<Rightarrow> durable_db \<Rightarrow>
     (py_exn + unit) \<times> execution_context \<times> durable_db" where
  "save_with_history pe cp_id now c0 db =
     (let c = touch now c0 in
      case save_transaction pe cp_id c db of Inl e \<Rightarrow> (Inl e, c, db) | Inr db1 \<Rightarrow> (Inr (), c, db1))"

text \<open>The all-zero id that \<open>save\<close> passes asks for a derived checkpoint id.\<close>

definition pg_save ::
  "pg_env \<Rightarrow> string option \<Rightarrow> timestamp \<Rightarrow> execution_context \<Rightarrow> durable_db \<Rightarrow>
     (py_exn + unit) \<times> execution_context \<times> durable_db" where
  "pg_save pe scope now c db =
     (case assert_context scope (ctx_tenant_id c) of
        Inl e \<Rightarrow> (Inl e, c, db)
      | Inr _ \<Rightarrow> save_with_history pe nil_uuid now c db)"

definition pg_save_checkpoint ::
  "pg_env \<Rightarrow> uuid \<Rightarrow> timestamp \<Rightarrow> execution_context \<Rightarrow> durable_db \<Rightarrow>
     (py_exn + unit) \<times> execution_context \<times> durable_db" where
  "pg_save_checkpoint pe cp_id now c db = save_with_history pe cp_id now c db"

text \<open>
  The integrity check: the canonical text of the value that was read is hashed. \<open>None\<close> stands for a
  state that \<open>from_dict\<close> reads into a context this development does not represent.
\<close>

definition canonical_text :: "json_text \<Rightarrow> json_text" where
  "canonical_text state = json_dumps (json_loads state)"

definition restore_state :: "pg_env \<Rightarrow> fresh_values \<Rightarrow> json_text \<Rightarrow> execution_context option" where
  "restore_state pe fv state =
     (case json_loads state of PDict p \<Rightarrow> restore (pe_codec pe) fv p | _ \<Rightarrow> None)"

definition pg_load ::
  "pg_env \<Rightarrow> fresh_values \<Rightarrow> uuid \<Rightarrow> durable_db \<Rightarrow> (py_exn + execution_context) option" where
  "pg_load pe fv xid db =
     (case map_of (db_checkpoints db) xid of
        None \<Rightarrow> Some (Inl (Exn CheckpointNotFound (''No PostgreSQL checkpoint for execution '' @ xid)))
      | Some row \<Rightarrow>
         (if pe_sha pe (canonical_text (pc_state row)) \<noteq> pc_state_hash row
          then Some (Inl (Exn ValueError (''Checkpoint integrity failure for execution '' @ xid)))
          else map_option Inr (restore_state pe fv (pc_state row))))"

fun first_valid :: "pg_env \<Rightarrow> fresh_values \<Rightarrow> pg_history list \<Rightarrow> execution_context option option" where
  "first_valid pe fv [] = Some None"
| "first_valid pe fv (h # hs) =
     (if pe_sha pe (canonical_text (ph_state h)) \<noteq> ph_state_hash h then first_valid pe fv hs
      else map_option Some (restore_state pe fv (ph_state h)))"

text \<open>\<open>ORDER BY step_index DESC, created_at DESC\<close>.\<close>

definition history_of :: "string \<Rightarrow> uuid \<Rightarrow> durable_db \<Rightarrow> pg_history list" where
  "history_of tenant xid db =
     sort_key (\<lambda>h. - ph_step_index h) (sort_key (\<lambda>h. - ph_created_at h)
       (filter (\<lambda>h. ph_tenant_id h = tenant \<and> ph_execution_id h = xid) (db_history db)))"

definition fetch_last_valid_checkpoint ::
  "pg_env \<Rightarrow> fresh_values \<Rightarrow> string \<Rightarrow> uuid \<Rightarrow> durable_db \<Rightarrow> execution_context option option" where
  "fetch_last_valid_checkpoint pe fv tenant xid db = first_valid pe fv (history_of tenant xid db)"

text \<open>The command as its row holds it.\<close>

definition jsonb_request :: "pg_env \<Rightarrow> side_effect_command \<Rightarrow> py_exn + side_effect_command" where
  "jsonb_request pe cmd =
     (case pe_jsonb pe (json_dumps (PDict (se_request cmd))) of
        Inl e \<Rightarrow> Inl e
      | Inr txt \<Rightarrow> Inr (cmd\<lparr>se_request := (case json_loads txt of PDict d \<Rightarrow> d | _ \<Rightarrow> [])\<rparr>))"

text \<open>The two statements of a commit, after the payload has been computed.\<close>

definition commit_writes ::
  "pg_env \<Rightarrow> timestamp \<Rightarrow> execution_context \<Rightarrow> json_text \<times> string \<Rightarrow> side_effect_command \<Rightarrow> durable_db \<Rightarrow>
     py_exn + durable_db" where
  "commit_writes pe db_now c pd cmd db =
     rbind (checkpoint_upsert pe c (fst pd) (snd pd) db) (\<lambda>db1.
     rbind (jsonb_request pe cmd) (\<lambda>cmd'.
     rbind (outbox_insert_new db_now cmd' (db_outbox db1)) (\<lambda>t.
     Inr (db1\<lparr>db_outbox := t\<rparr>))))"

definition pg_commit_checkpoint_and_side_effect ::
  "pg_env \<Rightarrow> string option \<Rightarrow> timestamp \<Rightarrow> timestamp \<Rightarrow> execution_context \<Rightarrow> side_effect_command \<Rightarrow> durable_db \<Rightarrow>
     (py_exn + unit) \<times> execution_context \<times> durable_db" where
  "pg_commit_checkpoint_and_side_effect pe scope now db_now c0 cmd db =
     (case rbind (assert_context scope (ctx_tenant_id c0)) (\<lambda>_. assert_context scope (se_tenant_id cmd)) of
        Inl e \<Rightarrow> (Inl e, c0, db)
      | Inr _ \<Rightarrow>
         (let c = touch now c0 in
          case rbind (state_payload pe c) (\<lambda>pd. commit_writes pe db_now c pd cmd db) of
            Inl e \<Rightarrow> (Inl e, c, db)
          | Inr db1 \<Rightarrow> (Inr (), c, db1)))"

definition pg_delete :: "uuid \<Rightarrow> durable_db \<Rightarrow> durable_db" where
  "pg_delete xid db = db\<lparr>db_checkpoints := AList.delete xid (db_checkpoints db)\<rparr>"

definition pg_get_idempotency :: "string \<Rightarrow> durable_db \<Rightarrow> py_exn + invocation_result option" where
  "pg_get_idempotency iid db =
     (case map_of (db_idem db) iid of
        None \<Rightarrow> Inr None
      | Some row \<Rightarrow>
         (case json_loads (id_result row) of
            PDict d \<Rightarrow> (case result_of_dict d of Some r \<Rightarrow> Inr (Some r) | None \<Rightarrow> bad_row)
          | _ \<Rightarrow> bad_row))"

definition insert_idempotency ::
  "pg_env \<Rightarrow> string \<Rightarrow> uuid \<Rightarrow> string \<Rightarrow> invocation_result \<Rightarrow> durable_db \<Rightarrow> py_exn + durable_db" where
  "insert_idempotency pe iid xid tenant res db =
     (case pe_jsonb pe (json_dumps (PDict (result_dict res))) of
        Inl e \<Rightarrow> Inl e
      | Inr txt \<Rightarrow> Inr (db\<lparr>db_idem := insert_or_ignore iid
          \<lparr>id_execution_id = xid, id_tenant_id = tenant, id_capability_id = res_capability_id res,
           id_status = invocation_status_value (res_status res), id_result = txt, id_fingerprint = None\<rparr>
          (db_idem db)\<rparr>))"

definition pg_put_idempotency ::
  "pg_env \<Rightarrow> string option \<Rightarrow> string \<Rightarrow> uuid \<Rightarrow> string \<Rightarrow> invocation_result \<Rightarrow> durable_db \<Rightarrow> py_exn + durable_db" where
  "pg_put_idempotency pe scope iid xid tenant res db =
     (case assert_context scope tenant of
        Inl e \<Rightarrow> Inl e
      | Inr _ \<Rightarrow>
         (if res_status res \<notin> {IS_SUCCEEDED, IS_CANCELLED} then Inr db
          else insert_idempotency pe iid xid tenant res db))"

section \<open>The fenced store\<close>

text \<open>
  The lease is checked in the transaction of the write, at the database's time \<open>db_now\<close>. The lease is
  the one the adapter was built with; it is not compared with the execution that is written.
\<close>

definition fenced :: "timestamp \<Rightarrow> worker_lease \<Rightarrow> durable_db \<Rightarrow> (unit \<Rightarrow> py_exn + 'a) \<Rightarrow> py_exn + 'a" where
  "fenced db_now lease db body = rbind (lease_assert_current db_now lease (db_leases db)) body"

definition fenced_save ::
  "pg_env \<Rightarrow> worker_lease \<Rightarrow> timestamp \<Rightarrow> timestamp \<Rightarrow> execution_context \<Rightarrow> durable_db \<Rightarrow>
     (py_exn + unit) \<times> execution_context \<times> durable_db" where
  "fenced_save pe lease db_now now c0 db =
     (let c = touch now c0 in
      case rbind (state_payload pe c) (\<lambda>(payload, digest).
           fenced db_now lease db (\<lambda>_. checkpoint_upsert pe c payload digest db)) of
        Inl e \<Rightarrow> (Inl e, c, db)
      | Inr db1 \<Rightarrow> (Inr (), c, db1))"

definition fenced_put_idempotency ::
  "pg_env \<Rightarrow> worker_lease \<Rightarrow> timestamp \<Rightarrow> string \<Rightarrow> uuid \<Rightarrow> string \<Rightarrow> invocation_result \<Rightarrow> durable_db \<Rightarrow>
     py_exn + durable_db" where
  "fenced_put_idempotency pe lease db_now iid xid tenant res db =
     (if invocation_status_value (res_status res) \<notin> {''succeeded'', ''cancelled''} then Inr db
      else fenced db_now lease db (\<lambda>_. insert_idempotency pe iid xid tenant res db))"

definition fenced_commit ::
  "pg_env \<Rightarrow> worker_lease \<Rightarrow> timestamp \<Rightarrow> timestamp \<Rightarrow> execution_context \<Rightarrow> side_effect_command \<Rightarrow> durable_db \<Rightarrow>
     (py_exn + unit) \<times> execution_context \<times> durable_db" where
  "fenced_commit pe lease db_now now c0 cmd db =
     (let c = touch now c0 in
      case rbind (state_payload pe c) (\<lambda>pd. fenced db_now lease db (\<lambda>_. commit_writes pe db_now c pd cmd db)) of
        Inl e \<Rightarrow> (Inl e, c, db)
      | Inr db1 \<Rightarrow> (Inr (), c, db1))"

definition effect_target :: "side_effect_command \<Rightarrow> outbox_row \<Rightarrow> bool" where
  "effect_target cmd r \<longleftrightarrow> ob_effect r = se_effect_id cmd \<and> se_execution_id (ob_command r) = se_execution_id cmd"

definition fenced_complete_side_effect ::
  "worker_lease \<Rightarrow> timestamp \<Rightarrow> side_effect_command \<Rightarrow> side_effect_result \<Rightarrow> durable_db \<Rightarrow> py_exn + durable_db" where
  "fenced_complete_side_effect lease db_now cmd res db =
     fenced db_now lease db (\<lambda>_.
       if length (filter (effect_target cmd) (db_outbox db)) \<noteq> 1
       then Inl (Exn FencingError ''side-effect completion target is missing'')
       else Inr (db\<lparr>db_outbox := map (\<lambda>r. if effect_target cmd r then finish_row db_now res r else r) (db_outbox db)\<rparr>))"

definition fenced_delete :: "worker_lease \<Rightarrow> timestamp \<Rightarrow> uuid \<Rightarrow> durable_db \<Rightarrow> py_exn + durable_db" where
  "fenced_delete lease db_now xid db = fenced db_now lease db (\<lambda>_. Inr (pg_delete xid db))"

section \<open>The kernel's narrow stores\<close>

type_synonym pg_idempotency = "(string \<times> json_text) list"

definition pg_idem_get :: "string \<Rightarrow> pg_idempotency \<Rightarrow> py_exn + invocation_result option" where
  "pg_idem_get iid st =
     (case map_of st iid of
        None \<Rightarrow> Inr None
      | Some txt \<Rightarrow>
         (case json_loads txt of
            PDict d \<Rightarrow> (case result_of_dict d of Some r \<Rightarrow> Inr (Some r) | None \<Rightarrow> bad_row)
          | _ \<Rightarrow> bad_row))"

definition pg_idem_put :: "pg_env \<Rightarrow> string \<Rightarrow> invocation_result \<Rightarrow> pg_idempotency \<Rightarrow> py_exn + pg_idempotency" where
  "pg_idem_put pe iid res st =
     (if res_status res \<notin> {IS_SUCCEEDED, IS_CANCELLED} then Inr st
      else case pe_jsonb pe (json_dumps (PDict (result_dict res))) of
             Inl e \<Rightarrow> Inl e
           | Inr txt \<Rightarrow> Inr (insert_or_ignore iid txt st))"

type_synonym pg_ledger = "(uuid \<times> evidence_event \<times> json_text) list"

definition pg_ev_append :: "pg_env \<Rightarrow> evidence_event \<Rightarrow> pg_ledger \<Rightarrow> py_exn + pg_ledger" where
  "pg_ev_append pe e l =
     (case pe_jsonb pe (json_dumps (PDict (ev_data e))) of
        Inl x \<Rightarrow> Inl x
      | Inr txt \<Rightarrow> Inr (insert_or_ignore (ev_event_id e) (e\<lparr>ev_data := []\<rparr>, txt) l))"

definition pg_ev_record ::
  "pg_env \<Rightarrow> evidence_event \<Rightarrow> pg_ledger \<Rightarrow> py_exn + evidence_event \<times> pg_ledger" where
  "pg_ev_record pe e l = rbind (pg_ev_append pe e l) (\<lambda>l'. Inr (e, l'))"

text \<open>\<open>ORDER BY timestamp, event_id\<close>.\<close>

definition pg_ev_list :: "uuid option \<Rightarrow> pg_ledger \<Rightarrow> evidence_event list" where
  "pg_ev_list x l =
     (let es = map sqlite_ev_row l;
          sel = (case x of None \<Rightarrow> es | Some i \<Rightarrow> filter (\<lambda>e. ev_execution_id e = i) es)
      in sort_key ev_timestamp (sort_key ev_event_id sel))"

definition pg_ev_count :: "uuid option \<Rightarrow> pg_ledger \<Rightarrow> nat" where
  "pg_ev_count x l = length (pg_ev_list x l)"

section \<open>The durable store is a checkpoint store\<close>

text \<open>A context that the store can take and give back.\<close>

definition pg_storable :: "pg_env \<Rightarrow> string option \<Rightarrow> execution_context \<Rightarrow> bool" where
  "pg_storable pe scope c \<longleftrightarrow>
     codec_ok (pe_codec pe) \<and> jsonb_ok pe \<and> saveable c \<and> assert_context scope (ctx_tenant_id c) = Inr ()
     \<and> (\<forall>t d. to_dict (pe_iso pe) (c\<lparr>ctx_updated_at := t\<rparr>) = Inr d \<longrightarrow> jsonb_safe (PDict d))
     \<and> (\<exists>i. step_index_of c = Inr i \<and> integer_column i = Inr ())"

lemma canonical_text_dumps [simp]: "canonical_text (json_dumps v) = json_dumps v"
  by (simp add: canonical_text_def json_dumps_def json_canon_idem del: json_canon.simps)

lemma saveable_touch [simp]: "saveable (c\<lparr>ctx_updated_at := t\<rparr>) \<longleftrightarrow> saveable c"
  by (simp add: saveable_def)

lemma step_index_touch [simp]: "step_index_of (c\<lparr>ctx_updated_at := t\<rparr>) = step_index_of c"
  by (simp add: step_index_of_def split: option.split)

lemma pg_storable_touch [simp]: "pg_storable pe scope (c\<lparr>ctx_updated_at := t\<rparr>) \<longleftrightarrow> pg_storable pe scope c"
  by (simp add: pg_storable_def)

lemma state_payload_Inr:
  "state_payload pe c = Inr (p, h) \<longleftrightarrow>
     (\<exists>d. to_dict (pe_iso pe) c = Inr d \<and> p = json_dumps (PDict d) \<and> h = pe_sha pe p)"
  by (auto simp: state_payload_def split: sum.splits)

lemma checkpoint_upsert_Inr:
  assumes "checkpoint_upsert pe c p h db = Inr db'"
  shows "\<exists>row. map_of (db_checkpoints db') = (map_of (db_checkpoints db))(ctx_execution_id c \<mapsto> row)
           \<and> pe_jsonb pe p = Inr (pc_state row) \<and> pc_state_hash row = h
           \<and> db_history db' = db_history db \<and> db_outbox db' = db_outbox db \<and> db_idem db' = db_idem db"
  using assms by (auto simp: checkpoint_upsert_def Let_def update_conv' split: sum.splits)

lemma history_insert_Inr:
  assumes "history_insert pe i step c p h db = Inr db'"
  shows "db_checkpoints db' = db_checkpoints db \<and> prefix (db_history db) (db_history db')
         \<and> db_outbox db' = db_outbox db \<and> db_idem db' = db_idem db"
  using assms by (auto simp: history_insert_def split: sum.splits if_splits)

lemma save_with_history_Inr:
  assumes "save_with_history pe i now c db = (Inr (), c', db')"
  shows "c' = touch now c
         \<and> (\<exists>d row. to_dict (pe_iso pe) c' = Inr d
              \<and> map_of (db_checkpoints db') = (map_of (db_checkpoints db))(ctx_execution_id c \<mapsto> row)
              \<and> pe_jsonb pe (json_dumps (PDict d)) = Inr (pc_state row)
              \<and> pc_state_hash row = pe_sha pe (json_dumps (PDict d)))
         \<and> prefix (db_history db) (db_history db') \<and> db_outbox db' = db_outbox db \<and> db_idem db' = db_idem db"
proof -
  have c': "c' = touch now c" and tx: "save_transaction pe i (touch now c) db = Inr db'"
    using assms by (auto simp: save_with_history_def Let_def split: sum.splits)
  from tx obtain p h step db1 j where
    p: "state_payload pe (touch now c) = Inr (p, h)" and
    u: "checkpoint_upsert pe (touch now c) p h db = Inr db1" and
    hi: "history_insert pe j step (touch now c) p h db1 = Inr db'"
    unfolding save_transaction_def rbind_Inr by (clarsimp simp: rbind_Inr)
  obtain d where d: "to_dict (pe_iso pe) c' = Inr d" "p = json_dumps (PDict d)" "h = pe_sha pe p"
    using p c' by (auto simp: state_payload_Inr)
  from checkpoint_upsert_Inr [OF u] obtain row where
    row: "map_of (db_checkpoints db1) = (map_of (db_checkpoints db))(ctx_execution_id (touch now c) \<mapsto> row)"
      "pe_jsonb pe p = Inr (pc_state row)" "pc_state_hash row = h"
    and same: "db_history db1 = db_history db" "db_outbox db1 = db_outbox db" "db_idem db1 = db_idem db"
    by (elim exE conjE)
  have x: "ctx_execution_id (touch now c) = ctx_execution_id c" by (simp add: touch_def)
  note hi' = history_insert_Inr [OF hi]
  have "map_of (db_checkpoints db') = (map_of (db_checkpoints db))(ctx_execution_id c \<mapsto> row)"
    using row(1) x hi' by simp
  moreover have "prefix (db_history db) (db_history db') \<and> db_outbox db' = db_outbox db \<and> db_idem db' = db_idem db"
    using hi' same by simp
  ultimately show ?thesis
    using d row(2,3) c' by blast
qed

lemma save_with_history_raise:
  "save_with_history pe i now c db = (Inl e, c', db') \<Longrightarrow> db' = db"
  by (auto simp: save_with_history_def Let_def split: sum.splits)

lemma save_with_history_context:
  "save_with_history pe i now c db = (r, c', db') \<Longrightarrow> c' = touch now c"
  by (auto simp: save_with_history_def Let_def split: sum.splits)

lemma save_with_history_ok:
  assumes "pg_storable pe scope c"
  shows "\<exists>db'. save_with_history pe i now c db = (Inr (), touch now c, db')"
proof -
  obtain d where d: "to_dict (pe_iso pe) (touch now c) = Inr d"
    using assms to_dict_saveable [of "touch now c" "pe_iso pe"] by (auto simp: pg_storable_def touch_def)
  then have "jsonb_safe (PDict d)" using assms by (auto simp: pg_storable_def touch_def)
  then have j: "pe_jsonb pe (json_dumps (PDict d)) = Inr (json_dumps (PDict d))"
    using assms by (auto simp: pg_storable_def jsonb_ok_def)
  obtain s where s: "step_index_of (touch now c) = Inr s" "integer_column s = Inr ()"
    using assms by (auto simp: pg_storable_def touch_def)
  show ?thesis
    by (simp add: save_with_history_def save_transaction_def Let_def state_payload_def d s(1) checkpoint_upsert_def history_insert_def
        j s(2))
qed

interpretation pg_cp: checkpoint_contract
  "pg_save pe scope" "pg_load pe" pg_delete "pg_storable pe scope" canon_context
  for pe scope
proof unfold_locales
  fix now c s r c' s' fv e xid xid' t
  show "pg_storable pe scope (c\<lparr>ctx_updated_at := t\<rparr>) \<longleftrightarrow> pg_storable pe scope c" by simp
  show "\<exists>m. pg_load pe fv xid (pg_delete xid s) = Some (Inl (Exn CheckpointNotFound m))"
    by (simp add: pg_load_def pg_delete_def)
  show "pg_load pe fv xid' (pg_delete xid s) = pg_load pe fv xid' s" if "xid' \<noteq> xid"
    using that by (simp add: pg_load_def pg_delete_def)
  show "s' = s" if "pg_save pe scope now c s = (Inl e, c', s')"
    using that by (auto simp: pg_save_def dest: save_with_history_raise split: sum.splits)
  assume sv: "pg_save pe scope now c s = (r, c', s')"
  show "\<exists>t. c' = c\<lparr>ctx_updated_at := t\<rparr>"
  proof (cases "assert_context scope (ctx_tenant_id c)")
    case (Inl e)
    with sv show ?thesis by (auto simp: pg_save_def intro: exI [of _ "ctx_updated_at c"])
  next
    case (Inr u)
    with sv have "c' = touch now c" by (auto simp: pg_save_def dest: save_with_history_context)
    then show ?thesis by (auto simp: touch_def)
  qed
  show "pg_load pe fv xid s' = pg_load pe fv xid s" if x: "xid \<noteq> ctx_execution_id c"
  proof (cases r)
    case (Inl e)
    then have "s' = s" using sv by (auto simp: pg_save_def dest: save_with_history_raise split: sum.splits)
    then show ?thesis by simp
  next
    case (Inr u)
    then have "save_with_history pe nil_uuid now c s = (Inr (), c', s')"
      using sv by (auto simp: pg_save_def split: sum.splits)
    then have "map_of (db_checkpoints s') xid = map_of (db_checkpoints s) xid"
      using save_with_history_Inr x by fastforce
    then show ?thesis by (simp add: pg_load_def)
  qed
  assume ok: "pg_storable pe scope c"
  then obtain db' where w: "save_with_history pe nil_uuid now c s = (Inr (), touch now c, db')"
    using save_with_history_ok by blast
  with ok sv have eq: "r = Inr ()" "c' = touch now c" "s' = db'" by (auto simp: pg_save_def pg_storable_def)
  then show "r = Inr ()" by simp
  obtain d row where d: "to_dict (pe_iso pe) c' = Inr d" "map_of (db_checkpoints s') (ctx_execution_id c) = Some row"
      "pe_jsonb pe (json_dumps (PDict d)) = Inr (pc_state row)" "pc_state_hash row = pe_sha pe (json_dumps (PDict d))"
    using save_with_history_Inr [OF w] eq by auto
  have "jsonb_safe (PDict d)" using ok d(1) eq(2) by (auto simp: pg_storable_def touch_def)
  then have st: "pc_state row = json_dumps (PDict d)" using ok d(3) by (auto simp: pg_storable_def jsonb_ok_def)
  have "restore (pe_codec pe) fv (canon_dict d) = Some (canon_context c')"
    using restore_canon [OF d(1)] ok eq(2) by (simp add: pg_storable_def touch_def)
  then show "pg_load pe fv (ctx_execution_id c) s' = Some (Inr (canon_context c'))"
    using d(2,4) st by (simp add: pg_load_def restore_state_def json_canon_PDict del: json_canon.simps(8))
qed

section \<open>A superseded worker writes nothing\<close>

lemma fenced_superseded: "superseded l (db_leases db) \<Longrightarrow> \<exists>m. fenced n l db body = Inl (Exn FencingError m)"
  by (simp add: fenced_def lease_assert_current_def superseded_not_current)

lemma fenced_isl: "superseded l (db_leases db) \<Longrightarrow> isl (fenced n l db body)"
  by (simp add: fenced_def lease_assert_current_def superseded_not_current)

lemma fenced_writes_nothing:
  assumes "superseded l (db_leases db)"
  shows "snd (snd (fenced_save pe l n now c db)) = db" "isl (fst (fenced_save pe l n now c db))"
    and "snd (snd (fenced_commit pe l n now c cmd db)) = db" "isl (fst (fenced_commit pe l n now c cmd db))"
    and "fenced_put_idempotency pe l n iid xid tenant res db = Inr db' \<Longrightarrow> db' = db"
    and "isl (fenced_complete_side_effect l n cmd sres db)" "isl (fenced_delete l n xid db)"
proof -
  have g: "\<exists>e. rbind m (\<lambda>x. fenced n l db (body x)) = Inl e"
    for m :: "py_exn + 'y" and body :: "'y \<Rightarrow> unit \<Rightarrow> py_exn + durable_db"
    using fenced_superseded [OF assms] by (cases m) auto
  show "snd (snd (fenced_save pe l n now c db)) = db" "isl (fst (fenced_save pe l n now c db))"
    using g [of "state_payload pe (touch now c)" "\<lambda>pd _. checkpoint_upsert pe (touch now c) (fst pd) (snd pd) db"]
    by (auto simp: fenced_save_def Let_def split_def)
  show "snd (snd (fenced_commit pe l n now c cmd db)) = db" "isl (fst (fenced_commit pe l n now c cmd db))"
    using g [of "state_payload pe (touch now c)" "\<lambda>pd _. commit_writes pe n (touch now c) pd cmd db"]
    by (auto simp: fenced_commit_def Let_def)
  show "fenced_put_idempotency pe l n iid xid tenant res db = Inr db' \<Longrightarrow> db' = db"
    using fenced_superseded [OF assms, of n "\<lambda>_. insert_idempotency pe iid xid tenant res db"]
    by (auto simp: fenced_put_idempotency_def split: if_splits)
  show "isl (fenced_complete_side_effect l n cmd sres db)" "isl (fenced_delete l n xid db)"
    by (simp_all add: fenced_complete_side_effect_def fenced_delete_def fenced_isl [OF assms])
qed

section \<open>The narrow stores keep their contracts\<close>

definition pg_idem_put_total :: "pg_env \<Rightarrow> string \<Rightarrow> invocation_result \<Rightarrow> pg_idempotency \<Rightarrow> pg_idempotency" where
  "pg_idem_put_total pe iid res st = (case pg_idem_put pe iid res st of Inl _ \<Rightarrow> st | Inr st' \<Rightarrow> st')"

text \<open>Every row was read from some terminal result the column keeps.\<close>

definition pg_idem_row_ok :: "json_text \<Rightarrow> bool" where
  "pg_idem_row_ok txt \<longleftrightarrow> (\<exists>d r. json_loads txt = PDict d \<and> result_of_dict d = Some r)"

definition jsonb_results :: "pg_env \<Rightarrow> bool" where
  "jsonb_results pe \<longleftrightarrow>
     (\<forall>r txt. pe_jsonb pe (json_dumps (PDict (result_dict r))) = Inr txt \<longrightarrow> pg_idem_row_ok txt)"

definition pg_idem_wf :: "pg_env \<Rightarrow> pg_idempotency \<Rightarrow> bool" where
  "pg_idem_wf pe st \<longleftrightarrow> jsonb_ok pe \<and> jsonb_results pe \<and> (\<forall>k txt. map_of st k = Some txt \<longrightarrow> pg_idem_row_ok txt)"

lemma pg_idem_get_ok: "map_of st k = Some txt \<Longrightarrow> pg_idem_row_ok txt \<Longrightarrow> \<exists>r. pg_idem_get k st = Inr (Some r)"
  by (auto simp: pg_idem_get_def pg_idem_row_ok_def)

interpretation pg_idem: idempotency_contract
  pg_idem_get "pg_idem_put_total pe" "pg_idem_wf pe"
  "\<lambda>r. terminal_result r \<and> jsonb_safe (PDict (result_dict r))" canon_result
  for pe
proof unfold_locales
  fix s k r r0 k'
  assume wf: "pg_idem_wf pe s"
  show "\<exists>r. pg_idem_get k s = Inr r"
  proof (cases "map_of s k")
    case None
    then show ?thesis by (simp add: pg_idem_get_def)
  next
    case (Some row)
    then show ?thesis using wf pg_idem_get_ok by (fastforce simp: pg_idem_wf_def)
  qed
  show "pg_idem_wf pe (pg_idem_put_total pe k r s)"
    using wf unfolding pg_idem_wf_def pg_idem_put_total_def pg_idem_put_def jsonb_results_def
    by (auto split: sum.splits option.splits if_splits)
  show "pg_idem_get k (pg_idem_put_total pe k r s) = Inr (Some (canon_result r))"
    if "terminal_result r \<and> jsonb_safe (PDict (result_dict r))" and none: "pg_idem_get k s = Inr None"
  proof -
    have m: "map_of s k = None"
      using none wf pg_idem_get_ok [of s k] by (cases "map_of s k") (auto simp: pg_idem_wf_def)
    have j: "pe_jsonb pe (json_dumps (PDict (result_dict r))) = Inr (json_dumps (PDict (result_dict r)))"
      using that(1) wf by (simp add: pg_idem_wf_def jsonb_ok_def del: jsonb_safe.simps)
    show ?thesis
      using that(1) m
      by (simp add: pg_idem_put_total_def pg_idem_put_def terminal_result_def j pg_idem_get_def json_loads_result
          result_of_dict_canon del: json_loads_dumps jsonb_safe.simps)
  qed
  show "pg_idem_get k (pg_idem_put_total pe k r s) = Inr (Some r0)" if "pg_idem_get k s = Inr (Some r0)"
    using that by (cases "map_of s k") (auto simp: pg_idem_get_def pg_idem_put_total_def pg_idem_put_def split: sum.splits)
  show "pg_idem_get k' (pg_idem_put_total pe k r s) = pg_idem_get k' s" if "k' \<noteq> k"
    using that by (auto simp: pg_idem_get_def pg_idem_put_total_def pg_idem_put_def split: sum.splits option.splits)
qed

text \<open>The ledger lists by time; an append inserts one event and moves no other.\<close>

lemma filter_sort_twice:
  "filter P (sort_key f (sort_key g xs)) = sort_key f (sort_key g (filter P xs))"
  by (simp add: filter_sort)

lemma sqlite_ev_row_id [simp]: "ev_event_id (sqlite_ev_row r) = fst r"
  by (simp add: sqlite_ev_row_def split: prod.split)

lemma pg_ev_append_keeps:
  assumes "pg_ev_append pe e l = Inr l'"
  shows "subseq (pg_ev_list x l) (pg_ev_list x l')"
proof (cases "map_of l (ev_event_id e)")
  case (Some v)
  then show ?thesis using assms by (auto simp: pg_ev_append_def insert_or_ignore_def split: sum.splits)
next
  case None
  then obtain row where row: "l' = l @ [(ev_event_id e, row)]"
    using assms by (auto simp: pg_ev_append_def insert_or_ignore_def split: sum.splits)
  define P where "P v \<longleftrightarrow> ev_event_id v \<noteq> ev_event_id e" for v :: evidence_event
  have old: "P (sqlite_ev_row r)" if "r \<in> set l" for r
    using imageI [OF that, of fst] None by (simp add: P_def map_of_eq_None_iff) metis
  have new: "\<not> P (sqlite_ev_row (ev_event_id e, row))" by (simp add: P_def)
  have keep: "filter (\<lambda>r. Q r \<and> P (sqlite_ev_row r)) l = filter Q l" for Q
    using old by (intro filter_cong) auto
  have "pg_ev_list x l = filter P (pg_ev_list x l')"
    using old new keep
    by (cases x) (auto simp: pg_ev_list_def Let_def filter_sort_twice row filter_map comp_def filter_id_conv)
  then show ?thesis by simp
qed

end
