(* ===== verification/Postgres_Properties.thy ===== *)
theory Postgres_Properties
  imports Postgres_Store
begin

text \<open>
  Properties of the PostgreSQL stores, and a sample database on which their hypotheses hold: time
  stamps are written in unary, the hash tells states with floats from states without, and the JSONB
  column gives back large integral floats in plain digits, as integers.
\<close>

section \<open>A sample database\<close>

primrec respell :: "pyval \<Rightarrow> pyval" where
  "respell PNone = PNone"
| "respell (PBool b) = PBool b"
| "respell (PInt i) = PInt i"
| "respell (PFloat r) = (if 10 ^ 16 \<le> \<bar>r\<bar> \<and> of_int \<lfloor>r\<rfloor> = r then PInt \<lfloor>r\<rfloor> else PFloat r)"
| "respell (PStr s) = PStr s"
| "respell (PList vs) = PList (map respell vs)"
| "respell (PTuple vs) = PTuple (map respell vs)"
| "respell (PDict kvs) = PDict (map (map_prod id respell) kvs)"

definition pg_iso :: "int \<Rightarrow> string" where
  "pg_iso t = (if t < 0 then CHR ''-'' else CHR ''+'') # replicate (nat \<bar>t\<bar>) (CHR ''1'')"

fun pg_fromiso :: "string \<Rightarrow> int option" where
  "pg_fromiso [] = None"
| "pg_fromiso (c # ds) = Some (if c = CHR ''-'' then - int (length ds) else int (length ds))"

definition sample_pg :: pg_env where
  "sample_pg =
     \<lparr>pe_codec = \<lparr>cd_iso = pg_iso, cd_fromiso = pg_fromiso,
                   cd_sha = (\<lambda>t. if jsonb_safe (json_loads t) then ''plain'' else ''floats'')\<rparr>,
      pe_jsonb = (\<lambda>t. Inr (JsonText (respell (json_loads t)))), pe_uuid_of = id\<rparr>"

definition tenant_a :: string where
  "tenant_a = ''00000000-0000-4000-8000-00000000000a''"

definition pg_context :: execution_context where
  "pg_context = new_context
     \<lparr>eid_execution_id = tenant_a, eid_tenant_id = tenant_a, eid_workflow_id = None, eid_workflow_version = None\<rparr>
     ''say hello'' 0 0"

lemma pg_codec_ok: "codec_ok (pe_codec sample_pg)"
  by (simp add: codec_ok_def sample_pg_def pg_iso_def)

lemma respell_safe: "jsonb_safe v \<Longrightarrow> respell v = v"
proof (induction v)
  case (PDict kvs)
  then have "map_prod id respell kv = kv" if "kv \<in> set kvs" for kv
    using that by (cases kv) (force simp: list_all_iff)
  then show ?case by (simp add: map_idI)
qed (auto simp: list_all_iff map_idI)

lemma jsonb_safe_canon: "jsonb_safe v \<Longrightarrow> jsonb_safe (json_canon v)"
  by (induction v) (auto simp: list_all_iff)

lemma sample_jsonb_ok: "jsonb_ok sample_pg"
  by (simp add: jsonb_ok_def sample_pg_def json_dumps_def respell_safe jsonb_safe_canon del: jsonb_safe.simps)

lemma tenant_a_normal: "normalize_tenant_id tenant_a = Inr tenant_a"
  by code_simp

lemma pg_context_safe:
  "to_dict pg_iso (pg_context\<lparr>ctx_updated_at := t\<rparr>) = Inr d \<Longrightarrow> jsonb_safe (PDict d)"
  by (auto simp: to_dict_def pg_context_def new_context_def identity_dict_def tenant_a_def pg_iso_def
      py_opt_str_def py_opt_dict_def py_dicts_def split: if_splits)

lemma pg_context_storable: "pg_storable sample_pg (Some tenant_a) pg_context"
proof -
  have i: "ctx_tenant_id pg_context = tenant_a" "ctx_execution_id pg_context = tenant_a"
    by (simp_all add: pg_context_def new_context_def)
  have "uuid_parse tenant_a = Some tenant_a"
    using tenant_a_normal by (auto simp: normalize_tenant_id_def split: option.splits)
  then have "saveable pg_context" by (simp add: saveable_def i) (simp add: pg_context_def new_context_def)
  moreover have "step_index_of pg_context = Inr 0" by (simp add: step_index_of_def pg_context_def new_context_def)
  moreover have "pe_iso sample_pg = pg_iso" by (simp add: sample_pg_def)
  ultimately show ?thesis
    using pg_codec_ok sample_jsonb_ok pg_context_safe
    by (simp add: pg_storable_def assert_context_def i tenant_a_normal integer_column_def del: jsonb_safe.simps)
qed

section \<open>Checkpoints\<close>

text \<open>The checkpoint id that \<open>save\<close> derives, and the history row of a save beside the checkpoint row.\<close>

definition derived_id :: "pg_env \<Rightarrow> execution_context \<Rightarrow> uuid" where
  "derived_id pe c = pe_uuid_of pe (ctx_execution_id c @ '':'' @ pe_iso pe (ctx_updated_at c))"

lemma save_with_history_rows:
  assumes "save_with_history pe nil_uuid now c db = (Inr (), c1, db1)"
  shows "\<exists>h row. map_of (db_checkpoints db1) (ctx_execution_id c) = Some row
     \<and> ph_state h = pc_state row \<and> ph_state_hash h = pc_state_hash row
     \<and> ph_checkpoint_id h = derived_id pe c1 \<and> ph_execution_id h = ctx_execution_id c \<and> ph_tenant_id h = ctx_tenant_id c
     \<and> ph_status h = execution_status_value (ctx_status c1) \<and> Inr (ph_step_index h) = step_index_of c \<and> ph_created_at h = now
     \<and> db_history db1 = (if derived_id pe c1 \<in> ph_checkpoint_id ` set (db_history db) then db_history db else db_history db @ [h])"
proof -
  let ?c = "touch now c"
  have c1: "c1 = ?c" and tx: "save_transaction pe nil_uuid ?c db = Inr db1"
    using assms by (auto simp: save_with_history_def Let_def split: sum.splits)
  have same: "ctx_execution_id ?c = ctx_execution_id c" "ctx_tenant_id ?c = ctx_tenant_id c" "ctx_updated_at ?c = now" "step_index_of ?c = step_index_of c"
    by (simp_all add: touch_def)
  from tx obtain p dg step db2 where
    u: "checkpoint_upsert pe ?c p dg db = Inr db2" and s: "step_index_of ?c = Inr step"
    and hi: "history_insert pe (derived_id pe c1) step ?c p dg db2 = Inr db1"
    unfolding save_transaction_def c1 derived_id_def by (auto simp: rbind_Inr)
  from checkpoint_upsert_Inr [OF u] obtain row where
    row: "map_of (db_checkpoints db2) (ctx_execution_id c) = Some row" "pe_jsonb pe p = Inr (pc_state row)" "pc_state_hash row = dg"
      "db_history db2 = db_history db" by (auto simp: same)
  have cp: "db_checkpoints db1 = db_checkpoints db2" using history_insert_Inr [OF hi] by simp
  define h where "h = \<lparr>ph_checkpoint_id = derived_id pe c1, ph_execution_id = ctx_execution_id ?c,
      ph_tenant_id = ctx_tenant_id ?c, ph_workflow_id = eid_workflow_id (ctx_identity ?c),
      ph_workflow_version = eid_workflow_version (ctx_identity ?c), ph_step_index = step,
      ph_status = execution_status_value (ctx_status ?c), ph_state = pc_state row, ph_state_hash = dg, ph_created_at = ctx_updated_at ?c\<rparr>"
  have "db_history db1 = (if derived_id pe c1 \<in> ph_checkpoint_id ` set (db_history db) then db_history db else db_history db @ [h])"
    using hi row unfolding h_def by (force simp: history_insert_def list_ex_iff split: sum.splits if_splits)
  moreover have "ph_state h = pc_state row \<and> ph_state_hash h = pc_state_hash row
     \<and> ph_checkpoint_id h = derived_id pe c1 \<and> ph_execution_id h = ctx_execution_id c \<and> ph_tenant_id h = ctx_tenant_id c
     \<and> ph_status h = execution_status_value (ctx_status c1) \<and> Inr (ph_step_index h) = step_index_of c \<and> ph_created_at h = now"
    using s row(3) by (simp add: h_def same c1 del: touch_def)
  ultimately show ?thesis using row(1) cp by auto
qed

text \<open>
  C14. A context saved in PostgreSQL is loaded back: the save of a storable context succeeds, and a load then gives the
  context as it was saved (through JSON), also after any later save of another execution. The save appends
  to the history exactly one row, under the id derived from the execution and the time of the save (none if that id is there
  already), with the execution, the tenant, the status, the step and the time, whose state passes its hash and restores
  to the same context.
\<close>

theorem pg_checkpoint_survives:
  assumes "pg_storable pe scope c" and "pg_save pe scope now c db = (r, c1, db1)"
    and "pg_save pe scope' now' d db1 = (r2, d2, db2)" and "ctx_execution_id d \<noteq> ctx_execution_id c"
  shows "r = Inr () \<and> pg_load pe fv (ctx_execution_id c) db2 = Some (Inr (canon_context c1))
    \<and> (\<exists>h. db_history db1 =
           (if derived_id pe c1 \<in> ph_checkpoint_id ` set (db_history db) then db_history db else db_history db @ [h])
         \<and> ph_checkpoint_id h = derived_id pe c1 \<and> ph_execution_id h = ctx_execution_id c \<and> ph_tenant_id h = ctx_tenant_id c
         \<and> ph_status h = execution_status_value (ctx_status c1) \<and> Inr (ph_step_index h) = step_index_of c \<and> ph_created_at h = now
         \<and> pe_sha pe (canonical_text (ph_state h)) = ph_state_hash h
         \<and> restore_state pe fv (ph_state h) = Some (canon_context c1))"
proof -
  have r: "r = Inr ()" using pg_cp.save_ok [OF assms(1,2)] .
  then have "save_with_history pe nil_uuid now c db = (Inr (), c1, db1)"
    using assms(2) by (auto simp: pg_save_def split: sum.splits)
  note rows = save_with_history_rows [OF this]
  have load: "pg_load pe fv (ctx_execution_id c) db1 = Some (Inr (canon_context c1))"
    using pg_cp.load_save [OF assms(1,2)] by simp
  then have "pg_load pe fv (ctx_execution_id c) db2 = Some (Inr (canon_context c1))"
    using pg_cp.load_save_other [OF assms(3)] assms(4) by simp
  moreover have "pe_sha pe (canonical_text (pc_state row)) = pc_state_hash row \<and> restore_state pe fv (pc_state row) = Some (canon_context c1)"
    if "map_of (db_checkpoints db1) (ctx_execution_id c) = Some row" for row
    using load that by (auto simp: pg_load_def split: if_splits)
  ultimately show ?thesis using r rows by metis
qed

definition other_context :: execution_context where
  "other_context = pg_context\<lparr>ctx_identity := (ctx_identity pg_context)\<lparr>eid_execution_id := ''other''\<rparr>\<rparr>"

definition pg_fresh :: fresh_values where
  "pg_fresh = \<lparr>fv_uuid = tenant_a, fv_now1 = 0, fv_now2 = 0\<rparr>"

theorem pg_checkpoint_survives_witness:
  "\<exists>c1 db1 r2 d2 db2. pg_save sample_pg (Some tenant_a) 1 pg_context empty_db = (Inr (), c1, db1)
     \<and> pg_save sample_pg None 2 other_context db1 = (r2, d2, db2)
     \<and> pg_load sample_pg pg_fresh tenant_a db2 = Some (Inr (canon_context c1)) \<and> length (db_history db1) = 1"
proof -
  obtain r c1 db1 where s1: "pg_save sample_pg (Some tenant_a) 1 pg_context empty_db = (r, c1, db1)"
    by (metis surj_pair)
  obtain r2 d2 db2 where s2: "pg_save sample_pg None 2 other_context db1 = (r2, d2, db2)"
    by (metis surj_pair)
  have "ctx_execution_id other_context \<noteq> ctx_execution_id pg_context"
    by (simp add: other_context_def pg_context_def new_context_def tenant_a_def)
  from pg_checkpoint_survives [OF pg_context_storable s1 s2 this, of pg_fresh] s1 s2
  show ?thesis by (auto simp: pg_context_def new_context_def empty_db_def)
qed

text \<open>
  A state whose JSONB value reads back under another hash is lost: the save succeeds, and every
  load of that execution raises the integrity error. (Floats of at least ten to the sixteenth are
  written with an exponent by Python and come back from JSONB as plain digits.)
\<close>

theorem respelled_state_is_lost:
  assumes "assert_context scope (ctx_tenant_id c) = Inr ()" and "to_dict (pe_iso pe) (touch now c) = Inr d"
    and "pe_jsonb pe (json_dumps (PDict d)) = Inr txt"
    and "pe_sha pe (canonical_text txt) \<noteq> pe_sha pe (json_dumps (PDict d))"
    and "step_index_of c = Inr i" and "integer_column i = Inr ()"
  shows "\<exists>db1. pg_save pe scope now c db = (Inr (), touch now c, db1)
           \<and> pg_load pe fv (ctx_execution_id c) db1 =
               Some (Inl (Exn ValueError (''Checkpoint integrity failure for execution '' @ ctx_execution_id c)))"
proof -
  have "step_index_of (touch now c) = Inr i" using assms(5) by (simp add: touch_def)
  moreover have "ctx_execution_id (touch now c) = ctx_execution_id c" by (simp add: touch_def)
  ultimately show ?thesis
    using assms
    by (simp add: pg_save_def save_with_history_def save_transaction_def Let_def state_payload_def
        checkpoint_upsert_def history_insert_def pg_load_def)
qed

definition float_context :: execution_context where
  "float_context = pg_context\<lparr>ctx_working_memory := [(''n'', PFloat (10 ^ 16))]\<rparr>"

definition float_dict :: pydict where
  "float_dict = (case to_dict pg_iso (touch 1 float_context) of Inr d \<Rightarrow> d | Inl _ \<Rightarrow> [])"

lemma float_dict_eq: "to_dict (pe_iso sample_pg) (touch 1 float_context) = Inr float_dict"
  by (simp add: float_dict_def to_dict_def float_context_def pg_context_def new_context_def touch_def sample_pg_def)

lemma float_dict_hash:
  "pe_sha sample_pg (canonical_text (JsonText (respell (json_canon (PDict float_dict)))))
     \<noteq> pe_sha sample_pg (json_dumps (PDict float_dict))"
  by code_simp

theorem respelled_state_is_lost_witness:
  "\<exists>db1. pg_save sample_pg (Some tenant_a) 1 float_context empty_db = (Inr (), touch 1 float_context, db1)
     \<and> (\<exists>m. pg_load sample_pg pg_fresh tenant_a db1 = Some (Inl (Exn ValueError m)))"
proof -
  have i: "ctx_tenant_id float_context = tenant_a" "ctx_execution_id float_context = tenant_a"
    by (simp_all add: float_context_def pg_context_def new_context_def)
  have "\<exists>db1. pg_save sample_pg (Some tenant_a) 1 float_context empty_db = (Inr (), touch 1 float_context, db1)
      \<and> pg_load sample_pg pg_fresh (ctx_execution_id float_context) db1 =
          Some (Inl (Exn ValueError (''Checkpoint integrity failure for execution '' @ ctx_execution_id float_context)))"
  proof (rule respelled_state_is_lost [OF _ float_dict_eq _ float_dict_hash])
    show "assert_context (Some tenant_a) (ctx_tenant_id float_context) = Inr ()"
      by (simp add: assert_context_def i tenant_a_normal)
    show "pe_jsonb sample_pg (json_dumps (PDict float_dict)) = Inr (JsonText (respell (json_canon (PDict float_dict))))"
      by (simp add: sample_pg_def)
    show "step_index_of float_context = Inr 0" by (simp add: step_index_of_def float_context_def pg_context_def new_context_def)
    show "integer_column 0 = Inr ()" by (simp add: integer_column_def)
  qed
  then show ?thesis unfolding i by blast
qed

section \<open>History\<close>

lemma first_valid_newest:
  assumes "first_valid pe fv hs = Some (Some c)" and "sorted_wrt R hs"
  shows "\<exists>h\<in>set hs. pe_sha pe (canonical_text (ph_state h)) = ph_state_hash h \<and> restore_state pe fv (ph_state h) = Some c
           \<and> (\<forall>h'\<in>set hs. pe_sha pe (canonical_text (ph_state h')) = ph_state_hash h' \<longrightarrow> h' = h \<or> R h h')"
  using assms
proof (induction hs)
  case Nil
  then show ?case by simp
next
  case (Cons h hs)
  show ?case
  proof (cases "pe_sha pe (canonical_text (ph_state h)) = ph_state_hash h")
    case True
    then show ?thesis using Cons.prems by auto
  next
    case False
    then show ?thesis using Cons by auto
  qed
qed

lemma first_valid_none:
  "first_valid pe fv hs = Some None \<longleftrightarrow> (\<forall>h\<in>set hs. pe_sha pe (canonical_text (ph_state h)) \<noteq> ph_state_hash h)"
  by (induction hs) auto

text \<open>The rows of an execution, newest first: by step, then by time.\<close>

definition newer :: "pg_history \<Rightarrow> pg_history \<Rightarrow> bool" where
  "newer h h' \<longleftrightarrow>
     ph_step_index h' < ph_step_index h \<or> ph_step_index h' = ph_step_index h \<and> ph_created_at h' \<le> ph_created_at h"

lemma sorted_wrt_classes:
  "(\<And>k. sorted_wrt R (filter (\<lambda>x. f x = k) xs)) \<Longrightarrow> sorted_wrt (\<lambda>x y. f x = f y \<longrightarrow> R x y) xs"
proof (induction xs)
  case Nil
  then show ?case by simp
next
  case (Cons a xs)
  have "sorted_wrt R (filter (\<lambda>x. f x = k) xs)" for k
    using Cons.prems [of k] by (cases "f a = k") auto
  then have "sorted_wrt (\<lambda>x y. f x = f y \<longrightarrow> R x y) xs" by (rule Cons.IH)
  then show ?case using Cons.prems [of "f a"] by auto
qed

lemma sort_key_twice:
  fixes f :: "'a \<Rightarrow> 'b::linorder" and g :: "'a \<Rightarrow> 'c::linorder"
  shows "sorted_wrt (\<lambda>x y. f x < f y \<or> f x = f y \<and> g x \<le> g y) (sort_key f (sort_key g xs))"
proof -
  have "sorted_wrt (\<lambda>x y. g x \<le> g y) (filter (\<lambda>x. f x = k) (sort_key f (sort_key g xs)))" for k
    using sorted_sort_key [of g xs] by (simp add: sort_key_stable sorted_map sorted_wrt_filter del: sorted_sort_key)
  then have "sorted_wrt (\<lambda>x y. f x = f y \<longrightarrow> g x \<le> g y) (sort_key f (sort_key g xs))"
    by (rule sorted_wrt_classes)
  moreover have "sorted_wrt (\<lambda>x y. f x \<le> f y) (sort_key f (sort_key g xs))"
    using sorted_sort_key [of f "sort_key g xs"] by (simp only: sorted_map)
  ultimately show ?thesis
    by (auto simp: sorted_wrt_iff_nth_less order.order_iff_strict)
qed

lemma history_newest_first: "sorted_wrt newer (history_of tenant xid db)"
  unfolding history_of_def by (rule sorted_wrt_mono_rel [OF _ sort_key_twice]) (auto simp: newer_def)

text \<open>
  Recovery takes the newest intact snapshot: what is returned was restored from a row of that
  tenant and execution whose hash agrees, and every other row whose hash agrees is not newer; nothing
  is returned only when no row's hash agrees.
\<close>

theorem recovery_takes_newest_intact:
  "(\<forall>c. fetch_last_valid_checkpoint pe fv tenant xid db = Some (Some c) \<longrightarrow>
      (\<exists>h\<in>set (db_history db). ph_tenant_id h = tenant \<and> ph_execution_id h = xid
         \<and> pe_sha pe (canonical_text (ph_state h)) = ph_state_hash h \<and> restore_state pe fv (ph_state h) = Some c
         \<and> (\<forall>h'\<in>set (db_history db). ph_tenant_id h' = tenant \<and> ph_execution_id h' = xid
              \<and> pe_sha pe (canonical_text (ph_state h')) = ph_state_hash h' \<longrightarrow> h' = h \<or> newer h h')))
   \<and> (fetch_last_valid_checkpoint pe fv tenant xid db = Some None \<longleftrightarrow>
      (\<forall>h\<in>set (db_history db). ph_tenant_id h = tenant \<and> ph_execution_id h = xid \<longrightarrow>
         pe_sha pe (canonical_text (ph_state h)) \<noteq> ph_state_hash h))"
proof -
  have s: "set (history_of tenant xid db) =
      {h \<in> set (db_history db). ph_tenant_id h = tenant \<and> ph_execution_id h = xid}"
    by (auto simp: history_of_def)
  show ?thesis
    unfolding fetch_last_valid_checkpoint_def
    using first_valid_newest [OF _ history_newest_first, of pe fv tenant xid db]
      first_valid_none [of pe fv "history_of tenant xid db"]
    by (simp add: s) blast
qed

definition pg_dict :: pydict where
  "pg_dict = (case to_dict pg_iso pg_context of Inr d \<Rightarrow> d | Inl _ \<Rightarrow> [])"

lemma pg_dict_eq: "to_dict (pe_iso sample_pg) pg_context = Inr pg_dict"
  by (simp add: pg_dict_def to_dict_def pg_context_def new_context_def sample_pg_def)

definition snapshot_row :: "string \<Rightarrow> int \<Rightarrow> pg_history" where
  "snapshot_row hash step =
     \<lparr>ph_checkpoint_id = hash, ph_execution_id = tenant_a, ph_tenant_id = tenant_a, ph_workflow_id = None,
      ph_workflow_version = None, ph_step_index = step, ph_status = ''received'', ph_state = json_dumps (PDict pg_dict),
      ph_state_hash = hash, ph_created_at = step\<rparr>"

definition tampered_db :: durable_db where
  "tampered_db = empty_db\<lparr>db_history := [snapshot_row ''plain'' 1, snapshot_row ''tampered'' 2]\<rparr>"

lemma pg_dict_hash: "pe_sha sample_pg (json_dumps (PDict pg_dict)) = ''plain''"
  using pg_context_safe [of "ctx_updated_at pg_context"] pg_dict_eq
  by (simp add: sample_pg_def jsonb_safe_canon del: jsonb_safe.simps json_canon.simps)

lemma tampered_fetch:
  "fetch_last_valid_checkpoint sample_pg pg_fresh tenant_a tenant_a tampered_db = Some (Some (canon_context pg_context))"
proof -
  have "restore (pe_codec sample_pg) pg_fresh (canon_dict pg_dict) = Some (canon_context pg_context)"
    using restore_canon [OF pg_dict_eq pg_codec_ok] pg_context_storable by (simp add: pg_storable_def)
  then have "restore_state sample_pg pg_fresh (json_dumps (PDict pg_dict)) = Some (canon_context pg_context)"
    by (simp add: restore_state_def json_canon_PDict del: json_canon.simps(8))
  then show ?thesis
    by (simp add: fetch_last_valid_checkpoint_def history_of_def tampered_db_def snapshot_row_def pg_dict_hash)
qed

theorem recovery_takes_newest_intact_witness:
  "\<exists>h\<in>{snapshot_row ''plain'' 1, snapshot_row ''tampered'' 2}.
     pe_sha sample_pg (canonical_text (ph_state h)) = ph_state_hash h
     \<and> restore_state sample_pg pg_fresh (ph_state h) = Some (canon_context pg_context)"
  using recovery_takes_newest_intact [of sample_pg pg_fresh tenant_a tenant_a tampered_db, THEN conjunct1,
      rule_format, OF tampered_fetch]
  by (auto simp: tampered_db_def)

section \<open>Fencing and atomicity\<close>

text \<open>
  The fenced store is closed to a superseded worker: once another claim has taken the execution
  over, and whatever claims and renewals follow, none of its writes changes the database; saves,
  commits, completions and deletions raise.
\<close>

theorem superseded_store_is_closed:
  assumes "superseded l t0" and "(lease_step ttl)\<^sup>*\<^sup>* t0 (db_leases db)"
  shows "isl (fst (fenced_save pe l n now c db)) \<and> snd (snd (fenced_save pe l n now c db)) = db
         \<and> isl (fst (fenced_commit pe l n now c cmd db)) \<and> snd (snd (fenced_commit pe l n now c cmd db)) = db
         \<and> fenced_put_idempotency pe l n iid xid tenant res db \<in> Inl ` UNIV \<union> {Inr db}
         \<and> isl (fenced_complete_side_effect l n cmd sres db) \<and> isl (fenced_delete l n xid db)"
proof -
  note sup = superseded_steps [OF assms(2,1)]
  have "fenced_put_idempotency pe l n iid xid tenant res db \<in> Inl ` UNIV \<union> {Inr db}"
    using fenced_writes_nothing(5) [OF sup, of pe n iid xid tenant res]
    by (cases "fenced_put_idempotency pe l n iid xid tenant res db") auto
  then show ?thesis using fenced_writes_nothing(1-4,6,7) [OF sup] by simp
qed

definition lost_lease :: worker_lease where
  "lost_lease = \<lparr>wl_execution_id = tenant_a, wl_worker_id = ''w1'', wl_epoch = 1, wl_lease_expires_at = 10\<rparr>"

definition taken_db :: durable_db where
  "taken_db = empty_db\<lparr>db_leases :=
     [(tenant_a, \<lparr>lr_worker_id = ''w2'', lr_epoch = 2, lr_expires_at = 99, lr_updated_at = 20\<rparr>)]\<rparr>"

theorem superseded_store_is_closed_witness:
  "isl (fst (fenced_save sample_pg lost_lease 5 5 pg_context taken_db)) \<and> isl (fenced_delete lost_lease 5 tenant_a taken_db)"
proof -
  have "superseded lost_lease (db_leases taken_db)" by (simp add: superseded_def lost_lease_def taken_db_def)
  from superseded_store_is_closed [OF this rtranclp.rtrancl_refl] show ?thesis by blast
qed

text \<open>
  The fence checks the lease, not what is written under it: a worker with a current lease for one
  execution saves over the checkpoint of any other.
\<close>

theorem foreign_lease_writes:
  assumes "lease_current n l (db_leases db)" and "pg_storable pe scope c"
    and "wl_execution_id l \<noteq> ctx_execution_id c"
  shows "\<exists>db1. fenced_save pe l n now c db = (Inr (), touch now c, db1)
           \<and> pg_load pe fv (ctx_execution_id c) db1 = Some (Inr (canon_context (touch now c)))"
proof -
  obtain d where d: "to_dict (pe_iso pe) (touch now c) = Inr d"
    using assms(2) to_dict_saveable [of "touch now c" "pe_iso pe"] by (auto simp: pg_storable_def touch_def)
  then have "jsonb_safe (PDict d)" using assms(2) by (auto simp: pg_storable_def touch_def)
  then have j: "pe_jsonb pe (json_dumps (PDict d)) = Inr (json_dumps (PDict d))"
    using assms(2) by (auto simp: pg_storable_def jsonb_ok_def)
  have "restore (pe_codec pe) fv (canon_dict d) = Some (canon_context (touch now c))"
    using restore_canon [OF d] assms(2) by (simp add: pg_storable_def touch_def)
  moreover have "ctx_execution_id (touch now c) = ctx_execution_id c" by (simp add: touch_def)
  ultimately show ?thesis
    using assms(1)
    by (simp add: fenced_save_def Let_def state_payload_def d fenced_def lease_assert_current_def checkpoint_upsert_def j
        pg_load_def restore_state_def json_canon_PDict del: json_canon.simps(8))
qed

theorem foreign_lease_writes_witness:
  "\<exists>db1. fenced_save sample_pg (lost_lease\<lparr>wl_execution_id := ''mine'', wl_worker_id := ''w1''\<rparr>) 5 5 pg_context
         (empty_db\<lparr>db_leases := [(''mine'', \<lparr>lr_worker_id = ''w1'', lr_epoch = 1, lr_expires_at = 10, lr_updated_at = 0\<rparr>)]\<rparr>)
       = (Inr (), touch 5 pg_context, db1)"
  using foreign_lease_writes [OF _ pg_context_storable,
      of 5 "lost_lease\<lparr>wl_execution_id := ''mine'', wl_worker_id := ''w1''\<rparr>"
         "empty_db\<lparr>db_leases := [(''mine'', \<lparr>lr_worker_id = ''w1'', lr_epoch = 1, lr_expires_at = 10, lr_updated_at = 0\<rparr>)]\<rparr>" 5]
  by (auto simp: lease_current_def lease_matches_def lost_lease_def pg_context_def new_context_def tenant_a_def)

text \<open>
  A checkpoint and the side effect it announces are committed together: the commit either changes
  nothing and raises, or leaves the checkpoint of the context and an outbox row for the invocation.
\<close>

theorem commit_is_atomic:
  assumes "pg_commit_checkpoint_and_side_effect pe scope now db_now c cmd db = (r, c1, db1)"
  shows "(\<exists>e. r = Inl e) \<and> db1 = db
         \<or> r = Inr () \<and> (\<exists>row. map_of (db_checkpoints db1) (ctx_execution_id c) = Some row
              \<and> pc_status row = execution_status_value (ctx_status c))
           \<and> se_invocation_id cmd \<in> ob_invocation ` set (db_outbox db1)"
proof (cases "r")
  case (Inl e)
  then show ?thesis
    using assms by (auto simp: pg_commit_checkpoint_and_side_effect_def Let_def split: sum.splits)
next
  case (Inr u)
  let ?c = "touch now c"
  from assms Inr obtain pd where w: "commit_writes pe db_now ?c pd cmd db = Inr db1"
    by (auto simp: pg_commit_checkpoint_and_side_effect_def Let_def rbind_Inr split: sum.splits)
  then obtain dba cmd' t where u: "checkpoint_upsert pe ?c (fst pd) (snd pd) db = Inr dba"
      and j: "jsonb_request pe cmd = Inr cmd'" and i: "outbox_insert_new db_now cmd' (db_outbox dba) = Inr t"
      and d: "db1 = dba\<lparr>db_outbox := t\<rparr>"
    by (auto simp: commit_writes_def rbind_Inr)
  have "se_invocation_id cmd' = se_invocation_id cmd" using j by (auto simp: jsonb_request_def split: sum.splits)
  then have "se_invocation_id cmd \<in> ob_invocation ` set t"
    using i by (auto simp: outbox_insert_new_def outbox_insert_def new_row_def list_ex_iff intro: rev_image_eqI split: if_splits)
  moreover have "\<exists>row. map_of (db_checkpoints dba) (ctx_execution_id c) = Some row
      \<and> pc_status row = execution_status_value (ctx_status c)"
    using u by (auto simp: checkpoint_upsert_def Let_def touch_def split: sum.splits)
  ultimately show ?thesis using d Inr by simp
qed

theorem commit_is_atomic_witness:
  "\<exists>r c1 db1. pg_commit_checkpoint_and_side_effect sample_pg None 1 1 pg_context
       (\<lparr>se_effect_id = ''e1'', se_tenant_id = tenant_a, se_execution_id = ''x1'', se_invocation_id = ''i1'',
         se_capability_id = ''mail'', se_idempotency_key = ''k1'', se_request = []\<rparr>) empty_db = (r, c1, db1)
     \<and> ((\<exists>e. r = Inl e) \<and> db1 = empty_db \<or> r = Inr () \<and> ''i1'' \<in> ob_invocation ` set (db_outbox db1))"
proof -
  let ?cmd = "\<lparr>se_effect_id = ''e1'', se_tenant_id = tenant_a, se_execution_id = ''x1'', se_invocation_id = ''i1'',
    se_capability_id = ''mail'', se_idempotency_key = ''k1'', se_request = []\<rparr>"
  obtain r c1 db1 where s: "pg_commit_checkpoint_and_side_effect sample_pg None 1 1 pg_context ?cmd empty_db = (r, c1, db1)"
    by (metis surj_pair)
  with commit_is_atomic [OF s] show ?thesis by auto
qed

text \<open>
  The two idempotency stores that share a table exclude each other: for an invocation claimed in
  the execution store, the kernel's durable store drops a result it is given, and reading the
  invocation raises.
\<close>

theorem claimed_invocation_unreadable:
  assumes "claim_idempotency iid xid tenant cid fp db = Inr (True, db1)"
    and "pg_put_idempotency pe scope iid xid' tenant' res db1 = Inr db2"
  shows "db2 = db1 \<and> (\<exists>e. pg_get_idempotency iid db2 = Inl e)"
proof -
  obtain row where row: "map_of (db_idem db1) iid = Some row" "id_result row = json_dumps (PDict [])"
    using assms(1) by (auto simp: claim_idempotency_def map_add_def split: option.splits if_splits)
  have "db2 = db1"
    using assms(2) row(1)
    by (auto simp: pg_put_idempotency_def insert_idempotency_def insert_or_ignore_def split: sum.splits if_splits)
  then show ?thesis using row by (simp add: pg_get_idempotency_def result_of_dict_def bad_row_def)
qed

theorem claimed_invocation_unreadable_witness:
  "\<exists>db1. claim_idempotency ''i1'' ''x1'' tenant_a ''mail'' ''f1'' empty_db = Inr (True, db1)
     \<and> (\<exists>e. pg_get_idempotency ''i1'' db1 = Inl e)"
proof -
  obtain db1 where s: "claim_idempotency ''i1'' ''x1'' tenant_a ''mail'' ''f1'' empty_db = Inr (True, db1)"
    by (simp add: claim_idempotency_def empty_db_def)
  have "pg_put_idempotency sample_pg None ''i1'' ''x1'' tenant_a (new_result ''i1'' ''mail'' IS_FAILED) db1 = Inr db1"
    by (simp add: pg_put_idempotency_def assert_context_def tenant_a_normal new_result_def)
  from claimed_invocation_unreadable [OF s this] s show ?thesis by blast
qed

end
