(* ===== verification/Binary64.thy ===== *)
theory Binary64
  imports OIS_Prelude
begin

text \<open>
  Binary64 arithmetic, for the components that compute with floats. A float is the rational it denotes, and
  the result of an operation is rounded to 53 significant bits, ties to even. The values computed here are
  far from the limits of the exponent, so there is no overflow, and no loss of precision near zero. The lemmas
  bound the error of a rounding.
\<close>

function up_shift :: "int \<Rightarrow> int \<Rightarrow> nat" where
  "up_shift a b = (if a \<le> 0 \<or> b \<le> a then 0 else Suc (up_shift (2 * a) b))"
  by pat_completeness auto
termination by (relation "measure (\<lambda>(a, b). nat (b - a))") auto

function down_shift :: "int \<Rightarrow> int \<Rightarrow> nat" where
  "down_shift a b = (if b \<le> 0 \<or> a < 2 * b then 0 else Suc (down_shift a (2 * b)))"
  by pat_completeness auto
termination by (relation "measure (\<lambda>(a, b). nat (a - b))") auto

declare up_shift.simps [simp del] down_shift.simps [simp del]

definition round_half_even :: "int \<Rightarrow> int \<Rightarrow> int" where
  "round_half_even n d =
     (let q = n div d; r = n mod d in if 2 * r < d \<or> 2 * r = d \<and> even q then q else q + 1)"

definition fl_pos :: "int \<Rightarrow> int \<Rightarrow> rat" where
  "fl_pos a b =
     (if b \<le> a
      then (let m = down_shift a b in
            if m \<le> 52 then of_int (round_half_even (a * 2 ^ (52 - m)) b) / of_int (2 ^ (52 - m))
            else of_int (round_half_even a (b * 2 ^ (m - 52)) * 2 ^ (m - 52)))
      else (let j = up_shift a b in of_int (round_half_even (a * 2 ^ (52 + j)) b) / of_int (2 ^ (52 + j))))"

definition fl :: "rat \<Rightarrow> rat" where
  "fl x = (let (n, d) = quotient_of x in if n = 0 then 0 else if n < 0 then - fl_pos (- n) d else fl_pos n d)"

section \<open>The error of a rounding\<close>

definition unit_roundoff :: rat where
  "unit_roundoff = 1 / 2 ^ 53"

lemma unit_roundoff_bounds: "0 < unit_roundoff" "unit_roundoff < 1"
  by (simp_all add: unit_roundoff_def)

lemma round_half_even_int_error:
  assumes "d > 0"
  shows "2 * \<bar>round_half_even n d * d - n\<bar> \<le> d"
proof -
  obtain q r where n: "n = q * d + r" and r: "0 \<le> r" "r < d" and q: "n div d = q" "n mod d = r"
    using assms by (metis div_mult_mod_eq pos_mod_bound pos_mod_sign)
  have "q * d - n = - r" "(q + 1) * d - n = d - r" by (simp_all add: n algebra_simps)
  then show ?thesis using r unfolding round_half_even_def Let_def q by auto
qed

lemma round_half_even_error:
  assumes "d > 0"
  shows "\<bar>of_int (round_half_even n d) - of_int n / of_int d\<bar> \<le> (1 / 2 :: rat)"
proof -
  have "(of_int (2 * \<bar>round_half_even n d * d - n\<bar>) :: rat) \<le> of_int d"
    using round_half_even_int_error [OF assms] by (rule of_int_le_iff [THEN iffD2])
  then have "2 * \<bar>of_int (round_half_even n d) * of_int d - of_int n\<bar> \<le> (of_int d :: rat)" by simp
  moreover have "of_int (round_half_even n d) - of_int n / (of_int d :: rat)
      = (of_int (round_half_even n d) * of_int d - of_int n) / of_int d"
    using assms by (simp add: field_simps)
  ultimately show ?thesis using assms by (simp add: field_simps abs_divide)
qed

lemma down_shift_bounds: "0 < b \<Longrightarrow> b \<le> a \<Longrightarrow> 2 ^ down_shift a b * b \<le> a"
proof (induction a b rule: down_shift.induct)
  case (1 a b)
  then show ?case by (subst down_shift.simps) (auto simp: ac_simps)
qed

lemma up_shift_bounds: "0 < a \<Longrightarrow> b \<le> 2 ^ up_shift a b * a"
proof (induction a b rule: up_shift.induct)
  case (1 a b)
  then show ?case by (subst up_shift.simps) (auto simp: ac_simps)
qed

text \<open>Rounding at the scale \<open>c\<close> is exact to half of \<open>1 / c\<close>, which is small where the value is at least \<open>2 ^ 52 / c\<close>.\<close>

lemma scaled_rounding_error:
  fixes c x :: rat
  assumes c: "c > 0" and r: "\<bar>r - x * c\<bar> \<le> 1 / 2" and x: "2 ^ 52 / c \<le> x"
  shows "\<bar>r / c - x\<bar> \<le> x * unit_roundoff"
proof -
  have "r / c - x = (r - x * c) / c" using c by (simp add: field_simps)
  then have "\<bar>r / c - x\<bar> \<le> (1 / 2) / c"
    using c r by (simp only: abs_divide abs_of_pos divide_right_mono less_imp_le)
  also have "\<dots> = 2 ^ 52 / c * unit_roundoff" by (simp add: unit_roundoff_def)
  also have "\<dots> \<le> x * unit_roundoff" using x unit_roundoff_bounds by (intro mult_right_mono) simp_all
  finally show ?thesis .
qed

lemma fl_pos_error:
  assumes a: "0 < a" and b: "0 < b"
  shows "\<bar>fl_pos a b - of_int a / of_int b\<bar> \<le> of_int a / of_int b * unit_roundoff"
proof (cases "b \<le> a")
  case True
  define m where "m = down_shift a b"
  have "(of_int (2 ^ m * b) :: rat) \<le> of_int a"
    using down_shift_bounds [OF b True] unfolding m_def by (rule of_int_le_iff [THEN iffD2])
  then have x: "2 ^ m \<le> (of_int a / of_int b :: rat)" using b by (simp add: field_simps)
  show ?thesis
  proof (cases "m \<le> 52")
    case True
    have "\<bar>of_int (round_half_even (a * 2 ^ (52 - m)) b) - of_int a / of_int b * 2 ^ (52 - m)\<bar> \<le> (1 / 2 :: rat)"
      using round_half_even_error [OF b, of "a * 2 ^ (52 - m)"] by simp
    moreover have "(2 ^ 52 :: rat) / 2 ^ (52 - m) = 2 ^ m"
      using True by (metis nonzero_mult_div_cancel_right le_add_diff_inverse power_add power_not_zero zero_neq_numeral)
    ultimately show ?thesis
      using scaled_rounding_error [of "2 ^ (52 - m)" "of_int (round_half_even (a * 2 ^ (52 - m)) b)" "of_int a / of_int b"] x True \<open>b \<le> a\<close>
      by (simp add: fl_pos_def Let_def m_def [symmetric])
  next
    case False
    define k where "k = m - 52"
    have m: "m = 52 + k" using False by (simp add: k_def)
    have "\<bar>of_int (round_half_even a (b * 2 ^ k)) - of_int a / of_int b * (1 / 2 ^ k)\<bar> \<le> (1 / 2 :: rat)"
      using round_half_even_error [of "b * 2 ^ k" a] b by simp
    then show ?thesis
      using scaled_rounding_error [of "1 / 2 ^ k" "of_int (round_half_even a (b * 2 ^ k))" "of_int a / of_int b"] x False \<open>b \<le> a\<close>
      by (simp add: fl_pos_def Let_def m_def [symmetric] k_def [symmetric] m power_add)
  qed
next
  case False
  define k where "k = up_shift a b"
  have "(of_int b :: rat) \<le> of_int (2 ^ k * a)"
    using up_shift_bounds [OF a, of b] unfolding k_def by (rule of_int_le_iff [THEN iffD2])
  then have x: "1 / 2 ^ k \<le> (of_int a / of_int b :: rat)" using b by (simp add: field_simps)
  have "\<bar>of_int (round_half_even (a * 2 ^ (52 + k)) b) - of_int a / of_int b * 2 ^ (52 + k)\<bar> \<le> (1 / 2 :: rat)"
    using round_half_even_error [OF b, of "a * 2 ^ (52 + k)"] by simp
  then show ?thesis
    using scaled_rounding_error [of "2 ^ (52 + k)" "of_int (round_half_even (a * 2 ^ (52 + k)) b)" "of_int a / of_int b"] x False
    by (simp add: fl_pos_def Let_def k_def [symmetric] power_add)
qed

lemma fl_error: "\<bar>fl x - x\<bar> \<le> \<bar>x\<bar> * unit_roundoff"
proof -
  obtain n d where q: "quotient_of x = (n, d)" by fastforce
  have d: "0 < d" using quotient_of_denom_pos [OF q] .
  have x: "x = of_int n / of_int d" using quotient_of_div [OF q] .
  consider "n = 0" | "0 < n" | "n < 0" by linarith
  then show ?thesis
  proof cases
    case 1
    then show ?thesis by (simp add: fl_def q x)
  next
    case 2
    then have "fl x = fl_pos n d" by (simp add: fl_def q)
    moreover have "0 < x" using 2 d by (simp add: x)
    ultimately show ?thesis using fl_pos_error [OF 2 d] by (simp only: x abs_of_pos)
  next
    case 3
    have "\<bar>- fl_pos (- n) d - x\<bar> = \<bar>fl_pos (- n) d - of_int (- n) / of_int d\<bar>" by (simp add: x)
    also have "\<dots> \<le> of_int (- n) / of_int d * unit_roundoff" using fl_pos_error [OF _ d, of "- n"] 3 by simp
    also have "\<dots> = \<bar>x\<bar> * unit_roundoff" using 3 d by (simp add: x abs_of_neg divide_neg_pos)
    finally show ?thesis using 3 by (simp add: fl_def q)
  qed
qed

lemma fl_le: "0 \<le> x \<Longrightarrow> fl x \<le> x * (1 + unit_roundoff)"
  using fl_error [of x] by (simp add: abs_le_iff distrib_left)

lemma fl_nonneg: "0 \<le> x \<Longrightarrow> 0 \<le> fl x"
proof -
  assume x: "0 \<le> x"
  have "x - fl x \<le> x * unit_roundoff" using fl_error [of x] x by (simp add: abs_le_iff)
  also have "\<dots> \<le> x" using x unit_roundoff_bounds by (simp add: mult_left_le)
  finally show "0 \<le> fl x" by simp
qed

end
