(* ===== verification/Governance_Engine.thy ===== *)
theory Governance_Engine
  imports Binary64
begin

text \<open>
  \<^verbatim>\<open>ois/governance\<close>: the governance models, the in-memory store, the fail-closed engine
  (\<^verbatim>\<open>engine.py\<close>), the activation gate and the promotion gate. Dictionaries keyed by tuples are
  association lists; \<open>action_counts\<close> is a \<open>defaultdict\<close>, so reading a missing key inserts zero. A float
  is the rational it denotes and its sums are rounded to binary64. Fresh ids, clock readings and the digest of the
  inputs are arguments.
\<close>

section \<open>Models\<close>

record agent_identity =
  ai_agent_id :: string
  ai_tenant_id :: string
  ai_role :: string
  ai_trust_level :: string
  ai_enabled :: bool

record capability_grant =
  cg_capability_id :: string
  cg_tenant_id :: string
  cg_agent_id :: string
  cg_allowed_actions :: "string list"
  cg_expires_at :: "timestamp option"

definition grant_active :: "timestamp \<Rightarrow> capability_grant \<Rightarrow> bool" where
  "grant_active now g \<longleftrightarrow> (case cg_expires_at g of None \<Rightarrow> True | Some t \<Rightarrow> now < t)"

record policy_version =
  pv_policy_id :: string
  pv_version :: string
  pv_tenant_id :: string
  pv_rules :: pydict
  pv_content_hash :: string
  pv_active :: bool

record decision_provenance =
  dp_decision_id :: string
  dp_tenant_id :: string
  dp_workspace_id :: string
  dp_execution_id :: string
  dp_actor_id :: string
  dp_action :: string
  dp_outcome :: string
  dp_policy_id :: "string option"
  dp_policy_version :: "string option"
  dp_capability_id :: "string option"
  dp_inputs_digest :: string
  dp_rationale :: string
  dp_created_at :: timestamp

record audit_event =
  ae_event_id :: string
  ae_tenant_id :: string
  ae_actor_id :: string
  ae_action :: string
  ae_resource :: string
  ae_outcome :: string
  ae_execution_id :: "string option"
  ae_metadata :: pydict
  ae_created_at :: timestamp

record action_budget =
  bu_tenant_id :: string
  bu_budget_id :: string
  bu_max_cost :: rat
  bu_spent_cost :: rat

definition can_spend :: "rat \<Rightarrow> action_budget \<Rightarrow> bool" where
  "can_spend amount b \<longleftrightarrow> 0 \<le> amount \<and> fl (bu_spent_cost b + amount) \<le> bu_max_cost b"

record action_limit =
  al_tenant_id :: string
  al_action :: string
  al_max_count :: int
  al_window_seconds :: int

record compliance_evidence =
  co_evidence_id :: string
  co_tenant_id :: string
  co_control_id :: string
  co_subject :: string
  co_evidence_type :: string
  co_digest :: string
  co_source :: string
  co_created_at :: timestamp

record slo =
  slo_name :: string
  slo_tenant_id :: string
  slo_target :: rat
  slo_metric :: string
  slo_window_seconds :: int

section \<open>The store\<close>

record governance_store =
  gs_agents :: "((string \<times> string) \<times> agent_identity) list"
  gs_grants :: "((string \<times> string \<times> string) \<times> capability_grant) list"
  gs_policies :: "((string \<times> string \<times> string) \<times> policy_version) list"
  gs_decisions :: "decision_provenance list"
  gs_audit :: "audit_event list"
  gs_evidence :: "compliance_evidence list"
  gs_budgets :: "((string \<times> string) \<times> action_budget) list"
  gs_limits :: "((string \<times> string) \<times> action_limit) list"
  gs_counts :: "((string \<times> string) \<times> int) list"
  gs_slos :: "((string \<times> string) \<times> slo) list"

definition new_governance_store :: governance_store where
  "new_governance_store =
     \<lparr>gs_agents = [], gs_grants = [], gs_policies = [], gs_decisions = [], gs_audit = [], gs_evidence = [],
      gs_budgets = [], gs_limits = [], gs_counts = [], gs_slos = []\<rparr>"

definition put_agent :: "agent_identity \<Rightarrow> governance_store \<Rightarrow> py_exn + governance_store" where
  "put_agent a st =
     rbind (check (ai_tenant_id a \<noteq> []) ValueError ''tenant_id is required'') (\<lambda>_.
     Inr (st\<lparr>gs_agents := AList.update (ai_tenant_id a, ai_agent_id a) a (gs_agents st)\<rparr>))"

definition put_grant :: "capability_grant \<Rightarrow> governance_store \<Rightarrow> governance_store" where
  "put_grant g st =
     st\<lparr>gs_grants := AList.update (cg_tenant_id g, cg_agent_id g, cg_capability_id g) g (gs_grants st)\<rparr>"

definition put_policy :: "policy_version \<Rightarrow> governance_store \<Rightarrow> governance_store" where
  "put_policy p st =
     st\<lparr>gs_policies := AList.update (pv_tenant_id p, pv_policy_id p, pv_version p) p (gs_policies st)\<rparr>"

definition put_budget :: "action_budget \<Rightarrow> governance_store \<Rightarrow> py_exn + governance_store" where
  "put_budget b st =
     rbind (check (\<not> bu_max_cost b < 0) ValueError ''max_cost must be non-negative'') (\<lambda>_.
     Inr (st\<lparr>gs_budgets := AList.update (bu_tenant_id b, bu_budget_id b) b (gs_budgets st)\<rparr>))"

definition put_limit :: "action_limit \<Rightarrow> governance_store \<Rightarrow> py_exn + governance_store" where
  "put_limit l st =
     rbind (check (\<not> al_max_count l < 0) ValueError ''max_count must be non-negative'') (\<lambda>_.
     Inr (st\<lparr>gs_limits := AList.update (al_tenant_id l, al_action l) l (gs_limits st)\<rparr>))"

definition record_decision :: "decision_provenance \<Rightarrow> governance_store \<Rightarrow> governance_store" where
  "record_decision d st = st\<lparr>gs_decisions := gs_decisions st @ [d]\<rparr>"

definition record_audit :: "audit_event \<Rightarrow> governance_store \<Rightarrow> governance_store" where
  "record_audit e st = st\<lparr>gs_audit := gs_audit st @ [e]\<rparr>"

definition record_evidence :: "compliance_evidence \<Rightarrow> governance_store \<Rightarrow> governance_store" where
  "record_evidence e st = st\<lparr>gs_evidence := gs_evidence st @ [e]\<rparr>"

definition set_slo :: "slo \<Rightarrow> governance_store \<Rightarrow> py_exn + governance_store" where
  "set_slo s st =
     rbind (check (0 \<le> slo_target s \<and> slo_target s \<le> 1) ValueError ''SLO target must be between 0 and 1'') (\<lambda>_.
     Inr (st\<lparr>gs_slos := AList.update (slo_tenant_id s, slo_name s) s (gs_slos st)\<rparr>))"

definition spend :: "string \<Rightarrow> string \<Rightarrow> rat \<Rightarrow> governance_store \<Rightarrow> py_exn + governance_store" where
  "spend tenant bid amount st =
     (case map_of (gs_budgets st) (tenant, bid) of
        None \<Rightarrow> Inl (Exn KeyError (''budget not found: '' @ bid))
      | Some b \<Rightarrow>
          rbind (check (can_spend amount b) PermissionError ''action budget exceeded'') (\<lambda>_.
          Inr (st\<lparr>gs_budgets := AList.update (tenant, bid) (b\<lparr>bu_spent_cost := fl (bu_spent_cost b + amount)\<rparr>)
                   (gs_budgets st)\<rparr>)))"

text \<open>Reading and incrementing the \<open>defaultdict\<close>.\<close>

definition count_of :: "string \<Rightarrow> string \<Rightarrow> governance_store \<Rightarrow> int" where
  "count_of tenant action st = (case map_of (gs_counts st) (tenant, action) of None \<Rightarrow> 0 | Some n \<Rightarrow> n)"

definition read_count :: "string \<Rightarrow> string \<Rightarrow> governance_store \<Rightarrow> int \<times> governance_store" where
  "read_count tenant action st =
     (case map_of (gs_counts st) (tenant, action) of
        Some n \<Rightarrow> (n, st)
      | None \<Rightarrow> (0, st\<lparr>gs_counts := AList.update (tenant, action) 0 (gs_counts st)\<rparr>))"

definition count_action :: "string \<Rightarrow> string \<Rightarrow> governance_store \<Rightarrow> int \<times> governance_store" where
  "count_action tenant action st =
     (let n = count_of tenant action st + 1
      in (n, st\<lparr>gs_counts := AList.update (tenant, action) n (gs_counts st)\<rparr>))"

section \<open>The engine\<close>

record governance_decision =
  gd_allowed :: bool
  gd_reason :: string
  gd_decision_id :: string

record governance_request =
  gr_tenant_id :: string
  gr_workspace_id :: string
  gr_execution_id :: string
  gr_agent_id :: string
  gr_action :: string
  gr_capability_id :: string
  gr_inputs :: pydict
  gr_estimated_cost :: rat
  gr_policy_id :: "string option"
  gr_policy_version :: "string option"

text \<open>What a call reads from outside: ids, clock and the digest of the inputs' JSON text.\<close>

record governance_env =
  ge_decision_id :: string
  ge_event_id :: string
  ge_grant_now :: timestamp
  ge_decision_now :: timestamp
  ge_audit_now :: timestamp
  ge_sha :: "json_text \<Rightarrow> string"

definition policy_missing :: "governance_request \<Rightarrow> governance_store \<Rightarrow> bool" where
  "policy_missing r st \<longleftrightarrow>
     (case gr_policy_id r of
        None \<Rightarrow> False
      | Some pid \<Rightarrow>
         (case map_of (gs_policies st)
                 (gr_tenant_id r, pid, case gr_policy_version r of None \<Rightarrow> [] | Some v \<Rightarrow> v) of
            None \<Rightarrow> True
          | Some p \<Rightarrow> \<not> pv_active p))"

definition budget_exceeded :: "governance_request \<Rightarrow> governance_store \<Rightarrow> bool" where
  "budget_exceeded r st \<longleftrightarrow>
     (let budgets = map snd (filter (\<lambda>((t, _), _). t = gr_tenant_id r) (gs_budgets st))
      in budgets = [] \<or> \<not> list_ex (can_spend (gr_estimated_cost r)) budgets)"

text \<open>The verdict \<open>(allowed, reason)\<close>; the store changes only by the read of \<open>action_counts\<close>.\<close>

definition limit_verdict ::
  "governance_request \<Rightarrow> bool \<times> string \<Rightarrow> governance_store \<Rightarrow> (bool \<times> string) \<times> governance_store" where
  "limit_verdict r v st =
     (case map_of (gs_limits st) (gr_tenant_id r, gr_action r) of
        None \<Rightarrow> (v, st)
      | Some l \<Rightarrow>
         (let (n, st') = read_count (gr_tenant_id r) (gr_action r) st
          in (if al_max_count l \<le> n then (False, ''autonomous action limit exceeded'') else v, st')))"

definition verdict ::
  "timestamp \<Rightarrow> governance_request \<Rightarrow> governance_store \<Rightarrow> (bool \<times> string) \<times> governance_store" where
  "verdict now r st =
     (case map_of (gs_agents st) (gr_tenant_id r, gr_agent_id r) of
        None \<Rightarrow> ((False, ''agent identity is not active''), st)
      | Some a \<Rightarrow>
         (if \<not> ai_enabled a then ((False, ''agent identity is not active''), st)
          else
            (let v = (if policy_missing r st then (False, ''policy version is missing or inactive'')
                      else (True, ''authorized''))
             in case map_of (gs_grants st) (gr_tenant_id r, gr_agent_id r, gr_capability_id r) of
                  None \<Rightarrow> ((False, ''capability grant is missing or expired''), st)
                | Some g \<Rightarrow>
                   (if \<not> grant_active now g then ((False, ''capability grant is missing or expired''), st)
                    else if cg_allowed_actions g \<noteq> [] \<and> gr_action r \<notin> set (cg_allowed_actions g)
                    then ((False, ''action is not granted''), st)
                    else
                      (let (v', st') = limit_verdict r v st
                       in (if fst v' \<and> gr_estimated_cost r \<noteq> 0 \<and> budget_exceeded r st'
                           then (False, ''action budget exceeded'') else v', st'))))))"

definition provenance_of :: "governance_env \<Rightarrow> governance_request \<Rightarrow> bool \<times> string \<Rightarrow> decision_provenance" where
  "provenance_of ge r v =
     \<lparr>dp_decision_id = ge_decision_id ge, dp_tenant_id = gr_tenant_id r, dp_workspace_id = gr_workspace_id r,
      dp_execution_id = gr_execution_id r, dp_actor_id = gr_agent_id r, dp_action = gr_action r,
      dp_outcome = (if fst v then ''allow'' else ''deny''), dp_policy_id = gr_policy_id r,
      dp_policy_version = gr_policy_version r, dp_capability_id = Some (gr_capability_id r),
      dp_inputs_digest = ge_sha ge (json_dumps (PDict (gr_inputs r))), dp_rationale = snd v,
      dp_created_at = ge_decision_now ge\<rparr>"

definition audit_of :: "governance_env \<Rightarrow> governance_request \<Rightarrow> bool \<times> string \<Rightarrow> audit_event" where
  "audit_of ge r v =
     \<lparr>ae_event_id = ge_event_id ge, ae_tenant_id = gr_tenant_id r, ae_actor_id = gr_agent_id r,
      ae_action = gr_action r, ae_resource = gr_capability_id r,
      ae_outcome = (if fst v then ''allowed'' else ''denied''), ae_execution_id = Some (gr_execution_id r),
      ae_metadata = [(''decision_id'', PStr (ge_decision_id ge)), (''reason'', PStr (snd v))],
      ae_created_at = ge_audit_now ge\<rparr>"

definition gov_authorize ::
  "governance_env \<Rightarrow> governance_request \<Rightarrow> governance_store \<Rightarrow> governance_decision \<times> governance_store" where
  "gov_authorize ge r st =
     (let (v, st1) = verdict (ge_grant_now ge) r st;
          st2 = record_decision (provenance_of ge r v) st1;
          st3 = record_audit (audit_of ge r v) st2;
          st4 = (if fst v then snd (count_action (gr_tenant_id r) (gr_action r) st3) else st3)
      in (\<lparr>gd_allowed = fst v, gd_reason = snd v, gd_decision_id = ge_decision_id ge\<rparr>, st4))"

section \<open>Activation\<close>

datatype activation_state = AS_OFF | AS_SHADOW | AS_CANARY | AS_LIMITED | AS_PRODUCTION | AS_ROLLBACK

fun activation_state_value :: "activation_state \<Rightarrow> string" where
  "activation_state_value AS_OFF = ''OFF''"
| "activation_state_value AS_SHADOW = ''SHADOW''"
| "activation_state_value AS_CANARY = ''CANARY''"
| "activation_state_value AS_LIMITED = ''LIMITED''"
| "activation_state_value AS_PRODUCTION = ''PRODUCTION''"
| "activation_state_value AS_ROLLBACK = ''ROLLBACK''"

record activation_evidence =
  av_implementation_verified :: bool
  av_tests_passed :: bool
  av_integration_verified :: bool
  av_deployment_verified :: bool
  av_production_verified :: bool
  av_policy_authorized :: bool
  av_rollback_ready :: bool

definition can_activate :: "activation_evidence \<Rightarrow> activation_state \<Rightarrow> bool" where
  "can_activate ev target \<longleftrightarrow>
     (if target \<in> {AS_OFF, AS_SHADOW} then True
      else (av_implementation_verified ev \<and> av_tests_passed ev \<and> av_integration_verified ev
            \<and> av_deployment_verified ev \<and> av_policy_authorized ev \<and> av_rollback_ready ev)
           \<and> (target \<notin> {AS_LIMITED, AS_PRODUCTION} \<or> av_production_verified ev))"

definition activation_require :: "activation_evidence \<Rightarrow> activation_state \<Rightarrow> py_exn + unit" where
  "activation_require ev target =
     check (can_activate ev target) ActivationError (''activation gate failed for '' @ activation_state_value target)"

section \<open>Promotion\<close>

datatype evidence_status =
    EV_UNKNOWN | EV_DESIGNED | EV_IMPLEMENTED | EV_TESTED | EV_INTEGRATED | EV_DEPLOYED | EV_ACTIVATED
  | EV_PRODUCTION_VERIFIED

record promotion_evidence =
  pr_implementation :: bool
  pr_tests :: bool
  pr_integration :: bool
  pr_runtime :: bool
  pr_security :: bool
  pr_observability :: bool
  pr_recovery :: bool
  pr_rollback :: bool
  pr_provenance :: "string list"

record promotion_decision =
  pm_status :: evidence_status
  pm_allowed :: bool
  pm_missing :: "string list"
  pm_reason :: string

definition required_evidence :: "(string \<times> (promotion_evidence \<Rightarrow> bool)) list" where
  "required_evidence =
     [(''implementation'', pr_implementation), (''tests'', pr_tests), (''integration'', pr_integration),
      (''runtime'', pr_runtime), (''security'', pr_security), (''observability'', pr_observability),
      (''recovery'', pr_recovery), (''rollback'', pr_rollback)]"

definition promotion_evaluate :: "promotion_evidence \<Rightarrow> promotion_decision" where
  "promotion_evaluate ev =
     (let missing = map fst (filter (\<lambda>(_, f). \<not> f ev) required_evidence)
      in if missing \<noteq> []
         then \<lparr>pm_status = (if pr_integration ev then EV_INTEGRATED else EV_TESTED), pm_allowed = False,
               pm_missing = missing, pm_reason = ''production promotion blocked: required evidence is missing''\<rparr>
         else if pr_provenance ev = []
         then \<lparr>pm_status = EV_INTEGRATED, pm_allowed = False, pm_missing = [''provenance''],
               pm_reason = ''production promotion blocked: evidence provenance is missing''\<rparr>
         else \<lparr>pm_status = EV_PRODUCTION_VERIFIED, pm_allowed = True, pm_missing = [],
               pm_reason = ''all production promotion evidence requirements are satisfied''\<rparr>)"

definition promotion_require :: "promotion_evidence \<Rightarrow> py_exn + promotion_decision" where
  "promotion_require ev =
     (let d = promotion_evaluate ev
      in rbind (check (pm_allowed d) PromotionBlocked (pm_reason d @ '': '' @ py_join '', '' (pm_missing d)))
           (\<lambda>_. Inr d))"

definition verified_from :: "bool list \<Rightarrow> string list \<Rightarrow> py_exn + promotion_evidence" where
  "verified_from checks provenance =
     (case checks of
        [a, b, c, d, e, f, g, h] \<Rightarrow>
          Inr \<lparr>pr_implementation = a, pr_tests = b, pr_integration = c, pr_runtime = d, pr_security = e,
               pr_observability = f, pr_recovery = g, pr_rollback = h, pr_provenance = provenance\<rparr>
      | _ \<Rightarrow> Inl (Exn ValueError (''expected 8 checks, got '' @ nat_str (length checks))))"

end
