(* ===== verification/Governance_Properties.thy ===== *)
theory Governance_Properties
  imports Governance_Engine
begin

text \<open>
  Properties of the governance engine and its gates. \<open>permitted\<close> is the specification of an
  authorization, independent of the order in which the engine looks things up.
\<close>

section \<open>What the engine permits\<close>

definition permitted :: "timestamp \<Rightarrow> governance_request \<Rightarrow> governance_store \<Rightarrow> bool" where
  "permitted now r st \<longleftrightarrow>
     (\<exists>a. map_of (gs_agents st) (gr_tenant_id r, gr_agent_id r) = Some a \<and> ai_enabled a)
     \<and> (\<forall>pid. gr_policy_id r = Some pid \<longrightarrow>
          (\<exists>p. map_of (gs_policies st) (gr_tenant_id r, pid, case gr_policy_version r of None \<Rightarrow> [] | Some v \<Rightarrow> v) = Some p
               \<and> pv_active p))
     \<and> (\<exists>g. map_of (gs_grants st) (gr_tenant_id r, gr_agent_id r, gr_capability_id r) = Some g \<and> grant_active now g
            \<and> (cg_allowed_actions g = [] \<or> gr_action r \<in> set (cg_allowed_actions g)))
     \<and> (\<forall>l. map_of (gs_limits st) (gr_tenant_id r, gr_action r) = Some l \<longrightarrow>
          count_of (gr_tenant_id r) (gr_action r) st < al_max_count l)
     \<and> (gr_estimated_cost r \<noteq> 0 \<longrightarrow>
          (\<exists>k b. (k, b) \<in> set (gs_budgets st) \<and> fst k = gr_tenant_id r \<and> 0 \<le> gr_estimated_cost r
                 \<and> fl (bu_spent_cost b + gr_estimated_cost r) \<le> bu_max_cost b))"

text \<open>Everything but the journals and the counters.\<close>

definition settings :: "governance_store \<Rightarrow>
    ((string \<times> string) \<times> agent_identity) list \<times> ((string \<times> string \<times> string) \<times> capability_grant) list
    \<times> ((string \<times> string \<times> string) \<times> policy_version) list \<times> ((string \<times> string) \<times> action_budget) list
    \<times> ((string \<times> string) \<times> action_limit) list" where
  "settings st = (gs_agents st, gs_grants st, gs_policies st, gs_budgets st, gs_limits st)"

lemma policy_missing_iff:
  "policy_missing r st \<longleftrightarrow> \<not> (\<forall>pid. gr_policy_id r = Some pid \<longrightarrow>
     (\<exists>p. map_of (gs_policies st) (gr_tenant_id r, pid, case gr_policy_version r of None \<Rightarrow> [] | Some v \<Rightarrow> v) = Some p
          \<and> pv_active p))"
  by (auto simp: policy_missing_def split: option.splits)

lemma budget_exceeded_iff:
  "budget_exceeded r st \<longleftrightarrow>
     \<not> (\<exists>k b. (k, b) \<in> set (gs_budgets st) \<and> fst k = gr_tenant_id r \<and> can_spend (gr_estimated_cost r) b)"
  by (force simp: budget_exceeded_def Let_def list_ex_iff filter_empty_conv)

lemma read_count_eq:
  "fst (read_count t a st) = count_of t a st" "count_of t' a' (snd (read_count t a st)) = count_of t' a' st"
  "settings (snd (read_count t a st)) = settings st"
  "gs_decisions (snd (read_count t a st)) = gs_decisions st" "gs_audit (snd (read_count t a st)) = gs_audit st"
  by (auto simp: read_count_def count_of_def settings_def update_conv' split: option.splits)

lemma limit_verdict_frame:
  "count_of t a (snd (limit_verdict r v st)) = count_of t a st"
  "settings (snd (limit_verdict r v st)) = settings st"
  "gs_decisions (snd (limit_verdict r v st)) = gs_decisions st" "gs_audit (snd (limit_verdict r v st)) = gs_audit st"
  by (auto simp: limit_verdict_def Let_def split_def read_count_eq split: option.splits)

lemma limit_verdict_allowed:
  "fst (fst (limit_verdict r v st)) \<longleftrightarrow>
     fst v \<and> (\<forall>l. map_of (gs_limits st) (gr_tenant_id r, gr_action r) = Some l \<longrightarrow>
               count_of (gr_tenant_id r) (gr_action r) st < al_max_count l)"
  by (auto simp: limit_verdict_def split_def read_count_eq split: option.splits)

lemma verdict_frame:
  "count_of t a (snd (verdict now r st)) = count_of t a st" "settings (snd (verdict now r st)) = settings st"
  "gs_decisions (snd (verdict now r st)) = gs_decisions st" "gs_audit (snd (verdict now r st)) = gs_audit st"
  by (auto simp: verdict_def Let_def split_def limit_verdict_frame split: option.splits)

lemma verdict_allowed: "fst (fst (verdict now r st)) \<longleftrightarrow> permitted now r st"
proof -
  have b: "gs_budgets (snd (limit_verdict r v st)) = gs_budgets st" for v
    using limit_verdict_frame(2) [of r v st] by (simp add: settings_def)
  show ?thesis
    unfolding verdict_def permitted_def Let_def split_def
    by (auto simp: b limit_verdict_allowed policy_missing_iff budget_exceeded_iff can_spend_def split: option.splits if_splits)
qed

lemma authorize_counts:
  "gd_allowed (fst (gov_authorize ge r st)) = permitted (ge_grant_now ge) r st"
  "count_of t a (snd (gov_authorize ge r st)) =
     count_of t a st + (if permitted (ge_grant_now ge) r st \<and> (t, a) = (gr_tenant_id r, gr_action r) then 1 else 0)"
  "settings (snd (gov_authorize ge r st)) = settings st"
proof -
  show "gd_allowed (fst (gov_authorize ge r st)) = permitted (ge_grant_now ge) r st"
    by (simp add: gov_authorize_def Let_def split_def verdict_allowed)
  show "count_of t a (snd (gov_authorize ge r st)) =
      count_of t a st + (if permitted (ge_grant_now ge) r st \<and> (t, a) = (gr_tenant_id r, gr_action r) then 1 else 0)"
    using verdict_frame(1) [of t a "ge_grant_now ge" r st] verdict_frame(1) [of "gr_tenant_id r" "gr_action r"]
    by (simp add: gov_authorize_def Let_def split_def verdict_allowed count_action_def record_decision_def record_audit_def
        count_of_def update_conv')
  show "settings (snd (gov_authorize ge r st)) = settings st"
    using verdict_frame(2) [of "ge_grant_now ge" r st]
    by (simp add: gov_authorize_def Let_def split_def count_action_def record_decision_def record_audit_def settings_def)
qed

lemma authorize_journals:
  "gs_decisions (snd (gov_authorize ge r st)) = gs_decisions st @
     [provenance_of ge r (permitted (ge_grant_now ge) r st, gd_reason (fst (gov_authorize ge r st)))]"
  "gs_audit (snd (gov_authorize ge r st)) = gs_audit st @
     [audit_of ge r (permitted (ge_grant_now ge) r st, gd_reason (fst (gov_authorize ge r st)))]"
  using verdict_allowed [of "ge_grant_now ge" r st, symmetric]
  by (simp_all add: gov_authorize_def Let_def split_def count_action_def record_decision_def record_audit_def verdict_frame)

text \<open>
  C17. The governance engine is exact and leaves a trace: an autonomous action is allowed if and only
  if the agent is enabled, a named policy version is active, the capability grant is current and
  covers the action, the action's counter is below its limit if it has one, and a cost, if there is one, fits into one of
  the tenant's budgets (an action for which no limit is stored is not limited); every call appends exactly one decision record
  (outcome \<open>allow\<close> or \<open>deny\<close>) and one audit event (\<open>allowed\<close> or \<open>denied\<close>) with that outcome, each with the
  tenant, agent, action, capability and execution of the request and the reason returned to the caller; it increments
  that action's counter only when it allowed it, and changes no identity, grant, policy, limit or budget.
\<close>

theorem authorize_is_exact:
  "gd_allowed (fst (gov_authorize ge r st)) = permitted (ge_grant_now ge) r st
   \<and> gd_decision_id (fst (gov_authorize ge r st)) = ge_decision_id ge
   \<and> gs_decisions (snd (gov_authorize ge r st)) = gs_decisions st @
       [\<lparr>dp_decision_id = ge_decision_id ge, dp_tenant_id = gr_tenant_id r, dp_workspace_id = gr_workspace_id r,
         dp_execution_id = gr_execution_id r, dp_actor_id = gr_agent_id r, dp_action = gr_action r,
         dp_outcome = (if permitted (ge_grant_now ge) r st then ''allow'' else ''deny''), dp_policy_id = gr_policy_id r,
         dp_policy_version = gr_policy_version r, dp_capability_id = Some (gr_capability_id r),
         dp_inputs_digest = ge_sha ge (json_dumps (PDict (gr_inputs r))),
         dp_rationale = gd_reason (fst (gov_authorize ge r st)), dp_created_at = ge_decision_now ge\<rparr>]
   \<and> gs_audit (snd (gov_authorize ge r st)) = gs_audit st @
       [\<lparr>ae_event_id = ge_event_id ge, ae_tenant_id = gr_tenant_id r, ae_actor_id = gr_agent_id r,
         ae_action = gr_action r, ae_resource = gr_capability_id r,
         ae_outcome = (if permitted (ge_grant_now ge) r st then ''allowed'' else ''denied''),
         ae_execution_id = Some (gr_execution_id r),
         ae_metadata = [(''decision_id'', PStr (ge_decision_id ge)), (''reason'', PStr (gd_reason (fst (gov_authorize ge r st))))],
         ae_created_at = ge_audit_now ge\<rparr>]
   \<and> count_of t a (snd (gov_authorize ge r st)) =
       count_of t a st + (if permitted (ge_grant_now ge) r st \<and> (t, a) = (gr_tenant_id r, gr_action r) then 1 else 0)
   \<and> settings (snd (gov_authorize ge r st)) = settings st"
  using authorize_counts [where ge = ge and r = r and st = st] authorize_journals [of ge r st]
  by (simp add: provenance_of_def audit_of_def) (simp add: gov_authorize_def Let_def split_def)

section \<open>Sequences of calls\<close>

text \<open>A call with its decision.\<close>

definition gov_step ::
  "governance_store \<Rightarrow> governance_env \<times> governance_request \<times> governance_decision \<Rightarrow> governance_store \<Rightarrow> bool" where
  "gov_step st x st' \<longleftrightarrow> gov_authorize (fst x) (fst (snd x)) st = (snd (snd x), st')"

definition allowed_for :: "string \<Rightarrow> string \<Rightarrow> governance_env \<times> governance_request \<times> governance_decision \<Rightarrow> bool" where
  "allowed_for t a x \<longleftrightarrow>
     gd_allowed (snd (snd x)) \<and> gr_tenant_id (fst (snd x)) = t \<and> gr_action (fst (snd x)) = a"

lemma gov_step_counts:
  assumes "gov_step st x st'"
  shows "count_of t a st' = count_of t a st + (if allowed_for t a x then 1 else 0) \<and> settings st' = settings st"
    and "map_of (gs_limits st) (t, a) = Some l \<Longrightarrow> allowed_for t a x \<Longrightarrow> count_of t a st < al_max_count l"
proof -
  obtain ge r d where x: "x = (ge, r, d)" by (cases x) auto
  have g: "gov_authorize ge r st = (d, st')" using assms by (simp add: gov_step_def x)
  have d: "gd_allowed d = permitted (ge_grant_now ge) r st"
    using authorize_counts(1) [of ge r st] by (simp add: g)
  show "count_of t a st' = count_of t a st + (if allowed_for t a x then 1 else 0) \<and> settings st' = settings st"
    using authorize_counts(2,3) [where ge = ge and r = r and st = st] d by (auto simp: g x allowed_for_def)
  show "count_of t a st < al_max_count l"
    if "map_of (gs_limits st) (t, a) = Some l" "allowed_for t a x"
    using that d by (auto simp: x allowed_for_def permitted_def)
qed

lemma gov_run_counts:
  assumes "run_of gov_step st xs st'" and "map_of (gs_limits st) (t, a) = Some l" and "count_of t a st \<le> al_max_count l"
  shows "count_of t a st' = count_of t a st + int (length (filter (allowed_for t a) xs)) \<and> count_of t a st' \<le> al_max_count l"
  using assms
proof (induction rule: run_of.induct)
  case (run_nil st)
  then show ?case by simp
next
  case (run_cons st x st1 xs st2)
  note c = gov_step_counts(1) [OF run_cons.hyps(1), of t a]
  have "map_of (gs_limits st1) (t, a) = Some l" using c run_cons.prems(1) by (simp add: settings_def)
  moreover have "count_of t a st1 \<le> al_max_count l"
    using c run_cons.prems gov_step_counts(2) [OF run_cons.hyps(1) run_cons.prems(1)] by (auto split: if_splits)
  ultimately show ?case using run_cons.IH c by simp
qed

text \<open>
  C9. An action limit holds over any sequence of authorizations, of whatever agents, tenants and
  actions: the counter of a limited action grows by exactly the number of calls allowed for it and never passes
  the limit, so no more calls are allowed than the limit leaves. (The limit's time window plays no part: the counter is never reset.)
\<close>

theorem action_limit_holds:
  assumes "run_of gov_step st xs st'" and "map_of (gs_limits st) (t, a) = Some l" and "count_of t a st \<le> al_max_count l"
  shows "count_of t a st' = count_of t a st + int (length (filter (allowed_for t a) xs))
    \<and> count_of t a st' \<le> al_max_count l"
  using gov_run_counts [OF assms] .

definition sample_limit :: action_limit where
  "sample_limit = \<lparr>al_tenant_id = ''acme'', al_action = ''post'', al_max_count = 1, al_window_seconds = 3600\<rparr>"

definition sample_gov :: governance_store where
  "sample_gov = new_governance_store\<lparr>
     gs_agents := [((''acme'', ''bot''), \<lparr>ai_agent_id = ''bot'', ai_tenant_id = ''acme'', ai_role = ''r'', ai_trust_level = ''standard'', ai_enabled = True\<rparr>)],
     gs_grants := [((''acme'', ''bot'', ''social''), \<lparr>cg_capability_id = ''social'', cg_tenant_id = ''acme'', cg_agent_id = ''bot'',
                      cg_allowed_actions = [''post''], cg_expires_at = Some 100\<rparr>)],
     gs_limits := [((''acme'', ''post''), sample_limit)]\<rparr>"

definition sample_gov_request :: governance_request where
  "sample_gov_request =
     \<lparr>gr_tenant_id = ''acme'', gr_workspace_id = ''w'', gr_execution_id = ''x'', gr_agent_id = ''bot'', gr_action = ''post'',
      gr_capability_id = ''social'', gr_inputs = [], gr_estimated_cost = 0, gr_policy_id = None, gr_policy_version = None\<rparr>"

definition sample_gov_env :: governance_env where
  "sample_gov_env = \<lparr>ge_decision_id = ''d1'', ge_event_id = ''e1'', ge_grant_now = 5, ge_decision_now = 5, ge_audit_now = 5,
                    ge_sha = (\<lambda>_. ''digest'')\<rparr>"

theorem action_limit_holds_witness:
  "\<exists>d1 d2 st1 st2. gov_authorize sample_gov_env sample_gov_request sample_gov = (d1, st1)
     \<and> gov_authorize sample_gov_env sample_gov_request st1 = (d2, st2)
     \<and> gd_allowed d1 \<and> \<not> gd_allowed d2 \<and> count_of ''acme'' ''post'' st2 = 1"
proof -
  obtain d1 st1 where s1: "gov_authorize sample_gov_env sample_gov_request sample_gov = (d1, st1)" by fastforce
  obtain d2 st2 where s2: "gov_authorize sample_gov_env sample_gov_request st1 = (d2, st2)" by fastforce
  have "run_of gov_step sample_gov
      [(sample_gov_env, sample_gov_request, d1), (sample_gov_env, sample_gov_request, d2)] st2"
    using s1 s2 by (auto simp: run_of_Cons run_of_Nil gov_step_def)
  note holds = action_limit_holds [OF this, of "''acme''" "''post''" sample_limit]
  have "gd_allowed (fst (gov_authorize sample_gov_env sample_gov_request sample_gov))" by code_simp
  then show ?thesis
    using holds s1 s2
    by (auto simp: sample_gov_def new_governance_store_def count_of_def sample_limit_def allowed_for_def sample_gov_request_def
        split: if_splits)
qed

section \<open>Budgets\<close>

definition spent_of :: "string \<times> string \<Rightarrow> governance_store \<Rightarrow> rat" where
  "spent_of k st = (case map_of (gs_budgets st) k of None \<Rightarrow> 0 | Some b \<Rightarrow> bu_spent_cost b)"

text \<open>A spend call with whether it succeeded; a refused call changes nothing.\<close>

definition spend_step :: "governance_store \<Rightarrow> (string \<times> string) \<times> rat \<times> bool \<Rightarrow> governance_store \<Rightarrow> bool" where
  "spend_step st x st' \<longleftrightarrow>
     (case spend (fst (fst x)) (snd (fst x)) (fst (snd x)) st of
        Inl _ \<Rightarrow> \<not> snd (snd x) \<and> st' = st
      | Inr s \<Rightarrow> snd (snd x) \<and> st' = s)"

text \<open>The amount a budget has spent after a call: a granted amount is added and the sum rounded.\<close>

definition spent_in :: "string \<times> string \<Rightarrow> (string \<times> string) \<times> rat \<times> bool \<Rightarrow> rat \<Rightarrow> rat" where
  "spent_in k x s = (if fst x = k \<and> snd (snd x) then fl (s + fst (snd x)) else s)"

lemma spend_step_budget:
  assumes "spend_step st x st'" and "map_of (gs_budgets st) k = Some b"
  shows "\<exists>b'. map_of (gs_budgets st') k = Some b' \<and> bu_max_cost b' = bu_max_cost b
            \<and> bu_spent_cost b' = spent_in k x (bu_spent_cost b)
            \<and> (bu_spent_cost b \<le> bu_max_cost b \<longrightarrow> bu_spent_cost b' \<le> bu_max_cost b)"
  using assms
  by (cases x)
    (auto simp: spend_step_def spend_def spent_in_def check_def can_spend_def update_conv' split: option.splits sum.splits if_splits)

text \<open>
  A budget is never overspent: through any sequence of spend calls, granted or refused, what a
  budget has spent is what it had spent with the granted amounts added one by one, in binary64, and stays within
  its maximum.
\<close>

theorem budget_holds:
  assumes "run_of spend_step st xs st'" and "map_of (gs_budgets st) k = Some b" and "bu_spent_cost b \<le> bu_max_cost b"
  shows "\<exists>b'. map_of (gs_budgets st') k = Some b' \<and> bu_max_cost b' = bu_max_cost b
            \<and> bu_spent_cost b' = fold (spent_in k) xs (bu_spent_cost b) \<and> bu_spent_cost b' \<le> bu_max_cost b'"
  using assms
proof (induction arbitrary: b rule: run_of.induct)
  case (run_nil st)
  then show ?case by simp
next
  case (run_cons st x st1 xs st2)
  obtain b1 where b1: "map_of (gs_budgets st1) k = Some b1" "bu_max_cost b1 = bu_max_cost b"
      "bu_spent_cost b1 = spent_in k x (bu_spent_cost b)" "bu_spent_cost b1 \<le> bu_max_cost b1"
    using spend_step_budget [OF run_cons.hyps(1) run_cons.prems(1)] run_cons.prems(2) by auto
  with run_cons.IH [OF b1(1,4)] show ?case by auto
qed

theorem budget_holds_witness:
  "\<exists>st'. run_of spend_step
       (new_governance_store\<lparr>gs_budgets := [((''acme'', ''b''), \<lparr>bu_tenant_id = ''acme'', bu_budget_id = ''b'', bu_max_cost = 10, bu_spent_cost = 0\<rparr>)]\<rparr>)
       [((''acme'', ''b''), 7, True), ((''acme'', ''b''), 4, False)] st'
     \<and> (\<exists>b'. map_of (gs_budgets st') (''acme'', ''b'') = Some b' \<and> bu_spent_cost b' = 7)"
proof -
  define b where "b = \<lparr>bu_tenant_id = ''acme'', bu_budget_id = ''b'', bu_max_cost = 10, bu_spent_cost = 0 :: rat\<rparr>"
  define st where "st = new_governance_store\<lparr>gs_budgets := [((''acme'', ''b''), b)]\<rparr>"
  define st1 where "st1 = st\<lparr>gs_budgets := [((''acme'', ''b''), b\<lparr>bu_spent_cost := 7\<rparr>)]\<rparr>"
  have rounded: "fl (7 :: rat) = 7" "fl (11 :: rat) = 11" by code_simp+
  have run: "run_of spend_step st [((''acme'', ''b''), 7, True), ((''acme'', ''b''), 4, False)] st1"
    using rounded by (simp add: run_of_Cons run_of_Nil spend_step_def spend_def check_def can_spend_def st_def st1_def b_def)
  from budget_holds [OF run, of "(''acme'', ''b'')" b] run show ?thesis
    using rounded unfolding st_def b_def by (auto simp: spent_in_def)
qed

text \<open>
  Promotion needs all the evidence: the evidence assembled from a list of checks exists only for exactly
  eight of them; the promotion gate then refuses exactly when one of the eight failed or no provenance is
  given, and what it reports as missing is exactly the names of the failed checks, in order, or the
  provenance when nothing else is.
\<close>

theorem promotion_needs_all:
  assumes "verified_from cs prov = Inr ev"
  shows "length cs = 8
    \<and> (isl (promotion_require ev) \<longleftrightarrow> False \<in> set cs \<or> prov = [])
    \<and> pm_missing (promotion_evaluate ev) =
        (if False \<in> set cs then map fst (filter (\<lambda>(n, ok). \<not> ok) (zip (map fst required_evidence) cs))
         else if prov = [] then [''provenance''] else [])"
proof -
  obtain a b c d e f g h where cs: "cs = [a, b, c, d, e, f, g, h]"
    and ev: "ev = \<lparr>pr_implementation = a, pr_tests = b, pr_integration = c, pr_runtime = d, pr_security = e,
               pr_observability = f, pr_recovery = g, pr_rollback = h, pr_provenance = prov\<rparr>"
    using assms by (auto simp: verified_from_def split: list.splits)
  have all: "(map fst (filter (\<lambda>(_, f). \<not> f ev) required_evidence) = []) \<longleftrightarrow> False \<notin> set cs"
    by (simp add: ev cs required_evidence_def)
  have names: "map fst (filter (\<lambda>(_, f). \<not> f ev) required_evidence)
      = map fst (filter (\<lambda>(n, ok). \<not> ok) (zip (map fst required_evidence) cs))"
    by (simp add: ev cs required_evidence_def)
  have prov: "pr_provenance ev = prov" by (simp add: ev)
  have "isl (promotion_require ev) \<longleftrightarrow> \<not> pm_allowed (promotion_evaluate ev)"
    by (simp add: promotion_require_def Let_def check_def)
  moreover have "pm_allowed (promotion_evaluate ev) \<longleftrightarrow> False \<notin> set cs \<and> prov \<noteq> []"
    using all by (simp add: promotion_evaluate_def Let_def prov)
  moreover have "length cs = 8" by (simp add: cs)
  ultimately show ?thesis
    using all names by (simp add: promotion_evaluate_def Let_def prov)
qed

theorem promotion_needs_all_witness:
  "\<exists>ev. verified_from [True, True, False, True, True, True, True, False] [''ci''] = Inr ev
        \<and> isl (promotion_require ev) \<and> pm_missing (promotion_evaluate ev) = [''integration'', ''rollback'']"
proof -
  obtain ev where ev: "verified_from [True, True, False, True, True, True, True, False] [''ci''] = Inr ev"
    by (simp add: verified_from_def)
  from promotion_needs_all [OF ev] ev show ?thesis by (simp add: required_evidence_def)
qed

end
