(* ===== verification/Autonomy_Loop.thy ===== *)
theory Autonomy_Loop
  imports Kernel_Types
begin

text \<open>
  \<^verbatim>\<open>ois/autonomy\<close>: events and routes (\<^verbatim>\<open>events.py\<close>), workflows (\<^verbatim>\<open>workflows.py\<close>), the automation
  policy (\<^verbatim>\<open>policy.py\<close>), failure recovery (\<^verbatim>\<open>recovery.py\<close>), approvals (\<^verbatim>\<open>approvals.py\<close>) and the
  bounded loop (\<^verbatim>\<open>loops.py\<close>).

  A workflow's action is code of the caller: a function of the event and of the moment at which it is
  called, which returns a value or raises. \<open>aw_calls\<close> is the trace of such calls. The methods of the
  stores hold their lock, so each is one step. \<open>utc now\<close> and \<open>uuid4\<close> read the environment at a tick.
\<close>

section \<open>Events and workflows\<close>

record event_envelope =
  en_event_id :: string
  en_tenant_id :: string
  en_workspace_id :: string
  en_event_type :: string
  en_aggregate_id :: string
  en_payload :: pydict
  en_created_at :: timestamp
  en_source_id :: pyval
  en_correlation_id :: "string option"

text \<open>\<open>source_id\<close> may be any value of the payload, so a scope is compared with \<open>==\<close>.\<close>

definition source_in_scope :: "string option \<Rightarrow> event_envelope \<Rightarrow> bool" where
  "source_in_scope s ev \<longleftrightarrow> (case s of None \<Rightarrow> True | Some x \<Rightarrow> py_eq (PStr x) (en_source_id ev))"

record 'h event_route =
  er_route_id :: string
  er_event_type :: string
  er_handler :: 'h
  er_source_id :: "string option"

definition router_register ::
  "'h event_route \<Rightarrow> (string \<times> 'h event_route) list \<Rightarrow> py_exn + (string \<times> 'h event_route) list" where
  "router_register r rs =
     rbind (check (er_route_id r \<noteq> [] \<and> er_event_type r \<noteq> []) ValueError ''route_id and event_type are required'') (\<lambda>_.
     rbind (check (map_of rs (er_route_id r) = None) ValueError (''event route already registered: '' @ er_route_id r)) (\<lambda>_.
     Inr (rs @ [(er_route_id r, r)])))"

definition route_matches :: "event_envelope \<Rightarrow> 'h event_route \<Rightarrow> bool" where
  "route_matches ev r \<longleftrightarrow> er_event_type r = en_event_type ev \<and> source_in_scope (er_source_id r) ev"

fun route_event ::
  "('h \<Rightarrow> event_envelope \<Rightarrow> ('s, 'a) em) \<Rightarrow> event_envelope \<Rightarrow> 'h event_route list \<Rightarrow> ('s, 'a list) em" where
  "route_event handle ev [] = eret []"
| "route_event handle ev (r # rs) =
     (if \<not> route_matches ev r then route_event handle ev rs
      else ebind (handle (er_handler r) ev) (\<lambda>x. ebind (route_event handle ev rs) (\<lambda>xs. eret (x # xs))))"

datatype workflow_status = WS_ENABLED | WS_PAUSED | WS_DISABLED

record workflow_trigger =
  tr_event_type :: string
  tr_source_id :: "string option"
  tr_conditions :: pydict

definition trigger_matches :: "workflow_trigger \<Rightarrow> event_envelope \<Rightarrow> bool" where
  "trigger_matches tr ev \<longleftrightarrow>
     en_event_type ev = tr_event_type tr \<and> source_in_scope (tr_source_id tr) ev
     \<and> list_all (\<lambda>(k, v). py_eq (case map_of (en_payload ev) k of None \<Rightarrow> PNone | Some x \<Rightarrow> x) v) (tr_conditions tr)"

type_synonym workflow_action = "event_envelope \<Rightarrow> nat \<Rightarrow> py_exn + pyval"

record source_workflow =
  sw_workflow_id :: string
  sw_version :: string
  sw_tenant_id :: string
  sw_workspace_id :: string
  sw_trigger :: workflow_trigger
  sw_action :: workflow_action
  sw_status :: workflow_status
  sw_metadata :: pydict

definition workflow_matches :: "source_workflow \<Rightarrow> event_envelope \<Rightarrow> bool" where
  "workflow_matches wfl ev \<longleftrightarrow>
     sw_status wfl = WS_ENABLED \<and> en_tenant_id ev = sw_tenant_id wfl \<and> en_workspace_id ev = sw_workspace_id wfl
     \<and> trigger_matches (sw_trigger wfl) ev"

record workflow_run =
  wr_run_id :: string
  wr_workflow_id :: string
  wr_workflow_version :: string
  wr_event_id :: string
  wr_status :: string
  wr_result :: pyval
  wr_error :: "pydict option"

definition run_success :: "string \<Rightarrow> source_workflow \<Rightarrow> event_envelope \<Rightarrow> pyval \<Rightarrow> workflow_run" where
  "run_success rid wfl ev v =
     \<lparr>wr_run_id = rid, wr_workflow_id = sw_workflow_id wfl, wr_workflow_version = sw_version wfl,
      wr_event_id = en_event_id ev, wr_status = ''completed'', wr_result = v, wr_error = None\<rparr>"

definition run_failure :: "string \<Rightarrow> source_workflow \<Rightarrow> event_envelope \<Rightarrow> py_exn \<Rightarrow> workflow_run" where
  "run_failure rid wfl ev e =
     \<lparr>wr_run_id = rid, wr_workflow_id = sw_workflow_id wfl, wr_workflow_version = sw_version wfl,
      wr_event_id = en_event_id ev, wr_status = ''failed'', wr_result = PNone,
      wr_error = Some [(''type'', PStr (exn_name (exn_class e))), (''message'', PStr (exn_str e))]\<rparr>"

section \<open>The automation policy\<close>

datatype policy_outcome = PO_ALLOW | PO_DENY | PO_APPROVAL_REQUIRED

record policy_rule =
  rl_rule_id :: string
  rl_event_type :: "string option"
  rl_maximum_risk :: risk_level
  rl_allow_side_effects :: bool
  rl_required_tags :: "string list"

definition ctx_get :: "pydict \<Rightarrow> string \<Rightarrow> pyval \<Rightarrow> pyval" where
  "ctx_get c k d = (case map_of c k of None \<Rightarrow> d | Some v \<Rightarrow> v)"

text \<open>\<open>RiskLevel(str(v))\<close>: only the string of a level is one.\<close>

definition risk_of :: "pydict \<Rightarrow> py_exn + risk_level" where
  "risk_of c =
     (case ctx_get c ''risk_level'' (PStr (risk_level_value RL_LOW)) of
        PStr s \<Rightarrow>
          (case risk_level_of s of
             Some r \<Rightarrow> Inr r
           | None \<Rightarrow> Inl (Exn ValueError (py_repr_str s @ '' is not a valid RiskLevel'')))
      | _ \<Rightarrow> Inl (Exn ValueError ''not a valid RiskLevel''))"

definition wants_approval :: "pydict \<Rightarrow> bool" where
  "wants_approval c \<longleftrightarrow> py_truthy (ctx_get c ''requires_approval'' (PBool False))"

definition effect_free :: "pydict \<Rightarrow> bool" where
  "effect_free c \<longleftrightarrow>
     (let v = ctx_get c ''side_effects'' PNone
      in v = PNone \<or> py_eq v (PStr (side_effect_level_value SE_NONE)))"

fun tag_strings :: "pyval \<Rightarrow> string list" where
  "tag_strings (PList vs) = concat (map (\<lambda>v. case v of PStr s \<Rightarrow> [s] | _ \<Rightarrow> []) vs)"
| "tag_strings (PTuple vs) = concat (map (\<lambda>v. case v of PStr s \<Rightarrow> [s] | _ \<Rightarrow> []) vs)"
| "tag_strings _ = []"

definition rule_evaluate :: "policy_rule \<Rightarrow> pydict \<Rightarrow> py_exn + bool \<times> string" where
  "rule_evaluate r c =
     (if (case rl_event_type r of None \<Rightarrow> False | Some t \<Rightarrow> \<not> py_eq (ctx_get c ''event_type'' PNone) (PStr t))
      then Inr (False, ''event type does not match'')
      else rbind (risk_of c) (\<lambda>risk. Inr
        (if risk_order (rl_maximum_risk r) < risk_order risk \<and> \<not> wants_approval c
         then (False, ''risk exceeds automation policy'')
         else if \<not> effect_free c \<and> \<not> rl_allow_side_effects r
         then (False, ''side effects are not permitted by automation policy'')
         else if \<not> set (rl_required_tags r) \<subseteq> set (tag_strings (ctx_get c ''tags'' (PTuple [])))
         then (False, ''required policy tags are missing'')
         else (True, ''rule matched''))))"

record policy_evaluation =
  pe_outcome :: policy_outcome
  pe_rule_id :: "string option"
  pe_reason :: string
  pe_requires_approval :: bool

fun automation_evaluate :: "policy_rule list \<Rightarrow> pydict \<Rightarrow> py_exn + policy_evaluation" where
  "automation_evaluate [] c =
     Inr \<lparr>pe_outcome = PO_DENY, pe_rule_id = None, pe_reason = ''no automation policy rule matched'',
          pe_requires_approval = False\<rparr>"
| "automation_evaluate (r # rs) c =
     rbind (rule_evaluate r c) (\<lambda>(matched, reason).
       if matched
       then Inr \<lparr>pe_outcome = (if wants_approval c then PO_APPROVAL_REQUIRED else PO_ALLOW),
                 pe_rule_id = Some (rl_rule_id r), pe_reason = reason, pe_requires_approval = wants_approval c\<rparr>
       else automation_evaluate rs c)"

section \<open>Failure recovery\<close>

datatype recovery_action = RA_RETRY | RA_PAUSE | RA_REPLAN | RA_ESCALATE | RA_STOP

record recovery_record =
  rr_workflow_id :: string
  rr_event_id :: string
  rr_attempt :: int
  rr_action :: recovery_action
  rr_reason :: string

definition mk_failure_recovery :: "int \<Rightarrow> py_exn + int" where
  "mk_failure_recovery max_retries =
     rbind (check (\<not> max_retries < 0) ValueError ''max_retries must be >= 0'') (\<lambda>_. Inr max_retries)"

definition recovery_decide :: "int \<Rightarrow> int \<Rightarrow> string \<Rightarrow> bool \<Rightarrow> py_exn + recovery_record" where
  "recovery_decide max_retries attempt failure safe_to_retry =
     rbind (check (\<not> attempt < 1) ValueError ''attempt must be positive'') (\<lambda>_. Inr
       \<lparr>rr_workflow_id = [], rr_event_id = [], rr_attempt = attempt,
        rr_action =
          (if failure = ''safety'' then RA_STOP
           else if failure \<in> {''permission'', ''approval''} then RA_ESCALATE
           else if failure = ''plan'' then RA_REPLAN
           else if failure \<in> {''transient'', ''timeout''} \<and> safe_to_retry \<and> attempt \<le> max_retries then RA_RETRY
           else if failure = ''state'' then RA_PAUSE
           else RA_ESCALATE),
        rr_reason = ''recovery decision for '' @ failure\<rparr>)"

section \<open>Approvals\<close>

datatype approval_decision = AD_PENDING | AD_APPROVED | AD_REJECTED | AD_EXPIRED

record approval_request =
  ap_approval_id :: string
  ap_tenant_id :: string
  ap_workspace_id :: string
  ap_workflow_id :: string
  ap_event_id :: string
  ap_reason :: string
  ap_created_at :: timestamp
  ap_expires_at :: timestamp
  ap_event :: "event_envelope option"
  ap_decision :: approval_decision
  ap_decided_by :: "string option"
  ap_decided_at :: "timestamp option"

type_synonym approval_store = "(string \<times> approval_request) list"

definition approval_create :: "approval_request \<Rightarrow> approval_store \<Rightarrow> py_exn + approval_store" where
  "approval_create q st =
     rbind (check (map_of st (ap_approval_id q) = None) ValueError ''approval already exists'') (\<lambda>_.
     Inr (st @ [(ap_approval_id q, q)]))"

definition approval_get :: "string \<Rightarrow> approval_store \<Rightarrow> approval_request option" where
  "approval_get aid st = map_of st aid"

text \<open>\<open>now1\<close> and \<open>now2\<close> are the two readings of the clock. An expired request is marked, then the call raises.\<close>

definition approval_decide ::
  "timestamp \<Rightarrow> timestamp \<Rightarrow> string \<Rightarrow> approval_decision \<Rightarrow> string \<Rightarrow> approval_store \<Rightarrow>
     (py_exn + approval_request) \<times> approval_store" where
  "approval_decide now1 now2 aid d actor st =
     (case map_of st aid of
        None \<Rightarrow> (Inl (Exn KeyError ''approval not found''), st)
      | Some cur \<Rightarrow>
         (if ap_decision cur \<noteq> AD_PENDING then (Inl (Exn ValueError ''approval is already decided''), st)
          else if ap_expires_at cur \<le> now1
          then (Inl (Exn ValueError ''approval has expired''), AList.update aid (cur\<lparr>ap_decision := AD_EXPIRED\<rparr>) st)
          else (let q = cur\<lparr>ap_decision := d, ap_decided_by := Some actor, ap_decided_at := Some now2\<rparr>
                in (Inr q, AList.update aid q st))))"

definition list_pending :: "string \<Rightarrow> string \<Rightarrow> approval_store \<Rightarrow> approval_request list" where
  "list_pending tenant workspace st =
     filter (\<lambda>q. ap_tenant_id q = tenant \<and> ap_workspace_id q = workspace \<and> ap_decision q = AD_PENDING) (map snd st)"

definition mk_approval_gate :: "int \<Rightarrow> py_exn + int" where
  "mk_approval_gate ttl = rbind (check (0 < ttl) ValueError ''ttl_seconds must be positive'') (\<lambda>_. Inr ttl)"

definition gate_request ::
  "int \<Rightarrow> timestamp \<Rightarrow> uuid \<Rightarrow> string \<Rightarrow> string \<Rightarrow> string \<Rightarrow> string \<Rightarrow> event_envelope option \<Rightarrow> string \<Rightarrow> approval_store \<Rightarrow>
     py_exn + approval_request \<times> approval_store" where
  "gate_request ttl now aid tenant workspace wid eid ev reason st =
     (let q = \<lparr>ap_approval_id = aid, ap_tenant_id = tenant, ap_workspace_id = workspace, ap_workflow_id = wid,
               ap_event_id = eid, ap_reason = reason, ap_created_at = now,
               ap_expires_at = now - now mod 1000000 + ttl * 1000000, ap_event = ev, ap_decision = AD_PENDING,
               ap_decided_by = None, ap_decided_at = None\<rparr>
      in rbind (approval_create q st) (\<lambda>st'. Inr (q, st')))"

section \<open>The loop\<close>

datatype loop_state = LS_IDLE | LS_RUNNING | LS_WAITING_APPROVAL | LS_RECOVERING | LS_STOPPED

record loop_decision =
  ld_state :: loop_state
  ld_workflow_run :: "workflow_run option"
  ld_approval_id :: "string option"
  ld_reason :: string

definition loop_decided :: "loop_state \<Rightarrow> workflow_run option \<Rightarrow> string option \<Rightarrow> string \<Rightarrow> loop_decision" where
  "loop_decided s r a m = \<lparr>ld_state = s, ld_workflow_run = r, ld_approval_id = a, ld_reason = m\<rparr>"

record autonomous_loop =
  lo_policy :: "policy_rule list"
  lo_ttl_seconds :: int
  lo_max_retries :: int
  lo_max_iterations :: int

definition mk_loop :: "policy_rule list \<Rightarrow> int \<Rightarrow> int \<Rightarrow> int \<Rightarrow> py_exn + autonomous_loop" where
  "mk_loop rules ttl max_retries max_iterations =
     rbind (check (\<not> max_iterations < 1) ValueError ''max_iterations must be positive'') (\<lambda>_.
     Inr \<lparr>lo_policy = rules, lo_ttl_seconds = ttl, lo_max_retries = max_retries, lo_max_iterations = max_iterations\<rparr>)"

record auto_world =
  aw_tick :: nat
  aw_calls :: "(string \<times> string) list"
  aw_approvals :: approval_store

definition call_action ::
  "workflow_action \<Rightarrow> source_workflow \<Rightarrow> event_envelope \<Rightarrow> ('z auto_world_scheme, pyval) em" where
  "call_action act wfl ev = (\<lambda>w.
     (act ev (aw_tick w),
      w\<lparr>aw_tick := Suc (aw_tick w), aw_calls := aw_calls w @ [(sw_workflow_id wfl, en_event_id ev)]\<rparr>))"

definition fresh_id :: "environ \<Rightarrow> ('z auto_world_scheme, uuid) em" where
  "fresh_id env = (\<lambda>w. (Inr (fresh_uuid env (aw_tick w)), w\<lparr>aw_tick := Suc (aw_tick w)\<rparr>))"

definition read_clock :: "environ \<Rightarrow> ('z auto_world_scheme, timestamp) em" where
  "read_clock env = (\<lambda>w. (Inr (clock env (aw_tick w)), w\<lparr>aw_tick := Suc (aw_tick w)\<rparr>))"

text \<open>The attempts from number \<open>attempt\<close> on, of which \<open>n\<close> are left.\<close>

fun loop_attempts ::
  "environ \<Rightarrow> autonomous_loop \<Rightarrow> workflow_action \<Rightarrow> source_workflow \<Rightarrow> event_envelope \<Rightarrow> nat \<Rightarrow> int \<Rightarrow>
     ('z auto_world_scheme, loop_decision) em" where
  "loop_attempts env lo act wfl ev 0 attempt = eret (loop_decided LS_RECOVERING None None ''recovery attempt limit exhausted'')"
| "loop_attempts env lo act wfl ev (Suc n) attempt = (\<lambda>w.
     case call_action act wfl ev w of
       (Inr v, w1) \<Rightarrow>
         ebind (fresh_id env) (\<lambda>rid. eret (loop_decided LS_IDLE (Some (run_success rid wfl ev v)) None ''workflow completed'')) w1
     | (Inl e, w1) \<Rightarrow>
         ebind (elift (recovery_decide (lo_max_retries lo) attempt ''transient'' True)) (\<lambda>d.
           if rr_action d = RA_RETRY then loop_attempts env lo act wfl ev n (attempt + 1)
           else ebind (fresh_id env) (\<lambda>rid.
                eret (loop_decided LS_RECOVERING (Some (run_failure rid wfl ev e)) None (rr_reason d)))) w1)"

definition request_approval ::
  "environ \<Rightarrow> autonomous_loop \<Rightarrow> source_workflow \<Rightarrow> event_envelope \<Rightarrow> string \<Rightarrow> ('z auto_world_scheme, approval_request) em" where
  "request_approval env lo wfl ev reason =
     ebind (read_clock env) (\<lambda>now. ebind (fresh_id env) (\<lambda>aid. (\<lambda>w.
       case gate_request (lo_ttl_seconds lo) now aid (en_tenant_id ev) (en_workspace_id ev) (sw_workflow_id wfl)
              (en_event_id ev) (Some ev) reason (aw_approvals w) of
         Inl e \<Rightarrow> (Inl e, w)
       | Inr (q, st) \<Rightarrow> (Inr q, w\<lparr>aw_approvals := st\<rparr>))))"

definition policy_context :: "event_envelope \<Rightarrow> pydict" where
  "policy_context ev = AList.update ''event_type'' (PStr (en_event_type ev)) (en_payload ev)"

definition loop_run ::
  "environ \<Rightarrow> autonomous_loop \<Rightarrow> source_workflow \<Rightarrow> event_envelope \<Rightarrow> workflow_action option \<Rightarrow> bool \<Rightarrow>
     ('z auto_world_scheme, loop_decision) em" where
  "loop_run env lo wfl ev exec approval_granted =
     (if \<not> workflow_matches wfl ev
      then eret (loop_decided LS_STOPPED None None ''workflow trigger did not match'')
      else ebind (elift (automation_evaluate (lo_policy lo) (policy_context ev))) (\<lambda>pe.
        if pe_outcome pe = PO_DENY then eret (loop_decided LS_STOPPED None None (pe_reason pe))
        else if pe_outcome pe = PO_APPROVAL_REQUIRED \<and> \<not> approval_granted
        then ebind (request_approval env lo wfl ev (pe_reason pe)) (\<lambda>q.
             eret (loop_decided LS_WAITING_APPROVAL None (Some (ap_approval_id q)) []))
        else loop_attempts env lo (case exec of Some f \<Rightarrow> f | None \<Rightarrow> sw_action wfl) wfl ev
               (nat (lo_max_iterations lo)) 1))"

end
