(* ===== verification/Autonomy_Operations.thy ===== *)
theory Autonomy_Operations
  imports Autonomy_Loop
begin

text \<open>
  \<^verbatim>\<open>ois/infrastructure/source_gateway/outbox.py\<close> and \<^verbatim>\<open>ois/autonomy/operations.py\<close>: the source outbox
  and the application boundary that routes its events to the registered workflows. The outbox table
  is in insertion order; its time columns hold the ISO texts that the query orders by. \<open>isoformat\<close> and
  \<open>fromisoformat\<close> are arguments.
\<close>

section \<open>The source outbox\<close>

record source_event =
  sv_event_id :: string
  sv_tenant_id :: string
  sv_workspace_id :: string
  sv_event_type :: string
  sv_aggregate_id :: string
  sv_payload :: pydict
  sv_created_at :: timestamp

record source_row =
  sx_event_id :: string
  sx_tenant_id :: string
  sx_workspace_id :: string
  sx_event_type :: string
  sx_aggregate_id :: string
  sx_payload :: json_text
  sx_created_at :: string
  sx_published_at :: "string option"

record source_codec =
  sc_iso :: "timestamp \<Rightarrow> string"
  sc_fromiso :: "string \<Rightarrow> timestamp option"

definition source_append :: "source_codec \<Rightarrow> source_event \<Rightarrow> source_row list \<Rightarrow> bool \<times> source_row list" where
  "source_append sc e t =
     (if list_ex (\<lambda>r. sx_event_id r = sv_event_id e) t then (False, t)
      else (True, t @ [\<lparr>sx_event_id = sv_event_id e, sx_tenant_id = sv_tenant_id e, sx_workspace_id = sv_workspace_id e,
                       sx_event_type = sv_event_type e, sx_aggregate_id = sv_aggregate_id e,
                       sx_payload = json_dumps (PDict (sv_payload e)), sx_created_at = sc_iso sc (sv_created_at e),
                       sx_published_at = None\<rparr>]))"

definition source_event_of :: "source_codec \<Rightarrow> source_row \<Rightarrow> py_exn + source_event" where
  "source_event_of sc r =
     (case (json_loads (sx_payload r), sc_fromiso sc (sx_created_at r)) of
        (PDict d, Some t) \<Rightarrow>
          Inr \<lparr>sv_event_id = sx_event_id r, sv_tenant_id = sx_tenant_id r, sv_workspace_id = sx_workspace_id r,
               sv_event_type = sx_event_type r, sv_aggregate_id = sx_aggregate_id r, sv_payload = d, sv_created_at = t\<rparr>
      | _ \<Rightarrow> Inl (Exn ValueError ''malformed outbox row''))"

fun events_of_rows :: "source_codec \<Rightarrow> source_row list \<Rightarrow> py_exn + source_event list" where
  "events_of_rows sc [] = Inr []"
| "events_of_rows sc (r # rs) = rbind (source_event_of sc r) (\<lambda>e. rbind (events_of_rows sc rs) (\<lambda>es. Inr (e # es)))"

text \<open>\<open>ORDER BY created_at, event_id LIMIT ?\<close>; a negative limit is none.\<close>

definition pending_rows :: "int \<Rightarrow> source_row list \<Rightarrow> source_row list" where
  "pending_rows limit t =
     (let rows = sort_key sx_created_at (sort_key sx_event_id (filter (\<lambda>r. sx_published_at r = None) t))
      in if limit < 0 then rows else take (nat limit) rows)"

definition source_pending :: "source_codec \<Rightarrow> int \<Rightarrow> source_row list \<Rightarrow> py_exn + source_event list" where
  "source_pending sc limit t = events_of_rows sc (pending_rows limit t)"

definition mark_published :: "string \<Rightarrow> string \<Rightarrow> source_row list \<Rightarrow> source_row list" where
  "mark_published now_text eid t =
     map (\<lambda>r. if sx_event_id r = eid then r\<lparr>sx_published_at := Some now_text\<rparr> else r) t"

definition from_outbox :: "source_event \<Rightarrow> event_envelope" where
  "from_outbox e =
     \<lparr>en_event_id = sv_event_id e, en_tenant_id = sv_tenant_id e, en_workspace_id = sv_workspace_id e,
      en_event_type = sv_event_type e, en_aggregate_id = sv_aggregate_id e, en_payload = sv_payload e,
      en_created_at = sv_created_at e,
      en_source_id = (case map_of (sv_payload e) ''source_id'' of None \<Rightarrow> PNone | Some v \<Rightarrow> v),
      en_correlation_id = None\<rparr>"

section \<open>Autonomous operations\<close>

record ops_world = auto_world +
  ow_workflows :: "(string \<times> source_workflow) list"
  ow_routes :: "(string \<times> string event_route) list"
  ow_processed :: "(string \<times> string) list"
  ow_outbox :: "source_row list option"

record operation_receipt =
  rc_event_id :: string
  rc_workflow_ids :: "string list"
  rc_decisions :: "loop_decision list"

definition run_workflow ::
  "environ \<Rightarrow> autonomous_loop \<Rightarrow> bool \<Rightarrow> string \<Rightarrow> event_envelope \<Rightarrow> (ops_world, loop_decision) em" where
  "run_workflow env lo approval_granted wid ev = (\<lambda>w.
     if (wid, en_event_id ev) \<in> set (ow_processed w)
     then (Inr (loop_decided LS_IDLE None None ''workflow event already processed''), w)
     else
       (case map_of (ow_workflows w) wid of
          None \<Rightarrow> (Inl (Exn KeyError wid), w)
        | Some wfl \<Rightarrow>
            ebind (loop_run env lo wfl ev None approval_granted) (\<lambda>d.
              eseq (ewhen (ld_state d = LS_IDLE)
                     (emod (\<lambda>w. w\<lparr>ow_processed := List.insert (wid, en_event_id ev) (ow_processed w)\<rparr>)))
                (eret d)) w))"

text \<open>The workflow is stored before its route is registered.\<close>

definition register_workflow :: "source_workflow \<Rightarrow> (ops_world, unit) em" where
  "register_workflow wfl = (\<lambda>w.
     if map_of (ow_workflows w) (sw_workflow_id wfl) \<noteq> None
     then (Inl (Exn ValueError (''workflow already registered: '' @ sw_workflow_id wfl)), w)
     else
       (let w1 = w\<lparr>ow_workflows := ow_workflows w @ [(sw_workflow_id wfl, wfl)]\<rparr>;
            r = \<lparr>er_route_id = sw_workflow_id wfl, er_event_type = tr_event_type (sw_trigger wfl),
                 er_handler = sw_workflow_id wfl, er_source_id = tr_source_id (sw_trigger wfl)\<rparr>
        in case router_register r (ow_routes w1) of
             Inl e \<Rightarrow> (Inl e, w1)
           | Inr rs \<Rightarrow> (Inr (), w1\<lparr>ow_routes := rs\<rparr>)))"

definition ops_route :: "environ \<Rightarrow> autonomous_loop \<Rightarrow> event_envelope \<Rightarrow> (ops_world, operation_receipt) em" where
  "ops_route env lo ev = (\<lambda>w.
     ebind (route_event (run_workflow env lo False) ev (map snd (ow_routes w))) (\<lambda>ds. (\<lambda>w1.
       (Inr \<lparr>rc_event_id = en_event_id ev,
             rc_workflow_ids = map fst (filter (\<lambda>(_, wfl). workflow_matches wfl ev) (ow_workflows w1)),
             rc_decisions = ds\<rparr>, w1))) w)"

fun drain_events ::
  "environ \<Rightarrow> source_codec \<Rightarrow> autonomous_loop \<Rightarrow> source_event list \<Rightarrow> (ops_world, operation_receipt list) em" where
  "drain_events env sc lo [] = eret []"
| "drain_events env sc lo (e # es) =
     ebind (ops_route env lo (from_outbox e)) (\<lambda>rc.
     eseq (ewhen (rc_decisions rc \<noteq> [] \<and> list_all (\<lambda>d. ld_state d = LS_IDLE) (rc_decisions rc))
            (ebind (read_clock env) (\<lambda>now.
             emod (\<lambda>w. w\<lparr>ow_outbox := map_option (mark_published (sc_iso sc now) (sv_event_id e)) (ow_outbox w)\<rparr>))))
     (ebind (drain_events env sc lo es) (\<lambda>rcs. eret (rc # rcs))))"

definition drain_outbox ::
  "environ \<Rightarrow> source_codec \<Rightarrow> autonomous_loop \<Rightarrow> int \<Rightarrow> (ops_world, operation_receipt list) em" where
  "drain_outbox env sc lo limit = (\<lambda>w.
     case ow_outbox w of
       None \<Rightarrow> (Inl (Exn RuntimeError ''outbox is not configured''), w)
     | Some t \<Rightarrow> ebind (elift (source_pending sc limit t)) (\<lambda>es. drain_events env sc lo es) w)"

definition decide_m ::
  "environ \<Rightarrow> string \<Rightarrow> approval_decision \<Rightarrow> string \<Rightarrow> (ops_world, approval_request) em" where
  "decide_m env aid d actor =
     ebind (read_clock env) (\<lambda>now1. ebind (read_clock env) (\<lambda>now2. (\<lambda>w.
       case approval_decide now1 now2 aid d actor (aw_approvals w) of (r, st) \<Rightarrow> (r, w\<lparr>aw_approvals := st\<rparr>))))"

definition resumed_event :: "environ \<Rightarrow> source_workflow \<Rightarrow> approval_request \<Rightarrow> (ops_world, event_envelope) em" where
  "resumed_event env wfl q =
     (case ap_event q of
        Some ev \<Rightarrow> eret ev
      | None \<Rightarrow> ebind (read_clock env) (\<lambda>now. eret
          \<lparr>en_event_id = ap_event_id q, en_tenant_id = ap_tenant_id q, en_workspace_id = ap_workspace_id q,
           en_event_type = tr_event_type (sw_trigger wfl), en_aggregate_id = ap_event_id q, en_payload = [],
           en_created_at = now, en_source_id = PNone, en_correlation_id = None\<rparr>))"

definition approve_and_resume ::
  "environ \<Rightarrow> autonomous_loop \<Rightarrow> string \<Rightarrow> string \<Rightarrow> (ops_world, loop_decision) em" where
  "approve_and_resume env lo aid actor =
     ebind (decide_m env aid AD_APPROVED actor) (\<lambda>q. (\<lambda>w.
       case map_of (ow_workflows w) (ap_workflow_id q) of
         None \<Rightarrow> (Inl (Exn KeyError (''workflow not registered: '' @ ap_workflow_id q)), w)
       | Some wfl \<Rightarrow>
           ebind (resumed_event env wfl q) (\<lambda>ev. run_workflow env lo True (sw_workflow_id wfl) ev) w))"

definition reject :: "environ \<Rightarrow> string \<Rightarrow> string \<Rightarrow> (ops_world, unit) em" where
  "reject env aid actor = ebind (decide_m env aid AD_REJECTED actor) (\<lambda>_. eret ())"

end
