(* ===== verification/Autonomy_Durable.thy ===== *)
theory Autonomy_Durable
  imports Autonomy_Operations Postgres_Store
begin

text \<open>
  The durable side of the autonomy package: \<^verbatim>\<open>durable.py\<close> (workflow runs), \<^verbatim>\<open>durable_approvals.py\<close>,
  \<^verbatim>\<open>side_effects.py\<close> (the ledger), \<^verbatim>\<open>recovery_store.py\<close> (the sweeper) and \<^verbatim>\<open>engine.py\<close>, all of
  \<^verbatim>\<open>ois/autonomy\<close>, over the tables of migrations 011 to 015.

  \<^item> Every \<open>with self._connect()\<close> block is one transaction, hence one step on the tables; a block that
    raises before its commit leaves them unchanged.
  \<^item> A JSONB column holds the value that \<open>pe_jsonb\<close> gives back for the text written. The driver decodes
    the column when it is read, so a column that holds a JSON string is read as a Python string, which
    the code hands to \<open>json.loads\<close> once more: \<open>du_loads\<close>.
  \<^item> A UUID is its canonical text.
\<close>

record durable_env =
  du_env :: environ
  du_pg :: pg_env
  du_loads :: "string \<Rightarrow> py_exn + pyval"
  du_text :: "pyval \<Rightarrow> py_exn + string"
  du_ttl :: int

section \<open>Workflow runs\<close>

datatype run_status =
    RS_RECEIVED | RS_RUNNING | RS_WAITING_APPROVAL | RS_RECOVERING | RS_COMPLETED | RS_FAILED | RS_STOPPED

fun run_status_value :: "run_status \<Rightarrow> string" where
  "run_status_value RS_RECEIVED = ''received''"
| "run_status_value RS_RUNNING = ''running''"
| "run_status_value RS_WAITING_APPROVAL = ''waiting_approval''"
| "run_status_value RS_RECOVERING = ''recovering''"
| "run_status_value RS_COMPLETED = ''completed''"
| "run_status_value RS_FAILED = ''failed''"
| "run_status_value RS_STOPPED = ''stopped''"

record run_identity =
  ri_tenant_id :: string
  ri_workspace_id :: string
  ri_workflow_id :: string
  ri_workflow_version :: string
  ri_event_id :: string

record durable_run =
  dr_run_id :: uuid
  dr_identity :: run_identity
  dr_status :: run_status
  dr_attempt :: int
  dr_checkpoint :: "pydict option"
  dr_result :: pyval
  dr_error :: pyval
  dr_idempotency_key :: string

definition identity_key :: "run_identity \<Rightarrow> string" where
  "identity_key i =
     ri_tenant_id i @ '':'' @ ri_workspace_id i @ '':'' @ ri_workflow_id i @ '':'' @ ri_workflow_version i
     @ '':'' @ ri_event_id i"

definition new_run :: "uuid \<Rightarrow> run_identity \<Rightarrow> string option \<Rightarrow> durable_run" where
  "new_run rid i key =
     \<lparr>dr_run_id = rid, dr_identity = i, dr_status = RS_RECEIVED, dr_attempt = 0, dr_checkpoint = None,
      dr_result = PNone, dr_error = PNone,
      dr_idempotency_key = (case key of Some k \<Rightarrow> (if k \<noteq> [] then k else identity_key i) | None \<Rightarrow> identity_key i)\<rparr>"

record run_row =
  rw_run_id :: uuid
  rw_identity :: run_identity
  rw_status :: run_status
  rw_attempt :: int
  rw_checkpoint :: pydict
  rw_result :: "pyval option"
  rw_error :: "pyval option"
  rw_idempotency_key :: string
  rw_updated_at :: timestamp
  rw_last_heartbeat_at :: timestamp
  rw_recovery_count :: int
  rw_next_attempt_at :: "timestamp option"

definition jsonb_value :: "pg_env \<Rightarrow> pyval \<Rightarrow> py_exn + pyval" where
  "jsonb_value pe v = rbind (pe_jsonb pe (json_dumps v)) (\<lambda>txt. Inr (json_loads txt))"

definition jsonb_object :: "pg_env \<Rightarrow> pydict \<Rightarrow> py_exn + pydict" where
  "jsonb_object pe d =
     rbind (jsonb_value pe (PDict d)) (\<lambda>v. Inr (case v of PDict d' \<Rightarrow> d' | _ \<Rightarrow> []))"

text \<open>Reading a JSONB column: \<open>NULL\<close> is \<open>None\<close>, and a string goes through \<open>json.loads\<close> again.\<close>

definition decode_column :: "durable_env \<Rightarrow> pyval option \<Rightarrow> py_exn + pyval" where
  "decode_column de c =
     (case c of None \<Rightarrow> Inr PNone | Some (PStr s) \<Rightarrow> du_loads de s | Some v \<Rightarrow> Inr v)"

definition run_of_row :: "durable_env \<Rightarrow> run_row \<Rightarrow> py_exn + durable_run" where
  "run_of_row de r =
     rbind (decode_column de (rw_result r)) (\<lambda>res.
     rbind (decode_column de (rw_error r)) (\<lambda>err. Inr
       \<lparr>dr_run_id = rw_run_id r, dr_identity = rw_identity r, dr_status = rw_status r, dr_attempt = rw_attempt r,
        dr_checkpoint = Some (rw_checkpoint r), dr_result = res, dr_error = err,
        dr_idempotency_key = rw_idempotency_key r\<rparr>))"

definition unique_violation :: "string \<Rightarrow> py_exn" where
  "unique_violation c =
     Exn (OtherException ''UniqueViolation'')
       (''duplicate key value violates unique constraint '' @ [CHR 0x22] @ c @ [CHR 0x22])"

text \<open>
  \<open>INSERT ... ON CONFLICT (tenant_id, workspace_id, workflow_id, workflow_version, event_id) DO NOTHING\<close>:
  the other two unique indexes of the table still raise. The flag says whether a row was inserted.
\<close>

definition run_insert ::
  "durable_env \<Rightarrow> timestamp \<Rightarrow> durable_run \<Rightarrow> run_row list \<Rightarrow> py_exn + bool \<times> run_row list" where
  "run_insert de db_now run t =
     rbind (integer_column (dr_attempt run)) (\<lambda>_.
     rbind (jsonb_object (du_pg de) (case dr_checkpoint run of None \<Rightarrow> [] | Some d \<Rightarrow> d)) (\<lambda>cp.
     if list_ex (\<lambda>r. rw_identity r = dr_identity run) t then Inr (False, t)
     else if list_ex (\<lambda>r. rw_run_id r = dr_run_id run) t
     then Inl (unique_violation ''autonomous_workflow_runs_pkey'')
     else if list_ex (\<lambda>r. rw_idempotency_key r = dr_idempotency_key run) t
     then Inl (unique_violation ''autonomous_workflow_runs_idempotency_idx'')
     else Inr (True, t @
       [\<lparr>rw_run_id = dr_run_id run, rw_identity = dr_identity run, rw_status = dr_status run,
         rw_attempt = dr_attempt run, rw_checkpoint = cp, rw_result = None, rw_error = None,
         rw_idempotency_key = dr_idempotency_key run, rw_updated_at = db_now, rw_last_heartbeat_at = db_now,
         rw_recovery_count = 0, rw_next_attempt_at = None\<rparr>])))"

definition fetch_run :: "durable_env \<Rightarrow> (run_row \<Rightarrow> bool) \<Rightarrow> run_row list \<Rightarrow> py_exn + durable_run option" where
  "fetch_run de p t =
     (case List.find p t of None \<Rightarrow> Inr None | Some r \<Rightarrow> rbind (run_of_row de r) (\<lambda>x. Inr (Some x)))"

definition run_get :: "durable_env \<Rightarrow> uuid \<Rightarrow> run_row list \<Rightarrow> py_exn + durable_run option" where
  "run_get de rid t = fetch_run de (\<lambda>r. rw_run_id r = rid) t"

definition run_by_event :: "durable_env \<Rightarrow> run_identity \<Rightarrow> run_row list \<Rightarrow> py_exn + durable_run option" where
  "run_by_event de i t = fetch_run de (\<lambda>r. rw_identity r = i) t"

text \<open>The keyword arguments of a transition: \<open>None\<close> (for \<open>result\<close>: \<open>PNone\<close>) leaves the column.\<close>

record run_change =
  ch_status :: run_status
  ch_attempt :: "int option"
  ch_checkpoint :: "pydict option"
  ch_result :: pyval
  ch_error :: "pydict option"

definition to_status :: "run_status \<Rightarrow> run_change" where
  "to_status s = \<lparr>ch_status = s, ch_attempt = None, ch_checkpoint = None, ch_result = PNone, ch_error = None\<rparr>"

text \<open>The row after the \<open>UPDATE\<close>: \<open>last_heartbeat_at\<close> is not among the columns set.\<close>

definition changed_row ::
  "durable_env \<Rightarrow> timestamp \<Rightarrow> run_change \<Rightarrow> run_row \<Rightarrow> py_exn + run_row" where
  "changed_row de db_now ch r =
     rbind (case ch_attempt ch of None \<Rightarrow> Inr (rw_attempt r)
            | Some n \<Rightarrow> rbind (integer_column n) (\<lambda>_. Inr n)) (\<lambda>n.
     rbind (case ch_checkpoint ch of None \<Rightarrow> Inr (rw_checkpoint r) | Some d \<Rightarrow> jsonb_object (du_pg de) d) (\<lambda>cp.
     rbind (if ch_result ch = PNone then Inr (rw_result r)
            else rbind (jsonb_value (du_pg de) (ch_result ch)) (\<lambda>v. Inr (Some v))) (\<lambda>res.
     rbind (case ch_error ch of None \<Rightarrow> Inr (rw_error r)
            | Some d \<Rightarrow> rbind (jsonb_value (du_pg de) (PDict d)) (\<lambda>v. Inr (Some v))) (\<lambda>err. Inr
       (r\<lparr>rw_status := ch_status ch, rw_attempt := n, rw_checkpoint := cp, rw_result := res, rw_error := err,
          rw_updated_at := db_now\<rparr>)))))"

text \<open>The \<open>UPDATE ... RETURNING\<close>; the returned row is decoded after the commit.\<close>

definition run_update ::
  "durable_env \<Rightarrow> timestamp \<Rightarrow> uuid \<Rightarrow> run_change \<Rightarrow> run_row list \<Rightarrow> py_exn + run_row \<times> run_row list" where
  "run_update de db_now rid ch t =
     (case List.find (\<lambda>r. rw_run_id r = rid) t of
        None \<Rightarrow> Inl (Exn KeyError (''workflow run not found: '' @ rid))
      | Some r \<Rightarrow> rbind (changed_row de db_now ch r) (\<lambda>r'.
          Inr (r', map (\<lambda>x. if rw_run_id x = rid then r' else x) t)))"

section \<open>Approvals\<close>

record approval_row =
  ay_tenant_id :: string
  ay_workspace_id :: string
  ay_workflow_id :: string
  ay_event_id :: string
  ay_reason :: string
  ay_decision :: approval_decision
  ay_created_at :: timestamp
  ay_expires_at :: timestamp
  ay_decided_by :: "string option"
  ay_decided_at :: "timestamp option"
  ay_run_id :: "uuid option"
  ay_event_payload :: pydict
  ay_source_id :: "string option"
  ay_event_type :: "string option"

type_synonym approval_table = "(uuid \<times> approval_row) list"

definition source_column :: "durable_env \<Rightarrow> pyval \<Rightarrow> py_exn + string option" where
  "source_column de v =
     (case v of PNone \<Rightarrow> Inr None | PStr s \<Rightarrow> Inr (Some s) | _ \<Rightarrow> rbind (du_text de v) (\<lambda>s. Inr (Some s)))"

definition pg_approval_create ::
  "durable_env \<Rightarrow> approval_request \<Rightarrow> uuid option \<Rightarrow> approval_table \<Rightarrow> py_exn + approval_table" where
  "pg_approval_create de q rid t =
     rbind (jsonb_object (du_pg de) (case ap_event q of None \<Rightarrow> [] | Some ev \<Rightarrow> en_payload ev)) (\<lambda>payload.
     rbind (source_column de (case ap_event q of None \<Rightarrow> PNone | Some ev \<Rightarrow> en_source_id ev)) (\<lambda>src.
     if map_of t (ap_approval_id q) \<noteq> None then Inl (unique_violation ''autonomous_approvals_pkey'')
     else Inr (t @ [(ap_approval_id q,
       \<lparr>ay_tenant_id = ap_tenant_id q, ay_workspace_id = ap_workspace_id q, ay_workflow_id = ap_workflow_id q,
        ay_event_id = ap_event_id q, ay_reason = ap_reason q, ay_decision = AD_PENDING,
        ay_created_at = ap_created_at q, ay_expires_at = ap_expires_at q, ay_decided_by = None,
        ay_decided_at = None, ay_run_id = rid, ay_event_payload = payload, ay_source_id = src,
        ay_event_type = (case ap_event q of None \<Rightarrow> None | Some ev \<Rightarrow> Some (en_event_type ev))\<rparr>)])))"

text \<open>\<open>_row\<close>: the event is rebuilt with a new creation time and with its own id as the aggregate.\<close>

definition approval_of_row :: "timestamp \<Rightarrow> uuid \<Rightarrow> approval_row \<Rightarrow> approval_request" where
  "approval_of_row now aid r =
     \<lparr>ap_approval_id = aid, ap_tenant_id = ay_tenant_id r, ap_workspace_id = ay_workspace_id r,
      ap_workflow_id = ay_workflow_id r, ap_event_id = ay_event_id r, ap_reason = ay_reason r,
      ap_created_at = ay_created_at r, ap_expires_at = ay_expires_at r,
      ap_event =
        (case ay_event_type r of
           None \<Rightarrow> None
         | Some ty \<Rightarrow> Some
             \<lparr>en_event_id = ay_event_id r, en_tenant_id = ay_tenant_id r, en_workspace_id = ay_workspace_id r,
              en_event_type = ty, en_aggregate_id = ay_event_id r, en_payload = ay_event_payload r,
              en_created_at = now,
              en_source_id = (case ay_source_id r of None \<Rightarrow> PNone | Some s \<Rightarrow> PStr s),
              en_correlation_id = None\<rparr>),
      ap_decision = ay_decision r, ap_decided_by = ay_decided_by r, ap_decided_at = ay_decided_at r\<rparr>"

definition pg_approval_get :: "timestamp \<Rightarrow> uuid \<Rightarrow> approval_table \<Rightarrow> approval_request option" where
  "pg_approval_get now aid t = map_option (approval_of_row now aid) (map_of t aid)"

text \<open>The newest pending request for the event; neither tenant nor workflow is part of the condition.\<close>

definition pg_approval_by_event :: "timestamp \<Rightarrow> string \<Rightarrow> approval_table \<Rightarrow> approval_request option" where
  "pg_approval_by_event now eid t =
     (case sort_key (\<lambda>(_, r). - ay_created_at r)
             (filter (\<lambda>(_, r). ay_event_id r = eid \<and> ay_decision r = AD_PENDING) t) of
        [] \<Rightarrow> None
      | (aid, r) # _ \<Rightarrow> Some (approval_of_row now aid r))"

text \<open>\<open>now\<close> is the call's clock, \<open>row_now\<close> the clock when the returned row is rebuilt.\<close>

definition pg_approval_decide ::
  "timestamp \<Rightarrow> timestamp \<Rightarrow> uuid \<Rightarrow> approval_decision \<Rightarrow> string \<Rightarrow> approval_table \<Rightarrow>
     (py_exn + approval_request) \<times> approval_table" where
  "pg_approval_decide now row_now aid d actor t =
     (let refused = Inl (Exn ValueError ''approval is missing, already decided, or expired'') in
      case map_of t aid of
        None \<Rightarrow> (refused, t)
      | Some r \<Rightarrow>
         (if ay_decision r = AD_PENDING \<and> ay_expires_at r > now
          then (let r' = r\<lparr>ay_decision := d, ay_decided_by := Some actor, ay_decided_at := Some now\<rparr>
                in (Inr (approval_of_row row_now aid r'), AList.update aid r' t))
          else (refused,
                if ay_decision r = AD_PENDING \<and> ay_expires_at r \<le> now
                then AList.update aid (r\<lparr>ay_decision := AD_EXPIRED\<rparr>) t else t)))"

definition pg_resume_event :: "timestamp \<Rightarrow> uuid \<Rightarrow> approval_table \<Rightarrow> py_exn + event_envelope" where
  "pg_resume_event now aid t =
     (case pg_approval_get now aid t of
        None \<Rightarrow> Inl (Exn KeyError ''approval not found'')
      | Some q \<Rightarrow>
         (if ap_decision q \<noteq> AD_APPROVED then Inl (Exn ValueError ''approval is not approved'')
          else Inr (case ap_event q of
             Some ev \<Rightarrow> ev
           | None \<Rightarrow>
              \<lparr>en_event_id = ap_event_id q, en_tenant_id = ap_tenant_id q, en_workspace_id = ap_workspace_id q,
               en_event_type = ''approval.resumed'', en_aggregate_id = ap_event_id q, en_payload = [],
               en_created_at = now, en_source_id = PNone, en_correlation_id = None\<rparr>)))"

end
