(* ===== verification/Autonomy_Engine.thy ===== *)
theory Autonomy_Engine
  imports Autonomy_Durable
begin

text \<open>
  \<^verbatim>\<open>ois/autonomy/side_effects.py\<close>, \<^verbatim>\<open>recovery_store.py\<close> and \<^verbatim>\<open>engine.py\<close>. A method of the engine is a
  sequence of transactions. The callback \<open>execute\<close> is an argument that also says what the tables look
  like when it returns, so it covers what other workers did while it ran.
\<close>

section \<open>The side-effect ledger\<close>

record ledger_row =
  lg_effect_id :: uuid
  lg_tenant_id :: string
  lg_workspace_id :: string
  lg_run_id :: uuid
  lg_invocation_id :: string
  lg_idempotency_key :: string
  lg_capability_id :: string
  lg_request :: pydict
  lg_status :: string
  lg_result :: "pyval option"
  lg_error :: "pyval option"
  lg_completed_at :: "timestamp option"

record ledger_entry =
  le_effect_id :: uuid
  le_tenant_id :: string
  le_workspace_id :: string
  le_run_id :: uuid
  le_invocation_id :: string
  le_idempotency_key :: string
  le_capability_id :: string
  le_request :: pydict
  le_status :: string
  le_result :: pyval
  le_error :: pyval
  le_completed_at :: "timestamp option"

text \<open>The tuples \<open>fetchone\<close> returns: the two columns of the insert's \<open>RETURNING\<close>, or all twelve.\<close>

datatype ledger_tuple = Inserted uuid string | Selected ledger_row

text \<open>\<open>_row\<close> reads \<open>row[0]\<close> to \<open>row[11]\<close>.\<close>

fun entry_of_tuple :: "durable_env \<Rightarrow> ledger_tuple \<Rightarrow> py_exn + ledger_entry" where
  "entry_of_tuple de (Inserted eid status) = Inl (Exn (OtherException ''IndexError'') ''tuple index out of range'')"
| "entry_of_tuple de (Selected r) =
     rbind (decode_column de (lg_result r)) (\<lambda>res.
     rbind (decode_column de (lg_error r)) (\<lambda>err. Inr
       \<lparr>le_effect_id = lg_effect_id r, le_tenant_id = lg_tenant_id r, le_workspace_id = lg_workspace_id r,
        le_run_id = lg_run_id r, le_invocation_id = lg_invocation_id r,
        le_idempotency_key = lg_idempotency_key r, le_capability_id = lg_capability_id r,
        le_request = lg_request r, le_status = lg_status r, le_result = res, le_error = err,
        le_completed_at = lg_completed_at r\<rparr>))"

definition ledger_find :: "string \<Rightarrow> ledger_row list \<Rightarrow> ledger_row option" where
  "ledger_find key t = List.find (\<lambda>r. lg_idempotency_key r = key) t"

text \<open>The arguments of \<open>prepare\<close>, with \<open>effect_id\<close> drawn before the transaction.\<close>

record effect_request =
  eq_tenant_id :: string
  eq_workspace_id :: string
  eq_run_id :: uuid
  eq_invocation_id :: string
  eq_idempotency_key :: string
  eq_capability_id :: string
  eq_request :: pydict

definition prepare_tuple ::
  "durable_env \<Rightarrow> uuid \<Rightarrow> effect_request \<Rightarrow> ledger_row list \<Rightarrow> py_exn + ledger_tuple \<times> ledger_row list" where
  "prepare_tuple de eid q t =
     rbind (jsonb_object (du_pg de) (eq_request q)) (\<lambda>req.
     case ledger_find (eq_idempotency_key q) t of
       Some r \<Rightarrow> Inr (Selected r, t)
     | None \<Rightarrow>
        (if list_ex (\<lambda>r. lg_effect_id r = eid) t then Inl (unique_violation ''autonomous_side_effect_ledger_pkey'')
         else Inr (Inserted eid ''prepared'', t @
           [\<lparr>lg_effect_id = eid, lg_tenant_id = eq_tenant_id q, lg_workspace_id = eq_workspace_id q,
             lg_run_id = eq_run_id q, lg_invocation_id = eq_invocation_id q,
             lg_idempotency_key = eq_idempotency_key q, lg_capability_id = eq_capability_id q, lg_request = req,
             lg_status = ''prepared'', lg_result = None, lg_error = None, lg_completed_at = None\<rparr>])))"

definition ledger_prepare ::
  "durable_env \<Rightarrow> uuid \<Rightarrow> effect_request \<Rightarrow> ledger_row list \<Rightarrow> (py_exn + ledger_entry) \<times> ledger_row list" where
  "ledger_prepare de eid q t =
     (case prepare_tuple de eid q t of Inl e \<Rightarrow> (Inl e, t) | Inr (x, t') \<Rightarrow> (entry_of_tuple de x, t'))"

text \<open>\<open>UPDATE ... WHERE idempotency_key = %s AND status <> 'completed'\<close>, or the row as it is.\<close>

definition ledger_complete ::
  "durable_env \<Rightarrow> timestamp \<Rightarrow> string \<Rightarrow> pyval \<Rightarrow> ledger_row list \<Rightarrow> (py_exn + ledger_entry) \<times> ledger_row list" where
  "ledger_complete de db_now key result t =
     (case jsonb_value (du_pg de) result of
        Inl e \<Rightarrow> (Inl e, t)
      | Inr v \<Rightarrow>
         (case ledger_find key t of
            None \<Rightarrow> (Inl (Exn KeyError (''side-effect not found: '' @ key)), t)
          | Some r \<Rightarrow>
             (if lg_status r = ''completed'' then (entry_of_tuple de (Selected r), t)
              else (let r' = r\<lparr>lg_status := ''completed'', lg_result := Some v,
                               lg_completed_at := Some (case lg_completed_at r of None \<Rightarrow> db_now | Some c \<Rightarrow> c)\<rparr>
                    in (entry_of_tuple de (Selected r'),
                        map (\<lambda>x. if lg_idempotency_key x = key then r' else x) t)))))"

definition ledger_get :: "durable_env \<Rightarrow> string \<Rightarrow> ledger_row list \<Rightarrow> py_exn + ledger_entry option" where
  "ledger_get de key t =
     (case ledger_find key t of
        None \<Rightarrow> Inr None
      | Some r \<Rightarrow> rbind (entry_of_tuple de (Selected r)) (\<lambda>x. Inr (Some x)))"

section \<open>The recovery sweeper\<close>

record sweeper =
  sp_stale_after_seconds :: int
  sp_max_recoveries :: int

definition mk_sweeper :: "int \<Rightarrow> int \<Rightarrow> py_exn + sweeper" where
  "mk_sweeper stale max_recoveries =
     rbind (check (\<not> stale \<le> 0) ValueError ''stale_after_seconds must be positive'') (\<lambda>_.
     rbind (check (\<not> max_recoveries < 1) ValueError ''max_recoveries must be positive'') (\<lambda>_.
     Inr \<lparr>sp_stale_after_seconds = stale, sp_max_recoveries = max_recoveries\<rparr>))"

definition abandoned :: "sweeper \<Rightarrow> timestamp \<Rightarrow> run_row \<Rightarrow> bool" where
  "abandoned sp db_now r \<longleftrightarrow>
     rw_status r \<in> {RS_RUNNING, RS_RECOVERING}
     \<and> rw_last_heartbeat_at r < db_now - sp_stale_after_seconds sp * 1000000
     \<and> rw_recovery_count r < sp_max_recoveries sp"

text \<open>\<open>FOR UPDATE SKIP LOCKED LIMIT n\<close>: rows locked by others do not count against the limit.\<close>

definition sweep_ids :: "sweeper \<Rightarrow> timestamp \<Rightarrow> uuid list \<Rightarrow> int \<Rightarrow> run_row list \<Rightarrow> uuid list" where
  "sweep_ids sp db_now locked limit t =
     map rw_run_id (take (nat limit) (filter (\<lambda>r. rw_run_id r \<notin> set locked)
       (sort_key rw_last_heartbeat_at (filter (abandoned sp db_now) t))))"

definition recovered_row :: "timestamp \<Rightarrow> run_row \<Rightarrow> run_row" where
  "recovered_row db_now r =
     r\<lparr>rw_status := RS_RECOVERING, rw_recovery_count := rw_recovery_count r + 1,
       rw_next_attempt_at := Some db_now, rw_last_heartbeat_at := db_now, rw_updated_at := db_now\<rparr>"

fun sweep_runs ::
  "durable_env \<Rightarrow> timestamp \<Rightarrow> uuid list \<Rightarrow> run_row list \<Rightarrow> py_exn + durable_run list \<times> run_row list" where
  "sweep_runs de db_now [] t = Inr ([], t)"
| "sweep_runs de db_now (rid # rids) t =
     (case List.find (\<lambda>r. rw_run_id r = rid) t of
        None \<Rightarrow> sweep_runs de db_now rids t
      | Some r \<Rightarrow>
          rbind (integer_column (rw_recovery_count r + 1)) (\<lambda>_.
          rbind (run_of_row de (recovered_row db_now r)) (\<lambda>x.
          rbind (sweep_runs de db_now rids (map (\<lambda>y. if rw_run_id y = rid then recovered_row db_now r else y) t))
            (\<lambda>(xs, t'). Inr (x # xs, t')))))"

definition sweep ::
  "durable_env \<Rightarrow> sweeper \<Rightarrow> timestamp \<Rightarrow> uuid list \<Rightarrow> int \<Rightarrow> run_row list \<Rightarrow> py_exn + durable_run list \<times> run_row list" where
  "sweep de sp db_now locked limit t =
     rbind (check (\<not> limit < 1) ValueError ''limit must be positive'') (\<lambda>_.
     sweep_runs de db_now (sweep_ids sp db_now locked limit t) t)"

definition sweeper_resume :: "durable_env \<Rightarrow> uuid \<Rightarrow> run_row list \<Rightarrow> py_exn + pydict" where
  "sweeper_resume de rid t =
     rbind (run_get de rid t) (\<lambda>x.
     case x of
       None \<Rightarrow> Inl (Exn KeyError (''workflow run not found: '' @ rid))
     | Some run \<Rightarrow>
        rbind (check (dr_status run \<in> {RS_RECOVERING, RS_RUNNING}) ValueError
                 (''workflow run is not resumable: '' @ run_status_value (dr_status run))) (\<lambda>_.
        Inr (case dr_checkpoint run of None \<Rightarrow> [] | Some d \<Rightarrow> d)))"

section \<open>The engine's world\<close>

record claim_row =
  ck_tenant_id :: string
  ck_workspace_id :: string
  ck_run_id :: uuid

record auto_db =
  ad_runs :: "run_row list"
  ad_claims :: "(string \<times> claim_row) list"
  ad_approvals :: approval_table
  ad_ledger :: "ledger_row list"
  ad_leases :: lease_table

record engine_world =
  ew_tick :: nat
  ew_calls :: "run_identity list"
  ew_db :: auto_db

type_synonym executor =
  "source_workflow \<Rightarrow> event_envelope \<Rightarrow> nat \<Rightarrow> auto_db \<Rightarrow> (py_exn + pyval) \<times> auto_db"

definition transact :: "durable_env \<Rightarrow> (timestamp \<Rightarrow> auto_db \<Rightarrow> (py_exn + 'a) \<times> auto_db) \<Rightarrow> (engine_world, 'a) em" where
  "transact de f = (\<lambda>w.
     case f (clock (du_env de) (ew_tick w)) (ew_db w) of
       (r, db) \<Rightarrow> (r, w\<lparr>ew_tick := Suc (ew_tick w), ew_db := db\<rparr>))"

text \<open>A transaction that either raises and leaves the tables, or returns and replaces them.\<close>

definition attempt :: "(auto_db \<Rightarrow> py_exn + 'a \<times> auto_db) \<Rightarrow> auto_db \<Rightarrow> (py_exn + 'a) \<times> auto_db" where
  "attempt f db = (case f db of Inl e \<Rightarrow> (Inl e, db) | Inr (x, db') \<Rightarrow> (Inr x, db'))"

definition engine_uuid :: "durable_env \<Rightarrow> (engine_world, uuid) em" where
  "engine_uuid de = (\<lambda>w. (Inr (fresh_uuid (du_env de) (ew_tick w)), w\<lparr>ew_tick := Suc (ew_tick w)\<rparr>))"

definition engine_clock :: "durable_env \<Rightarrow> (engine_world, timestamp) em" where
  "engine_clock de = (\<lambda>w. (Inr (clock (du_env de) (ew_tick w)), w\<lparr>ew_tick := Suc (ew_tick w)\<rparr>))"

definition run_event :: "durable_env \<Rightarrow> run_identity \<Rightarrow> (engine_world, durable_run option) em" where
  "run_event de i = transact de (\<lambda>_ db. (run_by_event de i (ad_runs db), db))"

definition run_create :: "durable_env \<Rightarrow> durable_run \<Rightarrow> (engine_world, durable_run) em" where
  "run_create de run =
     ebind (transact de (\<lambda>now. attempt (\<lambda>db.
       rbind (run_insert de now run (ad_runs db)) (\<lambda>(b, t). Inr (b, db\<lparr>ad_runs := t\<rparr>))))) (\<lambda>inserted.
     if inserted then eret run
     else ebind (run_event de (dr_identity run)) (\<lambda>x.
       case x of
         None \<Rightarrow> eraise (Exn RuntimeError ''workflow run insert conflicted but existing run was not found'')
       | Some r \<Rightarrow> eret r))"

definition claim_tx :: "durable_run \<Rightarrow> auto_db \<Rightarrow> (py_exn + bool) \<times> auto_db" where
  "claim_tx run db =
     (if map_of (ad_claims db) (dr_idempotency_key run) \<noteq> None then (Inr False, db)
      else (Inr True, db\<lparr>ad_claims := ad_claims db @
             [(dr_idempotency_key run,
               \<lparr>ck_tenant_id = ri_tenant_id (dr_identity run), ck_workspace_id = ri_workspace_id (dr_identity run),
                ck_run_id = dr_run_id run\<rparr>)]\<rparr>))"

definition run_claim :: "durable_env \<Rightarrow> durable_run \<Rightarrow> (engine_world, bool) em" where
  "run_claim de run = transact de (\<lambda>_. claim_tx run)"

definition run_transition :: "durable_env \<Rightarrow> uuid \<Rightarrow> run_change \<Rightarrow> (engine_world, durable_run) em" where
  "run_transition de rid ch =
     ebind (transact de (\<lambda>now. attempt (\<lambda>db.
       rbind (run_update de now rid ch (ad_runs db)) (\<lambda>(r, t). Inr (r, db\<lparr>ad_runs := t\<rparr>))))) (\<lambda>r.
     elift (run_of_row de r))"

definition fenced_update ::
  "durable_env \<Rightarrow> worker_lease \<Rightarrow> uuid \<Rightarrow> run_change \<Rightarrow> timestamp \<Rightarrow> auto_db \<Rightarrow> (py_exn + run_row) \<times> auto_db" where
  "fenced_update de lease rid ch now = attempt (\<lambda>db.
     rbind (lease_assert_current now lease (ad_leases db)) (\<lambda>_.
     rbind (run_update de now rid ch (ad_runs db)) (\<lambda>(r, t). Inr (r, db\<lparr>ad_runs := t\<rparr>))))"

definition fenced_transition ::
  "durable_env \<Rightarrow> worker_lease \<Rightarrow> uuid \<Rightarrow> run_change \<Rightarrow> (engine_world, durable_run) em" where
  "fenced_transition de lease rid ch =
     ebind (transact de (fenced_update de lease rid ch)) (\<lambda>r. elift (run_of_row de r))"

definition claim_lease :: "durable_env \<Rightarrow> uuid \<Rightarrow> string \<Rightarrow> (engine_world, worker_lease option) em" where
  "claim_lease de rid worker =
     ebind (engine_clock de) (\<lambda>now1. ebind (engine_clock de) (\<lambda>now2.
     transact de (\<lambda>now. attempt (\<lambda>db.
       rbind (lease_claim (du_ttl de) now1 now2 now rid worker (ad_leases db)) (\<lambda>(l, t). Inr (l, db\<lparr>ad_leases := t\<rparr>))))))"

definition renew_lease :: "durable_env \<Rightarrow> worker_lease \<Rightarrow> (engine_world, worker_lease) em" where
  "renew_lease de lease = transact de (\<lambda>now. attempt (\<lambda>db.
     rbind (lease_renew (du_ttl de) now lease (ad_leases db)) (\<lambda>(l, t). Inr (l, db\<lparr>ad_leases := t\<rparr>))))"

definition release_lease :: "durable_env \<Rightarrow> worker_lease \<Rightarrow> (engine_world, unit) em" where
  "release_lease de lease = transact de (\<lambda>_ db. (Inr (), db\<lparr>ad_leases := lease_release lease (ad_leases db)\<rparr>))"

definition call_executor ::
  "executor \<Rightarrow> durable_run \<Rightarrow> source_workflow \<Rightarrow> event_envelope \<Rightarrow> (engine_world, pyval) em" where
  "call_executor exec run wfl ev = (\<lambda>w.
     case exec wfl ev (ew_tick w) (ew_db w) of
       (r, db) \<Rightarrow> (r, w\<lparr>ew_tick := Suc (ew_tick w), ew_calls := ew_calls w @ [dr_identity run], ew_db := db\<rparr>))"

section \<open>The engine\<close>

record durable_receipt =
  dx_run :: durable_run
  dx_approval_id :: "string option"
  dx_resumed :: bool

definition receipt :: "durable_run \<Rightarrow> string option \<Rightarrow> durable_receipt" where
  "receipt run a = \<lparr>dx_run = run, dx_approval_id = a, dx_resumed = False\<rparr>"

definition settle ::
  "durable_env \<Rightarrow> worker_lease \<Rightarrow> uuid \<Rightarrow> run_change \<Rightarrow> string option \<Rightarrow> (engine_world, durable_receipt) em" where
  "settle de lease rid ch a =
     ebind (fenced_transition de lease rid ch) (\<lambda>run.
     eseq (release_lease de lease) (eret (receipt run a)))"

definition approval_for ::
  "durable_env \<Rightarrow> durable_run \<Rightarrow> event_envelope \<Rightarrow> string \<Rightarrow> (engine_world, approval_request) em" where
  "approval_for de run ev reason =
     ebind (transact de (\<lambda>now db.
       (Inr (pg_approval_by_event now (ri_event_id (dr_identity run)) (ad_approvals db)), db))) (\<lambda>x.
     case x of
       Some q \<Rightarrow> eret q
     | None \<Rightarrow> transact de (\<lambda>now. attempt (\<lambda>db.
         let q = \<lparr>ap_approval_id = dr_run_id run, ap_tenant_id = ri_tenant_id (dr_identity run),
                  ap_workspace_id = ri_workspace_id (dr_identity run), ap_workflow_id = ri_workflow_id (dr_identity run),
                  ap_event_id = ri_event_id (dr_identity run), ap_reason = reason, ap_created_at = now,
                  ap_expires_at = now + 3600 * 1000000, ap_event = Some ev, ap_decision = AD_PENDING,
                  ap_decided_by = None, ap_decided_at = None\<rparr>
         in rbind (pg_approval_create de q (Some (dr_run_id run)) (ad_approvals db)) (\<lambda>t.
              Inr (q, db\<lparr>ad_approvals := t\<rparr>)))))"

text \<open>The last part of \<open>_execute\<close>: the callback between two fenced transitions.\<close>

definition perform_run ::
  "durable_env \<Rightarrow> durable_run \<Rightarrow> source_workflow \<Rightarrow> event_envelope \<Rightarrow> worker_lease \<Rightarrow> executor \<Rightarrow>
     (engine_world, durable_receipt) em" where
  "perform_run de run wfl ev lease exec =
     ebind (fenced_transition de lease (dr_run_id run)
       ((to_status RS_RUNNING)\<lparr>ch_checkpoint := Some [(''phase'', PStr ''execution''), (''event_id'', PStr (en_event_id ev))]\<rparr>)) (\<lambda>running. (\<lambda>w.
     case call_executor exec run wfl ev w of
       (Inr v, w1) \<Rightarrow>
         settle de lease (dr_run_id run)
           ((to_status RS_COMPLETED)\<lparr>ch_checkpoint := Some [(''phase'', PStr ''completed''), (''event_id'', PStr (en_event_id ev))],
              ch_result := v\<rparr>) None w1
     | (Inl e, w1) \<Rightarrow>
         settle de lease (dr_run_id run)
           ((to_status RS_RECOVERING)\<lparr>ch_attempt := Some (dr_attempt running + 1),
              ch_checkpoint := Some [(''phase'', PStr ''recovery''), (''event_id'', PStr (en_event_id ev))],
              ch_error := Some [(''type'', PStr (exn_name (exn_class e))), (''message'', PStr (exn_str e))]\<rparr>) None w1))"

definition engine_execute ::
  "durable_env \<Rightarrow> policy_rule list \<Rightarrow> durable_run \<Rightarrow> source_workflow \<Rightarrow> event_envelope \<Rightarrow> worker_lease \<Rightarrow> executor \<Rightarrow>
     bool \<Rightarrow> (engine_world, durable_receipt) em" where
  "engine_execute de policy run wfl ev lease exec approval_granted =
     ebind (elift (automation_evaluate policy (policy_context ev))) (\<lambda>pe.
     if pe_outcome pe = PO_DENY then settle de lease (dr_run_id run) (to_status RS_STOPPED) None
     else if pe_outcome pe = PO_APPROVAL_REQUIRED \<and> \<not> approval_granted
     then ebind (approval_for de run ev (pe_reason pe)) (\<lambda>q.
          settle de lease (dr_run_id run)
            ((to_status RS_WAITING_APPROVAL)\<lparr>ch_checkpoint :=
               Some [(''phase'', PStr ''approval''), (''approval_id'', PStr (ap_approval_id q))]\<rparr>)
            (Some (ap_approval_id q)))
     else perform_run de run wfl ev lease exec)"

definition event_identity :: "source_workflow \<Rightarrow> event_envelope \<Rightarrow> run_identity" where
  "event_identity wfl ev =
     \<lparr>ri_tenant_id = en_tenant_id ev, ri_workspace_id = en_workspace_id ev, ri_workflow_id = sw_workflow_id wfl,
      ri_workflow_version = sw_version wfl, ri_event_id = en_event_id ev\<rparr>"

text \<open>The argument \<open>approval_granted\<close> of \<open>start\<close> is not used by its body.\<close>

definition engine_start ::
  "durable_env \<Rightarrow> policy_rule list \<Rightarrow> source_workflow \<Rightarrow> event_envelope \<Rightarrow> string \<Rightarrow> executor \<Rightarrow> bool \<Rightarrow>
     (engine_world, durable_receipt) em" where
  "engine_start de policy wfl ev worker exec approval_granted =
     (if \<not> workflow_matches wfl ev then eraise (Exn ValueError ''workflow trigger did not match event'')
      else
        ebind (engine_uuid de) (\<lambda>rid.
        ebind (run_create de (new_run rid (event_identity wfl ev) None)) (\<lambda>run.
        ebind (run_claim de run) (\<lambda>claimed.
        if \<not> claimed
        then ebind (run_event de (dr_identity run)) (\<lambda>x.
             case x of
               None \<Rightarrow> eraise (Exn RuntimeError ''idempotency claim lost without an existing workflow run'')
             | Some r \<Rightarrow> eret (receipt r None))
        else
          ebind (claim_lease de (dr_run_id run) worker) (\<lambda>l.
          case l of
            None \<Rightarrow> eret (receipt run None)
          | Some lease \<Rightarrow> engine_execute de policy run wfl ev lease exec False)))))"

definition fenced_resume_event :: "durable_env \<Rightarrow> worker_lease \<Rightarrow> uuid \<Rightarrow> (engine_world, event_envelope) em" where
  "fenced_resume_event de lease aid =
     ebind (transact de (\<lambda>now db. (lease_assert_current now lease (ad_leases db), db))) (\<lambda>_.
     transact de (\<lambda>now db. (pg_resume_event now aid (ad_approvals db), db)))"

definition engine_resume_approval ::
  "durable_env \<Rightarrow> policy_rule list \<Rightarrow> uuid \<Rightarrow> string \<Rightarrow> executor \<Rightarrow> source_workflow \<Rightarrow> (engine_world, durable_receipt) em" where
  "engine_resume_approval de policy aid worker exec wfl =
     ebind (transact de (\<lambda>now db. (Inr (pg_approval_get now aid (ad_approvals db)), db))) (\<lambda>x.
     case x of
       None \<Rightarrow> eraise (Exn KeyError ''approval not found'')
     | Some q \<Rightarrow>
        if ap_decision q \<noteq> AD_APPROVED then eraise (Exn ValueError ''approval is not approved'')
        else ebind (run_event de
               \<lparr>ri_tenant_id = ap_tenant_id q, ri_workspace_id = ap_workspace_id q, ri_workflow_id = ap_workflow_id q,
                ri_workflow_version = sw_version wfl, ri_event_id = ap_event_id q\<rparr>) (\<lambda>y.
             case y of
               None \<Rightarrow> eraise (Exn KeyError ''workflow run for approval not found'')
             | Some run \<Rightarrow>
                ebind (claim_lease de (dr_run_id run) worker) (\<lambda>l.
                case l of
                  None \<Rightarrow> eraise (Exn RuntimeError ''workflow run is owned by another worker'')
                | Some lease \<Rightarrow>
                   ebind (fenced_resume_event de lease aid) (\<lambda>ev.
                   engine_execute de policy run wfl ev lease exec True))))"

definition prepare_side_effect ::
  "durable_env \<Rightarrow> worker_lease \<Rightarrow> effect_request \<Rightarrow> (engine_world, ledger_entry) em" where
  "prepare_side_effect de lease q =
     ebind (transact de (\<lambda>now db. (lease_assert_current now lease (ad_leases db), db))) (\<lambda>_.
     ebind (engine_uuid de) (\<lambda>eid.
     transact de (\<lambda>_ db. case ledger_prepare de eid q (ad_ledger db) of (r, t) \<Rightarrow> (r, db\<lparr>ad_ledger := t\<rparr>))))"

end
