(* ===== verification/Autonomy_Properties.thy ===== *)
theory Autonomy_Properties
  imports Autonomy_Operations
begin

text \<open>
  Properties of the autonomous loop and of the operations around it. The contract of an approval
  store is a locale: a request is decided at most once and only while it is pending and unexpired.
\<close>

section \<open>Approvals are decided once\<close>

locale approval_contract =
  fixes get :: "string \<Rightarrow> 'st \<Rightarrow> approval_request option"
    and decide :: "timestamp \<Rightarrow> timestamp \<Rightarrow> string \<Rightarrow> approval_decision \<Rightarrow> string \<Rightarrow> 'st \<Rightarrow>
      (py_exn + approval_request) \<times> 'st"
  assumes decide_ok: "decide n1 n2 a d who s = (Inr q, s') \<Longrightarrow>
      \<exists>q0. get a s = Some q0 \<and> ap_decision q0 = AD_PENDING \<and> n1 < ap_expires_at q0
           \<and> ap_decision q = d \<and> ap_decided_by q = Some who \<and> get a s' = Some q"
    and decide_final: "get a s = Some q \<Longrightarrow> ap_decision q \<noteq> AD_PENDING \<Longrightarrow>
      get a (snd (decide n1 n2 a' d who s)) = Some q"
begin

lemma decisions_final:
  assumes "get a s = Some q" and "ap_decision q \<noteq> AD_PENDING"
  shows "get a (fold (\<lambda>(n1, n2, a', d, who) s. snd (decide n1 n2 a' d who s)) calls s) = Some q"
  using assms
proof (induction calls arbitrary: s)
  case Nil
  then show ?case by simp
next
  case (Cons c calls)
  obtain n1 n2 a' d who where c: "c = (n1, n2, a', d, who)" by (cases c) auto
  show ?case using Cons.IH [OF decide_final [OF Cons.prems] Cons.prems(2)] by (simp add: c)
qed

lemma decided_once:
  assumes "decide n1 n2 a d who s = (Inr q, s')" and "d \<noteq> AD_PENDING"
  shows "\<exists>e. fst (decide m1 m2 a d' who'
            (fold (\<lambda>(n1, n2, a', d, who) s. snd (decide n1 n2 a' d who s)) calls s')) = Inl e"
proof -
  let ?s = "fold (\<lambda>(n1, n2, a', d, who) s. snd (decide n1 n2 a' d who s)) calls s'"
  have q: "get a s' = Some q" "ap_decision q \<noteq> AD_PENDING" using decide_ok [OF assms(1)] assms(2) by auto
  obtain r s2 where r: "decide m1 m2 a d' who' ?s = (r, s2)" by fastforce
  show ?thesis
  proof (cases r)
    case (Inl e)
    with r show ?thesis by simp
  next
    case (Inr q2)
    with decide_ok [OF r [unfolded Inr]] decisions_final [OF q, of calls] q(2) show ?thesis by auto
  qed
qed

end

interpretation memory_approvals: approval_contract approval_get approval_decide
  by unfold_locales
    (auto simp: approval_decide_def approval_get_def Let_def update_conv' split: option.splits if_splits)

section \<open>The loop is gated and bounded\<close>

lemma fresh_id_effect: "fresh_id env w = (Inr (fresh_uuid env (aw_tick w)), w\<lparr>aw_tick := Suc (aw_tick w)\<rparr>)"
  by (simp add: fresh_id_def)

text \<open>What the attempts do: some calls of the action, a fresh id, and nothing else.\<close>

definition calls_only :: "nat \<Rightarrow> string \<times> string \<Rightarrow> 'z auto_world_scheme \<Rightarrow> 'z auto_world_scheme \<Rightarrow> bool" where
  "calls_only m key w w' \<longleftrightarrow>
     aw_calls w' = aw_calls w @ replicate m key \<and> aw_approvals w' = aw_approvals w
     \<and> auto_world.more w' = auto_world.more w"

lemma loop_attempts_effect:
  assumes "loop_attempts env lo act wfl ev n k w = (r, w')" and "1 \<le> k"
  shows "\<exists>m. calls_only m (sw_workflow_id wfl, en_event_id ev) w w' \<and> m \<le> n \<and> (n \<noteq> 0 \<longrightarrow> m \<noteq> 0)
           \<and> int m \<le> max 1 (lo_max_retries lo - k + 2)
           \<and> (\<exists>d. r = Inr d \<and> ld_state d \<in> {LS_IDLE, LS_RECOVERING} \<and> (ld_state d = LS_IDLE \<longrightarrow> m \<noteq> 0))"
  using assms
proof (induction n arbitrary: k w)
  case 0
  then show ?case by (intro exI [of _ 0]) (auto simp: em_simps calls_only_def loop_decided_def)
next
  case (Suc n)
  let ?key = "(sw_workflow_id wfl, en_event_id ev)"
  let ?w1 = "w\<lparr>aw_tick := Suc (aw_tick w), aw_calls := aw_calls w @ [?key]\<rparr>"
  have call: "call_action act wfl ev w = (act ev (aw_tick w), ?w1)" by (simp add: call_action_def)
  show ?case
  proof (cases "act ev (aw_tick w)")
    case (Inr v)
    then show ?thesis
      using Suc.prems(1) by (intro exI [of _ 1]) (auto simp: call em_simps fresh_id_effect calls_only_def loop_decided_def)
  next
    case (Inl e)
    show ?thesis
    proof (cases "k \<le> lo_max_retries lo")
      case True
      then have "loop_attempts env lo act wfl ev n (k + 1) ?w1 = (r, w')"
        using Suc.prems Inl by (simp add: call em_simps recovery_decide_def check_def)
      from Suc.IH [OF this] Suc.prems(2) obtain m where
        m: "calls_only m ?key ?w1 w'" "m \<le> n" "int m \<le> max 1 (lo_max_retries lo - (k + 1) + 2)"
           "\<exists>d. r = Inr d \<and> ld_state d \<in> {LS_IDLE, LS_RECOVERING} \<and> (ld_state d = LS_IDLE \<longrightarrow> m \<noteq> 0)"
        by auto
      have "calls_only (Suc m) ?key w w'" using m(1) by (simp add: calls_only_def)
      then show ?thesis using m(2-4) True by (intro exI [of _ "Suc m"]) auto
    next
      case False
      then show ?thesis
        using Suc.prems Inl
        by (intro exI [of _ 1])
          (auto simp: call em_simps recovery_decide_def check_def fresh_id_effect calls_only_def loop_decided_def)
    qed
  qed
qed

lemma request_approval_effect:
  "request_approval env lo wfl ev m w = (r, w') \<Longrightarrow>
     aw_calls w' = aw_calls w \<and> auto_world.more w' = auto_world.more w"
  by (auto simp: request_approval_def read_clock_def fresh_id_def em_simps split: sum.splits)

text \<open>The gate: the trigger matches and the policy allows the event, or an approval it requires is granted.\<close>

definition gate_open :: "autonomous_loop \<Rightarrow> source_workflow \<Rightarrow> event_envelope \<Rightarrow> bool \<Rightarrow> bool" where
  "gate_open lo wfl ev granted \<longleftrightarrow>
     workflow_matches wfl ev
     \<and> (\<exists>pe. automation_evaluate (lo_policy lo) (policy_context ev) = Inr pe
           \<and> (pe_outcome pe = PO_ALLOW \<or> pe_outcome pe = PO_APPROVAL_REQUIRED \<and> granted))"

lemma loop_run_open:
  assumes "gate_open lo wfl ev granted"
  shows "loop_run env lo wfl ev exec granted =
     loop_attempts env lo (case exec of Some f \<Rightarrow> f | None \<Rightarrow> sw_action wfl) wfl ev (nat (lo_max_iterations lo)) 1"
  using assms by (auto simp: gate_open_def loop_run_def fun_eq_iff em_simps)

lemma loop_run_closed:
  assumes "\<not> gate_open lo wfl ev granted" and "loop_run env lo wfl ev exec granted w = (r, w')"
  shows "aw_calls w' = aw_calls w \<and> auto_world.more w' = auto_world.more w
         \<and> (\<forall>d. r = Inr d \<longrightarrow> ld_state d \<in> {LS_STOPPED, LS_WAITING_APPROVAL})"
proof (cases "workflow_matches wfl ev")
  case False
  then show ?thesis using assms(2) by (auto simp: loop_run_def em_simps loop_decided_def)
next
  case True
  show ?thesis
  proof (cases "automation_evaluate (lo_policy lo) (policy_context ev)")
    case (Inl e)
    then show ?thesis using assms(2) True by (auto simp: loop_run_def em_simps)
  next
    case (Inr pe)
    then have "pe_outcome pe = PO_DENY \<or> pe_outcome pe = PO_APPROVAL_REQUIRED \<and> \<not> granted"
      using assms(1) True by (cases "pe_outcome pe") (auto simp: gate_open_def)
    then show ?thesis
    proof
      assume "pe_outcome pe = PO_DENY"
      then show ?thesis using assms(2) True Inr by (auto simp: loop_run_def em_simps loop_decided_def)
    next
      assume a: "pe_outcome pe = PO_APPROVAL_REQUIRED \<and> \<not> granted"
      obtain r1 w1 where q: "request_approval env lo wfl ev (pe_reason pe) w = (r1, w1)" by fastforce
      show ?thesis
        using assms(2) True Inr a request_approval_effect [OF q]
        by (cases r1) (auto simp: loop_run_def em_simps q loop_decided_def)
    qed
  qed
qed

lemma loop_run_effect:
  assumes "loop_run env lo wfl ev exec granted w = (r, w')"
  shows "\<exists>m. aw_calls w' = aw_calls w @ replicate m (sw_workflow_id wfl, en_event_id ev)
           \<and> auto_world.more w' = auto_world.more w
           \<and> m \<le> nat (lo_max_iterations lo) \<and> int m \<le> max 1 (lo_max_retries lo + 1)
           \<and> (m \<noteq> 0 \<longrightarrow> gate_open lo wfl ev granted)
           \<and> (\<forall>d. r = Inr d \<and> ld_state d = LS_IDLE \<longrightarrow> m \<noteq> 0)"
proof (cases "gate_open lo wfl ev granted")
  case True
  obtain m where "calls_only m (sw_workflow_id wfl, en_event_id ev) w w'" "m \<le> nat (lo_max_iterations lo)"
      "int m \<le> max 1 (lo_max_retries lo - 1 + 2)"
      "\<exists>d. r = Inr d \<and> ld_state d \<in> {LS_IDLE, LS_RECOVERING} \<and> (ld_state d = LS_IDLE \<longrightarrow> m \<noteq> 0)"
    using loop_attempts_effect [OF assms [unfolded loop_run_open [OF True]]] by auto
  then show ?thesis using True by (intro exI [of _ m]) (auto simp: calls_only_def)
next
  case False
  then show ?thesis using loop_run_closed [OF False assms] by (intro exI [of _ 0]) auto
qed

text \<open>
  C18. The autonomous loop is gated and bounded: whatever the workflow's action does, a run calls it at
  most as often as the iteration limit and one more than the retry limit allow; it calls it at all
  only if the workflow is enabled, is of the event's tenant and workspace, its trigger matches, and
  the automation policy allows the event or the approval it requires was granted; and it reports
  completion only when the action was called.
\<close>

theorem loop_gated_and_bounded:
  assumes "loop_run env lo wfl ev exec granted w = (r, w')"
  shows "\<exists>m. aw_calls w' = aw_calls w @ replicate m (sw_workflow_id wfl, en_event_id ev)
           \<and> m \<le> nat (lo_max_iterations lo) \<and> int m \<le> max 1 (lo_max_retries lo + 1)
           \<and> (m \<noteq> 0 \<longrightarrow> gate_open lo wfl ev granted)
           \<and> (\<forall>d. r = Inr d \<and> ld_state d = LS_IDLE \<longrightarrow> m \<noteq> 0)"
  using loop_run_effect [OF assms] by blast

definition sample_event :: event_envelope where
  "sample_event =
     \<lparr>en_event_id = ''ev1'', en_tenant_id = ''acme'', en_workspace_id = ''w'', en_event_type = ''post.created'',
      en_aggregate_id = ''a1'', en_payload = [(''risk_level'', PStr ''low'')], en_created_at = 0, en_source_id = PNone,
      en_correlation_id = None\<rparr>"

definition sample_workflow :: "workflow_action \<Rightarrow> source_workflow" where
  "sample_workflow act =
     \<lparr>sw_workflow_id = ''wf1'', sw_version = ''1'', sw_tenant_id = ''acme'', sw_workspace_id = ''w'',
      sw_trigger = \<lparr>tr_event_type = ''post.created'', tr_source_id = None, tr_conditions = []\<rparr>, sw_action = act,
      sw_status = WS_ENABLED, sw_metadata = []\<rparr>"

definition failing_action :: workflow_action where
  "failing_action ev n = Inl (Exn RuntimeError ''provider down'')"

definition sample_loop :: autonomous_loop where
  "sample_loop =
     \<lparr>lo_policy = [\<lparr>rl_rule_id = ''r1'', rl_event_type = None, rl_maximum_risk = RL_MEDIUM, rl_allow_side_effects = False,
                     rl_required_tags = []\<rparr>],
      lo_ttl_seconds = 3600, lo_max_retries = 2, lo_max_iterations = 5\<rparr>"

definition auto_env :: environ where
  "auto_env = \<lparr>clock = int, fresh_uuid = (\<lambda>n. replicate n (CHR ''u''))\<rparr>"

definition ops_start :: "source_workflow list \<Rightarrow> source_row list \<Rightarrow> ops_world" where
  "ops_start wfls t =
     \<lparr>aw_tick = 0, aw_calls = [], aw_approvals = [],
      ow_workflows = map (\<lambda>x. (sw_workflow_id x, x)) wfls,
      ow_routes = map (\<lambda>x. (sw_workflow_id x, \<lparr>er_route_id = sw_workflow_id x, er_event_type = tr_event_type (sw_trigger x),
                              er_handler = sw_workflow_id x, er_source_id = tr_source_id (sw_trigger x)\<rparr>)) wfls,
      ow_processed = [], ow_outbox = Some t\<rparr>"

theorem loop_gated_and_bounded_witness:
  "\<exists>r w'. loop_run auto_env sample_loop (sample_workflow failing_action) sample_event None False
            (ops_start [sample_workflow failing_action] []) = (r, w') \<and> length (aw_calls w') \<le> 3"
proof -
  obtain r w' where s: "loop_run auto_env sample_loop (sample_workflow failing_action) sample_event None False
      (ops_start [sample_workflow failing_action] []) = (r, w')" by fastforce
  from loop_gated_and_bounded [OF s] s show ?thesis
    by (auto simp: sample_loop_def ops_start_def)
qed

section \<open>What the policy allows\<close>

text \<open>A rule that lets an event through without an approval.\<close>

definition rule_covers :: "policy_rule \<Rightarrow> pydict \<Rightarrow> bool" where
  "rule_covers r c \<longleftrightarrow>
     (\<forall>t. rl_event_type r = Some t \<longrightarrow> py_eq (ctx_get c ''event_type'' PNone) (PStr t))
     \<and> (\<exists>k. risk_of c = Inr k \<and> (k \<le> rl_maximum_risk r \<or> wants_approval c))
     \<and> (effect_free c \<or> rl_allow_side_effects r)
     \<and> set (rl_required_tags r) \<subseteq> set (tag_strings (ctx_get c ''tags'' (PTuple [])))"

lemma guard_chain:
  "(\<exists>m. (if A then (False, a) else if B then (False, b) else if C then (False, c) else (True, d)) = (True, m))
     \<longleftrightarrow> \<not> A \<and> \<not> B \<and> \<not> C"
  by (cases A; cases B; cases C) simp_all

lemma rule_evaluate_True: "(\<exists>m. rule_evaluate r c = Inr (True, m)) \<longleftrightarrow> rule_covers r c"
proof -
  define off where "off \<longleftrightarrow> (case rl_event_type r of None \<Rightarrow> False
      | Some t \<Rightarrow> \<not> py_eq (ctx_get c ''event_type'' PNone) (PStr t))"
  have on: "\<not> off \<longleftrightarrow> (\<forall>t. rl_event_type r = Some t \<longrightarrow> py_eq (ctx_get c ''event_type'' PNone) (PStr t))"
    by (cases "rl_event_type r") (simp_all add: off_def)
  have e: "rule_evaluate r c = (if off then Inr (False, ''event type does not match'')
      else rbind (risk_of c) (\<lambda>risk. Inr
        (if risk_order (rl_maximum_risk r) < risk_order risk \<and> \<not> wants_approval c
         then (False, ''risk exceeds automation policy'')
         else if \<not> effect_free c \<and> \<not> rl_allow_side_effects r
         then (False, ''side effects are not permitted by automation policy'')
         else if \<not> set (rl_required_tags r) \<subseteq> set (tag_strings (ctx_get c ''tags'' (PTuple [])))
         then (False, ''required policy tags are missing'')
         else (True, ''rule matched''))))"
    by (simp only: rule_evaluate_def off_def)
  show ?thesis
  proof (cases "off \<or> (\<exists>x. risk_of c = Inl x)")
    case True
    then show ?thesis unfolding rule_covers_def on [symmetric] e by (elim disjE exE) simp_all
  next
    case False
    then obtain k where k: "risk_of c = Inr k" "\<not> off" by (cases "risk_of c") simp_all
    have "(\<exists>m. rule_evaluate r c = Inr (True, m)) \<longleftrightarrow>
        \<not> (risk_order (rl_maximum_risk r) < risk_order k \<and> \<not> wants_approval c)
        \<and> \<not> (\<not> effect_free c \<and> \<not> rl_allow_side_effects r)
        \<and> \<not> \<not> set (rl_required_tags r) \<subseteq> set (tag_strings (ctx_get c ''tags'' (PTuple [])))"
      unfolding e k(1) using k(2) by (simp only: rbind.simps if_False sum.inject guard_chain)
    moreover have "rule_covers r c \<longleftrightarrow>
        (k \<le> rl_maximum_risk r \<or> wants_approval c) \<and> (effect_free c \<or> rl_allow_side_effects r)
        \<and> set (rl_required_tags r) \<subseteq> set (tag_strings (ctx_get c ''tags'' (PTuple [])))"
      unfolding rule_covers_def on [symmetric] k(1) using k(2) by (simp only: sum.inject) metis
    ultimately show ?thesis
      by (simp only: less_eq_risk_level_def not_less de_Morgan_conj not_not)
  qed
qed

lemma automation_matched:
  assumes "automation_evaluate rs c = Inr pe" and "pe_outcome pe \<noteq> PO_DENY"
  shows "\<exists>r\<in>set rs. rule_covers r c \<and> pe_rule_id pe = Some (rl_rule_id r)
           \<and> (pe_outcome pe = PO_APPROVAL_REQUIRED \<longleftrightarrow> wants_approval c)"
  using assms
proof (induction rs)
  case Nil
  then show ?case by auto
next
  case (Cons r rs)
  obtain b m where e: "rule_evaluate r c = Inr (b, m)" using Cons.prems(1) by (auto simp: rbind_Inr)
  show ?case
  proof (cases b)
    case True
    then have "rule_covers r c" using e by (subst rule_evaluate_True [symmetric]) simp
    moreover have "pe = \<lparr>pe_outcome = (if wants_approval c then PO_APPROVAL_REQUIRED else PO_ALLOW),
        pe_rule_id = Some (rl_rule_id r), pe_reason = m, pe_requires_approval = wants_approval c\<rparr>"
      using Cons.prems(1) e True by simp
    ultimately show ?thesis by (intro bexI [of _ r] conjI) simp_all
  next
    case False
    then show ?thesis using Cons e by auto
  qed
qed

section \<open>A processed event is not processed again\<close>

definition workflows_ok :: "ops_world \<Rightarrow> bool" where
  "workflows_ok w \<longleftrightarrow> (\<forall>k x. map_of (ow_workflows w) k = Some x \<longrightarrow> sw_workflow_id x = k)"

text \<open>For the pair \<open>key\<close> of a workflow and an event: once processed, it stays so and its action is not called.\<close>

definition not_redone :: "string \<times> string \<Rightarrow> ops_world \<Rightarrow> ops_world \<Rightarrow> bool" where
  "not_redone key w w' \<longleftrightarrow>
     (workflows_ok w \<longrightarrow> workflows_ok w'
        \<and> (key \<in> set (ow_processed w) \<longrightarrow>
             key \<in> set (ow_processed w') \<and> filter ((=) key) (aw_calls w') = filter ((=) key) (aw_calls w)))"

interpretation once: step_order "not_redone key" for key
  by unfold_locales (auto simp: not_redone_def)

lemma ops_more:
  assumes "auto_world.more (w' :: ops_world) = auto_world.more w"
  shows "ow_workflows w' = ow_workflows w" "ow_routes w' = ow_routes w" "ow_processed w' = ow_processed w"
    "ow_outbox w' = ow_outbox w"
  using assms by (cases w; cases w'; simp)+

lemma not_redone_quiet:
  assumes "aw_calls w' = aw_calls w" and "ow_workflows w' = ow_workflows w" and "ow_processed w' = ow_processed w"
  shows "not_redone key w w'"
  using assms by (simp add: not_redone_def workflows_ok_def)

lemma run_workflow_once: "confined (not_redone key) (run_workflow env lo granted wid ev)"
  unfolding confined_def
proof
  fix w
  show "not_redone key w (snd (run_workflow env lo granted wid ev w))"
  proof (cases "(wid, en_event_id ev) \<in> set (ow_processed w)")
    case True
    then show ?thesis by (simp add: run_workflow_def once.step_refl)
  next
    case new: False
    show ?thesis
    proof (cases "map_of (ow_workflows w) wid")
      case None
      then show ?thesis using new by (simp add: run_workflow_def once.step_refl)
    next
      case (Some wfl)
      obtain r w1 where l: "loop_run env lo wfl ev None granted w = (r, w1)" by fastforce
      obtain m where m: "aw_calls w1 = aw_calls w @ replicate m (sw_workflow_id wfl, en_event_id ev)"
          "auto_world.more w1 = auto_world.more w"
        using loop_run_effect [OF l] by blast
      let ?w = "snd (run_workflow env lo granted wid ev w)"
      have "?w = w1 \<or> ?w = w1\<lparr>ow_processed := List.insert (wid, en_event_id ev) (ow_processed w1)\<rparr>"
        using new Some l by (cases r) (auto simp: run_workflow_def em_simps ewhen_def)
      then have w: "aw_calls ?w = aw_calls w1" "ow_workflows ?w = ow_workflows w"
          "set (ow_processed w) \<subseteq> set (ow_processed ?w)"
        using ops_more [OF m(2)] by auto
      show ?thesis
        unfolding not_redone_def
      proof (intro impI conjI)
        assume ok: "workflows_ok w"
        show "workflows_ok ?w" using ok w(2) by (simp add: workflows_ok_def)
        assume key: "key \<in> set (ow_processed w)"
        show "key \<in> set (ow_processed ?w)" using key w(3) by blast
        have "sw_workflow_id wfl = wid" using ok Some by (simp add: workflows_ok_def)
        then have "key \<noteq> (sw_workflow_id wfl, en_event_id ev)" using key new by auto
        then show "filter ((=) key) (aw_calls ?w) = filter ((=) key) (aw_calls w)"
          by (simp add: w(1) m(1))
      qed
    qed
  qed
qed

lemma route_event_once:
  "(\<And>h ev. confined (not_redone key) (handle h ev)) \<Longrightarrow> confined (not_redone key) (route_event handle ev rs)"
  by (induction rs) (auto intro!: once.confined_rules)

lemma ops_route_once: "confined (not_redone key) (ops_route env lo ev)"
proof -
  have "confined (not_redone key) (ebind (route_event (run_workflow env lo False) ev rs) (\<lambda>ds w1. (Inr (f ds w1), w1)))"
    for rs and f :: "loop_decision list \<Rightarrow> ops_world \<Rightarrow> operation_receipt"
    by (intro once.confined_rules route_event_once run_workflow_once) (simp add: confined_def once.step_refl)
  then show ?thesis by (auto simp: confined_def ops_route_def)
qed

lemma read_clock_once: "confined (not_redone key) (read_clock env)"
  by (simp add: confined_def read_clock_def not_redone_quiet)

lemma drain_events_once: "confined (not_redone key) (drain_events env sc lo es)"
proof (induction es)
  case Nil
  show ?case by (simp add: once.confined_eret)
next
  case (Cons e es)
  then show ?case
    by (auto intro!: once.confined_rules ops_route_once read_clock_once once.confined_emod not_redone_quiet)
qed

lemma drain_outbox_once: "confined (not_redone key) (drain_outbox env sc lo limit)"
proof -
  have "confined (not_redone key) (ebind (elift x) (drain_events env sc lo))" for x
    by (intro once.confined_rules drain_events_once)
  then show ?thesis by (auto simp: confined_def drain_outbox_def once.step_refl split: option.splits)
qed

lemma decide_m_once: "confined (not_redone key) (decide_m env aid d actor)"
  unfolding decide_m_def
  by (intro once.confined_rules read_clock_once) (auto simp: confined_def split_def not_redone_quiet)

lemma resumed_event_once: "confined (not_redone key) (resumed_event env wfl q)"
  unfolding resumed_event_def by (intro once.confined_rules read_clock_once)

lemma approve_once: "confined (not_redone key) (approve_and_resume env lo aid actor)"
proof -
  have "confined (not_redone key) (\<lambda>w. case map_of (ow_workflows w) x of
        None \<Rightarrow> (Inl e, w)
      | Some wfl \<Rightarrow> ebind (resumed_event env wfl q) (run_workflow env lo True (sw_workflow_id wfl)) w)" for x e q
    using once.confined_ebind [OF resumed_event_once run_workflow_once]
    by (auto simp: confined_def once.step_refl split: option.splits)
  then show ?thesis unfolding approve_and_resume_def by (intro once.confined_rules decide_m_once)
qed

lemma register_once: "confined (not_redone key) (register_workflow wfl)"
  by (auto simp: confined_def register_workflow_def Let_def not_redone_def workflows_ok_def map_add_def once.step_refl
      split: sum.splits option.splits)

text \<open>Any call on the operations object, returning or raising.\<close>

datatype ops_call =
    OC_Register source_workflow | OC_Route event_envelope | OC_Drain int | OC_Approve string string | OC_Reject string string

fun ops_effect :: "environ \<Rightarrow> source_codec \<Rightarrow> autonomous_loop \<Rightarrow> ops_call \<Rightarrow> ops_world \<Rightarrow> ops_world" where
  "ops_effect env sc lo (OC_Register x) w = snd (register_workflow x w)"
| "ops_effect env sc lo (OC_Route ev) w = snd (ops_route env lo ev w)"
| "ops_effect env sc lo (OC_Drain n) w = snd (drain_outbox env sc lo n w)"
| "ops_effect env sc lo (OC_Approve aid who) w = snd (approve_and_resume env lo aid who w)"
| "ops_effect env sc lo (OC_Reject aid who) w = snd (reject env aid who w)"

lemma ops_effect_once: "not_redone key w (ops_effect env sc lo c w)"
proof (cases c)
  case (OC_Reject aid who)
  have "confined (not_redone key) (reject env aid who)"
    unfolding reject_def by (intro once.confined_rules decide_m_once)
  then show ?thesis using OC_Reject by (simp add: confinedD)
qed (simp_all add: confinedD register_once ops_route_once drain_outbox_once approve_once)

lemma ops_effects_once: "not_redone key w (fold (ops_effect env sc lo) cs w)"
proof (induction cs arbitrary: w)
  case Nil
  show ?case by (simp add: once.step_refl)
next
  case (Cons c cs)
  show ?case using once.step_trans [OF ops_effect_once Cons.IH] by simp
qed

text \<open>
  Completed work is not repeated: after a workflow has completed for an event, no sequence of
  registrations, routed events, outbox drains, approvals and rejections, with whatever outcomes,
  calls its action for that event again.
\<close>

theorem completed_event_not_repeated:
  assumes "run_workflow env lo granted wid ev w = (Inr d, w1)" and "ld_state d = LS_IDLE" and "workflows_ok w"
  shows "filter ((=) (wid, en_event_id ev)) (aw_calls (fold (ops_effect env sc lo) cs w1))
         = filter ((=) (wid, en_event_id ev)) (aw_calls w1)"
proof -
  have "(wid, en_event_id ev) \<in> set (ow_processed w1)"
    using assms(1,2)
    by (auto simp: run_workflow_def em_simps ewhen_def split: if_splits option.splits prod.splits sum.splits)
  moreover have "workflows_ok w1"
    using confinedD' [OF run_workflow_once assms(1)] assms(3) by (simp add: not_redone_def)
  ultimately show ?thesis
    using ops_effects_once [of "(wid, en_event_id ev)" w1 env sc lo cs] by (simp add: not_redone_def)
qed

definition quiet_action :: workflow_action where
  "quiet_action ev n = Inr (PStr ''done'')"

definition unary_codec :: source_codec where
  "unary_codec = \<lparr>sc_iso = (\<lambda>t. replicate (nat t) (CHR ''1'')), sc_fromiso = (\<lambda>s. Some (int (length s)))\<rparr>"

theorem completed_event_not_repeated_witness:
  "\<exists>d w1. run_workflow auto_env sample_loop False ''wf1'' sample_event (ops_start [sample_workflow quiet_action] []) = (Inr d, w1)
     \<and> filter ((=) (''wf1'', ''ev1'')) (aw_calls (fold (ops_effect auto_env unary_codec sample_loop) [OC_Route sample_event] w1))
       = [(''wf1'', ''ev1'')]"
proof -
  let ?w = "ops_start [sample_workflow quiet_action] []"
  have g: "gate_open sample_loop (sample_workflow quiet_action) sample_event False"
    by (simp add: gate_open_def workflow_matches_def trigger_matches_def source_in_scope_def sample_workflow_def
        sample_event_def sample_loop_def policy_context_def rule_evaluate_def risk_of_def ctx_get_def wants_approval_def
        effect_free_def risk_level_of_def)
  obtain k where n: "nat (lo_max_iterations sample_loop) = Suc k"
    by (rule that [of 4]) (simp add: sample_loop_def)
  have act: "sw_action (sample_workflow quiet_action) = quiet_action"
    and key: "sw_workflow_id (sample_workflow quiet_action) = ''wf1''" "en_event_id sample_event = ''ev1''"
    by (simp_all add: sample_workflow_def sample_event_def)
  obtain d w0 where l: "loop_run auto_env sample_loop (sample_workflow quiet_action) sample_event None False ?w = (Inr d, w0)"
      "ld_state d = LS_IDLE" "aw_calls w0 = aw_calls ?w @ [(''wf1'', ''ev1'')]"
    by (simp add: loop_run_open [OF g] n act key call_action_def quiet_action_def em_simps fresh_id_def loop_decided_def)
  have look: "map_of (ow_workflows ?w) ''wf1'' = Some (sample_workflow quiet_action)" "ow_processed ?w = []" "aw_calls ?w = []"
    by (simp_all add: ops_start_def key)
  obtain w1 where s: "run_workflow auto_env sample_loop False ''wf1'' sample_event ?w = (Inr d, w1)"
      "ld_state d = LS_IDLE" "aw_calls w1 = [(''wf1'', ''ev1'')]"
    using l by (simp add: run_workflow_def look em_simps ewhen_def)
  have "workflows_ok ?w" by (auto simp: workflows_ok_def ops_start_def sample_workflow_def split: if_splits)
  from completed_event_not_repeated [OF s(1,2) this, of unary_codec "[OC_Route sample_event]"] s
  show ?thesis by (auto simp: sample_event_def)
qed

section \<open>Draining\<close>

lemma route_event_none:
  "\<forall>r\<in>set rs. \<not> route_matches ev r \<Longrightarrow> route_event handle ev rs = eret []"
  by (induction rs) simp_all

lemma drain_events_unmatched:
  assumes "\<forall>e\<in>set es. \<forall>r\<in>set (map snd (ow_routes w)). \<not> route_matches (from_outbox e) r"
  shows "\<exists>rcs. drain_events env sc lo es w = (Inr rcs, w)"
  using assms
  by (induction es) (auto simp: em_simps ops_route_def route_event_none ewhen_def)

text \<open>
  Events that no workflow subscribes to are never taken off the outbox, and they block it: when the
  oldest events, as many as one drain takes, match no route, the drain changes nothing at all, so every
  later drain sees the same events and the newer ones are never routed.
\<close>

theorem unmatched_events_block_outbox:
  assumes "ow_outbox w = Some t" and "source_pending sc limit t = Inr es"
    and "\<forall>e\<in>set es. \<forall>r\<in>set (map snd (ow_routes w)). \<not> route_matches (from_outbox e) r"
  shows "(ops_effect env sc lo (OC_Drain limit) ^^ n) w = w"
proof (induction n)
  case 0
  show ?case by simp
next
  case (Suc n)
  have "snd (drain_outbox env sc lo limit w) = w"
    using drain_events_unmatched [OF assms(3), of env sc lo] by (auto simp: drain_outbox_def assms(1,2) em_simps)
  with Suc show ?case by (simp add: funpow_swap1)
qed

definition source_row_of :: "string \<Rightarrow> string \<Rightarrow> string \<Rightarrow> source_row" where
  "source_row_of eid etype created =
     \<lparr>sx_event_id = eid, sx_tenant_id = ''acme'', sx_workspace_id = ''w'', sx_event_type = etype, sx_aggregate_id = ''a'',
      sx_payload = json_dumps (PDict []), sx_created_at = created, sx_published_at = None\<rparr>"

theorem unmatched_events_block_outbox_witness:
  "(ops_effect auto_env unary_codec sample_loop (OC_Drain 1) ^^ 7)
     (ops_start [sample_workflow quiet_action] [source_row_of ''e1'' ''noise'' ''1'', source_row_of ''e2'' ''post.created'' ''11''])
   = ops_start [sample_workflow quiet_action] [source_row_of ''e1'' ''noise'' ''1'', source_row_of ''e2'' ''post.created'' ''11'']"
proof (rule unmatched_events_block_outbox)
  let ?t = "[source_row_of ''e1'' ''noise'' ''1'', source_row_of ''e2'' ''post.created'' ''11'']"
  show "ow_outbox (ops_start [sample_workflow quiet_action] ?t) = Some ?t" by (simp add: ops_start_def)
  show "source_pending unary_codec 1 ?t = Inr
      [\<lparr>sv_event_id = ''e1'', sv_tenant_id = ''acme'', sv_workspace_id = ''w'', sv_event_type = ''noise'',
        sv_aggregate_id = ''a'', sv_payload = [], sv_created_at = 1\<rparr>]"
    by (simp add: source_pending_def pending_rows_def source_row_of_def source_event_of_def unary_codec_def)
  show "\<forall>e\<in>set [\<lparr>sv_event_id = ''e1'', sv_tenant_id = ''acme'', sv_workspace_id = ''w'', sv_event_type = ''noise'',
        sv_aggregate_id = ''a'', sv_payload = [], sv_created_at = 1\<rparr>].
      \<forall>r\<in>set (map snd (ow_routes (ops_start [sample_workflow quiet_action] ?t))). \<not> route_matches (from_outbox e) r"
    by (simp add: ops_start_def route_matches_def from_outbox_def sample_workflow_def)
qed

end
