(* ===== verification/Engine_Properties.thy ===== *)
theory Engine_Properties
  imports Autonomy_Engine Autonomy_Properties
begin

text \<open>
  Properties of the durable engine: an event is executed once, a worker that was superseded records
  nothing, sweeps are bounded, and the PostgreSQL approval store refines the in-memory one.
\<close>

section \<open>An event is executed once\<close>

text \<open>Every row carries the key of its identity, and no claim is ever removed.\<close>

definition keyed :: "run_row list \<Rightarrow> bool" where
  "keyed t \<longleftrightarrow> (\<forall>r\<in>set t. rw_idempotency_key r = identity_key (rw_identity r))"

definition claimed :: "auto_db \<Rightarrow> string \<Rightarrow> bool" where
  "claimed db k \<longleftrightarrow> map_of (ad_claims db) k \<noteq> None"

definition kept :: "auto_db \<Rightarrow> auto_db \<Rightarrow> bool" where
  "kept db db' \<longleftrightarrow> (\<forall>k. claimed db k \<longrightarrow> claimed db' k) \<and> (keyed (ad_runs db) \<longrightarrow> keyed (ad_runs db'))"

definition quiet :: "engine_world \<Rightarrow> engine_world \<Rightarrow> bool" where
  "quiet w w' \<longleftrightarrow> kept (ew_db w) (ew_db w') \<and> ew_calls w' = ew_calls w"

lemma kept_refl [simp]: "kept db db"
  by (simp add: kept_def)

lemma kept_trans: "kept a b \<Longrightarrow> kept b c \<Longrightarrow> kept a c"
  by (simp add: kept_def)

interpretation quiet: step_order quiet
  by unfold_locales (auto simp: quiet_def intro: kept_trans)

lemma kept_same: "ad_claims db' = ad_claims db \<Longrightarrow> ad_runs db' = ad_runs db \<Longrightarrow> kept db db'"
  by (simp add: kept_def claimed_def)

lemma transact_quiet: "(\<And>now db. kept db (snd (f now db))) \<Longrightarrow> confined quiet (transact de f)"
  by (auto simp: confined_def transact_def quiet_def split_def)

lemma attempt_kept: "(\<And>x db'. f db = Inr (x, db') \<Longrightarrow> kept db db') \<Longrightarrow> kept db (snd (attempt f db))"
  by (auto simp: attempt_def split: sum.splits)

lemma clock_quiet: "confined quiet (engine_clock de)" "confined quiet (engine_uuid de)"
  by (simp_all add: confined_def engine_clock_def engine_uuid_def quiet_def)

lemma run_insert_keyed:
  "run_insert de now run t = Inr (b, t') \<Longrightarrow> keyed t \<Longrightarrow> dr_idempotency_key run = identity_key (dr_identity run) \<Longrightarrow> keyed t'"
  by (auto simp: run_insert_def rbind_Inr keyed_def split: if_splits)

lemma changed_row_same:
  "changed_row de now ch r = Inr r' \<Longrightarrow>
     rw_run_id r' = rw_run_id r \<and> rw_identity r' = rw_identity r \<and> rw_idempotency_key r' = rw_idempotency_key r
     \<and> rw_recovery_count r' = rw_recovery_count r \<and> rw_last_heartbeat_at r' = rw_last_heartbeat_at r
     \<and> rw_status r' = ch_status ch"
  by (auto simp: changed_row_def rbind_Inr)

lemma find_in: "List.find p xs = Some x \<Longrightarrow> x \<in> set xs \<and> p x"
  by (auto simp: find_Some_iff)

lemma run_update_keyed: "run_update de now rid ch t = Inr (r, t') \<Longrightarrow> keyed t \<Longrightarrow> keyed t'"
  by (auto simp: run_update_def rbind_Inr keyed_def split: option.splits dest!: find_in changed_row_same)

lemma run_event_quiet: "confined quiet (run_event de i)"
  unfolding run_event_def by (rule transact_quiet) simp

lemma update_transaction_kept:
  "rbind a (\<lambda>_. rbind (run_update de now rid ch (ad_runs db)) (\<lambda>(r, t). Inr (r, db\<lparr>ad_runs := t\<rparr>))) = Inr (x, db') \<Longrightarrow> kept db db'"
  by (auto simp: rbind_Inr kept_def claimed_def intro: run_update_keyed)

lemma fenced_transition_quiet: "confined quiet (fenced_transition de lease rid ch)"
  unfolding fenced_transition_def fenced_update_def
  by (intro quiet.confined_ebind quiet.confined_elift transact_quiet attempt_kept update_transaction_kept)

lemma lease_kept:
  "rbind m (\<lambda>(l, t). Inr (l, db\<lparr>ad_leases := t\<rparr>)) = Inr (x, db') \<Longrightarrow> kept db db'"
  by (auto simp: rbind_Inr intro!: kept_same)

lemma claim_lease_quiet: "confined quiet (claim_lease de rid worker)"
  unfolding claim_lease_def
  by (intro quiet.confined_ebind clock_quiet transact_quiet attempt_kept) (rule lease_kept)

lemma release_quiet: "confined quiet (release_lease de lease)"
  unfolding release_lease_def by (rule transact_quiet) (simp add: kept_same)

lemma settle_quiet: "confined quiet (settle de lease rid ch a)"
  unfolding settle_def
  by (intro quiet.confined_ebind quiet.confined_eseq fenced_transition_quiet release_quiet quiet.confined_eret)

lemma approval_for_quiet: "confined quiet (approval_for de run ev reason)"
  unfolding approval_for_def Let_def
  by (intro quiet.confined_ebind quiet.confined_option quiet.confined_eret transact_quiet attempt_kept)
    (auto simp: rbind_Inr intro!: kept_same)

lemma engine_execute_cases:
  assumes "engine_execute de policy run wfl ev lease exec granted w = (r, w')"
  shows "quiet w w' \<or> perform_run de run wfl ev lease exec w = (r, w')"
proof (cases "automation_evaluate policy (policy_context ev)")
  case (Inl e)
  then show ?thesis using assms by (simp add: engine_execute_def em_simps quiet.step_refl)
next
  case (Inr pe)
  define m1 where "m1 = settle de lease (dr_run_id run) (to_status RS_STOPPED) None"
  define m2 where "m2 = ebind (approval_for de run ev (pe_reason pe)) (\<lambda>q.
          settle de lease (dr_run_id run)
            ((to_status RS_WAITING_APPROVAL)\<lparr>ch_checkpoint :=
               Some [(''phase'', PStr ''approval''), (''approval_id'', PStr (ap_approval_id q))]\<rparr>)
            (Some (ap_approval_id q)))"
  have m: "confined quiet m1" "confined quiet m2"
    unfolding m1_def m2_def by (intro settle_quiet quiet.confined_ebind approval_for_quiet)+
  have "engine_execute de policy run wfl ev lease exec granted w =
      (if pe_outcome pe = PO_DENY then m1
       else if pe_outcome pe = PO_APPROVAL_REQUIRED \<and> \<not> granted then m2
       else perform_run de run wfl ev lease exec) w"
    unfolding m1_def m2_def by (simp add: engine_execute_def Inr em_simps)
  with assms m show ?thesis by (auto split: if_splits intro: confinedD')
qed

lemma new_run_simps [simp]:
  "dr_identity (new_run rid i None) = i" "dr_idempotency_key (new_run rid i None) = identity_key i"
  "dr_run_id (new_run rid i None) = rid"
  by (simp_all add: new_run_def)

lemma run_by_event_keyed:
  "run_by_event de i t = Inr (Some run) \<Longrightarrow> keyed t \<Longrightarrow>
     dr_identity run = i \<and> dr_idempotency_key run = identity_key i"
  by (auto simp: run_by_event_def fetch_run_def run_of_row_def rbind_Inr keyed_def
      split: option.splits dest!: find_in)

definition sample_pg :: pg_env where
  "sample_pg = \<lparr>pe_codec = \<lparr>cd_iso = (\<lambda>t. int_str t), cd_fromiso = (\<lambda>s. None), cd_sha = (\<lambda>t. ''sha'')\<rparr>,
     pe_jsonb = Inr, pe_uuid_of = (\<lambda>s. s)\<rparr>"

definition sample_de :: durable_env where
  "sample_de = \<lparr>du_env = auto_env, du_pg = sample_pg,
     du_loads = (\<lambda>s. Inl (Exn (OtherException ''JSONDecodeError'') ''Expecting value: line 1 column 1 (char 0)'')),
     du_text = (\<lambda>v. Inl (Exn (OtherException ''ProgrammingError'') ''cannot adapt'')), du_ttl = 30000000\<rparr>"

definition engine_init :: engine_world where
  "engine_init = \<lparr>ew_tick = 1, ew_calls = [],
     ew_db = \<lparr>ad_runs = [], ad_claims = [], ad_approvals = [], ad_ledger = [], ad_leases = []\<rparr>\<rparr>"

definition ok_exec :: executor where
  "ok_exec wfl ev n db = (Inr (PInt 7), db)"

section \<open>A superseded worker records nothing\<close>

lemma fenced_update_superseded:
  assumes "superseded lease (ad_leases db)"
  shows "\<exists>m. fenced_update de lease rid ch now db = (Inl (Exn FencingError m), db)"
  using superseded_not_current [OF assms] by (simp add: fenced_update_def attempt_def lease_assert_current_def)

lemma settle_superseded:
  assumes "superseded lease (ad_leases (ew_db w))"
  shows "\<exists>m w'. settle de lease rid ch a w = (Inl (Exn FencingError m), w') \<and> ew_db w' = ew_db w"
proof -
  obtain m where "fenced_update de lease rid ch (clock (du_env de) (ew_tick w)) (ew_db w) = (Inl (Exn FencingError m), ew_db w)"
    using fenced_update_superseded [OF assms] by blast
  then show ?thesis by (simp add: settle_def fenced_transition_def transact_def em_simps)
qed

text \<open>
  C16. A takeover discards the result: if, while the callback runs, another worker takes the run over, so
  that the lease is superseded when the callback returns, then whatever the callback returned or raised,
  the engine raises \<open>FencingError\<close> and leaves the tables exactly as they were when the callback returned.
\<close>

theorem takeover_discards_result:
  assumes "engine_execute de policy run wfl ev lease exec granted w = (r, w')"
    and "\<forall>n db. superseded lease (ad_leases (snd (exec wfl ev n db)))"
    and "ew_calls w' \<noteq> ew_calls w"
  shows "(\<exists>m. r = Inl (Exn FencingError m)) \<and> (\<exists>n db. ew_db w' = snd (exec wfl ev n db))"
proof -
  have p: "perform_run de run wfl ev lease exec w = (r, w')"
    using engine_execute_cases [OF assms(1)] assms(3) by (auto simp: quiet_def)
  let ?ch = "(to_status RS_RUNNING)\<lparr>ch_checkpoint := Some [(''phase'', PStr ''execution''), (''event_id'', PStr (en_event_id ev))]\<rparr>"
  obtain r1 w1 where t: "fenced_transition de lease (dr_run_id run) ?ch w = (r1, w1)" by fastforce
  have "\<exists>running. r1 = Inr running"
    using p t assms(3) confinedD' [OF fenced_transition_quiet t]
    by (cases r1) (auto simp: perform_run_def em_simps quiet_def)
  then obtain running where r1: "r1 = Inr running" by blast
  obtain r2 db where e: "exec wfl ev (ew_tick w1) (ew_db w1) = (r2, db)" by fastforce
  define w2 where "w2 = w1\<lparr>ew_tick := Suc (ew_tick w1), ew_calls := ew_calls w1 @ [dr_identity run], ew_db := db\<rparr>"
  have c: "call_executor exec run wfl ev w1 = (r2, w2)" by (simp add: call_executor_def e w2_def)
  have db: "db = snd (exec wfl ev (ew_tick w1) (ew_db w1))" by (simp add: e)
  have sup: "superseded lease (ad_leases (ew_db w2))" using assms(2) by (simp add: w2_def db)
  obtain ch a where "settle de lease (dr_run_id run) ch a w2 = (r, w')"
    using p t r1 c by (cases r2) (auto simp: perform_run_def em_simps)
  with settle_superseded [OF sup, of de "dr_run_id run" ch a] show ?thesis
    by (auto simp: w2_def db)
qed

definition held_run :: durable_run where
  "held_run = (new_run ''r'' (event_identity (sample_workflow failing_action) sample_event) None)"

definition lease_of :: "string \<Rightarrow> int \<Rightarrow> lease_row" where
  "lease_of worker epoch = \<lparr>lr_worker_id = worker, lr_epoch = epoch, lr_expires_at = 1000, lr_updated_at = 0\<rparr>"

definition held_world :: engine_world where
  "held_world = engine_init\<lparr>ew_db := (ew_db engine_init)\<lparr>
     ad_runs := (case run_insert sample_de 0 held_run [] of Inr (_, t) \<Rightarrow> t | Inl _ \<Rightarrow> []),
     ad_leases := [(''r'', lease_of ''a'' 1)]\<rparr>\<rparr>"

definition held_lease :: worker_lease where
  "held_lease = \<lparr>wl_execution_id = ''r'', wl_worker_id = ''a'', wl_epoch = 1, wl_lease_expires_at = 1000\<rparr>"

text \<open>The run is taken over by worker \<open>b\<close> while the callback runs.\<close>

definition overtaken_exec :: executor where
  "overtaken_exec wfl ev n db = (Inr (PInt 7), db\<lparr>ad_leases := [(''r'', lease_of ''b'' 2)]\<rparr>)"

lemma overtaken_superseded: "superseded held_lease (ad_leases (snd (overtaken_exec wfl ev n db)))"
  by (simp add: superseded_def overtaken_exec_def held_lease_def lease_of_def)

definition overtaken :: "(py_exn + durable_receipt) \<times> engine_world" where
  "overtaken = engine_execute sample_de (lo_policy sample_loop) held_run (sample_workflow failing_action) sample_event
     held_lease overtaken_exec False held_world"

lemma overtaken_eval: "length (ew_calls (snd overtaken)) = 1" "map rw_status (ad_runs (ew_db (snd overtaken))) = [RS_RUNNING]"
  by code_simp+

theorem takeover_discards_result_witness:
  "(\<exists>m. fst overtaken = Inl (Exn FencingError m)) \<and> length (ew_calls (snd overtaken)) = 1
   \<and> map rw_status (ad_runs (ew_db (snd overtaken))) = [RS_RUNNING]"
proof -
  have "engine_execute sample_de (lo_policy sample_loop) held_run (sample_workflow failing_action) sample_event
     held_lease overtaken_exec False held_world = (fst overtaken, snd overtaken)" by (simp add: overtaken_def)
  moreover have "ew_calls (snd overtaken) \<noteq> ew_calls held_world"
    using overtaken_eval(1) by (auto simp: held_world_def engine_init_def)
  ultimately show ?thesis
    using takeover_discards_result overtaken_superseded overtaken_eval by blast
qed

section \<open>Sweeps are bounded\<close>

definition recoveries :: "uuid \<Rightarrow> run_row list \<Rightarrow> int" where
  "recoveries rid t = (case List.find (\<lambda>r. rw_run_id r = rid) t of None \<Rightarrow> 0 | Some r \<Rightarrow> rw_recovery_count r)"

abbreviation run_ids :: "run_row list \<Rightarrow> uuid list" where
  "run_ids t \<equiv> map rw_run_id t"

lemma find_map_id:
  "(\<And>r. rw_run_id (f r) = rw_run_id r) \<Longrightarrow>
     List.find (\<lambda>r. rw_run_id r = rid) (map f t) = map_option f (List.find (\<lambda>r. rw_run_id r = rid) t)"
  by (induction t) auto

lemma find_append: "List.find p (xs @ ys) = (case List.find p xs of None \<Rightarrow> List.find p ys | Some x \<Rightarrow> Some x)"
  by (induction xs) auto

lemma unique_run:
  "distinct (run_ids t) \<Longrightarrow> List.find (\<lambda>r. rw_run_id r = rid) t = Some r \<Longrightarrow> y \<in> set t \<Longrightarrow> rw_run_id y = rid \<Longrightarrow> y = r"
  by (auto simp: distinct_map dest: find_in inj_onD)

lemma recovered_row_id [simp]: "rw_run_id (recovered_row now r) = rw_run_id r"
  by (simp add: recovered_row_def)

definition swept_row :: "timestamp \<Rightarrow> uuid list \<Rightarrow> run_row \<Rightarrow> run_row" where
  "swept_row now ids r = (if rw_run_id r \<in> set ids then recovered_row now r else r)"

lemma swept_row_id [simp]: "rw_run_id (swept_row now ids r) = rw_run_id r"
  by (simp add: swept_row_def)

lemma sweep_runs_effect:
  assumes "sweep_runs de now ids t = Inr (xs, t')" and "distinct ids" and "distinct (run_ids t)" and "set ids \<subseteq> set (run_ids t)"
  shows "t' = map (swept_row now ids) t \<and> map dr_run_id xs = ids \<and> (\<forall>x\<in>set xs. dr_status x = RS_RECOVERING)"
  using assms
proof (induction ids arbitrary: t xs t')
  case Nil
  then show ?case by (auto simp: swept_row_def intro: map_idI [symmetric])
next
  case (Cons rid ids)
  obtain r where f: "List.find (\<lambda>r. rw_run_id r = rid) t = Some r"
    using Cons.prems(4) by (cases "List.find (\<lambda>r. rw_run_id r = rid) t") (auto simp: find_None_iff)
  let ?t1 = "map (\<lambda>y. if rw_run_id y = rid then recovered_row now r else y) t"
  have rid: "rw_run_id r = rid" using f by (auto dest: find_in)
  have t1: "?t1 = map (swept_row now [rid]) t"
    using unique_run [OF Cons.prems(3) f] by (auto simp: swept_row_def)
  obtain x xs' where x: "run_of_row de (recovered_row now r) = Inr x" and xs: "xs = x # xs'"
    and rest: "sweep_runs de now ids ?t1 = Inr (xs', t')"
    using Cons.prems(1) f by (auto simp: rbind_Inr)
  have ids1: "run_ids ?t1 = run_ids t" using rid by auto
  have IH: "t' = map (swept_row now ids) ?t1 \<and> map dr_run_id xs' = ids \<and> (\<forall>x\<in>set xs'. dr_status x = RS_RECOVERING)"
    using Cons.IH [OF rest] Cons.prems(2-4) unfolding ids1 by simp
  have "dr_run_id x = rid" "dr_status x = RS_RECOVERING"
    using x rid by (auto simp: run_of_row_def rbind_Inr recovered_row_def)
  moreover have "map (swept_row now ids) (map (swept_row now [rid]) t) = map (swept_row now (rid # ids)) t"
    using Cons.prems(2) by (auto simp: swept_row_def)
  ultimately show ?case using IH xs t1 by simp
qed

lemma sweep_ids_of:
  "rid \<in> set (sweep_ids sp now locked limit t) \<Longrightarrow> \<exists>r\<in>set t. rw_run_id r = rid \<and> abandoned sp now r"
  by (auto simp: sweep_ids_def dest!: in_set_takeD)

lemma distinct_sweep_ids:
  assumes "distinct (run_ids t)"
  shows "distinct (sweep_ids sp now locked limit t)"
proof -
  have "distinct (run_ids (sort_key rw_last_heartbeat_at (filter (abandoned sp now) t)))"
    using assms by (auto simp: distinct_map inj_on_def)
  then show ?thesis
    unfolding sweep_ids_def by (simp add: distinct_map_filter take_map [symmetric])
qed

text \<open>A sweep, exactly: which rows change and how, and what is returned.\<close>

lemma sweep_effect:
  assumes "sweep de sp now locked limit t = Inr (xs, t')" and "distinct (run_ids t)"
  shows "t' = map (swept_row now (map dr_run_id xs)) t \<and> map dr_run_id xs = sweep_ids sp now locked limit t
     \<and> (\<forall>x\<in>set xs. dr_status x = RS_RECOVERING)"
proof -
  have s: "sweep_runs de now (sweep_ids sp now locked limit t) t = Inr (xs, t')"
    using assms(1) by (auto simp: sweep_def rbind_Inr)
  have "set (sweep_ids sp now locked limit t) \<subseteq> set (run_ids t)" using sweep_ids_of by fastforce
  from sweep_runs_effect [OF s distinct_sweep_ids [OF assms(2)] assms(2) this] show ?thesis by simp
qed

text \<open>The operations on the table of runs.\<close>

datatype runs_label = Swept timestamp "uuid list" int "uuid list" | Changed timestamp uuid run_change | Created timestamp durable_run

fun runs_step :: "durable_env \<Rightarrow> sweeper \<Rightarrow> run_row list \<Rightarrow> runs_label \<Rightarrow> run_row list \<Rightarrow> bool" where
  "runs_step de sp t (Swept now locked limit ids) t' \<longleftrightarrow>
     (\<exists>xs. sweep de sp now locked limit t = Inr (xs, t') \<and> map dr_run_id xs = ids)"
| "runs_step de sp t (Changed now rid ch) t' \<longleftrightarrow> (\<exists>r. run_update de now rid ch t = Inr (r, t'))"
| "runs_step de sp t (Created now run) t' \<longleftrightarrow> (\<exists>b. run_insert de now run t = Inr (b, t'))"

fun swept_in :: "uuid \<Rightarrow> runs_label \<Rightarrow> bool" where
  "swept_in rid (Swept now locked limit ids) \<longleftrightarrow> rid \<in> set ids"
| "swept_in rid l \<longleftrightarrow> False"

lemma sweep_step_counts:
  assumes "sweep de sp now locked limit t = Inr (xs, t')" and "distinct (run_ids t)"
  shows "run_ids t' = run_ids t \<and> recoveries rid t' = recoveries rid t + (if rid \<in> set (map dr_run_id xs) then 1 else 0)
     \<and> (rid \<in> set (map dr_run_id xs) \<longrightarrow> recoveries rid t < sp_max_recoveries sp)"
proof -
  have t': "t' = map (swept_row now (map dr_run_id xs)) t"
    and ids: "map dr_run_id xs = sweep_ids sp now locked limit t"
    using sweep_effect [OF assms] by blast+
  have "recoveries rid t' = recoveries rid t + 1 \<and> recoveries rid t < sp_max_recoveries sp"
    if mem: "rid \<in> set (map dr_run_id xs)"
  proof -
    obtain r where r: "r \<in> set t" "rw_run_id r = rid" "abandoned sp now r"
      using sweep_ids_of [OF mem [unfolded ids]] by blast
    have "List.find (\<lambda>r. rw_run_id r = rid) t = Some r"
      using r(1,2) unique_run [OF assms(2)] by (cases "List.find (\<lambda>r. rw_run_id r = rid) t") (auto simp: find_None_iff)
    then show ?thesis
      using r(2,3) mem unfolding t'
      by (simp add: recoveries_def find_map_id swept_row_def recovered_row_def abandoned_def)
  qed
  moreover have "recoveries rid t' = recoveries rid t" if "rid \<notin> set (map dr_run_id xs)"
    using that unfolding t'
    by (auto simp: recoveries_def find_map_id swept_row_def split: option.splits dest: find_in)
  moreover have "run_ids t' = run_ids t" by (simp add: t')
  ultimately show ?thesis by auto
qed

lemma update_step_counts:
  assumes "run_update de now k ch t = Inr (r, t')" and "distinct (run_ids t)"
  shows "run_ids t' = run_ids t \<and> recoveries rid t' = recoveries rid t"
proof -
  obtain r0 where f: "List.find (\<lambda>r. rw_run_id r = k) t = Some r0" and c: "changed_row de now ch r0 = Inr r"
    and t': "t' = map (\<lambda>x. if rw_run_id x = k then r else x) t"
    using assms(1) by (auto simp: run_update_def rbind_Inr split: option.splits)
  note same = changed_row_same [OF c]
  have k: "rw_run_id r = k" using f same by (auto dest: find_in)
  have find: "List.find (\<lambda>r. rw_run_id r = rid) t' =
      map_option (\<lambda>x. if rw_run_id x = k then r else x) (List.find (\<lambda>r. rw_run_id r = rid) t)"
    unfolding t' by (rule find_map_id) (simp add: k)
  have "recoveries rid t' = recoveries rid t"
  proof (cases "rid = k")
    case True
    then show ?thesis using find f k same by (auto simp: recoveries_def dest: find_in)
  next
    case False
    then show ?thesis using find by (auto simp: recoveries_def split: option.splits dest!: find_in)
  qed
  then show ?thesis using k by (auto simp: t')
qed

lemma run_insert_cases:
  assumes "run_insert de now run t = Inr (b, t')"
  shows "t' = t \<or> (\<exists>r. t' = t @ [r] \<and> rw_run_id r \<notin> set (run_ids t) \<and> rw_recovery_count r = 0)"
proof (cases b)
  case True
  then show ?thesis
    using assms by (auto simp: run_insert_def rbind_Inr list_ex_iff split: if_split_asm) blast
next
  case False
  then show ?thesis using assms by (auto simp: run_insert_def rbind_Inr split: if_split_asm)
qed

lemma insert_step_counts:
  assumes "run_insert de now run t = Inr (b, t')" and "distinct (run_ids t)"
  shows "distinct (run_ids t') \<and> recoveries rid t' = recoveries rid t"
  using run_insert_cases [OF assms(1)] assms(2)
  by (auto simp: recoveries_def find_append split: option.splits if_splits)

lemma runs_step_counts:
  assumes "runs_step de sp t l t'" and "distinct (run_ids t)"
  shows "distinct (run_ids t') \<and> recoveries rid t' = recoveries rid t + (if swept_in rid l then 1 else 0)
     \<and> (swept_in rid l \<longrightarrow> recoveries rid t < sp_max_recoveries sp)"
proof (cases l)
  case (Swept now locked limit ids)
  then show ?thesis using assms sweep_step_counts [of de sp now locked limit t _ t' rid] by auto
next
  case (Changed now k ch)
  then show ?thesis using assms update_step_counts [of de now k ch t _ t' rid] by auto
next
  case (Created now run)
  then show ?thesis using assms insert_step_counts [of de now run t _ t' rid] by auto
qed

text \<open>
  Recoveries are bounded: in any sequence of sweeps, transitions and insertions of runs, with any
  clock, limit and rows locked by others, a run is swept at most as often as the recoveries it has left;
  its counter is exactly the number of sweeps that took it and never passes \<open>max_recoveries\<close>.
\<close>

theorem recoveries_bounded:
  assumes "run_of (runs_step de sp) t ls t'" and "distinct (run_ids t)" and "recoveries rid t \<le> sp_max_recoveries sp"
  shows "recoveries rid t' = recoveries rid t + int (length (filter (swept_in rid) ls))
     \<and> recoveries rid t' \<le> sp_max_recoveries sp"
  using assms
proof (induction rule: run_of.induct)
  case (run_nil t)
  then show ?case by simp
next
  case (run_cons t l t1 ls t2)
  note s = runs_step_counts [OF run_cons.hyps(1) run_cons.prems(1), of rid]
  then have "recoveries rid t1 \<le> sp_max_recoveries sp" using run_cons.prems(2) by auto
  with run_cons.IH s show ?case by auto
qed

definition stale_run :: run_row where
  "stale_run =
     \<lparr>rw_run_id = ''r'', rw_identity = event_identity (sample_workflow failing_action) sample_event,
      rw_status = RS_RUNNING, rw_attempt = 0, rw_checkpoint = [], rw_result = None, rw_error = None,
      rw_idempotency_key = identity_key (event_identity (sample_workflow failing_action) sample_event),
      rw_updated_at = 0, rw_last_heartbeat_at = 0, rw_recovery_count = 2, rw_next_attempt_at = None\<rparr>"

definition sample_sweeper :: sweeper where
  "sample_sweeper = \<lparr>sp_stale_after_seconds = 300, sp_max_recoveries = 3\<rparr>"

lemma sample_sweeps:
  "sweep sample_de sample_sweeper 400000000 [] 10 [stale_run] =
     Inr (map (\<lambda>r. case run_of_row sample_de r of Inr x \<Rightarrow> x) [recovered_row 400000000 stale_run],
          [recovered_row 400000000 stale_run])"
  "sweep sample_de sample_sweeper 900000000 [] 10 [recovered_row 400000000 stale_run] =
     Inr ([], [recovered_row 400000000 stale_run])"
  "map dr_run_id (map (\<lambda>r. case run_of_row sample_de r of Inr x \<Rightarrow> x) [recovered_row 400000000 stale_run]) = [''r'']"
  by code_simp+

theorem recoveries_bounded_witness:
  "\<exists>t'. run_of (runs_step sample_de sample_sweeper) [stale_run]
          [Swept 400000000 [] 10 [''r''], Swept 900000000 [] 10 []] t' \<and> recoveries ''r'' t' = 3"
proof -
  have run: "run_of (runs_step sample_de sample_sweeper) [stale_run]
      [Swept 400000000 [] 10 [''r''], Swept 900000000 [] 10 []] [recovered_row 400000000 stale_run]"
    using sample_sweeps by (simp add: run_of_Cons run_of_Nil)
  have "recoveries ''r'' [recovered_row 400000000 stale_run] = 3"
    using recoveries_bounded [OF run, of "''r''"] by (simp add: recoveries_def stale_run_def sample_sweeper_def)
  with run show ?thesis by blast
qed

section \<open>The PostgreSQL approvals refine the in-memory ones\<close>

definition approvals_abs :: "timestamp \<Rightarrow> approval_table \<Rightarrow> approval_store" where
  "approvals_abs now t = map (\<lambda>(aid, r). (aid, approval_of_row now aid r)) t"

lemma approvals_abs_get: "approval_get aid (approvals_abs now t) = pg_approval_get now aid t"
  by (simp add: approval_get_def approvals_abs_def pg_approval_get_def map_of_map_value)

lemma approvals_abs_update:
  "approvals_abs now (AList.update aid r t) = AList.update aid (approval_of_row now aid r) (approvals_abs now t)"
  by (induction t) (auto simp: approvals_abs_def)

lemma approval_of_row_fields [simp]:
  "ap_decision (approval_of_row now aid r) = ay_decision r" "ap_expires_at (approval_of_row now aid r) = ay_expires_at r"
  "approval_of_row now aid (r\<lparr>ay_decision := AD_EXPIRED\<rparr>) = (approval_of_row now aid r)\<lparr>ap_decision := AD_EXPIRED\<rparr>"
  "approval_of_row now aid (r\<lparr>ay_decision := d, ay_decided_by := b, ay_decided_at := u\<rparr>)
     = (approval_of_row now aid r)\<lparr>ap_decision := d, ap_decided_by := b, ap_decided_at := u\<rparr>"
  by (simp_all add: approval_of_row_def split: option.split)

interpretation durable_approvals: approval_contract "pg_approval_get row_now" "\<lambda>n1 n2. pg_approval_decide n1 row_now" for row_now
  by unfold_locales
    (auto simp: pg_approval_decide_def pg_approval_get_def Let_def split: option.splits if_splits)

text \<open>
  What the table remembers of a request, field by field: the request is pending and undecided, and its event comes back
  with the ids of the request, its type, its payload as the JSONB column returns it and its source as text, but with the
  event id as its aggregate, no correlation and the time of reading.
\<close>

definition remembered_event :: "timestamp \<Rightarrow> approval_request \<Rightarrow> pydict \<Rightarrow> string option \<Rightarrow> event_envelope \<Rightarrow> event_envelope" where
  "remembered_event now q payload src e =
     \<lparr>en_event_id = ap_event_id q, en_tenant_id = ap_tenant_id q, en_workspace_id = ap_workspace_id q,
      en_event_type = en_event_type e, en_aggregate_id = ap_event_id q, en_payload = payload, en_created_at = now,
      en_source_id = (case src of None \<Rightarrow> PNone | Some s \<Rightarrow> PStr s), en_correlation_id = None\<rparr>"

definition remembered :: "durable_env \<Rightarrow> timestamp \<Rightarrow> approval_request \<Rightarrow> approval_request \<Rightarrow> bool" where
  "remembered de now q q' \<longleftrightarrow>
     (case ap_event q of
        None \<Rightarrow> q' = q\<lparr>ap_decision := AD_PENDING, ap_decided_by := None, ap_decided_at := None\<rparr>
      | Some e \<Rightarrow> \<exists>payload src.
          jsonb_object (du_pg de) (en_payload e) = Inr payload \<and> source_column de (en_source_id e) = Inr src
          \<and> q' = q\<lparr>ap_event := Some (remembered_event now q payload src e),
                   ap_decision := AD_PENDING, ap_decided_by := None, ap_decided_at := None\<rparr>)"

lemma pg_create_refines:
  assumes "pg_approval_create de q rid t = Inr t'"
  shows "\<exists>q'. remembered de now q q' \<and> approval_create q' (approvals_abs now t) = Inr (approvals_abs now t')"
proof -
  obtain payload src where p: "jsonb_object (du_pg de) (case ap_event q of None \<Rightarrow> [] | Some ev \<Rightarrow> en_payload ev) = Inr payload"
    and s: "source_column de (case ap_event q of None \<Rightarrow> PNone | Some ev \<Rightarrow> en_source_id ev) = Inr src"
    and fresh: "map_of t (ap_approval_id q) = None"
    using assms by (auto simp: pg_approval_create_def rbind_Inr split: if_split_asm)
  define row where "row = \<lparr>ay_tenant_id = ap_tenant_id q, ay_workspace_id = ap_workspace_id q, ay_workflow_id = ap_workflow_id q,
        ay_event_id = ap_event_id q, ay_reason = ap_reason q, ay_decision = AD_PENDING,
        ay_created_at = ap_created_at q, ay_expires_at = ap_expires_at q, ay_decided_by = None,
        ay_decided_at = None, ay_run_id = rid, ay_event_payload = payload, ay_source_id = src,
        ay_event_type = (case ap_event q of None \<Rightarrow> None | Some ev \<Rightarrow> Some (en_event_type ev))\<rparr>"
  have t': "t' = t @ [(ap_approval_id q, row)]"
    using assms p s fresh by (simp add: pg_approval_create_def row_def)
  let ?q = "approval_of_row now (ap_approval_id q) row"
  have "remembered de now q ?q"
    using p s by (cases "ap_event q") (simp_all add: remembered_def remembered_event_def approval_of_row_def row_def)
  moreover have "approval_create ?q (approvals_abs now t) = Inr (approvals_abs now t')"
    using fresh by (simp add: approval_create_def t' approvals_abs_def map_of_map_value approval_of_row_def check_def)
  ultimately show ?thesis by blast
qed

lemma pg_decide_refines:
  assumes "pg_approval_decide n row_now aid d who t = (rc, t1)"
    and "approval_decide n n aid d who (approvals_abs row_now t) = (ra, s)"
  shows "s = approvals_abs row_now t1 \<and> (case ra of Inr q \<Rightarrow> rc = Inr q | Inl e \<Rightarrow> \<exists>m. rc = Inl (Exn ValueError m))"
proof (cases "map_of t aid")
  case None
  then show ?thesis
    using assms by (auto simp: pg_approval_decide_def approval_decide_def approvals_abs_def map_of_map_value Let_def)
next
  case (Some r)
  have "map_of (approvals_abs row_now t) aid = Some (approval_of_row row_now aid r)"
    using Some by (simp add: approvals_abs_def map_of_map_value)
  then show ?thesis
    using assms Some
    by (auto simp: pg_approval_decide_def approval_decide_def Let_def approvals_abs_update split: if_splits)
qed

text \<open>
  C12. The PostgreSQL approval store refines the in-memory one: reading a request gives what the in-memory
  store would give; a decision succeeds with the same request in both or is refused in both, and leaves
  corresponding stores (an expired request is marked in both); and a creation that the database accepts
  is one the in-memory store accepts, of the request the table remembers: the same ids, reason and times, pending and
  undecided whatever decision the created request carried, without an event if it had none, and otherwise with an event of
  the request's ids, the same type, the payload as the JSONB column returns it and the source id as the text column
  returns it, but with the event id as the aggregate, no correlation and the time of reading.
\<close>

theorem pg_approvals_refine_memory:
  "pg_approval_get now aid t = approval_get aid (approvals_abs now t)
   \<and> (case approval_decide n n aid d who (approvals_abs now t) of (ra, s) \<Rightarrow>
        case pg_approval_decide n now aid d who t of (rc, t1) \<Rightarrow>
          s = approvals_abs now t1
          \<and> (case ra of Inr q \<Rightarrow> rc = Inr q | Inl e \<Rightarrow> \<exists>m. rc = Inl (Exn ValueError m)))
   \<and> (\<forall>t2. pg_approval_create de q rid t = Inr t2 \<longrightarrow>
        (\<exists>q'. remembered de now q q' \<and> approval_create q' (approvals_abs now t) = Inr (approvals_abs now t2)))"
proof -
  obtain rc t1 where c: "pg_approval_decide n now aid d who t = (rc, t1)" by fastforce
  obtain ra s where a: "approval_decide n n aid d who (approvals_abs now t) = (ra, s)" by fastforce
  from pg_decide_refines [OF c a] show ?thesis
    by (simp add: a c approvals_abs_get) (blast intro: pg_create_refines)
qed

definition sample_approval :: approval_request where
  "sample_approval =
     \<lparr>ap_approval_id = ''a1'', ap_tenant_id = ''acme'', ap_workspace_id = ''w'', ap_workflow_id = ''wf1'',
      ap_event_id = ''ev1'', ap_reason = ''rule matched'', ap_created_at = 0, ap_expires_at = 3600000000,
      ap_event = Some sample_event, ap_decision = AD_PENDING, ap_decided_by = None, ap_decided_at = None\<rparr>"

theorem pg_approvals_refine_memory_witness:
  "\<exists>t2 q'. pg_approval_create sample_de sample_approval None [] = Inr t2
     \<and> remembered sample_de 5 sample_approval q' \<and> approval_create q' [] = Inr (approvals_abs 5 t2)"
proof -
  obtain t2 where t2: "pg_approval_create sample_de sample_approval None [] = Inr t2"
    by (simp add: pg_approval_create_def sample_approval_def sample_de_def sample_pg_def sample_event_def
        jsonb_object_def jsonb_value_def source_column_def)
  with pg_approvals_refine_memory [of 5 _ "[]" _ _ _ sample_de sample_approval None] show ?thesis
    by (fastforce simp: approvals_abs_def)
qed

end
