(* ===== verification/Engine_Limits.thy ===== *)
theory Engine_Limits
  imports Engine_Properties
begin

text \<open>
  What the durable engine, the ledger and the sweeper do at their edges: the ledger keeps the first
  result of a key but its first \<open>prepare\<close> raises, a decided approval can be resumed again after the run
  has completed, an approval is shared by every run of an event id, a string result raises after it was
  recorded, and a run that is alive can be swept.
\<close>

section \<open>The ledger\<close>

text \<open>The first \<open>prepare\<close> of a key inserts its row and raises; the next one returns that row.\<close>

lemma first_prepare_raises:
  assumes "ledger_find (eq_idempotency_key q) t = None" and "jsonb_object (du_pg de) (eq_request q) = Inr req"
    and "eid \<notin> set (map lg_effect_id t)"
  shows "\<exists>r. ledger_prepare de eid q t = (Inl (Exn (OtherException ''IndexError'') ''tuple index out of range''), t @ [r])
     \<and> lg_effect_id r = eid \<and> lg_request r = req
     \<and> ledger_prepare de eid' q (t @ [r]) = (entry_of_tuple de (Selected r), t @ [r])
     \<and> (\<exists>x. entry_of_tuple de (Selected r) = Inr x \<and> le_effect_id x = eid)"
proof -
  have "\<not> list_ex (\<lambda>r. lg_effect_id r = eid) t" using assms(3) by (auto simp: list_ex_iff)
  then show ?thesis
    using assms(1,2)
    by (simp add: ledger_prepare_def prepare_tuple_def ledger_find_def find_append decode_column_def)
qed

datatype ledger_op = Prepare uuid effect_request | Complete timestamp string pyval

fun ledger_apply :: "durable_env \<Rightarrow> ledger_op \<Rightarrow> ledger_row list \<Rightarrow> ledger_row list" where
  "ledger_apply de (Prepare eid q) t = snd (ledger_prepare de eid q t)"
| "ledger_apply de (Complete now key v) t = snd (ledger_complete de now key v t)"

lemma ledger_find_map:
  "(\<And>r. lg_idempotency_key (f r) = lg_idempotency_key r) \<Longrightarrow> ledger_find k (map f t) = map_option f (ledger_find k t)"
  unfolding ledger_find_def by (induction t) auto

lemma ledger_find_key: "ledger_find k t = Some r \<Longrightarrow> lg_idempotency_key r = k"
  by (auto simp: ledger_find_def find_Some_iff)

lemma completed_kept:
  assumes "ledger_find k t = Some r" and "lg_status r = ''completed''"
  shows "ledger_find k (ledger_apply de op t) = Some r"
proof (cases op)
  case (Prepare eid q)
  have "ledger_find k (t @ [x]) = Some r" for x using assms(1) by (simp add: ledger_find_def find_append)
  then show ?thesis
    using Prepare assms(1)
    by (cases "prepare_tuple de eid q t")
      (auto simp: ledger_prepare_def prepare_tuple_def rbind_Inr split: option.splits if_splits)
next
  case (Complete now key v)
  show ?thesis
  proof (cases "key = k \<or> isl (jsonb_value (du_pg de) v) \<or> ledger_find key t = None")
    case True
    then show ?thesis
      using Complete assms by (auto simp: ledger_complete_def split: sum.splits)
  next
    case False
    then obtain x r0 where x: "jsonb_value (du_pg de) v = Inr x" "ledger_find key t = Some r0" "key \<noteq> k"
      by (cases "jsonb_value (du_pg de) v") auto
    have key: "lg_idempotency_key r0 = key" "lg_idempotency_key r = k"
      using ledger_find_key x(2) assms(1) by blast+
    show ?thesis
    proof (cases "lg_status r0 = ''completed''")
      case True
      then show ?thesis using Complete x assms(1) by (simp add: ledger_complete_def)
    next
      case no: False
      define r' where "r' = r0\<lparr>lg_status := ''completed'', lg_result := Some x,
          lg_completed_at := Some (case lg_completed_at r0 of None \<Rightarrow> now | Some c \<Rightarrow> c)\<rparr>"
      have "ledger_apply de op t = map (\<lambda>y. if lg_idempotency_key y = key then r' else y) t"
        using Complete x no by (simp add: ledger_complete_def r'_def Let_def)
      moreover have "ledger_find k (map (\<lambda>y. if lg_idempotency_key y = key then r' else y) t)
          = map_option (\<lambda>y. if lg_idempotency_key y = key then r' else y) (ledger_find k t)"
        by (rule ledger_find_map) (simp add: r'_def key)
      ultimately show ?thesis using assms(1) key x(3) by simp
    qed
  qed
qed

lemma ledger_result_is_final:
  assumes "ledger_find k t = Some r" and "lg_status r = ''completed''"
  shows "ledger_find k (fold (ledger_apply de) ops t) = Some r"
  using assms(1) by (induction ops arbitrary: t) (simp_all add: completed_kept [OF _ assms(2)])

section \<open>Approvals\<close>

text \<open>A pending request for the event id is taken, whosever it is, and none is created for the run.\<close>

lemma approval_is_shared:
  assumes "pg_approval_by_event (clock (du_env de) (ew_tick w)) (ri_event_id (dr_identity run)) (ad_approvals (ew_db w)) = Some q"
  shows "approval_for de run ev reason w = (Inr q, w\<lparr>ew_tick := Suc (ew_tick w)\<rparr>)"
  using assms by (simp add: approval_for_def transact_def em_simps)

definition other_tenant_row :: approval_row where
  "other_tenant_row =
     \<lparr>ay_tenant_id = ''other'', ay_workspace_id = ''w'', ay_workflow_id = ''wf9'', ay_event_id = ''ev1'',
      ay_reason = [], ay_decision = AD_PENDING, ay_created_at = 0, ay_expires_at = 3600000000,
      ay_decided_by = None, ay_decided_at = None, ay_run_id = None, ay_event_payload = [], ay_source_id = None,
      ay_event_type = None\<rparr>"

definition gated_event :: event_envelope where
  "gated_event = sample_event\<lparr>en_payload := [(''requires_approval'', PBool True)]\<rparr>"

definition shared_start :: "(py_exn + durable_receipt) \<times> engine_world" where
  "shared_start = engine_start sample_de (lo_policy sample_loop) (sample_workflow failing_action) gated_event ''a'' ok_exec False
     (engine_init\<lparr>ew_db := (ew_db engine_init)\<lparr>ad_approvals := [(''theirs'', other_tenant_row)]\<rparr>\<rparr>)"

lemma waits_for_other_tenant:
  "\<exists>x. fst shared_start = Inr x \<and> dx_approval_id x = Some ''theirs'' \<and> ri_tenant_id (dr_identity (dx_run x)) = ''acme''
     \<and> dr_status (dx_run x) = RS_WAITING_APPROVAL \<and> map fst (ad_approvals (ew_db (snd shared_start))) = [''theirs'']"
proof -
  have "case fst shared_start of Inr x \<Rightarrow> dx_approval_id x = Some ''theirs'' \<and> ri_tenant_id (dr_identity (dx_run x)) = ''acme''
      \<and> dr_status (dx_run x) = RS_WAITING_APPROVAL | Inl _ \<Rightarrow> False"
    and "map fst (ad_approvals (ew_db (snd shared_start))) = [''theirs'']"
    by code_simp+
  then show ?thesis by (cases "fst shared_start") simp_all
qed

text \<open>Start with an approval required, approve, and resume twice: the callback runs twice.\<close>

definition gated_start :: engine_world where
  "gated_start = snd (engine_start sample_de (lo_policy sample_loop) (sample_workflow failing_action) gated_event ''a'' ok_exec False engine_init)"

definition approve_all :: "engine_world \<Rightarrow> engine_world" where
  "approve_all w = w\<lparr>ew_db := (ew_db w)\<lparr>ad_approvals :=
     fold (\<lambda>aid t. snd (pg_approval_decide 5 5 aid AD_APPROVED ''human'' t)) (map fst (ad_approvals (ew_db w))) (ad_approvals (ew_db w))\<rparr>\<rparr>"

definition resume_all :: "engine_world \<Rightarrow> engine_world" where
  "resume_all w = fold (\<lambda>aid w. snd (engine_resume_approval sample_de (lo_policy sample_loop) aid ''a'' ok_exec (sample_workflow failing_action) w))
     (map fst (ad_approvals (ew_db w))) w"

lemma approved_run_repeats:
  "map rw_status (ad_runs (ew_db gated_start)) = [RS_WAITING_APPROVAL]"
  "map rw_status (ad_runs (ew_db (resume_all (approve_all gated_start)))) = [RS_COMPLETED]"
  "length (ew_calls (resume_all (approve_all gated_start))) = 1"
  "length (ew_calls (resume_all (resume_all (approve_all gated_start)))) = 2"
  by code_simp+

section \<open>Runs\<close>

text \<open>A string result is committed, and then reading the returned row raises.\<close>

lemma string_result_raises:
  assumes "List.find (\<lambda>r. rw_run_id r = rid) (ad_runs (ew_db w)) = Some r"
    and "jsonb_value (du_pg de) (PStr s) = Inr (PStr s)" and "du_loads de s = Inl e"
  shows "\<exists>w'. run_transition de rid ((to_status RS_COMPLETED)\<lparr>ch_result := PStr s\<rparr>) w = (Inl e, w')
     \<and> run_get de rid (ad_runs (ew_db w')) = Inl e"
proof -
  define r' where "r' = r\<lparr>rw_status := RS_COMPLETED, rw_result := Some (PStr s), rw_updated_at := clock (du_env de) (ew_tick w)\<rparr>"
  have rid: "rw_run_id r' = rid" using find_in [OF assms(1)] by (simp add: r'_def)
  let ?t = "map (\<lambda>x. if rw_run_id x = rid then r' else x) (ad_runs (ew_db w))"
  have "run_update de (clock (du_env de) (ew_tick w)) rid ((to_status RS_COMPLETED)\<lparr>ch_result := PStr s\<rparr>) (ad_runs (ew_db w))
      = Inr (r', ?t)"
    using assms(1,2) by (simp add: run_update_def changed_row_def to_status_def r'_def)
  moreover have raises: "run_of_row de r' = Inl e" using assms(3) by (simp add: run_of_row_def decode_column_def r'_def)
  moreover have "List.find (\<lambda>x. rw_run_id x = rid) ?t = Some r'"
    using assms(1) rid find_in [OF assms(1)] by (subst find_map_id) auto
  ultimately show ?thesis
    by (simp add: run_transition_def transact_def attempt_def em_simps run_get_def fetch_run_def)
qed

text \<open>A transition does not renew the heartbeat: a run just set to running is swept if it was created long ago.\<close>

lemma live_run_is_swept:
  assumes "run_update de now rid (to_status RS_RUNNING) t = Inr (r, t')" and "distinct (run_ids t)"
    and "rw_last_heartbeat_at r < now - sp_stale_after_seconds sp * 1000000" and "rw_recovery_count r < sp_max_recoveries sp"
  shows "rw_updated_at r = now \<and> abandoned sp now r \<and> r \<in> set t'"
proof -
  obtain r0 where f: "List.find (\<lambda>r. rw_run_id r = rid) t = Some r0" and c: "changed_row de now (to_status RS_RUNNING) r0 = Inr r"
    and t': "t' = map (\<lambda>x. if rw_run_id x = rid then r else x) t"
    using assms(1) by (auto simp: run_update_def rbind_Inr split: option.splits)
  have "rw_updated_at r = now" using c by (auto simp: changed_row_def rbind_Inr)
  moreover have "rw_status r = RS_RUNNING" using changed_row_same [OF c] by (simp add: to_status_def)
  moreover have "r \<in> set t'" using find_in [OF f] t' by force
  ultimately show ?thesis using assms(3,4) by (simp add: abandoned_def)
qed

end
