(* ===== verification/Engine_Concurrency.thy ===== *)
theory Engine_Concurrency
  imports Engine_Properties
begin

text \<open>
  The durable engine with many workers at once. A method of the engine is here a program: a tree of transactions and
  calls of the callback, cut at every point where another process may run. Run alone, the programs are the methods of
  \<^verbatim>\<open>engine.py\<close> (\<open>run_start_prog\<close>, \<open>run_resume_prog\<close>). A pool interleaves the transactions of any number of workers,
  with callbacks that take any time, and an event is still executed once by \<open>start\<close>.
\<close>

section \<open>Programs of transactions\<close>

datatype 'a prog =
  Done "py_exn + 'a"
| Tx "nat \<Rightarrow> auto_db \<Rightarrow> 'a prog" "nat \<Rightarrow> auto_db \<Rightarrow> auto_db"
| Call run_identity source_workflow event_envelope "py_exn + pyval \<Rightarrow> 'a prog"

primrec pbind :: "'a prog \<Rightarrow> ('a \<Rightarrow> 'b prog) \<Rightarrow> 'b prog" where
  "pbind (Done r) f = (case r of Inl e \<Rightarrow> Done (Inl e) | Inr x \<Rightarrow> f x)"
| "pbind (Tx t u) f = Tx (\<lambda>n db. pbind (t n db) f) u"
| "pbind (Call i wfl ev k) f = Call i wfl ev (\<lambda>r. pbind (k r) f)"

definition ptransact :: "durable_env \<Rightarrow> (timestamp \<Rightarrow> auto_db \<Rightarrow> (py_exn + 'a) \<times> auto_db) \<Rightarrow> 'a prog" where
  "ptransact de f = Tx (\<lambda>n db. Done (fst (f (clock (du_env de) n) db))) (\<lambda>n db. snd (f (clock (du_env de) n) db))"

definition puuid :: "durable_env \<Rightarrow> uuid prog" where
  "puuid de = Tx (\<lambda>n db. Done (Inr (fresh_uuid (du_env de) n))) (\<lambda>n db. db)"

definition pclock :: "durable_env \<Rightarrow> timestamp prog" where
  "pclock de = Tx (\<lambda>n db. Done (Inr (clock (du_env de) n))) (\<lambda>n db. db)"

text \<open>A program run alone, with the callback's effect on the tables.\<close>

primrec run_prog :: "executor \<Rightarrow> 'a prog \<Rightarrow> (engine_world, 'a) em" where
  "run_prog exec (Done r) = (\<lambda>w. (r, w))"
| "run_prog exec (Tx t u) = (\<lambda>w.
     run_prog exec (t (ew_tick w) (ew_db w)) (w\<lparr>ew_tick := Suc (ew_tick w), ew_db := u (ew_tick w) (ew_db w)\<rparr>))"
| "run_prog exec (Call i wfl ev k) = (\<lambda>w.
     case exec wfl ev (ew_tick w) (ew_db w) of
       (r, db) \<Rightarrow> run_prog exec (k r) (w\<lparr>ew_tick := Suc (ew_tick w), ew_calls := ew_calls w @ [i], ew_db := db\<rparr>))"

section \<open>The methods of the engine as programs\<close>

definition event_prog :: "durable_env \<Rightarrow> run_identity \<Rightarrow> durable_run option prog" where
  "event_prog de i = ptransact de (\<lambda>_ db. (run_by_event de i (ad_runs db), db))"

definition insert_tx :: "durable_env \<Rightarrow> durable_run \<Rightarrow> timestamp \<Rightarrow> auto_db \<Rightarrow> (py_exn + bool) \<times> auto_db" where
  "insert_tx de run = (\<lambda>now. attempt (\<lambda>db. rbind (run_insert de now run (ad_runs db)) (\<lambda>(b, t). Inr (b, db\<lparr>ad_runs := t\<rparr>))))"

definition create_prog :: "durable_env \<Rightarrow> durable_run \<Rightarrow> durable_run prog" where
  "create_prog de run =
     pbind (ptransact de (insert_tx de run)) (\<lambda>inserted.
     if inserted then Done (Inr run)
     else pbind (event_prog de (dr_identity run)) (\<lambda>x.
       case x of
         None \<Rightarrow> Done (Inl (Exn RuntimeError ''workflow run insert conflicted but existing run was not found''))
       | Some r \<Rightarrow> Done (Inr r)))"

definition claim_prog :: "durable_env \<Rightarrow> durable_run \<Rightarrow> bool prog" where
  "claim_prog de run = ptransact de (\<lambda>_. claim_tx run)"

definition transition_prog :: "durable_env \<Rightarrow> worker_lease \<Rightarrow> uuid \<Rightarrow> run_change \<Rightarrow> durable_run prog" where
  "transition_prog de lease rid ch = pbind (ptransact de (fenced_update de lease rid ch)) (\<lambda>r. Done (run_of_row de r))"

definition lease_prog :: "durable_env \<Rightarrow> uuid \<Rightarrow> string \<Rightarrow> worker_lease option prog" where
  "lease_prog de rid worker =
     pbind (pclock de) (\<lambda>now1. pbind (pclock de) (\<lambda>now2.
     ptransact de (\<lambda>now. attempt (\<lambda>db.
       rbind (lease_claim (du_ttl de) now1 now2 now rid worker (ad_leases db)) (\<lambda>(l, t). Inr (l, db\<lparr>ad_leases := t\<rparr>))))))"

definition release_prog :: "durable_env \<Rightarrow> worker_lease \<Rightarrow> unit prog" where
  "release_prog de lease = ptransact de (\<lambda>_ db. (Inr (), db\<lparr>ad_leases := lease_release lease (ad_leases db)\<rparr>))"

definition settle_prog :: "durable_env \<Rightarrow> worker_lease \<Rightarrow> uuid \<Rightarrow> run_change \<Rightarrow> string option \<Rightarrow> durable_receipt prog" where
  "settle_prog de lease rid ch a =
     pbind (transition_prog de lease rid ch) (\<lambda>run. pbind (release_prog de lease) (\<lambda>_. Done (Inr (receipt run a))))"

definition approval_tx :: "durable_env \<Rightarrow> durable_run \<Rightarrow> event_envelope \<Rightarrow> string \<Rightarrow> timestamp \<Rightarrow> auto_db \<Rightarrow> (py_exn + approval_request) \<times> auto_db" where
  "approval_tx de run ev reason = (\<lambda>now. attempt (\<lambda>db.
     let q = \<lparr>ap_approval_id = dr_run_id run, ap_tenant_id = ri_tenant_id (dr_identity run),
              ap_workspace_id = ri_workspace_id (dr_identity run), ap_workflow_id = ri_workflow_id (dr_identity run),
              ap_event_id = ri_event_id (dr_identity run), ap_reason = reason, ap_created_at = now,
              ap_expires_at = now + 3600 * 1000000, ap_event = Some ev, ap_decision = AD_PENDING,
              ap_decided_by = None, ap_decided_at = None\<rparr>
     in rbind (pg_approval_create de q (Some (dr_run_id run)) (ad_approvals db)) (\<lambda>t. Inr (q, db\<lparr>ad_approvals := t\<rparr>))))"

definition approval_prog :: "durable_env \<Rightarrow> durable_run \<Rightarrow> event_envelope \<Rightarrow> string \<Rightarrow> approval_request prog" where
  "approval_prog de run ev reason =
     pbind (ptransact de (\<lambda>now db.
       (Inr (pg_approval_by_event now (ri_event_id (dr_identity run)) (ad_approvals db)), db))) (\<lambda>x.
     case x of Some q \<Rightarrow> Done (Inr q) | None \<Rightarrow> ptransact de (approval_tx de run ev reason))"

definition perform_prog :: "durable_env \<Rightarrow> durable_run \<Rightarrow> source_workflow \<Rightarrow> event_envelope \<Rightarrow> worker_lease \<Rightarrow> durable_receipt prog" where
  "perform_prog de run wfl ev lease =
     pbind (transition_prog de lease (dr_run_id run)
       ((to_status RS_RUNNING)\<lparr>ch_checkpoint := Some [(''phase'', PStr ''execution''), (''event_id'', PStr (en_event_id ev))]\<rparr>)) (\<lambda>running.
     Call (dr_identity run) wfl ev (\<lambda>r.
       case r of
         Inr v \<Rightarrow>
           settle_prog de lease (dr_run_id run)
             ((to_status RS_COMPLETED)\<lparr>ch_checkpoint := Some [(''phase'', PStr ''completed''), (''event_id'', PStr (en_event_id ev))],
                ch_result := v\<rparr>) None
       | Inl e \<Rightarrow>
           settle_prog de lease (dr_run_id run)
             ((to_status RS_RECOVERING)\<lparr>ch_attempt := Some (dr_attempt running + 1),
                ch_checkpoint := Some [(''phase'', PStr ''recovery''), (''event_id'', PStr (en_event_id ev))],
                ch_error := Some [(''type'', PStr (exn_name (exn_class e))), (''message'', PStr (exn_str e))]\<rparr>) None))"

definition execute_prog ::
  "durable_env \<Rightarrow> policy_rule list \<Rightarrow> durable_run \<Rightarrow> source_workflow \<Rightarrow> event_envelope \<Rightarrow> worker_lease \<Rightarrow> bool \<Rightarrow> durable_receipt prog" where
  "execute_prog de policy run wfl ev lease approval_granted =
     (case automation_evaluate policy (policy_context ev) of
        Inl e \<Rightarrow> Done (Inl e)
      | Inr pe \<Rightarrow>
         (if pe_outcome pe = PO_DENY then settle_prog de lease (dr_run_id run) (to_status RS_STOPPED) None
          else if pe_outcome pe = PO_APPROVAL_REQUIRED \<and> \<not> approval_granted
          then pbind (approval_prog de run ev (pe_reason pe)) (\<lambda>q.
               settle_prog de lease (dr_run_id run)
                 ((to_status RS_WAITING_APPROVAL)\<lparr>ch_checkpoint :=
                    Some [(''phase'', PStr ''approval''), (''approval_id'', PStr (ap_approval_id q))]\<rparr>)
                 (Some (ap_approval_id q)))
          else perform_prog de run wfl ev lease))"

definition claimed_prog ::
  "durable_env \<Rightarrow> policy_rule list \<Rightarrow> durable_run \<Rightarrow> source_workflow \<Rightarrow> event_envelope \<Rightarrow> string \<Rightarrow> durable_receipt prog" where
  "claimed_prog de policy run wfl ev worker =
     pbind (lease_prog de (dr_run_id run) worker) (\<lambda>l.
     case l of None \<Rightarrow> Done (Inr (receipt run None)) | Some lease \<Rightarrow> execute_prog de policy run wfl ev lease False)"

definition start_prog ::
  "durable_env \<Rightarrow> policy_rule list \<Rightarrow> source_workflow \<Rightarrow> event_envelope \<Rightarrow> string \<Rightarrow> durable_receipt prog" where
  "start_prog de policy wfl ev worker =
     (if \<not> workflow_matches wfl ev then Done (Inl (Exn ValueError ''workflow trigger did not match event''))
      else
        pbind (puuid de) (\<lambda>rid.
        pbind (create_prog de (new_run rid (event_identity wfl ev) None)) (\<lambda>run.
        pbind (claim_prog de run) (\<lambda>claimed.
        if \<not> claimed
        then pbind (event_prog de (dr_identity run)) (\<lambda>x.
             case x of
               None \<Rightarrow> Done (Inl (Exn RuntimeError ''idempotency claim lost without an existing workflow run''))
             | Some r \<Rightarrow> Done (Inr (receipt r None)))
        else claimed_prog de policy run wfl ev worker))))"

definition resume_prog ::
  "durable_env \<Rightarrow> policy_rule list \<Rightarrow> uuid \<Rightarrow> string \<Rightarrow> source_workflow \<Rightarrow> durable_receipt prog" where
  "resume_prog de policy aid worker wfl =
     pbind (ptransact de (\<lambda>now db. (Inr (pg_approval_get now aid (ad_approvals db)), db))) (\<lambda>x.
     case x of
       None \<Rightarrow> Done (Inl (Exn KeyError ''approval not found''))
     | Some q \<Rightarrow>
        if ap_decision q \<noteq> AD_APPROVED then Done (Inl (Exn ValueError ''approval is not approved''))
        else pbind (event_prog de
               \<lparr>ri_tenant_id = ap_tenant_id q, ri_workspace_id = ap_workspace_id q, ri_workflow_id = ap_workflow_id q,
                ri_workflow_version = sw_version wfl, ri_event_id = ap_event_id q\<rparr>) (\<lambda>y.
             case y of
               None \<Rightarrow> Done (Inl (Exn KeyError ''workflow run for approval not found''))
             | Some run \<Rightarrow>
                pbind (lease_prog de (dr_run_id run) worker) (\<lambda>l.
                case l of
                  None \<Rightarrow> Done (Inl (Exn RuntimeError ''workflow run is owned by another worker''))
                | Some lease \<Rightarrow>
                   pbind (ptransact de (\<lambda>now db. (lease_assert_current now lease (ad_leases db), db))) (\<lambda>_.
                   pbind (ptransact de (\<lambda>now db. (pg_resume_event now aid (ad_approvals db), db))) (\<lambda>ev.
                   execute_prog de policy run wfl ev lease True)))))"

section \<open>Run alone, the programs are the methods\<close>

lemma prog_induct [case_names Done Tx Call, induct type: prog]:
  assumes "\<And>r. P (Done r)" and "\<And>t u. (\<And>n db. P (t n db)) \<Longrightarrow> P (Tx t u)"
    and "\<And>i wfl ev k. (\<And>r. P (k r)) \<Longrightarrow> P (Call i wfl ev k)"
  shows "P p"
proof (rule prog.induct [of P])
  fix t :: "nat \<Rightarrow> auto_db \<Rightarrow> 'a prog" and u
  assume "\<And>g p. g \<in> range t \<Longrightarrow> p \<in> range g \<Longrightarrow> P p"
  then have "P (t n db)" for n db using rangeI by blast
  then show "P (Tx t u)" by (rule assms(2))
qed (auto intro: assms)

lemma run_pbind: "run_prog exec (pbind p f) = ebind (run_prog exec p) (\<lambda>x. run_prog exec (f x))"
  by (induction p) (auto simp: fun_eq_iff em_simps split: sum.splits prod.splits)

lemma run_ptransact: "run_prog exec (ptransact de f) = transact de f"
  by (simp add: fun_eq_iff ptransact_def transact_def split_def)

lemma run_Done: "run_prog exec (Done r) = elift r"
  by (auto simp: fun_eq_iff em_simps split: sum.splits)

lemma elift_ends: "elift (Inr x) = eret x" "elift (Inl e) = eraise e"
  by (auto simp: fun_eq_iff em_simps)

lemma run_puuid: "run_prog exec (puuid de) = engine_uuid de" "run_prog exec (pclock de) = engine_clock de"
  by (simp_all add: fun_eq_iff puuid_def pclock_def engine_uuid_def engine_clock_def)

lemma run_Call:
  "run_prog exec (Call (dr_identity run) wfl ev k) = (\<lambda>w. case call_executor exec run wfl ev w of (r, w1) \<Rightarrow> run_prog exec (k r) w1)"
  by (simp add: fun_eq_iff call_executor_def split_def)

declare run_prog.simps [simp del]

lemmas run_prog_simps = run_pbind run_ptransact run_Done elift_ends run_puuid if_distrib [of "run_prog exec" for exec]
  option.case_distrib [of "run_prog exec" for exec] sum.case_distrib [of "run_prog exec" for exec]

lemma run_event_prog: "run_prog exec (event_prog de i) = run_event de i"
  by (simp add: event_prog_def run_event_def run_prog_simps)

lemma run_create_prog: "run_prog exec (create_prog de run) = run_create de run"
  by (simp add: create_prog_def run_create_def insert_tx_def run_event_prog run_prog_simps cong: if_cong option.case_cong)

lemma run_claim_prog: "run_prog exec (claim_prog de run) = run_claim de run"
  by (simp add: claim_prog_def run_claim_def run_prog_simps)

lemma run_transition_prog: "run_prog exec (transition_prog de lease rid ch) = fenced_transition de lease rid ch"
  by (simp add: transition_prog_def fenced_transition_def run_prog_simps)

lemma run_lease_prog: "run_prog exec (lease_prog de rid worker) = claim_lease de rid worker"
  by (simp add: lease_prog_def claim_lease_def run_prog_simps)

lemma run_settle_prog: "run_prog exec (settle_prog de lease rid ch a) = settle de lease rid ch a"
  by (simp add: settle_prog_def settle_def release_prog_def release_lease_def eseq_def run_transition_prog run_prog_simps)

lemma run_approval_prog: "run_prog exec (approval_prog de run ev reason) = approval_for de run ev reason"
  by (simp add: approval_prog_def approval_for_def approval_tx_def run_prog_simps cong: option.case_cong)

lemma run_perform_prog: "run_prog exec (perform_prog de run wfl ev lease) = perform_run de run wfl ev lease exec"
  unfolding perform_prog_def perform_run_def run_pbind run_transition_prog run_Call
  by (intro arg_cong2 [where f = ebind] refl ext) (auto simp: run_settle_prog run_prog_simps split: prod.splits sum.splits)

lemma run_execute_prog:
  "run_prog exec (execute_prog de policy run wfl ev lease granted) = engine_execute de policy run wfl ev lease exec granted"
  unfolding execute_prog_def engine_execute_def
  by (cases "automation_evaluate policy (policy_context ev)")
    (auto simp: fun_eq_iff em_simps run_settle_prog run_approval_prog run_perform_prog run_prog_simps)

theorem run_start_prog:
  "run_prog exec (start_prog de policy wfl ev worker) = engine_start de policy wfl ev worker exec granted"
  by (simp add: start_prog_def engine_start_def claimed_prog_def run_create_prog run_claim_prog run_event_prog
      run_lease_prog run_execute_prog run_prog_simps cong: if_cong option.case_cong)

theorem run_resume_prog:
  "run_prog exec (resume_prog de policy aid worker wfl) = engine_resume_approval de policy aid worker exec wfl"
  by (simp add: resume_prog_def engine_resume_approval_def fenced_resume_event_def run_event_prog run_lease_prog
      run_execute_prog run_prog_simps ebind_assoc cong: if_cong option.case_cong)

section \<open>What a program may do\<close>

text \<open>
  Every transaction keeps the claims and the keys of the runs; the program calls the callback never (\<open>None\<close>) or
  at most once, for one identity.
\<close>

inductive may :: "run_identity option \<Rightarrow> 'a prog \<Rightarrow> bool" where
  may_done: "may c (Done r)"
| may_tx: "(\<And>n db. kept db (u n db)) \<Longrightarrow> (\<And>n db. may c (t n db)) \<Longrightarrow> may c (Tx t u)"
| may_call: "(\<And>r. may None (k r)) \<Longrightarrow> may (Some i) (Call i wfl ev k)"

text \<open>Like \<open>may None\<close> on tables of keyed runs, with a fact about the result.\<close>

inductive yields :: "('a \<Rightarrow> bool) \<Rightarrow> 'a prog \<Rightarrow> bool" where
  yields_raise: "yields Q (Done (Inl e))"
| yields_return: "Q x \<Longrightarrow> yields Q (Done (Inr x))"
| yields_tx: "(\<And>n db. keyed (ad_runs db) \<Longrightarrow> kept db (u n db)) \<Longrightarrow>
    (\<And>n db. keyed (ad_runs db) \<Longrightarrow> yields Q (t n db)) \<Longrightarrow> yields Q (Tx t u)"

text \<open>A program that calls the callback for an identity only after the transaction in which it claimed the key.\<close>

inductive seeks :: "'a prog \<Rightarrow> bool" where
  seeks_may: "may None p \<Longrightarrow> seeks p"
| seeks_tx: "(\<And>n db. keyed (ad_runs db) \<Longrightarrow> kept db (u n db)) \<Longrightarrow>
    (\<And>n db. keyed (ad_runs db) \<Longrightarrow> seeks (t n db)
        \<or> (\<exists>i. may (Some i) (t n db) \<and> \<not> claimed db (identity_key i) \<and> claimed (u n db) (identity_key i)))
    \<Longrightarrow> seeks (Tx t u)"

text \<open>Every transaction keeps the claims and the keys; calls are free.\<close>

inductive keeps :: "'a prog \<Rightarrow> bool" where
  keeps_done: "keeps (Done r)"
| keeps_tx: "(\<And>n db. kept db (u n db)) \<Longrightarrow> (\<And>n db. keeps (t n db)) \<Longrightarrow> keeps (Tx t u)"
| keeps_call: "(\<And>r. keeps (k r)) \<Longrightarrow> keeps (Call i wfl ev k)"

inductive_cases may_TxE: "may c (Tx t u)"
inductive_cases may_CallE: "may c (Call i wfl ev k)"
inductive_cases seeks_TxE: "seeks (Tx t u)"
inductive_cases seeks_CallE: "seeks (Call i wfl ev k)"
inductive_cases keeps_TxE: "keeps (Tx t u)"
inductive_cases keeps_CallE: "keeps (Call i wfl ev k)"

lemma may_weaken: "may c p \<Longrightarrow> c = None \<Longrightarrow> may c' p"
  by (induction rule: may.induct) (auto intro: may.intros)

lemma may_pbind: "may None p \<Longrightarrow> (\<And>x. may c (f x)) \<Longrightarrow> may c (pbind p f)"
  by (induction "None :: run_identity option" p rule: may.induct) (auto intro: may.intros split: sum.split)

lemma yields_pbind: "yields Q p \<Longrightarrow> (\<And>x. Q x \<Longrightarrow> yields R (f x)) \<Longrightarrow> yields R (pbind p f)"
  by (induction rule: yields.induct) (auto intro: yields.intros)

lemma seeks_pbind: "yields Q p \<Longrightarrow> (\<And>x. Q x \<Longrightarrow> seeks (f x)) \<Longrightarrow> seeks (pbind p f)"
  by (induction rule: yields.induct) (auto intro: seeks.intros may.intros)

lemma may_keeps: "may c p \<Longrightarrow> keeps p"
  by (induction rule: may.induct) (auto intro: keeps.intros)

lemma keeps_pbind: "keeps p \<Longrightarrow> (\<And>x. keeps (f x)) \<Longrightarrow> keeps (pbind p f)"
  by (induction rule: keeps.induct) (auto intro: keeps.intros split: sum.split)

lemma may_ptransact: "(\<And>now db. kept db (snd (f now db))) \<Longrightarrow> may c (ptransact de f)"
  by (auto simp: ptransact_def intro!: may.intros)

section \<open>What the methods may do\<close>

lemma clock_may: "may c (pclock de)" "may c (puuid de)"
  by (auto simp: pclock_def puuid_def intro!: may.intros)

lemma event_may: "may c (event_prog de i)"
  unfolding event_prog_def by (rule may_ptransact) simp

lemma transition_may: "may c (transition_prog de lease rid ch)"
proof -
  have "may None (ptransact de (fenced_update de lease rid ch))"
    unfolding fenced_update_def by (intro may_ptransact attempt_kept) (rule update_transaction_kept)
  then show ?thesis unfolding transition_prog_def by (rule may_pbind) (rule may_done)
qed

lemma lease_may: "may c (lease_prog de rid worker)"
  unfolding lease_prog_def by (intro may_pbind clock_may may_ptransact attempt_kept) (rule lease_kept)

lemma settle_may: "may c (settle_prog de lease rid ch a)"
  unfolding settle_prog_def release_prog_def
  by (intro may_pbind transition_may may_ptransact may_done) (simp add: kept_same)

lemma approval_may: "may c (approval_prog de run ev reason)"
proof -
  have "kept db (snd (approval_tx de run ev reason now db))" for now db
    unfolding approval_tx_def Let_def by (rule attempt_kept) (auto simp: rbind_Inr intro!: kept_same)
  then show ?thesis
    unfolding approval_prog_def by (intro may_pbind may_ptransact) (auto split: option.split intro: may_done may_ptransact)
qed

lemma perform_may: "may (Some (dr_identity run)) (perform_prog de run wfl ev lease)"
  unfolding perform_prog_def
  by (intro may_pbind transition_may may_call) (auto split: sum.split intro: settle_may)

lemma execute_may: "may (Some (dr_identity run)) (execute_prog de policy run wfl ev lease granted)"
  unfolding execute_prog_def
  by (auto split: sum.split intro: may_done settle_may may_pbind approval_may perform_may)

lemma claimed_may: "may (Some (dr_identity run)) (claimed_prog de policy run wfl ev worker)"
  unfolding claimed_prog_def
  by (intro may_pbind lease_may) (auto split: option.split intro: may_done execute_may)

abbreviation run_for :: "run_identity \<Rightarrow> durable_run \<Rightarrow> bool" where
  "run_for i run \<equiv> dr_identity run = i \<and> dr_idempotency_key run = identity_key i"

lemma insert_tx_kept: "dr_idempotency_key run = identity_key (dr_identity run) \<Longrightarrow> kept db (snd (insert_tx de run now db))"
  unfolding insert_tx_def by (rule attempt_kept) (auto simp: rbind_Inr kept_def claimed_def intro: run_insert_keyed)

lemma event_yields:
  "yields (\<lambda>x. \<forall>run. x = Some run \<longrightarrow> run_for i run) (event_prog de i)"
  unfolding event_prog_def ptransact_def
proof (rule yields_tx)
  fix n db
  assume "keyed (ad_runs db)"
  then show "yields (\<lambda>x. \<forall>run. x = Some run \<longrightarrow> run_for i run) (Done (fst (run_by_event de i (ad_runs db), db)))"
    by (cases "run_by_event de i (ad_runs db)") (auto intro!: yields.intros dest: run_by_event_keyed)
qed simp

lemma create_yields: "yields (run_for i) (create_prog de (new_run rid i None))"
proof -
  have "yields (\<lambda>_. True) (ptransact de (insert_tx de (new_run rid i None)))"
    unfolding ptransact_def
    by (rule yields_tx) (auto simp: insert_tx_kept intro: yields.intros, metis sum.collapse yields.intros(1,2))
  then show ?thesis
    unfolding create_prog_def
    by (rule yields_pbind) (auto intro!: yields.intros yields_pbind [OF event_yields] split: option.split)
qed

lemma claim_tx_effect:
  "kept db (snd (claim_tx run db))" "fst (claim_tx run db) = Inr (\<not> claimed db (dr_idempotency_key run))"
  "claimed (snd (claim_tx run db)) (dr_idempotency_key run)"
  by (auto simp: claim_tx_def kept_def claimed_def map_add_def split: option.split)

lemma start_seeks: "seeks (start_prog de policy wfl ev worker)"
proof -
  have claim: "seeks (pbind (claim_prog de run) (\<lambda>c. if \<not> c then f else g))"
    if "run_for i run" "may None f" "may (Some i) g" for i run f and g :: "durable_receipt prog"
    unfolding claim_prog_def ptransact_def pbind.simps
    by (rule seeks_tx) (use that claim_tx_effect [where run = run] in \<open>auto intro: seeks_may\<close>)
  have uuid: "yields (\<lambda>_. True) (puuid de)" by (auto simp: puuid_def intro!: yields.intros)
  have lost: "may None (pbind (event_prog de i) (\<lambda>x. case x of None \<Rightarrow> Done (Inl e) | Some r \<Rightarrow> Done (Inr (receipt r None))))" for i e
    by (rule may_pbind [OF event_may]) (auto split: option.split intro: may_done)
  have won: "may (Some i) (claimed_prog de policy run wfl ev worker)" if "run_for i run" for i run
    using that claimed_may [of run] by simp
  show ?thesis
  proof (cases "workflow_matches wfl ev")
    case True
    then have eq: "start_prog de policy wfl ev worker = (pbind (puuid de) (\<lambda>rid.
        pbind (create_prog de (new_run rid (event_identity wfl ev) None)) (\<lambda>run.
        pbind (claim_prog de run) (\<lambda>claimed.
        if \<not> claimed
        then pbind (event_prog de (dr_identity run)) (\<lambda>x.
             case x of
               None \<Rightarrow> Done (Inl (Exn RuntimeError ''idempotency claim lost without an existing workflow run''))
             | Some r \<Rightarrow> Done (Inr (receipt r None)))
        else claimed_prog de policy run wfl ev worker))))"
      by (simp add: start_prog_def)
    show ?thesis
      by (subst eq, (rule seeks_pbind [OF uuid], rule seeks_pbind [OF create_yields], rule claim [OF _ lost won], assumption+))
  next
    case False
    then show ?thesis by (simp add: start_prog_def seeks_may may_done)
  qed
qed

lemma resume_keeps: "keeps (resume_prog de policy aid worker wfl)"
  unfolding resume_prog_def
  by (intro keeps_pbind may_keeps [OF may_ptransact])
    (auto split: option.split intro!: keeps_done keeps_pbind may_keeps [OF event_may] may_keeps [OF lease_may]
      may_keeps [OF may_ptransact] may_keeps [OF execute_may])

section \<open>The pool of workers\<close>

text \<open>
  Each worker is in the middle of a \<open>start\<close> or of a \<open>resume_approval\<close>: at a point of its program, or inside the
  callback. The calls of the callback are recorded, with the method that made them, when they begin.
\<close>

datatype origin = By_start | By_resume
datatype activity = At "durable_receipt prog" | Busy "py_exn + pyval \<Rightarrow> durable_receipt prog"

record pool =
  po_db :: auto_db
  po_calls :: "(origin \<times> run_identity) list"
  po_workers :: "(origin \<times> activity) list"

text \<open>
  A step: a worker begins a method; a worker runs its next transaction, at any clock reading; a worker enters the
  callback; the callback returns or raises anything; or any other transaction runs. A worker that never steps again
  has crashed.
\<close>

inductive pool_step :: "durable_env \<Rightarrow> policy_rule list \<Rightarrow> pool \<Rightarrow> pool \<Rightarrow> bool" for de policy where
  begin_start: "pool_step de policy p (p\<lparr>po_workers := po_workers p @ [(By_start, At (start_prog de policy wfl ev worker))]\<rparr>)"
| begin_resume: "pool_step de policy p (p\<lparr>po_workers := po_workers p @ [(By_resume, At (resume_prog de policy aid worker wfl))]\<rparr>)"
| transaction: "j < length (po_workers p) \<Longrightarrow> po_workers p ! j = (orig, At (Tx t u)) \<Longrightarrow>
    pool_step de policy p (p\<lparr>po_db := u n (po_db p), po_workers := (po_workers p)[j := (orig, At (t n (po_db p)))]\<rparr>)"
| enter: "j < length (po_workers p) \<Longrightarrow> po_workers p ! j = (orig, At (Call i wfl ev k)) \<Longrightarrow>
    pool_step de policy p (p\<lparr>po_calls := po_calls p @ [(orig, i)], po_workers := (po_workers p)[j := (orig, Busy k)]\<rparr>)"
| leave: "j < length (po_workers p) \<Longrightarrow> po_workers p ! j = (orig, Busy k) \<Longrightarrow>
    pool_step de policy p (p\<lparr>po_workers := (po_workers p)[j := (orig, At (k r))]\<rparr>)"
| other: "kept (po_db p) db \<Longrightarrow> pool_step de policy p (p\<lparr>po_db := db\<rparr>)"

text \<open>The event a worker has claimed and not yet executed, if any, and what is left of its program.\<close>

fun fits :: "run_identity option \<Rightarrow> origin \<times> activity \<Rightarrow> bool" where
  "fits own (By_resume, At p) \<longleftrightarrow> own = None \<and> keeps p"
| "fits own (By_resume, Busy k) \<longleftrightarrow> own = None \<and> (\<forall>r. keeps (k r))"
| "fits None (By_start, At p) \<longleftrightarrow> seeks p"
| "fits (Some i) (By_start, At p) \<longleftrightarrow> may (Some i) p"
| "fits own (By_start, Busy k) \<longleftrightarrow> own = None \<and> (\<forall>r. may None (k r))"

definition started :: "pool \<Rightarrow> run_identity list" where
  "started p = map snd (filter (\<lambda>c. fst c = By_start) (po_calls p))"

definition pool_inv :: "(nat \<Rightarrow> run_identity option) \<Rightarrow> pool \<Rightarrow> bool" where
  "pool_inv own p \<longleftrightarrow>
     keyed (ad_runs (po_db p)) \<and> distinct (started p)
     \<and> (\<forall>i\<in>set (started p). claimed (po_db p) (identity_key i))
     \<and> (\<forall>j i. own j = Some i \<longrightarrow> i \<notin> set (started p) \<and> claimed (po_db p) (identity_key i))
     \<and> (\<forall>j j' i. own j = Some i \<longrightarrow> own j' = Some i \<longrightarrow> j = j')
     \<and> (\<forall>j \<ge> length (po_workers p). own j = None)
     \<and> (\<forall>j < length (po_workers p). fits (own j) (po_workers p ! j))"

lemma started_simps [simp]:
  "started (p\<lparr>po_db := db\<rparr>) = started p" "started (p\<lparr>po_workers := ws\<rparr>) = started p"
  "started (p\<lparr>po_calls := po_calls p @ [(By_start, i)]\<rparr>) = started p @ [i]"
  "started (p\<lparr>po_calls := po_calls p @ [(By_resume, i)]\<rparr>) = started p"
  by (simp_all add: started_def)

lemma update_nth: "xs[i := x] ! j = (if i = j \<and> j < length xs then x else xs ! j)"
  by (cases "i < length xs") (auto simp: nth_list_update list_update_beyond)

lemma pool_inv_db: "pool_inv own p \<Longrightarrow> kept (po_db p) db \<Longrightarrow> pool_inv own (p\<lparr>po_db := db\<rparr>)"
  unfolding pool_inv_def kept_def by simp

lemma pool_inv_begin: "pool_inv own p \<Longrightarrow> fits None a \<Longrightarrow> pool_inv own (p\<lparr>po_workers := po_workers p @ [a]\<rparr>)"
  unfolding pool_inv_def by (simp add: nth_append less_Suc_eq)

lemma pool_inv_move:
  "pool_inv own p \<Longrightarrow> fits (own j) a \<Longrightarrow> pool_inv own (p\<lparr>po_workers := (po_workers p)[j := a]\<rparr>)"
  unfolding pool_inv_def by (simp add: update_nth)

lemma pool_inv_claim:
  assumes "pool_inv own p" and "own j = None" and "j < length (po_workers p)" and "kept (po_db p) db"
    and "\<not> claimed (po_db p) (identity_key i)" and "claimed db (identity_key i)" and "fits (Some i) a"
  shows "pool_inv (own(j := Some i)) (p\<lparr>po_db := db, po_workers := (po_workers p)[j := a]\<rparr>)"
proof -
  have "i \<notin> set (started p)" "own j' \<noteq> Some i" for j' using assms(1,5) by (auto simp: pool_inv_def)
  then show ?thesis
    using assms unfolding pool_inv_def kept_def by (auto simp: update_nth)
qed

lemma pool_inv_enter:
  assumes "pool_inv own p" and "own j = Some i" and "fits None a"
  shows "pool_inv (own(j := None)) (p\<lparr>po_calls := po_calls p @ [(By_start, i)], po_workers := (po_workers p)[j := a]\<rparr>)"
  using assms unfolding pool_inv_def by (auto simp: update_nth)

lemma pool_inv_enter_resume:
  assumes "pool_inv own p" and "fits (own j) a"
  shows "pool_inv own (p\<lparr>po_calls := po_calls p @ [(By_resume, i)], po_workers := (po_workers p)[j := a]\<rparr>)"
  using assms unfolding pool_inv_def by (simp add: update_nth)

lemma fits_transaction:
  assumes "fits own (orig, At (Tx t u))" and "keyed (ad_runs db)"
  shows "kept db (u n db) \<and> (fits own (orig, At (t n db)) \<or> own = None \<and> orig = By_start \<and>
    (\<exists>i. may (Some i) (t n db) \<and> \<not> claimed db (identity_key i) \<and> claimed (u n db) (identity_key i)))"
proof (cases "(own, (orig, At (Tx t u)))" rule: fits.cases)
  case 1
  then show ?thesis using assms by (auto elim: keeps_TxE)
next
  case (3 p)
  have "kept db (u n db) \<and> seeks (t n db)" if "may None (Tx t u)" using that by (auto elim!: may_TxE intro: seeks_may)
  then show ?thesis using 3 assms by (auto elim!: seeks_TxE)
next
  case (4 i p)
  then show ?thesis using assms by (auto elim: may_TxE)
qed auto

lemma pool_inv_transaction:
  assumes "pool_inv own p" and "j < length (po_workers p)" and "po_workers p ! j = (orig, At (Tx t u))"
  shows "\<exists>own'. pool_inv own' (p\<lparr>po_db := u n (po_db p), po_workers := (po_workers p)[j := (orig, At (t n (po_db p)))]\<rparr>)"
proof -
  have "fits (own j) (orig, At (Tx t u))" "keyed (ad_runs (po_db p))" using assms by (auto simp: pool_inv_def)
  note step = fits_transaction [OF this, of n]
  show ?thesis
  proof (cases "fits (own j) (orig, At (t n (po_db p)))")
    case True
    have "pool_inv own (p\<lparr>po_db := u n (po_db p)\<rparr>)" using pool_inv_db assms(1) step by blast
    from pool_inv_move [OF this True] show ?thesis by auto
  next
    case False
    with step obtain i where i: "own j = None" "orig = By_start" "kept (po_db p) (u n (po_db p))"
      "\<not> claimed (po_db p) (identity_key i)" "claimed (u n (po_db p)) (identity_key i)" "fits (Some i) (By_start, At (t n (po_db p)))"
      by auto
    show ?thesis unfolding i(2) using pool_inv_claim [OF assms(1) i(1) assms(2) i(3-6)] by blast
  qed
qed

lemma pool_inv_step: "pool_step de policy p p' \<Longrightarrow> pool_inv own p \<Longrightarrow> \<exists>own'. pool_inv own' p'"
proof (induction rule: pool_step.induct)
  case (begin_start p wfl ev worker)
  then show ?case using pool_inv_begin by (force simp: start_seeks)
next
  case (begin_resume p aid worker wfl)
  then show ?case using pool_inv_begin by (force simp: resume_keeps)
next
  case (transaction j p orig t u n)
  then show ?case by (intro pool_inv_transaction)
next
  case (enter j p orig i wfl ev k)
  then have f: "fits (own j) (orig, At (Call i wfl ev k))" by (auto simp: pool_inv_def)
  show ?case
  proof (cases orig)
    case By_start
    then have "own j = Some i" "fits None (By_start, Busy k)"
      using f by (cases "own j"; auto elim!: seeks_CallE elim: may_CallE)+
    from pool_inv_enter [OF enter.prems this] show ?thesis unfolding By_start by blast
  next
    case By_resume
    then have "fits (own j) (orig, Busy k)" using f by (auto elim: keeps_CallE)
    then show ?thesis using pool_inv_enter_resume enter.prems By_resume by blast
  qed
next
  case (leave j p orig k r)
  then have f: "fits (own j) (orig, Busy k)" by (auto simp: pool_inv_def)
  then have "fits (own j) (orig, At (k r))" by (cases orig; cases "own j") (auto intro: seeks_may)
  then show ?case using pool_inv_move leave.prems by blast
next
  case (other p db)
  then show ?case using pool_inv_db by blast
qed

lemma pool_inv_run: "(pool_step de policy)\<^sup>*\<^sup>* p p' \<Longrightarrow> pool_inv own p \<Longrightarrow> \<exists>own'. pool_inv own' p'"
  by (induction rule: rtranclp_induct) (auto dest: pool_inv_step)

text \<open>
  C4. An event is executed once by \<open>start\<close>, however the workers interleave: begin with tables in which every run
  carries the key of its identity and with no worker. Let any number of workers call \<open>start\<close> and
  \<open>resume_approval\<close>, for any workflows and events, their transactions interleaved in any order, with callbacks that
  overlap, return or raise anything and may never return, and let other transactions run at any time, as
  long as they remove no claim and leave every run with the key of its identity. Then \<open>start\<close> has called the callback
  at most once for each tenant, workspace, workflow, version and event, and that event is claimed for good. The
  calls of \<open>resume_approval\<close> are not counted: they repeat an event (\<open>approved_run_repeats\<close>).
\<close>

theorem start_executes_event_once:
  assumes "(pool_step de policy)\<^sup>*\<^sup>* p p'" and "keyed (ad_runs (po_db p))" and "po_calls p = []" and "po_workers p = []"
  shows "distinct (started p') \<and> (\<forall>i\<in>set (started p'). claimed (po_db p') (identity_key i))"
proof -
  have "pool_inv (\<lambda>_. None) p" using assms(2-4) by (simp add: pool_inv_def started_def)
  from pool_inv_run [OF assms(1) this] show ?thesis by (auto simp: pool_inv_def)
qed

text \<open>Two workers start the same event and take turns, transaction by transaction.\<close>

fun take_turn :: "nat \<times> nat \<Rightarrow> pool \<Rightarrow> pool" where
  "take_turn (n, j) p =
     (if length (po_workers p) \<le> j then p
      else case po_workers p ! j of
        (orig, At (Tx t u)) \<Rightarrow> p\<lparr>po_db := u n (po_db p), po_workers := (po_workers p)[j := (orig, At (t n (po_db p)))]\<rparr>
      | (orig, At (Call i wfl ev k)) \<Rightarrow> p\<lparr>po_calls := po_calls p @ [(orig, i)], po_workers := (po_workers p)[j := (orig, Busy k)]\<rparr>
      | (orig, At (Done r)) \<Rightarrow> p
      | (orig, Busy k) \<Rightarrow> p\<lparr>po_workers := (po_workers p)[j := (orig, At (k (Inr (PInt 7))))]\<rparr>)"

lemma take_turn_steps: "(pool_step de policy)\<^sup>*\<^sup>* p (take_turn nj p)"
proof (cases nj)
  case (Pair n j)
  then show ?thesis
    by (auto simp: not_le split: prod.split activity.split prog.split intro: pool_step.intros)
qed

lemma take_turns_steps: "(pool_step de policy)\<^sup>*\<^sup>* p (fold take_turn js p)"
  by (induction js arbitrary: p) (auto intro: rtranclp_trans [OF take_turn_steps])

definition no_workers :: pool where
  "no_workers = \<lparr>po_db = ew_db engine_init, po_calls = [], po_workers = []\<rparr>"

definition two_workers :: pool where
  "two_workers = no_workers\<lparr>po_workers :=
     map (\<lambda>worker. (By_start, At (start_prog sample_de (lo_policy sample_loop) (sample_workflow failing_action) sample_event worker))) [''a'', ''b'']\<rparr>"

definition turns :: "(nat \<times> nat) list" where
  "turns = [(1, 0), (2, 1), (3, 0), (4, 1), (5, 0), (6, 1), (7, 0), (8, 1), (9, 0), (10, 1), (11, 0), (12, 0), (13, 0),
     (14, 1), (15, 0), (16, 0), (17, 0)]"

lemma two_workers_steps: "(pool_step sample_de (lo_policy sample_loop))\<^sup>*\<^sup>* no_workers two_workers"
proof -
  let ?step = "pool_step sample_de (lo_policy sample_loop)"
  let ?a = "\<lambda>worker. (By_start, At (start_prog sample_de (lo_policy sample_loop) (sample_workflow failing_action) sample_event worker))"
  have "?step no_workers (no_workers\<lparr>po_workers := [?a ''a'']\<rparr>)"
    using begin_start [of _ _ no_workers] by (simp add: no_workers_def)
  moreover have "?step (no_workers\<lparr>po_workers := [?a ''a'']\<rparr>) two_workers"
    using begin_start [of _ _ "no_workers\<lparr>po_workers := [?a ''a'']\<rparr>"] by (simp add: two_workers_def)
  ultimately show ?thesis by (blast intro: rtranclp.intros)
qed

lemma turns_calls:
  "started (fold take_turn turns two_workers) = [event_identity (sample_workflow failing_action) sample_event]"
  "map (\<lambda>r. rw_status r) (ad_runs (po_db (fold take_turn turns two_workers))) = [RS_COMPLETED]"
  "list_all (\<lambda>a. case snd a of At (Done (Inr x)) \<Rightarrow> True | _ \<Rightarrow> False) (po_workers (fold take_turn turns two_workers))"
  by code_simp+

theorem start_executes_event_once_witness:
  "\<exists>p'. (pool_step sample_de (lo_policy sample_loop))\<^sup>*\<^sup>* no_workers p'
     \<and> length (po_workers p') = 2 \<and> started p' = [event_identity (sample_workflow failing_action) sample_event]
     \<and> claimed (po_db p') (identity_key (event_identity (sample_workflow failing_action) sample_event))"
proof -
  let ?p = "fold take_turn turns two_workers"
  have run: "(pool_step sample_de (lo_policy sample_loop))\<^sup>*\<^sup>* no_workers ?p"
    using two_workers_steps take_turns_steps by (rule rtranclp_trans)
  have "length (po_workers ?p) = 2" by code_simp
  moreover have "\<forall>i\<in>set (started ?p). claimed (po_db ?p) (identity_key i)"
    using start_executes_event_once [OF run] by (simp add: no_workers_def engine_init_def keyed_def)
  ultimately show ?thesis using run turns_calls(1) by auto
qed

end
