(* ===== verification/Production_Queue.thy ===== *)
theory Production_Queue
  imports OIS_Prelude
begin

text \<open>
  \<^verbatim>\<open>production/workers.py\<close>: the lease queue and its worker. A method holds the queue's lock from its first
  to its last line, so it is one step; \<open>now\<close> arguments are the readings of the clock. The dictionary of
  items is an association list in insertion order. The handler of a worker is an argument that also
  says what the queue looks like when it returns, so it covers what other workers did while it ran.
\<close>

section \<open>Items and the queue\<close>

datatype work_status = WK_QUEUED | WK_RUNNING | WK_SUCCEEDED | WK_FAILED

record work_item =
  wi_work_id :: string
  wi_payload :: pydict
  wi_attempts :: int
  wi_status :: work_status
  wi_worker_id :: "string option"
  wi_lease_until :: "timestamp option"
  wi_result :: pyval
  wi_error :: "string option"

definition new_item :: "string \<Rightarrow> pydict \<Rightarrow> work_item" where
  "new_item wid payload =
     \<lparr>wi_work_id = wid, wi_payload = payload, wi_attempts = 0, wi_status = WK_QUEUED, wi_worker_id = None,
      wi_lease_until = None, wi_result = PNone, wi_error = None\<rparr>"

record lease_queue =
  lq_lease_seconds :: int
  lq_max_attempts :: int
  lq_items :: "(string \<times> work_item) list"

definition mk_queue :: "int \<Rightarrow> int \<Rightarrow> lease_queue" where
  "mk_queue lease_seconds max_attempts =
     \<lparr>lq_lease_seconds = lease_seconds, lq_max_attempts = max_attempts, lq_items = []\<rparr>"

definition put_item :: "string \<Rightarrow> work_item \<Rightarrow> lease_queue \<Rightarrow> lease_queue" where
  "put_item wid x q = q\<lparr>lq_items := AList.update wid x (lq_items q)\<rparr>"

definition queue_enqueue :: "string \<Rightarrow> pydict \<Rightarrow> lease_queue \<Rightarrow> string \<times> lease_queue" where
  "queue_enqueue wid payload q = (wid, put_item wid (new_item wid payload) q)"

definition expired :: "timestamp \<Rightarrow> work_item \<Rightarrow> bool" where
  "expired now x \<longleftrightarrow> wi_status x = WK_RUNNING \<and> (case wi_lease_until x of None \<Rightarrow> False | Some t \<Rightarrow> t \<le> now)"

definition requeued :: "int \<Rightarrow> work_item \<Rightarrow> work_status" where
  "requeued max_attempts x = (if wi_attempts x < max_attempts then WK_QUEUED else WK_FAILED)"

definition expire_item :: "int \<Rightarrow> timestamp \<Rightarrow> work_item \<Rightarrow> work_item" where
  "expire_item max_attempts now x =
     (if expired now x
      then x\<lparr>wi_status := requeued max_attempts x, wi_worker_id := None, wi_lease_until := None\<rparr> else x)"

definition expire_locked :: "timestamp \<Rightarrow> lease_queue \<Rightarrow> nat \<times> lease_queue" where
  "expire_locked now q =
     (length (filter (\<lambda>(_, x). expired now x) (lq_items q)),
      q\<lparr>lq_items := map (\<lambda>(k, x). (k, expire_item (lq_max_attempts q) now x)) (lq_items q)\<rparr>)"

definition recover_expired :: "timestamp \<Rightarrow> lease_queue \<Rightarrow> nat \<times> lease_queue" where
  "recover_expired now q = expire_locked now q"

definition queue_claimable :: "int \<Rightarrow> string \<times> work_item \<Rightarrow> bool" where
  "queue_claimable max_attempts = (\<lambda>(_, x). wi_status x = WK_QUEUED \<and> wi_attempts x < max_attempts)"

definition lease_item :: "string \<Rightarrow> timestamp \<Rightarrow> work_item \<Rightarrow> work_item" where
  "lease_item worker until x =
     x\<lparr>wi_status := WK_RUNNING, wi_worker_id := Some worker, wi_attempts := wi_attempts x + 1,
       wi_lease_until := Some until\<rparr>"

definition queue_claim :: "timestamp \<Rightarrow> timestamp \<Rightarrow> string \<Rightarrow> lease_queue \<Rightarrow> work_item option \<times> lease_queue" where
  "queue_claim now1 now2 worker q0 =
     (let q = snd (expire_locked now1 q0) in
      case List.find (queue_claimable (lq_max_attempts q)) (lq_items q) of
        None \<Rightarrow> (None, q)
      | Some (k, x) \<Rightarrow>
         (let x' = lease_item worker (now2 + lq_lease_seconds q * 1000000) x in (Some x', put_item k x' q)))"

text \<open>The guard shared by \<open>heartbeat\<close>, \<open>complete\<close> and \<open>fail\<close>: the caller holds the running item.\<close>

definition held_by :: "string \<Rightarrow> string \<Rightarrow> lease_queue \<Rightarrow> work_item option" where
  "held_by wid worker q =
     (case map_of (lq_items q) wid of
        None \<Rightarrow> None
      | Some x \<Rightarrow> if wi_status x = WK_RUNNING \<and> wi_worker_id x = Some worker then Some x else None)"

definition queue_heartbeat :: "timestamp \<Rightarrow> string \<Rightarrow> string \<Rightarrow> lease_queue \<Rightarrow> bool \<times> lease_queue" where
  "queue_heartbeat now wid worker q =
     (case held_by wid worker q of
        None \<Rightarrow> (False, q)
      | Some x \<Rightarrow> (True, put_item wid (x\<lparr>wi_lease_until := Some (now + lq_lease_seconds q * 1000000)\<rparr>) q))"

definition queue_complete :: "string \<Rightarrow> string \<Rightarrow> pyval \<Rightarrow> lease_queue \<Rightarrow> bool \<times> lease_queue" where
  "queue_complete wid worker result q =
     (case held_by wid worker q of
        None \<Rightarrow> (False, q)
      | Some x \<Rightarrow> (True, put_item wid (x\<lparr>wi_status := WK_SUCCEEDED, wi_result := result, wi_lease_until := None\<rparr>) q))"

definition queue_fail :: "string \<Rightarrow> string \<Rightarrow> string \<Rightarrow> lease_queue \<Rightarrow> bool \<times> lease_queue" where
  "queue_fail wid worker err q =
     (case held_by wid worker q of
        None \<Rightarrow> (False, q)
      | Some x \<Rightarrow> (True, put_item wid (x\<lparr>wi_error := Some err, wi_lease_until := None,
                                         wi_status := requeued (lq_max_attempts q) x\<rparr>) q))"

definition queue_get :: "string \<Rightarrow> lease_queue \<Rightarrow> work_item option" where
  "queue_get wid q = map_of (lq_items q) wid"

type_synonym queue_handler = "pydict \<Rightarrow> lease_queue \<Rightarrow> (py_exn + pyval) \<times> lease_queue"

definition run_once :: "timestamp \<Rightarrow> timestamp \<Rightarrow> string \<Rightarrow> queue_handler \<Rightarrow> lease_queue \<Rightarrow> bool \<times> lease_queue" where
  "run_once now1 now2 worker handler q0 =
     (case queue_claim now1 now2 worker q0 of
        (None, q1) \<Rightarrow> (False, q1)
      | (Some x, q1) \<Rightarrow>
         (case handler (wi_payload x) q1 of
            (Inl e, q2) \<Rightarrow> (True, snd (queue_fail (wi_work_id x) worker (exn_str e) q2))
          | (Inr v, q2) \<Rightarrow> (True, snd (queue_complete (wi_work_id x) worker v q2))))"

section \<open>Operations as steps\<close>

text \<open>
  \<open>Enqueue\<close> uses an id that is not in use: it comes from \<open>uuid4()\<close>. A claim is labelled with the item it
  returned.
\<close>

datatype queue_label =
    Enqueue string pydict
  | Claim timestamp timestamp string "string option"
  | Heartbeat timestamp string string
  | Complete string string pyval
  | Fail string string string
  | Recover timestamp

fun queue_step :: "lease_queue \<Rightarrow> queue_label \<Rightarrow> lease_queue \<Rightarrow> bool" where
  "queue_step q (Enqueue wid payload) q' \<longleftrightarrow> map_of (lq_items q) wid = None \<and> q' = snd (queue_enqueue wid payload q)"
| "queue_step q (Claim now1 now2 worker r) q' \<longleftrightarrow>
     (\<exists>x. queue_claim now1 now2 worker q = (x, q') \<and> r = map_option wi_work_id x)"
| "queue_step q (Heartbeat now wid worker) q' \<longleftrightarrow> q' = snd (queue_heartbeat now wid worker q)"
| "queue_step q (Complete wid worker v) q' \<longleftrightarrow> q' = snd (queue_complete wid worker v q)"
| "queue_step q (Fail wid worker e) q' \<longleftrightarrow> q' = snd (queue_fail wid worker e q)"
| "queue_step q (Recover now) q' \<longleftrightarrow> q' = snd (recover_expired now q)"

fun claims :: "string \<Rightarrow> queue_label \<Rightarrow> bool" where
  "claims wid (Claim now1 now2 worker r) \<longleftrightarrow> r = Some wid"
| "claims wid l \<longleftrightarrow> False"

definition queue_wf :: "lease_queue \<Rightarrow> bool" where
  "queue_wf q \<longleftrightarrow>
     distinct (map fst (lq_items q)) \<and> (\<forall>k x. map_of (lq_items q) k = Some x \<longrightarrow> wi_work_id x = k)"

text \<open>The two parameters never change.\<close>

definition same_limits :: "lease_queue \<Rightarrow> lease_queue \<Rightarrow> bool" where
  "same_limits q q' \<longleftrightarrow> lq_max_attempts q' = lq_max_attempts q \<and> lq_lease_seconds q' = lq_lease_seconds q"

lemma put_item_get [simp]: "queue_get k (put_item k' x q) = (if k = k' then Some x else queue_get k q)"
  by (simp add: put_item_def queue_get_def)

lemma put_item_wf: "queue_wf q \<Longrightarrow> wi_work_id x = k \<Longrightarrow> queue_wf (put_item k x q)"
  by (simp add: queue_wf_def put_item_def)

lemma put_item_limits [simp]: "same_limits q (put_item k x q')  \<longleftrightarrow> same_limits q q'"
  by (simp add: same_limits_def put_item_def)

lemma same_limits_refl [simp]: "same_limits q q"
  by (simp add: same_limits_def)

lemma lease_item_fields [simp]:
  "wi_work_id (lease_item worker u x) = wi_work_id x" "wi_attempts (lease_item worker u x) = wi_attempts x + 1"
  "wi_status (lease_item worker u x) = WK_RUNNING" "wi_worker_id (lease_item worker u x) = Some worker"
  "wi_lease_until (lease_item worker u x) = Some u"
  by (simp_all add: lease_item_def)

lemma expire_get: "queue_get k (snd (expire_locked now q)) = map_option (expire_item (lq_max_attempts q) now) (queue_get k q)"
  by (simp add: queue_get_def expire_locked_def map_of_map_value)

lemma expire_item_id [simp]: "wi_work_id (expire_item m now x) = wi_work_id x" "wi_attempts (expire_item m now x) = wi_attempts x"
  by (simp_all add: expire_item_def)

lemma expire_wf: "queue_wf q \<Longrightarrow> queue_wf (snd (expire_locked now q)) \<and> same_limits q (snd (expire_locked now q))"
  by (auto simp: queue_wf_def same_limits_def expire_locked_def map_of_map_value comp_def split_def)

lemma held_by_Some:
  "held_by wid worker q = Some x \<longleftrightarrow> queue_get wid q = Some x \<and> wi_status x = WK_RUNNING \<and> wi_worker_id x = Some worker"
  by (auto simp: held_by_def queue_get_def split: option.splits)

text \<open>A claim, exactly: the expired leases are requeued, and at most one queued item is leased.\<close>

lemma queue_claim_cases:
  assumes "queue_claim now1 now2 worker q = (r, q')" and "queue_wf q"
  shows "let q1 = snd (expire_locked now1 q) in
     (r = None \<and> q' = q1 \<and> (\<forall>k x. queue_get k q1 = Some x \<and> wi_status x = WK_QUEUED \<longrightarrow> lq_max_attempts q \<le> wi_attempts x))
     \<or> (\<exists>k x. r = Some (lease_item worker (now2 + lq_lease_seconds q * 1000000) x) \<and> wi_work_id x = k
          \<and> queue_get k q1 = Some x \<and> wi_status x = WK_QUEUED \<and> wi_attempts x < lq_max_attempts q
          \<and> q' = put_item k (lease_item worker (now2 + lq_lease_seconds q * 1000000) x) q1)"
proof -
  define q1 where "q1 = snd (expire_locked now1 q)"
  have wf: "queue_wf q1" and lim: "same_limits q q1" using expire_wf [OF assms(2)] by (simp_all add: q1_def)
  show ?thesis
  proof (cases "List.find (queue_claimable (lq_max_attempts q1)) (lq_items q1)")
    case None
    then have "lq_max_attempts q \<le> wi_attempts x" if "queue_get k q1 = Some x" "wi_status x = WK_QUEUED" for k x
      using that lim
      by (auto simp: find_None_iff queue_get_def queue_claimable_def same_limits_def not_le dest!: map_of_SomeD) fastforce
    then show ?thesis using assms(1) None by (auto simp: queue_claim_def Let_def q1_def [symmetric])
  next
    case (Some p)
    obtain k x where p: "p = (k, x)" by fastforce
    have in_: "(k, x) \<in> set (lq_items q1)" "wi_status x = WK_QUEUED" "wi_attempts x < lq_max_attempts q"
      using Some p lim by (auto simp: find_Some_iff queue_claimable_def same_limits_def) (metis nth_mem)
    then have "queue_get k q1 = Some x" using wf by (auto simp: queue_get_def queue_wf_def)
    moreover from this have "wi_work_id x = k" using wf by (simp add: queue_get_def queue_wf_def)
    ultimately show ?thesis
      using assms(1) Some p in_ lim by (auto simp: queue_claim_def Let_def q1_def [symmetric] same_limits_def)
  qed
qed

lemma queue_get_id: "queue_wf q \<Longrightarrow> queue_get k q = Some x \<Longrightarrow> wi_work_id x = k"
  by (simp add: queue_wf_def queue_get_def)

text \<open>What a guarded method does: nothing, or one update of an item that the caller holds.\<close>

lemma held_update:
  assumes "q' = snd (case held_by wid worker q of None \<Rightarrow> (False, q) | Some x \<Rightarrow> (True, put_item wid (f x) q))"
  shows "q' = q \<or> (\<exists>x. queue_get wid q = Some x \<and> wi_status x = WK_RUNNING \<and> wi_worker_id x = Some worker
            \<and> q' = put_item wid (f x) q)"
  using assms by (cases "held_by wid worker q") (auto simp: held_by_Some)

lemmas held_updates =
  held_update [where f = "\<lambda>x. x\<lparr>wi_lease_until := Some u\<rparr>" for u]
  held_update [where f = "\<lambda>x. x\<lparr>wi_status := WK_SUCCEEDED, wi_result := v, wi_lease_until := None\<rparr>" for v]
  held_update [where f = "\<lambda>x. x\<lparr>wi_error := Some e, wi_lease_until := None, wi_status := requeued m x\<rparr>" for e m]

lemma held_wf:
  assumes "queue_wf q" and "q' = q \<or> (\<exists>x. queue_get wid q = Some x \<and> wi_status x = WK_RUNNING \<and> wi_worker_id x = Some worker
            \<and> q' = put_item wid (f x) q)" and "\<And>x. wi_work_id (f x) = wi_work_id x"
  shows "queue_wf q' \<and> same_limits q q'"
  using assms queue_get_id [OF assms(1)] by (auto intro!: put_item_wf)

lemma queue_step_wf:
  assumes "queue_step q l q'" and "queue_wf q"
  shows "queue_wf q' \<and> same_limits q q'"
proof (cases l)
  case (Enqueue wid payload)
  then show ?thesis using assms by (simp add: queue_enqueue_def put_item_wf new_item_def)
next
  case (Claim now1 now2 worker r)
  obtain x where c: "queue_claim now1 now2 worker q = (x, q')" using assms(1) Claim by auto
  let ?q = "snd (expire_locked now1 q)"
  have e: "queue_wf ?q" "same_limits q ?q" using expire_wf [OF assms(2)] by simp_all
  from queue_claim_cases [OF c assms(2)] show ?thesis
    using e by (auto simp: Let_def intro!: put_item_wf)
next
  case (Heartbeat now wid worker)
  then show ?thesis using assms by (intro held_wf [OF assms(2) held_updates(1)]) (auto simp: queue_heartbeat_def)
next
  case (Complete wid worker v)
  then show ?thesis using assms by (intro held_wf [OF assms(2) held_updates(2)]) (auto simp: queue_complete_def)
next
  case (Fail wid worker e)
  then show ?thesis using assms by (intro held_wf [OF assms(2) held_updates(3)]) (auto simp: queue_fail_def)
next
  case (Recover now)
  then show ?thesis using assms expire_wf by (simp add: recover_expired_def)
qed

end
