(* ===== verification/Queue_Properties.thy ===== *)
theory Queue_Properties
  imports Production_Queue
begin

text \<open>
  Properties of the lease queue, for any sequence of its operations by any workers at any clock
  readings: an item is never lost, its attempts are counted exactly and bounded, a finished item never
  changes, and a lease is exclusive until it expires or its holder gives it up.
\<close>

section \<open>One item under one operation\<close>

definition finished :: "work_item \<Rightarrow> bool" where
  "finished x \<longleftrightarrow> wi_status x \<in> {WK_SUCCEEDED, WK_FAILED}"

definition item_ok :: "int \<Rightarrow> work_item \<Rightarrow> bool" where
  "item_ok m x \<longleftrightarrow> wi_attempts x \<le> m \<and> (wi_status x = WK_QUEUED \<longrightarrow> wi_attempts x < m)"

text \<open>What a step does to the item with id \<open>k\<close>.\<close>

definition item_move :: "int \<Rightarrow> bool \<Rightarrow> work_item \<Rightarrow> work_item \<Rightarrow> bool" where
  "item_move m claimed x x' \<longleftrightarrow>
     wi_attempts x' = wi_attempts x + (if claimed then 1 else 0)
     \<and> (finished x \<longrightarrow> x' = x \<and> \<not> claimed) \<and> (item_ok m x \<longrightarrow> item_ok m x')"

lemma item_move_refl [simp]: "item_move m False x x"
  by (simp add: item_move_def)

lemma item_move_expire: "item_move m False x (expire_item m now x)"
  by (auto simp: item_move_def expire_item_def expired_def finished_def item_ok_def requeued_def)

lemma item_move_lease:
  assumes "wi_status (expire_item m now x) = WK_QUEUED" and "wi_attempts x < m"
  shows "item_move m True x (lease_item worker u (expire_item m now x))"
  using assms by (auto simp: item_move_def expire_item_def expired_def finished_def item_ok_def split: if_splits)

lemma item_move_held:
  assumes "wi_status x = WK_RUNNING"
  shows "item_move m False x (x\<lparr>wi_lease_until := u\<rparr>)"
    "item_move m False x (x\<lparr>wi_status := WK_SUCCEEDED, wi_result := v, wi_lease_until := None\<rparr>)"
    "item_move m False x (x\<lparr>wi_error := Some e, wi_lease_until := None, wi_status := requeued m x\<rparr>)"
  using assms by (auto simp: item_move_def finished_def item_ok_def requeued_def)

lemma held_move:
  assumes "q' = q \<or> (\<exists>y. queue_get wid q = Some y \<and> wi_status y = WK_RUNNING \<and> wi_worker_id y = Some worker
            \<and> q' = put_item wid (f y) q)"
    and "\<And>y. wi_status y = WK_RUNNING \<Longrightarrow> item_move m False y (f y)" and "queue_get k q = Some x"
  shows "\<exists>x'. queue_get k q' = Some x' \<and> item_move m False x x'"
  using assms by auto

lemma queue_step_move:
  assumes "queue_step q l q'" and "queue_wf q" and "queue_get k q = Some x"
  shows "\<exists>x'. queue_get k q' = Some x' \<and> item_move (lq_max_attempts q) (claims k l) x x'"
proof (cases l)
  case (Enqueue wid payload)
  then show ?thesis using assms(1,3) by (auto simp: queue_enqueue_def queue_get_def [symmetric])
next
  case (Claim now1 now2 worker r)
  let ?m = "lq_max_attempts q" and ?q = "snd (expire_locked now1 q)"
  obtain y where c: "queue_claim now1 now2 worker q = (y, q')" and r: "r = map_option wi_work_id y"
    using assms(1) Claim by auto
  have g: "queue_get k ?q = Some (expire_item ?m now1 x)" using assms(3) by (simp add: expire_get)
  from queue_claim_cases [OF c assms(2)] consider
    (none) "y = None" "q' = ?q"
    | (leased) z u where "y = Some (lease_item worker u z)" "queue_get (wi_work_id z) ?q = Some z" "wi_status z = WK_QUEUED"
        "wi_attempts z < ?m" "q' = put_item (wi_work_id z) (lease_item worker u z) ?q"
    by (auto simp: Let_def)
  then show ?thesis
  proof cases
    case none
    then show ?thesis using g Claim r by (auto intro: item_move_expire)
  next
    case leased
    show ?thesis
    proof (cases "wi_work_id z = k")
      case True
      then have "z = expire_item ?m now1 x" using leased(2) g by simp
      then show ?thesis
        using leased True Claim r item_move_lease [of ?m now1 x worker u] by auto
    next
      case False
      then show ?thesis using leased g Claim r by (auto intro: item_move_expire)
    qed
  qed
next
  case (Heartbeat now wid worker)
  then show ?thesis
    using assms(1,3) item_move_held(1)
    by (auto intro!: held_move [OF held_updates(1)] simp: queue_heartbeat_def)
next
  case (Complete wid worker v)
  then show ?thesis
    using assms(1,3) item_move_held(2)
    by (auto intro!: held_move [OF held_updates(2)] simp: queue_complete_def)
next
  case (Fail wid worker e)
  then show ?thesis
    using assms(1,3) item_move_held(3)
    by (auto intro!: held_move [OF held_updates(3)] simp: queue_fail_def)
next
  case (Recover now)
  then show ?thesis using assms(1,3) by (auto simp: recover_expired_def expire_get intro: item_move_expire)
qed

section \<open>Sequences of operations\<close>

lemma queue_run_item:
  assumes "run_of queue_step q ls q'" and "queue_wf q" and "queue_get k q = Some x" and "item_ok (lq_max_attempts q) x"
  shows "\<exists>x'. queue_get k q' = Some x' \<and> item_ok (lq_max_attempts q) x'
     \<and> wi_attempts x' = wi_attempts x + int (length (filter (claims k) ls)) \<and> (finished x \<longrightarrow> x' = x)"
  using assms
proof (induction arbitrary: x rule: run_of.induct)
  case (run_nil q)
  then show ?case by auto
next
  case (run_cons q l q1 ls q2)
  obtain x1 where x1: "queue_get k q1 = Some x1" "item_move (lq_max_attempts q) (claims k l) x x1"
    using queue_step_move [OF run_cons.hyps(1) run_cons.prems(1,2)] by blast
  have w: "queue_wf q1" "lq_max_attempts q1 = lq_max_attempts q"
    using queue_step_wf [OF run_cons.hyps(1) run_cons.prems(1)] by (simp_all add: same_limits_def)
  have "item_ok (lq_max_attempts q1) x1" using x1(2) run_cons.prems(3) w(2) by (simp add: item_move_def)
  from run_cons.IH [OF w(1) x1(1) this] obtain x2 where
    x2: "queue_get k q2 = Some x2" "item_ok (lq_max_attempts q) x2"
        "wi_attempts x2 = wi_attempts x1 + int (length (filter (claims k) ls))" "finished x1 \<longrightarrow> x2 = x1"
    using w(2) by auto
  then show ?case using x1(2) by (auto simp: item_move_def)
qed

text \<open>
  Work items are never lost and their attempts are bounded: an item enqueued in a queue that allows
  at least one attempt is still there after any sequence of operations by any workers; its attempt
  counter is exactly the number of claims that returned it and at most \<open>max_attempts\<close>; it is queued only
  while it has attempts left, so it never waits without being claimable; and once it has succeeded or
  failed for good, no operation changes it.
\<close>

theorem work_item_accounted:
  assumes "queue_wf q" and "1 \<le> lq_max_attempts q" and "map_of (lq_items q) k = None"
    and "run_of queue_step (snd (queue_enqueue k payload q)) ls q'" and "run_of queue_step q' ls' q''"
  shows "\<exists>x x'. queue_get k q' = Some x \<and> queue_get k q'' = Some x'
     \<and> wi_attempts x = int (length (filter (claims k) ls)) \<and> wi_attempts x \<le> lq_max_attempts q
     \<and> (wi_status x = WK_QUEUED \<longrightarrow> wi_attempts x < lq_max_attempts q) \<and> (finished x \<longrightarrow> x' = x)"
proof -
  let ?q = "snd (queue_enqueue k payload q)"
  have s: "queue_step q (Enqueue k payload) ?q" using assms(3) by simp
  have w: "queue_wf ?q" "lq_max_attempts ?q = lq_max_attempts q"
    using queue_step_wf [OF s assms(1)] by (simp_all add: same_limits_def)
  have x0: "queue_get k ?q = Some (new_item k payload)" by (simp add: queue_enqueue_def)
  have "item_ok (lq_max_attempts ?q) (new_item k payload)" using assms(2) w(2) by (simp add: item_ok_def new_item_def)
  from queue_run_item [OF assms(4) w(1) x0 this] obtain x where x: "queue_get k q' = Some x" "item_ok (lq_max_attempts q) x"
    "wi_attempts x = int (length (filter (claims k) ls))" using w(2) by (auto simp: new_item_def)
  have "queue_wf q' \<and> lq_max_attempts q' = lq_max_attempts q"
    using assms(4) w
  proof (induction rule: run_of.induct)
    case (run_cons s l s1 ls s2)
    then show ?case using queue_step_wf [OF run_cons.hyps(1)] by (simp add: same_limits_def)
  qed simp
  then obtain x' where "queue_get k q'' = Some x'" "finished x \<longrightarrow> x' = x"
    using queue_run_item [OF assms(5) _ x(1)] x(2) by auto
  with x show ?thesis by (auto simp: item_ok_def)
qed

section \<open>A lease is exclusive\<close>

definition leased :: "string \<Rightarrow> string \<Rightarrow> timestamp \<Rightarrow> lease_queue \<Rightarrow> bool" where
  "leased k worker until q \<longleftrightarrow>
     (\<exists>x u. queue_get k q = Some x \<and> wi_status x = WK_RUNNING \<and> wi_worker_id x = Some worker
        \<and> wi_lease_until x = Some u \<and> until \<le> u)"

text \<open>
  Operations that leave the lease alone: anything before it ends, except that the holder neither
  completes nor fails the item nor renews it with a clock that is behind.
\<close>

fun before_end :: "string \<Rightarrow> string \<Rightarrow> timestamp \<Rightarrow> int \<Rightarrow> queue_label \<Rightarrow> bool" where
  "before_end k worker until secs (Claim now1 now2 w r) \<longleftrightarrow> now1 < until"
| "before_end k worker until secs (Recover now) \<longleftrightarrow> now < until"
| "before_end k worker until secs (Heartbeat now wid w) \<longleftrightarrow> (wid, w) = (k, worker) \<longrightarrow> until \<le> now + secs * 1000000"
| "before_end k worker until secs (Complete wid w v) \<longleftrightarrow> (wid, w) \<noteq> (k, worker)"
| "before_end k worker until secs (Fail wid w e) \<longleftrightarrow> (wid, w) \<noteq> (k, worker)"
| "before_end k worker until secs (Enqueue wid payload) \<longleftrightarrow> True"

lemma leased_expire:
  assumes "leased k worker until q" and "now < until"
  shows "leased k worker until (snd (expire_locked now q))"
proof -
  obtain x u where x: "queue_get k q = Some x" "wi_status x = WK_RUNNING" "wi_worker_id x = Some worker"
    "wi_lease_until x = Some u" "until \<le> u" using assms(1) by (auto simp: leased_def)
  have "expire_item m now x = x" for m using x assms(2) by (simp add: expire_item_def expired_def)
  then show ?thesis using x by (auto simp: leased_def expire_get)
qed

lemma leased_step:
  assumes "queue_step q l q'" and "queue_wf q" and "leased k worker until q" and "before_end k worker until (lq_lease_seconds q) l"
  shows "leased k worker until q' \<and> \<not> claims k l"
proof (cases l)
  case (Enqueue wid payload)
  then show ?thesis using assms(1,3) by (auto simp: leased_def queue_enqueue_def queue_get_def [symmetric])
next
  case (Claim now1 now2 w r)
  let ?q = "snd (expire_locked now1 q)"
  obtain y where c: "queue_claim now1 now2 w q = (y, q')" and r: "r = map_option wi_work_id y"
    using assms(1) Claim by auto
  have l: "leased k worker until ?q" using assms(3,4) Claim by (simp add: leased_expire)
  from queue_claim_cases [OF c assms(2)] show ?thesis
    using l Claim r by (auto simp: Let_def leased_def)
next
  case (Heartbeat now wid w)
  then have "q' = q \<or> (\<exists>x. queue_get wid q = Some x \<and> wi_status x = WK_RUNNING \<and> wi_worker_id x = Some w
      \<and> q' = put_item wid (x\<lparr>wi_lease_until := Some (now + lq_lease_seconds q * 1000000)\<rparr>) q)"
    using assms(1) by (intro held_updates(1)) (simp add: queue_heartbeat_def)
  then show ?thesis
    using Heartbeat assms(3,4) by (cases "wid = k") (auto simp: leased_def)
next
  case (Complete wid w v)
  then show ?thesis using assms(1,3,4) held_updates(2) [of q' q wid v w] by (auto simp: queue_complete_def leased_def)
next
  case (Fail wid w e)
  then show ?thesis using assms(1,3,4) held_updates(3) [of q' q wid "lq_max_attempts q" e w] by (auto simp: queue_fail_def leased_def)
next
  case (Recover now)
  then show ?thesis using assms(1,3,4) by (simp add: recover_expired_def leased_expire)
qed

lemma leased_run:
  assumes "run_of queue_step q ls q'" and "queue_wf q" and "leased k worker until q"
    and "\<forall>l\<in>set ls. before_end k worker until (lq_lease_seconds q) l"
  shows "leased k worker until q' \<and> (\<forall>l\<in>set ls. \<not> claims k l)"
  using assms
proof (induction rule: run_of.induct)
  case (run_nil q)
  then show ?case by simp
next
  case (run_cons q l q1 ls q2)
  have "queue_wf q1" "lq_lease_seconds q1 = lq_lease_seconds q"
    using queue_step_wf [OF run_cons.hyps(1) run_cons.prems(1)] by (simp_all add: same_limits_def)
  moreover have "leased k worker until q1 \<and> \<not> claims k l"
    using leased_step [OF run_cons.hyps(1)] run_cons.prems by simp
  ultimately show ?case using run_cons.IH run_cons.prems(3) by simp
qed

text \<open>
  A lease is exclusive: after a worker's claim returned an item, no claim by anyone returns that item
  again, and the worker still holds it, through any sequence of operations of any workers that happen
  before the lease ends, unless the worker itself completes or fails the item (or renews its lease with
  a clock that is behind).
\<close>

theorem lease_is_exclusive:
  assumes "queue_wf q" and "queue_claim now1 now2 worker q = (Some x, q1)"
    and "run_of queue_step q1 ls q2"
    and "\<forall>l\<in>set ls. before_end (wi_work_id x) worker (now2 + lq_lease_seconds q * 1000000) (lq_lease_seconds q) l"
  shows "(\<forall>l\<in>set ls. \<not> claims (wi_work_id x) l)
     \<and> leased (wi_work_id x) worker (now2 + lq_lease_seconds q * 1000000) q2"
proof -
  have "queue_step q (Claim now1 now2 worker (Some (wi_work_id x))) q1" using assms(2) by simp
  from queue_step_wf [OF this assms(1)] have w: "queue_wf q1" "lq_lease_seconds q1 = lq_lease_seconds q"
    by (simp_all add: same_limits_def)
  have "leased (wi_work_id x) worker (now2 + lq_lease_seconds q * 1000000) q1"
    using queue_claim_cases [OF assms(2,1)] by (auto simp: Let_def leased_def)
  from leased_run [OF assms(3) w(1) this] assms(4) w(2) show ?thesis by simp
qed

section \<open>A sample run\<close>

text \<open>Worker \<open>a\<close> claims at time 0 with a lease of 30 s; \<open>b\<close> finds nothing at 10 s, recovers it at 40 s, and fails it.\<close>

definition sample_queue :: lease_queue where
  "sample_queue = snd (queue_enqueue ''j1'' [] (mk_queue 30 2))"

definition sample_labels :: "queue_label list" where
  "sample_labels =
     [Claim 0 0 ''a'' (Some ''j1''), Claim 10000000 10000000 ''b'' None,
      Claim 40000000 40000000 ''b'' (Some ''j1''), Fail ''j1'' ''b'' ''boom'']"

fun apply_label :: "queue_label \<Rightarrow> lease_queue \<Rightarrow> lease_queue" where
  "apply_label (Enqueue wid p) q = snd (queue_enqueue wid p q)"
| "apply_label (Claim n1 n2 w r) q = snd (queue_claim n1 n2 w q)"
| "apply_label (Heartbeat n wid w) q = snd (queue_heartbeat n wid w q)"
| "apply_label (Complete wid w v) q = snd (queue_complete wid w v q)"
| "apply_label (Fail wid w e) q = snd (queue_fail wid w e q)"
| "apply_label (Recover n) q = snd (recover_expired n q)"

definition after :: "nat \<Rightarrow> lease_queue" where
  "after n = fold apply_label (take n sample_labels) sample_queue"

lemma sample_claims:
  "map_option wi_work_id (fst (queue_claim 0 0 ''a'' (after 0))) = Some ''j1''"
  "map_option wi_work_id (fst (queue_claim 10000000 10000000 ''b'' (after 1))) = None"
  "map_option wi_work_id (fst (queue_claim 40000000 40000000 ''b'' (after 2))) = Some ''j1''"
  by code_simp+

lemma after_simps:
  "after 0 = sample_queue" "after 1 = snd (queue_claim 0 0 ''a'' (after 0))"
  "after 2 = snd (queue_claim 10000000 10000000 ''b'' (after 1))"
  "after 3 = snd (queue_claim 40000000 40000000 ''b'' (after 2))" "after 4 = snd (queue_fail ''j1'' ''b'' ''boom'' (after 3))"
  by (simp_all add: after_def sample_labels_def)

lemma sample_run_steps:
  "queue_step (after 0) (Claim 0 0 ''a'' (Some ''j1'')) (after 1)"
  "queue_step (after 1) (Claim 10000000 10000000 ''b'' None) (after 2)"
  "queue_step (after 2) (Claim 40000000 40000000 ''b'' (Some ''j1'')) (after 3)"
  "queue_step (after 3) (Fail ''j1'' ''b'' ''boom'') (after 4)"
  using sample_claims after_simps by (auto simp: prod_eq_iff intro!: exI)

lemma sample_end: "map_option wi_status (queue_get ''j1'' (after 4)) = Some WK_FAILED"
  by code_simp

lemma mk_queue_wf: "queue_wf (mk_queue s m)"
  by (simp add: queue_wf_def mk_queue_def)

theorem work_item_accounted_witness:
  "\<exists>x. queue_get ''j1'' (after 4) = Some x \<and> wi_attempts x = 2 \<and> finished x"
proof -
  have run: "run_of queue_step (snd (queue_enqueue ''j1'' [] (mk_queue 30 2))) sample_labels (after 4)"
    unfolding sample_queue_def [symmetric] after_simps(1) [symmetric] sample_labels_def
    using sample_run_steps by (blast intro: run_of.intros)
  have "run_of queue_step (after 4) [] (after 4)" by (rule run_of.intros)
  from work_item_accounted [OF mk_queue_wf _ _ run this] obtain x where
    "queue_get ''j1'' (after 4) = Some x" "wi_attempts x = 2"
    by (auto simp: mk_queue_def sample_labels_def)
  with sample_end show ?thesis by (auto simp: finished_def)
qed

theorem lease_is_exclusive_witness:
  "\<exists>x. queue_claim 0 0 ''a'' sample_queue = (Some x, after 1) \<and> leased (wi_work_id x) ''a'' 30000000 (after 2)"
proof -
  have "queue_step (mk_queue 30 2) (Enqueue ''j1'' []) sample_queue" by (simp add: sample_queue_def mk_queue_def)
  then have wf: "queue_wf sample_queue" using queue_step_wf mk_queue_wf by blast
  obtain y where y: "queue_claim 0 0 ''a'' sample_queue = (y, after 1)" "map_option wi_work_id y = Some ''j1''"
    using sample_run_steps(1) unfolding after_simps(1) by (metis queue_step.simps(2))
  then obtain x where x: "queue_claim 0 0 ''a'' sample_queue = (Some x, after 1)" "wi_work_id x = ''j1''"
    by (cases y) auto
  have run: "run_of queue_step (after 1) [Claim 10000000 10000000 ''b'' None] (after 2)"
    using sample_run_steps(2) by (blast intro: run_of.intros)
  have "lq_lease_seconds sample_queue = 30" by (simp add: sample_queue_def mk_queue_def queue_enqueue_def put_item_def)
  with lease_is_exclusive [OF wf x(1) run] x show ?thesis by auto
qed

end
