(* ===== verification/Production_Control.thy ===== *)
theory Production_Control
  imports Binary64 "HOL-Library.Sublist"
begin

text \<open>
  \<^verbatim>\<open>production/control_plane.py\<close>, \<^verbatim>\<open>production/evolution.py\<close>, \<^verbatim>\<open>production/semantic_world.py\<close> and
  \<open>OISProductionLifecycle.rollout_from_executions\<close> of \<^verbatim>\<open>ois/control_plane/lifecycle.py\<close>. The digest
  (\<open>sha256(repr(value))\<close>) and the deployment adapter (a protocol) are arguments.
\<close>

section \<open>Authorization\<close>

record subject =
  sj_subject_id :: string
  sj_tenant_id :: string
  sj_roles :: "string list"
  sj_attributes :: "(string \<times> string) list"
  sj_permissions :: "string list"

record authorization_policy =
  az_permission :: string
  az_required_role :: "string option"
  az_required_attributes :: "(string \<times> string) list"

definition role_permissions :: "string \<Rightarrow> string list" where
  "role_permissions role = (if role = ''release-manager'' then [''deployment.activate'', ''deployment.rollback''] else [])"

definition granted_permissions :: "subject \<Rightarrow> string list" where
  "granted_permissions s = sj_permissions s @ concat (map role_permissions (sj_roles s))"

definition missing_attribute :: "subject \<Rightarrow> (string \<times> string) list \<Rightarrow> string option" where
  "missing_attribute s req = map_option fst (List.find (\<lambda>(k, v). map_of (sj_attributes s) k \<noteq> Some v) req)"

definition rbac_authorize :: "subject \<Rightarrow> authorization_policy \<Rightarrow> py_exn + unit" where
  "rbac_authorize s p =
     (if sj_tenant_id s = [] then Inl (Exn AuthorizationError ''tenant identity is required'')
      else if az_permission p \<notin> set (granted_permissions s)
      then Inl (Exn AuthorizationError (''permission is missing: '' @ az_permission p))
      else if (case az_required_role p of None \<Rightarrow> False | Some r \<Rightarrow> r \<noteq> [] \<and> r \<notin> set (sj_roles s))
      then Inl (Exn AuthorizationError ''required role is missing'')
      else (case missing_attribute s (az_required_attributes p) of
              Some k \<Rightarrow> Inl (Exn AuthorizationError (''required attribute is missing: '' @ k))
            | None \<Rightarrow> Inr ()))"

section \<open>The evidence ledger\<close>

record prod_event =
  px_event_id :: string
  px_execution_id :: string
  px_event_type :: string
  px_payload :: pydict
  px_timestamp :: timestamp
  px_previous_hash :: "string option"
  px_content_hash :: string

type_synonym event_content = "string \<times> string \<times> string \<times> pydict \<times> string option"
type_synonym digest = "event_content \<Rightarrow> string"

record 'd prod_world =
  pw_tick :: nat
  pw_ledger :: "prod_event list"
  pw_deploy :: 'd

definition last_hash :: "prod_event list \<Rightarrow> string option" where
  "last_hash es = (if es = [] then None else Some (px_content_hash (last es)))"

definition mk_event :: "digest \<Rightarrow> string \<Rightarrow> string \<Rightarrow> string \<Rightarrow> pydict \<Rightarrow> timestamp \<Rightarrow> string option \<Rightarrow> prod_event" where
  "mk_event dig eid xid ty payload now previous =
     \<lparr>px_event_id = eid, px_execution_id = xid, px_event_type = ty, px_payload = payload, px_timestamp = now,
      px_previous_hash = previous, px_content_hash = dig (eid, xid, ty, payload, previous)\<rparr>"

definition next_uuid :: "environ \<Rightarrow> ('d prod_world, uuid) em" where
  "next_uuid env = (\<lambda>w. (Inr (fresh_uuid env (pw_tick w)), w\<lparr>pw_tick := Suc (pw_tick w)\<rparr>))"

definition next_now :: "environ \<Rightarrow> ('d prod_world, timestamp) em" where
  "next_now env = (\<lambda>w. (Inr (clock env (pw_tick w)), w\<lparr>pw_tick := Suc (pw_tick w)\<rparr>))"

definition evidence_append ::
  "environ \<Rightarrow> digest \<Rightarrow> string \<Rightarrow> string \<Rightarrow> pydict \<Rightarrow> ('d prod_world, prod_event) em" where
  "evidence_append env dig xid ty payload =
     ebind (next_uuid env) (\<lambda>eid. (\<lambda>w.
       if eid \<in> set (map px_event_id (pw_ledger w)) then (Inl (Exn ValueError ''duplicate evidence event''), w)
       else ebind (next_now env) (\<lambda>now w1.
         let ev = mk_event dig eid xid ty payload now (last_hash (pw_ledger w1))
         in (Inr ev, w1\<lparr>pw_ledger := pw_ledger w1 @ [ev]\<rparr>)) w))"

definition evidence_events :: "string option \<Rightarrow> prod_event list \<Rightarrow> prod_event list" where
  "evidence_events xid es =
     (case xid of None \<Rightarrow> es | Some x \<Rightarrow> filter (\<lambda>e. px_execution_id e = x) es)"

definition content_of :: "prod_event \<Rightarrow> event_content" where
  "content_of e = (px_event_id e, px_execution_id e, px_event_type e, px_payload e, px_previous_hash e)"

fun verify_from :: "digest \<Rightarrow> string option \<Rightarrow> prod_event list \<Rightarrow> bool" where
  "verify_from dig previous [] \<longleftrightarrow> True"
| "verify_from dig previous (e # es) \<longleftrightarrow>
     px_previous_hash e = previous
     \<and> px_content_hash e = dig (px_event_id e, px_execution_id e, px_event_type e, px_payload e, previous)
     \<and> verify_from dig (Some (px_content_hash e)) es"

definition verify_chain :: "digest \<Rightarrow> prod_event list \<Rightarrow> bool" where
  "verify_chain dig es = verify_from dig None es"

section \<open>Deployments\<close>

record 'd deployment_adapter =
  da_deploy :: "string \<Rightarrow> string \<Rightarrow> 'd \<Rightarrow> (py_exn + string) \<times> 'd"
  da_rollback :: "string \<Rightarrow> string \<Rightarrow> 'd \<Rightarrow> (py_exn + string) \<times> 'd"

type_synonym active_versions = "(string \<times> string) list"

definition in_memory_adapter :: "active_versions deployment_adapter" where
  "in_memory_adapter =
     \<lparr>da_deploy = (\<lambda>version environment d. (Inr version, AList.update environment version d)),
      da_rollback = (\<lambda>version environment d. (Inr version, AList.update environment version d))\<rparr>"

record deployment_record =
  dp_deployment_id :: string
  dp_candidate_version :: string
  dp_previous_version :: "string option"
  dp_environment :: string
  dp_state :: string
  dp_evidence_ids :: "string list"

definition adapt :: "('d \<Rightarrow> (py_exn + 'a) \<times> 'd) \<Rightarrow> ('d prod_world, 'a) em" where
  "adapt f = (\<lambda>w. case f (pw_deploy w) of (r, d) \<Rightarrow> (r, w\<lparr>pw_deploy := d\<rparr>))"

definition events_ids :: "string \<Rightarrow> ('d prod_world, string list) em" where
  "events_ids xid = eget (\<lambda>w. map px_event_id (evidence_events (Some xid) (pw_ledger w)))"

text \<open>The event that \<open>append\<close> returns is an object, so the test \<open>if not approval\<close> never holds.\<close>

definition activate ::
  "environ \<Rightarrow> digest \<Rightarrow> 'd deployment_adapter \<Rightarrow> subject \<Rightarrow> string \<Rightarrow> string \<Rightarrow> string option \<Rightarrow>
     ('d prod_world, deployment_record) em" where
  "activate env dig da s candidate environment previous =
     ebind (elift (rbac_authorize s \<lparr>az_permission = ''deployment.activate'', az_required_role = Some ''release-manager'',
                                     az_required_attributes = [(''environment'', environment)]\<rparr>)) (\<lambda>_.
     ebind (next_uuid env) (\<lambda>xid.
     ebind (evidence_append env dig xid ''deployment.approval''
              [(''candidate'', PStr candidate), (''environment'', PStr environment)]) (\<lambda>_.
     ebind (adapt (da_deploy da candidate environment)) (\<lambda>_.
     ebind (evidence_append env dig xid ''deployment.activated''
              [(''candidate'', PStr candidate), (''environment'', PStr environment)]) (\<lambda>_.
     ebind (next_uuid env) (\<lambda>did.
     ebind (events_ids xid) (\<lambda>ids.
     eret \<lparr>dp_deployment_id = did, dp_candidate_version = candidate, dp_previous_version = previous,
           dp_environment = environment, dp_state = ''ACTIVE'', dp_evidence_ids = ids\<rparr>)))))))"

definition rollback ::
  "environ \<Rightarrow> digest \<Rightarrow> 'd deployment_adapter \<Rightarrow> subject \<Rightarrow> string \<Rightarrow> string \<Rightarrow> ('d prod_world, deployment_record) em" where
  "rollback env dig da s target environment =
     ebind (elift (rbac_authorize s \<lparr>az_permission = ''deployment.rollback'', az_required_role = Some ''release-manager'',
                                     az_required_attributes = [(''environment'', environment)]\<rparr>)) (\<lambda>_.
     ebind (next_uuid env) (\<lambda>xid.
     ebind (evidence_append env dig xid ''deployment.rollback.approved''
              [(''target'', PStr target), (''environment'', PStr environment)]) (\<lambda>_.
     ebind (adapt (da_rollback da target environment)) (\<lambda>_.
     ebind (evidence_append env dig xid ''deployment.rollback.verified''
              [(''target'', PStr target), (''environment'', PStr environment)]) (\<lambda>_.
     ebind (next_uuid env) (\<lambda>did.
     ebind (events_ids xid) (\<lambda>ids.
     eret \<lparr>dp_deployment_id = did, dp_candidate_version = target, dp_previous_version = None,
           dp_environment = environment, dp_state = ''ROLLED_BACK'', dp_evidence_ids = ids\<rparr>)))))))"

section \<open>Measurement and canaries\<close>

record evaluation =
  ec_candidate :: string
  ec_score :: rat
  ec_baseline :: rat
  ec_passed :: bool
  ec_reason :: string

text \<open>\<open>statistics.mean\<close> sums exactly and rounds once.\<close>

definition learning_evaluate :: "string \<Rightarrow> rat list \<Rightarrow> rat \<Rightarrow> rat \<Rightarrow> evaluation" where
  "learning_evaluate candidate values baseline minimum_score =
     (if values = []
      then \<lparr>ec_candidate = candidate, ec_score = 0, ec_baseline = baseline, ec_passed = False, ec_reason = ''no measurements''\<rparr>
      else (let score = fl (sum_list values / of_nat (length values))
            in \<lparr>ec_candidate = candidate, ec_score = score, ec_baseline = baseline, ec_passed = (minimum_score \<le> score),
                ec_reason = ''score gate''\<rparr>))"

definition learning_candidate :: "evaluation \<Rightarrow> bool \<Rightarrow> string" where
  "learning_candidate e approved =
     (if \<not> ec_passed e then ''REJECTED'' else if \<not> approved then ''PENDING_APPROVAL'' else ''APPROVED'')"

record canary_controller =
  cn_minimum_success_rate :: rat
  cn_maximum_latency_ms :: rat

record canary_decision =
  cy_candidate :: string
  cy_traffic_percent :: int
  cy_success_rate :: rat
  cy_latency_ms :: rat
  cy_passed :: bool

definition canary_decide :: "canary_controller \<Rightarrow> string \<Rightarrow> int \<Rightarrow> int \<Rightarrow> int \<Rightarrow> rat \<Rightarrow> py_exn + canary_decision" where
  "canary_decide cn candidate traffic successes tot latency =
     (if \<not> (1 \<le> traffic \<and> traffic \<le> 100) then Inl (Exn ValueError ''traffic_percent must be between 1 and 100'')
      else (let rate = (if tot = 0 then 0 else fl (of_int successes / of_int tot))
            in Inr \<lparr>cy_candidate = candidate, cy_traffic_percent = traffic, cy_success_rate = rate, cy_latency_ms = latency,
                    cy_passed = (cn_minimum_success_rate cn \<le> rate \<and> latency \<le> cn_maximum_latency_ms cn)\<rparr>))"

section \<open>The semantic world\<close>

record entity =
  ey_entity_id :: string
  ey_entity_type :: string
  ey_attributes :: pydict
  ey_version :: int

record fact =
  fa_fact_id :: string
  fa_subject_id :: string
  fa_predicate :: string
  fa_object :: pyval
  fa_source :: string
  fa_confidence :: rat
  fa_version :: int
  fa_observed_at :: timestamp

record semantic_world =
  sm_entities :: "(string \<times> entity) list"
  sm_facts :: "fact list"

definition upsert_entity ::
  "uuid \<Rightarrow> string \<Rightarrow> pydict \<Rightarrow> string option \<Rightarrow> semantic_world \<Rightarrow> entity \<times> semantic_world" where
  "upsert_entity fresh ty attrs eid w =
     (let i = (case eid of Some e \<Rightarrow> (if e \<noteq> [] then e else fresh) | None \<Rightarrow> fresh);
          v = (case map_of (sm_entities w) i of Some old \<Rightarrow> ey_version old + 1 | None \<Rightarrow> 1);
          e = \<lparr>ey_entity_id = i, ey_entity_type = ty, ey_attributes = attrs, ey_version = v\<rparr>
      in (e, w\<lparr>sm_entities := AList.update i e (sm_entities w)\<rparr>))"

definition facts_of :: "string option \<Rightarrow> string option \<Rightarrow> semantic_world \<Rightarrow> fact list" where
  "facts_of subj pred w =
     filter (\<lambda>f. (case subj of None \<Rightarrow> True | Some s \<Rightarrow> fa_subject_id f = s)
               \<and> (case pred of None \<Rightarrow> True | Some p \<Rightarrow> fa_predicate f = p)) (sm_facts w)"

definition assert_fact ::
  "uuid \<Rightarrow> timestamp \<Rightarrow> string \<Rightarrow> string \<Rightarrow> pyval \<Rightarrow> string \<Rightarrow> rat \<Rightarrow> semantic_world \<Rightarrow> py_exn + fact \<times> semantic_world" where
  "assert_fact fresh now subj pred v source confidence w =
     rbind (check (source \<noteq> []) ValueError ''fact provenance source is required'') (\<lambda>_.
     rbind (check (0 \<le> confidence \<and> confidence \<le> 1) ValueError ''confidence must be between 0 and 1'') (\<lambda>_.
     let version = 1 + foldr max (map fa_version (facts_of (Some subj) (Some pred) w)) 0;
         f = \<lparr>fa_fact_id = fresh, fa_subject_id = subj, fa_predicate = pred, fa_object = v, fa_source = source,
              fa_confidence = confidence, fa_version = version, fa_observed_at = now\<rparr>
     in Inr (f, w\<lparr>sm_facts := sm_facts w @ [f]\<rparr>)))"

section \<open>Rollouts\<close>

record rollout_result =
  ro_candidate :: string
  ro_decision :: canary_decision
  ro_state :: string
  ro_execution_ids :: "string list"
  ro_evidence_event_ids :: "string list"

text \<open>An observed execution: its id, and whether the kernel's result succeeded.\<close>

type_synonym observed = "string \<times> bool"

definition rollout_id :: "string \<Rightarrow> string \<Rightarrow> string" where
  "rollout_id candidate environment = ''rollout:'' @ candidate @ '':'' @ environment"

definition ledger_note ::
  "environ \<Rightarrow> digest \<Rightarrow> string \<Rightarrow> string \<Rightarrow> pydict \<Rightarrow> ('d prod_world, unit) em" where
  "ledger_note env dig xid ty payload = ebind (evidence_append env dig xid ty payload) (\<lambda>_. eret ())"

definition conclude_rollout ::
  "environ \<Rightarrow> digest \<Rightarrow> 'd deployment_adapter \<Rightarrow> string \<Rightarrow> string \<Rightarrow> string \<Rightarrow> rat \<Rightarrow> subject \<Rightarrow> canary_decision \<Rightarrow>
     ('d prod_world, string) em" where
  "conclude_rollout env dig da candidate environment previous latency s d =
     (let rid = rollout_id candidate environment;
          measured = [(''success_rate'', PFloat (cy_success_rate d)), (''latency_ms'', PFloat latency)]
      in if \<not> cy_passed d
         then eseq (ledger_note env dig rid ''rollout.canary.failed'' measured)
              (ebind (rollback env dig da s previous environment) (\<lambda>rb.
               eseq (ledger_note env dig rid ''rollout.rollback.verified''
                       [(''target'', PStr previous), (''deployment_evidence'', PList (map PStr (dp_evidence_ids rb)))])
               (eret ''ROLLED_BACK'')))
         else eseq (ledger_note env dig rid ''rollout.canary.passed'' measured)
              (ebind (activate env dig da s candidate environment (Some previous)) (\<lambda>ac.
               eseq (ledger_note env dig rid ''rollout.promoted''
                       [(''candidate'', PStr candidate), (''deployment_evidence'', PList (map PStr (dp_evidence_ids ac)))])
               (eret ''PROMOTED''))))"

definition rollout_from_executions ::
  "environ \<Rightarrow> digest \<Rightarrow> 'd deployment_adapter \<Rightarrow> canary_controller \<Rightarrow> string \<Rightarrow> string \<Rightarrow> string \<Rightarrow> observed list \<Rightarrow> int \<Rightarrow> rat \<Rightarrow>
     subject \<Rightarrow> ('d prod_world, rollout_result) em" where
  "rollout_from_executions env dig da cn candidate environment previous observed traffic latency s =
     (let rid = rollout_id candidate environment; ids = map fst observed
      in eseq (ledger_note env dig rid ''rollout.canary.started''
                [(''candidate'', PStr candidate), (''traffic_percent'', PInt traffic), (''execution_ids'', PList (map PStr ids))])
         (ebind (elift (canary_decide cn candidate traffic (int (length (filter snd observed))) (int (length observed)) latency)) (\<lambda>d.
          ebind (conclude_rollout env dig da candidate environment previous latency s d) (\<lambda>state.
          ebind (events_ids rid) (\<lambda>evs.
          eret \<lparr>ro_candidate = candidate, ro_decision = d, ro_state = state, ro_execution_ids = ids,
                ro_evidence_event_ids = evs\<rparr>)))))"

end
