(* ===== verification/Production_Properties.thy ===== *)
theory Production_Properties
  imports Production_Control
begin

text \<open>
  Properties of the production control plane: the evidence ledger is tamper-evident, and a rollout
  changes the active version only as the canary and the authorization say.
\<close>

section \<open>The ledger is a chain\<close>

lemma verify_from_snoc:
  "verify_from dig p (es @ [e]) \<longleftrightarrow>
     verify_from dig p es \<and> px_previous_hash e = (if es = [] then p else Some (px_content_hash (last es)))
     \<and> px_content_hash e = dig (content_of e)"
  by (induction es arbitrary: p) (auto simp: content_of_def)

lemma verify_chain_snoc:
  "verify_chain dig (es @ [e]) \<longleftrightarrow>
     verify_chain dig es \<and> px_previous_hash e = last_hash es \<and> px_content_hash e = dig (content_of e)"
  by (simp add: verify_chain_def verify_from_snoc last_hash_def)

definition chained :: "digest \<Rightarrow> 'd prod_world \<Rightarrow> 'd prod_world \<Rightarrow> bool" where
  "chained dig w w' \<longleftrightarrow>
     prefix (pw_ledger w) (pw_ledger w') \<and> (verify_chain dig (pw_ledger w) \<longrightarrow> verify_chain dig (pw_ledger w'))"

text \<open>What a release operation may do: extend the chain and, if it is allowed to, set the version.\<close>

definition released :: "digest \<Rightarrow> bool \<Rightarrow> string \<Rightarrow> string \<Rightarrow> active_versions prod_world \<Rightarrow> active_versions prod_world \<Rightarrow> bool" where
  "released dig ok v environment w w' \<longleftrightarrow>
     chained dig w w'
     \<and> (pw_deploy w' = pw_deploy w \<or> ok \<and> pw_deploy w' = AList.update environment v (pw_deploy w))"

lemma update_twice [simp]: "AList.update k v (AList.update k v d) = AList.update k v d"
  by (induction d) auto

interpretation released: step_order "released dig ok v environment" for dig ok v environment
  by unfold_locales (auto simp: released_def chained_def)

lemma append_effect:
  assumes "evidence_append env dig xid ty payload w = (r, w')"
  shows "chained dig w w' \<and> pw_deploy w' = pw_deploy w"
  using assms
  by (auto simp: evidence_append_def next_uuid_def next_now_def em_simps Let_def chained_def verify_chain_snoc
      mk_event_def content_of_def split: if_splits)

lemma append_released: "confined (released dig ok v environment) (evidence_append env dig xid ty payload)"
  unfolding confined_def released_def by (metis append_effect prod.collapse)

lemma note_released: "confined (released dig ok v environment) (ledger_note env dig xid ty payload)"
  unfolding ledger_note_def by (intro released.confined_ebind append_released released.confined_eret)

lemma uuid_released: "confined (released dig ok v environment) (next_uuid env)"
  by (simp add: confined_def next_uuid_def released_def chained_def)

lemma ids_released: "confined (released dig ok v environment) (events_ids xid)"
  unfolding events_ids_def by (rule released.confined_eget)

section \<open>Who may release\<close>

definition may_release :: "subject \<Rightarrow> string \<Rightarrow> bool" where
  "may_release s environment \<longleftrightarrow>
     sj_tenant_id s \<noteq> [] \<and> ''release-manager'' \<in> set (sj_roles s)
     \<and> map_of (sj_attributes s) ''environment'' = Some environment"

lemma release_authorized:
  assumes "perm \<in> {''deployment.activate'', ''deployment.rollback''}"
  shows "rbac_authorize s \<lparr>az_permission = perm, az_required_role = Some ''release-manager'',
           az_required_attributes = [(''environment'', environment)]\<rparr> = Inr () \<longleftrightarrow> may_release s environment"
proof -
  have "''release-manager'' \<in> set (sj_roles s) \<Longrightarrow> perm \<in> set (granted_permissions s)"
    using assms by (auto simp: granted_permissions_def role_permissions_def)
  then show ?thesis
    by (auto simp: rbac_authorize_def may_release_def missing_attribute_def)
qed

lemma adapt_released:
  "confined (released dig True v environment) (adapt (da_deploy in_memory_adapter v environment))"
  "confined (released dig True v environment) (adapt (da_rollback in_memory_adapter v environment))"
  by (simp_all add: confined_def adapt_def in_memory_adapter_def released_def chained_def)

lemma released_True: "confined (released dig True v environment) m \<Longrightarrow> ok \<Longrightarrow> confined (released dig ok v environment) m"
  by simp

lemma release_released:
  assumes "perm \<in> {''deployment.activate'', ''deployment.rollback''}"
    and "may_release s environment \<Longrightarrow> confined (released dig (may_release s environment) v environment) m"
  shows "confined (released dig (may_release s environment) v environment)
     (ebind (elift (rbac_authorize s \<lparr>az_permission = perm, az_required_role = Some ''release-manager'',
           az_required_attributes = [(''environment'', environment)]\<rparr>)) (\<lambda>_. m))"
proof (rule released.confined_ebind_dep [OF released.confined_elift])
  fix x w w'
  assume "elift (rbac_authorize s \<lparr>az_permission = perm, az_required_role = Some ''release-manager'',
      az_required_attributes = [(''environment'', environment)]\<rparr>) w = (Inr x, w')"
  then have "may_release s environment"
    using release_authorized [OF assms(1), of s environment] by (simp add: em_simps)
  then show "confined (released dig (may_release s environment) v environment) m" by (rule assms(2))
qed

lemma activate_released:
  "confined (released dig (may_release s environment) v environment) (activate env dig in_memory_adapter s v environment previous)"
  unfolding activate_def
  by (rule release_released, simp)
    (intro released.confined_ebind uuid_released append_released ids_released released.confined_eret
      released_True [OF adapt_released(1)])

lemma rollback_released:
  "confined (released dig (may_release s environment) v environment) (rollback env dig in_memory_adapter s v environment)"
  unfolding rollback_def
  by (rule release_released, simp)
    (intro released.confined_ebind uuid_released append_released ids_released released.confined_eret
      released_True [OF adapt_released(2)])

lemmas release_elims = ebind_InrE elift_InrE
lemmas release_effects = adapt_def in_memory_adapter_def next_uuid_def events_ids_def em_simps

lemma activate_deploys:
  "activate env dig in_memory_adapter s v environment previous w = (Inr d, w') \<Longrightarrow>
     pw_deploy w' = AList.update environment v (pw_deploy w)"
  unfolding activate_def by (elim release_elims) (auto simp: release_effects dest!: append_effect)

lemma rollback_deploys:
  "rollback env dig in_memory_adapter s v environment w = (Inr d, w') \<Longrightarrow>
     pw_deploy w' = AList.update environment v (pw_deploy w)"
  unfolding rollback_def by (elim release_elims) (auto simp: release_effects dest!: append_effect)

lemma note_effect:
  "ledger_note env dig xid ty payload w = (r, w') \<Longrightarrow> pw_deploy w' = pw_deploy w"
  by (cases "evidence_append env dig xid ty payload w")
    (auto simp: ledger_note_def em_simps dest!: append_effect split: sum.splits)

section \<open>Rollouts\<close>

definition canary_rate :: "observed list \<Rightarrow> rat" where
  "canary_rate obs = (if obs = [] then 0 else fl (of_nat (length (filter snd obs)) / of_nat (length obs)))"

definition canary_passes :: "canary_controller \<Rightarrow> observed list \<Rightarrow> rat \<Rightarrow> bool" where
  "canary_passes cn obs latency \<longleftrightarrow> cn_minimum_success_rate cn \<le> canary_rate obs \<and> latency \<le> cn_maximum_latency_ms cn"

lemma canary_decide_Inr:
  "canary_decide cn c traffic (int (length (filter snd obs))) (int (length obs)) latency = Inr d \<longleftrightarrow>
     1 \<le> traffic \<and> traffic \<le> 100 \<and> d = \<lparr>cy_candidate = c, cy_traffic_percent = traffic, cy_success_rate = canary_rate obs,
       cy_latency_ms = latency, cy_passed = canary_passes cn obs latency\<rparr>"
  by (auto simp: canary_decide_def Let_def canary_rate_def canary_passes_def)

lemma conclude_released:
  "confined (released dig (may_release s environment) (if cy_passed d then candidate else previous) environment)
     (conclude_rollout env dig in_memory_adapter candidate environment previous latency s d)"
  unfolding conclude_rollout_def Let_def
  using activate_released rollback_released
  by (auto intro!: released.confined_eseq released.confined_ebind note_released released.confined_eret)

lemma conclude_deploys:
  assumes "conclude_rollout env dig in_memory_adapter candidate environment previous latency s d w = (Inr st, w')"
  shows "st = (if cy_passed d then ''PROMOTED'' else ''ROLLED_BACK'')
     \<and> pw_deploy w' = AList.update environment (if cy_passed d then candidate else previous) (pw_deploy w)"
  using assms
  by (cases "cy_passed d")
    (auto simp: conclude_rollout_def Let_def eret_apply elim!: ebind_InrE eseq_InrE
      dest!: note_effect activate_deploys rollback_deploys)

lemma rollout_released:
  "confined (released dig (may_release s environment) (if canary_passes cn obs latency then candidate else previous) environment)
     (rollout_from_executions env dig in_memory_adapter cn candidate environment previous obs traffic latency s)"
proof -
  have "confined (released dig (may_release s environment) (if canary_passes cn obs latency then candidate else previous) environment)
      (conclude_rollout env dig in_memory_adapter candidate environment previous latency s d)"
    if "canary_decide cn candidate traffic (int (length (filter snd obs))) (int (length obs)) latency = Inr d" for d
    using conclude_released [of dig s environment d candidate previous env latency] that
    unfolding canary_decide_Inr by simp
  then show ?thesis
    unfolding rollout_from_executions_def Let_def
    by (intro released.confined_eseq note_released released.confined_ebind_dep [OF released.confined_elift]
        released.confined_ebind ids_released released.confined_eret) (auto simp: em_simps)
qed

text \<open>
  C33. A rollout is gated by the canary and by the authorization: whatever a rollout does, and whether it
  returns or raises, it only extends the evidence ledger and keeps it a valid chain, and it changes the
  active versions only if the subject has a tenant, is a release manager and carries the environment as
  an attribute, and then only the version of that environment. If it returns, the traffic share was
  between 1 and 100, the candidate is promoted exactly when the success rate and the latency pass, and
  the environment runs the candidate or, if not, the previous version.
\<close>

theorem rollout_is_gated:
  assumes "rollout_from_executions env dig in_memory_adapter cn candidate environment previous obs traffic latency s w = (r, w')"
  shows "prefix (pw_ledger w) (pw_ledger w') \<and> (verify_chain dig (pw_ledger w) \<longrightarrow> verify_chain dig (pw_ledger w'))
     \<and> (pw_deploy w' \<noteq> pw_deploy w \<longrightarrow> may_release s environment
          \<and> pw_deploy w' = AList.update environment (if canary_passes cn obs latency then candidate else previous) (pw_deploy w))
     \<and> (\<forall>res. r = Inr res \<longrightarrow> 1 \<le> traffic \<and> traffic \<le> 100
          \<and> ro_state res = (if canary_passes cn obs latency then ''PROMOTED'' else ''ROLLED_BACK'')
          \<and> map_of (pw_deploy w') environment = Some (if canary_passes cn obs latency then candidate else previous))"
proof -
  have "1 \<le> traffic \<and> traffic \<le> 100
      \<and> ro_state res = (if canary_passes cn obs latency then ''PROMOTED'' else ''ROLLED_BACK'')
      \<and> map_of (pw_deploy w') environment = Some (if canary_passes cn obs latency then candidate else previous)"
    if r: "r = Inr res" for res
  proof -
    obtain d st w1 w2 where d: "canary_decide cn candidate traffic (int (length (filter snd obs))) (int (length obs)) latency = Inr d"
      and c: "conclude_rollout env dig in_memory_adapter candidate environment previous latency s d w1 = (Inr st, w2)"
      and e: "ro_state res = st" "pw_deploy w' = pw_deploy w2"
      using assms [unfolded r rollout_from_executions_def Let_def]
      by (elim eseq_InrE ebind_InrE elift_InrE) (auto simp: em_simps events_ids_def)
    from conclude_deploys [OF c] d e show ?thesis by (simp add: canary_decide_Inr)
  qed
  with confinedD' [OF rollout_released assms] show ?thesis by (auto simp: released_def chained_def)
qed

section \<open>The ledger is tamper-evident\<close>

text \<open>
  The last hash of the evidence ledger commits to its whole history: if the digest gives different
  values to different records of the two ledgers, then any two ledgers that pass \<open>verify_chain\<close> and end
  with the same hash hold the same records in the same order; and appending keeps a ledger valid.
\<close>

theorem evidence_head_commits:
  assumes "verify_chain dig es" and "verify_chain dig es'" and "last_hash es = last_hash es'"
    and "inj_on dig (content_of ` (set es \<union> set es'))"
  shows "map content_of es = map content_of es'
     \<and> (\<forall>env xid ty payload w r w'. pw_ledger (w :: 'd prod_world) = es \<longrightarrow> evidence_append env dig xid ty payload w = (r, w')
          \<longrightarrow> verify_chain dig (pw_ledger w'))"
proof
  show "map content_of es = map content_of es'"
    using assms
  proof (induction es arbitrary: es' rule: rev_induct)
    case Nil
    then show ?case by (simp add: last_hash_def split: if_splits)
  next
    case (snoc e es)
    obtain e' xs where es': "es' = xs @ [e']"
      using snoc.prems(3) by (cases es' rule: rev_cases) (auto simp: last_hash_def)
    have h: "dig (content_of e) = dig (content_of e')"
      using snoc.prems(1-3) by (simp add: es' verify_chain_snoc last_hash_def)
    then have c: "content_of e = content_of e'"
      using inj_onD [OF snoc.prems(4) h] by (simp add: es')
    then have "last_hash es = last_hash xs"
      using snoc.prems(1,2) by (simp add: es' verify_chain_snoc content_of_def)
    moreover have "inj_on dig (content_of ` (set es \<union> set xs))"
      by (rule inj_on_subset [OF snoc.prems(4)]) (auto simp: es')
    ultimately have "map content_of es = map content_of xs"
      using snoc.IH snoc.prems(1,2) by (simp add: es' verify_chain_snoc)
    with c show ?case by (simp add: es')
  qed
  show "\<forall>env xid ty payload w r w'. pw_ledger (w :: 'd prod_world) = es \<longrightarrow> evidence_append env dig xid ty payload w = (r, w')
      \<longrightarrow> verify_chain dig (pw_ledger w')"
    using assms(1) append_effect by (fastforce simp: chained_def)
qed

section \<open>Samples\<close>

lemma fl_samples:
  "fl (1 / 3) = 6004799503160661 / 18014398509481984" "fl (2 / 3) = 6004799503160661 / 9007199254740992"
  "fl (99 / 100) = 4458563631096791 / 4503599627370496" "fl (100000000000000000 / 3) = 33333333333333332"
  by code_simp+

definition sample_digest :: digest where
  "sample_digest = (\<lambda>(eid, xid, ty, payload, previous). ''h:'' @ eid @ ty)"

definition sample_chain :: "timestamp \<Rightarrow> prod_event list" where
  "sample_chain now =
     (let e1 = mk_event sample_digest ''1'' ''x'' ''deployment.approval'' [] now None;
          e2 = mk_event sample_digest ''2'' ''x'' ''deployment.activated'' [] now (Some (px_content_hash e1))
      in [e1, e2])"

theorem evidence_head_commits_witness:
  "map content_of (sample_chain 0) = map content_of (sample_chain 9) \<and> sample_chain 0 \<noteq> sample_chain 9
   \<and> last_hash (sample_chain 0) = last_hash (sample_chain 9)"
proof -
  have v: "verify_chain sample_digest (sample_chain n)" for n
    by (simp add: verify_chain_def sample_chain_def mk_event_def Let_def)
  have l: "last_hash (sample_chain 0) = last_hash (sample_chain 9)"
    by (simp add: last_hash_def sample_chain_def mk_event_def Let_def sample_digest_def)
  have i: "inj_on sample_digest (content_of ` (set (sample_chain 0) \<union> set (sample_chain 9)))"
    by (simp add: sample_chain_def mk_event_def Let_def sample_digest_def content_of_def inj_on_def)
  have "sample_chain 0 \<noteq> sample_chain 9" by (simp add: sample_chain_def mk_event_def Let_def)
  with evidence_head_commits [OF v v l i] l show ?thesis by blast
qed

definition release_manager :: subject where
  "release_manager =
     \<lparr>sj_subject_id = ''rm'', sj_tenant_id = ''acme'', sj_roles = [''release-manager''],
      sj_attributes = [(''environment'', ''production'')], sj_permissions = []\<rparr>"

definition prod_env :: environ where
  "prod_env = \<lparr>clock = int, fresh_uuid = nat_str\<rparr>"

definition sample_canary :: canary_controller where
  "sample_canary = \<lparr>cn_minimum_success_rate = fl (99 / 100), cn_maximum_latency_ms = 1000\<rparr>"

definition sample_rollout :: "(py_exn + rollout_result) \<times> active_versions prod_world" where
  "sample_rollout =
     rollout_from_executions prod_env sample_digest in_memory_adapter sample_canary ''v2'' ''production'' ''v1''
       [(''x1'', True), (''x2'', True), (''x3'', False)] 10 250 release_manager
       \<lparr>pw_tick = 0, pw_ledger = [], pw_deploy = [(''production'', ''v2-rc''), (''staging'', ''v2'')]\<rparr>"

lemma sample_rollout_rate: "canary_passes sample_canary [(''x1'', True), (''x2'', True), (''x3'', False)] 250 = False"
  by code_simp

lemma sample_rollout_ok: "isl (fst sample_rollout) = False"
  by code_simp

theorem rollout_is_gated_witness:
  "\<exists>res. fst sample_rollout = Inr res \<and> ro_state res = ''ROLLED_BACK''
     \<and> map_of (pw_deploy (snd sample_rollout)) ''production'' = Some ''v1''
     \<and> verify_chain sample_digest (pw_ledger (snd sample_rollout))"
proof -
  obtain res where res: "fst sample_rollout = Inr res" using sample_rollout_ok by (cases "fst sample_rollout") auto
  have "rollout_from_executions prod_env sample_digest in_memory_adapter sample_canary ''v2'' ''production'' ''v1''
       [(''x1'', True), (''x2'', True), (''x3'', False)] 10 250 release_manager
       \<lparr>pw_tick = 0, pw_ledger = [], pw_deploy = [(''production'', ''v2-rc''), (''staging'', ''v2'')]\<rparr>
       = (Inr res, snd sample_rollout)"
    using res by (simp add: sample_rollout_def [symmetric] prod_eq_iff)
  from rollout_is_gated [OF this] res show ?thesis
    by (simp add: sample_rollout_rate verify_chain_def)
qed

end
