(* ===== verification/Resilience_Lease.thy ===== *)
theory Resilience_Lease
  imports OIS_Prelude
begin

text \<open>
  \<^verbatim>\<open>ois/kernel/production_resilience.py\<close>, the leases: the four Lua scripts and \<open>FencedLeaseManager\<close>. A
  script runs atomically in Redis, so it is one step on the keys. A lease and its counter live in the
  same key space: the counter of \<open>k\<close> is the key \<open>k:sequence\<close>. A key whose expiry has passed is absent, and
  a command on a key of the other type raises. Redis counts in 64 bits and Lua in binary64: the counters
  are taken to stay below \<open>2 ^ 53\<close>, where both are exact. The lemmas below show that the tokens of a key are
  consecutive, that a lease that passes \<open>assert_current\<close> has the highest token, and that it excludes others.
\<close>

datatype redis_value = Lease_hash (rv_nonce: string) (rv_token: int) (rv_expires: timestamp) | Counter (rv_count: int)

type_synonym redis = "(string \<times> redis_value) list"

definition present :: "timestamp \<Rightarrow> redis \<Rightarrow> string \<Rightarrow> redis_value option" where
  "present now st k =
     (case map_of st k of
        Some (Lease_hash n t e) \<Rightarrow> if e > now then Some (Lease_hash n t e) else None
      | r \<Rightarrow> r)"

definition wrong_type :: py_exn where
  "wrong_type = Exn (OtherException ''ResponseError'') ''WRONGTYPE Operation against a key holding the wrong kind of value''"

definition sequence_key :: "string \<Rightarrow> string" where
  "sequence_key k = k @ '':sequence''"

text \<open>\<open>ttl\<close> is in microseconds, like every time here.\<close>

definition acquire_lua :: "timestamp \<Rightarrow> int \<Rightarrow> string \<Rightarrow> string \<Rightarrow> redis \<Rightarrow> py_exn + (int \<times> int) \<times> redis" where
  "acquire_lua now ttl k nonce st =
     (if present now st k \<noteq> None then Inr ((0, 0), st)
      else case present now st (sequence_key k) of
        Some (Lease_hash _ _ _) \<Rightarrow> Inl wrong_type
      | c \<Rightarrow>
         (let token = (case c of Some (Counter n) \<Rightarrow> n + 1 | _ \<Rightarrow> 1)
          in Inr ((1, token),
               AList.update k (Lease_hash nonce token (now + ttl)) (AList.update (sequence_key k) (Counter token) st))))"

definition renew_lua :: "timestamp \<Rightarrow> int \<Rightarrow> string \<Rightarrow> string \<Rightarrow> redis \<Rightarrow> py_exn + int \<times> redis" where
  "renew_lua now ttl k nonce st =
     (case present now st k of
        None \<Rightarrow> Inr (0, st)
      | Some (Counter _) \<Rightarrow> Inl wrong_type
      | Some (Lease_hash n t e) \<Rightarrow>
          if n \<noteq> nonce then Inr (0, st) else Inr (1, AList.update k (Lease_hash n t (now + ttl)) st))"

definition release_lua :: "timestamp \<Rightarrow> string \<Rightarrow> string \<Rightarrow> redis \<Rightarrow> py_exn + int \<times> redis" where
  "release_lua now k nonce st =
     (case present now st k of
        None \<Rightarrow> Inr (0, st)
      | Some (Counter _) \<Rightarrow> Inl wrong_type
      | Some (Lease_hash n t e) \<Rightarrow> if n \<noteq> nonce then Inr (0, st) else Inr (1, AList.delete k st))"

definition read_lease_lua :: "timestamp \<Rightarrow> string \<Rightarrow> redis \<Rightarrow> py_exn + int \<times> string \<times> int" where
  "read_lease_lua now k st =
     (case present now st k of
        None \<Rightarrow> Inr (0, [], 0)
      | Some (Counter _) \<Rightarrow> Inl wrong_type
      | Some (Lease_hash n t e) \<Rightarrow> Inr (1, n, t))"

section \<open>The manager\<close>

record fenced_lease =
  fe_key :: string
  fe_owner_nonce :: string
  fe_fencing_token :: int
  fe_ttl :: int

definition mk_lease_manager :: "int \<Rightarrow> py_exn + int" where
  "mk_lease_manager ttl_ms =
     (if ttl_ms < 100 then Inl (Exn ValueError ''ttl_ms must be at least 100ms'') else Inr (ttl_ms * 1000))"

abbreviation LeaseAcquisitionFailed :: exn_class where
  "LeaseAcquisitionFailed \<equiv> OtherException ''LeaseAcquisitionFailed''"

abbreviation FencingTokenMismatch :: exn_class where
  "FencingTokenMismatch \<equiv> OtherException ''FencingTokenMismatch''"

definition manager_acquire :: "int \<Rightarrow> timestamp \<Rightarrow> string \<Rightarrow> string \<Rightarrow> redis \<Rightarrow> py_exn + fenced_lease \<times> redis" where
  "manager_acquire ttl now nonce k st =
     rbind (acquire_lua now ttl k nonce st) (\<lambda>((ok, token), st').
     if ok \<noteq> 1 then Inl (Exn LeaseAcquisitionFailed (''RC-05 lease is already held: '' @ k))
     else Inr (\<lparr>fe_key = k, fe_owner_nonce = nonce, fe_fencing_token = token, fe_ttl = ttl\<rparr>, st'))"

definition manager_renew :: "timestamp \<Rightarrow> fenced_lease \<Rightarrow> redis \<Rightarrow> py_exn + redis" where
  "manager_renew now l st =
     rbind (renew_lua now (fe_ttl l) (fe_key l) (fe_owner_nonce l) st) (\<lambda>(ok, st').
     if ok \<noteq> 1 then Inl (Exn FencingTokenMismatch ''RC-05 lease renewal rejected: ownership lost'') else Inr st')"

text \<open>The checks on what the script returned.\<close>

definition check_lease :: "fenced_lease \<Rightarrow> int \<times> string \<times> int \<Rightarrow> py_exn + unit" where
  "check_lease l = (\<lambda>(found, nonce, token).
     if found \<noteq> 1 then Inl (Exn FencingTokenMismatch ''RC-05 lease no longer exists'')
     else if nonce \<noteq> fe_owner_nonce l then Inl (Exn FencingTokenMismatch ''RC-05 lease is no longer owned by this worker'')
     else if token \<noteq> fe_fencing_token l then Inl (Exn FencingTokenMismatch ''RC-05 fencing token changed'')
     else Inr ())"

definition manager_assert_current :: "timestamp \<Rightarrow> fenced_lease \<Rightarrow> redis \<Rightarrow> py_exn + unit" where
  "manager_assert_current now l st = rbind (read_lease_lua now (fe_key l) st) (check_lease l)"

definition manager_release :: "timestamp \<Rightarrow> fenced_lease \<Rightarrow> redis \<Rightarrow> py_exn + redis" where
  "manager_release now l st = rbind (release_lua now (fe_key l) (fe_owner_nonce l) st) (\<lambda>(_, st'). Inr st')"

section \<open>Steps of all the workers\<close>

datatype redis_label = Acquired timestamp string fenced_lease | Renewed timestamp fenced_lease | Released timestamp fenced_lease

fun redis_step :: "int \<Rightarrow> redis \<Rightarrow> redis_label \<Rightarrow> redis \<Rightarrow> bool" where
  "redis_step ttl st (Acquired now k l) st' \<longleftrightarrow> manager_acquire ttl now (fe_owner_nonce l) k st = Inr (l, st')"
| "redis_step ttl st (Renewed now l) st' \<longleftrightarrow> manager_renew now l st = Inr st'"
| "redis_step ttl st (Released now l) st' \<longleftrightarrow> manager_release now l st = Inr st'"

fun token_of :: "string \<Rightarrow> redis_label \<Rightarrow> int list" where
  "token_of k (Acquired now k' l) = (if k' = k then [fe_fencing_token l] else [])"
| "token_of k _ = []"

definition tokens :: "string \<Rightarrow> redis_label list \<Rightarrow> int list" where
  "tokens k ls = concat (map (token_of k) ls)"

definition issued :: "string \<Rightarrow> redis \<Rightarrow> int" where
  "issued k st = (case map_of st (sequence_key k) of Some (Counter n) \<Rightarrow> n | _ \<Rightarrow> 0)"

lemma sequence_key_neq [simp]: "sequence_key k \<noteq> k" "k \<noteq> sequence_key k"
  by (simp_all add: sequence_key_def)

lemma sequence_key_inj [simp]: "sequence_key a = sequence_key b \<longleftrightarrow> a = b"
  by (simp add: sequence_key_def)

text \<open>A key is either a lease that carries the last token of its counter, or no lease.\<close>

definition redis_wf :: "redis \<Rightarrow> bool" where
  "redis_wf st \<longleftrightarrow> (\<forall>k. 0 \<le> issued k st)
     \<and> (\<forall>k n t e. map_of st k = Some (Lease_hash n t e) \<longrightarrow> map_of st (sequence_key k) = Some (Counter t))"

lemma redis_wf_empty: "redis_wf []"
  by (simp add: redis_wf_def issued_def)

lemma acquire_cases:
  assumes "manager_acquire ttl now nonce k st = Inr (l, st')"
  shows "present now st k = None \<and> l = \<lparr>fe_key = k, fe_owner_nonce = nonce, fe_fencing_token = fe_fencing_token l, fe_ttl = ttl\<rparr>
     \<and> (\<forall>n t e. present now st (sequence_key k) \<noteq> Some (Lease_hash n t e))
     \<and> fe_fencing_token l = (case present now st (sequence_key k) of Some (Counter n) \<Rightarrow> n + 1 | _ \<Rightarrow> 1)
     \<and> st' = AList.update k (Lease_hash nonce (fe_fencing_token l) (now + ttl))
               (AList.update (sequence_key k) (Counter (fe_fencing_token l)) st)"
  using assms
  by (auto simp: manager_acquire_def acquire_lua_def rbind_Inr Let_def split: if_splits option.splits redis_value.splits)


lemma present_Some: "present now st k = Some v \<Longrightarrow> map_of st k = Some v"
  by (auto simp: present_def split: option.splits redis_value.splits if_splits)

lemma present_Counter: "map_of st k = Some (Counter n) \<Longrightarrow> present now st k = Some (Counter n)"
  by (simp add: present_def)

lemma present_None: "present now st k = None \<Longrightarrow> map_of st k \<noteq> Some (Counter n)"
  by (auto simp: present_def)

lemma acquire_issues_next:
  assumes "manager_acquire ttl now nonce k st = Inr (l, st')"
  shows "fe_fencing_token l = issued k st + 1"
proof -
  have "issued k st = (case present now st (sequence_key k) of Some (Counter n) \<Rightarrow> n | _ \<Rightarrow> 0)"
    by (auto simp: issued_def present_def split: option.splits redis_value.splits)
  then show ?thesis
    using acquire_cases [OF assms] by (auto split: option.splits redis_value.splits)
qed

lemma acquire_map_of:
  assumes "manager_acquire ttl now nonce k st = Inr (l, st')"
  shows "map_of st' = (map_of st)(sequence_key k \<mapsto> Counter (fe_fencing_token l),
                                  k \<mapsto> Lease_hash nonce (fe_fencing_token l) (now + ttl))"
  using acquire_cases [OF assms] by (metis map_of_update)

text \<open>A counter is never touched by a lease: its key is present, so it cannot be acquired, renewed or deleted.\<close>

lemma acquire_issued:
  assumes "manager_acquire ttl now nonce k st = Inr (l, st')"
  shows "issued k' st' = (if k' = k then issued k st + 1 else issued k' st)"
proof -
  have "map_of st k \<noteq> Some (Counter n)" for n
    using acquire_cases [OF assms] present_None by blast
  then show ?thesis
    using acquire_issues_next [OF assms]
    by (auto simp: issued_def acquire_map_of [OF assms] split: option.splits redis_value.splits)
qed

lemma acquire_wf:
  assumes "manager_acquire ttl now nonce k st = Inr (l, st')" and "redis_wf st"
  shows "redis_wf st'"
  unfolding redis_wf_def
proof (intro conjI allI impI)
  fix k' show "0 \<le> issued k' st'"
    using assms(2) by (simp add: acquire_issued [OF assms(1)] redis_wf_def add_nonneg_nonneg)
next
  fix k' n t e assume h: "map_of st' k' = Some (Lease_hash n t e)"
  show "map_of st' (sequence_key k') = Some (Counter t)"
  proof (cases "k' = k")
    case True
    with h show ?thesis by (auto simp: acquire_map_of [OF assms(1)])
  next
    case False
    with h have "map_of st k' = Some (Lease_hash n t e)"
      by (auto simp: acquire_map_of [OF assms(1)] split: if_splits)
    then have c: "map_of st (sequence_key k') = Some (Counter t)"
      using assms(2) by (simp add: redis_wf_def)
    then have "sequence_key k' \<noteq> k"
      using acquire_cases [OF assms(1)] by (metis present_None)
    with c False show ?thesis by (simp add: acquire_map_of [OF assms(1)])
  qed
qed

lemma renew_release_cases:
  assumes "manager_renew now l st = Inr st' \<or> manager_release now l st = Inr st'"
  shows "st' = st \<or> (\<exists>t e. map_of st (fe_key l) = Some (Lease_hash (fe_owner_nonce l) t e)
     \<and> (st' = AList.delete (fe_key l) st
         \<or> (\<exists>e'. st' = AList.update (fe_key l) (Lease_hash (fe_owner_nonce l) t e') st)))"
  using assms
  by (auto simp: manager_renew_def manager_release_def renew_lua_def release_lua_def rbind_Inr
           split: option.splits redis_value.splits if_splits dest!: present_Some)

lemma renew_release_issued:
  assumes "manager_renew now l st = Inr st' \<or> manager_release now l st = Inr st'"
  shows "issued k st' = issued k st"
  using renew_release_cases [OF assms] by (auto simp: issued_def)

lemma renew_release_wf:
  assumes "manager_renew now l st = Inr st' \<or> manager_release now l st = Inr st'" and "redis_wf st"
  shows "redis_wf st'"
  unfolding redis_wf_def
proof (intro conjI allI impI)
  fix k show "0 \<le> issued k st'"
    using assms(2) by (simp add: renew_release_issued [OF assms(1)] redis_wf_def)
next
  fix k n t e assume h: "map_of st' k = Some (Lease_hash n t e)"
  then obtain e' n' where "map_of st k = Some (Lease_hash n' t e')"
    using renew_release_cases [OF assms(1)] by (auto split: if_splits)
  then have c: "map_of st (sequence_key k) = Some (Counter t)"
    using assms(2) by (auto simp: redis_wf_def)
  show "map_of st' (sequence_key k) = Some (Counter t)"
    using renew_release_cases [OF assms(1)] c by (cases "sequence_key k = fe_key l") auto
qed
lemma redis_step_wf: "redis_step ttl st l st' \<Longrightarrow> redis_wf st \<Longrightarrow> redis_wf st'"
  by (cases l) (auto dest: acquire_wf intro: renew_release_wf)

lemma redis_step_tokens:
  assumes "redis_step ttl st l st'" and "0 \<le> issued k st"
  shows "[issued k st + 1..issued k st'] = token_of k l"
  using assms
  by (cases l) (auto simp: acquire_issued acquire_issues_next renew_release_issued [OF disjI1] renew_release_issued [OF disjI2])

lemma upto_append: "(a::int) \<le> b \<Longrightarrow> b \<le> c \<Longrightarrow> [a + 1..b] @ [b + 1..c] = [a + 1..c]"
  using upto_split1 [of "a + 1" "b + 1" c] by (cases "b = c") auto

lemma redis_step_issued_mono: "redis_step ttl st l st' \<Longrightarrow> issued k st \<le> issued k st'"
  by (cases l) (auto simp: acquire_issued renew_release_issued [OF disjI1] renew_release_issued [OF disjI2])

lemma redis_run_tokens:
  assumes "run_of (redis_step ttl) st ls st'" and "redis_wf st"
  shows "redis_wf st' \<and> issued k st \<le> issued k st' \<and> tokens k ls = [issued k st + 1..issued k st']"
  using assms
proof (induction rule: run_of.induct)
  case (run_nil s)
  then show ?case by (simp add: tokens_def)
next
  case (run_cons s l s1 ls s2)
  have wf1: "redis_wf s1" using run_cons.hyps(1) run_cons.prems by (rule redis_step_wf)
  have t: "[issued k s + 1..issued k s1] = token_of k l"
    using run_cons.hyps(1) run_cons.prems by (simp add: redis_step_tokens redis_wf_def)
  have m: "issued k s \<le> issued k s1" using run_cons.hyps(1) by (rule redis_step_issued_mono)
  show ?case
    using run_cons.IH [OF wf1] m upto_append [of "issued k s" "issued k s1" "issued k s2"] t
    by (simp add: tokens_def)
qed

section \<open>What a lease that is current means\<close>

lemma assert_current_iff:
  "manager_assert_current now l st = Inr () \<longleftrightarrow>
     (\<exists>e. present now st (fe_key l) = Some (Lease_hash (fe_owner_nonce l) (fe_fencing_token l) e))"
  by (auto simp: manager_assert_current_def read_lease_lua_def check_lease_def rbind_Inr
           split: option.splits redis_value.splits)

lemma current_has_highest_token:
  assumes "redis_wf st" and "manager_assert_current now l st = Inr ()"
  shows "fe_fencing_token l = issued (fe_key l) st"
proof -
  obtain e where "map_of st (fe_key l) = Some (Lease_hash (fe_owner_nonce l) (fe_fencing_token l) e)"
    using assms(2) by (auto simp: assert_current_iff dest: present_Some)
  with assms(1) show ?thesis by (auto simp: redis_wf_def issued_def)
qed

lemma current_excludes:
  assumes "manager_assert_current now l st = Inr ()"
  shows "manager_acquire ttl now nonce (fe_key l) st
         = Inl (Exn LeaseAcquisitionFailed (''RC-05 lease is already held: '' @ fe_key l))"
  using assms by (auto simp: assert_current_iff manager_acquire_def acquire_lua_def)

text \<open>
  Once a lease of \<open>k\<close> was issued, the key \<open>k:sequence\<close> holds a counter for ever: a lease of that key is
  refused as already held.
\<close>

lemma sequence_key_never_leased:
  assumes "0 < issued k st"
  shows "manager_acquire ttl now nonce (sequence_key k) st
         = Inl (Exn LeaseAcquisitionFailed (''RC-05 lease is already held: '' @ sequence_key k))"
proof -
  obtain n where "map_of st (sequence_key k) = Some (Counter n)"
    using assms by (auto simp: issued_def split: option.splits redis_value.splits)
  then show ?thesis by (simp add: manager_acquire_def acquire_lua_def present_Counter)
qed

end
