(* ===== verification/Resilience_Transaction.thy ===== *)
theory Resilience_Transaction
  imports Resilience_Lease Production_Control
begin

text \<open>
  \<^verbatim>\<open>ois/kernel/production_resilience.py\<close>, the rest: the attested evidence chain, the dead letters and
  \<open>execute_fenced_transaction\<close>. SHA-256, HMAC, the protected operation, \<open>random()\<close>, the class test of
  \<open>except (psycopg.OperationalError, OSError)\<close> and what Redis and PostgreSQL answer in each attempt are
  arguments. A commit may fail without effect or take effect and lose its acknowledgement. Cancellation of
  the task is not modelled.
\<close>

section \<open>The evidence chain and the dead letters\<close>

record crypto =
  sha256_text :: "json_text \<Rightarrow> string"
  hmac_sha256 :: "string \<Rightarrow> string \<Rightarrow> string"

record attestation =
  tt_tenant_id :: string
  tt_thread_id :: string
  tt_event_type :: string
  tt_payload_hash :: string
  tt_context :: json_text
  tt_previous_event_hash :: "string option"
  tt_event_hash :: string
  tt_signature :: string

record dead_letter =
  dl_tenant_id :: string
  dl_thread_id :: string
  dl_last_scenario_id :: string
  dl_error_log :: string
  dl_frozen_context :: json_text
  dl_context_hash :: string
  dl_seal :: string

record res_world =
  rw_evidence :: "attestation list"
  rw_dead :: "dead_letter list"
  rw_commits :: "(nat \<times> int) list"

text \<open>What PostgreSQL did with a transaction, and what the client was told.\<close>

datatype pg_outcome = Done | Failed py_exn | Lost_reply py_exn

fun pg_settle :: "pg_outcome \<Rightarrow> ('s \<Rightarrow> 's) \<Rightarrow> ('s, unit) em" where
  "pg_settle Done f = emod f"
| "pg_settle (Failed e) f = eraise e"
| "pg_settle (Lost_reply e) f = eseq (emod f) (eraise e)"

record evidence_chain =
  ec_crypto :: crypto
  ec_secret :: string

definition mk_evidence_chain :: "crypto \<Rightarrow> string \<Rightarrow> py_exn + evidence_chain" where
  "mk_evidence_chain cr secret =
     (if secret = [] then Inl (Exn ValueError ''evidence signing secret must not be empty'')
      else Inr \<lparr>ec_crypto = cr, ec_secret = secret\<rparr>)"

definition event_hash :: "evidence_chain \<Rightarrow> pydict \<Rightarrow> string option \<Rightarrow> string" where
  "event_hash ec payload previous =
     sha256_text (ec_crypto ec) (json_dumps (PDict
       [(''previous'', case previous of None \<Rightarrow> PNone | Some h \<Rightarrow> PStr h), (''payload'', PDict payload)]))"

definition chain_signature :: "evidence_chain \<Rightarrow> string \<Rightarrow> string \<Rightarrow> string \<Rightarrow> string" where
  "chain_signature ec tenant thread h = hmac_sha256 (ec_crypto ec) (ec_secret ec) (tenant @ '':'' @ thread @ '':'' @ h)"

definition thread_rows :: "string \<Rightarrow> string \<Rightarrow> attestation list \<Rightarrow> attestation list" where
  "thread_rows tenant thread rows = filter (\<lambda>r. tt_tenant_id r = tenant \<and> tt_thread_id r = thread) rows"

definition newest_hash :: "string \<Rightarrow> string \<Rightarrow> attestation list \<Rightarrow> string option" where
  "newest_hash tenant thread rows =
     (let rs = thread_rows tenant thread rows in if rs = [] then None else Some (tt_event_hash (last rs)))"

definition evidence_payload :: "string \<Rightarrow> string \<Rightarrow> string \<Rightarrow> pydict \<Rightarrow> string \<Rightarrow> pydict" where
  "evidence_payload tenant thread ty context recorded_at =
     [(''tenant_id'', PStr tenant), (''thread_id'', PStr thread), (''event_type'', PStr ty),
      (''context'', PDict context), (''recorded_at'', PStr recorded_at)]"

definition attest :: "evidence_chain \<Rightarrow> string \<Rightarrow> string \<Rightarrow> string \<Rightarrow> pydict \<Rightarrow> string \<Rightarrow> attestation list \<Rightarrow> attestation" where
  "attest ec tenant thread ty context recorded_at rows =
     (let payload = evidence_payload tenant thread ty context recorded_at;
          previous = newest_hash tenant thread rows;
          h = event_hash ec payload previous
      in \<lparr>tt_tenant_id = tenant, tt_thread_id = thread, tt_event_type = ty,
          tt_payload_hash = sha256_text (ec_crypto ec) (json_dumps (PDict payload)),
          tt_context = json_dumps (PDict context), tt_previous_event_hash = previous, tt_event_hash = h,
          tt_signature = chain_signature ec tenant thread h\<rparr>)"

text \<open>\<open>PostgresEvidenceChain.append\<close>; \<open>recorded_at\<close> is \<open>datetime.now(UTC).isoformat()\<close>.\<close>

definition chain_append ::
  "evidence_chain \<Rightarrow> pg_outcome \<Rightarrow> string \<Rightarrow> string \<Rightarrow> string \<Rightarrow> string \<Rightarrow> pydict \<Rightarrow> (res_world, string) em" where
  "chain_append ec out recorded_at tenant thread ty context =
     ebind (eget (\<lambda>s. tt_event_hash (attest ec tenant thread ty context recorded_at (rw_evidence s)))) (\<lambda>h.
     eseq (pg_settle out (\<lambda>s. s\<lparr>rw_evidence :=
             rw_evidence s @ [attest ec tenant thread ty context recorded_at (rw_evidence s)]\<rparr>))
     (eret h))"

record task_context =
  kc_tenant_id :: string
  kc_thread_id :: string
  kc_workflow_version :: string
  kc_max_retries :: int
  kc_base_backoff_s :: rat
  kc_max_backoff_s :: rat
  kc_retry_deadline_s :: rat

abbreviation RecoverySinkUnavailable :: exn_class where
  "RecoverySinkUnavailable \<equiv> OtherException ''RecoverySinkUnavailable''"

abbreviation RetryExhausted :: exn_class where
  "RetryExhausted \<equiv> OtherException ''RetryExhaustedException''"

definition seal_dead_letter :: "evidence_chain \<Rightarrow> task_context \<Rightarrow> string \<Rightarrow> pydict \<Rightarrow> string \<Rightarrow> dead_letter" where
  "seal_dead_letter ec ctx scenario dump err =
     (let canonical = json_dumps (PDict dump); h = sha256_text (ec_crypto ec) canonical
      in \<lparr>dl_tenant_id = kc_tenant_id ctx, dl_thread_id = kc_thread_id ctx, dl_last_scenario_id = scenario,
          dl_error_log = err, dl_frozen_context = canonical, dl_context_hash = h,
          dl_seal = hmac_sha256 (ec_crypto ec) (ec_secret ec)
                      (kc_tenant_id ctx @ '':'' @ kc_thread_id ctx @ '':'' @ scenario @ '':'' @ h)\<rparr>)"

definition write_dlq ::
  "evidence_chain \<Rightarrow> pg_outcome option \<Rightarrow> task_context \<Rightarrow> string \<Rightarrow> pydict \<Rightarrow> string \<Rightarrow> (res_world, unit) em" where
  "write_dlq ec sink ctx scenario dump err =
     (case sink of
        None \<Rightarrow> eraise (Exn RecoverySinkUnavailable ''RC-04 durable recovery_pool is not configured'')
      | Some out \<Rightarrow> pg_settle out (\<lambda>s. s\<lparr>rw_dead := rw_dead s @ [seal_dead_letter ec ctx scenario dump err]\<rparr>))"

section \<open>The fenced transaction\<close>

text \<open>
  What the world answers in one attempt: the Redis that each ownership check sees (with the steps that other
  workers took in between), the connection, the operation under a token, the ticks of the heartbeat since it
  was started, the commit and the appends.
\<close>

record attempt =
  at_before :: "py_exn + timestamp \<times> redis"
  at_connect :: "py_exn + unit"
  at_inside :: "py_exn + timestamp \<times> redis"
  at_operation :: "int \<Rightarrow> py_exn + pyval"
  at_ticks :: "(py_exn + timestamp \<times> redis) list"
  at_after :: "py_exn + timestamp \<times> redis"
  at_commit :: pg_outcome
  at_success_note :: pg_outcome
  at_elapsed :: rat
  at_sink :: "pg_outcome option"
  at_handler_note :: pg_outcome
  at_random :: rat
  at_recorded :: string
  at_handler_recorded :: string

record fenced_job =
  fj_chain :: evidence_chain
  fj_transient :: "exn_class \<Rightarrow> bool"
  fj_ctx :: task_context
  fj_scenario :: string
  fj_dump :: pydict

definition assert_at :: "fenced_lease \<Rightarrow> py_exn + timestamp \<times> redis \<Rightarrow> (res_world, unit) em" where
  "assert_at l r = elift (rbind r (\<lambda>(now, st). manager_assert_current now l st))"

text \<open>
  \<open>LeaseHeartbeat._run\<close>: a tick renews the lease, and the first exception sets \<open>lost\<close> and ends the task. The
  interval is in seconds.
\<close>

fun heartbeat_lost :: "fenced_lease \<Rightarrow> (py_exn + timestamp \<times> redis) list \<Rightarrow> bool" where
  "heartbeat_lost l [] = False"
| "heartbeat_lost l (r # rs) =
     (case rbind r (\<lambda>(now, st). manager_renew now l st) of Inl _ \<Rightarrow> True | Inr _ \<Rightarrow> heartbeat_lost l rs)"

definition heartbeat_interval :: "int \<Rightarrow> rat" where
  "heartbeat_interval ttl_ms = max (fl (of_int ttl_ms / 3000)) (fl (1 / 10))"

definition job_append :: "fenced_job \<Rightarrow> string \<Rightarrow> pg_outcome \<Rightarrow> string \<Rightarrow> pydict \<Rightarrow> (res_world, string) em" where
  "job_append j recorded_at out ty context =
     chain_append (fj_chain j) out recorded_at (kc_tenant_id (fj_ctx j)) (kc_thread_id (fj_ctx j)) ty
       ((''scenario_id'', PStr (fj_scenario j)) # context)"

text \<open>The body of the \<open>try\<close>: attempt number \<open>n\<close> (the \<open>retry_count\<close>).\<close>

definition fenced_attempt :: "fenced_job \<Rightarrow> fenced_lease \<Rightarrow> nat \<Rightarrow> attempt \<Rightarrow> (res_world, pyval) em" where
  "fenced_attempt j l n a =
     eseq (assert_at l (at_before a))
    (eseq (elift (at_connect a))
    (eseq (assert_at l (at_inside a))
    (ebind (elift (at_operation a (fe_fencing_token l))) (\<lambda>result.
     if heartbeat_lost l (at_ticks a) then eraise (Exn FencingTokenMismatch ''RC-05 heartbeat lost during protected operation'')
     else
     eseq (assert_at l (at_after a))
    (eseq (pg_settle (at_commit a) (\<lambda>s. s\<lparr>rw_commits := rw_commits s @ [(n, fe_fencing_token l)]\<rparr>))
    (eseq (job_append j (at_recorded a) (at_success_note a) ''TRANSACTION_SUCCESS'' [(''fencing_token'', PInt (fe_fencing_token l))])
    (eret result)))))))"

definition exhausted :: "fenced_job \<Rightarrow> attempt \<Rightarrow> nat \<Rightarrow> py_exn \<Rightarrow> (res_world, pyval) em" where
  "exhausted j a count e =
     eseq (write_dlq (fj_chain j) (at_sink a) (fj_ctx j) (fj_scenario j) (fj_dump j) (exn_str e))
    (eseq (job_append j (at_handler_recorded a) (at_handler_note a) ''RECOVERY_DLQ'' [(''retry_count'', PInt (int count))])
    (eraise (Exn RetryExhausted ''RC-04 retry/deadline budget exhausted'')))"

text \<open>\<open>min(max_backoff_s, base_backoff_s * (2**retry_count))\<close>: an integer from \<open>2 ^ 1024\<close> on is no float.\<close>

definition backoff_ceiling :: "task_context \<Rightarrow> nat \<Rightarrow> py_exn + rat" where
  "backoff_ceiling ctx count =
     (if count \<ge> 1024 then Inl (Exn OverflowError ''int too large to convert to float'')
      else Inr (min (kc_max_backoff_s ctx) (kc_base_backoff_s ctx * 2 ^ count)))"

definition note_retry :: "fenced_job \<Rightarrow> attempt \<Rightarrow> nat \<Rightarrow> (res_world, string) em" where
  "note_retry j a count =
     ebind (elift (backoff_ceiling (fj_ctx j) count)) (\<lambda>ceiling.
     job_append j (at_handler_recorded a) (at_handler_note a) ''RECOVERY_RETRY''
       [(''retry_count'', PInt (int count)), (''delay_s'', PFloat (fl (ceiling * at_random a)))])"

function fenced_loop :: "fenced_job \<Rightarrow> fenced_lease \<Rightarrow> (nat \<Rightarrow> attempt) \<Rightarrow> nat \<Rightarrow> (res_world, pyval) em" where
  "fenced_loop j l w n s =
     (case fenced_attempt j l n (w n) s of
        (Inr r, s1) \<Rightarrow> (Inr r, s1)
      | (Inl e, s1) \<Rightarrow>
         if fj_transient j (exn_class e) then
           (if int (Suc n) > kc_max_retries (fj_ctx j) \<or> at_elapsed (w n) \<ge> kc_retry_deadline_s (fj_ctx j)
            then exhausted j (w n) (Suc n) e s1
            else (case note_retry j (w n) (Suc n) s1 of
                    (Inl e', s2) \<Rightarrow> (Inl e', s2)
                  | (Inr _, s2) \<Rightarrow> fenced_loop j l w (Suc n) s2))
         else if exn_class e = FencingTokenMismatch then
           eseq (job_append j (at_handler_recorded (w n)) (at_handler_note (w n)) ''RC05_FENCING_REJECTED''
                   [(''fencing_token'', PInt (fe_fencing_token l))]) (eraise e) s1
         else (Inl e, s1))"
  by pat_completeness auto
termination
  by (relation "measure (\<lambda>(j, l, w, n, s). nat (kc_max_retries (fj_ctx j) - int n))") auto

declare fenced_loop.simps [simp del]

definition lock_key :: "task_context \<Rightarrow> string" where
  "lock_key ctx = ''ois:lease:'' @ kc_tenant_id ctx @ '':'' @ kc_thread_id ctx"

text \<open>
  The whole call: \<open>st\<close> is the Redis at the acquisition and \<open>st2\<close> the one at the release, which is \<open>None\<close> when
  the release raises (it is logged and ignored).
\<close>

definition execute_fenced_transaction ::
  "fenced_job \<Rightarrow> int \<Rightarrow> (nat \<Rightarrow> attempt) \<Rightarrow> timestamp \<Rightarrow> string \<Rightarrow> redis \<Rightarrow> (timestamp \<times> redis) option
   \<Rightarrow> res_world \<Rightarrow> (py_exn + pyval) \<times> res_world \<times> redis option" where
  "execute_fenced_transaction j ttl w now nonce st rel s =
     (case manager_acquire ttl now nonce (lock_key (fj_ctx j)) st of
        Inl e \<Rightarrow> (Inl e, s, None)
      | Inr (l, _) \<Rightarrow>
         (case fenced_loop j l w 0 s of
            (r, s1) \<Rightarrow> (r, s1, case rel of None \<Rightarrow> None
                              | Some (t, st2) \<Rightarrow> (case manager_release t l st2 of Inl _ \<Rightarrow> None | Inr st3 \<Rightarrow> Some st3))))"

section \<open>The recovery matrix\<close>

definition RECOVERY_SCENARIO_IDS :: "string list" where
  "RECOVERY_SCENARIO_IDS = map (\<lambda>i. ''RC-'' @ (if i < 10 then ''0'' else []) @ nat_str i) [1..<13]"

definition validate_recovery_matrix :: "string list \<Rightarrow> py_exn + unit" where
  "validate_recovery_matrix handlers =
     (let missing = filter (\<lambda>i. i \<notin> set handlers) RECOVERY_SCENARIO_IDS
      in check (missing = []) (OtherException ''KernelPanicException'')
           (''Recovery conformance matrix incomplete: '' @ py_join '', '' missing))"

end
