(* ===== verification/Resilience_Properties.thy ===== *)
theory Resilience_Properties
  imports Resilience_Transaction
begin

text \<open>
  Properties of the fenced transactions: the tokens of a key, commits only under the highest token and a
  bounded number of them, the evidence chain, and where the code falls short: a commit repeated when the
  append after it fails, and a chain that forks under two writers.
\<close>

section \<open>Commits\<close>

text \<open>An attempt that may have committed: the operation returned, the heartbeat is alive, the lease is current.\<close>

definition may_commit :: "fenced_lease \<Rightarrow> attempt \<Rightarrow> bool" where
  "may_commit l a \<longleftrightarrow>
     (\<exists>v. at_operation a (fe_fencing_token l) = Inr v) \<and> \<not> heartbeat_lost l (at_ticks a)
     \<and> (\<exists>now st. at_after a = Inr (now, st) \<and> manager_assert_current now l st = Inr ())"

lemma settle_frame: "(\<And>s. g (f s) = g s) \<Longrightarrow> confined (same g) (pg_settle out f)"
  by (cases out) (auto simp: confined_def same_def em_simps)

lemma job_append_commits: "confined (same rw_commits) (job_append j t out ty c)"
  unfolding job_append_def chain_append_def by (intro frame.confined_rules settle_frame) simp

lemma note_retry_commits: "confined (same rw_commits) (note_retry j a n)"
  unfolding note_retry_def by (intro frame.confined_rules job_append_commits)

lemma exhausted_commits: "confined (same rw_commits) (exhausted j a n e)"
  unfolding exhausted_def write_dlq_def
  by (intro frame.confined_rules job_append_commits settle_frame) simp

lemmas commits_frames =
  confinedD' [OF job_append_commits, unfolded same_def] confinedD' [OF note_retry_commits, unfolded same_def]
  confinedD' [OF exhausted_commits, unfolded same_def]

lemma settle_commit:
  "pg_settle out (\<lambda>s. s\<lparr>rw_commits := rw_commits s @ [c]\<rparr>) s = (r, t) \<Longrightarrow> rw_commits t = rw_commits s @ (if (\<exists>e. out = Failed e) then [] else [c])"
  by (cases out) (auto simp: em_simps)

lemma fenced_attempt_commits:
  assumes "fenced_attempt j l n a s = (r, t)"
  shows "rw_commits t = rw_commits s \<or> rw_commits t = rw_commits s @ [(n, fe_fencing_token l)] \<and> may_commit l a"
  using assms
  by (auto simp: fenced_attempt_def em_simps assert_at_def rbind_Inr may_commit_def
           split: prod.splits sum.splits if_splits dest!: settle_commit commits_frames)

text \<open>The numbers of the attempts that committed increase, and none is above the budget.\<close>

definition commits_ok :: "fenced_job \<Rightarrow> fenced_lease \<Rightarrow> (nat \<Rightarrow> attempt) \<Rightarrow> nat \<Rightarrow> (nat \<times> int) list \<Rightarrow> bool" where
  "commits_ok j l w n cs \<longleftrightarrow> distinct (map fst cs)
     \<and> (\<forall>(m, t)\<in>set cs. n \<le> m \<and> m \<le> max n (nat (kc_max_retries (fj_ctx j))) \<and> t = fe_fencing_token l \<and> may_commit l (w m))"

lemma commits_ok_Cons:
  assumes "commits_ok j l w (Suc n) cs" and "int (Suc n) \<le> kc_max_retries (fj_ctx j)"
  shows "commits_ok j l w n cs"
    and "may_commit l (w n) \<Longrightarrow> commits_ok j l w n ((n, fe_fencing_token l) # cs)"
  using assms by (fastforce simp: commits_ok_def)+

lemma fenced_loop_commits:
  "fenced_loop j l w n s = (r, t) \<Longrightarrow> \<exists>cs. rw_commits t = rw_commits s @ cs \<and> commits_ok j l w n cs"
proof (induction j l w n s arbitrary: r t rule: fenced_loop.induct)
  case (1 j l w n s)
  obtain ra s1 where a: "fenced_attempt j l n (w n) s = (ra, s1)" by fastforce
  obtain c1 where c1: "rw_commits s1 = rw_commits s @ c1"
    and c1_cases: "c1 = [] \<or> c1 = [(n, fe_fencing_token l)] \<and> may_commit l (w n)"
    using fenced_attempt_commits [OF a] by force
  have ok1: "commits_ok j l w n c1" using c1_cases by (auto simp: commits_ok_def)
  show ?case
  proof (cases "rw_commits t = rw_commits s1")
    case True
    with c1 ok1 show ?thesis by auto
  next
    case False
    obtain e s2 h where e: "ra = Inl e" "fj_transient j (exn_class e)" "int (Suc n) \<le> kc_max_retries (fj_ctx j)"
      "at_elapsed (w n) < kc_retry_deadline_s (fj_ctx j)"
      and n: "note_retry j (w n) (Suc n) s1 = (Inr h, s2)" and rest: "fenced_loop j l w (Suc n) s2 = (r, t)"
      using 1(2) False a
      by (subst (asm) fenced_loop.simps)
         (fastforce simp: em_simps not_less not_le split: sum.splits if_splits prod.splits dest: commits_frames)
    obtain cs where cs: "rw_commits t = rw_commits s2 @ cs" "commits_ok j l w (Suc n) cs"
      using 1(1) [OF a [symmetric] e(1)] e n rest by fastforce
    have "rw_commits t = rw_commits s @ c1 @ cs" using cs(1) c1 commits_frames(2) [OF n] by simp
    moreover have "commits_ok j l w n (c1 @ cs)"
      using c1_cases commits_ok_Cons [OF cs(2) e(3)] by auto
    ultimately show ?thesis by blast
  qed
qed

lemma commits_ok_length: "commits_ok j l w n cs \<Longrightarrow> n = 0 \<Longrightarrow> length cs \<le> Suc (nat (kc_max_retries (fj_ctx j)))"
proof -
  assume c: "commits_ok j l w n cs" and n: "n = 0"
  let ?k = "nat (kc_max_retries (fj_ctx j))"
  have "set (map fst cs) \<subseteq> {..?k}" using c n by (auto simp: commits_ok_def)
  then have "card (set (map fst cs)) \<le> Suc ?k" by (metis card_atMost card_mono finite_atMost)
  then show ?thesis using c by (metis commits_ok_def distinct_card length_map)
qed

section \<open>The evidence chain\<close>

fun linked_from :: "evidence_chain \<Rightarrow> string option \<Rightarrow> attestation list \<Rightarrow> bool" where
  "linked_from ec previous [] \<longleftrightarrow> True"
| "linked_from ec previous (r # rs) \<longleftrightarrow>
     tt_previous_event_hash r = previous
     \<and> tt_signature r = chain_signature ec (tt_tenant_id r) (tt_thread_id r) (tt_event_hash r)
     \<and> linked_from ec (Some (tt_event_hash r)) rs"

definition chains_linked :: "evidence_chain \<Rightarrow> attestation list \<Rightarrow> bool" where
  "chains_linked ec rows \<longleftrightarrow> (\<forall>tenant thread. linked_from ec None (thread_rows tenant thread rows))"

lemma linked_from_snoc:
  "linked_from ec p (rs @ [r]) \<longleftrightarrow> linked_from ec p rs
     \<and> tt_previous_event_hash r = (if rs = [] then p else Some (tt_event_hash (last rs)))
     \<and> tt_signature r = chain_signature ec (tt_tenant_id r) (tt_thread_id r) (tt_event_hash r)"
  by (induction rs arbitrary: p) auto

lemma attest_simps [simp]:
  "tt_tenant_id (attest ec tenant thread ty c t rows) = tenant"
  "tt_thread_id (attest ec tenant thread ty c t rows) = thread"
  "tt_event_type (attest ec tenant thread ty c t rows) = ty"
  "tt_previous_event_hash (attest ec tenant thread ty c t rows) = newest_hash tenant thread rows"
  "tt_signature (attest ec tenant thread ty c t rows)
   = chain_signature ec tenant thread (tt_event_hash (attest ec tenant thread ty c t rows))"
  by (simp_all add: attest_def Let_def)

lemma attest_keeps_links:
  assumes "chains_linked ec rows"
  shows "chains_linked ec (rows @ [attest ec tenant thread ty c t rows])"
  unfolding chains_linked_def
proof (intro allI)
  fix tn th
  have "linked_from ec None (thread_rows tn th rows)" using assms by (simp add: chains_linked_def)
  then show "linked_from ec None (thread_rows tn th (rows @ [attest ec tenant thread ty c t rows]))"
    by (simp add: thread_rows_def linked_from_snoc newest_hash_def)
qed

text \<open>\<open>keeps_links ec\<close>: what a computation keeps of the chains of the world.\<close>

definition keeps_links :: "evidence_chain \<Rightarrow> res_world \<Rightarrow> res_world \<Rightarrow> bool" where
  "keeps_links ec s t \<longleftrightarrow> (chains_linked ec (rw_evidence s) \<longrightarrow> chains_linked ec (rw_evidence t))"

interpretation links: step_order "keeps_links ec" for ec
  by unfold_locales (auto simp: keeps_links_def)

lemma settle_links: "(\<And>s. keeps_links ec s (f s)) \<Longrightarrow> confined (keeps_links ec) (pg_settle out f)"
  by (cases out) (auto intro!: links.confined_rules links.confined_emod)

lemma job_append_links: "confined (keeps_links (fj_chain j)) (job_append j t out ty c)"
  unfolding job_append_def chain_append_def
  by (intro links.confined_rules settle_links) (simp add: keeps_links_def attest_keeps_links)

lemma settle_links_id:
  "(\<And>s. rw_evidence (f s) = rw_evidence s) \<Longrightarrow> confined (keeps_links ec) (pg_settle out f)"
  by (rule settle_links) (simp add: keeps_links_def)

lemma fenced_attempt_links: "confined (keeps_links (fj_chain j)) (fenced_attempt j l n a)"
  unfolding fenced_attempt_def assert_at_def
  by (intro links.confined_rules job_append_links settle_links_id) simp_all

lemma exhausted_links: "confined (keeps_links (fj_chain j)) (exhausted j a n e)"
  unfolding exhausted_def write_dlq_def
  by (intro links.confined_rules job_append_links settle_links_id) simp_all

lemma note_retry_links: "confined (keeps_links (fj_chain j)) (note_retry j a n)"
  unfolding note_retry_def by (intro links.confined_rules job_append_links)

lemma fenced_loop_links: "fenced_loop j l w n s = (r, t) \<Longrightarrow> keeps_links (fj_chain j) s t"
proof (induction j l w n s arbitrary: r t rule: fenced_loop.induct)
  case (1 j l w n s)
  obtain ra s1 where a: "fenced_attempt j l n (w n) s = (ra, s1)" by fastforce
  have s1: "keeps_links (fj_chain j) s s1" using a by (rule confinedD' [OF fenced_attempt_links])
  have h: "confined (keeps_links (fj_chain j)) (eseq (job_append j x o' ty c) (eraise e))" for x o' ty c and e
    by (intro links.confined_rules job_append_links)
  have "keeps_links (fj_chain j) s1 t"
    using 1(2) a 1(1) [OF a [symmetric]]
    by (subst (asm) fenced_loop.simps)
       (auto split: sum.splits if_splits prod.splits simp: links.step_refl
             dest: confinedD' [OF exhausted_links] confinedD' [OF note_retry_links] confinedD' [OF h]
             intro: links.step_trans)
  with s1 show ?case by (rule links.step_trans)
qed

section \<open>A success\<close>

lemma settle_Inr: "pg_settle out f s = (Inr u, t) \<longleftrightarrow> out = Done \<and> t = f s"
  by (cases out) (auto simp: em_simps)

lemma fenced_attempt_success:
  assumes "fenced_attempt j l n a s = (Inr v, t)"
  shows "rw_commits t = rw_commits s @ [(n, fe_fencing_token l)] \<and> at_operation a (fe_fencing_token l) = Inr v
    \<and> (\<exists>r. rw_evidence t = rw_evidence s @ [r] \<and> tt_event_type r = ''TRANSACTION_SUCCESS''
          \<and> tt_tenant_id r = kc_tenant_id (fj_ctx j) \<and> tt_thread_id r = kc_thread_id (fj_ctx j))"
  using assms unfolding fenced_attempt_def
  by (auto simp: em_simps settle_Inr job_append_def chain_append_def assert_at_def
           split: if_splits prod.splits sum.splits)

lemma fenced_loop_success:
  "fenced_loop j l w n s = (Inr v, t) \<Longrightarrow>
   \<exists>m s1. n \<le> m \<and> fenced_attempt j l m (w m) s1 = (Inr v, t)"
proof (induction j l w n s arbitrary: t rule: fenced_loop.induct)
  case (1 j l w n s)
  obtain ra s1 where a: "fenced_attempt j l n (w n) s = (ra, s1)" by fastforce
  show ?case
  proof (cases ra)
    case (Inr v')
    with 1(2) a have "fenced_attempt j l n (w n) s = (Inr v, t)"
      by (subst (asm) fenced_loop.simps) simp
    then show ?thesis by blast
  next
    case (Inl e)
    then obtain s2 h where b: "fj_transient j (exn_class e)"
        "\<not> (int (Suc n) > kc_max_retries (fj_ctx j) \<or> at_elapsed (w n) \<ge> kc_retry_deadline_s (fj_ctx j))"
        "note_retry j (w n) (Suc n) s1 = (Inr h, s2)" "fenced_loop j l w (Suc n) s2 = (Inr v, t)"
      using 1(2) a
      by (subst (asm) fenced_loop.simps)
         (auto split: sum.splits if_splits prod.splits simp: em_simps exhausted_def)
    have "\<exists>m s1. Suc n \<le> m \<and> fenced_attempt j l m (w m) s1 = (Inr v, t)"
      using 1(1) [OF a [symmetric] Inl] b by fastforce
    then show ?thesis using Suc_leD by blast
  qed
qed

section \<open>The properties\<close>

text \<open>
  C31. Whatever acquisitions, renewals and releases the workers make, on any keys and at any times, the tokens
  that were issued for a key are 1, 2, 3, ... in this order; and a lease that \<open>assert_current\<close> accepts carries
  the last token issued for its key.
\<close>

theorem fencing_tokens_sequential:
  assumes "run_of (redis_step ttl) [] ls st"
  shows "tokens k ls = [1..issued k st]
    \<and> (\<forall>now l. manager_assert_current now l st = Inr () \<longrightarrow> fe_fencing_token l = issued (fe_key l) st)"
  using redis_run_tokens [OF assms redis_wf_empty, of k] current_has_highest_token
  by (simp add: issued_def)

definition lease_a :: fenced_lease where
  "lease_a = \<lparr>fe_key = ''k'', fe_owner_nonce = ''a'', fe_fencing_token = 1, fe_ttl = 100\<rparr>"

definition lease_b :: fenced_lease where
  "lease_b = \<lparr>fe_key = ''k'', fe_owner_nonce = ''b'', fe_fencing_token = 2, fe_ttl = 100\<rparr>"

definition taken_over :: redis where
  "taken_over = [(''k:sequence'', Counter 2), (''k'', Lease_hash ''b'' 2 250)]"

lemma takeover_run:
  "run_of (redis_step 100) [] [Acquired 0 ''k'' lease_a, Acquired 150 ''k'' lease_b] taken_over"
proof -
  have 1: "redis_step 100 [] (Acquired 0 ''k'' lease_a) [(''k:sequence'', Counter 1), (''k'', Lease_hash ''a'' 1 100)]"
    by code_simp
  have 2: "redis_step 100 [(''k:sequence'', Counter 1), (''k'', Lease_hash ''a'' 1 100)]
             (Acquired 150 ''k'' lease_b) taken_over"
    by code_simp
  show ?thesis using 1 2 by (blast intro: run_of.intros)
qed

theorem fencing_tokens_sequential_witness:
  "tokens ''k'' [Acquired 0 ''k'' lease_a, Acquired 150 ''k'' lease_b] = [1..issued ''k'' taken_over]
   \<and> issued ''k'' taken_over = 2 \<and> manager_assert_current 200 lease_b taken_over = Inr ()
   \<and> manager_assert_current 200 lease_a taken_over \<noteq> Inr ()"
proof (intro conjI)
  show "tokens ''k'' [Acquired 0 ''k'' lease_a, Acquired 150 ''k'' lease_b] = [1..issued ''k'' taken_over]"
    using fencing_tokens_sequential [OF takeover_run, of "''k''"] by blast
  show "issued ''k'' taken_over = 2" "manager_assert_current 200 lease_b taken_over = Inr ()"
    "manager_assert_current 200 lease_a taken_over \<noteq> Inr ()" by code_simp+
qed

text \<open>A heartbeat that is alive found the lease under its own nonce at every tick.\<close>

lemma heartbeat_alive:
  assumes "\<not> heartbeat_lost l ticks" and "tick \<in> set ticks"
  shows "\<exists>now st u e. tick = Inr (now, st) \<and> present now st (fe_key l) = Some (Lease_hash (fe_owner_nonce l) u e)"
  using assms
proof (induction ticks)
  case (Cons r rs)
  then obtain st' where "rbind r (\<lambda>(now, st). manager_renew now l st) = Inr st'" by (auto split: sum.splits)
  then have "\<exists>now st u e. r = Inr (now, st) \<and> present now st (fe_key l) = Some (Lease_hash (fe_owner_nonce l) u e)"
    by (auto simp: rbind_Inr manager_renew_def renew_lua_def split: if_splits option.splits redis_value.splits)
  then show ?case using Cons by (auto split: sum.splits)
qed simp

text \<open>
  C32. A fenced transaction commits the protected operation at most \<open>max_retries + 1\<close> times, once per
  attempt at most, always under the token of the lease it acquired; and each commit comes after the operation
  returned, after a heartbeat each of whose ticks found the lease in Redis under its own nonce, and after
  the lease was seen in Redis, unexpired, with its own nonce and token. Where
  that Redis was reached by the scripts, the token is the last one issued for the thread.
\<close>

theorem fenced_commits_under_lease:
  assumes "execute_fenced_transaction j ttl w now nonce st rel s = (r, s', st')"
  shows "\<exists>cs. rw_commits s' = rw_commits s @ cs \<and> distinct (map fst cs)
    \<and> length cs \<le> Suc (nat (kc_max_retries (fj_ctx j)))
    \<and> (\<forall>(n, t)\<in>set cs. t = issued (lock_key (fj_ctx j)) st + 1
         \<and> (\<exists>v. at_operation (w n) t = Inr v)
         \<and> (\<forall>tick\<in>set (at_ticks (w n)). \<exists>now' st'' u e. tick = Inr (now', st'')
              \<and> present now' st'' (lock_key (fj_ctx j)) = Some (Lease_hash nonce u e))
         \<and> (\<exists>now' st'' e. at_after (w n) = Inr (now', st'')
              \<and> present now' st'' (lock_key (fj_ctx j)) = Some (Lease_hash nonce t e)
              \<and> (redis_wf st'' \<longrightarrow> t = issued (lock_key (fj_ctx j)) st'')))"
proof (cases "manager_acquire ttl now nonce (lock_key (fj_ctx j)) st")
  case (Inl e)
  with assms show ?thesis by (simp add: execute_fenced_transaction_def)
next
  case (Inr p)
  then obtain l st1 where acq: "manager_acquire ttl now nonce (lock_key (fj_ctx j)) st = Inr (l, st1)" by (cases p) auto
  have "fenced_loop j l w 0 s = (r, s')"
    using assms acq by (auto simp: execute_fenced_transaction_def split: prod.splits)
  then obtain cs where cs: "rw_commits s' = rw_commits s @ cs" and ok: "commits_ok j l w 0 cs"
    using fenced_loop_commits by blast
  have l: "fe_key l = lock_key (fj_ctx j)" "fe_owner_nonce l = nonce"
    using acquire_cases [OF acq] by (metis fenced_lease.select_convs(1), metis fenced_lease.select_convs(2))
  have "\<forall>(n, t)\<in>set cs. t = issued (lock_key (fj_ctx j)) st + 1 \<and> may_commit l (w n) \<and> t = fe_fencing_token l"
    using ok acquire_issues_next [OF acq] by (auto simp: commits_ok_def)
  then have "\<forall>(n, t)\<in>set cs. t = issued (lock_key (fj_ctx j)) st + 1
         \<and> (\<exists>v. at_operation (w n) t = Inr v)
         \<and> (\<forall>tick\<in>set (at_ticks (w n)). \<exists>now' st'' u e. tick = Inr (now', st'')
              \<and> present now' st'' (lock_key (fj_ctx j)) = Some (Lease_hash nonce u e))
         \<and> (\<exists>now' st'' e. at_after (w n) = Inr (now', st'')
              \<and> present now' st'' (lock_key (fj_ctx j)) = Some (Lease_hash nonce t e)
              \<and> (redis_wf st'' \<longrightarrow> t = issued (lock_key (fj_ctx j)) st''))"
    using current_has_highest_token [of _ _ l] heartbeat_alive [of l] by (fastforce simp: may_commit_def assert_current_iff l)
  then show ?thesis
    using cs ok commits_ok_length [OF ok refl] by (auto simp: commits_ok_def)
qed

text \<open>A job, a Redis in which its lease is current, and two worlds: all goes well, and the append fails once.\<close>

definition demo_job :: fenced_job where
  "demo_job =
     \<lparr>fj_chain = \<lparr>ec_crypto = \<lparr>sha256_text = (\<lambda>_. ''h''), hmac_sha256 = (\<lambda>k m. k @ m)\<rparr>, ec_secret = ''s''\<rparr>,
      fj_transient = (\<lambda>c. c = OtherException ''OperationalError''),
      fj_ctx = \<lparr>kc_tenant_id = ''t'', kc_thread_id = ''x'', kc_workflow_version = ''1'', kc_max_retries = 3,
                kc_base_backoff_s = 1 / 4, kc_max_backoff_s = 10, kc_retry_deadline_s = 60\<rparr>,
      fj_scenario = ''RC-05'', fj_dump = []\<rparr>"

definition demo_redis :: redis where
  "demo_redis = [(''ois:lease:t:x:sequence'', Counter 1), (''ois:lease:t:x'', Lease_hash ''n'' 1 10000)]"

definition demo_attempt :: "pg_outcome \<Rightarrow> attempt" where
  "demo_attempt note_out =
     \<lparr>at_before = Inr (0, demo_redis), at_connect = Inr (), at_inside = Inr (1, demo_redis),
      at_operation = (\<lambda>t. Inr (PInt t)), at_ticks = [], at_after = Inr (2, demo_redis), at_commit = Done,
      at_success_note = note_out, at_elapsed = 1, at_sink = Some Done, at_handler_note = Done, at_random = 0,
      at_recorded = ''now'', at_handler_recorded = ''then''\<rparr>"

definition fails_once :: "nat \<Rightarrow> attempt" where
  "fails_once n = demo_attempt (if n = 0 then Failed (Exn (OtherException ''OperationalError'') ''gone'') else Done)"

abbreviation no_world :: res_world where
  "no_world \<equiv> \<lparr>rw_evidence = [], rw_dead = [], rw_commits = []\<rparr>"

lemma demo_acquire:
  "manager_acquire 10000 0 ''n'' (lock_key (fj_ctx demo_job)) []
   = Inr (\<lparr>fe_key = ''ois:lease:t:x'', fe_owner_nonce = ''n'', fe_fencing_token = 1, fe_ttl = 10000\<rparr>, demo_redis)"
  by code_simp

lemma demo_commits:
  "rw_commits (fst (snd (execute_fenced_transaction demo_job 10000 (\<lambda>_. demo_attempt Done) 0 ''n'' [] None no_world))) = [(0, 1)]"
  "fst (execute_fenced_transaction demo_job 10000 (\<lambda>_. demo_attempt Done) 0 ''n'' [] None no_world) = Inr (PInt 1)"
  by code_simp+

text \<open>
  The append after the commit is part of the retried block: when it fails for a transient reason, the
  operation that was already committed is run and committed again.
\<close>

lemma evidence_outage_recommits:
  "rw_commits (fst (snd (execute_fenced_transaction demo_job 10000 fails_once 0 ''n'' [] None no_world))) = [(0, 1), (1, 1)]"
  "fst (execute_fenced_transaction demo_job 10000 fails_once 0 ''n'' [] None no_world) = Inr (PInt 1)"
  by code_simp+

text \<open>Two appends that read the same newest row, which nothing prevents, fork the chain of the thread.\<close>

lemma concurrent_appends_fork:
  assumes "thread_rows tenant thread rows = []"
  shows "\<not> chains_linked ec (rows @ [attest ec tenant thread ty c t rows, attest ec tenant thread ty' c' t' rows])"
proof -
  have "\<not> linked_from ec None (thread_rows tenant thread
     (rows @ [attest ec tenant thread ty c t rows, attest ec tenant thread ty' c' t' rows]))"
    using assms by (simp add: thread_rows_def newest_hash_def)
  then show ?thesis by (auto simp: chains_linked_def)
qed

theorem fenced_commits_under_lease_witness:
  "\<exists>cs. rw_commits (fst (snd (execute_fenced_transaction demo_job 10000 fails_once 0 ''n'' [] None no_world))) = cs
    \<and> cs = [(0, 1), (1, 1)] \<and> length cs \<le> Suc (nat (kc_max_retries (fj_ctx demo_job)))"
proof -
  obtain r s' st' where e: "execute_fenced_transaction demo_job 10000 fails_once 0 ''n'' [] None no_world = (r, s', st')"
    by (metis prod_cases3)
  show ?thesis
    using fenced_commits_under_lease [OF e] evidence_outage_recommits(1) by (auto simp: e)
qed

text \<open>
  When a fenced transaction returns, it returns what the protected operation returned in an attempt
  that was committed under the token of the lease, and the newest evidence row is a \<open>TRANSACTION_SUCCESS\<close>
  of the tenant and the thread. Whatever the outcome, the evidence rows of every thread remain a chain: each
  names the hash of the one before it and is signed.
\<close>

theorem fenced_success_is_attested:
  assumes "execute_fenced_transaction j ttl w now nonce st rel s = (r, s', st')"
    and "chains_linked (fj_chain j) (rw_evidence s)"
  shows "chains_linked (fj_chain j) (rw_evidence s')
    \<and> (\<forall>v. r = Inr v \<longrightarrow>
         (\<exists>n t cs row rows. rw_commits s' = cs @ [(n, t)] \<and> at_operation (w n) t = Inr v
            \<and> t = issued (lock_key (fj_ctx j)) st + 1
            \<and> rw_evidence s' = rows @ [row] \<and> tt_event_type row = ''TRANSACTION_SUCCESS''
            \<and> tt_tenant_id row = kc_tenant_id (fj_ctx j) \<and> tt_thread_id row = kc_thread_id (fj_ctx j)))"
proof (cases "manager_acquire ttl now nonce (lock_key (fj_ctx j)) st")
  case (Inl e)
  with assms show ?thesis by (auto simp: execute_fenced_transaction_def)
next
  case (Inr p)
  then obtain l st1 where acq: "manager_acquire ttl now nonce (lock_key (fj_ctx j)) st = Inr (l, st1)" by (cases p) auto
  have loop: "fenced_loop j l w 0 s = (r, s')"
    using assms acq by (auto simp: execute_fenced_transaction_def split: prod.splits)
  have "chains_linked (fj_chain j) (rw_evidence s')"
    using fenced_loop_links [OF loop] assms(2) by (simp add: keeps_links_def)
  moreover have "\<exists>n t cs row rows. rw_commits s' = cs @ [(n, t)] \<and> at_operation (w n) t = Inr v
      \<and> t = issued (lock_key (fj_ctx j)) st + 1
      \<and> rw_evidence s' = rows @ [row] \<and> tt_event_type row = ''TRANSACTION_SUCCESS''
      \<and> tt_tenant_id row = kc_tenant_id (fj_ctx j) \<and> tt_thread_id row = kc_thread_id (fj_ctx j)" if v: "r = Inr v" for v
  proof -
    obtain m s1 where "fenced_attempt j l m (w m) s1 = (Inr v, s')"
      using fenced_loop_success loop v by blast
    from fenced_attempt_success [OF this] show ?thesis
      using acquire_issues_next [OF acq] by blast
  qed
  ultimately show ?thesis by blast
qed

theorem fenced_success_is_attested_witness:
  "\<exists>n t cs row rows s'. s' = fst (snd (execute_fenced_transaction demo_job 10000 (\<lambda>_. demo_attempt Done) 0 ''n'' [] None no_world))
    \<and> rw_commits s' = cs @ [(n, t)] \<and> t = issued (lock_key (fj_ctx demo_job)) [] + 1
    \<and> rw_evidence s' = rows @ [row] \<and> tt_event_type row = ''TRANSACTION_SUCCESS''"
proof -
  obtain r s' st' where e: "execute_fenced_transaction demo_job 10000 (\<lambda>_. demo_attempt Done) 0 ''n'' [] None no_world = (r, s', st')"
    by (metis prod_cases3)
  then have "r = Inr (PInt 1)" using demo_commits(2) by simp
  moreover have "chains_linked (fj_chain demo_job) (rw_evidence no_world)"
    by (simp add: chains_linked_def thread_rows_def)
  ultimately show ?thesis
    using fenced_success_is_attested [OF e] by (auto simp: e)
qed

end
