(* ===== verification/Evidence_Runtime.thy ===== *)
theory Evidence_Runtime
  imports Production_Control
begin

text \<open>
  \<^verbatim>\<open>ois/runtime/evidence/core.py\<close> and \<^verbatim>\<open>runtime.py\<close>: evidence envelopes, the hash-chain ledger, admissibility
  decisions, single-use authorizations and the execution gate. SHA-256 of a canonical JSON text and
  \<open>isoformat\<close> are arguments; \<open>utc_now\<close> and \<open>uuid4\<close> read the environment at a tick. What the executor does is
  its outcome; \<open>er_calls\<close> records, for the outside world, under which authorization it was called and with
  what.
\<close>

section \<open>Core\<close>

record ev_env =
  ee_env :: environ
  ee_sha256 :: "json_text \<Rightarrow> string"
  ee_iso :: "timestamp \<Rightarrow> string"

definition canonical_digest :: "ev_env \<Rightarrow> pyval \<Rightarrow> string" where
  "canonical_digest env v = ee_sha256 env (json_dumps v)"

record evidence_envelope =
  ve_evidence_id :: string
  ve_run_id :: uuid
  ve_evidence_type :: string
  ve_source_id :: string
  ve_observed_at :: timestamp
  ve_payload_digest :: string
  ve_provenance :: pydict
  ve_parent_evidence_ids :: "string list"
  ve_trust_class :: string
  ve_schema_version :: string

record ledger_event =
  lv_sequence :: int
  lv_event_type :: string
  lv_run_id :: uuid
  lv_payload :: pydict
  lv_timestamp :: timestamp
  lv_previous_digest :: string
  lv_event_digest :: string

record admissibility_decision =
  dc_allowed :: bool
  dc_decision_id :: string
  dc_action_digest :: string
  dc_evidence_digest :: string
  dc_policy_digest :: string
  dc_reason_codes :: "string list"

record single_use_authorization =
  su_authorization_id :: string
  su_run_id :: uuid
  su_action_digest :: string
  su_evidence_digest :: string
  su_policy_digest :: string
  su_issued_at :: timestamp
  su_expires_at :: timestamp
  su_consumed :: bool

record execution_receipt =
  xr_execution_id :: string
  xr_authorization_id :: string
  xr_action_digest :: string
  xr_tool :: string
  xr_status :: string
  xr_output_digest :: string
  xr_started_at :: timestamp
  xr_completed_at :: timestamp
  xr_evidence_ids :: "string list"

record outcome_receipt =
  or_outcome_id :: string
  or_run_id :: uuid
  or_outcome_digest :: string
  or_verified :: bool
  or_verification_reason :: string
  or_evidence_ids :: "string list"

record ev_runtime =
  er_tick :: nat
  er_ledger :: "ledger_event list"
  er_evidence :: "(string \<times> evidence_envelope) list"
  er_authorizations :: "(string \<times> single_use_authorization) list"
  er_calls :: "(string \<times> pydict) list"

definition utc_now :: "ev_env \<Rightarrow> (ev_runtime, timestamp) em" where
  "utc_now env = (\<lambda>s. (Inr (clock (ee_env env) (er_tick s)), s\<lparr>er_tick := Suc (er_tick s)\<rparr>))"

text \<open>\<open>uuid4().hex\<close>: the text of the UUID without its hyphens.\<close>

definition hex_of :: "uuid \<Rightarrow> string" where
  "hex_of u = filter (\<lambda>c. c \<noteq> CHR ''-'') u"

definition uuid4_hex :: "ev_env \<Rightarrow> (ev_runtime, string) em" where
  "uuid4_hex env = (\<lambda>s. (Inr (hex_of (fresh_uuid (ee_env env) (er_tick s))), s\<lparr>er_tick := Suc (er_tick s)\<rparr>))"

definition envelope_create ::
  "ev_env \<Rightarrow> uuid \<Rightarrow> string \<Rightarrow> string \<Rightarrow> pyval \<Rightarrow> pydict option \<Rightarrow> string list \<Rightarrow> string \<Rightarrow> timestamp option
   \<Rightarrow> (ev_runtime, evidence_envelope) em" where
  "envelope_create env run ty source payload provenance parents trust observed_at =
     ebind (case observed_at of Some t \<Rightarrow> eret t | None \<Rightarrow> utc_now env) (\<lambda>observed.
     let pd = canonical_digest env payload;
         identity = canonical_digest env (PDict
           [(''run_id'', PStr run), (''evidence_type'', PStr ty), (''source_id'', PStr source),
            (''observed_at'', PStr (ee_iso env observed)), (''payload_digest'', PStr pd),
            (''parent_evidence_ids'', PTuple (map PStr parents))])
     in eret \<lparr>ve_evidence_id = identity, ve_run_id = run, ve_evidence_type = ty, ve_source_id = source,
              ve_observed_at = observed, ve_payload_digest = pd,
              ve_provenance = (case provenance of None \<Rightarrow> [] | Some p \<Rightarrow> p), ve_parent_evidence_ids = parents,
              ve_trust_class = trust, ve_schema_version = ''evidence.v1''\<rparr>)"

definition as_record :: "ev_env \<Rightarrow> evidence_envelope \<Rightarrow> pydict" where
  "as_record env e =
     [(''evidence_id'', PStr (ve_evidence_id e)), (''run_id'', PStr (ve_run_id e)),
      (''evidence_type'', PStr (ve_evidence_type e)), (''source_id'', PStr (ve_source_id e)),
      (''observed_at'', PStr (ee_iso env (ve_observed_at e))), (''payload_digest'', PStr (ve_payload_digest e)),
      (''provenance'', PDict (ve_provenance e)), (''parent_evidence_ids'', PList (map PStr (ve_parent_evidence_ids e))),
      (''trust_class'', PStr (ve_trust_class e)), (''schema_version'', PStr (ve_schema_version e))]"

definition zero_digest :: string where
  "zero_digest = replicate 64 (CHR ''0'')"

definition event_digest_of :: "ev_env \<Rightarrow> int \<Rightarrow> string \<Rightarrow> uuid \<Rightarrow> pydict \<Rightarrow> timestamp \<Rightarrow> string \<Rightarrow> string" where
  "event_digest_of env sequence ty run payload t previous =
     canonical_digest env (PDict
       [(''sequence'', PInt sequence), (''event_type'', PStr ty), (''run_id'', PStr run), (''payload'', PDict payload),
        (''timestamp'', PStr (ee_iso env t)), (''previous_digest'', PStr previous)])"

definition last_digest :: "ledger_event list \<Rightarrow> string" where
  "last_digest es = (if es = [] then zero_digest else lv_event_digest (last es))"

definition ledger_append :: "ev_env \<Rightarrow> uuid \<Rightarrow> string \<Rightarrow> pydict \<Rightarrow> (ev_runtime, unit) em" where
  "ledger_append env run ty payload =
     ebind (utc_now env) (\<lambda>t. emod (\<lambda>s.
       let sequence = int (length (er_ledger s)) + 1; previous = last_digest (er_ledger s)
       in s\<lparr>er_ledger := er_ledger s @
              [\<lparr>lv_sequence = sequence, lv_event_type = ty, lv_run_id = run, lv_payload = payload, lv_timestamp = t,
                lv_previous_digest = previous,
                lv_event_digest = event_digest_of env sequence ty run payload t previous\<rparr>]\<rparr>))"

definition ledger_list :: "uuid option \<Rightarrow> ev_runtime \<Rightarrow> ledger_event list" where
  "ledger_list run s = (case run of None \<Rightarrow> er_ledger s | Some r \<Rightarrow> filter (\<lambda>e. lv_run_id e = r) (er_ledger s))"

fun ledger_verify_from :: "ev_env \<Rightarrow> int \<Rightarrow> string \<Rightarrow> ledger_event list \<Rightarrow> bool" where
  "ledger_verify_from env n previous [] \<longleftrightarrow> True"
| "ledger_verify_from env n previous (e # es) \<longleftrightarrow>
     lv_sequence e = n \<and> lv_previous_digest e = previous
     \<and> event_digest_of env (lv_sequence e) (lv_event_type e) (lv_run_id e) (lv_payload e) (lv_timestamp e)
         (lv_previous_digest e) = lv_event_digest e
     \<and> ledger_verify_from env (n + 1) (lv_event_digest e) es"

definition ledger_verify :: "ev_env \<Rightarrow> ledger_event list \<Rightarrow> bool" where
  "ledger_verify env es = ledger_verify_from env 1 zero_digest es"

definition consume :: "ev_env \<Rightarrow> single_use_authorization \<Rightarrow> (ev_runtime, single_use_authorization) em" where
  "consume env a =
     (if su_consumed a then eraise (Exn PermissionError ''authorization_replay'')
      else ebind (utc_now env) (\<lambda>now.
        if now \<ge> su_expires_at a then eraise (Exn PermissionError ''authorization_expired'')
        else eret (a\<lparr>su_consumed := True\<rparr>)))"

definition ids_digest :: "ev_env \<Rightarrow> string list \<Rightarrow> string" where
  "ids_digest env ids = canonical_digest env (PList (map PStr (sort ids)))"

definition authorization_for ::
  "ev_env \<Rightarrow> uuid \<Rightarrow> pydict \<Rightarrow> string list \<Rightarrow> pydict \<Rightarrow> int \<Rightarrow> (ev_runtime, single_use_authorization) em" where
  "authorization_for env run action ids policy ttl_seconds =
     ebind (utc_now env) (\<lambda>issued.
     ebind (uuid4_hex env) (\<lambda>h.
     eret \<lparr>su_authorization_id = ''AUTH-'' @ h, su_run_id = run, su_action_digest = canonical_digest env (PDict action),
           su_evidence_digest = ids_digest env ids, su_policy_digest = canonical_digest env (PDict policy),
           su_issued_at = issued, su_expires_at = issued + ttl_seconds * 1000000, su_consumed = False\<rparr>))"

section \<open>The runtime\<close>

definition ev_ingest ::
  "ev_env \<Rightarrow> uuid \<Rightarrow> string \<Rightarrow> string \<Rightarrow> pyval \<Rightarrow> pydict option \<Rightarrow> string list \<Rightarrow> string \<Rightarrow> timestamp option
   \<Rightarrow> (ev_runtime, evidence_envelope) em" where
  "ev_ingest env run ty source payload provenance parents trust observed_at =
     ebind (envelope_create env run ty source payload provenance parents trust observed_at) (\<lambda>e.
     eseq (emod (\<lambda>s. s\<lparr>er_evidence := AList.update (ve_evidence_id e) e (er_evidence s)\<rparr>))
    (eseq (ledger_append env run ''EVIDENCE_RECEIVED'' (as_record env e))
    (eret e)))"

text \<open>Iterating \<open>authorization_root.get("allowed_actions", ())\<close> and keeping the mappings.\<close>

fun is_mapping :: "pyval \<Rightarrow> bool" where
  "is_mapping (PDict d) = True"
| "is_mapping v = False"

fun mappings_in :: "pyval option \<Rightarrow> py_exn + pyval list" where
  "mappings_in None = Inr []"
| "mappings_in (Some (PList vs)) = Inr (filter is_mapping vs)"
| "mappings_in (Some (PTuple vs)) = Inr (filter is_mapping vs)"
| "mappings_in (Some (PStr s)) = Inr []"
| "mappings_in (Some (PDict d)) = Inr []"
| "mappings_in (Some v) = Inl (Exn TypeError ([CHR 0x27] @ py_type_name v @ [CHR 0x27] @ '' object is not iterable''))"

definition stale :: "timestamp \<Rightarrow> rat \<Rightarrow> evidence_envelope \<Rightarrow> bool" where
  "stale now max_age e \<longleftrightarrow> fl (of_int (now - ve_observed_at e) / 1000000) > max_age"

definition ev_admissible ::
  "ev_env \<Rightarrow> uuid \<Rightarrow> pydict \<Rightarrow> string list \<Rightarrow> pydict \<Rightarrow> pydict \<Rightarrow> rat option \<Rightarrow> (ev_runtime, admissibility_decision) em" where
  "ev_admissible env run action ids policy auth_root max_age =
     ebind (eget er_evidence) (\<lambda>known.
     ebind (elift (mappings_in (map_of auth_root ''allowed_actions''))) (\<lambda>allowed.
     ebind (case max_age of None \<Rightarrow> eret None | Some m \<Rightarrow> ebind (utc_now env) (\<lambda>now. eret (Some (now, m)))) (\<lambda>age.
     let ad = canonical_digest env (PDict action);
         evidence = List.map_filter (map_of known) ids;
         reasons = (if list_ex (\<lambda>i. map_of known i = None) ids then [''missing_evidence''] else [])
           @ (if ad \<notin> set (map (canonical_digest env) allowed) then [''authorization_root_mismatch''] else [])
           @ (case age of None \<Rightarrow> [] | Some (now, m) \<Rightarrow> if list_ex (stale now m) evidence then [''stale_evidence''] else [])
           @ (if py_truthy (case map_of policy ''deny'' of None \<Rightarrow> PBool False | Some v \<Rightarrow> v) then [''policy_denied''] else [])
     in ebind (uuid4_hex env) (\<lambda>h.
        let d = \<lparr>dc_allowed = (reasons = []), dc_decision_id = ''DEC-'' @ h, dc_action_digest = ad,
                 dc_evidence_digest = ids_digest env ids, dc_policy_digest = canonical_digest env (PDict policy),
                 dc_reason_codes = reasons\<rparr>
        in eseq (ledger_append env run ''ACTION_ADMISSIBILITY_EVALUATED''
                  [(''decision'', PBool (dc_allowed d)), (''decision_id'', PStr (dc_decision_id d)),
                   (''reasons'', PList (map PStr reasons))])
           (eret d)))))"

definition ev_authorize ::
  "ev_env \<Rightarrow> uuid \<Rightarrow> admissibility_decision \<Rightarrow> pydict \<Rightarrow> string list \<Rightarrow> pydict \<Rightarrow> int
   \<Rightarrow> (ev_runtime, single_use_authorization) em" where
  "ev_authorize env run d action ids policy ttl_seconds =
     (if \<not> dc_allowed d then eraise (Exn PermissionError ''action_not_admissible'')
      else if canonical_digest env (PDict action) \<noteq> dc_action_digest d
      then eraise (Exn PermissionError ''decision_action_mismatch'')
      else if ids_digest env ids \<noteq> dc_evidence_digest d
      then eraise (Exn PermissionError ''decision_evidence_mismatch'')
      else ebind (authorization_for env run action ids policy ttl_seconds) (\<lambda>a.
        eseq (emod (\<lambda>s. s\<lparr>er_authorizations := AList.update (su_authorization_id a) a (er_authorizations s)\<rparr>))
       (eseq (ledger_append env run ''ACTION_AUTHORIZED''
                [(''authorization_id'', PStr (su_authorization_id a)), (''action_digest'', PStr (dc_action_digest d))])
       (eret a))))"

definition ev_execute ::
  "ev_env \<Rightarrow> uuid \<Rightarrow> single_use_authorization \<Rightarrow> pydict \<Rightarrow> string \<Rightarrow> (pydict \<Rightarrow> py_exn + pyval) \<Rightarrow> string list
   \<Rightarrow> (ev_runtime, execution_receipt \<times> pyval) em" where
  "ev_execute env run auth action tool executor ids =
     ebind (eget (\<lambda>s. map_of (er_authorizations s) (su_authorization_id auth))) (\<lambda>found.
     case found of
       None \<Rightarrow> eraise (Exn PermissionError ''unknown_authorization'')
     | Some current \<Rightarrow>
        if canonical_digest env (PDict action) \<noteq> su_action_digest current
        then eraise (Exn PermissionError ''action_digest_mismatch'')
        else if ids_digest env ids \<noteq> su_evidence_digest current
        then eraise (Exn PermissionError ''evidence_digest_mismatch'')
        else ebind (consume env current) (\<lambda>consumed.
          eseq (emod (\<lambda>s. s\<lparr>er_authorizations :=
                  AList.update (su_authorization_id consumed) consumed (er_authorizations s)\<rparr>))
         (ebind (utc_now env) (\<lambda>started.
          eseq (ledger_append env run ''ACTION_EXECUTION_STARTED'' [(''tool'', PStr tool)])
         (eseq (emod (\<lambda>s. s\<lparr>er_calls := er_calls s @ [(su_authorization_id consumed, action)]\<rparr>))
         (case executor action of
            Inl e \<Rightarrow> eseq (ledger_append env run ''ACTION_EXECUTION_FAILED''
                             [(''error_type'', PStr (exn_name (exn_class e)))]) (eraise e)
          | Inr out \<Rightarrow>
             ebind (utc_now env) (\<lambda>completed.
             ebind (uuid4_hex env) (\<lambda>h.
             let r = \<lparr>xr_execution_id = ''EXEC-'' @ h, xr_authorization_id = su_authorization_id consumed,
                      xr_action_digest = su_action_digest consumed, xr_tool = tool, xr_status = ''succeeded'',
                      xr_output_digest = canonical_digest env out, xr_started_at = started,
                      xr_completed_at = completed, xr_evidence_ids = ids\<rparr>
             in eseq (ledger_append env run ''ACTION_EXECUTED''
                       [(''execution_id'', PStr (xr_execution_id r)), (''output_digest'', PStr (xr_output_digest r))])
                (eret (r, out))))))))))"

definition ev_verify_outcome ::
  "ev_env \<Rightarrow> uuid \<Rightarrow> pydict \<Rightarrow> pydict \<Rightarrow> string list \<Rightarrow> (ev_runtime, outcome_receipt) em" where
  "ev_verify_outcome env run outcome expected ids =
     ebind (uuid4_hex env) (\<lambda>h.
     let verified = py_eq (PDict outcome) (PDict expected);
         r = \<lparr>or_outcome_id = ''OUT-'' @ h, or_run_id = run, or_outcome_digest = canonical_digest env (PDict outcome),
              or_verified = verified,
              or_verification_reason = (if verified then ''exact_match'' else ''outcome_mismatch''),
              or_evidence_ids = ids\<rparr>
     in eseq (ledger_append env run (if verified then ''OUTCOME_VERIFIED'' else ''OUTCOME_VERIFICATION_FAILED'')
               [(''outcome_id'', PStr (or_outcome_id r)), (''verified'', PBool verified)])
        (eret r))"

end
