(* ===== verification/Evidence_Properties.thy ===== *)
theory Evidence_Properties
  imports Evidence_Runtime
begin

text \<open>
  Properties of the evidence runtime: under any sequence of calls an authorization is used once at most, for
  the action it was issued for, and the ledger stays a verified chain whose head commits to it.
\<close>

datatype ev_call =
    Ev_ingest uuid string string pyval "pydict option" "string list" string "timestamp option"
  | Ev_admissible uuid pydict "string list" pydict pydict "rat option"
  | Ev_authorize uuid admissibility_decision pydict "string list" pydict int
  | Ev_execute uuid single_use_authorization pydict string "pydict \<Rightarrow> py_exn + pyval" "string list"
  | Ev_verify_outcome uuid pydict pydict "string list"

fun ev_effect :: "ev_env \<Rightarrow> ev_call \<Rightarrow> ev_runtime \<Rightarrow> ev_runtime" where
  "ev_effect env (Ev_ingest r t s p pr ps tr ob) w = snd (ev_ingest env r t s p pr ps tr ob w)"
| "ev_effect env (Ev_admissible r a ids p ar m) w = snd (ev_admissible env r a ids p ar m w)"
| "ev_effect env (Ev_authorize r d a ids p ttl) w = snd (ev_authorize env r d a ids p ttl w)"
| "ev_effect env (Ev_execute r au a tool ex ids) w = snd (ev_execute env r au a tool ex ids w)"
| "ev_effect env (Ev_verify_outcome r oc xp ids) w = snd (ev_verify_outcome env r oc xp ids w)"

definition ev_run :: "ev_env \<Rightarrow> ev_call list \<Rightarrow> ev_runtime \<Rightarrow> ev_runtime" where
  "ev_run env cs w = fold (ev_effect env) cs w"

definition empty_runtime :: ev_runtime where
  "empty_runtime = \<lparr>er_tick = 0, er_ledger = [], er_evidence = [], er_authorizations = [], er_calls = []\<rparr>"

lemma utc_now_apply [em_simps]: "utc_now env s = (Inr (clock (ee_env env) (er_tick s)), s\<lparr>er_tick := Suc (er_tick s)\<rparr>)"
  by (simp add: utc_now_def)

lemma uuid4_hex_apply [em_simps]:
  "uuid4_hex env s = (Inr (hex_of (fresh_uuid (ee_env env) (er_tick s))), s\<lparr>er_tick := Suc (er_tick s)\<rparr>)"
  by (simp add: uuid4_hex_def)

section \<open>The ledger\<close>

text \<open>\<open>extends env\<close>: the ledger grows, by verified events; the clock does not go back.\<close>

definition extends :: "ev_env \<Rightarrow> ev_runtime \<Rightarrow> ev_runtime \<Rightarrow> bool" where
  "extends env s t \<longleftrightarrow> er_tick s \<le> er_tick t \<and> (\<exists>es. er_ledger t = er_ledger s @ es)
     \<and> (ledger_verify env (er_ledger s) \<longrightarrow> ledger_verify env (er_ledger t))"

interpretation growth: step_order "extends env" for env
  by unfold_locales (auto simp: extends_def)

lemma ledger_verify_snoc:
  "ledger_verify_from env n p (es @ [e]) \<longleftrightarrow>
     ledger_verify_from env n p es \<and> lv_sequence e = n + int (length es)
     \<and> lv_previous_digest e = (if es = [] then p else lv_event_digest (last es))
     \<and> event_digest_of env (lv_sequence e) (lv_event_type e) (lv_run_id e) (lv_payload e) (lv_timestamp e)
         (lv_previous_digest e) = lv_event_digest e"
  by (induction es arbitrary: n p) auto

lemma ledger_append_extends: "confined (extends env) (ledger_append env run ty p)"
  by (auto simp: confined_def ledger_append_def em_simps extends_def Let_def ledger_verify_def ledger_verify_snoc
                 last_digest_def)

lemma utc_now_extends: "confined (extends env) (utc_now env)"
  and uuid4_hex_extends: "confined (extends env) (uuid4_hex env)"
  by (auto simp: confined_def em_simps extends_def)

lemma emod_extends: "(\<And>s. er_ledger (f s) = er_ledger s \<and> er_tick (f s) = er_tick s) \<Longrightarrow> confined (extends env) (emod f)"
  by (auto simp: confined_def em_simps extends_def)

lemmas extends_rules =
  growth.confined_rules ledger_append_extends utc_now_extends uuid4_hex_extends emod_extends

lemma ev_ingest_extends: "confined (extends env) (ev_ingest env r t s p pr ps tr ob)"
  unfolding ev_ingest_def envelope_create_def Let_def by (intro extends_rules) simp

lemma ev_admissible_extends: "confined (extends env) (ev_admissible env r a ids p ar m)"
  unfolding ev_admissible_def Let_def by (intro extends_rules)

lemma consume_extends: "confined (extends env) (consume env a)"
  unfolding consume_def by (intro extends_rules)

lemma ev_authorize_extends: "confined (extends env) (ev_authorize env r d a ids p ttl)"
  unfolding ev_authorize_def authorization_for_def by (intro extends_rules) simp

lemma ev_execute_extends: "confined (extends env) (ev_execute env r au a tool ex ids)"
  unfolding ev_execute_def Let_def by (intro extends_rules consume_extends) simp_all

lemma ev_verify_outcome_extends: "confined (extends env) (ev_verify_outcome env r oc xp ids)"
  unfolding ev_verify_outcome_def Let_def by (intro extends_rules)

lemma ev_effect_extends: "extends env s (ev_effect env c s)"
  by (cases c) (simp_all add: confinedD ev_ingest_extends ev_admissible_extends ev_authorize_extends
                  ev_execute_extends ev_verify_outcome_extends)

lemma ev_run_extends: "extends env s (ev_run env cs s)"
proof (induction cs arbitrary: s)
  case Nil
  then show ?case by (simp add: ev_run_def growth.step_refl)
next
  case (Cons c cs)
  then show ?case using ev_effect_extends growth.step_trans by (fastforce simp: ev_run_def)
qed

section \<open>Authorizations\<close>

text \<open>What a call may do to the table of authorizations and to the calls of the executor.\<close>

definition auth_id :: "ev_env \<Rightarrow> nat \<Rightarrow> string" where
  "auth_id env n = ''AUTH-'' @ hex_of (fresh_uuid (ee_env env) n)"

definition unchanged_gate :: "ev_runtime \<Rightarrow> ev_runtime \<Rightarrow> bool" where
  "unchanged_gate s t \<longleftrightarrow> er_authorizations t = er_authorizations s \<and> er_calls t = er_calls s"

interpretation gate: step_order unchanged_gate
  by unfold_locales (simp_all add: unchanged_gate_def)

lemma ledger_append_gate: "confined unchanged_gate (ledger_append env run ty p)"
  and utc_now_gate: "confined unchanged_gate (utc_now env)"
  and uuid4_hex_gate: "confined unchanged_gate (uuid4_hex env)"
  by (auto simp: confined_def ledger_append_def em_simps unchanged_gate_def Let_def)

lemmas gate_rules = gate.confined_rules gate.confined_emod ledger_append_gate utc_now_gate uuid4_hex_gate

lemma ev_ingest_gate: "confined unchanged_gate (ev_ingest env r t s p pr ps tr ob)"
  unfolding ev_ingest_def envelope_create_def Let_def by (intro gate_rules) (simp add: unchanged_gate_def)

lemma ev_admissible_gate: "confined unchanged_gate (ev_admissible env r a ids p ar m)"
  unfolding ev_admissible_def Let_def by (intro gate_rules)

lemma ev_verify_outcome_gate: "confined unchanged_gate (ev_verify_outcome env r oc xp ids)"
  unfolding ev_verify_outcome_def Let_def by (intro gate_rules)

definition logged :: "ev_env \<Rightarrow> uuid \<Rightarrow> string \<Rightarrow> pydict \<Rightarrow> ev_runtime \<Rightarrow> ev_runtime" where
  "logged env run ty p s = snd (ledger_append env run ty p s)"

lemma ledger_append_apply [em_simps]: "ledger_append env run ty p s = (Inr (), logged env run ty p s)"
  by (simp add: logged_def) (simp add: ledger_append_def em_simps Let_def)

lemma logged_simps [simp]:
  "er_authorizations (logged env run ty p s) = er_authorizations s"
  "er_calls (logged env run ty p s) = er_calls s"
  "er_tick (logged env run ty p s) = Suc (er_tick s)"
  by (simp_all add: logged_def ledger_append_def ebind_apply emod_apply utc_now_apply Let_def)

lemma ev_authorize_gate:
  "unchanged_gate s (snd (ev_authorize env r d a ids p ttl s))
   \<or> (\<exists>n x. er_tick s \<le> n \<and> n < er_tick (snd (ev_authorize env r d a ids p ttl s)) \<and> dc_allowed d
       \<and> su_authorization_id x = auth_id env n \<and> \<not> su_consumed x
       \<and> su_action_digest x = dc_action_digest d \<and> su_evidence_digest x = dc_evidence_digest d
       \<and> er_authorizations (snd (ev_authorize env r d a ids p ttl s)) = AList.update (auth_id env n) x (er_authorizations s)
       \<and> er_calls (snd (ev_authorize env r d a ids p ttl s)) = er_calls s)"
proof (cases "dc_allowed d \<and> canonical_digest env (PDict a) = dc_action_digest d \<and> ids_digest env ids = dc_evidence_digest d")
  case True
  then show ?thesis
    by (intro disjI2 exI [of _ "Suc (er_tick s)"])
       (auto simp: ev_authorize_def authorization_for_def em_simps auth_id_def intro!: exI conjI)
next
  case False
  then show ?thesis by (auto simp: ev_authorize_def em_simps unchanged_gate_def)
qed

text \<open>An execution either leaves the gate alone, or consumes an authorization that was there, not yet consumed.\<close>

lemma ev_execute_gate:
  "unchanged_gate s (snd (ev_execute env r au a tool ex ids s))
   \<or> (\<exists>x aid. map_of (er_authorizations s) (su_authorization_id au) = Some x \<and> \<not> su_consumed x
       \<and> aid = su_authorization_id x
       \<and> su_action_digest x = canonical_digest env (PDict a)
       \<and> er_authorizations (snd (ev_execute env r au a tool ex ids s))
           = AList.update aid (x\<lparr>su_consumed := True\<rparr>) (er_authorizations s)
       \<and> er_calls (snd (ev_execute env r au a tool ex ids s)) = er_calls s @ [(aid, a)])"
  by (auto simp: ev_execute_def consume_def em_simps unchanged_gate_def Let_def
           split: option.splits sum.splits)

text \<open>The invariant of the gate after the calls \<open>cs\<close>.\<close>

definition issued_by :: "ev_call list \<Rightarrow> single_use_authorization \<Rightarrow> bool" where
  "issued_by cs x \<longleftrightarrow> (\<exists>r d a ids p ttl. Ev_authorize r d a ids p ttl \<in> set cs \<and> dc_allowed d
     \<and> su_action_digest x = dc_action_digest d \<and> su_evidence_digest x = dc_evidence_digest d)"

definition used_for :: "ev_env \<Rightarrow> ev_runtime \<Rightarrow> string \<Rightarrow> pydict \<Rightarrow> bool" where
  "used_for env s aid a \<longleftrightarrow> (\<exists>x. map_of (er_authorizations s) aid = Some x \<and> su_consumed x
     \<and> su_action_digest x = canonical_digest env (PDict a))"

definition minted :: "ev_env \<Rightarrow> nat \<Rightarrow> string \<Rightarrow> bool" where
  "minted env k aid \<longleftrightarrow> (\<exists>n<k. aid = auth_id env n)"

definition gate_ok :: "ev_env \<Rightarrow> ev_call list \<Rightarrow> ev_runtime \<Rightarrow> bool" where
  "gate_ok env cs s \<longleftrightarrow> distinct (map fst (er_calls s))
     \<and> (\<forall>(aid, a)\<in>set (er_calls s). used_for env s aid a)
     \<and> (\<forall>aid x. map_of (er_authorizations s) aid = Some x \<longrightarrow>
          su_authorization_id x = aid \<and> minted env (er_tick s) aid \<and> issued_by cs x)"

lemma issued_by_mono: "issued_by cs x \<Longrightarrow> issued_by (cs @ [c]) x"
  unfolding issued_by_def by fastforce

lemma minted_mono: "minted env k aid \<Longrightarrow> k \<le> m \<Longrightarrow> minted env m aid"
  unfolding minted_def by (blast intro: less_le_trans)

lemma issued_by_consumed [simp]: "issued_by cs (x\<lparr>su_consumed := b\<rparr>) = issued_by cs x"
  by (simp add: issued_by_def)

lemma gate_ok_unchanged:
  assumes "gate_ok env cs s" and "unchanged_gate s t" and "er_tick s \<le> er_tick t"
  shows "gate_ok env (cs @ [c]) t"
  using assms by (auto simp: gate_ok_def unchanged_gate_def used_for_def intro: issued_by_mono minted_mono)

lemma minted_old_neq:
  assumes "inj (\<lambda>n. hex_of (fresh_uuid (ee_env env) n))" and "minted env k aid" and "k \<le> n"
  shows "aid \<noteq> auth_id env n"
  using assms by (auto simp: minted_def auth_id_def dest: injD)

lemma gate_ok_authorize:
  assumes inj: "inj (\<lambda>n. hex_of (fresh_uuid (ee_env env) n))" and ok: "gate_ok env cs s"
    and n: "er_tick s \<le> n" "n < er_tick t" and id: "su_authorization_id x = auth_id env n"
    and i: "issued_by (cs @ [c]) x"
    and t: "er_authorizations t = AList.update (auth_id env n) x (er_authorizations s)" "er_calls t = er_calls s"
  shows "gate_ok env (cs @ [c]) t"
proof -
  have "aid \<noteq> auth_id env n" if "map_of (er_authorizations s) aid = Some y" for aid y
    using that ok n minted_old_neq [OF inj] unfolding gate_ok_def by metis
  then have "used_for env t aid a" if "used_for env s aid a" for aid a
    using that by (auto simp: used_for_def t)
  moreover have "minted env (er_tick t) (auth_id env n)" using n(2) by (auto simp: minted_def)
  moreover have "minted env (er_tick t) aid" if "minted env (er_tick s) aid" for aid
    using that n by (auto intro: minted_mono)
  ultimately show ?thesis
    using ok id i by (auto simp: gate_ok_def t intro: issued_by_mono split: if_splits)
qed

lemma gate_ok_execute:
  assumes ok: "gate_ok env cs s" and x: "map_of (er_authorizations s) k = Some x" "\<not> su_consumed x"
    and d: "su_action_digest x = canonical_digest env (PDict a)" and tick: "er_tick s \<le> er_tick t"
    and t: "er_authorizations t = AList.update (su_authorization_id x) (x\<lparr>su_consumed := True\<rparr>) (er_authorizations s)"
      "er_calls t = er_calls s @ [(su_authorization_id x, a)]"
  shows "gate_ok env (cs @ [c]) t"
proof -
  have k: "su_authorization_id x = k" and m: "minted env (er_tick s) k" and i: "issued_by cs x"
    using ok x(1) by (auto simp: gate_ok_def)
  have new: "k \<notin> fst ` set (er_calls s)"
    using ok x by (fastforce simp: gate_ok_def used_for_def)
  then have "used_for env t aid b" if "(aid, b) \<in> set (er_calls s)" for aid b
    using that ok by (force simp: gate_ok_def used_for_def t k)
  moreover have "used_for env t k a" using d by (simp add: used_for_def t k)
  moreover have "minted env (er_tick t) aid" if "minted env (er_tick s) aid" for aid
    using that tick by (rule minted_mono)
  ultimately show ?thesis
    using ok new m i by (auto simp: gate_ok_def t k intro: issued_by_mono split: if_splits)
qed

lemma ev_effect_gate_ok:
  assumes inj: "inj (\<lambda>n. hex_of (fresh_uuid (ee_env env) n))" and ok: "gate_ok env cs s"
  shows "gate_ok env (cs @ [c]) (ev_effect env c s)"
proof -
  let ?t = "ev_effect env c s"
  have tick: "er_tick s \<le> er_tick ?t" using ev_effect_extends by (simp add: extends_def)
  note unchanged = gate_ok_unchanged [OF ok _ tick]
  show ?thesis
  proof (cases c)
    case (Ev_authorize r d a ids p ttl)
    then show ?thesis
      using ev_authorize_gate [of s env r d a ids p ttl] unchanged
      by (fastforce intro: gate_ok_authorize [OF inj ok] simp: issued_by_def)
  next
    case (Ev_execute r au a tool ex ids)
    then show ?thesis
      using ev_execute_gate [of s env r au a tool ex ids] unchanged tick
      by (fastforce intro: gate_ok_execute [OF ok])
  qed (use unchanged in \<open>simp_all add: confinedD ev_ingest_gate ev_admissible_gate ev_verify_outcome_gate\<close>)
qed

lemma ev_run_gate_ok:
  assumes inj: "inj (\<lambda>n. hex_of (fresh_uuid (ee_env env) n))"
  shows "gate_ok env cs (ev_run env cs empty_runtime)"
proof (induction cs rule: rev_induct)
  case Nil
  then show ?case by (simp add: ev_run_def gate_ok_def empty_runtime_def)
next
  case (snoc c cs)
  then show ?case using ev_effect_gate_ok [OF inj] by (simp add: ev_run_def)
qed

section \<open>The head of the ledger commits to it\<close>

text \<open>The text that is hashed for an event.\<close>

definition hashed_text :: "ev_env \<Rightarrow> ledger_event \<Rightarrow> json_text" where
  "hashed_text env e = json_dumps (PDict
     [(''sequence'', PInt (lv_sequence e)), (''event_type'', PStr (lv_event_type e)), (''run_id'', PStr (lv_run_id e)),
      (''payload'', PDict (lv_payload e)), (''timestamp'', PStr (ee_iso env (lv_timestamp e))),
      (''previous_digest'', PStr (lv_previous_digest e))])"

lemma ledger_verify_digest: "ledger_verify_from env n p (es @ [e]) \<Longrightarrow> ee_sha256 env (hashed_text env e) = lv_event_digest e"
  unfolding ledger_verify_snoc event_digest_of_def canonical_digest_def hashed_text_def by blast

definition same_content :: "ledger_event \<Rightarrow> ledger_event \<Rightarrow> bool" where
  "same_content a b \<longleftrightarrow> lv_sequence a = lv_sequence b \<and> lv_event_type a = lv_event_type b \<and> lv_run_id a = lv_run_id b
     \<and> json_canon (PDict (lv_payload a)) = json_canon (PDict (lv_payload b)) \<and> lv_timestamp a = lv_timestamp b
     \<and> lv_previous_digest a = lv_previous_digest b \<and> lv_event_digest a = lv_event_digest b"

lemma hashed_text_eq:
  assumes "inj (ee_iso env)" and "hashed_text env e = hashed_text env f"
  shows "lv_sequence e = lv_sequence f \<and> lv_event_type e = lv_event_type f \<and> lv_run_id e = lv_run_id f
    \<and> json_canon (PDict (lv_payload e)) = json_canon (PDict (lv_payload f)) \<and> lv_timestamp e = lv_timestamp f
    \<and> lv_previous_digest e = lv_previous_digest f"
  using assms by (simp add: hashed_text_def json_dumps_def inj_eq)

lemma ledger_head_commits:
  assumes "inj (ee_iso env)" and "inj_on (ee_sha256 env) (hashed_text env ` (set es \<union> set fs))"
    and "ledger_verify env es" and "ledger_verify env fs" and "es \<noteq> []" and "fs \<noteq> []"
    and "last_digest es = last_digest fs"
  shows "list_all2 same_content es fs"
  using assms(2-)
proof (induction es arbitrary: fs rule: rev_induct)
  case (snoc e es)
  then obtain fs' f where fs: "fs = fs' @ [f]" by (metis rev_exhaust)
  have "lv_event_digest e = lv_event_digest f" using snoc.prems(6) by (simp add: last_digest_def fs)
  then have "ee_sha256 env (hashed_text env e) = ee_sha256 env (hashed_text env f)"
    using ledger_verify_digest snoc.prems(2,3) unfolding fs ledger_verify_def by metis
  then have "hashed_text env e = hashed_text env f"
    by (rule inj_onD [OF snoc.prems(1)]) (auto simp: fs)
  note eq = hashed_text_eq [OF assms(1) this]
  have len: "length es = length fs'"
    using eq snoc.prems by (simp add: fs ledger_verify_def ledger_verify_snoc)
  have "same_content e f" using eq snoc.prems(6) by (simp add: fs same_content_def last_digest_def)
  moreover have "list_all2 same_content es fs'"
  proof (cases "es = []")
    case True
    with len show ?thesis by simp
  next
    case False
    moreover from this len have "fs' \<noteq> []" by auto
    moreover have "inj_on (ee_sha256 env) (hashed_text env ` (set es \<union> set fs'))"
      by (rule inj_on_subset [OF snoc.prems(1)]) (auto simp: fs)
    ultimately show ?thesis
      using snoc.prems eq
      by (intro snoc.IH) (auto simp: fs ledger_verify_def ledger_verify_snoc last_digest_def)
  qed
  ultimately show ?case by (simp add: fs list_all2_appendI)
qed simp

section \<open>The properties\<close>

text \<open>
  C25. Whatever sequence of calls the evidence runtime receives, it calls an executor at most once under an
  authorization; each such call is for the action whose digest the authorization carries, and the
  authorization was issued for a decision record that its caller presented and that allowed this action and its
  evidence. UUIDs are assumed not to repeat.
\<close>

theorem authorization_is_single_use:
  assumes "inj (\<lambda>n. hex_of (fresh_uuid (ee_env env) n))"
  shows "distinct (map fst (er_calls (ev_run env cs empty_runtime)))
    \<and> (\<forall>(aid, action)\<in>set (er_calls (ev_run env cs empty_runtime)).
         \<exists>x. map_of (er_authorizations (ev_run env cs empty_runtime)) aid = Some x \<and> su_consumed x
           \<and> su_action_digest x = canonical_digest env (PDict action)
           \<and> (\<exists>r d a ids p ttl. Ev_authorize r d a ids p ttl \<in> set cs \<and> dc_allowed d
                \<and> dc_action_digest d = su_action_digest x \<and> dc_evidence_digest d = su_evidence_digest x))"
  using ev_run_gate_ok [OF assms, of cs]
  by (fastforce simp: gate_ok_def used_for_def issued_by_def)

text \<open>
  After any calls the ledger verifies, and it extends the ledger before them. A ledger that verifies,
  ends in the same digest and shares no hash collision with it has the same events, up to the order of the
  keys in their payloads: its head commits to the whole history.
\<close>

theorem evidence_ledger_commits:
  assumes "inj (ee_iso env)" and "ledger_verify env other" and "other \<noteq> []"
  shows "ledger_verify env (er_ledger (ev_run env cs empty_runtime))
    \<and> (\<exists>es. er_ledger (ev_run env (cs @ ds) empty_runtime) = er_ledger (ev_run env cs empty_runtime) @ es)
    \<and> (er_ledger (ev_run env cs empty_runtime) \<noteq> [] \<and> last_digest other = last_digest (er_ledger (ev_run env cs empty_runtime))
       \<and> inj_on (ee_sha256 env) (hashed_text env ` (set other \<union> set (er_ledger (ev_run env cs empty_runtime))))
         \<longrightarrow> list_all2 same_content other (er_ledger (ev_run env cs empty_runtime)))"
proof -
  have v: "ledger_verify env (er_ledger (ev_run env cs empty_runtime))"
    using ev_run_extends [of env empty_runtime cs] by (simp add: extends_def empty_runtime_def ledger_verify_def)
  moreover have "ev_run env (cs @ ds) empty_runtime = ev_run env ds (ev_run env cs empty_runtime)"
    by (simp add: ev_run_def)
  ultimately show ?thesis
    using ledger_head_commits [OF assms(1) _ assms(2) v assms(3)] ev_run_extends [of env "ev_run env cs empty_runtime" ds]
    by (auto simp: extends_def)
qed

section \<open>Examples\<close>

definition demo_ev_env :: ev_env where
  "demo_ev_env = \<lparr>ee_env = \<lparr>clock = int, fresh_uuid = (\<lambda>n. replicate n (CHR ''a''))\<rparr>,
     ee_sha256 = (\<lambda>j. case j of JsonText (PStr s) \<Rightarrow> s | _ \<Rightarrow> ''d''), ee_iso = (\<lambda>t. replicate (nat t) (CHR ''1''))\<rparr>"

definition demo_action :: pydict where
  "demo_action = [(''op'', PStr ''post'')]"

definition demo_decision :: admissibility_decision where
  "demo_decision = \<lparr>dc_allowed = True, dc_decision_id = ''DEC-x'', dc_action_digest = ''d'', dc_evidence_digest = ''d'',
     dc_policy_digest = ''d'', dc_reason_codes = []\<rparr>"

definition demo_authorization :: single_use_authorization where
  "demo_authorization = \<lparr>su_authorization_id = ''AUTH-a'', su_run_id = ''r'', su_action_digest = ''d'',
     su_evidence_digest = ''d'', su_policy_digest = ''d'', su_issued_at = 0, su_expires_at = 60000000, su_consumed = False\<rparr>"

definition demo_ev_calls :: "ev_call list" where
  "demo_ev_calls = [Ev_authorize ''r'' demo_decision demo_action [] [] 60,
     Ev_execute ''r'' demo_authorization demo_action ''t'' (\<lambda>a. Inr (PDict a)) [],
     Ev_execute ''r'' demo_authorization demo_action ''t'' (\<lambda>a. Inr (PDict a)) []]"

lemma demo_uuids_inj: "inj (\<lambda>n. hex_of (fresh_uuid (ee_env demo_ev_env) n))"
proof -
  have "hex_of (replicate n (CHR ''a'')) = replicate n (CHR ''a'')" for n
    by (simp add: hex_of_def)
  then show ?thesis by (simp add: demo_ev_env_def inj_def)
qed

lemma demo_calls_once: "er_calls (ev_run demo_ev_env demo_ev_calls empty_runtime) = [(''AUTH-a'', demo_action)]"
  by code_simp

theorem authorization_is_single_use_witness:
  "distinct (map fst (er_calls (ev_run demo_ev_env demo_ev_calls empty_runtime)))
   \<and> er_calls (ev_run demo_ev_env demo_ev_calls empty_runtime) = [(''AUTH-a'', demo_action)]"
  using authorization_is_single_use [OF demo_uuids_inj, of demo_ev_calls] demo_calls_once by blast

end
