(* ===== verification/Source_Stores.thy ===== *)
theory Source_Stores
  imports Autonomy_Operations
begin

text \<open>
  The stores of \<^verbatim>\<open>ois/infrastructure/source_gateway\<close>: \<^verbatim>\<open>idempotency.py\<close> (SQLite and PostgreSQL), \<^verbatim>\<open>cursors.py\<close>,
  \<^verbatim>\<open>evidence.py\<close>, the atomic ledgers \<^verbatim>\<open>ledger.py\<close> (SQLite) and \<^verbatim>\<open>postgres.py\<close>, and \<^verbatim>\<open>events.py\<close>. A table is its rows
  in insertion order, a method is one transaction. SHA-256 of a canonical text, \<open>uuid5\<close> and the ISO codec are
  arguments. The contract of an idempotency store is the locale \<open>claim_store\<close>.
\<close>

section \<open>Idempotency\<close>

type_synonym claim_key = "string \<times> string \<times> string"

record idempotency_record =
  ir_key :: claim_key
  ir_event_id :: string
  ir_created_at :: timestamp

text \<open>SQLite: the key, the event and the ISO text of the time.\<close>

type_synonym lite_claims = "(claim_key \<times> string \<times> string) list"

definition lite_claim :: "source_codec \<Rightarrow> timestamp \<Rightarrow> claim_key \<Rightarrow> string \<Rightarrow> lite_claims \<Rightarrow> bool \<times> lite_claims" where
  "lite_claim sc now k eid t =
     (if map_of t k \<noteq> None then (False, t) else (True, t @ [(k, eid, sc_iso sc now)]))"

definition lite_claim_get :: "source_codec \<Rightarrow> claim_key \<Rightarrow> lite_claims \<Rightarrow> py_exn + idempotency_record option" where
  "lite_claim_get sc k t =
     (case map_of t k of
        None \<Rightarrow> Inr None
      | Some (eid, created) \<Rightarrow>
         (case sc_fromiso sc created of
            None \<Rightarrow> Inl (Exn ValueError ''Invalid isoformat string'')
          | Some ts \<Rightarrow> Inr (Some \<lparr>ir_key = k, ir_event_id = eid, ir_created_at = ts\<rparr>)))"

text \<open>\<open>DELETE ... WHERE key = ? AND event_id = ?\<close>; \<open>rowcount\<close> is the number of rows it removed.\<close>

definition delete_claim :: "claim_key \<Rightarrow> string \<Rightarrow> (claim_key \<times> string \<times> 'a) list \<Rightarrow> (claim_key \<times> string \<times> 'a) list" where
  "delete_claim k eid t = filter (\<lambda>(k', e, _). \<not> (k' = k \<and> e = eid)) t"

definition lite_release :: "claim_key \<Rightarrow> string \<Rightarrow> lite_claims \<Rightarrow> bool \<times> lite_claims" where
  "lite_release k eid t =
     (let t' = delete_claim k eid t in (length t - length t' = 1, t'))"

text \<open>PostgreSQL: \<open>created_at\<close> is the default of the column, the time of the transaction.\<close>

type_synonym pg_claims = "(claim_key \<times> string \<times> timestamp) list"

definition pg_claim :: "timestamp \<Rightarrow> claim_key \<Rightarrow> string \<Rightarrow> pg_claims \<Rightarrow> bool \<times> pg_claims" where
  "pg_claim now k eid t =
     (if list_ex (\<lambda>(k', _). k' = k) t then (False, t) else (True, t @ [(k, eid, now)]))"

definition pg_claim_get :: "claim_key \<Rightarrow> pg_claims \<Rightarrow> idempotency_record option" where
  "pg_claim_get k t = map_option (\<lambda>(eid, ts). \<lparr>ir_key = k, ir_event_id = eid, ir_created_at = ts\<rparr>) (map_of t k)"

definition pg_release :: "claim_key \<Rightarrow> string \<Rightarrow> pg_claims \<Rightarrow> bool \<times> pg_claims" where
  "pg_release k eid t =
     (let t' = delete_claim k eid t in (length t - length t' = 1, t'))"

subsection \<open>The contract\<close>

text \<open>
  Who owns a key, and what \<open>claim\<close> and \<open>release\<close> promise about it. The keys of a table are distinct (the
  primary key).
\<close>

locale claim_store =
  fixes invar :: "'t \<Rightarrow> bool"
    and owner :: "'t \<Rightarrow> claim_key \<Rightarrow> string option"
    and claim :: "timestamp \<Rightarrow> claim_key \<Rightarrow> string \<Rightarrow> 't \<Rightarrow> bool \<times> 't"
    and release :: "claim_key \<Rightarrow> string \<Rightarrow> 't \<Rightarrow> bool \<times> 't"
  assumes claim_won: "invar t \<Longrightarrow> fst (claim now k e t) \<longleftrightarrow> owner t k = None"
    and claim_owner: "invar t \<Longrightarrow> owner (snd (claim now k e t)) = (if owner t k = None then (owner t)(k \<mapsto> e) else owner t)"
    and claim_invar: "invar t \<Longrightarrow> invar (snd (claim now k e t))"
    and release_done: "invar t \<Longrightarrow> fst (release k e t) \<longleftrightarrow> owner t k = Some e"
    and release_owner: "invar t \<Longrightarrow> owner (snd (release k e t)) = (if owner t k = Some e then (owner t)(k := None) else owner t)"
    and release_invar: "invar t \<Longrightarrow> invar (snd (release k e t))"
begin

text \<open>A claim that was won is answered by its owner until it is released, and released once.\<close>

lemma claimed_again: "invar t \<Longrightarrow> fst (claim now k e t) \<Longrightarrow> \<not> fst (claim now' k e' (snd (claim now k e t)))"
  by (simp add: claim_won claim_owner claim_invar)

lemma released_once: "invar t \<Longrightarrow> \<not> fst (release k e (snd (release k e t)))"
  by (simp add: release_done release_owner release_invar)

lemma release_undoes_claim: "invar t \<Longrightarrow> fst (claim now k e t) \<Longrightarrow> owner (snd (release k e (snd (claim now k e t)))) = owner t"
  by (auto simp: claim_won claim_owner claim_invar release_owner fun_eq_iff)

lemma other_keys_kept:
  "invar t \<Longrightarrow> k' \<noteq> k \<Longrightarrow> owner (snd (claim now k e t)) k' = owner t k' \<and> owner (snd (release k e t)) k' = owner t k'"
  by (simp add: claim_owner release_owner)

end

definition claim_owner_of :: "(claim_key \<times> string \<times> 'a) list \<Rightarrow> claim_key \<Rightarrow> string option" where
  "claim_owner_of t k = map_option fst (map_of t k)"

abbreviation distinct_keys :: "('k \<times> 'v) list \<Rightarrow> bool" where
  "distinct_keys t \<equiv> distinct (map fst t)"

lemma claim_owner_of_append:
  "claim_owner_of t k = None \<Longrightarrow> claim_owner_of (t @ [(k, e, x)]) = (claim_owner_of t)(k \<mapsto> e)"
  by (auto simp: claim_owner_of_def fun_eq_iff map_add_def split: option.splits)

lemma claim_owner_of_Cons: "claim_owner_of ((k, e, x) # t) = (claim_owner_of t)(k \<mapsto> e)"
  by (simp add: claim_owner_of_def fun_eq_iff)

lemma claim_owner_of_None: "claim_owner_of t k = None \<longleftrightarrow> k \<notin> fst ` set t"
  by (simp add: claim_owner_of_def map_of_eq_None_iff)

lemma delete_claim_distinct: "distinct_keys t \<Longrightarrow> distinct_keys (delete_claim k e t)"
  by (auto simp: delete_claim_def intro: distinct_map_filter)

lemma delete_claim_absent: "k \<notin> fst ` set t \<Longrightarrow> delete_claim k e t = t"
  by (force simp: delete_claim_def filter_id_conv)

lemma delete_claim_Cons:
  "delete_claim k e ((k1, e1, c) # t) = (if k1 = k \<and> e1 = e then delete_claim k e t else (k1, e1, c) # delete_claim k e t)"
  by (simp add: delete_claim_def)

lemma delete_claim_owner:
  "distinct_keys t \<Longrightarrow> claim_owner_of (delete_claim k e t)
     = (if claim_owner_of t k = Some e then (claim_owner_of t)(k := None) else claim_owner_of t)"
proof (induction t)
  case (Cons x t)
  obtain k1 e1 c1 where x: "x = (k1, e1, c1)" by (cases x) auto
  have "delete_claim k1 e t = t" and "claim_owner_of t k1 = None"
    using Cons.prems by (simp_all add: x delete_claim_absent claim_owner_of_None)
  then show ?case
    using Cons.IH Cons.prems
    by (cases "k1 = k") (auto simp: x delete_claim_Cons claim_owner_of_Cons fun_upd_idem)
qed (simp add: delete_claim_def claim_owner_of_def)

lemma delete_claim_count:
  "distinct_keys t \<Longrightarrow> length t - length (delete_claim k e t) = (if claim_owner_of t k = Some e then 1 else 0)"
proof (induction t)
  case (Cons x t)
  obtain k1 e1 c1 where x: "x = (k1, e1, c1)" by (cases x) auto
  have "length (delete_claim k e t) \<le> length t" by (simp add: delete_claim_def)
  moreover have "delete_claim k1 e t = t" using Cons.prems by (simp add: x delete_claim_absent)
  ultimately show ?case
    using Cons.IH Cons.prems
    by (cases "k1 = k") (auto simp: x delete_claim_Cons claim_owner_of_def Suc_diff_le)
qed (simp add: delete_claim_def claim_owner_of_def)

lemmas claim_laws = delete_claim_distinct delete_claim_owner delete_claim_count claim_owner_of_append

lemma map_of_None_owner: "map_of t k = None \<longleftrightarrow> claim_owner_of t k = None"
  by (simp add: claim_owner_of_def)

lemma list_ex_owner: "list_ex (\<lambda>(k', _). k' = k) t \<longleftrightarrow> claim_owner_of t k \<noteq> None"
  by (force simp: claim_owner_of_None list_ex_iff)

interpretation lite: claim_store distinct_keys claim_owner_of "lite_claim sc" lite_release for sc
  by unfold_locales
     (simp_all add: lite_claim_def lite_release_def Let_def claim_laws map_of_None_owner claim_owner_of_None)

interpretation pg: claim_store distinct_keys claim_owner_of pg_claim pg_release
  by unfold_locales
     (simp_all add: pg_claim_def pg_release_def Let_def claim_laws list_ex_owner claim_owner_of_None [symmetric])

section \<open>Cursors\<close>

record source_cursor =
  cu_key :: "string \<times> string \<times> string"
  cu_cursor :: string
  cu_updated_at :: timestamp
  cu_version :: int

type_synonym cursor_table = "((string \<times> string \<times> string) \<times> string \<times> int \<times> string) list"

definition cursor_get :: "source_codec \<Rightarrow> string \<times> string \<times> string \<Rightarrow> cursor_table \<Rightarrow> py_exn + source_cursor option" where
  "cursor_get sc k t =
     (case map_of t k of
        None \<Rightarrow> Inr None
      | Some (c, v, at_text) \<Rightarrow>
         (case sc_fromiso sc at_text of
            None \<Rightarrow> Inl (Exn ValueError ''Invalid isoformat string'')
          | Some ts \<Rightarrow> Inr (Some \<lparr>cu_key = k, cu_cursor = c, cu_updated_at = ts, cu_version = v\<rparr>)))"

definition cursor_advance ::
  "source_codec \<Rightarrow> timestamp \<Rightarrow> string \<times> string \<times> string \<Rightarrow> string \<Rightarrow> int option \<Rightarrow> cursor_table
   \<Rightarrow> py_exn + source_cursor \<times> cursor_table" where
  "cursor_advance sc now k c expected t =
     rbind (cursor_get sc k t) (\<lambda>current.
     if (case expected of None \<Rightarrow> False
         | Some v \<Rightarrow> (case current of None \<Rightarrow> True | Some cur \<Rightarrow> cu_version cur \<noteq> v))
     then Inl (Exn ValueError ''source cursor version conflict'')
     else let version = (case current of None \<Rightarrow> 1 | Some cur \<Rightarrow> cu_version cur + 1)
          in Inr (\<lparr>cu_key = k, cu_cursor = c, cu_updated_at = now, cu_version = version\<rparr>,
                  AList.update k (c, version, sc_iso sc now) t))"

section \<open>Raw evidence\<close>

record raw_evidence =
  rv_evidence_id :: string
  rv_tenant_id :: string
  rv_workspace_id :: string
  rv_source_id :: string
  rv_source_record_id :: string
  rv_payload :: pyval
  rv_payload_hash :: string
  rv_collected_at :: timestamp
  rv_connector_version :: string
  rv_schema_version :: string
  rv_ingestion_run_id :: string

record raw_row =
  rr_evidence_id :: string
  rr_tenant_id :: string
  rr_workspace_id :: string
  rr_source_id :: string
  rr_source_record_id :: string
  rr_payload :: json_text
  rr_payload_hash :: string
  rr_collected_at :: string
  rr_connector_version :: string
  rr_schema_version :: string
  rr_ingestion_run_id :: string

type_synonym text_hash = "json_text \<Rightarrow> string"

definition canonical_hash :: "text_hash \<Rightarrow> pyval \<Rightarrow> string" where
  "canonical_hash h v = h (json_dumps v)"

definition raw_row_of :: "source_codec \<Rightarrow> raw_evidence \<Rightarrow> raw_row" where
  "raw_row_of sc e =
     \<lparr>rr_evidence_id = rv_evidence_id e, rr_tenant_id = rv_tenant_id e, rr_workspace_id = rv_workspace_id e,
      rr_source_id = rv_source_id e, rr_source_record_id = rv_source_record_id e, rr_payload = json_dumps (rv_payload e),
      rr_payload_hash = rv_payload_hash e, rr_collected_at = sc_iso sc (rv_collected_at e),
      rr_connector_version = rv_connector_version e, rr_schema_version = rv_schema_version e,
      rr_ingestion_run_id = rv_ingestion_run_id e\<rparr>"

text \<open>The primary key and the unique constraint of the table.\<close>

definition raw_conflict :: "raw_row \<Rightarrow> raw_row \<Rightarrow> bool" where
  "raw_conflict a b \<longleftrightarrow> rr_evidence_id a = rr_evidence_id b
     \<or> (rr_tenant_id a, rr_workspace_id a, rr_source_id a, rr_source_record_id a, rr_payload_hash a)
       = (rr_tenant_id b, rr_workspace_id b, rr_source_id b, rr_source_record_id b, rr_payload_hash b)"

definition raw_append :: "source_codec \<Rightarrow> text_hash \<Rightarrow> raw_evidence \<Rightarrow> raw_row list \<Rightarrow> (py_exn + bool) \<times> raw_row list" where
  "raw_append sc h e t =
     (if canonical_hash h (rv_payload e) \<noteq> rv_payload_hash e
      then (Inl (Exn ValueError ''payload_hash does not match canonical payload''), t)
      else if list_ex (raw_conflict (raw_row_of sc e)) t then (Inr False, t)
      else (Inr True, t @ [raw_row_of sc e]))"

definition raw_of_row :: "source_codec \<Rightarrow> raw_row \<Rightarrow> py_exn + raw_evidence" where
  "raw_of_row sc r =
     (case sc_fromiso sc (rr_collected_at r) of
        None \<Rightarrow> Inl (Exn ValueError ''Invalid isoformat string'')
      | Some ts \<Rightarrow>
         Inr \<lparr>rv_evidence_id = rr_evidence_id r, rv_tenant_id = rr_tenant_id r, rv_workspace_id = rr_workspace_id r,
              rv_source_id = rr_source_id r, rv_source_record_id = rr_source_record_id r,
              rv_payload = json_loads (rr_payload r), rv_payload_hash = rr_payload_hash r, rv_collected_at = ts,
              rv_connector_version = rr_connector_version r, rv_schema_version = rr_schema_version r,
              rv_ingestion_run_id = rr_ingestion_run_id r\<rparr>)"

definition raw_get :: "source_codec \<Rightarrow> string \<Rightarrow> raw_row list \<Rightarrow> py_exn + raw_evidence option" where
  "raw_get sc eid t =
     (case List.find (\<lambda>r. rr_evidence_id r = eid) t of
        None \<Rightarrow> Inr None
      | Some r \<Rightarrow> rbind (raw_of_row sc r) (\<lambda>e. Inr (Some e)))"

section \<open>The SQLite ledger\<close>

record lite_ledger =
  ll_evidence :: "raw_row list"
  ll_outbox :: "source_row list"

definition lite_commit_ingest ::
  "source_codec \<Rightarrow> text_hash \<Rightarrow> raw_evidence \<Rightarrow> source_event \<Rightarrow> lite_ledger \<Rightarrow> (py_exn + bool) \<times> lite_ledger" where
  "lite_commit_ingest sc h e ev db =
     (if canonical_hash h (rv_payload e) \<noteq> rv_payload_hash e
      then (Inl (Exn ValueError ''payload_hash does not match canonical payload''), db)
      else if rv_tenant_id e \<noteq> sv_tenant_id ev \<or> rv_workspace_id e \<noteq> sv_workspace_id ev
      then (Inl (Exn PermissionError ''evidence and outbox event scopes differ''), db)
      else if list_ex (raw_conflict (raw_row_of sc e)) (ll_evidence db) then (Inr False, db)
      else (case source_append sc ev (ll_outbox db) of
              (False, _) \<Rightarrow> (Inr False, db)
            | (True, rows) \<Rightarrow> (Inr True, db\<lparr>ll_evidence := ll_evidence db @ [raw_row_of sc e], ll_outbox := rows\<rparr>)))"

definition lite_ledger_pending :: "source_codec \<Rightarrow> int \<Rightarrow> lite_ledger \<Rightarrow> py_exn + source_event list" where
  "lite_ledger_pending sc limit db = source_pending sc limit (ll_outbox db)"

definition lite_ledger_publish :: "string \<Rightarrow> string \<Rightarrow> lite_ledger \<Rightarrow> lite_ledger" where
  "lite_ledger_publish now_text eid db = db\<lparr>ll_outbox := mark_published now_text eid (ll_outbox db)\<rparr>"

definition lite_ledger_evidence :: "source_codec \<Rightarrow> string \<Rightarrow> lite_ledger \<Rightarrow> py_exn + raw_evidence option" where
  "lite_ledger_evidence sc eid db = raw_get sc eid (ll_evidence db)"

section \<open>The PostgreSQL ledger\<close>

text \<open>\<open>jb\<close> is what a \<open>jsonb\<close> column gives back of a value; it may refuse a text.\<close>

record publication =
  pb_publication_id :: string
  pb_event_id :: string
  pb_destination :: string
  pb_idempotency_key :: string
  pb_status :: string
  pb_attempts :: int
  pb_last_error :: "string option"
  pb_created_at :: timestamp
  pb_updated_at :: timestamp
  pb_published_at :: "timestamp option"

record pg_ledger =
  pl_evidence :: "raw_evidence list"
  pl_outbox :: "(source_event \<times> timestamp option) list"
  pl_publications :: "publication list"

definition same_observation :: "raw_evidence \<Rightarrow> raw_evidence \<Rightarrow> bool" where
  "same_observation a b \<longleftrightarrow>
     (rv_tenant_id a, rv_workspace_id a, rv_source_id a, rv_source_record_id a, rv_payload_hash a)
     = (rv_tenant_id b, rv_workspace_id b, rv_source_id b, rv_source_record_id b, rv_payload_hash b)"

definition pg_outbox_insert ::
  "(pyval \<Rightarrow> py_exn + pyval) \<Rightarrow> source_event \<Rightarrow> (source_event \<times> timestamp option) list
   \<Rightarrow> py_exn + (source_event \<times> timestamp option) list" where
  "pg_outbox_insert jb ev t =
     rbind (jb (PDict (sv_payload ev))) (\<lambda>stored.
     Inr (if list_ex (\<lambda>(o', _). sv_event_id o' = sv_event_id ev) t then t
          else t @ [(ev\<lparr>sv_payload := (case stored of PDict d \<Rightarrow> d | _ \<Rightarrow> [])\<rparr>, None)]))"

definition pg_commit_rows ::
  "(pyval \<Rightarrow> py_exn + pyval) \<Rightarrow> raw_evidence \<Rightarrow> source_event \<Rightarrow> pg_ledger \<Rightarrow> py_exn + pg_ledger" where
  "pg_commit_rows jb e ev db =
     rbind (jb (rv_payload e)) (\<lambda>stored.
     if \<not> list_ex (\<lambda>r. rv_evidence_id r = rv_evidence_id e \<or> same_observation r e) (pl_evidence db)
     then rbind (pg_outbox_insert jb ev (pl_outbox db)) (\<lambda>rows.
       Inr (db\<lparr>pl_evidence := pl_evidence db @ [e\<lparr>rv_payload := stored\<rparr>], pl_outbox := rows\<rparr>))
     else (case List.find (\<lambda>r. same_observation r e) (pl_evidence db) of
             None \<Rightarrow> Inl (Exn RuntimeError ''duplicate evidence was reported but could not be located'')
           | Some old \<Rightarrow>
              rbind (pg_outbox_insert jb
                       (ev\<lparr>sv_aggregate_id := rv_evidence_id old,
                           sv_payload := AList.update ''evidence_id'' (PStr (rv_evidence_id old)) (sv_payload ev)\<rparr>)
                       (pl_outbox db)) (\<lambda>rows. Inr (db\<lparr>pl_outbox := rows\<rparr>))))"

definition pg_commit_ingest ::
  "(pyval \<Rightarrow> py_exn + pyval) \<Rightarrow> text_hash \<Rightarrow> raw_evidence \<Rightarrow> source_event \<Rightarrow> pg_ledger \<Rightarrow> (py_exn + bool) \<times> pg_ledger" where
  "pg_commit_ingest jb h e ev db =
     (if canonical_hash h (rv_payload e) \<noteq> rv_payload_hash e
      then (Inl (Exn ValueError ''payload_hash does not match canonical payload''), db)
      else if rv_tenant_id e \<noteq> sv_tenant_id ev \<or> rv_workspace_id e \<noteq> sv_workspace_id ev \<or> sv_aggregate_id ev \<noteq> rv_evidence_id e
      then (Inl (Exn PermissionError ''evidence and outbox event scopes/aggregate differ''), db)
      else (case pg_commit_rows jb e ev db of
              Inl x \<Rightarrow> (Inl x, db)
            | Inr db' \<Rightarrow> (Inr True, db')))"

definition pg_ledger_pending :: "int \<Rightarrow> pg_ledger \<Rightarrow> py_exn + source_event list" where
  "pg_ledger_pending limit db =
     (if limit < 0 then Inl (Exn (OtherException ''InvalidRowCountInLimitClause'') ''LIMIT must not be negative'')
      else Inr (take (nat limit) (sort_key sv_created_at (sort_key sv_event_id
                 (map fst (filter (\<lambda>(_, p). p = None) (pl_outbox db)))))))"

definition pg_ledger_publish :: "timestamp \<Rightarrow> string \<Rightarrow> pg_ledger \<Rightarrow> pg_ledger" where
  "pg_ledger_publish now eid db =
     db\<lparr>pl_outbox := map (\<lambda>(ev, p). (ev, if sv_event_id ev = eid then (case p of None \<Rightarrow> Some now | Some x \<Rightarrow> Some x) else p))
                       (pl_outbox db)\<rparr>"

definition pg_ledger_evidence ::
  "text_hash \<Rightarrow> string \<Rightarrow> string \<Rightarrow> string \<Rightarrow> pg_ledger \<Rightarrow> py_exn + raw_evidence option" where
  "pg_ledger_evidence h eid tenant workspace db =
     (case List.find (\<lambda>r. rv_evidence_id r = eid \<and> rv_tenant_id r = tenant \<and> rv_workspace_id r = workspace) (pl_evidence db) of
        None \<Rightarrow> Inr None
      | Some e \<Rightarrow> if canonical_hash h (rv_payload e) \<noteq> rv_payload_hash e
                  then Inl (Exn ValueError ''stored raw evidence failed hash verification'') else Inr (Some e))"

definition record_publication ::
  "timestamp \<Rightarrow> string \<Rightarrow> string \<Rightarrow> string \<Rightarrow> string \<Rightarrow> pg_ledger \<Rightarrow> (py_exn + bool) \<times> pg_ledger" where
  "record_publication now pid eid destination key db =
     (if list_ex (\<lambda>p. pb_destination p = destination \<and> pb_idempotency_key p = key) (pl_publications db) then (Inr False, db)
      else if list_ex (\<lambda>p. pb_publication_id p = pid) (pl_publications db)
      then (Inl (Exn (OtherException ''UniqueViolation'') ''duplicate key value violates unique constraint''), db)
      else (Inr True, db\<lparr>pl_publications := pl_publications db @
                [\<lparr>pb_publication_id = pid, pb_event_id = eid, pb_destination = destination, pb_idempotency_key = key,
                  pb_status = ''pending'', pb_attempts = 0, pb_last_error = None, pb_created_at = now,
                  pb_updated_at = now, pb_published_at = None\<rparr>]\<rparr>))"

definition record_publication_attempt ::
  "timestamp \<Rightarrow> string \<Rightarrow> string \<Rightarrow> bool \<Rightarrow> string option \<Rightarrow> pg_ledger \<Rightarrow> pg_ledger" where
  "record_publication_attempt now destination key success error db =
     db\<lparr>pl_publications := map (\<lambda>p. if pb_destination p = destination \<and> pb_idempotency_key p = key
         then p\<lparr>pb_attempts := pb_attempts p + 1, pb_status := (if success then ''published'' else ''failed''),
                pb_last_error := error, pb_updated_at := now,
                pb_published_at := (if success then Some now else pb_published_at p)\<rparr>
         else p) (pl_publications db)\<rparr>"

definition publication_of :: "string \<Rightarrow> string \<Rightarrow> pg_ledger \<Rightarrow> publication option" where
  "publication_of destination key db =
     List.find (\<lambda>p. pb_destination p = destination \<and> pb_idempotency_key p = key) (pl_publications db)"

end
