(* ===== verification/Source_Auth.thy ===== *)
theory Source_Auth
  imports OIS_Prelude
begin

text \<open>
  Credentials and authentication of source requests: \<^verbatim>\<open>credentials.py\<close>, \<^verbatim>\<open>auth.py\<close>, \<^verbatim>\<open>manager.py\<close> and \<^verbatim>\<open>contracts.py\<close> of
  \<^verbatim>\<open>ois/infrastructure/source_gateway\<close>. A resolver is a protocol, so it is an argument of the manager; the
  in-memory one is defined here. The request signer (HMAC) and the client-id header (Base64) are arguments of
  \<open>auth_apply\<close>; the other schemes are defined. Times are microseconds and carry a zone.
\<close>

section \<open>Credentials\<close>

record tenant_scope =
  ts_tenant_id :: string
  ts_workspace_id :: string

definition assert_matches :: "tenant_scope \<Rightarrow> string \<Rightarrow> string \<Rightarrow> py_exn + unit" where
  "assert_matches s tenant workspace =
     check (ts_tenant_id s = tenant \<and> ts_workspace_id s = workspace) PermissionError
       ''source request is outside its tenant/workspace scope''"

record credential_ref =
  cd_credential_id :: string
  cd_tenant_id :: string
  cd_provider :: string
  cd_scopes :: "string list"
  cd_expires_at :: "timestamp option"

type_synonym credential_resolver = "credential_ref \<Rightarrow> tenant_scope \<Rightarrow> py_exn + string"

record memory_resolver =
  mr_credentials :: "(string \<times> string) list"
  mr_owners :: "(string \<times> string) list"
  mr_strict :: bool

definition memory_resolve :: "memory_resolver \<Rightarrow> credential_resolver" where
  "memory_resolve m r s =
     (if cd_tenant_id r \<noteq> ts_tenant_id s then Inl (Exn PermissionError ''credential belongs to another tenant'')
      else case map_of (mr_owners m) (cd_credential_id r) of
        None \<Rightarrow>
          if mr_strict m then Inl (Exn PermissionError ''credential has no tenant owner'')
          else (case map_of (mr_credentials m) (cd_credential_id r) of
                  None \<Rightarrow> Inl (Exn KeyError (''credential not configured: '' @ cd_credential_id r))
                | Some v \<Rightarrow> Inr v)
      | Some ow \<Rightarrow>
          if ow \<noteq> ts_tenant_id s then Inl (Exn PermissionError ''credential belongs to another tenant'')
          else (case map_of (mr_credentials m) (cd_credential_id r) of
                  None \<Rightarrow> Inl (Exn KeyError (''credential not configured: '' @ cd_credential_id r))
                | Some v \<Rightarrow> Inr v))"

section \<open>Authentication schemes\<close>

datatype auth_scheme = AS_NONE | AS_API_KEY | AS_BEARER | AS_OAUTH2 | AS_HMAC

record auth_request =
  aq_method :: string
  aq_url :: string
  aq_headers :: "(string \<times> string) list"
  aq_body :: string

record credential_material =
  cm_secret :: string
  cm_client_id :: "string option"
  cm_token_type :: string

datatype authenticator =
    Api_key_auth string
  | Bearer_auth
  | Oauth2_auth
  | Hmac_auth string string string string
  | Basic_client_auth

type_synonym request_signer = "authenticator \<Rightarrow> auth_request \<Rightarrow> credential_material \<Rightarrow> auth_request"

definition set_header :: "string \<Rightarrow> string \<Rightarrow> auth_request \<Rightarrow> auth_request" where
  "set_header k v q = q\<lparr>aq_headers := AList.update k v (aq_headers q)\<rparr>"

fun auth_apply :: "request_signer \<Rightarrow> authenticator \<Rightarrow> auth_request \<Rightarrow> credential_material \<Rightarrow> py_exn + auth_request" where
  "auth_apply sign (Api_key_auth header) q c = Inr (set_header header (cm_secret c) q)"
| "auth_apply sign Bearer_auth q c = Inr (set_header ''Authorization'' (cm_token_type c @ '' '' @ cm_secret c) q)"
| "auth_apply sign Oauth2_auth q c = Inr (set_header ''Authorization'' (cm_token_type c @ '' '' @ cm_secret c) q)"
| "auth_apply sign (Hmac_auth sig ts alg prefix) q c =
     (if alg \<noteq> ''sha256'' then Inl (Exn ValueError (''unsupported HMAC algorithm: '' @ alg))
      else Inr (sign (Hmac_auth sig ts alg prefix) q c))"
| "auth_apply sign Basic_client_auth q c =
     (if cm_client_id c = None \<or> cm_client_id c = Some []
      then Inl (Exn ValueError ''OAuth client authentication requires client_id'')
      else Inr (sign Basic_client_auth q c))"

definition option_or :: "string \<Rightarrow> string \<Rightarrow> (string \<times> string) list \<Rightarrow> string" where
  "option_or k d opts = (case map_of opts k of None \<Rightarrow> d | Some v \<Rightarrow> v)"

fun authenticator_for :: "auth_scheme \<Rightarrow> (string \<times> string) list \<Rightarrow> py_exn + authenticator" where
  "authenticator_for AS_NONE opts = Inl (Exn ValueError ''none authentication does not require an authenticator'')"
| "authenticator_for AS_API_KEY opts = Inr (Api_key_auth (option_or ''header'' ''X-API-Key'' opts))"
| "authenticator_for AS_BEARER opts = Inr Bearer_auth"
| "authenticator_for AS_OAUTH2 opts = Inr Oauth2_auth"
| "authenticator_for AS_HMAC opts =
     Inr (Hmac_auth (option_or ''signature_header'' ''X-Signature'' opts) (option_or ''timestamp_header'' ''X-Timestamp'' opts)
            (option_or ''algorithm'' ''sha256'' opts) (option_or ''prefix'' [] opts))"

section \<open>The manager\<close>

record auth_policy =
  ap_scheme :: auth_scheme
  ap_options :: "(string \<times> string) list option"

definition auth_resolve ::
  "credential_resolver \<Rightarrow> timestamp \<Rightarrow> credential_ref \<Rightarrow> tenant_scope \<Rightarrow> string option \<Rightarrow> string \<Rightarrow> string list \<Rightarrow> string option
   \<Rightarrow> py_exn + credential_material" where
  "auth_resolve res now r s client_id token_type required expected_provider =
     (if cd_tenant_id r \<noteq> ts_tenant_id s then Inl (Exn PermissionError ''credential belongs to another tenant'')
      else if (case expected_provider of None \<Rightarrow> False | Some p \<Rightarrow> cd_provider r \<noteq> p)
      then Inl (Exn PermissionError ''credential belongs to another provider'')
      else if (case cd_expires_at r of None \<Rightarrow> False | Some t \<Rightarrow> now \<ge> t)
      then Inl (Exn PermissionError ''credential has expired'')
      else let missing = remdups (filter (\<lambda>x. x \<notin> set (cd_scopes r)) required)
           in if missing \<noteq> []
              then Inl (Exn PermissionError (''credential lacks required scopes: '' @ py_join '', '' (sort missing)))
              else rbind (res r s) (\<lambda>secret.
                if secret = [] then Inl (Exn PermissionError ''credential material is empty'')
                else Inr \<lparr>cm_secret = secret, cm_client_id = client_id, cm_token_type = token_type\<rparr>))"

definition auth_authenticate ::
  "credential_resolver \<Rightarrow> request_signer \<Rightarrow> timestamp \<Rightarrow> auth_request \<Rightarrow> credential_ref \<Rightarrow> tenant_scope \<Rightarrow> auth_policy
   \<Rightarrow> string option \<Rightarrow> string \<Rightarrow> authenticator option \<Rightarrow> py_exn + auth_request" where
  "auth_authenticate res sign now q r s p client_id token_type given =
     (if given = None \<and> ap_scheme p = AS_NONE then Inr q
      else if cd_tenant_id r \<noteq> ts_tenant_id s then Inl (Exn PermissionError ''credential belongs to another tenant'')
      else if cd_provider r = [] then Inl (Exn ValueError ''credential provider is required'')
      else rbind (auth_resolve res now r s client_id token_type [] None) (\<lambda>material.
        rbind (case given of Some a \<Rightarrow> Inr a
               | None \<Rightarrow> authenticator_for (ap_scheme p) (case ap_options p of None \<Rightarrow> [] | Some os \<Rightarrow> os)) (\<lambda>a.
        auth_apply sign a q material)))"

section \<open>Contracts\<close>

record freshness_policy =
  fr_max_age_seconds :: rat

definition mk_freshness_policy :: "rat \<Rightarrow> py_exn + freshness_policy" where
  "mk_freshness_policy age =
     (if age \<le> 0 then Inl (Exn ValueError ''max_age_seconds must be positive'') else Inr \<lparr>fr_max_age_seconds = age\<rparr>)"

record source_provenance =
  pv_provider :: string
  pv_endpoint :: string
  pv_operation :: string
  pv_request_id :: string
  pv_resource_id :: string
  pv_cursor :: "string option"
  pv_observed_at :: "timestamp option"
  pv_metadata :: "pydict option"

definition provenance_dict :: "(timestamp \<Rightarrow> string) \<Rightarrow> timestamp \<Rightarrow> source_provenance \<Rightarrow> pydict" where
  "provenance_dict fmt now p =
     [(''provider'', PStr (pv_provider p)), (''endpoint'', PStr (pv_endpoint p)), (''operation'', PStr (pv_operation p)),
      (''request_id'', PStr (pv_request_id p)), (''resource_id'', PStr (pv_resource_id p)),
      (''cursor'', case pv_cursor p of None \<Rightarrow> PNone | Some c \<Rightarrow> PStr c),
      (''observed_at'', PStr (fmt (case pv_observed_at p of None \<Rightarrow> now | Some t \<Rightarrow> t))),
      (''metadata'', PDict (case pv_metadata p of None \<Rightarrow> [] | Some m \<Rightarrow> m))]"

record source_spec =
  ss_source_id :: string
  ss_provider :: string
  ss_protocol :: string
  ss_version :: string
  ss_freshness :: "freshness_policy option"
  ss_capabilities :: "string list"
  ss_enabled :: bool

definition mk_source_spec :: "string \<Rightarrow> string \<Rightarrow> string \<Rightarrow> py_exn + source_spec" where
  "mk_source_spec sid provider protocol =
     (if sid = [] \<or> provider = [] \<or> protocol = []
      then Inl (Exn ValueError ''source_id, provider, and protocol are required'')
      else Inr \<lparr>ss_source_id = sid, ss_provider = provider, ss_protocol = protocol, ss_version = ''v1'', ss_freshness = None,
                ss_capabilities = [], ss_enabled = True\<rparr>)"

section \<open>Tenant isolation\<close>

text \<open>
  A request is authenticated with the secret of a credential of the tenant of its scope, unexpired; with
  strict ownership the tenant owns it.
\<close>

lemma auth_resolve_isolates:
  assumes "auth_resolve res now r s cid tt req prov = Inr m"
  shows "cd_tenant_id r = ts_tenant_id s \<and> res r s = Inr (cm_secret m) \<and> cm_secret m \<noteq> []
    \<and> set req \<subseteq> set (cd_scopes r) \<and> (\<forall>t. cd_expires_at r = Some t \<longrightarrow> now < t)"
  using assms
  by (auto simp: auth_resolve_def Let_def rbind_Inr not_le filter_empty_conv split: if_splits option.splits)

lemma memory_resolve_owned:
  assumes "memory_resolve m r s = Inr secret" and "mr_strict m"
  shows "map_of (mr_owners m) (cd_credential_id r) = Some (ts_tenant_id s) \<and> map_of (mr_credentials m) (cd_credential_id r) = Some secret"
  using assms by (auto simp: memory_resolve_def split: if_splits option.splits)

end
