(* ===== verification/Source_Limits.thy ===== *)
theory Source_Limits
  imports Binary64
begin

text \<open>
  \<^verbatim>\<open>limits.py\<close>, \<^verbatim>\<open>rate_limits.py\<close> and \<^verbatim>\<open>retry.py\<close> of \<^verbatim>\<open>ois/infrastructure/source_gateway\<close>: token buckets, the
  manager that owns one bucket per key, and the retry decisions. Floats are rounded after every operation
  (\<open>fl\<close>); a reading of \<open>monotonic()\<close> and of \<open>random()\<close> is an argument. The main lemma bounds what a bucket
  grants over any sequence of requests.
\<close>

section \<open>Token buckets\<close>

record rate_limit_policy =
  rp_capacity :: rat
  rp_refill_per_second :: rat

definition mk_rate_limit_policy :: "rat \<Rightarrow> rat \<Rightarrow> py_exn + rate_limit_policy" where
  "mk_rate_limit_policy capacity refill =
     (if capacity \<le> 0 \<or> refill \<le> 0 then Inl (Exn ValueError ''rate-limit capacity and refill must be positive'')
      else Inr \<lparr>rp_capacity = capacity, rp_refill_per_second = refill\<rparr>)"

record token_bucket =
  tb_policy :: rate_limit_policy
  tb_tokens :: rat
  tb_observed_at :: rat

definition mk_token_bucket :: "rate_limit_policy \<Rightarrow> rat \<Rightarrow> token_bucket" where
  "mk_token_bucket p now = \<lparr>tb_policy = p, tb_tokens = rp_capacity p, tb_observed_at = now\<rparr>"

definition refilled :: "token_bucket \<Rightarrow> rat \<Rightarrow> rat" where
  "refilled b now =
     (let elapsed = max 0 (fl (now - tb_observed_at b))
      in min (rp_capacity (tb_policy b)) (fl (tb_tokens b + fl (elapsed * rp_refill_per_second (tb_policy b)))))"

definition bucket_acquire :: "rat \<Rightarrow> rat \<Rightarrow> token_bucket \<Rightarrow> (py_exn + bool) \<times> token_bucket" where
  "bucket_acquire cost now b =
     (if cost \<le> 0 \<or> cost > rp_capacity (tb_policy b)
      then (Inl (Exn ValueError ''cost must be > 0 and <= bucket capacity''), b)
      else let tokens = refilled b now
           in if tokens < cost then (Inr False, b\<lparr>tb_tokens := tokens, tb_observed_at := now\<rparr>)
              else (Inr True, b\<lparr>tb_tokens := fl (tokens - cost), tb_observed_at := now\<rparr>))"

section \<open>The manager\<close>

record rate_limit_manager =
  rm_policies :: "(string \<times> rate_limit_policy) list"
  rm_buckets :: "(string \<times> token_bucket) list"
  rm_last_denied :: "(string \<times> rat) list"

record rate_limit_decision =
  rd_allowed :: bool
  rd_retry_after_seconds :: rat
  rd_key :: string

definition manager_configure :: "string \<Rightarrow> rate_limit_policy \<Rightarrow> rate_limit_manager \<Rightarrow> rate_limit_manager" where
  "manager_configure k p m =
     m\<lparr>rm_policies := AList.update k p (rm_policies m), rm_buckets := AList.delete k (rm_buckets m)\<rparr>"

definition manager_bucket :: "rat \<Rightarrow> string \<Rightarrow> rate_limit_manager \<Rightarrow> token_bucket option \<times> rate_limit_manager" where
  "manager_bucket now k m =
     (case map_of (rm_policies m) k of
        None \<Rightarrow> (None, m)
      | Some p \<Rightarrow>
         (case map_of (rm_buckets m) k of
            Some b \<Rightarrow> (Some b, m)
          | None \<Rightarrow> (let b = mk_token_bucket p now in (Some b, m\<lparr>rm_buckets := AList.update k b (rm_buckets m)\<rparr>))))"

text \<open>\<open>t0\<close> is read where a bucket is made, \<open>t1\<close> in the bucket, \<open>t2\<close> after a denial.\<close>

definition manager_allow ::
  "rat \<Rightarrow> rat \<Rightarrow> rat \<Rightarrow> string \<Rightarrow> rat \<Rightarrow> rate_limit_manager \<Rightarrow> (py_exn + rate_limit_decision) \<times> rate_limit_manager" where
  "manager_allow t0 t1 t2 k cost m =
     (case manager_bucket t0 k m of
        (None, m1) \<Rightarrow> (Inr \<lparr>rd_allowed = True, rd_retry_after_seconds = 0, rd_key = k\<rparr>, m1)
      | (Some b, m1) \<Rightarrow>
         (case bucket_acquire cost t1 b of
            (Inl e, b') \<Rightarrow> (Inl e, m1)
          | (Inr ok, b') \<Rightarrow>
             (let m2 = m1\<lparr>rm_buckets := AList.update k b' (rm_buckets m1)\<rparr>
              in if ok then (Inr \<lparr>rd_allowed = True, rd_retry_after_seconds = 0, rd_key = k\<rparr>,
                             m2\<lparr>rm_last_denied := AList.delete k (rm_last_denied m2)\<rparr>)
                 else (Inr \<lparr>rd_allowed = False,
                            rd_retry_after_seconds =
                              max 0 (fl (fl (cost - tb_tokens b') / rp_refill_per_second (tb_policy b'))),
                            rd_key = k\<rparr>,
                       m2\<lparr>rm_last_denied := AList.update k t2 (rm_last_denied m2)\<rparr>))))"

definition manager_snapshot :: "rat \<Rightarrow> string \<Rightarrow> rate_limit_manager \<Rightarrow> (rat \<times> rat) option \<times> rate_limit_manager" where
  "manager_snapshot now k m =
     (case manager_bucket now k m of
        (None, m1) \<Rightarrow> (None, m1)
      | (Some b, m1) \<Rightarrow> (Some (tb_tokens b, tb_observed_at b), m1))"

definition manager_policies :: "rate_limit_manager \<Rightarrow> string list" where
  "manager_policies m = sort (map fst (rm_policies m))"

section \<open>Retry decisions\<close>

record retry_policy =
  ry_max_attempts :: int
  ry_base_delay_seconds :: rat
  ry_max_delay_seconds :: rat
  ry_jitter_ratio :: rat

definition mk_retry_policy :: "int \<Rightarrow> rat \<Rightarrow> rat \<Rightarrow> rat \<Rightarrow> py_exn + retry_policy" where
  "mk_retry_policy attempts base_delay max_delay jitter =
     (if attempts < 1 then Inl (Exn ValueError ''max_attempts must be positive'')
      else if base_delay \<le> 0 \<or> max_delay \<le> 0 then Inl (Exn ValueError ''retry delays must be positive'')
      else if base_delay > max_delay then Inl (Exn ValueError ''base delay cannot exceed max delay'')
      else if \<not> (0 \<le> jitter \<and> jitter \<le> 1) then Inl (Exn ValueError ''jitter_ratio must be between 0 and 1'')
      else Inr \<lparr>ry_max_attempts = attempts, ry_base_delay_seconds = base_delay, ry_max_delay_seconds = max_delay,
                ry_jitter_ratio = jitter\<rparr>)"

record retry_decision =
  rt_retry :: bool
  rt_attempt :: int
  rt_delay_seconds :: rat
  rt_reason :: string

text \<open>\<open>2 ** (attempt - 1)\<close> is an integer: from \<open>2 ^ 1024\<close> on it cannot be converted to a float.\<close>

definition retry_decide :: "retry_policy \<Rightarrow> rat \<Rightarrow> int \<Rightarrow> bool \<Rightarrow> string \<Rightarrow> py_exn + retry_decision" where
  "retry_decide p rnd attempt retryable reason =
     (if attempt < 1 then Inl (Exn ValueError ''attempt must be positive'')
      else if \<not> retryable \<or> attempt \<ge> ry_max_attempts p
      then Inr \<lparr>rt_retry = False, rt_attempt = attempt, rt_delay_seconds = 0, rt_reason = reason\<rparr>
      else if attempt > 1024 then Inl (Exn OverflowError ''int too large to convert to float'')
      else let exponential = min (ry_max_delay_seconds p) (ry_base_delay_seconds p * 2 ^ nat (attempt - 1));
               jitter = fl (fl (exponential * ry_jitter_ratio p) * rnd)
           in Inr \<lparr>rt_retry = True, rt_attempt = attempt,
                   rt_delay_seconds = min (ry_max_delay_seconds p) (fl (exponential + jitter)), rt_reason = reason\<rparr>)"

lemma retry_decide_bounds:
  assumes "retry_decide p rnd attempt retryable reason = Inr d" and "mk_retry_policy n b m j = Inr p" and "0 \<le> rnd"
  shows "0 \<le> rt_delay_seconds d \<and> rt_delay_seconds d \<le> m \<and> (rt_retry d \<longrightarrow> retryable \<and> attempt < n)"
  using assms
  by (auto simp: retry_decide_def mk_retry_policy_def Let_def min_def
           intro!: fl_nonneg add_nonneg_nonneg mult_nonneg_nonneg split: if_splits)

section \<open>What a bucket grants\<close>

text \<open>The requests are pairs of a time and a cost; a request whose cost raises grants nothing.\<close>

fun grants :: "token_bucket \<Rightarrow> (rat \<times> rat) list \<Rightarrow> rat" where
  "grants b [] = 0"
| "grants b ((now, cost) # rs) =
     (case bucket_acquire cost now b of (r, b') \<Rightarrow> (if r = Inr True then cost else 0) + grants b' rs)"

definition bucket_ok :: "token_bucket \<Rightarrow> bool" where
  "bucket_ok b \<longleftrightarrow> 0 < rp_capacity (tb_policy b) \<and> 0 < rp_refill_per_second (tb_policy b) \<and> 0 \<le> tb_tokens b
     \<and> tb_tokens b \<le> rp_capacity (tb_policy b) * (1 + unit_roundoff)"

text \<open>The error one request adds, relative to the capacity.\<close>

definition slack :: rat where
  "slack = unit_roundoff * (2 + unit_roundoff)"

lemma slack_bounds: "0 < slack"
  using unit_roundoff_bounds by (simp add: slack_def)

lemma refilled_bounds:
  assumes ok: "bucket_ok b" and now: "tb_observed_at b \<le> now"
  defines "c \<equiv> rp_capacity (tb_policy b)" and "r \<equiv> rp_refill_per_second (tb_policy b)"
  shows "0 \<le> refilled b now" and "refilled b now \<le> c"
    and "refilled b now \<le> tb_tokens b + c * (unit_roundoff * (1 + unit_roundoff))
           + (1 + unit_roundoff) ^ 3 * r * (now - tb_observed_at b)"
proof -
  let ?u = unit_roundoff and ?e = "fl (now - tb_observed_at b)"
  let ?g = "fl (max 0 ?e * r)"
  have c: "0 < c" and r: "0 < r" and t: "0 \<le> tb_tokens b" "tb_tokens b \<le> c * (1 + ?u)"
    using ok by (simp_all add: bucket_ok_def c_def r_def)
  have u: "0 < ?u" using unit_roundoff_bounds by simp
  have e: "0 \<le> ?e" "?e \<le> (now - tb_observed_at b) * (1 + ?u)" using now by (auto intro: fl_nonneg fl_le)
  have g0: "0 \<le> ?g" using r by (intro fl_nonneg) simp
  have "?g \<le> ?e * r * (1 + ?u)" using fl_le [of "?e * r"] e(1) r by (simp add: max_def)
  also have "\<dots> \<le> (now - tb_observed_at b) * (1 + ?u) * r * (1 + ?u)"
    using e r u by (intro mult_right_mono) auto
  finally have g: "?g \<le> (1 + ?u) ^ 2 * r * (now - tb_observed_at b)" by (simp add: power2_eq_square ac_simps)
  have ref: "refilled b now = min c (fl (tb_tokens b + ?g))"
    by (simp add: refilled_def Let_def c_def r_def)
  show "0 \<le> refilled b now" "refilled b now \<le> c" using t g0 c by (auto simp: ref intro: fl_nonneg)
  have "refilled b now \<le> (tb_tokens b + ?g) * (1 + ?u)"
    using fl_le [of "tb_tokens b + ?g"] t g0 by (simp add: ref min_le_iff_disj)
  also have "\<dots> = tb_tokens b + tb_tokens b * ?u + ?g * (1 + ?u)" by (simp add: algebra_simps)
  also have "\<dots> \<le> tb_tokens b + c * (1 + ?u) * ?u + (1 + ?u) ^ 2 * r * (now - tb_observed_at b) * (1 + ?u)"
    using t(2) g u by (intro add_mono mult_right_mono) auto
  finally show "refilled b now \<le> tb_tokens b + c * (?u * (1 + ?u)) + (1 + ?u) ^ 3 * r * (now - tb_observed_at b)"
    by (simp add: power2_eq_square power3_eq_cube ac_simps)
qed

lemma bucket_step:
  assumes ok: "bucket_ok b" and now: "tb_observed_at b \<le> now" and a: "bucket_acquire cost now b = (r, b')"
  shows "bucket_ok b' \<and> tb_policy b' = tb_policy b \<and> tb_observed_at b' \<in> {tb_observed_at b, now}
    \<and> (if r = Inr True then cost else 0) + tb_tokens b'
      \<le> tb_tokens b + rp_capacity (tb_policy b) * slack
        + (1 + unit_roundoff) ^ 3 * rp_refill_per_second (tb_policy b) * (tb_observed_at b' - tb_observed_at b)"
proof -
  let ?u = unit_roundoff and ?c = "rp_capacity (tb_policy b)"
  have c: "0 < ?c" and u: "0 < ?u" using ok unit_roundoff_bounds by (simp_all add: bucket_ok_def)
  note ref = refilled_bounds [OF ok now]
  have s: "?c * slack = ?c * (?u * (1 + ?u)) + ?c * ?u" by (simp add: slack_def algebra_simps)
  consider "cost \<le> 0 \<or> cost > ?c" | "0 < cost" "cost \<le> ?c" "refilled b now < cost"
    | "0 < cost" "cost \<le> refilled b now" "cost \<le> ?c" by linarith
  then show ?thesis
  proof cases
    case 1
    then show ?thesis using a ok c slack_bounds by (auto simp: bucket_acquire_def)
  next
    case 2
    then have "r = Inr False" "b' = b\<lparr>tb_tokens := refilled b now, tb_observed_at := now\<rparr>"
      using a by (auto simp: bucket_acquire_def Let_def)
    moreover have "0 \<le> ?c * ?u" "?c * (1 + ?u) = ?c + ?c * ?u" using c u by (simp_all add: algebra_simps)
    then have "refilled b now \<le> ?c * (1 + ?u)"
      and "refilled b now \<le> tb_tokens b + (?c * (?u * (1 + ?u)) + ?c * ?u)
             + (1 + ?u) ^ 3 * rp_refill_per_second (tb_policy b) * (now - tb_observed_at b)"
      using ref(2,3) by linarith+
    ultimately show ?thesis using ref ok unfolding bucket_ok_def s by auto
  next
    case 3
    then have b': "r = Inr True" "b' = b\<lparr>tb_tokens := fl (refilled b now - cost), tb_observed_at := now\<rparr>"
      using a by (auto simp: bucket_acquire_def Let_def)
    let ?x = "refilled b now - cost"
    have x: "0 \<le> ?x" "?x \<le> ?c" using 3 ref(2) by linarith+
    have "fl ?x \<le> ?x * (1 + ?u)" "0 \<le> fl ?x" using x by (auto intro: fl_le fl_nonneg)
    moreover have "?x * ?u \<le> ?c * ?u" using x u by (intro mult_right_mono) auto
    moreover have "?x * (1 + ?u) = ?x + ?x * ?u" by (simp add: algebra_simps)
    moreover have "?c * (1 + ?u) = ?c + ?c * ?u" by (simp add: algebra_simps)
    ultimately show ?thesis using b' x ref ok unfolding bucket_ok_def s by auto
  qed
qed

lemma bucket_grants_bound:
  assumes "bucket_ok b" and "sorted (tb_observed_at b # map fst rs)"
  shows "grants b rs \<le> tb_tokens b + rp_capacity (tb_policy b) * slack * of_nat (length rs)
     + (1 + unit_roundoff) ^ 3 * rp_refill_per_second (tb_policy b) * (last (tb_observed_at b # map fst rs) - tb_observed_at b)"
  using assms
proof (induction rs arbitrary: b)
  case Nil
  then show ?case by (simp add: bucket_ok_def)
next
  case (Cons x rs)
  obtain now cost where x: "x = (now, cost)" by fastforce
  obtain r b' where a: "bucket_acquire cost now b = (r, b')" by fastforce
  let ?k = "(1 + unit_roundoff) ^ 3 * rp_refill_per_second (tb_policy b)"
  have now: "tb_observed_at b \<le> now" using Cons.prems by (simp add: x)
  note st = bucket_step [OF Cons.prems(1) now a]
  have k: "0 \<le> ?k" using Cons.prems(1) unit_roundoff_bounds by (simp add: bucket_ok_def)
  have srt: "sorted (tb_observed_at b' # map fst rs)" using st Cons.prems by (auto simp: x)
  have IH: "grants b' rs \<le> tb_tokens b' + rp_capacity (tb_policy b) * slack * of_nat (length rs)
      + ?k * (last (tb_observed_at b' # map fst rs) - tb_observed_at b')"
    using Cons.IH [OF _ srt] st by simp
  have "last (tb_observed_at b' # map fst rs) \<le> last (now # map fst rs)" using st now by auto
  then have "?k * (last (tb_observed_at b' # map fst rs) - tb_observed_at b')
      \<le> ?k * (last (now # map fst rs) - tb_observed_at b')"
    using k by (intro mult_left_mono) auto
  moreover have "?k * (tb_observed_at b' - tb_observed_at b) + ?k * (last (now # map fst rs) - tb_observed_at b')
      = ?k * (last (now # map fst rs) - tb_observed_at b)"
    by (simp add: right_diff_distrib)
  ultimately have "(if r = Inr True then cost else 0) + grants b' rs \<le> tb_tokens b
      + (rp_capacity (tb_policy b) * slack + rp_capacity (tb_policy b) * slack * of_nat (length rs))
      + ?k * (last (now # map fst rs) - tb_observed_at b)"
    using st IH by linarith
  then show ?case by (simp add: x a algebra_simps)
qed

end
