(* ===== verification/Source_Pipeline.thy ===== *)
theory Source_Pipeline
  imports OIS_Prelude
begin

text \<open>
  \<^verbatim>\<open>ois/control_plane/source_policies.py\<close>, \<^verbatim>\<open>ois/runtime/source_recovery.py\<close>, \<^verbatim>\<open>ois/runtime/source_pipeline.py\<close> and the
  event contract \<^verbatim>\<open>ois/domains/social_intelligence/events.py\<close>: source policies, dead letters, bounded recovery
  and the pipeline that authorizes, delivers and recovers an event. The handler is an argument: its outcome
  may differ from call to call (\<open>sp_calls\<close> counts them).
\<close>

section \<open>Events and policies\<close>

record canonical_event =
  ce_event_id :: string
  ce_tenant_id :: string
  ce_workspace_id :: string
  ce_source_id :: string
  ce_source_record_id :: string
  ce_event_type :: string
  ce_payload :: pydict
  ce_payload_hash :: string
  ce_observed_at :: timestamp
  ce_schema_version :: string
  ce_connector_version :: string
  ce_metadata :: pydict

record source_policy =
  pp_tenant_id :: string
  pp_workspace_id :: string
  pp_source_id :: string
  pp_enabled :: bool
  pp_allowed_event_types :: "string list"
  pp_allowed_operations :: "string list"
  pp_require_credential :: bool

definition policy_allows :: "source_policy \<Rightarrow> string \<Rightarrow> string option \<Rightarrow> bool" where
  "policy_allows p operation event_type \<longleftrightarrow>
     pp_enabled p \<and> operation \<in> set (pp_allowed_operations p)
     \<and> (pp_allowed_event_types p = [] \<or> event_type \<in> Some ` set (pp_allowed_event_types p))"

type_synonym source_key = "string \<times> string \<times> string"
type_synonym policy_store = "(source_key \<times> source_policy) list"

definition source_policy_put :: "source_policy \<Rightarrow> policy_store \<Rightarrow> policy_store" where
  "source_policy_put p t = AList.update (pp_tenant_id p, pp_workspace_id p, pp_source_id p) p t"

definition source_policy_get :: "source_key \<Rightarrow> policy_store \<Rightarrow> py_exn + source_policy" where
  "source_policy_get k t =
     (case map_of t k of
        None \<Rightarrow> Inl (Exn KeyError (''source policy not configured: '' @ snd (snd k)))
      | Some p \<Rightarrow> Inr p)"

definition source_policy_authorize ::
  "source_key \<Rightarrow> string \<Rightarrow> string option \<Rightarrow> bool \<Rightarrow> policy_store \<Rightarrow> py_exn + source_policy" where
  "source_policy_authorize k operation event_type credential_present t =
     rbind (source_policy_get k t) (\<lambda>p.
     if pp_require_credential p \<and> \<not> credential_present
     then Inl (Exn PermissionError ''source policy requires a credential'')
     else if \<not> policy_allows p operation event_type
     then Inl (Exn PermissionError ''source operation denied by control-plane policy'')
     else Inr p)"

definition source_policy_list :: "string \<Rightarrow> string \<Rightarrow> policy_store \<Rightarrow> source_policy list" where
  "source_policy_list tenant workspace t =
     sort_key pp_source_id (map snd (filter (\<lambda>((tn, ws, _), _). tn = tenant \<and> ws = workspace) t))"

section \<open>Dead letters and recovery\<close>

record dead_event =
  dv_event :: canonical_event
  dv_reason :: string
  dv_attempts :: int
  dv_failed_at :: timestamp

record pipe_world =
  sp_tick :: nat
  sp_calls :: nat
  sp_policies :: policy_store
  sp_dead :: "(string \<times> dead_event) list"

definition dead_put :: "dead_event \<Rightarrow> (pipe_world, bool) em" where
  "dead_put d = (\<lambda>w.
     if map_of (sp_dead w) (ce_event_id (dv_event d)) \<noteq> None then (Inr False, w)
     else (Inr True, w\<lparr>sp_dead := AList.update (ce_event_id (dv_event d)) d (sp_dead w)\<rparr>))"

definition dead_get :: "string \<Rightarrow> (pipe_world, dead_event) em" where
  "dead_get eid = (\<lambda>w.
     case map_of (sp_dead w) eid of
       None \<Rightarrow> (Inl (Exn KeyError (''dead-letter event not found: '' @ eid)), w)
     | Some d \<Rightarrow> (Inr d, w))"

definition dead_list :: "string \<Rightarrow> string \<Rightarrow> pipe_world \<Rightarrow> dead_event list" where
  "dead_list tenant workspace w =
     filter (\<lambda>d. ce_tenant_id (dv_event d) = tenant \<and> ce_workspace_id (dv_event d) = workspace) (map snd (sp_dead w))"

definition dead_remove :: "string \<Rightarrow> (pipe_world, dead_event) em" where
  "dead_remove eid = (\<lambda>w.
     case map_of (sp_dead w) eid of
       None \<Rightarrow> (Inl (Exn KeyError eid), w)
     | Some d \<Rightarrow> (Inr d, w\<lparr>sp_dead := AList.delete eid (sp_dead w)\<rparr>))"

definition dead_size :: "pipe_world \<Rightarrow> nat" where
  "dead_size w = length (sp_dead w)"

type_synonym event_handler = "canonical_event \<Rightarrow> nat \<Rightarrow> py_exn + pyval"

definition mk_source_recovery :: "int \<Rightarrow> py_exn + nat" where
  "mk_source_recovery max_attempts =
     (if max_attempts < 1 then Inl (Exn ValueError ''max_attempts must be positive'') else Inr (nat max_attempts))"

text \<open>The attempts: \<open>None\<close> after a success, the last error otherwise.\<close>

fun recovery_attempts :: "event_handler \<Rightarrow> canonical_event \<Rightarrow> nat \<Rightarrow> string \<Rightarrow> (pipe_world, string option) em" where
  "recovery_attempts h e 0 err = eret (Some err)"
| "recovery_attempts h e (Suc n) err =
     (\<lambda>w. case h e (sp_calls w) of
            Inr _ \<Rightarrow> (Inr None, w\<lparr>sp_calls := Suc (sp_calls w)\<rparr>)
          | Inl x \<Rightarrow> recovery_attempts h e n (exn_str x) (w\<lparr>sp_calls := Suc (sp_calls w)\<rparr>))"

definition recovery_run :: "environ \<Rightarrow> nat \<Rightarrow> event_handler \<Rightarrow> canonical_event \<Rightarrow> (pipe_world, bool) em" where
  "recovery_run env n h e =
     ebind (recovery_attempts h e n ''unknown failure'') (\<lambda>err.
     case err of
       None \<Rightarrow> eret True
     | Some reason \<Rightarrow>
        (\<lambda>w. eseq (dead_put \<lparr>dv_event = e, dv_reason = reason, dv_attempts = int n, dv_failed_at = clock env (sp_tick w)\<rparr>)
                  (eret False) (w\<lparr>sp_tick := Suc (sp_tick w)\<rparr>)))"

definition recovery_replay :: "environ \<Rightarrow> nat \<Rightarrow> event_handler \<Rightarrow> string \<Rightarrow> (pipe_world, bool) em" where
  "recovery_replay env n h eid =
     ebind (dead_get eid) (\<lambda>d.
     ebind (recovery_run env n h (dv_event d)) (\<lambda>ok.
     if \<not> ok then eret False else eseq (dead_remove eid) (eret True)))"

section \<open>The pipeline\<close>

record pipeline_result =
  pr_event_id :: string
  pr_accepted :: bool
  pr_dead_lettered :: bool
  pr_reason :: "string option"

definition pipeline_process ::
  "environ \<Rightarrow> nat \<Rightarrow> event_handler option \<Rightarrow> canonical_event \<Rightarrow> event_handler option \<Rightarrow> bool
   \<Rightarrow> (pipe_world, pipeline_result) em" where
  "pipeline_process env n configured e handler credential_verified =
     ebind (eget sp_policies) (\<lambda>ps.
     case source_policy_authorize (ce_tenant_id e, ce_workspace_id e, ce_source_id e) ''ingest''
            (Some (ce_event_type e)) credential_verified ps of
       Inl x \<Rightarrow> eret \<lparr>pr_event_id = ce_event_id e, pr_accepted = False, pr_dead_lettered = False,
                      pr_reason = Some (exn_message x)\<rparr>
     | Inr _ \<Rightarrow>
        (case (case handler of Some h \<Rightarrow> Some h | None \<Rightarrow> configured) of
           None \<Rightarrow> eret \<lparr>pr_event_id = ce_event_id e, pr_accepted = False, pr_dead_lettered = False,
                         pr_reason = Some ''intelligence_handler_not_configured''\<rparr>
         | Some h \<Rightarrow>
            ebind (recovery_run env n h e) (\<lambda>accepted.
            ebind (eget (dead_list (ce_tenant_id e) (ce_workspace_id e))) (\<lambda>dead.
            eret \<lparr>pr_event_id = ce_event_id e, pr_accepted = accepted,
                  pr_dead_lettered = list_ex (\<lambda>d. ce_event_id (dv_event d) = ce_event_id e) dead,
                  pr_reason = (if accepted then None else Some ''processing_failed'')\<rparr>))))"

section \<open>What recovery does\<close>

definition succeeds :: "event_handler \<Rightarrow> canonical_event \<Rightarrow> nat \<Rightarrow> bool" where
  "succeeds h e i \<longleftrightarrow> (case h e i of Inl _ \<Rightarrow> False | Inr _ \<Rightarrow> True)"

text \<open>The handler is called until its first success, \<open>n\<close> times at most.\<close>

lemma recovery_attempts_spec:
  "\<exists>k\<le>n. snd (recovery_attempts h e n err w) = w\<lparr>sp_calls := sp_calls w + k\<rparr>
     \<and> (fst (recovery_attempts h e n err w) = Inr None \<and> 0 < k \<and> succeeds h e (sp_calls w + (k - 1))
        \<or> (\<exists>x. fst (recovery_attempts h e n err w) = Inr (Some x)) \<and> k = n \<and> (\<forall>i<n. \<not> succeeds h e (sp_calls w + i)))"
proof (induction n arbitrary: err w)
  case 0
  then show ?case by (simp add: em_simps)
next
  case (Suc n)
  show ?case
  proof (cases "h e (sp_calls w)")
    case (Inr v)
    then show ?thesis by (intro exI [of _ 1]) (simp add: succeeds_def)
  next
    case (Inl x)
    let ?w = "w\<lparr>sp_calls := Suc (sp_calls w)\<rparr>"
    obtain k where k: "k \<le> n" "snd (recovery_attempts h e n (exn_str x) ?w) = w\<lparr>sp_calls := Suc (sp_calls w) + k\<rparr>"
      and c: "fst (recovery_attempts h e n (exn_str x) ?w) = Inr None \<and> 0 < k \<and> succeeds h e (Suc (sp_calls w) + (k - 1))
        \<or> (\<exists>y. fst (recovery_attempts h e n (exn_str x) ?w) = Inr (Some y)) \<and> k = n
           \<and> (\<forall>i<n. \<not> succeeds h e (Suc (sp_calls w) + i))"
      using Suc.IH [of "exn_str x" ?w] by auto
    have "\<forall>i<Suc n. \<not> succeeds h e (sp_calls w + i)" if "\<forall>i<n. \<not> succeeds h e (Suc (sp_calls w) + i)"
      using that Inl by (auto simp: succeeds_def less_Suc_eq_0_disj)
    then show ?thesis using Inl k c by (intro exI [of _ "Suc k"]) auto
  qed
qed

text \<open>
  The outcome of \<open>SourceRecovery.run\<close>: it returns, after at most \<open>n\<close> calls of the handler; on success the dead
  letters are as before, otherwise the event is among them.
\<close>

lemma recovery_run_outcome:
  assumes "recovery_run env n h e w = (r, w')"
  shows "(r = Inr True \<and> (\<exists>i<n. succeeds h e (sp_calls w + i)) \<and> sp_dead w' = sp_dead w
       \<or> r = Inr False \<and> (\<forall>i<n. \<not> succeeds h e (sp_calls w + i)) \<and> map_of (sp_dead w') (ce_event_id e) \<noteq> None
           \<and> (\<forall>k. k \<noteq> ce_event_id e \<longrightarrow> map_of (sp_dead w') k = map_of (sp_dead w) k)
           \<and> (map_of (sp_dead w) (ce_event_id e) \<noteq> None \<longrightarrow> sp_dead w' = sp_dead w))
     \<and> sp_policies w' = sp_policies w \<and> sp_calls w' \<le> sp_calls w + n"
proof -
  obtain k where k: "k \<le> n" "snd (recovery_attempts h e n ''unknown failure'' w) = w\<lparr>sp_calls := sp_calls w + k\<rparr>"
    and c: "fst (recovery_attempts h e n ''unknown failure'' w) = Inr None \<and> 0 < k \<and> succeeds h e (sp_calls w + (k - 1))
        \<or> (\<exists>x. fst (recovery_attempts h e n ''unknown failure'' w) = Inr (Some x)) \<and> k = n
           \<and> (\<forall>i<n. \<not> succeeds h e (sp_calls w + i))"
    using recovery_attempts_spec by blast
  have m: "recovery_attempts h e n ''unknown failure'' w
      = (fst (recovery_attempts h e n ''unknown failure'' w), w\<lparr>sp_calls := sp_calls w + k\<rparr>)"
    using k(2) by (metis prod.collapse)
  have i: "k - 1 < n" if "0 < k" using that k(1) by simp
  from c show ?thesis
  proof
    assume "fst (recovery_attempts h e n ''unknown failure'' w) = Inr None \<and> 0 < k \<and> succeeds h e (sp_calls w + (k - 1))"
    then show ?thesis using assms k(1) i m by (auto simp: recovery_run_def em_simps)
  next
    assume "(\<exists>x. fst (recovery_attempts h e n ''unknown failure'' w) = Inr (Some x)) \<and> k = n
           \<and> (\<forall>i<n. \<not> succeeds h e (sp_calls w + i))"
    then show ?thesis
      using assms m by (auto simp: recovery_run_def em_simps dead_put_def split: if_splits)
  qed
qed

end
