(* ===== verification/Source_Gateway.thy ===== *)
theory Source_Gateway
  imports Source_Stores Source_Auth Source_Limits Source_Pipeline
begin

text \<open>
  \<^verbatim>\<open>ois/infrastructure/source_gateway/gateway.py\<close>, \<^verbatim>\<open>webhook_security.py\<close> and
  \<^verbatim>\<open>ois/infrastructure/source_adapters/webhook_gateway.py\<close>. The gateway is built over protocols; its store of
  evidence and outbox and its idempotency store are arguments (\<open>sink_ops\<close>, \<open>idem_ops\<close>), with the SQLite and
  PostgreSQL ones as values. SHA-256, \<open>uuid5\<close>, HMAC and the parsing of a JSON body are arguments. Every read of a
  clock or of \<open>uuid4\<close> advances the tick.
\<close>

section \<open>The stores of a gateway\<close>

record 'i idem_ops =
  io_claim :: "timestamp \<Rightarrow> claim_key \<Rightarrow> string \<Rightarrow> 'i \<Rightarrow> bool \<times> 'i"
  io_get :: "claim_key \<Rightarrow> 'i \<Rightarrow> py_exn + idempotency_record option"
  io_release :: "claim_key \<Rightarrow> string \<Rightarrow> 'i \<Rightarrow> bool \<times> 'i"

definition lite_idem :: "source_codec \<Rightarrow> lite_claims idem_ops" where
  "lite_idem sc = \<lparr>io_claim = lite_claim sc, io_get = lite_claim_get sc, io_release = lite_release\<rparr>"

definition pg_idem :: "pg_claims idem_ops" where
  "pg_idem = \<lparr>io_claim = pg_claim, io_get = (\<lambda>k t. Inr (pg_claim_get k t)), io_release = pg_release\<rparr>"

text \<open>A store beside another one.\<close>

definition first_store :: "'a idem_ops \<Rightarrow> ('a \<times> 'b) idem_ops" where
  "first_store ops =
     \<lparr>io_claim = (\<lambda>now k e (a, b). case io_claim ops now k e a of (ok, a') \<Rightarrow> (ok, (a', b))),
      io_get = (\<lambda>k (a, b). io_get ops k a),
      io_release = (\<lambda>k e (a, b). case io_release ops k e a of (ok, a') \<Rightarrow> (ok, (a', b)))\<rparr>"

definition second_store :: "'b idem_ops \<Rightarrow> ('a \<times> 'b) idem_ops" where
  "second_store ops =
     \<lparr>io_claim = (\<lambda>now k e (a, b). case io_claim ops now k e b of (ok, b') \<Rightarrow> (ok, (a, b'))),
      io_get = (\<lambda>k (a, b). io_get ops k b),
      io_release = (\<lambda>k e (a, b). case io_release ops k e b of (ok, b') \<Rightarrow> (ok, (a, b')))\<rparr>"

text \<open>\<open>si_commit\<close> is there when the evidence store has \<open>commit_ingest\<close> and is also the outbox.\<close>

record 'd sink_ops =
  si_commit :: "(raw_evidence \<Rightarrow> source_event \<Rightarrow> 'd \<Rightarrow> (py_exn + bool) \<times> 'd) option"
  si_evidence :: "(raw_evidence \<Rightarrow> 'd \<Rightarrow> (py_exn + bool) \<times> 'd) option"
  si_outbox :: "(source_event \<Rightarrow> 'd \<Rightarrow> (py_exn + bool) \<times> 'd) option"

definition lite_sink :: "source_codec \<Rightarrow> text_hash \<Rightarrow> lite_ledger sink_ops" where
  "lite_sink sc h = \<lparr>si_commit = Some (lite_commit_ingest sc h), si_evidence = None, si_outbox = None\<rparr>"

definition pg_sink :: "(pyval \<Rightarrow> py_exn + pyval) \<Rightarrow> text_hash \<Rightarrow> pg_ledger sink_ops" where
  "pg_sink jb h = \<lparr>si_commit = Some (pg_commit_ingest jb h), si_evidence = None, si_outbox = None\<rparr>"

text \<open>\<open>SQLiteRawEvidenceWriter\<close> and \<open>SQLiteOutboxStore\<close>, two databases.\<close>

definition split_sink :: "source_codec \<Rightarrow> text_hash \<Rightarrow> lite_ledger sink_ops" where
  "split_sink sc h =
     \<lparr>si_commit = None,
      si_evidence = Some (\<lambda>e db. case raw_append sc h e (ll_evidence db) of (r, t) \<Rightarrow> (r, db\<lparr>ll_evidence := t\<rparr>)),
      si_outbox = Some (\<lambda>ev db. case source_append sc ev (ll_outbox db) of (ok, t) \<Rightarrow> (Inr ok, db\<lparr>ll_outbox := t\<rparr>))\<rparr>"

section \<open>Requests\<close>

record source_request =
  sq_tenant_id :: string
  sq_workspace_id :: string
  sq_source_type :: string
  sq_source_record_id :: string
  sq_payload :: pydict
  sq_credential :: "credential_ref option"
  sq_connector_version :: string
  sq_schema_version :: string
  sq_source_id :: string
  sq_provenance :: "source_provenance option"
  sq_event_type :: string
  sq_idempotency_key :: "string option"
  sq_observed_at :: "timestamp option"
  sq_rate_limit_lease :: "string option"

text \<open>\<open>__post_init__\<close>: the source id defaults to the type and the record.\<close>

definition post_init :: "source_request \<Rightarrow> source_request" where
  "post_init q =
     (if sq_source_id q = [] \<and> sq_source_type q \<noteq> []
      then q\<lparr>sq_source_id := sq_source_type q @ '':'' @ sq_source_record_id q\<rparr> else q)"

record source_response =
  sr_accepted :: bool
  sr_evidence_id :: string
  sr_event_id :: string
  sr_payload_hash :: string
  sr_reason :: "string option"

definition refusal :: "string \<Rightarrow> source_response" where
  "refusal reason =
     \<lparr>sr_accepted = False, sr_evidence_id = [], sr_event_id = [], sr_payload_hash = [], sr_reason = Some reason\<rparr>"

record ('i, 'd, 'p) gateway =
  gy_env :: environ
  gy_monotonic :: "nat \<Rightarrow> rat"
  gy_iso :: "timestamp \<Rightarrow> string"
  gy_hash :: text_hash
  gy_uuid5 :: "string \<Rightarrow> string"
  gy_resolver :: "credential_resolver option"
  gy_sink :: "'d sink_ops"
  gy_idem :: "'i idem_ops option"
  gy_pipeline :: "(canonical_event \<Rightarrow> bool \<Rightarrow> 'p \<Rightarrow> (py_exn + pipeline_result) \<times> 'p) option"

record ('i, 'd, 'p) gw_world =
  gw_tick :: nat
  gw_limiters :: "(string \<times> token_bucket) list"
  gw_leases :: "(string \<times> string \<times> string) list"
  gw_manager :: "rate_limit_manager option"
  gw_idem :: 'i
  gw_store :: 'd
  gw_pipe :: 'p

type_synonym ('i, 'd, 'p, 'a) gm = "(('i, 'd, 'p) gw_world, 'a) em"

definition gw_now :: "('i, 'd, 'p) gateway \<Rightarrow> ('i, 'd, 'p, timestamp) gm" where
  "gw_now g = (\<lambda>w. (Inr (clock (gy_env g) (gw_tick w)), w\<lparr>gw_tick := Suc (gw_tick w)\<rparr>))"

definition gw_uuid4 :: "('i, 'd, 'p) gateway \<Rightarrow> ('i, 'd, 'p, string) gm" where
  "gw_uuid4 g = (\<lambda>w. (Inr (fresh_uuid (gy_env g) (gw_tick w)), w\<lparr>gw_tick := Suc (gw_tick w)\<rparr>))"

definition gw_mono :: "('i, 'd, 'p) gateway \<Rightarrow> ('i, 'd, 'p, rat) gm" where
  "gw_mono g = (\<lambda>w. (Inr (gy_monotonic g (gw_tick w)), w\<lparr>gw_tick := Suc (gw_tick w)\<rparr>))"

section \<open>Credentials\<close>

definition resolve_credential ::
  "('i, 'd, 'p) gateway \<Rightarrow> credential_ref \<Rightarrow> tenant_scope \<Rightarrow> ('i, 'd, 'p, credential_material) gm" where
  "resolve_credential g r s =
     (if cd_tenant_id r \<noteq> ts_tenant_id s then eraise (Exn PermissionError ''credential belongs to another tenant'')
      else case gy_resolver g of
        None \<Rightarrow> eraise (Exn RuntimeError ''credential resolver is not configured'')
      | Some res \<Rightarrow> ebind (gw_now g) (\<lambda>now. elift (auth_resolve res now r s None ''Bearer'' [] None)))"

definition authenticate_request ::
  "('i, 'd, 'p) gateway \<Rightarrow> request_signer \<Rightarrow> auth_request \<Rightarrow> credential_ref \<Rightarrow> tenant_scope \<Rightarrow> auth_scheme
   \<Rightarrow> (string \<times> string) list option \<Rightarrow> string option \<Rightarrow> string \<Rightarrow> authenticator option \<Rightarrow> ('i, 'd, 'p, auth_request) gm" where
  "authenticate_request g sign q r s scheme options client_id token_type given =
     (case gy_resolver g of
        None \<Rightarrow> eraise (Exn RuntimeError ''credential auth manager is not configured'')
      | Some res \<Rightarrow> ebind (gw_now g) (\<lambda>now.
          elift (auth_authenticate res sign now q r s \<lparr>ap_scheme = scheme, ap_options = options\<rparr> client_id token_type given)))"

section \<open>Rate limits\<close>

definition select_rate_limiter :: "string \<Rightarrow> string \<Rightarrow> (string \<times> token_bucket) list \<Rightarrow> string option" where
  "select_rate_limiter source_type source_id t =
     (if map_of t source_type \<noteq> None then Some source_type
      else if map_of t source_id \<noteq> None then Some source_id else None)"

definition rate_limit_configured :: "string \<Rightarrow> string \<Rightarrow> ('i, 'd, 'p) gw_world \<Rightarrow> bool" where
  "rate_limit_configured source_type source_id w \<longleftrightarrow> select_rate_limiter source_type source_id (gw_limiters w) \<noteq> None"

definition bucket_of :: "string \<Rightarrow> ('i, 'd, 'p) gateway \<Rightarrow> ('i, 'd, 'p, bool) gm" where
  "bucket_of k g =
     ebind (gw_mono g) (\<lambda>now w.
       case map_of (gw_limiters w) k of
         None \<Rightarrow> (Inr False, w)
       | Some b \<Rightarrow> (case bucket_acquire 1 now b of (r, b') \<Rightarrow> (r, w\<lparr>gw_limiters := AList.update k b' (gw_limiters w)\<rparr>)))"

definition acquire_rate_limit :: "('i, 'd, 'p) gateway \<Rightarrow> string \<Rightarrow> string \<Rightarrow> ('i, 'd, 'p, string option) gm" where
  "acquire_rate_limit g source_type source_id =
     ebind (eget (\<lambda>w. select_rate_limiter source_type source_id (gw_limiters w))) (\<lambda>sel.
     case sel of
       None \<Rightarrow> eret None
     | Some k \<Rightarrow> ebind (bucket_of k g) (\<lambda>ok.
         if \<not> ok then eret None
         else ebind (gw_uuid4 g) (\<lambda>lease.
           eseq (emod (\<lambda>w. w\<lparr>gw_leases := AList.update lease (source_type, source_id) (gw_leases w)\<rparr>))
                (eret (Some lease)))))"

definition allow_request :: "('i, 'd, 'p) gateway \<Rightarrow> source_request \<Rightarrow> ('i, 'd, 'p, bool) gm" where
  "allow_request g q =
     ebind (eget gw_manager) (\<lambda>m.
     case m of
       None \<Rightarrow> eret True
     | Some rm \<Rightarrow> ebind (gw_mono g) (\<lambda>t0. ebind (gw_mono g) (\<lambda>t1. ebind (gw_mono g) (\<lambda>t2 w.
         case manager_allow t0 t1 t2 (sq_tenant_id q @ '':'' @ sq_workspace_id q @ '':'' @ sq_source_id q) 1 rm of
           (Inl e, rm') \<Rightarrow> (Inl e, w\<lparr>gw_manager := Some rm'\<rparr>)
         | (Inr d, rm') \<Rightarrow> (Inr (rd_allowed d), w\<lparr>gw_manager := Some rm'\<rparr>)))))"

text \<open>The lease or a token of the bucket: the reason of a refusal, if any.\<close>

definition admit_request :: "('i, 'd, 'p) gateway \<Rightarrow> source_request \<Rightarrow> ('i, 'd, 'p, string option) gm" where
  "admit_request g q =
     (case sq_rate_limit_lease q of
        Some lease \<Rightarrow>
          ebind (eget (\<lambda>w. map_of (gw_leases w) lease)) (\<lambda>found.
          eseq (emod (\<lambda>w. w\<lparr>gw_leases := AList.delete lease (gw_leases w)\<rparr>))
            (eret (if found \<noteq> Some (sq_source_type q, sq_source_id q) then Some ''invalid_rate_limit_lease'' else None)))
      | None \<Rightarrow>
          ebind (eget (rate_limit_configured (sq_source_type q) (sq_source_id q))) (\<lambda>configured.
          if \<not> configured then eret None
          else ebind (acquire_rate_limit g (sq_source_type q) (sq_source_id q)) (\<lambda>lease.
            eret (if lease = None then Some ''rate_limited'' else None))))"

section \<open>Ingestion\<close>

definition evidence_name :: "source_request \<Rightarrow> string \<Rightarrow> string" where
  "evidence_name q ph =
     sq_tenant_id q @ '':'' @ sq_workspace_id q @ '':'' @ sq_source_id q @ '':'' @ sq_source_record_id q @ '':'' @ ph"

definition build_evidence :: "('i, 'd, 'p) gateway \<Rightarrow> source_request \<Rightarrow> ('i, 'd, 'p, raw_evidence) gm" where
  "build_evidence g q =
     ebind (case sq_observed_at q of Some t \<Rightarrow> eret t | None \<Rightarrow> gw_now g) (\<lambda>collected.
     ebind (gw_uuid4 g) (\<lambda>run.
     let ph = canonical_hash (gy_hash g) (PDict (sq_payload q))
     in eret \<lparr>rv_evidence_id = gy_uuid5 g (evidence_name q ph), rv_tenant_id = sq_tenant_id q,
              rv_workspace_id = sq_workspace_id q, rv_source_id = sq_source_id q,
              rv_source_record_id = sq_source_record_id q, rv_payload = PDict (sq_payload q), rv_payload_hash = ph,
              rv_collected_at = collected, rv_connector_version = sq_connector_version q,
              rv_schema_version = sq_schema_version q, rv_ingestion_run_id = run\<rparr>))"

definition event_payload :: "(timestamp \<Rightarrow> string) \<Rightarrow> timestamp \<Rightarrow> source_request \<Rightarrow> raw_evidence \<Rightarrow> pydict" where
  "event_payload fmt now q e =
     [(''event_type'', PStr (sq_event_type q)), (''evidence_id'', PStr (rv_evidence_id e)),
      (''source_id'', PStr (sq_source_id q)), (''source_record_id'', PStr (sq_source_record_id q)),
      (''payload_hash'', PStr (rv_payload_hash e)), (''connector_version'', PStr (sq_connector_version q)),
      (''schema_version'', PStr (sq_schema_version q))]
     @ (case sq_provenance q of None \<Rightarrow> [] | Some p \<Rightarrow> [(''provenance'', PDict (provenance_dict fmt now p))])"

definition build_event :: "('i, 'd, 'p) gateway \<Rightarrow> source_request \<Rightarrow> raw_evidence \<Rightarrow> ('i, 'd, 'p, source_event) gm" where
  "build_event g q e =
     ebind (gw_now g) (\<lambda>observed.
     ebind (gw_now g) (\<lambda>created.
     eret \<lparr>sv_event_id = gy_uuid5 g (''source-outbox:'' @ rv_evidence_id e), sv_tenant_id = sq_tenant_id q,
           sv_workspace_id = sq_workspace_id q, sv_event_type = ''source.raw_evidence.created'',
           sv_aggregate_id = rv_evidence_id e, sv_payload = event_payload (gy_iso g) observed q e,
           sv_created_at = created\<rparr>))"

definition idem_key :: "source_request \<Rightarrow> string \<Rightarrow> claim_key" where
  "idem_key q k = (sq_tenant_id q, sq_workspace_id q, k)"

text \<open>\<open>None\<close> where there is nothing to claim, otherwise whether the claim was won.\<close>

definition claim_request :: "('i, 'd, 'p) gateway \<Rightarrow> source_request \<Rightarrow> string \<Rightarrow> ('i, 'd, 'p, bool option) gm" where
  "claim_request g q eid =
     (case (sq_idempotency_key q, gy_idem g) of
        (Some k, Some ops) \<Rightarrow>
          if k = [] then eret None
          else ebind (gw_now g) (\<lambda>now w.
            case io_claim ops now (idem_key q k) eid (gw_idem w) of (won, i) \<Rightarrow> (Inr (Some won), w\<lparr>gw_idem := i\<rparr>))
      | _ \<Rightarrow> eret None)"

definition existing_claim :: "('i, 'd, 'p) gateway \<Rightarrow> source_request \<Rightarrow> ('i, 'd, 'p, string option) gm" where
  "existing_claim g q =
     (case (sq_idempotency_key q, gy_idem g) of
        (Some k, Some ops) \<Rightarrow>
          ebind (eget gw_idem) (\<lambda>i. ebind (elift (io_get ops (idem_key q k) i)) (\<lambda>r. eret (map_option ir_event_id r)))
      | _ \<Rightarrow> eret None)"

definition release_request :: "('i, 'd, 'p) gateway \<Rightarrow> source_request \<Rightarrow> bool option \<Rightarrow> string \<Rightarrow> ('i, 'd, 'p, unit) gm" where
  "release_request g q claimed eid =
     (case (claimed, sq_idempotency_key q, gy_idem g) of
        (Some True, Some k, Some ops) \<Rightarrow> emod (\<lambda>w. w\<lparr>gw_idem := snd (io_release ops (idem_key q k) eid (gw_idem w))\<rparr>)
      | _ \<Rightarrow> eret ())"

definition on_store :: "('d \<Rightarrow> (py_exn + 'a) \<times> 'd) \<Rightarrow> ('i, 'd, 'p, 'a) gm" where
  "on_store f = (\<lambda>w. case f (gw_store w) of (r, d) \<Rightarrow> (r, w\<lparr>gw_store := d\<rparr>))"

definition commit_request :: "('i, 'd, 'p) gateway \<Rightarrow> raw_evidence \<Rightarrow> source_event \<Rightarrow> ('i, 'd, 'p, bool) gm" where
  "commit_request g e ev =
     (case si_commit (gy_sink g) of
        Some f \<Rightarrow> on_store (f e ev)
      | None \<Rightarrow>
          ebind (case si_evidence (gy_sink g) of None \<Rightarrow> eret True | Some f \<Rightarrow> on_store (f e)) (\<lambda>accepted.
          ebind (case si_outbox (gy_sink g) of None \<Rightarrow> eret True | Some f \<Rightarrow> on_store (f ev)) (\<lambda>outbox_ok.
          if accepted \<and> \<not> outbox_ok
          then eraise (Exn RuntimeError ''evidence committed but outbox append failed; use SQLiteSourceLedger for atomicity'')
          else eret accepted)))"

definition canonical_event_of :: "source_request \<Rightarrow> raw_evidence \<Rightarrow> source_event \<Rightarrow> timestamp \<Rightarrow> canonical_event" where
  "canonical_event_of q e ev now =
     \<lparr>ce_event_id = sv_event_id ev, ce_tenant_id = sq_tenant_id q, ce_workspace_id = sq_workspace_id q,
      ce_source_id = sq_source_id q, ce_source_record_id = sq_source_record_id q,
      ce_event_type = ''source.raw_evidence.created'', ce_payload = sq_payload q, ce_payload_hash = rv_payload_hash e,
      ce_observed_at = now, ce_schema_version = sq_schema_version q, ce_connector_version = sq_connector_version q,
      ce_metadata = []\<rparr>"

definition response_of :: "bool \<Rightarrow> raw_evidence \<Rightarrow> source_event \<Rightarrow> string option \<Rightarrow> source_response" where
  "response_of ok e ev reason =
     \<lparr>sr_accepted = ok, sr_evidence_id = rv_evidence_id e, sr_event_id = sv_event_id ev,
      sr_payload_hash = rv_payload_hash e, sr_reason = reason\<rparr>"

definition run_pipeline ::
  "('i, 'd, 'p) gateway \<Rightarrow> source_request \<Rightarrow> raw_evidence \<Rightarrow> source_event \<Rightarrow> bool \<Rightarrow> ('i, 'd, 'p, source_response) gm" where
  "run_pipeline g q e ev verified =
     (case gy_pipeline g of
        None \<Rightarrow> eret (response_of True e ev None)
      | Some process \<Rightarrow>
          ebind (gw_now g) (\<lambda>now w.
            case process (canonical_event_of q e ev now) verified (gw_pipe w) of
              (Inl x, p) \<Rightarrow> (Inl x, w\<lparr>gw_pipe := p\<rparr>)
            | (Inr r, p) \<Rightarrow> (Inr (response_of True e ev (if pr_accepted r then None else pr_reason r)), w\<lparr>gw_pipe := p\<rparr>)))"

definition store_request ::
  "('i, 'd, 'p) gateway \<Rightarrow> source_request \<Rightarrow> raw_evidence \<Rightarrow> source_event \<Rightarrow> bool option \<Rightarrow> bool \<Rightarrow> ('i, 'd, 'p, source_response) gm" where
  "store_request g q e ev claimed verified =
     ebind (etry (commit_request g e ev)
             (\<lambda>x. eseq (release_request g q claimed (sv_event_id ev)) (eraise x))) (\<lambda>accepted.
     if \<not> accepted
     then eseq (release_request g q claimed (sv_event_id ev)) (eret (response_of False e ev (Some ''duplicate_evidence'')))
     else run_pipeline g q e ev verified)"

definition verify_credential :: "('i, 'd, 'p) gateway \<Rightarrow> source_request \<Rightarrow> ('i, 'd, 'p, bool) gm" where
  "verify_credential g q =
     (case (sq_credential q, gy_resolver g) of
        (Some r, Some _) \<Rightarrow>
          eseq (resolve_credential g r \<lparr>ts_tenant_id = sq_tenant_id q, ts_workspace_id = sq_workspace_id q\<rparr>) (eret True)
      | _ \<Rightarrow> eret False)"

text \<open>From the idempotency claim on.\<close>

definition claim_and_store ::
  "('i, 'd, 'p) gateway \<Rightarrow> source_request \<Rightarrow> raw_evidence \<Rightarrow> source_event \<Rightarrow> bool \<Rightarrow> ('i, 'd, 'p, source_response) gm" where
  "claim_and_store g q e ev verified =
     ebind (claim_request g q (sv_event_id ev)) (\<lambda>claimed.
     if claimed = Some False
     then ebind (existing_claim g q) (\<lambda>old.
       eret \<lparr>sr_accepted = False,
             sr_evidence_id = (case old of Some x \<Rightarrow> x | None \<Rightarrow> rv_evidence_id e),
             sr_event_id = (case old of Some x \<Rightarrow> x | None \<Rightarrow> sv_event_id ev),
             sr_payload_hash = rv_payload_hash e, sr_reason = Some ''duplicate_idempotency''\<rparr>)
     else store_request g q e ev claimed verified)"

definition gw_ingest :: "('i, 'd, 'p) gateway \<Rightarrow> source_request \<Rightarrow> ('i, 'd, 'p, source_response) gm" where
  "gw_ingest g q =
     ebind (verify_credential g q) (\<lambda>verified.
     ebind (allow_request g q) (\<lambda>allowed.
     if \<not> allowed then eret (refusal ''rate_limited'')
     else ebind (admit_request g q) (\<lambda>reason.
     case reason of
       Some x \<Rightarrow> eret (refusal x)
     | None \<Rightarrow>
        ebind (build_evidence g q) (\<lambda>e.
        ebind (build_event g q e) (\<lambda>ev.
        claim_and_store g q e ev verified)))))"

section \<open>Webhooks\<close>

record webhook_policy =
  wp_secret :: string
  wp_max_age_seconds :: int
  wp_prefix :: string

definition mk_webhook_policy :: "string \<Rightarrow> int \<Rightarrow> string \<Rightarrow> string \<Rightarrow> py_exn + webhook_policy" where
  "mk_webhook_policy secret age algorithm prefix =
     (if secret = [] then Inl (Exn ValueError ''webhook secret must not be empty'')
      else if algorithm \<noteq> ''sha256'' then Inl (Exn ValueError ''only sha256 webhook signatures are supported'')
      else if age \<le> 0 then Inl (Exn ValueError ''max_age_seconds must be positive'')
      else Inr \<lparr>wp_secret = secret, wp_max_age_seconds = age, wp_prefix = prefix\<rparr>)"

definition removeprefix :: "string \<Rightarrow> string \<Rightarrow> string" where
  "removeprefix p s = (if take (length p) s = p then drop (length p) s else s)"

text \<open>
  \<open>float(timestamp)\<close>, the clock and HMAC are arguments; a signature is ASCII. The text may denote a number, an infinity, whose
  distance is larger than any age, or a NaN, for which the comparison with the age is false. A claim is made
  only under a valid signature.
\<close>

datatype parsed_float = Finite rat | Infinity | NaN

record 'r webhook_security =
  wk_policy :: webhook_policy
  wk_float :: "string \<Rightarrow> parsed_float option"
  wk_hmac :: "string \<Rightarrow> string \<Rightarrow> string"
  wk_replay :: "'r idem_ops option"

fun too_old :: "int \<Rightarrow> rat \<Rightarrow> parsed_float \<Rightarrow> bool" where
  "too_old max_age clock_now (Finite observed) \<longleftrightarrow> \<bar>fl (clock_now - observed)\<bar> > of_int max_age"
| "too_old max_age clock_now Infinity \<longleftrightarrow> True"
| "too_old max_age clock_now NaN \<longleftrightarrow> False"

definition webhook_verify ::
  "'r webhook_security \<Rightarrow> rat \<Rightarrow> timestamp \<Rightarrow> string \<Rightarrow> string \<Rightarrow> string \<Rightarrow> claim_key \<Rightarrow> 'r \<Rightarrow> bool \<times> 'r" where
  "webhook_verify k clock_now now payload signature ts key t =
     (case wk_float k ts of
        None \<Rightarrow> (False, t)
      | Some observed \<Rightarrow>
         if too_old (wp_max_age_seconds (wk_policy k)) clock_now observed then (False, t)
         else if removeprefix (wp_prefix (wk_policy k)) signature \<noteq> wk_hmac k (wp_secret (wk_policy k)) (ts @ ''.'' @ payload)
         then (False, t)
         else (case wk_replay k of
                 None \<Rightarrow> (True, t)
               | Some ops \<Rightarrow> io_claim ops now key (snd (snd key)) t))"

definition webhook_release :: "'r webhook_security \<Rightarrow> claim_key \<Rightarrow> 'r \<Rightarrow> bool \<times> 'r" where
  "webhook_release k key t =
     (case wk_replay k of None \<Rightarrow> (False, t) | Some ops \<Rightarrow> io_release ops key (snd (snd key)) t)"

record webhook_request =
  wq_tenant_id :: string
  wq_workspace_id :: string
  wq_source_id :: string
  wq_record_id :: string
  wq_body :: string
  wq_signature :: string
  wq_timestamp :: string
  wq_idempotency_key :: string

definition mk_webhook_request :: "webhook_request \<Rightarrow> py_exn + webhook_request" where
  "mk_webhook_request q =
     (if wq_tenant_id q = [] \<or> wq_workspace_id q = [] \<or> wq_source_id q = []
      then Inl (Exn ValueError ''webhook tenant, workspace, and source are required'')
      else if wq_record_id q = [] \<or> wq_idempotency_key q = []
      then Inl (Exn ValueError ''webhook record and idempotency keys are required'')
      else Inr q)"

definition webhook_key :: "webhook_request \<Rightarrow> claim_key" where
  "webhook_key q = (wq_tenant_id q, wq_workspace_id q, wq_idempotency_key q)"

text \<open>The body is decoded and parsed by \<open>parse\<close>; \<open>event_type\<close> is \<open>str(payload.get("type", "source.webhook"))\<close>.\<close>

definition webhook_source_request :: "(pyval \<Rightarrow> string) \<Rightarrow> webhook_request \<Rightarrow> pydict \<Rightarrow> source_request" where
  "webhook_source_request show_val q payload =
     post_init \<lparr>sq_tenant_id = wq_tenant_id q, sq_workspace_id = wq_workspace_id q, sq_source_type = [],
       sq_source_record_id = wq_record_id q, sq_payload = payload, sq_credential = None,
       sq_connector_version = ''webhook-v2'', sq_schema_version = ''source.event.v1'', sq_source_id = wq_source_id q,
       sq_provenance = None,
       sq_event_type = (case map_of payload ''type'' of None \<Rightarrow> ''source.webhook'' | Some v \<Rightarrow> show_val v),
       sq_idempotency_key = Some (wq_idempotency_key q), sq_observed_at = None, sq_rate_limit_lease = None\<rparr>"

record adapter_result =
  ar_source_id :: string
  ar_records :: nat
  ar_evidence_ids :: "string list"
  ar_event_ids :: "string list"
  ar_payload_hashes :: "string list"

definition webhook_result :: "webhook_request \<Rightarrow> source_response \<Rightarrow> adapter_result" where
  "webhook_result q r =
     (if sr_accepted r
      then \<lparr>ar_source_id = wq_source_id q, ar_records = 1, ar_evidence_ids = [sr_evidence_id r],
            ar_event_ids = [sr_event_id r], ar_payload_hashes = [sr_payload_hash r]\<rparr>
      else \<lparr>ar_source_id = wq_source_id q, ar_records = 0, ar_evidence_ids = [], ar_event_ids = [], ar_payload_hashes = []\<rparr>)"

text \<open>
  \<open>WebhookGateway.receive\<close>. Its replay store and the idempotency store of the gateway both act on \<open>gw_idem\<close>: they may be
  one store (one table, in PostgreSQL), either may be absent, or they are two stores that have nothing to do with each
  other, when \<open>gw_idem\<close> is a pair and each acts on its own component.
\<close>

record ('i, 'd, 'p) webhook_gateway =
  wg_gateway :: "('i, 'd, 'p) gateway"
  wg_security :: "'i webhook_security"
  wg_max_body_bytes :: int
  wg_parse :: "string \<Rightarrow> pyval option"
  wg_show :: "pyval \<Rightarrow> string"

definition webhook_receive ::
  "('i, 'd, 'p) webhook_gateway \<Rightarrow> rat \<Rightarrow> webhook_request \<Rightarrow> ('i, 'd, 'p, adapter_result) gm" where
  "webhook_receive h clock_now q =
     (if int (length (wq_body q)) > wg_max_body_bytes h
      then eraise (Exn ValueError ''webhook payload exceeds configured size limit'')
      else ebind (gw_now (wg_gateway h)) (\<lambda>now.
        ebind (\<lambda>w. case webhook_verify (wg_security h) clock_now now (wq_body q) (wq_signature q) (wq_timestamp q)
                           (webhook_key q) (gw_idem w) of (ok, i) \<Rightarrow> (Inr ok, w\<lparr>gw_idem := i\<rparr>)) (\<lambda>ok.
        if \<not> ok then eraise (Exn PermissionError ''invalid or replayed webhook'')
        else case wg_parse h (wq_body q) of
          None \<Rightarrow> eraise (Exn ValueError ''webhook payload must be valid JSON'')
        | Some (PDict payload) \<Rightarrow>
            ebind (etry (gw_ingest (wg_gateway h) (webhook_source_request (wg_show h) q payload))
                     (\<lambda>x. eseq (emod (\<lambda>w. w\<lparr>gw_idem := snd (webhook_release (wg_security h) (webhook_key q) (gw_idem w))\<rparr>))
                               (eraise x)))
                  (\<lambda>r. eret (webhook_result q r))
        | Some _ \<Rightarrow> eraise (Exn ValueError ''webhook payload must be a JSON object''))))"

end
