(* ===== verification/Gateway_Properties.thy ===== *)
theory Gateway_Properties
  imports Source_Gateway
begin

text \<open>
  Properties of the source gateway: what an ingestion does to the stores. The proofs about idempotency keys are
  made once, in a locale over the contract \<open>claim_store\<close>, and interpreted on gateways with the SQLite and the
  PostgreSQL store.
\<close>

section \<open>The parts of an ingestion\<close>

definition core :: "('i, 'd, 'p) gw_world \<Rightarrow> 'i \<times> 'd" where
  "core w = (gw_idem w, gw_store w)"

definition accepted :: "py_exn + source_response \<Rightarrow> bool" where
  "accepted r \<longleftrightarrow> (case r of Inl _ \<Rightarrow> False | Inr x \<Rightarrow> sr_accepted x)"

lemma accepted_simps [simp]: "\<not> accepted (Inl e)" "accepted (Inr x) = sr_accepted x"
  by (simp_all add: accepted_def)

lemma clocks_frame:
  "confined (same core) (gw_now g)" "confined (same core) (gw_uuid4 g)" "confined (same core) (gw_mono g)"
  by (simp_all add: confined_def same_def gw_now_def gw_uuid4_def gw_mono_def core_def)

lemma emod_core: "(\<And>w. core (f w) = core w) \<Longrightarrow> confined (same core) (emod f)"
  by (rule frame.confined_emod) (simp add: same_def)

lemmas core_rules = frame.confined_rules clocks_frame emod_core

lemma verify_credential_core: "confined (same core) (verify_credential g q)"
  unfolding verify_credential_def resolve_credential_def
  by (auto intro!: core_rules split: option.splits)

lemma allow_request_core: "confined (same core) (allow_request g q)"
  unfolding allow_request_def
  by (intro core_rules) (auto simp: confined_def same_def core_def split: prod.splits sum.splits)

lemma bucket_of_core: "confined (same core) (bucket_of k g)"
  unfolding bucket_of_def
  by (intro core_rules) (auto simp: confined_def same_def core_def split: option.splits prod.splits)

lemma admit_request_core: "confined (same core) (admit_request g q)"
  unfolding admit_request_def acquire_rate_limit_def
  by (intro core_rules bucket_of_core) (simp_all add: core_def)

lemma build_evidence_core: "confined (same core) (build_evidence g q)"
  unfolding build_evidence_def Let_def by (intro core_rules)

lemma build_event_core: "confined (same core) (build_event g q e)"
  unfolding build_event_def by (intro core_rules)

text \<open>The evidence and the event that are built for a request.\<close>

definition built_for :: "('i, 'd, 'p) gateway \<Rightarrow> source_request \<Rightarrow> raw_evidence \<Rightarrow> source_event \<Rightarrow> bool" where
  "built_for g q e ev \<longleftrightarrow>
     rv_payload e = PDict (sq_payload q) \<and> rv_payload_hash e = canonical_hash (gy_hash g) (PDict (sq_payload q))
     \<and> rv_evidence_id e = gy_uuid5 g (evidence_name q (rv_payload_hash e))
     \<and> rv_tenant_id e = sq_tenant_id q \<and> rv_workspace_id e = sq_workspace_id q \<and> rv_source_id e = sq_source_id q
     \<and> rv_source_record_id e = sq_source_record_id q
     \<and> sv_event_id ev = gy_uuid5 g (''source-outbox:'' @ rv_evidence_id e) \<and> sv_aggregate_id ev = rv_evidence_id e
     \<and> sv_tenant_id ev = sq_tenant_id q \<and> sv_workspace_id ev = sq_workspace_id q"

lemma built_for_built:
  assumes "build_evidence g q w = (Inr e, w1)" and "build_event g q e w2 = (Inr ev, w3)"
  shows "built_for g q e ev"
  using assms
  by (auto simp: build_evidence_def build_event_def em_simps Let_def built_for_def gw_now_def gw_uuid4_def
           split: option.splits)

text \<open>An ingestion is refused with the stores untouched, or reaches the claim.\<close>

lemma gw_ingest_cases:
  assumes "gw_ingest g q w = (r, w')"
  obtains (refused) "core w' = core w" "\<not> accepted r"
  | (stored) e ev verified w1 where "core w1 = core w" "built_for g q e ev"
      "claim_and_store g q e ev verified w1 = (r, w')"
proof -
  obtain rc wc where c: "verify_credential g q w = (rc, wc)" by fastforce
  have cc: "core wc = core w" using confinedD' [OF verify_credential_core c] by (simp add: same_def)
  show ?thesis
  proof (cases rc)
    case (Inl x)
    then show ?thesis using refused c cc assms by (auto simp: gw_ingest_def em_simps)
  next
    case verified: (Inr v)
    obtain ra wa where a: "allow_request g q wc = (ra, wa)" by fastforce
    have ca: "core wa = core w" using confinedD' [OF allow_request_core a] cc by (simp add: same_def)
    show ?thesis
    proof (cases "ra = Inr True")
      case False
      then show ?thesis
        using refused c verified a ca assms
        by (cases ra) (auto simp: gw_ingest_def em_simps refusal_def)
    next
      case True
      obtain rm wm where m: "admit_request g q wa = (rm, wm)" by fastforce
      have cm: "core wm = core w" using confinedD' [OF admit_request_core m] ca by (simp add: same_def)
      show ?thesis
      proof (cases "rm = Inr None")
        case False
        then show ?thesis
          using refused c verified a True m cm assms
          by (cases rm) (auto simp: gw_ingest_def em_simps refusal_def split: option.splits)
      next
        case admitted: True
        obtain re we where e: "build_evidence g q wm = (re, we)" by fastforce
        have ce: "core we = core w" using confinedD' [OF build_evidence_core e] cm by (simp add: same_def)
        obtain x where x: "re = Inr x"
          using e by (auto simp: build_evidence_def em_simps gw_now_def gw_uuid4_def Let_def split: option.splits)
        obtain rv wv where v: "build_event g q x we = (rv, wv)" by fastforce
        have cv: "core wv = core w" using confinedD' [OF build_event_core v] ce by (simp add: same_def)
        obtain y where y: "rv = Inr y" using v by (auto simp: build_event_def em_simps gw_now_def)
        show ?thesis
          using stored [OF cv built_for_built] c verified a True m admitted e x v y assms
          by (auto simp: gw_ingest_def em_simps)
      qed
    qed
  qed
qed

section \<open>The store\<close>

lemma claim_request_effect:
  assumes "claim_request g q eid w = (r, w1)"
  shows "gw_store w1 = gw_store w" and "\<exists>c. r = Inr c"
  using assms
  by (auto simp: claim_request_def em_simps gw_now_def split: option.splits if_splits prod.splits)

lemma existing_claim_effect: "existing_claim g q w = (r, w1) \<Longrightarrow> w1 = w"
  by (auto simp: existing_claim_def em_simps split: option.splits sum.splits)

lemma release_request_effect:
  "\<exists>w1. release_request g q c eid w = (Inr (), w1) \<and> gw_store w1 = gw_store w"
  by (auto simp: release_request_def em_simps split: option.splits bool.splits)

lemma run_pipeline_effect:
  assumes "run_pipeline g q e ev v w = (r, w1)"
  shows "core w1 = core w" and "\<And>x. r = Inr x \<Longrightarrow> \<exists>reason. x = response_of True e ev reason"
  using assms
  by (auto simp: run_pipeline_def em_simps gw_now_def core_def split: option.splits sum.splits prod.splits)

text \<open>With a ledger that commits evidence and event together: nothing is stored, or the commit is the whole effect.\<close>

lemma claim_and_store_store:
  assumes f: "si_commit (gy_sink g) = Some f" and run: "claim_and_store g q e ev v w = (r, w')"
  obtains (kept) "gw_store w' = gw_store w" "\<not> accepted r"
  | (commit) rf where "f e ev (gw_store w) = (rf, gw_store w')" "rf \<noteq> Inr True \<Longrightarrow> \<not> accepted r"
      "\<And>x. r = Inr x \<Longrightarrow> \<exists>ok reason. x = response_of ok e ev reason \<and> (ok \<longleftrightarrow> rf = Inr True)"
proof -
  obtain rc w1 where c: "claim_request g q (sv_event_id ev) w = (rc, w1)" by fastforce
  obtain cl where cl: "rc = Inr cl" and st: "gw_store w1 = gw_store w" using claim_request_effect [OF c] by blast
  show ?thesis
  proof (cases "cl = Some False")
    case True
    obtain ro w2 where o: "existing_claim g q w1 = (ro, w2)" by fastforce
    then show ?thesis
      using kept run c cl st True existing_claim_effect [OF o]
      by (cases ro) (auto simp: claim_and_store_def em_simps)
  next
    case False
    obtain rf d where d: "f e ev (gw_store w1) = (rf, d)" by fastforce
    let ?w2 = "w1\<lparr>gw_store := d\<rparr>"
    obtain w3 where r3: "release_request g q cl (sv_event_id ev) ?w2 = (Inr (), w3)" and w3: "gw_store w3 = d"
      using release_request_effect [of g q cl "sv_event_id ev" ?w2] by auto
    have sr: "store_request g q e ev cl v w1 = (r, w')" using run c cl False by (simp add: claim_and_store_def em_simps)
    consider (err) x where "rf = Inl x" | (dup) "rf = Inr False" | (ok) "rf = Inr True" by (cases rf) auto
    then show ?thesis
    proof cases
      case ok
      have "run_pipeline g q e ev v ?w2 = (r, w')"
        using sr ok d by (simp add: store_request_def commit_request_def f on_store_def em_simps)
      from run_pipeline_effect [OF this] show ?thesis
        using commit d st ok by (auto simp: core_def)
    qed (use commit sr d st r3 w3 in \<open>auto simp: store_request_def commit_request_def f on_store_def em_simps response_of_def\<close>)
  qed
qed

definition ledger_ok :: "text_hash \<Rightarrow> lite_ledger \<Rightarrow> bool" where
  "ledger_ok h db \<longleftrightarrow>
     map rr_evidence_id (ll_evidence db) = map sx_aggregate_id (ll_outbox db)
     \<and> sorted_wrt (\<lambda>a b. \<not> raw_conflict a b) (ll_evidence db) \<and> distinct (map sx_event_id (ll_outbox db))
     \<and> (\<forall>r \<in> set (ll_evidence db). rr_payload_hash r = h (rr_payload r))"

lemma raw_conflict_sym: "raw_conflict a b \<longleftrightarrow> raw_conflict b a"
  by (auto simp: raw_conflict_def)

lemma ledger_ok_distinct:
  assumes "ledger_ok h db" shows "distinct (map rr_evidence_id (ll_evidence db))"
proof -
  have "sorted_wrt (\<lambda>a b. rr_evidence_id a \<noteq> rr_evidence_id b) (ll_evidence db)"
    using assms sorted_wrt_mono_rel [of "ll_evidence db" "\<lambda>a b. \<not> raw_conflict a b"]
    by (auto simp: ledger_ok_def raw_conflict_def)
  then show ?thesis by (simp add: distinct_conv_nth sorted_wrt_iff_nth_less) (metis linorder_neqE_nat)
qed

text \<open>A commit either leaves the ledger alone or appends one row and its one unpublished event.\<close>

lemma lite_commit_ingest_effect:
  assumes "lite_commit_ingest sc h e ev db = (r, db')"
  obtains (kept) "db' = db" "r \<noteq> Inr True"
  | (appended) row where "r = Inr True" "\<not> list_ex (raw_conflict (raw_row_of sc e)) (ll_evidence db)"
      "sv_event_id ev \<notin> sx_event_id ` set (ll_outbox db)" "canonical_hash h (rv_payload e) = rv_payload_hash e"
      "ll_evidence db' = ll_evidence db @ [raw_row_of sc e]" "ll_outbox db' = ll_outbox db @ [row]"
      "sx_event_id row = sv_event_id ev" "sx_aggregate_id row = sv_aggregate_id ev" "sx_published_at row = None"
proof (cases "r = Inr True")
  case False
  then show ?thesis using kept assms by (simp add: lite_commit_ingest_def source_append_def split: if_splits prod.splits bool.splits)
next
  case True
  then show ?thesis using assms appended by (fastforce simp: lite_commit_ingest_def source_append_def list_ex_iff split: if_splits)
qed

lemma lite_commit_ingest_ok:
  assumes "ledger_ok h db" and "lite_commit_ingest sc h e ev db = (r, db')" and "sv_aggregate_id ev = rv_evidence_id e"
  shows "ledger_ok h db'"
  using assms(2)
proof (cases rule: lite_commit_ingest_effect)
  case (appended row)
  have "rr_payload_hash (raw_row_of sc e) = h (rr_payload (raw_row_of sc e))"
    using appended by (simp add: raw_row_of_def canonical_hash_def)
  then show ?thesis
    using assms(1,3) appended
    by (auto simp: ledger_ok_def sorted_wrt_append list_ex_iff raw_conflict_sym [of "raw_row_of sc e"]) (simp add: raw_row_of_def)
qed (use assms in simp)

lemma lite_ledger_publish_ok: "ledger_ok h db \<Longrightarrow> ledger_ok h (lite_ledger_publish now_text eid db)"
  by (simp add: ledger_ok_def lite_ledger_publish_def mark_published_def comp_def if_distrib cong: if_cong)

text \<open>The worlds of a gateway that started on an empty ledger: requests are served and events published, in any order.\<close>

inductive served :: "('i, lite_ledger, 'p) gateway \<Rightarrow> ('i, lite_ledger, 'p) gw_world \<Rightarrow> bool" for g where
  start: "gw_store w = \<lparr>ll_evidence = [], ll_outbox = []\<rparr> \<Longrightarrow> served g w"
| ingest: "served g w \<Longrightarrow> served g (snd (gw_ingest g q w))"
| publish: "served g w \<Longrightarrow> served g (w\<lparr>gw_store := lite_ledger_publish now_text eid (gw_store w)\<rparr>)"

lemma gw_ingest_ledger_ok:
  assumes sink: "gy_sink g = lite_sink sc h" and ok: "ledger_ok h (gw_store w)" and run: "gw_ingest g q w = (r, w')"
  shows "ledger_ok h (gw_store w')"
  using run
proof (cases rule: gw_ingest_cases)
  case refused
  then show ?thesis using ok by (simp add: core_def)
next
  case (stored e ev v w1)
  have st: "gw_store w1 = gw_store w" using stored(1) by (simp add: core_def)
  have f: "si_commit (gy_sink g) = Some (lite_commit_ingest sc h)" by (simp add: sink lite_sink_def)
  from f stored(3) show ?thesis
  proof (cases rule: claim_and_store_store)
    case (commit rf)
    then show ?thesis using lite_commit_ingest_ok ok st stored(2) by (metis built_for_def)
  qed (use ok st in simp)
qed

lemma served_ok:
  assumes "served g w" and "gy_sink g = lite_sink sc h"
  shows "ledger_ok h (gw_store w)"
  using assms
proof (induction rule: served.induct)
  case (start w)
  then show ?case by (simp add: ledger_ok_def)
next
  case (ingest w q)
  then show ?case using gw_ingest_ledger_ok by (metis prod.collapse)
qed (simp add: lite_ledger_publish_ok)

section \<open>At most once\<close>

text \<open>
  Serving a list of requests one after another, an exception being the answer to its own request only. If a
  request that succeeds needs a key to be free and leaves it taken, and a taken key stays taken, one request
  at most succeeds.
\<close>

fun serve_all :: "('q \<Rightarrow> 's \<Rightarrow> 'r \<times> 's) \<Rightarrow> 'q list \<Rightarrow> 's \<Rightarrow> ('q \<times> 'r) list" where
  "serve_all step [] s = []"
| "serve_all step (q # qs) s = (case step q s of (r, s') \<Rightarrow> (q, r) # serve_all step qs s')"

locale taken_once =
  fixes step :: "'q \<Rightarrow> 's \<Rightarrow> 'r \<times> 's"
    and inv :: "'s \<Rightarrow> bool"
    and taken :: "'s \<Rightarrow> 'k \<Rightarrow> bool"
    and hits :: "'k \<Rightarrow> 'q \<Rightarrow> 'r \<Rightarrow> bool"
  assumes inv_step: "inv s \<Longrightarrow> step q s = (r, s') \<Longrightarrow> inv s'"
    and taken_step: "inv s \<Longrightarrow> step q s = (r, s') \<Longrightarrow> taken s k \<Longrightarrow> taken s' k"
    and hits_free: "inv s \<Longrightarrow> step q s = (r, s') \<Longrightarrow> hits k q r \<Longrightarrow> \<not> taken s k"
    and hits_takes: "inv s \<Longrightarrow> step q s = (r, s') \<Longrightarrow> hits k q r \<Longrightarrow> taken s' k"
begin

lemma none_when_taken: "inv s \<Longrightarrow> taken s k \<Longrightarrow> filter (\<lambda>(q, r). hits k q r) (serve_all step qs s) = []"
proof (induction qs arbitrary: s)
  case (Cons q qs)
  obtain r s' where "step q s = (r, s')" by fastforce
  then show ?case using Cons inv_step taken_step hits_free by auto
qed simp

lemma at_most_one: "inv s \<Longrightarrow> length (filter (\<lambda>(q, r). hits k q r) (serve_all step qs s)) \<le> 1"
proof (induction qs arbitrary: s)
  case (Cons q qs)
  obtain r s' where st: "step q s = (r, s')" by fastforce
  show ?case
  proof (cases "hits k q r")
    case True
    then show ?thesis using st Cons.prems inv_step hits_takes none_when_taken [of s' k qs] by simp
  next
    case False
    then show ?thesis using st Cons inv_step by simp
  qed
qed simp

end

subsection \<open>The claims of an ingestion\<close>

locale idem_contract = claim_store invar owner "io_claim ops" "io_release ops"
  for invar :: "'i \<Rightarrow> bool" and owner and ops :: "'i idem_ops"
begin

definition retains :: "'i \<Rightarrow> 'i \<Rightarrow> bool" where
  "retains i j \<longleftrightarrow> (invar i \<longrightarrow> invar j \<and> (\<forall>k. owner i k \<noteq> None \<longrightarrow> owner j k = owner i k))"

lemma retains_refl: "retains i i"
  by (simp add: retains_def)

lemma claim_retains: "retains i (snd (io_claim ops now k e i))"
  by (simp add: retains_def claim_invar claim_owner)

text \<open>A claim that is released again by the one who won it.\<close>

lemma claim_release_retains:
  "fst (io_claim ops now k e i) \<Longrightarrow> retains i (snd (io_release ops k e (snd (io_claim ops now k e i))))"
  by (simp add: retains_def release_undoes_claim release_invar claim_invar)

text \<open>Where the gateway has this store or none.\<close>

lemma claim_request_idem:
  assumes "gy_idem g \<in> {None, Some ops}" and "claim_request g q eid w = (Inr c, w1)"
  obtains (unclaimed) "gw_idem w1 = gw_idem w" "c = None" "gy_idem g = None \<or> sq_idempotency_key q \<in> {None, Some []}"
  | (claimed) now k won where "sq_idempotency_key q = Some k" "k \<noteq> []" "gy_idem g = Some ops" "c = Some won"
      "io_claim ops now (idem_key q k) eid (gw_idem w) = (won, gw_idem w1)"
  using assms
  by (auto simp: claim_request_def em_simps gw_now_def split: option.splits if_splits prod.splits)

lemma release_request_idem:
  assumes "gy_idem g \<in> {None, Some ops}"
  shows "gw_idem (snd (release_request g q c eid w)) =
    (case (c, sq_idempotency_key q, gy_idem g) of
       (Some True, Some k, Some _) \<Rightarrow> snd (io_release ops (idem_key q k) eid (gw_idem w)) | _ \<Rightarrow> gw_idem w)"
  using assms by (auto simp: release_request_def em_simps split: option.splits bool.splits)

text \<open>After the claim: the claim is kept, or given back with a refusal.\<close>

lemma store_request_idem:
  assumes "store_request g q e ev c v w = (r, w')"
  obtains (held) "gw_idem w' = gw_idem w"
  | (freed) w2 where "gw_idem w2 = gw_idem w" "gw_idem w' = gw_idem (snd (release_request g q c (sv_event_id ev) w2))" "\<not> accepted r"
proof -
  obtain rf w2 where f: "commit_request g e ev w = (rf, w2)" by fastforce
  have i2: "gw_idem w2 = gw_idem w"
    using f by (auto simp: commit_request_def on_store_def em_simps split: option.splits prod.splits sum.splits if_splits)
  obtain w3 where r3: "release_request g q c (sv_event_id ev) w2 = (Inr (), w3)"
    using release_request_effect by blast
  consider (err) x where "rf = Inl x" | (dup) "rf = Inr False" | (ok) "rf = Inr True" by (cases rf) auto
  then show ?thesis
  proof cases
    case ok
    then have "run_pipeline g q e ev v w2 = (r, w')" using assms f by (simp add: store_request_def em_simps)
    then show ?thesis using held i2 run_pipeline_effect(1) by (metis core_def prod.inject)
  qed (use freed [OF i2] assms f r3 in \<open>auto simp: store_request_def em_simps response_of_def\<close>)
qed

lemma claim_and_store_idem:
  assumes g: "gy_idem g \<in> {None, Some ops}" and run: "claim_and_store g q e ev v w = (r, w')" and i: "invar (gw_idem w)"
  shows "retains (gw_idem w) (gw_idem w')"
    and "gy_idem g = Some ops \<Longrightarrow> sq_idempotency_key q = Some k \<Longrightarrow> k \<noteq> [] \<Longrightarrow> accepted r \<Longrightarrow>
         owner (gw_idem w) (idem_key q k) = None \<and> owner (gw_idem w') (idem_key q k) \<noteq> None"
proof -
  obtain rc w1 where rc: "claim_request g q (sv_event_id ev) w = (rc, w1)" by fastforce
  obtain c where cl: "claim_request g q (sv_event_id ev) w = (Inr c, w1)" using claim_request_effect(2) [OF rc] rc by auto
  have "retains (gw_idem w) (gw_idem w') \<and> (gy_idem g = Some ops \<longrightarrow> sq_idempotency_key q = Some k \<longrightarrow> k \<noteq> [] \<longrightarrow> accepted r \<longrightarrow>
         owner (gw_idem w) (idem_key q k) = None \<and> owner (gw_idem w') (idem_key q k) \<noteq> None)"
    using g cl
  proof (cases rule: claim_request_idem)
    case unclaimed
    have "store_request g q e ev None v w1 = (r, w')" using run cl unfolding unclaimed(2) by (simp add: claim_and_store_def em_simps)
    then have "gw_idem w' = gw_idem w"
      using unclaimed release_request_idem [OF g, where c = None] by (cases rule: store_request_idem) auto
    then show ?thesis using unclaimed by (auto simp: retains_refl)
  next
    case (claimed now k' won)
    have won: "won \<longleftrightarrow> owner (gw_idem w) (idem_key q k') = None"
      using claim_won [OF i] claimed(5) by (metis fst_conv)
    have i1: "gw_idem w1 = snd (io_claim ops now (idem_key q k') (sv_event_id ev) (gw_idem w))" using claimed(5) by simp
    show ?thesis
    proof (cases won)
      case False
      have "gw_idem w' = gw_idem w1 \<and> \<not> accepted r"
        using run cl claimed False
        by (auto simp: claim_and_store_def em_simps dest: existing_claim_effect split: prod.splits sum.splits)
      then show ?thesis using claim_retains i1 by auto
    next
      case True
      then have "store_request g q e ev (Some True) v w1 = (r, w')" using run cl claimed by (simp add: claim_and_store_def em_simps)
      then show ?thesis
      proof (cases rule: store_request_idem)
        case held
        have "retains (gw_idem w) (gw_idem w')" using claim_retains held i1 by simp
        moreover have "owner (gw_idem w') (idem_key q k') = Some (sv_event_id ev)"
          using held i1 won True claim_owner [OF i] by simp
        ultimately show ?thesis using won True claimed(1) by auto
      next
        case (freed w2)
        then have "gw_idem w' = snd (io_release ops (idem_key q k') (sv_event_id ev) (gw_idem w1))"
          using release_request_idem [OF g] claimed by simp
        then have "retains (gw_idem w) (gw_idem w')"
          using claim_release_retains [of now "idem_key q k'" "sv_event_id ev" "gw_idem w"] claimed(5) True by simp
        then show ?thesis using freed(3) by simp
      qed
    qed
  qed
  then show "retains (gw_idem w) (gw_idem w')"
    and "gy_idem g = Some ops \<Longrightarrow> sq_idempotency_key q = Some k \<Longrightarrow> k \<noteq> [] \<Longrightarrow> accepted r \<Longrightarrow>
         owner (gw_idem w) (idem_key q k) = None \<and> owner (gw_idem w') (idem_key q k) \<noteq> None"
    by blast+
qed

lemma gw_ingest_idem:
  assumes g: "gy_idem g \<in> {None, Some ops}" and run: "gw_ingest g q w = (r, w')" and i: "invar (gw_idem w)"
  shows "retains (gw_idem w) (gw_idem w')"
    and "gy_idem g = Some ops \<Longrightarrow> sq_idempotency_key q = Some k \<Longrightarrow> k \<noteq> [] \<Longrightarrow> accepted r \<Longrightarrow>
         owner (gw_idem w) (idem_key q k) = None \<and> owner (gw_idem w') (idem_key q k) \<noteq> None"
proof -
  consider "gw_idem w' = gw_idem w" "\<not> accepted r"
    | e ev v w1 where "gw_idem w1 = gw_idem w" "claim_and_store g q e ev v w1 = (r, w')"
    using gw_ingest_cases [OF run] by (metis core_def prod.inject)
  then have both: "retains (gw_idem w) (gw_idem w') \<and> (gy_idem g = Some ops \<longrightarrow> sq_idempotency_key q = Some k \<longrightarrow> k \<noteq> [] \<longrightarrow>
      accepted r \<longrightarrow> owner (gw_idem w) (idem_key q k) = None \<and> owner (gw_idem w') (idem_key q k) \<noteq> None)"
  proof cases
    case 1
    then show ?thesis by (simp add: retains_refl)
  next
    case (2 e ev v w1)
    then show ?thesis using claim_and_store_idem [OF g 2(2)] i by auto
  qed
  then show "retains (gw_idem w) (gw_idem w')"
    and "gy_idem g = Some ops \<Longrightarrow> sq_idempotency_key q = Some k \<Longrightarrow> k \<noteq> [] \<Longrightarrow> accepted r \<Longrightarrow>
         owner (gw_idem w) (idem_key q k) = None \<and> owner (gw_idem w') (idem_key q k) \<noteq> None"
    by blast+
qed

end

text \<open>Whether a request with this key was accepted.\<close>

definition accepts_key :: "claim_key \<Rightarrow> source_request \<Rightarrow> py_exn + source_response \<Rightarrow> bool" where
  "accepts_key key q r \<longleftrightarrow> accepted r \<and>
     (case sq_idempotency_key q of None \<Rightarrow> False | Some k \<Rightarrow> k \<noteq> [] \<and> idem_key q k = key)"

locale claiming_gateway = idem_contract invar owner ops
  for invar :: "'i \<Rightarrow> bool" and owner and ops :: "'i idem_ops" +
  fixes g :: "('i, 'd, 'p) gateway"
  assumes idem: "gy_idem g = Some ops"
begin

lemma ingest_once: "taken_once (gw_ingest g) (\<lambda>w. invar (gw_idem w)) (\<lambda>w k. owner (gw_idem w) k \<noteq> None) accepts_key"
proof unfold_locales
  fix w w' :: "('i, 'd, 'p) gw_world" and q r k
  assume i: "invar (gw_idem w)" and run: "gw_ingest g q w = (r, w')"
  have g: "gy_idem g \<in> {None, Some ops}" by (simp add: idem)
  note eff = gw_ingest_idem [OF g run i]
  show "invar (gw_idem w')" using eff(1) i by (simp add: retains_def)
  show "owner (gw_idem w) k \<noteq> None \<Longrightarrow> owner (gw_idem w') k \<noteq> None"
    using eff(1) i unfolding retains_def by metis
  show "accepts_key k q r \<Longrightarrow> \<not> owner (gw_idem w) k \<noteq> None" and "accepts_key k q r \<Longrightarrow> owner (gw_idem w') k \<noteq> None"
    using eff(2) [OF idem] by (auto simp: accepts_key_def split: option.splits)
qed

end

lemma lite_contract: "idem_contract distinct_keys claim_owner_of (lite_idem sc)"
  using lite.claim_store_axioms [of sc] by (simp add: idem_contract_def lite_idem_def)

lemma pg_contract: "idem_contract distinct_keys claim_owner_of pg_idem"
  using pg.claim_store_axioms by (simp add: idem_contract_def pg_idem_def)

interpretation lite_gw: claiming_gateway distinct_keys claim_owner_of "lite_idem sc" "g\<lparr>gy_idem := Some (lite_idem sc)\<rparr>" for sc g
  by (intro claiming_gateway.intro lite_contract claiming_gateway_axioms.intro) simp

interpretation pg_gw: claiming_gateway distinct_keys claim_owner_of pg_idem "g\<lparr>gy_idem := Some pg_idem\<rparr>" for g
  by (intro claiming_gateway.intro pg_contract claiming_gateway_axioms.intro) simp

subsection \<open>The claims of a webhook\<close>

definition accepts_webhook :: "claim_key \<Rightarrow> rat \<times> webhook_request \<Rightarrow> py_exn + adapter_result \<Rightarrow> bool" where
  "accepts_webhook key cq r \<longleftrightarrow> webhook_key (snd cq) = key \<and> snd (snd key) \<noteq> [] \<and> (case r of Inl _ \<Rightarrow> False | Inr x \<Rightarrow> ar_records x = 1)"

text \<open>What a webhook must satisfy before the replay store is asked.\<close>

definition signed_by_policy :: "'r webhook_security \<Rightarrow> webhook_request \<Rightarrow> bool" where
  "signed_by_policy k q \<longleftrightarrow> removeprefix (wp_prefix (wk_policy k)) (wq_signature q)
     = wk_hmac k (wp_secret (wk_policy k)) (wq_timestamp q @ ''.'' @ wq_body q)"

definition timely :: "'r webhook_security \<Rightarrow> rat \<Rightarrow> webhook_request \<Rightarrow> bool" where
  "timely k clock_now q \<longleftrightarrow>
     wk_float k (wq_timestamp q) = Some NaN
     \<or> (\<exists>observed. wk_float k (wq_timestamp q) = Some (Finite observed)
          \<and> \<bar>fl (clock_now - observed)\<bar> \<le> of_int (wp_max_age_seconds (wk_policy k)))"

abbreviation authentic :: "'r webhook_security \<Rightarrow> rat \<Rightarrow> webhook_request \<Rightarrow> bool" where
  "authentic k clock_now q \<equiv> timely k clock_now q \<and> signed_by_policy k q"

lemma not_too_old: "\<not> too_old m c f \<longleftrightarrow> f = NaN \<or> (\<exists>x. f = Finite x \<and> \<bar>fl (c - x)\<bar> \<le> of_int m)"
  by (cases f) (auto simp: not_less)

lemma webhook_verify_cases:
  assumes "webhook_verify k c now (wq_body q) (wq_signature q) (wq_timestamp q) key t = (ok, t')"
  obtains (rejected) "\<not> ok" "t' = t"
  | (unguarded) "ok" "t' = t" "authentic k c q" "wk_replay k = None"
  | (guarded) ops where "authentic k c q" "wk_replay k = Some ops" "io_claim ops now key (snd (snd key)) t = (ok, t')"
  using assms
  by (fastforce simp: webhook_verify_def timely_def signed_by_policy_def not_too_old split: option.splits if_splits)

text \<open>A webhook is stopped with the claims as the check of its signature left them, or the gateway is asked.\<close>

lemma webhook_receive_cases:
  assumes "webhook_receive h c q w = (r, w')"
  obtains (oversize) "w' = w" "\<not> accepts_webhook key (c, q) r"
  | (stopped) now ok where "webhook_verify (wg_security h) c now (wq_body q) (wq_signature q) (wq_timestamp q) (webhook_key q) (gw_idem w) = (ok, gw_idem w')"
      "gw_store w' = gw_store w" "\<not> accepts_webhook key (c, q) r"
  | (asked) now w1 payload ri w2 where
      "webhook_verify (wg_security h) c now (wq_body q) (wq_signature q) (wq_timestamp q) (webhook_key q) (gw_idem w) = (True, gw_idem w1)"
      "gw_store w1 = gw_store w" "wg_parse h (wq_body q) = Some (PDict payload)"
      "gw_ingest (wg_gateway h) (webhook_source_request (wg_show h) q payload) w1 = (ri, w2)"
      "gw_store w' = gw_store w2"
      "\<And>x. ri = Inr x \<Longrightarrow> w' = w2 \<and> r = Inr (webhook_result q x)"
      "\<And>x. ri = Inl x \<Longrightarrow> r = Inl x \<and> gw_idem w' = snd (webhook_release (wg_security h) (webhook_key q) (gw_idem w2))"
proof (cases "int (length (wq_body q)) > wg_max_body_bytes h")
  case True
  then show ?thesis using oversize assms by (auto simp: webhook_receive_def em_simps accepts_webhook_def)
next
  case False
  let ?w0 = "w\<lparr>gw_tick := Suc (gw_tick w)\<rparr>"
  define now where "now = clock (gy_env (wg_gateway h)) (gw_tick w)"
  obtain ok i where v: "webhook_verify (wg_security h) c now (wq_body q) (wq_signature q) (wq_timestamp q) (webhook_key q) (gw_idem w) = (ok, i)"
    by fastforce
  let ?w1 = "?w0\<lparr>gw_idem := i\<rparr>"
  have start: "webhook_receive h c q w =
      (if \<not> ok then (Inl (Exn PermissionError ''invalid or replayed webhook''), ?w1)
       else (case wg_parse h (wq_body q) of
          None \<Rightarrow> (Inl (Exn ValueError ''webhook payload must be valid JSON''), ?w1)
        | Some (PDict payload) \<Rightarrow>
            (case gw_ingest (wg_gateway h) (webhook_source_request (wg_show h) q payload) ?w1 of
               (Inl x, w2) \<Rightarrow> (Inl x, w2\<lparr>gw_idem := snd (webhook_release (wg_security h) (webhook_key q) (gw_idem w2))\<rparr>)
             | (Inr x, w2) \<Rightarrow> (Inr (webhook_result q x), w2))
        | Some _ \<Rightarrow> (Inl (Exn ValueError ''webhook payload must be a JSON object''), ?w1)))"
    using False v
    by (auto simp: webhook_receive_def em_simps gw_now_def now_def split: option.splits pyval.splits prod.splits sum.splits)
  show ?thesis
  proof (cases "ok \<and> (\<exists>payload. wg_parse h (wq_body q) = Some (PDict payload))")
    case True
    then obtain payload where p: "wg_parse h (wq_body q) = Some (PDict payload)" and ok by blast
    obtain ri w2 where i: "gw_ingest (wg_gateway h) (webhook_source_request (wg_show h) q payload) ?w1 = (ri, w2)" by fastforce
    show ?thesis
      using asked [of now ?w1 payload ri w2] v p i \<open>ok\<close> start assms by (cases ri) auto
  next
    case False
    then show ?thesis
      using stopped [of now ok] v start assms
      by (auto simp: accepts_webhook_def split: if_splits option.splits pyval.splits)
  qed
qed

lemma webhook_receive_cases_ok:
  assumes "webhook_receive h c q w = (Inr x, w')"
  obtains now w1 payload y where
    "webhook_verify (wg_security h) c now (wq_body q) (wq_signature q) (wq_timestamp q) (webhook_key q) (gw_idem w) = (True, gw_idem w1)"
    "gw_ingest (wg_gateway h) (webhook_source_request (wg_show h) q payload) w1 = (Inr y, w')" "x = webhook_result q y"
    "wg_parse h (wq_body q) = Some (PDict payload)" "int (length (wq_body q)) \<le> wg_max_body_bytes h"
proof -
  let ?w0 = "w\<lparr>gw_tick := Suc (gw_tick w)\<rparr>"
  obtain ok i where v: "webhook_verify (wg_security h) c (clock (gy_env (wg_gateway h)) (gw_tick w)) (wq_body q) (wq_signature q)
      (wq_timestamp q) (webhook_key q) (gw_idem w) = (ok, i)" by fastforce
  have size: "int (length (wq_body q)) \<le> wg_max_body_bytes h" and "ok"
    using assms v by (auto simp: webhook_receive_def em_simps gw_now_def split: if_splits)
  moreover obtain payload where p: "wg_parse h (wq_body q) = Some (PDict payload)"
    using assms v size \<open>ok\<close>
    by (auto simp: webhook_receive_def em_simps gw_now_def split: option.splits pyval.splits)
  moreover obtain ri w2 where i: "gw_ingest (wg_gateway h) (webhook_source_request (wg_show h) q payload) (?w0\<lparr>gw_idem := i\<rparr>) = (ri, w2)"
    by fastforce
  ultimately show ?thesis
    using assms v that [of _ "?w0\<lparr>gw_idem := i\<rparr>" payload]
    by (cases ri) (auto simp: webhook_receive_def em_simps gw_now_def)
qed

locale claiming_webhook = idem_contract invar owner ops
  for invar :: "'i \<Rightarrow> bool" and owner and ops :: "'i idem_ops" +
  fixes h :: "('i, 'd, 'p) webhook_gateway"
  assumes replay: "wk_replay (wg_security h) \<in> {None, Some ops}"
    and idem: "gy_idem (wg_gateway h) \<in> {None, Some ops}"
    and guarded: "wk_replay (wg_security h) = Some ops \<or> gy_idem (wg_gateway h) = Some ops"
begin

text \<open>A key claimed for a request and freed after it, whatever the request claimed meanwhile.\<close>

lemma claim_ingest_release_retains:
  assumes "invar i" and "io_claim ops now k e i = (True, j)" and "retains j l"
  shows "retains i (snd (io_release ops k e l))" and "owner i k = None" and "owner l k = Some e" and "retains i l"
proof -
  have free: "owner i k = None" using claim_won [OF assms(1), of now k e] assms(2) by simp
  have j: "invar j" "owner j = (owner i)(k \<mapsto> e)"
    using claim_invar [OF assms(1), of now k e] claim_owner [OF assms(1), of now k e] assms(2) free by simp_all
  have l: "invar l" "\<And>k'. owner j k' \<noteq> None \<Longrightarrow> owner l k' = owner j k'" using assms(3) j(1) unfolding retains_def by blast+
  show "owner i k = None" by (rule free)
  show k: "owner l k = Some e" using l(2) [of k] j(2) by simp
  have other: "owner l k' = owner i k' \<and> k' \<noteq> k" if "owner i k' \<noteq> None" for k'
    using that l(2) [of k'] j(2) free by auto
  show "retains i l" unfolding retains_def using l(1) other by blast
  show "retains i (snd (io_release ops k e l))"
    unfolding retains_def using l(1) other by (simp add: release_invar release_owner k)
qed

lemma receive_step:
  assumes i: "invar (gw_idem w)" and run: "webhook_receive h c q w = (r, w')"
  shows "retains (gw_idem w) (gw_idem w') \<and>
    (accepts_webhook key (c, q) r \<longrightarrow> owner (gw_idem w) key = None \<and> owner (gw_idem w') key \<noteq> None)"
  using run
proof (cases rule: webhook_receive_cases [where key = key])
  case oversize
  then show ?thesis by (simp add: retains_refl)
next
  case (stopped now ok)
  from stopped(1) have "retains (gw_idem w) (gw_idem w')"
  proof (cases rule: webhook_verify_cases)
    case (guarded ops')
    then show ?thesis using replay claim_retains by (metis empty_iff insert_iff option.distinct(1) option.inject snd_conv)
  qed (simp_all add: retains_refl)
  then show ?thesis using stopped(3) by simp
next
  case (asked now w1 payload ri w2)
  let ?q = "webhook_source_request (wg_show h) q payload"
  have qk: "sq_idempotency_key ?q = Some (wq_idempotency_key q)" "idem_key ?q (wq_idempotency_key q) = webhook_key q"
    by (auto simp: webhook_source_request_def post_init_def idem_key_def webhook_key_def)
  have acc: "accepts_webhook key (c, q) r \<Longrightarrow> key = webhook_key q \<and> wq_idempotency_key q \<noteq> [] \<and> accepted ri \<and> w' = w2"
    using asked(6,7) by (cases ri) (auto simp: accepts_webhook_def webhook_key_def webhook_result_def split: if_splits)
  from asked(1) show ?thesis
  proof (cases rule: webhook_verify_cases)
    case rejected
    then show ?thesis by simp
  next
    case unguarded
    have ops: "gy_idem (wg_gateway h) = Some ops" using guarded unguarded(4) by simp
    have "invar (gw_idem w1)" using i unguarded(2) by simp
    note eff = gw_ingest_idem [OF idem asked(4) this]
    have "gw_idem w' = gw_idem w2"
      using asked(6,7) unguarded(4) by (cases ri) (auto simp: webhook_release_def)
    then show ?thesis
      using eff(1) eff(2) [OF ops qk(1)] acc unguarded(2) by (auto simp: qk(2))
  next
    case (guarded ops')
    then have claim: "io_claim ops now (webhook_key q) (snd (snd (webhook_key q))) (gw_idem w) = (True, gw_idem w1)"
      and ops: "wk_replay (wg_security h) = Some ops" using replay by auto
    have "invar (gw_idem w1)" using claim_invar [OF i] claim by (metis snd_conv)
    note eff = claim_ingest_release_retains [OF i claim gw_ingest_idem(1) [OF idem asked(4) this]]
    have "retains (gw_idem w) (gw_idem w')"
      using eff(1,4) asked(6,7) ops by (cases ri) (auto simp: webhook_release_def)
    then show ?thesis using acc eff(2,3) by auto
  qed
qed

lemma receive_once:
  "taken_once (\<lambda>(c, q). webhook_receive h c q) (\<lambda>w. invar (gw_idem w)) (\<lambda>w k. owner (gw_idem w) k \<noteq> None) accepts_webhook"
proof unfold_locales
  fix w w' :: "('i, 'd, 'p) gw_world" and cq :: "rat \<times> webhook_request" and r k
  assume i: "invar (gw_idem w)" and run: "(case cq of (c, q) \<Rightarrow> webhook_receive h c q) w = (r, w')"
  obtain c q where cq: "cq = (c, q)" by (cases cq)
  have "webhook_receive h c q w = (r, w')" using run by (simp add: cq)
  note eff = receive_step [OF i this, of k]
  show "invar (gw_idem w')" using eff i by (simp add: retains_def)
  show "owner (gw_idem w) k \<noteq> None \<Longrightarrow> owner (gw_idem w') k \<noteq> None"
    using eff i unfolding retains_def by metis
  show "accepts_webhook k cq r \<Longrightarrow> \<not> owner (gw_idem w) k \<noteq> None" and "accepts_webhook k cq r \<Longrightarrow> owner (gw_idem w') k \<noteq> None"
    using eff by (auto simp: cq)
qed

end

text \<open>The webhook gateways of the two stores: with a replay store, without one, or with both.\<close>

definition with_claims :: "'i idem_ops \<Rightarrow> bool \<Rightarrow> bool \<Rightarrow> ('i, 'd, 'p) webhook_gateway \<Rightarrow> ('i, 'd, 'p) webhook_gateway" where
  "with_claims ops replayed keyed h =
     h\<lparr>wg_security := (wg_security h)\<lparr>wk_replay := (if replayed then Some ops else None)\<rparr>,
       wg_gateway := (wg_gateway h)\<lparr>gy_idem := (if keyed \<or> \<not> replayed then Some ops else None)\<rparr>\<rparr>"

interpretation lite_wh: claiming_webhook distinct_keys claim_owner_of "lite_idem sc" "with_claims (lite_idem sc) replayed keyed h"
  for sc replayed keyed h
  by (intro claiming_webhook.intro lite_contract claiming_webhook_axioms.intro) (auto simp: with_claims_def)

interpretation pg_wh: claiming_webhook distinct_keys claim_owner_of pg_idem "with_claims pg_idem replayed keyed h"
  for replayed keyed h
  by (intro claiming_webhook.intro pg_contract claiming_webhook_axioms.intro) (auto simp: with_claims_def)

text \<open>
  A gateway with an idempotency store, and a replay store that has nothing to do with it: the claims of the gateway alone
  decide.
\<close>

locale separate_webhook = idem_contract invar owner ops
  for invar :: "'i \<Rightarrow> bool" and owner and ops :: "'i idem_ops" +
  fixes h :: "('i, 'd, 'p) webhook_gateway"
  assumes idem: "gy_idem (wg_gateway h) = Some ops"
    and replay_claim: "wk_replay (wg_security h) = Some rops \<Longrightarrow> io_claim rops now k e i = (ok, j) \<Longrightarrow> owner j = owner i \<and> (invar i \<longrightarrow> invar j)"
    and replay_release: "wk_replay (wg_security h) = Some rops \<Longrightarrow> io_release rops k e i = (ok, j) \<Longrightarrow> owner j = owner i \<and> (invar i \<longrightarrow> invar j)"
begin

lemma verify_apart:
  fixes q :: webhook_request
  assumes "webhook_verify (wg_security h) c now (wq_body q) (wq_signature q) (wq_timestamp q) key i = (ok, j)" and "invar i"
  shows "owner j = owner i \<and> invar j"
  using assms(1)
proof (cases rule: webhook_verify_cases)
  case (guarded rops)
  then show ?thesis using replay_claim assms(2) by blast
qed (use assms(2) in simp_all)

lemma receive_apart:
  assumes i: "invar (gw_idem w)" and run: "webhook_receive h c q w = (r, w')"
  shows "retains (gw_idem w) (gw_idem w') \<and>
    (accepts_webhook key (c, q) r \<longrightarrow> owner (gw_idem w) key = None \<and> owner (gw_idem w') key \<noteq> None)"
  using run
proof (cases rule: webhook_receive_cases [where key = key])
  case oversize
  then show ?thesis by (simp add: retains_refl)
next
  case (stopped now ok)
  then show ?thesis using verify_apart [OF stopped(1) i] by (simp add: retains_def)
next
  case (asked now w1 payload ri w2)
  let ?q = "webhook_source_request (wg_show h) q payload"
  have qk: "sq_idempotency_key ?q = Some (wq_idempotency_key q)" "idem_key ?q (wq_idempotency_key q) = webhook_key q"
    by (auto simp: webhook_source_request_def post_init_def idem_key_def webhook_key_def)
  have acc: "accepts_webhook key (c, q) r \<Longrightarrow> key = webhook_key q \<and> wq_idempotency_key q \<noteq> [] \<and> accepted ri"
    using asked(6,7) by (cases ri) (auto simp: accepts_webhook_def webhook_key_def webhook_result_def split: if_splits)
  note w1 = verify_apart [OF asked(1) i]
  have g: "gy_idem (wg_gateway h) \<in> {None, Some ops}" using idem by simp
  note eff = gw_ingest_idem [OF g asked(4)]
  have "owner (gw_idem w') = owner (gw_idem w2) \<and> (invar (gw_idem w2) \<longrightarrow> invar (gw_idem w'))"
  proof (cases ri)
    case (Inl x)
    obtain ok j where "webhook_release (wg_security h) (webhook_key q) (gw_idem w2) = (ok, j)" by fastforce
    then show ?thesis
      using asked(7) [OF Inl] replay_release by (auto simp: webhook_release_def split: option.splits)
  qed (use asked(6) in auto)
  then show ?thesis
    using eff(1) eff(2) [OF _ idem qk(1)] w1 acc unfolding retains_def by (auto simp: qk(2))
qed

lemma receive_apart_once:
  "taken_once (\<lambda>(c, q). webhook_receive h c q) (\<lambda>w. invar (gw_idem w)) (\<lambda>w k. owner (gw_idem w) k \<noteq> None) accepts_webhook"
proof unfold_locales
  fix w w' :: "('i, 'd, 'p) gw_world" and cq :: "rat \<times> webhook_request" and r k
  assume i: "invar (gw_idem w)" and run: "(case cq of (c, q) \<Rightarrow> webhook_receive h c q) w = (r, w')"
  obtain c q where cq: "cq = (c, q)" by (cases cq)
  have "webhook_receive h c q w = (r, w')" using run by (simp add: cq)
  note eff = receive_apart [OF i this, of k]
  show "invar (gw_idem w')" using eff i by (simp add: retains_def)
  show "owner (gw_idem w) k \<noteq> None \<Longrightarrow> owner (gw_idem w') k \<noteq> None"
    using eff i unfolding retains_def by metis
  show "accepts_webhook k cq r \<Longrightarrow> \<not> owner (gw_idem w) k \<noteq> None" and "accepts_webhook k cq r \<Longrightarrow> owner (gw_idem w') k \<noteq> None"
    using eff by (auto simp: cq)
qed

end

lemma first_contract:
  assumes "idem_contract invar owner ops"
  shows "idem_contract (\<lambda>i. invar (fst i)) (\<lambda>i. owner (fst i)) (first_store ops)"
proof -
  have c: "claim_store invar owner (io_claim ops) (io_release ops)" using assms by (simp add: idem_contract_def)
  show ?thesis
    unfolding idem_contract_def
    by unfold_locales
      (auto simp: first_store_def split_def claim_store.claim_won [OF c] claim_store.claim_invar [OF c] claim_store.claim_owner [OF c]
        claim_store.release_invar [OF c] claim_store.release_owner [OF c] claim_store.release_done [OF c])
qed

definition with_two_stores ::
  "'a idem_ops \<Rightarrow> 'b idem_ops \<Rightarrow> ('a \<times> 'b, 'd, 'p) webhook_gateway \<Rightarrow> ('a \<times> 'b, 'd, 'p) webhook_gateway" where
  "with_two_stores ops rops h =
     h\<lparr>wg_security := (wg_security h)\<lparr>wk_replay := Some (second_store rops)\<rparr>,
       wg_gateway := (wg_gateway h)\<lparr>gy_idem := Some (first_store ops)\<rparr>\<rparr>"

interpretation pg_apart: separate_webhook "\<lambda>i. distinct_keys (fst i)" "\<lambda>i. claim_owner_of (fst i)" "first_store pg_idem" "with_two_stores pg_idem rops h"
  for rops h
  by (intro separate_webhook.intro first_contract pg_contract separate_webhook_axioms.intro)
    (auto simp: with_two_stores_def second_store_def split: prod.splits)

section \<open>Properties\<close>

text \<open>
  C22. The SQLite ledger of a gateway, after any sequence of requests and publications from an empty one, holds
  for each row of evidence exactly one outbox event, in the same order. A request answered as accepted adds one
  row, of the tenant and the payload of the request, and its one unpublished event; a request answered otherwise
  adds nothing.
\<close>

theorem evidence_and_event_commit_together:
  assumes "served g w" and "gy_sink g = lite_sink sc (gy_hash g)" and "gw_ingest g q w = (Inr x, w')"
  shows "map rr_evidence_id (ll_evidence (gw_store w')) = map sx_aggregate_id (ll_outbox (gw_store w'))
    \<and> distinct (map rr_evidence_id (ll_evidence (gw_store w')))
    \<and> (if sr_accepted x
       then \<exists>row ev. ll_evidence (gw_store w') = ll_evidence (gw_store w) @ [row] \<and> ll_outbox (gw_store w') = ll_outbox (gw_store w) @ [ev]
         \<and> rr_evidence_id row = sr_evidence_id x \<and> rr_tenant_id row = sq_tenant_id q \<and> rr_payload row = json_dumps (PDict (sq_payload q))
         \<and> rr_payload_hash row = sr_payload_hash x \<and> sx_event_id ev = sr_event_id x \<and> sx_aggregate_id ev = sr_evidence_id x
         \<and> sx_published_at ev = None
       else gw_store w' = gw_store w)"
proof -
  note ok = served_ok [OF assms(1,2)]
  have "ledger_ok (gy_hash g) (gw_store w')" using gw_ingest_ledger_ok [OF assms(2) ok assms(3)] .
  moreover have "if sr_accepted x
       then \<exists>row ev. ll_evidence (gw_store w') = ll_evidence (gw_store w) @ [row] \<and> ll_outbox (gw_store w') = ll_outbox (gw_store w) @ [ev]
         \<and> rr_evidence_id row = sr_evidence_id x \<and> rr_tenant_id row = sq_tenant_id q \<and> rr_payload row = json_dumps (PDict (sq_payload q))
         \<and> rr_payload_hash row = sr_payload_hash x \<and> sx_event_id ev = sr_event_id x \<and> sx_aggregate_id ev = sr_evidence_id x
         \<and> sx_published_at ev = None
       else gw_store w' = gw_store w"
    using assms(3)
  proof (cases rule: gw_ingest_cases)
    case (stored e ev v w1)
    have f: "si_commit (gy_sink g) = Some (lite_commit_ingest sc (gy_hash g))" by (simp add: assms(2) lite_sink_def)
    have st: "gw_store w1 = gw_store w" using stored(1) by (simp add: core_def)
    from f stored(3) show ?thesis
    proof (cases rule: claim_and_store_store)
      case (commit rf)
      obtain reason where x: "x = response_of (rf = Inr True) e ev reason" using commit(3) by metis
      from commit(1) show ?thesis
      proof (cases rule: lite_commit_ingest_effect)
        case (appended row)
        then show ?thesis using stored(2) st x by (auto simp: response_of_def built_for_def raw_row_of_def)
      qed (use st x in \<open>simp add: response_of_def\<close>)
    qed (use st in simp)
  qed (simp add: core_def)
  ultimately show ?thesis using ledger_ok_distinct unfolding ledger_ok_def by blast
qed

text \<open>
  C23. An idempotency key is accepted at most once by a gateway with the SQLite store and by one with the
  PostgreSQL store, whatever requests are served in between and however they end.
\<close>

theorem idempotency_key_accepted_once:
  assumes "distinct_keys (gw_idem w)" and "distinct_keys (gw_idem v)"
  shows "length (filter (\<lambda>(q, r). accepts_key key q r) (serve_all (gw_ingest (g\<lparr>gy_idem := Some (lite_idem sc)\<rparr>)) qs w)) \<le> 1
    \<and> length (filter (\<lambda>(q, r). accepts_key key q r) (serve_all (gw_ingest (g'\<lparr>gy_idem := Some pg_idem\<rparr>)) qs v)) \<le> 1"
  using taken_once.at_most_one [OF lite_gw.ingest_once, of w key sc g qs]
    taken_once.at_most_one [OF pg_gw.ingest_once, of v key g' qs] assms by simp

text \<open>
  C24. An accepted webhook was signed with the secret of the policy over its timestamp and body, its body is a JSON object
  within the size limit, and its timestamp is within the window, or is a NaN, which passes the comparison of ages.
  Over any sequence of webhooks an idempotency key is accepted at most once: where the security policy has a replay store or the gateway an
  idempotency store over PostgreSQL, where the two share one table (then in fact none is accepted), and where the
  gateway has its own PostgreSQL store and the replay store is any other store.
\<close>

theorem webhook_accepted_once_and_signed:
  assumes "distinct_keys (gw_idem w)" and "distinct_keys (fst (gw_idem v))"
  shows "length (filter (\<lambda>(cq, r). accepts_webhook key cq r)
           (serve_all (\<lambda>(c, q). webhook_receive (with_claims pg_idem replayed keyed h) c q) qs w)) \<le> 1
    \<and> length (filter (\<lambda>(cq, r). accepts_webhook key cq r)
           (serve_all (\<lambda>(c, q). webhook_receive (with_two_stores pg_idem rops h') c q) qs v)) \<le> 1
    \<and> (\<forall>c q x u u'. webhook_receive g c q u = (Inr x, u') \<longrightarrow> ar_records x = 1 \<longrightarrow>
         timely (wg_security g) c q \<and> signed_by_policy (wg_security g) q \<and> int (length (wq_body q)) \<le> wg_max_body_bytes g
         \<and> (\<exists>payload. wg_parse g (wq_body q) = Some (PDict payload)))"
proof (intro conjI allI impI)
  show "length (filter (\<lambda>(cq, r). accepts_webhook key cq r)
           (serve_all (\<lambda>(c, q). webhook_receive (with_claims pg_idem replayed keyed h) c q) qs w)) \<le> 1"
    using taken_once.at_most_one [OF pg_wh.receive_once, of w key replayed keyed h qs] assms by simp
  show "length (filter (\<lambda>(cq, r). accepts_webhook key cq r)
           (serve_all (\<lambda>(c, q). webhook_receive (with_two_stores pg_idem rops h') c q) qs v)) \<le> 1"
    using taken_once.at_most_one [OF pg_apart.receive_apart_once, of v key rops h' qs] assms by simp
  fix c q x u u'
  assume run: "webhook_receive g c q u = (Inr x, u')"
  from run show "timely (wg_security g) c q" and "signed_by_policy (wg_security g) q" and "int (length (wq_body q)) \<le> wg_max_body_bytes g"
    and "\<exists>payload. wg_parse g (wq_body q) = Some (PDict payload)"
    by (cases rule: webhook_receive_cases_ok; auto elim: webhook_verify_cases)+
qed

text \<open>
  A token bucket grants, over any sequence of requests at non-decreasing times, at most its capacity and what
  is refilled in the time between the first and the last, up to the rounding of the floating-point arithmetic:
  a factor below \<open>1 + 2 ^ (- 50)\<close> on the refill and \<open>slack\<close> times the capacity for each request.
\<close>

theorem rate_limit_bounds_grants:
  assumes "mk_rate_limit_policy c r = Inr p" and "sorted (t0 # map fst rs)"
  shows "grants (mk_token_bucket p t0) rs
     \<le> c * (1 + slack * of_nat (length rs)) + (1 + unit_roundoff) ^ 3 * r * (last (t0 # map fst rs) - t0)"
proof -
  have p: "rp_capacity p = c" "rp_refill_per_second p = r" "0 < c" "0 < r"
    using assms(1) by (auto simp: mk_rate_limit_policy_def split: if_splits)
  then have "bucket_ok (mk_token_bucket p t0)"
    using unit_roundoff_bounds by (simp add: bucket_ok_def mk_token_bucket_def)
  from bucket_grants_bound [OF this, of rs] show ?thesis
    using assms(2) p by (simp add: mk_token_bucket_def algebra_simps)
qed

theorem rate_limit_bounds_grants_witness:
  "grants (mk_token_bucket \<lparr>rp_capacity = 2, rp_refill_per_second = 1\<rparr> 0) [(0, 1), (0, 1), (0, 1)]
     \<le> 2 * (1 + slack * of_nat 3)"
  using rate_limit_bounds_grants [of 2 1 "\<lparr>rp_capacity = 2, rp_refill_per_second = 1\<rparr>" 0 "[(0, 1), (0, 1), (0, 1)]"]
  by (simp add: mk_rate_limit_policy_def)

section \<open>Where the gateway disagrees with itself\<close>

text \<open>A timestamp that reads as a NaN is never too old: without a replay store such a delivery passes at any time.\<close>

lemma nan_timestamp_never_expires:
  assumes "wk_float k (wq_timestamp q) = Some NaN" and "signed_by_policy k q" and "wk_replay k = None"
  shows "webhook_verify k clock_now now (wq_body q) (wq_signature q) (wq_timestamp q) key t = (True, t)"
  using assms by (simp add: webhook_verify_def signed_by_policy_def)

text \<open>
  The replay store and the idempotency store have one key: when they share a table, the gateway finds the key of
  a verified webhook already claimed, and no webhook is ever accepted.
\<close>

lemma shared_claims_refuse_every_webhook:
  assumes "distinct_keys (gw_idem w)"
    and "webhook_receive (with_claims pg_idem True True h) c q w = (r, w')"
  shows "\<not> accepts_webhook key (c, q) r"
  using assms(2)
proof (cases rule: webhook_receive_cases [where key = key])
  case (asked now w1 payload ri w2)
  let ?h = "with_claims pg_idem True True h"
  let ?q = "webhook_source_request (wg_show ?h) q payload"
  have repl: "wk_replay (wg_security ?h) = Some pg_idem" and idem: "gy_idem (wg_gateway ?h) = Some pg_idem"
    by (simp_all add: with_claims_def)
  have qk: "sq_idempotency_key ?q = Some (wq_idempotency_key q)" "idem_key ?q (wq_idempotency_key q) = webhook_key q"
    by (auto simp: webhook_source_request_def post_init_def idem_key_def webhook_key_def)
  from asked(1) have claim: "pg_claim now (webhook_key q) (snd (snd (webhook_key q))) (gw_idem w) = (True, gw_idem w1)"
    by (cases rule: webhook_verify_cases) (use repl in \<open>auto simp: pg_idem_def\<close>)
  have "distinct_keys (gw_idem w1)" and "claim_owner_of (gw_idem w1) (webhook_key q) \<noteq> None"
    using claim pg.claim_invar [OF assms(1), of now "webhook_key q" "snd (snd (webhook_key q))"]
      pg.claim_owner [OF assms(1), of now "webhook_key q" "snd (snd (webhook_key q))"] by (auto split: if_splits)
  then have "wq_idempotency_key q = [] \<or> \<not> accepted ri"
    using idem_contract.gw_ingest_idem(2) [OF pg_contract _ asked(4) _ idem qk(1)] idem qk(2) by auto
  then show ?thesis
    using asked(6,7) by (cases ri) (auto simp: accepts_webhook_def webhook_key_def webhook_result_def)
qed

text \<open>
  A verified webhook that the gateway answers without accepting it (over the rate limit, for instance) keeps its
  replay key: sent again, it is refused for ever.
\<close>

lemma refused_webhook_keeps_its_key:
  assumes "distinct_keys (gw_idem w)"
    and first: "webhook_receive (with_claims pg_idem True keyed h) c q w = (Inr x, w1)"
    and again: "webhook_receive (with_claims pg_idem True keyed h) c' q w1 = (r, w2)"
  shows "\<not> accepts_webhook (webhook_key q) (c', q) r"
proof -
  let ?h = "with_claims pg_idem True keyed h"
  have "claim_owner_of (gw_idem w1) (webhook_key q) \<noteq> None"
    using first
  proof (cases rule: webhook_receive_cases_ok)
    case (1 now wa payload y)
    have claim: "io_claim pg_idem now (webhook_key q) (snd (snd (webhook_key q))) (gw_idem w) = (True, gw_idem wa)"
      using 1(1) by (cases rule: webhook_verify_cases) (auto simp: with_claims_def)
    have "distinct_keys (gw_idem wa)"
      using pg.claim_invar [OF assms(1), of now "webhook_key q" "snd (snd (webhook_key q))"] claim by (simp add: pg_idem_def)
    from pg_wh.claim_ingest_release_retains(3) [OF assms(1) claim idem_contract.gw_ingest_idem(1) [OF pg_contract pg_wh.idem 1(2) this]]
    show ?thesis by simp
  qed
  moreover have "distinct_keys (gw_idem w1)"
    using taken_once.inv_step [OF pg_wh.receive_once [of True keyed h], of w "(c, q)" "Inr x" w1] assms(1) first by simp
  ultimately show ?thesis
    using taken_once.hits_free [OF pg_wh.receive_once [of True keyed h], of w1 "(c', q)" r w2 "webhook_key q"] again by auto
qed

text \<open>
  The parts of the name of an evidence are joined by a colon, which they may contain: two tenants can have the
  same evidence id, and the ledger answers the second one with a duplicate.
\<close>

lemma evidence_names_collide:
  assumes "sq_tenant_id q = t @ '':'' @ u" and "sq_workspace_id q = v"
    and "q' = q\<lparr>sq_tenant_id := t, sq_workspace_id := u @ '':'' @ v\<rparr>"
  shows "evidence_name q ph = evidence_name q' ph" and "sq_tenant_id q \<noteq> sq_tenant_id q'"
  using assms by (simp_all add: evidence_name_def)

lemma second_tenant_is_refused:
  assumes "gy_sink g = lite_sink sc (gy_hash g)" and "gw_ingest g q' w = (Inr x, w')"
    and "r \<in> set (ll_evidence (gw_store w))"
    and "rr_evidence_id r = gy_uuid5 g (evidence_name q' (canonical_hash (gy_hash g) (PDict (sq_payload q'))))"
  shows "\<not> sr_accepted x"
  using assms(2)
proof (cases rule: gw_ingest_cases)
  case (stored e ev v w1)
  have f: "si_commit (gy_sink g) = Some (lite_commit_ingest sc (gy_hash g))" by (simp add: assms(1) lite_sink_def)
  have "rr_evidence_id r = rr_evidence_id (raw_row_of sc e)"
    using stored(2) assms(4) by (simp add: built_for_def raw_row_of_def)
  then have "list_ex (raw_conflict (raw_row_of sc e)) (ll_evidence (gw_store w1))"
    using assms(3) stored(1) unfolding list_ex_iff raw_conflict_def core_def by auto metis
  then have refused: "fst (lite_commit_ingest sc (gy_hash g) e ev (gw_store w1)) \<noteq> Inr True"
    by (simp add: lite_commit_ingest_def)
  from f stored(3) show ?thesis
    by (cases rule: claim_and_store_store) (use refused in auto)
qed simp

text \<open>The answer to a lost claim names the event where it should name the evidence.\<close>

lemma lost_claim_names_the_event:
  assumes "claim_request g q (sv_event_id ev) w = (Inr (Some False), w1)" and "existing_claim g q w1 = (Inr (Some old), w1)"
  shows "\<exists>x. claim_and_store g q e ev v w = (Inr x, w1) \<and> sr_evidence_id x = old \<and> sr_event_id x = old"
  using assms by (simp add: claim_and_store_def em_simps)

section \<open>A gateway at work\<close>

definition demo_gateway :: "('i, lite_ledger, unit) gateway" where
  "demo_gateway = \<lparr>gy_env = \<lparr>clock = (\<lambda>_. 5), fresh_uuid = (\<lambda>_. ''u'')\<rparr>, gy_monotonic = (\<lambda>_. 0), gy_iso = (\<lambda>_. ''iso''),
     gy_hash = (\<lambda>_. ''hash''), gy_uuid5 = (\<lambda>n. ''id:'' @ n), gy_resolver = None,
     gy_sink = lite_sink \<lparr>sc_iso = (\<lambda>_. ''iso''), sc_fromiso = (\<lambda>_. Some 5)\<rparr> (\<lambda>_. ''hash''), gy_idem = None, gy_pipeline = None\<rparr>"

definition demo_request :: source_request where
  "demo_request = \<lparr>sq_tenant_id = ''t'', sq_workspace_id = ''w'', sq_source_type = ''feed'', sq_source_record_id = ''1'',
     sq_payload = [(''a'', PInt 1)], sq_credential = None, sq_connector_version = ''v1'', sq_schema_version = ''s1'',
     sq_source_id = ''s'', sq_provenance = None, sq_event_type = ''e'', sq_idempotency_key = Some ''k'',
     sq_observed_at = None, sq_rate_limit_lease = None\<rparr>"

definition demo_gw_world :: "'i \<Rightarrow> ('i, lite_ledger, unit) gw_world" where
  "demo_gw_world i = \<lparr>gw_tick = 0, gw_limiters = [], gw_leases = [], gw_manager = None, gw_idem = i,
     gw_store = \<lparr>ll_evidence = [], ll_outbox = []\<rparr>, gw_pipe = ()\<rparr>"

lemma demo_gw_world_empty: "distinct_keys (gw_idem (demo_gw_world []))"
  by (simp add: demo_gw_world_def)

lemmas gw_eval = em_simps gw_ingest_def verify_credential_def allow_request_def admit_request_def rate_limit_configured_def
  select_rate_limiter_def build_evidence_def build_event_def claim_and_store_def claim_request_def store_request_def
  commit_request_def on_store_def run_pipeline_def response_of_def gw_now_def gw_uuid4_def Let_def evidence_name_def
  event_payload_def idem_key_def

lemmas demo_eval = demo_gateway_def demo_request_def demo_gw_world_def lite_sink_def lite_commit_ingest_def
  canonical_hash_def source_append_def pg_idem_def pg_claim_def lite_idem_def lite_claim_def

theorem evidence_and_event_commit_together_witness:
  "\<exists>x w'. gw_ingest demo_gateway demo_request (demo_gw_world ()) = (Inr x, w') \<and> sr_accepted x
     \<and> map rr_evidence_id (ll_evidence (gw_store w')) = map sx_aggregate_id (ll_outbox (gw_store w'))"
proof -
  obtain x w' where run: "gw_ingest demo_gateway demo_request (demo_gw_world ()) = (Inr x, w')" and ok: "sr_accepted x"
    by (simp add: gw_eval demo_eval)
  have "served demo_gateway (demo_gw_world ())" by (rule served.start) (simp add: demo_gw_world_def)
  moreover have "gy_sink demo_gateway = lite_sink \<lparr>sc_iso = (\<lambda>_. ''iso''), sc_fromiso = (\<lambda>_. Some 5)\<rparr> (gy_hash demo_gateway)"
    by (simp add: demo_gateway_def)
  ultimately show ?thesis using evidence_and_event_commit_together [OF _ _ run] run ok by blast
qed

theorem idempotency_key_accepted_once_witness:
  "length (filter (\<lambda>(q, r). accepts_key (''t'', ''w'', ''k'') q r)
     (serve_all (gw_ingest (demo_gateway\<lparr>gy_idem := Some pg_idem\<rparr>)) [demo_request, demo_request] (demo_gw_world []))) = 1"
proof -
  have "length (filter (\<lambda>(q, r). accepts_key (''t'', ''w'', ''k'') q r)
     (serve_all (gw_ingest (demo_gateway\<lparr>gy_idem := Some pg_idem\<rparr>)) [demo_request, demo_request] (demo_gw_world []))) \<le> 1"
    using idempotency_key_accepted_once
      [where w = "demo_gw_world []" and g = demo_gateway, OF demo_gw_world_empty demo_gw_world_empty] by blast
  moreover have "accepts_key (''t'', ''w'', ''k'') demo_request
      (fst (gw_ingest (demo_gateway\<lparr>gy_idem := Some pg_idem\<rparr>) demo_request (demo_gw_world [])))"
    by (simp add: gw_eval demo_eval accepts_key_def)
  ultimately show ?thesis by (auto split: prod.splits if_splits)
qed

definition demo_webhooks :: "(pg_claims \<times> pg_claims, lite_ledger, unit) webhook_gateway" where
  "demo_webhooks = with_two_stores pg_idem pg_idem \<lparr>wg_gateway = demo_gateway,
     wg_security = \<lparr>wk_policy = \<lparr>wp_secret = ''s'', wp_max_age_seconds = 300, wp_prefix = ''sha256=''\<rparr>,
       wk_float = (\<lambda>_. Some (Finite 0)), wk_hmac = (\<lambda>s m. s @ m), wk_replay = None\<rparr>,
     wg_max_body_bytes = 100, wg_parse = (\<lambda>_. Some (PDict [])), wg_show = (\<lambda>_. ''x'')\<rparr>"

definition demo_webhook :: webhook_request where
  "demo_webhook = \<lparr>wq_tenant_id = ''t'', wq_workspace_id = ''w'', wq_source_id = ''s'', wq_record_id = ''1'',
     wq_body = ''b'', wq_signature = ''sha256=s0.b'', wq_timestamp = ''0'', wq_idempotency_key = ''k''\<rparr>"

lemmas webhook_eval = demo_webhooks_def demo_webhook_def webhook_receive_def webhook_verify_def removeprefix_def fl_def
  webhook_key_def webhook_source_request_def post_init_def webhook_result_def with_two_stores_def first_store_def second_store_def

text \<open>Two stores: the first delivery is accepted, and the second is not.\<close>

theorem webhook_accepted_once_and_signed_witness:
  "\<exists>x w'. webhook_receive demo_webhooks 0 demo_webhook (demo_gw_world ([], [])) = (Inr x, w') \<and> ar_records x = 1
     \<and> timely (wg_security demo_webhooks) 0 demo_webhook \<and> signed_by_policy (wg_security demo_webhooks) demo_webhook
     \<and> length (filter (\<lambda>(cq, r). accepts_webhook (''t'', ''w'', ''k'') cq r)
          (serve_all (\<lambda>(c, q). webhook_receive demo_webhooks c q) [(0, demo_webhook), (0, demo_webhook)] (demo_gw_world ([], [])))) \<le> 1"
proof -
  obtain x w' where run: "webhook_receive demo_webhooks 0 demo_webhook (demo_gw_world ([], [])) = (Inr x, w')" and ok: "ar_records x = 1"
    by (simp add: webhook_eval gw_eval demo_eval)
  have "distinct_keys (fst (gw_idem (demo_gw_world ([], []))))" by (simp add: demo_gw_world_def)
  note once = webhook_accepted_once_and_signed [OF demo_gw_world_empty this, where g = demo_webhooks and key = "(''t'', ''w'', ''k'')"]
  have "length (filter (\<lambda>(cq, r). accepts_webhook (''t'', ''w'', ''k'') cq r)
      (serve_all (\<lambda>(c, q). webhook_receive demo_webhooks c q) [(0, demo_webhook), (0, demo_webhook)] (demo_gw_world ([], [])))) \<le> 1"
    unfolding demo_webhooks_def using once by blast
  then show ?thesis using once run ok by blast
qed

end
