(* ===== verification/Worker_Backend.thy ===== *)
theory Worker_Backend
  imports OIS_Prelude
begin

text \<open>
  \<^verbatim>\<open>ois/runtime/execution_backend.py\<close>: the SQLite execution store and the worker queue. A table is its rows in
  insertion order; a method is the sequence of the reads and writes it makes, so that the methods of several
  processes can be interleaved at them. Every call of \<open>_now()\<close> reads \<open>stamp\<close> at the tick. The text of an error
  stops where Python prints a set.
\<close>

section \<open>Errors and status machines\<close>

abbreviation ExecutionNotFoundError :: exn_class where
  "ExecutionNotFoundError \<equiv> OtherException ''ExecutionNotFoundError''"

abbreviation JobNotFoundError :: exn_class where
  "JobNotFoundError \<equiv> OtherException ''JobNotFoundError''"

abbreviation JobOwnershipError :: exn_class where
  "JobOwnershipError \<equiv> OtherException ''JobOwnershipError''"

abbreviation DuplicateExecutionError :: exn_class where
  "DuplicateExecutionError \<equiv> OtherException ''DuplicateExecutionError''"

abbreviation DuplicateJobError :: exn_class where
  "DuplicateJobError \<equiv> OtherException ''DuplicateJobError''"

abbreviation InvalidStatusTransitionError :: exn_class where
  "InvalidStatusTransitionError \<equiv> OtherException ''InvalidStatusTransitionError''"

abbreviation IntegrityError :: exn_class where
  "IntegrityError \<equiv> OtherException ''IntegrityError''"

definition quoted :: "string \<Rightarrow> string" where
  "quoted s = [CHR 0x27] @ s @ [CHR 0x27]"

definition valid_execution_transitions :: "string \<Rightarrow> string list" where
  "valid_execution_transitions s =
     (if s = ''ready'' then [''running''] else if s = ''running'' then [''succeeded'', ''failed''] else [])"

definition valid_job_transitions :: "string \<Rightarrow> string list" where
  "valid_job_transitions s =
     (if s = ''pending'' then [''leased''] else if s = ''leased'' then [''completed'', ''failed'', ''pending''] else [])"

definition validate_execution_transition :: "string \<Rightarrow> string \<Rightarrow> py_exn + unit" where
  "validate_execution_transition current target =
     (if target \<in> set (valid_execution_transitions current) then Inr ()
      else Inl (Exn InvalidStatusTransitionError (''Execution status transition '' @ quoted current)))"

definition validate_job_transition :: "string \<Rightarrow> string \<Rightarrow> py_exn + unit" where
  "validate_job_transition current target =
     (if target \<in> set (valid_job_transitions current) then Inr ()
      else Inl (Exn InvalidStatusTransitionError (''Job status transition '' @ quoted current)))"

section \<open>Records and tables\<close>

record execution_snapshot =
  xs_execution_id :: string
  xs_workflow_id :: string
  xs_status :: string
  xs_payload :: pyval
  xs_result :: pyval
  xs_error :: pyval
  xs_checkpoint :: pyval
  xs_updated_at :: string

record queue_job =
  qj_job_id :: string
  qj_queue :: string
  qj_payload :: pyval
  qj_attempts :: int
  qj_lease_owner :: "string option"
  qj_status :: string
  qj_updated_at :: string

record exec_row =
  xe_execution_id :: string
  xe_workflow_id :: string
  xe_status :: string
  xe_payload :: json_text
  xe_result :: "json_text option"
  xe_error :: "json_text option"
  xe_checkpoint :: "json_text option"
  xe_updated_at :: string

record job_row =
  jr_job_id :: string
  jr_queue :: string
  jr_payload :: json_text
  jr_attempts :: int
  jr_lease_owner :: "string option"
  jr_status :: string
  jr_updated_at :: string

record worker_db =
  wb_tick :: nat
  wb_executions :: "exec_row list"
  wb_jobs :: "job_row list"

type_synonym 'a wb = "(worker_db, 'a) em"

definition text_now :: "(nat \<Rightarrow> string) \<Rightarrow> string wb" where
  "text_now stamp = (\<lambda>s. (Inr (stamp (wb_tick s)), s\<lparr>wb_tick := Suc (wb_tick s)\<rparr>))"

definition dumps_opt :: "pyval \<Rightarrow> json_text option" where
  "dumps_opt v = (if v = PNone then None else Some (json_dumps v))"

definition loads_opt :: "json_text option \<Rightarrow> pyval" where
  "loads_opt t = (case t of None \<Rightarrow> PNone | Some x \<Rightarrow> json_loads x)"

section \<open>The execution store\<close>

definition exec_record :: "exec_row \<Rightarrow> execution_snapshot" where
  "exec_record r =
     \<lparr>xs_execution_id = xe_execution_id r, xs_workflow_id = xe_workflow_id r, xs_status = xe_status r,
      xs_payload = json_loads (xe_payload r), xs_result = loads_opt (xe_result r), xs_error = loads_opt (xe_error r),
      xs_checkpoint = loads_opt (xe_checkpoint r), xs_updated_at = xe_updated_at r\<rparr>"

definition exec_get :: "string \<Rightarrow> execution_snapshot wb" where
  "exec_get eid = (\<lambda>s.
     case List.find (\<lambda>r. xe_execution_id r = eid) (wb_executions s) of
       None \<Rightarrow> (Inl (Exn ExecutionNotFoundError (''Execution '' @ quoted eid @ '' not found in store.'')), s)
     | Some r \<Rightarrow> (Inr (exec_record r), s))"

definition exec_insert :: "exec_row \<Rightarrow> unit wb" where
  "exec_insert r = (\<lambda>s.
     if list_ex (\<lambda>o'. xe_execution_id o' = xe_execution_id r) (wb_executions s)
     then (Inl (Exn IntegrityError ''UNIQUE constraint failed: executions.execution_id''), s)
     else (Inr (), s\<lparr>wb_executions := wb_executions s @ [r]\<rparr>))"

definition exec_update :: "string \<Rightarrow> (exec_row \<Rightarrow> exec_row) \<Rightarrow> unit wb" where
  "exec_update eid f = emod (\<lambda>s. s\<lparr>wb_executions := map (\<lambda>r. if xe_execution_id r = eid then f r else r) (wb_executions s)\<rparr>)"

definition exec_create :: "(nat \<Rightarrow> string) \<Rightarrow> string \<Rightarrow> string \<Rightarrow> pyval \<Rightarrow> execution_snapshot wb" where
  "exec_create stamp eid wid payload =
     ebind (eget (\<lambda>s. list_ex (\<lambda>r. xe_execution_id r = eid) (wb_executions s))) (\<lambda>existing.
     if existing
     then eraise (Exn DuplicateExecutionError (''Execution '' @ quoted eid @ '' already exists. Execution store is append-only.''))
     else ebind (text_now stamp) (\<lambda>now.
       eseq (exec_insert \<lparr>xe_execution_id = eid, xe_workflow_id = wid, xe_status = ''ready'', xe_payload = json_dumps payload,
               xe_result = None, xe_error = None, xe_checkpoint = None, xe_updated_at = now\<rparr>)
       (exec_get eid)))"

definition exec_checkpoint :: "(nat \<Rightarrow> string) \<Rightarrow> string \<Rightarrow> pyval \<Rightarrow> execution_snapshot wb" where
  "exec_checkpoint stamp eid checkpoint =
     ebind (exec_get eid) (\<lambda>record.
     eseq (elift (validate_execution_transition (xs_status record) ''running''))
     (ebind (text_now stamp) (\<lambda>now.
     eseq (exec_update eid (\<lambda>r. r\<lparr>xe_checkpoint := Some (json_dumps checkpoint), xe_status := ''running'', xe_updated_at := now\<rparr>))
     (exec_get eid))))"

definition set_terminal :: "(nat \<Rightarrow> string) \<Rightarrow> string \<Rightarrow> string \<Rightarrow> pyval \<Rightarrow> pyval \<Rightarrow> execution_snapshot wb" where
  "set_terminal stamp eid target result error =
     ebind (exec_get eid) (\<lambda>record.
     eseq (elift (validate_execution_transition (xs_status record) target))
     (ebind (text_now stamp) (\<lambda>now.
     eseq (exec_update eid (\<lambda>r. r\<lparr>xe_status := target, xe_result := dumps_opt result, xe_error := dumps_opt error, xe_updated_at := now\<rparr>))
     (exec_get eid))))"

definition exec_complete :: "(nat \<Rightarrow> string) \<Rightarrow> string \<Rightarrow> pyval \<Rightarrow> execution_snapshot wb" where
  "exec_complete stamp eid result = set_terminal stamp eid ''succeeded'' result PNone"

definition exec_fail :: "(nat \<Rightarrow> string) \<Rightarrow> string \<Rightarrow> pyval \<Rightarrow> execution_snapshot wb" where
  "exec_fail stamp eid error = set_terminal stamp eid ''failed'' PNone error"

text \<open>\<open>ORDER BY updated_at\<close>; rows with the same text come in insertion order.\<close>

definition list_by_status :: "string \<Rightarrow> execution_snapshot list wb" where
  "list_by_status st = eget (\<lambda>s. map exec_record (sort_key xe_updated_at (filter (\<lambda>r. xe_status r = st) (wb_executions s))))"

definition list_by_workflow :: "string \<Rightarrow> execution_snapshot list wb" where
  "list_by_workflow wid = eget (\<lambda>s. map exec_record (sort_key xe_updated_at (filter (\<lambda>r. xe_workflow_id r = wid) (wb_executions s))))"

section \<open>The worker queue\<close>

definition job_record :: "job_row \<Rightarrow> queue_job" where
  "job_record r =
     \<lparr>qj_job_id = jr_job_id r, qj_queue = jr_queue r, qj_payload = json_loads (jr_payload r), qj_attempts = jr_attempts r,
      qj_lease_owner = jr_lease_owner r, qj_status = jr_status r, qj_updated_at = jr_updated_at r\<rparr>"

definition job_get :: "string \<Rightarrow> queue_job wb" where
  "job_get jid = (\<lambda>s.
     case List.find (\<lambda>r. jr_job_id r = jid) (wb_jobs s) of
       None \<Rightarrow> (Inl (Exn JobNotFoundError (''Job '' @ quoted jid @ '' not found in worker queue.'')), s)
     | Some r \<Rightarrow> (Inr (job_record r), s))"

definition job_insert :: "job_row \<Rightarrow> unit wb" where
  "job_insert r = (\<lambda>s.
     if list_ex (\<lambda>o'. jr_job_id o' = jr_job_id r) (wb_jobs s)
     then (Inl (Exn IntegrityError ''UNIQUE constraint failed: worker_jobs.job_id''), s)
     else (Inr (), s\<lparr>wb_jobs := wb_jobs s @ [r]\<rparr>))"

definition job_update :: "(job_row \<Rightarrow> bool) \<Rightarrow> (job_row \<Rightarrow> job_row) \<Rightarrow> unit wb" where
  "job_update cond f = emod (\<lambda>s. s\<lparr>wb_jobs := map (\<lambda>r. if cond r then f r else r) (wb_jobs s)\<rparr>)"

definition job_enqueue :: "(nat \<Rightarrow> string) \<Rightarrow> string \<Rightarrow> string \<Rightarrow> pyval \<Rightarrow> queue_job wb" where
  "job_enqueue stamp jid queue payload =
     ebind (eget (\<lambda>s. list_ex (\<lambda>r. jr_job_id r = jid) (wb_jobs s))) (\<lambda>existing.
     if existing then eraise (Exn DuplicateJobError (''Job '' @ quoted jid @ '' already exists in queue '' @ quoted queue @ ''.''))
     else ebind (text_now stamp) (\<lambda>now.
       eseq (job_insert \<lparr>jr_job_id = jid, jr_queue = queue, jr_payload = json_dumps payload, jr_attempts = 0,
               jr_lease_owner = None, jr_status = ''pending'', jr_updated_at = now\<rparr>)
       (job_get jid)))"

definition available :: "job_row \<Rightarrow> bool" where
  "available r \<longleftrightarrow> jr_status r = ''pending'' \<and> jr_lease_owner r = None"

text \<open>\<open>ORDER BY updated_at ASC, job_id ASC LIMIT 1\<close>.\<close>

definition claim_select :: "string \<Rightarrow> job_row list \<Rightarrow> job_row option" where
  "claim_select queue t =
     (case sort_key jr_updated_at (sort_key jr_job_id (filter (\<lambda>r. jr_queue r = queue \<and> available r) t)) of
        [] \<Rightarrow> None | r # _ \<Rightarrow> Some r)"

definition claim_update :: "(nat \<Rightarrow> string) \<Rightarrow> string \<Rightarrow> string \<Rightarrow> unit wb" where
  "claim_update stamp worker jid =
     ebind (text_now stamp) (\<lambda>now.
     job_update (\<lambda>r. jr_job_id r = jid \<and> available r)
       (\<lambda>r. r\<lparr>jr_lease_owner := Some worker, jr_status := ''leased'', jr_updated_at := now\<rparr>))"

definition job_claim :: "(nat \<Rightarrow> string) \<Rightarrow> string \<Rightarrow> string \<Rightarrow> queue_job option wb" where
  "job_claim stamp queue worker =
     ebind (eget (\<lambda>s. claim_select queue (wb_jobs s))) (\<lambda>row.
     case row of
       None \<Rightarrow> eret None
     | Some r \<Rightarrow> eseq (claim_update stamp worker (jr_job_id r)) (ebind (job_get (jr_job_id r)) (\<lambda>j. eret (Some j))))"

definition assert_ownership :: "string \<Rightarrow> string \<Rightarrow> string \<Rightarrow> queue_job wb" where
  "assert_ownership jid worker expected =
     ebind (job_get jid) (\<lambda>job.
     if qj_lease_owner job \<noteq> Some worker
     then eraise (Exn JobOwnershipError (''Worker '' @ quoted worker @ '' does not own the lease for job '' @ quoted jid @ ''. Current owner: ''
            @ quoted (case qj_lease_owner job of None \<Rightarrow> ''None'' | Some x \<Rightarrow> x) @ ''.''))
     else if qj_status job \<noteq> expected
     then eraise (Exn InvalidStatusTransitionError
            (''Job '' @ quoted jid @ '' is in status '' @ quoted (qj_status job) @ '', expected '' @ quoted expected @ ''.''))
     else eret job)"

text \<open>The three writes of an owner: \<open>WHERE job_id = ? AND lease_owner = ?\<close>.\<close>

definition owner_update :: "(nat \<Rightarrow> string) \<Rightarrow> string \<Rightarrow> string \<Rightarrow> (string \<Rightarrow> job_row \<Rightarrow> job_row) \<Rightarrow> unit wb" where
  "owner_update stamp jid worker f =
     ebind (text_now stamp) (\<lambda>now. job_update (\<lambda>r. jr_job_id r = jid \<and> jr_lease_owner r = Some worker) (f now))"

definition retry_row :: "string \<Rightarrow> job_row \<Rightarrow> job_row" where
  "retry_row now r = r\<lparr>jr_attempts := jr_attempts r + 1, jr_lease_owner := None, jr_status := ''pending'', jr_updated_at := now\<rparr>"

definition ack_row :: "string \<Rightarrow> job_row \<Rightarrow> job_row" where
  "ack_row now r = r\<lparr>jr_status := ''completed'', jr_updated_at := now\<rparr>"

definition fail_row :: "string \<Rightarrow> job_row \<Rightarrow> job_row" where
  "fail_row now r = r\<lparr>jr_status := ''failed'', jr_attempts := jr_attempts r + 1, jr_updated_at := now\<rparr>"

definition job_retry :: "(nat \<Rightarrow> string) \<Rightarrow> string \<Rightarrow> string \<Rightarrow> queue_job wb" where
  "job_retry stamp jid worker =
     eseq (assert_ownership jid worker ''leased'') (eseq (owner_update stamp jid worker retry_row) (job_get jid))"

definition job_acknowledge :: "(nat \<Rightarrow> string) \<Rightarrow> string \<Rightarrow> string \<Rightarrow> queue_job wb" where
  "job_acknowledge stamp jid worker =
     eseq (assert_ownership jid worker ''leased'') (eseq (owner_update stamp jid worker ack_row) (job_get jid))"

definition fail_job :: "(nat \<Rightarrow> string) \<Rightarrow> string \<Rightarrow> string \<Rightarrow> queue_job wb" where
  "fail_job stamp jid worker =
     eseq (assert_ownership jid worker ''leased'') (eseq (owner_update stamp jid worker fail_row) (job_get jid))"

definition list_by_queue :: "string \<Rightarrow> string option \<Rightarrow> queue_job list wb" where
  "list_by_queue queue status = eget (\<lambda>s.
     map job_record (sort_key jr_updated_at (filter (\<lambda>r. jr_queue r = queue
       \<and> (case status of None \<Rightarrow> True | Some st \<Rightarrow> st = [] \<or> jr_status r = st)) (wb_jobs s))))"

definition queue_depth :: "string \<Rightarrow> string \<Rightarrow> nat wb" where
  "queue_depth queue status = eget (\<lambda>s. length (filter (\<lambda>r. jr_queue r = queue \<and> jr_status r = status) (wb_jobs s)))"

section \<open>The smoke test of the module\<close>

text \<open>
  \<open>_run_integration_test\<close>, without the log lines: the assertions of the first seven tests are about the store, the
  others about the queue. \<open>expect_raise c m\<close> is \<open>try: m; raise AssertionError(...); except c: pass\<close>.
\<close>

abbreviation AssertionError :: exn_class where
  "AssertionError \<equiv> OtherException ''AssertionError''"

definition py_assert :: "bool \<Rightarrow> 's \<Rightarrow> (py_exn + unit) \<times> 's" where
  "py_assert b = (if b then eret () else eraise (Exn AssertionError []))"

definition expect_raise :: "exn_class \<Rightarrow> ('s, 'a) em \<Rightarrow> ('s, unit) em" where
  "expect_raise c m =
     etry (eseq m (eraise (Exn AssertionError ''Should have raised'')))
          (\<lambda>e. if exn_class e = c then eret () else eraise e)"

definition item :: "string \<Rightarrow> pyval \<Rightarrow> pyval" where
  "item k v = (case v of PDict d \<Rightarrow> (case map_of d k of None \<Rightarrow> PNone | Some x \<Rightarrow> x) | _ \<Rightarrow> PNone)"

definition store_smoke_test :: "(nat \<Rightarrow> string) \<Rightarrow> unit wb" where
  "store_smoke_test stamp =
     ebind (exec_create stamp ''exec_001'' ''wf_content_publish''
              (PDict [(''brand_id'', PStr ''brand_01''), (''platform'', PStr ''tiktok'')])) (\<lambda>rec1.
     eseq (py_assert (xs_status rec1 = ''ready'' \<and> xs_checkpoint rec1 = PNone))
     (ebind (exec_checkpoint stamp ''exec_001''
              (PDict [(''step'', PStr ''hook_generation''), (''hook'', PStr ''Stop saving money.'')])) (\<lambda>rec2.
     eseq (py_assert (xs_status rec2 = ''running'' \<and> xs_checkpoint rec2 \<noteq> PNone
              \<and> item ''step'' (xs_checkpoint rec2) = PStr ''hook_generation''))
     (ebind (exec_complete stamp ''exec_001'' (PDict [(''publish_id'', PStr ''pub_abc123'')])) (\<lambda>rec3.
     eseq (py_assert (xs_status rec3 = ''succeeded'' \<and> py_eq (xs_result rec3) (PDict [(''publish_id'', PStr ''pub_abc123'')])))
     (eseq (expect_raise InvalidStatusTransitionError
              (exec_complete stamp ''exec_001'' (PDict [(''publish_id'', PStr ''pub_again'')])))
     (eseq (exec_create stamp ''exec_002'' ''wf_content_publish''
              (PDict [(''brand_id'', PStr ''brand_02''), (''platform'', PStr ''instagram'')]))
     (eseq (exec_checkpoint stamp ''exec_002'' (PDict [(''step'', PStr ''caption_generation'')]))
     (ebind (exec_fail stamp ''exec_002''
              (PDict [(''code'', PStr ''TOOL_TIMEOUT''), (''message'', PStr ''TikTok API did not respond.'')])) (\<lambda>rec5.
     eseq (py_assert (xs_status rec5 = ''failed'' \<and> xs_error rec5 \<noteq> PNone \<and> item ''code'' (xs_error rec5) = PStr ''TOOL_TIMEOUT''))
     (eseq (expect_raise DuplicateExecutionError (exec_create stamp ''exec_001'' ''wf_duplicate'' (PDict [])))
     (ebind (list_by_status ''succeeded'') (\<lambda>succeeded.
     py_assert (list_ex (\<lambda>r. xs_execution_id r = ''exec_001'') succeeded))))))))))))))"

definition queue_smoke_test :: "(nat \<Rightarrow> string) \<Rightarrow> unit wb" where
  "queue_smoke_test stamp =
     ebind (job_enqueue stamp ''job_001'' ''content_publish''
              (PDict [(''content_id'', PStr ''cnt_xyz''), (''platform'', PStr ''tiktok'')])) (\<lambda>job.
     eseq (py_assert (qj_status job = ''pending'' \<and> qj_attempts job = 0))
     (ebind (job_claim stamp ''content_publish'' ''worker_A'') (\<lambda>claimed.
     eseq (py_assert (case claimed of None \<Rightarrow> False
              | Some j \<Rightarrow> qj_job_id j = ''job_001'' \<and> qj_status j = ''leased'' \<and> qj_lease_owner j = Some ''worker_A''))
     (ebind (job_claim stamp ''content_publish'' ''worker_B'') (\<lambda>second_claim.
     eseq (py_assert (second_claim = None))
     (ebind (job_retry stamp ''job_001'' ''worker_A'') (\<lambda>retried.
     eseq (py_assert (qj_status retried = ''pending'' \<and> qj_lease_owner retried = None \<and> qj_attempts retried = 1))
     (eseq (job_claim stamp ''content_publish'' ''worker_A'')
     (eseq (expect_raise JobOwnershipError (job_retry stamp ''job_001'' ''worker_B''))
     (ebind (job_acknowledge stamp ''job_001'' ''worker_A'') (\<lambda>acked.
     eseq (py_assert (qj_status acked = ''completed''))
     (eseq (job_enqueue stamp ''job_002'' ''content_publish'' (PDict [(''content_id'', PStr ''cnt_zzz'')]))
     (eseq (job_claim stamp ''content_publish'' ''worker_A'')
     (ebind (fail_job stamp ''job_002'' ''worker_A'') (\<lambda>failed_job.
     eseq (py_assert (qj_status failed_job = ''failed''))
     (eseq (expect_raise DuplicateJobError (job_enqueue stamp ''job_001'' ''content_publish'' (PDict [])))
     (eseq (job_enqueue stamp ''job_003'' ''content_publish'' (PDict [(''x'', PInt 1)]))
     (eseq (job_enqueue stamp ''job_004'' ''content_publish'' (PDict [(''x'', PInt 2)]))
     (ebind (queue_depth ''content_publish'' ''pending'') (\<lambda>depth.
     eseq (py_assert (depth = 2))
     (ebind (list_by_queue ''content_publish'' (Some ''pending'')) (\<lambda>pending_jobs.
     py_assert (length pending_jobs = 2)))))))))))))))))))))))"

definition run_integration_test :: "(nat \<Rightarrow> string) \<Rightarrow> unit wb" where
  "run_integration_test stamp = eseq (store_smoke_test stamp) (queue_smoke_test stamp)"

lemmas wb_eval = em_simps text_now_def exec_create_def exec_insert_def exec_get_def exec_record_def exec_checkpoint_def
  exec_update_def set_terminal_def exec_complete_def exec_fail_def list_by_status_def validate_execution_transition_def
  valid_execution_transitions_def loads_opt_def dumps_opt_def job_enqueue_def job_insert_def job_get_def job_record_def
  job_claim_def claim_select_def claim_update_def job_update_def available_def assert_ownership_def owner_update_def
  retry_row_def ack_row_def fail_row_def job_retry_def job_acknowledge_def fail_job_def queue_depth_def list_by_queue_def
  py_assert_def expect_raise_def item_def

definition empty_worker_db :: worker_db where
  "empty_worker_db = \<lparr>wb_tick = 0, wb_executions = [], wb_jobs = []\<rparr>"

lemma store_smoke_test_ok: "\<exists>t xs. store_smoke_test stamp empty_worker_db = (Inr (), \<lparr>wb_tick = t, wb_executions = xs, wb_jobs = []\<rparr>)"
  by (simp add: store_smoke_test_def wb_eval empty_worker_db_def)

lemma queue_smoke_test_ok: "fst (queue_smoke_test stamp \<lparr>wb_tick = t, wb_executions = xs, wb_jobs = []\<rparr>) = Inr ()"
  by (simp add: queue_smoke_test_def wb_eval)

end
