(* ===== verification/Worker_Properties.thy ===== *)
theory Worker_Properties
  imports Worker_Backend
begin

text \<open>
  Properties of the worker backend: the rows of both tables move along their status machines, a leased job only by
  its owner; the smoke test of the module passes; and what the check-then-write methods do when two of them overlap.
\<close>

section \<open>Calls\<close>

datatype wb_call =
    Create string string pyval
  | Checkpoint string pyval
  | Complete string pyval
  | Fail string pyval
  | Enqueue string string pyval
  | Claim string string
  | Retry string string
  | Acknowledge string string
  | Fail_Job string string

fun wb_effect :: "(nat \<Rightarrow> string) \<Rightarrow> wb_call \<Rightarrow> worker_db \<Rightarrow> worker_db" where
  "wb_effect stamp (Create e w p) s = snd (exec_create stamp e w p s)"
| "wb_effect stamp (Checkpoint e c) s = snd (exec_checkpoint stamp e c s)"
| "wb_effect stamp (Complete e r) s = snd (exec_complete stamp e r s)"
| "wb_effect stamp (Fail e r) s = snd (exec_fail stamp e r s)"
| "wb_effect stamp (Enqueue j q p) s = snd (job_enqueue stamp j q p s)"
| "wb_effect stamp (Claim q w) s = snd (job_claim stamp q w s)"
| "wb_effect stamp (Retry j w) s = snd (job_retry stamp j w s)"
| "wb_effect stamp (Acknowledge j w) s = snd (job_acknowledge stamp j w s)"
| "wb_effect stamp (Fail_Job j w) s = snd (fail_job stamp j w s)"

fun caller :: "wb_call \<Rightarrow> string option" where
  "caller (Claim q w) = Some w"
| "caller (Retry j w) = Some w"
| "caller (Acknowledge j w) = Some w"
| "caller (Fail_Job j w) = Some w"
| "caller _ = None"

text \<open>
  The methods read under one lock and write under another: a call is a check followed by a write. \<open>wb_check\<close> is what
  the reads of a call find out (nothing if it raises or ends there, else the job a claim selected), \<open>wb_write\<close>
  is its one statement that changes a table.
\<close>

fun wb_check :: "wb_call \<Rightarrow> worker_db \<Rightarrow> string option" where
  "wb_check (Create e wid p) s = (if list_ex (\<lambda>r. xe_execution_id r = e) (wb_executions s) then None else Some [])"
| "wb_check (Checkpoint e c) s =
     (case fst (ebind (exec_get e) (\<lambda>r. elift (validate_execution_transition (xs_status r) ''running'')) s) of Inl _ \<Rightarrow> None | Inr _ \<Rightarrow> Some [])"
| "wb_check (Complete e v) s =
     (case fst (ebind (exec_get e) (\<lambda>r. elift (validate_execution_transition (xs_status r) ''succeeded'')) s) of Inl _ \<Rightarrow> None | Inr _ \<Rightarrow> Some [])"
| "wb_check (Fail e v) s =
     (case fst (ebind (exec_get e) (\<lambda>r. elift (validate_execution_transition (xs_status r) ''failed'')) s) of Inl _ \<Rightarrow> None | Inr _ \<Rightarrow> Some [])"
| "wb_check (Enqueue j q p) s = (if list_ex (\<lambda>r. jr_job_id r = j) (wb_jobs s) then None else Some [])"
| "wb_check (Claim q w) s = map_option jr_job_id (claim_select q (wb_jobs s))"
| "wb_check (Retry j w) s = (case fst (assert_ownership j w ''leased'' s) of Inl _ \<Rightarrow> None | Inr _ \<Rightarrow> Some [])"
| "wb_check (Acknowledge j w) s = (case fst (assert_ownership j w ''leased'' s) of Inl _ \<Rightarrow> None | Inr _ \<Rightarrow> Some [])"
| "wb_check (Fail_Job j w) s = (case fst (assert_ownership j w ''leased'' s) of Inl _ \<Rightarrow> None | Inr _ \<Rightarrow> Some [])"

fun wb_write :: "(nat \<Rightarrow> string) \<Rightarrow> wb_call \<Rightarrow> string \<Rightarrow> unit wb" where
  "wb_write stamp (Create e wid p) _ = ebind (text_now stamp) (\<lambda>now.
     exec_insert \<lparr>xe_execution_id = e, xe_workflow_id = wid, xe_status = ''ready'', xe_payload = json_dumps p,
       xe_result = None, xe_error = None, xe_checkpoint = None, xe_updated_at = now\<rparr>)"
| "wb_write stamp (Checkpoint e c) _ = ebind (text_now stamp) (\<lambda>now.
     exec_update e (\<lambda>r. r\<lparr>xe_checkpoint := Some (json_dumps c), xe_status := ''running'', xe_updated_at := now\<rparr>))"
| "wb_write stamp (Complete e v) _ = ebind (text_now stamp) (\<lambda>now.
     exec_update e (\<lambda>r. r\<lparr>xe_status := ''succeeded'', xe_result := dumps_opt v, xe_error := dumps_opt PNone, xe_updated_at := now\<rparr>))"
| "wb_write stamp (Fail e v) _ = ebind (text_now stamp) (\<lambda>now.
     exec_update e (\<lambda>r. r\<lparr>xe_status := ''failed'', xe_result := dumps_opt PNone, xe_error := dumps_opt v, xe_updated_at := now\<rparr>))"
| "wb_write stamp (Enqueue j q p) _ = ebind (text_now stamp) (\<lambda>now.
     job_insert \<lparr>jr_job_id = j, jr_queue = q, jr_payload = json_dumps p, jr_attempts = 0, jr_lease_owner = None,
       jr_status = ''pending'', jr_updated_at = now\<rparr>)"
| "wb_write stamp (Claim q w) jid = claim_update stamp w jid"
| "wb_write stamp (Retry j w) _ = owner_update stamp j w retry_row"
| "wb_write stamp (Acknowledge j w) _ = owner_update stamp j w ack_row"
| "wb_write stamp (Fail_Job j w) _ = owner_update stamp j w fail_row"

text \<open>
  The row a call has checked and is about to write: an execution, or a job under a worker's id. A claim and an insertion
  have none, since their statement tests the row again. A worker runs its calls on a job one after the other, and
  so does whoever drives an execution; otherwise any calls overlap.
\<close>

fun target :: "wb_call \<Rightarrow> (string + string \<times> string) option" where
  "target (Checkpoint e c) = Some (Inl e)"
| "target (Complete e v) = Some (Inl e)"
| "target (Fail e v) = Some (Inl e)"
| "target (Retry j w) = Some (Inr (j, w))"
| "target (Acknowledge j w) = Some (Inr (j, w))"
| "target (Fail_Job j w) = Some (Inr (j, w))"
| "target _ = None"

definition rival :: "wb_call \<Rightarrow> wb_call \<Rightarrow> bool" where
  "rival c c' \<longleftrightarrow> target c \<noteq> None \<and> target c = target c'"

text \<open>The tables with the calls that have checked and not yet written.\<close>

inductive worker_reach :: "(nat \<Rightarrow> string) \<Rightarrow> worker_db \<Rightarrow> (wb_call \<times> string) list \<Rightarrow> bool" for stamp where
  start: "worker_reach stamp empty_worker_db []"
| checked: "worker_reach stamp s pend \<Longrightarrow> wb_check c s = Some x \<Longrightarrow> \<forall>p \<in> set pend. \<not> rival c (fst p) \<Longrightarrow>
    worker_reach stamp s (pend @ [(c, x)])"
| written: "worker_reach stamp s (pend @ (c, x) # pend') \<Longrightarrow> worker_reach stamp (snd (wb_write stamp c x s)) (pend @ pend')"

definition worker_ok :: "worker_db \<Rightarrow> bool" where
  "worker_ok s \<longleftrightarrow> distinct (map jr_job_id (wb_jobs s)) \<and> distinct (map xe_execution_id (wb_executions s))
     \<and> (\<forall>r \<in> set (wb_jobs s). jr_status r = ''pending'' \<longleftrightarrow> jr_lease_owner r = None)"

text \<open>How one call may change a row of each table.\<close>

definition job_move :: "string option \<Rightarrow> job_row \<Rightarrow> job_row \<Rightarrow> bool" where
  "job_move w r r' \<longleftrightarrow> r' = r \<or>
     jr_job_id r' = jr_job_id r \<and> jr_queue r' = jr_queue r \<and> jr_payload r' = jr_payload r
     \<and> jr_status r' \<in> set (valid_job_transitions (jr_status r)) \<and> jr_lease_owner r \<in> {None, w}
     \<and> (jr_status r' = ''pending'' \<longleftrightarrow> jr_lease_owner r' = None)
     \<and> jr_attempts r' = jr_attempts r + (if jr_status r' \<in> {''pending'', ''failed''} then 1 else 0)"

definition exec_move :: "exec_row \<Rightarrow> exec_row \<Rightarrow> bool" where
  "exec_move r r' \<longleftrightarrow> r' = r \<or>
     xe_execution_id r' = xe_execution_id r \<and> xe_workflow_id r' = xe_workflow_id r \<and> xe_payload r' = xe_payload r
     \<and> xe_status r' \<in> set (valid_execution_transitions (xe_status r))"

definition fresh_job :: "job_row list \<Rightarrow> job_row \<Rightarrow> bool" where
  "fresh_job t r \<longleftrightarrow> jr_job_id r \<notin> jr_job_id ` set t \<and> jr_status r = ''pending'' \<and> jr_lease_owner r = None \<and> jr_attempts r = 0"

definition fresh_exec :: "exec_row list \<Rightarrow> exec_row \<Rightarrow> bool" where
  "fresh_exec t r \<longleftrightarrow> xe_execution_id r \<notin> xe_execution_id ` set t \<and> xe_status r = ''ready''"

text \<open>A table after a call: every old row moved or unmoved in its place, and at most one new row after them.\<close>

definition extended :: "('r \<Rightarrow> 'r \<Rightarrow> bool) \<Rightarrow> ('r list \<Rightarrow> 'r \<Rightarrow> bool) \<Rightarrow> 'r list \<Rightarrow> 'r list \<Rightarrow> bool" where
  "extended move fresh t t' \<longleftrightarrow> (\<exists>old new. t' = old @ new \<and> list_all2 move t old \<and> (new = [] \<or> (\<exists>r. new = [r] \<and> fresh t r)))"

definition moves :: "string option \<Rightarrow> worker_db \<Rightarrow> worker_db \<Rightarrow> bool" where
  "moves w s s' \<longleftrightarrow> extended (job_move w) fresh_job (wb_jobs s) (wb_jobs s')
     \<and> extended exec_move fresh_exec (wb_executions s) (wb_executions s')"

lemma extended_map:
  assumes "\<And>r. r \<in> set t \<Longrightarrow> c r \<Longrightarrow> move r (f r)" and "\<And>r. move r r"
  shows "extended move fresh t (map (\<lambda>r. if c r then f r else r) t)"
  unfolding extended_def
  by (intro exI [of _ "map (\<lambda>r. if c r then f r else r) t"] exI [of _ "[]"])
     (use assms in \<open>auto simp: list_all2_map2 list_all2_same\<close>)

lemma extended_refl: "(\<And>r. move r r) \<Longrightarrow> extended move fresh t t"
  using extended_map [of t "\<lambda>_. False" move id fresh] by simp

lemma extended_snoc: "(\<And>r. move r r) \<Longrightarrow> fresh t r \<Longrightarrow> extended move fresh t (t @ [r])"
  unfolding extended_def by (intro exI [of _ t] exI [of _ "[r]"]) (auto simp: list_all2_same)

lemma move_refl [simp]: "job_move w r r" "exec_move x x"
  by (simp_all add: job_move_def exec_move_def)

lemma moves_refl [simp]: "moves w s s"
  by (simp add: moves_def extended_refl)

text \<open>A move keeps the rows well formed.\<close>

lemma extended_key:
  assumes "extended move fresh t t'" and "distinct (map key t)"
    and "\<And>r r'. move r r' \<Longrightarrow> key r' = key r" and "\<And>r. fresh t r \<Longrightarrow> key r \<notin> key ` set t"
  shows "distinct (map key t')"
proof -
  obtain old new where t': "t' = old @ new" "list_all2 move t old" "new = [] \<or> (\<exists>r. new = [r] \<and> fresh t r)"
    using assms(1) by (auto simp: extended_def)
  have "map key old = map key t"
    using t'(2) assms(3) by (induction rule: list_all2_induct) auto
  moreover from this have "key ` set old = key ` set t" by (metis set_map)
  ultimately show ?thesis using t'(1,3) assms(2) by (auto dest!: assms(4)) (metis image_eqI)
qed

lemma moves_ok:
  assumes "moves w s s'" and "worker_ok s"
  shows "worker_ok s'"
proof -
  have "distinct (map jr_job_id (wb_jobs s'))"
  proof (rule extended_key)
    show "extended (job_move w) fresh_job (wb_jobs s) (wb_jobs s')" using assms(1) by (simp add: moves_def)
    show "distinct (map jr_job_id (wb_jobs s))" using assms(2) by (simp add: worker_ok_def)
  qed (auto simp: job_move_def fresh_job_def)
  moreover have "distinct (map xe_execution_id (wb_executions s'))"
  proof (rule extended_key)
    show "extended exec_move fresh_exec (wb_executions s) (wb_executions s')" using assms(1) by (simp add: moves_def)
    show "distinct (map xe_execution_id (wb_executions s))" using assms(2) by (simp add: worker_ok_def)
  qed (auto simp: exec_move_def fresh_exec_def)
  moreover have "\<forall>r \<in> set (wb_jobs s'). jr_status r = ''pending'' \<longleftrightarrow> jr_lease_owner r = None"
  proof -
    obtain old new where t': "wb_jobs s' = old @ new" "list_all2 (job_move w) (wb_jobs s) old"
        "new = [] \<or> (\<exists>r. new = [r] \<and> fresh_job (wb_jobs s) r)"
      using assms(1) by (auto simp: moves_def extended_def)
    have old_rows: "\<forall>r \<in> set (wb_jobs s). jr_status r = ''pending'' \<longleftrightarrow> jr_lease_owner r = None"
      using assms(2) by (simp add: worker_ok_def)
    have "\<forall>r \<in> set old. jr_status r = ''pending'' \<longleftrightarrow> jr_lease_owner r = None"
      using t'(2) old_rows by (induction rule: list_all2_induct) (auto simp: job_move_def)
    then show ?thesis using t' by (auto simp: fresh_job_def)
  qed
  ultimately show ?thesis by (simp add: worker_ok_def)
qed

section \<open>Every call is a move\<close>

lemma find_key: "distinct (map key t) \<Longrightarrow> List.find (\<lambda>r. key r = k) t = Some x \<Longrightarrow> r \<in> set t \<Longrightarrow> key r = k \<Longrightarrow> r = x"
  by (auto simp: find_Some_iff in_set_conv_nth distinct_map inj_on_def) (metis nth_mem)

lemma find_mapped:
  "(\<And>x. key (g x) = key x) \<Longrightarrow> distinct (map key t) \<Longrightarrow> r \<in> set t \<Longrightarrow>
   List.find (\<lambda>x. key x = key r) (map g t) = Some (g r)"
  by (induction t) (auto simp: image_iff)

lemma job_get_state [simp]: "snd (job_get jid s) = s"
  by (simp add: job_get_def split: option.splits)

lemma exec_get_state [simp]: "snd (exec_get eid s) = s"
  by (simp add: exec_get_def split: option.splits)

text \<open>A method is its check followed by its write.\<close>

lemma wb_effect_split:
  "wb_effect stamp c s = (case wb_check c s of None \<Rightarrow> s | Some x \<Rightarrow> snd (wb_write stamp c x s))"
  by (cases c)
    (auto simp: wb_eval set_terminal_def split: option.splits if_splits)

text \<open>What a call that has checked relies on until it writes.\<close>

definition may_become :: "string \<Rightarrow> string \<Rightarrow> worker_db \<Rightarrow> bool" where
  "may_become e t s \<longleftrightarrow> e \<in> xe_execution_id ` set (wb_executions s)
     \<and> (\<forall>r \<in> set (wb_executions s). xe_execution_id r = e \<longrightarrow> t \<in> set (valid_execution_transitions (xe_status r)))"

definition leased_to :: "string \<Rightarrow> string \<Rightarrow> worker_db \<Rightarrow> bool" where
  "leased_to j w s \<longleftrightarrow> j \<in> jr_job_id ` set (wb_jobs s)
     \<and> (\<forall>r \<in> set (wb_jobs s). jr_job_id r = j \<longrightarrow> jr_status r = ''leased'' \<and> jr_lease_owner r = Some w)"

fun held :: "wb_call \<Rightarrow> worker_db \<Rightarrow> bool" where
  "held (Checkpoint e c) s \<longleftrightarrow> may_become e ''running'' s"
| "held (Complete e v) s \<longleftrightarrow> may_become e ''succeeded'' s"
| "held (Fail e v) s \<longleftrightarrow> may_become e ''failed'' s"
| "held (Retry j w) s \<longleftrightarrow> leased_to j w s"
| "held (Acknowledge j w) s \<longleftrightarrow> leased_to j w s"
| "held (Fail_Job j w) s \<longleftrightarrow> leased_to j w s"
| "held _ s \<longleftrightarrow> True"

lemma ownership_leased:
  assumes "worker_ok s" and "fst (assert_ownership j w ''leased'' s) = Inr x"
  shows "leased_to j w s"
proof -
  obtain r where r: "List.find (\<lambda>r. jr_job_id r = j) (wb_jobs s) = Some r" "jr_lease_owner r = Some w" "jr_status r = ''leased''"
    using assms(2) by (auto simp: assert_ownership_def em_simps job_get_def job_record_def split: option.splits if_splits)
  have "r' = r" if "r' \<in> set (wb_jobs s)" "jr_job_id r' = j" for r'
    using find_key [OF _ r(1) that] assms(1) by (simp add: worker_ok_def)
  moreover have "j \<in> jr_job_id ` set (wb_jobs s)" using r(1) by (force simp: find_Some_iff)
  ultimately show ?thesis using r by (auto simp: leased_to_def)
qed

lemma transition_may_become:
  assumes "worker_ok s" and "fst (ebind (exec_get e) (\<lambda>r. elift (validate_execution_transition (xs_status r) t)) s) = Inr x"
  shows "may_become e t s"
proof -
  obtain r where r: "List.find (\<lambda>r. xe_execution_id r = e) (wb_executions s) = Some r" "t \<in> set (valid_execution_transitions (xe_status r))"
    using assms(2) by (auto simp: em_simps exec_get_def exec_record_def validate_execution_transition_def split: option.splits if_splits)
  have "r' = r" if "r' \<in> set (wb_executions s)" "xe_execution_id r' = e" for r'
    using find_key [OF _ r(1) that] assms(1) by (simp add: worker_ok_def)
  moreover have "e \<in> xe_execution_id ` set (wb_executions s)" using r(1) by (force simp: find_Some_iff)
  ultimately show ?thesis using r by (auto simp: may_become_def)
qed

lemma check_held: "worker_ok s \<Longrightarrow> wb_check c s = Some x \<Longrightarrow> held c s"
  by (cases c) (auto split: sum.splits intro: ownership_leased transition_may_become)

lemma job_writes_moves:
  "(\<And>r. r \<in> set (wb_jobs s) \<Longrightarrow> cond r \<Longrightarrow> job_move w r (f r)) \<Longrightarrow> moves w s (s\<lparr>wb_tick := n, wb_jobs := map (\<lambda>r. if cond r then f r else r) (wb_jobs s)\<rparr>)"
  by (simp add: moves_def extended_refl extended_map)

lemma exec_writes_moves:
  "(\<And>r. r \<in> set (wb_executions s) \<Longrightarrow> cond r \<Longrightarrow> exec_move r (f r)) \<Longrightarrow>
     moves w s (s\<lparr>wb_tick := n, wb_executions := map (\<lambda>r. if cond r then f r else r) (wb_executions s)\<rparr>)"
  by (simp add: moves_def extended_refl extended_map)

lemmas row_moves = job_move_def exec_move_def valid_job_transitions_def valid_execution_transitions_def
  retry_row_def ack_row_def fail_row_def
lemmas write_eval = em_simps text_now_def exec_update_def exec_insert_def job_insert_def job_update_def owner_update_def claim_update_def

lemma write_moves:
  assumes "held c s"
  shows "moves (caller c) s (snd (wb_write stamp c x s))"
proof (cases c)
  case (Create e wid p)
  then show ?thesis by (auto simp: write_eval moves_def fresh_exec_def list_ex_iff intro!: extended_refl extended_snoc)
next
  case (Enqueue j q p)
  then show ?thesis by (auto simp: write_eval moves_def fresh_job_def list_ex_iff intro!: extended_refl extended_snoc)
next
  case (Claim q w)
  then show ?thesis by (auto simp: write_eval available_def row_moves intro!: job_writes_moves)
qed (use assms in \<open>auto simp: write_eval leased_to_def may_become_def row_moves intro!: job_writes_moves exec_writes_moves split: if_splits\<close>)

text \<open>A write leaves the rows alone that a call without a rival relies on.\<close>

lemma leased_to_kept:
  assumes "leased_to j w s" and "target c \<noteq> Some (Inr (j, w))"
  shows "leased_to j w (snd (wb_write stamp c x s))"
  using assms by (cases c) (auto simp: write_eval leased_to_def available_def list_ex_iff retry_row_def ack_row_def fail_row_def)

lemma may_become_kept:
  assumes "may_become e t s" and "target c \<noteq> Some (Inl e)"
  shows "may_become e t (snd (wb_write stamp c x s))"
  using assms by (cases c) (auto simp: write_eval may_become_def list_ex_iff)

lemma write_held:
  assumes "held c s" and "\<not> rival c c'"
  shows "held c (snd (wb_write stamp c' x s))"
  using assms by (cases c) (auto simp: rival_def intro: leased_to_kept may_become_kept)

lemma rival_sym: "rival a b \<Longrightarrow> rival b a"
  unfolding rival_def by metis

lemma worker_reach_inv:
  "worker_reach stamp s pend \<Longrightarrow> worker_ok s \<and> (\<forall>p \<in> set pend. held (fst p) s) \<and> sorted_wrt (\<lambda>p q. \<not> rival (fst p) (fst q)) pend"
proof (induction rule: worker_reach.induct)
  case start
  then show ?case by (simp add: worker_ok_def empty_worker_db_def)
next
  case (checked s pend c x)
  then show ?case using check_held rival_sym by (auto simp: sorted_wrt_append)
next
  case (written s pend c x pend')
  have others: "\<forall>p \<in> set (pend @ pend'). \<not> rival (fst p) c" using written.IH rival_sym by (auto simp: sorted_wrt_append)
  have "worker_ok (snd (wb_write stamp c x s))" using moves_ok [OF write_moves] written.IH by auto
  moreover have "\<forall>p \<in> set (pend @ pend'). held (fst p) (snd (wb_write stamp c x s))"
    using others written.IH write_held by auto
  ultimately show ?case using written.IH by (auto simp: sorted_wrt_append)
qed

section \<open>The order of claims\<close>

lemma sort_key_twice_head:
  assumes "sort_key f (sort_key g xs) = h # t" and "y \<in> set xs"
  shows "f h < f y \<or> f h = f y \<and> g h \<le> g y"
proof -
  have "sorted (map f (h # t))" using assms(1) by (metis sorted_sort_key)
  moreover have y: "y \<in> set (h # t)" using assms by (metis set_sort)
  ultimately have le: "f h \<le> f y" by auto
  have "g h \<le> g y" if "f y = f h"
  proof -
    have "filter (\<lambda>x. f x = f h) (h # t) = filter (\<lambda>x. f x = f h) (sort_key g xs)"
      by (metis assms(1) sort_key_stable)
    moreover have "sorted (map g (filter (\<lambda>x. f x = f h) (sort_key g xs)))"
      by (intro sorted_filter) simp
    ultimately have "sorted (map g (h # filter (\<lambda>x. f x = f h) t))" by simp
    then show ?thesis using y that by auto
  qed
  then show ?thesis using le by fastforce
qed

lemma claim_select_oldest:
  assumes "claim_select q t = Some r"
  shows "r \<in> set t \<and> jr_queue r = q \<and> available r"
    and "x \<in> set t \<Longrightarrow> jr_queue x = q \<Longrightarrow> available x \<Longrightarrow>
      jr_updated_at r < jr_updated_at x \<or> jr_updated_at r = jr_updated_at x \<and> jr_job_id r \<le> jr_job_id x"
proof -
  obtain rs where rs: "sort_key jr_updated_at (sort_key jr_job_id (filter (\<lambda>r. jr_queue r = q \<and> available r) t)) = r # rs"
    using assms by (auto simp: claim_select_def split: list.splits)
  then have "r \<in> set (filter (\<lambda>r. jr_queue r = q \<and> available r) t)" by (metis list.set_intros(1) set_sort)
  then show "r \<in> set t \<and> jr_queue r = q \<and> available r" by simp
  show "jr_updated_at r < jr_updated_at x \<or> jr_updated_at r = jr_updated_at x \<and> jr_job_id r \<le> jr_job_id x"
    if "x \<in> set t" "jr_queue x = q" "available x"
    using sort_key_twice_head [OF rs, of x] that by simp
qed

lemma sort_key_Nil_iff: "sort_key f xs = [] \<longleftrightarrow> xs = []"
  by (metis length_0_conv length_sort)

lemma claim_select_None: "claim_select q t = None \<longleftrightarrow> (\<forall>r \<in> set t. \<not> (jr_queue r = q \<and> available r))"
proof -
  have "claim_select q t = None \<longleftrightarrow> sort_key jr_updated_at (sort_key jr_job_id (filter (\<lambda>r. jr_queue r = q \<and> available r) t)) = []"
    by (simp add: claim_select_def split: list.splits)
  then show ?thesis by (simp add: sort_key_Nil_iff filter_empty_conv)
qed

section \<open>Properties\<close>

text \<open>
  C8. The rows of both tables follow their status machines, also when calls overlap between their check and their
  write: in every state that any number of threads and processes can reach, where no two overlapping calls act on the same job
  under one worker id or move the same execution, the write of a call leaves every row in its place, unchanged or moved
  along its status machine, and adds at most one row, fresh and with a new id. A moved row keeps its identity and payload,
  a terminal row never moves, a leased job is moved only by the worker that holds the lease, and its attempts count its
  retries and its failure. Ids stay unique, and a job is pending exactly when nobody holds it. Run alone, a method
  is its check followed by its write, so the same holds for calls one after the other.
\<close>

theorem rows_follow_status_machines:
  assumes "worker_reach stamp s pend"
  shows "worker_ok s
    \<and> (\<forall>(c, x) \<in> set pend. moves (caller c) s (snd (wb_write stamp c x s)))
    \<and> (\<forall>c. moves (caller c) s (wb_effect stamp c s))"
proof -
  note inv = worker_reach_inv [OF assms]
  then have "moves (caller c) s (wb_effect stamp c s)" for c
    by (auto simp: wb_effect_split intro: write_moves check_held split: option.split)
  then show ?thesis using inv write_moves by fastforce
qed

text \<open>
  A claim leases to its worker the job of the queue that has been available longest (and of these the one
  with the least id), and returns nothing exactly when no job of the queue is available.
\<close>

theorem claim_takes_oldest:
  assumes "worker_reach stamp s pend" and "job_claim stamp q w s = (r, s')"
  shows "(r = Inr None \<longleftrightarrow> (\<forall>x \<in> set (wb_jobs s). \<not> (jr_queue x = q \<and> available x)))
    \<and> (r \<noteq> Inr None \<longrightarrow> (\<exists>j row. r = Inr (Some j) \<and> row \<in> set (wb_jobs s) \<and> jr_job_id row = qj_job_id j \<and> jr_queue row = q \<and> available row
          \<and> qj_lease_owner j = Some w \<and> qj_status j = ''leased'' \<and> qj_payload j = json_loads (jr_payload row)
          \<and> (\<forall>x \<in> set (wb_jobs s). jr_queue x = q \<and> available x \<longrightarrow>
               jr_updated_at row < jr_updated_at x \<or> jr_updated_at row = jr_updated_at x \<and> jr_job_id row \<le> jr_job_id x)))"
proof (cases "claim_select q (wb_jobs s)")
  case None
  then have "r = Inr None" using assms(2) by (simp add: job_claim_def em_simps)
  then show ?thesis using None by (simp add: claim_select_None)
next
  case (Some row)
  note row = claim_select_oldest(1) [OF Some]
  let ?g = "\<lambda>x. if jr_job_id x = jr_job_id row \<and> available x
      then x\<lparr>jr_lease_owner := Some w, jr_status := ''leased'', jr_updated_at := stamp (wb_tick s)\<rparr> else x"
  have "distinct (map jr_job_id (wb_jobs s))" using worker_reach_inv [OF assms(1)] by (simp add: worker_ok_def)
  then have f: "List.find (\<lambda>x. jr_job_id x = jr_job_id row) (map ?g (wb_jobs s)) = Some (?g row)"
    using row by (intro find_mapped) auto
  have "r = Inr (Some (job_record (?g row)))"
    using assms(2) Some f by (auto simp: job_claim_def em_simps claim_update_def text_now_def job_update_def job_get_def)
  then show ?thesis
    using row claim_select_oldest(2) [OF Some] by (auto simp: job_record_def claim_select_None [symmetric] intro!: exI [of _ row])
qed

text \<open>
  The smoke test that the module ships passes: every one of its assertions holds and every error it expects is
  raised, whatever the clock returns.
\<close>

theorem smoke_test_passes: "fst (run_integration_test stamp empty_worker_db) = Inr ()"
  using store_smoke_test_ok [of stamp] queue_smoke_test_ok [of stamp] by (auto simp: run_integration_test_def em_simps)

section \<open>Witnesses\<close>

text \<open>Two workers check at once: one retries the job it holds, the other claims another job.\<close>

definition two_jobs :: worker_db where
  "two_jobs = fold (wb_effect (\<lambda>_. ''t'')) [Enqueue ''j'' ''q'' PNone, Claim ''q'' ''w'', Enqueue ''k'' ''q'' PNone] empty_worker_db"

lemma reach_effect: "worker_reach stamp s [] \<Longrightarrow> worker_reach stamp (wb_effect stamp c s) []"
  using worker_reach.checked [of stamp s "[]" c] worker_reach.written [of stamp s "[]" c _ "[]"]
  by (auto simp: wb_effect_split split: option.split)

lemma two_jobs_reach: "worker_reach (\<lambda>_. ''t'') two_jobs [(Retry ''j'' ''w'', []), (Claim ''q'' ''v'', ''k'')]"
proof -
  have "worker_reach (\<lambda>_. ''t'') two_jobs []"
    unfolding two_jobs_def by (simp add: reach_effect worker_reach.start del: wb_effect.simps)
  moreover have "wb_check (Retry ''j'' ''w'') two_jobs = Some []" "wb_check (Claim ''q'' ''v'') two_jobs = Some ''k''"
    by code_simp+
  ultimately show ?thesis
    using worker_reach.checked [of _ two_jobs "[]"] worker_reach.checked [of _ two_jobs "[(Retry ''j'' ''w'', [])]"]
    by (fastforce simp: rival_def)
qed

theorem rows_follow_status_machines_witness:
  "moves (Some ''w'') two_jobs (snd (wb_write (\<lambda>_. ''t'') (Retry ''j'' ''w'') [] two_jobs))
   \<and> moves (Some ''v'') two_jobs (snd (wb_write (\<lambda>_. ''t'') (Claim ''q'' ''v'') ''k'' two_jobs))
   \<and> map jr_status (wb_jobs two_jobs) = [''leased'', ''pending'']"
proof -
  have "map jr_status (wb_jobs two_jobs) = [''leased'', ''pending'']" by code_simp
  then show ?thesis using rows_follow_status_machines [OF two_jobs_reach] by simp
qed

lemma reach_one: "worker_reach stamp (wb_effect stamp (Create ''e'' ''f'' PNone) (wb_effect stamp (Enqueue ''j'' ''q'' PNone) empty_worker_db)) []"
  by (intro reach_effect worker_reach.start)

theorem claim_takes_oldest_witness:
  "\<exists>j. fst (job_claim (\<lambda>_. ''t'') ''q'' ''w''
      (wb_effect (\<lambda>_. ''t'') (Create ''e'' ''f'' PNone) (wb_effect (\<lambda>_. ''t'') (Enqueue ''j'' ''q'' PNone) empty_worker_db))) = Inr (Some j)
     \<and> qj_lease_owner j = Some ''w''"
  using claim_takes_oldest [OF reach_one [of "\<lambda>_. ''t''"] surjective_pairing, of "''q''" "''w''"]
  by (simp add: wb_eval empty_worker_db_def)

section \<open>What the methods do not do\<close>

text \<open>
  \<open>checkpoint\<close> advances a ready execution to running and nothing leads from running to running: an execution
  can be checkpointed once.
\<close>

lemma second_checkpoint_raises:
  assumes "List.find (\<lambda>r. xe_execution_id r = eid) (wb_executions s) = Some r" and "xe_status r = ''running''"
  shows "exec_checkpoint stamp eid c s = (Inl (Exn InvalidStatusTransitionError (''Execution status transition '' @ quoted ''running'')), s)"
  using assms by (simp add: wb_eval)

text \<open>
  Two processes on one database: both select before either updates. The update of the second matches no row, and
  the second is handed the job that the first one leased.
\<close>

lemma raced_claim_returns_foreign_job:
  assumes "claim_select q (wb_jobs s) = Some r" and "distinct (map jr_job_id (wb_jobs s))" and "w \<noteq> v"
  shows "\<exists>j. fst (eseq (claim_update stamp w (jr_job_id r)) (eseq (claim_update stamp v (jr_job_id r)) (job_get (jr_job_id r))) s) = Inr j
     \<and> qj_lease_owner j = Some w"
proof -
  define u where "u x = (if jr_job_id x = jr_job_id r \<and> available x
      then x\<lparr>jr_lease_owner := Some w, jr_status := ''leased'', jr_updated_at := stamp (wb_tick s)\<rparr> else x)" for x :: job_row
  define t where "t = map u (wb_jobs s)"
  have r: "r \<in> set (wb_jobs s)" "available r" using claim_select_oldest(1) [OF assms(1)] by auto
  have "\<forall>x \<in> set t. \<not> (jr_job_id x = jr_job_id r \<and> available x)" by (auto simp: t_def u_def available_def)
  then have "map (\<lambda>x. if jr_job_id x = jr_job_id r \<and> available x then y x else x) t = t" for y
    by (intro map_idI) auto
  moreover have "List.find (\<lambda>x. jr_job_id x = jr_job_id r) t = Some (u r)"
    unfolding t_def using r assms(2) by (intro find_mapped) (auto simp: u_def)
  moreover have "claim_update stamp w (jr_job_id r) s = (Inr (), s\<lparr>wb_tick := Suc (wb_tick s), wb_jobs := t\<rparr>)"
    by (simp add: em_simps claim_update_def text_now_def job_update_def t_def u_def [abs_def])
  ultimately show ?thesis
    using r by (simp add: em_simps claim_update_def [of stamp v] text_now_def job_update_def job_get_def job_record_def u_def)
qed

text \<open>
  Two calls under the same worker id overlap: both pass the check, the job is acknowledged, and the write of the
  retry, which tests the owner and not the status, reopens it.
\<close>

lemma raced_retry_reopens_completed:
  assumes "wb_jobs s = [r]" and "jr_lease_owner r = Some w" and "jr_job_id r = j"
  shows "wb_jobs (snd (eseq (owner_update stamp j w ack_row) (owner_update stamp j w retry_row) s))
    = [r\<lparr>jr_attempts := jr_attempts r + 1, jr_lease_owner := None, jr_status := ''pending'', jr_updated_at := stamp (Suc (wb_tick s))\<rparr>]"
  using assms by (simp add: em_simps owner_update_def text_now_def job_update_def ack_row_def retry_row_def)

end
