(* ===== verification/LLM_Gateway.thy ===== *)
theory LLM_Gateway
  imports Binary64
begin

text \<open>
  \<^verbatim>\<open>ois/runtime/llm_gateway.py\<close>, the routing of \<^verbatim>\<open>ois/runtime/fabrics.py\<close> that it serves, and
  \<^verbatim>\<open>ois/runtime/agent_runtime.py\<close>. A provider is a function of the moment of the call, the model and the request
  that returns something or raises. The builtin \<open>sum\<close> over floats (whose rounding depends on the interpreter) is an
  argument; a clock is read at the tick. The text of a lookup error stops before the printed set.
\<close>

section \<open>Routes\<close>

abbreviation LookupError :: exn_class where
  "LookupError \<equiv> OtherException ''LookupError''"

abbreviation ModelOutputError :: exn_class where
  "ModelOutputError \<equiv> OtherException ''ModelOutputError''"

record llm_spec =
  gs_ref_id :: string
  gs_version :: string
  gs_providers :: "string list"
  gs_routing_policy :: string
  gs_retry_policy :: string
  gs_fallback_policy :: string
  gs_streaming :: bool
  gs_structured_output :: bool

record model_route =
  mr_ref_id :: string
  mr_version :: string
  mr_provider :: string
  mr_model :: string
  mr_capabilities :: "string list"
  mr_cost_profile :: "(string \<times> rat) list"
  mr_constraints :: pydict

text \<open>\<open>==\<close> of two routes, which are dataclasses with dicts in them.\<close>

definition cost_value :: "(string \<times> rat) list \<Rightarrow> pyval" where
  "cost_value c = PDict (map (map_prod id PFloat) c)"

definition route_eq :: "model_route \<Rightarrow> model_route \<Rightarrow> bool" where
  "route_eq a b \<longleftrightarrow> (mr_ref_id a, mr_version a, mr_provider a, mr_model a, mr_capabilities a)
       = (mr_ref_id b, mr_version b, mr_provider b, mr_model b, mr_capabilities b)
     \<and> py_eq (cost_value (mr_cost_profile a)) (cost_value (mr_cost_profile b))
     \<and> py_eq (PDict (mr_constraints a)) (PDict (mr_constraints b))"

text \<open>\<open>routes.append(route); routes.sort(key=(provider, model, version))\<close>.\<close>

definition sort_routes :: "model_route list \<Rightarrow> model_route list" where
  "sort_routes rs = sort_key mr_provider (sort_key mr_model (sort_key mr_version rs))"

definition register_route :: "model_route \<Rightarrow> model_route list \<Rightarrow> model_route list" where
  "register_route r rs = sort_routes (rs @ [r])"

text \<open>\<open>v.items()\<close>, which only a dict has.\<close>

definition dict_items :: "pyval \<Rightarrow> py_exn + pydict" where
  "dict_items v = (case v of PDict d \<Rightarrow> Inr d
     | _ \<Rightarrow> Inl (Exn AttributeError ([CHR 0x27] @ py_type_name v @ [CHR 0x27] @ '' object has no attribute '' @ [CHR 0x27] @ ''items'' @ [CHR 0x27])))"

definition satisfies :: "pydict \<Rightarrow> pydict \<Rightarrow> bool" where
  "satisfies have_c want \<longleftrightarrow>
     list_all (\<lambda>(k, v). py_eq (case map_of have_c k of None \<Rightarrow> PNone | Some x \<Rightarrow> x) v) want"

text \<open>The constraints are read only for a route that has the capabilities.\<close>

definition compatible :: "string list \<Rightarrow> pyval \<Rightarrow> model_route \<Rightarrow> py_exn + bool" where
  "compatible caps constraints r =
     (if set caps \<subseteq> set (mr_capabilities r)
      then rbind (dict_items constraints) (\<lambda>d. Inr (satisfies (mr_constraints r) d))
      else Inr False)"

fun filter_routes :: "(model_route \<Rightarrow> py_exn + bool) \<Rightarrow> model_route list \<Rightarrow> py_exn + model_route list" where
  "filter_routes p [] = Inr []"
| "filter_routes p (r # rs) = rbind (p r) (\<lambda>ok. rbind (filter_routes p rs) (\<lambda>out. Inr (if ok then r # out else out)))"

text \<open>\<open>min(candidates, key=(sum(costs), provider, model))\<close>: the first of the least.\<close>

definition route_cost :: "(rat list \<Rightarrow> rat) \<Rightarrow> model_route \<Rightarrow> rat" where
  "route_cost psum r = psum (map snd (mr_cost_profile r))"

definition cheaper :: "(rat list \<Rightarrow> rat) \<Rightarrow> model_route \<Rightarrow> model_route \<Rightarrow> bool" where
  "cheaper psum a b \<longleftrightarrow> route_cost psum a < route_cost psum b
     \<or> route_cost psum a = route_cost psum b
       \<and> (mr_provider a < mr_provider b \<or> mr_provider a = mr_provider b \<and> mr_model a < mr_model b)"

fun min_route :: "(rat list \<Rightarrow> rat) \<Rightarrow> model_route \<Rightarrow> model_route list \<Rightarrow> model_route" where
  "min_route psum best [] = best"
| "min_route psum best (r # rs) = min_route psum (if cheaper psum r best then r else best) rs"

definition or_empty :: "pyval \<Rightarrow> pyval" where
  "or_empty v = (if py_truthy v then v else PDict [])"

definition llm_route :: "(rat list \<Rightarrow> rat) \<Rightarrow> string list \<Rightarrow> pyval \<Rightarrow> model_route list \<Rightarrow> py_exn + model_route" where
  "llm_route psum caps constraints rs =
     rbind (filter_routes (compatible caps (or_empty constraints)) rs) (\<lambda>candidates.
     case candidates of
       [] \<Rightarrow> Inl (Exn LookupError ''no model route satisfies capabilities='')
     | r # others \<Rightarrow> Inr (min_route psum r others))"

section \<open>The gateway\<close>

text \<open>What a provider may return: a \<open>ModelOutput\<close> or some other object.\<close>

datatype provider_output = Output string | Other_Object

definition mk_model_output :: "string \<Rightarrow> py_exn + provider_output" where
  "mk_model_output content =
     (if py_blank content then Inl (Exn ModelOutputError ''model output content must be a non-empty string'')
      else Inr (Output content))"

type_synonym provider = "nat \<Rightarrow> string \<Rightarrow> pydict \<Rightarrow> py_exn + provider_output"

record inference_record =
  if_request_id :: string
  if_provider :: string
  if_model :: string
  if_status :: string
  if_started_at :: string
  if_latency_ms :: rat
  if_error_type :: "string option"

record llm_env =
  le_now :: "nat \<Rightarrow> string"
  le_monotonic :: "nat \<Rightarrow> rat"
  le_sum :: "rat list \<Rightarrow> rat"

record llm_gateway =
  lg_spec :: llm_spec
  lg_routes :: "model_route list"
  lg_providers :: "(string \<times> provider) list"
  lg_records :: "inference_record list"
  lg_max_attempts :: int
  lg_tick :: nat

definition mk_llm_gateway :: "llm_spec \<Rightarrow> int \<Rightarrow> py_exn + llm_gateway" where
  "mk_llm_gateway sp n =
     (if n < 1 then Inl (Exn ValueError ''max_attempts must be >= 1'')
      else Inr \<lparr>lg_spec = sp, lg_routes = [], lg_providers = [], lg_records = [], lg_max_attempts = n, lg_tick = 0\<rparr>)"

type_synonym 'a lgm = "(llm_gateway, 'a) em"

definition register_provider :: "string \<Rightarrow> provider \<Rightarrow> llm_gateway \<Rightarrow> llm_gateway" where
  "register_provider pid p g = g\<lparr>lg_providers := AList.update pid p (lg_providers g)\<rparr>"

definition lg_read :: "(nat \<Rightarrow> 'a) \<Rightarrow> 'a lgm" where
  "lg_read f = (\<lambda>g. (Inr (f (lg_tick g)), g\<lparr>lg_tick := Suc (lg_tick g)\<rparr>))"

definition lg_record :: "inference_record \<Rightarrow> unit lgm" where
  "lg_record r = emod (\<lambda>g. g\<lparr>lg_records := lg_records g @ [r]\<rparr>)"

definition inference ::
  "string \<Rightarrow> model_route \<Rightarrow> string \<Rightarrow> string \<Rightarrow> rat \<Rightarrow> string option \<Rightarrow> inference_record" where
  "inference rid r status started latency err =
     \<lparr>if_request_id = rid, if_provider = mr_provider r, if_model = mr_model r, if_status = status,
      if_started_at = started, if_latency_ms = latency, if_error_type = err\<rparr>"

definition exhausted_providers :: "nat \<Rightarrow> py_exn" where
  "exhausted_providers n =
     Exn (OtherException ''ModelProvidersExhausted'') (''model provider attempts exhausted after '' @ nat_str n @ '' attempt(s)'')"

text \<open>\<open>{"prompt": prompt, **options}\<close>.\<close>

definition llm_request :: "string \<Rightarrow> pydict \<Rightarrow> pydict" where
  "llm_request prompt options = fold (\<lambda>(k, v). AList.update k v) options [(''prompt'', PStr prompt)]"

text \<open>One call of a provider, with the check of the type of its result.\<close>

definition call_provider :: "provider \<Rightarrow> model_route \<Rightarrow> pydict \<Rightarrow> nat \<Rightarrow> py_exn + string" where
  "call_provider p r req t =
     rbind (p t (mr_model r) req) (\<lambda>out. case out of
       Output c \<Rightarrow> Inr c
     | Other_Object \<Rightarrow> Inl (Exn ModelOutputError ''provider returned an invalid model output type''))"

definition try_route ::
  "llm_env \<Rightarrow> string \<Rightarrow> pydict \<Rightarrow> model_route \<Rightarrow> string option lgm" where
  "try_route env rid req r =
     ebind (eget (\<lambda>g. map_of (lg_providers g) (mr_provider r))) (\<lambda>found.
     case found of
       None \<Rightarrow> ebind (lg_read (le_now env)) (\<lambda>now.
         eseq (lg_record (inference rid r ''failed'' now 0 (Some ''LookupError''))) (eret None))
     | Some p \<Rightarrow>
         ebind (lg_read (le_now env)) (\<lambda>started_at.
         ebind (lg_read (le_monotonic env)) (\<lambda>started.
         ebind (lg_read (call_provider p r req)) (\<lambda>result.
         ebind (lg_read (le_monotonic env)) (\<lambda>ended.
         let latency = fl (fl (ended - started) * 1000) in
         case result of
           Inl e \<Rightarrow> eseq (lg_record (inference rid r ''failed'' started_at latency (Some (exn_name (exn_class e))))) (eret None)
         | Inr c \<Rightarrow> eseq (lg_record (inference rid r ''succeeded'' started_at latency None)) (eret (Some c)))))))"

fun try_routes :: "llm_env \<Rightarrow> string \<Rightarrow> pydict \<Rightarrow> model_route list \<Rightarrow> nat \<Rightarrow> string lgm" where
  "try_routes env rid req [] n = eraise (exhausted_providers n)"
| "try_routes env rid req (r # rs) n =
     ebind (try_route env rid req r) (\<lambda>out.
     case out of Some c \<Rightarrow> eret c | None \<Rightarrow> try_routes env rid req rs (Suc n))"

text \<open>The selected route and, under the policy \<open>next_compatible\<close>, the other compatible ones in order.\<close>

definition llm_candidates :: "llm_env \<Rightarrow> string list \<Rightarrow> pydict \<Rightarrow> llm_gateway \<Rightarrow> py_exn + model_route list" where
  "llm_candidates env caps options g =
     rbind (llm_route (le_sum env) caps (case map_of options ''constraints'' of None \<Rightarrow> PNone | Some v \<Rightarrow> v) (lg_routes g)) (\<lambda>selected.
     if gs_fallback_policy (lg_spec g) = ''next_compatible''
     then rbind (filter_routes (\<lambda>r. if route_eq r selected then Inr False
                   else compatible caps (case map_of options ''constraints'' of None \<Rightarrow> PDict [] | Some v \<Rightarrow> v) r) (lg_routes g))
            (\<lambda>others. Inr (selected # others))
     else Inr [selected])"

definition llm_invoke :: "llm_env \<Rightarrow> string \<Rightarrow> string \<Rightarrow> string list \<Rightarrow> pydict \<Rightarrow> string lgm" where
  "llm_invoke env rid prompt caps options =
     ebind (eget (llm_candidates env caps options)) (\<lambda>found.
     ebind (elift found) (\<lambda>candidates.
     ebind (eget lg_max_attempts) (\<lambda>n.
     try_routes env rid (llm_request prompt options) (take (nat n) candidates) 0)))"

end
