(* ===== verification/Runtime_Fabrics.thy ===== *)
theory Runtime_Fabrics
  imports LLM_Gateway Registry_Core
begin

text \<open>
  \<^verbatim>\<open>ois/runtime/agent_runtime.py\<close> and \<^verbatim>\<open>ois/runtime/fabrics.py\<close>: agent sessions over a model gateway, and the in-memory
  fabrics (workflows, worker queues, the compatibility facade of the model gateway, knowledge, middleware,
  reasoning patterns, studio, social signals, learning) with the specifications of \<^verbatim>\<open>ois/architecture/fabrics.py\<close>.
  The gateway of an agent, the hooks of a middleware, \<open>str.lower\<close> and \<open>str\<close> of a dict are arguments. A dict that a
  method returns is the value it has then. The handlers that \<open>register_fabric_capabilities\<close> wraps are arguments of the
  capability that wraps them.
\<close>

section \<open>Agent sessions\<close>

record agent_workspace =
  ak_agent_id :: string
  ak_policy_ref :: "string option"
  ak_skills :: "string list"
  ak_tools :: "string list"
  ak_memory_ref :: "string option"
  ak_timeout_seconds :: rat

definition mk_agent_workspace :: "agent_workspace \<Rightarrow> py_exn + agent_workspace" where
  "mk_agent_workspace a =
     (if ak_timeout_seconds a \<le> 0 then Inl (Exn ValueError ''agent timeout_seconds must be a finite positive number'') else Inr a)"

record agent_session =
  as_session_id :: string
  as_agent_id :: string
  as_status :: string
  as_messages :: "pydict list"
  as_created_at :: timestamp
  as_updated_at :: timestamp

record agent_run_result =
  an_session_id :: string
  an_status :: string
  an_output :: string
  an_model :: string
  an_started_at :: timestamp
  an_completed_at :: timestamp

type_synonym agent_memory = "((string \<times> string) \<times> pydict list) list"

definition memory_load :: "string \<Rightarrow> string \<Rightarrow> agent_memory \<Rightarrow> pydict list" where
  "memory_load a s m = (case map_of m (a, s) of None \<Rightarrow> [] | Some l \<Rightarrow> l)"

definition memory_append :: "string \<Rightarrow> string \<Rightarrow> pydict \<Rightarrow> agent_memory \<Rightarrow> agent_memory" where
  "memory_append a s item m = AList.update (a, s) (memory_load a s m @ [item]) m"

record agent_world =
  ag_tick :: nat
  ag_memory :: agent_memory
  ag_workspaces :: "(string \<times> agent_workspace) list"
  ag_sessions :: "(string \<times> agent_session) list"

type_synonym agent_gateway = "nat \<Rightarrow> string \<Rightarrow> pydict list \<Rightarrow> rat \<Rightarrow> pydict \<Rightarrow> py_exn + provider_output"
type_synonym 'a agm = "(agent_world, 'a) em"

definition ag_read :: "(nat \<Rightarrow> 'a) \<Rightarrow> 'a agm" where
  "ag_read f = (\<lambda>w. (Inr (f (ag_tick w)), w\<lparr>ag_tick := Suc (ag_tick w)\<rparr>))"

definition register_workspace :: "agent_workspace \<Rightarrow> agent_world \<Rightarrow> agent_world" where
  "register_workspace a w = w\<lparr>ag_workspaces := AList.update (ak_agent_id a) a (ag_workspaces w)\<rparr>"

definition create_session :: "environ \<Rightarrow> string \<Rightarrow> agent_session agm" where
  "create_session env agent =
     ebind (eget (\<lambda>w. map_of (ag_workspaces w) agent)) (\<lambda>found.
     if found = None then eraise (Exn KeyError (''Unknown agent workspace: '' @ agent))
     else ebind (ag_read (fresh_uuid env)) (\<lambda>sid.
       ebind (ag_read (clock env)) (\<lambda>created.
       ebind (ag_read (clock env)) (\<lambda>updated.
       let session = \<lparr>as_session_id = sid, as_agent_id = agent, as_status = ''active'', as_messages = [],
                      as_created_at = created, as_updated_at = updated\<rparr>
       in eseq (emod (\<lambda>w. w\<lparr>ag_sessions := AList.update sid session (ag_sessions w)\<rparr>)) (eret session)))))"

definition session_of :: "string \<Rightarrow> agent_session agm" where
  "session_of sid = (\<lambda>w. case map_of (ag_sessions w) sid of None \<Rightarrow> (Inl (Exn KeyError sid), w) | Some s \<Rightarrow> (Inr s, w))"

definition workspace_of :: "string \<Rightarrow> agent_workspace agm" where
  "workspace_of a = (\<lambda>w. case map_of (ag_workspaces w) a of None \<Rightarrow> (Inl (Exn KeyError a), w) | Some s \<Rightarrow> (Inr s, w))"

definition on_session :: "string \<Rightarrow> (agent_session \<Rightarrow> agent_session) \<Rightarrow> unit agm" where
  "on_session sid f =
     emod (\<lambda>w. w\<lparr>ag_sessions := (case map_of (ag_sessions w) sid of None \<Rightarrow> ag_sessions w
                                 | Some s \<Rightarrow> AList.update sid (f s) (ag_sessions w))\<rparr>)"

definition agent_message :: "string \<Rightarrow> string \<Rightarrow> pydict" where
  "agent_message who content = [(''role'', PStr who), (''content'', PStr content)]"

definition add_message :: "pydict \<Rightarrow> agent_session \<Rightarrow> agent_session" where
  "add_message m s = s\<lparr>as_messages := as_messages s @ [m]\<rparr>"

definition agent_run ::
  "environ \<Rightarrow> agent_gateway \<Rightarrow> string \<Rightarrow> string \<Rightarrow> string \<Rightarrow> pydict list \<Rightarrow> agent_run_result agm" where
  "agent_run env gw sid prompt model context =
     ebind (session_of sid) (\<lambda>session.
     ebind (workspace_of (as_agent_id session)) (\<lambda>workspace.
     ebind (ag_read (clock env)) (\<lambda>started.
     ebind (eget (\<lambda>w. memory_load (ak_agent_id workspace) sid (ag_memory w))) (\<lambda>history.
     let user = agent_message ''user'' prompt; messages = history @ context @ [user] in
     eseq (on_session sid (add_message user))
     (ebind (ag_read (\<lambda>t. gw t model messages (ak_timeout_seconds workspace)
                [(''agent_id'', PStr (ak_agent_id workspace)), (''session_id'', PStr sid)])) (\<lambda>answer.
     ebind (elift answer) (\<lambda>out.
     case out of
       Other_Object \<Rightarrow> eraise (Exn ModelOutputError ''agent gateway returned an invalid model output type'')
     | Output content \<Rightarrow>
         let reply = agent_message ''assistant'' content in
         eseq (on_session sid (add_message reply))
         (eseq (emod (\<lambda>w. w\<lparr>ag_memory := memory_append (ak_agent_id workspace) sid reply (ag_memory w)\<rparr>))
         (ebind (ag_read (clock env)) (\<lambda>completed.
         eseq (on_session sid (\<lambda>s. s\<lparr>as_updated_at := completed\<rparr>))
         (eret \<lparr>an_session_id = sid, an_status = ''completed'', an_output = content, an_model = model,
                an_started_at = started, an_completed_at = completed\<rparr>)))))))))))"

definition close_session :: "environ \<Rightarrow> string \<Rightarrow> agent_session agm" where
  "close_session env sid =
     ebind (session_of sid) (\<lambda>_.
     eseq (on_session sid (\<lambda>s. s\<lparr>as_status := ''closed''\<rparr>))
     (ebind (ag_read (clock env)) (\<lambda>now.
     eseq (on_session sid (\<lambda>s. s\<lparr>as_updated_at := now\<rparr>)) (session_of sid))))"

section \<open>Workflows\<close>

record workflow_spec =
  ws_ref_id :: string
  ws_version :: string
  ws_triggers :: "string list"
  ws_nodes :: "string list"
  ws_edges :: "(string \<times> string) list"
  ws_checkpointable :: bool
  ws_resumable :: bool

record workflow_state =
  wt_workflow_id :: string
  wt_execution_id :: string
  wt_status :: string
  wt_completed_nodes :: "string list"
  wt_inputs :: pydict
  wt_outputs :: pydict
  wt_checkpointed_at :: "string option"

record workflow_engine =
  we_specs :: "(string \<times> workflow_spec) list"
  we_state :: "(string \<times> workflow_state) list"

definition workflow_validate :: "workflow_spec \<Rightarrow> py_exn + unit" where
  "workflow_validate sp =
     (if \<not> distinct (ws_nodes sp) then Inl (Exn ValueError ''workflow contains duplicate nodes'')
      else if list_ex (\<lambda>(a, b). a \<notin> set (ws_nodes sp) \<or> b \<notin> set (ws_nodes sp)) (ws_edges sp)
      then Inl (Exn ValueError ''workflow edge references an unknown node'')
      else Inr ())"

definition workflow_register :: "workflow_spec \<Rightarrow> workflow_engine \<Rightarrow> py_exn + workflow_engine" where
  "workflow_register sp en =
     (if map_of (we_specs en) (ws_ref_id sp) \<noteq> None
      then Inl (Exn ValueError (''workflow already registered: '' @ ws_ref_id sp))
      else rbind (workflow_validate sp) (\<lambda>_. Inr (en\<lparr>we_specs := AList.update (ws_ref_id sp) sp (we_specs en)\<rparr>)))"

definition workflow_start :: "string \<Rightarrow> string \<Rightarrow> pydict \<Rightarrow> workflow_engine \<Rightarrow> py_exn + workflow_state \<times> workflow_engine" where
  "workflow_start wid eid inputs en =
     (if map_of (we_specs en) wid = None then Inl (Exn LookupError (''workflow not found: '' @ wid))
      else let r = \<lparr>wt_workflow_id = wid, wt_execution_id = eid, wt_status = ''ready'', wt_completed_nodes = [],
                    wt_inputs = inputs, wt_outputs = [], wt_checkpointed_at = None\<rparr>
           in Inr (r, en\<lparr>we_state := AList.update eid r (we_state en)\<rparr>))"

definition workflow_checkpoint :: "string \<Rightarrow> string \<Rightarrow> string \<Rightarrow> pyval \<Rightarrow> workflow_engine \<Rightarrow> py_exn + workflow_engine" where
  "workflow_checkpoint now eid node out en =
     (case map_of (we_state en) eid of
        None \<Rightarrow> Inl (Exn KeyError eid)
      | Some r \<Rightarrow>
         Inr (en\<lparr>we_state := AList.update eid
           (r\<lparr>wt_completed_nodes := (if node \<in> set (wt_completed_nodes r) then wt_completed_nodes r else wt_completed_nodes r @ [node]),
              wt_outputs := AList.update node out (wt_outputs r), wt_checkpointed_at := Some now, wt_status := ''running''\<rparr>)
           (we_state en)\<rparr>))"

definition workflow_resume :: "string \<Rightarrow> workflow_engine \<Rightarrow> py_exn + workflow_state" where
  "workflow_resume eid en = (case map_of (we_state en) eid of None \<Rightarrow> Inl (Exn KeyError eid) | Some r \<Rightarrow> Inr r)"

section \<open>Worker queues\<close>

record worker_spec =
  wc_ref_id :: string
  wc_version :: string
  wc_queue :: string
  wc_concurrency :: int
  wc_max_attempts :: int
  wc_heartbeat_seconds :: int

type_synonym fabric_job = "string \<times> pydict"

record worker_fabric =
  wz_queues :: "(string \<times> fabric_job list) list"
  wz_workers :: "(string \<times> worker_spec) list"
  wz_attempts :: "(string \<times> int) list"
  wz_results :: "(string \<times> pyval) list"

definition register_worker :: "worker_spec \<Rightarrow> worker_fabric \<Rightarrow> py_exn + worker_fabric" where
  "register_worker sp f =
     (if map_of (wz_workers f) (wc_ref_id sp) \<noteq> None then Inl (Exn ValueError (''worker already registered: '' @ wc_ref_id sp))
      else if wc_concurrency sp < 1 \<or> wc_max_attempts sp < 1
      then Inl (Exn ValueError ''worker concurrency and max_attempts must be positive'')
      else Inr (f\<lparr>wz_workers := AList.update (wc_ref_id sp) sp (wz_workers f)\<rparr>))"

text \<open>\<open>self.queues[queue]\<close> of a \<open>defaultdict\<close>: reading a missing queue creates it.\<close>

definition queue_of :: "string \<Rightarrow> worker_fabric \<Rightarrow> fabric_job list" where
  "queue_of q f = (case map_of (wz_queues f) q of None \<Rightarrow> [] | Some l \<Rightarrow> l)"

definition set_queue :: "string \<Rightarrow> fabric_job list \<Rightarrow> worker_fabric \<Rightarrow> worker_fabric" where
  "set_queue q l f = f\<lparr>wz_queues := AList.update q l (wz_queues f)\<rparr>"

definition fabric_submit :: "string \<Rightarrow> string \<Rightarrow> pydict \<Rightarrow> worker_fabric \<Rightarrow> worker_fabric" where
  "fabric_submit jid q payload f =
     (let f1 = set_queue q (queue_of q f @ [(jid, payload)]) f
      in if map_of (wz_attempts f1) jid = None then f1\<lparr>wz_attempts := AList.update jid 0 (wz_attempts f1)\<rparr> else f1)"

definition fabric_claim :: "string \<Rightarrow> worker_fabric \<Rightarrow> fabric_job option \<times> worker_fabric" where
  "fabric_claim q f =
     (case queue_of q f of
        [] \<Rightarrow> (None, set_queue q [] f)
      | j # js \<Rightarrow> (Some j, set_queue q js f))"

definition fabric_complete :: "string \<Rightarrow> pyval \<Rightarrow> worker_fabric \<Rightarrow> worker_fabric" where
  "fabric_complete jid result f = f\<lparr>wz_results := AList.update jid result (wz_results f)\<rparr>"

definition fabric_retry :: "string \<Rightarrow> fabric_job \<Rightarrow> worker_fabric \<Rightarrow> (py_exn + bool) \<times> worker_fabric" where
  "fabric_retry worker job f =
     (case map_of (wz_workers f) worker of
        None \<Rightarrow> (Inl (Exn KeyError worker), f)
      | Some sp \<Rightarrow>
         (case map_of (wz_attempts f) (fst job) of
            None \<Rightarrow> (Inl (Exn KeyError (fst job)), f)
          | Some n \<Rightarrow>
             let f1 = f\<lparr>wz_attempts := AList.update (fst job) (n + 1) (wz_attempts f)\<rparr>
             in if n + 1 \<ge> wc_max_attempts sp then (Inr False, f1)
                else (Inr True, set_queue (wc_queue sp) (queue_of (wc_queue sp) f1 @ [job]) f1)))"

section \<open>The facade of the model gateway\<close>

datatype callback_result = CB_Output string | CB_Value pyval

type_synonym llm_callback = "nat \<Rightarrow> string \<Rightarrow> pydict \<Rightarrow> py_exn + callback_result"

definition callable_invoke :: "llm_callback \<Rightarrow> provider" where
  "callable_invoke cb = (\<lambda>t model request.
     rbind (cb t model request) (\<lambda>res.
     case res of
       CB_Output c \<Rightarrow> Inr (Output c)
     | CB_Value (PDict [(k, PStr c)]) \<Rightarrow>
         if k = ''response'' then mk_model_output c
         else Inl (Exn ModelOutputError ''legacy provider must return only a string response'')
     | _ \<Rightarrow> Inl (Exn ModelOutputError ''legacy provider must return only a string response'')))"

record llm_facade =
  lf_router :: "model_route list"
  lf_telemetry :: "inference_record list"
  lf_engine :: llm_gateway

definition sync_routes :: "llm_facade \<Rightarrow> llm_facade" where
  "sync_routes f = f\<lparr>lf_engine := (lf_engine f)\<lparr>lg_routes := sort_routes (lf_router f)\<rparr>\<rparr>"

definition mk_llm_facade :: "llm_spec \<Rightarrow> model_route list \<Rightarrow> py_exn + llm_facade" where
  "mk_llm_facade sp router =
     rbind (mk_llm_gateway sp 3) (\<lambda>g. Inr (sync_routes \<lparr>lf_router = router, lf_telemetry = [], lf_engine = g\<rparr>))"

definition facade_provider :: "string \<Rightarrow> llm_callback \<Rightarrow> llm_facade \<Rightarrow> llm_facade" where
  "facade_provider pid cb f = f\<lparr>lf_engine := register_provider pid (callable_invoke cb) (lf_engine f)\<rparr>"

text \<open>\<open>rid\<close> is \<open>str(options.pop("request_id", "") or uuid4().hex)\<close> and \<open>options\<close> what is left. The telemetry copies the new records.\<close>

definition facade_invoke :: "llm_env \<Rightarrow> string \<Rightarrow> string \<Rightarrow> string list \<Rightarrow> pydict \<Rightarrow> llm_facade \<Rightarrow> (py_exn + pydict) \<times> llm_facade" where
  "facade_invoke env rid prompt caps options f =
     (let f1 = sync_routes f; start = length (lg_records (lf_engine f1))
      in case llm_invoke env rid prompt caps options (lf_engine f1) of
           (r, g) \<Rightarrow>
             (rbind r (\<lambda>c. Inr [(''response'', PStr c)]),
              f1\<lparr>lf_engine := g, lf_telemetry := lf_telemetry f1 @ drop start (lg_records g)\<rparr>))"

definition router_select :: "(rat list \<Rightarrow> rat) \<Rightarrow> string list \<Rightarrow> pyval \<Rightarrow> model_route list \<Rightarrow> py_exn + model_route" where
  "router_select psum required constraints rs =
     rbind (filter_routes (compatible required (or_empty constraints)) rs) (\<lambda>candidates.
     case candidates of
       [] \<Rightarrow> Inl (Exn LookupError ''no model route satisfies capabilities='')
     | r # others \<Rightarrow> Inr (min_route psum r others))"

section \<open>Workspaces, context and knowledge\<close>

record fabric_workspace =
  fw_ref_id :: string
  fw_agent_id :: string

record fabric_session =
  fx_session_id :: string
  fx_agent_id :: string
  fx_messages :: "(string \<times> pyval) list"
  fx_status :: string

record fabric_agents =
  fa_workspaces :: "(string \<times> fabric_workspace) list"
  fa_sessions :: "(string \<times> fabric_session) list"

definition fabric_agent_register :: "fabric_workspace \<Rightarrow> fabric_agents \<Rightarrow> py_exn + fabric_agents" where
  "fabric_agent_register a f =
     (if map_of (fa_workspaces f) (fw_agent_id a) \<noteq> None
      then Inl (Exn ValueError (''agent workspace already registered: '' @ fw_agent_id a))
      else Inr (f\<lparr>fa_workspaces := AList.update (fw_agent_id a) a (fa_workspaces f)\<rparr>))"

definition open_session :: "string \<Rightarrow> string \<Rightarrow> fabric_agents \<Rightarrow> py_exn + fabric_session \<times> fabric_agents" where
  "open_session agent sid f =
     (if map_of (fa_workspaces f) agent = None then Inl (Exn LookupError (''agent workspace not found: '' @ agent))
      else let s = \<lparr>fx_session_id = sid, fx_agent_id = agent, fx_messages = [], fx_status = ''active''\<rparr>
           in Inr (s, f\<lparr>fa_sessions := AList.update sid s (fa_sessions f)\<rparr>))"

definition on_fabric_session :: "string \<Rightarrow> (fabric_session \<Rightarrow> fabric_session) \<Rightarrow> fabric_agents \<Rightarrow> py_exn + fabric_agents" where
  "on_fabric_session sid g f =
     (case map_of (fa_sessions f) sid of None \<Rightarrow> Inl (Exn KeyError sid)
      | Some s \<Rightarrow> Inr (f\<lparr>fa_sessions := AList.update sid (g s) (fa_sessions f)\<rparr>))"

definition session_append :: "string \<Rightarrow> string \<Rightarrow> pyval \<Rightarrow> fabric_agents \<Rightarrow> py_exn + fabric_agents" where
  "session_append sid who content = on_fabric_session sid (\<lambda>s. s\<lparr>fx_messages := fx_messages s @ [(who, content)]\<rparr>)"

definition session_close :: "string \<Rightarrow> fabric_agents \<Rightarrow> py_exn + fabric_agents" where
  "session_close sid = on_fabric_session sid (\<lambda>s. s\<lparr>fx_status := ''closed''\<rparr>)"

record context_request =
  cq_objective :: string
  cq_evidence_refs :: "string list"
  cq_memory_refs :: "string list"
  cq_knowledge_refs :: "string list"
  cq_skill_refs :: "string list"
  cq_token_budget :: "int option"

record context_engine =
  cx_evidence :: pydict
  cx_memory :: pydict
  cx_knowledge :: pydict
  cx_skills :: pydict

definition present_refs :: "pydict \<Rightarrow> string list \<Rightarrow> pyval" where
  "present_refs d refs = PList (List.map_filter (map_of d) refs)"

definition context_assemble :: "context_engine \<Rightarrow> context_request \<Rightarrow> pydict" where
  "context_assemble en q =
     [(''objective'', PStr (cq_objective q)), (''evidence'', present_refs (cx_evidence en) (cq_evidence_refs q)),
      (''memory'', present_refs (cx_memory en) (cq_memory_refs q)),
      (''knowledge'', present_refs (cx_knowledge en) (cq_knowledge_refs q)),
      (''skills'', present_refs (cx_skills en) (cq_skill_refs q))]
     @ (case cq_token_budget q of None \<Rightarrow> [] | Some n \<Rightarrow> [(''token_budget'', PInt n)])"

record knowledge_artifact =
  ka_ref_id :: string
  ka_source_ref :: string
  ka_artifact_type :: string
  ka_content_ref :: string
  ka_metadata :: pydict

definition knowledge_ingest :: "knowledge_artifact \<Rightarrow> (string \<times> knowledge_artifact) list \<Rightarrow> (string \<times> knowledge_artifact) list" where
  "knowledge_ingest a t = AList.update (ka_ref_id a) a t"

fun substring :: "string \<Rightarrow> string \<Rightarrow> bool" where
  "substring x [] = (x = [])"
| "substring x (c # cs) = (take (length x) (c # cs) = x \<or> substring x cs)"

text \<open>\<open>query.split()\<close>: the runs of characters that are not white space.\<close>

fun split_words :: "string \<Rightarrow> string \<Rightarrow> string list" where
  "split_words word [] = (if word = [] then [] else [word])"
| "split_words word (c # cs) =
     (if py_space c then (if word = [] then [] else [word]) @ split_words [] cs else split_words (word @ [c]) cs)"

definition knowledge_score :: "(string \<Rightarrow> string) \<Rightarrow> (pydict \<Rightarrow> string) \<Rightarrow> string list \<Rightarrow> knowledge_artifact \<Rightarrow> nat" where
  "knowledge_score lower show_dict terms a =
     (let haystack = lower (py_join '' '' [ka_source_ref a, ka_content_ref a, show_dict (ka_metadata a)])
      in length (filter (\<lambda>t. substring t haystack) terms))"

definition knowledge_retrieve ::
  "(string \<Rightarrow> string) \<Rightarrow> (pydict \<Rightarrow> string) \<Rightarrow> string \<Rightarrow> string option \<Rightarrow> (string \<times> knowledge_artifact) list \<Rightarrow> knowledge_artifact list" where
  "knowledge_retrieve lower show_dict query ty t =
     (let terms = remdups (map lower (split_words [] query));
          scored = filter (\<lambda>(n, a). n \<noteq> 0)
            (map (\<lambda>(_, a). (knowledge_score lower show_dict terms a, a))
              (filter (\<lambda>(_, a). case ty of None \<Rightarrow> True | Some x \<Rightarrow> x = [] \<or> ka_artifact_type a = x) t))
      in map snd (sort_key (\<lambda>(n, _). - int n) (sort_key (\<lambda>(_, a). ka_ref_id a) scored)))"

section \<open>Middleware, reasoning, studio, signals and learning\<close>

definition middleware_add :: "string list \<Rightarrow> string \<Rightarrow> 'h \<Rightarrow> (string \<times> 'h list) list \<Rightarrow> py_exn + (string \<times> 'h list) list" where
  "middleware_add stages stage h hooks =
     (if stage \<notin> set stages then Inl (Exn ValueError (''unsupported middleware stage: '' @ stage))
      else Inr (AList.update stage ((case map_of hooks stage of None \<Rightarrow> [] | Some l \<Rightarrow> l) @ [h]) hooks))"

fun run_hooks :: "(pydict \<Rightarrow> py_exn + pydict) list \<Rightarrow> pydict \<Rightarrow> py_exn + pydict" where
  "run_hooks [] st = Inr st"
| "run_hooks (h # hs) st = rbind (h st) (run_hooks hs)"

definition middleware_run :: "string \<Rightarrow> pydict \<Rightarrow> (string \<times> (pydict \<Rightarrow> py_exn + pydict) list) list \<Rightarrow> py_exn + pydict" where
  "middleware_run stage st hooks = run_hooks (case map_of hooks stage of None \<Rightarrow> [] | Some l \<Rightarrow> l) st"

record reasoning_pattern =
  rn_ref_id :: string
  rn_objective_classes :: "string list"
  rn_topology :: string
  rn_prerequisites :: "string list"
  rn_cost_profile :: "(string \<times> rat) list"

definition pattern_register :: "reasoning_pattern \<Rightarrow> (string \<times> reasoning_pattern) list \<Rightarrow> py_exn + (string \<times> reasoning_pattern) list" where
  "pattern_register p t =
     (if map_of t (rn_ref_id p) \<noteq> None then Inl (Exn ValueError (''reasoning pattern already registered: '' @ rn_ref_id p))
      else Inr (AList.update (rn_ref_id p) p t))"

definition pattern_before :: "(rat list \<Rightarrow> rat) \<Rightarrow> reasoning_pattern \<Rightarrow> reasoning_pattern \<Rightarrow> bool" where
  "pattern_before psum a b \<longleftrightarrow>
     (let x = psum (map snd (rn_cost_profile a)); y = psum (map snd (rn_cost_profile b))
      in x < y \<or> x = y \<and> rn_ref_id a < rn_ref_id b)"

fun min_pattern :: "(rat list \<Rightarrow> rat) \<Rightarrow> reasoning_pattern \<Rightarrow> reasoning_pattern list \<Rightarrow> reasoning_pattern" where
  "min_pattern psum best [] = best"
| "min_pattern psum best (p # ps) = min_pattern psum (if pattern_before psum p best then p else best) ps"

definition pattern_select ::
  "(rat list \<Rightarrow> rat) \<Rightarrow> string \<Rightarrow> string list \<Rightarrow> (string \<times> reasoning_pattern) list \<Rightarrow> py_exn + reasoning_pattern" where
  "pattern_select psum objective available t =
     (case filter (\<lambda>p. objective \<in> set (rn_objective_classes p) \<and> set (rn_prerequisites p) \<subseteq> set available) (map snd t) of
        [] \<Rightarrow> Inl (Exn LookupError (''no reasoning pattern for objective='' @ objective))
      | p # ps \<Rightarrow> Inr (min_pattern psum p ps))"

record studio_artifact =
  sa_ref_id :: string
  sa_artifact_type :: string
  sa_component_refs :: "string list"
  sa_graph :: "(string \<times> string) list"

type_synonym studio = "(string \<times> studio_artifact) list"

definition studio_save :: "studio_artifact \<Rightarrow> studio \<Rightarrow> studio" where
  "studio_save a t = AList.update (sa_ref_id a) a t"

definition studio_validate :: "string \<Rightarrow> studio \<Rightarrow> py_exn + unit" where
  "studio_validate aid t =
     (case map_of t aid of
        None \<Rightarrow> Inl (Exn KeyError aid)
      | Some a \<Rightarrow>
         if list_ex (\<lambda>(x, y). x \<notin> set (sa_component_refs a) \<or> y \<notin> set (sa_component_refs a)) (sa_graph a)
         then Inl (Exn ValueError ''studio graph references unknown components'') else Inr ())"

text \<open>\<open>bind_studio\<close>: saved first, validated after.\<close>

definition bind_studio :: "studio_artifact \<Rightarrow> studio \<Rightarrow> (py_exn + unit) \<times> studio" where
  "bind_studio a t = (let t1 = studio_save a t in (studio_validate (sa_ref_id a) t1, t1))"

definition component_register :: "string \<Rightarrow> 'c \<Rightarrow> (string \<times> 'c) list \<Rightarrow> py_exn + (string \<times> 'c) list" where
  "component_register rid c t =
     (if map_of t rid \<noteq> None then Inl (Exn ValueError (''component already registered: '' @ rid)) else Inr (AList.update rid c t))"

record social_signal =
  sn_ref_id :: string
  sn_platform :: string
  sn_topic_refs :: "string list"
  sn_confidence :: rat

definition social_ingest :: "social_signal \<Rightarrow> social_signal list \<Rightarrow> py_exn + social_signal list" where
  "social_ingest s t =
     (if \<not> (0 \<le> sn_confidence s \<and> sn_confidence s \<le> 1)
      then Inl (Exn ValueError ''social signal confidence must be between 0 and 1'') else Inr (t @ [s]))"

definition social_query :: "string option \<Rightarrow> string option \<Rightarrow> social_signal list \<Rightarrow> social_signal list" where
  "social_query platform topic t =
     filter (\<lambda>s. (platform = None \<or> platform = Some (sn_platform s))
       \<and> (case topic of None \<Rightarrow> True | Some x \<Rightarrow> x \<in> set (sn_topic_refs s))) t"

record learning_candidate =
  lc_ref_id :: string
  lc_version :: string
  lc_hypothesis :: string
  lc_evidence_refs :: "string list"
  lc_experiment_ref :: "string option"
  lc_affected_refs :: "string list"
  lc_promotion_state :: string
  lc_rollback_ref :: "string option"

definition learning_propose ::
  "learning_candidate \<Rightarrow> (string \<times> learning_candidate) list \<Rightarrow> py_exn + (string \<times> learning_candidate) list" where
  "learning_propose c t =
     (if lc_promotion_state c \<noteq> ''candidate'' then Inl (Exn ValueError ''new learning proposals must enter as candidate'')
      else Inr (AList.update (lc_ref_id c) c t))"

definition learning_promote ::
  "string \<Rightarrow> bool \<Rightarrow> string list \<Rightarrow> (string \<times> learning_candidate) list
   \<Rightarrow> py_exn + learning_candidate \<times> (string \<times> learning_candidate) list" where
  "learning_promote rid approved refs t =
     (case map_of t rid of
        None \<Rightarrow> Inl (Exn KeyError rid)
      | Some c \<Rightarrow>
         if \<not> approved \<or> refs = [] then Inl (Exn PermissionError ''promotion requires explicit approval and evaluation evidence'')
         else let p = c\<lparr>lc_evidence_refs := lc_evidence_refs c @ refs, lc_promotion_state := ''approved''\<rparr>
              in Inr (p, AList.update rid p t))"

section \<open>Capabilities of the kernel\<close>

definition fabric_contract :: "string \<Rightarrow> string \<Rightarrow> bool \<Rightarrow> capability_contract" where
  "fabric_contract cid desc agent =
     (new_contract cid ''1.0.0'' desc)\<lparr>cc_timeout_seconds := 60,
        cc_kind := (if agent then AgentContract [] [] 4 else PlainContract)\<rparr>"

text \<open>\<open>FabricCapability.invoke\<close>: \<open>now\<close> is the text of the time when the handler has ended.\<close>

definition fabric_invoke ::
  "capability_contract \<Rightarrow> (nat \<Rightarrow> pydict \<Rightarrow> py_exn + pyval) \<Rightarrow> (nat \<Rightarrow> string) \<Rightarrow> invoke_fn" where
  "fabric_invoke c handler now = (\<lambda>q t tok.
     (Inr (case handler t (ir_input q) of
        Inl e \<Rightarrow> (new_result (ir_invocation_id q) (cc_capability_id c) IS_FAILED)
          \<lparr>res_error := Some [(''type'', PStr (exn_name (exn_class e))), (''message'', PStr (exn_str e))], res_completed_at := Some (now t)\<rparr>
      | Inr v \<Rightarrow> (new_result (ir_invocation_id q) (cc_capability_id c) IS_SUCCEEDED)\<lparr>res_output := v, res_completed_at := Some (now t)\<rparr>), tok))"

definition fabric_capability ::
  "string \<Rightarrow> bool \<Rightarrow> (nat \<Rightarrow> pydict \<Rightarrow> py_exn + pyval) \<Rightarrow> (nat \<Rightarrow> string) \<Rightarrow> capability" where
  "fabric_capability cid agent handler now =
     (let c = fabric_contract cid (''OIS structural fabric capability: '' @ cid) agent
      in \<lparr>cap_contract = Some c, cap_invoke = fabric_invoke c handler now\<rparr>)"

definition fabric_bindings :: "(string \<times> bool) list" where
  "fabric_bindings =
     [(''fabric.workflow'', False), (''fabric.worker.submit'', False), (''fabric.llm.invoke'', False), (''fabric.agent.session'', True),
      (''fabric.context.assemble'', False), (''fabric.knowledge.retrieve'', False), (''fabric.reasoning.select'', False),
      (''fabric.multimodal.inspect'', False), (''fabric.social.query'', False), (''fabric.learning.propose'', False)]"

fun register_all ::
  "(string \<Rightarrow> nat \<Rightarrow> pydict \<Rightarrow> py_exn + pyval) \<Rightarrow> (nat \<Rightarrow> string) \<Rightarrow> (string \<times> bool) list \<Rightarrow> capability_registry
   \<Rightarrow> py_exn + string list \<times> capability_registry" where
  "register_all handler now [] reg = Inr ([], reg)"
| "register_all handler now ((cid, agent) # bs) reg =
     rbind (capability_register (RegCapability (fabric_capability cid agent (handler cid) now)) None None reg) (\<lambda>reg1.
     rbind (register_all handler now bs reg1) (\<lambda>(ids, reg2). Inr (cid # ids, reg2)))"

definition register_fabric_capabilities ::
  "(string \<Rightarrow> nat \<Rightarrow> pydict \<Rightarrow> py_exn + pyval) \<Rightarrow> (nat \<Rightarrow> string) \<Rightarrow> capability_registry \<Rightarrow> py_exn + string list \<times> capability_registry" where
  "register_fabric_capabilities handler now reg = register_all handler now fabric_bindings reg"

end
