(* ===== verification/Fabric_Properties.thy ===== *)
theory Fabric_Properties
  imports Runtime_Fabrics
begin

text \<open>
  Properties of the model gateway (routing and bounded fallback), of the in-memory worker queue, of agent sessions
  and of the fabric capabilities.
\<close>

section \<open>Routing\<close>

lemma filter_routes_set: "filter_routes p rs = Inr out \<Longrightarrow> set out = {r \<in> set rs. p r = Inr True}"
proof (induction rs arbitrary: out)
  case (Cons r rs)
  then obtain ok rest where "p r = Inr ok" "filter_routes p rs = Inr rest" "out = (if ok then r # rest else rest)"
    by (auto simp: rbind_Inr)
  then show ?case using Cons.IH by (cases ok) auto
qed simp

lemma cheaper_trans: "\<not> cheaper psum b a \<Longrightarrow> \<not> cheaper psum c b \<Longrightarrow> \<not> cheaper psum c a"
  by (auto simp: cheaper_def not_less)

lemma min_route_least: "min_route psum best rs \<in> insert best (set rs) \<and> (\<forall>r \<in> insert best (set rs). \<not> cheaper psum r (min_route psum best rs))"
proof (induction rs arbitrary: best)
  case Nil
  then show ?case by (simp add: cheaper_def)
next
  case (Cons r rs)
  let ?b = "if cheaper psum r best then r else best"
  let ?m = "min_route psum ?b rs"
  have b: "\<not> cheaper psum r ?b" "\<not> cheaper psum best ?b" by (auto simp: cheaper_def)
  have IH: "?m \<in> insert ?b (set rs)" "\<And>x. x \<in> insert ?b (set rs) \<Longrightarrow> \<not> cheaper psum x ?m" using Cons.IH [of ?b] by blast+
  have "\<not> cheaper psum x ?m" if "x \<in> insert best (set (r # rs))" for x
    using that b IH(2) [of x] IH(2) [of ?b] cheaper_trans [of psum ?b ?m x] by (cases "x \<in> set rs") auto
  then show ?case using IH(1) by auto
qed

lemma llm_route_least:
  assumes "llm_route psum caps c rs = Inr r"
  shows "r \<in> set rs \<and> compatible caps (or_empty c) r = Inr True"
    and "x \<in> set rs \<Longrightarrow> compatible caps (or_empty c) x = Inr True \<Longrightarrow> \<not> cheaper psum x r"
proof -
  obtain cs where cs: "filter_routes (compatible caps (or_empty c)) rs = Inr cs"
      "(case cs of [] \<Rightarrow> Inl (Exn LookupError ''no model route satisfies capabilities='') | r # others \<Rightarrow> Inr (min_route psum r others)) = Inr r"
    using assms by (auto simp: llm_route_def rbind_Inr)
  then obtain y ys where f: "filter_routes (compatible caps (or_empty c)) rs = Inr (y # ys)" and r: "r = min_route psum y ys"
    by (cases cs) auto
  note least = min_route_least [of psum y ys] and mem = filter_routes_set [OF f]
  then show "r \<in> set rs \<and> compatible caps (or_empty c) r = Inr True" using r by auto
  show "x \<in> set rs \<Longrightarrow> compatible caps (or_empty c) x = Inr True \<Longrightarrow> \<not> cheaper psum x r"
    using least mem r by auto
qed

section \<open>Fallback\<close>

lemma try_route_effect:
  assumes "try_route env rid req r g = (res, g')"
  obtains c rec where "res = Inr c" "lg_records g' = lg_records g @ [rec]" "if_request_id rec = rid"
    "if_provider rec = mr_provider r" "if_model rec = mr_model r"
    "if_status rec = (if c = None then ''failed'' else ''succeeded'')" "lg_max_attempts g' = lg_max_attempts g"
  using assms
  by (fastforce simp: try_route_def em_simps lg_read_def lg_record_def inference_def Let_def split: option.splits sum.splits)

definition attempted :: "string \<Rightarrow> model_route list \<Rightarrow> inference_record list \<Rightarrow> bool" where
  "attempted rid cs new \<longleftrightarrow> length new \<le> length cs
     \<and> map (\<lambda>x. (if_provider x, if_model x)) new = map (\<lambda>r. (mr_provider r, mr_model r)) (take (length new) cs)
     \<and> list_all (\<lambda>x. if_request_id x = rid) new \<and> list_all (\<lambda>x. if_status x = ''failed'') (butlast new)"

lemma attempted_Cons:
  assumes "attempted rid cs new" and "if_request_id x = rid" and "if_provider x = mr_provider r" and "if_model x = mr_model r"
    and "if_status x = ''failed'' \<or> new = []"
  shows "attempted rid (r # cs) (x # new)"
  using assms by (auto simp: attempted_def)

lemma try_routes_effect:
  assumes "try_routes env rid req cs n g = (res, g')"
  shows "\<exists>new. lg_records g' = lg_records g @ new \<and> attempted rid cs new
     \<and> (case res of Inr c \<Rightarrow> new \<noteq> [] \<and> if_status (last new) = ''succeeded''
        | Inl e \<Rightarrow> length new = length cs \<and> list_all (\<lambda>x. if_status x = ''failed'') new \<and> e = exhausted_providers (n + length cs))"
  using assms
proof (induction cs arbitrary: n g)
  case Nil
  then show ?case by (auto simp: em_simps attempted_def)
next
  case (Cons r cs)
  obtain c g1 x where t: "try_route env rid req r g = (Inr c, g1)" "lg_records g1 = lg_records g @ [x]" "if_request_id x = rid"
    "if_provider x = mr_provider r" "if_model x = mr_model r" "if_status x = (if c = None then ''failed'' else ''succeeded'')"
    by (metis surj_pair try_route_effect)
  show ?case
  proof (cases c)
    case (Some s)
    then have "res = Inr s" "g' = g1" using Cons.prems t(1) by (simp_all add: em_simps)
    then show ?thesis using t Some by (intro exI [of _ "[x]"]) (simp add: attempted_def)
  next
    case None
    then have run: "try_routes env rid req cs (Suc n) g1 = (res, g')" using Cons.prems t(1) by (simp add: em_simps)
    from Cons.IH [OF run] obtain new where new: "lg_records g' = lg_records g1 @ new" "attempted rid cs new"
      "case res of Inr c \<Rightarrow> new \<noteq> [] \<and> if_status (last new) = ''succeeded''
        | Inl e \<Rightarrow> length new = length cs \<and> list_all (\<lambda>x. if_status x = ''failed'') new \<and> e = exhausted_providers (Suc n + length cs)"
      by blast
    then show ?thesis
      using t None attempted_Cons [OF new(2) t(3,4,5)]
      by (intro exI [of _ "x # new"]) (auto split: sum.splits)
  qed
qed

section \<open>Retries of the worker queue\<close>

datatype fabric_call = Submit string string pydict | Take string | Finish string pyval | Again string fabric_job

fun fabric_effect :: "fabric_call \<Rightarrow> worker_fabric \<Rightarrow> bool \<times> worker_fabric" where
  "fabric_effect (Submit j q p) f = (False, fabric_submit j q p f)"
| "fabric_effect (Take q) f = (False, snd (fabric_claim q f))"
| "fabric_effect (Finish j r) f = (False, fabric_complete j r f)"
| "fabric_effect (Again w j) f = (case fabric_retry w j f of (r, f') \<Rightarrow> (r = Inr True, f'))"

text \<open>How often a job was put back.\<close>

fun requeue_total :: "string \<Rightarrow> fabric_call list \<Rightarrow> worker_fabric \<Rightarrow> nat" where
  "requeue_total j [] f = 0"
| "requeue_total j (c # cs) f =
     (case fabric_effect c f of (again, f') \<Rightarrow> (if again \<and> (\<exists>w p. c = Again w (j, p)) then 1 else 0) + requeue_total j cs f')"

definition attempts_of :: "string \<Rightarrow> worker_fabric \<Rightarrow> int" where
  "attempts_of j f = (case map_of (wz_attempts f) j of None \<Rightarrow> 0 | Some n \<Rightarrow> n)"

lemma fabric_effect_attempts:
  assumes "fabric_effect c f = (again, f')"
  shows "wz_workers f' = wz_workers f" and "attempts_of j f \<le> attempts_of j f'"
    and "again \<Longrightarrow> c = Again w (j, p) \<Longrightarrow> attempts_of j f' = attempts_of j f + 1
        \<and> (\<exists>sp. map_of (wz_workers f) w = Some sp \<and> attempts_of j f' < wc_max_attempts sp)"
  using assms
  by (cases c; auto simp: fabric_submit_def fabric_claim_def fabric_complete_def fabric_retry_def set_queue_def attempts_of_def
      Let_def map_of_update split: option.splits list.splits if_splits)+

lemma requeued_bound:
  assumes "\<forall>sp \<in> snd ` set (wz_workers f). wc_max_attempts sp \<le> m"
  shows "int (requeue_total j cs f) \<le> max 0 (m - 1 - attempts_of j f)"
  using assms
proof (induction cs arbitrary: f)
  case (Cons c cs)
  obtain again f' where e: "fabric_effect c f = (again, f')" by fastforce
  note eff = fabric_effect_attempts [OF e]
  have IH: "int (requeue_total j cs f') \<le> max 0 (m - 1 - attempts_of j f')" using Cons eff(1) by simp
  show ?case
  proof (cases "again \<and> (\<exists>w p. c = Again w (j, p))")
    case True
    then obtain w p sp where sp: "c = Again w (j, p)" "map_of (wz_workers f) w = Some sp" "attempts_of j f' < wc_max_attempts sp"
      "attempts_of j f' = attempts_of j f + 1" using eff(3) by metis
    have "wc_max_attempts sp \<le> m" using Cons.prems sp(2) by (metis image_eqI map_of_SomeD snd_conv)
    then show ?thesis using IH sp e True by auto
  next
    case False
    then show ?thesis using IH eff(2) [of j] e by auto
  qed
qed simp

section \<open>Agent sessions\<close>

lemma on_session_apply [em_simps]:
  "on_session sid f w = (Inr (), w\<lparr>ag_sessions := (case map_of (ag_sessions w) sid of None \<Rightarrow> ag_sessions w
     | Some s \<Rightarrow> AList.update sid (f s) (ag_sessions w))\<rparr>)"
  by (simp add: on_session_def em_simps)

lemma ag_read_apply [em_simps]: "ag_read f w = (Inr (f (ag_tick w)), w\<lparr>ag_tick := Suc (ag_tick w)\<rparr>)"
  by (simp add: ag_read_def)

text \<open>A run writes at most one reply, to the memory of its own agent and session.\<close>

lemma agent_run_memory:
  assumes "agent_run env gw sid prompt model context w = (r, w')"
  shows "ag_memory w' = ag_memory w \<or>
    (\<exists>s a content. map_of (ag_sessions w) sid = Some s \<and> map_of (ag_workspaces w) (as_agent_id s) = Some a
       \<and> ag_memory w' = memory_append (ak_agent_id a) sid (agent_message ''assistant'' content) (ag_memory w))"
  using assms
  by (auto simp: agent_run_def em_simps session_of_def workspace_of_def Let_def
           split: option.splits sum.splits provider_output.splits)

lemma memory_load_append: "memory_load a s (memory_append b t x m) = memory_load a s m @ (if (a, s) = (b, t) then [x] else [])"
  by (auto simp: memory_load_def memory_append_def map_of_update split: option.splits)

lemma agent_run_isolated:
  assumes "agent_run env gw sid prompt model context w = (r, w')" and "sid' \<noteq> sid"
  shows "memory_load a sid' (ag_memory w') = memory_load a sid' (ag_memory w)"
  using agent_run_memory [OF assms(1)] assms(2) by (auto simp: memory_load_append)

text \<open>What a session remembers are the replies: the prompts of earlier runs are not in the history of the next one.\<close>

lemma prompts_are_forgotten:
  assumes "agent_run env gw sid prompt model context w = (r, w')"
  shows "set (memory_load a s (ag_memory w')) \<subseteq> set (memory_load a s (ag_memory w)) \<union> range (agent_message ''assistant'')"
  using agent_run_memory [OF assms] by (auto simp: memory_load_append)

text \<open>Closing a session does not end it: a run of a closed session completes.\<close>

lemma closed_session_runs:
  assumes "map_of (ag_sessions w) sid = Some s" and "as_status s = ''closed''" and "map_of (ag_workspaces w) (as_agent_id s) = Some a"
    and "\<And>t ms to md. gw t model ms to md = Inr (Output content)"
  shows "\<exists>x w'. agent_run env gw sid prompt model context w = (Inr x, w') \<and> an_status x = ''completed''"
  using assms by (simp add: agent_run_def em_simps session_of_def workspace_of_def Let_def)

section \<open>Properties\<close>

text \<open>
  An invocation of the model gateway tries compatible routes in order, one record each: the first is a
  compatible route that no other compatible route is cheaper than, no more than \<open>max_attempts\<close> are tried, every
  attempt but the last failed, it returns the output of the last one exactly when that succeeded, and it reports
  exhaustion only after all of them failed.
\<close>

theorem llm_fallback_is_bounded:
  assumes run: "llm_invoke env rid prompt caps options g = (res, g')" and cs: "llm_candidates env caps options g = Inr cs"
  shows "\<exists>new. lg_records g' = lg_records g @ new \<and> attempted rid cs new \<and> int (length new) \<le> max 0 (lg_max_attempts g)
    \<and> (case res of Inr c \<Rightarrow> new \<noteq> [] \<and> if_status (last new) = ''succeeded''
       | Inl e \<Rightarrow> length new = min (nat (lg_max_attempts g)) (length cs) \<and> list_all (\<lambda>x. if_status x = ''failed'') new
           \<and> e = exhausted_providers (length new))
    \<and> cs \<noteq> [] \<and> (\<forall>r \<in> set (lg_routes g).
          compatible caps (or_empty (case map_of options ''constraints'' of None \<Rightarrow> PNone | Some v \<Rightarrow> v)) r = Inr True
          \<longrightarrow> \<not> cheaper (le_sum env) r (hd cs))"
proof -
  let ?n = "nat (lg_max_attempts g)"
  have t: "try_routes env rid (llm_request prompt options) (take ?n cs) 0 g = (res, g')"
    using run cs by (simp add: llm_invoke_def em_simps)
  from try_routes_effect [OF this] obtain new where new: "lg_records g' = lg_records g @ new" "attempted rid (take ?n cs) new"
      "case res of Inr c \<Rightarrow> new \<noteq> [] \<and> if_status (last new) = ''succeeded''
        | Inl e \<Rightarrow> length new = length (take ?n cs) \<and> list_all (\<lambda>x. if_status x = ''failed'') new
            \<and> e = exhausted_providers (0 + length (take ?n cs))"
    by blast
  have "attempted rid cs new" using new(2) by (auto simp: attempted_def min_absorb1)
  moreover have "int (length new) \<le> max 0 (lg_max_attempts g)" using new(2) by (auto simp: attempted_def)
  moreover have "case res of Inr c \<Rightarrow> new \<noteq> [] \<and> if_status (last new) = ''succeeded''
       | Inl e \<Rightarrow> length new = min ?n (length cs) \<and> list_all (\<lambda>x. if_status x = ''failed'') new \<and> e = exhausted_providers (length new)"
    using new(3) by (auto simp: min.commute split: sum.splits)
  moreover have "llm_route (le_sum env) caps (case map_of options ''constraints'' of None \<Rightarrow> PNone | Some v \<Rightarrow> v) (lg_routes g) = Inr (hd cs)"
      and "cs \<noteq> []"
    using cs by (auto simp: llm_candidates_def rbind_Inr split: if_splits)
  ultimately show ?thesis using new(1) llm_route_least(2) by blast
qed

text \<open>
  A job of the in-memory worker queue is put back at most \<open>max_attempts - 1\<close> times in its life, whatever
  workers retry it, however often it is submitted again and whatever else happens to the queue.
\<close>

theorem fabric_retries_bounded:
  assumes "\<forall>sp \<in> snd ` set (wz_workers f). wc_max_attempts sp \<le> m" and "map_of (wz_attempts f) j = None"
  shows "int (requeue_total j cs f) \<le> max 0 (m - 1)"
  using requeued_bound [OF assms(1), of j cs] assms(2) by (simp add: attempts_of_def)

section \<open>Witnesses\<close>

definition demo_route :: "string \<Rightarrow> rat \<Rightarrow> model_route" where
  "demo_route p c = \<lparr>mr_ref_id = p, mr_version = ''1'', mr_provider = p, mr_model = ''m'', mr_capabilities = [''chat''],
     mr_cost_profile = [(''in'', c)], mr_constraints = []\<rparr>"

definition demo_llm :: llm_gateway where
  "demo_llm = \<lparr>lg_spec = \<lparr>gs_ref_id = ''g'', gs_version = ''1'', gs_providers = [], gs_routing_policy = ''capability_first'',
       gs_retry_policy = ''bounded'', gs_fallback_policy = ''next_compatible'', gs_streaming = True, gs_structured_output = True\<rparr>,
     lg_routes = [demo_route ''a'' 2, demo_route ''b'' 1], lg_providers = [(''a'', \<lambda>_ _ _. Inr (Output ''hi''))],
     lg_records = [], lg_max_attempts = 3, lg_tick = 0\<rparr>"

definition demo_llm_env :: llm_env where
  "demo_llm_env = \<lparr>le_now = (\<lambda>_. ''t''), le_monotonic = (\<lambda>_. 0), le_sum = sum_list\<rparr>"

lemmas llm_eval = demo_llm_def demo_llm_env_def demo_route_def llm_candidates_def llm_route_def compatible_def or_empty_def
  dict_items_def satisfies_def cheaper_def route_cost_def route_eq_def cost_value_def

lemma demo_candidates: "llm_candidates demo_llm_env [''chat''] [] demo_llm = Inr [demo_route ''b'' 1, demo_route ''a'' 2]"
  by (simp add: llm_eval)

theorem llm_fallback_is_bounded_witness:
  "\<exists>new. lg_records (snd (llm_invoke demo_llm_env ''r'' ''p'' [''chat''] [] demo_llm)) = new \<and> length new = 2
     \<and> int (length new) \<le> 3 \<and> \<not> cheaper sum_list (demo_route ''a'' 2) (demo_route ''b'' 1)"
proof -
  have two: "length (lg_records (snd (llm_invoke demo_llm_env ''r'' ''p'' [''chat''] [] demo_llm))) = 2"
    by (simp add: llm_invoke_def em_simps demo_candidates)
       (simp add: demo_llm_def demo_llm_env_def demo_route_def em_simps try_route_def lg_read_def lg_record_def call_provider_def Let_def)
  from llm_fallback_is_bounded [OF surjective_pairing demo_candidates, of "''r''" "''p''"] show ?thesis
    using two by (auto simp: llm_eval)
qed

definition demo_fabric :: worker_fabric where
  "demo_fabric = \<lparr>wz_queues = [], wz_workers = [(''w'', \<lparr>wc_ref_id = ''w'', wc_version = ''1'', wc_queue = ''q'',
     wc_concurrency = 1, wc_max_attempts = 2, wc_heartbeat_seconds = 30\<rparr>)], wz_attempts = [], wz_results = []\<rparr>"

theorem fabric_retries_bounded_witness:
  "int (requeue_total ''j'' [Submit ''j'' ''q'' [], Again ''w'' (''j'', []), Again ''w'' (''j'', [])] demo_fabric) \<le> 1"
proof -
  have "\<forall>sp \<in> snd ` set (wz_workers demo_fabric). wc_max_attempts sp \<le> 2" "map_of (wz_attempts demo_fabric) ''j'' = None"
    by (simp_all add: demo_fabric_def)
  from fabric_retries_bounded [OF this, of "[Submit ''j'' ''q'' [], Again ''w'' (''j'', []), Again ''w'' (''j'', [])]"]
  show ?thesis by linarith
qed

end
