(* ===== verification/Source_Registry.thy ===== *)
theory Source_Registry
  imports Source_Gateway
begin

text \<open>
  \<^verbatim>\<open>ois/infrastructure/source_registry.py\<close> (the lifecycle of a source, the SQLite and PostgreSQL registries and
  \<open>SourceControlAPI\<close>) and \<^verbatim>\<open>ois/infrastructure/source_health.py\<close>. The control surface is built over the protocol
  \<open>SourceRegistryStore\<close>: here the record \<open>registry_ops\<close>. Its contract is the locale \<open>source_store\<close>, interpreted on both
  registries; the lifecycle is proved in it. \<open>jb\<close> is what PostgreSQL makes of a JSON document.
\<close>

section \<open>Definitions of sources\<close>

datatype source_status = SS_REGISTERED | SS_ENABLED | SS_PAUSED | SS_DEGRADED | SS_DISABLED

fun status_value :: "source_status \<Rightarrow> string" where
  "status_value SS_REGISTERED = ''registered''"
| "status_value SS_ENABLED = ''enabled''"
| "status_value SS_PAUSED = ''paused''"
| "status_value SS_DEGRADED = ''degraded''"
| "status_value SS_DISABLED = ''disabled''"

definition all_statuses :: "source_status list" where
  "all_statuses = [SS_REGISTERED, SS_ENABLED, SS_PAUSED, SS_DEGRADED, SS_DISABLED]"

definition status_of_value :: "string \<Rightarrow> py_exn + source_status" where
  "status_of_value v =
     (case List.find (\<lambda>s. status_value s = v) all_statuses of
        Some s \<Rightarrow> Inr s | None \<Rightarrow> Inl (Exn ValueError (py_repr_str v @ '' is not a valid SourceStatus'')))"

fun allowed_transitions :: "source_status \<Rightarrow> source_status list" where
  "allowed_transitions SS_REGISTERED = [SS_ENABLED, SS_DISABLED]"
| "allowed_transitions SS_ENABLED = [SS_PAUSED, SS_DEGRADED, SS_DISABLED]"
| "allowed_transitions SS_PAUSED = [SS_ENABLED, SS_DISABLED]"
| "allowed_transitions SS_DEGRADED = [SS_ENABLED, SS_PAUSED, SS_DISABLED]"
| "allowed_transitions SS_DISABLED = [SS_REGISTERED]"

record source_definition =
  sd_source_id :: string
  sd_tenant_id :: string
  sd_workspace_id :: string
  sd_provider :: string
  sd_mode :: string
  sd_enabled :: bool
  sd_config :: "pydict option"
  sd_credential_id :: "string option"
  sd_updated_at :: "timestamp option"
  sd_status :: source_status
  sd_poll_interval :: "rat option"
  sd_capabilities :: "string list"

text \<open>
  \<open>SourceDefinition(...)\<close> with \<open>__post_init__\<close>: \<open>d\<close> holds the arguments, \<open>status\<close> the text of the status, if any. The
  field \<open>enabled\<close> follows the status.
\<close>

definition mk_source_definition :: "source_definition \<Rightarrow> string option \<Rightarrow> py_exn + source_definition" where
  "mk_source_definition d status =
     (if sd_tenant_id d = [] \<or> sd_workspace_id d = [] \<or> sd_source_id d = [] \<or> sd_provider d = []
      then Inl (Exn ValueError ''tenant_id, workspace_id, source_id, and provider are required'')
      else if sd_mode d \<notin> {''poll'', ''webhook'', ''push''} then Inl (Exn ValueError ''unsupported source mode'')
      else if (case sd_poll_interval d of None \<Rightarrow> False | Some p \<Rightarrow> p \<le> 0)
      then Inl (Exn ValueError ''poll_interval_seconds must be positive'')
      else rbind (case status of Some v \<Rightarrow> status_of_value v | None \<Rightarrow> Inr (if sd_enabled d then SS_ENABLED else SS_DISABLED)) (\<lambda>s.
        Inr (d\<lparr>sd_status := s, sd_enabled := (s = SS_ENABLED)\<rparr>)))"

definition or_empty_dict :: "pydict option \<Rightarrow> pydict" where
  "or_empty_dict c = (case c of None \<Rightarrow> [] | Some d \<Rightarrow> d)"

definition definition_transition :: "source_definition \<Rightarrow> source_status \<Rightarrow> py_exn + source_definition" where
  "definition_transition d target =
     (if target = sd_status d then Inr d
      else if target \<notin> set (allowed_transitions (sd_status d))
      then Inl (Exn ValueError (''invalid source lifecycle transition: '' @ status_value (sd_status d) @ '' -> '' @ status_value target))
      else mk_source_definition
             (d\<lparr>sd_enabled := (target = SS_ENABLED), sd_config := Some (or_empty_dict (sd_config d)), sd_updated_at := None\<rparr>)
             (Some (status_value target)))"

type_synonym source_key3 = "string \<times> string \<times> string"

definition key_of :: "source_definition \<Rightarrow> source_key3" where
  "key_of d = (sd_tenant_id d, sd_workspace_id d, sd_source_id d)"

section \<open>The SQLite registry\<close>

record lite_source_row =
  lr_provider :: string
  lr_mode :: string
  lr_enabled :: bool
  lr_config :: json_text
  lr_credential_id :: "string option"
  lr_updated_at :: string
  lr_status :: string
  lr_poll_interval :: "rat option"
  lr_capabilities :: json_text

type_synonym lite_registry = "(source_key3 \<times> lite_source_row) list"

definition str_items :: "pyval \<Rightarrow> string list" where
  "str_items v = (case v of PList vs \<Rightarrow> map (\<lambda>x. case x of PStr s \<Rightarrow> s | _ \<Rightarrow> []) vs | _ \<Rightarrow> [])"

definition lite_source :: "source_codec \<Rightarrow> source_key3 \<Rightarrow> lite_source_row \<Rightarrow> py_exn + source_definition" where
  "lite_source sc k r =
     (case sc_fromiso sc (lr_updated_at r) of
        None \<Rightarrow> Inl (Exn ValueError ''Invalid isoformat string'')
      | Some t \<Rightarrow>
         mk_source_definition
           \<lparr>sd_source_id = snd (snd k), sd_tenant_id = fst k, sd_workspace_id = fst (snd k), sd_provider = lr_provider r,
            sd_mode = lr_mode r, sd_enabled = lr_enabled r,
            sd_config = (case json_loads (lr_config r) of PDict d \<Rightarrow> Some d | _ \<Rightarrow> None),
            sd_credential_id = lr_credential_id r, sd_updated_at = Some t, sd_status = SS_ENABLED,
            sd_poll_interval = lr_poll_interval r, sd_capabilities = str_items (json_loads (lr_capabilities r))\<rparr>
           (Some (lr_status r)))"

definition lite_put :: "source_codec \<Rightarrow> timestamp \<Rightarrow> source_definition \<Rightarrow> lite_registry \<Rightarrow> (py_exn + unit) \<times> lite_registry" where
  "lite_put sc now d t =
     (Inr (), AList.update (key_of d)
        \<lparr>lr_provider = sd_provider d, lr_mode = sd_mode d, lr_enabled = sd_enabled d,
         lr_config = json_dumps (PDict (or_empty_dict (sd_config d))), lr_credential_id = sd_credential_id d,
         lr_updated_at = sc_iso sc (case sd_updated_at d of None \<Rightarrow> now | Some x \<Rightarrow> x), lr_status = status_value (sd_status d),
         lr_poll_interval = sd_poll_interval d, lr_capabilities = json_dumps (PList (map PStr (sort (sd_capabilities d))))\<rparr> t)"

definition lite_get :: "source_codec \<Rightarrow> source_key3 \<Rightarrow> lite_registry \<Rightarrow> py_exn + source_definition option" where
  "lite_get sc k t =
     (case map_of t k of None \<Rightarrow> Inr None | Some r \<Rightarrow> rbind (lite_source sc k r) (\<lambda>d. Inr (Some d)))"

fun collect :: "(py_exn + 'a) list \<Rightarrow> py_exn + 'a list" where
  "collect [] = Inr []"
| "collect (x # xs) = rbind x (\<lambda>y. rbind (collect xs) (\<lambda>ys. Inr (y # ys)))"

definition rows_of :: "string \<Rightarrow> string \<Rightarrow> (source_key3 \<times> 'r) list \<Rightarrow> (source_key3 \<times> 'r) list" where
  "rows_of tenant workspace t =
     sort_key (\<lambda>(k, _). snd (snd k)) (filter (\<lambda>(k, _). fst k = tenant \<and> fst (snd k) = workspace) t)"

definition lite_list :: "source_codec \<Rightarrow> string \<Rightarrow> string \<Rightarrow> lite_registry \<Rightarrow> py_exn + source_definition list" where
  "lite_list sc tenant workspace t = collect (map (\<lambda>(k, r). lite_source sc k r) (rows_of tenant workspace t))"

definition lite_delete :: "source_key3 \<Rightarrow> lite_registry \<Rightarrow> lite_registry" where
  "lite_delete k t = AList.delete k t"

section \<open>The PostgreSQL registry\<close>

record pg_source_row =
  pr_provider :: string
  pr_mode :: string
  pr_enabled :: bool
  pr_config :: pyval
  pr_credential_id :: "string option"
  pr_updated_at :: timestamp
  pr_status :: string
  pr_poll_interval :: "rat option"
  pr_capabilities :: "string list"

type_synonym pg_registry = "(source_key3 \<times> pg_source_row) list"

definition pg_source :: "source_key3 \<Rightarrow> pg_source_row \<Rightarrow> py_exn + source_definition" where
  "pg_source k r =
     mk_source_definition
       \<lparr>sd_source_id = snd (snd k), sd_tenant_id = fst k, sd_workspace_id = fst (snd k), sd_provider = pr_provider r,
        sd_mode = pr_mode r, sd_enabled = pr_enabled r,
        sd_config = (case pr_config r of PDict d \<Rightarrow> Some d | _ \<Rightarrow> Some []),
        sd_credential_id = pr_credential_id r, sd_updated_at = Some (pr_updated_at r), sd_status = SS_ENABLED,
        sd_poll_interval = pr_poll_interval r, sd_capabilities = pr_capabilities r\<rparr>
       (Some (pr_status r))"

definition pg_put ::
  "(pyval \<Rightarrow> py_exn + pyval) \<Rightarrow> timestamp \<Rightarrow> source_definition \<Rightarrow> pg_registry \<Rightarrow> (py_exn + unit) \<times> pg_registry" where
  "pg_put jb now d t =
     (case jb (PDict (or_empty_dict (sd_config d))) of
        Inl e \<Rightarrow> (Inl e, t)
      | Inr stored \<Rightarrow>
         (Inr (), AList.update (key_of d)
            \<lparr>pr_provider = sd_provider d, pr_mode = sd_mode d, pr_enabled = sd_enabled d, pr_config = stored,
             pr_credential_id = sd_credential_id d, pr_updated_at = (case sd_updated_at d of None \<Rightarrow> now | Some x \<Rightarrow> x),
             pr_status = status_value (sd_status d), pr_poll_interval = sd_poll_interval d,
             pr_capabilities = sd_capabilities d\<rparr> t))"

definition pg_source_get :: "source_key3 \<Rightarrow> pg_registry \<Rightarrow> py_exn + source_definition option" where
  "pg_source_get k t = (case map_of t k of None \<Rightarrow> Inr None | Some r \<Rightarrow> rbind (pg_source k r) (\<lambda>d. Inr (Some d)))"

definition pg_source_list :: "string \<Rightarrow> string \<Rightarrow> pg_registry \<Rightarrow> py_exn + source_definition list" where
  "pg_source_list tenant workspace t = collect (map (\<lambda>(k, r). pg_source k r) (rows_of tenant workspace t))"

definition pg_source_delete :: "source_key3 \<Rightarrow> pg_registry \<Rightarrow> pg_registry" where
  "pg_source_delete k t = AList.delete k t"

section \<open>The control surface\<close>

record 't registry_ops =
  ro_put :: "timestamp \<Rightarrow> source_definition \<Rightarrow> 't \<Rightarrow> (py_exn + unit) \<times> 't"
  ro_get :: "source_key3 \<Rightarrow> 't \<Rightarrow> py_exn + source_definition option"
  ro_list :: "string \<Rightarrow> string \<Rightarrow> 't \<Rightarrow> py_exn + source_definition list"
  ro_delete :: "source_key3 \<Rightarrow> 't \<Rightarrow> 't"

definition lite_registry_ops :: "source_codec \<Rightarrow> lite_registry registry_ops" where
  "lite_registry_ops sc = \<lparr>ro_put = lite_put sc, ro_get = lite_get sc, ro_list = lite_list sc, ro_delete = lite_delete\<rparr>"

definition pg_registry_ops :: "(pyval \<Rightarrow> py_exn + pyval) \<Rightarrow> pg_registry registry_ops" where
  "pg_registry_ops jb = \<lparr>ro_put = pg_put jb, ro_get = pg_source_get, ro_list = pg_source_list, ro_delete = pg_source_delete\<rparr>"

definition control_get :: "'t registry_ops \<Rightarrow> source_key3 \<Rightarrow> 't \<Rightarrow> py_exn + source_definition" where
  "control_get ops k t =
     rbind (ro_get ops k t) (\<lambda>found. case found of
       None \<Rightarrow> Inl (Exn KeyError (''source not registered: '' @ snd (snd k)))
     | Some d \<Rightarrow> Inr d)"

text \<open>\<open>store.put\<close> and then \<open>self.get\<close>.\<close>

definition put_and_get ::
  "'t registry_ops \<Rightarrow> timestamp \<Rightarrow> source_definition \<Rightarrow> source_key3 \<Rightarrow> 't \<Rightarrow> (py_exn + source_definition) \<times> 't" where
  "put_and_get ops now d k t =
     (case ro_put ops now d t of
        (Inl e, t') \<Rightarrow> (Inl e, t')
      | (Inr _, t') \<Rightarrow> (control_get ops k t', t'))"

definition control_register ::
  "'t registry_ops \<Rightarrow> timestamp \<Rightarrow> source_definition \<Rightarrow> 't \<Rightarrow> (py_exn + source_definition) \<times> 't" where
  "control_register ops now d t =
     (case ro_get ops (key_of d) t of
        Inl e \<Rightarrow> (Inl e, t)
      | Inr existing \<Rightarrow>
         if (case existing of None \<Rightarrow> False | Some old \<Rightarrow> sd_status old \<noteq> SS_DISABLED)
         then (Inl (Exn ValueError (''source already registered: '' @ sd_source_id d)), t)
         else (case mk_source_definition (d\<lparr>sd_enabled := False, sd_updated_at := None\<rparr>) (Some (status_value SS_REGISTERED)) of
                 Inl e \<Rightarrow> (Inl e, t)
               | Inr reg \<Rightarrow> put_and_get ops now reg (key_of d) t))"

definition control_list :: "'t registry_ops \<Rightarrow> string \<Rightarrow> string \<Rightarrow> 't \<Rightarrow> py_exn + source_definition list" where
  "control_list ops tenant workspace t = ro_list ops tenant workspace t"

definition control_transition ::
  "'t registry_ops \<Rightarrow> timestamp \<Rightarrow> source_status \<Rightarrow> source_key3 \<Rightarrow> 't \<Rightarrow> (py_exn + source_definition) \<times> 't" where
  "control_transition ops now target k t =
     (case rbind (control_get ops k t) (\<lambda>d. definition_transition d target) of
        Inl e \<Rightarrow> (Inl e, t)
      | Inr d \<Rightarrow> put_and_get ops now d k t)"

definition control_enable :: "'t registry_ops \<Rightarrow> timestamp \<Rightarrow> source_key3 \<Rightarrow> 't \<Rightarrow> (py_exn + source_definition) \<times> 't" where
  "control_enable ops now k t = control_transition ops now SS_ENABLED k t"

definition control_pause :: "'t registry_ops \<Rightarrow> timestamp \<Rightarrow> source_key3 \<Rightarrow> 't \<Rightarrow> (py_exn + source_definition) \<times> 't" where
  "control_pause ops now k t = control_transition ops now SS_PAUSED k t"

definition control_degrade :: "'t registry_ops \<Rightarrow> timestamp \<Rightarrow> source_key3 \<Rightarrow> 't \<Rightarrow> (py_exn + source_definition) \<times> 't" where
  "control_degrade ops now k t = control_transition ops now SS_DEGRADED k t"

definition control_disable :: "'t registry_ops \<Rightarrow> timestamp \<Rightarrow> source_key3 \<Rightarrow> 't \<Rightarrow> (py_exn + source_definition) \<times> 't" where
  "control_disable ops now k t = control_transition ops now SS_DISABLED k t"

definition control_set_enabled ::
  "'t registry_ops \<Rightarrow> timestamp \<Rightarrow> bool \<Rightarrow> source_key3 \<Rightarrow> 't \<Rightarrow> (py_exn + source_definition) \<times> 't" where
  "control_set_enabled ops now enabled k t = (if enabled then control_enable ops now k t else control_disable ops now k t)"

definition control_delete :: "'t registry_ops \<Rightarrow> source_key3 \<Rightarrow> 't \<Rightarrow> (py_exn + unit) \<times> 't" where
  "control_delete ops k t =
     (case control_get ops k t of Inl e \<Rightarrow> (Inl e, t) | Inr _ \<Rightarrow> (Inr (), ro_delete ops k t))"

section \<open>Health\<close>

record health_snapshot =
  hs_key :: source_key3
  hs_healthy :: bool
  hs_checked_at :: timestamp
  hs_latency_ms :: "rat option"
  hs_consecutive_failures :: int
  hs_last_error :: "string option"

type_synonym health_registry = "(source_key3 \<times> health_snapshot) list"

definition health_state :: "health_snapshot \<Rightarrow> string" where
  "health_state s = (if hs_healthy s then ''healthy'' else ''degraded'')"

definition health_record ::
  "timestamp \<Rightarrow> source_key3 \<Rightarrow> bool \<Rightarrow> rat option \<Rightarrow> string option \<Rightarrow> health_registry \<Rightarrow> health_snapshot \<times> health_registry" where
  "health_record now k healthy latency error t =
     (let failures = (if healthy then 0 else case map_of t k of None \<Rightarrow> 1 | Some p \<Rightarrow> hs_consecutive_failures p + 1);
          s = \<lparr>hs_key = k, hs_healthy = healthy, hs_checked_at = now, hs_latency_ms = latency,
               hs_consecutive_failures = failures, hs_last_error = (if healthy then None else error)\<rparr>
      in (s, AList.update k s t))"

definition health_get :: "source_key3 \<Rightarrow> health_registry \<Rightarrow> health_snapshot option" where
  "health_get k t = map_of t k"

definition health_list :: "string \<Rightarrow> string \<Rightarrow> health_registry \<Rightarrow> health_snapshot list" where
  "health_list tenant workspace t =
     map snd (sort_key (\<lambda>(k, _). snd (snd k)) (filter (\<lambda>(k, _). fst k = tenant \<and> fst (snd k) = workspace) t))"

definition health_clear :: "source_key3 \<Rightarrow> health_registry \<Rightarrow> health_registry" where
  "health_clear k t = AList.delete k t"

end
