(* ===== verification/Source_Lifecycle.thy ===== *)
theory Source_Lifecycle
  imports Source_Registry
begin

text \<open>
  The contract of a source registry, its interpretation on the SQLite and the PostgreSQL registry, and the lifecycle
  of sources under \<open>SourceControlAPI\<close>, proved in the contract.
\<close>

section \<open>The contract\<close>

definition valid_definition :: "source_definition \<Rightarrow> bool" where
  "valid_definition d \<longleftrightarrow> mk_source_definition d (Some (status_value (sd_status d))) = Inr d"

lemma status_of_value [simp]: "status_of_value (status_value s) = Inr s"
  by (cases s) (simp_all add: status_of_value_def all_statuses_def)

lemma mk_source_definition_valid:
  assumes "mk_source_definition d v = Inr d'"
  shows "valid_definition d'" and "key_of d' = key_of d" and "v = Some (status_value s) \<Longrightarrow> sd_status d' = s"
proof -
  define ok where "ok x \<longleftrightarrow> \<not> (sd_tenant_id x = [] \<or> sd_workspace_id x = [] \<or> sd_source_id x = [] \<or> sd_provider x = [])
      \<and> sd_mode x \<in> {''poll'', ''webhook'', ''push''} \<and> \<not> (case sd_poll_interval x of None \<Rightarrow> False | Some p \<Rightarrow> p \<le> 0)" for x :: source_definition
  define pv where "pv = (case v of Some x \<Rightarrow> status_of_value x | None \<Rightarrow> Inr (if sd_enabled d then SS_ENABLED else SS_DISABLED))"
  have "ok d \<and> (\<exists>u. pv = Inr u \<and> d' = d\<lparr>sd_status := u, sd_enabled := (u = SS_ENABLED)\<rparr>)"
    using assms unfolding mk_source_definition_def pv_def [symmetric] by (auto simp: ok_def rbind_Inr split: if_splits)
  then obtain u where "ok d" "pv = Inr u" "d' = d\<lparr>sd_status := u, sd_enabled := (u = SS_ENABLED)\<rparr>" by blast
  then have u: "ok d" "d' = d\<lparr>sd_status := u, sd_enabled := (u = SS_ENABLED)\<rparr>" "\<And>s. v = Some (status_value s) \<Longrightarrow> u = s"
    by (auto simp: pv_def)
  have "ok d'" using u(1,2) by (simp add: ok_def)
  moreover have "mk_source_definition x (Some (status_value s)) = Inr (x\<lparr>sd_status := s, sd_enabled := (s = SS_ENABLED)\<rparr>)" if "ok x" for x s
    using that by (auto simp: mk_source_definition_def ok_def)
  ultimately show "valid_definition d'" by (simp add: valid_definition_def u(2))
  show "key_of d' = key_of d" by (simp add: u(2) key_of_def)
  show "v = Some (status_value s) \<Longrightarrow> sd_status d' = s" using u(2,3) by simp
qed

locale source_store =
  fixes invar :: "'t \<Rightarrow> bool"
    and st :: "'t \<Rightarrow> source_key3 \<Rightarrow> source_status option"
    and ops :: "'t registry_ops"
  assumes get_none: "invar t \<Longrightarrow> ro_get ops k t = Inr None \<longleftrightarrow> st t k = None"
    and get_some: "invar t \<Longrightarrow> ro_get ops k t = Inr (Some d) \<Longrightarrow> st t k = Some (sd_status d) \<and> key_of d = k \<and> valid_definition d"
    and put_ok: "invar t \<Longrightarrow> valid_definition d \<Longrightarrow> ro_put ops now d t = (r, t') \<Longrightarrow>
      invar t' \<and> st t' = (if r = Inr () then (st t)(key_of d \<mapsto> sd_status d) else st t)"
    and delete_ok: "invar t \<Longrightarrow> invar (ro_delete ops k t) \<and> st (ro_delete ops k t) = (st t)(k := None)"

section \<open>The registries keep it\<close>

definition parsed :: "string \<Rightarrow> source_status" where
  "parsed v = (case status_of_value v of Inr s \<Rightarrow> s | Inl _ \<Rightarrow> SS_ENABLED)"

lemma parsed_value [simp]: "parsed (status_value s) = s"
  by (simp add: parsed_def)

definition rows_ok :: "('r \<Rightarrow> string) \<Rightarrow> (source_key3 \<times> 'r) list \<Rightarrow> bool" where
  "rows_ok status t \<longleftrightarrow> (\<forall>r \<in> snd ` set t. status r \<in> range status_value)"

definition row_status :: "('r \<Rightarrow> string) \<Rightarrow> (source_key3 \<times> 'r) list \<Rightarrow> source_key3 \<Rightarrow> source_status option" where
  "row_status status t k = map_option (parsed \<circ> status) (map_of t k)"

lemma row_status_update: "row_status status (AList.update k r t) = (row_status status t)(k \<mapsto> parsed (status r))"
  by (auto simp: row_status_def map_of_update fun_eq_iff)

lemma row_status_delete: "row_status status (AList.delete k t) = (row_status status t)(k := None)"
  by (auto simp: row_status_def map_of_delete fun_eq_iff)

lemma set_alist_update: "set (AList.update k r t) \<subseteq> insert (k, r) (set t)"
  by (induction t) auto

lemma rows_ok_update: "rows_ok status t \<Longrightarrow> status r \<in> range status_value \<Longrightarrow> rows_ok status (AList.update k r t)"
  using set_alist_update [of k r t] by (fastforce simp: rows_ok_def)

lemma rows_ok_delete: "rows_ok status t \<Longrightarrow> rows_ok status (AList.delete k t)"
  by (auto simp: rows_ok_def AList.delete_eq)

lemma rows_ok_get:
  assumes "rows_ok status t" and "map_of t k = Some r"
  obtains s where "status r = status_value s"
  using assms by (metis (no_types, lifting) image_eqI map_of_SomeD rangeE rows_ok_def snd_conv)

lemma lite_source_Inr:
  assumes "lite_source sc k r = Inr d" and "lr_status r = status_value s"
  shows "sd_status d = s \<and> key_of d = k \<and> valid_definition d"
  using assms mk_source_definition_valid by (fastforce simp: lite_source_def key_of_def split: option.splits)

lemma pg_source_Inr:
  assumes "pg_source k r = Inr d" and "pr_status r = status_value s"
  shows "sd_status d = s \<and> key_of d = k \<and> valid_definition d"
  using assms mk_source_definition_valid by (fastforce simp: pg_source_def key_of_def)

interpretation lite_sources: source_store "rows_ok lr_status" "row_status lr_status" "lite_registry_ops sc" for sc
proof unfold_locales
  fix t :: lite_registry and k d
  assume ok: "rows_ok lr_status t"
  show "ro_get (lite_registry_ops sc) k t = Inr None \<longleftrightarrow> row_status lr_status t k = None"
    by (auto simp: lite_registry_ops_def lite_get_def row_status_def rbind_Inr split: option.splits)
  show "row_status lr_status t k = Some (sd_status d) \<and> key_of d = k \<and> valid_definition d"
    if get: "ro_get (lite_registry_ops sc) k t = Inr (Some d)"
  proof -
    obtain r where r: "map_of t k = Some r" "lite_source sc k r = Inr d"
      using get by (auto simp: lite_registry_ops_def lite_get_def rbind_Inr split: option.splits)
    obtain s where s: "lr_status r = status_value s" using rows_ok_get [OF ok r(1)] .
    show ?thesis using lite_source_Inr [OF r(2) s] r(1) s by (simp add: row_status_def)
  qed
qed (auto simp: lite_registry_ops_def lite_put_def lite_delete_def row_status_update row_status_delete rows_ok_delete intro!: rows_ok_update)

interpretation pg_sources: source_store "rows_ok pr_status" "row_status pr_status" "pg_registry_ops jb" for jb
proof unfold_locales
  fix t :: pg_registry and k d
  assume ok: "rows_ok pr_status t"
  show "ro_get (pg_registry_ops jb) k t = Inr None \<longleftrightarrow> row_status pr_status t k = None"
    by (auto simp: pg_registry_ops_def pg_source_get_def row_status_def rbind_Inr split: option.splits)
  show "row_status pr_status t k = Some (sd_status d) \<and> key_of d = k \<and> valid_definition d"
    if get: "ro_get (pg_registry_ops jb) k t = Inr (Some d)"
  proof -
    obtain r where r: "map_of t k = Some r" "pg_source k r = Inr d"
      using get by (auto simp: pg_registry_ops_def pg_source_get_def rbind_Inr split: option.splits)
    obtain s where s: "pr_status r = status_value s" using rows_ok_get [OF ok r(1)] .
    show ?thesis using pg_source_Inr [OF r(2) s] r(1) s by (simp add: row_status_def)
  qed
qed (auto simp: pg_registry_ops_def pg_put_def pg_source_delete_def row_status_update row_status_delete rows_ok_delete
       intro!: rows_ok_update split: sum.splits)

section \<open>The lifecycle\<close>

datatype control_call =
    Register source_definition
  | Move source_status source_key3
  | Set_Enabled bool source_key3
  | Remove source_key3

fun call_key :: "control_call \<Rightarrow> source_key3" where
  "call_key (Register d) = key_of d"
| "call_key (Move s k) = k"
| "call_key (Set_Enabled b k) = k"
| "call_key (Remove k) = k"

fun control_effect :: "'t registry_ops \<Rightarrow> timestamp \<Rightarrow> control_call \<Rightarrow> 't \<Rightarrow> 't" where
  "control_effect ops now (Register d) t = snd (control_register ops now d t)"
| "control_effect ops now (Move s k) t = snd (control_transition ops now s k t)"
| "control_effect ops now (Set_Enabled b k) t = snd (control_set_enabled ops now b k t)"
| "control_effect ops now (Remove k) t = snd (control_delete ops k t)"

text \<open>One step of the life of a source; \<open>None\<close> is a source that is not registered.\<close>

fun life :: "control_call \<Rightarrow> source_status option \<Rightarrow> source_status option \<Rightarrow> bool" where
  "life (Register d) a b = (a \<in> {None, Some SS_DISABLED} \<and> b = Some SS_REGISTERED)"
| "life (Move t k) a b = (\<exists>s. a = Some s \<and> b = Some t \<and> t \<in> set (allowed_transitions s))"
| "life (Set_Enabled e k) a b =
     (\<exists>s t. a = Some s \<and> b = Some t \<and> t = (if e then SS_ENABLED else SS_DISABLED) \<and> t \<in> set (allowed_transitions s))"
| "life (Remove k) a b = (a \<noteq> None \<and> b = None)"

context source_store
begin

lemma control_get_Inr: "invar t \<Longrightarrow> control_get ops k t = Inr d \<Longrightarrow> st t k = Some (sd_status d) \<and> key_of d = k \<and> valid_definition d"
  using get_some [of t k d] by (auto simp: control_get_def rbind_Inr split: option.splits)

lemma put_and_get_effect:
  assumes "invar t" and "valid_definition d"
  shows "invar (snd (put_and_get ops now d k t)) \<and>
    st (snd (put_and_get ops now d k t)) \<in> {st t, (st t)(key_of d \<mapsto> sd_status d)}"
proof -
  obtain r t' where p: "ro_put ops now d t = (r, t')" by fastforce
  show ?thesis using put_ok [OF assms p] by (cases r) (auto simp: put_and_get_def p)
qed

lemma register_effect:
  assumes i: "invar t"
  shows "invar (snd (control_register ops now d t)) \<and>
    (st (snd (control_register ops now d t)) = st t \<or>
     st (snd (control_register ops now d t)) = (st t)(key_of d \<mapsto> SS_REGISTERED) \<and> st t (key_of d) \<in> {None, Some SS_DISABLED})"
proof (cases "ro_get ops (key_of d) t")
  case (Inl e)
  then show ?thesis using i by (simp add: control_register_def)
next
  case (Inr old)
  have old: "st t (key_of d) \<in> {None, Some SS_DISABLED}" if "\<not> (case old of None \<Rightarrow> False | Some o' \<Rightarrow> sd_status o' \<noteq> SS_DISABLED)"
    using that get_none [OF i] get_some [OF i] Inr by (cases old) auto
  show ?thesis
  proof (cases "mk_source_definition (d\<lparr>sd_enabled := False, sd_updated_at := None\<rparr>) (Some (status_value SS_REGISTERED))")
    case (Inl e)
    then show ?thesis using i Inr by (simp add: control_register_def)
  next
    case reg: (Inr reg)
    have "key_of (d\<lparr>sd_enabled := False, sd_updated_at := None\<rparr>) = key_of d" by (simp add: key_of_def)
    then have v: "valid_definition reg" "key_of reg = key_of d" "sd_status reg = SS_REGISTERED"
      using mk_source_definition_valid [OF reg] by auto
    show ?thesis using put_and_get_effect [OF i v(1), of now "key_of d"] v old i Inr reg by (auto simp: control_register_def)
  qed
qed

lemma transition_effect:
  assumes i: "invar t"
  shows "invar (snd (control_transition ops now target k t)) \<and>
    (st (snd (control_transition ops now target k t)) = st t \<or>
     (\<exists>s. st t k = Some s \<and> target \<in> set (allowed_transitions s) \<and>
        st (snd (control_transition ops now target k t)) = (st t)(k \<mapsto> target)))"
proof (cases "rbind (control_get ops k t) (\<lambda>d. definition_transition d target)")
  case (Inl e)
  then show ?thesis using i by (simp add: control_transition_def)
next
  case (Inr d)
  then obtain o' where o': "control_get ops k t = Inr o'" "definition_transition o' target = Inr d" by (auto simp: rbind_Inr)
  note g = control_get_Inr [OF i o'(1)]
  have "valid_definition d \<and> key_of d = k \<and> sd_status d = target \<and> (d = o' \<or> target \<in> set (allowed_transitions (sd_status o')))"
    using o'(2) g mk_source_definition_valid
    by (auto simp: definition_transition_def key_of_def split: if_splits dest!: mk_source_definition_valid)
  then show ?thesis
    using put_and_get_effect [OF i, of d now k] g Inr
    by (auto simp: control_transition_def fun_upd_idem)
qed

lemma delete_effect:
  assumes "invar t"
  shows "invar (snd (control_delete ops k t)) \<and>
    (st (snd (control_delete ops k t)) = st t \<or> st (snd (control_delete ops k t)) = (st t)(k := None) \<and> st t k \<noteq> None)"
  using delete_ok [OF assms] control_get_Inr [OF assms, of k] assms by (auto simp: control_delete_def split: sum.splits)

text \<open>A call leaves the registry alone or makes one step in the life of its own source.\<close>

lemma control_step:
  assumes "invar t"
  shows "invar (control_effect ops now c t) \<and> (st (control_effect ops now c t) = st t \<or>
      (\<exists>b. st (control_effect ops now c t) = (st t)(call_key c := b) \<and> life c (st t (call_key c)) b))"
proof (cases c)
  case (Register d)
  then show ?thesis using register_effect [OF assms, of now d] by auto
next
  case (Move s k)
  then show ?thesis using transition_effect [OF assms, of now s k] by auto
next
  case (Set_Enabled e k)
  define s where "s = (if e then SS_ENABLED else SS_DISABLED)"
  have "control_set_enabled ops now e k t = control_transition ops now s k t"
    by (simp add: control_set_enabled_def control_enable_def control_disable_def s_def)
  then show ?thesis
    using transition_effect [OF assms, of now s k] Set_Enabled s_def by auto
next
  case (Remove k)
  then show ?thesis using delete_effect [OF assms, of k] by auto
qed

end

end
