(* ===== verification/Source_Fabric.thy ===== *)
theory Source_Fabric
  imports Source_Lifecycle
begin

text \<open>
  \<^verbatim>\<open>ois/infrastructure/source_adapters/base.py\<close>, \<^verbatim>\<open>polling.py\<close>, \<^verbatim>\<open>polling_engine.py\<close>, the socket
  (\<^verbatim>\<open>source_gateway/socket.py\<close>) and \<^verbatim>\<open>ois/infrastructure/source_fabric.py\<close>. An adapter is what its two methods do to the
  gateway \<open>'g\<close>; the gateway itself is the function \<open>fb_gateway\<close>. The registry of sources is any \<open>registry_ops\<close>.
  The pool of \<open>run_due\<close> runs its tasks in some order, an argument.
\<close>

section \<open>Adapters\<close>

record adapter_health =
  ah_source_id :: string
  ah_healthy :: bool
  ah_checked_at :: string
  ah_latency_ms :: "rat option"
  ah_fresh :: "bool option"
  ah_reason :: "string option"

type_synonym 'g health_check = "string option \<Rightarrow> string option \<Rightarrow> string option \<Rightarrow> ('g, adapter_health) em"

record 'g source_adapter =
  ad_source_id :: string
  ad_ingest :: "string \<Rightarrow> string \<Rightarrow> string option \<Rightarrow> ('g, adapter_result) em"
  ad_health :: "'g health_check option"

record 'g adapter_registry =
  rg_adapters :: "(string \<times> 'g source_adapter) list"
  rg_specs :: "(string \<times> source_spec) list"

text \<open>\<open>source_id.split(":", 1)[0]\<close>.\<close>

definition provider_of :: "string \<Rightarrow> string" where
  "provider_of sid = takeWhile (\<lambda>c. c \<noteq> CHR '':'') sid"

text \<open>The adapter is stored before the default specification is made. Conformance metadata is not modelled.\<close>

definition adapter_register ::
  "'g source_adapter \<Rightarrow> source_spec option \<Rightarrow> 'g adapter_registry \<Rightarrow> (py_exn + unit) \<times> 'g adapter_registry" where
  "adapter_register a sp t =
     (if map_of (rg_adapters t) (ad_source_id a) \<noteq> None
      then (Inl (Exn ValueError (''source adapter already registered: '' @ ad_source_id a)), t)
      else if (case sp of None \<Rightarrow> False | Some s \<Rightarrow> ss_source_id s \<noteq> ad_source_id a)
      then (Inl (Exn ValueError ''source spec source_id must match adapter source_id''), t)
      else let t1 = t\<lparr>rg_adapters := AList.update (ad_source_id a) a (rg_adapters t)\<rparr>
           in case (case sp of Some s \<Rightarrow> Inr s | None \<Rightarrow> mk_source_spec (ad_source_id a) (provider_of (ad_source_id a)) ''unknown'') of
                Inl e \<Rightarrow> (Inl e, t1)
              | Inr s \<Rightarrow> (Inr (), t1\<lparr>rg_specs := AList.update (ad_source_id a) s (rg_specs t1)\<rparr>))"

definition adapter_get :: "string \<Rightarrow> 'g adapter_registry \<Rightarrow> py_exn + 'g source_adapter" where
  "adapter_get sid t =
     (case map_of (rg_adapters t) sid of
        None \<Rightarrow> Inl (Exn KeyError (''source adapter not registered: '' @ sid)) | Some a \<Rightarrow> Inr a)"

definition adapter_spec :: "string \<Rightarrow> 'g adapter_registry \<Rightarrow> py_exn + source_spec" where
  "adapter_spec sid t =
     (case map_of (rg_specs t) sid of
        None \<Rightarrow> Inl (Exn KeyError (''source specification not registered: '' @ sid)) | Some s \<Rightarrow> Inr s)"

definition adapter_unregister :: "string \<Rightarrow> 'g adapter_registry \<Rightarrow> py_exn + 'g adapter_registry" where
  "adapter_unregister sid t =
     (if map_of (rg_adapters t) sid = None then Inl (Exn KeyError (''source adapter not registered: '' @ sid))
      else Inr (t\<lparr>rg_adapters := AList.delete sid (rg_adapters t), rg_specs := AList.delete sid (rg_specs t)\<rparr>))"

definition adapter_list :: "'g adapter_registry \<Rightarrow> string list" where
  "adapter_list t = sort (map fst (rg_adapters t))"

definition adapter_response :: "string \<Rightarrow> source_response list \<Rightarrow> adapter_result" where
  "adapter_response sid rs =
     (let ok = filter sr_accepted rs
      in \<lparr>ar_source_id = sid, ar_records = length ok, ar_evidence_ids = map sr_evidence_id ok,
          ar_event_ids = map sr_event_id ok, ar_payload_hashes = map sr_payload_hash ok\<rparr>)"

section \<open>The polling adapter\<close>

record poll_page =
  pp_records :: "pydict list"
  pp_next_cursor :: "string option"

record 'g poll_world =
  pw_gateway :: 'g
  pw_cursor :: "string option"

text \<open>
  \<open>fetch_page\<close> may answer differently at every page; \<open>set_cursor\<close> stores what \<open>get_cursor\<close> reads, or raises
  (\<open>po_unstored\<close>) and stores nothing.
\<close>

record 'g poll_adapter =
  po_source_id :: string
  po_fetch :: "nat \<Rightarrow> string option \<Rightarrow> py_exn + poll_page"
  po_unstored :: "nat \<Rightarrow> string option \<Rightarrow> py_exn option"
  po_show :: "pyval \<Rightarrow> string"
  po_connector_version :: string
  po_ingest :: "source_request \<Rightarrow> ('g, source_response) em"

definition poll_request :: "'g poll_adapter \<Rightarrow> string \<Rightarrow> string \<Rightarrow> string option \<Rightarrow> pydict \<Rightarrow> source_request" where
  "poll_request p tenant workspace cursor rec =
     post_init \<lparr>sq_tenant_id = tenant, sq_workspace_id = workspace, sq_source_type = [],
       sq_source_record_id = (case map_of rec ''id'' of
            Some v \<Rightarrow> po_show p v
          | None \<Rightarrow> (case cursor of None \<Rightarrow> ''page'' | Some c \<Rightarrow> if c = [] then ''page'' else c)),
       sq_payload = rec, sq_credential = None, sq_connector_version = po_connector_version p,
       sq_schema_version = ''poll.record.v1'', sq_source_id = po_source_id p, sq_provenance = None,
       sq_event_type = ''source.observation'', sq_idempotency_key = None, sq_observed_at = None, sq_rate_limit_lease = None\<rparr>"

definition on_poll_gateway :: "('g, 'a) em \<Rightarrow> ('g poll_world, 'a) em" where
  "on_poll_gateway m = (\<lambda>w. case m (pw_gateway w) of (r, g) \<Rightarrow> (r, w\<lparr>pw_gateway := g\<rparr>))"

definition response_ok :: "source_response \<Rightarrow> bool" where
  "response_ok r \<longleftrightarrow> sr_accepted r \<or> sr_reason r = Some ''duplicate_evidence''"

fun ingest_records ::
  "'g poll_adapter \<Rightarrow> string \<Rightarrow> string \<Rightarrow> string option \<Rightarrow> pydict list \<Rightarrow> ('g poll_world, source_response list) em" where
  "ingest_records p tenant workspace cursor [] = eret []"
| "ingest_records p tenant workspace cursor (r # rs) =
     ebind (on_poll_gateway (po_ingest p (poll_request p tenant workspace cursor r))) (\<lambda>resp.
     if \<not> response_ok resp
     then eraise (Exn RuntimeError (''source gateway rejected '' @ po_source_id p @ '': ''
            @ (case sr_reason resp of None \<Rightarrow> ''None'' | Some x \<Rightarrow> x)))
     else ebind (ingest_records p tenant workspace cursor rs) (\<lambda>more_resp. eret (resp # more_resp)))"

definition store_cursor :: "'g poll_adapter \<Rightarrow> nat \<Rightarrow> string option \<Rightarrow> ('g poll_world, unit) em" where
  "store_cursor p i c = (\<lambda>w.
     case po_unstored p i c of Some e \<Rightarrow> (Inl e, w) | None \<Rightarrow> (Inr (), w\<lparr>pw_cursor := c\<rparr>))"

fun poll_pages ::
  "'g poll_adapter \<Rightarrow> string \<Rightarrow> string \<Rightarrow> nat \<Rightarrow> nat \<Rightarrow> string option \<Rightarrow> ('g poll_world, source_response list) em" where
  "poll_pages p tenant workspace 0 i cursor = eret []"
| "poll_pages p tenant workspace (Suc n) i cursor =
     ebind (elift (po_fetch p i cursor)) (\<lambda>page.
     ebind (ingest_records p tenant workspace cursor (pp_records page)) (\<lambda>resps.
     eseq (store_cursor p i (pp_next_cursor page))
     (if pp_next_cursor page = None then eret resps
      else ebind (poll_pages p tenant workspace n (Suc i) (pp_next_cursor page)) (\<lambda>rest. eret (resps @ rest)))))"

definition poll_ingest :: "'g poll_adapter \<Rightarrow> int \<Rightarrow> string \<Rightarrow> string \<Rightarrow> ('g poll_world, adapter_result) em" where
  "poll_ingest p max_pages tenant workspace =
     ebind (eget pw_cursor) (\<lambda>cursor.
     ebind (poll_pages p tenant workspace (nat max_pages) 0 cursor) (\<lambda>resps.
     eret (adapter_response (po_source_id p) resps)))"

section \<open>The fabric\<close>

record 'g polling_job =
  pj_source_id :: string
  pj_interval_seconds :: rat
  pj_adapter :: "'g source_adapter"
  pj_tenant_id :: string
  pj_workspace_id :: string
  pj_credential_id :: "string option"

definition mk_polling_job :: "'g polling_job \<Rightarrow> py_exn + 'g polling_job" where
  "mk_polling_job j = (if pj_interval_seconds j \<le> 0 then Inl (Exn ValueError ''poll interval must be positive'') else Inr j)"

record polling_run =
  pn_source_id :: string
  pn_started_at :: rat
  pn_completed_at :: rat
  pn_result :: "adapter_result option"
  pn_error :: "string option"

record ('t, 'g) source_fabric =
  fb_env :: environ
  fb_iso :: "timestamp \<Rightarrow> string"
  fb_monotonic :: "nat \<Rightarrow> rat"
  fb_random :: "nat \<Rightarrow> rat"
  fb_codec :: source_codec
  fb_ops :: "'t registry_ops"
  fb_gateway :: "source_request \<Rightarrow> ('g, source_response) em"
  fb_retry :: retry_policy

record ('t, 'g) fabric_world =
  fz_tick :: nat
  fz_registry :: 't
  fz_adapters :: "'g adapter_registry"
  fz_jobs :: "(string \<times> 'g polling_job) list"
  fz_next_due :: "(string \<times> rat) list"
  fz_health :: health_registry
  fz_cursors :: cursor_table
  fz_webhooks :: "(source_key3 \<times> (webhook_request \<Rightarrow> ('g, adapter_result) em)) list"
  fz_gateway :: 'g

type_synonym ('t, 'g, 'a) fm = "(('t, 'g) fabric_world, 'a) em"

definition fz_read :: "(nat \<Rightarrow> 'a) \<Rightarrow> ('t, 'g, 'a) fm" where
  "fz_read f = (\<lambda>w. (Inr (f (fz_tick w)), w\<lparr>fz_tick := Suc (fz_tick w)\<rparr>))"

definition fz_now :: "('t, 'g) source_fabric \<Rightarrow> ('t, 'g, timestamp) fm" where
  "fz_now fb = fz_read (clock (fb_env fb))"

definition on_gateway :: "('g, 'a) em \<Rightarrow> ('t, 'g, 'a) fm" where
  "on_gateway m = (\<lambda>w. case m (fz_gateway w) of (r, g) \<Rightarrow> (r, w\<lparr>fz_gateway := g\<rparr>))"

definition on_registry :: "('t \<Rightarrow> (py_exn + 'a) \<times> 't) \<Rightarrow> ('t, 'g, 'a) fm" where
  "on_registry f = (\<lambda>w. case f (fz_registry w) of (r, t) \<Rightarrow> (r, w\<lparr>fz_registry := t\<rparr>))"

definition error_text :: "py_exn \<Rightarrow> string" where
  "error_text e = exn_name (exn_class e) @ '': '' @ exn_str e"

text \<open>\<open>(now - started).total_seconds() * 1000\<close>.\<close>

definition latency_of :: "timestamp \<Rightarrow> timestamp \<Rightarrow> rat" where
  "latency_of started now = fl (fl (of_int (now - started) / 1000000) * 1000)"

subsection \<open>Polling jobs\<close>

definition job_register :: "'g polling_job \<Rightarrow> ('t, 'g, unit) fm" where
  "job_register j = (\<lambda>w.
     if map_of (fz_jobs w) (pj_source_id j) \<noteq> None
     then (Inl (Exn ValueError (''polling job already registered: '' @ pj_source_id j)), w)
     else (Inr (), w\<lparr>fz_jobs := AList.update (pj_source_id j) j (fz_jobs w)\<rparr>))"

definition job_unregister :: "string \<Rightarrow> ('t, 'g, unit) fm" where
  "job_unregister sid = (\<lambda>w.
     if map_of (fz_jobs w) sid = None then (Inl (Exn KeyError (''polling job not registered: '' @ sid)), w)
     else (Inr (), w\<lparr>fz_jobs := AList.delete sid (fz_jobs w), fz_next_due := AList.delete sid (fz_next_due w)\<rparr>))"

definition run_once :: "('t, 'g) source_fabric \<Rightarrow> string \<Rightarrow> ('t, 'g, polling_run) fm" where
  "run_once fb sid =
     ebind (eget (\<lambda>w. map_of (fz_jobs w) sid)) (\<lambda>found.
     case found of
       None \<Rightarrow> eraise (Exn KeyError sid)
     | Some j \<Rightarrow>
         ebind (fz_read (fb_monotonic fb)) (\<lambda>started.
         ebind (etry (ebind (on_gateway (ad_ingest (pj_adapter j) (pj_tenant_id j) (pj_workspace_id j) (pj_credential_id j))) (\<lambda>x. eret (Inr x)))
                     (\<lambda>e. eret (Inl e))) (\<lambda>result.
         ebind (fz_read (fb_monotonic fb)) (\<lambda>ended.
         eret \<lparr>pn_source_id = sid, pn_started_at = started, pn_completed_at = ended,
               pn_result = (case result of Inr x \<Rightarrow> Some x | Inl _ \<Rightarrow> None),
               pn_error = (case result of Inr _ \<Rightarrow> None | Inl e \<Rightarrow> Some (error_text e))\<rparr>))))"

definition due_sources :: "rat \<Rightarrow> ('t, 'g) fabric_world \<Rightarrow> string list" where
  "due_sources now w =
     sort (map fst (filter (\<lambda>(sid, _). (case map_of (fz_next_due w) sid of None \<Rightarrow> 0 | Some t \<Rightarrow> t) \<le> now) (fz_jobs w)))"

fun run_each :: "('t, 'g) source_fabric \<Rightarrow> string list \<Rightarrow> ('t, 'g, polling_run list) fm" where
  "run_each fb [] = eret []"
| "run_each fb (sid # sids) = ebind (run_once fb sid) (\<lambda>r. ebind (run_each fb sids) (\<lambda>rs. eret (r # rs)))"

definition reschedule :: "rat \<Rightarrow> polling_run \<Rightarrow> ('t, 'g) fabric_world \<Rightarrow> ('t, 'g) fabric_world" where
  "reschedule now r w =
     (case map_of (fz_jobs w) (pn_source_id r) of
        None \<Rightarrow> w
      | Some j \<Rightarrow> w\<lparr>fz_next_due := AList.update (pn_source_id r) (fl (now + pj_interval_seconds j)) (fz_next_due w)\<rparr>)"

definition run_due :: "('t, 'g) source_fabric \<Rightarrow> (string list \<Rightarrow> string list) \<Rightarrow> ('t, 'g, polling_run list) fm" where
  "run_due fb order =
     ebind (fz_read (fb_monotonic fb)) (\<lambda>now.
     ebind (eget (due_sources now)) (\<lambda>due.
     if due = [] then eret []
     else ebind (run_each fb (order due)) (\<lambda>done.
       let runs = List.map_filter (\<lambda>sid. List.find (\<lambda>r. pn_source_id r = sid) done) due in
       ebind (fz_read (fb_monotonic fb)) (\<lambda>later.
       eseq (emod (fold (reschedule later) runs)) (eret runs)))))"

subsection \<open>Lifecycle\<close>

definition fabric_register :: "('t, 'g) source_fabric \<Rightarrow> source_definition \<Rightarrow> 'g source_adapter \<Rightarrow> ('t, 'g, source_definition) fm" where
  "fabric_register fb d a =
     ebind (fz_now fb) (\<lambda>now.
     ebind (on_registry (control_register (fb_ops fb) now d)) (\<lambda>def.
     eseq (\<lambda>w. case adapter_register a None (fz_adapters w) of (r, t) \<Rightarrow> (r, w\<lparr>fz_adapters := t\<rparr>))
     (eseq (if sd_mode def \<noteq> ''poll'' then eret ()
            else ebind (elift (mk_polling_job \<lparr>pj_source_id = sd_source_id def,
                     pj_interval_seconds = (case sd_poll_interval def of None \<Rightarrow> 60 | Some i \<Rightarrow> i),
                     pj_adapter = a, pj_tenant_id = sd_tenant_id def, pj_workspace_id = sd_workspace_id def,
                     pj_credential_id = sd_credential_id def\<rparr>)) job_register)
     (eret def))))"

definition fabric_move :: "('t, 'g) source_fabric \<Rightarrow> source_status \<Rightarrow> source_key3 \<Rightarrow> ('t, 'g, source_definition) fm" where
  "fabric_move fb target k =
     ebind (fz_now fb) (\<lambda>now. on_registry (control_transition (fb_ops fb) now target k))"

definition fabric_enable :: "('t, 'g) source_fabric \<Rightarrow> source_key3 \<Rightarrow> ('t, 'g, source_definition) fm" where
  "fabric_enable fb k = fabric_move fb SS_ENABLED k"

definition fabric_pause :: "('t, 'g) source_fabric \<Rightarrow> source_key3 \<Rightarrow> ('t, 'g, source_definition) fm" where
  "fabric_pause fb k = fabric_move fb SS_PAUSED k"

definition fabric_disable :: "('t, 'g) source_fabric \<Rightarrow> source_key3 \<Rightarrow> ('t, 'g, source_definition) fm" where
  "fabric_disable fb k = fabric_move fb SS_DISABLED k"

definition require_source :: "('t, 'g) source_fabric \<Rightarrow> source_key3 \<Rightarrow> ('t, 'g, source_definition) fm" where
  "require_source fb k = ebind (eget (\<lambda>w. control_get (fb_ops fb) k (fz_registry w))) elift"

definition require_enabled :: "('t, 'g) source_fabric \<Rightarrow> source_key3 \<Rightarrow> ('t, 'g, source_definition) fm" where
  "require_enabled fb k =
     ebind (require_source fb k) (\<lambda>d.
     if sd_status d \<noteq> SS_ENABLED
     then eraise (Exn PermissionError (''source is not enabled: '' @ snd (snd k) @ '' ('' @ status_value (sd_status d) @ '')''))
     else eret d)"

definition require_retryable :: "('t, 'g) source_fabric \<Rightarrow> source_key3 \<Rightarrow> ('t, 'g, source_definition) fm" where
  "require_retryable fb k =
     ebind (require_source fb k) (\<lambda>d.
     if sd_status d \<notin> {SS_ENABLED, SS_DEGRADED}
     then eraise (Exn PermissionError (''source is not retryable: '' @ snd (snd k) @ '' ('' @ status_value (sd_status d) @ '')''))
     else eret d)"

definition note_health :: "('t, 'g) source_fabric \<Rightarrow> source_definition \<Rightarrow> bool \<Rightarrow> string option \<Rightarrow> timestamp \<Rightarrow> ('t, 'g, health_snapshot) fm" where
  "note_health fb d healthy error started =
     ebind (fz_now fb) (\<lambda>ended.
     ebind (fz_now fb) (\<lambda>checked w.
       case health_record checked (key_of d) healthy (Some (latency_of started ended)) error (fz_health w) of
         (s, t) \<Rightarrow> (Inr s, w\<lparr>fz_health := t\<rparr>)))"

definition record_success :: "('t, 'g) source_fabric \<Rightarrow> source_definition \<Rightarrow> timestamp \<Rightarrow> ('t, 'g, health_snapshot) fm" where
  "record_success fb d started =
     ebind (note_health fb d True None started) (\<lambda>s.
     if sd_status d = SS_DEGRADED then eseq (fabric_move fb SS_ENABLED (key_of d)) (eret s) else eret s)"

definition record_failure :: "('t, 'g) source_fabric \<Rightarrow> source_definition \<Rightarrow> string \<Rightarrow> timestamp \<Rightarrow> ('t, 'g, health_snapshot) fm" where
  "record_failure fb d error started =
     ebind (note_health fb d False (Some error) started) (\<lambda>s.
     if sd_status d = SS_ENABLED then eseq (fabric_move fb SS_DEGRADED (key_of d)) (eret s) else eret s)"

definition register_webhook ::
  "('t, 'g) source_fabric \<Rightarrow> source_key3 \<Rightarrow> (webhook_request \<Rightarrow> ('g, adapter_result) em) \<Rightarrow> ('t, 'g, unit) fm" where
  "register_webhook fb k gw =
     eseq (require_enabled fb k) (emod (\<lambda>w. w\<lparr>fz_webhooks := AList.update k gw (fz_webhooks w)\<rparr>))"

subsection \<open>Polling with retries\<close>

record fabric_run =
  fn_source_id :: string
  fn_result :: "adapter_result option"
  fn_attempts :: int
  fn_retries :: "retry_decision list"
  fn_error :: "string option"

definition run_poll :: "('t, 'g) source_fabric \<Rightarrow> source_key3 \<Rightarrow> ('t, 'g, fabric_run) fm" where
  "run_poll fb k =
     ebind (fz_now fb) (\<lambda>started.
     ebind (run_once fb (snd (snd k))) (\<lambda>run.
     ebind (require_source fb k) (\<lambda>d.
     eseq (case pn_error run of None \<Rightarrow> record_success fb d started | Some e \<Rightarrow> record_failure fb d e started)
     (eret \<lparr>fn_source_id = pn_source_id run, fn_result = pn_result run, fn_attempts = 1, fn_retries = [],
            fn_error = pn_error run\<rparr>))))"

definition require_pollable :: "('t, 'g) source_fabric \<Rightarrow> source_key3 \<Rightarrow> ('t, 'g, unit) fm" where
  "require_pollable fb k =
     ebind (require_retryable fb k) (\<lambda>d.
     if sd_mode d \<noteq> ''poll'' then eraise (Exn ValueError (''source is not configured for polling: '' @ snd (snd k))) else eret ())"

definition poll_once :: "('t, 'g) source_fabric \<Rightarrow> source_key3 \<Rightarrow> ('t, 'g, fabric_run) fm" where
  "poll_once fb k = eseq (require_pollable fb k) (run_poll fb k)"

text \<open>\<open>for attempt in range(1, max_attempts + 1)\<close>; \<open>n\<close> attempts are left.\<close>

fun poll_attempts ::
  "('t, 'g) source_fabric \<Rightarrow> source_key3 \<Rightarrow> nat \<Rightarrow> int \<Rightarrow> retry_decision list \<Rightarrow> ('t, 'g, fabric_run) fm" where
  "poll_attempts fb k 0 attempt retries =
     eraise (Exn (OtherException ''AssertionError'') ''retry controller exceeded its configured attempt bound'')"
| "poll_attempts fb k (Suc n) attempt retries =
     ebind (run_poll fb k) (\<lambda>run.
     case fn_error run of
       None \<Rightarrow> eret \<lparr>fn_source_id = snd (snd k), fn_result = fn_result run, fn_attempts = attempt, fn_retries = retries, fn_error = None\<rparr>
     | Some err \<Rightarrow>
         ebind (fz_read (fb_random fb)) (\<lambda>rnd.
         ebind (elift (retry_decide (fb_retry fb) rnd attempt True err)) (\<lambda>decision.
         if \<not> rt_retry decision
         then eret \<lparr>fn_source_id = snd (snd k), fn_result = None, fn_attempts = attempt, fn_retries = retries @ [decision],
                    fn_error = Some err\<rparr>
         else poll_attempts fb k n (attempt + 1) (retries @ [decision]))))"

definition poll_with_retry :: "('t, 'g) source_fabric \<Rightarrow> source_key3 \<Rightarrow> ('t, 'g, fabric_run) fm" where
  "poll_with_retry fb k =
     eseq (require_pollable fb k) (poll_attempts fb k (nat (ry_max_attempts (fb_retry fb))) 1 [])"

subsection \<open>Webhooks, observations, cursors and health\<close>

definition receive_webhook :: "('t, 'g) source_fabric \<Rightarrow> webhook_request \<Rightarrow> ('t, 'g, adapter_result) fm" where
  "receive_webhook fb q =
     (let k = (wq_tenant_id q, wq_workspace_id q, wq_source_id q) in
      ebind (require_retryable fb k) (\<lambda>d.
      if sd_mode d \<noteq> ''webhook'' then eraise (Exn ValueError (''source is not configured for webhooks: '' @ wq_source_id q))
      else ebind (eget (\<lambda>w. map_of (fz_webhooks w) k)) (\<lambda>found.
        case found of
          None \<Rightarrow> eraise (Exn KeyError (''webhook gateway not registered: '' @ wq_source_id q))
        | Some gw \<Rightarrow>
            ebind (fz_now fb) (\<lambda>started.
            ebind (etry (on_gateway (gw q)) (\<lambda>e. eseq (record_failure fb d (error_text e) started) (eraise e))) (\<lambda>result.
            eseq (record_success fb d started) (eret result))))))"

definition observation_request ::
  "source_key3 \<Rightarrow> string \<Rightarrow> pydict \<Rightarrow> source_provenance \<Rightarrow> string \<Rightarrow> string \<Rightarrow> source_request" where
  "observation_request k rid payload prov cv sv =
     post_init \<lparr>sq_tenant_id = fst k, sq_workspace_id = fst (snd k), sq_source_type = [], sq_source_record_id = rid,
       sq_payload = payload, sq_credential = None, sq_connector_version = cv, sq_schema_version = sv,
       sq_source_id = snd (snd k), sq_provenance = Some prov, sq_event_type = ''source.observation'',
       sq_idempotency_key = None, sq_observed_at = None, sq_rate_limit_lease = None\<rparr>"

definition ingest_observation ::
  "('t, 'g) source_fabric \<Rightarrow> source_key3 \<Rightarrow> string \<Rightarrow> pydict \<Rightarrow> source_provenance \<Rightarrow> string \<Rightarrow> string \<Rightarrow> ('t, 'g, source_response) fm" where
  "ingest_observation fb k rid payload prov cv sv =
     eseq (require_enabled fb k) (on_gateway (fb_gateway fb (observation_request k rid payload prov cv sv)))"

definition fabric_cursor :: "('t, 'g) source_fabric \<Rightarrow> source_key3 \<Rightarrow> ('t, 'g, source_cursor option) fm" where
  "fabric_cursor fb k = eseq (require_source fb k) (ebind (eget (\<lambda>w. cursor_get (fb_codec fb) k (fz_cursors w))) elift)"

definition advance_cursor ::
  "('t, 'g) source_fabric \<Rightarrow> source_key3 \<Rightarrow> string \<Rightarrow> int option \<Rightarrow> ('t, 'g, source_cursor) fm" where
  "advance_cursor fb k c expected =
     eseq (require_enabled fb k) (ebind (fz_now fb) (\<lambda>now w.
       case cursor_advance (fb_codec fb) now k c expected (fz_cursors w) of
         Inl e \<Rightarrow> (Inl e, w)
       | Inr (cur, t) \<Rightarrow> (Inr cur, w\<lparr>fz_cursors := t\<rparr>)))"

definition check_adapter ::
  "('t, 'g) source_fabric \<Rightarrow> string \<Rightarrow> string option \<Rightarrow> string option \<Rightarrow> string option \<Rightarrow> ('t, 'g, adapter_health) fm" where
  "check_adapter fb sid tenant workspace cred =
     ebind (eget (\<lambda>w. adapter_get sid (fz_adapters w))) (\<lambda>found.
     ebind (elift found) (\<lambda>a.
     case ad_health a of
       Some probe \<Rightarrow> on_gateway (probe tenant workspace cred)
     | None \<Rightarrow> ebind (fz_now fb) (\<lambda>now.
         eret \<lparr>ah_source_id = sid, ah_healthy = True, ah_checked_at = fb_iso fb now, ah_latency_ms = None, ah_fresh = None,
               ah_reason = Some ''health_check_not_supported''\<rparr>)))"

fun check_adapters ::
  "('t, 'g) source_fabric \<Rightarrow> string list \<Rightarrow> string option \<Rightarrow> string option \<Rightarrow> string option \<Rightarrow> ('t, 'g, adapter_health list) fm" where
  "check_adapters fb [] tenant workspace cred = eret []"
| "check_adapters fb (sid # sids) tenant workspace cred =
     ebind (check_adapter fb sid tenant workspace cred) (\<lambda>h.
     ebind (check_adapters fb sids tenant workspace cred) (\<lambda>hs. eret (h # hs)))"

definition socket_health ::
  "('t, 'g) source_fabric \<Rightarrow> string option \<Rightarrow> string option \<Rightarrow> string option \<Rightarrow> string option \<Rightarrow> ('t, 'g, adapter_health list) fm" where
  "socket_health fb sid tenant workspace cred =
     ebind (eget (\<lambda>w. case sid of Some s \<Rightarrow> if s = [] then adapter_list (fz_adapters w) else [s]
                      | None \<Rightarrow> adapter_list (fz_adapters w))) (\<lambda>ids.
     check_adapters fb ids tenant workspace cred)"

definition check_health :: "('t, 'g) source_fabric \<Rightarrow> source_key3 \<Rightarrow> ('t, 'g, health_snapshot) fm" where
  "check_health fb k =
     ebind (require_source fb k) (\<lambda>d.
     ebind (fz_now fb) (\<lambda>started.
     etry (ebind (socket_health fb (Some (snd (snd k))) (Some (fst k)) (Some (fst (snd k))) (sd_credential_id d)) (\<lambda>checks.
           case checks of
             [] \<Rightarrow> eraise (Exn (OtherException ''IndexError'') ''tuple index out of range'')
           | h # _ \<Rightarrow> if ah_healthy h then record_success fb d started
                     else record_failure fb d (case ah_reason h of None \<Rightarrow> ''source health check failed''
                            | Some r \<Rightarrow> if r = [] then ''source health check failed'' else r) started))
          (\<lambda>e. record_failure fb d (error_text e) started)))"

section \<open>The socket\<close>

text \<open>With the registry of sources configured, as the fabric configures it.\<close>

definition definition_for_ingest :: "('t, 'g) source_fabric \<Rightarrow> source_key3 \<Rightarrow> ('t, 'g, source_definition) fm" where
  "definition_for_ingest fb k =
     ebind (require_source fb k) (\<lambda>d.
     if \<not> sd_enabled d then eraise (Exn PermissionError (''source is disabled: '' @ snd (snd k))) else eret d)"

definition or_credential :: "string option \<Rightarrow> string option \<Rightarrow> string option" where
  "or_credential a b = (case a of Some c \<Rightarrow> if c = [] then b else Some c | None \<Rightarrow> b)"

definition socket_ingest :: "('t, 'g) source_fabric \<Rightarrow> source_key3 \<Rightarrow> string option \<Rightarrow> ('t, 'g, adapter_result) fm" where
  "socket_ingest fb k cred =
     ebind (definition_for_ingest fb k) (\<lambda>d.
     ebind (eget (\<lambda>w. adapter_get (snd (snd k)) (fz_adapters w))) (\<lambda>found.
     ebind (elift found) (\<lambda>a.
     on_gateway (ad_ingest a (fst k) (fst (snd k)) (or_credential cred (sd_credential_id d))))))"

record socket_status =
  sk_source_id :: string
  sk_registered :: bool
  sk_healthy :: "bool option"
  sk_reason :: "string option"

definition socket_status_of ::
  "('t, 'g) source_fabric \<Rightarrow> string \<Rightarrow> string option \<Rightarrow> string option \<Rightarrow> string option \<Rightarrow> ('t, 'g, socket_status) fm" where
  "socket_status_of fb sid tenant workspace cred =
     ebind (eget (\<lambda>w. adapter_get sid (fz_adapters w))) (\<lambda>found.
     case found of
       Inl _ \<Rightarrow> eret \<lparr>sk_source_id = sid, sk_registered = False, sk_healthy = None, sk_reason = Some ''source_not_registered''\<rparr>
     | Inr a \<Rightarrow>
        (case ad_health a of
           None \<Rightarrow> eret \<lparr>sk_source_id = sid, sk_registered = True, sk_healthy = Some True, sk_reason = Some ''health_check_not_supported''\<rparr>
         | Some probe \<Rightarrow> ebind (on_gateway (probe tenant workspace cred)) (\<lambda>h.
             eret \<lparr>sk_source_id = sid, sk_registered = True, sk_healthy = Some (ah_healthy h), sk_reason = ah_reason h\<rparr>)))"

definition payload_request :: "source_key3 \<Rightarrow> string \<Rightarrow> pydict \<Rightarrow> string option \<Rightarrow> string \<Rightarrow> string \<Rightarrow> source_request" where
  "payload_request k rid payload cred cv sv =
     post_init \<lparr>sq_tenant_id = fst k, sq_workspace_id = fst (snd k), sq_source_type = [], sq_source_record_id = rid,
       sq_payload = payload,
       sq_credential = (case cred of None \<Rightarrow> None | Some c \<Rightarrow> if c = [] then None
          else Some \<lparr>cd_credential_id = c, cd_tenant_id = fst k, cd_provider = provider_of (snd (snd k)), cd_scopes = [], cd_expires_at = None\<rparr>),
       sq_connector_version = cv, sq_schema_version = sv, sq_source_id = snd (snd k), sq_provenance = None,
       sq_event_type = ''source.observation'', sq_idempotency_key = None, sq_observed_at = None, sq_rate_limit_lease = None\<rparr>"

definition ingest_payload ::
  "('t, 'g) source_fabric \<Rightarrow> source_key3 \<Rightarrow> string \<Rightarrow> pydict \<Rightarrow> string option \<Rightarrow> string \<Rightarrow> string \<Rightarrow> ('t, 'g, adapter_result) fm" where
  "ingest_payload fb k rid payload cred cv sv =
     ebind (definition_for_ingest fb k) (\<lambda>d.
     ebind (on_gateway (fb_gateway fb (payload_request k rid payload (or_credential cred (sd_credential_id d)) cv sv))) (\<lambda>r.
     eret (adapter_response (snd (snd k)) [r])))"

end
