(* ===== verification/Source_Fabric_Properties.thy ===== *)
theory Source_Fabric_Properties
  imports Source_Fabric
begin

text \<open>
  Properties of the source fabric: sources live along their lifecycle, a call for a source that is not
  enabled does nothing, polling with retries is bounded, and a polling adapter moves its cursor only past what was committed.
\<close>

section \<open>Who may ingest\<close>

lemma rows_ok_Nil: "rows_ok status []"
  by (simp add: rows_ok_def)

datatype ingest_call =
    Poll source_key3
  | Poll_Retry source_key3
  | Webhook webhook_request
  | Observe source_key3 string pydict source_provenance string string
  | Socket source_key3 "string option"
  | Payload source_key3 string pydict "string option" string string

fun ingest_key :: "ingest_call \<Rightarrow> source_key3" where
  "ingest_key (Poll k) = k"
| "ingest_key (Poll_Retry k) = k"
| "ingest_key (Webhook q) = (wq_tenant_id q, wq_workspace_id q, wq_source_id q)"
| "ingest_key (Observe k _ _ _ _ _) = k"
| "ingest_key (Socket k _) = k"
| "ingest_key (Payload k _ _ _ _ _) = k"

fun ingest_statuses :: "ingest_call \<Rightarrow> source_status set" where
  "ingest_statuses (Observe _ _ _ _ _ _) = {SS_ENABLED}"
| "ingest_statuses (Socket _ _) = {SS_ENABLED}"
| "ingest_statuses (Payload _ _ _ _ _ _) = {SS_ENABLED}"
| "ingest_statuses _ = {SS_ENABLED, SS_DEGRADED}"

fun ingest_effect :: "('t, 'g) source_fabric \<Rightarrow> ingest_call \<Rightarrow> ('t, 'g) fabric_world \<Rightarrow> ('t, 'g) fabric_world" where
  "ingest_effect fb (Poll k) w = snd (poll_once fb k w)"
| "ingest_effect fb (Poll_Retry k) w = snd (poll_with_retry fb k w)"
| "ingest_effect fb (Webhook q) w = snd (receive_webhook fb q w)"
| "ingest_effect fb (Observe k rid p prov cv sv) w = snd (ingest_observation fb k rid p prov cv sv w)"
| "ingest_effect fb (Socket k c) w = snd (socket_ingest fb k c w)"
| "ingest_effect fb (Payload k rid p c cv sv) w = snd (ingest_payload fb k rid p c cv sv w)"

lemma require_source_apply: "require_source fb k w = (control_get (fb_ops fb) k (fz_registry w), w)"
  by (simp add: require_source_def em_simps)

lemma valid_enabled: "valid_definition d \<Longrightarrow> sd_enabled d \<longleftrightarrow> sd_status d = SS_ENABLED"
proof -
  assume "valid_definition d"
  then have "d\<lparr>sd_enabled := (sd_status d = SS_ENABLED)\<rparr> = d"
    by (simp add: valid_definition_def mk_source_definition_def split: if_splits)
  from arg_cong [OF this, of sd_enabled] show ?thesis by simp
qed

context source_store
begin

lemma require_retryable_cases:
  assumes "fb_ops fb = ops" and "invar (fz_registry w)"
  shows "(\<exists>e. require_retryable fb k w = (Inl e, w)) \<or>
    (\<exists>d. require_retryable fb k w = (Inr d, w) \<and> st (fz_registry w) k \<in> {Some SS_ENABLED, Some SS_DEGRADED})"
  using control_get_Inr [OF assms(2), of k] assms(1)
  by (auto simp: require_retryable_def em_simps require_source_apply split: sum.splits)

lemma require_enabled_cases:
  assumes "fb_ops fb = ops" and "invar (fz_registry w)"
  shows "(\<exists>e. require_enabled fb k w = (Inl e, w)) \<or>
    (\<exists>d. require_enabled fb k w = (Inr d, w) \<and> st (fz_registry w) k = Some SS_ENABLED)"
  using control_get_Inr [OF assms(2), of k] assms(1)
  by (auto simp: require_enabled_def em_simps require_source_apply split: sum.splits)

lemma definition_for_ingest_cases:
  assumes "fb_ops fb = ops" and "invar (fz_registry w)"
  shows "(\<exists>e. definition_for_ingest fb k w = (Inl e, w)) \<or>
    (\<exists>d. definition_for_ingest fb k w = (Inr d, w) \<and> st (fz_registry w) k = Some SS_ENABLED)"
  using control_get_Inr [OF assms(2), of k] assms(1) valid_enabled
  by (auto simp: definition_for_ingest_def em_simps require_source_apply split: sum.splits)

lemma require_pollable_cases:
  assumes "fb_ops fb = ops" and "invar (fz_registry w)"
  shows "(\<exists>e. require_pollable fb k w = (Inl e, w)) \<or>
    (require_pollable fb k w = (Inr (), w) \<and> st (fz_registry w) k \<in> {Some SS_ENABLED, Some SS_DEGRADED})"
  using require_retryable_cases [OF assms, of k]
proof
  assume "\<exists>d. require_retryable fb k w = (Inr d, w) \<and> st (fz_registry w) k \<in> {Some SS_ENABLED, Some SS_DEGRADED}"
  then obtain d where "require_retryable fb k w = (Inr d, w)" "st (fz_registry w) k \<in> {Some SS_ENABLED, Some SS_DEGRADED}" by blast
  then show ?thesis by (cases "sd_mode d = ''poll''") (auto simp: require_pollable_def em_simps)
qed (auto simp: require_pollable_def em_simps)

lemma ingestion_guarded:
  assumes "fb_ops fb = ops" and "invar (fz_registry w)" and "ingest_effect fb c w \<noteq> w"
  shows "st (fz_registry w) (ingest_key c) \<in> Some ` ingest_statuses c"
proof (cases c)
  case (Poll k)
  then show ?thesis using require_pollable_cases [OF assms(1,2), of k] assms(3) by (auto simp: poll_once_def em_simps)
next
  case (Poll_Retry k)
  then show ?thesis using require_pollable_cases [OF assms(1,2), of k] assms(3) by (auto simp: poll_with_retry_def em_simps)
next
  case (Webhook q)
  then show ?thesis
    using require_retryable_cases [OF assms(1,2), of "ingest_key c"] assms(3) by (auto simp: receive_webhook_def Let_def em_simps)
next
  case (Observe k rid p prov cv sv)
  then show ?thesis using require_enabled_cases [OF assms(1,2), of k] assms(3) by (auto simp: ingest_observation_def em_simps)
next
  case (Socket k cr)
  then show ?thesis using definition_for_ingest_cases [OF assms(1,2), of k] assms(3) by (auto simp: socket_ingest_def em_simps)
next
  case (Payload k rid p cr cv sv)
  then show ?thesis using definition_for_ingest_cases [OF assms(1,2), of k] assms(3) by (auto simp: ingest_payload_def em_simps)
qed

lemma control_run_invar: "invar t \<Longrightarrow> invar (fold (\<lambda>(now, c). control_effect ops now c) cs t)"
  by (induction cs arbitrary: t) (auto simp: control_step)

end

section \<open>Retries of a poll\<close>

definition poll_step :: "'g polling_job \<Rightarrow> 'g \<Rightarrow> 'g" where
  "poll_step j g = snd (ad_ingest (pj_adapter j) (pj_tenant_id j) (pj_workspace_id j) (pj_credential_id j) g)"

text \<open>A computation that leaves a view of the state alone.\<close>

definition framed :: "('s \<Rightarrow> 'v) \<Rightarrow> ('s, 'a) em \<Rightarrow> bool" where
  "framed f m \<longleftrightarrow> (\<forall>w. f (snd (m w)) = f w)"

lemma framedD: "framed f m \<Longrightarrow> m w = (r, w') \<Longrightarrow> f w' = f w"
  by (metis framed_def snd_conv)

lemma framed_ret: "framed f (eret x)"
  by (simp add: framed_def em_simps)

lemma framed_bind: "framed f m \<Longrightarrow> (\<And>x. framed f (n x)) \<Longrightarrow> framed f (ebind m n)"
  unfolding framed_def ebind_def by (metis (no_types, lifting) case_prod_beta' snd_conv sum.case_eq_if)

lemma framed_seq: "framed f m \<Longrightarrow> framed f n \<Longrightarrow> framed f (eseq m n)"
  by (simp add: eseq_def framed_bind)

text \<open>Everything but the run of the job leaves the gateway and the jobs alone.\<close>

abbreviation quiet :: "('t, 'g) fabric_world \<Rightarrow> 'g \<times> (string \<times> 'g polling_job) list" where
  "quiet w \<equiv> (fz_gateway w, fz_jobs w)"

lemma now_quiet: "framed quiet (fz_now fb)"
  by (simp add: framed_def fz_now_def fz_read_def)

lemma move_quiet: "framed quiet (fabric_move fb s k)"
  unfolding fabric_move_def by (intro framed_bind now_quiet) (simp add: framed_def on_registry_def split: prod.splits)

lemma note_quiet: "framed quiet (note_health fb d h e s)"
  unfolding note_health_def by (intro framed_bind now_quiet) (simp add: framed_def split: prod.splits)

lemma success_quiet: "framed quiet (record_success fb d s)"
  by (auto simp: record_success_def intro!: framed_bind framed_seq framed_ret note_quiet move_quiet)

lemma failure_quiet: "framed quiet (record_failure fb d e s)"
  by (auto simp: record_failure_def intro!: framed_bind framed_seq framed_ret note_quiet move_quiet)

lemma run_once_effect:
  assumes "map_of (fz_jobs w) sid = Some j"
  shows "\<exists>x w'. run_once fb sid w = (Inr x, w') \<and> quiet w' = (poll_step j (fz_gateway w), fz_jobs w) \<and> pn_source_id x = sid"
  using assms
  by (auto simp: run_once_def em_simps fz_read_def on_gateway_def poll_step_def split: prod.splits sum.splits)

lemma run_poll_effect:
  assumes "map_of (fz_jobs w) (snd (snd k)) = Some j" and "run_poll fb k w = (r, w')"
  shows "quiet w' = (poll_step j (fz_gateway w), fz_jobs w)"
proof -
  let ?w0 = "w\<lparr>fz_tick := Suc (fz_tick w)\<rparr>"
  obtain x w1 where x: "run_once fb (snd (snd k)) ?w0 = (Inr x, w1)" "quiet w1 = (poll_step j (fz_gateway w), fz_jobs w)"
    using run_once_effect [of ?w0 "snd (snd k)" j fb] assms(1) by auto
  define after where "after =
    ebind (require_source fb k) (\<lambda>d.
     eseq (case pn_error x of None \<Rightarrow> record_success fb d (clock (fb_env fb) (fz_tick w)) | Some e \<Rightarrow> record_failure fb d e (clock (fb_env fb) (fz_tick w)))
     (eret \<lparr>fn_source_id = pn_source_id x, fn_result = pn_result x, fn_attempts = 1, fn_retries = [], fn_error = pn_error x\<rparr>))"
  have "framed quiet (require_source fb k)" by (simp add: framed_def require_source_apply)
  then have "framed quiet after"
    by (auto simp: after_def intro!: framed_bind framed_seq framed_ret success_quiet failure_quiet split: option.split)
  moreover have "after w1 = (r, w')"
    using assms(2) x(1) by (simp add: run_poll_def em_simps fz_now_def fz_read_def after_def)
  ultimately have "quiet w' = quiet w1" by (rule framedD)
  then show ?thesis using x(2) by simp
qed

lemma retry_policy_attempts: "mk_retry_policy m b mx jt = Inr p \<Longrightarrow> ry_max_attempts p = m \<and> 1 \<le> m"
  by (auto simp: mk_retry_policy_def split: if_splits)

lemma poll_attempts_effect:
  assumes "poll_attempts fb k n a rs w = (Inr x, w')" and "map_of (fz_jobs w) (snd (snd k)) = Some j"
    and "m = ry_max_attempts (fb_retry fb)" and "a = m - int n + 1" and "int (length rs) = a - 1"
  shows "\<exists>i \<ge> 1. fn_attempts x = a + int i - 1 \<and> fn_attempts x \<le> m \<and> fz_gateway w' = (poll_step j ^^ i) (fz_gateway w)
    \<and> (fn_error x \<noteq> None \<longrightarrow> fn_attempts x = m) \<and> int (length (fn_retries x)) = (if fn_error x = None then fn_attempts x - 1 else m)"
  using assms
proof (induction n arbitrary: a rs w)
  case 0
  then show ?case by (simp add: em_simps)
next
  case (Suc n)
  obtain r1 w1 where p: "run_poll fb k w = (r1, w1)" by fastforce
  obtain y where y: "r1 = Inr y" using Suc.prems(1) p by (cases r1) (auto simp: em_simps)
  note q = run_poll_effect [OF Suc.prems(2) p]
  show ?case
  proof (cases "fn_error y")
    case None
    then show ?thesis using Suc.prems p y q by (intro exI [of _ 1]) (auto simp: em_simps)
  next
    case (Some err)
    let ?w2 = "w1\<lparr>fz_tick := Suc (fz_tick w1)\<rparr>"
    obtain d where d: "retry_decide (fb_retry fb) (fb_random fb (fz_tick w1)) a True err = Inr d"
      using Suc.prems(1) p y Some by (auto simp: em_simps fz_read_def split: sum.splits)
    have dr: "rt_retry d \<longleftrightarrow> a < m" using d Suc.prems(3) by (auto simp: retry_decide_def Let_def split: if_splits)
    show ?thesis
    proof (cases "a < m")
      case False
      then have "x = \<lparr>fn_source_id = snd (snd k), fn_result = None, fn_attempts = a, fn_retries = rs @ [d], fn_error = Some err\<rparr> \<and> w' = ?w2"
        using Suc.prems(1) p y Some d dr by (auto simp: em_simps fz_read_def)
      moreover have "a = m" using False Suc.prems(4) by simp
      ultimately show ?thesis using q Suc.prems(5) by (intro exI [of _ 1]) auto
    next
      case True
      then have run: "poll_attempts fb k n (a + 1) (rs @ [d]) ?w2 = (Inr x, w')"
        using Suc.prems(1) p y Some d dr by (auto simp: em_simps fz_read_def)
      have j: "map_of (fz_jobs ?w2) (snd (snd k)) = Some j" using q Suc.prems(2) by simp
      obtain i where i: "i \<ge> 1" "fn_attempts x = a + 1 + int i - 1" "fn_attempts x \<le> m"
          "fz_gateway w' = (poll_step j ^^ i) (fz_gateway ?w2)" "fn_error x \<noteq> None \<longrightarrow> fn_attempts x = m"
          "int (length (fn_retries x)) = (if fn_error x = None then fn_attempts x - 1 else m)"
        using Suc.IH [OF run j Suc.prems(3)] Suc.prems(4,5) by auto
      have "fz_gateway w' = (poll_step j ^^ Suc i) (fz_gateway w)" using i(4) q by (simp only: funpow_Suc_right comp_def) simp
      then show ?thesis using i by (intro exI [of _ "Suc i"]) auto
    qed
  qed
qed

text \<open>With the attempts of the policy the loop never falls through: more of them would change nothing.\<close>

lemma poll_attempts_enough:
  assumes "a = ry_max_attempts (fb_retry fb) - int n"
  shows "poll_attempts fb k (Suc n + e) a rs w = poll_attempts fb k (Suc n) a rs w"
  using assms
proof (induction n arbitrary: a rs w)
  case 0
  then have "retry_decide (fb_retry fb) rnd a True err = (if a < 1 then Inl (Exn ValueError ''attempt must be positive'')
      else Inr \<lparr>rt_retry = False, rt_attempt = a, rt_delay_seconds = 0, rt_reason = err\<rparr>)" for rnd err
    by (simp add: retry_decide_def)
  then show ?case by (auto simp: em_simps fz_read_def split: option.splits prod.splits sum.splits)
next
  case (Suc n)
  have "poll_attempts fb k (Suc (n + e)) (a + 1) rs' = poll_attempts fb k (Suc n) (a + 1) rs'" for rs'
    using Suc.IH [of "a + 1" rs'] Suc.prems by (simp add: fun_eq_iff)
  then show ?case by (simp only: add_Suc poll_attempts.simps(2))
qed

section \<open>Checkpoint after commit\<close>







text \<open>
  A fabric over either registry, whose gateway counts the ingestions and whose adapter fails on the first one, and a
  source of it, registered and enabled.
\<close>

definition demo_adapter :: "nat source_adapter" where
  "demo_adapter = \<lparr>ad_source_id = ''s'', ad_ingest = (\<lambda>_ _ _ g.
     (if g = 0 then Inl (Exn RuntimeError ''down'')
      else Inr \<lparr>ar_source_id = ''s'', ar_records = 1, ar_evidence_ids = [], ar_event_ids = [], ar_payload_hashes = []\<rparr>, Suc g)), ad_health = None\<rparr>"

definition demo_source :: "string \<Rightarrow> source_definition" where
  "demo_source t = \<lparr>sd_source_id = ''s'', sd_tenant_id = t, sd_workspace_id = ''w'', sd_provider = ''http'', sd_mode = ''poll'',
     sd_enabled = True, sd_config = None, sd_credential_id = None, sd_updated_at = None, sd_status = SS_ENABLED,
     sd_poll_interval = None, sd_capabilities = []\<rparr>"

definition demo_fabric :: "'t registry_ops \<Rightarrow> ('t, nat) source_fabric" where
  "demo_fabric ops = \<lparr>fb_env = \<lparr>clock = (\<lambda>_. 0), fresh_uuid = (\<lambda>_. ''u'')\<rparr>, fb_iso = (\<lambda>_. ''t''), fb_monotonic = (\<lambda>_. 0),
     fb_random = (\<lambda>_. 0), fb_codec = \<lparr>sc_iso = (\<lambda>_. ''t''), sc_fromiso = (\<lambda>_. Some 0)\<rparr>, fb_ops = ops,
     fb_gateway = (\<lambda>_. eraise (Exn RuntimeError ''off'')),
     fb_retry = \<lparr>ry_max_attempts = 3, ry_base_delay_seconds = 1, ry_max_delay_seconds = 8, ry_jitter_ratio = 0\<rparr>\<rparr>"

definition demo_job :: "nat polling_job" where
  "demo_job = \<lparr>pj_source_id = ''s'', pj_interval_seconds = 60, pj_adapter = demo_adapter, pj_tenant_id = ''a'',
     pj_workspace_id = ''w'', pj_credential_id = None\<rparr>"

definition demo_world :: "'t registry_ops \<Rightarrow> 't \<Rightarrow> ('t, nat) fabric_world" where
  "demo_world ops t = \<lparr>fz_tick = 0,
     fz_registry = control_effect ops 0 (Move SS_ENABLED (''a'', ''w'', ''s'')) (control_effect ops 0 (Register (demo_source ''a'')) t),
     fz_adapters = \<lparr>rg_adapters = [(''s'', demo_adapter)], rg_specs = []\<rparr>, fz_jobs = [(''s'', demo_job)], fz_next_due = [],
     fz_health = [], fz_cursors = [], fz_webhooks = [], fz_gateway = 0\<rparr>"

abbreviation demo_pg :: "pg_registry registry_ops" where
  "demo_pg \<equiv> pg_registry_ops Inr"

abbreviation demo_lite :: "lite_registry registry_ops" where
  "demo_lite \<equiv> lite_registry_ops \<lparr>sc_iso = (\<lambda>_. ''t''), sc_fromiso = (\<lambda>_. Some 0)\<rparr>"


section \<open>Properties\<close>

text \<open>
  C26. Sources live along their lifecycle, in the SQLite and in the PostgreSQL registry: after any history of calls to
  \<^verbatim>\<open>SourceControlAPI\<close> (register, transition, set_enabled, delete; each at any time, each possibly raising) the next call
  changes the status of no source but its own, and that one only by registering an absent or disabled source as
  registered, by a transition the lifecycle table allows, or by deleting it.
\<close>

theorem source_lifecycle:
  "let t = fold (\<lambda>(now, c). control_effect (lite_registry_ops sc) now c) history [];
       t' = control_effect (lite_registry_ops sc) now c t;
       u = fold (\<lambda>(now, c). control_effect (pg_registry_ops jb) now c) history [];
       u' = control_effect (pg_registry_ops jb) now c u
   in (row_status lr_status t' = row_status lr_status t \<or>
       (\<exists>b. row_status lr_status t' = (row_status lr_status t)(call_key c := b) \<and> life c (row_status lr_status t (call_key c)) b)) \<and>
      (row_status pr_status u' = row_status pr_status u \<or>
       (\<exists>b. row_status pr_status u' = (row_status pr_status u)(call_key c := b) \<and> life c (row_status pr_status u (call_key c)) b))"
proof -
  note lite_sources.control_run_invar [OF rows_ok_Nil] pg_sources.control_run_invar [OF rows_ok_Nil]
  then
  show ?thesis unfolding Let_def by (intro conjI) (use lite_sources.control_step pg_sources.control_step in metis)+
qed

text \<open>
  C27. A call for a source that is not switched on does nothing. Over either registry, a poll, a poll with retries, a
  webhook delivery, an observation, a payload or a socket ingestion that changes anything at all (evidence, health, status,
  cursors) names a source whose row is enabled, or degraded for the first three; every other call leaves the world as it
  was. The guard is on the source the call names: a poll runs the job kept under its bare source id, which may be another
  tenant's (\<open>poll_runs_foreign_job\<close>), and \<open>run_due\<close> of the polling engine, which checks nothing, is not among the calls.
\<close>

theorem ingest_call_needs_enabled_source:
  assumes "fb_ops fq = lite_registry_ops sc" and "rows_ok lr_status (fz_registry lw)"
    and "fb_ops fp = pg_registry_ops jb" and "rows_ok pr_status (fz_registry pw)"
  shows "(row_status lr_status (fz_registry lw) (ingest_key c) \<in> Some ` ingest_statuses c \<or> ingest_effect fq c lw = lw) \<and>
    (row_status pr_status (fz_registry pw) (ingest_key c) \<in> Some ` ingest_statuses c \<or> ingest_effect fp c pw = pw)"
  using lite_sources.ingestion_guarded [OF assms(1,2)] pg_sources.ingestion_guarded [OF assms(3,4)] by blast

theorem ingest_call_needs_enabled_source_witness:
  "ingest_effect (demo_fabric demo_lite) (Socket (''a'', ''w'', ''s'') None) (demo_world demo_lite []) \<noteq> demo_world demo_lite [] \<and>
   ingest_effect (demo_fabric demo_pg) (Socket (''b'', ''w'', ''s'') None) (demo_world demo_pg []) = demo_world demo_pg []"
proof -
  let ?l = "demo_world demo_lite []" and ?p = "demo_world demo_pg []"
  have ok: "rows_ok lr_status (fz_registry ?l)" "rows_ok pr_status (fz_registry ?p)"
    unfolding demo_world_def fabric_world.simps
    by (intro lite_sources.control_step [THEN conjunct1] pg_sources.control_step [THEN conjunct1] rows_ok_Nil)+
  have "row_status pr_status (fz_registry ?p) (''b'', ''w'', ''s'') = None" by code_simp
  moreover have "fz_gateway (ingest_effect (demo_fabric demo_lite) (Socket (''a'', ''w'', ''s'') None) ?l) \<noteq> fz_gateway ?l" by code_simp
  moreover have "fb_ops (demo_fabric demo_lite) = demo_lite" "fb_ops (demo_fabric demo_pg) = demo_pg"
    by (simp_all add: demo_fabric_def)
  note ingest_call_needs_enabled_source [OF this(1) ok(1) this(2) ok(2), of "Socket (''b'', ''w'', ''s'') None"]
  ultimately show ?thesis by auto
qed

text \<open>
  Polling with retries is bounded and honest about it. Under a valid retry policy the loop never runs out of its
  range; a poll with retries that returns has run its job exactly \<open>fn_attempts\<close> times on the gateway, at least once and
  at most \<open>max_attempts\<close>; it reports an error only after the last allowed attempt, and the retries it lists are one for
  every failed attempt.
\<close>

theorem poll_retries_bounded:
  assumes "mk_retry_policy m b mx jt = Inr (fb_retry fb)" and "map_of (fz_jobs w) (snd (snd k)) = Some j"
    and "poll_with_retry fb k w = (Inr x, w')"
  shows "(\<forall>e. poll_attempts fb k (nat m + e) 1 [] w = poll_attempts fb k (nat m) 1 [] w) \<and>
    1 \<le> fn_attempts x \<and> fn_attempts x \<le> m \<and> fz_gateway w' = (poll_step j ^^ nat (fn_attempts x)) (fz_gateway w) \<and>
    (fn_error x \<noteq> None \<longrightarrow> fn_attempts x = m) \<and>
    int (length (fn_retries x)) = (if fn_error x = None then fn_attempts x - 1 else fn_attempts x)"
proof -
  have m: "ry_max_attempts (fb_retry fb) = m" "1 \<le> m"
    using retry_policy_attempts [OF assms(1)] by simp_all
  obtain n where n: "nat m = Suc n" "int n = m - 1" using m(2) by (cases "nat m") auto
  have "poll_attempts fb k (nat m) 1 [] w = (Inr x, w')"
    using assms(3) m(1) by (auto simp: poll_with_retry_def require_pollable_def require_retryable_def em_simps require_source_apply
        split: sum.splits if_splits prod.splits)
  from poll_attempts_effect [OF this assms(2) m(1) [symmetric]] m(2) obtain i where
    "i \<ge> 1" "fn_attempts x = int i" "fn_attempts x \<le> m" "fz_gateway w' = (poll_step j ^^ i) (fz_gateway w)"
    "fn_error x \<noteq> None \<longrightarrow> fn_attempts x = m" "int (length (fn_retries x)) = (if fn_error x = None then fn_attempts x - 1 else m)"
    by auto
  moreover have "poll_attempts fb k (nat m + e) 1 [] w = poll_attempts fb k (nat m) 1 [] w" for e
    using poll_attempts_enough [of 1 fb n k e "[]" w] n m(1) by simp
  ultimately show ?thesis by auto
qed

theorem poll_retries_bounded_witness:
  "\<exists>x w'. poll_with_retry (demo_fabric demo_pg) (''a'', ''w'', ''s'') (demo_world demo_pg []) = (Inr x, w') \<and> fn_error x = None \<and>
     fz_gateway w' = 2 \<and> length (fn_retries x) = 1"
proof -
  let ?fb = "demo_fabric demo_pg" and ?w = "demo_world demo_pg []"
  have "mk_retry_policy 3 1 8 0 = Inr (fb_retry ?fb)" by code_simp
  moreover have "map_of (fz_jobs ?w) (snd (snd (''a'', ''w'', ''s''))) = Some demo_job" by (simp add: demo_world_def)
  moreover have "map_sum (\<lambda>_. ()) (\<lambda>x. (fn_attempts x, fn_error x)) (fst (poll_with_retry ?fb (''a'', ''w'', ''s'') ?w)) = Inr (2, None)"
    by code_simp
  then obtain x w' where run: "poll_with_retry ?fb (''a'', ''w'', ''s'') ?w = (Inr x, w')" "fn_attempts x = 2" "fn_error x = None"
    by (cases "poll_with_retry ?fb (''a'', ''w'', ''s'') ?w") (auto simp: map_sum_def split: sum.splits)
  ultimately have "fz_gateway w' = (poll_step demo_job ^^ 2) (fz_gateway ?w) \<and> length (fn_retries x) = 1"
    using poll_retries_bounded [of 3 1 8 0 ?fb ?w "(''a'', ''w'', ''s'')" demo_job x w'] by simp
  then show ?thesis using run by (auto simp: numeral_2_eq_2 poll_step_def demo_job_def demo_adapter_def demo_world_def)
qed



section \<open>Findings\<close>

text \<open>
  Polling jobs are kept by source id alone, the registry by tenant, workspace and source id: a poll of tenant \<open>b\<close>'s
  source runs the job of tenant \<open>a\<close> and notes its health for \<open>b\<close>.
\<close>

definition demo_two_tenants :: "(pg_registry, nat) fabric_world" where
  "demo_two_tenants =
     (let w = demo_world demo_pg []
      in w\<lparr>fz_registry := control_effect demo_pg 0 (Move SS_ENABLED (''b'', ''w'', ''s''))
                            (control_effect demo_pg 0 (Register (demo_source ''b'')) (fz_registry w))\<rparr>)"

lemma poll_runs_foreign_job:
  "let w' = snd (poll_once (demo_fabric demo_pg) (''b'', ''w'', ''s'') demo_two_tenants)
   in map_option pj_tenant_id (map_of (fz_jobs w') ''s'') = Some ''a'' \<and> fz_gateway w' = 1 \<and>
      row_status pr_status (fz_registry w') (''a'', ''w'', ''s'') = Some SS_ENABLED \<and>
      row_status pr_status (fz_registry w') (''b'', ''w'', ''s'') = Some SS_DEGRADED"
  by code_simp

text \<open>
  The fabric registers the source before its adapter and undoes nothing: with an adapter of that id already there the
  call raises and the source stays registered.
\<close>

lemma failed_registration_stays:
  "let w = demo_world demo_pg [];
       out = fabric_register (demo_fabric demo_pg) (demo_source ''b'') demo_adapter w
   in map_sum id (\<lambda>_. ()) (fst out) = Inl (Exn ValueError ''source adapter already registered: s'') \<and>
      row_status pr_status (fz_registry w) (''b'', ''w'', ''s'') = None \<and>
      row_status pr_status (fz_registry (snd out)) (''b'', ''w'', ''s'') = Some SS_REGISTERED"
  by code_simp

text \<open>
  The SQLite registry sorts the capabilities of a source, the PostgreSQL registry keeps them as given: the same
  registration reads back differently.
\<close>

lemma registries_disagree_on_capabilities:
  "let d = (demo_source ''a'')\<lparr>sd_capabilities := [''write'', ''read'']\<rparr>
   in map_sum id sd_capabilities (fst (control_register demo_lite 0 d [])) = Inr [''read'', ''write''] \<and>
      map_sum id sd_capabilities (fst (control_register demo_pg 0 d [])) = Inr [''write'', ''read'']"
  by code_simp

end
