(* ===== verification/Url_Syntax.thy ===== *)
theory Url_Syntax
  imports OIS_Prelude "HOL-Library.Sublist"
begin

text \<open>
  What the infrastructure uses of \<^verbatim>\<open>urllib.parse\<close>: the parts of a URL and the encoding of a query. The check of a
  bracketed host is an argument.
\<close>

section \<open>URLs\<close>

definition url_lower :: "char \<Rightarrow> char" where
  "url_lower ch = (let n = of_char ch :: nat in if 65 \<le> n \<and> n \<le> 90 then char_of (n + 32) else ch)"

definition scheme_char :: "char \<Rightarrow> bool" where
  "scheme_char ch \<longleftrightarrow> (let n = of_char ch :: nat in
     (97 \<le> n \<and> n \<le> 122) \<or> (65 \<le> n \<and> n \<le> 90) \<or> (48 \<le> n \<and> n \<le> 57) \<or> n \<in> {43, 45, 46})"

definition ascii_letter :: "char \<Rightarrow> bool" where
  "ascii_letter ch \<longleftrightarrow> (let n = of_char ch :: nat in (97 \<le> n \<and> n \<le> 122) \<or> (65 \<le> n \<and> n \<le> 90))"

record url_parts =
  up_scheme :: string
  up_netloc :: string
  up_fragment :: string

text \<open>\<open>urlparse\<close>, as far as the scheme, the network location and the fragment go.\<close>

definition urlparse :: "(string \<Rightarrow> bool) \<Rightarrow> string \<Rightarrow> py_exn + url_parts" where
  "urlparse bracket_ok value =
     (let s = filter (\<lambda>ch. ch \<notin> {CHR 0x09, CHR 0x0A, CHR 0x0D}) (dropWhile (\<lambda>ch. (of_char ch :: nat) \<le> 32) value);
          head = takeWhile (\<lambda>ch. ch \<noteq> CHR '':'') s;
          has_scheme = (head \<noteq> s \<and> head \<noteq> [] \<and> ascii_letter (hd head) \<and> list_all scheme_char head);
          rest = (if has_scheme then drop (Suc (length head)) s else s);
          is_net = prefix ''//'' rest;
          netloc = (if is_net then takeWhile (\<lambda>ch. ch \<notin> {CHR ''/'', CHR ''?'', CHR ''#''}) (drop 2 rest) else []);
          tail = (if is_net then drop (2 + length netloc) rest else rest)
      in if (CHR ''['' \<in> set netloc) \<noteq> (CHR '']'' \<in> set netloc) \<or> CHR ''['' \<in> set netloc \<and> \<not> bracket_ok netloc
         then Inl (Exn ValueError ''Invalid IPv6 URL'')
         else Inr \<lparr>up_scheme = (if has_scheme then map url_lower head else []), up_netloc = netloc,
                   up_fragment = drop 1 (dropWhile (\<lambda>ch. ch \<noteq> CHR ''#'') tail)\<rparr>)"

definition after_last :: "char \<Rightarrow> string \<Rightarrow> string" where
  "after_last ch s = rev (takeWhile (\<lambda>x. x \<noteq> ch) (rev s))"

definition url_hostname :: "url_parts \<Rightarrow> string option" where
  "url_hostname u =
     (let host = after_last (CHR ''@'') (up_netloc u);
          name = (if CHR ''['' \<in> set host
                  then takeWhile (\<lambda>ch. ch \<noteq> CHR '']'') (drop 1 (dropWhile (\<lambda>ch. ch \<noteq> CHR ''['') host))
                  else takeWhile (\<lambda>ch. ch \<noteq> CHR '':'') host)
      in if name = [] then None else Some (map url_lower name))"

text \<open>\<open>urlencode\<close>: \<open>quote_plus\<close> of the UTF-8 bytes (code points up to 255).\<close>

definition hex_char :: "nat \<Rightarrow> char" where
  "hex_char n = char_of (if n < 10 then 48 + n else 55 + n)"

definition quote_byte :: "nat \<Rightarrow> string" where
  "quote_byte n =
     (if (97 \<le> n \<and> n \<le> 122) \<or> (65 \<le> n \<and> n \<le> 90) \<or> (48 \<le> n \<and> n \<le> 57) \<or> n \<in> {95, 46, 45, 126} then [char_of n]
      else if n = 32 then ''+'' else [CHR 0x25, hex_char (n div 16), hex_char (n mod 16)])"

definition quote_plus :: "string \<Rightarrow> string" where
  "quote_plus s = concat (map (\<lambda>ch. let n = of_char ch :: nat in
     if n < 128 then quote_byte n else quote_byte (192 + n div 64) @ quote_byte (128 + n mod 64)) s)"

definition urlencode :: "(string \<times> string) list \<Rightarrow> string" where
  "urlencode form = py_join ''&'' (map (\<lambda>(k, v). quote_plus k @ ''='' @ quote_plus v) form)"

end
