(* ===== verification/OAuth_Provider.thy ===== *)
theory OAuth_Provider
  imports Postgres_Store Source_Fabric Url_Syntax
begin

text \<open>
  \<^verbatim>\<open>ois/infrastructure/oauth2.py\<close>: the configuration, the tokens, the store of states and the provider. The token
  endpoint is the function \<open>oe_post\<close>; random secrets and the clock are read at the tick; the PKCE challenge (SHA-256 and
  Base64), the Base64 of the client credentials and \<open>str\<close> of a value that is not a string are arguments. The texts of overflow errors are abbreviated.
\<close>

section \<open>Configuration\<close>

record oauth_config =
  oc_provider :: string
  oc_authorization_url :: string
  oc_token_url :: string
  oc_client_id :: string
  oc_client_secret :: string
  oc_redirect_uri :: string
  oc_scopes :: "string list"
  oc_authorization_params :: "(string \<times> string) list"
  oc_client_id_param :: string
  oc_client_secret_param :: string
  oc_scope_separator :: string
  oc_response_scope_separator :: string
  oc_token_auth_method :: string
  oc_state_ttl_seconds :: int
  oc_use_pkce :: bool
  oc_pkce_method :: string

definition allowed_token_auth :: "string list" where
  "allowed_token_auth = [''client_secret_post'', ''client_secret_basic'']"

definition config_validate :: "(string \<Rightarrow> bool) \<Rightarrow> oauth_config \<Rightarrow> py_exn + unit" where
  "config_validate bracket_ok c =
     rbind (check (oc_provider c \<noteq> []) ValueError ''OAuth2 provider is required'') (\<lambda>_.
     rbind (check (prefix ''https://'' (oc_authorization_url c)) ValueError ''OAuth2 authorization URL must use HTTPS'') (\<lambda>_.
     rbind (check (prefix ''https://'' (oc_token_url c)) ValueError ''OAuth2 token URL must use HTTPS'') (\<lambda>_.
     rbind (check (oc_client_id c \<noteq> []) ValueError (oc_provider c @ '' OAuth2 client ID is required'')) (\<lambda>_.
     rbind (check (oc_client_secret c \<noteq> []) ValueError (oc_provider c @ '' OAuth2 client secret is required'')) (\<lambda>_.
     rbind (check (oc_redirect_uri c \<noteq> []) ValueError (oc_provider c @ '' OAuth2 redirect URI is required'')) (\<lambda>_.
     rbind (urlparse bracket_ok (oc_redirect_uri c)) (\<lambda>redirect.
     rbind (check (up_fragment redirect = []) ValueError ''OAuth2 redirect URI must not contain a fragment'') (\<lambda>_.
     rbind (check (up_scheme redirect = ''https'' \<or> up_scheme redirect = ''http''
              \<and> url_hostname redirect \<in> {Some ''localhost'', Some ''127.0.0.1'', Some ''::1''})
              ValueError ''OAuth2 redirect URI must use HTTPS outside localhost'') (\<lambda>_.
     rbind (check (oc_token_auth_method c \<in> set allowed_token_auth) ValueError
              (''unsupported OAuth2 token authentication method: '' @ oc_token_auth_method c)) (\<lambda>_.
     rbind (check (oc_state_ttl_seconds c > 0) ValueError ''OAuth2 state TTL must be positive'') (\<lambda>_.
     rbind (check (oc_pkce_method c = ''S256'') ValueError ''OAuth2 PKCE method must be S256'') (\<lambda>_.
     rbind (check (oc_scopes c \<noteq> []) ValueError (oc_provider c @ '' OAuth2 requires at least one scope'')) (\<lambda>_.
     rbind (check (oc_scope_separator c \<noteq> []) ValueError ''OAuth2 request scope separator is required'') (\<lambda>_.
     check (oc_response_scope_separator c \<noteq> []) ValueError ''OAuth2 response scope separator is required''))))))))))))))"

section \<open>Tokens\<close>

record oauth_error =
  oer_provider :: string
  oer_operation :: string
  oer_category :: string
  oer_error_code :: "string option"
  oer_status_code :: "int option"
  oer_retryable :: bool
  oer_message :: string

record oauth_token =
  ot_access_token :: string
  ot_token_type :: string
  ot_expires_in :: "int option"
  ot_refresh_token :: "string option"
  ot_scope :: "string list"
  ot_obtained_at :: "timestamp option"

text \<open>The largest \<open>datetime\<close>, in microseconds.\<close>

definition max_datetime :: timestamp where
  "max_datetime = 253402300799999999"

definition plus_seconds :: "timestamp \<Rightarrow> int \<Rightarrow> py_exn + timestamp" where
  "plus_seconds t s =
     (if s div 86400 > 999999999 then Inl (Exn OverflowError ''days out of range'')
      else if t + 1000000 * s > max_datetime then Inl (Exn OverflowError ''date value out of range'')
      else Inr (t + 1000000 * s))"

definition token_expires_at :: "timestamp \<Rightarrow> oauth_token \<Rightarrow> py_exn + timestamp option" where
  "token_expires_at now k =
     (case ot_expires_in k of
        None \<Rightarrow> Inr None
      | Some s \<Rightarrow> rbind (plus_seconds (case ot_obtained_at k of Some t \<Rightarrow> t | None \<Rightarrow> now) s) (\<lambda>t. Inr (Some t)))"

text \<open>\<open>str(v)\<close>, and \<open>s.split(sep)\<close> of a nonempty separator.\<close>

definition str_of :: "(pyval \<Rightarrow> string) \<Rightarrow> pyval \<Rightarrow> string" where
  "str_of show_value v = (case v of PStr s \<Rightarrow> s | PInt i \<Rightarrow> int_str i | PNone \<Rightarrow> ''None'' | _ \<Rightarrow> show_value v)"

function py_split :: "string \<Rightarrow> string \<Rightarrow> string \<Rightarrow> string list" where
  "py_split sep acc [] = [rev acc]"
| "py_split sep acc (ch # cs) =
     (if sep \<noteq> [] \<and> prefix sep (ch # cs) then rev acc # py_split sep [] (drop (length sep) (ch # cs))
      else py_split sep (ch # acc) cs)"
  by pat_completeness auto

termination
  by (relation "measure (\<lambda>(sep, acc, s). length s)") auto

text \<open>\<open>int(str(v))\<close>: only integers and strings of digits.\<close>

definition int_of_str :: "pyval \<Rightarrow> int option" where
  "int_of_str v = (case v of PInt i \<Rightarrow> Some i | PStr s \<Rightarrow> py_int_of_string s | _ \<Rightarrow> None)"

definition expires_of_payload :: "pydict \<Rightarrow> py_exn + int option" where
  "expires_of_payload payload =
     (case map_of payload ''expires_in'' of
        None \<Rightarrow> Inr None
      | Some PNone \<Rightarrow> Inr None
      | Some v \<Rightarrow>
         (case int_of_str v of
            None \<Rightarrow> Inl (Exn ValueError ''OAuth2 expires_in must be an integer'')
          | Some n \<Rightarrow> if n < 0 then Inl (Exn ValueError ''OAuth2 expires_in cannot be negative'') else Inr (Some n)))"

definition token_of_payload ::
  "(pyval \<Rightarrow> string) \<Rightarrow> timestamp \<Rightarrow> string option \<Rightarrow> string \<Rightarrow> pydict \<Rightarrow> py_exn + oauth_token" where
  "token_of_payload show_value now refresh sep payload =
     (case map_of payload ''access_token'' of
        Some (PStr access) \<Rightarrow>
          if access = [] then Inl (Exn ValueError ''OAuth2 token response is missing access_token'')
          else
            rbind (expires_of_payload payload) (\<lambda>expires.
            let scope_value = (case map_of payload ''scope'' of None \<Rightarrow> PStr [] | Some v \<Rightarrow> v);
                scopes = (if py_truthy scope_value then py_split sep [] (str_of show_value scope_value) else []);
                returned = (case map_of payload ''refresh_token'' of None \<Rightarrow> PNone | Some v \<Rightarrow> v);
                token_type = (case map_of payload ''token_type'' of None \<Rightarrow> ''Bearer'' | Some v \<Rightarrow> str_of show_value v)
            in if token_type = [] then Inl (Exn ValueError ''OAuth2 token_type cannot be empty'')
               else Inr \<lparr>ot_access_token = access, ot_token_type = token_type, ot_expires_in = expires,
                         ot_refresh_token = (if py_truthy returned then Some (str_of show_value returned) else refresh),
                         ot_scope = filter (\<lambda>s. s \<noteq> []) scopes, ot_obtained_at = Some now\<rparr>)
      | _ \<Rightarrow> Inl (Exn ValueError ''OAuth2 token response is missing access_token''))"

section \<open>States\<close>

record oauth_state =
  os_provider :: string
  os_tenant_id :: string
  os_workspace_id :: string
  os_expires_at :: timestamp

type_synonym state_store = "(string \<times> oauth_state) list"

definition state_put :: "string \<Rightarrow> oauth_state \<Rightarrow> state_store \<Rightarrow> state_store" where
  "state_put s v t = AList.update s v t"

definition state_consume :: "timestamp \<Rightarrow> string \<Rightarrow> string \<Rightarrow> string \<Rightarrow> string \<Rightarrow> state_store \<Rightarrow> bool \<times> state_store" where
  "state_consume now s provider tenant workspace t =
     (case map_of t s of
        None \<Rightarrow> (False, t)
      | Some v \<Rightarrow>
          if os_expires_at v \<le> now then (False, AList.delete s t)
          else if os_provider v \<noteq> provider \<or> os_tenant_id v \<noteq> tenant \<or> os_workspace_id v \<noteq> workspace then (False, t)
          else (True, AList.delete s t))"

section \<open>The provider\<close>

record token_http =
  th_url :: string
  th_data :: string
  th_authorization :: "string option"

text \<open>
  What comes of the call of the endpoint and the reading of its body: a JSON value; a \<open>JSONDecodeError\<close>,
  \<open>UnicodeDecodeError\<close> or \<open>TypeError\<close>; an \<open>HTTPError\<close> with its code, its reason and its body; a \<open>URLError\<close>,
  \<open>TimeoutError\<close> or \<open>OSError\<close>; or any other exception, of the call or of the reading of either body, such as the
  \<open>BadStatusLine\<close> and \<open>IncompleteRead\<close> of \<^verbatim>\<open>http.client\<close>, which no handler catches.
\<close>

datatype token_reply =
    Reply_JSON pyval
  | Reply_Unreadable
  | Reply_Status int string "pyval option"
  | Reply_Transport string
  | Reply_Uncaught py_exn

record oauth_env =
  oe_now :: "nat \<Rightarrow> timestamp"
  oe_secret :: "nat \<Rightarrow> string"
  oe_challenge :: "string \<Rightarrow> string"
  oe_b64 :: "string \<Rightarrow> string"
  oe_show :: "pyval \<Rightarrow> string"
  oe_post :: "nat \<Rightarrow> token_http \<Rightarrow> token_reply"

record oauth_provider =
  ow_tick :: nat
  ow_config :: oauth_config
  ow_states :: state_store
  ow_verifiers :: "(string \<times> string) list"

type_synonym 'a oam = "(oauth_provider, 'a) em"

definition mk_oauth_provider :: "(string \<Rightarrow> bool) \<Rightarrow> oauth_config \<Rightarrow> py_exn + oauth_provider" where
  "mk_oauth_provider bracket_ok c =
     rbind (config_validate bracket_ok c) (\<lambda>_. Inr \<lparr>ow_tick = 0, ow_config = c, ow_states = [], ow_verifiers = []\<rparr>)"

definition ow_read :: "(nat \<Rightarrow> 'a) \<Rightarrow> 'a oam" where
  "ow_read f = (\<lambda>w. (Inr (f (ow_tick w)), w\<lparr>ow_tick := Suc (ow_tick w)\<rparr>))"

definition authorization_params :: "oauth_env \<Rightarrow> oauth_config \<Rightarrow> string \<Rightarrow> string option \<Rightarrow> (string \<times> string) list" where
  "authorization_params env c state verifier =
     (let params = fold (\<lambda>(k, v). AList.update k v)
            [(''redirect_uri'', oc_redirect_uri c), (''response_type'', ''code''),
             (''scope'', py_join (oc_scope_separator c) (oc_scopes c)), (''state'', state)]
            [(oc_client_id_param c, oc_client_id c)];
          pkce = (case verifier of
                    None \<Rightarrow> params
                  | Some v \<Rightarrow> AList.update ''code_challenge_method'' (oc_pkce_method c)
                              (AList.update ''code_challenge'' (oe_challenge env v) params))
      in fold (\<lambda>(k, v). AList.update k v) (oc_authorization_params c) pkce)"

definition authorization_url :: "oauth_env \<Rightarrow> string \<Rightarrow> string \<Rightarrow> string option \<Rightarrow> (string \<times> string) oam" where
  "authorization_url env tenant workspace given =
     ebind (eget ow_config) (\<lambda>c.
     ebind (case given of Some s \<Rightarrow> if s = [] then ow_read (oe_secret env) else eret s | None \<Rightarrow> ow_read (oe_secret env)) (\<lambda>state.
     ebind (ow_read (oe_now env)) (\<lambda>now.
     ebind (elift (plus_seconds now (oc_state_ttl_seconds c))) (\<lambda>expires.
     eseq (emod (\<lambda>w. w\<lparr>ow_states := state_put state \<lparr>os_provider = oc_provider c, os_tenant_id = tenant,
             os_workspace_id = workspace, os_expires_at = expires\<rparr> (ow_states w)\<rparr>))
     (ebind (if \<not> oc_use_pkce c then eret None
             else ebind (ow_read (oe_secret env)) (\<lambda>v.
                  eseq (emod (\<lambda>w. w\<lparr>ow_verifiers := AList.update state v (ow_verifiers w)\<rparr>)) (eret (Some v)))) (\<lambda>verifier.
      eret (oc_authorization_url c @ ''?'' @ urlencode (authorization_params env c state verifier), state)))))))"

definition validate_state :: "oauth_env \<Rightarrow> string \<Rightarrow> string \<Rightarrow> string \<Rightarrow> unit oam" where
  "validate_state env state tenant workspace =
     ebind (eget ow_config) (\<lambda>c.
     ebind (ow_read (oe_now env)) (\<lambda>now w.
       case state_consume now state (oc_provider c) tenant workspace (ow_states w) of
         (ok, t) \<Rightarrow> (if ok then Inr () else Inl (Exn PermissionError ''invalid or replayed OAuth2 state''), w\<lparr>ow_states := t\<rparr>)))"

subsection \<open>The token endpoint\<close>

definition error_payload :: "pyval option \<Rightarrow> pydict" where
  "error_payload body = (case body of Some (PDict d) \<Rightarrow> d | _ \<Rightarrow> [])"

definition error_code :: "(pyval \<Rightarrow> string) \<Rightarrow> pydict \<Rightarrow> string option" where
  "error_code show_value d =
     (case map_of d ''error'' of None \<Rightarrow> None | Some v \<Rightarrow> if py_truthy v then Some (str_of show_value v) else None)"

fun first_truthy :: "(pyval \<Rightarrow> string) \<Rightarrow> pydict \<Rightarrow> string list \<Rightarrow> string option" where
  "first_truthy show_value d [] = None"
| "first_truthy show_value d (k # ks) =
     (case map_of d k of
        None \<Rightarrow> first_truthy show_value d ks
      | Some v \<Rightarrow> if py_truthy v then Some (str_of show_value v) else first_truthy show_value d ks)"

definition error_description :: "(pyval \<Rightarrow> string) \<Rightarrow> pydict \<Rightarrow> string option" where
  "error_description show_value d = first_truthy show_value d [''error_description'', ''message'', ''error'']"

definition oauth_failure :: "oauth_config \<Rightarrow> string \<Rightarrow> string \<Rightarrow> string \<Rightarrow> bool \<Rightarrow> oauth_error" where
  "oauth_failure c operation category message retryable =
     \<lparr>oer_provider = oc_provider c, oer_operation = operation, oer_category = category, oer_error_code = None,
      oer_status_code = None, oer_retryable = retryable, oer_message = message\<rparr>"

definition token_request_http :: "oauth_env \<Rightarrow> oauth_config \<Rightarrow> (string \<times> string) list \<Rightarrow> token_http" where
  "token_request_http env c form =
     \<lparr>th_url = oc_token_url c, th_data = urlencode form,
      th_authorization = (if oc_token_auth_method c = ''client_secret_basic''
        then Some (''Basic '' @ oe_b64 env (oc_client_id c @ '':'' @ oc_client_secret c)) else None)\<rparr>"

text \<open>What a reply of the endpoint amounts to, for the request \<open>operation\<close> at the time \<open>now\<close>.\<close>

definition token_outcome ::
  "oauth_env \<Rightarrow> oauth_config \<Rightarrow> string \<Rightarrow> string option \<Rightarrow> timestamp \<Rightarrow> token_reply \<Rightarrow> (py_exn + oauth_error) + oauth_token" where
  "token_outcome env c operation refresh now reply =
     (case reply of
        Reply_Status code reason body \<Rightarrow>
          let payload = error_payload body
          in Inl (Inr \<lparr>oer_provider = oc_provider c, oer_operation = operation,
                  oer_category = (if code < 500 \<and> code \<noteq> 429 then ''provider_rejected'' else ''provider_unavailable''),
                  oer_error_code = error_code (oe_show env) payload, oer_status_code = Some code,
                  oer_retryable = (code \<ge> 500 \<or> code = 429),
                  oer_message = (case error_description (oe_show env) payload of
                                   Some d \<Rightarrow> if d = [] then reason else d | None \<Rightarrow> reason)\<rparr>)
      | Reply_Transport message \<Rightarrow> Inl (Inr (oauth_failure c operation ''transport'' message True))
      | Reply_Unreadable \<Rightarrow>
          Inl (Inr (oauth_failure c operation ''invalid_response'' ''OAuth2 token endpoint returned an invalid JSON response'' True))
      | Reply_JSON (PDict payload) \<Rightarrow>
          (case token_of_payload (oe_show env) now refresh (oc_response_scope_separator c) payload of
             Inr k \<Rightarrow> Inr k
           | Inl e \<Rightarrow> Inl (Inr (oauth_failure c operation ''invalid_response'' (exn_str e) False)))
      | Reply_JSON _ \<Rightarrow>
          Inl (Inr (oauth_failure c operation ''invalid_response'' (oc_provider c @ '' OAuth2 token response is invalid'') True))
      | Reply_Uncaught e \<Rightarrow> Inl (Inl e))"

definition raise_oauth :: "(py_exn + oauth_error) + oauth_token \<Rightarrow> py_exn + oauth_token" where
  "raise_oauth r = (case r of
     Inr k \<Rightarrow> Inr k
   | Inl (Inr e) \<Rightarrow> Inl (Exn (OtherException ''OAuth2Error'') (oer_message e))
   | Inl (Inl e) \<Rightarrow> Inl e)"

definition token_request :: "oauth_env \<Rightarrow> (string \<times> string) list \<Rightarrow> string \<Rightarrow> string option \<Rightarrow> oauth_token oam" where
  "token_request env form operation refresh =
     ebind (eget ow_config) (\<lambda>c.
     ebind (ow_read (\<lambda>n. oe_post env n (token_request_http env c form))) (\<lambda>reply.
     ebind (ow_read (oe_now env)) (\<lambda>now.
     elift (raise_oauth (token_outcome env c operation refresh now reply)))))"

definition with_client_secret :: "oauth_config \<Rightarrow> (string \<times> string) list \<Rightarrow> (string \<times> string) list" where
  "with_client_secret c form =
     (if oc_token_auth_method c = ''client_secret_post'' then AList.update (oc_client_secret_param c) (oc_client_secret c) form
      else form)"

text \<open>\<open>code_verifier or (self._pkce_verifiers.pop(state, None) if state else None)\<close>.\<close>

definition take_verifier :: "string option \<Rightarrow> string option \<Rightarrow> string option oam" where
  "take_verifier state given = (\<lambda>w.
     if given \<noteq> None \<and> given \<noteq> Some [] then (Inr given, w)
     else if state = None \<or> state = Some [] then (Inr None, w)
     else (Inr (map_of (ow_verifiers w) (the state)), w\<lparr>ow_verifiers := AList.delete (the state) (ow_verifiers w)\<rparr>))"

definition exchange_code :: "oauth_env \<Rightarrow> string \<Rightarrow> string option \<Rightarrow> string option \<Rightarrow> oauth_token oam" where
  "exchange_code env code state given =
     (if code = [] then eraise (Exn ValueError ''OAuth2 authorization code is required'')
      else ebind (eget ow_config) (\<lambda>c.
        ebind (take_verifier state given) (\<lambda>verifier.
        if oc_use_pkce c \<and> (verifier = None \<or> verifier = Some []) then eraise (Exn ValueError ''PKCE code_verifier is required'')
        else
          let form = fold (\<lambda>(k, v). AList.update k v)
                 [(''code'', code), (''grant_type'', ''authorization_code''), (''redirect_uri'', oc_redirect_uri c)]
                 [(oc_client_id_param c, oc_client_id c)];
              form = (case verifier of None \<Rightarrow> form | Some v \<Rightarrow> if v = [] then form else AList.update ''code_verifier'' v form)
          in token_request env (with_client_secret c form) ''authorization_code'' None)))"

definition oauth_refresh :: "oauth_env \<Rightarrow> string \<Rightarrow> oauth_token oam" where
  "oauth_refresh env refresh =
     (if refresh = [] then eraise (Exn ValueError ''OAuth2 refresh token is required'')
      else ebind (eget ow_config) (\<lambda>c.
        let form = fold (\<lambda>(k, v). AList.update k v)
               [(''grant_type'', ''refresh_token''), (''refresh_token'', refresh)] [(oc_client_id_param c, oc_client_id c)]
        in token_request env (with_client_secret c form) ''refresh_token'' (Some refresh)))"

end
