(* ===== verification/OAuth_Connection.thy ===== *)
theory OAuth_Connection
  imports OAuth_Provider
begin

text \<open>
  \<^verbatim>\<open>ois/infrastructure/oauth2_connection.py\<close> and \<^verbatim>\<open>oauth2_registry.py\<close>: credential records, their two stores, the
  registry of providers and the connection that binds them to the socket; and \<^verbatim>\<open>secret_rotation.py\<close>. A secret manager
  is a protocol without an implementation in the repository: its two operations are arguments.
\<close>

section \<open>Credential records\<close>

record oauth_credential =
  ocr_credential_id :: string
  ocr_tenant_id :: string
  ocr_workspace_id :: string
  ocr_provider :: string
  ocr_access_token :: string
  ocr_refresh_token :: "string option"
  ocr_token_type :: string
  ocr_scopes :: "string list"
  ocr_obtained_at :: "timestamp option"
  ocr_expires_at :: "timestamp option"

definition record_ref :: "oauth_credential \<Rightarrow> credential_ref" where
  "record_ref r = \<lparr>cd_credential_id = ocr_credential_id r, cd_tenant_id = ocr_tenant_id r, cd_provider = ocr_provider r,
                   cd_scopes = ocr_scopes r, cd_expires_at = None\<rparr>"

definition is_expired :: "timestamp \<Rightarrow> int \<Rightarrow> oauth_credential \<Rightarrow> bool" where
  "is_expired now skew r = (case ocr_expires_at r of None \<Rightarrow> False | Some t \<Rightarrow> t \<le> now + 1000000 * skew)"

text \<open>\<open>provider == record.provider or provider.startswith(f"{record.provider}.")\<close>.\<close>

definition provider_matches :: "string \<Rightarrow> string \<Rightarrow> bool" where
  "provider_matches provider own \<longleftrightarrow> provider = own \<or> prefix (own @ ''.'') provider"

definition in_scope :: "string \<Rightarrow> string \<Rightarrow> string \<Rightarrow> oauth_credential \<Rightarrow> bool" where
  "in_scope tenant workspace provider r \<longleftrightarrow>
     ocr_tenant_id r = tenant \<and> ocr_workspace_id r = workspace \<and> provider_matches provider (ocr_provider r)"

definition out_of_scope :: py_exn where
  "out_of_scope = Exn PermissionError ''OAuth credential is outside its tenant/workspace/provider scope''"

definition not_found :: "string \<Rightarrow> py_exn" where
  "not_found cid = Exn KeyError (''OAuth credential not found: '' @ cid)"

record 'c credential_ops =
  co_save :: "oauth_credential \<Rightarrow> 'c \<Rightarrow> (py_exn + unit) \<times> 'c"
  co_get :: "string \<Rightarrow> string \<Rightarrow> string \<Rightarrow> string \<Rightarrow> 'c \<Rightarrow> py_exn + oauth_credential"

definition co_resolve :: "'c credential_ops \<Rightarrow> 'c \<Rightarrow> credential_resolver" where
  "co_resolve ops c r s =
     rbind (co_get ops (cd_credential_id r) (ts_tenant_id s) (ts_workspace_id s) (cd_provider r) c) (\<lambda>x. Inr (ocr_access_token x))"

section \<open>The in-memory store\<close>

type_synonym memory_credentials = "(string \<times> oauth_credential) list"

definition memory_save :: "oauth_credential \<Rightarrow> memory_credentials \<Rightarrow> (py_exn + unit) \<times> memory_credentials" where
  "memory_save r t = (Inr (), AList.update (ocr_credential_id r) r t)"

definition memory_get :: "string \<Rightarrow> string \<Rightarrow> string \<Rightarrow> string \<Rightarrow> memory_credentials \<Rightarrow> py_exn + oauth_credential" where
  "memory_get cid tenant workspace provider t =
     (case map_of t cid of
        None \<Rightarrow> Inl (not_found cid)
      | Some r \<Rightarrow> if in_scope tenant workspace provider r then Inr r else Inl out_of_scope)"

definition memory_credential_ops :: "memory_credentials credential_ops" where
  "memory_credential_ops = \<lparr>co_save = memory_save, co_get = memory_get\<rparr>"

section \<open>The secret manager store\<close>

record 'b secret_backend =
  sb_read :: "string \<Rightarrow> 'b \<Rightarrow> py_exn + pydict option"
  sb_write :: "string \<Rightarrow> pydict \<Rightarrow> 'b \<Rightarrow> (py_exn + unit) \<times> 'b"

definition mk_secret_store :: "string \<Rightarrow> py_exn + string" where
  "mk_secret_store key_prefix =
     (if key_prefix = [] \<or> last key_prefix = CHR ''/''
      then Inl (Exn ValueError (''key_prefix must be non-empty and must not end with '' @ py_repr_str ''/'')) else Inr key_prefix)"

definition secret_key :: "string \<Rightarrow> string \<Rightarrow> py_exn + string" where
  "secret_key pre cid =
     (if cid = [] \<or> CHR ''/'' \<in> set cid then Inl (Exn ValueError ''credential_id must be non-empty and path-safe'')
      else Inr (pre @ ''/'' @ cid))"

definition opt_value :: "('a \<Rightarrow> pyval) \<Rightarrow> 'a option \<Rightarrow> pyval" where
  "opt_value f x = (case x of None \<Rightarrow> PNone | Some v \<Rightarrow> f v)"

definition serialize :: "source_codec \<Rightarrow> oauth_credential \<Rightarrow> pydict" where
  "serialize sc r =
     [(''credential_id'', PStr (ocr_credential_id r)), (''tenant_id'', PStr (ocr_tenant_id r)),
      (''workspace_id'', PStr (ocr_workspace_id r)), (''provider'', PStr (ocr_provider r)),
      (''access_token'', PStr (ocr_access_token r)), (''refresh_token'', opt_value PStr (ocr_refresh_token r)),
      (''token_type'', PStr (ocr_token_type r)), (''scopes'', PList (map PStr (ocr_scopes r))),
      (''obtained_at'', opt_value (\<lambda>t. PStr (sc_iso sc t)) (ocr_obtained_at r)),
      (''expires_at'', opt_value (\<lambda>t. PStr (sc_iso sc t)) (ocr_expires_at r))]"

definition required_fields :: "string list" where
  "required_fields = [''credential_id'', ''tenant_id'', ''workspace_id'', ''provider'', ''access_token'', ''token_type'', ''scopes'']"

definition value_of :: "pydict \<Rightarrow> string \<Rightarrow> pyval" where
  "value_of d k = (case map_of d k of None \<Rightarrow> PNone | Some v \<Rightarrow> v)"

definition string_list :: "pyval \<Rightarrow> string list option" where
  "string_list v =
     (case v of
        PList xs \<Rightarrow> if list_all (\<lambda>x. case x of PStr _ \<Rightarrow> True | _ \<Rightarrow> False) xs
                    then Some (map (\<lambda>x. case x of PStr s \<Rightarrow> s | _ \<Rightarrow> []) xs) else None
      | _ \<Rightarrow> None)"

definition optional_time :: "source_codec \<Rightarrow> (pyval \<Rightarrow> string) \<Rightarrow> pyval \<Rightarrow> py_exn + timestamp option" where
  "optional_time sc show_value v =
     (if \<not> py_truthy v then Inr None
      else case sc_fromiso sc (str_of show_value v) of
             None \<Rightarrow> Inl (Exn ValueError ''Invalid isoformat string'')
           | Some t \<Rightarrow> Inr (Some t))"

definition deserialize :: "source_codec \<Rightarrow> (pyval \<Rightarrow> string) \<Rightarrow> pydict \<Rightarrow> py_exn + oauth_credential" where
  "deserialize sc show_value d =
     (if list_ex (\<lambda>k. \<not> py_truthy (value_of d k)) required_fields
      then Inl (Exn ValueError ''OAuth secret backend returned an incomplete credential record'')
      else case string_list (value_of d ''scopes'') of
        None \<Rightarrow> Inl (Exn ValueError ''OAuth secret backend returned invalid scopes'')
      | Some scopes \<Rightarrow>
          rbind (optional_time sc show_value (value_of d ''obtained_at'')) (\<lambda>obtained.
          rbind (optional_time sc show_value (value_of d ''expires_at'')) (\<lambda>expires.
          let text = (\<lambda>k. str_of show_value (value_of d k))
          in Inr \<lparr>ocr_credential_id = text ''credential_id'', ocr_tenant_id = text ''tenant_id'',
               ocr_workspace_id = text ''workspace_id'', ocr_provider = text ''provider'', ocr_access_token = text ''access_token'',
               ocr_refresh_token = (if py_truthy (value_of d ''refresh_token'') then Some (text ''refresh_token'') else None),
               ocr_token_type = text ''token_type'', ocr_scopes = scopes, ocr_obtained_at = obtained, ocr_expires_at = expires\<rparr>)))"

record secret_store =
  sm_prefix :: string
  sm_codec :: source_codec
  sm_show :: "pyval \<Rightarrow> string"

definition secret_save :: "secret_store \<Rightarrow> 'b secret_backend \<Rightarrow> oauth_credential \<Rightarrow> 'b \<Rightarrow> (py_exn + unit) \<times> 'b" where
  "secret_save sm sb r t =
     (case secret_key (sm_prefix sm) (ocr_credential_id r) of
        Inl e \<Rightarrow> (Inl e, t)
      | Inr k \<Rightarrow> sb_write sb k (serialize (sm_codec sm) r) t)"

definition secret_get ::
  "secret_store \<Rightarrow> 'b secret_backend \<Rightarrow> string \<Rightarrow> string \<Rightarrow> string \<Rightarrow> string \<Rightarrow> 'b \<Rightarrow> py_exn + oauth_credential" where
  "secret_get sm sb cid tenant workspace provider t =
     rbind (secret_key (sm_prefix sm) cid) (\<lambda>k.
     rbind (sb_read sb k t) (\<lambda>found.
     case found of
       None \<Rightarrow> Inl (not_found cid)
     | Some d \<Rightarrow>
         rbind (deserialize (sm_codec sm) (sm_show sm) d) (\<lambda>r.
         if ocr_credential_id r = cid \<and> in_scope tenant workspace provider r then Inr r else Inl out_of_scope)))"

definition secret_credential_ops :: "secret_store \<Rightarrow> 'b secret_backend \<Rightarrow> 'b credential_ops" where
  "secret_credential_ops sm sb = \<lparr>co_save = secret_save sm sb, co_get = secret_get sm sb\<rparr>"

section \<open>The registry of providers\<close>

definition oauth_registry_register :: "oauth_provider \<Rightarrow> (string \<times> oauth_provider) list \<Rightarrow> py_exn + (string \<times> oauth_provider) list" where
  "oauth_registry_register p t =
     (let name = oc_provider (ow_config p)
      in if map_of t name \<noteq> None then Inl (Exn ValueError (''OAuth2 provider already registered: '' @ name))
         else Inr (AList.update name p t))"

definition oauth_registry_get :: "string \<Rightarrow> (string \<times> oauth_provider) list \<Rightarrow> py_exn + oauth_provider" where
  "oauth_registry_get name t =
     (case map_of t name of None \<Rightarrow> Inl (Exn KeyError (''OAuth2 provider not registered: '' @ name)) | Some p \<Rightarrow> Inr p)"

definition oauth_registry_names :: "(string \<times> oauth_provider) list \<Rightarrow> string list" where
  "oauth_registry_names t = sort (map fst t)"

section \<open>The connection\<close>

record ('c, 't, 'g) oauth_connection =
  oq_env :: oauth_env
  oq_ops :: "'c credential_ops"
  oq_skew :: int
  oq_fabric :: "('t, 'g) source_fabric"

definition mk_oauth_connection :: "('c, 't, 'g) oauth_connection \<Rightarrow> py_exn + ('c, 't, 'g) oauth_connection" where
  "mk_oauth_connection q = (if oq_skew q < 0 then Inl (Exn ValueError ''refresh_skew_seconds cannot be negative'') else Inr q)"

record ('c, 't, 'g) oauth_world =
  cn_tick :: nat
  cn_providers :: "(string \<times> oauth_provider) list"
  cn_credentials :: 'c
  cn_socket :: "('t, 'g) fabric_world"

type_synonym ('c, 't, 'g, 'a) ocm = "(('c, 't, 'g) oauth_world, 'a) em"

definition cn_read :: "(nat \<Rightarrow> 'a) \<Rightarrow> ('c, 't, 'g, 'a) ocm" where
  "cn_read f = (\<lambda>w. (Inr (f (cn_tick w)), w\<lparr>cn_tick := Suc (cn_tick w)\<rparr>))"

text \<open>A call of a method of \<open>self._provider(name)\<close>; the providers read the same clock.\<close>

definition on_provider :: "string \<Rightarrow> 'a oam \<Rightarrow> ('c, 't, 'g, 'a) ocm" where
  "on_provider name m = (\<lambda>w.
     case map_of (cn_providers w) name of
       None \<Rightarrow> (Inl (Exn KeyError (''OAuth provider not configured: '' @ name)), w)
     | Some p \<Rightarrow>
         (case m (p\<lparr>ow_tick := cn_tick w\<rparr>) of
            (r, p') \<Rightarrow> (r, w\<lparr>cn_tick := ow_tick p', cn_providers := AList.update name p' (cn_providers w)\<rparr>)))"

definition on_socket :: "('t, 'g, 'a) fm \<Rightarrow> ('c, 't, 'g, 'a) ocm" where
  "on_socket m = (\<lambda>w. case m (cn_socket w) of (r, s) \<Rightarrow> (r, w\<lparr>cn_socket := s\<rparr>))"

definition get_credential :: "('c, 't, 'g) oauth_connection \<Rightarrow> string \<Rightarrow> string \<Rightarrow> string \<Rightarrow> string \<Rightarrow> ('c, 't, 'g, oauth_credential) ocm" where
  "get_credential q cid tenant workspace provider =
     ebind (eget (\<lambda>w. co_get (oq_ops q) cid tenant workspace provider (cn_credentials w))) elift"

definition save_credential :: "('c, 't, 'g) oauth_connection \<Rightarrow> oauth_credential \<Rightarrow> ('c, 't, 'g, unit) ocm" where
  "save_credential q r = (\<lambda>w. case co_save (oq_ops q) r (cn_credentials w) of (x, t) \<Rightarrow> (x, w\<lparr>cn_credentials := t\<rparr>))"

definition oauth_begin :: "('c, 't, 'g) oauth_connection \<Rightarrow> string \<Rightarrow> string \<Rightarrow> string \<Rightarrow> ('c, 't, 'g, string \<times> string) ocm" where
  "oauth_begin q provider tenant workspace = on_provider provider (authorization_url (oq_env q) tenant workspace None)"

definition mk_record ::
  "oauth_env \<Rightarrow> string \<Rightarrow> string \<Rightarrow> string \<Rightarrow> string \<Rightarrow> oauth_token \<Rightarrow> string list \<Rightarrow> string option \<Rightarrow> ('c, 't, 'g, oauth_credential) ocm" where
  "mk_record env cid tenant workspace provider k scopes refresh =
     ebind (cn_read (oe_now env)) (\<lambda>now.
     ebind (elift (token_expires_at now k)) (\<lambda>expires.
     eret \<lparr>ocr_credential_id = cid, ocr_tenant_id = tenant, ocr_workspace_id = workspace, ocr_provider = provider,
           ocr_access_token = ot_access_token k,
           ocr_refresh_token = (case ot_refresh_token k of Some s \<Rightarrow> if s = [] then refresh else Some s | None \<Rightarrow> refresh),
           ocr_token_type = ot_token_type k, ocr_scopes = (if ot_scope k = [] then scopes else ot_scope k),
           ocr_obtained_at = ot_obtained_at k, ocr_expires_at = expires\<rparr>))"

definition oauth_complete ::
  "('c, 't, 'g) oauth_connection \<Rightarrow> string \<Rightarrow> string \<Rightarrow> string \<Rightarrow> string \<Rightarrow> string \<Rightarrow> string \<Rightarrow> ('c, 't, 'g, credential_ref) ocm" where
  "oauth_complete q provider tenant workspace state code cid =
     (if cid = [] then eraise (Exn ValueError ''credential_id is required'')
      else
        eseq (on_provider provider (validate_state (oq_env q) state tenant workspace))
        (ebind (on_provider provider (exchange_code (oq_env q) code None None)) (\<lambda>token.
         ebind (mk_record (oq_env q) cid tenant workspace provider token [] None) (\<lambda>r.
         eseq (save_credential q r) (eret (record_ref r))))))"

definition refresh_record :: "('c, 't, 'g) oauth_connection \<Rightarrow> oauth_credential \<Rightarrow> ('c, 't, 'g, oauth_credential) ocm" where
  "refresh_record q current =
     (case ocr_refresh_token current of
        None \<Rightarrow> eraise (Exn ValueError ''OAuth credential has no refresh token'')
      | Some refresh \<Rightarrow>
          if refresh = [] then eraise (Exn ValueError ''OAuth credential has no refresh token'')
          else ebind (on_provider (ocr_provider current) (oauth_refresh (oq_env q) refresh)) (\<lambda>token.
               ebind (mk_record (oq_env q) (ocr_credential_id current) (ocr_tenant_id current) (ocr_workspace_id current)
                        (ocr_provider current) token (ocr_scopes current) (Some refresh)) (\<lambda>updated.
               eseq (save_credential q updated) (eret updated))))"

definition connection_refresh ::
  "('c, 't, 'g) oauth_connection \<Rightarrow> string \<Rightarrow> string \<Rightarrow> string \<Rightarrow> string \<Rightarrow> ('c, 't, 'g, credential_ref) ocm" where
  "connection_refresh q provider tenant workspace cid =
     ebind (get_credential q cid tenant workspace provider) (\<lambda>current.
     ebind (refresh_record q current) (\<lambda>updated. eret (record_ref updated)))"

definition connection_ingest ::
  "('c, 't, 'g) oauth_connection \<Rightarrow> string \<Rightarrow> string \<Rightarrow> string \<Rightarrow> string \<Rightarrow> string \<Rightarrow> ('c, 't, 'g, adapter_result) ocm" where
  "connection_ingest q provider source_id tenant workspace cid =
     ebind (get_credential q cid tenant workspace provider) (\<lambda>found.
     ebind (cn_read (oe_now (oq_env q))) (\<lambda>now.
     ebind (if is_expired now (oq_skew q) found then refresh_record q found else eret found) (\<lambda>current.
     on_socket (socket_ingest (oq_fabric q) (ocr_tenant_id current, ocr_workspace_id current, source_id)
                  (Some (ocr_credential_id current))))))"

section \<open>Rotation of secrets\<close>

definition rotation_due :: "int \<Rightarrow> timestamp \<Rightarrow> timestamp \<Rightarrow> bool" where
  "rotation_due max_age_days created now \<longleftrightarrow> now \<ge> created + 86400000000 * max_age_days"

definition rotate_if_due :: "(string \<Rightarrow> ('s, 'r) em) \<Rightarrow> int \<Rightarrow> string \<Rightarrow> timestamp \<Rightarrow> timestamp \<Rightarrow> ('s, 'r option) em" where
  "rotate_if_due do_rotate max_age_days cid created now =
     (if rotation_due max_age_days created now then ebind (do_rotate cid) (\<lambda>r. eret (Some r)) else eret None)"

end
