(* ===== verification/OAuth_Properties.thy ===== *)
theory OAuth_Properties
  imports OAuth_Connection
begin

text \<open>
  Properties of the OAuth boundary: a state is used once and in its scope, a credential stays with its tenant through
  refreshes and ingestions over either credential store, token failures are classified, and what the secret manager
  store can read back.
\<close>

section \<open>States\<close>

datatype oauth_call =
    Authorize string string "string option"
  | Validate string string string
  | Exchange string "string option" "string option"
  | Refresh string

datatype oauth_event =
    Issued string string string timestamp
  | Validated string string string timestamp

definition issue_event :: "string \<Rightarrow> oauth_state \<Rightarrow> oauth_event" where
  "issue_event s v = Issued s (os_tenant_id v) (os_workspace_id v) (os_expires_at v)"

fun oauth_step :: "oauth_env \<Rightarrow> oauth_call \<Rightarrow> oauth_provider \<Rightarrow> oauth_event list \<times> oauth_provider" where
  "oauth_step env (Authorize t ws given) p =
     (case authorization_url env t ws given p of
        (Inr (_, s), p') \<Rightarrow> ((case map_of (ow_states p') s of Some v \<Rightarrow> [Issued s t ws (os_expires_at v)] | None \<Rightarrow> []), p')
      | (Inl _, p') \<Rightarrow> ([], p'))"
| "oauth_step env (Validate s t ws) p =
     (case validate_state env s t ws p of
        (Inr _, p') \<Rightarrow> ([Validated s t ws (oe_now env (ow_tick p))], p') | (Inl _, p') \<Rightarrow> ([], p'))"
| "oauth_step env (Exchange code state given) p = ([], snd (exchange_code env code state given p))"
| "oauth_step env (Refresh k) p = ([], snd (oauth_refresh env k p))"

fun oauth_trace :: "oauth_env \<Rightarrow> oauth_call list \<Rightarrow> oauth_provider \<Rightarrow> oauth_event list \<times> oauth_provider" where
  "oauth_trace env [] p = ([], p)"
| "oauth_trace env (c # cs) p =
     (case oauth_step env c p of (ev, p') \<Rightarrow> (case oauth_trace env cs p' of (evs, p'') \<Rightarrow> (ev @ evs, p'')))"

definition issues :: "string \<Rightarrow> string \<Rightarrow> string \<Rightarrow> oauth_event list \<Rightarrow> nat" where
  "issues s t ws ev = length (filter (\<lambda>e. \<exists>x. e = Issued s t ws x) ev)"

definition validations :: "string \<Rightarrow> string \<Rightarrow> string \<Rightarrow> oauth_event list \<Rightarrow> nat" where
  "validations s t ws ev = length (filter (\<lambda>e. \<exists>x. e = Validated s t ws x) ev)"

definition pending_state :: "string \<Rightarrow> string \<Rightarrow> string \<Rightarrow> oauth_provider \<Rightarrow> nat" where
  "pending_state s t ws p =
     (case map_of (ow_states p) s of None \<Rightarrow> 0 | Some v \<Rightarrow> if os_tenant_id v = t \<and> os_workspace_id v = ws then 1 else 0)"

definition states_ok :: "oauth_event list \<Rightarrow> oauth_provider \<Rightarrow> bool" where
  "states_ok ev p \<longleftrightarrow> (\<forall>s t ws. validations s t ws ev + pending_state s t ws p \<le> issues s t ws ev)
     \<and> (\<forall>s v. map_of (ow_states p) s = Some v \<longrightarrow> issue_event s v \<in> set ev)
     \<and> (\<forall>s t ws now. Validated s t ws now \<in> set ev \<longrightarrow> (\<exists>x. Issued s t ws x \<in> set ev \<and> now < x))"

lemma read_apply: "ow_read f p = (Inr (f (ow_tick p)), p\<lparr>ow_tick := Suc (ow_tick p)\<rparr>)"
  by (simp add: ow_read_def)

lemma authorization_url_states:
  assumes "authorization_url env t ws given p = (r, p')"
  shows "(\<exists>e. r = Inl e \<and> ow_states p' = ow_states p) \<or>
    (\<exists>u s x. r = Inr (u, s) \<and> ow_states p' = state_put s \<lparr>os_provider = oc_provider (ow_config p), os_tenant_id = t,
       os_workspace_id = ws, os_expires_at = x\<rparr> (ow_states p))"
  using assms
  by (auto simp: authorization_url_def em_simps read_apply split: option.splits if_splits sum.splits)

lemma validate_state_states:
  assumes "validate_state env s t ws p = (r, p')"
  shows "(\<exists>v. r = Inr () \<and> map_of (ow_states p) s = Some v \<and> os_tenant_id v = t \<and> os_workspace_id v = ws
      \<and> oe_now env (ow_tick p) < os_expires_at v \<and> ow_states p' = AList.delete s (ow_states p)) \<or>
    (\<exists>e. r = Inl e \<and> ow_states p' \<in> {ow_states p, AList.delete s (ow_states p)})"
  using assms
  by (auto simp: validate_state_def em_simps read_apply state_consume_def split: option.splits if_splits)

lemma token_request_states: "ow_states (snd (token_request env form op rf p)) = ow_states p"
  by (auto simp: token_request_def em_simps read_apply)

lemma exchange_code_states: "ow_states (snd (exchange_code env code s given p)) = ow_states p"
  by (auto simp: exchange_code_def take_verifier_def em_simps token_request_states Let_def)

lemma oauth_refresh_states: "ow_states (snd (oauth_refresh env k p)) = ow_states p"
  by (auto simp: oauth_refresh_def em_simps token_request_states Let_def)

lemma states_ok_cong: "ow_states p' = ow_states p \<Longrightarrow> states_ok ev p \<Longrightarrow> states_ok ev p'"
  by (simp add: states_ok_def pending_state_def)

lemma states_ok_delete:
  assumes "states_ok ev p" and "ow_states p' = AList.delete s (ow_states p)"
  shows "states_ok ev p'"
proof -
  have "pending_state s' t ws p' \<le> pending_state s' t ws p" for s' t ws
    by (simp add: pending_state_def assms(2) map_of_delete split: option.split)
  then show ?thesis using assms by (auto simp: states_ok_def map_of_delete split: if_splits) (meson add_left_mono le_trans)+
qed

lemma states_ok_issue:
  assumes ok: "states_ok ev p" and st: "ow_states p' = state_put s v (ow_states p)"
  shows "states_ok (ev @ [issue_event s v]) p'"
proof -
  have "validations s' t ws (ev @ [issue_event s v]) + pending_state s' t ws p' \<le> issues s' t ws (ev @ [issue_event s v])" for s' t ws
  proof -
    have "validations s' t ws ev + pending_state s' t ws p \<le> issues s' t ws ev" using ok by (simp add: states_ok_def)
    then show ?thesis
      by (cases "s' = s") (auto simp: validations_def issues_def issue_event_def pending_state_def st state_put_def split: option.splits)
  qed
  then show ?thesis using ok by (auto simp: states_ok_def st state_put_def issue_event_def split: if_splits) blast
qed

lemma states_ok_issued:
  "states_ok ev p \<Longrightarrow> ow_states p' = AList.update s \<lparr>os_provider = pr, os_tenant_id = t, os_workspace_id = ws, os_expires_at = x\<rparr> (ow_states p) \<Longrightarrow>
   states_ok (ev @ [Issued s t ws x]) p'"
  using states_ok_issue [of ev p p' s "\<lparr>os_provider = pr, os_tenant_id = t, os_workspace_id = ws, os_expires_at = x\<rparr>"]
  by (simp add: state_put_def issue_event_def)

lemma states_ok_validated:
  assumes ok: "states_ok ev p" and v: "map_of (ow_states p) s = Some v" "now < os_expires_at v"
    and st: "ow_states p' = AList.delete s (ow_states p)"
  shows "states_ok (ev @ [Validated s (os_tenant_id v) (os_workspace_id v) now]) p'"
proof -
  let ?ev = "ev @ [Validated s (os_tenant_id v) (os_workspace_id v) now]"
  have "validations s' t ws ?ev + pending_state s' t ws p' \<le> issues s' t ws ?ev" for s' t ws
  proof -
    have "validations s' t ws ev + pending_state s' t ws p \<le> issues s' t ws ev" using ok by (simp add: states_ok_def)
    then show ?thesis using v(1)
      by (cases "s' = s") (auto simp: validations_def issues_def pending_state_def st map_of_delete split: option.splits if_splits)
  qed
  moreover have "issue_event s v \<in> set ev" using ok v(1) by (simp add: states_ok_def)
  ultimately show ?thesis
    using ok v(2) by (auto simp: states_ok_def st map_of_delete issue_event_def split: if_splits)
qed

lemma oauth_step_ok:
  assumes "states_ok ev p" and "oauth_step env c p = (ev', p')"
  shows "states_ok (ev @ ev') p'"
proof (cases c)
  case (Authorize t ws given)
  obtain r p1 where a: "authorization_url env t ws given p = (r, p1)" by fastforce
  from authorization_url_states [OF a] show ?thesis
    using assms Authorize a by (auto simp: state_put_def intro: states_ok_cong states_ok_issued)
next
  case (Validate s t ws)
  obtain r p1 where a: "validate_state env s t ws p = (r, p1)" by fastforce
  from validate_state_states [OF a] show ?thesis
    using assms Validate a by (auto intro: states_ok_cong states_ok_delete dest: states_ok_validated [OF assms(1)])
qed (use assms in \<open>auto intro: states_ok_cong simp: exchange_code_states oauth_refresh_states\<close>)

lemma oauth_trace_ok: "states_ok ev p \<Longrightarrow> oauth_trace env cs p = (evs, p') \<Longrightarrow> states_ok (ev @ evs) p'"
proof (induction cs arbitrary: ev p evs)
  case Nil
  then show ?case by simp
next
  case (Cons c cs)
  obtain e1 p1 where s: "oauth_step env c p = (e1, p1)" by fastforce
  obtain e2 where t: "oauth_trace env cs p1 = (e2, p')" "evs = e1 @ e2" using Cons.prems(2) s by (auto split: prod.splits)
  show ?case using Cons.IH [OF oauth_step_ok [OF Cons.prems(1) s] t(1)] t(2) by simp
qed

section \<open>Credential stores\<close>

definition same_owner :: "oauth_credential \<Rightarrow> oauth_credential \<Rightarrow> bool" where
  "same_owner a b \<longleftrightarrow> ocr_credential_id a = ocr_credential_id b \<and> ocr_tenant_id a = ocr_tenant_id b
     \<and> ocr_workspace_id a = ocr_workspace_id b \<and> ocr_provider a = ocr_provider b"

text \<open>The contract \<open>OAuthCredentialStore\<close>: \<open>storable\<close> credentials are read back, and only within their scope.\<close>

locale credential_store =
  fixes invar :: "'c \<Rightarrow> bool"
    and storable :: "oauth_credential \<Rightarrow> bool"
    and ops :: "'c credential_ops"
  assumes get_scoped: "invar c \<Longrightarrow> co_get ops cid t ws p c = Inr r \<Longrightarrow> ocr_credential_id r = cid \<and> in_scope t ws p r"
    and save_invar: "invar c \<Longrightarrow> co_save ops r c = (x, c') \<Longrightarrow> invar c'"
    and save_get: "invar c \<Longrightarrow> storable r \<Longrightarrow> co_save ops r c = (Inr (), c') \<Longrightarrow> in_scope t ws p r \<Longrightarrow>
      co_get ops (ocr_credential_id r) t ws p c' = Inr r"
    and save_other: "invar c \<Longrightarrow> co_save ops r c = (x, c') \<Longrightarrow> cid \<noteq> ocr_credential_id r \<Longrightarrow>
      co_get ops cid t ws p c' = co_get ops cid t ws p c"
    and storable_renewed: "storable old \<Longrightarrow> same_owner new old \<Longrightarrow> ocr_access_token new \<noteq> [] \<Longrightarrow> ocr_token_type new \<noteq> [] \<Longrightarrow>
      (ocr_scopes old \<noteq> [] \<Longrightarrow> ocr_scopes new \<noteq> []) \<Longrightarrow> ocr_refresh_token new \<noteq> Some [] \<Longrightarrow> storable new"

definition keyed :: "memory_credentials \<Rightarrow> bool" where
  "keyed t \<longleftrightarrow> (\<forall>k r. map_of t k = Some r \<longrightarrow> ocr_credential_id r = k)"

interpretation memory_store: credential_store keyed "\<lambda>_. True" memory_credential_ops
  by unfold_locales
    (auto simp: memory_credential_ops_def memory_get_def memory_save_def keyed_def split: option.splits if_splits)

text \<open>What is asked of a secret manager and of the ISO codec.\<close>

definition backend_ok :: "'b secret_backend \<Rightarrow> bool" where
  "backend_ok sb \<longleftrightarrow> (\<forall>k v t t'. sb_write sb k v t = (Inr (), t') \<longrightarrow> sb_read sb k t' = Inr (Some v))
     \<and> (\<forall>k v t x t' k'. sb_write sb k v t = (x, t') \<longrightarrow> k' \<noteq> k \<longrightarrow> sb_read sb k' t' = sb_read sb k' t)"

definition iso_ok :: "source_codec \<Rightarrow> bool" where
  "iso_ok sc \<longleftrightarrow> (\<forall>t. sc_fromiso sc (sc_iso sc t) = Some t \<and> sc_iso sc t \<noteq> [])"

definition secret_storable :: "oauth_credential \<Rightarrow> bool" where
  "secret_storable r \<longleftrightarrow> ocr_credential_id r \<noteq> [] \<and> ocr_tenant_id r \<noteq> [] \<and> ocr_workspace_id r \<noteq> [] \<and> ocr_provider r \<noteq> []
     \<and> ocr_access_token r \<noteq> [] \<and> ocr_token_type r \<noteq> [] \<and> ocr_scopes r \<noteq> [] \<and> ocr_refresh_token r \<noteq> Some []"

lemma string_list_PStr: "string_list (PList (map PStr xs)) = Some xs"
  by (auto simp: string_list_def list_all_iff comp_def)

lemma optional_time_iso: "iso_ok sc \<Longrightarrow> optional_time sc sh (opt_value (\<lambda>t. PStr (sc_iso sc t)) x) = Inr x"
  by (cases x) (auto simp: optional_time_def opt_value_def iso_ok_def str_of_def)

lemma str_of_PStr: "str_of sh (PStr s) = s"
  by (simp add: str_of_def)

lemma serialize_value:
  "value_of (serialize sc r) ''credential_id'' = PStr (ocr_credential_id r)"
  "value_of (serialize sc r) ''tenant_id'' = PStr (ocr_tenant_id r)"
  "value_of (serialize sc r) ''workspace_id'' = PStr (ocr_workspace_id r)"
  "value_of (serialize sc r) ''provider'' = PStr (ocr_provider r)"
  "value_of (serialize sc r) ''access_token'' = PStr (ocr_access_token r)"
  "value_of (serialize sc r) ''refresh_token'' = opt_value PStr (ocr_refresh_token r)"
  "value_of (serialize sc r) ''token_type'' = PStr (ocr_token_type r)"
  "value_of (serialize sc r) ''scopes'' = PList (map PStr (ocr_scopes r))"
  "value_of (serialize sc r) ''obtained_at'' = opt_value (\<lambda>t. PStr (sc_iso sc t)) (ocr_obtained_at r)"
  "value_of (serialize sc r) ''expires_at'' = opt_value (\<lambda>t. PStr (sc_iso sc t)) (ocr_expires_at r)"
  by (simp_all add: value_of_def serialize_def)

lemma refresh_read_back:
  "(if py_truthy (opt_value PStr x) then Some (str_of sh (opt_value PStr x)) else None) = x \<longleftrightarrow> x \<noteq> Some []"
  by (cases x) (auto simp: opt_value_def str_of_def)

lemma deserialize_serialize:
  assumes "iso_ok sc"
  shows "deserialize sc sh (serialize sc r) = Inr r \<longleftrightarrow> secret_storable r"
proof -
  define missing where "missing \<longleftrightarrow> ocr_credential_id r = [] \<or> ocr_tenant_id r = [] \<or> ocr_workspace_id r = [] \<or> ocr_provider r = []
      \<or> ocr_access_token r = [] \<or> ocr_token_type r = [] \<or> ocr_scopes r = []"
  let ?rt = "opt_value PStr (ocr_refresh_token r)"
  have m: "list_ex (\<lambda>k. \<not> py_truthy (value_of (serialize sc r) k)) required_fields \<longleftrightarrow> missing"
    by (auto simp: required_fields_def serialize_value missing_def)
  have "deserialize sc sh (serialize sc r) = (if missing then Inl (Exn ValueError ''OAuth secret backend returned an incomplete credential record'')
      else Inr (r\<lparr>ocr_refresh_token := (if py_truthy ?rt then Some (str_of sh ?rt) else None)\<rparr>))"
    unfolding deserialize_def m by (simp add: serialize_value string_list_PStr optional_time_iso [OF assms] str_of_PStr)
  moreover have "r\<lparr>ocr_refresh_token := y\<rparr> = r \<longleftrightarrow> y = ocr_refresh_token r" for y
    by (metis oauth_credential.select_convs(6) oauth_credential.surjective oauth_credential.update_convs(6))
  ultimately show ?thesis by (auto simp: secret_storable_def missing_def refresh_read_back)
qed

interpretation secret_manager: credential_store "\<lambda>_. backend_ok sb \<and> iso_ok (sm_codec sm)" secret_storable "secret_credential_ops sm sb"
  for sb :: "'b secret_backend" and sm
proof unfold_locales
  fix c c' :: 'b and cid t ws p r and x :: "py_exn + unit"
  assume ok: "backend_ok sb \<and> iso_ok (sm_codec sm)"
  show "ocr_credential_id r = cid \<and> in_scope t ws p r" if "co_get (secret_credential_ops sm sb) cid t ws p c = Inr r"
    using that by (auto simp: secret_credential_ops_def secret_get_def rbind_Inr split: option.splits if_splits)
  show "co_get (secret_credential_ops sm sb) (ocr_credential_id r) t ws p c' = Inr r"
    if "secret_storable r" "co_save (secret_credential_ops sm sb) r c = (Inr (), c')" "in_scope t ws p r"
    using that ok deserialize_serialize [of "sm_codec sm" "sm_show sm" r]
    by (auto simp: secret_credential_ops_def secret_get_def secret_save_def backend_ok_def split: sum.splits)
  show "co_get (secret_credential_ops sm sb) cid t ws p c' = co_get (secret_credential_ops sm sb) cid t ws p c"
    if "co_save (secret_credential_ops sm sb) r c = (x, c')" "cid \<noteq> ocr_credential_id r"
  proof (cases "secret_key (sm_prefix sm) (ocr_credential_id r)")
    case (Inl e)
    then show ?thesis using that by (simp add: secret_credential_ops_def secret_save_def)
  next
    case (Inr k)
    have "k' \<noteq> k" if "secret_key (sm_prefix sm) cid = Inr k'" for k'
      using that Inr \<open>cid \<noteq> ocr_credential_id r\<close> by (auto simp: secret_key_def split: if_splits)
    then show ?thesis using that Inr ok
      by (cases "secret_key (sm_prefix sm) cid") (auto simp: secret_credential_ops_def secret_save_def secret_get_def backend_ok_def)
  qed
qed (auto simp: secret_storable_def same_owner_def)

section \<open>The connection\<close>

lemma on_provider_frame: "on_provider name m w = (r, w') \<Longrightarrow> cn_credentials w' = cn_credentials w \<and> cn_socket w' = cn_socket w"
  by (auto simp: on_provider_def split: option.splits prod.splits)

lemma mk_record_frame:
  assumes "mk_record env cid t ws p k scopes rf w = (r, w')"
  shows "cn_credentials w' = cn_credentials w \<and> cn_socket w' = cn_socket w \<and>
    (\<forall>x. r = Inr x \<longrightarrow> ocr_credential_id x = cid \<and> ocr_tenant_id x = t \<and> ocr_workspace_id x = ws \<and> ocr_provider x = p
       \<and> ocr_access_token x = ot_access_token k \<and> ocr_token_type x = ot_token_type k
       \<and> (scopes \<noteq> [] \<longrightarrow> ocr_scopes x \<noteq> []) \<and> (rf \<noteq> None \<and> rf \<noteq> Some [] \<longrightarrow> ocr_refresh_token x \<noteq> None \<and> ocr_refresh_token x \<noteq> Some []))"
  using assms by (auto simp: mk_record_def cn_read_def em_simps split: sum.splits option.splits if_splits)

lemma token_of_payload_nonempty:
  "token_of_payload sh now rf sep d = Inr k \<Longrightarrow> ot_access_token k \<noteq> [] \<and> ot_token_type k \<noteq> []"
  by (auto simp: token_of_payload_def Let_def rbind_Inr split: option.splits pyval.splits if_splits)

lemma token_of_payload_facts:
  assumes "token_of_payload sh now rf sep d = Inr k"
  shows "map_of d ''access_token'' = Some (PStr (ot_access_token k)) \<and> ot_obtained_at k = Some now \<and> [] \<notin> set (ot_scope k)
    \<and> expires_of_payload d = Inr (ot_expires_in k) \<and> (rf \<noteq> None \<longrightarrow> ot_refresh_token k \<noteq> None)"
proof -
  obtain a where a: "map_of d ''access_token'' = Some (PStr a)" "a \<noteq> []"
    using assms by (auto simp: token_of_payload_def split: option.splits pyval.splits if_splits)
  obtain x where x: "expires_of_payload d = Inr x"
    using assms a by (auto simp: token_of_payload_def rbind_Inr)
  show ?thesis using assms a x by (auto simp: token_of_payload_def Let_def split: if_splits)
qed

lemma token_outcome_nonempty:
  "token_outcome env c op rf now reply = Inr k \<Longrightarrow> ot_access_token k \<noteq> [] \<and> ot_token_type k \<noteq> []"
  by (auto simp: token_outcome_def Let_def split: token_reply.splits pyval.splits sum.splits dest: token_of_payload_nonempty)

lemma oauth_refresh_nonempty:
  "on_provider name (oauth_refresh env rf) w = (Inr k, w') \<Longrightarrow> ot_access_token k \<noteq> [] \<and> ot_token_type k \<noteq> []"
  by (auto simp: on_provider_def oauth_refresh_def token_request_def raise_oauth_def em_simps read_apply Let_def
      split: option.splits prod.splits if_splits sum.splits dest: token_outcome_nonempty)

text \<open>A refresh leaves the credentials alone or saves, for the same owner, a credential that can be refreshed again.\<close>

definition renewed :: "oauth_credential \<Rightarrow> oauth_credential \<Rightarrow> bool" where
  "renewed new old \<longleftrightarrow> same_owner new old \<and> ocr_access_token new \<noteq> [] \<and> ocr_token_type new \<noteq> []
     \<and> ocr_refresh_token new \<noteq> None \<and> ocr_refresh_token new \<noteq> Some [] \<and> (ocr_scopes old \<noteq> [] \<longrightarrow> ocr_scopes new \<noteq> [])"

lemma refresh_record_effect:
  assumes "refresh_record q cur w = (r, w')"
  shows "cn_socket w' = cn_socket w \<and>
    (case r of
       Inl e \<Rightarrow> cn_credentials w' = cn_credentials w \<or> (\<exists>new. renewed new cur \<and> cn_credentials w' = snd (co_save (oq_ops q) new (cn_credentials w)))
     | Inr x \<Rightarrow> renewed x cur \<and> co_save (oq_ops q) x (cn_credentials w) = (Inr (), cn_credentials w'))"
proof (cases "ocr_refresh_token cur = None \<or> ocr_refresh_token cur = Some []")
  case True
  then show ?thesis using assms by (auto simp: refresh_record_def em_simps)
next
  case False
  then obtain rf where 2: "ocr_refresh_token cur = Some rf" "rf \<noteq> []" by auto
  obtain r1 w1 where p: "on_provider (ocr_provider cur) (oauth_refresh (oq_env q) rf) w = (r1, w1)" by fastforce
  note f1 = on_provider_frame [OF p]
  show ?thesis
  proof (cases r1)
    case (Inl e)
    then show ?thesis using assms 2 p f1 by (auto simp: refresh_record_def em_simps)
  next
    case k: (Inr k)
    obtain r2 w2 where m: "mk_record (oq_env q) (ocr_credential_id cur) (ocr_tenant_id cur) (ocr_workspace_id cur)
        (ocr_provider cur) k (ocr_scopes cur) (Some rf) w1 = (r2, w2)" by fastforce
    note f2 = mk_record_frame [OF m]
    have ne: "ot_access_token k \<noteq> [] \<and> ot_token_type k \<noteq> []" using oauth_refresh_nonempty p k by blast
    show ?thesis
    proof (cases r2)
      case (Inl e)
      then show ?thesis using assms 2 p k m f1 f2 by (auto simp: refresh_record_def em_simps)
    next
      case (Inr x)
      then have new: "renewed x cur" using f2 ne 2 by (simp add: renewed_def same_owner_def)
      have c: "cn_credentials w2 = cn_credentials w" "cn_socket w2 = cn_socket w" using f1 f2 by simp_all
      obtain r3 t3 where sv: "co_save (oq_ops q) x (cn_credentials w) = (r3, t3)" by fastforce
      have "refresh_record q cur w = (case r3 of Inl e \<Rightarrow> Inl e | Inr _ \<Rightarrow> Inr x, w2\<lparr>cn_credentials := t3\<rparr>)"
        using 2 by (simp add: refresh_record_def em_simps p k m Inr save_credential_def c sv split: sum.split)
      then have "r = (case r3 of Inl e \<Rightarrow> Inl e | Inr _ \<Rightarrow> Inr x)" "cn_credentials w' = t3" "cn_socket w' = cn_socket w"
        using assms c by auto
      then show ?thesis using new sv by (cases r3) auto
    qed
  qed
qed

text \<open>What the calls \<open>refresh\<close> and \<open>ingest\<close> of the connection keep.\<close>

definition refresh_contract ::
  "(oauth_credential \<Rightarrow> bool) \<Rightarrow> ('c, 't, 'g) oauth_connection \<Rightarrow> string \<Rightarrow> string \<Rightarrow> string \<Rightarrow> string \<Rightarrow> ('c, 't, 'g) oauth_world \<Rightarrow> bool" where
  "refresh_contract storable q p t ws cid w \<longleftrightarrow>
     (case connection_refresh q p t ws cid w of (r, w') \<Rightarrow>
        cn_socket w' = cn_socket w \<and>
        (\<forall>cid' t' ws' p'. cid' \<noteq> cid \<longrightarrow> co_get (oq_ops q) cid' t' ws' p' (cn_credentials w') = co_get (oq_ops q) cid' t' ws' p' (cn_credentials w)) \<and>
        (cn_credentials w' \<noteq> cn_credentials w \<longrightarrow> (\<exists>old new. co_get (oq_ops q) cid t ws p (cn_credentials w) = Inr old \<and> renewed new old
            \<and> cn_credentials w' = snd (co_save (oq_ops q) new (cn_credentials w)))) \<and>
        (\<forall>ref. r = Inr ref \<longrightarrow> (\<exists>old new. co_get (oq_ops q) cid t ws p (cn_credentials w) = Inr old \<and> renewed new old \<and>
           in_scope t ws p new \<and> ref = record_ref new \<and>
           (storable old \<longrightarrow> storable new \<and> co_get (oq_ops q) cid t ws p (cn_credentials w') = Inr new))))"

definition ingest_contract ::
  "('c, 't, 'g) oauth_connection \<Rightarrow> string \<Rightarrow> string \<Rightarrow> string \<Rightarrow> string \<Rightarrow> string \<Rightarrow> ('c, 't, 'g) oauth_world \<Rightarrow> bool" where
  "ingest_contract q p src t ws cid w \<longleftrightarrow>
     (case connection_ingest q p src t ws cid w of (r, w') \<Rightarrow>
        (\<forall>cid' t' ws' p'. cid' \<noteq> cid \<longrightarrow> co_get (oq_ops q) cid' t' ws' p' (cn_credentials w') = co_get (oq_ops q) cid' t' ws' p' (cn_credentials w)) \<and>
        (case co_get (oq_ops q) cid t ws p (cn_credentials w) of
           Inl e \<Rightarrow> r = Inl e \<and> w' = w
         | Inr found \<Rightarrow>
             if is_expired (oe_now (oq_env q) (cn_tick w)) (oq_skew q) found
             then (\<exists>new. renewed new found \<and> co_save (oq_ops q) new (cn_credentials w) = (Inr (), cn_credentials w')
                     \<and> (r, cn_socket w') = socket_ingest (oq_fabric q) (t, ws, src) (Some cid) (cn_socket w))
                \<or> isl r \<and> cn_socket w' = cn_socket w
                   \<and> (cn_credentials w' = cn_credentials w
                      \<or> (\<exists>new. renewed new found \<and> cn_credentials w' = snd (co_save (oq_ops q) new (cn_credentials w))))
             else cn_credentials w' = cn_credentials w
                  \<and> (r, cn_socket w') = socket_ingest (oq_fabric q) (t, ws, src) (Some cid) (cn_socket w)))"

lemma get_credential_apply: "get_credential q cid t ws p w = (co_get (oq_ops q) cid t ws p (cn_credentials w), w)"
  by (simp add: get_credential_def em_simps)

context credential_store
begin

lemma refresh_keeps:
  assumes q: "oq_ops q = ops" and i: "invar (cn_credentials w)"
  shows "refresh_contract storable q p t ws cid w"
proof (cases "co_get ops cid t ws p (cn_credentials w)")
  case (Inl e)
  then show ?thesis using q by (simp add: refresh_contract_def connection_refresh_def em_simps get_credential_apply)
next
  case (Inr old)
  note own = get_scoped [OF i Inr]
  obtain r1 w1 where rr: "refresh_record q old w = (r1, w1)" by fastforce
  note eff = refresh_record_effect [OF rr]
  have others: "co_get ops cid' t' ws' p' (cn_credentials w1) = co_get ops cid' t' ws' p' (cn_credentials w)" if "cid' \<noteq> cid" for cid' t' ws' p'
    using eff own q that save_other [OF i, of _ _ _ cid' t' ws' p']
    by (cases r1) (auto simp: renewed_def same_owner_def; metis prod.collapse)+
  show ?thesis
  proof (cases r1)
    case e: (Inl e)
    then show ?thesis using Inr q rr others eff by (simp add: refresh_contract_def connection_refresh_def em_simps get_credential_apply) blast
  next
    case x: (Inr x)
    then have new: "renewed x old" "co_save ops x (cn_credentials w) = (Inr (), cn_credentials w1)" using eff q by auto
    have scope: "in_scope t ws p x" "ocr_credential_id x = cid" using own new(1) by (auto simp: renewed_def same_owner_def in_scope_def)
    have st: "storable x" if "storable old" using storable_renewed [OF that] new(1) by (auto simp: renewed_def)
    then have "storable old \<longrightarrow> storable x \<and> co_get ops cid t ws p (cn_credentials w1) = Inr x"
      using save_get [OF i _ new(2) scope(1)] scope(2) by auto
    moreover have "cn_credentials w1 = snd (co_save ops x (cn_credentials w))" using new(2) by simp
    ultimately show ?thesis using Inr q rr others eff new(1) scope(1) x
      by (auto simp: refresh_contract_def connection_refresh_def em_simps get_credential_apply)
  qed
qed

lemma ingest_keeps:
  assumes q: "oq_ops q = ops" and i: "invar (cn_credentials w)"
  shows "ingest_contract q p src t ws cid w"
proof (cases "co_get ops cid t ws p (cn_credentials w)")
  case (Inl e)
  then show ?thesis using q by (simp add: ingest_contract_def connection_ingest_def em_simps get_credential_apply)
next
  case (Inr found)
  note own = get_scoped [OF i Inr]
  let ?w1 = "w\<lparr>cn_tick := Suc (cn_tick w)\<rparr>"
  show ?thesis
  proof (cases "is_expired (oe_now (oq_env q) (cn_tick w)) (oq_skew q) found")
    case False
    then show ?thesis using Inr q own
      by (auto simp: ingest_contract_def connection_ingest_def em_simps get_credential_apply cn_read_def on_socket_def in_scope_def split: prod.splits)
  next
    case True
    obtain r2 w2 where rr: "refresh_record q found ?w1 = (r2, w2)" by fastforce
    note eff = refresh_record_effect [OF rr]
    have others: "co_get ops cid' t' ws' p' (cn_credentials w2) = co_get ops cid' t' ws' p' (cn_credentials w)" if "cid' \<noteq> cid" for cid' t' ws' p'
      using eff own q that save_other [OF i, of _ _ _ cid' t' ws' p']
      by (cases r2) (auto simp: renewed_def same_owner_def; metis prod.collapse)+
    have call: "connection_ingest q p src t ws cid w = (case r2 of Inl e \<Rightarrow> (Inl e, w2)
        | Inr x \<Rightarrow> on_socket (socket_ingest (oq_fabric q) (ocr_tenant_id x, ocr_workspace_id x, src) (Some (ocr_credential_id x))) w2)"
      using True Inr q rr by (simp add: connection_ingest_def em_simps get_credential_apply cn_read_def split: sum.split)
    show ?thesis
    proof (cases r2)
      case (Inl e)
      then show ?thesis using call others eff True Inr q by (auto simp: ingest_contract_def)
    next
      case x: (Inr x)
      then have "renewed x found" "co_save ops x (cn_credentials w) = (Inr (), cn_credentials w2)" "cn_socket w2 = cn_socket w" using eff q by auto
      moreover from this own have "ocr_tenant_id x = t" "ocr_workspace_id x = ws" "ocr_credential_id x = cid"
        by (auto simp: renewed_def same_owner_def in_scope_def)
      ultimately show ?thesis using call others True Inr q x
        by (auto simp: ingest_contract_def on_socket_def split: prod.splits)
    qed
  qed
qed

end

section \<open>Properties\<close>

text \<open>A configuration, an environment whose endpoint grants every token, a provider and a connection over any store.\<close>

definition demo_config :: oauth_config where
  "demo_config = \<lparr>oc_provider = ''x'', oc_authorization_url = ''https://x/a'', oc_token_url = ''https://x/t'', oc_client_id = ''c'',
     oc_client_secret = ''s'', oc_redirect_uri = ''https://o/cb'', oc_scopes = [''read''], oc_authorization_params = [],
     oc_client_id_param = ''client_id'', oc_client_secret_param = ''client_secret'', oc_scope_separator = '' '',
     oc_response_scope_separator = '' '', oc_token_auth_method = ''client_secret_post'', oc_state_ttl_seconds = 600,
     oc_use_pkce = True, oc_pkce_method = ''S256''\<rparr>"

definition demo_oauth_env :: oauth_env where
  "demo_oauth_env = \<lparr>oe_now = int, oe_secret = nat_str, oe_challenge = id, oe_b64 = id, oe_show = (\<lambda>_. ''v''),
     oe_post = (\<lambda>_ _. Reply_JSON (PDict [(''access_token'', PStr ''new''), (''expires_in'', PInt 3600)]))\<rparr>"

definition demo_provider :: oauth_provider where
  "demo_provider = \<lparr>ow_tick = 0, ow_config = demo_config, ow_states = [], ow_verifiers = []\<rparr>"

definition demo_credential :: oauth_credential where
  "demo_credential = \<lparr>ocr_credential_id = ''k'', ocr_tenant_id = ''a'', ocr_workspace_id = ''w'', ocr_provider = ''x'',
     ocr_access_token = ''old'', ocr_refresh_token = Some ''r'', ocr_token_type = ''Bearer'', ocr_scopes = [''read''],
     ocr_obtained_at = Some 0, ocr_expires_at = Some 5\<rparr>"

definition demo_connection :: "'c credential_ops \<Rightarrow> ('c, pg_registry, nat) oauth_connection" where
  "demo_connection ops = \<lparr>oq_env = demo_oauth_env, oq_ops = ops, oq_skew = 60,
     oq_fabric = \<lparr>fb_env = \<lparr>clock = (\<lambda>_. 0), fresh_uuid = (\<lambda>_. ''u'')\<rparr>, fb_iso = (\<lambda>_. ''t''), fb_monotonic = (\<lambda>_. 0),
       fb_random = (\<lambda>_. 0), fb_codec = \<lparr>sc_iso = (\<lambda>_. ''t''), sc_fromiso = (\<lambda>_. Some 0)\<rparr>, fb_ops = pg_registry_ops Inr,
       fb_gateway = (\<lambda>_. eraise (Exn RuntimeError ''off'')),
       fb_retry = \<lparr>ry_max_attempts = 3, ry_base_delay_seconds = 1, ry_max_delay_seconds = 8, ry_jitter_ratio = 0\<rparr>\<rparr>\<rparr>"

definition demo_oauth_world :: "'c \<Rightarrow> ('c, pg_registry, nat) oauth_world" where
  "demo_oauth_world c = \<lparr>cn_tick = 0, cn_providers = [(''x'', demo_provider)], cn_credentials = c,
     cn_socket = \<lparr>fz_tick = 0, fz_registry = [], fz_adapters = \<lparr>rg_adapters = [], rg_specs = []\<rparr>, fz_jobs = [], fz_next_due = [],
       fz_health = [], fz_cursors = [], fz_webhooks = [], fz_gateway = 0\<rparr>\<rparr>"

definition dict_backend :: "(string \<times> pydict) list secret_backend" where
  "dict_backend = \<lparr>sb_read = (\<lambda>k t. Inr (map_of t k)), sb_write = (\<lambda>k v t. (Inr (), AList.update k v t))\<rparr>"

text \<open>
  C28. An OAuth state is used once and in its scope. In any sequence of calls to a provider (authorization URLs, state
  validations, code exchanges, refreshes; whatever the clock, the endpoint and the random secrets do) a state is
  validated for a tenant and workspace at most as often as a URL with it was returned to a call for them, and every
  validation is of a state that was issued to a call for that tenant and workspace, before the expiry it was stored with.
\<close>

theorem oauth_state_single_use:
  "let ev = fst (oauth_trace env calls \<lparr>ow_tick = n, ow_config = c, ow_states = [], ow_verifiers = []\<rparr>)
   in validations s t ws ev \<le> issues s t ws ev \<and>
      (\<forall>now. Validated s t ws now \<in> set ev \<longrightarrow> (\<exists>expires. Issued s t ws expires \<in> set ev \<and> now < expires))"
proof -
  let ?p = "\<lparr>ow_tick = n, ow_config = c, ow_states = [], ow_verifiers = []\<rparr>"
  have "states_ok [] ?p" by (simp add: states_ok_def validations_def issues_def pending_state_def)
  then have "states_ok (fst (oauth_trace env calls ?p)) (snd (oauth_trace env calls ?p))"
    using oauth_trace_ok [of "[]" ?p env calls] by (metis append_Nil prod.collapse)
  then have ok: "validations s t ws (fst (oauth_trace env calls ?p)) + pending_state s t ws (snd (oauth_trace env calls ?p))
      \<le> issues s t ws (fst (oauth_trace env calls ?p))"
    "\<forall>now. Validated s t ws now \<in> set (fst (oauth_trace env calls ?p)) \<longrightarrow>
      (\<exists>x. Issued s t ws x \<in> set (fst (oauth_trace env calls ?p)) \<and> now < x)"
    by (auto simp: states_ok_def)
  then show ?thesis by (auto simp: Let_def)
qed

theorem oauth_state_single_use_witness:
  "fst (oauth_trace demo_oauth_env [Authorize ''a'' ''w'' (Some ''st''), Validate ''st'' ''b'' ''w'', Validate ''st'' ''a'' ''w'', Validate ''st'' ''a'' ''w'']
      demo_provider) = [Issued ''st'' ''a'' ''w'' 600000000, Validated ''st'' ''a'' ''w'' 3] \<and> 3 < (600000000 :: int)"
proof -
  let ?cs = "[Authorize ''a'' ''w'' (Some ''st''), Validate ''st'' ''b'' ''w'', Validate ''st'' ''a'' ''w'', Validate ''st'' ''a'' ''w'']"
  have ev: "fst (oauth_trace demo_oauth_env ?cs demo_provider) = [Issued ''st'' ''a'' ''w'' 600000000, Validated ''st'' ''a'' ''w'' 3]"
    by code_simp
  then show ?thesis
    using oauth_state_single_use [of demo_oauth_env ?cs 0 demo_config "''st''" "''a''" "''w''"] by (auto simp: demo_provider_def)
qed

text \<open>
  C29. Credentials stay with their owner. Over the in-memory store, and over a secret manager that keeps what is written
  to it, a refresh or a live ingestion through the connection, whether it returns or raises, touches no credential but its own, and that
  one only if it lies in the caller's tenant, workspace and provider, and only by saving a renewed credential
  of the same owner that can be refreshed again; what a refresh returns is what the store reads back. Every ingestion
  either finds no credential and changes nothing, or fails to renew an expired one and leaves the socket alone, or
  ingests through the socket under the caller's own tenant, workspace and credential, after the renewed credential was saved
  if the old one had expired, and answers what the socket answered.
\<close>

theorem credentials_stay_with_owner:
  assumes "oq_ops q = memory_credential_ops" and "keyed (cn_credentials w)"
    and "oq_ops q' = secret_credential_ops sm sb" and "backend_ok sb" and "iso_ok (sm_codec sm)"
  shows "refresh_contract (\<lambda>_. True) q p t ws cid w \<and> ingest_contract q p src t ws cid w \<and>
    refresh_contract secret_storable q' p t ws cid w' \<and> ingest_contract q' p src t ws cid w'"
  using memory_store.refresh_keeps [OF assms(1,2)] memory_store.ingest_keeps [OF assms(1,2)]
    secret_manager.refresh_keeps [OF assms(3)] secret_manager.ingest_keeps [OF assms(3)] assms(4,5) by blast

lemma dict_backend_ok: "backend_ok dict_backend"
  by (auto simp: backend_ok_def dict_backend_def)

definition demo_secrets :: secret_store where
  "demo_secrets = \<lparr>sm_prefix = ''ois/oauth'', sm_codec = \<lparr>sc_iso = (\<lambda>t. if t < 0 then replicate (nat (- t)) (CHR ''-'') else CHR ''+'' # replicate (nat t) (CHR ''+'')),
       sc_fromiso = (\<lambda>s. Some (if hd s = CHR ''-'' then - int (length s) else int (length s) - 1))\<rparr>, sm_show = (\<lambda>_. [])\<rparr>"

lemma demo_secrets_iso: "iso_ok (sm_codec demo_secrets)"
  by (auto simp: iso_ok_def demo_secrets_def hd_replicate)

theorem credentials_stay_with_owner_witness:
  "\<exists>new. renewed new demo_credential \<and> connection_refresh (demo_connection memory_credential_ops) ''x'' ''a'' ''w'' ''k''
      (demo_oauth_world [(''k'', demo_credential)]) = (Inr (record_ref new), snd (connection_refresh (demo_connection memory_credential_ops) ''x'' ''a'' ''w'' ''k''
      (demo_oauth_world [(''k'', demo_credential)]))) \<and>
    refresh_contract secret_storable (demo_connection (secret_credential_ops demo_secrets dict_backend)) ''x'' ''a'' ''w'' ''k'' (demo_oauth_world [])"
proof -
  let ?q = "demo_connection memory_credential_ops" and ?w = "demo_oauth_world [(''k'', demo_credential)]"
  let ?q' = "demo_connection (secret_credential_ops demo_secrets dict_backend)"
  have "oq_ops ?q = memory_credential_ops" "oq_ops ?q' = secret_credential_ops demo_secrets dict_backend"
    by (simp_all add: demo_connection_def)
  moreover have "keyed (cn_credentials ?w)" by (simp add: keyed_def demo_oauth_world_def demo_credential_def)
  ultimately have c: "refresh_contract (\<lambda>_. True) ?q ''x'' ''a'' ''w'' ''k'' ?w \<and> refresh_contract secret_storable ?q' ''x'' ''a'' ''w'' ''k'' (demo_oauth_world [])"
    using credentials_stay_with_owner [of ?q ?w ?q' demo_secrets dict_backend "''x''" "''a''" "''w''" "''k''" "[]" "demo_oauth_world []"]
      dict_backend_ok demo_secrets_iso by blast
  have get: "co_get memory_credential_ops ''k'' ''a'' ''w'' ''x'' (cn_credentials ?w) = Inr demo_credential" by code_simp
  have "map_sum id cd_tenant_id (fst (connection_refresh ?q ''x'' ''a'' ''w'' ''k'' ?w)) = Inr ''a''" by code_simp
  then obtain ref w' where "connection_refresh ?q ''x'' ''a'' ''w'' ''k'' ?w = (Inr ref, w')"
    by (cases "connection_refresh ?q ''x'' ''a'' ''w'' ''k'' ?w") (auto simp: map_sum_def split: sum.splits)
  then show ?thesis using c get by (auto simp: refresh_contract_def demo_connection_def)
qed

text \<open>
  C21. The failures of a token request are classified. A request raises an \<open>OAuth2Error\<close> exactly if the endpoint answered
  with an HTTP error, the transport failed, the body could not be read as a JSON object, or the object has no valid
  token; the error names the provider, the operation and the status, its category is that of the cause, and it may be
  retried exactly if the transport failed, the body was no JSON object, or the status was 429 or at least 500. Any other exception
  of the HTTP client is raised as it is, unclassified. A token comes only from a JSON object with that access token; it is never
  empty, its lifetime is not negative, its scopes are not empty texts, and a refresh token that was there is not lost.
\<close>

theorem token_failures_classified:
  "case token_outcome env (ow_config w) op rf (oe_now env (Suc (ow_tick w)))
       (oe_post env (ow_tick w) (token_request_http env (ow_config w) form)) of
     Inl (Inl e) \<Rightarrow> fst (token_request env form op rf w) = Inl e
       \<and> oe_post env (ow_tick w) (token_request_http env (ow_config w) form) = Reply_Uncaught e
   | Inl (Inr e) \<Rightarrow> fst (token_request env form op rf w) = Inl (Exn (OtherException ''OAuth2Error'') (oer_message e))
       \<and> oer_provider e = oc_provider (ow_config w) \<and> oer_operation e = op
       \<and> (case oe_post env (ow_tick w) (token_request_http env (ow_config w) form) of
            Reply_Status code _ _ \<Rightarrow> oer_status_code e = Some code \<and> oer_retryable e = (500 \<le> code \<or> code = 429)
              \<and> oer_category e = (if 500 \<le> code \<or> code = 429 then ''provider_unavailable'' else ''provider_rejected'')
          | Reply_Transport m \<Rightarrow> oer_status_code e = None \<and> oer_retryable e \<and> oer_category e = ''transport'' \<and> oer_message e = m
          | Reply_Unreadable \<Rightarrow> oer_status_code e = None \<and> oer_retryable e \<and> oer_category e = ''invalid_response''
          | Reply_JSON v \<Rightarrow> oer_status_code e = None \<and> oer_category e = ''invalid_response''
              \<and> oer_retryable e = (case v of PDict _ \<Rightarrow> False | _ \<Rightarrow> True)
          | Reply_Uncaught _ \<Rightarrow> False)
   | Inr k \<Rightarrow> fst (token_request env form op rf w) = Inr k
       \<and> (\<exists>d. oe_post env (ow_tick w) (token_request_http env (ow_config w) form) = Reply_JSON (PDict d)
            \<and> map_of d ''access_token'' = Some (PStr (ot_access_token k)))
       \<and> ot_access_token k \<noteq> [] \<and> ot_token_type k \<noteq> [] \<and> (case ot_expires_in k of None \<Rightarrow> True | Some n \<Rightarrow> 0 \<le> n)
       \<and> ot_obtained_at k = Some (oe_now env (Suc (ow_tick w))) \<and> [] \<notin> set (ot_scope k)
       \<and> (case rf of None \<Rightarrow> True | Some _ \<Rightarrow> ot_refresh_token k \<noteq> None)"
proof -
  define reply where "reply = oe_post env (ow_tick w) (token_request_http env (ow_config w) form)"
  define now where "now = oe_now env (Suc (ow_tick w))"
  let ?o = "token_outcome env (ow_config w) op rf now reply"
  have req: "fst (token_request env form op rf w) = raise_oauth ?o"
    by (simp add: token_request_def em_simps read_apply reply_def now_def)
  have err: "?o = Inl (Inr e) \<Longrightarrow> oer_provider e = oc_provider (ow_config w) \<and> oer_operation e = op
       \<and> (case reply of
            Reply_Status code _ _ \<Rightarrow> oer_status_code e = Some code \<and> oer_retryable e = (500 \<le> code \<or> code = 429)
              \<and> oer_category e = (if 500 \<le> code \<or> code = 429 then ''provider_unavailable'' else ''provider_rejected'')
          | Reply_Transport m \<Rightarrow> oer_status_code e = None \<and> oer_retryable e \<and> oer_category e = ''transport'' \<and> oer_message e = m
          | Reply_Unreadable \<Rightarrow> oer_status_code e = None \<and> oer_retryable e \<and> oer_category e = ''invalid_response''
          | Reply_JSON v \<Rightarrow> oer_status_code e = None \<and> oer_category e = ''invalid_response''
              \<and> oer_retryable e = (case v of PDict _ \<Rightarrow> False | _ \<Rightarrow> True)
          | Reply_Uncaught _ \<Rightarrow> False)" for e
    by (cases reply) (auto simp: token_outcome_def Let_def oauth_failure_def split: pyval.splits sum.splits)
  have raw: "?o = Inl (Inl e) \<Longrightarrow> reply = Reply_Uncaught e" for e
    by (cases reply) (auto simp: token_outcome_def Let_def split: pyval.splits sum.splits)
  have tok: "?o = Inr k \<Longrightarrow> \<exists>d. reply = Reply_JSON (PDict d)
      \<and> token_of_payload (oe_show env) now rf (oc_response_scope_separator (ow_config w)) d = Inr k" for k
    by (cases reply) (auto simp: token_outcome_def Let_def split: pyval.splits sum.splits)
  have "0 \<le> n" if "expires_of_payload d = Inr (Some n)" for n d
    using that by (auto simp: expires_of_payload_def split: option.splits pyval.splits if_splits)
  then have ok: "?o = Inr k \<Longrightarrow> (\<exists>d. reply = Reply_JSON (PDict d) \<and> map_of d ''access_token'' = Some (PStr (ot_access_token k)))
       \<and> ot_access_token k \<noteq> [] \<and> ot_token_type k \<noteq> [] \<and> (case ot_expires_in k of None \<Rightarrow> True | Some n \<Rightarrow> 0 \<le> n)
       \<and> ot_obtained_at k = Some now \<and> [] \<notin> set (ot_scope k) \<and> (case rf of None \<Rightarrow> True | Some _ \<Rightarrow> ot_refresh_token k \<noteq> None)" for k
    using tok [of k] token_of_payload_facts token_of_payload_nonempty by (fastforce split: option.split)
  show ?thesis
    unfolding reply_def [symmetric] now_def [symmetric]
    using req err raw ok by (auto simp: raise_oauth_def split: sum.split)
qed

text \<open>A rate limit is raised as an error that may be retried; a broken response line escapes.\<close>

definition answering :: "token_reply \<Rightarrow> oauth_env" where
  "answering reply = demo_oauth_env\<lparr>oe_post := \<lambda>_ _. reply\<rparr>"

theorem token_failures_classified_witness:
  "(\<exists>e. token_outcome (answering (Reply_Status 429 ''Too Many Requests'' None)) demo_config ''refresh_token'' None 1 (Reply_Status 429 ''Too Many Requests'' None) = Inl (Inr e)
      \<and> oer_retryable e \<and> oer_status_code e = Some 429 \<and> oer_category e = ''provider_unavailable'')
   \<and> fst (token_request (answering (Reply_Uncaught (Exn (OtherException ''BadStatusLine'') []))) [] ''refresh_token'' None demo_provider)
       = Inl (Exn (OtherException ''BadStatusLine'') [])"
  using token_failures_classified [where env = "answering (Reply_Status 429 ''Too Many Requests'' None)" and w = demo_provider and op = "''refresh_token''" and rf = None and form = "[]"]
    token_failures_classified [where env = "answering (Reply_Uncaught (Exn (OtherException ''BadStatusLine'') []))" and w = demo_provider and op = "''refresh_token''" and rf = None and form = "[]"]
  by (auto simp: answering_def demo_provider_def demo_oauth_env_def token_outcome_def Let_def)

text \<open>
  What the secret manager store can read back: the dictionary that is written for a credential is read back as that
  credential exactly if its ids, provider, tokens and token type are not empty, it has at least one scope, and its
  refresh token is not the empty text.
\<close>

theorem credential_roundtrip:
  assumes "iso_ok sc"
  shows "deserialize sc sh (serialize sc r) = Inr r \<longleftrightarrow> secret_storable r"
  using assms by (rule deserialize_serialize)

theorem credential_roundtrip_witness:
  "deserialize (sm_codec demo_secrets) (\<lambda>_. []) (serialize (sm_codec demo_secrets) demo_credential) = Inr demo_credential"
proof -
  have "secret_storable demo_credential" by code_simp
  then show ?thesis using credential_roundtrip [OF demo_secrets_iso] by blast
qed

section \<open>Findings\<close>

text \<open>
  \<open>complete\<close> calls \<open>exchange_code\<close> with neither the state nor a verifier: with PKCE on, which is the default, it always
  raises, after it has used up the state.
\<close>

lemma pkce_completion_fails:
  assumes "map_of (cn_providers w) p = Some pr" and "oc_use_pkce (ow_config pr)"
  shows "\<exists>e w'. oauth_complete q p t ws s code cid w = (Inl e, w') \<and> cn_credentials w' = cn_credentials w"
proof -
  obtain r1 w1 where v: "on_provider p (validate_state (oq_env q) s t ws) w = (r1, w1)" by fastforce
  note f = on_provider_frame [OF v]
  have "\<exists>pr'. map_of (cn_providers w1) p = Some pr' \<and> oc_use_pkce (ow_config pr')"
    using v assms by (auto simp: on_provider_def validate_state_def em_simps read_apply split: prod.splits)
  then show ?thesis using v f
    by (cases r1) (auto simp: oauth_complete_def em_simps on_provider_def exchange_code_def take_verifier_def)
qed

text \<open>A credential without a scope is written and can never be read again.\<close>

lemma scopeless_credential_unreadable:
  "ocr_scopes r = [] \<Longrightarrow> \<exists>e. deserialize sc sh (serialize sc r) = Inl e"
  by (simp add: deserialize_def required_fields_def serialize_value)

text \<open>Credentials are kept by their id alone: completing a connection of tenant \<open>b\<close> replaces the credential of tenant \<open>a\<close>.\<close>

lemma completion_replaces_foreign_credential:
  "let p = demo_provider\<lparr>ow_config := demo_config\<lparr>oc_use_pkce := False\<rparr>,
             ow_states := [(''st'', \<lparr>os_provider = ''x'', os_tenant_id = ''b'', os_workspace_id = ''w'', os_expires_at = 100\<rparr>)]\<rparr>;
       w = (demo_oauth_world [(''k'', demo_credential)])\<lparr>cn_providers := [(''x'', p)]\<rparr>;
       w' = snd (oauth_complete (demo_connection memory_credential_ops) ''x'' ''b'' ''w'' ''st'' ''code'' ''k'' w)
   in memory_get ''k'' ''a'' ''w'' ''x'' (cn_credentials w) = Inr demo_credential \<and>
      memory_get ''k'' ''a'' ''w'' ''x'' (cn_credentials w') = Inl out_of_scope"
  by code_simp

end
