(* ===== verification/Production_Services.thy ===== *)
theory Production_Services
  imports Production_Control Registry_Core Url_Syntax
begin

text \<open>
  The services of the package \<^verbatim>\<open>production\<close> around its control plane: \<^verbatim>\<open>governance.py\<close> (authorization, deployments,
  canaries, the coordinator, facts, learning), \<^verbatim>\<open>production_loop.py\<close>, \<^verbatim>\<open>model_gateway.py\<close>, \<^verbatim>\<open>knowledge_world.py\<close>,
  \<^verbatim>\<open>rollout.py\<close> and \<^verbatim>\<open>connectors.py\<close>. Hashes, model providers and transports are arguments; one SQLite transaction is one
  step.
\<close>

abbreviation GovernanceError :: exn_class where
  "GovernanceError \<equiv> OtherException ''GovernanceError''"

definition blank_opt :: "string option \<Rightarrow> bool" where
  "blank_opt x \<longleftrightarrow> x = None \<or> x = Some []"

section \<open>Authorization\<close>

record authorization_context =
  cx_subject :: string
  cx_tenant :: string
  cx_roles :: "string list"
  cx_attributes :: "(string \<times> string) list"
  cx_permissions :: "string list"

record abac_rule =
  br_permission :: string
  br_roles :: "string list"
  br_attributes :: "(string \<times> string) list"
  br_tenant_required :: bool

definition rule_allows :: "abac_rule \<Rightarrow> authorization_context \<Rightarrow> bool" where
  "rule_allows r c =
     (if br_tenant_required r \<and> cx_tenant c = [] then False
      else if br_roles r \<noteq> [] \<and> set (br_roles r) \<inter> set (cx_roles c) = {} then False
      else if list_ex (\<lambda>(k, v). map_of (cx_attributes c) k \<noteq> Some v) (br_attributes r) then False
      else br_permission r \<in> set (cx_permissions c))"

definition enterprise_authorize :: "abac_rule list \<Rightarrow> authorization_context \<Rightarrow> string \<Rightarrow> py_exn + bool" where
  "enterprise_authorize rules c permission =
     (let candidates = filter (\<lambda>r. br_permission r = permission) rules
      in if candidates = [] \<or> \<not> list_ex (\<lambda>r. rule_allows r c) candidates
         then Inl (Exn GovernanceError (''authorization denied: '' @ permission)) else Inr True)"

section \<open>Deployments\<close>

record version_record =
  vr_deployment_id :: string
  vr_version :: string
  vr_environment :: string
  vr_previous_version :: "string option"
  vr_state :: string
  vr_approved_by :: "string option"
  vr_evidence :: "string list"

record deployments =
  dc_current :: "(string \<times> string) list"
  dc_records :: "version_record list"

definition deployment_history :: "string \<Rightarrow> deployments \<Rightarrow> version_record list" where
  "deployment_history environment d = filter (\<lambda>r. vr_environment r = environment) (dc_records d)"

definition deploy_version ::
  "uuid \<Rightarrow> string \<Rightarrow> string \<Rightarrow> string option \<Rightarrow> string list \<Rightarrow> deployments \<Rightarrow> py_exn + version_record \<times> deployments" where
  "deploy_version fresh version environment approved evidence d =
     (if blank_opt approved then Inl (Exn GovernanceError ''deployment requires explicit approval'')
      else if evidence = [] then Inl (Exn GovernanceError ''deployment requires evidence'')
      else let r = \<lparr>vr_deployment_id = fresh, vr_version = version, vr_environment = environment,
                    vr_previous_version = map_of (dc_current d) environment, vr_state = ''active'', vr_approved_by = approved,
                    vr_evidence = evidence\<rparr>
           in Inr (r, d\<lparr>dc_current := AList.update environment version (dc_current d), dc_records := dc_records d @ [r]\<rparr>))"

definition previous_version :: "string \<Rightarrow> deployments \<Rightarrow> string option" where
  "previous_version environment d =
     (let history = deployment_history environment d
      in if history = [] then None
         else case List.find (\<lambda>r. vr_version r \<noteq> vr_version (last history)) (rev (butlast history)) of
                Some r \<Rightarrow> Some (vr_version r)
              | None \<Rightarrow> vr_previous_version (last history))"

definition rollback_version ::
  "uuid \<Rightarrow> string \<Rightarrow> string option \<Rightarrow> string list \<Rightarrow> deployments \<Rightarrow> py_exn + version_record \<times> deployments" where
  "rollback_version fresh environment approved evidence d =
     (if blank_opt approved then Inl (Exn GovernanceError ''rollback requires explicit approval'')
      else if evidence = [] then Inl (Exn GovernanceError ''rollback requires evidence'')
      else case previous_version environment d of
        None \<Rightarrow> Inl (Exn GovernanceError ''no rollback target exists'')
      | Some previous \<Rightarrow>
          let r = \<lparr>vr_deployment_id = fresh, vr_version = previous, vr_environment = environment,
                   vr_previous_version = map_of (dc_current d) environment, vr_state = ''rolled_back'', vr_approved_by = approved,
                   vr_evidence = evidence\<rparr>
          in Inr (r, d\<lparr>dc_current := AList.update environment previous (dc_current d), dc_records := dc_records d @ [r]\<rparr>))"

section \<open>Canaries\<close>

record rollout_state =
  rs_stable :: string
  rs_candidate :: string
  rs_percentage :: int
  rs_state :: string

type_synonym rollouts = "(string \<times> rollout_state) list"

definition canary_start :: "string \<Rightarrow> string \<Rightarrow> string \<Rightarrow> int \<Rightarrow> rollouts \<Rightarrow> py_exn + rollouts" where
  "canary_start rid stable_v candidate percentage t =
     (if \<not> (1 \<le> percentage \<and> percentage \<le> 100)
      then Inl (Exn GovernanceError ''canary percentage must be between 1 and 100'')
      else Inr (AList.update rid \<lparr>rs_stable = stable_v, rs_candidate = candidate, rs_percentage = percentage, rs_state = ''canary''\<rparr> t))"

definition rollout_of :: "string \<Rightarrow> rollouts \<Rightarrow> py_exn + rollout_state" where
  "rollout_of rid t = (case map_of t rid of None \<Rightarrow> Inl (Exn KeyError rid) | Some r \<Rightarrow> Inr r)"

text \<open>\<open>digest32\<close>: the first eight hexadecimal digits of the hash, as a number.\<close>

definition canary_assign :: "(string \<Rightarrow> nat) \<Rightarrow> string \<Rightarrow> string \<Rightarrow> rollouts \<Rightarrow> py_exn + string" where
  "canary_assign digest32 rid subject t =
     rbind (rollout_of rid t) (\<lambda>r.
     Inr (if int (digest32 subject mod 100) < rs_percentage r then rs_candidate r else rs_stable r))"

definition canary_gate ::
  "string \<Rightarrow> rat \<Rightarrow> rat \<Rightarrow> rat \<Rightarrow> rat \<Rightarrow> string option \<Rightarrow> rollouts \<Rightarrow> py_exn + string \<times> rollouts" where
  "canary_gate rid success_rate latency_ratio min_success max_latency approved t =
     rbind (rollout_of rid t) (\<lambda>r.
     if blank_opt approved then Inl (Exn GovernanceError ''canary transition requires approval'')
     else let s = (if success_rate \<ge> min_success \<and> latency_ratio \<le> max_latency then ''promoted'' else ''rolled_back'')
          in Inr (s, AList.update rid (r\<lparr>rs_state := s\<rparr>) t))"

definition canary_state :: "string \<Rightarrow> rollouts \<Rightarrow> py_exn + string" where
  "canary_state rid t = rbind (rollout_of rid t) (\<lambda>r. Inr (rs_state r))"

section \<open>The coordinator\<close>

record coordinator =
  cr_jobs :: "(string \<times> string \<times> json_text option) list"
  cr_leases :: "(string \<times> string \<times> rat) list"

record job_lease =
  jl_job_id :: string
  jl_worker_id :: string
  jl_expires_at :: rat

definition coordinator_claim :: "rat \<Rightarrow> string \<Rightarrow> string \<Rightarrow> rat \<Rightarrow> coordinator \<Rightarrow> job_lease option \<times> coordinator" where
  "coordinator_claim now job worker ttl c =
     (if (case map_of (cr_leases c) job of None \<Rightarrow> False | Some (w, expires) \<Rightarrow> expires > now \<and> w \<noteq> worker) then (None, c)
      else let expires = fl (now + ttl)
           in (Some \<lparr>jl_job_id = job, jl_worker_id = worker, jl_expires_at = expires\<rparr>,
               \<lparr>cr_jobs = (if map_of (cr_jobs c) job = None then cr_jobs c @ [(job, ''claimed'', None)] else cr_jobs c),
                cr_leases = AList.update job (worker, expires) (cr_leases c)\<rparr>))"

definition coordinator_complete :: "string \<Rightarrow> string \<Rightarrow> pyval \<Rightarrow> coordinator \<Rightarrow> py_exn + coordinator" where
  "coordinator_complete job worker result c =
     (if (case map_of (cr_leases c) job of None \<Rightarrow> True | Some (w, _) \<Rightarrow> w \<noteq> worker)
      then Inl (Exn GovernanceError ''worker does not own job lease'')
      else Inr \<lparr>cr_jobs = map (\<lambda>(j, s, r). if j = job then (j, ''completed'', Some (json_dumps result)) else (j, s, r)) (cr_jobs c),
                cr_leases = AList.delete job (cr_leases c)\<rparr>)"

definition coordinator_result :: "string \<Rightarrow> coordinator \<Rightarrow> pyval" where
  "coordinator_result job c =
     (case map_of (cr_jobs c) job of Some (_, Some r) \<Rightarrow> json_loads r | _ \<Rightarrow> PNone)"

section \<open>Facts\<close>

record fact_row =
  fw_id :: int
  fw_subject :: string
  fw_predicate :: string
  fw_object :: string
  fw_source :: string
  fw_version :: int

record fact_graph =
  fg_entities :: "(string \<times> string \<times> json_text) list"
  fg_facts :: "fact_row list"
  fg_sequence :: int

definition graph_upsert :: "string \<Rightarrow> string \<Rightarrow> pydict \<Rightarrow> fact_graph \<Rightarrow> fact_graph" where
  "graph_upsert eid ty data g = g\<lparr>fg_entities := AList.update eid (ty, json_dumps (PDict data)) (fg_entities g)\<rparr>"

definition newest :: "int list \<Rightarrow> int" where
  "newest vs = foldr max vs 0"

definition graph_add_fact :: "string \<Rightarrow> string \<Rightarrow> string \<Rightarrow> string \<Rightarrow> fact_graph \<Rightarrow> int \<times> fact_graph" where
  "graph_add_fact subj pred obj source g =
     (let version = newest (map fw_version (filter (\<lambda>r. fw_subject r = subj \<and> fw_predicate r = pred) (fg_facts g))) + 1;
          i = fg_sequence g + 1
      in (i, g\<lparr>fg_facts := fg_facts g @ [\<lparr>fw_id = i, fw_subject = subj, fw_predicate = pred, fw_object = obj, fw_source = source,
                                          fw_version = version\<rparr>], fg_sequence := i\<rparr>))"

definition graph_facts :: "string \<Rightarrow> fact_graph \<Rightarrow> fact_row list" where
  "graph_facts subj g = sort_key fw_id (filter (\<lambda>r. fw_subject r = subj) (fg_facts g))"

section \<open>Learning\<close>

record evolution_candidate =
  vc_candidate_id :: string
  vc_target :: string
  vc_version :: string
  vc_evidence :: "string list"
  vc_state :: string

type_synonym candidates = "(string \<times> evolution_candidate) list"

definition candidate_of :: "string \<Rightarrow> candidates \<Rightarrow> py_exn + evolution_candidate" where
  "candidate_of i t = (case map_of t i of None \<Rightarrow> Inl (Exn KeyError i) | Some c \<Rightarrow> Inr c)"

definition candidate_propose :: "uuid \<Rightarrow> string \<Rightarrow> string \<Rightarrow> string list \<Rightarrow> candidates \<Rightarrow> py_exn + evolution_candidate \<times> candidates" where
  "candidate_propose fresh target version evidence t =
     (if evidence = [] then Inl (Exn GovernanceError ''learning proposal requires evidence'')
      else let c = \<lparr>vc_candidate_id = fresh, vc_target = target, vc_version = version, vc_evidence = evidence, vc_state = ''proposed''\<rparr>
           in Inr (c, AList.update fresh c t))"

definition set_candidate :: "string \<Rightarrow> string \<Rightarrow> evolution_candidate \<Rightarrow> candidates \<Rightarrow> evolution_candidate \<times> candidates" where
  "set_candidate i s c t = (let c' = c\<lparr>vc_state := s\<rparr> in (c', AList.update i c' t))"

definition candidate_evaluate :: "string \<Rightarrow> rat \<Rightarrow> candidates \<Rightarrow> py_exn + evolution_candidate \<times> candidates" where
  "candidate_evaluate i score t =
     rbind (candidate_of i t) (\<lambda>c. Inr (set_candidate i (if 0 \<le> score \<and> score \<le> 1 then ''evaluated'' else ''rejected'') c t))"

definition candidate_approve :: "string \<Rightarrow> string \<Rightarrow> candidates \<Rightarrow> py_exn + evolution_candidate \<times> candidates" where
  "candidate_approve i approved t =
     rbind (candidate_of i t) (\<lambda>c.
     if vc_state c \<noteq> ''evaluated'' then Inl (Exn GovernanceError ''candidate must be evaluated before approval'')
     else if approved = [] then Inl (Exn GovernanceError ''candidate approval requires identity'')
     else Inr (set_candidate i ''approved'' c t))"

text \<open>The rollout is called with the candidate; its state is \<open>'r\<close>.\<close>

definition candidate_activate ::
  "string \<Rightarrow> (evolution_candidate \<Rightarrow> ('r, unit) em) \<Rightarrow> (candidates \<times> 'r, evolution_candidate) em" where
  "candidate_activate i rollout = (\<lambda>(t, x).
     case candidate_of i t of
       Inl e \<Rightarrow> (Inl e, (t, x))
     | Inr c \<Rightarrow>
         if vc_state c \<noteq> ''approved'' then (Inl (Exn GovernanceError ''only approved candidates may activate''), (t, x))
         else case rollout c x of
                (Inl e, x') \<Rightarrow> (Inl e, (t, x'))
              | (Inr _, x') \<Rightarrow> (case set_candidate i ''activated'' c t of (c', t') \<Rightarrow> (Inr c', (t', x'))))"

section \<open>The proof of the loop\<close>

definition loop_stages :: "string list" where
  "loop_stages = [''source'', ''evidence'', ''intelligence'', ''growth'', ''outcome'', ''learning'']"

record loop_artifact =
  la_stage :: string
  la_artifact_id :: string
  la_tenant_id :: string
  la_occurred_at :: timestamp
  la_payload_hash :: string
  la_source_ref :: string
  la_execution_id :: string

definition artifact_create ::
  "(pyval \<Rightarrow> string) \<Rightarrow> timestamp \<Rightarrow> string \<Rightarrow> string \<Rightarrow> string \<Rightarrow> pyval \<Rightarrow> string \<Rightarrow> string \<Rightarrow> timestamp option \<Rightarrow> loop_artifact" where
  "artifact_create payload_hash now stage aid tenant payload source_ref xid occurred =
     \<lparr>la_stage = stage, la_artifact_id = aid, la_tenant_id = tenant,
      la_occurred_at = (case occurred of Some t \<Rightarrow> t | None \<Rightarrow> now), la_payload_hash = payload_hash payload,
      la_source_ref = source_ref, la_execution_id = xid\<rparr>"

record loop_certificate =
  lc_certificate_id :: string
  lc_tenant_id :: string
  lc_execution_id :: string
  lc_generated_at :: timestamp
  lc_artifacts :: "loop_artifact list"
  lc_lineage_hash :: string
  lc_status :: string

fun check_artifacts :: "string \<Rightarrow> string \<Rightarrow> loop_artifact list \<Rightarrow> py_exn + unit" where
  "check_artifacts tenant xid [] = Inr ()"
| "check_artifacts tenant xid (a # as) =
     (if la_tenant_id a \<noteq> tenant \<or> la_execution_id a \<noteq> xid
      then Inl (Exn ValueError ''loop artifacts must share tenant and execution identity'')
      else if length (la_payload_hash a) \<noteq> 64 then Inl (Exn ValueError (''invalid payload hash for '' @ la_artifact_id a))
      else if la_stage a \<notin> set loop_stages then Inl (Exn KeyError (la_stage a))
      else check_artifacts tenant xid as)"

definition at_stage :: "string \<Rightarrow> loop_artifact list \<Rightarrow> loop_artifact list" where
  "at_stage s as = filter (\<lambda>a. la_stage a = s) as"

definition ordered_artifacts :: "loop_artifact list \<Rightarrow> loop_artifact list" where
  "ordered_artifacts as = concat (map (\<lambda>s. sort_key la_artifact_id (at_stage s as)) loop_stages)"

definition lineage_payload :: "loop_artifact list \<Rightarrow> string" where
  "lineage_payload as =
     py_join ''|'' (map (\<lambda>a. la_stage a @ '':'' @ la_artifact_id a @ '':'' @ la_payload_hash a @ '':'' @ la_source_ref a @ '':''
                             @ la_execution_id a) as)"

definition certify ::
  "(string \<Rightarrow> string) \<Rightarrow> timestamp \<Rightarrow> string \<Rightarrow> string \<Rightarrow> string \<Rightarrow> loop_artifact list \<Rightarrow> py_exn + loop_certificate" where
  "certify sha now cid tenant xid as =
     (if tenant = [] \<or> xid = [] then Inl (Exn ValueError ''tenant_id and execution_id are required'')
      else rbind (check_artifacts tenant xid as) (\<lambda>_.
        Inr \<lparr>lc_certificate_id = cid, lc_tenant_id = tenant, lc_execution_id = xid, lc_generated_at = now,
             lc_artifacts = ordered_artifacts as, lc_lineage_hash = sha (lineage_payload (ordered_artifacts as)),
             lc_status = (if list_all (\<lambda>s. at_stage s as \<noteq> []) loop_stages then ''production_verified'' else ''rejected'')\<rparr>))"

section \<open>The model gateway\<close>

record 'w model_spec =
  ms_model_id :: string
  ms_version :: string
  ms_generate :: "string \<Rightarrow> string \<Rightarrow> int \<Rightarrow> ('w, pyval) em"
  ms_capabilities :: "string list"
  ms_priority :: int
  ms_cost_per_1k_tokens :: rat
  ms_max_tokens :: int
  ms_healthy :: bool

record model_request =
  mq_capability :: string
  mq_prompt :: string
  mq_max_tokens :: int
  mq_budget :: "rat option"
  mq_preferred_model :: "string option"

record model_response =
  mp_model_id :: string
  mp_version :: string
  mp_output :: pyval
  mp_latency_ms :: rat
  mp_estimated_cost :: rat
  mp_fallback_used :: bool

record 'w model_gateway =
  mg_registry :: "'w model_spec registry"
  mg_health :: "((string \<times> string) \<times> bool) list"

definition gateway_register :: "'w model_spec \<Rightarrow> 'w model_gateway \<Rightarrow> py_exn + 'w model_gateway" where
  "gateway_register m g =
     rbind (registry_register (ms_model_id m) (ms_version m) m
              (Some [(''capabilities'', PList (map PStr (sort (remdups (ms_capabilities m))))), (''priority'', PInt (ms_priority m))])
              (mg_registry g)) (\<lambda>(_, r).
     Inr (g\<lparr>mg_registry := r, mg_health := AList.update (ms_model_id m, ms_version m) (ms_healthy m) (mg_health g)\<rparr>))"

definition set_health :: "string \<Rightarrow> string \<Rightarrow> bool \<Rightarrow> 'w model_gateway \<Rightarrow> py_exn + 'w model_gateway" where
  "set_health i v healthy g =
     rbind (registry_resolve i v (mg_registry g)) (\<lambda>_. Inr (g\<lparr>mg_health := AList.update (i, v) healthy (mg_health g)\<rparr>))"

definition estimated_cost :: "model_request \<Rightarrow> 'w model_spec \<Rightarrow> rat" where
  "estimated_cost q m = fl (fl (of_int (mq_max_tokens q) / 1000) * ms_cost_per_1k_tokens m)"

definition serves :: "model_request \<Rightarrow> 'w model_spec \<Rightarrow> bool" where
  "serves q m \<longleftrightarrow> mq_capability q \<in> set (ms_capabilities m) \<and> mq_max_tokens q \<le> ms_max_tokens m"

definition model_candidates :: "model_request \<Rightarrow> 'w model_gateway \<Rightarrow> 'w model_spec list" where
  "model_candidates q g =
     (let found = map re_value (filter (\<lambda>e. mq_capability q \<in> set (ms_capabilities (re_value e))
                     \<and> map_of (mg_health g) (re_id e, re_version e) = Some True
                     \<and> mq_max_tokens q \<le> ms_max_tokens (re_value e)) (registry_snapshot (mg_registry g)));
          ordered = (case mq_preferred_model q of
                       None \<Rightarrow> found
                     | Some p \<Rightarrow> if p = [] then found
                                 else filter (\<lambda>m. ms_model_id m = p) found @ filter (\<lambda>m. ms_model_id m \<noteq> p) found)
      in sort_key ms_priority (sort_key ms_model_id (sort_key ms_version ordered)))"

definition within_budget :: "model_request \<Rightarrow> 'w model_spec \<Rightarrow> bool" where
  "within_budget q m = (case mq_budget q of None \<Rightarrow> True | Some b \<Rightarrow> estimated_cost q m \<le> b)"

definition fallback_used :: "model_request \<Rightarrow> 'w model_gateway \<Rightarrow> 'w model_spec \<Rightarrow> bool" where
  "fallback_used q g m \<longleftrightarrow>
     list_ex (\<lambda>e. ms_model_id (re_value e) \<noteq> ms_model_id m \<and> serves q (re_value e)
                  \<and> ms_priority (re_value e) < ms_priority m) (registry_snapshot (mg_registry g))
     \<or> (case mq_preferred_model q of None \<Rightarrow> False | Some p \<Rightarrow> ms_model_id m \<noteq> p)"

definition model_resolve :: "model_request \<Rightarrow> 'w model_gateway \<Rightarrow> py_exn + 'w model_spec \<times> bool" where
  "model_resolve q g =
     (case List.find (within_budget q) (model_candidates q g) of
        Some m \<Rightarrow> Inr (m, fallback_used q g m)
      | None \<Rightarrow> Inl (Exn (OtherException ''ModelGatewayError'')
                  (''No healthy model satisfies capability='' @ py_repr_str (mq_capability q) @ '' and budget'')))"

definition model_invoke ::
  "(nat \<Rightarrow> rat) \<Rightarrow> model_request \<Rightarrow> 'w model_gateway \<Rightarrow> (nat \<times> 'w, model_response) em" where
  "model_invoke monotonic q g =
     ebind (elift (model_resolve q g)) (\<lambda>(m, fallback) (n, w).
       case ms_generate m (ms_model_id m) (mq_prompt q) (mq_max_tokens q) w of
         (Inl e, w') \<Rightarrow> (Inl e, (Suc n, w'))
       | (Inr out, w') \<Rightarrow>
           (Inr \<lparr>mp_model_id = ms_model_id m, mp_version = ms_version m, mp_output = out,
                 mp_latency_ms = fl (fl (monotonic (Suc n) - monotonic n) * 1000), mp_estimated_cost = estimated_cost q m,
                 mp_fallback_used = fallback\<rparr>, (Suc (Suc n), w')))"

section \<open>The knowledge world\<close>

record world_entity =
  we_entity_id :: string
  we_entity_type :: string
  we_attributes :: pydict
  we_version :: int

record world_fact =
  wo_fact_id :: string
  wo_subject_id :: string
  wo_predicate :: string
  wo_object :: json_text
  wo_source :: string
  wo_confidence :: rat
  wo_version :: int
  wo_observed_at :: string

record knowledge_world =
  kw_entities :: "(string \<times> string \<times> json_text \<times> int) list"
  kw_facts :: "world_fact list"

definition world_upsert :: "string \<Rightarrow> string \<Rightarrow> pydict \<Rightarrow> knowledge_world \<Rightarrow> world_entity \<times> knowledge_world" where
  "world_upsert eid ty attrs w =
     (let version = (case map_of (kw_entities w) eid of None \<Rightarrow> 1 | Some (_, _, v) \<Rightarrow> v + 1)
      in (\<lparr>we_entity_id = eid, we_entity_type = ty, we_attributes = attrs, we_version = version\<rparr>,
          w\<lparr>kw_entities := AList.update eid (ty, json_dumps (PDict attrs), version) (kw_entities w)\<rparr>))"

definition about :: "string \<Rightarrow> string \<Rightarrow> world_fact \<Rightarrow> bool" where
  "about subj pred f \<longleftrightarrow> wo_subject_id f = subj \<and> wo_predicate f = pred"

definition fact_name :: "string \<Rightarrow> string \<Rightarrow> int \<Rightarrow> string" where
  "fact_name subj pred v = subj @ '':'' @ pred @ '':'' @ int_str v"

definition world_assert ::
  "string \<Rightarrow> string \<Rightarrow> string \<Rightarrow> pyval \<Rightarrow> string \<Rightarrow> rat \<Rightarrow> knowledge_world \<Rightarrow> py_exn + world_fact \<times> knowledge_world" where
  "world_assert now subj pred v source confidence w =
     (if source = [] then Inl (Exn ValueError ''fact provenance source is required'')
      else if \<not> (0 \<le> confidence \<and> confidence \<le> 1) then Inl (Exn ValueError ''confidence must be between 0 and 1'')
      else let version = newest (map wo_version (filter (about subj pred) (kw_facts w))) + 1;
               f = \<lparr>wo_fact_id = fact_name subj pred version, wo_subject_id = subj, wo_predicate = pred, wo_object = json_dumps v,
                    wo_source = source, wo_confidence = confidence, wo_version = version, wo_observed_at = now\<rparr>
           in if wo_fact_id f \<in> set (map wo_fact_id (kw_facts w))
              then Inl (Exn (OtherException ''IntegrityError'') ''UNIQUE constraint failed: world_facts.fact_id'')
              else Inr (f, w\<lparr>kw_facts := kw_facts w @ [f]\<rparr>))"

definition world_facts :: "string \<Rightarrow> string option \<Rightarrow> knowledge_world \<Rightarrow> world_fact list" where
  "world_facts subj pred w =
     sort_key wo_version (filter (\<lambda>f. wo_subject_id f = subj \<and> (case pred of None \<Rightarrow> True | Some p \<Rightarrow> wo_predicate f = p)) (kw_facts w))"

definition world_query :: "string \<Rightarrow> pyval \<Rightarrow> knowledge_world \<Rightarrow> world_fact list" where
  "world_query pred v w =
     filter (\<lambda>f. py_eq (json_loads (wo_object f)) v) (sort_key wo_observed_at (filter (\<lambda>f. wo_predicate f = pred) (kw_facts w)))"

section \<open>The rollout controller\<close>

record controlled_rollout =
  cz_candidate :: string
  cz_state :: string
  cz_canary :: canary_decision
  cz_evidence_ids :: "string list"

definition evaluate_and_rollout ::
  "environ \<Rightarrow> digest \<Rightarrow> 'd deployment_adapter \<Rightarrow> canary_controller \<Rightarrow> subject \<Rightarrow> string \<Rightarrow> string \<Rightarrow> string \<Rightarrow> int \<Rightarrow> int \<Rightarrow> int \<Rightarrow> rat \<Rightarrow> rat list
   \<Rightarrow> ('d prod_world, controlled_rollout) em" where
  "evaluate_and_rollout env dig da cn s candidate environment previous traffic successes tot latency measurements =
     (let rid = rollout_id candidate environment
      in eseq (ledger_note env dig rid ''rollout.canary.started''
                [(''candidate'', PStr candidate), (''traffic_percent'', PInt traffic)])
         (ebind (elift (canary_decide cn candidate traffic successes tot latency)) (\<lambda>d.
          let measured = [(''success_rate'', PFloat (cy_success_rate d)), (''latency_ms'', PFloat latency)]
          in if \<not> cy_passed d
             then eseq (ledger_note env dig rid ''rollout.canary.failed'' measured)
                  (ebind (rollback env dig da s previous environment) (\<lambda>rb.
                   ebind (events_ids rid) (\<lambda>ids.
                   eret \<lparr>cz_candidate = candidate, cz_state = ''ROLLED_BACK'', cz_canary = d,
                         cz_evidence_ids = ids @ dp_evidence_ids rb\<rparr>)))
             else eseq (ledger_note env dig rid ''rollout.canary.passed'' measured)
                  (eseq (activate env dig da s candidate environment (Some previous))
                  (eseq (ledger_note env dig rid ''rollout.promoted''
                           [(''candidate'', PStr candidate), (''measurements'', PList (map PFloat measurements))])
                  (ebind (events_ids rid) (\<lambda>ids.
                   eret \<lparr>cz_candidate = candidate, cz_state = ''PROMOTED'', cz_canary = d, cz_evidence_ids = ids\<rparr>)))))))"

section \<open>Connectors\<close>

record connector_request =
  ct_operation :: string
  ct_url :: string
  ct_payload :: "pydict option"
  ct_timeout_seconds :: rat
  ct_max_retries :: int

record connector_response =
  cp_status_code :: int
  cp_payload :: pyval
  cp_attempts :: int

abbreviation ConnectorError :: exn_class where
  "ConnectorError \<equiv> OtherException ''ConnectorError''"

text \<open>
  One pass through the \<open>try\<close>: the transport, then the evidence. The duration is left out of the response; \<open>sleep\<close>
  changes nothing here.
\<close>

definition connector_try ::
  "(string \<Rightarrow> pydict option \<Rightarrow> rat \<Rightarrow> ('w, int \<times> pyval) em) \<Rightarrow> (string \<Rightarrow> string \<Rightarrow> pydict \<Rightarrow> ('w, unit) em) option \<Rightarrow>
   connector_request \<Rightarrow> int \<Rightarrow> ('w, connector_response) em" where
  "connector_try transport evidence q n =
     ebind (transport (ct_url q) (ct_payload q) (ct_timeout_seconds q)) (\<lambda>(status, payload).
     eseq (case evidence of
             None \<Rightarrow> eret ()
           | Some sink \<Rightarrow> sink ''connector'' ''connector.completed''
               [(''operation'', PStr (ct_operation q)), (''status'', PInt status), (''attempts'', PInt n)])
     (eret \<lparr>cp_status_code = status, cp_payload = payload, cp_attempts = n\<rparr>))"

fun connector_attempts ::
  "(int \<Rightarrow> ('w, connector_response) em) \<Rightarrow> nat \<Rightarrow> int \<Rightarrow> py_exn option \<Rightarrow> ('w, connector_response) em" where
  "connector_attempts try_once 0 n err =
     eraise (Exn ConnectorError (''connector failed after '' @ int_str n @ '' attempts: ''
        @ (case err of None \<Rightarrow> ''None'' | Some e \<Rightarrow> exn_str e)))"
| "connector_attempts try_once (Suc k) n err =
     etry (try_once (n + 1)) (\<lambda>e. connector_attempts try_once k (n + 1) (Some e))"

definition connector_send ::
  "(string \<Rightarrow> bool) \<Rightarrow> (string \<Rightarrow> pydict option \<Rightarrow> rat \<Rightarrow> ('w, int \<times> pyval) em) \<Rightarrow>
   (string \<Rightarrow> string \<Rightarrow> pydict \<Rightarrow> ('w, unit) em) option \<Rightarrow> connector_request \<Rightarrow> ('w, connector_response) em" where
  "connector_send bracket_ok transport evidence q =
     ebind (elift (urlparse bracket_ok (ct_url q))) (\<lambda>u.
     if up_scheme u \<noteq> ''https'' then eraise (Exn ConnectorError ''external connectors require HTTPS'')
     else connector_attempts (connector_try transport evidence q) (nat (ct_max_retries q + 1)) 0 None)"

end
