(* ===== verification/Services_Properties.thy ===== *)
theory Services_Properties
  imports Production_Services Production_Properties "HOL-Library.Multiset"
begin

text \<open>
  Properties of the production services: certificates of the loop, the choice of a model, the versions of facts,
  approved deployments, bounded connectors and controlled rollouts.
\<close>

section \<open>Certificates\<close>

lemma check_artifacts_Inr:
  "check_artifacts tenant xid as = Inr () \<longleftrightarrow>
     (\<forall>a \<in> set as. la_tenant_id a = tenant \<and> la_execution_id a = xid \<and> length (la_payload_hash a) = 64 \<and> la_stage a \<in> set loop_stages)"
  by (induction as) auto

lemma mset_staged:
  "distinct ss \<Longrightarrow> mset (concat (map (\<lambda>s. sort_key f (filter (\<lambda>a. g a = s) as)) ss)) = filter_mset (\<lambda>a. g a \<in> set ss) (mset as)"
proof (induction ss)
  case (Cons s ss)
  have "filter_mset (\<lambda>a. g a = s) (mset as) + filter_mset (\<lambda>a. g a \<in> set ss) (mset as) = filter_mset (\<lambda>a. g a \<in> set (s # ss)) (mset as)"
    using Cons.prems by (induction as) auto
  then show ?case using Cons by simp
qed simp

lemma loop_stages_distinct: "distinct loop_stages"
  by (simp add: loop_stages_def)

lemma ordered_artifacts_mset:
  assumes "\<forall>a \<in> set as. la_stage a \<in> set loop_stages"
  shows "mset (ordered_artifacts as) = mset as"
proof -
  have "filter_mset (\<lambda>a. la_stage a \<in> set loop_stages) (mset as) = mset as"
    using assms by (simp add: filter_mset_eq_conv)
  then show ?thesis using mset_staged [OF loop_stages_distinct, of la_artifact_id la_stage as]
    by (simp add: ordered_artifacts_def at_stage_def)
qed

lemma ordered_artifacts_perm:
  assumes "mset bs = mset as" and "distinct (map (\<lambda>a. (la_stage a, la_artifact_id a)) as)"
  shows "ordered_artifacts bs = ordered_artifacts as"
proof -
  have "sort_key la_artifact_id (at_stage s bs) = sort_key la_artifact_id (at_stage s as)" for s
  proof (rule sort_key_inj_key_eq)
    show m: "mset (at_stage s bs) = mset (sort_key la_artifact_id (at_stage s as))"
      using assms(1) by (simp add: at_stage_def)
    have "inj_on (\<lambda>a. (la_stage a, la_artifact_id a)) (set bs)"
      using assms by (metis distinct_map set_mset_mset)
    then show "inj_on la_artifact_id (set (at_stage s bs))"
      by (auto simp: at_stage_def inj_on_def)
  qed simp
  then show ?thesis by (simp add: ordered_artifacts_def)
qed

section \<open>Models\<close>

lemma find_sorted_least:
  assumes "List.find p xs = Some m" and "sorted (map f xs)" and "x \<in> set xs" and "p x"
  shows "f m \<le> f x"
proof -
  obtain i where i: "i < length xs" "p (xs ! i)" "m = xs ! i" "\<forall>j < i. \<not> p (xs ! j)"
    using assms(1) by (auto simp: find_Some_iff)
  obtain j where "j < length xs" "x = xs ! j" using assms(3) by (auto simp: in_set_conv_nth)
  moreover from this have "i \<le> j" using i(4) assms(4) by (meson leI)
  ultimately show ?thesis using sorted_nth_mono [OF assms(2), of i j] i by simp
qed

definition eligible :: "model_request \<Rightarrow> 'w model_gateway \<Rightarrow> 'w model_spec \<Rightarrow> bool" where
  "eligible q g m \<longleftrightarrow> serves q m \<and>
     (\<exists>e \<in> set (registry_snapshot (mg_registry g)). re_value e = m \<and> map_of (mg_health g) (re_id e, re_version e) = Some True)"

lemma model_candidates_set: "set (model_candidates q g) = {m. eligible q g m}"
  by (auto simp: model_candidates_def Let_def eligible_def serves_def split: option.splits)

lemma model_candidates_sorted: "sorted (map ms_priority (model_candidates q g))"
  by (simp add: model_candidates_def Let_def)

section \<open>Facts\<close>

type_synonym assertion = "string \<times> string \<times> string \<times> pyval \<times> string \<times> rat"

fun assert_effect :: "assertion \<Rightarrow> knowledge_world \<Rightarrow> knowledge_world" where
  "assert_effect (now, subj, pred, v, source, c) w =
     (case world_assert now subj pred v source c w of Inl _ \<Rightarrow> w | Inr (_, w') \<Rightarrow> w')"

definition versioned :: "knowledge_world \<Rightarrow> bool" where
  "versioned w \<longleftrightarrow> (\<forall>s p. map wo_version (filter (about s p) (kw_facts w)) = map int [1..<Suc (length (filter (about s p) (kw_facts w)))])"

lemma foldr_max_start: "(0 :: int) \<le> k \<Longrightarrow> foldr max vs k = max k (foldr max vs 0)"
  by (induction vs) auto

lemma newest_snoc: "0 \<le> v \<Longrightarrow> newest (vs @ [v]) = max v (newest vs)"
  using foldr_max_start [of v vs] by (simp add: newest_def)

lemma newest_upto: "newest (map int [1..<Suc n]) = int n"
proof (induction n)
  case (Suc n)
  have "newest (map int [1..<Suc (Suc n)]) = newest (map int [1..<Suc n] @ [int (Suc n)])" by simp
  also have "\<dots> = max (int (Suc n)) (newest (map int [1..<Suc n]))" by (rule newest_snoc) simp
  also have "\<dots> = int (Suc n)" by (simp only: Suc.IH)
  finally show ?case .
qed (simp add: newest_def)

lemma assert_effect_facts:
  "kw_facts (assert_effect a w) = kw_facts w \<or>
   (\<exists>f. kw_facts (assert_effect a w) = kw_facts w @ [f] \<and>
      wo_version f = newest (map wo_version (filter (about (wo_subject_id f) (wo_predicate f)) (kw_facts w))) + 1)"
  by (cases a) (auto simp: world_assert_def Let_def split: sum.splits if_splits)

lemma assert_effect_versioned:
  assumes "versioned w"
  shows "versioned (assert_effect a w)"
  using assert_effect_facts [of a w]
proof
  assume "\<exists>f. kw_facts (assert_effect a w) = kw_facts w @ [f] \<and>
      wo_version f = newest (map wo_version (filter (about (wo_subject_id f) (wo_predicate f)) (kw_facts w))) + 1"
  then obtain f where f: "kw_facts (assert_effect a w) = kw_facts w @ [f]"
    "wo_version f = newest (map wo_version (filter (about (wo_subject_id f) (wo_predicate f)) (kw_facts w))) + 1" by blast
  have "wo_version f = int (length (filter (about (wo_subject_id f) (wo_predicate f)) (kw_facts w))) + 1"
    using assms f(2) newest_upto by (simp add: versioned_def)
  moreover have "about s p f \<longleftrightarrow> s = wo_subject_id f \<and> p = wo_predicate f" for s p by (auto simp: about_def)
  ultimately show ?thesis using assms by (auto simp: versioned_def f(1))
qed (use assms in \<open>simp add: versioned_def\<close>)

lemma assert_run:
  "versioned w \<Longrightarrow> versioned (fold assert_effect as w) \<and> prefix (kw_facts w) (kw_facts (fold assert_effect as w))"
proof (induction as arbitrary: w)
  case (Cons a as)
  have "prefix (kw_facts w) (kw_facts (assert_effect a w))" using assert_effect_facts [of a w] by auto
  then show ?case using Cons.IH [OF assert_effect_versioned [OF Cons.prems, of a]] by (auto intro: prefix_order.trans)
qed simp

section \<open>Deployments\<close>

datatype release_call =
    Deploy uuid string string "string option" "string list"
  | Rollback uuid string "string option" "string list"

fun release_effect :: "release_call \<Rightarrow> deployments \<Rightarrow> deployments" where
  "release_effect (Deploy i v e a ev) d = (case deploy_version i v e a ev d of Inl _ \<Rightarrow> d | Inr (_, d') \<Rightarrow> d')"
| "release_effect (Rollback i e a ev) d = (case rollback_version i e a ev d of Inl _ \<Rightarrow> d | Inr (_, d') \<Rightarrow> d')"

definition last_version :: "version_record list \<Rightarrow> string option" where
  "last_version h = (if h = [] then None else Some (vr_version (last h)))"

definition linked :: "version_record list \<Rightarrow> bool" where
  "linked h \<longleftrightarrow> (\<forall>i < length h. vr_previous_version (h ! i) = last_version (take i h))"

definition releases_ok :: "deployments \<Rightarrow> bool" where
  "releases_ok d \<longleftrightarrow>
     (\<forall>r \<in> set (dc_records d). \<not> blank_opt (vr_approved_by r) \<and> vr_evidence r \<noteq> []) \<and>
     (\<forall>e. map_of (dc_current d) e = last_version (deployment_history e d) \<and> linked (deployment_history e d))"

lemma linked_snoc: "linked (h @ [r]) \<longleftrightarrow> linked h \<and> vr_previous_version r = last_version h"
  by (auto simp: linked_def nth_append less_Suc_eq)

lemma history_snoc:
  "deployment_history e (d\<lparr>dc_current := c, dc_records := dc_records d @ [r]\<rparr>) =
     (if vr_environment r = e then deployment_history e d @ [r] else deployment_history e d)"
  by (simp add: deployment_history_def)

lemma last_version_snoc: "last_version (h @ [r]) = Some (vr_version r)"
  by (simp add: last_version_def)

lemma release_recorded:
  assumes "releases_ok d" and "\<not> blank_opt (vr_approved_by r)" and "vr_evidence r \<noteq> []"
    and "vr_previous_version r = map_of (dc_current d) (vr_environment r)"
  shows "releases_ok (d\<lparr>dc_current := AList.update (vr_environment r) (vr_version r) (dc_current d), dc_records := dc_records d @ [r]\<rparr>)"
  using assms by (auto simp: releases_ok_def history_snoc linked_snoc last_version_snoc update_conv')

lemma release_effect_ok: "releases_ok d \<Longrightarrow> releases_ok (release_effect c d)"
proof (cases c)
  case (Deploy i v e a ev)
  define r where "r = \<lparr>vr_deployment_id = i, vr_version = v, vr_environment = e, vr_previous_version = map_of (dc_current d) e,
     vr_state = ''active'', vr_approved_by = a, vr_evidence = ev\<rparr>"
  assume "releases_ok d"
  then show ?thesis using Deploy release_recorded [of d r] by (auto simp: deploy_version_def Let_def r_def)
next
  case (Rollback i e a ev)
  assume ok: "releases_ok d"
  show ?thesis
  proof (cases "previous_version e d")
    case None
    then show ?thesis using ok Rollback by (simp add: rollback_version_def)
  next
    case (Some v)
    define r where "r = \<lparr>vr_deployment_id = i, vr_version = v, vr_environment = e, vr_previous_version = map_of (dc_current d) e,
       vr_state = ''rolled_back'', vr_approved_by = a, vr_evidence = ev\<rparr>"
    show ?thesis using ok Some Rollback release_recorded [of d r] by (auto simp: rollback_version_def Let_def r_def)
  qed
qed

lemma release_run_ok: "releases_ok d \<Longrightarrow> releases_ok (fold release_effect cs d)"
  by (induction cs arbitrary: d) (auto simp: release_effect_ok)

section \<open>Connectors\<close>

definition run_tries :: "(int \<Rightarrow> ('w, 'a) em) \<Rightarrow> nat \<Rightarrow> 'w \<Rightarrow> 'w" where
  "run_tries f k w = fold (\<lambda>i w. snd (f (int i) w)) [1..<Suc k] w"

lemma connector_attempts_effect:
  assumes "connector_attempts f n (int j) err w = (r, w')"
    and "\<forall>i v x v'. f i v = (Inr x, v') \<longrightarrow> cp_attempts x = i"
  shows "\<exists>k \<le> n. w' = fold (\<lambda>i w. snd (f (int i) w)) [Suc j..<Suc (j + k)] w \<and>
    (case r of Inr x \<Rightarrow> 0 < k \<and> cp_attempts x = int (j + k) | Inl e \<Rightarrow> k = n)"
  using assms(1)
proof (induction n arbitrary: j err w)
  case 0
  then show ?case by (auto simp: em_simps)
next
  case (Suc n)
  obtain r1 w1 where f: "f (int j + 1) w = (r1, w1)" by fastforce
  show ?case
  proof (cases r1)
    case (Inr x)
    then have "r = Inr x \<and> w' = w1" using Suc.prems f by (auto simp: em_simps)
    then show ?thesis using f Inr assms(2) by (intro exI [of _ 1]) (auto simp: add.commute)
  next
    case (Inl e)
    then have "connector_attempts f n (int (Suc j)) (Some e) w1 = (r, w')" using Suc.prems f by (auto simp: em_simps add.commute)
    from Suc.IH [OF this] obtain k where k: "k \<le> n" "w' = fold (\<lambda>i w. snd (f (int i) w)) [Suc (Suc j)..<Suc (Suc j + k)] w1"
      "case r of Inr x \<Rightarrow> 0 < k \<and> cp_attempts x = int (Suc j + k) | Inl e \<Rightarrow> k = n" by blast
    have "[Suc j..<Suc (j + Suc k)] = Suc j # [Suc (Suc j)..<Suc (Suc j + k)]" by (simp add: upt_rec)
    then have "w' = fold (\<lambda>i w. snd (f (int i) w)) [Suc j..<Suc (j + Suc k)] w" using k(2) f by (simp add: add.commute)
    then show ?thesis using k by (intro exI [of _ "Suc k"]) (auto split: sum.splits)
  qed
qed

lemma connector_try_attempts: "connector_try tr ev q i v = (Inr x, v') \<Longrightarrow> cp_attempts x = i"
  by (auto simp: connector_try_def em_simps split: option.splits prod.splits sum.splits)

section \<open>What the services promise\<close>

text \<open>
  A loop certificate is exact: it lists the given artifacts and no other, all of the certified tenant and
  execution, it reads verified exactly when every stage of the loop has an artifact, and with distinct names per
  stage the order in which the artifacts were handed over does not change it.
\<close>

theorem loop_certificate_exact:
  assumes "certify sha now cid tenant xid as = Inr c"
  shows "mset (lc_artifacts c) = mset as \<and>
    (\<forall>a \<in> set as. la_tenant_id a = lc_tenant_id c \<and> la_execution_id a = lc_execution_id c) \<and>
    (lc_status c = ''production_verified'' \<longleftrightarrow> set loop_stages \<subseteq> la_stage ` set as) \<and>
    (\<forall>bs. mset bs = mset as \<and> distinct (map (\<lambda>a. (la_stage a, la_artifact_id a)) as) \<longrightarrow>
       certify sha now cid tenant xid bs = Inr c)"
proof -
  have ok: "\<forall>a \<in> set as. la_tenant_id a = tenant \<and> la_execution_id a = xid \<and> length (la_payload_hash a) = 64 \<and> la_stage a \<in> set loop_stages"
    and c: "lc_artifacts c = ordered_artifacts as" "lc_tenant_id c = tenant" "lc_execution_id c = xid"
      "lc_status c = (if list_all (\<lambda>s. at_stage s as \<noteq> []) loop_stages then ''production_verified'' else ''rejected'')"
    using assms by (auto simp: certify_def check_artifacts_Inr rbind_Inr split: if_splits)
  have stages: "list_all (\<lambda>s. at_stage s xs \<noteq> []) loop_stages \<longleftrightarrow> set loop_stages \<subseteq> la_stage ` set xs" for xs
    by (auto simp: at_stage_def list_all_iff filter_empty_conv)
  have "certify sha now cid tenant xid bs = Inr c"
    if bs: "mset bs = mset as" "distinct (map (\<lambda>a. (la_stage a, la_artifact_id a)) as)" for bs
  proof -
    have "set bs = set as" using bs(1) by (metis set_mset_mset)
    then have "check_artifacts tenant xid bs = check_artifacts tenant xid as"
      using ok check_artifacts_Inr [of tenant xid as] check_artifacts_Inr [of tenant xid bs] by simp
    moreover have "list_all (\<lambda>s. at_stage s bs \<noteq> []) loop_stages = list_all (\<lambda>s. at_stage s as \<noteq> []) loop_stages"
      by (simp only: stages \<open>set bs = set as\<close>)
    ultimately have "certify sha now cid tenant xid bs = certify sha now cid tenant xid as"
      by (simp only: certify_def ordered_artifacts_perm [OF bs])
    then show ?thesis using assms by simp
  qed
  moreover have "mset (lc_artifacts c) = mset as" using ok c(1) ordered_artifacts_mset by simp
  ultimately show ?thesis using ok c stages [of as] by auto
qed

definition sample_artifacts :: "loop_artifact list" where
  "sample_artifacts = [artifact_create (\<lambda>_. replicate 64 CHR ''a'') 0 ''evidence'' ''e1'' ''t'' PNone ''r'' ''x'' None,
     artifact_create (\<lambda>_. replicate 64 CHR ''a'') 0 ''source'' ''s1'' ''t'' PNone ''r'' ''x'' (Some 3)]"

theorem loop_certificate_exact_witness:
  "\<exists>c. certify id 9 ''c'' ''t'' ''x'' sample_artifacts = Inr c \<and> lc_status c \<noteq> ''production_verified'' \<and>
     certify id 9 ''c'' ''t'' ''x'' (rev sample_artifacts) = Inr c"
proof -
  obtain c where c: "certify id 9 ''c'' ''t'' ''x'' sample_artifacts = Inr c"
    by (simp add: certify_def sample_artifacts_def artifact_create_def loop_stages_def em_simps)
  have "\<not> set loop_stages \<subseteq> la_stage ` set sample_artifacts"
    by (auto simp: loop_stages_def sample_artifacts_def artifact_create_def)
  moreover have "distinct (map (\<lambda>a. (la_stage a, la_artifact_id a)) sample_artifacts)"
    by (simp add: sample_artifacts_def artifact_create_def)
  ultimately show ?thesis using c loop_certificate_exact [OF c] by simp
qed

text \<open>
  The gateway serves a request with a registered, healthy model that has the capability, the token limit and
  the budget, of the least priority number among all such models, and it fails exactly when there is none.
\<close>

theorem model_resolve_optimal:
  "case model_resolve q g of
     Inr (m, _) \<Rightarrow> eligible q g m \<and> within_budget q m \<and>
       (\<forall>m'. eligible q g m' \<and> within_budget q m' \<longrightarrow> ms_priority m \<le> ms_priority m')
   | Inl _ \<Rightarrow> \<nexists>m. eligible q g m \<and> within_budget q m"
proof (cases "List.find (within_budget q) (model_candidates q g)")
  case None
  then have "\<nexists>m. m \<in> set (model_candidates q g) \<and> within_budget q m" by (auto simp: find_None_iff)
  then show ?thesis using None model_candidates_set [of q g] by (simp add: model_resolve_def)
next
  case (Some m)
  moreover from Some have "m \<in> set (model_candidates q g) \<and> within_budget q m" by (auto simp: find_Some_iff)
  ultimately show ?thesis
    using find_sorted_least [OF Some model_candidates_sorted] model_candidates_set [of q g] by (auto simp: model_resolve_def)
qed

text \<open>
  However assertions are made, the facts about a subject and predicate carry the versions 1, 2, 3 and so on in
  the order in which they were accepted, reading them back gives that order, and no later assertion changes or
  removes one.
\<close>

theorem fact_versions_consecutive:
  "let w = fold assert_effect as \<lparr>kw_entities = [], kw_facts = []\<rparr>; w' = fold assert_effect bs w
   in map wo_version (world_facts s (Some p) w) = map int [1..<Suc (length (world_facts s (Some p) w))] \<and>
      prefix (world_facts s (Some p) w) (world_facts s (Some p) w')"
proof -
  have read: "world_facts s (Some p) w = filter (about s p) (kw_facts w)" if "versioned w" for w
  proof -
    have "sorted (map wo_version (filter (about s p) (kw_facts w)))"
      using that by (simp add: versioned_def sorted_wrt_map strict_sorted_imp_sorted del: upt_Suc)
    then have "sort_key wo_version (filter (about s p) (kw_facts w)) = filter (about s p) (kw_facts w)"
      by (simp add: sort_key_id_if_sorted)
    moreover have "(\<lambda>f. wo_subject_id f = s \<and> wo_predicate f = p) = about s p" by (auto simp: about_def)
    ultimately show ?thesis by (simp add: world_facts_def)
  qed
  define w where "w = fold assert_effect as \<lparr>kw_entities = [], kw_facts = []\<rparr>"
  have "versioned \<lparr>kw_entities = [], kw_facts = []\<rparr>" by (simp add: versioned_def)
  then have w: "versioned w" unfolding w_def by (simp add: assert_run)
  have w': "versioned (fold assert_effect bs w)" "prefix (kw_facts w) (kw_facts (fold assert_effect bs w))"
    using assert_run [OF w, of bs] by simp_all
  show ?thesis unfolding Let_def w_def [symmetric] read [OF w] read [OF w'(1)]
    using w w'(2) by (auto simp: versioned_def prefix_def simp del: upt_Suc)
qed

text \<open>
  Through any sequence of deployments and rollbacks every recorded release has an approver and evidence, the
  current version of an environment is that of its last release, and each release names the version it replaced.
\<close>

theorem every_release_is_approved:
  "let d = fold release_effect cs \<lparr>dc_current = [], dc_records = []\<rparr>; h = deployment_history e d
   in (\<forall>r \<in> set h. \<not> blank_opt (vr_approved_by r) \<and> vr_evidence r \<noteq> []) \<and>
      map_of (dc_current d) e = last_version h \<and>
      (\<forall>i < length h. vr_previous_version (h ! i) = last_version (take i h))"
proof -
  have "releases_ok \<lparr>dc_current = [], dc_records = []\<rparr>"
    by (simp add: releases_ok_def deployment_history_def last_version_def linked_def)
  then have "releases_ok (fold release_effect cs \<lparr>dc_current = [], dc_records = []\<rparr>)" by (rule release_run_ok)
  then show ?thesis by (auto simp: releases_ok_def linked_def Let_def deployment_history_def)
qed

text \<open>
  A connector makes at most one call more than its retries, one after the other; the response carries the number
  of calls made, and the failure is raised only after all of them failed.
\<close>

theorem connector_retries_bounded:
  assumes "connector_send bracket_ok transport evidence q w = (r, w')"
  shows "\<exists>k \<le> nat (ct_max_retries q + 1).
    w' = run_tries (connector_try transport evidence q) k w \<and>
    (case r of Inr x \<Rightarrow> 0 < k \<and> cp_attempts x = int k
     | Inl e \<Rightarrow> k = 0 \<or> k = nat (ct_max_retries q + 1))"
proof (cases "\<exists>u. urlparse bracket_ok (ct_url q) = Inr u \<and> up_scheme u = ''https''")
  case True
  then have "connector_attempts (connector_try transport evidence q) (nat (ct_max_retries q + 1)) (int 0) None w = (r, w')"
    using assms by (auto simp: connector_send_def em_simps)
  note effect = connector_attempts_effect [OF this]
  have "\<forall>i v x v'. connector_try transport evidence q i v = (Inr x, v') \<longrightarrow> cp_attempts x = i"
    by (blast intro: connector_try_attempts)
  from effect [OF this] obtain k where
    "k \<le> nat (ct_max_retries q + 1)" "w' = run_tries (connector_try transport evidence q) k w"
    "case r of Inr x \<Rightarrow> 0 < k \<and> cp_attempts x = int k | Inl e \<Rightarrow> k = nat (ct_max_retries q + 1)"
    unfolding run_tries_def add_0 One_nat_def by blast
  then show ?thesis by (intro exI [of _ k]) (auto split: sum.splits)
next
  case False
  then have "isl r \<and> w' = w" using assms by (auto simp: connector_send_def em_simps split: sum.splits)
  then show ?thesis by (intro exI [of _ 0]) (auto simp: run_tries_def split: sum.splits)
qed

definition sample_model :: "string \<Rightarrow> int \<Rightarrow> rat \<Rightarrow> unit model_spec" where
  "sample_model i p c = \<lparr>ms_model_id = i, ms_version = ''1'', ms_generate = (\<lambda>_ _ _. eret PNone), ms_capabilities = [''chat''],
     ms_priority = p, ms_cost_per_1k_tokens = c, ms_max_tokens = 8000, ms_healthy = True\<rparr>"

definition sample_gateway :: "unit model_gateway" where
  "sample_gateway =
     (case rbind (gateway_register (sample_model ''fast'' 1 0) \<lparr>mg_registry = [], mg_health = []\<rparr>)
                 (gateway_register (sample_model ''wanted'' 2 0)) of Inr g \<Rightarrow> g)"

definition sample_model_request :: model_request where
  "sample_model_request = \<lparr>mq_capability = ''chat'', mq_prompt = [], mq_max_tokens = 100, mq_budget = None, mq_preferred_model = Some ''wanted''\<rparr>"

section \<open>Where the services fall short\<close>

text \<open>The preferred model is moved to the front and then sorted by priority, so a lower priority number wins over it.\<close>

lemma preference_is_lost:
  "map ms_model_id (model_candidates sample_model_request sample_gateway) = [''fast'', ''wanted'']"
  by code_simp

text \<open>A canary that was rolled back still routes its share of the subjects to the candidate.\<close>

lemma rolled_back_canary_routes:
  "rbind (canary_start ''r'' ''v1'' ''v2'' 50 []) (\<lambda>t.
   rbind (canary_gate ''r'' 0 9 1 2 (Some ''ops'') t) (\<lambda>(s, t).
   rbind (canary_assign (\<lambda>_. 7) ''r'' ''user'' t) (\<lambda>v. Inr (s, v)))) = Inr (''rolled_back'', ''v2'')"
  by code_simp

text \<open>Rolling back twice goes forward again: the second rollback picks the version the first one left.\<close>

definition release_twice :: "release_call list" where
  "release_twice = [Deploy ''1'' ''v1'' ''prod'' (Some ''ops'') [''e''], Deploy ''2'' ''v2'' ''prod'' (Some ''ops'') [''e'']]"

definition roll_back :: release_call where
  "roll_back = Rollback ''3'' ''prod'' (Some ''ops'') [''e'']"

lemma second_rollback_goes_forward:
  "map (\<lambda>n. map_of (dc_current (fold release_effect (release_twice @ replicate n roll_back) \<lparr>dc_current = [], dc_records = []\<rparr>)) ''prod'')
     [0, 1, 2] = [Some ''v2'', Some ''v1'', Some ''v2'']"
  by code_simp

text \<open>A completed job is claimed again, and its result is replaced.\<close>

lemma completed_job_claimed_again:
  "(let c = snd (coordinator_claim 0 ''j'' ''a'' 60 \<lparr>cr_jobs = [], cr_leases = []\<rparr>)
    in rbind (coordinator_complete ''j'' ''a'' (PInt 1) c) (\<lambda>c.
       case coordinator_claim 1 ''j'' ''b'' 60 c of
         (None, _) \<Rightarrow> Inr PNone
       | (Some _, c) \<Rightarrow> rbind (coordinator_complete ''j'' ''b'' (PInt 2) c) (\<lambda>c. Inr (coordinator_result ''j'' c)))) = Inr (PInt 2)"
  by code_simp

text \<open>Facts of two different subjects collide when the colon of their names falls elsewhere; the second is refused.\<close>

lemma fact_names_collide: "fact_name ''a:b'' ''c'' v = fact_name ''a'' ''b:c'' v"
  by (simp add: fact_name_def)

text \<open>
  The evidence is recorded inside the retried block: when recording fails the call, which succeeded, is made again.
  The world counts the calls; recording always fails.
\<close>

lemma evidence_failure_repeats_call:
  "snd (connector_send (\<lambda>_. True) (\<lambda>_ _ _ n. (Inr (200, PNone), n + 1)) (Some (\<lambda>_ _ _. eraise (Exn RuntimeError ''ledger'')))
     \<lparr>ct_operation = ''pay'', ct_url = ''https://bank'', ct_payload = None, ct_timeout_seconds = 1, ct_max_retries = 2\<rparr> (0 :: nat)) = 3"
  by code_simp

end
