(* ===== verification/Integrated_Control.thy ===== *)
theory Integrated_Control
  imports Kernel_Supervisor Source_Pipeline
begin

text \<open>
  The request side of the control plane: \<^verbatim>\<open>request.py\<close>, \<^verbatim>\<open>controller.py\<close>, \<^verbatim>\<open>execution.py\<close> (the integrated execution of one
  capability over the orchestrator, the supervisor and the recovery policy) and \<^verbatim>\<open>source_configuration.py\<close> of
  \<^verbatim>\<open>ois/control_plane\<close>. The loop of the integrated execution need not end by its own text: it is a
  \<open>partial_function (option)\<close>, and that it ends is shown in \<open>Integrated_Properties\<close>.
\<close>

section \<open>Requests\<close>

record control_request =
  cq_capability_id :: string
  cq_capability_version :: string
  cq_input :: pydict

text \<open>
  A registered capability has a method \<open>invoke\<close> and is not itself callable, so that method is what is resolved.
\<close>

definition resolve_capability :: "capability_registry \<Rightarrow> control_request \<Rightarrow> py_exn + invoke_fn" where
  "resolve_capability reg q =
     rbind (capability_get (cq_capability_id q) (cq_capability_version q) reg) (\<lambda>e. Inr (cap_invoke (ce_capability e)))"

section \<open>The integrated execution\<close>

record ('c, 'i, 'e) integrated =
  ig_capabilities :: capability_registry
  ig_runtime :: "('c, 'i, 'e) runtime"
  ig_recovery :: recovery_policy
  ig_str :: "pyval \<Rightarrow> string"

definition build_single_capability_plan :: "('c, 'i, 'e) integrated \<Rightarrow> uuid \<Rightarrow> string \<Rightarrow> control_request \<Rightarrow> py_exn + execution_plan" where
  "build_single_capability_plan g fresh objective q =
     rbind (resolve_capability (ig_capabilities g) q) (\<lambda>_.
     rbind (builder_task ''primary'' (cq_capability_id q) (cq_capability_version q) (Some (cq_input q)) [] None (new_plan fresh objective))
       builder_build)"

definition integrated_context :: "environ \<Rightarrow> nat \<Rightarrow> string \<Rightarrow> string \<Rightarrow> pydict option \<Rightarrow> execution_plan \<Rightarrow> execution_context" where
  "integrated_context env n objective tenant md p =
     (new_context \<lparr>eid_execution_id = fresh_uuid env n, eid_tenant_id = tenant, eid_workflow_id = Some ''p0-integrated-spine'',
                   eid_workflow_version = Some ''1.0.0''\<rparr> objective (clock env (Suc n)) (clock env (Suc (Suc n))))
     \<lparr>ctx_metadata := (case md of None \<Rightarrow> [] | Some d \<Rightarrow> d),
      ctx_plan := Some [(''plan_id'', PStr (pl_plan_id p)), (''version'', PStr (pl_version p))]\<rparr>"

text \<open>\<open>FailureClass(raw)\<close>, with \<open>UNKNOWN\<close> for what is not a value of the enumeration.\<close>

definition task_failure_class :: "task_node \<Rightarrow> failure_class" where
  "task_failure_class t =
     (case tn_error t of
        None \<Rightarrow> FC_UNKNOWN
      | Some err \<Rightarrow>
         (case map_of err ''failure_class'' of
            Some (PStr s) \<Rightarrow> (case failure_class_of s of Some f \<Rightarrow> f | None \<Rightarrow> FC_UNKNOWN)
          | _ \<Rightarrow> FC_UNKNOWN))"

definition failure_request :: "string \<Rightarrow> failure_class \<Rightarrow> recovery_decision \<Rightarrow> supervision_request" where
  "failure_request objective fc preview =
     \<lparr>sr_objective = objective, sr_plan_validated = True, sr_authorized = True, sr_status = ''failed'', sr_failure = Some (FEnum fc),
      sr_retry_allowed = rd_retry_allowed preview, sr_recovery_allowed = (\<not> rd_terminal preview), sr_approval_required = False,
      sr_approval_granted = False\<rparr>"

definition decision_data :: "task_node \<Rightarrow> string \<Rightarrow> string \<Rightarrow> pydict" where
  "decision_data t action reason =
     [(''task_id'', PStr (tn_task_id t)), (''capability_id'', PStr (tn_capability_id t)), (''action'', PStr action), (''reason'', PStr reason)]"

text \<open>
  What the loop does with a failed task; the value says whether the task is to be run again. The two branches of the
  code for an action that is not \<open>STOP\<close> differ only in that value.
\<close>

definition supervise_failure :: "('c, 'i, 'e) integrated \<Rightarrow> string \<Rightarrow> task_node \<Rightarrow> (('c, 'i, 'e) world, bool) em" where
  "supervise_failure g objective t =
     (let rt = ig_runtime g; fc = task_failure_class t
      in ebind (eget w_ctx) (\<lambda>c.
         let s = decide (ig_str g) (failure_request objective fc (classify (ig_recovery g) (FEnum fc) c))
         in eseq (record_m rt ''execution.supervisor_decision'' (decision_data t (sd_action s) (sd_reason s)))
           (if sd_action s = ''stop''
            then eseq (status_m rt ES_STOPPED) (eseq (store_save rt) (eret False))
            else ebind (recovery_m (rt\<lparr>rt_recovery := ig_recovery g\<rparr>) fc) (\<lambda>d.
                 eseq (record_m rt ''execution.recovery_decision'' (decision_data t (rd_action d) (rd_reason d)))
                (eseq (store_save rt)
                (eret (sd_action s = ''retry'' \<and> rd_action d = ''retry'')))))))"

definition failed_task :: "execution_plan \<Rightarrow> (string \<times> task_node) option" where
  "failed_task p = List.find (\<lambda>(k, t). tn_status t = TS_FAILED) (pl_tasks p)"

definition reset_task :: "string \<Rightarrow> execution_plan \<Rightarrow> execution_plan" where
  "reset_task k p = update_task k (\<lambda>t. t\<lparr>tn_status := TS_PENDING, tn_error := None, tn_output := PNone\<rparr>) p"

partial_function (option) integrated_loop ::
  "('c, 'i, 'e) integrated \<Rightarrow> string \<Rightarrow> ('c, 'i, 'e) orch \<Rightarrow> ((py_exn + unit) \<times> ('c, 'i, 'e) orch) option" where
  "integrated_loop g objective s =
     Option.bind (execute_plan (ig_runtime g) s) (\<lambda>(r, (p, w)).
       case r of
         Inl e \<Rightarrow> Some (Inl e, (p, w))
       | Inr _ \<Rightarrow>
          if is_complete p \<or> \<not> has_failed p then Some (Inr (), (p, w))
          else (case failed_task p of
                  None \<Rightarrow> Some (Inr (), (p, w))
                | Some (k, t) \<Rightarrow>
                   (case supervise_failure g objective t w of
                      (Inl e, w') \<Rightarrow> Some (Inl e, (p, w'))
                    | (Inr again, w') \<Rightarrow>
                       if again then integrated_loop g objective (reset_task k p, w') else Some (Inr (), (p, w')))))"

declare integrated_loop.simps [code]

text \<open>\<open>execute\<close> returns the context, which is the world's.\<close>

definition integrated_execute ::
  "('c, 'i, 'e) integrated \<Rightarrow> string \<Rightarrow> control_request \<Rightarrow> string \<Rightarrow> pydict option \<Rightarrow> ('c, 'i, 'e) world \<Rightarrow>
     ((py_exn + execution_context) \<times> ('c, 'i, 'e) world) option" where
  "integrated_execute g objective q tenant md w =
     (let env = rt_env (ig_runtime g); n = w_tick w
      in case build_single_capability_plan g (fresh_uuid env n) objective q of
           Inl e \<Rightarrow> Some (Inl e, w)
         | Inr p \<Rightarrow>
            map_option (\<lambda>(r, (_, w')). (map_sum id (\<lambda>_. w_ctx w') r, w'))
              (integrated_loop g objective
                 (p, w\<lparr>w_ctx := integrated_context env (Suc n) objective tenant md p, w_tick := n + 4\<rparr>)))"

section \<open>The configuration of sources\<close>

record source_configuration =
  xf_tenant_id :: string
  xf_workspace_id :: string
  xf_source_id :: string
  xf_provider :: string
  xf_enabled :: bool
  xf_credential_id :: "string option"
  xf_settings :: "pydict option"

record configuration_service =
  xs_policies :: policy_store
  xs_configs :: "(source_key \<times> source_configuration) list"

definition config_key :: "source_configuration \<Rightarrow> source_key" where
  "config_key c = (xf_tenant_id c, xf_workspace_id c, xf_source_id c)"

definition config_upsert :: "source_configuration \<Rightarrow> configuration_service \<Rightarrow> source_configuration \<times> configuration_service" where
  "config_upsert c s =
     (let existing = map_of (xs_policies s) (config_key c);
          p = \<lparr>pp_tenant_id = xf_tenant_id c, pp_workspace_id = xf_workspace_id c, pp_source_id = xf_source_id c,
               pp_enabled = xf_enabled c,
               pp_allowed_event_types = (case existing of Some e \<Rightarrow> pp_allowed_event_types e | None \<Rightarrow> []),
               pp_allowed_operations = (case existing of Some e \<Rightarrow> pp_allowed_operations e | None \<Rightarrow> [''ingest'']),
               pp_require_credential = (xf_credential_id c \<noteq> None)\<rparr>
      in (c, \<lparr>xs_policies = source_policy_put p (xs_policies s),
              xs_configs = AList.update (config_key c) c (xs_configs s)\<rparr>))"

definition config_get :: "source_key \<Rightarrow> configuration_service \<Rightarrow> py_exn + source_configuration" where
  "config_get k s =
     (case map_of (xs_configs s) k of
        None \<Rightarrow> Inl (Exn KeyError (''source configuration not found: '' @ snd (snd k)))
      | Some c \<Rightarrow> Inr c)"

definition config_list :: "string \<Rightarrow> string \<Rightarrow> configuration_service \<Rightarrow> source_configuration list" where
  "config_list tenant workspace s =
     sort_key xf_source_id (map snd (filter (\<lambda>((t, w, _), _). t = tenant \<and> w = workspace) (xs_configs s)))"

definition config_disable :: "source_key \<Rightarrow> configuration_service \<Rightarrow> py_exn + source_configuration \<times> configuration_service" where
  "config_disable k s = rbind (config_get k s) (\<lambda>c. Inr (config_upsert (c\<lparr>xf_enabled := False\<rparr>) s))"

end
