(* ===== verification/Integrated_Properties.thy ===== *)
theory Integrated_Properties
  imports Integrated_Control Plan_Properties
begin

text \<open>
  What the integrated execution keeps and that it ends. A preorder on worlds that the runtime, its checkpoints and its
  completion respect is respected by a whole plan run (the locale \<open>plan_order\<close>) and so by the integrated execution.
\<close>

section \<open>Orders a plan run respects\<close>

locale plan_order = step_order R
  for R :: "('c, 'i, 'e) world \<Rightarrow> ('c, 'i, 'e) world \<Rightarrow> bool" +
  fixes rt :: "('c, 'i, 'e) runtime"
  assumes execute_step: "confined R (execute rt cid ver input iid idk lease)"
    and save_step: "confined R (save_plan rt (\<lambda>c. c) p)"
    and node_step: "confined R (save_plan rt (\<lambda>c. c\<lparr>ctx_current_node := Some tid\<rparr>) p)"
    and complete_step: "confined R (complete rt None)"
begin

lemma retry_loop_step:
  assumes "retry_loop rt cid ver input iid res w = Some (r, w')"
  shows "R w w'"
proof -
  have "\<forall>r w'. y = (r, w') \<longrightarrow> rt' = rt \<longrightarrow> R w w'" if "retry_loop rt' cid ver input iid res w = Some y" for rt' y
    using that
  proof (induction rule: retry_loop.raw_induct [rotated, consumes 1, case_names step])
    case (step f rt' cid ver input iid res w y)
    show ?case
    proof (intro allI impI)
      fix r w'
      assume y: "y = (r, w')" and rt': "rt' = rt"
      show "R w w'"
      proof (cases "wants_retry res")
        case True
        obtain er w1 where e: "execute rt cid ver input (Some iid) None None w = (er, w1)" by fastforce
        note s = confinedD' [OF execute_step e]
        show ?thesis
        proof (cases er)
          case (Inl x)
          then show ?thesis using step(2) True e s y rt' by simp
        next
          case (Inr r1)
          then have "f rt cid ver input iid r1 w1 = Some y" using step(2) True e rt' by simp
          from step(1) [OF this] y have "R w1 w'" by blast
          then show ?thesis using s step_trans by blast
        qed
      qed (use step(2) y in \<open>simp add: step_refl\<close>)
    qed
  qed
  with assms show ?thesis by blast
qed

lemma invoke_task_step:
  assumes "invoke_task rt t w = Some (r, w')"
  shows "R w w'"
proof -
  let ?iid = "ctx_execution_id (w_ctx w) @ '':'' @ tn_task_id t"
  obtain er w1 where e: "execute rt (tn_capability_id t) (tn_capability_version t) (tn_input_data t) (Some ?iid) None None w = (er, w1)"
    by fastforce
  note s = confinedD' [OF execute_step e]
  show ?thesis
    using assms e s retry_loop_step step_trans by (cases er) (auto simp: invoke_task_def Let_def)
qed

lemma fail_task_step: "fail_task rt tid e (p, w) = (r, (p', w')) \<Longrightarrow> R w w'"
  using confinedD' [OF save_step] by (auto simp: fail_task_def Let_def split: prod.splits sum.splits)

lemma settle_task_step:
  assumes "settle_task rt tid res (p, w) = (r, (p', w'))"
  shows "R w w'"
proof -
  obtain q sr w1 where s: "save_plan rt (\<lambda>c. c) q w = (sr, w1)"
    and rest: "case sr of Inl e \<Rightarrow> fail_task rt tid e (q, w1) = (r, (p', w')) | Inr _ \<Rightarrow> w' = w1"
    using assms by (auto simp: settle_task_def Let_def split: prod.splits sum.splits)
  note s = confinedD' [OF save_step s]
  show ?thesis using rest s fail_task_step step_trans by (cases sr) auto
qed

lemma run_task_step:
  assumes "run_task rt tid (p, w) = Some (r, (p', w'))"
  shows "R w w'"
proof -
  obtain q sr w1 where s: "save_plan rt (\<lambda>c. c\<lparr>ctx_current_node := Some tid\<rparr>) q w = (sr, w1)"
    and rest: "w' = w1 \<or> (\<exists>t ir w2. invoke_task rt t w1 = Some (ir, w2) \<and>
      ((\<exists>e. fail_task rt tid e (q, w2) = (r, (p', w'))) \<or> (\<exists>res. settle_task rt tid res (q, w2) = (r, (p', w')))))"
    using assms by (auto simp: run_task_def Let_def split: prod.splits sum.splits option.splits) blast+
  note s = confinedD' [OF node_step s]
  from rest show ?thesis
    using s invoke_task_step fail_task_step settle_task_step by (meson step_trans)
qed

lemma run_batch_step: "run_batch rt tids failed (p, w) = Some (r, (p', w')) \<Longrightarrow> R w w'"
proof (induction tids arbitrary: failed p w)
  case (Cons tid tids)
  then obtain r1 p1 w1 where t: "run_task rt tid (p, w) = Some (r1, (p1, w1))"
    by (cases "run_task rt tid (p, w)") auto
  have "R w1 w'" using Cons t by (cases r1) (auto intro: step_refl)
  then show ?case using run_task_step [OF t] step_trans by blast
qed (simp add: step_refl)

lemma plan_loop_step:
  assumes "plan_loop rt (p, w) = Some (r, (p', w'))"
  shows "R w w'"
proof -
  have "\<forall>p w r p' w'. s = (p, w) \<longrightarrow> y = (r, (p', w')) \<longrightarrow> rt' = rt \<longrightarrow> R w w'" if "plan_loop rt' s = Some y" for rt' s y
    using that
  proof (induction rule: plan_loop.raw_induct [rotated, consumes 1, case_names step])
    case (step f rt' s y)
    show ?case
    proof (intro allI impI)
      fix p w r p' w'
      assume s: "s = (p, w)" and y: "y = (r, (p', w'))" and rt': "rt' = rt"
      obtain ids p1 where rdy: "ready_tasks p = (ids, p1)" by fastforce
      show "R w w'"
      proof (cases "is_complete p \<or> ids = []")
        case True
        then show ?thesis
          using step(2) rdy confinedD' [OF complete_step] unfolding s y rt' by (auto simp: step_refl split: prod.splits if_splits)
      next
        case False
        then obtain br p2 w2 where b: "run_batch rt ids False (p1, w) = Some (br, (p2, w2))"
          and rest: "(case br of Inl e \<Rightarrow> Some (Inl e, (p2, w2))
             | Inr failed \<Rightarrow> if failed then Some (Inr (), (p2, w2)) else f rt (p2, w2)) = Some y"
          using step(2) rdy unfolding s rt' by (auto simp: bind_eq_Some_conv)
        then have "w' = w2 \<or> f rt (p2, w2) = Some y" unfolding y by (cases br) (auto split: if_splits)
        then have "R w2 w'" using step(1) [of rt "(p2, w2)" y] y step_refl by blast
        then show ?thesis using run_batch_step [OF b] step_trans by blast
      qed
    qed
  qed
  with assms show ?thesis by blast
qed

lemma execute_plan_step:
  assumes "execute_plan rt (p, w) = Some (r, (p', w'))"
  shows "R w w'"
proof (cases "plan_validate p")
  case (Inl e)
  then show ?thesis using assms by (simp add: execute_plan_def step_refl)
next
  case (Inr u)
  obtain sr w1 where s: "save_plan rt (\<lambda>c. c) p w = (sr, w1)" by fastforce
  show ?thesis
    using assms Inr s confinedD' [OF save_step s] plan_loop_step step_trans by (cases sr) (auto simp: execute_plan_def)
qed

end

text \<open>Every lawful runtime gives such an order: what no call of it ever breaks, no plan run over it breaks.\<close>

context kernel_runtime
begin

lemma confined_save_plan:
  assumes "\<And>c. ctx_identity (f c) = ctx_identity c" and "\<And>c. ctx_status (f c) = ctx_status c"
    and "\<And>c. ctx_retry_count (f c) = ctx_retry_count c"
  shows "confined kernel_step (save_plan rt f p)"
  unfolding save_plan_def using assms by (intro confined_rules confined_ctx_m confined_store_save) simp_all

end

sublocale kernel_runtime \<subseteq> plan: plan_order kernel_step rt
  by unfold_locales (auto intro: confined_execute confined_complete confined_save_plan)

section \<open>The integrated execution\<close>

lemma execute_plan_pair: "execute_plan rt s = Some y \<Longrightarrow> \<exists>r p w. y = (r, (p, w))"
  by (cases y) auto

lemma failed_task_Some: "failed_task p = Some (k, t) \<Longrightarrow> (k, t) \<in> set (pl_tasks p) \<and> tn_status t = TS_FAILED"
  by (auto simp: failed_task_def find_Some_iff in_set_conv_nth)

lemma failed_task_ex: "has_failed p \<Longrightarrow> failed_task p \<noteq> None"
  by (auto simp: failed_task_def has_failed_def list_ex_iff find_None_iff)

lemma reset_task_inv:
  assumes "orch_inv p" and "failed_task p = Some (k, t)"
  shows "orch_inv (reset_task k p)" and "keeps p (reset_task k p)"
proof -
  have "map_of (pl_tasks p) k = Some t" "tn_status t = TS_FAILED"
    using assms failed_task_Some [OF assms(2)] by (simp_all add: orch_inv_def plan_wf_def)
  then show k: "keeps p (reset_task k p)"
    unfolding reset_task_def by (intro keeps_update_task) (auto simp: same_task_def)
  have "deps_succeeded (pl_tasks (reset_task k p)) u" if "map_of (pl_tasks (reset_task k p)) x = Some u" "started u" for x u
  proof -
    have "x \<noteq> k" using that by (auto simp: reset_task_def map_of_update_task started_def)
    then have "map_of (pl_tasks p) x = Some u" using that by (simp add: reset_task_def map_of_update_task)
    then have "deps_succeeded (pl_tasks p) u" using assms(1) that(2) by (auto simp: orch_inv_def)
    then show ?thesis using deps_succeeded_keeps [OF k same_task_refl] by blast
  qed
  then show "orch_inv (reset_task k p)" using keeps_wf [OF k] assms(1) by (auto simp: orch_inv_def)
qed

context kernel_runtime
begin

lemma confined_outer_recovery:
  assumes "rp_max_retries rp \<le> rp_max_retries (rt_recovery rt)"
  shows "confined kernel_step (recovery_m (rt\<lparr>rt_recovery := rp\<rparr>) fc)"
proof -
  have "kernel_step w (w\<lparr>w_ctx := snd (recovery_apply rp now fc (w_ctx w)), w_tick := Suc (w_tick w)\<rparr>)" for w now
    using assms unfolding kernel_step_def
    by (auto simp: recovery_apply_frame recovery_apply_terminal recovery_apply_retry_count)
  then show ?thesis by (simp add: confined_def recovery_m_def split_def)
qed

lemma confined_supervise_failure:
  assumes "ig_runtime g = rt" and "rp_max_retries (ig_recovery g) \<le> rp_max_retries (rt_recovery rt)"
  shows "confined kernel_step (supervise_failure g objective t)"
  unfolding supervise_failure_def Let_def assms(1)
  by (intro confined_rules confined_record_m confined_status_m confined_store_save confined_outer_recovery assms(2))

lemma integrated_loop_step:
  assumes "integrated_loop g objective (p, w) = Some (r, (p', w'))" and "ig_runtime g = rt"
    and "rp_max_retries (ig_recovery g) \<le> rp_max_retries (rt_recovery rt)"
  shows "kernel_step w w'"
proof -
  have "\<forall>p w r p' w'. s = (p, w) \<longrightarrow> y = (r, (p', w')) \<longrightarrow> g' = g \<longrightarrow> kernel_step w w'"
    if "integrated_loop g' objective s = Some y" for g' objective s y
    using that
  proof (induction rule: integrated_loop.raw_induct [rotated, consumes 1, case_names step])
    case (step f g' objective s y)
    show ?case
    proof (intro allI impI)
      fix p w r p' w'
      assume s: "s = (p, w)" and y: "y = (r, (p', w'))" and g': "g' = g"
      obtain r1 p1 w1 where x: "execute_plan rt (p, w) = Some (r1, (p1, w1))"
        using step(2) unfolding s g' assms(2) by (auto simp: bind_eq_Some_conv)
      note first = plan.execute_plan_step [OF x]
      show "kernel_step w w'"
      proof (cases "w' = w1")
        case False
        then obtain k t sr w2 where t: "failed_task p1 = Some (k, t)" "supervise_failure g objective t w1 = (sr, w2)"
          and rest: "w' = w2 \<or> f g objective (reset_task k p1, w2) = Some y"
          using step(2) x unfolding s g' y assms(2) by (auto split: sum.splits if_splits option.splits prod.splits)
        have "kernel_step w1 w2" using confinedD' [OF confined_supervise_failure [OF assms(2,3)] t(2)] .
        moreover have "kernel_step w2 w'" using rest step(1) [of g objective "(reset_task k p1, w2)" y] y step_refl by blast
        ultimately show ?thesis using first step_trans by blast
      qed (use first in simp)
    qed
  qed
  with assms(1) show ?thesis by blast
qed

end

section \<open>It ends\<close>

definition counted :: "recovery_policy \<Rightarrow> memory_world \<Rightarrow> memory_world \<Rightarrow> bool" where
  "counted rp s t \<longleftrightarrow> (retry_inv rp s \<longrightarrow> retry_inv rp t) \<and> ctx_retry_count (w_ctx s) \<le> ctx_retry_count (w_ctx t)"

lemma idem_frame_plan: "confined (same w_idem) (save_plan rt f p)"
  unfolding save_plan_def by (intro frame.confined_rules idem_frames)

lemma idem_frame_complete: "confined (same w_idem) (complete rt lease)"
  unfolding complete_def by (intro frame.confined_rules idem_frames idem_frame_save)

lemma confined_counted:
  assumes "confined (memory_rt.kernel_step reg pe rp fc env) m" and "confined calm m"
  shows "confined (counted rp) m"
  using assms by (auto simp: confined_def counted_def retry_inv_def calm_def memory_rt.kernel_step_def)

lemma counted_order:
  assumes "honest reg"
  shows "plan_order (counted rp) (memory_runtime reg pe rp fc env)"
proof
  let ?R = "memory_runtime reg pe rp fc env"
  show "counted rp s s" for s by (simp add: counted_def)
  show "counted rp s t \<Longrightarrow> counted rp t u \<Longrightarrow> counted rp s u" for s t u by (auto simp: counted_def)
  show "confined (counted rp) (execute ?R cid ver input iid idk lease)" for cid ver input iid idk lease
    by (rule confined_counted [OF memory_rt.confined_execute calm_execute [OF assms]])
  show "confined (counted rp) (complete ?R None)"
    by (rule confined_counted [OF memory_rt.confined_complete calm_same [OF idem_frame_complete]])
  show "confined (counted rp) (save_plan ?R (\<lambda>c. c) p)" for p
    by (rule confined_counted [OF memory_rt.confined_save_plan calm_same [OF idem_frame_plan]]) simp_all
  show "confined (counted rp) (save_plan ?R (\<lambda>c. c\<lparr>ctx_current_node := Some tid\<rparr>) p)" for tid p
    by (rule confined_counted [OF memory_rt.confined_save_plan calm_same [OF idem_frame_plan]]) simp_all
qed

lemma recovery_m_retry:
  assumes "recovery_m (rt\<lparr>rt_recovery := rp\<rparr>) fc w = (Inr d, w')" and "rd_action d = ''retry''"
  shows "ctx_retry_count (w_ctx w') = ctx_retry_count (w_ctx w) + 1 \<and> ctx_retry_count (w_ctx w) < rp_max_retries rp"
proof -
  have "w_ctx w' = snd (recovery_apply rp (clock (rt_env rt) (w_tick w)) fc (w_ctx w))"
    "fst (recovery_apply rp (clock (rt_env rt) (w_tick w)) fc (w_ctx w)) = Inr d"
    using assms(1) by (auto simp: recovery_m_def split: prod.splits)
  moreover have "d = classify rp (FEnum fc) (w_ctx w)"
    using assms(1) by (auto simp: recovery_m_def dest: recovery_apply_decision split: prod.splits)
  ultimately show ?thesis using assms(2) by (auto simp: recovery_apply_retry_count classify_retry_iff)
qed

lemma supervise_failure_retry:
  assumes "supervise_failure g objective t w = (Inr True, w')" and "ig_runtime g = memory_runtime reg pe rp fc env"
  shows "ctx_retry_count (w_ctx w') = ctx_retry_count (w_ctx w) + 1 \<and> ctx_retry_count (w_ctx w) < rp_max_retries (ig_recovery g)
    \<and> w_idem w' = w_idem w"
proof -
  have save: "store_save (ig_runtime g) v = (x, v') \<Longrightarrow> ctx_retry_count (w_ctx v') = ctx_retry_count (w_ctx v)" for v v' x
    unfolding assms(2) by (auto simp: store_save_def memory_cp_save_def touch_def Let_def)
  have frame: "confined (same w_idem) (supervise_failure g objective t)"
    unfolding supervise_failure_def Let_def by (intro frame.confined_rules idem_frames)
  have idem: "w_idem w' = w_idem w" using confinedD' [OF frame assms(1)] by (simp add: same_def)
  obtain d w1 w2 w3 where d: "recovery_m ((ig_runtime g)\<lparr>rt_recovery := ig_recovery g\<rparr>) (task_failure_class t) w1 = (Inr d, w2)"
    and s: "store_save (ig_runtime g) w3 = (Inr (), w')" and d': "rd_action d = ''retry''"
    and w1: "w_ctx w1 = w_ctx w" and w3: "w_ctx w3 = w_ctx w2"
    using assms(1)
    by (auto simp: supervise_failure_def Let_def record_m_def em_simps split: sum.splits prod.splits if_splits)
  show ?thesis using recovery_m_retry [OF d d'] save [OF s] w1 w3 idem by simp
qed

lemma integrated_loop_ends:
  assumes "ig_runtime g = memory_runtime reg pe rp fc env" and "rp_max_retries (ig_recovery g) \<le> rp_max_retries rp" and "honest reg"
    and "retry_inv rp w" and "orch_inv p"
  shows "\<exists>y. integrated_loop g objective (p, w) = Some y"
  using assms(4,5)
proof (induction "nat (rp_max_retries (ig_recovery g) - ctx_retry_count (w_ctx w))" arbitrary: p w rule: less_induct)
  case less
  obtain r p1 w1 where x: "execute_plan (ig_runtime g) (p, w) = Some (r, (p1, w1))"
    using execute_plan_ends [OF assms(3) less.prems, of pe fc env] unfolding assms(1) by auto
  have p1: "orch_inv p1" using execute_plan_inv [OF x less.prems(2)] by (simp add: run_ok_def)
  have w1: "retry_inv rp w1" "ctx_retry_count (w_ctx w) \<le> ctx_retry_count (w_ctx w1)"
    using plan_order.execute_plan_step [OF counted_order [OF assms(3)] x [unfolded assms(1)]] less.prems(1)
    by (simp_all add: counted_def)
  show ?case
  proof (cases "\<exists>k t w2. failed_task p1 = Some (k, t) \<and> supervise_failure g objective t w1 = (Inr True, w2)")
    case False
    then show ?thesis
      using x by (subst integrated_loop.simps) (auto split: sum.splits option.splits prod.splits)
  next
    case True
    then obtain k t w2 where t: "failed_task p1 = Some (k, t)" "supervise_failure g objective t w1 = (Inr True, w2)" by blast
    note s = supervise_failure_retry [OF t(2) assms(1)]
    have "retry_inv rp w2" using s w1 assms(2) by (simp add: retry_inv_def)
    moreover have "nat (rp_max_retries (ig_recovery g) - ctx_retry_count (w_ctx w2))
        < nat (rp_max_retries (ig_recovery g) - ctx_retry_count (w_ctx w))"
      using s w1(2) by simp
    ultimately obtain y where "integrated_loop g objective (reset_task k p1, w2) = Some y"
      using less.hyps reset_task_inv(1) [OF p1 t(1)] by blast
    then show ?thesis
      using x t by (subst integrated_loop.simps, cases y) (auto split: sum.splits)
  qed
qed

section \<open>What the integrated execution promises\<close>

lemma single_plan_inv:
  assumes "build_single_capability_plan g fresh objective q = Inr p"
  shows "orch_inv p"
proof -
  define t where "t = (new_task ''primary'' (cq_capability_id q) (cq_capability_version q))\<lparr>tn_input_data := cq_input q, tn_dependencies := [], tn_metadata := []\<rparr>"
  obtain p0 where b: "builder_task ''primary'' (cq_capability_id q) (cq_capability_version q) (Some (cq_input q)) [] None (new_plan fresh objective) = Inr p0"
    and "builder_build p0 = Inr p"
    using assms by (auto simp: build_single_capability_plan_def rbind_Inr)
  moreover from this(2) have "p0 = p" by (cases "plan_validate p0") (auto simp: builder_build_def)
  ultimately have "pl_tasks p = [(''primary'', t)]"
    by (auto simp: builder_task_def add_task_def t_def new_plan_def new_task_def split: if_splits)
  then show ?thesis by (auto simp: orch_inv_def plan_wf_def t_def new_task_def started_def split: if_splits)
qed

definition classed_invoke :: "string \<Rightarrow> invoke_fn" where
  "classed_invoke fc req n tok =
     (Inr ((new_result (ir_invocation_id req) ''echo'' IS_FAILED)\<lparr>res_error := Some [(''failure_class'', PStr fc)]\<rparr>), tok)"

definition sample_integrated :: "invoke_fn \<Rightarrow> (memory_checkpoints, memory_idempotency, memory_ledger) integrated" where
  "sample_integrated f = \<lparr>ig_capabilities = sample_registry f, ig_runtime = sample_rt f, ig_recovery = default_recovery_policy, ig_str = (\<lambda>_. [])\<rparr>"

definition sample_control_request :: control_request where
  "sample_control_request = \<lparr>cq_capability_id = ''echo'', cq_capability_version = ''1'', cq_input = []\<rparr>"

text \<open>Every decision leaves its event.\<close>

definition supervised_event :: "execution_context \<Rightarrow> evidence_event \<Rightarrow> bool" where
  "supervised_event c e \<longleftrightarrow> ev_event_type e = ''execution.supervisor_decision'' \<and> ev_execution_id e = ctx_execution_id c"

lemma supervise_failure_recorded:
  assumes "supervise_failure g objective t w = (Inr b, w')" and "ig_runtime g = memory_runtime reg pe rp fc env"
    and "rp_max_retries (ig_recovery g) \<le> rp_max_retries rp"
  shows "list_ex (supervised_event (w_ctx w')) (w_ev w')"
proof -
  let ?R = "memory_runtime reg pe rp fc env"
  define s where "s = decide (ig_str g) (failure_request objective (task_failure_class t) (classify (ig_recovery g) (FEnum (task_failure_class t)) (w_ctx w)))"
  define rest where "rest = (if sd_action s = ''stop'' then eseq (status_m ?R ES_STOPPED) (eseq (store_save ?R) (eret False))
      else ebind (recovery_m (?R\<lparr>rt_recovery := ig_recovery g\<rparr>) (task_failure_class t)) (\<lambda>d.
        eseq (record_m ?R ''execution.recovery_decision'' (decision_data t (rd_action d) (rd_reason d)))
          (eseq (store_save ?R) (eret (sd_action s = ''retry'' \<and> rd_action d = ''retry'')))))"
  obtain u w1 where r: "record_m ?R ''execution.supervisor_decision'' (decision_data t (sd_action s) (sd_reason s)) w = (u, w1)" by fastforce
  have w1: "list_ex (supervised_event (w_ctx w)) (w_ev w1)" "w_ctx w1 = w_ctx w" "u = Inr ()"
    using r by (auto simp: record_m_def em_simps memory_runtime_def memory_ev_append_def supervised_event_def make_event_def)
  have "rest w1 = (Inr b, w')"
    using assms(1) r w1(3) by (auto simp: supervise_failure_def Let_def em_simps s_def rest_def assms(2))
  moreover have "confined (memory_rt.kernel_step reg pe rp fc env) rest"
    unfolding rest_def using assms(3)
    by (intro memory_rt.confined_rules memory_rt.confined_record_m memory_rt.confined_status_m memory_rt.confined_store_save
        memory_rt.confined_outer_recovery) simp
  ultimately have "memory_rt.kernel_step reg pe rp fc env w1 w'" using confinedD' by fastforce
  then show ?thesis using w1 by (auto simp: memory_rt.kernel_step_def supervised_event_def list_ex_iff prefix_def memory_ev_list_def)
qed

lemma complete_plan_status:
  assumes "execute_plan (memory_runtime reg pe rp fc env) (p, w) = Some (Inr (), (p', w'))" and "orch_inv p" and "\<not> has_failed p'"
  shows "ctx_status (w_ctx w') = ES_COMPLETED"
  using execute_plan_inv [OF assms(1,2)] assms(3) complete_memory by (auto simp: run_ok_def)

text \<open>A run that returns has completed the plan or left the event of a supervisor's decision.\<close>

lemma integrated_loop_outcome:
  assumes "integrated_loop g objective (p, w) = Some (Inr (), (p', w'))" and "orch_inv p"
    and "ig_runtime g = memory_runtime reg pe rp fc env" and "rp_max_retries (ig_recovery g) \<le> rp_max_retries rp"
  shows "ctx_status (w_ctx w') = ES_COMPLETED \<or> list_ex (supervised_event (w_ctx w')) (w_ev w')"
proof -
  have "\<forall>p w p' w'. s = (p, w) \<longrightarrow> y = (Inr (), (p', w')) \<longrightarrow> g' = g \<longrightarrow> orch_inv p \<longrightarrow>
      ctx_status (w_ctx w') = ES_COMPLETED \<or> list_ex (supervised_event (w_ctx w')) (w_ev w')"
    if "integrated_loop g' objective s = Some y" for g' objective s y
    using that
  proof (induction rule: integrated_loop.raw_induct [rotated, consumes 1, case_names step])
    case (step f g' objective s y)
    show ?case
    proof (intro allI impI)
      fix p w p' w'
      assume s: "s = (p, w)" and y: "y = (Inr (), (p', w'))" and g': "g' = g" and p: "orch_inv p"
      obtain r1 p1 w1 where x: "execute_plan (memory_runtime reg pe rp fc env) (p, w) = Some (r1, (p1, w1))"
        using step(2) unfolding s g' assms(3) by (auto simp: bind_eq_Some_conv)
      then have r1: "r1 = Inr ()" using step(2) unfolding s g' y by (auto simp: assms(3) split: sum.splits)
      have p1: "orch_inv p1" using execute_plan_inv [OF x p] by (simp add: run_ok_def)
      show "ctx_status (w_ctx w') = ES_COMPLETED \<or> list_ex (supervised_event (w_ctx w')) (w_ev w')"
      proof (cases "is_complete p1 \<or> \<not> has_failed p1")
        case True
        then have "w' = w1" using step(2) x r1 unfolding s g' y by (auto simp: assms(3))
        moreover have "\<not> has_failed p1" using True by (auto simp: is_complete_def has_failed_def list_all_iff list_ex_iff)
        ultimately show ?thesis using complete_plan_status x r1 p by blast
      next
        case False
        then obtain k t sr w2 where t: "failed_task p1 = Some (k, t)" "supervise_failure g objective t w1 = (sr, w2)"
          using failed_task_ex [of p1] by (metis not_None_eq surj_pair)
        then obtain b where b: "sr = Inr b" "if b then f g objective (reset_task k p1, w2) = Some y else w' = w2"
          using step(2) x r1 False unfolding s g' y by (auto simp: assms(3) split: sum.splits if_splits)
        show ?thesis
          using b step(1) [of g objective "(reset_task k p1, w2)" y] reset_task_inv(1) [OF p1 t(1)] y
            supervise_failure_recorded [OF t(2) [unfolded b(1)] assms(3,4)]
          by (cases b) auto
      qed
    qed
  qed
  with assms(1,2) show ?thesis by blast
qed

text \<open>
  C38. The integrated execution over the in-memory checkpoints, results and evidence always returns or raises, whatever its
  capability does, if the recovery answers come from the recovery policy, its own policy allows no more retries than the
  runtime's and the recorded results want no retry. Returned or raised, it has only added evidence, it has replaced no
  recorded result, and the context it ran is of the given tenant and has used no more retries than the policy allows; if the
  plan cannot be built it raises before a context exists and nothing is written. The context it returns is the one it ran,
  and it is completed or a decision of the supervisor about it has been recorded.
\<close>

theorem integrated_execution_ends:
  assumes "ig_runtime g = memory_runtime reg pe rp fc env" and "rp_max_retries (ig_recovery g) \<le> rp_max_retries rp"
    and "honest reg" and "settled (w_idem w)" and "0 \<le> rp_max_retries rp"
  shows "\<exists>r w'. integrated_execute g objective q tenant md w = Some (r, w') \<and> prefix (w_ev w) (w_ev w') \<and>
    (\<forall>k x. map_of (w_idem w) k = Some x \<longrightarrow> map_of (w_idem w') k = Some x) \<and>
    (case build_single_capability_plan g (fresh_uuid env (w_tick w)) objective q of
       Inl e \<Rightarrow> r = Inl e \<and> w' = w
     | Inr p \<Rightarrow> ctx_tenant_id (w_ctx w') = tenant \<and> ctx_retry_count (w_ctx w') \<le> rp_max_retries rp) \<and>
    (\<forall>c. r = Inr c \<longrightarrow> c = w_ctx w' \<and> (ctx_status c = ES_COMPLETED \<or> list_ex (supervised_event c) (w_ev w')))"
proof (cases "build_single_capability_plan g (fresh_uuid env (w_tick w)) objective q")
  case (Inl e)
  then show ?thesis by (auto simp: integrated_execute_def assms(1) memory_runtime_def)
next
  case (Inr p)
  define w0 where "w0 = w\<lparr>w_ctx := integrated_context env (Suc (w_tick w)) objective tenant md p, w_tick := w_tick w + 4\<rparr>"
  have w0: "ctx_retry_count (w_ctx w0) = 0" "ctx_tenant_id (w_ctx w0) = tenant" "w_idem w0 = w_idem w" "w_ev w0 = w_ev w"
    by (simp_all add: w0_def integrated_context_def new_context_def)
  note p = single_plan_inv [OF Inr]
  obtain r p' w' where run: "integrated_loop g objective (p, w0) = Some (r, (p', w'))"
    using integrated_loop_ends [OF assms(1-3) _ p, of w0 objective] w0 assms(4,5) by (auto simp: retry_inv_def)
  have step: "memory_rt.kernel_step reg pe rp fc env w0 w'"
    using memory_rt.integrated_loop_step [OF run assms(1)] assms(2) by simp
  have "integrated_execute g objective q tenant md w = Some (map_sum id (\<lambda>_. w_ctx w') r, w')"
    using Inr run by (simp add: integrated_execute_def assms(1) memory_runtime_def w0_def)
  moreover have "ctx_status (w_ctx w') = ES_COMPLETED \<or> list_ex (supervised_event (w_ctx w')) (w_ev w')" if "r = Inr ()"
    using integrated_loop_outcome [OF run [unfolded that] p assms(1,2)] .
  ultimately show ?thesis
    using step w0 assms(5) Inr by (cases r) (auto simp: memory_rt.kernel_step_def memory_ev_list_def memory_idem_get_def)
qed

lemma sample_honest: "honest (sample_registry (classed_invoke fc))"
  by (auto simp: honest_def sample_registry_def honest_capability_def honest_result_def classed_invoke_def wants_retry_def)

theorem integrated_execution_ends_witness:
  "\<exists>r w'. integrated_execute (sample_integrated (classed_invoke ''tool'')) ''goal'' sample_control_request ''t'' None quick_world = Some (r, w')"
proof -
  have "ig_runtime (sample_integrated (classed_invoke ''tool'')) = sample_rt (classed_invoke ''tool'')" by (simp add: sample_integrated_def)
  moreover have "settled (w_idem quick_world)" by (simp add: settled_def quick_world_def sample_world_def)
  moreover have "rp_max_retries (ig_recovery (sample_integrated (classed_invoke ''tool''))) \<le> rp_max_retries default_recovery_policy"
    "0 \<le> rp_max_retries default_recovery_policy"
    by (simp_all add: sample_integrated_def default_recovery_policy_def)
  ultimately show ?thesis using integrated_execution_ends [OF _ _ sample_honest] by blast
qed

section \<open>Where it falls short\<close>

text \<open>
  The runtime has already made the context terminal when a failure is of the class safety, permission or unknown or its
  retries are used up; the supervisor is then asked about an unknown failure, and the second change of status raises. The
  supervisor's \<open>STOP\<close> is not reached: a safety failure is recorded as a decision to replan.
\<close>

lemma safety_failure_raises:
  "map_option (\<lambda>(r, w). (isl r, ctx_status (w_ctx w), map_of (ev_data (last (w_ev w))) ''action''))
     (integrated_execute (sample_integrated (classed_invoke ''safety'')) ''goal'' sample_control_request ''t'' None quick_world)
   = Some (True, ES_STOPPED, Some (PStr ''replan''))"
  by code_simp

section \<open>The configuration of sources\<close>

definition config_keyed :: "configuration_service \<Rightarrow> bool" where
  "config_keyed s \<longleftrightarrow> (\<forall>k c. map_of (xs_configs s) k = Some c \<longrightarrow> config_key c = k)"

lemma config_upsert_keyed: "config_keyed s \<Longrightarrow> config_keyed (snd (config_upsert c s))"
  by (auto simp: config_keyed_def config_upsert_def Let_def update_conv')

text \<open>
  A disabled source is denied: once its configuration is disabled the control plane's policy refuses every operation,
  event type and credential for it with a permission error, the configuration reads disabled, and the policies and
  configurations of all other sources are untouched.
\<close>

theorem disabled_source_is_denied:
  assumes "config_disable k s = Inr (c, s')" and "config_keyed s"
  shows "(\<exists>m. source_policy_authorize k operation event_type present (xs_policies s') = Inl (Exn PermissionError m)) \<and>
    map_sum id xf_enabled (config_get k s') = Inr False \<and>
    (\<forall>k'. k' \<noteq> k \<longrightarrow> map_of (xs_policies s') k' = map_of (xs_policies s) k' \<and> map_of (xs_configs s') k' = map_of (xs_configs s) k')"
proof -
  obtain c0 where c0: "map_of (xs_configs s) k = Some c0" "(c, s') = config_upsert (c0\<lparr>xf_enabled := False\<rparr>) s"
    using assms(1) by (auto simp: config_disable_def rbind_Inr config_get_def split: option.splits)
  moreover have "config_key c0 = k" using assms(2) c0(1) unfolding config_keyed_def by blast
  ultimately show ?thesis
    by (auto simp: config_upsert_def Let_def config_key_def config_get_def source_policy_put_def source_policy_authorize_def
        source_policy_get_def policy_allows_def update_conv')
qed

definition sample_source_configuration :: source_configuration where
  "sample_source_configuration = \<lparr>xf_tenant_id = ''t'', xf_workspace_id = ''w'', xf_source_id = ''s'', xf_provider = ''p'', xf_enabled = True,
     xf_credential_id = Some ''c'', xf_settings = None\<rparr>"

theorem disabled_source_is_denied_witness:
  "\<exists>c s'. config_disable (''t'', ''w'', ''s'') (snd (config_upsert sample_source_configuration \<lparr>xs_policies = [], xs_configs = []\<rparr>)) = Inr (c, s') \<and>
     isl (source_policy_authorize (''t'', ''w'', ''s'') ''ingest'' None True (xs_policies s'))"
proof -
  let ?s = "snd (config_upsert sample_source_configuration \<lparr>xs_policies = [], xs_configs = []\<rparr>)"
  have "config_keyed \<lparr>xs_policies = [], xs_configs = []\<rparr>" by (simp add: config_keyed_def)
  then have k: "config_keyed ?s" by (rule config_upsert_keyed)
  obtain c s' where d: "config_disable (''t'', ''w'', ''s'') ?s = Inr (c, s')"
    by (auto simp: config_disable_def config_get_def config_upsert_def sample_source_configuration_def config_key_def Let_def)
  show ?thesis using disabled_source_is_denied [OF d k, of "''ingest''" None True] d by auto
qed

text \<open>An update of the configuration without a credential drops the credential that the policy had required.\<close>

lemma update_drops_credential_requirement:
  "source_policy_authorize (''t'', ''w'', ''s'') ''ingest'' None False
     (xs_policies (snd (config_upsert (sample_source_configuration\<lparr>xf_credential_id := None\<rparr>)
        \<lparr>xs_policies = source_policy_put \<lparr>pp_tenant_id = ''t'', pp_workspace_id = ''w'', pp_source_id = ''s'', pp_enabled = True,
           pp_allowed_event_types = [], pp_allowed_operations = [''ingest''], pp_require_credential = True\<rparr> [], xs_configs = []\<rparr>)))
   = Inr \<lparr>pp_tenant_id = ''t'', pp_workspace_id = ''w'', pp_source_id = ''s'', pp_enabled = True,
           pp_allowed_event_types = [], pp_allowed_operations = [''ingest''], pp_require_credential = False\<rparr>"
  by code_simp

end
