(* ===== verification/Football_Markets.thy ===== *)
theory Football_Markets
  imports Binary64 "HOL-Library.Sublist"
begin

text \<open>
  The markets of \<^verbatim>\<open>ois/domains/football_market_intelligence\<close>: the taxonomy (\<^verbatim>\<open>markets.py\<close>), the event contract (\<^verbatim>\<open>schemas.py\<close>),
  settlement (\<^verbatim>\<open>settlement.py\<close>), evaluation, attribution, the catalogue with its normalization of provider keys, the
  contracts of web observations, their normalization and the coverage of bookmakers. Numbers of type \<open>float\<close> are rational,
  arithmetic rounds to binary64; infinities and \<open>nan\<close> are not represented. A value that the contract library refuses is a
  \<open>ValidationError\<close>; its text is the field's name. \<open>fsum\<close> is the interpreter's sum of floats.
\<close>

abbreviation ValidationError :: exn_class where
  "ValidationError \<equiv> OtherException ''ValidationError''"

section \<open>Markets and selections\<close>

datatype market_type = MT_RESULT | MT_DOUBLE_CHANCE | MT_TOTAL_GOALS | MT_TEAM_GOALS | MT_BTTS | MT_HANDICAP | MT_SPECIAL

datatype selection =
    HOME_WIN | DRAW | AWAY_WIN | HOME_OR_DRAW | DRAW_OR_AWAY | HOME_OR_AWAY | OVER | UNDER | HOME_OVER | HOME_UNDER
  | AWAY_OVER | AWAY_UNDER | BTTS_YES | BTTS_NO | HOME_HANDICAP | AWAY_HANDICAP | HOME_1UP | AWAY_1UP

fun market_type_value :: "market_type \<Rightarrow> string" where
  "market_type_value MT_RESULT = ''result''"
| "market_type_value MT_DOUBLE_CHANCE = ''double_chance''"
| "market_type_value MT_TOTAL_GOALS = ''total_goals''"
| "market_type_value MT_TEAM_GOALS = ''team_goals''"
| "market_type_value MT_BTTS = ''btts''"
| "market_type_value MT_HANDICAP = ''handicap''"
| "market_type_value MT_SPECIAL = ''special''"

fun selection_value :: "selection \<Rightarrow> string" where
  "selection_value HOME_WIN = ''home_win''"
| "selection_value DRAW = ''draw''"
| "selection_value AWAY_WIN = ''away_win''"
| "selection_value HOME_OR_DRAW = ''1x''"
| "selection_value DRAW_OR_AWAY = ''x2''"
| "selection_value HOME_OR_AWAY = ''12''"
| "selection_value OVER = ''over''"
| "selection_value UNDER = ''under''"
| "selection_value HOME_OVER = ''home_over''"
| "selection_value HOME_UNDER = ''home_under''"
| "selection_value AWAY_OVER = ''away_over''"
| "selection_value AWAY_UNDER = ''away_under''"
| "selection_value BTTS_YES = ''btts_yes''"
| "selection_value BTTS_NO = ''btts_no''"
| "selection_value HOME_HANDICAP = ''home_handicap''"
| "selection_value AWAY_HANDICAP = ''away_handicap''"
| "selection_value HOME_1UP = ''home_1up''"
| "selection_value AWAY_1UP = ''away_1up''"

fun allowed_selections :: "market_type \<Rightarrow> selection list" where
  "allowed_selections MT_RESULT = [HOME_WIN, DRAW, AWAY_WIN]"
| "allowed_selections MT_DOUBLE_CHANCE = [HOME_OR_DRAW, DRAW_OR_AWAY, HOME_OR_AWAY]"
| "allowed_selections MT_TOTAL_GOALS = [OVER, UNDER]"
| "allowed_selections MT_TEAM_GOALS = [HOME_OVER, HOME_UNDER, AWAY_OVER, AWAY_UNDER]"
| "allowed_selections MT_BTTS = [BTTS_YES, BTTS_NO]"
| "allowed_selections MT_HANDICAP = [HOME_HANDICAP, AWAY_HANDICAP]"
| "allowed_selections MT_SPECIAL = [HOME_1UP, AWAY_1UP]"

definition validate_market_selection :: "market_type \<Rightarrow> selection \<Rightarrow> py_exn + unit" where
  "validate_market_selection m s =
     (if s \<notin> set (allowed_selections m)
      then Inl (Exn ValueError (''Selection '' @ py_repr_str (selection_value s) @ '' is invalid for '' @ py_repr_str (market_type_value m)))
      else Inr ())"

section \<open>Contracts\<close>

datatype outcome_status = WIN | LOSS | PUSH | VOID | UNKNOWN_OUTCOME

record football_evidence =
  fv_source_id :: string
  fv_uri :: "string option"
  fv_observed_at :: timestamp
  fv_confidence :: rat

record football_prediction =
  fp_prediction_id :: string
  fp_match_id :: string
  fp_confidence :: rat
  fp_evidence :: "football_evidence list"
  fp_model_ensemble_version :: string

record market_event =
  me_event_id :: string
  me_match_id :: string
  me_market_type :: market_type
  me_selection :: selection
  me_line :: "rat option"
  me_odds :: rat
  me_implied_probability :: rat
  me_model_probability :: rat
  me_confidence :: rat
  me_prediction_id :: string
  me_prediction_version :: string
  me_evidence :: "football_evidence list"
  me_created_at :: timestamp

definition needs_line :: "market_type \<Rightarrow> bool" where
  "needs_line m \<longleftrightarrow> m \<in> {MT_TOTAL_GOALS, MT_TEAM_GOALS, MT_HANDICAP}"

definition field_check :: "bool \<Rightarrow> string \<Rightarrow> py_exn + unit" where
  "field_check ok name = (if ok then Inr () else Inl (Exn ValidationError name))"

text \<open>The field constraints, then the model validator; a \<open>ValueError\<close> of the validator is a \<open>ValidationError\<close>.\<close>

definition mk_market_event :: "market_event \<Rightarrow> py_exn + market_event" where
  "mk_market_event e =
     rbind (field_check (1 < me_odds e) ''odds'') (\<lambda>_.
     rbind (field_check (0 < me_implied_probability e \<and> me_implied_probability e \<le> 1) ''implied_probability'') (\<lambda>_.
     rbind (field_check (0 \<le> me_model_probability e \<and> me_model_probability e \<le> 1) ''model_probability'') (\<lambda>_.
     rbind (field_check (0 \<le> me_confidence e \<and> me_confidence e \<le> 1) ''confidence'') (\<lambda>_.
     rbind (case validate_market_selection (me_market_type e) (me_selection e) of
              Inl x \<Rightarrow> Inl (Exn ValidationError (exn_str x)) | Inr u \<Rightarrow> Inr u) (\<lambda>_.
     rbind (field_check (me_line e \<noteq> None \<or> \<not> needs_line (me_market_type e)) (''line is required for '' @ market_type_value (me_market_type e))) (\<lambda>_.
     Inr e))))))"

definition event_from_prediction ::
  "uuid \<Rightarrow> timestamp \<Rightarrow> football_prediction \<Rightarrow> market_type \<Rightarrow> selection \<Rightarrow> rat \<Rightarrow> rat \<Rightarrow> rat option \<Rightarrow> string option \<Rightarrow> py_exn + market_event" where
  "event_from_prediction fresh now p m s odds prob line version =
     (if odds = 0 then Inl (Exn (OtherException ''ZeroDivisionError'') ''division by zero'')
      else mk_market_event
        \<lparr>me_event_id = fresh, me_match_id = fp_match_id p, me_market_type = m, me_selection = s, me_line = line, me_odds = odds,
         me_implied_probability = fl (1 / odds), me_model_probability = prob, me_confidence = fp_confidence p,
         me_prediction_id = fp_prediction_id p,
         me_prediction_version = (case version of Some v \<Rightarrow> if v = [] then fp_model_ensemble_version p else v
                                               | None \<Rightarrow> fp_model_ensemble_version p),
         me_evidence = fp_evidence p, me_created_at = now\<rparr>)"

record market_outcome =
  mo_event_id :: string
  mo_status :: outcome_status
  mo_actual_value :: "rat option"
  mo_settled_at :: timestamp
  mo_settlement_version :: string

section \<open>Settlement\<close>

definition over_under_status :: "int \<Rightarrow> rat \<Rightarrow> selection \<Rightarrow> outcome_status" where
  "over_under_status value line s =
     (if of_int value = line then PUSH
      else if (line < of_int value) = (s = OVER) then WIN else LOSS)"

definition won :: "bool \<Rightarrow> outcome_status" where
  "won b = (if b then WIN else LOSS)"

text \<open>A failed \<open>assert\<close>, and the \<open>KeyError\<close> of a selection that the table of a market lacks, are raised.\<close>

definition with_line :: "rat option \<Rightarrow> (rat \<Rightarrow> py_exn + 'a) \<Rightarrow> py_exn + 'a" where
  "with_line line f = (case line of None \<Rightarrow> Inl (Exn (OtherException ''AssertionError'') []) | Some l \<Rightarrow> f l)"

definition result_status :: "selection \<Rightarrow> int \<Rightarrow> py_exn + outcome_status" where
  "result_status s margin =
     (let actual = sgn margin
      in case s of
           HOME_WIN \<Rightarrow> Inr (won (actual = 1))
         | DRAW \<Rightarrow> Inr (won (actual = 0))
         | AWAY_WIN \<Rightarrow> Inr (won (actual = -1))
         | _ \<Rightarrow> Inl (Exn KeyError (selection_value s)))"

definition double_chance_status :: "selection \<Rightarrow> int \<Rightarrow> py_exn + outcome_status" where
  "double_chance_status s margin =
     (case s of
        HOME_OR_DRAW \<Rightarrow> Inr (won (0 \<le> margin))
      | DRAW_OR_AWAY \<Rightarrow> Inr (won (margin \<le> 0))
      | HOME_OR_AWAY \<Rightarrow> Inr (won (margin \<noteq> 0))
      | _ \<Rightarrow> Inl (Exn KeyError (selection_value s)))"

definition team_goals_status :: "selection \<Rightarrow> int \<Rightarrow> int \<Rightarrow> rat \<Rightarrow> outcome_status" where
  "team_goals_status s home away line =
     over_under_status (if s \<in> {HOME_OVER, HOME_UNDER} then home else away) line (if s \<in> {HOME_OVER, AWAY_OVER} then OVER else UNDER)"

text \<open>An \<open>int\<close> that meets a \<open>float\<close>, or that \<open>float\<close> is applied to, is rounded first; one that rounds to 2 to the power 1024 or beyond raises.\<close>

definition float_of_int :: "int \<Rightarrow> py_exn + rat" where
  "float_of_int n =
     (let x = fl (of_int n)
      in if 2 ^ 1024 \<le> \<bar>x\<bar> then Inl (Exn (OtherException ''OverflowError'') ''int too large to convert to float'') else Inr x)"

definition handicap_status :: "selection \<Rightarrow> int \<Rightarrow> rat \<Rightarrow> py_exn + outcome_status" where
  "handicap_status s margin line =
     rbind (float_of_int (if s = HOME_HANDICAP then margin else - margin)) (\<lambda>x.
       let adjusted = fl (x + line)
       in Inr (if 0 < adjusted then WIN else if adjusted < 0 then LOSS else PUSH))"

definition market_status :: "market_event \<Rightarrow> int \<Rightarrow> int \<Rightarrow> py_exn + outcome_status" where
  "market_status e home away =
     (let margin = home - away; s = me_selection e
      in case me_market_type e of
           MT_RESULT \<Rightarrow> result_status s margin
         | MT_DOUBLE_CHANCE \<Rightarrow> double_chance_status s margin
         | MT_TOTAL_GOALS \<Rightarrow> with_line (me_line e) (\<lambda>l. Inr (over_under_status (home + away) l s))
         | MT_TEAM_GOALS \<Rightarrow> with_line (me_line e) (\<lambda>l. Inr (team_goals_status s home away l))
         | MT_BTTS \<Rightarrow> Inr (won ((0 < home \<and> 0 < away) = (s = BTTS_YES)))
         | MT_HANDICAP \<Rightarrow> with_line (me_line e) (\<lambda>l. handicap_status s margin l)
         | MT_SPECIAL \<Rightarrow> Inr (if s = HOME_1UP then won (1 \<le> margin) else won (margin \<le> -1)))"

definition settle_market :: "timestamp \<Rightarrow> market_event \<Rightarrow> int \<Rightarrow> int \<Rightarrow> py_exn + market_outcome" where
  "settle_market now e home away =
     (if home < 0 \<or> away < 0 then Inl (Exn ValueError ''Goals cannot be negative'')
      else rbind (market_status e home away) (\<lambda>st. rbind (float_of_int (home + away)) (\<lambda>total.
        Inr \<lparr>mo_event_id = me_event_id e, mo_status = st, mo_actual_value = Some total, mo_settled_at = now,
             mo_settlement_version = ''football-market-settlement-v1''\<rparr>)))"

section \<open>Evaluation and attribution\<close>

record market_evaluation =
  mv_event_id :: string
  mv_match_id :: string
  mv_status :: outcome_status
  mv_correct :: "bool option"
  mv_model_probability :: rat
  mv_implied_probability :: rat
  mv_edge :: rat
  mv_odds :: rat
  mv_roi_if_staked :: "rat option"
  mv_prediction_id :: string
  mv_prediction_version :: string
  mv_evaluated_at :: timestamp
  mv_evaluation_version :: string

fun verdict_of :: "rat \<Rightarrow> outcome_status \<Rightarrow> bool option \<times> rat option" where
  "verdict_of odds WIN = (Some True, Some (fl (odds - 1)))"
| "verdict_of odds LOSS = (Some False, Some (-1))"
| "verdict_of odds PUSH = (None, Some 0)"
| "verdict_of odds VOID = (None, Some 0)"
| "verdict_of odds UNKNOWN_OUTCOME = (None, None)"

definition evaluate_market_event :: "timestamp \<Rightarrow> market_event \<Rightarrow> market_outcome \<Rightarrow> py_exn + market_evaluation" where
  "evaluate_market_event now e out =
     (if me_event_id e \<noteq> mo_event_id out then Inl (Exn ValueError ''Market event and outcome IDs must match'')
      else case verdict_of (me_odds e) (mo_status out) of (correct, roi) \<Rightarrow>
        Inr \<lparr>mv_event_id = me_event_id e, mv_match_id = me_match_id e, mv_status = mo_status out, mv_correct = correct,
             mv_model_probability = me_model_probability e, mv_implied_probability = me_implied_probability e,
             mv_edge = fl (me_model_probability e - me_implied_probability e), mv_odds = me_odds e, mv_roi_if_staked = roi,
             mv_prediction_id = me_prediction_id e, mv_prediction_version = me_prediction_version e, mv_evaluated_at = now,
             mv_evaluation_version = ''football-market-evaluation-v1''\<rparr>)"

definition settle_and_evaluate :: "timestamp \<Rightarrow> timestamp \<Rightarrow> market_event \<Rightarrow> int \<Rightarrow> int \<Rightarrow> py_exn + market_outcome \<times> market_evaluation" where
  "settle_and_evaluate now1 now2 e home away =
     rbind (settle_market now1 e home away) (\<lambda>out. rbind (evaluate_market_event now2 e out) (\<lambda>v. Inr (out, v)))"

record market_aggregate =
  mg_count :: nat
  mg_settled_count :: nat
  mg_decided_count :: nat
  mg_accuracy :: rat
  mg_mean_edge :: rat
  mg_roi_sum :: rat
  mg_roi_mean :: rat

definition fmean :: "(rat list \<Rightarrow> rat) \<Rightarrow> rat list \<Rightarrow> rat" where
  "fmean fsum xs = (if xs = [] then 0 else fl (fsum xs / of_nat (length xs)))"

definition accuracy_of :: "market_evaluation list \<Rightarrow> rat" where
  "accuracy_of vs =
     (let decided = filter (\<lambda>v. mv_correct v \<noteq> None) vs
      in if decided = [] then 0
         else fl (of_nat (length (filter (\<lambda>v. mv_correct v = Some True) decided)) / of_nat (length decided)))"

definition roi_values :: "market_evaluation list \<Rightarrow> rat list" where
  "roi_values vs = List.map_filter mv_roi_if_staked vs"

definition aggregate_market_evaluations :: "(rat list \<Rightarrow> rat) \<Rightarrow> market_evaluation list \<Rightarrow> market_aggregate" where
  "aggregate_market_evaluations fsum vs =
     (let settled = filter (\<lambda>v. mv_status v \<in> {WIN, LOSS, PUSH}) vs
      in \<lparr>mg_count = length vs, mg_settled_count = length settled,
          mg_decided_count = length (filter (\<lambda>v. mv_correct v \<noteq> None) settled), mg_accuracy = accuracy_of settled,
          mg_mean_edge = fmean fsum (map mv_edge settled), mg_roi_sum = fsum (roi_values settled),
          mg_roi_mean = fmean fsum (roi_values settled)\<rparr>)"

record version_report =
  vp_count :: nat
  vp_accuracy :: rat
  vp_mean_edge :: rat
  vp_roi_sum :: rat

text \<open>Groups in the order of their first member, as a dict keeps them.\<close>

definition group_by :: "('a \<Rightarrow> 'k) \<Rightarrow> 'a list \<Rightarrow> ('k \<times> 'a list) list" where
  "group_by f xs = fold (\<lambda>x g. AList.update (f x) ((case map_of g (f x) of Some ys \<Rightarrow> ys | None \<Rightarrow> []) @ [x]) g) xs []"

definition attribute_by_prediction_version :: "(rat list \<Rightarrow> rat) \<Rightarrow> market_evaluation list \<Rightarrow> (string \<times> version_report) list" where
  "attribute_by_prediction_version fsum vs =
     map (\<lambda>(version, items). (version, \<lparr>vp_count = length items, vp_accuracy = accuracy_of items,
            vp_mean_edge = fmean fsum (map mv_edge items), vp_roi_sum = fsum (roi_values items)\<rparr>))
       (group_by mv_prediction_version vs)"

section \<open>The catalogue\<close>

record market_definition =
  md_key :: string
  md_family :: string
  md_name :: string
  md_periods :: "string list"
  md_player_market :: bool
  md_line_based :: bool
  md_dynamic :: bool
  md_aliases :: "string list"

definition market :: "string \<Rightarrow> string \<Rightarrow> string \<Rightarrow> string list \<Rightarrow> bool \<Rightarrow> bool \<Rightarrow> bool \<Rightarrow> string list \<Rightarrow> market_definition" where
  "market k f n ps player line dyn as =
     \<lparr>md_key = k, md_family = f, md_name = n, md_periods = ps, md_player_market = player, md_line_based = line, md_dynamic = dyn,
      md_aliases = as\<rparr>"

definition market_catalog :: "market_definition list" where
  "market_catalog =
     [market ''1x2'' ''result'' ''1X2 / Match Result'' [''match''] False False False [''moneyline'', ''match winner'', ''winner''],
      market ''double_chance'' ''double_chance'' ''Double Chance'' [''match''] False False False [],
      market ''draw_no_bet'' ''draw_no_bet'' ''Draw No Bet'' [''match''] False False False [],
      market ''handicap'' ''handicap'' ''European Handicap'' [''match''] False True False [],
      market ''asian_handicap'' ''asian_handicap'' ''Asian Handicap'' [''match''] False True False [''asian spread''],
      market ''totals'' ''total_goals'' ''Total Goals Over/Under'' [''match''] False True False [''over under'', ''goals o/u''],
      market ''team_totals'' ''team_total_goals'' ''Team Total Goals'' [''match''] False True False [],
      market ''btts'' ''btts'' ''Both Teams To Score'' [''match''] False False False [''gg/ng'', ''gg'', ''ng''],
      market ''correct_score'' ''correct_score'' ''Correct Score'' [''match''] False False True [],
      market ''exact_goals'' ''exact_goals'' ''Exact Match Goals'' [''match''] False False True [],
      market ''halftime_1x2'' ''half_time'' ''1st Half Result'' [''1h''] False False False [],
      market ''halftime_fulltime'' ''half_time_full_time'' ''Half Time / Full Time'' [''1h'', ''match''] False False True [],
      market ''corners'' ''corners'' ''Corners Over/Under'' [''match''] False True False [],
      market ''corners_1x2'' ''corners'' ''Corners 1X2'' [''match''] False False False [],
      market ''team_corners'' ''corners'' ''Team Corners'' [''match''] False True False [],
      market ''cards'' ''cards'' ''Match Cards / Bookings'' [''match''] False True False [],
      market ''booking_points'' ''booking_points'' ''Booking Points'' [''match''] False True False [],
      market ''free_kicks'' ''free_kicks'' ''Free Kicks'' [''match''] False True False [],
      market ''offsides'' ''offsides'' ''Offsides'' [''match''] False True False [],
      market ''penalties'' ''penalties'' ''Penalties'' [''match''] False False True [],
      market ''goalscorer'' ''goalscorer'' ''Goalscorer'' [''match''] True False True [],
      market ''player_goals'' ''player_goals'' ''Player Goals'' [''match''] True True False [],
      market ''player_assists'' ''player_assists'' ''Player Assists'' [''match''] True True False [],
      market ''player_shots'' ''player_shots'' ''Player Shots'' [''match''] True True False [],
      market ''player_shots_on_target'' ''player_shots_on_target'' ''Player Shots on Target'' [''match''] True True False [],
      market ''player_passes'' ''player_passes'' ''Player Passes'' [''match''] True True False [],
      market ''player_tackles'' ''player_tackles'' ''Player Tackles'' [''match''] True True False [],
      market ''player_cards'' ''player_cards'' ''Player Cards'' [''match''] True False True [],
      market ''next_goal'' ''next_goal'' ''Next Goal'' [''match''] False False True [],
      market ''next_goalscorer'' ''next_goalscorer'' ''Next Goalscorer'' [''match''] True False True [],
      market ''next_scoring_type'' ''next_scoring_type'' ''Next Scoring Type'' [''match''] False False True [],
      market ''rest_of_match'' ''rest_of_match'' ''Rest of Match'' [''match''] False False True [],
      market ''to_qualify'' ''to_qualify'' ''To Qualify'' [''match''] False False True [],
      market ''outright'' ''outright'' ''Outright / Futures'' [''match''] False False True [],
      market ''combo'' ''combo'' ''Combination / Bet Builder'' [''match''] False False True [],
      market ''special'' ''special'' ''Special / Novelty'' [''match''] False False True []]"

definition provider_market_keys :: "(string \<times> (string \<times> string) list) list" where
  "provider_market_keys =
     [(''the-odds-api'', [(''h2h'', ''1x2''), (''double_chance'', ''double_chance''), (''draw_no_bet'', ''draw_no_bet''),
        (''spreads'', ''asian_handicap''), (''alternate_spreads'', ''asian_handicap''), (''totals'', ''totals''),
        (''alternate_totals'', ''totals''), (''team_totals'', ''team_totals''), (''alternate_team_totals'', ''team_totals''),
        (''btts'', ''btts''), (''correct_score'', ''correct_score''), (''correct_score_h1'', ''correct_score''),
        (''corners_1x2'', ''corners_1x2''), (''alternate_spreads_corners'', ''corners''), (''alternate_totals_corners'', ''corners''),
        (''alternate_team_totals_corners'', ''team_corners''), (''alternate_spreads_cards'', ''cards''),
        (''alternate_totals_cards'', ''cards''), (''halftime_fulltime'', ''halftime_fulltime''), (''to_qualify'', ''to_qualify''),
        (''player_shots'', ''player_shots''), (''player_assists'', ''player_assists'')]),
      (''sportybet'', [(''1'', ''1x2''), (''10'', ''double_chance''), (''11'', ''draw_no_bet''), (''14'', ''handicap''),
        (''16'', ''asian_handicap''), (''18'', ''totals''), (''29'', ''btts''), (''45'', ''correct_score''),
        (''47'', ''halftime_fulltime''), (''60'', ''halftime_1x2''), (''219'', ''1x2''), (''223'', ''handicap''), (''225'', ''totals''),
        (''227'', ''team_totals''), (''228'', ''team_totals'')]),
      (''sportmonks'', [(''16'', ''asian_handicap'')]),
      (''stake'', []),
      (''bet365'', [])]"

definition ascii_lower :: "string \<Rightarrow> string" where
  "ascii_lower s = map (\<lambda>c. if CHR ''A'' \<le> c \<and> c \<le> CHR ''Z'' then char_of (of_char c + 32 :: nat) else c) s"

definition spaced :: "string \<Rightarrow> string" where
  "spaced s = map (\<lambda>c. if c = CHR ''_'' then CHR '' '' else c) s"

definition market_names :: "market_definition \<Rightarrow> string list" where
  "market_names m = md_key m # md_name m # md_aliases m"

definition provider_market_mapping :: "string \<Rightarrow> (string \<times> string) list" where
  "provider_market_mapping provider = (case map_of provider_market_keys (ascii_lower provider) of None \<Rightarrow> [] | Some d \<Rightarrow> d)"

definition normalize_market_key :: "string \<Rightarrow> string \<Rightarrow> string \<Rightarrow> string option" where
  "normalize_market_key provider key description =
     (case map_of (provider_market_mapping provider) key of
        Some k \<Rightarrow> Some k
      | None \<Rightarrow>
          (let haystack = spaced (ascii_lower (key @ '' '' @ description))
           in map_option md_key
                (List.find (\<lambda>m. list_ex (\<lambda>n. sublist (spaced (ascii_lower n)) haystack) (market_names m)) market_catalog)))"

end
