(* ===== verification/Football_Observations.thy ===== *)
theory Football_Observations
  imports Football_Markets
begin

text \<open>
  Web observations of \<^verbatim>\<open>ois/domains/football_market_intelligence\<close>: their contracts (\<^verbatim>\<open>web_sources.py\<close>), the rules of identity and
  time (\<^verbatim>\<open>web_normalization.py\<close>), the coverage of bookmakers (\<^verbatim>\<open>coverage.py\<close>) and the parser of the odds API
  (\<^verbatim>\<open>web_adapters.py\<close>). Hashes, \<open>uuid5\<close>, \<open>str\<close> of values that are not texts, the parsers of numbers and times and the
  transports are arguments (\<open>web_env\<close>).
\<close>

section \<open>Contracts\<close>

record web_source =
  ws_source_id :: string
  ws_provider :: string
  ws_kind :: string
  ws_base_uri :: string
  ws_historical :: bool
  ws_license_name :: "string option"

record web_observation =
  wb_observation_id :: string
  wb_source_id :: string
  wb_external_id :: string
  wb_observed_at :: timestamp
  wb_source_timestamp :: "timestamp option"
  wb_source_uri :: string
  wb_payload_hash :: string

record match_observation = web_observation +
  mb_competition :: "string option"
  mb_kickoff_at :: timestamp
  mb_status :: string
  mb_home_team_id :: string
  mb_home_team_name :: string
  mb_away_team_id :: string
  mb_away_team_name :: string
  mb_home_score :: "int option"
  mb_away_score :: "int option"

record odds_observation = web_observation +
  ob_provider :: string
  ob_match_id :: string
  ob_bookmaker :: string
  ob_provider_market_key :: string
  ob_market_description :: "string option"
  ob_canonical_market_key :: "string option"
  ob_period :: string
  ob_selection :: string
  ob_line :: "rat option"
  ob_decimal_odds :: rat
  ob_implied_probability :: rat

datatype observation = MatchObs match_observation | OddsObs odds_observation

fun obs_base :: "observation \<Rightarrow> web_observation" where
  "obs_base (MatchObs m) = web_observation.truncate m"
| "obs_base (OddsObs b) = web_observation.truncate b"

definition mk_odds_observation :: "odds_observation \<Rightarrow> py_exn + odds_observation" where
  "mk_odds_observation b =
     rbind (field_check (1 < ob_decimal_odds b) ''decimal_odds'') (\<lambda>_.
     rbind (field_check (0 < ob_implied_probability b \<and> ob_implied_probability b \<le> 1) ''implied_probability'') (\<lambda>_.
     if \<bar>fl (ob_implied_probability b - fl (1 / ob_decimal_odds b))\<bar> > fl (1 / 10 ^ 9)
     then Inl (Exn ValidationError ''implied_probability must equal 1 / decimal_odds'')
     else Inr b))"

record provider_health =
  ph_provider :: string
  ph_checked_at :: timestamp
  ph_available :: bool
  ph_latency_ms :: rat
  ph_error_class :: "string option"

record normalization_result =
  nr_source_id :: string
  nr_records :: "observation list"
  nr_warnings :: "string list"
  nr_rejected_count :: nat

definition implied_probability :: "rat \<Rightarrow> py_exn + rat" where
  "implied_probability odds =
     (if odds \<le> 1 then Inl (Exn ValueError ''decimal_odds must be greater than 1'') else Inr (fl (1 / odds)))"

section \<open>Normalization\<close>

definition future_for :: "timestamp option \<Rightarrow> web_observation \<Rightarrow> bool" where
  "future_for created b \<longleftrightarrow>
     (case (created, wb_source_timestamp b) of (Some p, Some t) \<Rightarrow> p < t | _ \<Rightarrow> False)"

definition time_text :: "(timestamp \<Rightarrow> string) \<Rightarrow> timestamp option \<Rightarrow> string" where
  "time_text isoformat t = (case t of Some x \<Rightarrow> isoformat x | None \<Rightarrow> [])"

fun normalize_loop ::
  "(timestamp \<Rightarrow> string) \<Rightarrow> web_source \<Rightarrow> timestamp option \<Rightarrow> observation list \<Rightarrow> normalization_result \<Rightarrow> normalization_result" where
  "normalize_loop isoformat src created [] r = r"
| "normalize_loop isoformat src created (x # xs) r =
     (let b = obs_base x
      in normalize_loop isoformat src created xs
        (if wb_source_id b \<noteq> ws_source_id src
         then r\<lparr>nr_rejected_count := Suc (nr_rejected_count r),
                nr_warnings := nr_warnings r @ [''rejected source mismatch: '' @ wb_observation_id b]\<rparr>
         else if future_for created b
         then r\<lparr>nr_rejected_count := Suc (nr_rejected_count r),
                nr_warnings := nr_warnings r @ [''rejected future observation: '' @ wb_observation_id b @ '' source=''
                  @ time_text isoformat (wb_source_timestamp b) @ '' prediction='' @ time_text isoformat created]\<rparr>
         else r\<lparr>nr_records := nr_records r @ [x]\<rparr>))"

definition normalize_observations ::
  "(timestamp \<Rightarrow> string) \<Rightarrow> web_source \<Rightarrow> observation list \<Rightarrow> timestamp option \<Rightarrow> normalization_result" where
  "normalize_observations isoformat src xs created =
     normalize_loop isoformat src created xs
       \<lparr>nr_source_id = ws_source_id src, nr_records = [], nr_warnings = [], nr_rejected_count = 0\<rparr>"

definition assert_temporal_integrity :: "web_observation list \<Rightarrow> timestamp \<Rightarrow> py_exn + unit" where
  "assert_temporal_integrity bs created =
     (let future = map wb_observation_id (filter (future_for (Some created)) bs)
      in if future \<noteq> []
         then Inl (Exn ValueError (''future-dated observations are not prediction-safe: ['' @ py_join '', '' (map py_repr_str future) @ '']''))
         else Inr ())"

text \<open>\<open>monotonic\<close> is read at the start and at the end.\<close>

definition check_provider_health ::
  "timestamp \<Rightarrow> rat \<Rightarrow> rat \<Rightarrow> web_source \<Rightarrow> string \<Rightarrow> (string \<Rightarrow> pydict \<Rightarrow> ('w, pydict) em) \<Rightarrow> pydict option \<Rightarrow> 'w \<Rightarrow> provider_health \<times> 'w" where
  "check_provider_health now started ended src uri transport headers w =
     (let latency = fl (fl (ended - started) * 1000);
          health = \<lparr>ph_provider = ws_provider src, ph_checked_at = now, ph_available = True, ph_latency_ms = latency, ph_error_class = None\<rparr>
      in case transport uri (case headers of None \<Rightarrow> [] | Some h \<Rightarrow> h) w of
           (Inl e, w') \<Rightarrow> (health\<lparr>ph_available := False, ph_error_class := Some (exn_name (exn_class e))\<rparr>, w')
         | (Inr _, w') \<Rightarrow> (health, w'))"

section \<open>Coverage\<close>

record market_coverage =
  mc_bookmaker :: string
  mc_provider :: string
  mc_match_count :: nat
  mc_observation_count :: nat
  mc_market_keys :: "string list"
  mc_first_observed_at :: timestamp
  mc_last_observed_at :: timestamp

definition coverage_of :: "(string \<times> string) \<times> odds_observation list \<Rightarrow> market_coverage" where
  "coverage_of g =
     (case g of ((provider, bookmaker), records) \<Rightarrow>
        \<lparr>mc_bookmaker = bookmaker, mc_provider = provider, mc_match_count = length (remdups (map ob_match_id records)),
         mc_observation_count = length records,
         mc_market_keys = sort (remdups (List.map_filter ob_canonical_market_key records)),
         mc_first_observed_at = Min (set (map wb_observed_at records)), mc_last_observed_at = Max (set (map wb_observed_at records))\<rparr>)"

definition build_market_coverage :: "odds_observation list \<Rightarrow> market_coverage list" where
  "build_market_coverage bs =
     map coverage_of (sort_key (\<lambda>g. fst (fst g)) (sort_key (\<lambda>g. snd (fst g)) (group_by (\<lambda>b. (ob_provider b, ob_bookmaker b)) bs)))"

section \<open>The odds API\<close>

record web_env =
  we_payload_hash :: "pydict \<Rightarrow> string"
  we_uuid5 :: "string \<Rightarrow> string"
  we_str :: "pyval \<Rightarrow> string"
  we_float :: "string \<Rightarrow> rat option"
  we_datetime :: "string \<Rightarrow> timestamp option"

definition str_py :: "web_env \<Rightarrow> pyval \<Rightarrow> string" where
  "str_py env v = (case v of PStr s \<Rightarrow> s | _ \<Rightarrow> we_str env v)"

fun float_py :: "web_env \<Rightarrow> pyval \<Rightarrow> py_exn + rat" where
  "float_py env (PFloat r) = Inr r"
| "float_py env (PInt i) = Inr (fl (of_int i))"
| "float_py env (PBool b) = Inr (if b then 1 else 0)"
| "float_py env (PStr s) =
     (case we_float env s of Some r \<Rightarrow> Inr r | None \<Rightarrow> Inl (Exn ValueError (''could not convert string to float: '' @ py_repr_str s)))"
| "float_py env v = Inl (Exn TypeError ''float() argument must be a string or a real number'')"

definition got :: "pydict \<Rightarrow> string \<Rightarrow> pyval" where
  "got d k = (case map_of d k of Some v \<Rightarrow> v | None \<Rightarrow> PNone)"

definition got_or :: "pydict \<Rightarrow> string \<Rightarrow> pyval \<Rightarrow> pyval" where
  "got_or d k v = (case map_of d k of Some x \<Rightarrow> x | None \<Rightarrow> v)"

fun items_py :: "pyval \<Rightarrow> py_exn + pyval list" where
  "items_py (PList vs) = Inr vs"
| "items_py (PTuple vs) = Inr vs"
| "items_py (PStr s) = Inr (map (\<lambda>c. PStr [c]) s)"
| "items_py (PDict d) = Inr (map (PStr \<circ> fst) d)"
| "items_py v = Inl (Exn TypeError ''object is not iterable'')"

definition replace_zulu :: "string \<Rightarrow> string" where
  "replace_zulu s = concat (map (\<lambda>c. if c = CHR ''Z'' then ''+00:00'' else [c]) s)"

definition dt_py :: "web_env \<Rightarrow> pyval \<Rightarrow> py_exn + timestamp option" where
  "dt_py env v =
     (case v of
        PNone \<Rightarrow> Inr None
      | PList _ \<Rightarrow> Inl (Exn TypeError ''unhashable type'')
      | PDict _ \<Rightarrow> Inl (Exn TypeError ''unhashable type'')
      | _ \<Rightarrow>
         if v \<in> {PStr ''None'', PStr ''null'', PStr []} then Inr None
         else (case we_datetime env (replace_zulu (str_py env v)) of
                 Some t \<Rightarrow> Inr (Some t)
               | None \<Rightarrow> Inl (Exn ValueError ''Invalid isoformat string'')))"

definition odds_api :: web_source where
  "odds_api = \<lparr>ws_source_id = ''the-odds-api'', ws_provider = ''The Odds API'', ws_kind = ''odds'',
     ws_base_uri = ''https://api.the-odds-api.com/v4'', ws_historical = True, ws_license_name = None\<rparr>"

definition mk_odds ::
  "web_env \<Rightarrow> web_source \<Rightarrow> string \<Rightarrow> timestamp \<Rightarrow> timestamp option \<Rightarrow> string \<Rightarrow> pydict \<Rightarrow> string \<Rightarrow> string \<Rightarrow> string \<Rightarrow> string option \<Rightarrow> string \<Rightarrow>
   rat option \<Rightarrow> rat \<Rightarrow> py_exn + odds_observation" where
  "mk_odds env src ext now stamp uri raw match bookmaker key description sel line price =
     rbind (implied_probability price) (\<lambda>implied.
     mk_odds_observation
       \<lparr>wb_observation_id = we_uuid5 env (ws_source_id src @ '':'' @ ext), wb_source_id = ws_source_id src, wb_external_id = ext,
        wb_observed_at = now, wb_source_timestamp = stamp, wb_source_uri = uri, wb_payload_hash = we_payload_hash env raw,
        ob_provider = ws_provider src, ob_match_id = match, ob_bookmaker = bookmaker, ob_provider_market_key = key,
        ob_market_description = description,
        ob_canonical_market_key = normalize_market_key (ws_source_id src) key (case description of Some d \<Rightarrow> d | None \<Rightarrow> []),
        ob_period = ''match'', ob_selection = sel, ob_line = line, ob_decimal_odds = price, ob_implied_probability = implied\<rparr>)"

fun collect_items :: "('a \<Rightarrow> py_exn + 'b list) \<Rightarrow> 'a list \<Rightarrow> py_exn + 'b list" where
  "collect_items f [] = Inr []"
| "collect_items f (x # xs) = rbind (f x) (\<lambda>ys. rbind (collect_items f xs) (\<lambda>zs. Inr (ys @ zs)))"

definition or_py :: "pyval \<Rightarrow> pyval \<Rightarrow> pyval" where
  "or_py v d = (if py_truthy v then v else d)"

definition parse_outcome ::
  "web_env \<Rightarrow> string \<Rightarrow> timestamp \<Rightarrow> string \<Rightarrow> string \<Rightarrow> string \<Rightarrow> string \<Rightarrow> timestamp option \<Rightarrow> pyval \<Rightarrow> py_exn + odds_observation list" where
  "parse_outcome env uri now match bookmaker key description stamp v =
     (case v of
        PDict raw \<Rightarrow>
          (case map_of raw ''price'' of
             None \<Rightarrow> Inr []
           | Some p \<Rightarrow>
              rbind (float_py env p) (\<lambda>price.
              rbind (if got raw ''point'' = PNone then Inr None
                     else rbind (float_py env (got raw ''point'')) (\<lambda>x. Inr (Some x))) (\<lambda>line.
              rbind (mk_odds env odds_api (match @ '':'' @ bookmaker @ '':'' @ key @ '':'' @ str_py env (got raw ''name'') @ '':'' @ str_py env (got raw ''point''))
                       now stamp uri raw match bookmaker key (Some description) (str_py env (got_or raw ''name'' (PStr []))) line price)
                (\<lambda>b. Inr [b]))))
      | _ \<Rightarrow> Inr [])"

definition parse_market ::
  "web_env \<Rightarrow> string \<Rightarrow> timestamp \<Rightarrow> string \<Rightarrow> string \<Rightarrow> pyval \<Rightarrow> py_exn + odds_observation list" where
  "parse_market env uri now match bookmaker v =
     (case v of
        PDict m \<Rightarrow>
          (let key = str_py env (got_or m ''key'' (PStr ''unknown''))
           in rbind (dt_py env (got m ''last_update'')) (\<lambda>stamp.
              rbind (items_py (got_or m ''outcomes'' (PList []))) (\<lambda>outs.
              collect_items (parse_outcome env uri now match bookmaker key (str_py env (or_py (got m ''title'') (PStr key))) stamp) outs)))
      | _ \<Rightarrow> Inr [])"

definition parse_bookmaker :: "web_env \<Rightarrow> string \<Rightarrow> timestamp \<Rightarrow> string \<Rightarrow> pyval \<Rightarrow> py_exn + odds_observation list" where
  "parse_bookmaker env uri now match v =
     (case v of
        PDict b \<Rightarrow>
          rbind (items_py (got_or b ''markets'' (PList []))) (\<lambda>ms.
          collect_items (parse_market env uri now match (str_py env (or_py (or_py (got b ''title'') (got b ''key'')) (PStr ''unknown'')))) ms)
      | _ \<Rightarrow> Inr [])"

definition parse_event :: "web_env \<Rightarrow> string \<Rightarrow> timestamp \<Rightarrow> pyval \<Rightarrow> py_exn + odds_observation list" where
  "parse_event env uri now v =
     (case v of
        PDict e \<Rightarrow>
          (case map_of e ''id'' of
             None \<Rightarrow> Inr []
           | Some i \<Rightarrow>
              rbind (items_py (got_or e ''bookmakers'' (PList []))) (\<lambda>bs. collect_items (parse_bookmaker env uri now (str_py env i)) bs))
      | _ \<Rightarrow> Inr [])"

definition odds_events :: "pydict \<Rightarrow> pyval list" where
  "odds_events payload =
     (case map_of payload ''data'' of
        Some (PList vs) \<Rightarrow> vs
      | Some (PDict d) \<Rightarrow> (case map_of d ''data'' of Some (PList vs) \<Rightarrow> vs | _ \<Rightarrow> [PDict payload])
      | _ \<Rightarrow> [PDict payload])"

definition parse_odds_api :: "web_env \<Rightarrow> string \<Rightarrow> timestamp \<Rightarrow> pydict \<Rightarrow> py_exn + odds_observation list" where
  "parse_odds_api env uri now payload = collect_items (parse_event env uri now) (odds_events payload)"

end
