(* ===== verification/Football_Properties.thy ===== *)
theory Football_Properties
  imports Football_Observations "HOL-Library.Multiset"
begin

text \<open>
  Properties of the football markets: settlement decides every well-formed event and is consistent across complementary
  selections, normalization keeps exactly the observations a prediction may use, coverage accounts for every observation.
\<close>

section \<open>Settlement\<close>

lemma fl_0 [simp]: "fl 0 = 0"
  by (simp add: fl_def)

lemma fl_minus: "fl (- x) = - fl x"
  by (auto simp: fl_def rat_uminus_code Let_def split_def)

lemma won_simps [simp]: "won b = WIN \<longleftrightarrow> b" "won b = LOSS \<longleftrightarrow> \<not> b" "won b \<noteq> PUSH"
  by (simp_all add: won_def)

lemma mk_market_event_valid:
  "mk_market_event e = Inr e' \<Longrightarrow> e' = e \<and> me_selection e \<in> set (allowed_selections (me_market_type e)) \<and>
     (needs_line (me_market_type e) \<longrightarrow> me_line e \<noteq> None) \<and> 1 < me_odds e"
  by (auto simp: mk_market_event_def rbind_Inr field_check_def validate_market_selection_def split: if_splits sum.splits)

text \<open>What a final score means for a selection, apart from how it is settled: when it wins and when it is level with its line.\<close>

fun wins :: "selection \<Rightarrow> rat option \<Rightarrow> int \<Rightarrow> int \<Rightarrow> bool" where
  "wins HOME_WIN _ home away = (away < home)"
| "wins DRAW _ home away = (home = away)"
| "wins AWAY_WIN _ home away = (home < away)"
| "wins HOME_OR_DRAW _ home away = (away \<le> home)"
| "wins DRAW_OR_AWAY _ home away = (home \<le> away)"
| "wins HOME_OR_AWAY _ home away = (home \<noteq> away)"
| "wins BTTS_YES _ home away = (1 \<le> home \<and> 1 \<le> away)"
| "wins BTTS_NO _ home away = (home \<le> 0 \<or> away \<le> 0)"
| "wins HOME_1UP _ home away = (away + 1 \<le> home)"
| "wins AWAY_1UP _ home away = (home + 1 \<le> away)"
| "wins OVER (Some l) home away = (l < of_int home + of_int away)"
| "wins UNDER (Some l) home away = (of_int home + of_int away < l)"
| "wins HOME_OVER (Some l) home away = (l < of_int home)"
| "wins HOME_UNDER (Some l) home away = (of_int home < l)"
| "wins AWAY_OVER (Some l) home away = (l < of_int away)"
| "wins AWAY_UNDER (Some l) home away = (of_int away < l)"
| "wins HOME_HANDICAP (Some l) home away = (of_int away < of_int home + l)"
| "wins AWAY_HANDICAP (Some l) home away = (of_int home < of_int away + l)"
| "wins _ None _ _ = False"

fun level :: "selection \<Rightarrow> rat option \<Rightarrow> int \<Rightarrow> int \<Rightarrow> bool" where
  "level s (Some l) home away =
     (case s of
        OVER \<Rightarrow> of_int home + of_int away = l | UNDER \<Rightarrow> of_int home + of_int away = l
      | HOME_OVER \<Rightarrow> of_int home = l | HOME_UNDER \<Rightarrow> of_int home = l
      | AWAY_OVER \<Rightarrow> of_int away = l | AWAY_UNDER \<Rightarrow> of_int away = l
      | HOME_HANDICAP \<Rightarrow> of_int home + l = of_int away | AWAY_HANDICAP \<Rightarrow> of_int away + l = of_int home
      | _ \<Rightarrow> False)"
| "level _ None _ _ = False"

definition fair_status :: "selection \<Rightarrow> rat option \<Rightarrow> int \<Rightarrow> int \<Rightarrow> outcome_status" where
  "fair_status s l home away = (if wins s l home away then WIN else if level s l home away then PUSH else LOSS)"

section \<open>Settlement against the score\<close>

lemma round_half_even_1 [simp]: "round_half_even n 1 = n"
  by (simp add: round_half_even_def)

lemma fl_of_nat_small:
  assumes "0 < n" and "n < 2 ^ 53"
  shows "fl_pos n 1 = of_int n"
proof -
  have "(2 :: int) ^ down_shift n 1 < 2 ^ 53" using down_shift_bounds [of 1 n] assms by simp
  then have "down_shift n 1 < 53" by (rule power_less_imp_less_exp [rotated]) simp
  then show ?thesis using assms by (simp add: fl_pos_def Let_def)
qed

lemma fl_of_int_small: "\<bar>n\<bar> < 2 ^ 53 \<Longrightarrow> fl (of_int n) = of_int n"
  by (auto simp: fl_def fl_of_nat_small)

lemma float_of_int_small: "\<bar>n\<bar> < 2 ^ 53 \<Longrightarrow> float_of_int n = Inr (of_int n)"
proof -
  assume n: "\<bar>n\<bar> < 2 ^ 53"
  then have "\<bar>of_int n :: rat\<bar> < 2 ^ 53" by (metis of_int_abs of_int_less_iff of_int_numeral of_int_power)
  also have "(2 :: rat) ^ 53 \<le> 2 ^ 1024" by (rule power_increasing) simp_all
  finally show ?thesis using fl_of_int_small [OF n] by (simp add: float_of_int_def)
qed

lemma fl_sign: "0 < fl x \<longleftrightarrow> 0 < x" "fl x < 0 \<longleftrightarrow> x < 0"
proof -
  have pos: "0 < fl y" if "0 < y" for y
  proof -
    have "\<bar>fl y - y\<bar> \<le> y * unit_roundoff" using fl_error [of y] that by simp
    moreover have "y * unit_roundoff < y * 1" using that unit_roundoff_bounds by (intro mult_strict_left_mono)
    ultimately show ?thesis by linarith
  qed
  show "0 < fl x \<longleftrightarrow> 0 < x" "fl x < 0 \<longleftrightarrow> x < 0"
    using pos [of x] pos [of "- x"] fl_minus [of x] by (cases x "0 :: rat" rule: linorder_cases; simp)+
qed

lemma handicap_exact:
  assumes "\<bar>m\<bar> < 2 ^ 53"
  shows "handicap_status s m l =
    (let d = (if s = HOME_HANDICAP then of_int m else - of_int m) + l in Inr (if 0 < d then WIN else if d < 0 then LOSS else PUSH))"
  using float_of_int_small [of m] float_of_int_small [of "- m"] assms by (simp add: handicap_status_def fl_sign Let_def)

lemma market_status_exact:
  assumes "mk_market_event e = Inr e'" and "\<bar>home - away\<bar> < 2 ^ 53"
  shows "market_status e home away = Inr (fair_status (me_selection e) (me_line e) home away)"
proof -
  note v = mk_market_event_valid [OF assms(1)]
  obtain l where l: "needs_line (me_market_type e) \<longrightarrow> me_line e = Some l" using v by blast
  show ?thesis
    using v l handicap_exact [OF assms(2)]
    by (cases "me_market_type e"; cases "me_line e")
      (auto simp: market_status_def result_status_def double_chance_status_def with_line_def needs_line_def fair_status_def
        team_goals_status_def over_under_status_def won_def Let_def sgn_if)
qed

text \<open>The other side of a market of two sides, and the status that it must have.\<close>

fun mirror :: "selection \<Rightarrow> selection option" where
  "mirror OVER = Some UNDER"
| "mirror UNDER = Some OVER"
| "mirror HOME_OVER = Some HOME_UNDER"
| "mirror HOME_UNDER = Some HOME_OVER"
| "mirror AWAY_OVER = Some AWAY_UNDER"
| "mirror AWAY_UNDER = Some AWAY_OVER"
| "mirror BTTS_YES = Some BTTS_NO"
| "mirror BTTS_NO = Some BTTS_YES"
| "mirror HOME_HANDICAP = Some AWAY_HANDICAP"
| "mirror AWAY_HANDICAP = Some HOME_HANDICAP"
| "mirror _ = None"

definition opposite :: "outcome_status \<Rightarrow> outcome_status" where
  "opposite s = (case s of WIN \<Rightarrow> LOSS | LOSS \<Rightarrow> WIN | x \<Rightarrow> x)"

definition other_side :: "selection \<Rightarrow> market_event \<Rightarrow> market_event" where
  "other_side s e =
     e\<lparr>me_selection := s, me_line := (if me_market_type e = MT_HANDICAP then map_option uminus (me_line e) else me_line e)\<rparr>"

definition settled_status :: "timestamp \<Rightarrow> market_event \<Rightarrow> int \<Rightarrow> int \<Rightarrow> py_exn + outcome_status" where
  "settled_status now e home away = map_sum id mo_status (settle_market now e home away)"

lemma other_side_valid:
  assumes "mk_market_event e = Inr e'" and "s \<in> set (allowed_selections (me_market_type e))"
  shows "mk_market_event (other_side s e) = Inr (other_side s e)"
  using assms by (auto simp: other_side_def mk_market_event_def rbind_Inr field_check_def validate_market_selection_def needs_line_def
      split: if_splits sum.splits)

lemma settle_exact:
  assumes "mk_market_event e = Inr e'" and "0 \<le> home" "0 \<le> away" "home + away < 2 ^ 53"
  shows "settle_market now e home away =
    Inr \<lparr>mo_event_id = me_event_id e, mo_status = fair_status (me_selection e) (me_line e) home away,
         mo_actual_value = Some (of_int (home + away)), mo_settled_at = now, mo_settlement_version = ''football-market-settlement-v1''\<rparr>"
proof -
  have "\<bar>home - away\<bar> < 2 ^ 53" "\<bar>home + away\<bar> < 2 ^ 53" using assms(2-) by simp_all
  then show ?thesis
    using market_status_exact [OF assms(1)] float_of_int_small assms(2,3) by (simp add: settle_market_def)
qed

lemma settled_status_exact:
  "mk_market_event e = Inr e' \<Longrightarrow> 0 \<le> home \<Longrightarrow> 0 \<le> away \<Longrightarrow> home + away < 2 ^ 53 \<Longrightarrow>
   settled_status now e home away = Inr (fair_status (me_selection e) (me_line e) home away)"
  by (simp add: settled_status_def settle_exact)

abbreviation float_overflow :: py_exn where
  "float_overflow \<equiv> Exn (OtherException ''OverflowError'') ''int too large to convert to float''"

lemma float_of_int_cases: "float_of_int n = Inl float_overflow \<or> (\<exists>x. float_of_int n = Inr x)"
  by (simp add: float_of_int_def Let_def)

lemma handicap_cases: "handicap_status s m l = Inl float_overflow \<or> (\<exists>st \<in> {WIN, LOSS, PUSH}. handicap_status s m l = Inr st)"
  using float_of_int_cases [of "if s = HOME_HANDICAP then m else - m"] by (auto simp: handicap_status_def Let_def split: if_splits)

lemma market_status_cases:
  assumes "mk_market_event e = Inr e'"
  shows "market_status e home away = Inl float_overflow \<or> (\<exists>st \<in> {WIN, LOSS, PUSH}. market_status e home away = Inr st)"
proof -
  note v = mk_market_event_valid [OF assms]
  obtain l where l: "needs_line (me_market_type e) \<longrightarrow> me_line e = Some l" using v by blast
  have other: "over_under_status n l s \<in> {WIN, LOSS, PUSH}" "won b \<in> {WIN, LOSS, PUSH}" for n s b
    by (auto simp: over_under_status_def won_def)
  show ?thesis
  proof (cases "me_market_type e = MT_HANDICAP")
    case True
    then show ?thesis using l handicap_cases [of "me_selection e" "home - away" l]
      by (simp add: market_status_def with_line_def needs_line_def)
  next
    case False
    then have "\<exists>st. market_status e home away = Inr st \<and> st \<in> {WIN, LOSS, PUSH}"
      using v l other by (cases "me_market_type e")
        (auto simp: market_status_def result_status_def double_chance_status_def with_line_def needs_line_def
          team_goals_status_def Let_def simp del: won_simps)
    then show ?thesis by blast
  qed
qed

lemma settle_cases:
  assumes "mk_market_event e = Inr e'" and "0 \<le> home" "0 \<le> away"
  shows "settle_market now e home away = Inl float_overflow \<or> settled_status now e home away \<in> Inr ` {WIN, LOSS, PUSH}"
  using market_status_cases [OF assms(1), of home away] float_of_int_cases [of "home + away"] assms(2,3)
  by (auto simp: settle_market_def settled_status_def)

lemma mirror_allowed:
  "mirror s = Some s' \<Longrightarrow> s \<in> set (allowed_selections m) \<Longrightarrow> s' \<in> set (allowed_selections m)"
  by (cases m) auto

lemma fair_mirror:
  assumes "mirror s = Some s'" and "s \<in> set (allowed_selections m)" and "needs_line m \<longrightarrow> l \<noteq> None"
  shows "fair_status s' (if m = MT_HANDICAP then map_option uminus l else l) home away = opposite (fair_status s l home away)"
  using assms by (cases m; cases l) (auto simp: fair_status_def opposite_def needs_line_def)

lemma settled_mirror:
  assumes "mk_market_event e = Inr e'" and "mirror (me_selection e) = Some s" and "0 \<le> home" "0 \<le> away" "home + away < 2 ^ 53"
  shows "settled_status now (other_side s e) home away = map_sum id opposite (settled_status now e home away)"
proof -
  note v = mk_market_event_valid [OF assms(1)]
  then have "s \<in> set (allowed_selections (me_market_type e))" using mirror_allowed assms(2) by blast
  note r = other_side_valid [OF assms(1) this]
  show ?thesis
    using settled_status_exact [OF r assms(3-)] settled_status_exact [OF assms(1,3-)] fair_mirror [OF assms(2)] v
    by (simp add: other_side_def)
qed

lemma settled_results:
  fixes now :: timestamp
  assumes "mk_market_event e = Inr e'" and "me_market_type e = MT_RESULT" and "0 \<le> home" "0 \<le> away" "home + away < 2 ^ 53"
  defines "won_by \<equiv> \<lambda>m s. settled_status now (e\<lparr>me_market_type := m, me_selection := s\<rparr>) home away = Inr WIN"
  shows "length (filter (won_by MT_RESULT) [HOME_WIN, DRAW, AWAY_WIN]) = 1 \<and>
    won_by MT_DOUBLE_CHANCE HOME_OR_DRAW = (won_by MT_RESULT HOME_WIN \<or> won_by MT_RESULT DRAW) \<and>
    won_by MT_DOUBLE_CHANCE DRAW_OR_AWAY = (won_by MT_RESULT DRAW \<or> won_by MT_RESULT AWAY_WIN) \<and>
    won_by MT_DOUBLE_CHANCE HOME_OR_AWAY = (won_by MT_RESULT HOME_WIN \<or> won_by MT_RESULT AWAY_WIN)"
proof -
  have "won_by m s \<longleftrightarrow> fair_status s (me_line e) home away = WIN"
    if "s \<in> set (allowed_selections m)" "m \<in> {MT_RESULT, MT_DOUBLE_CHANCE}" for m s
  proof -
    have "mk_market_event (e\<lparr>me_market_type := m, me_selection := s\<rparr>) = Inr (e\<lparr>me_market_type := m, me_selection := s\<rparr>)"
      using assms(1) that by (auto simp: mk_market_event_def rbind_Inr field_check_def validate_market_selection_def needs_line_def
          split: if_splits sum.splits)
    from settled_status_exact [OF this assms(3-5)] show ?thesis by (simp add: won_by_def)
  qed
  then show ?thesis by (auto simp: fair_status_def)
qed

text \<open>
  C39. Settlement is exact and consistent, for every event that the contract accepts with a finite line, if any. Negative
  goals are refused. From a final score below 2 to the power 53 goals the event is settled, with its own identity, the
  total and the status that the score means (\<open>fair_status\<close>): won, level with its line or else lost. Beyond that it is
  settled as won, lost or pushed, or the conversion of a count to a float overflows. Of the three results exactly one wins,
  a double chance wins exactly if one of its two results does, and the two sides of a total, of a team's goals, of both
  teams to score and of a handicap, whose line is negated, have opposite status: one wins exactly if the other loses.
\<close>

theorem settlement_consistent:
  assumes "mk_market_event e = Inr e'"
  shows "(home < 0 \<or> away < 0 \<longrightarrow> settle_market now e home away = Inl (Exn ValueError ''Goals cannot be negative'')) \<and>
    (0 \<le> home \<and> 0 \<le> away \<longrightarrow>
       settle_market now e home away = Inl float_overflow \<or> settled_status now e home away \<in> Inr ` {WIN, LOSS, PUSH}) \<and>
    (0 \<le> home \<and> 0 \<le> away \<and> home + away < 2 ^ 53 \<longrightarrow>
       settle_market now e home away =
         Inr \<lparr>mo_event_id = me_event_id e, mo_status = fair_status (me_selection e) (me_line e) home away,
              mo_actual_value = Some (of_int (home + away)), mo_settled_at = now, mo_settlement_version = ''football-market-settlement-v1''\<rparr> \<and>
       (\<forall>s. mirror (me_selection e) = Some s \<longrightarrow>
          settled_status now (other_side s e) home away = map_sum id opposite (settled_status now e home away)) \<and>
       (me_market_type e = MT_RESULT \<longrightarrow>
          (let wins = \<lambda>m s. settled_status now (e\<lparr>me_market_type := m, me_selection := s\<rparr>) home away = Inr WIN
           in length (filter (wins MT_RESULT) [HOME_WIN, DRAW, AWAY_WIN]) = 1 \<and>
              wins MT_DOUBLE_CHANCE HOME_OR_DRAW = (wins MT_RESULT HOME_WIN \<or> wins MT_RESULT DRAW) \<and>
              wins MT_DOUBLE_CHANCE DRAW_OR_AWAY = (wins MT_RESULT DRAW \<or> wins MT_RESULT AWAY_WIN) \<and>
              wins MT_DOUBLE_CHANCE HOME_OR_AWAY = (wins MT_RESULT HOME_WIN \<or> wins MT_RESULT AWAY_WIN))))"
proof -
  have "settle_market now e home away = Inl (Exn ValueError ''Goals cannot be negative'')" if "home < 0 \<or> away < 0"
    using that by (simp add: settle_market_def)
  then show ?thesis
    using settle_cases [OF assms] settle_exact [OF assms] settled_mirror [OF assms] settled_results [OF assms] by simp
qed

definition sample_market :: market_event where
  "sample_market = \<lparr>me_event_id = ''e'', me_match_id = ''m'', me_market_type = MT_TOTAL_GOALS, me_selection = OVER, me_line = Some (5/2), me_odds = 2,
     me_implied_probability = 1/2, me_model_probability = 3/5, me_confidence = 1, me_prediction_id = ''p'', me_prediction_version = ''v'',
     me_evidence = [], me_created_at = 0\<rparr>"

theorem settlement_consistent_witness:
  "mk_market_event sample_market = Inr sample_market \<and> settled_status 0 sample_market 2 1 = Inr WIN \<and>
   settled_status 0 (other_side UNDER sample_market) 2 1 = Inr LOSS \<and> isl (settle_market 0 sample_market 2 (-1))"
proof -
  have "mk_market_event sample_market = Inr sample_market"
    by (simp add: mk_market_event_def sample_market_def field_check_def validate_market_selection_def needs_line_def)
  note s = settlement_consistent [OF this]
  have "settled_status 0 sample_market 2 1 = Inr WIN"
    using s [of 2 1 0] by (simp add: settled_status_def sample_market_def fair_status_def)
  moreover have "settled_status 0 (other_side UNDER sample_market) 2 1 = Inr LOSS"
    using s [of 2 1 0] calculation by (simp add: sample_market_def opposite_def)
  ultimately show ?thesis using \<open>mk_market_event sample_market = Inr sample_market\<close> s [of 2 "-1" 0] by simp
qed

section \<open>Observations\<close>

definition usable :: "web_source \<Rightarrow> timestamp option \<Rightarrow> observation \<Rightarrow> bool" where
  "usable src created x \<longleftrightarrow> wb_source_id (obs_base x) = ws_source_id src \<and> \<not> future_for created (obs_base x)"

lemma normalize_loop_effect:
  "nr_records (normalize_loop isoformat src created xs r) = nr_records r @ filter (usable src created) xs \<and>
   nr_rejected_count (normalize_loop isoformat src created xs r) = nr_rejected_count r + length (filter (\<lambda>x. \<not> usable src created x) xs) \<and>
   length (nr_warnings (normalize_loop isoformat src created xs r)) = length (nr_warnings r) + length (filter (\<lambda>x. \<not> usable src created x) xs) \<and>
   nr_source_id (normalize_loop isoformat src created xs r) = nr_source_id r"
  by (induction xs arbitrary: r) (auto simp: usable_def Let_def)

text \<open>
  Normalization keeps exactly the observations of the source that are not dated after the prediction, in their order;
  what it rejects it counts and warns about, one by one; and the records it keeps pass the check of temporal integrity.
\<close>

theorem normalization_is_leakage_safe:
  "let r = normalize_observations isoformat src xs created
   in nr_records r = filter (usable src created) xs \<and>
      nr_rejected_count r + length (nr_records r) = length xs \<and> length (nr_warnings r) = nr_rejected_count r \<and>
      (case created of None \<Rightarrow> True | Some t \<Rightarrow> assert_temporal_integrity (map obs_base (nr_records r)) t = Inr ())"
proof -
  define r where "r = normalize_observations isoformat src xs created"
  have r: "nr_records r = filter (usable src created) xs" "nr_rejected_count r = length (filter (\<lambda>x. \<not> usable src created x) xs)"
    "length (nr_warnings r) = length (filter (\<lambda>x. \<not> usable src created x) xs)"
    using normalize_loop_effect [of isoformat src created xs "\<lparr>nr_source_id = ws_source_id src, nr_records = [], nr_warnings = [], nr_rejected_count = 0\<rparr>"]
    by (simp_all add: r_def normalize_observations_def)
  have "filter (future_for (Some t)) (map obs_base (nr_records r)) = []" if "created = Some t" for t
    using that by (auto simp: r(1) usable_def filter_empty_conv)
  then have "case created of None \<Rightarrow> True | Some t \<Rightarrow> assert_temporal_integrity (map obs_base (nr_records r)) t = Inr ()"
    by (simp add: assert_temporal_integrity_def Let_def split: option.splits)
  moreover have "nr_rejected_count r + length (nr_records r) = length xs"
    unfolding r using sum_length_filter_compl [of "usable src created" xs] by linarith
  ultimately show ?thesis using r unfolding r_def Let_def by simp
qed

section \<open>Coverage\<close>

definition members :: "('k \<times> 'a list) list \<Rightarrow> 'k \<Rightarrow> 'a list" where
  "members g k = (case map_of g k of Some ys \<Rightarrow> ys | None \<Rightarrow> [])"

definition group_ok :: "('k \<times> 'a list) list \<Rightarrow> bool" where
  "group_ok g \<longleftrightarrow> distinct (map fst g) \<and> (\<forall>k ys. map_of g k = Some ys \<longrightarrow> ys \<noteq> [])"

lemma group_step:
  assumes "group_ok g"
  shows "group_ok (AList.update k (members g k @ [x]) g)" and
    "members (AList.update k (members g k @ [x]) g) k' = members g k' @ (if k = k' then [x] else [])"
  using assms distinct_update [of g k "members g k @ [x]"] by (auto simp: group_ok_def members_def update_conv')

lemma group_fold:
  assumes "group_ok g"
  shows "group_ok (fold (\<lambda>x g. AList.update (f x) (members g (f x) @ [x]) g) xs g) \<and>
    members (fold (\<lambda>x g. AList.update (f x) (members g (f x) @ [x]) g) xs g) k = members g k @ filter (\<lambda>x. f x = k) xs"
  using assms
proof (induction xs arbitrary: g)
  case (Cons x xs)
  note ih = Cons.IH [OF group_step(1) [OF Cons.prems, of "f x" x]]
  show ?case unfolding fold.simps comp_apply using ih group_step(2) [OF Cons.prems, of "f x" x k] by (cases "f x = k") simp_all
qed simp

lemma group_by_spec:
  "distinct (map fst (group_by f xs))" "(k, ys) \<in> set (group_by f xs) \<Longrightarrow> ys = filter (\<lambda>x. f x = k) xs \<and> ys \<noteq> []"
  "fst ` set (group_by f xs) = f ` set xs"
proof -
  have "group_ok []" by (simp add: group_ok_def)
  from group_fold [OF this, of f xs] have ok: "group_ok (group_by f xs)" and m: "members (group_by f xs) k = filter (\<lambda>x. f x = k) xs" for k
    by (simp_all add: group_by_def members_def)
  show d: "distinct (map fst (group_by f xs))" using ok by (simp add: group_ok_def)
  show spec: "ys = filter (\<lambda>x. f x = k) xs \<and> ys \<noteq> []" if "(k, ys) \<in> set (group_by f xs)" for k ys
  proof -
    have "map_of (group_by f xs) k = Some ys" using d that by (rule map_of_is_SomeI)
    then show ?thesis using m [of k] ok by (auto simp: members_def group_ok_def)
  qed
  have "k \<in> fst ` set (group_by f xs) \<longleftrightarrow> filter (\<lambda>x. f x = k) xs \<noteq> []" for k
  proof (cases "map_of (group_by f xs) k")
    case None
    then have "filter (\<lambda>x. f x = k) xs = []" using m [of k] by (simp add: members_def)
    then show ?thesis using None by (simp add: map_of_eq_None_iff)
  next
    case (Some ys)
    then have "(k, ys) \<in> set (group_by f xs)" by (rule map_of_SomeD)
    then show ?thesis using spec by (metis fst_conv image_eqI)
  qed
  moreover have "filter (\<lambda>x. f x = k) xs \<noteq> [] \<longleftrightarrow> k \<in> f ` set xs" for k by (auto simp: filter_empty_conv)
  ultimately show "fst ` set (group_by f xs) = f ` set xs" by (intro set_eqI) (simp only:)
qed

lemma sum_groups: "finite K \<Longrightarrow> f ` set xs \<subseteq> K \<Longrightarrow> (\<Sum>k\<in>K. length (filter (\<lambda>x. f x = k) xs)) = length xs"
proof (induction xs)
  case (Cons x xs)
  have "length (filter (\<lambda>y. f y = k) (x # xs)) = (if k = f x then 1 else 0) + length (filter (\<lambda>y. f y = k) xs)" for k by auto
  then have "(\<Sum>k\<in>K. length (filter (\<lambda>y. f y = k) (x # xs))) = (\<Sum>k\<in>K. if k = f x then 1 else 0) + (\<Sum>k\<in>K. length (filter (\<lambda>y. f y = k) xs))"
    by (simp only: sum.distrib)
  then show ?case using Cons by simp
qed simp

definition pair_of :: "odds_observation \<Rightarrow> string \<times> string" where
  "pair_of b = (ob_provider b, ob_bookmaker b)"

definition groups_of :: "odds_observation list \<Rightarrow> ((string \<times> string) \<times> odds_observation list) list" where
  "groups_of bs = sort_key (\<lambda>g. fst (fst g)) (sort_key (\<lambda>g. snd (fst g)) (group_by pair_of bs))"

lemma groups_of:
  "mset (groups_of bs) = mset (group_by pair_of bs)" "sorted (map (\<lambda>g. fst (fst g)) (groups_of bs))"
  "build_market_coverage bs = map coverage_of (groups_of bs)"
  by (simp_all add: groups_of_def build_market_coverage_def pair_of_def [abs_def])

lemma groups_of_spec:
  "distinct (map fst (groups_of bs))" "(k, ys) \<in> set (groups_of bs) \<Longrightarrow> ys = filter (\<lambda>x. pair_of x = k) bs \<and> ys \<noteq> []"
  "fst ` set (groups_of bs) = pair_of ` set bs" "sum_list (map (length \<circ> snd) (groups_of bs)) = length bs"
proof -
  have set: "set (groups_of bs) = set (group_by pair_of bs)" using groups_of(1) by (metis set_mset_mset)
  have "mset (map fst (groups_of bs)) = mset (map fst (group_by pair_of bs))" using groups_of(1) by simp
  then show d: "distinct (map fst (groups_of bs))" using group_by_spec(1) [of pair_of bs] mset_eq_imp_distinct_iff by blast
  show g: "(k, ys) \<in> set (groups_of bs) \<Longrightarrow> ys = filter (\<lambda>x. pair_of x = k) bs \<and> ys \<noteq> []" for k ys
    using group_by_spec(2) [of k ys pair_of bs] unfolding set .
  show k: "fst ` set (groups_of bs) = pair_of ` set bs" using group_by_spec(3) [of pair_of bs] unfolding set .
  have "(length \<circ> snd) x = (\<lambda>k. length (filter (\<lambda>x. pair_of x = k) bs)) (fst x)" if "x \<in> set (groups_of bs)" for x
    using g [of "fst x" "snd x"] that by simp
  then have "map (length \<circ> snd) (groups_of bs) = map (\<lambda>k. length (filter (\<lambda>x. pair_of x = k) bs)) (map fst (groups_of bs))"
    unfolding map_map comp_def by (intro map_cong refl)
  then have "sum_list (map (length \<circ> snd) (groups_of bs)) = sum_list (map (\<lambda>k. length (filter (\<lambda>x. pair_of x = k) bs)) (map fst (groups_of bs)))"
    by (rule arg_cong)
  also have "\<dots> = (\<Sum>k\<in>set (map fst (groups_of bs)). length (filter (\<lambda>x. pair_of x = k) bs))"
    by (rule sum_list_distinct_conv_sum_set [OF d])
  also have "\<dots> = length bs" using k by (intro sum_groups) auto
  finally show "sum_list (map (length \<circ> snd) (groups_of bs)) = length bs" .
qed

lemma coverage_own:
  assumes "own \<noteq> []"
  shows "let x = coverage_of ((p, b), own)
    in mc_provider x = p \<and> mc_bookmaker x = b \<and> mc_observation_count x = length own \<and> mc_match_count x = card (ob_match_id ` set own) \<and>
       set (mc_market_keys x) = {k. Some k \<in> ob_canonical_market_key ` set own} \<and> sorted (mc_market_keys x) \<and>
       list_all (\<lambda>b. mc_first_observed_at x \<le> wb_observed_at b \<and> wb_observed_at b \<le> mc_last_observed_at x) own"
proof -
  have "card (ob_match_id ` set own) = length (remdups (map ob_match_id own))" by (simp add: length_remdups_card_conv)
  moreover have "set (List.map_filter ob_canonical_market_key own) = {k. Some k \<in> ob_canonical_market_key ` set own}"
    by (induction own) (auto simp: map_filter_simps split: option.splits)
  ultimately show ?thesis by (auto simp: coverage_of_def Let_def list_all_iff)
qed

text \<open>
  Coverage accounts for every observation exactly once: there is one entry per provider and bookmaker that was observed,
  in sorted order; it counts that pair's observations and matches and lists exactly the markets they were seen in, and its
  first and last times bound them. The counts add up to the number of observations.
\<close>

theorem coverage_is_exact:
  "let c = build_market_coverage bs; pairs = map (\<lambda>x. (mc_provider x, mc_bookmaker x)) c
   in distinct pairs \<and> sorted (map fst pairs) \<and> set pairs = pair_of ` set bs \<and>
      sum_list (map mc_observation_count c) = length bs \<and>
      list_all (\<lambda>x. let own = filter (\<lambda>b. pair_of b = (mc_provider x, mc_bookmaker x)) bs
         in mc_observation_count x = length own \<and> mc_match_count x = card (ob_match_id ` set own) \<and>
            set (mc_market_keys x) = {k. Some k \<in> ob_canonical_market_key ` set own} \<and> sorted (mc_market_keys x) \<and>
            list_all (\<lambda>b. mc_first_observed_at x \<le> wb_observed_at b \<and> wb_observed_at b \<le> mc_last_observed_at x) own) c"
proof -
  let ?g = "groups_of bs"
  have pair: "(mc_provider (coverage_of g), mc_bookmaker (coverage_of g)) = fst g" for g by (auto simp: coverage_of_def split: prod.splits)
  have pairs: "map (\<lambda>x. (mc_provider x, mc_bookmaker x)) (build_market_coverage bs) = map fst ?g" by (simp add: groups_of(3) pair)
  have count: "map mc_observation_count (build_market_coverage bs) = map (length \<circ> snd) ?g"
    by (auto simp: groups_of(3) coverage_of_def split: prod.splits)
  have own: "snd g = filter (\<lambda>b. pair_of b = (mc_provider (coverage_of g), mc_bookmaker (coverage_of g))) bs \<and> snd g \<noteq> []" if "g \<in> set ?g" for g
  proof -
    have "(fst g, snd g) \<in> set ?g" using that by simp
    from groups_of_spec(2) [OF this] show ?thesis unfolding pair by blast
  qed
  have "\<forall>g \<in> set ?g. let x = coverage_of g; own = filter (\<lambda>b. pair_of b = (mc_provider x, mc_bookmaker x)) bs
         in mc_observation_count x = length own \<and> mc_match_count x = card (ob_match_id ` set own) \<and>
            set (mc_market_keys x) = {k. Some k \<in> ob_canonical_market_key ` set own} \<and> sorted (mc_market_keys x) \<and>
            list_all (\<lambda>b. mc_first_observed_at x \<le> wb_observed_at b \<and> wb_observed_at b \<le> mc_last_observed_at x) own"
  proof
    fix g
    assume g: "g \<in> set ?g"
    show "let x = coverage_of g; own = filter (\<lambda>b. pair_of b = (mc_provider x, mc_bookmaker x)) bs
         in mc_observation_count x = length own \<and> mc_match_count x = card (ob_match_id ` set own) \<and>
            set (mc_market_keys x) = {k. Some k \<in> ob_canonical_market_key ` set own} \<and> sorted (mc_market_keys x) \<and>
            list_all (\<lambda>b. mc_first_observed_at x \<le> wb_observed_at b \<and> wb_observed_at b \<le> mc_last_observed_at x) own"
      using coverage_own [of "snd g" "fst (fst g)" "snd (fst g)"] own [OF g] unfolding Let_def prod.collapse by metis
  qed
  then show ?thesis
    using groups_of_spec(1,3,4) [of bs] groups_of(2) [of bs] unfolding Let_def pairs count
    by (simp add: groups_of(3) list_all_iff comp_def)
qed

section \<open>Where the catalogue and the parser fall short\<close>

text \<open>
  The names of a market are looked for anywhere in the provider's key, in the order of the catalogue. With \<open>ng\<close> among the
  names of both teams to score, booking points become that market; the totals of a team become totals of the match.
\<close>

lemma catalogue_keys_misread:
  "normalize_market_key ''other'' ''booking_points'' [] = Some ''btts'' \<and> normalize_market_key ''other'' ''team_totals'' [] = Some ''totals''"
  by code_simp

definition demo_web_env :: web_env where
  "demo_web_env = \<lparr>we_payload_hash = (\<lambda>_. []), we_uuid5 = id, we_str = (\<lambda>_. []), we_float = (\<lambda>_. None), we_datetime = (\<lambda>_. None)\<rparr>"

definition demo_outcome :: "rat \<Rightarrow> pyval" where
  "demo_outcome price = PDict [(''name'', PStr ''home''), (''price'', PFloat price)]"

text \<open>One price of 1 or less, as a suspended market shows it, and the whole payload is lost.\<close>

lemma one_bad_price_loses_payload:
  "map_sum id (map ob_selection) (parse_odds_api demo_web_env [] 0 [(''id'', PStr ''m''), (''bookmakers'', PList [PDict [(''key'', PStr ''b''),
     (''markets'', PList [PDict [(''key'', PStr ''h2h''), (''outcomes'', PList [demo_outcome 2, demo_outcome 1])]])]])])
   = Inl (Exn ValueError ''decimal_odds must be greater than 1'')"
  by code_simp

text \<open>An observation without a time of its source passes the check of temporal integrity.\<close>

lemma undated_observation_passes:
  "assert_temporal_integrity [\<lparr>wb_observation_id = ''late'', wb_source_id = ''s'', wb_external_id = ''x'', wb_observed_at = 1000,
     wb_source_timestamp = None, wb_source_uri = [], wb_payload_hash = []\<rparr>] 0 = Inr ()"
  by code_simp

end
