(* ===== verification/Production_Kernel.thy ===== *)
theory Production_Kernel
  imports Resilience_Transaction
begin

text \<open>
  \<^verbatim>\<open>production/ois_production_kernel.py\<close>: the lease of an execution, the signed evidence ledger, the promotion gate,
  the classification of failures, the dead letters and \<open>execute_supervisor_pipeline\<close>. SHA-256, HMAC, the spelling of
  JSON, the classes of exceptions from elsewhere and LangGraph are arguments. Between two commands of a run other
  processes act (\<open>pn_interfere\<close>), and a command may fail without effect or take effect and lose its reply. Spans and
  counters of the telemetry are left out, and so is the cancellation of the task.
\<close>

section \<open>Failures\<close>

abbreviation KernelPanicException :: exn_class where
  "KernelPanicException \<equiv> OtherException ''KernelPanicException''"

abbreviation EvidenceVerificationFailure :: exn_class where
  "EvidenceVerificationFailure \<equiv> OtherException ''EvidenceVerificationFailure''"

abbreviation StateRecoveryFailure :: exn_class where
  "StateRecoveryFailure \<equiv> OtherException ''StateRecoveryFailure''"

text \<open>\<open>isa c b\<close>: the class \<open>c\<close> is the builtin class \<open>b\<close> or one of its subclasses.\<close>

definition classify_failure :: "(exn_class \<Rightarrow> string \<Rightarrow> bool) \<Rightarrow> py_exn \<Rightarrow> string" where
  "classify_failure isa e =
     (let c = exn_class e
      in if c = FencingTokenMismatch then ''RC-08''
         else if c = EvidenceVerificationFailure then ''RC-12''
         else if c = OtherException ''SafetyViolation'' then ''RC-11''
         else if isa c ''PermissionError'' \<or> c = OtherException ''PermissionDenied'' then ''RC-12''
         else if c = StateRecoveryFailure then ''RC-06''
         else if c = OtherException ''ToolExecutionFailure'' then ''RC-03''
         else if c = OtherException ''ParameterValidationFailure'' \<or> isa c ''ValueError'' then ''RC-04''
         else if isa c ''TimeoutError'' \<or> c = OtherException ''TransientKernelFailure'' then ''RC-01''
         else ''RC-09'')"

section \<open>The keys of Redis\<close>

text \<open>A key holds a string with an expiry or a counter without one; \<open>INCR\<close> of a string that is no number raises.\<close>

datatype lock_value = Held string timestamp | Count int

type_synonym lock_table = "(string \<times> lock_value) list"

definition lock_live :: "timestamp \<Rightarrow> lock_table \<Rightarrow> string \<Rightarrow> lock_value option" where
  "lock_live now st k =
     (case map_of st k of Some (Held v e) \<Rightarrow> if e > now then Some (Held v e) else None | r \<Rightarrow> r)"

definition lock_get :: "timestamp \<Rightarrow> lock_table \<Rightarrow> string \<Rightarrow> string option" where
  "lock_get now st k = map_option (\<lambda>v. case v of Held s _ \<Rightarrow> s | Count n \<Rightarrow> int_str n) (lock_live now st k)"

definition redis_incr :: "timestamp \<Rightarrow> string \<Rightarrow> lock_table \<Rightarrow> (py_exn + int) \<times> lock_table" where
  "redis_incr now k st =
     (case lock_live now st k of
        Some (Held _ _) \<Rightarrow> (Inl (Exn (OtherException ''ResponseError'') ''value is not an integer or out of range''), st)
      | Some (Count n) \<Rightarrow> (Inr (n + 1), AList.update k (Count (n + 1)) st)
      | None \<Rightarrow> (Inr 1, AList.update k (Count 1) st))"

definition redis_set_nx :: "timestamp \<Rightarrow> int \<Rightarrow> string \<Rightarrow> string \<Rightarrow> lock_table \<Rightarrow> bool \<times> lock_table" where
  "redis_set_nx now ttl k v st =
     (if lock_live now st k \<noteq> None then (False, st) else (True, AList.update k (Held v (now + ttl)) st))"

definition redis_compare_delete :: "timestamp \<Rightarrow> string \<Rightarrow> string \<Rightarrow> lock_table \<Rightarrow> lock_table" where
  "redis_compare_delete now k v st = (if lock_get now st k = Some v then AList.delete k st else st)"

definition counter_key :: "string \<Rightarrow> string" where
  "counter_key k = k @ '':counter''"

definition lease_value :: "int \<Rightarrow> string \<Rightarrow> string" where
  "lease_value token owner = int_str token @ '':'' @ owner"

section \<open>The world of a run\<close>

record artifact =
  af_tenant_id :: string
  af_workflow_name :: string
  af_version_tag :: string
  af_manifest :: pyval
  af_provenance_hash :: string
  af_signature :: string

record attest_row =
  lr_tenant_id :: string
  lr_thread_id :: string
  lr_sequence_no :: int
  lr_event_type :: string
  lr_payload_hash :: string
  lr_previous_hash :: string
  lr_event_hash :: string
  lr_context :: json_text
  lr_signature :: string

record sealed_letter =
  sl_tenant_id :: string
  sl_thread_id :: string
  sl_scenario_id :: string
  sl_diagnostic :: string
  sl_frozen :: json_text
  sl_seal :: string

record pk_world =
  pw_locks :: lock_table
  pw_artifacts :: "artifact list"
  pw_evidence :: "attest_row list"
  pw_letters :: "sealed_letter list"
  pw_step :: nat

type_synonym graph_step = "pydict \<Rightarrow> py_exn + pydict"

text \<open>
  What a \<open>StateGraph\<close> is built of: its named nodes, its edges from \<open>START\<close> to \<open>END\<close>, and the nodes it is compiled to
  stop before. Compiling and invoking it is LangGraph's work, an argument (\<open>pn_graph\<close>).
\<close>

record state_graph =
  sg_nodes :: "(string \<times> graph_step) list"
  sg_edges :: "(string \<times> string) list"
  sg_interrupt_before :: "string list"

definition START :: string where
  "START = ''__start__''"

definition END :: string where
  "END = ''__end__''"

record pk_env =
  pn_clock :: "nat \<Rightarrow> timestamp"
  pn_interfere :: "nat \<Rightarrow> pk_world \<Rightarrow> pk_world"
  pn_outcome :: "nat \<Rightarrow> pg_outcome"
  pn_token_hex :: "nat \<Rightarrow> string"
  pn_uuid :: "nat \<Rightarrow> uuid"
  pn_sha256 :: "string \<Rightarrow> string"
  pn_hmac :: "string \<Rightarrow> string"
  pn_compact :: "json_text \<Rightarrow> string"
  pn_spaced :: "json_text \<Rightarrow> string"
  pn_isa :: "exn_class \<Rightarrow> string \<Rightarrow> bool"
  pn_graph :: "state_graph \<Rightarrow> pydict \<Rightarrow> py_exn + pyval"

text \<open>One command to Redis or one transaction of PostgreSQL; a transaction that raises leaves its tables.\<close>

definition pk_command :: "pk_env \<Rightarrow> (nat \<Rightarrow> pk_world \<Rightarrow> (py_exn + 'a) \<times> pk_world) \<Rightarrow> (pk_world, 'a) em" where
  "pk_command env f = (\<lambda>w.
     let n = pw_step w; w1 = (pn_interfere env n w)\<lparr>pw_step := Suc n\<rparr>
     in case pn_outcome env n of
          Done \<Rightarrow> f n w1
        | Failed e \<Rightarrow> (Inl e, w1)
        | Lost_reply e \<Rightarrow> (Inl e, snd (f n w1)))"

definition on_locks :: "(lock_table \<Rightarrow> 'a \<times> lock_table) \<Rightarrow> pk_world \<Rightarrow> 'a \<times> pk_world" where
  "on_locks f w = (case f (pw_locks w) of (r, st) \<Rightarrow> (r, w\<lparr>pw_locks := st\<rparr>))"

section \<open>The lease\<close>

definition lease_ttl :: int where
  "lease_ttl = 15000 * 1000"

definition exec_lease_acquire :: "pk_env \<Rightarrow> string \<Rightarrow> string \<Rightarrow> (pk_world, int) em" where
  "exec_lease_acquire env k owner =
     ebind (pk_command env (\<lambda>n. on_locks (redis_incr (pn_clock env n) (counter_key k)))) (\<lambda>token.
     ebind (pk_command env (\<lambda>n. on_locks (\<lambda>st. map_prod Inr id
              (redis_set_nx (pn_clock env n) lease_ttl k (lease_value token owner) st)))) (\<lambda>acquired.
     if \<not> acquired then eraise (Exn KernelPanicException ''Execution lease contention'') else eret token))"

definition exec_lease_release :: "pk_env \<Rightarrow> string \<Rightarrow> string \<Rightarrow> int option \<Rightarrow> (pk_world, unit) em" where
  "exec_lease_release env k owner token =
     (case token of
        None \<Rightarrow> eret ()
      | Some t \<Rightarrow> pk_command env (\<lambda>n. on_locks (\<lambda>st.
          (Inr (), redis_compare_delete (pn_clock env n) k (lease_value t owner) st))))"

section \<open>The evidence ledger\<close>

definition ledger_rows :: "string \<Rightarrow> string \<Rightarrow> attest_row list \<Rightarrow> attest_row list" where
  "ledger_rows tenant thread rows = filter (\<lambda>r. lr_tenant_id r = tenant \<and> lr_thread_id r = thread) rows"

text \<open>\<open>ORDER BY sequence_no DESC LIMIT 1\<close>.\<close>

fun top_row :: "attest_row list \<Rightarrow> attest_row option" where
  "top_row [] = None"
| "top_row (r # rs) = Some (fold (\<lambda>x m. if lr_sequence_no x > lr_sequence_no m then x else m) rs r)"

definition genesis_hash :: string where
  "genesis_hash = replicate 64 (CHR ''0'')"

definition row_hash :: "pk_env \<Rightarrow> string \<Rightarrow> string \<Rightarrow> int \<Rightarrow> string \<Rightarrow> string \<Rightarrow> string \<Rightarrow> json_text \<Rightarrow> string" where
  "row_hash env tenant thread n ty payload previous context =
     pn_sha256 env (py_join '':'' [tenant, thread, int_str n, ty, payload, previous, pn_compact env context])"

definition row_signature :: "pk_env \<Rightarrow> string \<Rightarrow> string \<Rightarrow> int \<Rightarrow> string \<Rightarrow> string \<Rightarrow> string \<Rightarrow> string \<Rightarrow> string" where
  "row_signature env tenant thread n ty payload previous h =
     pn_hmac env (py_join '':'' [tenant, thread, int_str n, ty, payload, previous, h])"

definition next_row :: "pk_env \<Rightarrow> string \<Rightarrow> string \<Rightarrow> string \<Rightarrow> string \<Rightarrow> pydict \<Rightarrow> attest_row list \<Rightarrow> attest_row" where
  "next_row env tenant thread ty payload context rows =
     (let top = top_row (ledger_rows tenant thread rows);
          n = (case top of None \<Rightarrow> 0 | Some r \<Rightarrow> lr_sequence_no r) + 1;
          previous = (case top of None \<Rightarrow> genesis_hash | Some r \<Rightarrow> lr_event_hash r);
          text = json_dumps (PDict context);
          h = row_hash env tenant thread n ty payload previous text
      in \<lparr>lr_tenant_id = tenant, lr_thread_id = thread, lr_sequence_no = n, lr_event_type = ty, lr_payload_hash = payload,
          lr_previous_hash = previous, lr_event_hash = h, lr_context = text,
          lr_signature = row_signature env tenant thread n ty payload previous h\<rparr>)"

text \<open>
  \<open>EvidenceLedger.append\<close>: the advisory lock of the thread is held to the end of the transaction, so that reading the
  newest row and inserting the next is one step. The number is above every number of the thread: \<open>UNIQUE\<close> is not violated.
\<close>

definition attest_append :: "pk_env \<Rightarrow> string \<Rightarrow> string \<Rightarrow> string \<Rightarrow> string \<Rightarrow> pydict \<Rightarrow> (pk_world, uuid) em" where
  "attest_append env tenant thread ty payload context =
     pk_command env (\<lambda>n w. (Inr (pn_uuid env n),
       w\<lparr>pw_evidence := pw_evidence w @ [next_row env tenant thread ty payload context (pw_evidence w)]\<rparr>))"

section \<open>The promotion gate\<close>

text \<open>\<open>hmac.compare_digest\<close> of two strings: only ASCII is compared.\<close>

definition ascii_text :: "string \<Rightarrow> bool" where
  "ascii_text s \<longleftrightarrow> list_all (\<lambda>c. (of_char c :: nat) < 128) s"

definition compare_digest :: "string \<Rightarrow> string \<Rightarrow> py_exn + bool" where
  "compare_digest a b =
     (if ascii_text a \<and> ascii_text b then Inr (a = b)
      else Inl (Exn TypeError ''comparing strings with non-ASCII characters is not supported''))"

definition canonical_manifest_hash :: "pk_env \<Rightarrow> pyval \<Rightarrow> string" where
  "canonical_manifest_hash env manifest = pn_sha256 env (pn_compact env (json_dumps manifest))"

definition promotion_message :: "string \<Rightarrow> string \<Rightarrow> string \<Rightarrow> string \<Rightarrow> string" where
  "promotion_message tenant workflow version provenance = py_join '':'' [tenant, workflow, version, provenance]"

definition find_artifact :: "string \<Rightarrow> string \<Rightarrow> string \<Rightarrow> artifact list \<Rightarrow> artifact option" where
  "find_artifact tenant workflow version =
     List.find (\<lambda>a. af_tenant_id a = tenant \<and> af_workflow_name a = workflow \<and> af_version_tag a = version)"

definition check_artifact :: "pk_env \<Rightarrow> string \<Rightarrow> string \<Rightarrow> string \<Rightarrow> artifact option \<Rightarrow> py_exn + pyval" where
  "check_artifact env tenant workflow version record =
     (case record of
        None \<Rightarrow> Inl (Exn EvidenceVerificationFailure ''Promotion denied: no signed artifact attestation'')
      | Some a \<Rightarrow>
         rbind (compare_digest (canonical_manifest_hash env (af_manifest a)) (af_provenance_hash a)) (\<lambda>ok.
         rbind (check ok EvidenceVerificationFailure ''Promotion denied: manifest does not match provenance hash'') (\<lambda>_.
         rbind (compare_digest (pn_hmac env (promotion_message tenant workflow version (af_provenance_hash a))) (af_signature a)) (\<lambda>ok.
         rbind (check ok EvidenceVerificationFailure ''Registry artifact signature mismatch'') (\<lambda>_.
         Inr (af_manifest a))))))"

definition verify_artifact_promotion_gate :: "pk_env \<Rightarrow> string \<Rightarrow> string \<Rightarrow> string \<Rightarrow> (pk_world, pyval) em" where
  "verify_artifact_promotion_gate env tenant workflow version =
     ebind (pk_command env (\<lambda>n w. (Inr (find_artifact tenant workflow version (pw_artifacts w)), w)))
       (\<lambda>record. elift (check_artifact env tenant workflow version record))"

section \<open>The steps of the workflow\<close>

definition side_effect_digest :: "pk_env \<Rightarrow> pyval \<Rightarrow> string" where
  "side_effect_digest env payload = pn_sha256 env (pn_compact env (json_dumps payload))"

definition evaluate_step :: "pk_env \<Rightarrow> pydict \<Rightarrow> graph_step" where
  "evaluate_step env client_input current =
     (let payload = (case map_of client_input ''proposed_side_effect'' of
                       Some v \<Rightarrow> v | None \<Rightarrow> PDict [(''action'', PStr ''noop'')])
      in Inr [(''current_state'', PStr ''APPROVAL_REQUIRED''), (''proposed_side_effect'', payload),
              (''side_effect_hash'', PStr (side_effect_digest env payload))])"

definition state_item :: "pydict \<Rightarrow> string \<Rightarrow> py_exn + pyval" where
  "state_item d k = (case map_of d k of None \<Rightarrow> Inl (Exn KeyError k) | Some v \<Rightarrow> Inr v)"

definition apply_step :: "pk_env \<Rightarrow> graph_step" where
  "apply_step env current =
     (if map_of current ''resolution'' \<noteq> Some (PStr ''APPROVED'') then Inr [(''current_state'', PStr ''ABORT'')]
      else rbind (state_item current ''proposed_side_effect'') (\<lambda>payload.
           rbind (state_item current ''side_effect_hash'') (\<lambda>h.
           rbind (case h of PStr s \<Rightarrow> compare_digest (side_effect_digest env payload) s
                  | _ \<Rightarrow> Inl (Exn TypeError ''unsupported operand types(s) or combination of types'')) (\<lambda>ok.
           rbind (check ok FencingTokenMismatch ''Side-effect hash changed after approval'') (\<lambda>_.
           Inr [(''current_state'', PStr ''RESUME'')])))))"

definition pipeline_graph :: "pk_env \<Rightarrow> pydict \<Rightarrow> state_graph" where
  "pipeline_graph env client_input =
     \<lparr>sg_nodes = [(''evaluate_step'', evaluate_step env client_input), (''apply_step'', apply_step env)],
      sg_edges = [(START, ''evaluate_step''), (''evaluate_step'', ''apply_step''), (''apply_step'', END)],
      sg_interrupt_before = [''apply_step'']\<rparr>"

section \<open>The pipeline\<close>

text \<open>The locals that the handler and the \<open>finally\<close> of the pipeline read.\<close>

record pk_frame =
  pf_state :: pydict
  pf_acquired :: bool
  pf_token :: "int option"

type_synonym pk_run = "pk_frame \<times> pk_world"

definition on_world :: "(pk_world, 'a) em \<Rightarrow> (pk_run, 'a) em" where
  "on_world m = (\<lambda>(f, w). case m w of (r, w') \<Rightarrow> (r, (f, w')))"

definition on_frame :: "(pk_frame \<Rightarrow> pk_frame) \<Rightarrow> (pk_run, unit) em" where
  "on_frame g = emod (map_prod g id)"

definition frame_state :: "string \<Rightarrow> pyval \<Rightarrow> pk_frame \<Rightarrow> pk_frame" where
  "frame_state k v f = f\<lparr>pf_state := AList.update k v (pf_state f)\<rparr>"

definition lease_key :: "string \<Rightarrow> string \<Rightarrow> string" where
  "lease_key tenant thread = ''lock:lease:execution:'' @ tenant @ '':'' @ thread"

definition initial_state :: "string \<Rightarrow> string \<Rightarrow> string \<Rightarrow> pydict" where
  "initial_state tenant thread version =
     [(''tenant_id'', PStr tenant), (''thread_id'', PStr thread), (''workflow_version'', PStr version),
      (''current_state'', PStr ''EXECUTION''), (''execution_plan'', PList []), (''proposed_side_effect'', PDict []),
      (''side_effect_hash'', PStr ''''), (''resolution'', PStr ''PENDING'')]"

definition manifest_plan :: "pyval \<Rightarrow> py_exn + pyval" where
  "manifest_plan manifest =
     (case manifest of
        PDict d \<Rightarrow> Inr (case map_of d ''routing_dag'' of Some v \<Rightarrow> v | None \<Rightarrow> PList [PStr ''evaluate_step'', PStr ''apply_step''])
      | v \<Rightarrow> Inl (no_attribute (py_type_name v) ''get''))"

text \<open>\<open>str(state.get("side_effect_hash", ""))\<close>: the graph keeps a string there.\<close>

definition result_hash :: "(pyval \<Rightarrow> string) \<Rightarrow> pydict \<Rightarrow> string" where
  "result_hash show s =
     (case map_of s ''side_effect_hash'' of None \<Rightarrow> [] | Some (PStr h) \<Rightarrow> h | Some v \<Rightarrow> show v)"

definition halted_context :: "int \<Rightarrow> pydict \<Rightarrow> pydict" where
  "halted_context token s =
     [(''status'', PStr ''HALTED''), (''fencing_token'', PInt token),
      (''current_state'', case map_of s ''current_state'' of None \<Rightarrow> PNone | Some v \<Rightarrow> v)]"

definition waiting_result :: "string \<Rightarrow> int \<Rightarrow> pydict \<Rightarrow> pydict" where
  "waiting_result thread token s =
     [(''status'', PStr ''WAITING_FOR_HUMAN''), (''thread_id'', PStr thread), (''fencing_token'', PInt token), (''state'', PDict s)]"

record pk_job =
  pj_tenant_id :: string
  pj_thread_id :: string
  pj_workflow_name :: string
  pj_version :: string
  pj_client_input :: pydict
  pj_show :: "pyval \<Rightarrow> string"

text \<open>After the graph has stopped: the evidence of the halt, and the answer.\<close>

definition halt_for_human :: "pk_env \<Rightarrow> pk_job \<Rightarrow> int \<Rightarrow> pyval \<Rightarrow> (pk_run, pydict) em" where
  "halt_for_human env j token result =
     (case result of
        PDict d \<Rightarrow>
          (let s = AList.update ''fencing_token'' (PInt token) d
           in eseq (on_world (attest_append env (pj_tenant_id j) (pj_thread_id j) ''KERNEL_INTERRUPT_WAITING''
                      (result_hash (pj_show j) s) (halted_context token s)))
                   (eret (waiting_result (pj_thread_id j) token s)))
      | _ \<Rightarrow> eraise (Exn StateRecoveryFailure ''LangGraph returned an invalid state''))"

definition pipeline_body :: "pk_env \<Rightarrow> pk_job \<Rightarrow> string \<Rightarrow> (pk_run, pydict) em" where
  "pipeline_body env j owner =
     ebind (on_world (verify_artifact_promotion_gate env (pj_tenant_id j) (pj_workflow_name j) (pj_version j))) (\<lambda>manifest.
     ebind (elift (manifest_plan manifest)) (\<lambda>plan.
     eseq (on_frame (frame_state ''execution_plan'' plan))
     (ebind (on_world (exec_lease_acquire env (lease_key (pj_tenant_id j) (pj_thread_id j)) owner)) (\<lambda>token.
      eseq (on_frame (\<lambda>f. (frame_state ''fencing_token'' (PInt token) f)\<lparr>pf_acquired := True, pf_token := Some token\<rparr>))
      (ebind (eget (pf_state \<circ> fst)) (\<lambda>state.
       ebind (elift (pn_graph env (pipeline_graph env (pj_client_input j)) state)) (\<lambda>result.
       halt_for_human env j token result)))))))"

definition seal_letter :: "pk_env \<Rightarrow> string \<Rightarrow> string \<Rightarrow> string \<Rightarrow> string \<Rightarrow> pydict \<Rightarrow> sealed_letter" where
  "seal_letter env tenant thread scenario diagnostic dump =
     (let text = json_dumps (PDict dump); h = pn_sha256 env (pn_spaced env text @ '':'' @ diagnostic)
      in \<lparr>sl_tenant_id = tenant, sl_thread_id = thread, sl_scenario_id = scenario, sl_diagnostic = diagnostic,
          sl_frozen = text, sl_seal = pn_hmac env (py_join '':'' [tenant, thread, scenario, h])\<rparr>)"

definition execute_12_case_recovery_matrix ::
  "pk_env \<Rightarrow> string \<Rightarrow> string \<Rightarrow> string \<Rightarrow> string \<Rightarrow> pydict \<Rightarrow> (pk_world, unit) em" where
  "execute_12_case_recovery_matrix env tenant thread scenario diagnostic dump =
     pk_command env (\<lambda>n w. (Inr (), w\<lparr>pw_letters := pw_letters w @ [seal_letter env tenant thread scenario diagnostic dump]\<rparr>))"

definition recover_and_raise :: "pk_env \<Rightarrow> pk_job \<Rightarrow> py_exn \<Rightarrow> (pk_run, pydict) em" where
  "recover_and_raise env j e =
     ebind (eget (pf_state \<circ> fst)) (\<lambda>dump.
     eseq (on_world (execute_12_case_recovery_matrix env (pj_tenant_id j) (pj_thread_id j)
             (classify_failure (pn_isa env) e) (exn_str e) dump))
     (eraise e))"

text \<open>\<open>try: m finally: c\<close>: what \<open>c\<close> raises replaces what \<open>m\<close> gave.\<close>

definition efinally :: "('s, 'a) em \<Rightarrow> ('s, unit) em \<Rightarrow> ('s, 'a) em" where
  "efinally m c = (\<lambda>s. case m s of (r, s') \<Rightarrow> (case c s' of (Inl e, t) \<Rightarrow> (Inl e, t) | (Inr _, t) \<Rightarrow> (r, t)))"

definition release_if_acquired :: "pk_env \<Rightarrow> pk_job \<Rightarrow> string \<Rightarrow> (pk_run, unit) em" where
  "release_if_acquired env j owner =
     ebind (eget fst) (\<lambda>f. ewhen (pf_acquired f)
       (on_world (exec_lease_release env (lease_key (pj_tenant_id j) (pj_thread_id j)) owner (pf_token f))))"

definition execute_supervisor_pipeline :: "pk_env \<Rightarrow> pk_job \<Rightarrow> (pk_world, pydict) em" where
  "execute_supervisor_pipeline env j = (\<lambda>w.
     let owner = pn_token_hex env (pw_step w);
         frame = \<lparr>pf_state = initial_state (pj_tenant_id j) (pj_thread_id j) (pj_version j), pf_acquired = False, pf_token = None\<rparr>
     in case efinally (etry (pipeline_body env j owner) (recover_and_raise env j)) (release_if_acquired env j owner) (frame, w) of
          (r, (_, w')) \<Rightarrow> (r, w'))"

end
