(* ===== verification/Kernel_Pipeline_Properties.thy ===== *)
theory Kernel_Pipeline_Properties
  imports Production_Kernel "HOL-Library.Sublist"
begin

text \<open>
  What the production kernel keeps: the evidence of a thread is a chain of signed, consecutively numbered rows; a run
  of the pipeline is admitted by a signed artifact, stops before the side effect and leaves evidence, or leaves a
  sealed letter; the tokens of a lease are distinct. And where it falls short: the tokens are not in the order of the
  holders, a contended run is recorded as a failure, and a run that has lost its lease goes on writing.
\<close>

section \<open>The ledger\<close>

fun ledger_linked :: "pk_env \<Rightarrow> int \<Rightarrow> string \<Rightarrow> attest_row list \<Rightarrow> bool" where
  "ledger_linked env n previous [] \<longleftrightarrow> True"
| "ledger_linked env n previous (r # rs) \<longleftrightarrow>
     lr_sequence_no r = n \<and> lr_previous_hash r = previous
     \<and> lr_event_hash r = row_hash env (lr_tenant_id r) (lr_thread_id r) n (lr_event_type r) (lr_payload_hash r) previous (lr_context r)
     \<and> lr_signature r = row_signature env (lr_tenant_id r) (lr_thread_id r) n (lr_event_type r) (lr_payload_hash r) previous (lr_event_hash r)
     \<and> ledger_linked env (n + 1) (lr_event_hash r) rs"

definition attest_ok :: "pk_env \<Rightarrow> attest_row list \<Rightarrow> bool" where
  "attest_ok env rows \<longleftrightarrow> (\<forall>tenant thread. ledger_linked env 1 genesis_hash (ledger_rows tenant thread rows))"

lemma ledger_linked_snoc:
  "ledger_linked env n previous (rs @ [r]) \<longleftrightarrow>
     ledger_linked env n previous rs
     \<and> ledger_linked env (n + int (length rs)) (if rs = [] then previous else lr_event_hash (last rs)) [r]"
proof (induction rs arbitrary: n previous)
  case (Cons a rs)
  show ?case using Cons [of "n + 1" "lr_event_hash a"] by (simp add: add.assoc)
qed simp

lemma top_of_linked:
  assumes "ledger_linked env n previous rs" and "rs \<noteq> []"
  shows "top_row rs = Some (last rs)" and "lr_sequence_no (last rs) = n + int (length rs) - 1"
  using assms
proof (induction rs arbitrary: n previous rule: rev_induct)
  case (snoc r rs)
  {
    case 1
    show ?case
    proof (cases rs)
      case (Cons a as)
      have l: "ledger_linked env n previous rs" "lr_sequence_no r = n + int (length rs)"
        using 1 by (simp_all add: ledger_linked_snoc)
      have "top_row rs = Some (last rs)" "lr_sequence_no (last rs) = n + int (length rs) - 1"
        using snoc.IH l(1) Cons by blast+
      then show ?thesis using Cons l(2) by simp
    qed simp
  next
    case 2
    then show ?case by (simp add: ledger_linked_snoc)
  }
qed simp_all

lemma next_row_fields [simp]:
  "lr_tenant_id (next_row env t th ty p c rows) = t" "lr_thread_id (next_row env t th ty p c rows) = th"
  "lr_event_type (next_row env t th ty p c rows) = ty" "lr_payload_hash (next_row env t th ty p c rows) = p"
  by (simp_all add: next_row_def Let_def)

lemma next_row_linked:
  assumes "ledger_linked env 1 genesis_hash (ledger_rows t th rows)"
  shows "ledger_linked env 1 genesis_hash (ledger_rows t th rows @ [next_row env t th ty p c rows])"
proof (cases "ledger_rows t th rows = []")
  case True
  then show ?thesis by (simp add: next_row_def Let_def)
next
  case False
  have "lr_sequence_no (last (ledger_rows t th rows)) = int (length (ledger_rows t th rows))"
    using top_of_linked(2) [OF assms False] by simp
  with False assms show ?thesis
    by (simp add: ledger_linked_snoc next_row_def Let_def top_of_linked(1) [OF assms False] add.commute)
qed

lemma append_keeps_ledger:
  assumes "attest_ok env rows"
  shows "attest_ok env (rows @ [next_row env t th ty p c rows])"
  unfolding attest_ok_def
proof (intro allI)
  fix tenant thread
  have l: "ledger_linked env 1 genesis_hash (ledger_rows tenant thread rows)" using assms by (simp add: attest_ok_def)
  show "ledger_linked env 1 genesis_hash (ledger_rows tenant thread (rows @ [next_row env t th ty p c rows]))"
  proof (cases "tenant = t \<and> thread = th")
    case True
    then show ?thesis using next_row_linked [of env t th rows ty p c] l by (simp add: ledger_rows_def)
  next
    case False
    then show ?thesis using l by (auto simp: ledger_rows_def)
  qed
qed

section \<open>What every process keeps\<close>

definition grows :: "pk_env \<Rightarrow> pk_world \<Rightarrow> pk_world \<Rightarrow> bool" where
  "grows env w w' \<longleftrightarrow> prefix (pw_evidence w) (pw_evidence w') \<and> prefix (pw_letters w) (pw_letters w')
     \<and> (attest_ok env (pw_evidence w) \<longrightarrow> attest_ok env (pw_evidence w'))"

definition run_grows :: "pk_env \<Rightarrow> pk_run \<Rightarrow> pk_run \<Rightarrow> bool" where
  "run_grows env s t \<longleftrightarrow> grows env (snd s) (snd t) \<and> pw_step (snd s) \<le> pw_step (snd t)"

interpretation pk_order: step_order "run_grows env" for env
  by unfold_locales (auto simp: run_grows_def grows_def)

definition rely :: "pk_env \<Rightarrow> bool" where
  "rely env \<longleftrightarrow> (\<forall>n w. grows env w (pn_interfere env n w))"

lemma grows_tick [simp]: "grows env w (w'\<lparr>pw_step := n\<rparr>) = grows env w w'"
  by (simp add: grows_def)

lemma grows_trans: "grows env u v \<Longrightarrow> grows env v w \<Longrightarrow> grows env u w"
  by (auto simp: grows_def)

lemma snd_command:
  "snd (pk_command env f w) =
     (let n = pw_step w; w1 = (pn_interfere env n w)\<lparr>pw_step := Suc n\<rparr>
      in case pn_outcome env n of Failed e \<Rightarrow> w1 | _ \<Rightarrow> snd (f n w1))"
  by (auto simp: pk_command_def Let_def split: pg_outcome.splits)

lemma snd_on_world [simp]: "snd (snd (on_world m s)) = snd (m (snd s))" "fst (snd (on_world m s)) = fst s"
  "fst (on_world m s) = fst (m (snd s))"
  by (auto simp: on_world_def split: prod.splits)

lemma command_grows:
  assumes "rely env" and "\<And>n v. grows env v (snd (f n v)) \<and> pw_step (snd (f n v)) = pw_step v"
  shows "confined (run_grows env) (on_world (pk_command env f))"
proof -
  have i: "grows env w ((pn_interfere env n w)\<lparr>pw_step := m\<rparr>)" for n m w using assms(1) by (simp add: rely_def)
  have f: "grows env w (snd (f n ((pn_interfere env n w)\<lparr>pw_step := m\<rparr>)))" for n m w
    using grows_trans i assms(2) by blast
  show ?thesis
    using assms(1)
    by (simp add: confined_def run_grows_def snd_command Let_def rely_def f assms(2) split: pg_outcome.splits)
qed

lemma on_locks_grows: "grows env v (snd (on_locks f v)) \<and> pw_step (snd (on_locks f v)) = pw_step v"
  by (simp add: on_locks_def grows_def split: prod.splits)

lemma on_world_bind:
  "on_world (ebind m k) = ebind (on_world m) (\<lambda>x. on_world (k x))" "on_world (eret x) = eret x" "on_world (eraise e) = eraise e"
  "on_world (elift r) = elift r"
  by (auto simp: fun_eq_iff on_world_def em_simps split: prod.splits sum.splits)

lemma append_grows: "rely env \<Longrightarrow> confined (run_grows env) (on_world (attest_append env t th ty p c))"
  unfolding attest_append_def by (rule command_grows) (auto simp: grows_def append_keeps_ledger)

lemma gate_grows: "rely env \<Longrightarrow> confined (run_grows env) (on_world (verify_artifact_promotion_gate env t flow v))"
  unfolding verify_artifact_promotion_gate_def on_world_bind
  by (intro pk_order.confined_rules command_grows) (auto simp: grows_def)

lemma acquire_grows: "rely env \<Longrightarrow> confined (run_grows env) (on_world (exec_lease_acquire env k ow))"
  unfolding exec_lease_acquire_def on_world_bind if_distrib [of on_world]
  by (intro pk_order.confined_rules command_grows on_locks_grows)

lemma release_grows: "rely env \<Longrightarrow> confined (run_grows env) (on_world (exec_lease_release env k ow t))"
  by (cases t) (auto simp: exec_lease_release_def on_world_bind intro!: pk_order.confined_rules command_grows on_locks_grows)

lemma letter_grows: "rely env \<Longrightarrow> confined (run_grows env) (on_world (execute_12_case_recovery_matrix env t th sc d s))"
  unfolding execute_12_case_recovery_matrix_def by (rule command_grows) (auto simp: grows_def)

lemma frame_grows: "confined (run_grows env) (on_frame g)"
  unfolding on_frame_def by (rule pk_order.confined_emod) (simp add: run_grows_def grows_def)

lemma halt_grows: "rely env \<Longrightarrow> confined (run_grows env) (halt_for_human env j token v)"
  by (cases v) (auto simp: halt_for_human_def Let_def intro!: pk_order.confined_rules append_grows)

lemma body_grows: "rely env \<Longrightarrow> confined (run_grows env) (pipeline_body env j ow)"
  unfolding pipeline_body_def by (intro pk_order.confined_rules gate_grows frame_grows acquire_grows halt_grows)

lemma recover_grows: "rely env \<Longrightarrow> confined (run_grows env) (recover_and_raise env j e)"
  unfolding recover_and_raise_def by (intro pk_order.confined_rules letter_grows)

lemma finally_grows: "rely env \<Longrightarrow> confined (run_grows env) (release_if_acquired env j ow)"
  unfolding release_if_acquired_def by (intro pk_order.confined_rules release_grows)

section \<open>The outcome of a run\<close>

text \<open>
  What the pipeline relies on LangGraph for, of any graph in which a node has at most one edge: the nodes are run along
  the edges from \<open>START\<close>, the update that a node returns is merged into the state, an exception of a node is raised, and the
  run ends with the state at \<open>END\<close> or before a node of \<open>interrupt_before\<close>, if it ends within the limit of 25 steps.
\<close>

definition merge_update :: "pydict \<Rightarrow> pydict \<Rightarrow> pydict" where
  "merge_update s u = fold (\<lambda>(k, v). AList.update k v) u s"

fun walk :: "state_graph \<Rightarrow> nat \<Rightarrow> string \<Rightarrow> pydict \<Rightarrow> (py_exn + pydict) option" where
  "walk g 0 n s = None"
| "walk g (Suc k) n s =
     (if n = END \<or> n \<in> set (sg_interrupt_before g) then Some (Inr s)
      else case map_of (sg_nodes g) n of
        None \<Rightarrow> None
      | Some step \<Rightarrow>
         (case step s of
            Inl e \<Rightarrow> Some (Inl e)
          | Inr u \<Rightarrow>
             (case map_of (sg_edges g) n of None \<Rightarrow> None | Some m \<Rightarrow> walk g k m (merge_update s u))))"

definition langgraph :: "pk_env \<Rightarrow> bool" where
  "langgraph env \<longleftrightarrow>
     (\<forall>g s n r. distinct (map fst (sg_edges g)) \<longrightarrow> map_of (sg_edges g) START = Some n \<longrightarrow> walk g 25 n s = Some r \<longrightarrow>
        pn_graph env g s = map_sum id PDict r)"

text \<open>An interpreter of graphs that does so, for the instances below.\<close>

definition interpret_graph :: "state_graph \<Rightarrow> pydict \<Rightarrow> py_exn + pyval" where
  "interpret_graph g s =
     (case map_of (sg_edges g) START of
        None \<Rightarrow> Inl (Exn ValueError ''no entry point'')
      | Some n \<Rightarrow> (case walk g 25 n s of
                    None \<Rightarrow> Inl (Exn (OtherException ''GraphRecursionError'') []) | Some r \<Rightarrow> map_sum id PDict r))"

text \<open>So the graph of the pipeline, wired as it is, runs \<open>evaluate_step\<close> and stops.\<close>

lemma pipeline_graph_run:
  assumes "langgraph env"
  shows "pn_graph env (pipeline_graph env client_input) s
    = map_sum id (\<lambda>u. PDict (merge_update s u)) (evaluate_step env client_input s)"
proof -
  have "walk (pipeline_graph env client_input) 25 ''evaluate_step'' s = Some (map_sum id (merge_update s) (evaluate_step env client_input s))"
    by (simp add: numeral_eq_Suc pipeline_graph_def START_def END_def split: sum.split)
  moreover have "distinct (map fst (sg_edges (pipeline_graph env client_input)))"
    "map_of (sg_edges (pipeline_graph env client_input)) START = Some ''evaluate_step''"
    by (simp_all add: pipeline_graph_def START_def)
  ultimately have "pn_graph env (pipeline_graph env client_input) s
      = map_sum id PDict (map_sum id (merge_update s) (evaluate_step env client_input s))"
    using assms unfolding langgraph_def by blast
  then show ?thesis by (cases "evaluate_step env client_input s") simp_all
qed

lemma command_Inr:
  "pk_command env f w = (Inr x, w') \<longleftrightarrow>
     pn_outcome env (pw_step w) = Done \<and> f (pw_step w) ((pn_interfere env (pw_step w) w)\<lparr>pw_step := Suc (pw_step w)\<rparr>) = (Inr x, w')"
  by (auto simp: pk_command_def Let_def split: pg_outcome.splits)

definition disturbed :: "pk_env \<Rightarrow> py_exn \<Rightarrow> nat \<Rightarrow> nat \<Rightarrow> bool" where
  "disturbed env e m n \<longleftrightarrow> (\<exists>i. m \<le> i \<and> i < n \<and> (pn_outcome env i = Failed e \<or> pn_outcome env i = Lost_reply e))"

lemma command_Inl:
  assumes "pk_command env f w = (Inl e, w')" and "\<And>n v. pw_step (snd (f n v)) = pw_step v" and "\<And>n v. \<not> isl (fst (f n v))"
  shows "disturbed env e (pw_step w) (pw_step w')"
proof -
  have "pw_step w' = Suc (pw_step w)"
    using arg_cong [OF assms(1), of snd] assms(2) by (auto simp: snd_command Let_def split: pg_outcome.splits)
  moreover have "pn_outcome env (pw_step w) = Failed e \<or> pn_outcome env (pw_step w) = Lost_reply e"
    using assms(1,3) by (auto simp: pk_command_def Let_def split: pg_outcome.splits) (metis fst_conv sum.disc(1))
  ultimately show ?thesis by (auto simp: disturbed_def)
qed

lemma check_artifact_Inr:
  "check_artifact env t flow v record = Inr m \<longleftrightarrow>
     (\<exists>a. record = Some a \<and> m = af_manifest a \<and> af_provenance_hash a = canonical_manifest_hash env m
        \<and> af_signature a = pn_hmac env (promotion_message t flow v (af_provenance_hash a))
        \<and> ascii_text (af_provenance_hash a) \<and> ascii_text (af_signature a))"
  by (auto simp: check_artifact_def rbind_Inr compare_digest_def split: option.splits if_splits)

lemma gate_Inr:
  assumes "verify_artifact_promotion_gate env t flow v w = (Inr m, w')"
  shows "check_artifact env t flow v (find_artifact t flow v (pw_artifacts (pn_interfere env (pw_step w) w))) = Inr m"
  using assms by (auto simp: verify_artifact_promotion_gate_def command_Inr em_simps split: prod.splits sum.splits)

lemma evaluated_state:
  assumes "langgraph env"
    and "pn_graph env (pipeline_graph env client_input) s = Inr result"
  obtains payload where "payload = (case map_of client_input ''proposed_side_effect'' of Some v \<Rightarrow> v | None \<Rightarrow> PDict [(''action'', PStr ''noop'')])"
    and "result = PDict (merge_update s [(''current_state'', PStr ''APPROVAL_REQUIRED''), (''proposed_side_effect'', payload),
              (''side_effect_hash'', PStr (side_effect_digest env payload))])"
  using assms(2) by (auto simp: pipeline_graph_run [OF assms(1)] evaluate_step_def Let_def)

text \<open>The side effect a client asks for.\<close>

definition proposal :: "pk_job \<Rightarrow> pyval" where
  "proposal j = (case map_of (pj_client_input j) ''proposed_side_effect'' of Some v \<Rightarrow> v | None \<Rightarrow> PDict [(''action'', PStr ''noop'')])"

definition halted_row :: "pk_env \<Rightarrow> pk_job \<Rightarrow> attest_row \<Rightarrow> bool" where
  "halted_row env j r \<longleftrightarrow> lr_tenant_id r = pj_tenant_id j \<and> lr_thread_id r = pj_thread_id j
     \<and> lr_event_type r = ''KERNEL_INTERRUPT_WAITING'' \<and> lr_payload_hash r = side_effect_digest env (proposal j)"

definition halted_state :: "pk_env \<Rightarrow> pk_job \<Rightarrow> int \<Rightarrow> pydict \<Rightarrow> bool" where
  "halted_state env j token s \<longleftrightarrow> map_of s ''current_state'' = Some (PStr ''APPROVAL_REQUIRED'')
     \<and> map_of s ''proposed_side_effect'' = Some (proposal j)
     \<and> map_of s ''side_effect_hash'' = Some (PStr (side_effect_digest env (proposal j)))
     \<and> map_of s ''fencing_token'' = Some (PInt token)"

lemma halt_Inr:
  assumes "halt_for_human env j token (PDict d) (f, w) = (Inr v, (f', w'))"
    and "d = merge_update s [(''current_state'', PStr ''APPROVAL_REQUIRED''), (''proposed_side_effect'', proposal j),
              (''side_effect_hash'', PStr (side_effect_digest env (proposal j)))]"
  shows "f' = f \<and> (\<exists>s'. v = waiting_result (pj_thread_id j) token s' \<and> halted_state env j token s') \<and> list_ex (halted_row env j) (pw_evidence w')"
proof -
  define s' where "s' = AList.update ''fencing_token'' (PInt token) d"
  have h: "halted_state env j token s'" by (simp add: s'_def assms(2) halted_state_def merge_update_def)
  then have "result_hash (pj_show j) s' = side_effect_digest env (proposal j)" by (simp add: result_hash_def halted_state_def)
  then show ?thesis
    using assms(1) h
    by (auto simp: halt_for_human_def s'_def [symmetric] Let_def em_simps on_world_def attest_append_def command_Inr halted_row_def
        split: prod.splits sum.splits)
qed

lemma body_Inr:
  assumes "pipeline_body env j ow (f, w) = (Inr v, (f', w'))" and "langgraph env"
  shows "(\<exists>m. check_artifact env (pj_tenant_id j) (pj_workflow_name j) (pj_version j)
             (find_artifact (pj_tenant_id j) (pj_workflow_name j) (pj_version j) (pw_artifacts (pn_interfere env (pw_step w) w))) = Inr m)
     \<and> (\<exists>token s. pf_acquired f' \<and> pf_token f' = Some token \<and> v = waiting_result (pj_thread_id j) token s \<and> halted_state env j token s)
     \<and> list_ex (halted_row env j) (pw_evidence w')"
proof -
  define F where "F plan token = f\<lparr>pf_state := AList.update ''fencing_token'' (PInt token)
      (AList.update ''execution_plan'' plan (pf_state f)), pf_acquired := True, pf_token := Some token\<rparr>" for plan token
  obtain m s1 plan token w3 result where
      m: "on_world (verify_artifact_promotion_gate env (pj_tenant_id j) (pj_workflow_name j) (pj_version j)) (f, w) = (Inr m, s1)"
    and g: "pn_graph env (pipeline_graph env (pj_client_input j)) (pf_state (F plan token)) = Inr result"
    and h: "halt_for_human env j token result (F plan token, w3) = (Inr v, (f', w'))"
    using assms(1) unfolding pipeline_body_def
    by (elim ebind_InrE eseq_InrE elift_InrE) (force simp: on_frame_def em_simps on_world_def frame_state_def F_def split: prod.splits)
  let ?f3 = "F plan token"
  have f3: "pf_acquired ?f3" "pf_token ?f3 = Some token" by (simp_all add: F_def)
  obtain w1 where "verify_artifact_promotion_gate env (pj_tenant_id j) (pj_workflow_name j) (pj_version j) w = (Inr m, w1)"
    using m by (auto simp: on_world_def split: prod.splits)
  note gate = gate_Inr [OF this]
  show ?thesis
    using evaluated_state [OF assms(2) g] halt_Inr [of env j token _ ?f3 w3 v f' w' "pf_state ?f3"] h f3 gate unfolding proposal_def by metis
qed

definition lettered :: "pk_env \<Rightarrow> pk_job \<Rightarrow> py_exn \<Rightarrow> pk_world \<Rightarrow> bool" where
  "lettered env j e w \<longleftrightarrow> (\<exists>dump. seal_letter env (pj_tenant_id j) (pj_thread_id j) (classify_failure (pn_isa env) e) (exn_str e) dump
     \<in> set (pw_letters w))"

lemma recover_outcome:
  assumes "recover_and_raise env j e (f, w) = (r, (f', w'))"
  shows "\<exists>e'. r = Inl e' \<and> (e' = e \<and> lettered env j e w' \<or> disturbed env e' (pw_step w) (pw_step w'))"
proof -
  let ?m = "execute_12_case_recovery_matrix env (pj_tenant_id j) (pj_thread_id j) (classify_failure (pn_isa env) e) (exn_str e) (pf_state f)"
  obtain q v where q: "?m w = (q, v)" by fastforce
  have "w' = v \<and> r = (case q of Inl e' \<Rightarrow> Inl e' | Inr _ \<Rightarrow> Inl e)"
    using assms q by (auto simp: recover_and_raise_def em_simps on_world_def split: sum.splits)
  moreover have "disturbed env e' (pw_step w) (pw_step v)" if "q = Inl e'" for e'
    using q that unfolding execute_12_case_recovery_matrix_def by (intro command_Inl) auto
  moreover have "lettered env j e v" if "q = Inr u" for u
    using q that by (auto simp: execute_12_case_recovery_matrix_def command_Inr lettered_def)
  ultimately show ?thesis by (cases q) auto
qed

lemma compare_delete_gone: "lock_get now (redis_compare_delete now k v st) k \<noteq> Some v"
proof (cases "lock_get now st k = Some v")
  case True
  then show ?thesis by (simp add: redis_compare_delete_def) (simp add: lock_get_def lock_live_def)
qed (simp add: redis_compare_delete_def)

lemma release_outcome:
  assumes "release_if_acquired env j ow (f, w) = (r, (f', w'))"
  shows "r = Inl e \<Longrightarrow> disturbed env e (pw_step w) (pw_step w')"
    and "r = Inr () \<Longrightarrow> pf_acquired f \<Longrightarrow> pf_token f = Some t \<Longrightarrow>
      lock_get (pn_clock env (pw_step w)) (pw_locks w') (lease_key (pj_tenant_id j) (pj_thread_id j)) \<noteq> Some (lease_value t ow)
      \<and> pw_step w' = Suc (pw_step w)"
proof -
  let ?k = "lease_key (pj_tenant_id j) (pj_thread_id j)"
  show "disturbed env e (pw_step w) (pw_step w')" if "r = Inl e"
  proof (cases "pf_acquired f \<and> pf_token f \<noteq> None")
    case True
    then obtain t where t: "pf_token f = Some t" by auto
    with True assms that have "exec_lease_release env ?k ow (Some t) w = (Inl e, w')"
      by (auto simp: release_if_acquired_def em_simps ewhen_def on_world_def split: prod.splits)
    then show ?thesis unfolding exec_lease_release_def option.case by (rule command_Inl) (simp_all add: on_locks_def)
  next
    case False
    then show ?thesis
      using assms that by (cases "pf_acquired f") (auto simp: release_if_acquired_def em_simps ewhen_def on_world_def exec_lease_release_def)
  qed
  show "lock_get (pn_clock env (pw_step w)) (pw_locks w') ?k \<noteq> Some (lease_value t ow) \<and> pw_step w' = Suc (pw_step w)"
    if "r = Inr ()" "pf_acquired f" "pf_token f = Some t"
  proof -
    have "exec_lease_release env ?k ow (Some t) w = (Inr (), w')"
      using assms that by (auto simp: release_if_acquired_def em_simps ewhen_def on_world_def split: prod.splits)
    then show ?thesis
      by (auto simp: exec_lease_release_def command_Inr on_locks_def compare_delete_gone)
  qed
qed

definition admitted :: "pk_env \<Rightarrow> pk_job \<Rightarrow> artifact list \<Rightarrow> bool" where
  "admitted env j arts \<longleftrightarrow>
     (\<exists>a. find_artifact (pj_tenant_id j) (pj_workflow_name j) (pj_version j) arts = Some a
        \<and> af_provenance_hash a = canonical_manifest_hash env (af_manifest a)
        \<and> af_signature a = pn_hmac env (promotion_message (pj_tenant_id j) (pj_workflow_name j) (pj_version j) (af_provenance_hash a)))"

definition first_frame :: "pk_job \<Rightarrow> pk_frame" where
  "first_frame j = \<lparr>pf_state = initial_state (pj_tenant_id j) (pj_thread_id j) (pj_version j), pf_acquired = False, pf_token = None\<rparr>"

text \<open>A run is the body, perhaps the recovery, and the release.\<close>

lemma pipeline_parts:
  assumes "execute_supervisor_pipeline env j w = (r, w')" and "ow = pn_token_hex env (pw_step w)"
  obtains q f1 w1 q2 f2 w2 q3 f3 where "pipeline_body env j ow (first_frame j, w) = (q, (f1, w1))"
    and "case q of Inl e \<Rightarrow> recover_and_raise env j e (f1, w1) = (q2, (f2, w2)) | Inr v \<Rightarrow> q2 = q \<and> f2 = f1 \<and> w2 = w1"
    and "release_if_acquired env j ow (f2, w2) = (q3, (f3, w'))" and "r = (case q3 of Inl e \<Rightarrow> Inl e | Inr _ \<Rightarrow> q2)"
proof -
  obtain q f1 w1 where b: "pipeline_body env j ow (first_frame j, w) = (q, (f1, w1))" by (metis surj_pair)
  obtain q2 f2 w2 where t: "etry (pipeline_body env j ow) (recover_and_raise env j) (first_frame j, w) = (q2, (f2, w2))" by (metis surj_pair)
  obtain q3 f3 w3 where c: "release_if_acquired env j ow (f2, w2) = (q3, (f3, w3))" by (metis surj_pair)
  have "w' = w3" "r = (case q3 of Inl e \<Rightarrow> Inl e | Inr _ \<Rightarrow> q2)"
    using assms t c
    by (auto simp: execute_supervisor_pipeline_def efinally_def Let_def first_frame_def split: sum.splits)
  moreover have "case q of Inl e \<Rightarrow> recover_and_raise env j e (f1, w1) = (q2, (f2, w2)) | Inr v \<Rightarrow> q2 = q \<and> f2 = f1 \<and> w2 = w1"
    using b t by (cases q) (auto simp: em_simps)
  ultimately show thesis using that b c by metis
qed

lemma pipeline_grows:
  assumes "rely env" and "execute_supervisor_pipeline env j w = (r, w')"
  shows "grows env w w'"
proof -
  let ?ow = "pn_token_hex env (pw_step w)"
  let ?m = "etry (pipeline_body env j ?ow) (recover_and_raise env j)"
  have "run_grows env s (snd (release_if_acquired env j ?ow (snd (?m s))))" for s
    by (rule pk_order.step_trans [OF confinedD [OF pk_order.confined_etry [OF body_grows recover_grows]] confinedD [OF finally_grows]])
      (rule assms(1))+
  moreover have "snd (efinally m c s) = snd (c (snd (m s)))" for m :: "(pk_run, pydict) em" and c s
    by (auto simp: efinally_def split: prod.splits sum.splits)
  ultimately have "run_grows env s (snd (efinally ?m (release_if_acquired env j ?ow) s))" for s by simp
  from this [of "(first_frame j, w)"] show ?thesis
    using assms(2) by (auto simp: execute_supervisor_pipeline_def Let_def run_grows_def first_frame_def split: prod.splits)
qed

lemma pipeline_success:
  assumes "rely env" and "langgraph env" and "execute_supervisor_pipeline env j w = (Inr v, w')"
  shows "admitted env j (pw_artifacts (pn_interfere env (pw_step w) w)) \<and> list_ex (halted_row env j) (pw_evidence w')
     \<and> (\<exists>token s. v = waiting_result (pj_thread_id j) token s \<and> halted_state env j token s
          \<and> lock_get (pn_clock env (pw_step w' - 1)) (pw_locks w') (lease_key (pj_tenant_id j) (pj_thread_id j))
             \<noteq> Some (lease_value token (pn_token_hex env (pw_step w))))"
  using assms(3) refl
proof (rule pipeline_parts)
  let ?ow = "pn_token_hex env (pw_step w)"
  fix q f1 w1 q2 f2 w2 q3 f3
  assume b: "pipeline_body env j ?ow (first_frame j, w) = (q, (f1, w1))"
    and t: "case q of Inl e \<Rightarrow> recover_and_raise env j e (f1, w1) = (q2, (f2, w2)) | Inr v \<Rightarrow> q2 = q \<and> f2 = f1 \<and> w2 = w1"
    and c: "release_if_acquired env j ?ow (f2, w2) = (q3, (f3, w'))" and "Inr v = (case q3 of Inl e \<Rightarrow> Inl e | Inr _ \<Rightarrow> q2)"
  then have q: "q3 = Inr ()" "q2 = Inr v" by (cases q3; simp)+
  have "q = Inr v \<and> f2 = f1 \<and> w2 = w1"
    using t q(2) recover_outcome [of env j _ f1 w1 q2 f2 w2] by (cases q) auto
  have body: "pipeline_body env j ?ow (first_frame j, w) = (Inr v, (f2, w2))" using b \<open>q = Inr v \<and> f2 = f1 \<and> w2 = w1\<close> by simp
  note body = body_Inr [OF body assms(2)]
  then obtain token s where tok: "pf_acquired f2" "pf_token f2 = Some token" "v = waiting_result (pj_thread_id j) token s" "halted_state env j token s"
    by blast
  have "list_ex (halted_row env j) (pw_evidence w')"
    using body confinedD' [OF finally_grows [OF assms(1)] c] by (auto simp: run_grows_def grows_def prefix_def list_ex_iff)
  then show ?thesis
    using body tok release_outcome(2) [OF c q(1) tok(1,2)] by (auto simp: check_artifact_Inr admitted_def)
qed

lemma disturbed_wider: "disturbed env e m n \<Longrightarrow> m' \<le> m \<Longrightarrow> n \<le> n' \<Longrightarrow> disturbed env e m' n'"
  by (meson disturbed_def le_trans less_le_trans)

lemma pipeline_failure:
  assumes "rely env" and "execute_supervisor_pipeline env j w = (Inl e, w')"
  shows "lettered env j e w' \<or> disturbed env e (pw_step w) (pw_step w')"
  using assms(2) refl
proof (rule pipeline_parts)
  let ?ow = "pn_token_hex env (pw_step w)"
  fix q f1 w1 q2 f2 w2 q3 f3
  assume b: "pipeline_body env j ?ow (first_frame j, w) = (q, (f1, w1))"
    and t: "case q of Inl e \<Rightarrow> recover_and_raise env j e (f1, w1) = (q2, (f2, w2)) | Inr v \<Rightarrow> q2 = q \<and> f2 = f1 \<and> w2 = w1"
    and c: "release_if_acquired env j ?ow (f2, w2) = (q3, (f3, w'))" and r: "Inl e = (case q3 of Inl e \<Rightarrow> Inl e | Inr _ \<Rightarrow> q2)"
  have g1: "pw_step w \<le> pw_step w1" using confinedD' [OF body_grows [OF assms(1)] b] by (simp add: run_grows_def)
  have g2: "pw_step w1 \<le> pw_step w2"
    using t confinedD' [OF recover_grows [OF assms(1)]] by (cases q) (force simp: run_grows_def)+
  have g3: "run_grows env (f2, w2) (f3, w')" using confinedD' [OF finally_grows [OF assms(1)] c] .
  show ?thesis
  proof (cases q3)
    case (Inl e')
    then have "disturbed env e (pw_step w2) (pw_step w')" using release_outcome(1) [OF c] r by simp
    then show ?thesis using disturbed_wider g1 g2 by (meson le_refl le_trans)
  next
    case (Inr u)
    then have "q2 = Inl e" using r by simp
    then have "lettered env j e w2 \<or> disturbed env e (pw_step w1) (pw_step w2)"
      using t recover_outcome by (cases q) fastforce+
    then show ?thesis
      using disturbed_wider [of env e "pw_step w1" "pw_step w2" "pw_step w" "pw_step w'"] g1 g3
      by (auto simp: run_grows_def grows_def lettered_def prefix_def)
  qed
qed

text \<open>
  C34. The contract of the production pipeline, whatever commands fail and whatever other processes do between its
  commands that only append to the evidence and the letters, and keep the chains of evidence linked where they were
  (\<open>rely\<close>), under a LangGraph that runs the nodes of a graph along its edges and stops
  before a node of \<open>interrupt_before\<close> (\<open>langgraph\<close>). Evidence and letters are only appended and the chains of evidence
  stay linked, numbered and signed. A run that returns was admitted by an artifact of the registry whose manifest hashes
  to its provenance and whose signature is valid for this tenant, workflow and version; it has stopped before the side
  effect, which waits for approval under its digest; its halt is in the evidence; and its lease is released. A run that
  raises has sealed a letter with the classified failure, or what it raises is the failure of a command of Redis or
  PostgreSQL.
\<close>

theorem supervisor_pipeline_contract:
  assumes "rely env" and "langgraph env" and "execute_supervisor_pipeline env j w = (r, w')"
  shows "grows env w w' \<and>
    (\<forall>v. r = Inr v \<longrightarrow>
       admitted env j (pw_artifacts (pn_interfere env (pw_step w) w)) \<and> list_ex (halted_row env j) (pw_evidence w') \<and>
       (\<exists>token s. v = waiting_result (pj_thread_id j) token s \<and> halted_state env j token s
          \<and> lock_get (pn_clock env (pw_step w' - 1)) (pw_locks w') (lease_key (pj_tenant_id j) (pj_thread_id j))
             \<noteq> Some (lease_value token (pn_token_hex env (pw_step w))))) \<and>
    (\<forall>e. r = Inl e \<longrightarrow> lettered env j e w' \<or> disturbed env e (pw_step w) (pw_step w'))"
  using pipeline_grows [OF assms(1,3)] pipeline_success [OF assms(1,2)] pipeline_failure [OF assms(1)] assms(3) by blast

definition demo_pk_env :: pk_env where
  "demo_pk_env = \<lparr>pn_clock = (\<lambda>n. int n), pn_interfere = (\<lambda>n w. w), pn_outcome = (\<lambda>n. Done), pn_token_hex = (\<lambda>n. ''o''),
     pn_uuid = (\<lambda>n. ''u''), pn_sha256 = (\<lambda>s. s), pn_hmac = (\<lambda>s. CHR ''k'' # s), pn_compact = (\<lambda>t. ''j''), pn_spaced = (\<lambda>t. ''j''),
     pn_isa = (\<lambda>c b. False), pn_graph = interpret_graph\<rparr>"

definition demo_pk_job :: pk_job where
  "demo_pk_job = \<lparr>pj_tenant_id = ''t'', pj_thread_id = ''th'', pj_workflow_name = ''f'', pj_version = ''1'', pj_client_input = [],
     pj_show = (\<lambda>v. [])\<rparr>"

definition demo_pk_world :: pk_world where
  "demo_pk_world = \<lparr>pw_locks = [], pw_artifacts = [\<lparr>af_tenant_id = ''t'', af_workflow_name = ''f'', af_version_tag = ''1'',
     af_manifest = PDict [], af_provenance_hash = ''j'', af_signature = ''kt:f:1:j''\<rparr>], pw_evidence = [], pw_letters = [], pw_step = 0\<rparr>"

lemma demo_rely: "rely demo_pk_env" "langgraph demo_pk_env"
  by (simp_all add: rely_def grows_def demo_pk_env_def langgraph_def interpret_graph_def)

theorem supervisor_pipeline_contract_witness:
  "isl (fst (execute_supervisor_pipeline demo_pk_env demo_pk_job demo_pk_world)) = False
   \<and> admitted demo_pk_env demo_pk_job (pw_artifacts demo_pk_world)
   \<and> list_ex (halted_row demo_pk_env demo_pk_job) (pw_evidence (snd (execute_supervisor_pipeline demo_pk_env demo_pk_job demo_pk_world)))"
proof -
  have ok: "isl (fst (execute_supervisor_pipeline demo_pk_env demo_pk_job demo_pk_world)) = False" by code_simp
  then obtain v where "fst (execute_supervisor_pipeline demo_pk_env demo_pk_job demo_pk_world) = Inr v" by (metis isl_def sum.exhaust)
  then have "execute_supervisor_pipeline demo_pk_env demo_pk_job demo_pk_world
      = (Inr v, snd (execute_supervisor_pipeline demo_pk_env demo_pk_job demo_pk_world))"
    by (metis prod.collapse)
  from supervisor_pipeline_contract [OF demo_rely this] have
    "admitted demo_pk_env demo_pk_job (pw_artifacts (pn_interfere demo_pk_env (pw_step demo_pk_world) demo_pk_world))"
    "list_ex (halted_row demo_pk_env demo_pk_job) (pw_evidence (snd (execute_supervisor_pipeline demo_pk_env demo_pk_job demo_pk_world)))"
    by blast+
  moreover have "pn_interfere demo_pk_env n u = u" for n u by (simp add: demo_pk_env_def)
  ultimately show ?thesis using ok by simp
qed

section \<open>The tokens of a lease\<close>

datatype lock_label = Counted timestamp int | Taken timestamp string bool | Dropped timestamp string

fun lock_step :: "string \<Rightarrow> lock_table \<Rightarrow> lock_label \<Rightarrow> lock_table \<Rightarrow> bool" where
  "lock_step k st (Counted now t) st' \<longleftrightarrow> redis_incr now (counter_key k) st = (Inr t, st')"
| "lock_step k st (Taken now v ok) st' \<longleftrightarrow> redis_set_nx now lease_ttl k v st = (ok, st')"
| "lock_step k st (Dropped now v) st' \<longleftrightarrow> redis_compare_delete now k v st = st'"

fun counted_token :: "lock_label \<Rightarrow> int list" where
  "counted_token (Counted now t) = [t]"
| "counted_token _ = []"

definition lock_count :: "string \<Rightarrow> lock_table \<Rightarrow> int" where
  "lock_count k st = (case map_of st (counter_key k) of Some (Count n) \<Rightarrow> n | _ \<Rightarrow> 0)"

definition counts :: "string \<Rightarrow> lock_table \<Rightarrow> bool" where
  "counts k st \<longleftrightarrow> 0 \<le> lock_count k st \<and> (\<forall>v e. map_of st (counter_key k) \<noteq> Some (Held v e))"

lemma counter_key_neq [simp]: "counter_key k \<noteq> k" "k \<noteq> counter_key k"
  by (simp_all add: counter_key_def)

lemma lock_step_counts:
  assumes "lock_step k st l st'" and "counts k st"
  shows "counts k st' \<and> lock_count k st \<le> lock_count k st' \<and> counted_token l = [lock_count k st + 1..lock_count k st']"
  using assms
  by (cases l) (auto simp: redis_incr_def redis_set_nx_def redis_compare_delete_def counts_def lock_count_def lock_live_def
      split: option.splits lock_value.splits if_splits)

lemma lock_run_counts:
  assumes "run_of (lock_step k) st ls st'" and "counts k st"
  shows "counts k st' \<and> lock_count k st \<le> lock_count k st' \<and> concat (map counted_token ls) = [lock_count k st + 1..lock_count k st']"
  using assms
proof (induction rule: run_of.induct)
  case (run_cons s l s1 ls s2)
  have step: "counts k s1 \<and> lock_count k s \<le> lock_count k s1 \<and> counted_token l = [lock_count k s + 1..lock_count k s1]"
    using run_cons.hyps(1) run_cons.prems by (rule lock_step_counts)
  then show ?case using run_cons.IH upto_append [of "lock_count k s" "lock_count k s1" "lock_count k s2"] by auto
qed simp

text \<open>
  The tokens of a lease, under any interleaving of its commands by any number of workers, are the numbers from 1 on, each
  given once, and a lock is taken only while no lock is live.
\<close>

theorem lease_tokens_distinct:
  assumes "run_of (lock_step k) [] ls st"
  shows "concat (map counted_token ls) = [1..lock_count k st]"
    and "lock_step k st (Taken now v True) st' \<Longrightarrow> lock_get now st k = None \<and> lock_get now st' k = Some v"
  using lock_run_counts [OF assms]
  by (auto simp: counts_def lock_count_def redis_set_nx_def lock_get_def lock_live_def lease_ttl_def split: if_splits)

section \<open>Where it falls short\<close>

text \<open>
  \<open>INCR\<close> and \<open>SET NX\<close> are two commands: of two workers that both have counted, the one with the higher token may hold
  the lease first. The later holder then has the lower token, and fencing by the token favours the earlier one.
\<close>

lemma later_holder_has_lower_token:
  "run_of (lock_step ''k'') [] [Counted 0 1, Counted 0 2, Taken 0 (lease_value 2 ''b'') True, Dropped 1 (lease_value 2 ''b''),
     Taken 1 (lease_value 1 ''a'') True]
     [(''k:counter'', Count 2), (''k'', Held (lease_value 1 ''a'') (1 + lease_ttl))]"
  by (simp add: run_of_Cons run_of_Nil redis_incr_def redis_set_nx_def redis_compare_delete_def lock_get_def lock_live_def
      counter_key_def lease_ttl_def)

text \<open>A run that finds the lease taken is dead-lettered as an unknown failure, though the execution is in good hands.\<close>

lemma contention_is_dead_lettered:
  "case execute_supervisor_pipeline demo_pk_env demo_pk_job
      (demo_pk_world\<lparr>pw_locks := [(''lock:lease:execution:t:th'', Held ''1:other'' 100)]\<rparr>) of
     (r, w) \<Rightarrow> r = Inl (Exn KernelPanicException ''Execution lease contention'') \<and> map sl_scenario_id (pw_letters w) = [''RC-09'']"
  by code_simp

text \<open>No write asks whether the lease is still held: a run whose lease has gone to another attests its halt all the same.\<close>

definition stolen_env :: pk_env where
  "stolen_env = demo_pk_env\<lparr>pn_interfere := (\<lambda>n w. if n = 3 then w\<lparr>pw_locks := [(''lock:lease:execution:t:th'', Held ''2:other'' 100)]\<rparr> else w)\<rparr>"

lemma superseded_run_attests:
  "case execute_supervisor_pipeline stolen_env demo_pk_job demo_pk_world of
     (r, w) \<Rightarrow> \<not> isl r \<and> length (pw_evidence w) = 1 \<and> lock_get 5 (pw_locks w) ''lock:lease:execution:t:th'' = Some ''2:other''"
  by code_simp

text \<open>The parts of a signed message are joined by colons: a signature of one workflow is valid for another.\<close>

lemma promotion_signature_ambiguous:
  "promotion_message t (flow @ '':'' @ a) b p = promotion_message t flow (a @ '':'' @ b) p"
  by (simp add: promotion_message_def)

end
