(* ===== verification/Redis_Coordinator.thy ===== *)
theory Redis_Coordinator
  imports Kernel_Stores Resilience_Transaction
begin

text \<open>
  \<^verbatim>\<open>ois/persistence/redis_coordinator.py\<close>: execution locks, the idempotency store and cancellation signals over Redis, and
  \<^verbatim>\<open>ois/integration/redis_recovery.py\<close>: the worker of a Redis stream and the recovery of its stale messages. A command or a
  script is one step at a time \<open>now\<close>; a key whose expiry has passed is absent. What the stream commands answer is an
  argument, as are the handler and the failures of a command.
\<close>

section \<open>Keys\<close>

datatype redis_text = Plain string | Json json_text

type_synonym redis_strings = "(string \<times> redis_text \<times> timestamp) list"

definition redis_live :: "timestamp \<Rightarrow> redis_strings \<Rightarrow> string \<Rightarrow> redis_text option" where
  "redis_live now st k = (case map_of st k of Some (v, e) \<Rightarrow> if e > now then Some v else None | None \<Rightarrow> None)"

definition redis_set :: "timestamp \<Rightarrow> int \<Rightarrow> string \<Rightarrow> redis_text \<Rightarrow> redis_strings \<Rightarrow> redis_strings" where
  "redis_set now ttl_sec k v st = AList.update k (v, now + ttl_sec * 1000000) st"

definition lock_name :: "string \<Rightarrow> string" where
  "lock_name execution = ''ois:lock:'' @ execution"

definition idempotency_name :: "string \<Rightarrow> string" where
  "idempotency_name transaction = ''ois:idempotency:'' @ transaction"

definition cancel_name :: "string \<Rightarrow> string" where
  "cancel_name execution = ''ois:cancel:'' @ execution"

section \<open>Execution locks\<close>

text \<open>\<open>token\<close> is the \<open>uuid4\<close> of the call.\<close>

definition acquire_execution_lock ::
  "timestamp \<Rightarrow> uuid \<Rightarrow> string \<Rightarrow> int \<Rightarrow> redis_strings \<Rightarrow> (py_exn + uuid option) \<times> redis_strings" where
  "acquire_execution_lock now token execution timeout st =
     (if timeout \<le> 0 then (Inl (Exn ValueError ''lock_timeout_sec must be positive''), st)
      else if redis_live now st (lock_name execution) \<noteq> None then (Inr None, st)
      else (Inr (Some token), redis_set now timeout (lock_name execution) (Plain token) st))"

definition release_execution_lock :: "timestamp \<Rightarrow> string \<Rightarrow> uuid \<Rightarrow> redis_strings \<Rightarrow> bool \<times> redis_strings" where
  "release_execution_lock now execution owner st =
     (if redis_live now st (lock_name execution) = Some (Plain owner)
      then (True, AList.delete (lock_name execution) st) else (False, st))"

section \<open>The idempotency cache\<close>

definition check_idempotency_cache :: "timestamp \<Rightarrow> string \<Rightarrow> redis_strings \<Rightarrow> redis_text option" where
  "check_idempotency_cache now transaction st = redis_live now st (idempotency_name transaction)"

definition write_idempotency_cache ::
  "timestamp \<Rightarrow> string \<Rightarrow> redis_text \<Rightarrow> int \<Rightarrow> redis_strings \<Rightarrow> (py_exn + bool) \<times> redis_strings" where
  "write_idempotency_cache now transaction result ttl st =
     (if ttl \<le> 0 then (Inl (Exn ValueError ''ttl_sec must be positive''), st)
      else if redis_live now st (idempotency_name transaction) \<noteq> None then (Inr False, st)
      else (Inr True, redis_set now ttl (idempotency_name transaction) result st))"

definition cache_json_result :: "timestamp \<Rightarrow> string \<Rightarrow> pyval \<Rightarrow> int \<Rightarrow> redis_strings \<Rightarrow> (py_exn + bool) \<times> redis_strings" where
  "cache_json_result now transaction result ttl = write_idempotency_cache now transaction (Json (json_dumps result)) ttl"

text \<open>\<open>RedisIdempotencyStore\<close>. A value that \<open>put\<close> did not write is a malformed row, as in the SQLite store.\<close>

definition redis_idem_get :: "timestamp \<Rightarrow> string \<Rightarrow> redis_strings \<Rightarrow> py_exn + invocation_result option" where
  "redis_idem_get now invocation st =
     (case check_idempotency_cache now invocation st of
        None \<Rightarrow> Inr None
      | Some (Plain _) \<Rightarrow> bad_row
      | Some (Json t) \<Rightarrow>
         (case json_loads t of
            PDict d \<Rightarrow> (case result_of_dict d of Some r \<Rightarrow> Inr (Some r) | None \<Rightarrow> bad_row)
          | _ \<Rightarrow> bad_row))"

definition redis_idem_put :: "timestamp \<Rightarrow> int \<Rightarrow> string \<Rightarrow> invocation_result \<Rightarrow> redis_strings \<Rightarrow> (py_exn + unit) \<times> redis_strings" where
  "redis_idem_put now ttl invocation result st =
     (if res_status result \<notin> {IS_SUCCEEDED, IS_CANCELLED} then (Inr (), st)
      else case cache_json_result now invocation (PDict (result_dict result)) ttl st of
        (Inl e, st') \<Rightarrow> (Inl e, st') | (Inr _, st') \<Rightarrow> (Inr (), st'))"

section \<open>Cancellation\<close>

definition set_cancellation_signal ::
  "timestamp \<Rightarrow> string \<Rightarrow> int \<Rightarrow> string \<Rightarrow> redis_strings \<Rightarrow> (py_exn + unit) \<times> redis_strings" where
  "set_cancellation_signal now execution ttl reason st =
     (if ttl \<le> 0 then (Inl (Exn ValueError ''ttl_sec must be positive''), st)
      else (Inr (), redis_set now ttl (cancel_name execution) (Json (json_dumps (PDict [(''reason'', PStr reason)]))) st))"

definition signal_present :: "timestamp \<Rightarrow> string \<Rightarrow> redis_strings \<Rightarrow> bool" where
  "signal_present now execution st \<longleftrightarrow> redis_live now st (cancel_name execution) \<noteq> None"

text \<open>\<open>show\<close> is \<open>str\<close>; a text that is not JSON is returned as it is.\<close>

definition cancellation_reason :: "(pyval \<Rightarrow> string) \<Rightarrow> timestamp \<Rightarrow> string \<Rightarrow> redis_strings \<Rightarrow> py_exn + string option" where
  "cancellation_reason show now execution st =
     (case redis_live now st (cancel_name execution) of
        None \<Rightarrow> Inr None
      | Some (Plain s) \<Rightarrow> Inr (Some s)
      | Some (Json t) \<Rightarrow>
         (case json_loads t of
            PDict d \<Rightarrow> Inr (Some (case map_of d ''reason'' of Some (PStr s) \<Rightarrow> s | Some v \<Rightarrow> show v | None \<Rightarrow> show PNone))
          | v \<Rightarrow> Inl (no_attribute (py_type_name v) ''get'')))"

definition clear_cancellation_signal :: "timestamp \<Rightarrow> string \<Rightarrow> redis_strings \<Rightarrow> bool \<times> redis_strings" where
  "clear_cancellation_signal now execution st = (signal_present now execution st, AList.delete (cancel_name execution) st)"

text \<open>\<open>RedisCancellationToken\<close>: \<open>raise_if_cancelled\<close> reads the signal twice, and Redis may have changed in between.\<close>

definition token_cancel :: "timestamp \<Rightarrow> string \<Rightarrow> string option \<Rightarrow> redis_strings \<Rightarrow> redis_strings" where
  "token_cancel now execution reason st =
     snd (set_cancellation_signal now execution 300
            (case reason of None \<Rightarrow> ''cancelled'' | Some [] \<Rightarrow> ''cancelled'' | Some r \<Rightarrow> r) st)"

definition token_raise_if_cancelled ::
  "(pyval \<Rightarrow> string) \<Rightarrow> string \<Rightarrow> timestamp \<times> redis_strings \<Rightarrow> timestamp \<times> redis_strings \<Rightarrow> py_exn + unit" where
  "token_raise_if_cancelled show execution first second =
     (if signal_present (fst first) execution (snd first)
      then rbind (cancellation_reason show (fst second) execution (snd second)) (\<lambda>reason.
        Inl (Exn ExecutionCancellation
          (case reason of None \<Rightarrow> ''Execution cancelled.'' | Some [] \<Rightarrow> ''Execution cancelled.'' | Some r \<Rightarrow> r)))
      else Inr ())"

section \<open>The stream worker\<close>

text \<open>A field of a message has a name of bytes (\<open>True\<close>) or text and a value, which is JSON or fails to be decoded.\<close>

datatype raw_text = Raw_JSON json_text | Raw_Bad py_exn

type_synonym stream_fields = "((bool \<times> string) \<times> raw_text) list"
type_synonym stream_message = "string \<times> stream_fields"

definition decode_task :: "stream_fields \<Rightarrow> py_exn + pydict" where
  "decode_task flds =
     (case (case map_of flds (True, ''task_context'') of None \<Rightarrow> map_of flds (False, ''task_context'') | r \<Rightarrow> r) of
        None \<Rightarrow> Inl (Exn ValueError ''Redis task is missing task_context'')
      | Some (Raw_Bad e) \<Rightarrow> Inl e
      | Some (Raw_JSON t) \<Rightarrow>
         (case json_loads t of PDict d \<Rightarrow> Inr d | _ \<Rightarrow> Inl (Exn ValueError ''task_context must decode to a JSON object'')))"

record stream_world =
  sw_calls :: "(pydict \<times> (py_exn + unit)) list"
  sw_commands :: nat
  sw_acked :: "string list"
  sw_deleted :: "string list"

text \<open>
  \<open>wx_handler n\<close> is what the \<open>n\<close>-th call of the handler does, \<open>wx_outcome n\<close> what becomes of the \<open>n\<close>-th \<open>XACK\<close> or
  \<open>XDEL\<close>, \<open>wx_claim n\<close> the answer of the \<open>n\<close>-th \<open>XAUTOCLAIM\<close> of a pass, or its failure. \<open>wx_is_exception\<close> holds of the
  instances of \<open>Exception\<close>; a cancellation and an exit of the process are not.
\<close>

record stream_env =
  wx_handler :: "nat \<Rightarrow> pydict \<Rightarrow> py_exn + unit"
  wx_outcome :: "nat \<Rightarrow> pg_outcome"
  wx_is_exception :: "py_exn \<Rightarrow> bool"
  wx_claim :: "nat \<Rightarrow> py_exn + string \<times> stream_message list"

definition mk_recovery_engine :: "int \<Rightarrow> py_exn + int" where
  "mk_recovery_engine max_retries =
     (if max_retries < 0 then Inl (Exn ValueError ''max_retries must be >= 0'') else Inr max_retries)"

definition stream_command :: "stream_env \<Rightarrow> (stream_world \<Rightarrow> stream_world) \<Rightarrow> (stream_world, unit) em" where
  "stream_command env f = (\<lambda>w. pg_settle (wx_outcome env (sw_commands w)) f (w\<lparr>sw_commands := Suc (sw_commands w)\<rparr>))"

definition call_handler :: "stream_env \<Rightarrow> pydict \<Rightarrow> (stream_world, py_exn + unit) em" where
  "call_handler env task = (\<lambda>w. let r = wx_handler env (length (sw_calls w)) task
     in (Inr r, w\<lparr>sw_calls := sw_calls w @ [(task, r)]\<rparr>))"

definition finish_message :: "stream_env \<Rightarrow> string \<Rightarrow> (stream_world, unit) em" where
  "finish_message env i =
     eseq (stream_command env (\<lambda>w. w\<lparr>sw_acked := sw_acked w @ [i]\<rparr>))
          (stream_command env (\<lambda>w. w\<lparr>sw_deleted := sw_deleted w @ [i]\<rparr>))"

text \<open>\<open>xreadgroup\<close> answered with the message \<open>m\<close> or with nothing.\<close>

definition consume_once :: "stream_env \<Rightarrow> stream_message option \<Rightarrow> (stream_world, bool) em" where
  "consume_once env m =
     (case m of
        None \<Rightarrow> eret False
      | Some (i, flds) \<Rightarrow>
         ebind (elift (decode_task flds)) (\<lambda>task.
         ebind (call_handler env task) (\<lambda>r.
         case r of Inl e \<Rightarrow> eraise e | Inr _ \<Rightarrow> eseq (finish_message env i) (eret True))))"

fun recover_entries :: "stream_env \<Rightarrow> stream_message list \<Rightarrow> (stream_world, nat) em" where
  "recover_entries env [] = eret 0"
| "recover_entries env ((i, flds) # ms) =
     ebind (elift (decode_task flds)) (\<lambda>task.
     ebind (call_handler env task) (\<lambda>r.
     case r of
       Inl e \<Rightarrow> if wx_is_exception env e then recover_entries env ms else eraise e
     | Inr _ \<Rightarrow> eseq (finish_message env i) (ebind (recover_entries env ms) (\<lambda>n. eret (Suc n)))))"

definition pass_ends :: "string \<times> stream_message list \<Rightarrow> bool" where
  "pass_ends reply \<longleftrightarrow> fst reply = ''0-0'' \<or> snd reply = []"

partial_function (option) recover_pass :: "stream_env \<Rightarrow> nat \<Rightarrow> nat \<Rightarrow> stream_world \<Rightarrow> ((py_exn + nat) \<times> stream_world) option" where
  "recover_pass env i processed w =
     (case wx_claim env i of
        Inl e \<Rightarrow> Some (Inl e, w)
      | Inr reply \<Rightarrow>
         (case recover_entries env (snd reply) w of
            (Inl e, w') \<Rightarrow> Some (Inl e, w')
          | (Inr n, w') \<Rightarrow>
             if pass_ends reply then Some (Inr (processed + n), w') else recover_pass env (Suc i) (processed + n) w'))"

declare recover_pass.simps [code]

definition recover_once :: "stream_env \<Rightarrow> stream_world \<Rightarrow> ((py_exn + nat) \<times> stream_world) option" where
  "recover_once env = recover_pass env 0 0"

partial_function (option) reclaim_pass :: "stream_env \<Rightarrow> nat \<Rightarrow> nat \<Rightarrow> (py_exn + nat) option" where
  "reclaim_pass env i claimed =
     (case wx_claim env i of
        Inl e \<Rightarrow> Some (Inl e)
      | Inr reply \<Rightarrow>
         let claimed' = claimed + length (snd reply)
         in if pass_ends reply then Some (Inr claimed') else reclaim_pass env (Suc i) claimed')"

declare reclaim_pass.simps [code]

definition reclaim_stale :: "stream_env \<Rightarrow> int \<Rightarrow> (py_exn + nat) option" where
  "reclaim_stale env min_idle_ms =
     (if min_idle_ms < 0 then Some (Inl (Exn ValueError ''min_idle_ms must be >= 0'')) else reclaim_pass env 0 0)"

end
