(* ===== verification/Redis_Properties.thy ===== *)
theory Redis_Properties
  imports Redis_Coordinator
begin

text \<open>
  What the Redis coordination keeps. At one moment the idempotency store satisfies the contract that the kernel's runtime
  relies on (\<open>redis_idem\<close>); over time a result and a lock stay until their expiry, whatever the other clients do, and not
  longer. A recovery pass of the stream worker ends and acknowledges what was handled and nothing else.
\<close>

section \<open>The idempotency store\<close>

lemma names_distinct [simp]:
  "idempotency_name a = idempotency_name b \<longleftrightarrow> a = b" "lock_name a = lock_name b \<longleftrightarrow> a = b"
  "idempotency_name a \<noteq> lock_name b" "lock_name b \<noteq> idempotency_name a"
  "idempotency_name a \<noteq> cancel_name b" "cancel_name b \<noteq> idempotency_name a"
  "lock_name a \<noteq> cancel_name b" "cancel_name b \<noteq> lock_name a"
  by (simp_all add: idempotency_name_def lock_name_def cancel_name_def)

definition redis_idem_wf :: "redis_strings \<Rightarrow> bool" where
  "redis_idem_wf st \<longleftrightarrow> (\<forall>k v e. map_of st (idempotency_name k) = Some (v, e) \<longrightarrow>
     (\<exists>r. terminal_result r \<and> v = Json (json_dumps (PDict (result_dict r)))))"

lemma redis_idem_get_row:
  "redis_live now st (idempotency_name k) = Some (Json (json_dumps (PDict (result_dict r)))) \<Longrightarrow>
     redis_idem_get now k st = Inr (Some (canon_result r))"
  by (simp add: redis_idem_get_def check_idempotency_cache_def json_loads_result result_of_dict_canon del: json_loads_dumps)

lemma redis_idem_get_cases:
  assumes "redis_idem_wf st"
  obtains "redis_live now st (idempotency_name k) = None" "redis_idem_get now k st = Inr None"
  | r where "redis_live now st (idempotency_name k) = Some (Json (json_dumps (PDict (result_dict r))))"
      "redis_idem_get now k st = Inr (Some (canon_result r))"
proof (cases "redis_live now st (idempotency_name k)")
  case None
  then show thesis by (intro that(1)) (simp_all add: redis_idem_get_def check_idempotency_cache_def)
next
  case (Some v)
  then obtain e where "map_of st (idempotency_name k) = Some (v, e)"
    by (auto simp: redis_live_def split: option.splits if_splits)
  with assms obtain r where "v = Json (json_dumps (PDict (result_dict r)))" by (auto simp: redis_idem_wf_def)
  with Some show thesis by (intro that(2)) (simp_all add: redis_idem_get_row)
qed

lemma redis_put_state:
  "snd (redis_idem_put now ttl k r st) =
     (if terminal_result r \<and> 0 < ttl \<and> redis_live now st (idempotency_name k) = None
      then redis_set now ttl (idempotency_name k) (Json (json_dumps (PDict (result_dict r)))) st else st)"
  by (simp add: redis_idem_put_def terminal_result_def cache_json_result_def write_idempotency_cache_def)

lemma redis_live_set [simp]:
  "redis_live now (redis_set now ttl k v st) k' = (if k' = k \<and> 0 < ttl then Some v else if k' = k then None else redis_live now st k')"
  by (simp add: redis_live_def redis_set_def)

interpretation redis_idem: idempotency_contract
  "redis_idem_get now" "\<lambda>k r s. snd (redis_idem_put now 86400 k r s)" redis_idem_wf terminal_result canon_result for now
proof unfold_locales
  fix s k r r0 k'
  assume wf: "redis_idem_wf s"
  show "\<exists>r. redis_idem_get now k s = Inr r" by (rule redis_idem_get_cases [OF wf, of now k]) auto
  show "redis_idem_wf (snd (redis_idem_put now 86400 k r s))"
    using wf by (auto simp: redis_put_state redis_idem_wf_def redis_set_def)
  show "redis_idem_get now k (snd (redis_idem_put now 86400 k r s)) = Inr (Some (canon_result r))"
    if "terminal_result r" "redis_idem_get now k s = Inr None"
  proof -
    have "redis_live now s (idempotency_name k) = None" using that(2) by (auto intro: redis_idem_get_cases [OF wf, of now k])
    then show ?thesis using that(1) by (intro redis_idem_get_row) (simp add: redis_put_state)
  qed
  show "redis_idem_get now k (snd (redis_idem_put now 86400 k r s)) = Inr (Some r0)" if "redis_idem_get now k s = Inr (Some r0)"
    using that by (auto simp: redis_put_state redis_idem_get_def check_idempotency_cache_def)
  show "redis_idem_get now k' (snd (redis_idem_put now 86400 k r s)) = redis_idem_get now k' s" if "k' \<noteq> k"
    using that by (simp add: redis_put_state redis_idem_get_def check_idempotency_cache_def)
qed

section \<open>Over time\<close>

datatype coordinator_op =
    Lock uuid string int
  | Unlock string uuid
  | Put int string invocation_result
  | Signal string int string
  | Clear string

fun apply_op :: "timestamp \<Rightarrow> coordinator_op \<Rightarrow> redis_strings \<Rightarrow> redis_strings" where
  "apply_op now (Lock token execution timeout) st = snd (acquire_execution_lock now token execution timeout st)"
| "apply_op now (Unlock execution owner) st = snd (release_execution_lock now execution owner st)"
| "apply_op now (Put ttl k r) st = snd (redis_idem_put now ttl k r st)"
| "apply_op now (Signal execution ttl reason) st = snd (set_cancellation_signal now execution ttl reason st)"
| "apply_op now (Clear execution) st = snd (clear_cancellation_signal now execution st)"

definition apply_ops :: "(timestamp \<times> coordinator_op) list \<Rightarrow> redis_strings \<Rightarrow> redis_strings" where
  "apply_ops ops = fold (\<lambda>(now, op). apply_op now op) ops"

lemma op_keeps_result:
  assumes "map_of st (idempotency_name k) = Some (v, e)" and "now < e"
  shows "map_of (apply_op now op st) (idempotency_name k) = Some (v, e)"
  using assms
  by (cases op) (auto simp: acquire_execution_lock_def release_execution_lock_def redis_put_state set_cancellation_signal_def
      clear_cancellation_signal_def redis_set_def redis_live_def split: if_splits)

lemma op_keeps_lock:
  assumes "map_of st (lock_name x) = Some (Plain token, e)" and "now < e" and "op \<noteq> Unlock x token"
  shows "map_of (apply_op now op st) (lock_name x) = Some (Plain token, e)"
  using assms
  by (cases op) (auto simp: acquire_execution_lock_def release_execution_lock_def redis_put_state set_cancellation_signal_def
      clear_cancellation_signal_def redis_set_def redis_live_def split: if_splits)

lemma ops_keep:
  assumes "map_of st k = Some (v, e)" and "\<And>now op. (now, op) \<in> set ops \<Longrightarrow> now < e"
    and "\<And>now op st. (now, op) \<in> set ops \<Longrightarrow> map_of st k = Some (v, e) \<Longrightarrow> now < e \<Longrightarrow> map_of (apply_op now op st) k = Some (v, e)"
  shows "map_of (apply_ops ops st) k = Some (v, e)"
  using assms
proof (induction ops arbitrary: st)
  case (Cons x ops)
  obtain now op where x: "x = (now, op)" by fastforce
  have "map_of (apply_op now op st) k = Some (v, e)" using Cons.prems x by (metis list.set_intros(1))
  then show ?case using Cons.IH [of "apply_op now op st"] Cons.prems(2,3) x by (auto simp: apply_ops_def)
qed (simp add: apply_ops_def)

text \<open>
  C35. What is recorded in Redis holds until it expires, whatever any number of clients do meanwhile (take and release
  locks, record results, signal and clear cancellations). A terminal result that was recorded is read back until its
  time to live is over; and a lock that was taken is refused to everybody until its timeout is over, unless it is
  released with its own token.
\<close>

theorem coordination_holds_until_expiry:
  assumes "0 < ttl" and "list_all (\<lambda>(now, op). now < t + ttl * 1000000) ops" and "now < t + ttl * 1000000"
  shows "(terminal_result r \<and> redis_idem_get t k st = Inr None \<longrightarrow>
           redis_idem_get now k (apply_ops ops (snd (redis_idem_put t ttl k r st))) = Inr (Some (canon_result r))) \<and>
         (fst (acquire_execution_lock t token x ttl st) = Inr (Some token) \<and> Unlock x token \<notin> snd ` set ops \<longrightarrow>
           fst (acquire_execution_lock now token' x timeout (apply_ops ops (snd (acquire_execution_lock t token x ttl st)))) \<noteq> Inr (Some token'))"
proof (intro conjI impI)
  let ?e = "t + ttl * 1000000"
  have early: "now < ?e" if "(now, op) \<in> set ops" for now op using assms(2) that by (auto simp: list_all_iff)
  {
    assume r: "terminal_result r \<and> redis_idem_get t k st = Inr None"
    let ?v = "Json (json_dumps (PDict (result_dict r)))" and ?st = "snd (redis_idem_put t ttl k r st)"
    have "redis_live t st (idempotency_name k) = None"
      using r by (auto simp: redis_idem_get_def check_idempotency_cache_def bad_row_def split: option.splits redis_text.splits pyval.splits)
    then have "map_of ?st (idempotency_name k) = Some (?v, ?e)" using r assms(1) by (simp add: redis_put_state redis_set_def)
    then have "map_of (apply_ops ops ?st) (idempotency_name k) = Some (?v, ?e)"
      by (rule ops_keep) (rule early, assumption, rule op_keeps_result)
    then show "redis_idem_get now k (apply_ops ops ?st) = Inr (Some (canon_result r))"
      using assms(3) by (intro redis_idem_get_row) (simp add: redis_live_def)
  }
  assume l: "fst (acquire_execution_lock t token x ttl st) = Inr (Some token) \<and> Unlock x token \<notin> snd ` set ops"
  let ?st = "snd (acquire_execution_lock t token x ttl st)"
  have taken: "map_of ?st (lock_name x) = Some (Plain token, ?e)"
    using l by (auto simp: acquire_execution_lock_def redis_set_def split: if_splits)
  have other: "op \<noteq> Unlock x token" if "(now, op) \<in> set ops" for now op using l that by force
  have "map_of (apply_ops ops ?st) (lock_name x) = Some (Plain token, ?e)"
    by (rule ops_keep [OF taken]) (rule early, assumption, rule op_keeps_lock, assumption, assumption, rule other)
  then show "fst (acquire_execution_lock now token' x timeout (apply_ops ops ?st)) \<noteq> Inr (Some token')"
    using assms(3) by (simp add: acquire_execution_lock_def redis_live_def)
qed

theorem coordination_holds_until_expiry_witness:
  "redis_idem_get 1000000 ''i'' (apply_ops [(5, Put 10 ''i'' (new_result ''i'' ''d'' IS_CANCELLED)), (9, Unlock ''x'' ''u'')]
      (snd (redis_idem_put 0 30 ''i'' (new_result ''i'' ''c'' IS_SUCCEEDED) []))) = Inr (Some (canon_result (new_result ''i'' ''c'' IS_SUCCEEDED)))"
  using coordination_holds_until_expiry [of 30 0 "[(5, Put 10 ''i'' (new_result ''i'' ''d'' IS_CANCELLED)), (9, Unlock ''x'' ''u'')]" 1000000
      "new_result ''i'' ''c'' IS_SUCCEEDED" "''i''" "[]"]
  by (simp add: terminal_result_def new_result_def redis_idem_get_def check_idempotency_cache_def redis_live_def)

text \<open>After the time to live the result is gone, and a repeated call of the same invocation executes again.\<close>

lemma expired_result_is_lost:
  assumes "t + ttl * 1000000 \<le> now" and "0 < ttl" and "terminal_result r" and "redis_idem_get t k st = Inr None"
  shows "redis_idem_get now k (snd (redis_idem_put t ttl k r st)) = Inr None"
proof -
  have "redis_live t st (idempotency_name k) = None"
    using assms(4) by (auto simp: redis_idem_get_def check_idempotency_cache_def bad_row_def split: option.splits redis_text.splits pyval.splits)
  then show ?thesis
    using assms by (simp add: redis_put_state redis_idem_get_def check_idempotency_cache_def redis_live_def redis_set_def)
qed

section \<open>Recovery of the stream\<close>

definition successes :: "(pydict \<times> (py_exn + unit)) list \<Rightarrow> nat" where
  "successes cs = length (filter (\<lambda>(task, r). r = Inr ()) cs)"

text \<open>
  What the entries of one answer leave: new calls, and new acknowledgements, each of a message whose task was handled; a
  deletion only of what was acknowledged.
\<close>

definition pass_step :: "stream_message list \<Rightarrow> stream_world \<Rightarrow> stream_world \<Rightarrow> bool" where
  "pass_step ms w w' \<longleftrightarrow> (\<exists>calls acks dels. sw_calls w' = sw_calls w @ calls \<and> sw_acked w' = sw_acked w @ acks
     \<and> sw_deleted w' = sw_deleted w @ dels \<and> set dels \<subseteq> set acks
     \<and> (\<forall>i\<in>set acks. \<exists>flds task. (i, flds) \<in> set ms \<and> decode_task flds = Inr task \<and> (task, Inr ()) \<in> set calls))"

lemma pass_step_refl: "pass_step ms w w"
  by (auto simp: pass_step_def)

lemma pass_step_trans:
  assumes "pass_step ms u v" and "pass_step ms' v w" and "set ms \<subseteq> set ms2" and "set ms' \<subseteq> set ms2"
  shows "pass_step ms2 u w"
proof -
  obtain c1 a1 d1 where 1: "sw_calls v = sw_calls u @ c1" "sw_acked v = sw_acked u @ a1" "sw_deleted v = sw_deleted u @ d1" "set d1 \<subseteq> set a1"
      "\<forall>i\<in>set a1. \<exists>flds task. (i, flds) \<in> set ms \<and> decode_task flds = Inr task \<and> (task, Inr ()) \<in> set c1"
    using assms(1) unfolding pass_step_def by blast
  obtain c2 a2 d2 where 2: "sw_calls w = sw_calls v @ c2" "sw_acked w = sw_acked v @ a2" "sw_deleted w = sw_deleted v @ d2" "set d2 \<subseteq> set a2"
      "\<forall>i\<in>set a2. \<exists>flds task. (i, flds) \<in> set ms' \<and> decode_task flds = Inr task \<and> (task, Inr ()) \<in> set c2"
    using assms(2) unfolding pass_step_def by blast
  show ?thesis
    unfolding pass_step_def
    by (rule exI [of _ "c1 @ c2"], rule exI [of _ "a1 @ a2"], rule exI [of _ "d1 @ d2"]) (use 1 2 assms(3,4) in \<open>fastforce\<close>)
qed

lemma stream_command_cases:
  assumes "stream_command env f w = (r, w')"
  shows "w' = (w\<lparr>sw_commands := Suc (sw_commands w)\<rparr>) \<and> isl r \<or> w' = f (w\<lparr>sw_commands := Suc (sw_commands w)\<rparr>)"
  using assms by (cases "wx_outcome env (sw_commands w)") (auto simp: stream_command_def em_simps)

lemma finish_step:
  assumes "finish_message env i w = (r, w')"
  shows "sw_calls w' = sw_calls w \<and> (\<exists>acks dels. sw_acked w' = sw_acked w @ acks \<and> sw_deleted w' = sw_deleted w @ dels
     \<and> set dels \<subseteq> set acks \<and> set acks \<subseteq> {i} \<and> (r = Inr () \<longrightarrow> acks = [i] \<and> dels = [i]))"
proof -
  obtain q v where q: "stream_command env (\<lambda>w. w\<lparr>sw_acked := sw_acked w @ [i]\<rparr>) w = (q, v)" by fastforce
  show ?thesis
  proof (cases q)
    case (Inl e)
    then show ?thesis
      using assms q stream_command_cases [OF q] by (auto simp: finish_message_def em_simps)
  next
    case (Inr u)
    then have v: "v = w\<lparr>sw_commands := Suc (sw_commands w), sw_acked := sw_acked w @ [i]\<rparr>" using stream_command_cases [OF q] by auto
    have "stream_command env (\<lambda>w. w\<lparr>sw_deleted := sw_deleted w @ [i]\<rparr>) v = (r, w')" using assms q Inr by (simp add: finish_message_def em_simps)
    from stream_command_cases [OF this] show ?thesis using v by (cases r) auto
  qed
qed

lemma call_step:
  "call_handler env task w = (q, v) \<Longrightarrow>
     q = Inr (wx_handler env (length (sw_calls w)) task)
     \<and> v = w\<lparr>sw_calls := sw_calls w @ [(task, wx_handler env (length (sw_calls w)) task)]\<rparr>"
  by (simp add: call_handler_def Let_def)

lemma handled_step:
  assumes "decode_task flds = Inr task" and "finish_message env i (w\<lparr>sw_calls := sw_calls w @ [(task, Inr ())]\<rparr>) = (r, w')"
  shows "pass_step [(i, flds)] w w'"
proof -
  obtain acks dels where a: "sw_acked w' = sw_acked w @ acks" "sw_deleted w' = sw_deleted w @ dels" "set dels \<subseteq> set acks" "set acks \<subseteq> {i}"
      "sw_calls w' = sw_calls w @ [(task, Inr ())]"
    using finish_step [OF assms(2)] by auto
  then show ?thesis
    unfolding pass_step_def
    by (intro exI [of _ "[(task, Inr ())]"] exI [of _ acks] exI [of _ dels]) (use a assms(1) in auto)
qed

lemma entries_step: "recover_entries env ms w = (r, w') \<Longrightarrow> pass_step ms w w'"
proof (induction env ms arbitrary: w r w' rule: recover_entries.induct)
  case (1 env)
  then show ?case by (simp add: em_simps pass_step_refl)
next
  case (2 env i flds ms)
  show ?case
  proof (cases "decode_task flds")
    case (Inl e)
    then show ?thesis using 2(3) by (simp add: em_simps pass_step_refl)
  next
    case (Inr task)
    let ?r = "wx_handler env (length (sw_calls w)) task" and ?v = "w\<lparr>sw_calls := sw_calls w @ [(task, wx_handler env (length (sw_calls w)) task)]\<rparr>"
    have called: "pass_step [] w ?v" by (simp add: pass_step_def)
    show ?thesis
    proof (cases ?r)
      case (Inl e)
      show ?thesis
      proof (cases "wx_is_exception env e")
        case True
        then have "recover_entries env ms ?v = (r, w')" using 2(3) Inr Inl by (simp add: em_simps call_handler_def Let_def)
        from 2(1) [OF True this] show ?thesis by (rule pass_step_trans [OF called]) auto
      next
        case False
        then have "w' = ?v" using 2(3) Inr Inl by (simp add: em_simps call_handler_def Let_def)
        then show ?thesis using pass_step_trans [OF called pass_step_refl [of "[]"]] by simp
      qed
    next
      case ok: (Inr u)
      obtain q v where q: "finish_message env i ?v = (q, v)" by fastforce
      have first: "pass_step [(i, flds)] w v" using handled_step [OF Inr] q ok by simp
      show ?thesis
      proof (cases q)
        case (Inl e)
        then have "w' = v" using 2(3) Inr ok q by (simp add: em_simps call_handler_def Let_def)
        then show ?thesis using pass_step_trans [OF first pass_step_refl [of "[]"]] by simp
      next
        case fin: (Inr u')
        obtain q' where "recover_entries env ms v = (q', w')"
          using 2(3) Inr ok q fin by (auto simp: em_simps call_handler_def Let_def split: prod.splits sum.splits)
        from 2(2) [OF this] show ?thesis by (rule pass_step_trans [OF first]) auto
      qed
    qed
  qed
qed

lemma successes_snoc [simp]: "successes (cs @ [(t, r)]) = successes cs + (if r = Inr () then 1 else 0)"
  by (simp add: successes_def)

lemma entries_counts:
  "recover_entries env ms w = (Inr n, w') \<Longrightarrow>
     length (sw_acked w') = length (sw_acked w) + n \<and> length (sw_deleted w') = length (sw_deleted w) + n
     \<and> successes (sw_calls w') = successes (sw_calls w) + n \<and> length (sw_calls w') = length (sw_calls w) + length ms"
proof (induction env ms arbitrary: w n w' rule: recover_entries.induct)
  case (2 env i flds ms)
  then obtain task where task: "decode_task flds = Inr task" by (cases "decode_task flds") (auto simp: em_simps)
  let ?r = "wx_handler env (length (sw_calls w)) task" and ?v = "w\<lparr>sw_calls := sw_calls w @ [(task, wx_handler env (length (sw_calls w)) task)]\<rparr>"
  show ?case
  proof (cases ?r)
    case (Inl e)
    then have e: "wx_is_exception env e" "recover_entries env ms ?v = (Inr n, w')"
      using 2(3) task by (simp_all add: em_simps call_handler_def Let_def split: if_splits)
    from 2(1) [OF this] Inl show ?thesis by simp
  next
    case ok: (Inr u)
    with 2(3) task obtain v m where q: "finish_message env i ?v = (Inr (), v)" and m: "recover_entries env ms v = (Inr m, w')" "n = Suc m"
      by (auto simp: em_simps call_handler_def Let_def split: prod.splits sum.splits)
    from 2(2) [OF m(1)] finish_step [OF q] ok m(2) show ?thesis by auto
  qed
qed (simp add: em_simps)

text \<open>What the \<open>n\<close>-th answer hands over, and when it ends the pass.\<close>

definition claimed :: "stream_env \<Rightarrow> nat \<Rightarrow> stream_message list" where
  "claimed env n = (case wx_claim env n of Inl _ \<Rightarrow> [] | Inr reply \<Rightarrow> snd reply)"

definition claim_ends :: "py_exn + string \<times> stream_message list \<Rightarrow> bool" where
  "claim_ends answer \<longleftrightarrow> (case answer of Inl _ \<Rightarrow> True | Inr reply \<Rightarrow> pass_ends reply)"

definition claimed_between :: "stream_env \<Rightarrow> nat \<Rightarrow> nat \<Rightarrow> stream_message list" where
  "claimed_between env i j = concat (map (claimed env) [i..<Suc j])"

lemma recover_pass_ends:
  assumes "claim_ends (wx_claim env j)" and "i \<le> j"
  shows "\<exists>r w'. recover_pass env i p w = Some (r, w') \<and> pass_step (claimed_between env i j) w w' \<and>
    (\<forall>n. r = Inr n \<longrightarrow> p \<le> n \<and> length (sw_acked w') = length (sw_acked w) + (n - p) \<and> successes (sw_calls w') = successes (sw_calls w) + (n - p))"
  using assms(2)
proof (induction "j - i" arbitrary: i p w rule: less_induct)
  case less
  show ?case
  proof (cases "wx_claim env i")
    case (Inl e)
    then show ?thesis by (subst recover_pass.simps) (simp add: pass_step_refl)
  next
    case reply: (Inr reply)
    obtain q v where q: "recover_entries env (snd reply) w = (q, v)" by fastforce
    have here: "pass_step (snd reply) w v" using q by (rule entries_step)
    have "set (claimed env i) \<subseteq> set (claimed_between env i j)"
      using less.prems by (auto simp: claimed_between_def less_Suc_eq_le simp del: upt_Suc)
    then have within: "set (snd reply) \<subseteq> set (claimed_between env i j)" by (simp add: claimed_def reply)
    have now: "pass_step (claimed_between env i j) w v" using pass_step_trans [OF here pass_step_refl [of "[]"] within] by simp
    show ?thesis
    proof (cases q)
      case (Inl e)
      then show ?thesis using q now reply by (subst recover_pass.simps) simp
    next
      case (Inr m)
      note c = entries_counts [OF q [unfolded Inr]]
      show ?thesis
      proof (cases "pass_ends reply")
        case True
        then show ?thesis using q Inr now c reply by (subst recover_pass.simps) simp
      next
        case False
        then have "i \<noteq> j" using assms(1) reply by (auto simp: claim_ends_def)
        then have "j - Suc i < j - i" "Suc i \<le> j" using less.prems by auto
        from less.hyps [OF this, of "p + m" v] obtain r w' where
            r: "recover_pass env (Suc i) (p + m) v = Some (r, w')" and s: "pass_step (claimed_between env (Suc i) j) v w'"
          and n: "\<forall>n. r = Inr n \<longrightarrow> p + m \<le> n \<and> length (sw_acked w') = length (sw_acked v) + (n - (p + m))
                   \<and> successes (sw_calls w') = successes (sw_calls v) + (n - (p + m))" by blast
        have "recover_pass env i p w = Some (r, w')" using q Inr False r reply by (subst recover_pass.simps) simp
        moreover have "set (claimed_between env (Suc i) j) \<subseteq> set (claimed_between env i j)"
          unfolding claimed_between_def set_concat set_map set_upt by (intro Union_mono image_mono) auto
        then have "pass_step (claimed_between env i j) w w'" using pass_step_trans [OF here s within] by blast
        ultimately show ?thesis using n c by auto
      qed
    qed
  qed
qed

text \<open>
  C36. A recovery pass ends, and acknowledges what was handled, whatever commands fail and whatever the handler raises, a
  cancellation included. Once an answer of \<open>XAUTOCLAIM\<close> is empty or carries the cursor \<open>0-0\<close>, or the command fails, the
  pass has ended; each message it has acknowledged was claimed in the pass and its task was handled without an error, and
  only acknowledged messages are deleted. If the pass returns a number, that is the number of the messages acknowledged
  and of the calls of the handler that succeeded.
\<close>

theorem recovery_acknowledges_handled:
  assumes "claim_ends (wx_claim env j)"
  shows "\<exists>r w'. recover_once env w = Some (r, w') \<and> pass_step (claimed_between env 0 j) w w' \<and>
    (\<forall>n. r = Inr n \<longrightarrow> length (sw_acked w') = length (sw_acked w) + n \<and> successes (sw_calls w') = successes (sw_calls w) + n)"
  using recover_pass_ends [OF assms, of 0 0 w] by (simp add: recover_once_def)

definition demo_fields :: stream_fields where
  "demo_fields = [((True, ''task_context''), Raw_JSON (JsonText (PDict [])))]"

definition demo_stream :: stream_env where
  "demo_stream = \<lparr>wx_handler = (\<lambda>n task. if n = 0 then Inl (Exn RuntimeError ''busy'') else Inr ()), wx_outcome = (\<lambda>n. Done),
     wx_is_exception = (\<lambda>e. True),
     wx_claim = (\<lambda>n. Inr (if n = 0 then (''7-0'', [(''1-0'', demo_fields), (''2-0'', demo_fields)]) else (''0-0'', [(''7-0'', demo_fields)])))\<rparr>"

definition quiet_stream :: stream_world where
  "quiet_stream = \<lparr>sw_calls = [], sw_commands = 0, sw_acked = [], sw_deleted = []\<rparr>"

theorem recovery_acknowledges_handled_witness:
  "\<exists>w'. recover_once demo_stream quiet_stream = Some (Inr 2, w') \<and> sw_acked w' = [''2-0'', ''7-0''] \<and> successes (sw_calls w') = 2"
proof -
  have "claim_ends (wx_claim demo_stream 1)" by (simp add: claim_ends_def pass_ends_def demo_stream_def)
  from recovery_acknowledges_handled [OF this, of quiet_stream] obtain r w' where r: "recover_once demo_stream quiet_stream = Some (r, w')"
      "\<forall>n. r = Inr n \<longrightarrow> successes (sw_calls w') = successes (sw_calls quiet_stream) + n" by blast
  have "map_option (\<lambda>(r, w). (r, sw_acked w)) (recover_once demo_stream quiet_stream) = Some (Inr 2, [''2-0'', ''7-0''])"
    by code_simp
  with r show ?thesis by (simp add: quiet_stream_def successes_def)
qed

text \<open>
  A message that cannot be decoded ends the pass with an error, before the messages behind it are looked at; it stays
  pending, so the next pass ends there again.
\<close>

lemma malformed_message_blocks_recovery:
  assumes "decode_task flds = Inl e" and "wx_claim env 0 = Inr (cursor, (i, flds) # ms)"
  shows "recover_once env w = Some (Inl e, w)"
  using assms unfolding recover_once_def by (subst recover_pass.simps) (simp add: em_simps)

end
