(* ===== verification/Football_Origin.thy ===== *)
theory Football_Origin
  imports Binary64
begin

text \<open>
  \<^verbatim>\<open>ois/domains/football_intelligence/origin.py\<close> and \<^verbatim>\<open>lifecycle.py\<close>: team strength, expected goals, the probabilities of
  the three results, calibration, the chronological backtest, walk-forward evaluation, routing and the reports. A float
  is rational and arithmetic rounds to binary64; overflow, infinities and \<open>nan\<close> are not represented. The mathematical
  functions and the interpreter's compensated \<open>sum\<close> are arguments (\<open>mathlib\<close>); \<open>statistics.fmean\<close> sums exactly.
\<close>

record mathlib =
  mt_exp :: "rat \<Rightarrow> rat"
  mt_log :: "rat \<Rightarrow> rat"
  mt_pow :: "rat \<Rightarrow> rat \<Rightarrow> rat"
  mt_sum :: "rat list \<Rightarrow> rat"

section \<open>Records\<close>

record fixture =
  fx_fixture_id :: string
  fx_competition :: string
  fx_kickoff_at :: timestamp
  fx_home_team_id :: string
  fx_home_team :: string
  fx_away_team_id :: string
  fx_away_team :: string
  fx_home_goals :: "int option"
  fx_away_goals :: "int option"
  fx_home_xg :: "rat option"
  fx_away_xg :: "rat option"
  fx_status :: string
  fx_source_id :: string
  fx_observed_at :: timestamp

definition fx_completed :: "fixture \<Rightarrow> bool" where
  "fx_completed f \<longleftrightarrow> fx_home_goals f \<noteq> None \<and> fx_away_goals f \<noteq> None"

definition fx_outcome :: "fixture \<Rightarrow> string option" where
  "fx_outcome f =
     (case (fx_home_goals f, fx_away_goals f) of
        (Some h, Some a) \<Rightarrow> Some (if h > a then ''home'' else if h < a then ''away'' else ''draw'')
      | _ \<Rightarrow> None)"

record team_rating =
  tr_team_id :: string
  tr_elo :: rat
  tr_attack :: rat
  tr_defense :: rat
  tr_xg_for :: rat
  tr_xg_against :: rat
  tr_matches :: nat

record prediction =
  pd_fixture_id :: string
  pd_created_at :: timestamp
  pd_model_version :: string
  pd_home :: rat
  pd_draw :: rat
  pd_away :: rat
  pd_expected_home_goals :: rat
  pd_expected_away_goals :: rat
  pd_abstain :: bool

definition pd_probabilities :: "prediction \<Rightarrow> (string \<times> rat) list" where
  "pd_probabilities p = [(''home'', pd_home p), (''draw'', pd_draw p), (''away'', pd_away p)]"

record football_calibration =
  cr_count :: nat
  cr_brier :: rat
  cr_log_loss :: rat
  cr_accuracy :: rat
  cr_calibration_error :: rat
  cr_status :: string

record backtest_report =
  br_count :: nat
  br_brier :: rat
  br_log_loss :: rat
  br_accuracy :: rat
  br_roi :: "rat option"
  br_max_drawdown :: "rat option"
  br_status :: string

section \<open>Probabilities\<close>

definition normalize_weights :: "mathlib \<Rightarrow> rat list \<Rightarrow> rat list" where
  "normalize_weights mt values =
     (let xs = map (max 0) values; total = mt_sum mt xs
      in if total \<le> 0 then map (\<lambda>_. fl (1 / of_nat (length xs))) xs else map (\<lambda>x. fl (x / total)) xs)"

definition poisson :: "mathlib \<Rightarrow> nat \<Rightarrow> rat \<Rightarrow> rat" where
  "poisson mt k lam = fl (fl (mt_exp mt (- lam) * mt_pow mt lam (of_nat k)) / of_nat (fact k))"

definition add_score :: "mathlib \<Rightarrow> rat \<Rightarrow> rat \<Rightarrow> nat \<times> nat \<Rightarrow> rat \<times> rat \<times> rat \<Rightarrow> rat \<times> rat \<times> rat" where
  "add_score mt hxg axg = (\<lambda>(hg, ag) (h, d, a).
     let p = fl (poisson mt hg hxg * poisson mt ag axg)
     in if hg > ag then (fl (h + p), d, a) else if hg = ag then (h, fl (d + p), a) else (h, d, fl (a + p)))"

definition score_sums :: "mathlib \<Rightarrow> rat \<Rightarrow> rat \<Rightarrow> nat \<Rightarrow> rat \<times> rat \<times> rat" where
  "score_sums mt hxg axg max_goals =
     fold (add_score mt hxg axg) (List.product [0..<Suc max_goals] [0..<Suc max_goals]) (0, 0, 0)"

definition triple :: "rat list \<Rightarrow> rat \<times> rat \<times> rat" where
  "triple xs = (xs ! 0, xs ! 1, xs ! 2)"

definition poisson_1x2 :: "mathlib \<Rightarrow> rat \<Rightarrow> rat \<Rightarrow> rat \<times> rat \<times> rat" where
  "poisson_1x2 mt hxg axg =
     (case score_sums mt hxg axg 10 of (h, d, a) \<Rightarrow> triple (normalize_weights mt [h, d, a]))"

section \<open>Team strength\<close>

record strength =
  st_k :: rat
  st_home_advantage :: rat
  st_ratings :: "(string \<times> rat) list"
  st_goals_for :: "(string \<times> rat list) list"
  st_goals_against :: "(string \<times> rat list) list"
  st_xg_for :: "(string \<times> rat list) list"
  st_xg_against :: "(string \<times> rat list) list"
  st_matches :: "(string \<times> nat) list"

definition new_strength :: strength where
  "new_strength = \<lparr>st_k = 20, st_home_advantage = 55, st_ratings = [], st_goals_for = [], st_goals_against = [],
     st_xg_for = [], st_xg_against = [], st_matches = []\<rparr>"

definition rating :: "strength \<Rightarrow> string \<Rightarrow> rat" where
  "rating m t = (case map_of (st_ratings m) t of None \<Rightarrow> 1500 | Some r \<Rightarrow> r)"

definition expected_score :: "mathlib \<Rightarrow> strength \<Rightarrow> string \<Rightarrow> string \<Rightarrow> rat" where
  "expected_score mt m home away =
     fl (1 / fl (1 + mt_pow mt 10 (fl (- fl (fl (rating m home - rating m away) + st_home_advantage m) / 400))))"

text \<open>\<open>d.setdefault(k, []).append(x)\<close>.\<close>

definition push :: "string \<Rightarrow> rat \<Rightarrow> (string \<times> rat list) list \<Rightarrow> (string \<times> rat list) list" where
  "push k x d = AList.update k ((case map_of d k of None \<Rightarrow> [] | Some xs \<Rightarrow> xs) @ [x]) d"

definition bump :: "string \<Rightarrow> (string \<times> nat) list \<Rightarrow> (string \<times> nat) list" where
  "bump k d = AList.update k ((case map_of d k of None \<Rightarrow> 0 | Some n \<Rightarrow> n) + 1) d"

definition set_rating :: "string \<Rightarrow> rat \<Rightarrow> strength \<Rightarrow> strength" where
  "set_rating t r m = m\<lparr>st_ratings := AList.update t r (st_ratings m)\<rparr>"

definition record_goals :: "string \<Rightarrow> string \<Rightarrow> rat \<Rightarrow> rat \<Rightarrow> rat \<Rightarrow> rat \<Rightarrow> strength \<Rightarrow> strength" where
  "record_goals home away hg ag hx ax m =
     m\<lparr>st_goals_for := push away ag (push home hg (st_goals_for m)),
       st_goals_against := push away hg (push home ag (st_goals_against m)),
       st_xg_for := push away ax (push home hx (st_xg_for m)),
       st_xg_against := push away hx (push home ax (st_xg_against m)),
       st_matches := bump away (bump home (st_matches m))\<rparr>"

definition strength_update :: "mathlib \<Rightarrow> fixture \<Rightarrow> strength \<Rightarrow> strength" where
  "strength_update mt f m =
     (case (fx_home_goals f, fx_away_goals f) of
        (Some h, Some a) \<Rightarrow>
          (let home = fx_home_team_id f; away = fx_away_team_id f; hg = fl (of_int h); ag = fl (of_int a);
               actual = (if h > a then 1 else if h < a then 0 else 1 / 2);
               delta = fl (st_k m * fl (actual - expected_score mt m home away));
               m1 = set_rating home (fl (rating m home + delta)) m;
               m2 = set_rating away (fl (rating m1 away - delta)) m1
           in record_goals home away hg ag (case fx_home_xg f of None \<Rightarrow> hg | Some x \<Rightarrow> x)
                (case fx_away_xg f of None \<Rightarrow> ag | Some x \<Rightarrow> x) m2)
      | _ \<Rightarrow> m)"

definition fmean_exact :: "rat list \<Rightarrow> rat" where
  "fmean_exact xs = fl (fl (sum_list xs) / of_nat (length xs))"

definition lookup_or :: "('k \<times> 'v) list \<Rightarrow> 'k \<Rightarrow> 'v \<Rightarrow> 'v" where
  "lookup_or d k v = (case map_of d k of None \<Rightarrow> v | Some x \<Rightarrow> x)"

definition strength_snapshot :: "strength \<Rightarrow> string \<Rightarrow> team_rating" where
  "strength_snapshot m t =
     (let gf = lookup_or (st_goals_for m) t [fl (14 / 10)]; ga = lookup_or (st_goals_against m) t [fl (14 / 10)];
          xf = lookup_or (st_xg_for m) t gf; xa = lookup_or (st_xg_against m) t ga
      in \<lparr>tr_team_id = t, tr_elo = rating m t, tr_attack = fmean_exact gf, tr_defense = fmean_exact ga,
          tr_xg_for = fmean_exact xf, tr_xg_against = fmean_exact xa, tr_matches = lookup_or (st_matches m) t 0\<rparr>)"

definition mix_xg :: "rat \<Rightarrow> rat \<Rightarrow> rat" where
  "mix_xg for_xg against = max (fl (5 / 100)) (fl (fl (fl (55 / 100) * for_xg) + fl (fl (45 / 100) * against)))"

definition xg_predict :: "team_rating \<Rightarrow> team_rating \<Rightarrow> rat \<times> rat" where
  "xg_predict home away =
     (fl (mix_xg (tr_xg_for home) (tr_xg_against away) * fl (108 / 100)), mix_xg (tr_xg_for away) (tr_xg_against home))"

section \<open>Calibration\<close>

definition mk_calibrator :: "rat \<Rightarrow> rat" where
  "mk_calibrator temperature = max (fl (5 / 100)) temperature"

definition soften :: "mathlib \<Rightarrow> rat \<Rightarrow> rat list \<Rightarrow> rat list" where
  "soften mt t p = normalize_weights mt (map (\<lambda>x. mt_exp mt (fl (mt_log mt (max x (fl (1 / 10 ^ 12))) / t))) p)"

definition outcome_index :: "string \<Rightarrow> py_exn + nat" where
  "outcome_index s =
     (if s = ''home'' then Inr 0 else if s = ''draw'' then Inr 1 else if s = ''away'' then Inr 2
      else Inl (Exn ValueError ''tuple.index(x): x not in tuple''))"

fun total_loss :: "mathlib \<Rightarrow> rat \<Rightarrow> (rat list \<times> string) list \<Rightarrow> rat \<Rightarrow> py_exn + rat" where
  "total_loss mt t [] loss = Inr loss"
| "total_loss mt t ((p, outcome) # rest) loss =
     rbind (outcome_index outcome) (\<lambda>i.
       total_loss mt t rest (fl (loss - mt_log mt (max (soften mt t p ! i) (fl (1 / 10 ^ 15))))))"

text \<open>\<open>None\<close> is the initial loss, infinity.\<close>

definition temperature_at :: "nat \<Rightarrow> rat" where
  "temperature_at i = fl (of_nat i / 100)"

fun fit_loop :: "mathlib \<Rightarrow> (rat list \<times> string) list \<Rightarrow> nat list \<Rightarrow> rat \<times> rat option \<Rightarrow> py_exn + rat" where
  "fit_loop mt rows [] (t, loss) = Inr t"
| "fit_loop mt rows (i # is) (t, loss) =
     rbind (total_loss mt (temperature_at i) rows 0) (\<lambda>l.
       fit_loop mt rows is (if (case loss of None \<Rightarrow> True | Some b \<Rightarrow> l < b) then (temperature_at i, Some l) else (t, loss)))"

definition fit_grid :: "nat list" where
  "fit_grid = [5..<401]"

definition calibrator_fit :: "mathlib \<Rightarrow> rat list list \<Rightarrow> string list \<Rightarrow> py_exn + rat" where
  "calibrator_fit mt ps outcomes =
     (if length ps \<noteq> length outcomes \<or> ps = [] then Inl (Exn ValueError ''calibration data must be non-empty and aligned'')
      else fit_loop mt (zip ps outcomes) fit_grid (1, None))"

definition calibrator_transform :: "mathlib \<Rightarrow> rat \<Rightarrow> rat list \<Rightarrow> rat list" where
  "calibrator_transform mt temperature p = soften mt temperature p"

section \<open>The calibration report\<close>

definition probability_of :: "prediction \<Rightarrow> string \<Rightarrow> py_exn + rat" where
  "probability_of p outcome =
     (case map_of (pd_probabilities p) outcome of None \<Rightarrow> Inl (Exn KeyError outcome) | Some x \<Rightarrow> Inr x)"

definition brier_term :: "mathlib \<Rightarrow> prediction \<Rightarrow> string \<Rightarrow> rat" where
  "brier_term mt p outcome =
     mt_sum mt (map (\<lambda>(k, x). mt_pow mt (fl (x - (if k = outcome then 1 else 0))) 2) (pd_probabilities p))"

text \<open>\<open>max(probs, key=...)\<close> takes the first of the largest.\<close>

definition favourite :: "prediction \<Rightarrow> string" where
  "favourite p =
     (if pd_home p \<ge> pd_draw p \<and> pd_home p \<ge> pd_away p then ''home''
      else if pd_draw p \<ge> pd_away p then ''draw'' else ''away'')"

definition int_trunc :: "rat \<Rightarrow> int" where
  "int_trunc x = (if 0 \<le> x then \<lfloor>x\<rfloor> else \<lceil>x\<rceil>)"

definition bin_index :: "rat \<Rightarrow> py_exn + nat" where
  "bin_index p =
     (let i = min 9 (int_trunc (fl (p * 10)))
      in if 0 \<le> i then Inr (nat i) else if - 10 \<le> i then Inr (nat (10 + i)) else Inl (Exn (OtherException ''IndexError'') ''list index out of range''))"

record report_sums =
  rs_brier :: rat
  rs_logloss :: rat
  rs_correct :: rat
  rs_bins :: "rat list list"

definition report_step :: "mathlib \<Rightarrow> prediction \<Rightarrow> string \<Rightarrow> report_sums \<Rightarrow> py_exn + report_sums" where
  "report_step mt pred outcome s =
     rbind (probability_of pred outcome) (\<lambda>p.
     rbind (bin_index p) (\<lambda>b.
     Inr \<lparr>rs_brier = fl (rs_brier s + brier_term mt pred outcome),
          rs_logloss = fl (rs_logloss s - mt_log mt (max p (fl (1 / 10 ^ 15)))),
          rs_correct = fl (rs_correct s + (if favourite pred = outcome then 1 else 0)),
          rs_bins = (rs_bins s)[b := rs_bins s ! b @ [if p = 1 then 1 else 0]]\<rparr>))"

fun report_loop :: "mathlib \<Rightarrow> (prediction \<times> string) list \<Rightarrow> report_sums \<Rightarrow> py_exn + report_sums" where
  "report_loop mt [] s = Inr s"
| "report_loop mt ((p, out) # rest) s = rbind (report_step mt p out s) (report_loop mt rest)"

definition bucket_error :: "nat \<Rightarrow> rat list \<Rightarrow> rat \<Rightarrow> rat" where
  "bucket_error n bucket ece =
     (if bucket = [] then ece
      else fl (ece + fl (fl (of_nat (length bucket) / of_nat n) * \<bar>fl (fmean_exact bucket - 1 / 2)\<bar>)))"

definition calibration_report :: "mathlib \<Rightarrow> prediction list \<Rightarrow> string list \<Rightarrow> py_exn + football_calibration" where
  "calibration_report mt preds outcomes =
     (if length preds \<noteq> length outcomes then Inl (Exn ValueError ''predictions and outcomes must be aligned'')
      else if preds = [] then Inr \<lparr>cr_count = 0, cr_brier = 0, cr_log_loss = 0, cr_accuracy = 0, cr_calibration_error = 0, cr_status = ''INSUFFICIENT_DATA''\<rparr>
      else rbind (report_loop mt (zip preds outcomes) \<lparr>rs_brier = 0, rs_logloss = 0, rs_correct = 0, rs_bins = replicate 10 []\<rparr>) (\<lambda>s.
        let n = length preds
        in Inr \<lparr>cr_count = n, cr_brier = fl (rs_brier s / of_nat n), cr_log_loss = fl (rs_logloss s / of_nat n),
                cr_accuracy = fl (rs_correct s / of_nat n), cr_calibration_error = fold (bucket_error n) (rs_bins s) 0, cr_status = ''EVALUATED''\<rparr>))"

section \<open>Markets\<close>

definition no_vig_probabilities :: "mathlib \<Rightarrow> rat option list \<Rightarrow> rat list option" where
  "no_vig_probabilities mt odds =
     (if list_ex (\<lambda>x. case x of None \<Rightarrow> True | Some o1 \<Rightarrow> o1 \<le> 1) odds then None
      else Some (normalize_weights mt (map (\<lambda>x. fl (1 / the x)) odds)))"

definition market_edge :: "mathlib \<Rightarrow> rat list \<Rightarrow> rat option list \<Rightarrow> (string \<times> rat) list" where
  "market_edge mt model odds =
     (case no_vig_probabilities mt odds of
        None \<Rightarrow> []
      | Some fair \<Rightarrow> map (\<lambda>(k, i). (k, fl (model ! i - fair ! i))) (zip [''home'', ''draw'', ''away''] [0..<3]))"

section \<open>Backtests\<close>

text \<open>\<open>now n\<close> is the clock at the \<open>n\<close>-th prediction of a run.\<close>

definition xg_version :: string where
  "xg_version = ''football.xg.baseline.v1''"

definition predict_fixture :: "mathlib \<Rightarrow> timestamp \<Rightarrow> strength \<Rightarrow> fixture \<Rightarrow> prediction" where
  "predict_fixture mt created m f =
     (case xg_predict (strength_snapshot m (fx_home_team_id f)) (strength_snapshot m (fx_away_team_id f)) of
        (hxg, axg) \<Rightarrow> (case poisson_1x2 mt hxg axg of
          (h, d, a) \<Rightarrow> \<lparr>pd_fixture_id = fx_fixture_id f, pd_created_at = created, pd_model_version = xg_version, pd_home = h, pd_draw = d,
                       pd_away = a, pd_expected_home_goals = hxg, pd_expected_away_goals = axg, pd_abstain = False\<rparr>))"

definition chronological :: "fixture list \<Rightarrow> fixture list" where
  "chronological fs = sort_key fx_kickoff_at (filter fx_completed fs)"

definition outcome_text :: "fixture \<Rightarrow> string" where
  "outcome_text f = (case fx_outcome f of None \<Rightarrow> [] | Some s \<Rightarrow> s)"

fun backtest_loop :: "mathlib \<Rightarrow> (nat \<Rightarrow> timestamp) \<Rightarrow> fixture list \<Rightarrow> nat \<Rightarrow> strength \<Rightarrow> (prediction \<times> string) list \<times> strength" where
  "backtest_loop mt now [] n m = ([], m)"
| "backtest_loop mt now (f # fs) n m =
     (case backtest_loop mt now fs (Suc n) (strength_update mt f m) of
        (rows, m') \<Rightarrow> ((predict_fixture mt (now n) m f, outcome_text f) # rows, m'))"

definition report_of :: "string option \<Rightarrow> football_calibration \<Rightarrow> backtest_report" where
  "report_of status r =
     \<lparr>br_count = cr_count r, br_brier = cr_brier r, br_log_loss = cr_log_loss r, br_accuracy = cr_accuracy r, br_roi = None,
      br_max_drawdown = None, br_status = (case status of None \<Rightarrow> cr_status r | Some s \<Rightarrow> s)\<rparr>"

definition backtest_run :: "mathlib \<Rightarrow> (nat \<Rightarrow> timestamp) \<Rightarrow> fixture list \<Rightarrow> strength \<Rightarrow> (py_exn + backtest_report) \<times> strength" where
  "backtest_run mt now fs m =
     (case backtest_loop mt now (chronological fs) 0 m of
        (rows, m') \<Rightarrow> (rbind (calibration_report mt (map fst rows) (map snd rows)) (\<lambda>r. Inr (report_of None r)), m'))"

fun walk_loop :: "mathlib \<Rightarrow> (nat \<Rightarrow> timestamp) \<Rightarrow> int \<Rightarrow> fixture list \<Rightarrow> int \<Rightarrow> nat \<Rightarrow> strength \<Rightarrow> (prediction \<times> string) list" where
  "walk_loop mt now min_train [] index n m = []"
| "walk_loop mt now min_train (f # fs) index n m =
     (if index < min_train then walk_loop mt now min_train fs (index + 1) n (strength_update mt f m)
      else (predict_fixture mt (now n) m f, outcome_text f) # walk_loop mt now min_train fs (index + 1) (Suc n) (strength_update mt f m))"

definition walk_forward :: "mathlib \<Rightarrow> (nat \<Rightarrow> timestamp) \<Rightarrow> fixture list \<Rightarrow> int \<Rightarrow> py_exn + backtest_report" where
  "walk_forward mt now fs min_train =
     (let ordered = chronological fs
      in if int (length ordered) \<le> min_train
         then Inr \<lparr>br_count = 0, br_brier = 0, br_log_loss = 0, br_accuracy = 0, br_roi = None, br_max_drawdown = None, br_status = ''INSUFFICIENT_DATA''\<rparr>
         else (let rows = walk_loop mt now min_train ordered 0 0 new_strength
               in rbind (calibration_report mt (map fst rows) (map snd rows)) (\<lambda>r. Inr (report_of (Some ''WALK_FORWARD_EVALUATED'') r))))"

section \<open>Evidence, routing and reports\<close>

text \<open>\<open>spell\<close> is the text of \<open>json.dumps(..., sort_keys=True, default=str)\<close>, \<open>sha\<close> the hexadecimal SHA-256 of a text.\<close>

record football_env =
  fv_math :: mathlib
  fv_now :: "nat \<Rightarrow> timestamp"
  fv_sha :: "string \<Rightarrow> string"
  fv_spell :: "json_text \<Rightarrow> string"
  fv_repr :: "pyval \<Rightarrow> string"

record football_event =
  fe_event_id :: string
  fe_event_type :: string
  fe_observed_at :: timestamp
  fe_source_id :: string
  fe_payload_hash :: string
  fe_payload :: pydict

definition football_evidence_event :: "football_env \<Rightarrow> nat \<Rightarrow> string \<Rightarrow> string \<Rightarrow> pydict \<Rightarrow> football_event" where
  "football_evidence_event env n event_type source payload =
     (let digest = fv_sha env (fv_spell env (json_dumps (PDict payload)));
          event_id = take 32 (fv_sha env (event_type @ ''|'' @ source @ ''|'' @ digest))
      in \<lparr>fe_event_id = event_id, fe_event_type = event_type, fe_observed_at = fv_now env n, fe_source_id = source,
          fe_payload_hash = digest, fe_payload = payload\<rparr>)"

record route_decision =
  rd_action :: string
  rd_reason :: string
  rd_capability :: string
  rd_evidence_required :: bool

definition lower_char :: "char \<Rightarrow> char" where
  "lower_char c = (let n = (of_char c :: nat) in if 65 \<le> n \<and> n \<le> 90 then char_of (n + 32) else c)"

definition mentions :: "string \<Rightarrow> string \<Rightarrow> bool" where
  "mentions word text \<longleftrightarrow> list_ex (\<lambda>n. take (length word) (drop n text) = word) [0..<Suc (length text)]"

text \<open>\<open>FootballSupervisor.route\<close>; \<open>lower\<close> of ASCII letters.\<close>

definition football_route :: "string \<Rightarrow> bool \<Rightarrow> route_decision" where
  "football_route intent validated =
     (let text = map lower_char intent;
          decision = (\<lambda>act reason capability. \<lparr>rd_action = act, rd_reason = reason, rd_capability = capability, rd_evidence_required = True\<rparr>)
      in if mentions ''live'' text then decision ''route'' ''live intelligence requested'' ''football.live_update''
         else if mentions ''backtest'' text \<or> mentions ''walk-forward'' text then decision ''route'' ''evaluation requested'' ''football.backtest''
         else if mentions ''odds'' text \<or> mentions ''market'' text then decision ''route'' ''market intelligence requested'' ''football.market''
         else if mentions ''predict'' text \<or> mentions ''forecast'' text
         then (if \<not> validated then decision ''abstain'' ''prediction path requires validation gate'' ''football.predict_1x2''
               else decision ''route'' ''prediction requested'' ''football.predict_1x2'')
         else decision ''research'' ''unclassified football intent'' ''football.research'')"

record dashboard =
  ds_generated_at :: timestamp
  ds_fixtures :: nat
  ds_live :: nat
  ds_predictions :: nat
  ds_evaluated :: int
  ds_model_version :: string
  ds_validation_status :: string

definition dashboard_snapshot :: "timestamp \<Rightarrow> fixture list \<Rightarrow> prediction list \<Rightarrow> int \<Rightarrow> string \<Rightarrow> string \<Rightarrow> dashboard" where
  "dashboard_snapshot now rows preds evaluated version status =
     \<lparr>ds_generated_at = now, ds_fixtures = length rows, ds_live = length (filter (\<lambda>f. fx_status f \<in> {''live'', ''inplay''}) rows),
      ds_predictions = length preds, ds_evaluated = evaluated, ds_model_version = version, ds_validation_status = status\<rparr>"

record evolution_proposal =
  ep_proposal_id :: string
  ep_current_version :: string
  ep_candidate_version :: string
  ep_evidence :: pydict
  ep_requires_approval :: bool
  ep_reversible :: bool

definition propose_evolution :: "football_env \<Rightarrow> string \<Rightarrow> string \<Rightarrow> backtest_report \<Rightarrow> backtest_report \<Rightarrow> evolution_proposal" where
  "propose_evolution env current candidate_version baseline candidate =
     (let evidence = [(''baseline_brier'', PFloat (br_brier baseline)), (''candidate_brier'', PFloat (br_brier candidate)),
            (''brier_delta'', PFloat (fl (br_brier baseline - br_brier candidate))),
            (''baseline_accuracy'', PFloat (br_accuracy baseline)), (''candidate_accuracy'', PFloat (br_accuracy candidate))]
      in \<lparr>ep_proposal_id = take 32 (fv_sha env (current @ ''|'' @ candidate_version @ ''|'' @ fv_repr env (PDict evidence))),
          ep_current_version = current, ep_candidate_version = candidate_version, ep_evidence = evidence,
          ep_requires_approval = True, ep_reversible = True\<rparr>)"

section \<open>The lifecycle\<close>

record run_result =
  rr_status :: string
  rr_stage :: string
  rr_predictions :: "prediction list"
  rr_evidence_ids :: "string list"
  rr_metrics :: "(string \<times> rat) list option"

definition origin_version :: string where
  "origin_version = ''football-origin-v1''"

text \<open>The lifecycle has its own \<open>_poisson_1x2\<close>, which divides by the sum whatever it is.\<close>

definition lifecycle_1x2 :: "mathlib \<Rightarrow> rat \<Rightarrow> rat \<Rightarrow> py_exn + rat \<times> rat \<times> rat" where
  "lifecycle_1x2 mt hxg axg =
     (case score_sums mt hxg axg 10 of
        (h, d, a) \<Rightarrow> (let total = mt_sum mt [h, d, a]
          in if total = 0 then Inl (Exn (OtherException ''ZeroDivisionError'') ''float division by zero'')
             else Inr (fl (h / total), fl (d / total), fl (a / total))))"

definition lifecycle_predict :: "mathlib \<Rightarrow> timestamp \<Rightarrow> strength \<Rightarrow> fixture \<Rightarrow> py_exn + prediction" where
  "lifecycle_predict mt created m f =
     (case xg_predict (strength_snapshot m (fx_home_team_id f)) (strength_snapshot m (fx_away_team_id f)) of
        (hxg, axg) \<Rightarrow> rbind (lifecycle_1x2 mt hxg axg) (\<lambda>(h, d, a).
          Inr \<lparr>pd_fixture_id = fx_fixture_id f, pd_created_at = created, pd_model_version = origin_version, pd_home = h, pd_draw = d,
               pd_away = a, pd_expected_home_goals = hxg, pd_expected_away_goals = axg, pd_abstain = False\<rparr>))"

definition prediction_event :: "football_env \<Rightarrow> nat \<Rightarrow> fixture \<Rightarrow> football_event" where
  "prediction_event env n f =
     football_evidence_event env n ''football.prediction'' ''ois.football''
       [(''fixture_id'', PStr (fx_fixture_id f)), (''model_version'', PStr origin_version)]"

fun build_loop :: "football_env \<Rightarrow> fixture list \<Rightarrow> nat \<Rightarrow> strength \<Rightarrow> py_exn + (prediction \<times> string) list" where
  "build_loop env [] n m = Inr []"
| "build_loop env (f # fs) n m =
     rbind (lifecycle_predict (fv_math env) (fv_now env n) m f) (\<lambda>p.
     rbind (build_loop env fs (n + 2) (if fx_completed f then strength_update (fv_math env) f m else m)) (\<lambda>rows.
     Inr ((p, fe_event_id (prediction_event env (Suc n) f)) # rows)))"

definition build_predictions :: "football_env \<Rightarrow> fixture list \<Rightarrow> py_exn + run_result" where
  "build_predictions env fs =
     rbind (build_loop env (sort_key fx_kickoff_at fs) 0 new_strength) (\<lambda>rows.
     Inr \<lparr>rr_status = ''COMPUTED'', rr_stage = ''F3-F5'', rr_predictions = map fst rows, rr_evidence_ids = map snd rows, rr_metrics = None\<rparr>)"

fun evaluate_loop :: "mathlib \<Rightarrow> (prediction \<times> string) list \<Rightarrow> rat \<times> rat \<times> rat \<Rightarrow> py_exn + rat \<times> rat \<times> rat" where
  "evaluate_loop mt [] s = Inr s"
| "evaluate_loop mt ((p, outcome) # rest) (brier, logloss, correct) =
     rbind (probability_of p outcome) (\<lambda>x.
       evaluate_loop mt rest (fl (brier + brier_term mt p outcome), fl (logloss - mt_log mt (max x (fl (1 / 10 ^ 15)))),
         fl (correct + (if favourite p = outcome then 1 else 0))))"

definition origin_evaluate :: "football_env \<Rightarrow> nat \<Rightarrow> prediction list \<Rightarrow> string list \<Rightarrow> py_exn + run_result" where
  "origin_evaluate env tick preds outcomes =
     (if length preds \<noteq> length outcomes then Inl (Exn ValueError ''predictions and outcomes must be aligned'')
      else if preds = [] then Inr \<lparr>rr_status = ''INSUFFICIENT_DATA'', rr_stage = ''F7-F8'', rr_predictions = [], rr_evidence_ids = [], rr_metrics = None\<rparr>
      else rbind (evaluate_loop (fv_math env) (zip preds outcomes) (0, 0, 0)) (\<lambda>(brier, logloss, correct).
        let n = of_nat (length preds);
            metrics = [(''count'', fl n), (''brier'', fl (brier / n)), (''log_loss'', fl (logloss / n)), (''accuracy'', fl (correct / n))];
            event = football_evidence_event env tick ''football.evaluation'' ''ois.football'' (map (map_prod id PFloat) metrics)
        in Inr \<lparr>rr_status = ''EVALUATED'', rr_stage = ''F7-F9'', rr_predictions = [], rr_evidence_ids = [fe_event_id event], rr_metrics = Some metrics\<rparr>))"

definition origin_calibrate :: "football_env \<Rightarrow> nat \<Rightarrow> prediction list \<Rightarrow> string list \<Rightarrow> py_exn + rat \<times> run_result" where
  "origin_calibrate env tick preds outcomes =
     (if length preds \<noteq> length outcomes \<or> preds = []
      then Inr (mk_calibrator 1, \<lparr>rr_status = ''INSUFFICIENT_DATA'', rr_stage = ''F5'', rr_predictions = [], rr_evidence_ids = [], rr_metrics = None\<rparr>)
      else rbind (calibrator_fit (fv_math env) (map (\<lambda>p. [pd_home p, pd_draw p, pd_away p]) preds) outcomes) (\<lambda>t.
        let event = football_evidence_event env tick ''football.calibration'' ''ois.football''
              [(''temperature'', PFloat t), (''count'', PInt (int (length preds)))]
        in Inr (t, \<lparr>rr_status = ''CALIBRATED'', rr_stage = ''F5-F9'', rr_predictions = [], rr_evidence_ids = [fe_event_id event],
                   rr_metrics = Some [(''temperature'', t)]\<rparr>)))"

end
