(* ===== verification/Origin_Properties.thy ===== *)
theory Origin_Properties
  imports Football_Origin "HOL-Library.Sublist"
begin

text \<open>
  Football forecasts: the past is predicted without the future. A backtest predicts a fixture from the fixtures before
  it, and walk-forward evaluation is the backtest without its training window; the fitted temperature is the best of the
  grid. And what the forecasts leave unused, and the calibration error that does not measure calibration.
\<close>

section \<open>Chronology\<close>

definition known_before :: "timestamp \<Rightarrow> fixture \<Rightarrow> bool" where
  "known_before t f \<longleftrightarrow> fx_completed f \<and> fx_kickoff_at f < t"

lemma sorted_filter_prefix:
  "sorted (map key xs) \<Longrightarrow> filter (\<lambda>x. key x < t) xs = take (length (filter (\<lambda>x. key x < t) xs)) xs"
proof (induction xs)
  case (Cons a xs)
  show ?case
  proof (cases "key a < t")
    case False
    then have "filter (\<lambda>x. key x < t) (a # xs) = []" using Cons.prems by (auto simp: filter_empty_conv)
    then show ?thesis by simp
  qed (use Cons in simp)
qed simp

lemma chronological_prefix:
  "take (length (filter (known_before t) fs)) (chronological fs) = sort_key fx_kickoff_at (filter (known_before t) fs)"
proof -
  have f: "filter (\<lambda>f. fx_kickoff_at f < t) (chronological fs) = sort_key fx_kickoff_at (filter (known_before t) fs)"
    by (simp add: chronological_def filter_sort known_before_def [abs_def])
  have "sorted (map fx_kickoff_at (chronological fs))" by (simp add: chronological_def)
  from sorted_filter_prefix [OF this, of t] show ?thesis by (simp add: f)
qed

section \<open>Backtests\<close>

definition backtest_rows :: "mathlib \<Rightarrow> (nat \<Rightarrow> timestamp) \<Rightarrow> fixture list \<Rightarrow> strength \<Rightarrow> (prediction \<times> string) list" where
  "backtest_rows mt now fs m = fst (backtest_loop mt now fs 0 m)"

lemma backtest_Cons:
  "fst (backtest_loop mt now (f # fs) n m) =
     (predict_fixture mt (now n) m f, outcome_text f) # fst (backtest_loop mt now fs (Suc n) (strength_update mt f m))"
  by (simp split: prod.splits)

lemma backtest_loop_append:
  "fst (backtest_loop mt now (xs @ ys) n m) =
     fst (backtest_loop mt now xs n m) @ fst (backtest_loop mt now ys (n + length xs) (fold (strength_update mt) xs m))"
  by (induction xs arbitrary: n m) (simp_all add: backtest_Cons del: backtest_loop.simps(2))

lemma backtest_loop_length [simp]: "length (fst (backtest_loop mt now fs n m)) = length fs"
  by (induction fs arbitrary: n m) (simp_all add: backtest_Cons del: backtest_loop.simps(2))

lemma backtest_take: "take k (fst (backtest_loop mt now fs n m)) = fst (backtest_loop mt now (take k fs) n m)"
  using backtest_loop_append [of mt now "take k fs" "drop k fs" n m] by (simp add: min_def)

text \<open>What a forecast looks at of its fixture.\<close>

definition same_match :: "fixture \<Rightarrow> fixture \<Rightarrow> bool" where
  "same_match f g \<longleftrightarrow> fx_fixture_id f = fx_fixture_id g \<and> fx_home_team_id f = fx_home_team_id g \<and> fx_away_team_id f = fx_away_team_id g"

lemma predict_same_match: "same_match f g \<Longrightarrow> predict_fixture mt c m f = predict_fixture mt c m g"
  by (simp add: same_match_def predict_fixture_def)

text \<open>
  C37. The backtest is free of leakage. If two collections of fixtures agree on the fixtures completed that kicked off before
  a time, then the predictions made for those fixtures are the same, whatever the later results are; and the prediction of
  a fixture is the same for every result of that fixture and of all that come after it.
\<close>

theorem backtest_is_leakage_free:
  assumes "filter (known_before t) fs = filter (known_before t) fs'"
  shows "take (length (filter (known_before t) fs)) (backtest_rows mt now (chronological fs) m)
       = take (length (filter (known_before t) fs)) (backtest_rows mt now (chronological fs') m)
     \<and> (chronological fs = xs @ f # ys \<and> chronological fs' = xs @ f' # ys' \<and> same_match f f' \<longrightarrow>
         fst (backtest_rows mt now (chronological fs) m ! length xs) = fst (backtest_rows mt now (chronological fs') m ! length xs))"
proof (intro conjI impI)
  show "take (length (filter (known_before t) fs)) (backtest_rows mt now (chronological fs) m)
       = take (length (filter (known_before t) fs)) (backtest_rows mt now (chronological fs') m)"
    using assms by (simp add: backtest_rows_def backtest_take chronological_prefix) (metis chronological_prefix)
  assume h: "chronological fs = xs @ f # ys \<and> chronological fs' = xs @ f' # ys' \<and> same_match f f'"
  have "fst (backtest_rows mt now (xs @ g # zs) m ! length xs) = predict_fixture mt (now (length xs)) (fold (strength_update mt) xs m) g" for g zs
    by (simp add: backtest_rows_def backtest_loop_append backtest_Cons nth_append del: backtest_loop.simps(2))
  then show "fst (backtest_rows mt now (chronological fs) m ! length xs) = fst (backtest_rows mt now (chronological fs') m ! length xs)"
    using h predict_same_match by simp
qed

definition demo_fixture :: "timestamp \<Rightarrow> int \<Rightarrow> int \<Rightarrow> fixture" where
  "demo_fixture t h a = \<lparr>fx_fixture_id = ''f'', fx_competition = ''c'', fx_kickoff_at = t, fx_home_team_id = ''x'', fx_home_team = ''X'',
     fx_away_team_id = ''y'', fx_away_team = ''Y'', fx_home_goals = Some h, fx_away_goals = Some a, fx_home_xg = None, fx_away_xg = None,
     fx_status = ''finished'', fx_source_id = ''s'', fx_observed_at = t\<rparr>"

lemma demo_chronological: "s < t \<Longrightarrow> chronological [demo_fixture t h a, demo_fixture s h' a'] = [demo_fixture s h' a', demo_fixture t h a]"
  by (simp add: chronological_def fx_completed_def demo_fixture_def)

definition toy_math :: mathlib where
  "toy_math = \<lparr>mt_exp = (\<lambda>x. 1), mt_log = (\<lambda>x. 0), mt_pow = (\<lambda>x y. 1), mt_sum = sum_list\<rparr>"

theorem backtest_is_leakage_free_witness:
  "fst (backtest_rows toy_math (\<lambda>n. 0) (chronological [demo_fixture 9 0 3, demo_fixture 1 2 0]) new_strength ! 1)
     = fst (backtest_rows toy_math (\<lambda>n. 0) (chronological [demo_fixture 9 7 0, demo_fixture 1 2 0]) new_strength ! 1)"
  using backtest_is_leakage_free [of 5 "[demo_fixture 9 0 3, demo_fixture 1 2 0]" "[demo_fixture 9 7 0, demo_fixture 1 2 0]" toy_math "\<lambda>n. 0" new_strength
      "[demo_fixture 1 2 0]" "demo_fixture 9 0 3" "[]" "demo_fixture 9 7 0" "[]"]
  by (simp add: demo_chronological known_before_def) (simp add: demo_fixture_def same_match_def)

section \<open>Walk-forward evaluation\<close>

definition undated :: "prediction \<times> string \<Rightarrow> prediction \<times> string" where
  "undated = map_prod (\<lambda>p. p\<lparr>pd_created_at := 0\<rparr>) id"

lemma undated_predict: "undated (predict_fixture mt c m f, s) = undated (predict_fixture mt c' m f, s)"
  by (simp add: undated_def predict_fixture_def split: prod.splits)

lemma undated_rows_clock:
  "map undated (fst (backtest_loop mt now fs n m)) = map undated (fst (backtest_loop mt now fs k m))"
  by (induction fs arbitrary: n k m) (auto simp add: backtest_Cons simp del: backtest_loop.simps(2) intro: undated_predict)

lemma walk_after_training:
  "min_train \<le> i \<Longrightarrow> map undated (walk_loop mt now min_train fs i n m) = map undated (fst (backtest_loop mt now fs n m))"
  by (induction fs arbitrary: i n m) (simp_all add: backtest_Cons del: backtest_loop.simps(2))

lemma walk_drops_training:
  "i \<le> min_train \<Longrightarrow>
     map undated (walk_loop mt now min_train fs i n m) = drop (nat (min_train - i)) (map undated (fst (backtest_loop mt now fs k m)))"
proof (induction fs arbitrary: i n m k)
  case (Cons f fs)
  show ?case
  proof (cases "i < min_train")
    case True
    then have "nat (min_train - i) = Suc (nat (min_train - (i + 1)))" by simp
    then show ?thesis using True Cons.IH [of "i + 1" n "strength_update mt f m" "Suc k"] by (simp add: backtest_Cons del: backtest_loop.simps(2))
  next
    case False
    then have "i = min_train" using Cons.prems by simp
    then show ?thesis using walk_after_training [of min_train i mt now "f # fs" n m] undated_rows_clock [of mt now "f # fs" n m k] by simp
  qed
qed simp

text \<open>
  Walk-forward evaluation is the backtest without its training window: with a training window that is not negative, the
  forecasts that are evaluated are those the backtest of a fresh model makes, less the first ones, up to their date.
\<close>

theorem walk_forward_is_backtest_tail:
  assumes "0 \<le> min_train"
  shows "map undated (walk_loop mt now min_train (chronological fs) 0 0 new_strength)
       = drop (nat min_train) (map undated (backtest_rows mt now (chronological fs) new_strength))"
  using walk_drops_training [of 0 min_train mt now "chronological fs" 0 new_strength 0] assms by (simp add: backtest_rows_def)

theorem walk_forward_is_backtest_tail_witness:
  "length (walk_loop toy_math (\<lambda>n. 0) 1 (chronological [demo_fixture 9 0 3, demo_fixture 1 2 0]) 0 0 new_strength) = 1"
proof -
  have "map undated (walk_loop toy_math (\<lambda>n. 0) 1 (chronological [demo_fixture 9 0 3, demo_fixture 1 2 0]) 0 0 new_strength)
      = drop (nat 1) (map undated (backtest_rows toy_math (\<lambda>n. 0) (chronological [demo_fixture 9 0 3, demo_fixture 1 2 0]) new_strength))"
    by (rule walk_forward_is_backtest_tail) simp
  from arg_cong [OF this, of length] show ?thesis by (simp add: demo_chronological backtest_rows_def)
qed

section \<open>The fitted temperature\<close>

lemma total_loss_total:
  "\<forall>(p, s) \<in> set rows. s \<in> {''home'', ''draw'', ''away''} \<Longrightarrow> \<exists>l. total_loss mt t rows loss = Inr l"
  by (induction mt t rows loss rule: total_loss.induct) (auto simp: outcome_index_def)

lemma fit_loop_total:
  assumes "\<forall>(p, s) \<in> set rows. s \<in> {''home'', ''draw'', ''away''}"
  shows "\<exists>t. fit_loop mt rows is s = Inr t"
proof (induction "is" arbitrary: s)
  case (Cons i "is")
  obtain l where "total_loss mt (temperature_at i) rows 0 = Inr l" using total_loss_total [OF assms] by blast
  then show ?case using Cons by (cases s) simp
qed (metis fit_loop.simps(1) surj_pair)

lemma fit_loop_best:
  assumes "fit_loop mt rows is (t, loss) = Inr t'" and "\<And>b. loss = Some b \<Longrightarrow> total_loss mt t rows 0 = Inr b"
    and "is \<noteq> [] \<or> loss \<noteq> None"
  shows "\<exists>l. total_loss mt t' rows 0 = Inr l \<and> (loss \<noteq> None \<and> t' = t \<or> t' \<in> temperature_at ` set is) \<and> (\<forall>b. loss = Some b \<longrightarrow> l \<le> b) \<and>
     (\<forall>i\<in>set is. \<exists>l'. total_loss mt (temperature_at i) rows 0 = Inr l' \<and> l \<le> l')"
  using assms
proof (induction "is" arbitrary: t loss)
  case (Cons i "is")
  from Cons.prems(1) obtain k where k: "total_loss mt (temperature_at i) rows 0 = Inr k"
    by (cases "total_loss mt (temperature_at i) rows 0") auto
  show ?case
  proof (cases "case loss of None \<Rightarrow> True | Some b \<Rightarrow> k < b")
    case True
    then have "fit_loop mt rows is (temperature_at i, Some k) = Inr t'" using Cons.prems(1) k by simp
    then obtain l where l: "total_loss mt t' rows 0 = Inr l" "t' = temperature_at i \<or> t' \<in> temperature_at ` set is" "l \<le> k"
        "\<forall>i\<in>set is. \<exists>l'. total_loss mt (temperature_at i) rows 0 = Inr l' \<and> l \<le> l'"
      using Cons.IH [of "temperature_at i" "Some k"] k by auto
    moreover have "l \<le> b" if "loss = Some b" for b using True l(3) that by simp
    ultimately show ?thesis using k by auto
  next
    case False
    then obtain b where b: "loss = Some b" "b \<le> k" by (auto split: option.splits)
    then have "fit_loop mt rows is (t, loss) = Inr t'" using Cons.prems(1) k False by simp
    then obtain l where "total_loss mt t' rows 0 = Inr l" "t' = t \<or> t' \<in> temperature_at ` set is" "l \<le> b"
        "\<forall>i\<in>set is. \<exists>l'. total_loss mt (temperature_at i) rows 0 = Inr l' \<and> l \<le> l'"
      using Cons.IH [of t loss] Cons.prems(2) b by auto
    then show ?thesis using k b by auto
  qed
qed auto

text \<open>
  The calibrator is fitted to the data: on aligned data with known outcomes a fit returns, the temperature it returns is
  one of the grid from 0.05 to 4.00, and no temperature of the grid has a smaller loss on the data.
\<close>

theorem calibrator_fit_optimal:
  assumes "length ps = length outcomes" and "ps \<noteq> []" and "set outcomes \<subseteq> {''home'', ''draw'', ''away''}"
  shows "\<exists>t l. calibrator_fit mt ps outcomes = Inr t \<and> t \<in> temperature_at ` set fit_grid \<and> total_loss mt t (zip ps outcomes) 0 = Inr l \<and>
     (\<forall>i\<in>set fit_grid. \<exists>l'. total_loss mt (temperature_at i) (zip ps outcomes) 0 = Inr l' \<and> l \<le> l')"
proof -
  have "\<forall>(p, s) \<in> set (zip ps outcomes). s \<in> {''home'', ''draw'', ''away''}" using assms(3) by (auto dest: set_zip_rightD)
  from fit_loop_total [OF this, of mt fit_grid "(1, None)"]
  obtain t where t: "fit_loop mt (zip ps outcomes) fit_grid (1, None) = Inr t" ..
  have "calibrator_fit mt ps outcomes = Inr t" using t assms(1,2) by (simp add: calibrator_fit_def)
  moreover have "fit_grid \<noteq> []" by (simp only: fit_grid_def upt_eq_Nil_conv) simp
  ultimately show ?thesis using fit_loop_best [OF t] by simp blast
qed

theorem calibrator_fit_optimal_witness:
  "\<exists>t. calibrator_fit toy_math [[1/2, 1/4, 1/4]] [''home''] = Inr t \<and> t \<in> temperature_at ` set fit_grid"
  using calibrator_fit_optimal [of "[[1/2, 1/4, 1/4]]" "[''home'']" toy_math] by auto

section \<open>Where it falls short\<close>

text \<open>The Elo ratings, their step and the home advantage are kept up to date and never read by a forecast.\<close>

lemma ratings_are_unused:
  "predict_fixture mt c (m\<lparr>st_ratings := r, st_k := k, st_home_advantage := a\<rparr>) f = predict_fixture mt c m f"
  by (simp add: predict_fixture_def xg_predict_def strength_snapshot_def Let_def)

text \<open>
  The bins of the calibration error record whether the probability is exactly one, not whether the outcome was met: a single
  prediction that is not certain has the calibration error one half, be it good or bad.
\<close>

lemma fl_values: "fl 1 = 1" "fl (- (1 / 2)) = - (1 / 2)" "fl (1 / 2) = 1 / 2" "fl 0 = 0"
  by code_simp+

lemma bucket_error_cases:
  "bucket_error n [] e = e" "bucket_error 1 [0] 0 = 1 / 2"
  by (simp_all add: bucket_error_def fmean_exact_def fl_values)

lemma single_bucket_error: "b < 10 \<Longrightarrow> fold (bucket_error 1) ((replicate 10 [])[b := [0]]) 0 = 1 / 2"
proof -
  assume b: "b < 10"
  have empty: "fold (bucket_error 1) (replicate k []) e = e" for k e by (induction k) (simp_all add: bucket_error_cases)
  have "10 = b + Suc (9 - b)" using b by simp
  then have "replicate 10 ([] :: rat list) = replicate b [] @ [] # replicate (9 - b) []" by (metis replicate_Suc replicate_add)
  then have "(replicate 10 [])[b := [0]] = replicate b [] @ [0] # replicate (9 - b) ([] :: rat list)"
    by (simp add: list_update_append)
  then show ?thesis by (simp only: fold_append fold_simps comp_apply empty bucket_error_cases)
qed

lemma bin_index_bound: "bin_index p = Inr b \<Longrightarrow> b < 10"
  by (auto simp: bin_index_def Let_def min_def split: if_splits)

lemma calibration_error_is_constant:
  assumes "calibration_report mt [p] [s] = Inr r" and "probability_of p s \<noteq> Inr 1"
  shows "cr_calibration_error r = 1 / 2"
proof -
  obtain x b where x: "probability_of p s = Inr x" and b: "bin_index x = Inr b"
    and r: "cr_calibration_error r = fold (bucket_error 1) ((replicate 10 [])[b := replicate 10 [] ! b @ [if x = 1 then 1 else 0]]) 0"
    using assms(1) by (auto simp: calibration_report_def report_step_def rbind_Inr Let_def simp del: nth_replicate)
  then show ?thesis using assms(2) single_bucket_error [OF bin_index_bound [OF b]] bin_index_bound [OF b] by simp
qed

end
