(* ===== verification/Spec2Isabelle.thy ===== *)
theory Spec2Isabelle
  imports Orchestrator_Limits Kernel_Supervisor Outbox_Properties Postgres_Properties
    Governance_Properties Engine_Limits Engine_Concurrency Queue_Properties Production_Properties
    Resilience_Properties Evidence_Properties Gateway_Properties
    Worker_Properties Fabric_Properties Source_Fabric_Properties
    OAuth_Properties Services_Properties
    Integrated_Properties Football_Properties
    Kernel_Pipeline_Properties Redis_Properties Origin_Properties
begin

text \<open>
  A verification library for OIS (the Obsidian Intelligence System): its execution kernel, the durable
  stores under it, its governance layer, its autonomous execution engine, the gateway that takes in
  evidence from outside sources, and its worker and model runtimes.

  \<^bold>\<open>The program.\<close> The kernel (\<^verbatim>\<open>src/ois/kernel\<close>) runs \<^emph>\<open>capabilities\<close>. A call of \<open>ExecutionRuntime.execute\<close>
  resolves a capability in a registry, validates its input against the contract, asks the policy engine,
  consults the idempotency store, checkpoints, invokes the capability, validates the result, classifies
  failures and records evidence. The orchestrator runs plans of dependent tasks through the runtime, and
  the supervisor selects agents and guards a call. Under the kernel lie in-memory, SQLite and PostgreSQL
  stores, worker leases with epochs, and a transactional outbox. The governance package decides whether
  an agent may act, and whether a capability may be activated or promoted. The autonomy package turns
  source events into workflow runs, in memory (the loop and its operations) and durably (the engine).
  Sources are registered and switched on in the source registry; adapters, webhooks and the socket bring
  their records through the source fabric to the source gateway, which authenticates, limits and
  deduplicates them and commits evidence together with an outbox event. The evidence runtime decides
  what evidence admits an action. OAuth connections obtain and keep the credentials of sources. The worker
  backend, the model gateway, the agent runtime and the in-memory fabrics are what capabilities are built
  on. The request side of the control plane turns an intent into a plan and runs it under supervision, and
  the football domain forecasts matches and defines, settles and normalizes betting markets. The production
  kernel runs a workflow under a lease up to its approval, and Redis coordinates locks, recorded results,
  cancellation and the tasks of a stream.

  \<^bold>\<open>Conventions.\<close>
  \<^item> A Python value that crosses JSON is a \<open>pyval\<close>, a dict with string keys an association list in
    insertion order, an exception a value \<open>Exn class message\<close>. A JSON text is identified with the
    canonical value it denotes (\<open>json_text\<close>).
  \<^item> Stateful code is a computation \<open>'s \<Rightarrow> (py_exn + 'a) \<times> 's\<close>: the state survives a raise. Pure code that
    may raise returns \<open>py_exn + 'a\<close>. Database code is a function on tables; one transaction is one step,
    and a transaction that raises before its commit leaves the tables.
  \<^item> \<open>datetime.now\<close> and \<open>uuid4\<close> read an environment at a counter; the database's \<open>now()\<close> is a separate
    argument where the code uses both clocks. Times are microseconds.
  \<^item> What is not in the repository is an argument: the capabilities and callbacks, the hash and the ISO
    codec (\<open>codec\<close>), PostgreSQL's JSONB column and the driver's conversions (\<open>pg_env\<close>, \<open>durable_env\<close>).
    Properties that rely on them name what they rely on (\<open>codec_ok\<close>, \<open>jsonb_ok\<close>).
  \<^item> Loops that may not end (the retry loop and the plan loop of the orchestrator, a recovery pass over a stream) are
    \<open>partial_function (option)\<close>: not returning is \<open>None\<close>, and that they return is a theorem with the
    conditions under which they do. Every other loop is structural or has a termination proof; there is
    no fuel.

  \<^bold>\<open>The theories and the code they model.\<close>
  \<^item> \<open>OIS_Prelude\<close>: values, exceptions, computations, the locale \<open>step_order\<close> of preorders a computation is
    confined to, and labelled runs (\<open>run_of\<close>).
  \<^item> \<open>Kernel_Types\<close>, \<open>Kernel_State\<close>, \<open>Kernel_Contracts\<close>: \<^verbatim>\<open>types.py\<close>, \<^verbatim>\<open>tenant.py\<close>, \<^verbatim>\<open>state.py\<close>, \<^verbatim>\<open>contracts.py\<close>,
    \<^verbatim>\<open>cancellation.py\<close>. \<open>Registry_Core\<close>: \<^verbatim>\<open>registries/core.py\<close>. \<open>Kernel_Policy\<close>, \<open>Kernel_Validation\<close>,
    \<open>Kernel_Recovery\<close>: \<^verbatim>\<open>policy.py\<close>, \<^verbatim>\<open>validation.py\<close>, \<^verbatim>\<open>recovery.py\<close>.
  \<^item> \<open>Kernel_Stores\<close>, \<open>Kernel_Checkpoint\<close>: \<^verbatim>\<open>idempotency.py\<close>, \<^verbatim>\<open>evidence.py\<close>, \<^verbatim>\<open>checkpoint.py\<close>. Each kind of store
    is a locale (its operations and the laws the runtime relies on), interpreted on the in-memory, file
    and SQLite stores, and in \<open>Postgres_Store\<close> on the PostgreSQL ones.
  \<^item> \<open>Worker_Fencing\<close>: the lease store of \<^verbatim>\<open>infrastructure/postgres_fencing.py\<close>.
  \<^item> \<open>Kernel_Runtime\<close>, \<open>Kernel_Runtime_Laws\<close>, \<open>Runtime_Properties\<close>: \<^verbatim>\<open>runtime.py\<close>. The locale of a runtime over
    lawful stores carries the proofs about \<open>execute\<close> and \<open>complete\<close>; it is interpreted on the runtime with
    in-memory stores and on the one with SQLite stores.
  \<^item> \<open>Kernel_Planning\<close>, \<open>Kernel_Orchestrator\<close>, \<open>Kernel_Orchestrator_Laws\<close>, \<open>Orchestrator_Termination\<close>,
    \<open>Plan_Properties\<close>, \<open>Orchestrator_Limits\<close>: \<^verbatim>\<open>planning.py\<close>, \<^verbatim>\<open>planner.py\<close>, \<^verbatim>\<open>orchestrator.py\<close>.
    \<open>Kernel_Supervisor\<close>: \<^verbatim>\<open>supervisor.py\<close>.
  \<^item> \<open>Durable_Outbox\<close>, \<open>Outbox_Properties\<close>: \<^verbatim>\<open>side_effects.py\<close> of the kernel. \<open>Execution_Store\<close>:
    \<^verbatim>\<open>application/state.py\<close> and \<^verbatim>\<open>infrastructure/postgres_execution.py\<close>. \<open>Postgres_Store\<close>,
    \<open>Postgres_Properties\<close>: \<^verbatim>\<open>postgres.py\<close>, \<^verbatim>\<open>postgres_stores.py\<close> and the fenced store of
    \<^verbatim>\<open>postgres_fencing.py\<close>.
  \<^item> \<open>Governance_Engine\<close>, \<open>Governance_Properties\<close>: \<^verbatim>\<open>ois/governance\<close>.
  \<^item> \<open>Autonomy_Loop\<close>, \<open>Autonomy_Operations\<close>, \<open>Autonomy_Properties\<close>: \<^verbatim>\<open>events.py\<close>, \<^verbatim>\<open>workflows.py\<close>, \<^verbatim>\<open>policy.py\<close>,
    \<^verbatim>\<open>recovery.py\<close>, \<^verbatim>\<open>approvals.py\<close>, \<^verbatim>\<open>loops.py\<close>, \<^verbatim>\<open>operations.py\<close> of \<^verbatim>\<open>ois/autonomy\<close> and the source outbox
    (\<^verbatim>\<open>infrastructure/source_gateway/outbox.py\<close>). The contract of an approval store is a locale, interpreted
    on the in-memory store here and on the PostgreSQL one in \<open>Engine_Properties\<close>.
  \<^item> \<open>Autonomy_Durable\<close>, \<open>Autonomy_Engine\<close>, \<open>Engine_Properties\<close>, \<open>Engine_Limits\<close>: \<^verbatim>\<open>durable.py\<close>,
    \<^verbatim>\<open>durable_approvals.py\<close>, \<^verbatim>\<open>side_effects.py\<close>, \<^verbatim>\<open>recovery_store.py\<close>, \<^verbatim>\<open>engine.py\<close> of \<^verbatim>\<open>ois/autonomy\<close>.
    \<open>Engine_Concurrency\<close> has the methods of the engine again as programs of transactions, proved equal to them when run
    alone, and interleaves any number of them, the callback between two transactions included.
  \<^item> \<open>Production_Queue\<close>, \<open>Queue_Properties\<close>: the lease queue and worker of \<^verbatim>\<open>production/workers.py\<close>.
    \<open>Production_Control\<close>, \<open>Production_Properties\<close>: \<^verbatim>\<open>production/control_plane.py\<close>, \<^verbatim>\<open>evolution.py\<close>,
    \<^verbatim>\<open>semantic_world.py\<close> and the rollout of \<^verbatim>\<open>ois/control_plane/lifecycle.py\<close>; float division is rounded to
    binary64 (\<open>fl\<close>).
  \<^item> \<open>Resilience_Lease\<close>, \<open>Resilience_Transaction\<close>, \<open>Resilience_Properties\<close>: the Redis leases, the attested evidence
    chain, the dead letters and \<open>execute_fenced_transaction\<close> of \<^verbatim>\<open>kernel/production_resilience.py\<close>. A Lua script is
    one step; the retry loop is a total function by the measure \<open>max_retries - retry_count\<close>.
  \<^item> \<open>Binary64\<close>: rounding to binary64 and its error. \<open>Evidence_Runtime\<close>, \<open>Evidence_Properties\<close>: \<^verbatim>\<open>core.py\<close> and
    \<^verbatim>\<open>runtime.py\<close> of \<^verbatim>\<open>ois/runtime/evidence\<close>.
  \<^item> \<open>Source_Limits\<close> (\<^verbatim>\<open>limits.py\<close>, \<^verbatim>\<open>rate_limits.py\<close>, \<^verbatim>\<open>retry.py\<close>), \<open>Source_Stores\<close> (\<^verbatim>\<open>idempotency.py\<close>, \<^verbatim>\<open>cursors.py\<close>,
    \<^verbatim>\<open>evidence.py\<close>, \<^verbatim>\<open>ledger.py\<close>, \<^verbatim>\<open>postgres.py\<close>), \<open>Source_Auth\<close> (\<^verbatim>\<open>credentials.py\<close>, \<^verbatim>\<open>auth.py\<close>, \<^verbatim>\<open>manager.py\<close>,
    \<^verbatim>\<open>contracts.py\<close>), \<open>Source_Gateway\<close> (\<^verbatim>\<open>gateway.py\<close>, \<^verbatim>\<open>webhook_security.py\<close> and the webhook gateway), all of
    \<^verbatim>\<open>infrastructure/source_gateway\<close> (the replay store of a webhook and the store of the gateway are two stores),
    \<open>Source_Pipeline\<close> (source policies, recovery and pipeline) and
    \<open>Gateway_Properties\<close>.
  \<^item> \<open>Source_Registry\<close>, \<open>Source_Lifecycle\<close>: \<^verbatim>\<open>source_registry.py\<close>, \<^verbatim>\<open>source_health.py\<close>; the contract of a registry is the
    locale \<open>source_store\<close>, interpreted on the SQLite and on the PostgreSQL registry. \<open>Source_Fabric\<close>,
    \<open>Source_Fabric_Properties\<close>: \<^verbatim>\<open>source_fabric.py\<close>, \<^verbatim>\<open>socket.py\<close> and the adapter base, polling adapter and polling
    engine of \<^verbatim>\<open>source_adapters\<close>.
  \<^item> \<open>Worker_Backend\<close>, \<open>Worker_Properties\<close>: \<^verbatim>\<open>runtime/execution_backend.py\<close>. \<open>LLM_Gateway\<close>, \<open>Runtime_Fabrics\<close>,
    \<open>Fabric_Properties\<close>: \<^verbatim>\<open>llm_gateway.py\<close>, \<^verbatim>\<open>agent_runtime.py\<close> and \<^verbatim>\<open>fabrics.py\<close> of \<^verbatim>\<open>ois/runtime\<close>.
  \<^item> \<open>Url_Syntax\<close>: \<open>urlparse\<close> and \<open>urlencode\<close> as the sources use them. \<open>OAuth_Provider\<close>, \<open>OAuth_Connection\<close>,
    \<open>OAuth_Properties\<close>: \<^verbatim>\<open>oauth2.py\<close>, \<^verbatim>\<open>oauth2_connection.py\<close>, \<^verbatim>\<open>oauth2_registry.py\<close>, \<^verbatim>\<open>secret_rotation.py\<close>. The token
    endpoint and the secret manager are arguments; the contract of a credential store is a locale, interpreted
    on the in-memory store and on the one over the secret manager.
  \<^item> \<open>Production_Services\<close>, \<open>Services_Properties\<close>: \<^verbatim>\<open>governance.py\<close>, \<^verbatim>\<open>production_loop.py\<close>, \<^verbatim>\<open>model_gateway.py\<close>,
    \<^verbatim>\<open>knowledge_world.py\<close>, \<^verbatim>\<open>rollout.py\<close>, \<^verbatim>\<open>connectors.py\<close> of \<^verbatim>\<open>production\<close>.
  \<^item> \<open>Integrated_Control\<close>, \<open>Integrated_Properties\<close>: \<^verbatim>\<open>request.py\<close>, \<^verbatim>\<open>controller.py\<close>, \<^verbatim>\<open>execution.py\<close>,
    \<^verbatim>\<open>source_configuration.py\<close> of \<^verbatim>\<open>ois/control_plane\<close>. The order that confines a plan run is the locale
    \<open>plan_order\<close>, which every kernel runtime over lawful stores gives.
  \<^item> \<open>Football_Markets\<close>, \<open>Football_Observations\<close>, \<open>Football_Properties\<close>: the market catalogue, settlement,
    observations, normalization and coverage of \<^verbatim>\<open>ois/domains/football_market_intelligence\<close>. \<open>Football_Origin\<close>,
    \<open>Origin_Properties\<close>: \<^verbatim>\<open>origin.py\<close> and \<^verbatim>\<open>lifecycle.py\<close> of \<^verbatim>\<open>ois/domains/football_intelligence\<close>.
  \<^item> \<open>Production_Kernel\<close>, \<open>Kernel_Pipeline_Properties\<close>: \<^verbatim>\<open>production/ois_production_kernel.py\<close>. Between two commands
    of a run other processes act, and every command may fail or lose its reply. The graph of the pipeline is a value; LangGraph,
    which runs it, is an argument.
  \<^item> \<open>Redis_Coordinator\<close>, \<open>Redis_Properties\<close>: \<^verbatim>\<open>persistence/redis_coordinator.py\<close>, \<^verbatim>\<open>integration/redis_recovery.py\<close>.
    At one moment the idempotency store interprets the contract of the kernel's stores. A recovery pass is
    \<open>partial_function (option)\<close>, like the loops of the orchestrator.

  \<^bold>\<open>What is shown.\<close>
  \<^item> Runtime: identity, evidence, recorded results and terminal statuses survive every call; a success is
    executed once per key; a capability starts only if it is admitted; the exact outcome of a successful
    call; denials are recorded; a superseded worker writes nothing.
  \<^item> Plans: validation accepts exactly the acyclic plans with known dependencies; tasks wait for their
    dependencies; a run of a plan ends under honest capabilities, and its outcome; plans survive their
    dictionary form.
  \<^item> Stores: PostgreSQL checkpoints survive, recovery takes the newest intact one, a commit is atomic,
    a superseded store is closed; an outbox claim is exclusive, the outbox drains, a completed effect is
    not delivered again; an invocation is staged once and its result is final.
  \<^item> Governance: authorization decides exactly the stated conditions; limits and budgets hold over any
    sequence of calls; promotion needs every piece of evidence.
  \<^item> Autonomy: the loop is gated by the policy and bounded; a completed event is not repeated; an event is
    executed once by the starts of the durable engine, under any interleaving of their transactions; a takeover
    discards the result; recoveries are bounded; the PostgreSQL approvals refine the in-memory ones.
  \<^item> Production: a work item is accounted for and leased exclusively; the head of the evidence ledger commits
    to its history; a rollout is gated by the canary and the authorization.
  \<^item> Resilience: the fencing tokens of a key are consecutive and a current lease has the last one; commits are
    bounded and made under the current lease; a success is attested and the evidence chains stay linked.
  \<^item> Sources: evidence and its event are committed together; an idempotency key and a signed webhook are
    accepted once; a rate limit bounds what is granted; sources live along their lifecycle and a call
    ingests nothing if the source it names is not switched on; a poll with retries is bounded and a polling cursor moves
    only past committed pages. Evidence: an authorization is used once, for the action it admits.
  \<^item> Runtimes: jobs and executions of the worker backend follow their status machines, also when calls overlap
    between their check and their write, if no two act on a job under one worker id; a claim takes the
    oldest job, the shipped smoke test passes; the fallback of the model gateway is bounded and ordered;
    an agent run leaves other sessions alone.
  \<^item> OAuth: a state is accepted once and in time; a credential is given out only to its tenant, workspace and
    provider; failures of the token endpoint are classified, but for the exceptions that the code does not catch; a stored credential is read back as it was.
  \<^item> Production services: a loop certificate is exact; the model gateway picks the best model in budget; fact
    versions are consecutive; every release is approved; a connector makes a bounded number of calls.
  \<^item> Control plane: a supervised execution of a request ends, and what its plan runs keep; a source that is
    disabled is denied. Football: a market is settled as the score means and related markets agree, normalized observations are from
    before the cutoff, coverage counts exactly the observations of each market; a backtest is free of leakage,
    walk-forward evaluation is its tail, and a fitted temperature is the best of its grid.
  \<^item> Production kernel: a run is admitted by a signed artifact, stops before the side effect and is attested and
    released, or leaves a sealed letter; the evidence of a thread stays a chain. Redis: what is recorded holds
    until it expires; a recovery pass ends and acknowledges what was handled.
  \<^item> Limits: theorems such as \<open>terminal_failure_raises\<close>, \<open>retry_can_diverge\<close>, \<open>interrupted_batch_never_completes\<close>,
    \<open>respelled_state_is_lost\<close>, \<open>unmatched_events_block_outbox\<close>, \<open>evidence_outage_recommits\<close>, \<open>concurrent_appends_fork\<close> and the theories \<open>Orchestrator_Limits\<close> and
    \<open>Engine_Limits\<close> state where the code does not do what its comments or callers expect.

  \<^bold>\<open>Not modelled.\<close> Locks and threads inside one process (a method is one step); telemetry; connection
  pools and DDL; the parsing of JSON from Python strings. Of the repository: the other product domains
  and the football feeds (\<^verbatim>\<open>ois/domains\<close>, \<^verbatim>\<open>ois/design_intelligence\<close>), which are reports and
  scores over data of outside services; the adapters of single providers and the other integrations; the durable
  evidence and the assembly of the control plane; cognition, memory and learning packages; the rest of the
  production packages and the command-line tools.
\<close>

end
